(* ===== verification/Prelude.thy ===== *)
theory Prelude
  imports Main "HOL-Library.Char_ord" "HOL-Library.List_Lexorder" "HOL-Library.Product_Lexorder"
begin

text \<open>
  Shared by every component: results that may raise, checks that raise at the first failure
  (\<open>ensure\<close>, \<open>for_all\<close>), checks that collect failures (\<open>report\<close>, \<open>collect\<close>), and the
  sorted, duplicate-free listing that \<open>sorted(set(...))\<close> denotes. The named collections
  \<open>run_ok\<close> and \<open>no_report\<close> turn \<open>this run returned normally\<close> and \<open>this run reported
  nothing\<close> into plain conjunctions, so that a component's proof is one call of the simplifier.
\<close>

section \<open>Python exceptions as values\<close>

text \<open>
  A raise of the source is a value of \<open>'e exc\<close>. \<open>ValueError\<close> carries the component's own
  error value (the message the source formats); the other constructors are the exceptions the
  interpreter raises itself: an unhashable value looked up in a set, a missing key, a method
  called on a value that lacks it, a position out of range.
\<close>

datatype 'e exc = ValueError 'e | TypeError | KeyError string | AttributeError | IndexError

type_synonym ('e, 'a) result = "'e exc + 'a"

named_theorems run_ok "equations for runs that return normally"
named_theorems no_report "equations for checks that report nothing"

definition bindE :: "'e + 'a \<Rightarrow> ('a \<Rightarrow> 'e + 'b) \<Rightarrow> 'e + 'b" where
  "bindE m f = (case m of Inl e \<Rightarrow> Inl e | Inr x \<Rightarrow> f x)"

definition ensure :: "bool \<Rightarrow> 'e \<Rightarrow> 'e + unit" where
  "ensure c e = (if c then Inr () else Inl e)"

definition andthen :: "'e + unit \<Rightarrow> 'e + 'a \<Rightarrow> 'e + 'a" where
  "andthen m k = bindE m (\<lambda>_. k)"

fun for_all :: "('a \<Rightarrow> 'e + unit) \<Rightarrow> 'a list \<Rightarrow> 'e + unit" where
  "for_all f [] = Inr ()"
| "for_all f (x # xs) = andthen (f x) (for_all f xs)"

fun in_order :: "('e + unit) list \<Rightarrow> 'e + unit" where
  "in_order [] = Inr ()"
| "in_order (m # ms) = andthen m (in_order ms)"

fun foldE :: "('s \<Rightarrow> 'a \<Rightarrow> 'e + 's) \<Rightarrow> 's \<Rightarrow> 'a list \<Rightarrow> 'e + 's" where
  "foldE f s [] = Inr s"
| "foldE f s (x # xs) = bindE (f s x) (\<lambda>s'. foldE f s' xs)"

fun mapE :: "('a \<Rightarrow> 'e + 'b) \<Rightarrow> 'a list \<Rightarrow> 'e + 'b list" where
  "mapE f [] = Inr []"
| "mapE f (x # xs) = bindE (f x) (\<lambda>y. bindE (mapE f xs) (\<lambda>ys. Inr (y # ys)))"

lemma bindE_simps [simp]:
  "bindE (Inl e) f = Inl e"
  "bindE (Inr x) f = f x"
  by (simp_all add: bindE_def)

lemma bindE_ok [run_ok]: "bindE m f = Inr y \<longleftrightarrow> (\<exists>x. m = Inr x \<and> f x = Inr y)"
  by (cases m) auto

lemma ensure_ok [run_ok]: "ensure c e = Inr u \<longleftrightarrow> c"
  by (simp add: ensure_def)

lemma andthen_ok [run_ok]: "andthen m k = Inr y \<longleftrightarrow> m = Inr () \<and> k = Inr y"
  by (simp add: andthen_def run_ok)

lemma for_all_ok [run_ok]: "for_all f xs = Inr u \<longleftrightarrow> (\<forall>x\<in>set xs. f x = Inr ())"
  by (induction xs) (auto simp: run_ok)

lemma in_order_ok [run_ok]: "in_order ms = Inr u \<longleftrightarrow> (\<forall>m\<in>set ms. m = Inr ())"
  by (induction ms) (auto simp: run_ok)

lemma in_order_append:
  "in_order (ms @ ns) = andthen (in_order ms) (in_order ns)"
  by (induction ms) (simp_all add: andthen_def bindE_def split: sum.splits)

lemma mapE_ok [run_ok]: "mapE f xs = Inr ys \<longleftrightarrow> list_all2 (\<lambda>x y. f x = Inr y) xs ys"
  by (induction xs arbitrary: ys) (auto simp: run_ok list_all2_Cons1)

lemma list_all2_left: "list_all2 P xs ys \<Longrightarrow> x \<in> set xs \<Longrightarrow> \<exists>y\<in>set ys. P x y"
  by (induction rule: list_all2_induct) auto

lemma list_all2_right: "list_all2 P xs ys \<Longrightarrow> y \<in> set ys \<Longrightarrow> \<exists>x\<in>set xs. P x y"
  by (induction rule: list_all2_induct) auto

lemma mapE_total:
  assumes "\<And>x. x \<in> set xs \<Longrightarrow> \<exists>y. f x = Inr y"
  shows "\<exists>ys. mapE f xs = Inr ys"
  using assms by (induction xs) (auto, force)

lemma mapE_pure: "\<forall>x\<in>set xs. f x = Inr (g x) \<Longrightarrow> mapE f xs = Inr (map g xs)"
  by (induction xs) auto

text \<open>An exception of a loop is the exception of one of its bodies.\<close>

lemma for_all_raises: "for_all f xs = Inl e \<Longrightarrow> \<exists>x\<in>set xs. f x = Inl e"
  by (induction xs) (auto simp: andthen_def bindE_def split: sum.splits)

text \<open>The same facts as elimination rules: a run that returned is taken apart step by step.\<close>

lemma bindE_elim: "bindE m f = Inr y \<Longrightarrow> (\<And>x. m = Inr x \<Longrightarrow> f x = Inr y \<Longrightarrow> P) \<Longrightarrow> P"
  by (auto simp: bindE_ok)

lemma andthen_elim: "andthen m k = Inr y \<Longrightarrow> (m = Inr () \<Longrightarrow> k = Inr y \<Longrightarrow> P) \<Longrightarrow> P"
  by (simp add: andthen_ok)

lemma in_order_elim:
  "in_order (m # ms) = Inr () \<Longrightarrow> (m = Inr () \<Longrightarrow> in_order ms = Inr () \<Longrightarrow> P) \<Longrightarrow> P"
  by (simp add: andthen_ok)

lemmas run_elims = bindE_elim andthen_elim in_order_elim

lemma ensure_returns: "ensure c e = Inr u \<Longrightarrow> c"
  by (simp add: ensure_ok)

lemma for_all_returns: "for_all f xs = Inr u \<Longrightarrow> \<forall>x\<in>set xs. f x = Inr ()"
  by (simp add: for_all_ok)

section \<open>Collected failures\<close>

definition report :: "bool \<Rightarrow> 'f \<Rightarrow> 'f list" where
  "report c e = (if c then [e] else [])"

lemma report_empty [no_report, simp]: "report c e = [] \<longleftrightarrow> \<not> c"
  by (simp add: report_def)

lemma set_report [simp]: "x \<in> set (report c e) \<longleftrightarrow> c \<and> x = e"
  by (auto simp: report_def)

text \<open>Failures collected by a run that may itself raise: the parts in order.\<close>

fun collectE :: "('e + 'f list) list \<Rightarrow> 'e + 'f list" where
  "collectE [] = Inr []"
| "collectE (m # ms) = bindE m (\<lambda>fs. bindE (collectE ms) (\<lambda>gs. Inr (fs @ gs)))"

lemma collectE_nil [run_ok]: "collectE ms = Inr [] \<longleftrightarrow> (\<forall>m\<in>set ms. m = Inr [])"
  by (induction ms) (auto simp: run_ok)

lemma concat_map_nil [no_report]: "concat (map f xs) = [] \<longleftrightarrow> (\<forall>x\<in>set xs. f x = [])"
  by (induction xs) auto

section \<open>Sorted listings of sets\<close>

definition sorted_set :: "'a::linorder list \<Rightarrow> 'a list" where
  "sorted_set xs = sort (remdups xs)"

lemma set_sorted_set [simp]: "set (sorted_set xs) = set xs"
  by (simp add: sorted_set_def)

lemma sorted_sorted_set [simp]: "sorted (sorted_set xs)"
  by (simp add: sorted_set_def)

lemma distinct_sorted_set [simp]: "distinct (sorted_set xs)"
  by (simp add: sorted_set_def)

lemma sorted_set_empty [no_report, simp]: "sorted_set xs = [] \<longleftrightarrow> xs = []"
  by (metis set_empty set_sorted_set)

lemma sorted_set_unique:
  "sorted ys \<Longrightarrow> distinct ys \<Longrightarrow> set ys = set xs \<Longrightarrow> sorted_set xs = ys"
  by (rule sorted_distinct_set_unique) simp_all

definition minus_list :: "'a list \<Rightarrow> 'a list \<Rightarrow> 'a list" where
  "minus_list xs ys = filter (\<lambda>x. x \<notin> set ys) xs"

lemma set_minus_list [simp]: "set (minus_list xs ys) = set xs - set ys"
  by (auto simp: minus_list_def)

lemma minus_list_empty [no_report, simp]: "minus_list xs ys = [] \<longleftrightarrow> set xs \<subseteq> set ys"
  by (auto simp: minus_list_def filter_empty_conv)

end
