(* ===== verification/PyString.thy ===== *)
theory PyString
  imports Prelude
begin

text \<open>
  The string operations of Python that the scripts use. A Python string is a \<open>string\<close> whose
  characters are the code points U+0000 to U+00FF; code points beyond that range are not
  modelled. Character classes (white space, digits, lower case) are those of Python on this
  range, so \<open>strip\<close> also removes the separators U+001C to U+001F, U+0085 and U+00A0, and
  \<open>isdigit\<close> also accepts the three superscripts.
\<close>

section \<open>Characters\<close>

definition code :: "char \<Rightarrow> nat" where
  "code c = of_char c"

definition is_space :: "char \<Rightarrow> bool" where
  "is_space c \<longleftrightarrow> (let n = code c in
     (9 \<le> n \<and> n \<le> 13) \<or> (28 \<le> n \<and> n \<le> 32) \<or> n = 133 \<or> n = 160)"

definition is_ascii_digit :: "char \<Rightarrow> bool" where
  "is_ascii_digit c \<longleftrightarrow> 48 \<le> code c \<and> code c \<le> 57"

definition is_digit :: "char \<Rightarrow> bool" where
  "is_digit c \<longleftrightarrow> is_ascii_digit c \<or> code c \<in> {178, 179, 185}"

definition is_lower_hex :: "char \<Rightarrow> bool" where
  "is_lower_hex c \<longleftrightarrow> is_ascii_digit c \<or> (97 \<le> code c \<and> code c \<le> 102)"

definition is_alnum_ascii :: "char \<Rightarrow> bool" where
  "is_alnum_ascii c \<longleftrightarrow> is_ascii_digit c \<or> (65 \<le> code c \<and> code c \<le> 90) \<or> (97 \<le> code c \<and> code c \<le> 122)"

definition lower_char :: "char \<Rightarrow> char" where
  "lower_char c = (let n = code c in
     if (65 \<le> n \<and> n \<le> 90) \<or> (192 \<le> n \<and> n \<le> 222 \<and> n \<noteq> 215) then char_of (n + 32) else c)"

section \<open>Stripping\<close>

definition lstrip :: "string \<Rightarrow> string" where
  "lstrip s = dropWhile is_space s"

definition rstrip :: "string \<Rightarrow> string" where
  "rstrip s = rev (dropWhile is_space (rev s))"

definition strip :: "string \<Rightarrow> string" where
  "strip s = rstrip (lstrip s)"

definition lower :: "string \<Rightarrow> string" where
  "lower s = map lower_char s"

section \<open>Searching\<close>

definition starts_with :: "string \<Rightarrow> string \<Rightarrow> bool" where
  "starts_with s p \<longleftrightarrow> take (length p) s = p"

definition ends_with :: "string \<Rightarrow> string \<Rightarrow> bool" where
  "ends_with s p \<longleftrightarrow> starts_with (rev s) (rev p)"

fun contains :: "string \<Rightarrow> string \<Rightarrow> bool" where
  "contains [] p = (p = [])"
| "contains (c # s) p = (starts_with (c # s) p \<or> contains s p)"

definition remove_prefix :: "string \<Rightarrow> string \<Rightarrow> string" where
  "remove_prefix s p = (if starts_with s p then drop (length p) s else s)"

section \<open>Splitting and joining\<close>

text \<open>\<open>s.split(c)\<close> for a one-character separator.\<close>

fun split_on :: "char \<Rightarrow> string \<Rightarrow> string list" where
  "split_on d [] = [[]]"
| "split_on d (c # s) =
     (if c = d then [] # split_on d s
      else (case split_on d s of [] \<Rightarrow> [[c]] | w # ws \<Rightarrow> (c # w) # ws))"

fun join :: "string \<Rightarrow> string list \<Rightarrow> string" where
  "join sep [] = []"
| "join sep [w] = w"
| "join sep (w # v # ws) = w @ sep @ join sep (v # ws)"

text \<open>
  \<open>s.replace(old, new)\<close> for a non-empty \<open>old\<close>: the leftmost occurrence is replaced and the
  search goes on after it.
\<close>

function (sequential) replace :: "string \<Rightarrow> string \<Rightarrow> string \<Rightarrow> string" where
  "replace [] old new = []"
| "replace (c # s) old new =
     (if old \<noteq> [] \<and> starts_with (c # s) old then new @ replace (drop (length old) (c # s)) old new
      else c # replace s old new)"
  by pat_completeness auto
termination
proof (relation "measure (\<lambda>(s, _, _). length s)", goal_cases)
  case 1
  show ?case by simp
next
  case (2 c s old new)
  then show ?case by (cases old) auto
next
  case (3 c s old new)
  then show ?case by simp
qed

text \<open>
  \<open>s.splitlines()\<close>: the line boundaries of this range are line feed, vertical tab, form feed,
  carriage return (with a following line feed), U+001C to U+001E and U+0085; a final boundary
  opens no further line.
\<close>

definition is_newline :: "char \<Rightarrow> bool" where
  "is_newline c \<longleftrightarrow> (let n = code c in (10 \<le> n \<and> n \<le> 13) \<or> (28 \<le> n \<and> n \<le> 30) \<or> n = 133)"

fun splitlines_from :: "bool \<Rightarrow> string \<Rightarrow> string \<Rightarrow> string list" where
  "splitlines_from cr cur [] = (if cur = [] then [] else [rev cur])"
| "splitlines_from cr cur (c # s) =
     (if cr \<and> code c = 10 then splitlines_from False cur s
      else if is_newline c then rev cur # splitlines_from (code c = 13) [] s
      else splitlines_from False (c # cur) s)"

definition splitlines :: "string \<Rightarrow> string list" where
  "splitlines s = splitlines_from False [] s"

section \<open>Integers as text\<close>

definition digit_char :: "nat \<Rightarrow> char" where
  "digit_char d = char_of (48 + d)"

fun nat_str :: "nat \<Rightarrow> string" where
  "nat_str n = (if n < 10 then [digit_char n] else nat_str (n div 10) @ [digit_char (n mod 10)])"

declare nat_str.simps [simp del]

definition int_str :: "int \<Rightarrow> string" where
  "int_str i = (if i < 0 then CHR ''-'' # nat_str (nat (- i)) else nat_str (nat i))"

definition digits_val :: "string \<Rightarrow> nat" where
  "digits_val s = foldl (\<lambda>n c. 10 * n + (code c - 48)) 0 s"

definition all_ascii_digits :: "string \<Rightarrow> bool" where
  "all_ascii_digits s \<longleftrightarrow> s \<noteq> [] \<and> list_all is_ascii_digit s"

text \<open>\<open>re.fullmatch("[0-9a-f]{n}")\<close>.\<close>

definition lower_hex_of_length :: "nat \<Rightarrow> string \<Rightarrow> bool" where
  "lower_hex_of_length n s \<longleftrightarrow> length s = n \<and> list_all is_lower_hex s"

section \<open>Evaluation\<close>

text \<open>
  Code equations that test characters by their order, which is decided bit by bit, instead of
  by their code as a number.
\<close>

lemma char_is: "c = d \<longleftrightarrow> of_char c = (of_char d :: nat)"
  by simp

lemma is_ascii_digit_char [code]: "is_ascii_digit c \<longleftrightarrow> CHR ''0'' \<le> c \<and> c \<le> CHR ''9''"
  by (simp add: is_ascii_digit_def code_def less_eq_char_def)

lemma is_lower_hex_char [code]: "is_lower_hex c \<longleftrightarrow> is_ascii_digit c \<or> (CHR ''a'' \<le> c \<and> c \<le> CHR ''f'')"
  by (simp add: is_lower_hex_def code_def less_eq_char_def)

lemma is_alnum_ascii_char [code]:
  "is_alnum_ascii c \<longleftrightarrow> is_ascii_digit c \<or> (CHR ''A'' \<le> c \<and> c \<le> CHR ''Z'') \<or> (CHR ''a'' \<le> c \<and> c \<le> CHR ''z'')"
  by (simp add: is_alnum_ascii_def code_def less_eq_char_def)

lemma is_space_char [code]:
  "is_space c \<longleftrightarrow> (CHR 0x09 \<le> c \<and> c \<le> CHR 0x0D) \<or> (CHR 0x1C \<le> c \<and> c \<le> CHR '' '') \<or> c = CHR 0x85 \<or> c = CHR 0xA0"
  by (simp add: is_space_def Let_def code_def less_eq_char_def char_is [of c "CHR 0x85"] char_is [of c "CHR 0xA0"])

lemma is_newline_char [code]:
  "is_newline c \<longleftrightarrow> (CHR 0x0A \<le> c \<and> c \<le> CHR 0x0D) \<or> (CHR 0x1C \<le> c \<and> c \<le> CHR 0x1E) \<or> c = CHR 0x85"
  by (simp add: is_newline_def Let_def code_def less_eq_char_def char_is [of c "CHR 0x85"])

lemma is_digit_char [code]: "is_digit c \<longleftrightarrow> is_ascii_digit c \<or> c = CHR 0xB2 \<or> c = CHR 0xB3 \<or> c = CHR 0xB9"
  by (simp add: is_digit_def code_def char_is [of c "CHR 0xB2"] char_is [of c "CHR 0xB3"] char_is [of c "CHR 0xB9"])

lemma splitlines_char [code]:
  "splitlines_from cr cur [] = (if cur = [] then [] else [rev cur])"
  "splitlines_from cr cur (c # s) =
     (if cr \<and> c = CHR 0x0A then splitlines_from False cur s
      else if is_newline c then rev cur # splitlines_from (c = CHR 0x0D) [] s
      else splitlines_from False (c # cur) s)"
  by (simp_all add: code_def char_is [of c "CHR 0x0A"] char_is [of c "CHR 0x0D"])

section \<open>Facts about stripping\<close>

lemma dropWhile_idem [simp]: "dropWhile P (dropWhile P xs) = dropWhile P xs"
  by (induction xs) auto

lemma rstrip_rstrip [simp]: "rstrip (rstrip s) = rstrip s"
  by (simp add: rstrip_def)

lemma lstrip_lstrip [simp]: "lstrip (lstrip s) = lstrip s"
  by (simp add: lstrip_def)

lemma rstrip_Nil [simp]: "rstrip [] = []"
  and lstrip_Nil [simp]: "lstrip [] = []"
  and strip_Nil [simp]: "strip [] = []"
  by (simp_all add: rstrip_def lstrip_def strip_def)

lemma rstrip_append1: "rstrip (s @ [c]) = (if is_space c then rstrip s else s @ [c])"
  by (simp add: rstrip_def)

lemma rstrip_prefix: "\<exists>t. s = rstrip s @ t \<and> list_all is_space t"
proof (induction s rule: rev_induct)
  case Nil
  then show ?case by simp
next
  case (snoc c s)
  then obtain t where "s = rstrip s @ t" and "list_all is_space t" by blast
  then show ?case
    by (cases "is_space c") (auto simp: rstrip_append1 intro: exI [of _ "t @ [c]"])
qed

lemma rstrip_id: "s = [] \<or> \<not> is_space (last s) \<Longrightarrow> rstrip s = s"
  by (cases s rule: rev_cases) (auto simp: rstrip_append1)

lemma lstrip_id: "s = [] \<or> \<not> is_space (hd s) \<Longrightarrow> lstrip s = s"
  by (cases s) (auto simp: lstrip_def)

lemma last_rstrip: "rstrip s \<noteq> [] \<Longrightarrow> \<not> is_space (last (rstrip s))"
  by (induction s rule: rev_induct) (auto simp: rstrip_append1)

lemma strip_id: "s = [] \<or> (\<not> is_space (hd s) \<and> \<not> is_space (last s)) \<Longrightarrow> strip s = s"
  by (auto simp: strip_def lstrip_id rstrip_id)

section \<open>Facts about splitting and joining\<close>

lemma split_on_not_Nil [simp]: "split_on d s \<noteq> []"
  by (induction s) (auto split: list.splits)

lemma join_split_on: "join [d] (split_on d s) = s"
proof (induction s)
  case Nil
  then show ?case by simp
next
  case (Cons c s)
  then show ?case
    by (cases "split_on d s"; cases "tl (split_on d s)") (auto split: list.splits)
qed

lemma split_on_no_sep: "w \<in> set (split_on d s) \<Longrightarrow> d \<notin> set w"
  by (induction s arbitrary: w) (fastforce split: list.splits if_splits)+

lemma split_on_id: "d \<notin> set w \<Longrightarrow> split_on d w = [w]"
  by (induction w) auto

lemma split_on_append_sep:
  "d \<notin> set w \<Longrightarrow> split_on d (w @ d # s) = w # split_on d s"
  by (induction w) auto

lemma starts_with_append [simp]: "starts_with (p @ s) p"
  by (simp add: starts_with_def)

lemma starts_with_iff: "starts_with s p \<longleftrightarrow> (\<exists>t. s = p @ t)"
  unfolding starts_with_def by (metis append_eq_conv_conj append_take_drop_id)

lemma ends_with_iff: "ends_with s p \<longleftrightarrow> (\<exists>t. s = t @ p)"
  unfolding ends_with_def starts_with_iff
  by (metis rev_append rev_rev_ident)

lemma contains_iff: "contains s p \<longleftrightarrow> (\<exists>a b. s = a @ p @ b)"
proof (induction s)
  case Nil
  then show ?case by auto
next
  case (Cons c s)
  then show ?case
    by (auto simp: starts_with_iff Cons_eq_append_conv; metis append_Cons)
qed

section \<open>Facts about integers as text\<close>

lemma code_digit_char [simp]: "d < 10 \<Longrightarrow> code (digit_char d) = 48 + d"
  by (simp add: code_def digit_char_def)

lemma digits_val_snoc: "digits_val (s @ [c]) = 10 * digits_val s + (code c - 48)"
  by (simp add: digits_val_def)

lemma nat_str_digits: "all_ascii_digits (nat_str n)"
proof (induction n rule: nat_str.induct)
  case (1 n)
  then show ?case
    by (subst nat_str.simps) (auto simp: all_ascii_digits_def is_ascii_digit_def)
qed

lemma digits_val_nat_str [simp]: "digits_val (nat_str n) = n"
proof (induction n rule: nat_str.induct)
  case (1 n)
  then show ?case
    by (subst nat_str.simps) (auto simp: digits_val_snoc digits_val_def)
qed

lemma nat_str_inject [simp]: "nat_str m = nat_str n \<longleftrightarrow> m = n"
  by (metis digits_val_nat_str)

lemma nat_str_not_Nil [simp]: "nat_str n \<noteq> []"
  using nat_str_digits [of n] by (simp add: all_ascii_digits_def)

end
