(* ===== verification/PyJson.thy ===== *)
theory PyJson
  imports PyString Complex_Main
begin

text \<open>
  What \<open>json.loads\<close> returns, and the operations of Python on such values that the scripts use:
  \<open>isinstance\<close>, truth values, \<open>==\<close>, \<open>.get\<close>, membership in a set of strings, \<open>str\<close> and
  \<open>repr\<close>. An object is an association list in insertion order with distinct keys, the state of
  a Python dict; \<open>dict_set\<close> is the assignment \<open>d[k] = v\<close>. A float carries its value (finite
  floats are rational) and its \<open>repr\<close> text.
\<close>

section \<open>Values\<close>

datatype json =
  JNull
| JBool bool
| JInt int
| JFloat rat string
| JStr string
| JArr "json list"
| JObj "(string \<times> json) list"

type_synonym obj = "(string \<times> json) list"

fun is_str :: "json \<Rightarrow> bool" where
  "is_str (JStr _) = True"
| "is_str _ = False"

fun is_bool :: "json \<Rightarrow> bool" where
  "is_bool (JBool _) = True"
| "is_bool _ = False"

text \<open>\<open>isinstance(v, int)\<close>: a Python bool is an int.\<close>

fun is_int :: "json \<Rightarrow> bool" where
  "is_int (JInt _) = True"
| "is_int (JBool _) = True"
| "is_int _ = False"

fun is_list :: "json \<Rightarrow> bool" where
  "is_list (JArr _) = True"
| "is_list _ = False"

fun is_obj :: "json \<Rightarrow> bool" where
  "is_obj (JObj _) = True"
| "is_obj _ = False"

text \<open>The integer behind a value that passed \<open>isinstance(v, int)\<close>.\<close>

fun int_of :: "json \<Rightarrow> int" where
  "int_of (JInt i) = i"
| "int_of (JBool b) = (if b then 1 else 0)"
| "int_of _ = 0"

fun elems :: "json \<Rightarrow> json list" where
  "elems (JArr xs) = xs"
| "elems _ = []"

fun members :: "json \<Rightarrow> obj" where
  "members (JObj kvs) = kvs"
| "members _ = []"

fun text_of :: "json \<Rightarrow> string" where
  "text_of (JStr s) = s"
| "text_of _ = []"

fun truthy :: "json \<Rightarrow> bool" where
  "truthy JNull = False"
| "truthy (JBool b) = b"
| "truthy (JInt i) = (i \<noteq> 0)"
| "truthy (JFloat r _) = (r \<noteq> 0)"
| "truthy (JStr s) = (s \<noteq> [])"
| "truthy (JArr xs) = (xs \<noteq> [])"
| "truthy (JObj kvs) = (kvs \<noteq> [])"

text \<open>\<open>isinstance(v, str) and v\<close>, the commonest check of all.\<close>

definition nonempty_str :: "json \<Rightarrow> bool" where
  "nonempty_str v \<longleftrightarrow> is_str v \<and> text_of v \<noteq> []"

text \<open>\<open>isinstance(v, str) and v.strip()\<close>.\<close>

definition nonblank_str :: "json \<Rightarrow> bool" where
  "nonblank_str v \<longleftrightarrow> is_str v \<and> strip (text_of v) \<noteq> []"

section \<open>Dictionaries\<close>

definition dict_get :: "obj \<Rightarrow> string \<Rightarrow> json" where
  "dict_get kvs k = (case map_of kvs k of None \<Rightarrow> JNull | Some v \<Rightarrow> v)"

definition dict_get_or :: "obj \<Rightarrow> string \<Rightarrow> json \<Rightarrow> json" where
  "dict_get_or kvs k d = (case map_of kvs k of None \<Rightarrow> d | Some v \<Rightarrow> v)"

definition dict_has :: "obj \<Rightarrow> string \<Rightarrow> bool" where
  "dict_has kvs k \<longleftrightarrow> map_of kvs k \<noteq> None"

definition dict_keys :: "obj \<Rightarrow> string list" where
  "dict_keys kvs = map fst kvs"

fun dict_set :: "obj \<Rightarrow> string \<Rightarrow> json \<Rightarrow> obj" where
  "dict_set [] k v = [(k, v)]"
| "dict_set ((k', v') # kvs) k v = (if k' = k then (k, v) # kvs else (k', v') # dict_set kvs k v)"

text \<open>\<open>d[k]\<close>, which raises on a missing key.\<close>

definition dict_index :: "obj \<Rightarrow> string \<Rightarrow> ('e, json) result" where
  "dict_index kvs k = (case map_of kvs k of None \<Rightarrow> Inl (KeyError k) | Some v \<Rightarrow> Inr v)"

text \<open>
  \<open>v[k]\<close> and \<open>v.items()\<close>, \<open>v.get(...)\<close> for a \<open>v\<close> that need not be an object: subscripting
  anything else with a string is a \<open>TypeError\<close>, and anything else has no such method.
\<close>

fun subscript :: "json \<Rightarrow> string \<Rightarrow> ('e, json) result" where
  "subscript (JObj kvs) k = dict_index kvs k"
| "subscript _ k = Inl TypeError"

fun dict_of :: "json \<Rightarrow> ('e, obj) result" where
  "dict_of (JObj kvs) = Inr kvs"
| "dict_of _ = Inl AttributeError"

text \<open>\<open>list(v)\<close>: the characters of a string, the keys of an object; numbers are not iterable.\<close>

fun py_list :: "json \<Rightarrow> ('e, json list) result" where
  "py_list (JArr xs) = Inr xs"
| "py_list (JStr s) = Inr (map (\<lambda>c. JStr [c]) s)"
| "py_list (JObj kvs) = Inr (map (\<lambda>kv. JStr (fst kv)) kvs)"
| "py_list _ = Inl TypeError"

text \<open>\<open>dict(v) if isinstance(v, dict) else {}\<close>.\<close>

fun dict_or_empty :: "json \<Rightarrow> obj" where
  "dict_or_empty (JObj kvs) = kvs"
| "dict_or_empty _ = []"

text \<open>What \<open>json.loads\<close> returns has no repeated key in any object.\<close>

fun json_wf :: "json \<Rightarrow> bool" where
  "json_wf (JArr xs) = list_all json_wf xs"
| "json_wf (JObj kvs) = (distinct (map fst kvs) \<and> list_all (\<lambda>kv. json_wf (snd kv)) kvs)"
| "json_wf _ = True"

section \<open>Equality\<close>

text \<open>
  \<open>==\<close>: numbers (bools among them) by value, lists elementwise, objects as finite maps. On
  strings it is equality, so \<open>v == "text"\<close> is \<open>v = JStr ''text''\<close>.
\<close>

fun num_of :: "json \<Rightarrow> rat option" where
  "num_of (JBool b) = Some (if b then 1 else 0)"
| "num_of (JInt i) = Some (rat_of_int i)"
| "num_of (JFloat r _) = Some r"
| "num_of _ = None"

function (sequential) py_eq :: "json \<Rightarrow> json \<Rightarrow> bool" where
  "py_eq JNull JNull = True"
| "py_eq (JStr s) (JStr t) = (s = t)"
| "py_eq (JArr xs) (JArr ys) =
     (length xs = length ys \<and> list_all (\<lambda>(x, y). py_eq x y) (zip xs ys))"
| "py_eq (JObj xs) (JObj ys) =
     (length xs = length ys \<and>
      list_all (\<lambda>(k, v). list_ex (\<lambda>(k', v'). k' = k \<and> py_eq v v') ys) xs)"
| "py_eq x y = (num_of x \<noteq> None \<and> num_of x = num_of y)"
  by pat_completeness auto
termination
proof (relation "measure (\<lambda>(x, y). size x)", goal_cases)
  case 1
  show ?case by simp
next
  case (2 xs ys z x y)
  then have "x \<in> set xs" by (auto dest: set_zip_leftD)
  then show ?case by (simp add: less_Suc_eq_le size_list_estimation')
next
  case (3 xs ys z k v w k' v')
  then have "(k, v) \<in> set xs" by simp
  then have "size v < Suc (size_list (size_prod (\<lambda>_. 0) size) xs)"
    by (induction xs) auto
  then show ?case by simp
qed

section \<open>Text of a value\<close>

definition hex_digit :: "nat \<Rightarrow> char" where
  "hex_digit d = (if d < 10 then char_of (48 + d) else char_of (87 + d))"

definition printable :: "nat \<Rightarrow> bool" where
  "printable n \<longleftrightarrow> (32 \<le> n \<and> n \<le> 126) \<or> (161 \<le> n \<and> n \<le> 255 \<and> n \<noteq> 173)"

definition repr_char :: "char \<Rightarrow> char \<Rightarrow> string" where
  "repr_char q c = (let n = code c in
     if c = q \<or> n = 92 then [char_of (92::nat), c]
     else if n = 10 then [char_of (92::nat), CHR ''n'']
     else if n = 13 then [char_of (92::nat), CHR ''r'']
     else if n = 9 then [char_of (92::nat), CHR ''t'']
     else if printable n then [c]
     else [char_of (92::nat), CHR ''x'', hex_digit (n div 16), hex_digit (n mod 16)])"

definition repr_str :: "string \<Rightarrow> string" where
  "repr_str s = (let q = (if char_of (39::nat) \<in> set s \<and> char_of (34::nat) \<notin> set s
       then char_of (34::nat) else char_of (39::nat))
     in [q] @ concat (map (repr_char q) s) @ [q])"

fun py_repr :: "json \<Rightarrow> string" where
  "py_repr JNull = ''None''"
| "py_repr (JBool b) = (if b then ''True'' else ''False'')"
| "py_repr (JInt i) = int_str i"
| "py_repr (JFloat _ t) = t"
| "py_repr (JStr s) = repr_str s"
| "py_repr (JArr xs) = ''['' @ join '', '' (map py_repr xs) @ '']''"
| "py_repr (JObj kvs) =
     ''{'' @ join '', '' (map (\<lambda>(k, v). repr_str k @ '': '' @ py_repr v) kvs) @ ''}''"

fun py_str :: "json \<Rightarrow> string" where
  "py_str (JStr s) = s"
| "py_str v = py_repr v"

section \<open>Sets of strings\<close>

text \<open>
  \<open>v in s\<close> for a set \<open>s\<close> of strings hashes \<open>v\<close>: a list or an object is unhashable and raises.
\<close>

fun hashable :: "json \<Rightarrow> bool" where
  "hashable (JArr _) = False"
| "hashable (JObj _) = False"
| "hashable _ = True"

definition in_str_set :: "json \<Rightarrow> string list \<Rightarrow> ('e, bool) result" where
  "in_str_set v ss = (if hashable v then Inr (is_str v \<and> text_of v \<in> set ss) else Inl TypeError)"

section \<open>Facts\<close>

lemma is_str_iff: "is_str v \<longleftrightarrow> (\<exists>s. v = JStr s)"
  by (cases v) auto

lemma is_bool_iff: "is_bool v \<longleftrightarrow> (\<exists>b. v = JBool b)"
  by (cases v) auto

lemma is_list_iff: "is_list v \<longleftrightarrow> (\<exists>xs. v = JArr xs)"
  by (cases v) auto

lemma is_obj_iff: "is_obj v \<longleftrightarrow> (\<exists>kvs. v = JObj kvs)"
  by (cases v) auto

lemma nonempty_str_iff: "nonempty_str v \<longleftrightarrow> (\<exists>s. v = JStr s \<and> s \<noteq> [])"
  by (cases v) (auto simp: nonempty_str_def)

lemma nonblank_str_iff: "nonblank_str v \<longleftrightarrow> (\<exists>s. v = JStr s \<and> strip s \<noteq> [])"
  by (cases v) (auto simp: nonblank_str_def)

lemma in_str_set_ok [run_ok]:
  "in_str_set v ss = Inr b \<longleftrightarrow> hashable v \<and> (b \<longleftrightarrow> (\<exists>s\<in>set ss. v = JStr s))"
  by (cases v) (auto simp: in_str_set_def)

lemma subscript_ok [run_ok]:
  "subscript v k = Inr x \<longleftrightarrow> (\<exists>kvs. v = JObj kvs \<and> map_of kvs k = Some x)"
  by (cases v) (auto simp: dict_index_def split: option.splits)

lemma dict_of_ok [run_ok]: "dict_of v = Inr kvs \<longleftrightarrow> v = JObj kvs"
  by (cases v) auto

lemma dict_get_some: "dict_get kvs k = v \<Longrightarrow> v \<noteq> JNull \<Longrightarrow> map_of kvs k = Some v"
  by (auto simp: dict_get_def split: option.splits)

lemma json_wf_get: "json_wf (JObj kvs) \<Longrightarrow> json_wf (dict_get kvs k)"
  by (auto simp: dict_get_def list_all_iff split: option.splits dest!: map_of_SomeD)

lemma json_wf_item: "json_wf (JObj kvs) \<Longrightarrow> (k, v) \<in> set kvs \<Longrightarrow> dict_get kvs k = v"
  by (simp add: dict_get_def)

lemma dict_get_has: "dict_get kvs k \<noteq> JNull \<Longrightarrow> dict_has kvs k"
  by (auto simp: dict_get_def dict_has_def split: option.splits)

lemma dict_has_keys: "dict_has kvs k \<longleftrightarrow> k \<in> set (dict_keys kvs)"
  by (simp add: dict_has_def dict_keys_def map_of_eq_None_iff)

lemma dict_index_ok [run_ok]: "dict_index kvs k = Inr v \<longleftrightarrow> map_of kvs k = Some v"
  by (simp add: dict_index_def split: option.splits)

lemma dict_get_map_of: "map_of kvs k = Some v \<Longrightarrow> dict_get kvs k = v"
  by (simp add: dict_get_def)

lemma dict_index_get: "dict_get kvs k \<noteq> JNull \<Longrightarrow> dict_index kvs k = Inr (dict_get kvs k)"
  by (auto simp: dict_get_def dict_index_def split: option.splits)

lemma map_of_dict_set: "map_of (dict_set kvs k v) = (map_of kvs)(k \<mapsto> v)"
  by (induction kvs) auto

lemma dict_keys_set: "set (dict_keys (dict_set kvs k v)) = insert k (set (dict_keys kvs))"
  by (simp add: dict_keys_def dom_map_of_conv_image_fst [symmetric] map_of_dict_set)

lemma distinct_dict_set:
  "distinct (dict_keys kvs) \<Longrightarrow> distinct (dict_keys (dict_set kvs k v))"
proof (induction kvs)
  case Nil
  then show ?case by (simp add: dict_keys_def)
next
  case (Cons kv kvs)
  then show ?case
    using dict_keys_set [of kvs k v] by (cases kv) (auto simp: dict_keys_def)
qed

lemma dict_set_fresh: "k \<notin> set (dict_keys kvs) \<Longrightarrow> dict_set kvs k v = kvs @ [(k, v)]"
  by (induction kvs) (auto simp: dict_keys_def)

lemma py_eq_JStr [simp]: "py_eq v (JStr s) \<longleftrightarrow> v = JStr s"
  by (cases v) auto

lemma dict_get_or_some: "dict_get kvs k = v \<Longrightarrow> v \<noteq> JNull \<Longrightarrow> dict_get_or kvs k d = v"
  by (auto simp: dict_get_or_def dict_get_def split: option.splits)

lemma dict_get_or_cases: "dict_get_or kvs k d = d \<or> (k, dict_get_or kvs k d) \<in> set kvs"
  by (auto simp: dict_get_or_def dest: map_of_SomeD split: option.splits)

end
