(* ===== verification/PyPath.thy ===== *)
theory PyPath
  imports PyJson
begin

text \<open>
  \<open>pathlib.Path\<close> on POSIX: a path is a flag (does it start at the root) and its parts. Parsing
  drops empty and \<open>.\<close> components and keeps \<open>..\<close>. \<open>resolve\<close> is the directory a path denotes
  once every \<open>..\<close> is followed, on a tree without symbolic links. The locale \<open>path_guard\<close> is the
  contract of the functions that turn an untrusted value into a path below a root.
\<close>

datatype path = Path (absolute: bool) (parts: "string list")

definition path_of :: "string \<Rightarrow> path" where
  "path_of s = Path (starts_with s ''/'') (filter (\<lambda>p. p \<noteq> [] \<and> p \<noteq> ''.'') (split_on (CHR ''/'') s))"

text \<open>\<open>root / rel\<close>: an absolute right operand replaces the left one.\<close>

definition path_join :: "path \<Rightarrow> path \<Rightarrow> path" where
  "path_join base rel = (if absolute rel then rel else Path (absolute base) (parts base @ parts rel))"

definition path_name :: "path \<Rightarrow> string" where
  "path_name p = (if parts p = [] then [] else last (parts p))"

definition path_str :: "path \<Rightarrow> string" where
  "path_str p = (if absolute p then ''/'' @ join ''/'' (parts p)
     else if parts p = [] then ''.'' else join ''/'' (parts p))"

text \<open>\<open>Path.suffix\<close>: from the last dot of the name, unless it is the first or the last character.\<close>

definition path_suffix :: "path \<Rightarrow> string" where
  "path_suffix p = (let n = path_name p; t = takeWhile (\<lambda>c. c \<noteq> CHR ''.'') (rev n)
     in if length t < length n - 1 \<and> t \<noteq> [] then CHR ''.'' # rev t else [])"

fun resolve_from :: "string list \<Rightarrow> string list \<Rightarrow> string list" where
  "resolve_from stack [] = rev stack"
| "resolve_from stack (p # ps) = resolve_from (if p = ''..'' then tl stack else p # stack) ps"

definition resolve :: "path \<Rightarrow> string list" where
  "resolve p = resolve_from [] (parts p)"

lemma resolve_from_append: "resolve_from st (ps @ qs) = resolve_from (rev (resolve_from st ps)) qs"
  by (induction ps arbitrary: st) auto

lemma resolve_from_plain: "''..'' \<notin> set ps \<Longrightarrow> resolve_from st ps = rev st @ ps"
  by (induction ps arbitrary: st) auto

lemma parts_path_of: "p \<in> set (parts (path_of s)) \<Longrightarrow> p \<noteq> [] \<and> p \<noteq> ''.'' \<and> CHR ''/'' \<notin> set p"
  by (auto simp: path_of_def split_on_no_sep)

lemma path_join_below:
  "\<not> absolute p \<Longrightarrow> ''..'' \<notin> set (parts p) \<Longrightarrow>
     resolve (path_join base p) = resolve base @ parts p"
  by (simp add: resolve_def path_join_def resolve_from_append resolve_from_plain)

section \<open>The contract of a path guard\<close>

locale path_guard =
  fixes guard :: "json \<Rightarrow> path option"
  assumes guard_parses: "guard v = Some p \<Longrightarrow> \<exists>s. v = JStr s \<and> p = path_of s"
    and guard_relative: "guard v = Some p \<Longrightarrow> \<not> absolute p"
    and guard_no_parent: "guard v = Some p \<Longrightarrow> ''..'' \<notin> set (parts p)"
begin

lemma confined: "guard v = Some p \<Longrightarrow> resolve (path_join base p) = resolve base @ parts p"
  by (rule path_join_below) (simp_all add: guard_relative guard_no_parent)

lemma plain_parts:
  "guard v = Some p \<Longrightarrow> q \<in> set (parts p) \<Longrightarrow> q \<noteq> [] \<and> q \<noteq> ''.'' \<and> q \<noteq> ''..'' \<and> CHR ''/'' \<notin> set q"
  using guard_parses guard_no_parent parts_path_of by blast

lemma keeps_root: "guard v = Some p \<Longrightarrow> absolute (path_join base p) = absolute base"
  by (simp add: path_join_def guard_relative)

end

end
