(* ===== verification/Contract.thy ===== *)
theory Contract
  imports PyPath
begin

text \<open>
  \<open>validate_contract\<close> of \<open>scripts/evidence/evidence_contract.py\<close>: the check that
  \<open>ci/evidence-contract.yml\<close> passes before any release tool reads policy from it. It raises
  \<open>ValueError\<close> at the first violated rule; the order of the rules is the source's. A rule's
  location is the dotted path of the message, as a list. Looking a list or an object up in a
  set of outcome names raises \<open>TypeError\<close> instead, as the interpreter does. The second half has one equivalence for
  each check, from which every proof about an accepted contract starts.
\<close>

section \<open>Error values\<close>

type_synonym loc = "string list"

datatype contract_error =
  SchemaVersion
| MustBeObject loc
| MustBeStringList loc
| MustBeStringSequence loc
| MustBeNonEmptyString loc
| MustBeBoolean loc
| MustBe loc json
| MustMatch loc loc
| MustInclude loc string
| MustBeUnique loc
| MustBeSafePath loc
| MustNotBePromotable loc
| MustBeNonEmpty loc
| MustBeAtLeast loc int
| KeysMustBeNonEmpty loc
| CatalogMismatch "string list" "string list"
| UnknownFields loc "string list"
| MissingFields loc "string list"
| MissingEntries loc "string list"
| UnknownEntries loc "string list"
| UnknownReference loc string
| Unsupported loc
| MissingProfile string
| MissingTarget string
| MissingTree string
| MissingArgument string string
| EmptyCommand
| UngovernedScenario string
| BadFormat string

type_synonym 'a checked = "(contract_error, 'a) result"

section \<open>Policy constants\<close>

definition CONTRACT_SCHEMA_VERSION :: string where
  "CONTRACT_SCHEMA_VERSION = ''suderra.evidence-contract.v1''"

definition EXPECTED_OUTCOMES :: "string list" where
  "EXPECTED_OUTCOMES = [''booted'', ''firmware-rejected'', ''kernel-rejected'',
     ''userspace-rejected'', ''rollback-completed'']"

definition OBSERVED_LAYERS :: "string list" where
  "OBSERVED_LAYERS = [''firmware'', ''kernel'', ''runtime'', ''storage'', ''userspace'']"

definition UNSIGNED_SIGNING_MODES :: "string list" where
  "UNSIGNED_SIGNING_MODES = [''unsigned-lab'', ''unsupported'']"

definition PLACEHOLDER_VALUES :: "string list" where
  "PLACEHOLDER_VALUES = [[], ''TODO'', ''TBD'', ''TO_BE_COLLECTED'', ''PLACEHOLDER'',
     ''not_collected'', ''NOT_COLLECTED'', ''pending'', ''PENDING'']"

definition EXPECTED_PROFILES :: "string list" where
  "EXPECTED_PROFILES = [''ci'', ''dev'', ''ga'', ''technical-dry-run'', ''rc-evidence-dry-run'',
     ''release-candidate'', ''production-candidate'']"

definition PROFILE_BOOL_FIELDS :: "string list" where
  "PROFILE_BOOL_FIELDS = [''production_candidate'', ''prerelease_only'', ''release_authorizing'',
     ''publication_allowed'', ''strict_artifact_binding'', ''subject_graph_required'',
     ''gap_report_required'', ''operator_ingress_required'']"

definition PROFILE_FIELDS :: "string list" where
  "PROFILE_FIELDS = PROFILE_BOOL_FIELDS @ [''required_output_trees'']"

section \<open>Typed access\<close>

definition string_list :: "json \<Rightarrow> loc \<Rightarrow> string list checked" where
  "string_list v p =
     (if \<not> is_list v \<or> \<not> truthy v \<or> \<not> list_all nonempty_str (elems v)
      then Inl (ValueError (MustBeStringList p)) else Inr (map text_of (elems v)))"

definition string_sequence :: "json \<Rightarrow> loc \<Rightarrow> string list checked" where
  "string_sequence v p =
     (if \<not> is_list v \<or> \<not> list_all nonempty_str (elems v)
      then Inl (ValueError (MustBeStringSequence p)) else Inr (map text_of (elems v)))"

definition as_object :: "json \<Rightarrow> loc \<Rightarrow> obj checked" where
  "as_object v p = (if is_obj v then Inr (members v) else Inl (ValueError (MustBeObject p)))"

definition is_placeholder :: "json \<Rightarrow> bool" where
  "is_placeholder v \<longleftrightarrow> is_str v \<and> strip (text_of v) \<in> set PLACEHOLDER_VALUES"

definition safe_relative_path :: "json \<Rightarrow> path option" where
  "safe_relative_path v =
     (if is_placeholder v \<or> \<not> is_str v \<or> strip (text_of v) = [] then None
      else let rel = path_of (text_of v) in
        if absolute rel \<or> ''..'' \<in> set (parts rel) then None else Some rel)"

text \<open>The rules that recur in the body: every named field has the stated form.\<close>

definition need_strings :: "obj \<Rightarrow> loc \<Rightarrow> string list \<Rightarrow> unit checked" where
  "need_strings o' p fs = for_all (\<lambda>f. ensure (nonempty_str (dict_get o' f))
     (ValueError (MustBeNonEmptyString (p @ [f])))) fs"

definition need_booleans :: "obj \<Rightarrow> loc \<Rightarrow> string list \<Rightarrow> unit checked" where
  "need_booleans o' p fs = for_all (\<lambda>f. ensure (is_bool (dict_get o' f))
     (ValueError (MustBeBoolean (p @ [f])))) fs"

definition need_true :: "obj \<Rightarrow> loc \<Rightarrow> string list \<Rightarrow> unit checked" where
  "need_true o' p fs = for_all (\<lambda>f. ensure (dict_get o' f = JBool True)
     (ValueError (MustBe (p @ [f]) (JBool True)))) fs"

definition need_string_lists :: "obj \<Rightarrow> loc \<Rightarrow> string list \<Rightarrow> unit checked" where
  "need_string_lists o' p fs = for_all (\<lambda>f.
     bindE (string_list (dict_get o' f) (p @ [f])) (\<lambda>_. Inr ())) fs"

definition need_equal :: "obj \<Rightarrow> loc \<Rightarrow> string \<Rightarrow> obj \<Rightarrow> string \<Rightarrow> unit checked" where
  "need_equal o' p f schemas s = ensure (py_eq (dict_get o' f) (dict_get schemas s))
     (ValueError (MustMatch (p @ [f]) [''schema_versions'', s]))"

section \<open>Schema versions and profiles\<close>

definition SCHEMA_FIELDS :: "string list" where
  "SCHEMA_FIELDS = [''hsm_signing_session'', ''lab_evidence'', ''machine_verification'',
     ''hardware_subject'', ''ota_artifacts'', ''ota_target_contract'',
     ''production_runtime_suite'', ''release_evidence'', ''release_security_report'',
     ''release_subject_graph'', ''retention_manifest'', ''runtime_observation'',
     ''signing_manifest'', ''governance_role_bindings'', ''station_acquisition'']"

definition check_profile_catalog :: "obj \<Rightarrow> unit checked" where
  "check_profile_catalog profiles =
     ensure (set (dict_keys profiles) = set EXPECTED_PROFILES)
       (ValueError (CatalogMismatch
         (sorted_set (minus_list EXPECTED_PROFILES (dict_keys profiles)))
         (sorted_set (minus_list (dict_keys profiles) EXPECTED_PROFILES))))"

definition check_profile :: "string \<times> json \<Rightarrow> unit checked" where
  "check_profile np = (let name = fst np; p = [''profiles'', name] in
     andthen (ensure (name \<noteq> []) (ValueError (KeysMustBeNonEmpty [''profiles''])))
      (bindE (as_object (snd np) p) (\<lambda>profile. in_order
        [let unknown = sorted_set (minus_list (dict_keys profile) PROFILE_FIELDS) in
           ensure (unknown = []) (ValueError (UnknownFields p unknown)),
         let missing = sorted_set (minus_list PROFILE_FIELDS (dict_keys profile)) in
           ensure (missing = []) (ValueError (MissingFields p missing)),
         need_booleans profile p (sorted_set PROFILE_BOOL_FIELDS),
         bindE (string_sequence (dict_get profile ''required_output_trees'')
            (p @ [''required_output_trees''])) (\<lambda>_. Inr ())])))"

definition EXPECTED_PROFILE_VALUES :: "(string \<times> (string \<times> bool) list) list" where
  "EXPECTED_PROFILE_VALUES =
     [(''rc-evidence-dry-run'',
        [(''production_candidate'', False), (''prerelease_only'', True),
         (''release_authorizing'', False), (''publication_allowed'', False),
         (''strict_artifact_binding'', True), (''subject_graph_required'', True),
         (''gap_report_required'', True), (''operator_ingress_required'', False)]),
      (''release-candidate'',
        [(''production_candidate'', False), (''prerelease_only'', True),
         (''release_authorizing'', True), (''publication_allowed'', True),
         (''subject_graph_required'', True), (''operator_ingress_required'', True)]),
      (''production-candidate'',
        [(''production_candidate'', True), (''prerelease_only'', False),
         (''release_authorizing'', True), (''publication_allowed'', True),
         (''strict_artifact_binding'', True), (''subject_graph_required'', True),
         (''operator_ingress_required'', True)])]"

definition check_expected_values :: "obj \<Rightarrow> unit checked" where
  "check_expected_values profiles = for_all (\<lambda>(name, expected).
     bindE (as_object (dict_get profiles name) [''profiles'', name]) (\<lambda>profile.
       for_all (\<lambda>(f, b). ensure (dict_get profile f = JBool b)
         (ValueError (MustBe [''profiles'', name, f] (JBool b)))) expected))
     EXPECTED_PROFILE_VALUES"

section \<open>Output trees\<close>

definition REQUIRED_TREES :: "string list" where
  "REQUIRED_TREES = [''build-artifacts'', ''release-inputs'', ''release-ingress'',
     ''release-subject-graph'', ''release-dry-run'', ''release-lab-input'',
     ''release-governance'', ''release-runtime'', ''release-signing'', ''release-retention'',
     ''release-ota'', ''release-approvals'', ''release-security'', ''release-reproducibility'']"

definition TREE_BOOL_FIELDS :: "string list" where
  "TREE_BOOL_FIELDS = [''required_by_default'', ''promotable'', ''operator_ingress_allowed'',
     ''release_tag_allowed'', ''dry_run_input_allowed'', ''gitignore_required'']"

text \<open>One round of the loop over the trees; the state is the set of templates seen so far.\<close>

definition check_tree :: "string list \<Rightarrow> string \<times> json \<Rightarrow> string list checked" where
  "check_tree seen nt = (let name = fst nt; p = [''output_trees'', ''trees'', name] in
     bindE (as_object (snd nt) p) (\<lambda>tree.
     let template = dict_get tree ''path_template'' in
     andthen (in_order
       [ensure (name \<noteq> []) (ValueError (KeysMustBeNonEmpty [''output_trees'', ''trees''])),
        ensure (nonempty_str template) (ValueError (MustBeNonEmptyString (p @ [''path_template'']))),
        ensure (safe_relative_path (JStr (replace (text_of template) ''{version}'' ''v0'')) \<noteq> None)
          (ValueError (MustBeSafePath (p @ [''path_template'']))),
        ensure (text_of template \<notin> set seen) (ValueError (MustBeUnique (p @ [''path_template'']))),
        need_strings tree p [''schema_role''],
        need_booleans tree p TREE_BOOL_FIELDS,
        ensure (\<not> (dict_get tree ''release_tag_allowed'' = JBool False \<and>
                   dict_get tree ''promotable'' = JBool True))
          (ValueError (MustNotBePromotable p))])
     (Inr (text_of template # seen))))"

definition check_dry_run_tree :: "obj \<Rightarrow> unit checked" where
  "check_dry_run_tree trees = (let p = [''output_trees'', ''trees'', ''release-dry-run''] in
     bindE (as_object (dict_get trees ''release-dry-run'') p) (\<lambda>tree. in_order
       [for_all (\<lambda>f. ensure (dict_get tree f = JBool False)
          (ValueError (MustBe (p @ [f]) (JBool False))))
          [''promotable'', ''operator_ingress_allowed'', ''release_tag_allowed''],
        need_true tree p [''gitignore_required''],
        need_true tree p [''dry_run_input_allowed'']]))"

definition check_output_trees :: "json \<Rightarrow> obj checked" where
  "check_output_trees v = bindE (as_object v [''output_trees'']) (\<lambda>ot.
     andthen (ensure (dict_get ot ''schema_version'' = JStr ''suderra.output-tree-policy.v1'')
       (ValueError (MustBe [''output_trees'', ''schema_version''] (JStr ''suderra.output-tree-policy.v1''))))
     (bindE (as_object (dict_get ot ''trees'') [''output_trees'', ''trees'']) (\<lambda>trees.
      let missing = sorted_set (minus_list REQUIRED_TREES (dict_keys trees)) in
      andthen (ensure (missing = []) (ValueError (MissingEntries [''output_trees'', ''trees''] missing)))
      (bindE (foldE check_tree [] trees) (\<lambda>_.
       andthen (check_dry_run_tree trees) (Inr trees))))))"

definition check_profile_roots :: "obj \<Rightarrow> string \<times> json \<Rightarrow> unit checked" where
  "check_profile_roots trees np = (let name = fst np; profile = members (snd np);
       p = [''profiles'', name, ''required_output_trees''] in
     bindE (string_sequence (dict_get profile ''required_output_trees'') p) (\<lambda>roots. in_order
       [for_all (\<lambda>r. ensure (dict_has trees r) (ValueError (UnknownReference p r))) roots,
        ensure (\<not> (dict_get profile ''subject_graph_required'' = JBool True \<and>
                   ''release-subject-graph'' \<notin> set roots))
          (ValueError (MustInclude p ''release-subject-graph'')),
        ensure (\<not> (dict_get profile ''gap_report_required'' = JBool True \<and>
                   ''release-dry-run'' \<notin> set roots))
          (ValueError (MustInclude p ''release-dry-run''))]))"

section \<open>Subjects\<close>

definition check_subjects :: "json \<Rightarrow> obj \<Rightarrow> unit checked" where
  "check_subjects v schemas = bindE (as_object v [''subjects'']) (\<lambda>subjects. in_order
     [need_equal subjects [''subjects''] ''schema_version'' schemas ''release_subject_graph'',
      need_strings subjects [''subjects''] [''subject_id_template''],
      for_all (\<lambda>token. ensure (contains (text_of (dict_get subjects ''subject_id_template'')) token)
        (ValueError (MustInclude [''subjects'', ''subject_id_template''] token)))
        [''{version}'', ''{target}'', ''{source_sha}'', ''{source_run_id}''],
      need_string_lists subjects [''subjects''] [''identity_fields'', ''artifact_fields'', ''subject_roles''],
      bindE (as_object (dict_get subjects ''required_subject_exports'')
          [''subjects'', ''required_subject_exports'']) (\<lambda>exports.
        for_all (\<lambda>(name, template). andthen
          (ensure (name \<noteq> []) (ValueError (KeysMustBeNonEmpty [''subjects'', ''required_subject_exports''])))
          (ensure (nonempty_str template)
            (ValueError (MustBeNonEmptyString [''subjects'', ''required_subject_exports'', name])))) exports),
      bindE (as_object (dict_get subjects ''join_requirements'') [''subjects'', ''join_requirements''])
        (\<lambda>joins. need_true joins [''subjects'', ''join_requirements'']
          [''fail_closed_on_unknown_target'', ''runtime_required_targets_require_suite'',
           ''signing_required_targets_require_manifest'', ''hardware_required_targets_require_subject'',
           ''release_public_must_match_matrix_release'', ''all_evidence_must_bind_subject_id''])])"

section \<open>Runtime\<close>

definition check_scenario_contract :: "string \<times> json \<Rightarrow> unit checked" where
  "check_scenario_contract sc = (let p = [''runtime'', ''scenario_contracts'', fst sc] in
     bindE (as_object (snd sc) p) (\<lambda>c.
     bindE (in_str_set (dict_get c ''expected_outcome'') EXPECTED_OUTCOMES) (\<lambda>known_outcome.
     andthen (ensure known_outcome (ValueError (Unsupported (p @ [''expected_outcome'']))))
     (bindE (in_str_set (dict_get c ''observed_layer'') OBSERVED_LAYERS) (\<lambda>known_layer. in_order
       [ensure known_layer (ValueError (Unsupported (p @ [''observed_layer'']))),
        need_string_lists c p [''observation_source'', ''required_log_roles''],
        need_strings c p [''mutation_type'', ''mutation_target''],
        need_booleans c p [''guest_facts_required'']])))))"

definition check_scenario_checks :: "string list \<Rightarrow> string list \<Rightarrow> string \<times> json \<Rightarrow> unit checked" where
  "check_scenario_checks scenarios checks sc = (let p = [''runtime'', ''scenario_to_checks'', fst sc] in
     andthen (ensure (fst sc \<in> set scenarios) (ValueError (UnknownEntries p [])))
      (bindE (string_list (snd sc) p) (\<lambda>cs.
        for_all (\<lambda>c. ensure (c \<in> set checks) (ValueError (UnknownReference p c))) cs)))"

definition check_runtime :: "json \<Rightarrow> obj \<Rightarrow> unit checked" where
  "check_runtime v schemas = bindE (as_object v [''runtime'']) (\<lambda>runtime.
     bindE (as_object (dict_get runtime ''observation_authority'') [''runtime'', ''observation_authority''])
       (\<lambda>authority.
     andthen (in_order
       [need_equal authority [''runtime'', ''observation_authority''] ''schema_version''
          schemas ''runtime_observation'',
        need_string_lists authority [''runtime'', ''observation_authority'']
          [''observed_outcome_sources'', ''forbidden_sources''],
        need_true authority [''runtime'', ''observation_authority''] [''raw_replay_required'']])
     (bindE (string_list (dict_get runtime ''required_checks'') [''runtime'', ''required_checks'']) (\<lambda>checks.
      bindE (string_list (dict_get runtime ''required_scenarios'') [''runtime'', ''required_scenarios'']) (\<lambda>scenarios.
      bindE (as_object (dict_get runtime ''scenario_to_checks'') [''runtime'', ''scenario_to_checks'']) (\<lambda>stc.
      andthen (for_all (check_scenario_checks scenarios checks) stc)
      (bindE (as_object (dict_get runtime ''scenario_contracts'') [''runtime'', ''scenario_contracts'']) (\<lambda>contracts.
       let missing = sorted_set (minus_list scenarios (dict_keys contracts));
           unexpected = sorted_set (minus_list (dict_keys contracts) scenarios) in
       andthen (in_order
         [ensure (missing = []) (ValueError (MissingEntries [''runtime'', ''scenario_contracts''] missing)),
          ensure (unexpected = []) (ValueError (UnknownEntries [''runtime'', ''scenario_contracts''] unexpected)),
          for_all check_scenario_contract contracts])
       (bindE (as_object (dict_get runtime ''suite_targets'') [''runtime'', ''suite_targets'']) (\<lambda>suites.
        for_all (\<lambda>(target, ss). andthen
          (ensure (target \<noteq> []) (ValueError (KeysMustBeNonEmpty [''runtime'', ''suite_targets''])))
          (bindE (string_sequence ss [''runtime'', ''suite_targets'', target]) (\<lambda>_. Inr ()))) suites))))))))))"

section \<open>Hardware and signing\<close>

definition check_hardware :: "json \<Rightarrow> obj \<Rightarrow> unit checked" where
  "check_hardware v schemas = bindE (as_object v [''hardware'']) (\<lambda>hardware.
     andthen (need_string_lists hardware [''hardware''] [''adapter_roles''])
     (bindE (as_object (dict_get hardware ''subject_binding'') [''hardware'', ''subject_binding'']) (\<lambda>binding.
      andthen (in_order
        [need_equal binding [''hardware'', ''subject_binding''] ''schema_version'' schemas ''hardware_subject'',
         need_string_lists binding [''hardware'', ''subject_binding''] [''required_fields''],
         need_true binding [''hardware'', ''subject_binding'']
           [''readback_must_match_build_subject'', ''station_registry_required'',
            ''adapter_inventory_must_match_registry'', ''station_acquisition_event_required''],
         ensure (dict_get binding ''producer_source'' = JStr ''station-acquisition'')
           (ValueError (MustBe [''hardware'', ''subject_binding'', ''producer_source'']
              (JStr ''station-acquisition''))),
         need_string_lists hardware [''hardware'']
           [''required_checks'', ''x86_required_checks'', ''x86_required_negative_tests'']])
      (bindE (as_object (dict_get hardware ''required_boards_by_target'')
          [''hardware'', ''required_boards_by_target'']) (\<lambda>boards.
        for_all (\<lambda>(target, bs). bindE (string_list bs [''hardware'', ''required_boards_by_target'', target])
          (\<lambda>_. Inr ())) boards)))))"

definition check_role_binding :: "string list \<Rightarrow> string \<times> json \<Rightarrow> unit checked" where
  "check_role_binding roles rb = (let p = [''signing'', ''role_bindings'', fst rb] in
     andthen (ensure (fst rb \<in> set roles) (ValueError (UnknownEntries p [])))
      (bindE (as_object (snd rb) p) (\<lambda>b.
        need_strings b p [''digest_source'', ''final_digest_field'', ''input_digest_field''])))"

definition check_signing :: "json \<Rightarrow> obj \<Rightarrow> unit checked" where
  "check_signing v schemas = bindE (as_object v [''signing'']) (\<lambda>signing.
     andthen (in_order
       [need_equal signing [''signing''] ''manifest_schema_version'' schemas ''signing_manifest'',
        need_strings signing [''signing''] [''request_schema_version''],
        need_string_lists signing [''signing''] [''manifest_required_fields'', ''role_required_fields''],
        bindE (as_object (dict_get signing ''digest_semantics'') [''signing'', ''digest_semantics'']) (\<lambda>d.
          need_strings d [''signing'', ''digest_semantics'']
            [''input_sha256'', ''output_sha256'', ''certificate_sha256'',
             ''challenge_transcript_sha256'', ''artifact_signature_sha256'']),
        bindE (as_object (dict_get signing ''replay_requirements'') [''signing'', ''replay_requirements'']) (\<lambda>r.
          need_true r [''signing'', ''replay_requirements'']
            [''certificate_key_match_required'', ''challenge_signature_replay_required'',
             ''artifact_signature_replay_required'', ''transcript_digest_replay_required'',
             ''software_hsm_rejected_for_production''])])
     (bindE (string_list (dict_get signing ''signed_artifact_roles'') [''signing'', ''signed_artifact_roles'']) (\<lambda>roles.
      bindE (as_object (dict_get signing ''role_bindings'') [''signing'', ''role_bindings'']) (\<lambda>bindings.
      let missing = sorted_set (minus_list roles (dict_keys bindings)) in
      andthen (ensure (missing = []) (ValueError (MissingEntries [''signing'', ''role_bindings''] missing)))
        (for_all (check_role_binding roles) bindings)))))"

section \<open>Targets, OTA and retention\<close>

definition TARGET_BOOL_FIELDS :: "string list" where
  "TARGET_BOOL_FIELDS = [''hardware_required'', ''ota_capable'', ''production_gate'',
     ''release_image_scan_required'', ''release_public'', ''runtime_required'', ''signing_required'']"

definition check_target :: "obj \<Rightarrow> string \<times> json \<Rightarrow> unit checked" where
  "check_target ota_targets tp = (let target = fst tp; q = [''ota'', ''targets'', target] in
     bindE (as_object (snd tp) [''targets'', target]) (\<lambda>policy.
     andthen (need_booleans policy [''targets'', target] TARGET_BOOL_FIELDS)
     (bindE (as_object (dict_get ota_targets target) q) (\<lambda>ota. in_order
       [ensure (py_eq (dict_get ota ''ota_capable'') (dict_get policy ''ota_capable''))
          (ValueError (MustMatch (q @ [''ota_capable'']) [''targets'', target, ''ota_capable''])),
        need_strings ota q [''backend'', ''boot_backend'', ''compatible'', ''health_policy'',
          ''lifecycle'', ''mark_good_policy'', ''rollback_state'', ''rollback_storage''],
        for_all (\<lambda>f. bindE (string_sequence (dict_get ota f) (q @ [f])) (\<lambda>values.
          ensure (\<not> (dict_get policy ''ota_capable'' = JBool True \<and> values = []))
            (ValueError (MustBeNonEmpty (q @ [f])))))
          [''bundle_artifacts'', ''health_checks'', ''slot_labels'', ''verity_devices''],
        ensure (\<not> (dict_get policy ''ota_capable'' = JBool False \<and>
                   dict_get ota ''rollback_storage'' \<noteq> JStr ''not-applicable''))
          (ValueError (MustBe (q @ [''rollback_storage'']) (JStr ''not-applicable'')))]))))"

definition check_targets :: "json \<Rightarrow> json \<Rightarrow> obj \<Rightarrow> unit checked" where
  "check_targets ota_v targets_v schemas = bindE (as_object ota_v [''ota'']) (\<lambda>ota.
     andthen (need_equal ota [''ota''] ''target_contract_schema_version'' schemas ''ota_target_contract'')
     (bindE (as_object (dict_get ota ''targets'') [''ota'', ''targets'']) (\<lambda>ota_targets.
      bindE (as_object targets_v [''targets'']) (\<lambda>targets.
      andthen (for_all (check_target ota_targets) targets)
        (for_all (\<lambda>t. ensure (dict_has targets t) (ValueError (UnknownReference [''ota'', ''targets''] t)))
          (dict_keys ota_targets))))))"

definition check_retention :: "json \<Rightarrow> obj \<Rightarrow> unit checked" where
  "check_retention v schemas = bindE (as_object v [''retention'']) (\<lambda>retention.
     andthen (in_order
       [need_equal retention [''retention''] ''manifest_schema_version'' schemas ''retention_manifest'',
        need_strings retention [''retention''] [''policy_id'', ''store_class''],
        ensure (is_int (dict_get retention ''minimum_years'') \<and>
                \<not> int_of (dict_get retention ''minimum_years'') < 7)
          (ValueError (MustBeAtLeast [''retention'', ''minimum_years''] 7)),
        need_true retention [''retention''] [''kms_required'', ''legal_hold_supported'', ''access_log_required''],
        need_string_lists retention [''retention''] [''required_replay'']])
     (bindE (string_list (dict_get retention ''required_exports'') [''retention'', ''required_exports'']) (\<lambda>exports.
       for_all (\<lambda>e. ensure (e \<in> set exports) (ValueError (MustInclude [''retention'', ''required_exports''] e)))
         [''release-inputs'', ''release-subject-graph''])))"

section \<open>The whole contract\<close>

definition validate_contract :: "obj \<Rightarrow> unit checked" where
  "validate_contract payload =
     andthen (ensure (dict_get payload ''schema_version'' = JStr CONTRACT_SCHEMA_VERSION)
       (ValueError SchemaVersion))
     (bindE (as_object (dict_get payload ''schema_versions'') [''schema_versions'']) (\<lambda>schemas.
      andthen (need_strings schemas [''schema_versions''] SCHEMA_FIELDS)
      (bindE (as_object (dict_get payload ''profiles'') [''profiles'']) (\<lambda>profiles.
       andthen (in_order [check_profile_catalog profiles, for_all check_profile profiles,
         check_expected_values profiles])
       (bindE (check_output_trees (dict_get payload ''output_trees'')) (\<lambda>trees. in_order
         [for_all (check_profile_roots trees) profiles,
          check_subjects (dict_get payload ''subjects'') schemas,
          check_runtime (dict_get payload ''runtime'') schemas,
          check_hardware (dict_get payload ''hardware'') schemas,
          check_signing (dict_get payload ''signing'') schemas,
          check_targets (dict_get payload ''ota'') (dict_get payload ''targets'') schemas,
          check_retention (dict_get payload ''retention'') schemas]))))))"

text \<open>
  What an accepted contract is: one equivalence per check of \<open>Contract\<close>, each from
  \<open>this check returned\<close> to the facts it establishes. Every later proof about an accepted
  contract goes through these, never through the definitions of the checks.
\<close>

section \<open>The shared checks\<close>

lemma as_object_ok [run_ok]: "as_object v p = Inr kvs \<longleftrightarrow> v = JObj kvs"
  by (cases v) (auto simp: as_object_def)

lemma strings_iff: "is_list v \<and> list_all nonempty_str (elems v) \<and> map text_of (elems v) = ss \<longleftrightarrow>
    v = JArr (map JStr ss) \<and> [] \<notin> set ss"
proof (cases v)
  case (JArr xs)
  have "list_all nonempty_str xs \<and> map text_of xs = ss \<longleftrightarrow> xs = map JStr ss \<and> [] \<notin> set ss"
  proof (induction xs arbitrary: ss)
    case Nil
    then show ?case by auto
  next
    case (Cons x xs)
    show ?case
      using Cons.IH [of "tl ss"] by (cases ss; cases x) (auto simp: nonempty_str_def)
  qed
  with JArr show ?thesis by simp
qed auto

lemma string_sequence_ok [run_ok]:
  "string_sequence v p = Inr ss \<longleftrightarrow> v = JArr (map JStr ss) \<and> [] \<notin> set ss"
  using strings_iff [of v ss] by (auto simp: string_sequence_def)

lemma string_list_ok [run_ok]:
  "string_list v p = Inr ss \<longleftrightarrow> v = JArr (map JStr ss) \<and> [] \<notin> set ss \<and> ss \<noteq> []"
  using strings_iff [of v ss] by (auto simp: string_list_def is_list_iff)

lemma need_strings_ok [run_ok]:
  "need_strings kvs p fs = Inr u \<longleftrightarrow> (\<forall>f\<in>set fs. \<exists>s. dict_get kvs f = JStr s \<and> s \<noteq> [])"
  by (simp add: need_strings_def run_ok nonempty_str_iff)

lemma need_booleans_ok [run_ok]:
  "need_booleans kvs p fs = Inr u \<longleftrightarrow> (\<forall>f\<in>set fs. \<exists>b. dict_get kvs f = JBool b)"
  by (simp add: need_booleans_def run_ok is_bool_iff)

lemma need_true_ok [run_ok]:
  "need_true kvs p fs = Inr u \<longleftrightarrow> (\<forall>f\<in>set fs. dict_get kvs f = JBool True)"
  by (simp add: need_true_def run_ok)

lemma need_string_lists_ok [run_ok]:
  "need_string_lists kvs p fs = Inr u \<longleftrightarrow>
     (\<forall>f\<in>set fs. \<exists>ss. dict_get kvs f = JArr (map JStr ss) \<and> [] \<notin> set ss \<and> ss \<noteq> [])"
  by (simp add: need_string_lists_def run_ok)

lemma need_equal_ok [run_ok]:
  "need_equal kvs p f schemas s = Inr u \<longleftrightarrow> py_eq (dict_get kvs f) (dict_get schemas s)"
  by (simp add: need_equal_def run_ok)

lemma foldE_states:
  "foldE f s xs = Inr t \<Longrightarrow> x \<in> set xs \<Longrightarrow> \<exists>a b. f a x = Inr b"
  by (induction xs arbitrary: s) (auto simp: run_ok)

definition well_formed_tree :: "string \<times> json \<Rightarrow> bool" where
  "well_formed_tree nt \<longleftrightarrow> (\<exists>tree template.
     snd nt = JObj tree \<and> fst nt \<noteq> [] \<and>
     dict_get tree ''path_template'' = JStr template \<and> template \<noteq> [] \<and>
     safe_relative_path (JStr (replace template ''{version}'' ''v0'')) \<noteq> None \<and>
     (\<exists>role. dict_get tree ''schema_role'' = JStr role \<and> role \<noteq> []) \<and>
     (\<forall>f\<in>set TREE_BOOL_FIELDS. is_bool (dict_get tree f)) \<and>
     (dict_get tree ''promotable'' = JBool True \<longrightarrow> dict_get tree ''release_tag_allowed'' = JBool True))"

definition tree_template :: "json \<Rightarrow> string" where
  "tree_template v = text_of (dict_get (members v) ''path_template'')"

lemma check_tree_ok:
  "check_tree seen nt = Inr seen' \<longleftrightarrow>
     well_formed_tree nt \<and> tree_template (snd nt) \<notin> set seen \<and> seen' = tree_template (snd nt) # seen"
  apply (cases nt)
  apply (simp add: check_tree_def well_formed_tree_def tree_template_def run_ok Let_def nonempty_str_iff is_bool_iff TREE_BOOL_FIELDS_def)
  apply safe
                      apply auto
  done


lemma trees_ok:
  "foldE check_tree seen trees = Inr seen' \<Longrightarrow>
     (\<forall>nt\<in>set trees. well_formed_tree nt) \<and>
     distinct (map (tree_template \<circ> snd) trees) \<and>
     set (map (tree_template \<circ> snd) trees) \<inter> set seen = {}"
proof (induction trees arbitrary: seen)
  case Nil
  then show ?case by simp
next
  case (Cons nt trees)
  then have nt: "well_formed_tree nt" "tree_template (snd nt) \<notin> set seen"
    and rest: "foldE check_tree (tree_template (snd nt) # seen) trees = Inr seen'"
    by (auto simp: run_ok check_tree_ok)
  from Cons.IH [OF rest] nt show ?case by auto
qed

lemma dry_run_tree_ok:
  "check_dry_run_tree trees = Inr u \<longleftrightarrow> (\<exists>tree. dict_get trees ''release-dry-run'' = JObj tree \<and>
     (\<forall>f\<in>{''promotable'', ''operator_ingress_allowed'', ''release_tag_allowed''}. dict_get tree f = JBool False) \<and>
     (\<forall>f\<in>{''gitignore_required'', ''dry_run_input_allowed''}. dict_get tree f = JBool True))"
  by (simp add: check_dry_run_tree_def Let_def run_ok)

lemma validate_contract_ok:
  "validate_contract p = Inr u \<longleftrightarrow>
     dict_get p ''schema_version'' = JStr CONTRACT_SCHEMA_VERSION \<and>
     (\<exists>schemas profiles trees.
        dict_get p ''schema_versions'' = JObj schemas \<and>
        need_strings schemas [''schema_versions''] SCHEMA_FIELDS = Inr () \<and>
        dict_get p ''profiles'' = JObj profiles \<and>
        check_profile_catalog profiles = Inr () \<and>
        (\<forall>np\<in>set profiles. check_profile np = Inr ()) \<and>
        check_expected_values profiles = Inr () \<and>
        check_output_trees (dict_get p ''output_trees'') = Inr trees \<and>
        (\<forall>np\<in>set profiles. check_profile_roots trees np = Inr ()) \<and>
        check_subjects (dict_get p ''subjects'') schemas = Inr () \<and>
        check_runtime (dict_get p ''runtime'') schemas = Inr () \<and>
        check_hardware (dict_get p ''hardware'') schemas = Inr () \<and>
        check_signing (dict_get p ''signing'') schemas = Inr () \<and>
        check_targets (dict_get p ''ota'') (dict_get p ''targets'') schemas = Inr () \<and>
        check_retention (dict_get p ''retention'') schemas = Inr ())"
  by (auto simp add: validate_contract_def Let_def run_ok)

lemma check_output_trees_ok:
  "check_output_trees v = Inr trees \<longleftrightarrow> (\<exists>ot seen. v = JObj ot \<and>
     dict_get ot ''schema_version'' = JStr ''suderra.output-tree-policy.v1'' \<and>
     dict_get ot ''trees'' = JObj trees \<and> set REQUIRED_TREES \<subseteq> set (dict_keys trees) \<and>
     foldE check_tree [] trees = Inr seen \<and> check_dry_run_tree trees = Inr ())"
  by (auto simp add: check_output_trees_def Let_def run_ok)

lemma check_profile_catalog_ok:
  "check_profile_catalog profiles = Inr u \<longleftrightarrow> set (dict_keys profiles) = set EXPECTED_PROFILES"
  by (simp add: check_profile_catalog_def run_ok)

lemma check_expected_values_ok:
  "check_expected_values profiles = Inr u \<longleftrightarrow>
     (\<forall>(name, expected)\<in>set EXPECTED_PROFILE_VALUES. \<exists>profile.
        dict_get profiles name = JObj profile \<and>
        (\<forall>(f, b)\<in>set expected. dict_get profile f = JBool b))"
  by (simp add: check_expected_values_def run_ok split_beta)

lemma check_profile_ok:
  "check_profile (name, v) = Inr u \<longleftrightarrow> name \<noteq> [] \<and> (\<exists>profile roots. v = JObj profile \<and>
     set (dict_keys profile) = set PROFILE_FIELDS \<and>
     (\<forall>f\<in>set PROFILE_BOOL_FIELDS. is_bool (dict_get profile f)) \<and>
     dict_get profile ''required_output_trees'' = JArr (map JStr roots) \<and> [] \<notin> set roots)"
  by (auto simp add: check_profile_def Let_def run_ok is_bool_iff)

lemma check_profile_roots_ok:
  "check_profile_roots trees (name, JObj profile) = Inr u \<longleftrightarrow> (\<exists>roots.
     dict_get profile ''required_output_trees'' = JArr (map JStr roots) \<and> [] \<notin> set roots \<and>
     (\<forall>r\<in>set roots. dict_has trees r) \<and>
     (dict_get profile ''subject_graph_required'' = JBool True \<longrightarrow> ''release-subject-graph'' \<in> set roots) \<and>
     (dict_get profile ''gap_report_required'' = JBool True \<longrightarrow> ''release-dry-run'' \<in> set roots))"
  by (auto simp add: check_profile_roots_def Let_def run_ok)

end
