(* ===== verification/ContractPolicy.thy ===== *)
theory ContractPolicy
  imports Contract
begin

text \<open>
  The accessors of \<open>scripts/evidence/evidence_contract.py\<close>: how the other tools read profiles,
  targets, output trees and evidence paths from the contract. Each takes the payload (the
  source's \<open>contract or load_contract()\<close>) as its argument. A set of strings that the source
  builds is a list here; the functions that return \<open>sorted(...)\<close> return a sorted list.
\<close>

section \<open>Formatting templates\<close>

text \<open>
  \<open>template.format(...)\<close> with plain named fields: doubled braces stand for one, an unknown
  name raises \<open>KeyError\<close>, an empty or numeric name \<open>IndexError\<close>, and a lone brace
  \<open>ValueError\<close>. Field names with a conversion, a format specification, an attribute or an
  index are outside the model and count as \<open>BadFormat\<close>.
\<close>

definition format_field :: "(string \<Rightarrow> string option) \<Rightarrow> string \<Rightarrow> string checked" where
  "format_field env name =
     (if name = [] \<or> all_ascii_digits name then Inl IndexError
      else if list_ex (\<lambda>c. c \<in> set ''{!:.['') name then Inl (ValueError (BadFormat name))
      else case env name of None \<Rightarrow> Inl (KeyError name) | Some v \<Rightarrow> Inr v)"

function (sequential) py_format :: "(string \<Rightarrow> string option) \<Rightarrow> string \<Rightarrow> string checked" where
  "py_format env [] = Inr []"
| "py_format env (c # s) =
     (if c = CHR ''{'' then
        (case s of
           [] \<Rightarrow> Inl (ValueError (BadFormat ''{''))
         | d # t \<Rightarrow>
             if d = CHR ''{'' then bindE (py_format env t) (\<lambda>r. Inr (CHR ''{'' # r))
             else let name = takeWhile (\<lambda>x. x \<noteq> CHR ''}'') s; rest = dropWhile (\<lambda>x. x \<noteq> CHR ''}'') s in
               if rest = [] then Inl (ValueError (BadFormat ''{''))
               else bindE (format_field env name) (\<lambda>v.
                 bindE (py_format env (tl rest)) (\<lambda>r. Inr (v @ r))))
      else if c = CHR ''}'' then
        (case s of
           d # t \<Rightarrow> if d = CHR ''}'' then bindE (py_format env t) (\<lambda>r. Inr (CHR ''}'' # r))
                    else Inl (ValueError (BadFormat ''}''))
         | [] \<Rightarrow> Inl (ValueError (BadFormat ''}'')))
      else bindE (py_format env s) (\<lambda>r. Inr (c # r)))"
  by pat_completeness auto
termination
proof (relation "measure (\<lambda>(_, s). length s)", goal_cases)
  case (3 env c s d t name rest v)
  then have "rest = dropWhile (\<lambda>x. x \<noteq> CHR ''}'') s" by blast
  then have "length rest \<le> length s" by (simp add: length_dropWhile_le)
  then show ?case by simp
qed auto

section \<open>Reading values\<close>

definition contract_schema_version :: "string \<Rightarrow> obj \<Rightarrow> string checked" where
  "contract_schema_version name payload =
     bindE (dict_index payload ''schema_versions'') (\<lambda>v. bindE (dict_of v) (\<lambda>schemas.
       if nonempty_str (dict_get schemas name) then Inr (text_of (dict_get schemas name))
       else Inl (KeyError name)))"

definition target_policy :: "string \<Rightarrow> obj \<Rightarrow> obj checked" where
  "target_policy target payload =
     bindE (dict_of (dict_get_or payload ''targets'' (JObj []))) (\<lambda>targets.
       Inr (dict_or_empty (dict_get_or targets target (JObj []))))"

text \<open>\<open>list(payload[section][field])\<close>.\<close>

definition policy_list :: "string \<Rightarrow> string \<Rightarrow> obj \<Rightarrow> json list checked" where
  "policy_list section field payload =
     bindE (dict_index payload section) (\<lambda>v. bindE (subscript v field) py_list)"

definition runtime_required_checks :: "obj \<Rightarrow> json list checked" where
  "runtime_required_checks payload = policy_list ''runtime'' ''required_checks'' payload"

definition runtime_required_scenarios :: "obj \<Rightarrow> json list checked" where
  "runtime_required_scenarios payload = policy_list ''runtime'' ''required_scenarios'' payload"

text \<open>\<open>payload[section][field].items()\<close>.\<close>

definition policy_items :: "string \<Rightarrow> string \<Rightarrow> obj \<Rightarrow> obj checked" where
  "policy_items section field payload =
     bindE (dict_index payload section) (\<lambda>v. bindE (subscript v field) dict_of)"

definition runtime_scenario_to_checks :: "obj \<Rightarrow> (string \<times> string list) list checked" where
  "runtime_scenario_to_checks payload =
     bindE (policy_items ''runtime'' ''scenario_to_checks'' payload) (\<lambda>items.
       mapE (\<lambda>(name, checks). bindE (py_list checks) (\<lambda>cs. Inr (name, map py_str cs))) items)"

text \<open>\<open>{name: dict(value) ... if isinstance(value, dict)}\<close>.\<close>

definition object_items :: "obj \<Rightarrow> (string \<times> obj) list" where
  "object_items items = map (\<lambda>(n, v). (n, members v)) (filter (\<lambda>(n, v). is_obj v) items)"

definition runtime_scenario_contracts :: "obj \<Rightarrow> (string \<times> obj) list checked" where
  "runtime_scenario_contracts payload =
     bindE (policy_items ''runtime'' ''scenario_contracts'' payload) (\<lambda>items. Inr (object_items items))"

definition runtime_suite_targets_for :: "string \<Rightarrow> obj \<Rightarrow> string list checked" where
  "runtime_suite_targets_for target payload =
     bindE (policy_items ''runtime'' ''suite_targets'' payload) (\<lambda>suites.
       bindE (py_list (dict_get_or suites target (JArr []))) (\<lambda>xs. Inr (map py_str xs)))"

definition hardware_required_checks :: "obj \<Rightarrow> json list checked" where
  "hardware_required_checks payload = policy_list ''hardware'' ''required_checks'' payload"

definition x86_hardware_required_checks :: "obj \<Rightarrow> json list checked" where
  "x86_hardware_required_checks payload = policy_list ''hardware'' ''x86_required_checks'' payload"

definition x86_required_negative_tests :: "obj \<Rightarrow> json list checked" where
  "x86_required_negative_tests payload = policy_list ''hardware'' ''x86_required_negative_tests'' payload"

definition required_hardware_boards_by_target :: "obj \<Rightarrow> (string \<times> string list) list checked" where
  "required_hardware_boards_by_target payload =
     bindE (policy_items ''hardware'' ''required_boards_by_target'' payload) (\<lambda>items.
       mapE (\<lambda>(target, boards). bindE (py_list boards) (\<lambda>bs. Inr (target, map py_str bs))) items)"

definition adapter_roles :: "obj \<Rightarrow> json list checked" where
  "adapter_roles payload = policy_list ''hardware'' ''adapter_roles'' payload"

definition signed_artifact_roles :: "obj \<Rightarrow> string list checked" where
  "signed_artifact_roles payload =
     bindE (policy_list ''signing'' ''signed_artifact_roles'' payload) (\<lambda>xs. Inr (map py_str xs))"

definition signing_role_bindings :: "obj \<Rightarrow> (string \<times> obj) list checked" where
  "signing_role_bindings payload =
     bindE (policy_items ''signing'' ''role_bindings'' payload) (\<lambda>items. Inr (object_items items))"

definition ota_target_policy :: "string \<Rightarrow> obj \<Rightarrow> obj checked" where
  "ota_target_policy target payload =
     bindE (policy_items ''ota'' ''targets'' payload) (\<lambda>targets.
       Inr (dict_or_empty (dict_get_or targets target (JObj []))))"

definition retention_required_exports :: "obj \<Rightarrow> json list checked" where
  "retention_required_exports payload = policy_list ''retention'' ''required_exports'' payload"

section \<open>Profiles\<close>

definition profile_policy :: "string \<Rightarrow> obj \<Rightarrow> obj checked" where
  "profile_policy profile payload =
     bindE (dict_of (dict_get_or payload ''profiles'' (JObj []))) (\<lambda>profiles.
       case dict_get profiles profile of JObj kvs \<Rightarrow> Inr kvs
       | _ \<Rightarrow> Inl (ValueError (MissingProfile profile)))"

text \<open>\<open>sorted(name for name, v in items if isinstance(v, dict) and v.get(field) is b)\<close>.\<close>

definition names_where :: "string \<Rightarrow> bool \<Rightarrow> obj \<Rightarrow> string list" where
  "names_where field b items =
     sort (map fst (filter (\<lambda>(n, v). is_obj v \<and> dict_get (members v) field = JBool b) items))"

definition profile_items :: "obj \<Rightarrow> obj checked" where
  "profile_items payload = bindE (dict_index payload ''profiles'') dict_of"

definition all_profiles :: "obj \<Rightarrow> string list checked" where
  "all_profiles payload = bindE (profile_items payload) (\<lambda>ps. Inr (sort (dict_keys ps)))"

definition release_authorizing_profiles :: "obj \<Rightarrow> string list checked" where
  "release_authorizing_profiles payload =
     bindE (profile_items payload) (\<lambda>ps. Inr (names_where ''release_authorizing'' True ps))"

definition publication_allowed_profiles :: "obj \<Rightarrow> string list checked" where
  "publication_allowed_profiles payload =
     bindE (profile_items payload) (\<lambda>ps. Inr (names_where ''publication_allowed'' True ps))"

definition operator_ingress_required_profiles :: "obj \<Rightarrow> string list checked" where
  "operator_ingress_required_profiles payload =
     bindE (profile_items payload) (\<lambda>ps. Inr (names_where ''operator_ingress_required'' True ps))"

section \<open>Subject identity\<close>

definition release_subject_id :: "string \<Rightarrow> string \<Rightarrow> string \<Rightarrow> string \<Rightarrow> obj \<Rightarrow> string checked" where
  "release_subject_id version target source_sha source_run_id payload =
     bindE (dict_index payload ''subjects'') (\<lambda>v.
     bindE (subscript v ''subject_id_template'') (\<lambda>template.
       py_format (map_of [(''version'', version), (''target'', target),
           (''source_sha'', source_sha), (''source_run_id'', source_run_id)]) (py_str template)))"

text \<open>
  The first row of the build matrix with the given target. \<open>for row in v\<close> over something other
  than a list raises.
\<close>

definition matrix_rows :: "obj \<Rightarrow> json list checked" where
  "matrix_rows matrix = py_list (dict_get_or matrix ''defconfigs'' (JArr []))"

definition matrix_row_for_target :: "obj \<Rightarrow> string \<Rightarrow> obj checked" where
  "matrix_row_for_target matrix target =
     bindE (matrix_rows matrix) (\<lambda>rows.
       case find (\<lambda>r. is_obj r \<and> dict_get (members r) ''target'' = JStr target) rows of
         Some r \<Rightarrow> Inr (members r)
       | None \<Rightarrow> Inl (ValueError (MissingTarget target)))"

definition format_subject_export :: "string \<Rightarrow> string \<Rightarrow> string \<Rightarrow> string \<Rightarrow> string checked" where
  "format_subject_export template version target profile =
     py_format (map_of [(''version'', version), (''target'', target), (''profile'', profile),
       (''scan'', ''{scan}'')]) template"

section \<open>Output trees\<close>

definition output_tree_policy :: "obj \<Rightarrow> json checked" where
  "output_tree_policy payload = dict_index payload ''output_trees''"

definition tree_items :: "obj \<Rightarrow> obj checked" where
  "tree_items payload = bindE (output_tree_policy payload) (\<lambda>policy.
     bindE (subscript policy ''trees'') dict_of)"

definition output_tree_roots :: "obj \<Rightarrow> string list checked" where
  "output_tree_roots payload = bindE (tree_items payload) (\<lambda>trees. Inr (sort (dict_keys trees)))"

definition output_tree_for_root :: "string \<Rightarrow> obj \<Rightarrow> obj option checked" where
  "output_tree_for_root r payload = bindE (tree_items payload) (\<lambda>trees.
     Inr (case dict_get trees r of JObj kvs \<Rightarrow> Some kvs | _ \<Rightarrow> None))"

definition output_tree_path :: "string \<Rightarrow> string \<Rightarrow> obj \<Rightarrow> string checked" where
  "output_tree_path r version payload = bindE (output_tree_for_root r payload) (\<lambda>t.
     case t of None \<Rightarrow> Inl (ValueError (MissingTree r))
     | Some tree \<Rightarrow> bindE (dict_index tree ''path_template'') (\<lambda>template.
         py_format (map_of [(''version'', version)]) (py_str template)))"

definition required_output_roots :: "string \<Rightarrow> obj \<Rightarrow> string list checked" where
  "required_output_roots profile payload =
     bindE (profile_policy profile payload) (\<lambda>profile_obj.
     bindE (tree_items payload) (\<lambda>trees.
     bindE (py_list (dict_get_or profile_obj ''required_output_trees'' (JArr []))) (\<lambda>roots.
       Inr (sorted_set (names_where ''required_by_default'' True trees @ map py_str roots)))))"

definition preflight_input_roots :: "string \<Rightarrow> obj \<Rightarrow> string list checked" where
  "preflight_input_roots profile payload =
     bindE (required_output_roots profile payload) (\<lambda>required.
     bindE (tree_items payload) (\<lambda>trees.
       let roots = filter (\<lambda>r. r \<noteq> ''build-artifacts'') required in
       Inr (sorted_set (if profile = ''rc-evidence-dry-run''
         then roots @ names_where ''dry_run_input_allowed'' True trees
         else roots @ names_where ''operator_ingress_allowed'' True trees
                    @ names_where ''required_by_default'' True trees))))"

definition release_tag_allowed_roots :: "obj \<Rightarrow> string list checked" where
  "release_tag_allowed_roots payload =
     bindE (tree_items payload) (\<lambda>trees. Inr (names_where ''release_tag_allowed'' True trees))"

definition output_tree_schema_role :: "string \<Rightarrow> obj \<Rightarrow> string checked" where
  "output_tree_schema_role r payload = bindE (output_tree_for_root r payload) (\<lambda>t.
     case t of None \<Rightarrow> Inl (ValueError (MissingTree r))
     | Some tree \<Rightarrow> bindE (dict_index tree ''schema_role'') (\<lambda>role. Inr (py_str role)))"

definition gitignore_required_roots :: "obj \<Rightarrow> string list checked" where
  "gitignore_required_roots payload =
     bindE (tree_items payload) (\<lambda>trees. Inr (names_where ''gitignore_required'' True trees))"

definition operator_ingress_allowed_roots :: "obj \<Rightarrow> string list checked" where
  "operator_ingress_allowed_roots payload =
     bindE (tree_items payload) (\<lambda>trees. Inr (names_where ''operator_ingress_allowed'' True trees))"

definition non_promotable_roots :: "obj \<Rightarrow> string list checked" where
  "non_promotable_roots payload =
     bindE (tree_items payload) (\<lambda>trees. Inr (names_where ''promotable'' False trees))"

end
