(* ===== verification/ContractAccepted.thy ===== *)
theory ContractAccepted
  imports ContractPolicy
begin

text \<open>
  Two interfaces of the contract's clients. \<open>accepted\<close> is a payload that \<open>json.loads\<close> could
  return and \<open>validate_contract\<close> accepts: what every tool may rely on after
  \<open>load_contract\<close>. \<open>catalog_query\<close> is a function that lists, in order, the entries of a
  catalog that a predicate selects: the contract of the accessors of profiles and of output
  trees.
\<close>

section \<open>Queries over a catalog\<close>

locale catalog_query =
  fixes items :: "obj \<Rightarrow> obj checked"
    and query :: "obj \<Rightarrow> string list checked"
    and selects :: "obj \<Rightarrow> bool"
  assumes query_lists: "items p = Inr kvs \<Longrightarrow>
      query p = Inr (sort (map fst (filter (\<lambda>(n, v). is_obj v \<and> selects (members v)) kvs)))"
    and query_raises: "items p = Inl e \<Longrightarrow> query p = Inl e"
    and items_wf: "json_wf (JObj p) \<Longrightarrow> items p = Inr kvs \<Longrightarrow> json_wf (JObj kvs)"
begin

lemma returns: "query p = Inr rs \<Longrightarrow> \<exists>kvs. items p = Inr kvs"
  using query_raises [of p] by (cases "items p") auto

lemma in_order: "query p = Inr rs \<Longrightarrow> sorted rs"
  using returns [of p rs] query_lists [of p] by auto

lemma unique:
  assumes "json_wf (JObj p)" "query p = Inr rs"
  shows "distinct rs"
proof -
  obtain kvs where kvs: "items p = Inr kvs" using returns assms(2) by blast
  then have "distinct (map fst kvs)" using items_wf [OF assms(1) kvs] by simp
  then have "distinct (map fst (filter (\<lambda>(n, v). is_obj v \<and> selects (members v)) kvs))"
    by (rule distinct_map_filter)
  with query_lists [OF kvs] assms(2) show ?thesis by simp
qed

lemma selected:
  assumes "json_wf (JObj p)" "items p = Inr kvs" "query p = Inr rs"
  shows "n \<in> set rs \<longleftrightarrow> (\<exists>o'. dict_get kvs n = JObj o' \<and> selects o')"
proof -
  have d: "distinct (map fst kvs)" using items_wf [OF assms(1,2)] by simp
  have "n \<in> set rs \<longleftrightarrow> (\<exists>v. (n, v) \<in> set kvs \<and> is_obj v \<and> selects (members v))"
    using query_lists [OF assms(2)] assms(3) by force
  also have "\<dots> \<longleftrightarrow> (\<exists>o'. dict_get kvs n = JObj o' \<and> selects o')"
    using map_of_eq_Some_iff [OF d, symmetric] by (auto simp: dict_get_def is_obj_iff split: option.splits)
  finally show ?thesis .
qed

lemma within:
  assumes "json_wf (JObj p)" "items p = Inr kvs" "query p = Inr rs"
  shows "set rs \<subseteq> set (dict_keys kvs)"
  using selected [OF assms] dict_get_has by (fastforce simp: dict_has_keys [symmetric])

end

lemma section_wf:
  "json_wf (JObj p) \<Longrightarrow> bindE (dict_index p s) dict_of = Inr kvs \<Longrightarrow> json_wf (JObj kvs)"
  using json_wf_get [of p s] by (auto simp: run_ok simp del: json_wf.simps dest!: dict_get_map_of)

lemma profile_items_wf: "json_wf (JObj p) \<Longrightarrow> profile_items p = Inr kvs \<Longrightarrow> json_wf (JObj kvs)"
  unfolding profile_items_def by (rule section_wf)

lemma tree_items_wf: "json_wf (JObj p) \<Longrightarrow> tree_items p = Inr kvs \<Longrightarrow> json_wf (JObj kvs)"
  unfolding tree_items_def output_tree_policy_def
  using json_wf_get [of p "''output_trees''"] json_wf_get [of _ "''trees''"]
  by (auto simp: run_ok simp del: json_wf.simps dest!: dict_get_map_of) metis

lemmas query_defs = names_where_def release_authorizing_profiles_def publication_allowed_profiles_def
  operator_ingress_required_profiles_def release_tag_allowed_roots_def gitignore_required_roots_def
  operator_ingress_allowed_roots_def non_promotable_roots_def

interpretation authorizing: catalog_query profile_items release_authorizing_profiles
    "\<lambda>o'. dict_get o' ''release_authorizing'' = JBool True"
  by unfold_locales (simp_all add: query_defs profile_items_wf del: json_wf.simps)

interpretation publishing: catalog_query profile_items publication_allowed_profiles
    "\<lambda>o'. dict_get o' ''publication_allowed'' = JBool True"
  by unfold_locales (simp_all add: query_defs profile_items_wf del: json_wf.simps)

interpretation ingress: catalog_query profile_items operator_ingress_required_profiles
    "\<lambda>o'. dict_get o' ''operator_ingress_required'' = JBool True"
  by unfold_locales (simp_all add: query_defs profile_items_wf del: json_wf.simps)

interpretation taggable: catalog_query tree_items release_tag_allowed_roots
    "\<lambda>o'. dict_get o' ''release_tag_allowed'' = JBool True"
  by unfold_locales (simp_all add: query_defs tree_items_wf del: json_wf.simps)

interpretation ignored: catalog_query tree_items gitignore_required_roots
    "\<lambda>o'. dict_get o' ''gitignore_required'' = JBool True"
  by unfold_locales (simp_all add: query_defs tree_items_wf del: json_wf.simps)

interpretation operator: catalog_query tree_items operator_ingress_allowed_roots
    "\<lambda>o'. dict_get o' ''operator_ingress_allowed'' = JBool True"
  by unfold_locales (simp_all add: query_defs tree_items_wf del: json_wf.simps)

interpretation unpromotable: catalog_query tree_items non_promotable_roots
    "\<lambda>o'. dict_get o' ''promotable'' = JBool False"
  by unfold_locales (simp_all add: query_defs tree_items_wf del: json_wf.simps)

section \<open>Accepted payloads\<close>

lemma section_items: "dict_get p s = JObj kvs \<Longrightarrow> dict_index p s = Inr (JObj kvs)"
  using dict_index_get [of p s] by simp

lemma section_items_str: "dict_get p s = JStr v \<Longrightarrow> dict_index p s = Inr (JStr v)"
  using dict_index_get [of p s] by simp

lemma item_of_key: "k \<in> set (dict_keys kvs) \<Longrightarrow> (k, dict_get kvs k) \<in> set kvs"
  by (auto simp: dict_has_keys [symmetric] dict_has_def dict_get_def intro: map_of_SomeD)

locale accepted =
  fixes payload :: obj
  assumes wf: "json_wf (JObj payload)"
    and valid: "validate_contract payload = Inr ()"
begin

lemma profiles:
  obtains ps where "profile_items payload = Inr ps" "dict_get payload ''profiles'' = JObj ps"
    "json_wf (JObj ps)" "set (dict_keys ps) = set EXPECTED_PROFILES"
    "\<And>n v. (n, v) \<in> set ps \<Longrightarrow> check_profile (n, v) = Inr ()" "check_expected_values ps = Inr ()"
proof -
  obtain ps where ps: "dict_get payload ''profiles'' = JObj ps" "check_profile_catalog ps = Inr ()"
      "\<forall>np\<in>set ps. check_profile np = Inr ()" "check_expected_values ps = Inr ()"
    using valid by (auto simp: validate_contract_ok)
  have items: "profile_items payload = Inr ps"
    by (simp add: profile_items_def section_items [OF ps(1)])
  from that [OF items ps(1) profile_items_wf [OF wf items]] ps(2-4) show thesis
    by (simp add: check_profile_catalog_ok)
qed

lemma trees:
  obtains ts where "tree_items payload = Inr ts" "json_wf (JObj ts)"
    "set REQUIRED_TREES \<subseteq> set (dict_keys ts)" "\<And>nt. nt \<in> set ts \<Longrightarrow> well_formed_tree nt"
    "distinct (map (tree_template \<circ> snd) ts)" "check_dry_run_tree ts = Inr ()"
    "\<And>ps np. profile_items payload = Inr ps \<Longrightarrow> np \<in> set ps \<Longrightarrow> check_profile_roots ts np = Inr ()"
proof -
  obtain ps ts where ts: "check_output_trees (dict_get payload ''output_trees'') = Inr ts"
    and ps: "dict_get payload ''profiles'' = JObj ps" "\<forall>np\<in>set ps. check_profile_roots ts np = Inr ()"
    using valid by (auto simp: validate_contract_ok)
  from ts obtain ot seen where ot: "dict_get payload ''output_trees'' = JObj ot"
      "dict_get ot ''trees'' = JObj ts" "set REQUIRED_TREES \<subseteq> set (dict_keys ts)"
      "foldE check_tree [] ts = Inr seen" "check_dry_run_tree ts = Inr ()"
    by (auto simp: check_output_trees_ok)
  have items: "tree_items payload = Inr ts"
    by (simp add: tree_items_def output_tree_policy_def section_items [OF ot(1)] section_items [OF ot(2)])
  have "profile_items payload = Inr ps"
    by (simp add: profile_items_def section_items [OF ps(1)])
  with that [OF items tree_items_wf [OF wf items] ot(3)] trees_ok [OF ot(4)] ot(5) ps(2) show thesis
    by auto
qed

text \<open>One profile of the catalog: its fields and its output trees.\<close>

lemma profile:
  assumes "name \<in> set EXPECTED_PROFILES"
  obtains o' roots ts where "profile_policy name payload = Inr o'"
    "\<And>f. f \<in> set PROFILE_BOOL_FIELDS \<Longrightarrow> is_bool (dict_get o' f)"
    "dict_get o' ''required_output_trees'' = JArr (map JStr roots)"
    "tree_items payload = Inr ts" "set roots \<subseteq> set (dict_keys ts)"
    "dict_get o' ''subject_graph_required'' = JBool True \<Longrightarrow> ''release-subject-graph'' \<in> set roots"
    "dict_get o' ''gap_report_required'' = JBool True \<Longrightarrow> ''release-dry-run'' \<in> set roots"
proof -
  obtain ps where ps: "profile_items payload = Inr ps" "dict_get payload ''profiles'' = JObj ps"
      "set (dict_keys ps) = set EXPECTED_PROFILES" "\<And>n v. (n, v) \<in> set ps \<Longrightarrow> check_profile (n, v) = Inr ()"
    using profiles by metis
  have item: "(name, dict_get ps name) \<in> set ps"
    by (rule item_of_key) (simp add: ps(3) assms)
  obtain o' where o': "dict_get ps name = JObj o'" "\<And>f. f \<in> set PROFILE_BOOL_FIELDS \<Longrightarrow> is_bool (dict_get o' f)"
    using ps(4) [OF item] by (auto simp: check_profile_ok)
  obtain ts where ts: "tree_items payload = Inr ts" "check_profile_roots ts (name, JObj o') = Inr ()"
    using trees ps(1) item o'(1) by metis
  have "profile_policy name payload = Inr o'"
    using ps(2) o'(1) dict_get_or_def [of payload] dict_get_def [of payload]
    by (auto simp: profile_policy_def split: option.splits)
  with that [OF _ o'(2) _ ts(1)] ts(2) show thesis
    by (auto simp: check_profile_roots_ok dict_has_keys)
qed

lemma pinned:
  assumes "profile_items payload = Inr ps" "(name, expected) \<in> set EXPECTED_PROFILE_VALUES"
  obtains o' where "dict_get ps name = JObj o'" "\<And>f b. (f, b) \<in> set expected \<Longrightarrow> dict_get o' f = JBool b"
proof -
  have "check_expected_values ps = Inr ()"
    using profiles assms(1) by (metis Inr_inject)
  with assms(2) that show thesis by (fastforce simp: check_expected_values_ok)
qed

lemma tree:
  assumes "tree_items payload = Inr ts" "dict_has ts r"
  obtains o' where "dict_get ts r = JObj o'" "well_formed_tree (r, JObj o')"
proof -
  have "well_formed_tree (r, dict_get ts r)"
    using trees assms item_of_key [of r ts] by (metis Inr_inject dict_has_keys)
  then obtain o' where "dict_get ts r = JObj o'" by (auto simp: well_formed_tree_def)
  with that \<open>well_formed_tree (r, dict_get ts r)\<close> show thesis by simp
qed

lemma policy_iff:
  assumes "profile_items payload = Inr ps"
  shows "profile_policy n payload = Inr o' \<longleftrightarrow> dict_get ps n = JObj o'"
proof -
  have "dict_index payload ''profiles'' = Inr (JObj ps)"
    using assms by (auto simp: profile_items_def run_ok)
  then have "dict_get_or payload ''profiles'' (JObj []) = JObj ps"
    by (simp add: run_ok dict_get_or_def)
  then show ?thesis by (simp add: profile_policy_def split: json.splits)
qed

end

end
