(* ===== verification/ContractSample.thy ===== *)
theory ContractSample
  imports ContractAccepted
begin

text \<open>
  The document \<open>ci/evidence-contract.yml\<close> of the repository, member by member, as the obj that
  \<open>json.loads\<close> returns for it, and the facts that the witnesses of the contract's properties
  rest on: it is well formed, and \<open>validate_contract\<close> accepts it.
\<close>

section \<open>The document\<close>

definition c_schema_versions :: obj where
  "c_schema_versions = [(''hsm_signing_session'', JStr ''suderra.hsm-signing-session.v2''),
    (''lab_evidence'', JStr ''suderra.lab-evidence.v3''),
    (''machine_verification'', JStr ''suderra.machine-verification.v3''),
    (''hardware_subject'', JStr ''suderra.hardware-subject.v1''),
    (''ota_artifacts'', JStr ''suderra.ota-artifacts.v1''),
    (''ota_target_contract'', JStr ''suderra.ota-target-contract.v1''),
    (''production_runtime_suite'', JStr ''suderra.qemu-production-runtime-suite.v2''),
    (''release_evidence'', JStr ''suderra.release-evidence.v6''),
    (''release_security_report'', JStr ''suderra.release-security-report.v2''),
    (''release_subject_graph'', JStr ''suderra.release-subject-graph.v1''),
    (''retention_manifest'', JStr ''suderra.retention-manifest.v1''),
    (''runtime_observation'', JStr ''suderra.runtime-observation.v1''),
    (''signing_manifest'', JStr ''suderra.signing-manifest.v2''),
    (''governance_role_bindings'', JStr ''suderra.governance-role-bindings.v1''),
    (''station_acquisition'', JStr ''suderra.station-acquisition.v2'')]"

definition c_profiles :: obj where
  "c_profiles = [(''ci'', JObj [(''production_candidate'', JBool False),
     (''prerelease_only'', JBool False),
     (''release_authorizing'', JBool False),
     (''publication_allowed'', JBool False),
     (''strict_artifact_binding'', JBool False),
     (''subject_graph_required'', JBool False),
     (''gap_report_required'', JBool False),
     (''operator_ingress_required'', JBool False),
     (''required_output_trees'', JArr [])]),
    (''dev'', JObj [(''production_candidate'', JBool False),
     (''prerelease_only'', JBool False),
     (''release_authorizing'', JBool False),
     (''publication_allowed'', JBool False),
     (''strict_artifact_binding'', JBool False),
     (''subject_graph_required'', JBool False),
     (''gap_report_required'', JBool False),
     (''operator_ingress_required'', JBool False),
     (''required_output_trees'', JArr [])]),
    (''ga'', JObj [(''production_candidate'', JBool True),
     (''prerelease_only'', JBool False),
     (''release_authorizing'', JBool True),
     (''publication_allowed'', JBool True),
     (''strict_artifact_binding'', JBool True),
     (''subject_graph_required'', JBool True),
     (''gap_report_required'', JBool False),
     (''operator_ingress_required'', JBool True),
     (''required_output_trees'', JArr [JStr ''release-subject-graph''])]),
    (''technical-dry-run'', JObj [(''production_candidate'', JBool False),
     (''prerelease_only'', JBool False),
     (''release_authorizing'', JBool False),
     (''publication_allowed'', JBool False),
     (''strict_artifact_binding'', JBool False),
     (''subject_graph_required'', JBool False),
     (''gap_report_required'', JBool False),
     (''operator_ingress_required'', JBool False),
     (''required_output_trees'', JArr [])]),
    (''rc-evidence-dry-run'', JObj [(''production_candidate'', JBool False),
     (''prerelease_only'', JBool True),
     (''release_authorizing'', JBool False),
     (''publication_allowed'', JBool False),
     (''strict_artifact_binding'', JBool True),
     (''subject_graph_required'', JBool True),
     (''gap_report_required'', JBool True),
     (''operator_ingress_required'', JBool False),
     (''required_output_trees'', JArr [JStr ''release-subject-graph'', JStr ''release-dry-run''])]),
    (''release-candidate'', JObj [(''production_candidate'', JBool False),
     (''prerelease_only'', JBool True),
     (''release_authorizing'', JBool True),
     (''publication_allowed'', JBool True),
     (''strict_artifact_binding'', JBool False),
     (''subject_graph_required'', JBool True),
     (''gap_report_required'', JBool False),
     (''operator_ingress_required'', JBool True),
     (''required_output_trees'', JArr [JStr ''release-subject-graph''])]),
    (''production-candidate'', JObj [(''production_candidate'', JBool True),
     (''prerelease_only'', JBool False),
     (''release_authorizing'', JBool True),
     (''publication_allowed'', JBool True),
     (''strict_artifact_binding'', JBool True),
     (''subject_graph_required'', JBool True),
     (''gap_report_required'', JBool False),
     (''operator_ingress_required'', JBool True),
     (''required_output_trees'', JArr [JStr ''release-subject-graph''])])]"

definition c_output_trees :: obj where
  "c_output_trees = [(''schema_version'', JStr ''suderra.output-tree-policy.v1''),
    (''trees'', JObj [(''build-artifacts'', JObj [(''path_template'', JStr ''build-artifacts''),
      (''schema_role'', JStr ''image_build_artifacts''),
      (''required_by_default'', JBool True),
      (''promotable'', JBool True),
      (''operator_ingress_allowed'', JBool False),
      (''release_tag_allowed'', JBool True),
      (''dry_run_input_allowed'', JBool False),
      (''gitignore_required'', JBool False)]),
     (''release-inputs'', JObj [(''path_template'', JStr ''release-inputs/{version}''),
      (''schema_role'', JStr ''release_input_binding''),
      (''required_by_default'', JBool True),
      (''promotable'', JBool True),
      (''operator_ingress_allowed'', JBool False),
      (''release_tag_allowed'', JBool True),
      (''dry_run_input_allowed'', JBool True),
      (''gitignore_required'', JBool False)]),
     (''release-ingress'', JObj [(''path_template'', JStr ''release-ingress/{version}''),
      (''schema_role'', JStr ''release_ingress''),
      (''required_by_default'', JBool True),
      (''promotable'', JBool True),
      (''operator_ingress_allowed'', JBool False),
      (''release_tag_allowed'', JBool True),
      (''dry_run_input_allowed'', JBool True),
      (''gitignore_required'', JBool True)]),
     (''release-subject-graph'', JObj [(''path_template'', JStr ''release-subject-graph/{version}''),
      (''schema_role'', JStr ''release_subject_graph''),
      (''required_by_default'', JBool False),
      (''promotable'', JBool True),
      (''operator_ingress_allowed'', JBool False),
      (''release_tag_allowed'', JBool True),
      (''dry_run_input_allowed'', JBool True),
      (''gitignore_required'', JBool True)]),
     (''release-dry-run'', JObj [(''path_template'', JStr ''release-dry-run/{version}''),
      (''schema_role'', JStr ''rc_evidence_dry_run''),
      (''required_by_default'', JBool False),
      (''promotable'', JBool False),
      (''operator_ingress_allowed'', JBool False),
      (''release_tag_allowed'', JBool False),
      (''dry_run_input_allowed'', JBool True),
      (''gitignore_required'', JBool True)]),
     (''release-lab-input'', JObj [(''path_template'', JStr ''release-lab-input/{version}''),
      (''schema_role'', JStr ''lab_input''),
      (''required_by_default'', JBool False),
      (''promotable'', JBool True),
      (''operator_ingress_allowed'', JBool True),
      (''release_tag_allowed'', JBool True),
      (''dry_run_input_allowed'', JBool False),
      (''gitignore_required'', JBool True)]),
     (''release-governance'', JObj [(''path_template'', JStr ''release-governance/{version}''),
      (''schema_role'', JStr ''governance_snapshot''),
      (''required_by_default'', JBool False),
      (''promotable'', JBool True),
      (''operator_ingress_allowed'', JBool True),
      (''release_tag_allowed'', JBool True),
      (''dry_run_input_allowed'', JBool True),
      (''gitignore_required'', JBool True)]),
     (''release-runtime'', JObj [(''path_template'', JStr ''release-runtime/{version}''),
      (''schema_role'', JStr ''production_runtime''),
      (''required_by_default'', JBool False),
      (''promotable'', JBool True),
      (''operator_ingress_allowed'', JBool True),
      (''release_tag_allowed'', JBool True),
      (''dry_run_input_allowed'', JBool False),
      (''gitignore_required'', JBool True)]),
     (''release-signing'', JObj [(''path_template'', JStr ''release-signing/{version}''),
      (''schema_role'', JStr ''signing_evidence''),
      (''required_by_default'', JBool False),
      (''promotable'', JBool True),
      (''operator_ingress_allowed'', JBool True),
      (''release_tag_allowed'', JBool True),
      (''dry_run_input_allowed'', JBool False),
      (''gitignore_required'', JBool True)]),
     (''release-retention'', JObj [(''path_template'', JStr ''release-retention/{version}''),
      (''schema_role'', JStr ''retention_evidence''),
      (''required_by_default'', JBool False),
      (''promotable'', JBool True),
      (''operator_ingress_allowed'', JBool True),
      (''release_tag_allowed'', JBool True),
      (''dry_run_input_allowed'', JBool False),
      (''gitignore_required'', JBool True)]),
     (''release-ota'', JObj [(''path_template'', JStr ''release-ota/{version}''),
      (''schema_role'', JStr ''ota_evidence''),
      (''required_by_default'', JBool False),
      (''promotable'', JBool True),
      (''operator_ingress_allowed'', JBool True),
      (''release_tag_allowed'', JBool True),
      (''dry_run_input_allowed'', JBool False),
      (''gitignore_required'', JBool True)]),
     (''release-approvals'', JObj [(''path_template'', JStr ''release-approvals/{version}''),
      (''schema_role'', JStr ''release_approval''),
      (''required_by_default'', JBool False),
      (''promotable'', JBool True),
      (''operator_ingress_allowed'', JBool True),
      (''release_tag_allowed'', JBool True),
      (''dry_run_input_allowed'', JBool False),
      (''gitignore_required'', JBool True)]),
     (''release-security'', JObj [(''path_template'', JStr ''release-security/{version}''),
      (''schema_role'', JStr ''security_evidence''),
      (''required_by_default'', JBool False),
      (''promotable'', JBool True),
      (''operator_ingress_allowed'', JBool True),
      (''release_tag_allowed'', JBool True),
      (''dry_run_input_allowed'', JBool True),
      (''gitignore_required'', JBool True)]),
     (''release-reproducibility'', JObj [(''path_template'', JStr ''release-reproducibility/{version}''),
      (''schema_role'', JStr ''reproducibility_evidence''),
      (''required_by_default'', JBool False),
      (''promotable'', JBool True),
      (''operator_ingress_allowed'', JBool True),
      (''release_tag_allowed'', JBool True),
      (''dry_run_input_allowed'', JBool False),
      (''gitignore_required'', JBool True)])])]"

definition c_subjects :: obj where
  "c_subjects = [(''schema_version'', JStr ''suderra.release-subject-graph.v1''),
    (''subject_id_template'', JStr ''suderra-release:{version}:{target}:{source_sha}:{source_run_id}''),
    (''identity_fields'', JArr [JStr ''version'', JStr ''source_sha'', JStr ''source_run_id'', JStr ''target'', JStr ''defconfig'']),
    (''artifact_fields'', JArr [JStr ''raw_image_sha256'', JStr ''raw_image_bytes'', JStr ''compressed_artifact_sha256'', JStr ''compressed_artifact_bytes'']),
    (''required_subject_exports'', JObj [(''release-inputs'', JStr ''release-inputs/{version}/{profile}.json''),
     (''release-subject-graph'', JStr ''release-subject-graph/{version}/release-subject-graph.json''),
     (''release-runtime'', JStr ''release-runtime/{version}/{target}/production-runtime.json''),
     (''release-signing'', JStr ''release-signing/{version}/{target}/signing-manifest.json''),
     (''release-lab-input'', JStr ''release-lab-input/{version}/{target}/hardware-subject.json''),
     (''release-security'', JStr ''release-security/{version}/{scan}.json''),
     (''release-governance'', JStr ''release-governance/{version}/role-bindings.json''),
     (''release-retention'', JStr ''release-retention/{version}/retention-manifest.json''),
     (''release-ota'', JStr ''release-ota/{version}/{target}/ota-artifacts.json'')]),
    (''join_requirements'', JObj [(''fail_closed_on_unknown_target'', JBool True),
     (''runtime_required_targets_require_suite'', JBool True),
     (''signing_required_targets_require_manifest'', JBool True),
     (''hardware_required_targets_require_subject'', JBool True),
     (''release_public_must_match_matrix_release'', JBool True),
     (''all_evidence_must_bind_subject_id'', JBool True)]),
    (''subject_roles'', JArr [JStr ''build-input'', JStr ''raw-image'', JStr ''compressed-release-artifact'', JStr ''runtime-suite'', JStr ''signing-manifest'', JStr ''hardware-subject'', JStr ''security-report'', JStr ''governance-snapshot'', JStr ''retention-manifest'', JStr ''ota-artifacts''])]"

definition c_runtime :: obj where
  "c_runtime = [(''observation_authority'', JObj [(''schema_version'', JStr ''suderra.runtime-observation.v1''),
     (''observed_outcome_sources'', JArr [JStr ''serial-marker'', JStr ''guest-semantic'', JStr ''secure-boot-event'', JStr ''kernel-verity-event'', JStr ''suderra-ota-event'', JStr ''qmp-events'']),
     (''forbidden_sources'', JArr [JStr ''expected-outcome'', JStr ''scenario-contract'', JStr ''manual-copy'']),
     (''raw_replay_required'', JBool True)]),
    (''required_checks'', JArr [JStr ''secure_boot'', JStr ''dm_verity'', JStr ''dm_verity_tamper'', JStr ''rauc_good_update'', JStr ''rauc_bad_signature'', JStr ''rauc_health_rollback'', JStr ''anti_rollback'', JStr ''data_luks'', JStr ''lockdown'', JStr ''nmap'', JStr ''systemd_security'']),
    (''required_scenarios'', JArr [JStr ''signed-boot'', JStr ''unsigned-boot-rejection'', JStr ''cmdline-tamper-rejection'', JStr ''dm-verity-rootfs-tamper-rejection'', JStr ''rauc-good-update'', JStr ''rauc-bad-signature-rejection'', JStr ''rauc-health-rollback'', JStr ''anti-rollback-downgrade-rejection'', JStr ''data-luks-swtpm'']),
    (''scenario_to_checks'', JObj [(''anti-rollback-downgrade-rejection'', JArr [JStr ''anti_rollback'']),
     (''data-luks-swtpm'', JArr [JStr ''data_luks'']),
     (''dm-verity-rootfs-tamper-rejection'', JArr [JStr ''dm_verity_tamper'']),
     (''rauc-bad-signature-rejection'', JArr [JStr ''rauc_bad_signature'']),
     (''rauc-good-update'', JArr [JStr ''rauc_good_update'']),
     (''rauc-health-rollback'', JArr [JStr ''rauc_health_rollback'']),
     (''signed-boot'', JArr [JStr ''secure_boot'', JStr ''dm_verity'', JStr ''lockdown'', JStr ''nmap'', JStr ''systemd_security''])]),
    (''scenario_contracts'', JObj [(''anti-rollback-downgrade-rejection'', JObj [(''expected_outcome'', JStr ''userspace-rejected''),
      (''guest_facts_required'', JBool False),
      (''mutation_target'', JStr ''manifest''),
      (''mutation_type'', JStr ''rollback-floor''),
      (''observation_source'', JArr [JStr ''serial'', JStr ''qmp-events'']),
      (''observed_layer'', JStr ''userspace''),
      (''required_log_roles'', JArr [JStr ''serial'', JStr ''qmp-events''])]),
     (''cmdline-tamper-rejection'', JObj [(''expected_outcome'', JStr ''kernel-rejected''),
      (''guest_facts_required'', JBool False),
      (''mutation_target'', JStr ''uki-cmdline''),
      (''mutation_type'', JStr ''signed-cmdline''),
      (''observation_source'', JArr [JStr ''serial'', JStr ''qmp-events'']),
      (''observed_layer'', JStr ''kernel''),
      (''required_log_roles'', JArr [JStr ''serial'', JStr ''qmp-events''])]),
     (''data-luks-swtpm'', JObj [(''expected_outcome'', JStr ''booted''),
      (''guest_facts_required'', JBool True),
      (''mutation_target'', JStr ''data''),
      (''mutation_type'', JStr ''swtpm-state''),
      (''observation_source'', JArr [JStr ''serial'', JStr ''qmp-events'', JStr ''guest-semantic'']),
      (''observed_layer'', JStr ''storage''),
      (''required_log_roles'', JArr [JStr ''serial'', JStr ''qmp-events''])]),
     (''dm-verity-rootfs-tamper-rejection'', JObj [(''expected_outcome'', JStr ''kernel-rejected''),
      (''guest_facts_required'', JBool False),
      (''mutation_target'', JStr ''rootfs''),
      (''mutation_type'', JStr ''rootfs-tamper''),
      (''observation_source'', JArr [JStr ''serial'', JStr ''qmp-events'']),
      (''observed_layer'', JStr ''kernel''),
      (''required_log_roles'', JArr [JStr ''serial'', JStr ''qmp-events''])]),
     (''rauc-bad-signature-rejection'', JObj [(''expected_outcome'', JStr ''userspace-rejected''),
      (''guest_facts_required'', JBool False),
      (''mutation_target'', JStr ''bundle''),
      (''mutation_type'', JStr ''rauc-signature''),
      (''observation_source'', JArr [JStr ''serial'', JStr ''qmp-events'']),
      (''observed_layer'', JStr ''userspace''),
      (''required_log_roles'', JArr [JStr ''serial'', JStr ''qmp-events''])]),
     (''rauc-good-update'', JObj [(''expected_outcome'', JStr ''booted''),
      (''guest_facts_required'', JBool True),
      (''mutation_target'', JStr ''inactive-slot''),
      (''mutation_type'', JStr ''rauc-install''),
      (''observation_source'', JArr [JStr ''serial'', JStr ''qmp-events'', JStr ''guest-semantic'']),
      (''observed_layer'', JStr ''userspace''),
      (''required_log_roles'', JArr [JStr ''serial'', JStr ''qmp-events''])]),
     (''rauc-health-rollback'', JObj [(''expected_outcome'', JStr ''rollback-completed''),
      (''guest_facts_required'', JBool True),
      (''mutation_target'', JStr ''health-gate''),
      (''mutation_type'', JStr ''rauc-health''),
      (''observation_source'', JArr [JStr ''serial'', JStr ''qmp-events'', JStr ''guest-semantic'']),
      (''observed_layer'', JStr ''userspace''),
      (''required_log_roles'', JArr [JStr ''serial'', JStr ''qmp-events''])]),
     (''signed-boot'', JObj [(''expected_outcome'', JStr ''booted''),
      (''guest_facts_required'', JBool True),
      (''mutation_target'', JStr ''none''),
      (''mutation_type'', JStr ''none''),
      (''observation_source'', JArr [JStr ''serial'', JStr ''qmp-events'', JStr ''guest-semantic'']),
      (''observed_layer'', JStr ''runtime''),
      (''required_log_roles'', JArr [JStr ''serial'', JStr ''qmp-events''])]),
     (''unsigned-boot-rejection'', JObj [(''expected_outcome'', JStr ''firmware-rejected''),
      (''guest_facts_required'', JBool False),
      (''mutation_target'', JStr ''uki''),
      (''mutation_type'', JStr ''secureboot-signature''),
      (''observation_source'', JArr [JStr ''serial'', JStr ''qmp-events'']),
      (''observed_layer'', JStr ''firmware''),
      (''required_log_roles'', JArr [JStr ''serial'', JStr ''qmp-events''])])]),
    (''suite_targets'', JObj [(''pi-cm4-revpi-usb-installer'', JArr []),
     (''qemu-x86_64'', JArr []),
     (''qemu-x86_64-prod-ab'', JArr [JStr ''qemu-x86_64-prod-ab'']),
     (''revpi4'', JArr []),
     (''rpi4'', JArr []),
     (''x86_64'', JArr [JStr ''qemu-x86_64-prod-ab''])])]"

definition c_hardware :: obj where
  "c_hardware = [(''adapter_roles'', JArr [JStr ''flash'', JStr ''readback'', JStr ''uart'', JStr ''power'', JStr ''storage'', JStr ''tpm'', JStr ''secure-boot'', JStr ''rauc'', JStr ''tamper'']),
    (''subject_binding'', JObj [(''schema_version'', JStr ''suderra.hardware-subject.v1''),
     (''required_fields'', JArr [JStr ''subject_id'', JStr ''version'', JStr ''target'', JStr ''source_sha'', JStr ''source_run_id'', JStr ''raw_image_sha256'', JStr ''compressed_artifact_sha256'', JStr ''station_acquisition_event_id'', JStr ''station_id'', JStr ''device_identity'', JStr ''storage_by_id'', JStr ''fixture_id'', JStr ''adapter_inventory_sha256'', JStr ''readback_sha256'']),
     (''producer_source'', JStr ''station-acquisition''),
     (''readback_must_match_build_subject'', JBool True),
     (''station_registry_required'', JBool True),
     (''adapter_inventory_must_match_registry'', JBool True),
     (''station_acquisition_event_required'', JBool True)]),
    (''required_boards_by_target'', JObj [(''pi-cm4-revpi-usb-installer'', JArr [JStr ''raspberry-pi-4-model-b'', JStr ''cm4-lite-sd'', JStr ''cm4-emmc-io-board'', JStr ''revpi-connect-4'']),
     (''revpi4'', JArr [JStr ''revpi-connect-4'']),
     (''revpi4-prod-ab'', JArr [JStr ''revpi-connect-4'']),
     (''rpi4'', JArr [JStr ''raspberry-pi-4-model-b'', JStr ''cm4-lite-sd'', JStr ''cm4-emmc-io-board'']),
     (''rpi4-prod-ab'', JArr [JStr ''raspberry-pi-4-model-b'', JStr ''cm4-lite-sd'', JStr ''cm4-emmc-io-board'']),
     (''x86_64'', JArr [JStr ''industrial-x86_64''])]),
    (''required_checks'', JArr [JStr ''board-identity'', JStr ''artifact-hash'', JStr ''flash-transcript'', JStr ''full-readback-hash'', JStr ''serial-boot-log'', JStr ''post-install-boot'', JStr ''partitions'', JStr ''root-data-mounts'', JStr ''network'', JStr ''listeners'', JStr ''failed-units'', JStr ''thermal'', JStr ''watchdog'']),
    (''x86_required_checks'', JArr [JStr ''tpm-presence'', JStr ''secure-boot-enforced'', JStr ''rauc-rollback'', JStr ''dm-verity-tamper-rejection'', JStr ''boot-tamper-rejection'', JStr ''power-cycle-transcript'']),
    (''x86_required_negative_tests'', JArr [JStr ''dm-verity-rootfs-tamper'', JStr ''secure-boot-unsigned-uki'', JStr ''rauc-health-rollback''])]"

definition c_signing :: obj where
  "c_signing = [(''manifest_schema_version'', JStr ''suderra.signing-manifest.v2''),
    (''request_schema_version'', JStr ''suderra.signing-request.v1''),
    (''manifest_required_fields'', JArr [JStr ''schema_version'', JStr ''subject_id'', JStr ''version'', JStr ''target'', JStr ''source_sha'', JStr ''source_run_id'', JStr ''roles'']),
    (''role_required_fields'', JArr [JStr ''role'', JStr ''input_sha256'', JStr ''output_sha256'', JStr ''certificate_sha256'', JStr ''pkcs11_uri'', JStr ''hsm_serial'', JStr ''key_id'', JStr ''challenge_transcript_sha256'', JStr ''challenge_signature_sha256'', JStr ''artifact_signature_sha256'', JStr ''artifact_path'', JStr ''artifact_bytes'', JStr ''verifier'', JStr ''replay_status'']),
    (''digest_semantics'', JObj [(''input_sha256'', JStr ''bytes-before-role-signature''),
     (''output_sha256'', JStr ''final-signed-artifact-bytes''),
     (''certificate_sha256'', JStr ''signing-certificate-bytes''),
     (''challenge_transcript_sha256'', JStr ''canonical challenge transcript replay bytes''),
     (''artifact_signature_sha256'', JStr ''detached or embedded signature bytes''),
     (''artifact_path'', JStr ''relative final artifact path inside the governed signing output set''),
     (''artifact_bytes'', JStr ''final signed artifact byte length'')]),
    (''replay_requirements'', JObj [(''certificate_key_match_required'', JBool True),
     (''challenge_signature_replay_required'', JBool True),
     (''artifact_signature_replay_required'', JBool True),
     (''transcript_digest_replay_required'', JBool True),
     (''software_hsm_rejected_for_production'', JBool True),
     (''approved_provider_allowlist_enforced'', JBool True),
     (''approved_provider_allowlist'', JArr [JStr ''yubihsm'', JStr ''thales luna'', JStr ''entrust nshield'', JStr ''utimaco'', JStr ''aws cloudhsm'', JStr ''nitrokey hsm'', JStr ''marvell liquidsecurity''])]),
    (''role_bindings'', JObj [(''os-update-manifest'', JObj [(''digest_source'', JStr ''manifest-json''),
      (''required_for_ota_capable'', JBool True),
      (''final_digest_field'', JStr ''output_sha256''),
      (''input_digest_field'', JStr ''input_sha256'')]),
     (''rauc-bundle'', JObj [(''digest_source'', JStr ''final-raucb''),
      (''required_for_ota_capable'', JBool True),
      (''final_digest_field'', JStr ''output_sha256''),
      (''input_digest_field'', JStr ''input_sha256'')]),
     (''release-artifact'', JObj [(''digest_source'', JStr ''release-input-binding''),
      (''required_for_release_public'', JBool True),
      (''final_digest_field'', JStr ''output_sha256''),
      (''input_digest_field'', JStr ''input_sha256'')]),
     (''release-image'', JObj [(''digest_source'', JStr ''release-input-binding''),
      (''required_for_release_public'', JBool True),
      (''final_digest_field'', JStr ''output_sha256''),
      (''input_digest_field'', JStr ''input_sha256'')])]),
    (''signed_artifact_roles'', JArr [JStr ''rauc-bundle'', JStr ''release-artifact'', JStr ''release-image'', JStr ''os-update-manifest''])]"

definition c_ota :: obj where
  "c_ota = [(''target_contract_schema_version'', JStr ''suderra.ota-target-contract.v1''),
    (''targets'', JObj [(''pi-cm4-revpi-usb-installer'', JObj [(''backend'', JStr ''none''),
      (''boot_backend'', JStr ''provisioning-only''),
      (''compatible'', JStr ''suderra-os-installer''),
      (''bundle_artifacts'', JArr []),
      (''health_policy'', JStr ''provisioning-only''),
      (''health_checks'', JArr []),
      (''lifecycle'', JStr ''provisioning-only''),
      (''mark_good_policy'', JStr ''not-applicable''),
      (''ota_capable'', JBool False),
      (''rollback_state'', JStr ''not-applicable''),
      (''rollback_storage'', JStr ''not-applicable''),
      (''slot_labels'', JArr []),
      (''verity_devices'', JArr [])]),
     (''qemu-x86_64'', JObj [(''backend'', JStr ''none''),
      (''boot_backend'', JStr ''qemu-smoke''),
      (''compatible'', JStr ''suderra-os-qemu-x86_64''),
      (''bundle_artifacts'', JArr []),
      (''health_policy'', JStr ''qemu-acceptance-only''),
      (''health_checks'', JArr []),
      (''lifecycle'', JStr ''development-release''),
      (''mark_good_policy'', JStr ''not-applicable''),
      (''ota_capable'', JBool False),
      (''rollback_state'', JStr ''not-applicable''),
      (''rollback_storage'', JStr ''not-applicable''),
      (''slot_labels'', JArr []),
      (''verity_devices'', JArr [])]),
     (''qemu-x86_64-prod-ab'', JObj [(''backend'', JStr ''grub-rauc''),
      (''boot_backend'', JStr ''grub-rauc''),
      (''compatible'', JStr ''suderra-os-x86_64''),
      (''bundle_artifacts'', JArr [JStr ''suderra-os-{version}-{target}.raucb'', JStr ''suderra-os-update-manifest.json'']),
      (''health_policy'', JStr ''production-runtime''),
      (''health_checks'', JArr [JStr ''booted-inactive-slot'', JStr ''rauc-status-active'', JStr ''dm-verity-active'', JStr ''data-luks-open'', JStr ''rollback-floor-current'']),
      (''lifecycle'', JStr ''production-runtime-evidence''),
      (''mark_good_policy'', JStr ''health-gate-before-rauc-mark-good''),
      (''ota_capable'', JBool True),
      (''rollback_state'', JStr ''tpm-nv-required''),
      (''rollback_storage'', JStr ''tpm-nv-or-bootloader-monotonic''),
      (''slot_labels'', JArr [JStr ''rootfs-a'', JStr ''rootfs-b'']),
      (''verity_devices'', JArr [JStr ''rootfs-a-verity'', JStr ''rootfs-b-verity''])]),
     (''revpi4'', JObj [(''backend'', JStr ''none''),
      (''boot_backend'', JStr ''provisioning-only''),
      (''compatible'', JStr ''suderra-os-revpi4''),
      (''bundle_artifacts'', JArr []),
      (''health_policy'', JStr ''provisioning-only''),
      (''health_checks'', JArr []),
      (''lifecycle'', JStr ''provisioning-only''),
      (''mark_good_policy'', JStr ''not-applicable''),
      (''ota_capable'', JBool False),
      (''rollback_state'', JStr ''not-applicable''),
      (''rollback_storage'', JStr ''not-applicable''),
      (''slot_labels'', JArr []),
      (''verity_devices'', JArr [])]),
     (''rpi4'', JObj [(''backend'', JStr ''none''),
      (''boot_backend'', JStr ''provisioning-only''),
      (''compatible'', JStr ''suderra-os-rpi4''),
      (''bundle_artifacts'', JArr []),
      (''health_policy'', JStr ''provisioning-only''),
      (''health_checks'', JArr []),
      (''lifecycle'', JStr ''provisioning-only''),
      (''mark_good_policy'', JStr ''not-applicable''),
      (''ota_capable'', JBool False),
      (''rollback_state'', JStr ''not-applicable''),
      (''rollback_storage'', JStr ''not-applicable''),
      (''slot_labels'', JArr []),
      (''verity_devices'', JArr [])]),
     (''rpi4-prod-ab'', JObj [(''backend'', JStr ''uboot-rauc''),
      (''boot_backend'', JStr ''uboot-rauc''),
      (''compatible'', JStr ''suderra-os-aarch64''),
      (''bundle_artifacts'', JArr [JStr ''suderra-os-{version}-{target}.raucb'', JStr ''suderra-os-update-manifest.json'']),
      (''health_policy'', JStr ''production-runtime''),
      (''health_checks'', JArr [JStr ''booted-inactive-slot'', JStr ''rauc-status-active'', JStr ''dm-verity-active'', JStr ''data-luks-open'', JStr ''rollback-floor-current'']),
      (''lifecycle'', JStr ''production''),
      (''mark_good_policy'', JStr ''health-gate-before-rauc-mark-good''),
      (''ota_capable'', JBool True),
      (''rollback_state'', JStr ''uboot-env-monotonic-required''),
      (''rollback_storage'', JStr ''uboot-env-monotonic''),
      (''slot_labels'', JArr [JStr ''rootfs-a'', JStr ''rootfs-b'']),
      (''verity_devices'', JArr [JStr ''rootfs-a-verity'', JStr ''rootfs-b-verity''])]),
     (''revpi4-prod-ab'', JObj [(''backend'', JStr ''uboot-rauc''),
      (''boot_backend'', JStr ''uboot-rauc''),
      (''compatible'', JStr ''suderra-os-aarch64''),
      (''bundle_artifacts'', JArr [JStr ''suderra-os-{version}-{target}.raucb'', JStr ''suderra-os-update-manifest.json'']),
      (''health_policy'', JStr ''production-runtime''),
      (''health_checks'', JArr [JStr ''booted-inactive-slot'', JStr ''rauc-status-active'', JStr ''dm-verity-active'', JStr ''data-luks-open'', JStr ''rollback-floor-current'']),
      (''lifecycle'', JStr ''production''),
      (''mark_good_policy'', JStr ''health-gate-before-rauc-mark-good''),
      (''ota_capable'', JBool True),
      (''rollback_state'', JStr ''uboot-env-monotonic-required''),
      (''rollback_storage'', JStr ''uboot-env-monotonic''),
      (''slot_labels'', JArr [JStr ''rootfs-a'', JStr ''rootfs-b'']),
      (''verity_devices'', JArr [JStr ''rootfs-a-verity'', JStr ''rootfs-b-verity''])]),
     (''x86_64'', JObj [(''backend'', JStr ''grub-rauc''),
      (''boot_backend'', JStr ''grub-rauc''),
      (''compatible'', JStr ''suderra-os-x86_64''),
      (''bundle_artifacts'', JArr [JStr ''suderra-os-{version}-{target}.raucb'', JStr ''suderra-os-update-manifest.json'']),
      (''health_policy'', JStr ''production-runtime''),
      (''health_checks'', JArr [JStr ''booted-inactive-slot'', JStr ''rauc-status-active'', JStr ''dm-verity-active'', JStr ''data-luks-open'', JStr ''rollback-floor-current'']),
      (''lifecycle'', JStr ''production''),
      (''mark_good_policy'', JStr ''health-gate-before-rauc-mark-good''),
      (''ota_capable'', JBool True),
      (''rollback_state'', JStr ''tpm-nv-required''),
      (''rollback_storage'', JStr ''tpm-nv-or-bootloader-monotonic''),
      (''slot_labels'', JArr [JStr ''rootfs-a'', JStr ''rootfs-b'']),
      (''verity_devices'', JArr [JStr ''rootfs-a-verity'', JStr ''rootfs-b-verity''])])])]"

definition c_retention :: obj where
  "c_retention = [(''manifest_schema_version'', JStr ''suderra.retention-manifest.v1''),
    (''policy_id'', JStr ''suderra-enterprise-7y-immutable-evidence''),
    (''minimum_years'', JInt 7),
    (''store_class'', JStr ''immutable-encrypted-evidence-archive''),
    (''kms_required'', JBool True),
    (''legal_hold_supported'', JBool True),
    (''access_log_required'', JBool True),
    (''required_replay'', JArr [JStr ''release-input-binding'', JStr ''runtime-suite'', JStr ''hsm-signing-manifest'', JStr ''station-acquisition'', JStr ''scanner-raw-replay'', JStr ''governance-snapshot'', JStr ''publication-manifest'']),
    (''required_exports'', JArr [JStr ''release-inputs'', JStr ''release-subject-graph'', JStr ''release-runtime'', JStr ''release-signing'', JStr ''release-lab-input'', JStr ''release-governance'', JStr ''release-reproducibility'', JStr ''release-security'', JStr ''release-retention'', JStr ''release-ota''])]"

definition c_targets :: obj where
  "c_targets = [(''pi-cm4-revpi-usb-installer'', JObj [(''hardware_required'', JBool True),
     (''ota_capable'', JBool False),
     (''production_gate'', JBool True),
     (''release_image_scan_required'', JBool True),
     (''release_public'', JBool True),
     (''runtime_required'', JBool False),
     (''signing_required'', JBool True)]),
    (''qemu-x86_64-prod-ab'', JObj [(''hardware_required'', JBool False),
     (''ota_capable'', JBool True),
     (''production_gate'', JBool True),
     (''release_image_scan_required'', JBool True),
     (''release_public'', JBool False),
     (''runtime_required'', JBool True),
     (''signing_required'', JBool True)]),
    (''qemu-x86_64'', JObj [(''hardware_required'', JBool False),
     (''ota_capable'', JBool False),
     (''production_gate'', JBool False),
     (''release_image_scan_required'', JBool False),
     (''release_public'', JBool True),
     (''runtime_required'', JBool False),
     (''signing_required'', JBool False)]),
    (''revpi4'', JObj [(''hardware_required'', JBool True),
     (''ota_capable'', JBool False),
     (''production_gate'', JBool True),
     (''release_image_scan_required'', JBool True),
     (''release_public'', JBool True),
     (''runtime_required'', JBool False),
     (''signing_required'', JBool True)]),
    (''rpi4'', JObj [(''hardware_required'', JBool True),
     (''ota_capable'', JBool False),
     (''production_gate'', JBool True),
     (''release_image_scan_required'', JBool True),
     (''release_public'', JBool True),
     (''runtime_required'', JBool False),
     (''signing_required'', JBool True)]),
    (''rpi4-prod-ab'', JObj [(''hardware_required'', JBool True),
     (''ota_capable'', JBool True),
     (''production_gate'', JBool True),
     (''release_image_scan_required'', JBool True),
     (''release_public'', JBool False),
     (''runtime_required'', JBool False),
     (''signing_required'', JBool True)]),
    (''revpi4-prod-ab'', JObj [(''hardware_required'', JBool True),
     (''ota_capable'', JBool True),
     (''production_gate'', JBool True),
     (''release_image_scan_required'', JBool True),
     (''release_public'', JBool False),
     (''runtime_required'', JBool False),
     (''signing_required'', JBool True)]),
    (''x86_64'', JObj [(''hardware_required'', JBool True),
     (''ota_capable'', JBool True),
     (''production_gate'', JBool True),
     (''release_image_scan_required'', JBool True),
     (''release_public'', JBool False),
     (''runtime_required'', JBool True),
     (''signing_required'', JBool True)])]"

definition repo_contract :: obj where
  "repo_contract = [(''schema_version'', JStr ''suderra.evidence-contract.v1''),
    (''schema_versions'', JObj c_schema_versions),
    (''profiles'', JObj c_profiles),
    (''output_trees'', JObj c_output_trees),
    (''subjects'', JObj c_subjects),
    (''runtime'', JObj c_runtime),
    (''hardware'', JObj c_hardware),
    (''signing'', JObj c_signing),
    (''ota'', JObj c_ota),
    (''retention'', JObj c_retention),
    (''targets'', JObj c_targets)]"

section \<open>It is accepted\<close>

lemma repo_contract_wf: "json_wf (JObj repo_contract)"
  by code_simp

lemma repo_contract_valid: "validate_contract repo_contract = Inr ()"
  by code_simp

interpretation repo: accepted repo_contract
  by unfold_locales (rule repo_contract_wf repo_contract_valid)+

end
