(* ===== verification/Matrix.thy ===== *)
theory Matrix
  imports PyJson
begin

text \<open>
  The reader of \<open>ci/build-matrix.yml\<close> in \<open>scripts/ci/validate-build-matrix.py\<close> (\<open>strip_comment\<close>
  to \<open>load_matrix\<close>, a parser for the subset of YAML the file keeps to) and the helpers on one
  matrix row: artifact names, typed fields, selectors.
\<close>

section \<open>Error values\<close>

datatype matrix_error =
  ExpectedKeyValue string
| UnsupportedYaml nat string
| FieldMustBeBool json string
| FieldMustBeList json string
| UnsupportedSelector string

type_synonym 'a parsed = "(matrix_error, 'a) result"

section \<open>One line\<close>

text \<open>
  The scan of \<open>strip_comment\<close>, with its three flags; the result is the part of the line before
  the first hash that is neither quoted nor escaped.
\<close>

fun scan_comment :: "bool \<Rightarrow> bool \<Rightarrow> bool \<Rightarrow> string \<Rightarrow> string" where
  "scan_comment in_single in_double escaped [] = []"
| "scan_comment in_single in_double escaped (c # s) =
     (if escaped then c # scan_comment in_single in_double False s
      else if code c = 92 then c # scan_comment in_single in_double True s
      else if code c = 39 \<and> \<not> in_double then c # scan_comment (\<not> in_single) in_double False s
      else if code c = 34 \<and> \<not> in_single then c # scan_comment in_single (\<not> in_double) False s
      else if code c = 35 \<and> \<not> in_single \<and> \<not> in_double then []
      else c # scan_comment in_single in_double False s)"

lemma scan_comment_char [code]:
  "scan_comment in_single in_double escaped [] = []"
  "scan_comment in_single in_double escaped (c # s) =
     (if escaped then c # scan_comment in_single in_double False s
      else if c = CHR 0x5C then c # scan_comment in_single in_double True s
      else if c = CHR 0x27 \<and> \<not> in_double then c # scan_comment (\<not> in_single) in_double False s
      else if c = CHR 0x22 \<and> \<not> in_single then c # scan_comment in_single (\<not> in_double) False s
      else if c = CHR ''#'' \<and> \<not> in_single \<and> \<not> in_double then []
      else c # scan_comment in_single in_double False s)"
  unfolding char_is [of c] by (simp_all add: code_def)

definition strip_comment :: "string \<Rightarrow> string" where
  "strip_comment line = rstrip (scan_comment False False False line)"

definition parse_scalar :: "string \<Rightarrow> json" where
  "parse_scalar raw = (let value = strip raw in
     if value = ''true'' \<or> value = ''false'' then JBool (value = ''true'')
     else if value = ''null'' \<or> value = ''~'' then JNull
     else if 2 \<le> length value \<and> hd value = last value \<and> code (hd value) \<in> {39, 34}
       then JStr (butlast (tl value))
     else if all_ascii_digits value then JInt (int (digits_val value))
     else JStr value)"

definition parse_key_value :: "string \<Rightarrow> (string \<times> string) parsed" where
  "parse_key_value t =
     (if CHR '':'' \<notin> set t then Inl (ValueError (ExpectedKeyValue t))
      else Inr (strip (takeWhile (\<lambda>c. c \<noteq> CHR '':'') t),
                strip (tl (dropWhile (\<lambda>c. c \<noteq> CHR '':'') t))))"

section \<open>The parser state\<close>

text \<open>
  \<open>data\<close> maps section names to lists, \<open>section\<close> is the one being read, \<open>current\<close> the row that
  key/value lines extend (the last element of the section's list: the source appends the dict
  and mutates it through the alias), \<open>pending_key\<close> the key whose list items follow.
\<close>

record parser =
  sections :: "(string \<times> json list) list"
  current_section :: "string option"
  current_row :: "obj option"
  pending_key :: "string option"

definition initial_parser :: parser where
  "initial_parser = \<lparr>sections = [(''defconfigs'', []), (''variants'', []), (''security_scans'', [])],
     current_section = None, current_row = None, pending_key = None\<rparr>"

fun section_update :: "(string \<times> json list) list \<Rightarrow> string \<Rightarrow> (json list \<Rightarrow> json list) \<Rightarrow> (string \<times> json list) list" where
  "section_update [] k f = [(k, f [])]"
| "section_update ((k', xs) # rest) k f =
     (if k' = k then (k', f xs) # rest else (k', xs) # section_update rest k f)"

text \<open>Mutating the current row also changes the section's list, through the alias.\<close>

definition set_row :: "parser \<Rightarrow> string \<Rightarrow> obj \<Rightarrow> parser" where
  "set_row st sec row = st\<lparr>current_row := Some row,
     sections := section_update (sections st) sec (\<lambda>xs. butlast xs @ [JObj row])\<rparr>"

definition new_row :: "parser \<Rightarrow> string \<Rightarrow> obj \<Rightarrow> parser" where
  "new_row st sec row = st\<lparr>current_row := Some row, pending_key := None,
     sections := section_update (sections st) sec (\<lambda>xs. xs @ [JObj row])\<rparr>"

definition append_item :: "obj \<Rightarrow> string \<Rightarrow> json \<Rightarrow> obj" where
  "append_item row k v = dict_set row k (JArr (elems (dict_get row k) @ [v]))"

definition indent_of :: "string \<Rightarrow> nat" where
  "indent_of line = length line - length (dropWhile (\<lambda>c. c = CHR '' '') line)"

definition is_item :: "string \<Rightarrow> bool" where
  "is_item t \<longleftrightarrow> starts_with t ''- ''"

text \<open>One round of the loop of \<open>load_matrix\<close>, for the line \<open>raw\<close> with number \<open>lineno\<close>.\<close>

definition parse_line :: "parser \<Rightarrow> nat \<times> string \<Rightarrow> parser parsed" where
  "parse_line st nl = (let raw = snd nl; line = strip_comment raw; t = strip line;
     indent = indent_of line; unsupported = Inl (ValueError (UnsupportedYaml (fst nl) raw)) in
     if t = [] then Inr st
     else if indent = 0 \<and> ends_with t '':'' then
       Inr (st\<lparr>current_section := Some (butlast t), current_row := None, pending_key := None,
               sections := section_update (sections st) (butlast t) (\<lambda>xs. xs)\<rparr>)
     else (case current_section st of None \<Rightarrow> unsupported | Some sec \<Rightarrow>
       if sec = ''defconfigs'' \<or> sec = ''variants'' then
         (if indent = 2 \<and> is_item t then
            (let rest = strip (drop 2 t) in
             if rest = [] then Inr (new_row st sec [])
             else bindE (parse_key_value rest) (\<lambda>(k, v). Inr (new_row st sec [(k, parse_scalar v)])))
          else case current_row st of None \<Rightarrow> unsupported | Some row \<Rightarrow>
            if indent = 4 then
              bindE (parse_key_value t) (\<lambda>(k, v).
                if v \<noteq> [] then Inr ((set_row st sec (dict_set row k (parse_scalar v)))\<lparr>pending_key := None\<rparr>)
                else Inr ((set_row st sec (dict_set row k (JArr [])))\<lparr>pending_key := Some k\<rparr>))
            else if indent = 6 \<and> is_item t then
              (case pending_key st of None \<Rightarrow> unsupported
               | Some k \<Rightarrow> if k = [] then unsupported else
                   Inr (set_row st sec (append_item row k (parse_scalar (strip (drop 2 t))))))
            else unsupported)
       else if sec = ''security_scans'' \<and> indent = 2 \<and> is_item t then
         Inr (st\<lparr>sections := section_update (sections st) sec
                  (\<lambda>xs. xs @ [parse_scalar (strip (drop 2 t))])\<rparr>)
       else unsupported))"

definition load_matrix :: "string \<Rightarrow> obj parsed" where
  "load_matrix content = (let ls = splitlines content in
     bindE (foldE parse_line initial_parser (zip [1..<Suc (length ls)] ls)) (\<lambda>st.
       Inr (map (\<lambda>(k, xs). (k, JArr xs)) (sections st))))"

section \<open>One row\<close>

definition row_name :: "obj \<Rightarrow> json" where
  "row_name row = dict_get_or row ''name'' (JStr ''<unknown>'')"

definition bool_field :: "obj \<Rightarrow> string \<Rightarrow> bool parsed" where
  "bool_field row f = (case dict_get row f of JBool b \<Rightarrow> Inr b
     | _ \<Rightarrow> Inl (ValueError (FieldMustBeBool (row_name row) f)))"

definition release_rename_base :: "string \<Rightarrow> string" where
  "release_rename_base a = (if ends_with a ''.xz'' then take (length a - 3) a else a)"

definition sbom_base :: "string \<Rightarrow> string" where
  "sbom_base a = (if ends_with a ''.img.xz'' then take (length a - 7) a else release_rename_base a)"

definition payload_manifest_base :: "string \<Rightarrow> string" where
  "payload_manifest_base a = sbom_base a"

definition expected_artifacts :: "obj \<Rightarrow> string list" where
  "expected_artifacts row = map py_str (elems (dict_get row ''expected_artifacts''))"

definition list_field :: "obj \<Rightarrow> string \<Rightarrow> string list parsed" where
  "list_field row f = (case dict_get row f of JArr xs \<Rightarrow> Inr (map py_str xs)
     | _ \<Rightarrow> Inl (ValueError (FieldMustBeList (row_name row) f)))"

definition flag :: "obj \<Rightarrow> string \<Rightarrow> bool" where
  "flag row f = truthy (dict_get_or row f (JBool False))"

definition BOOLEAN_SELECTORS :: "string list" where
  "BOOLEAN_SELECTORS = [''ci_build'', ''fast_required'', ''image_build'', ''release_source'',
     ''payload_base_required'', ''qemu_test'', ''release'', ''production_required'']"

definition target_matches_selector :: "obj \<Rightarrow> string \<Rightarrow> bool parsed" where
  "target_matches_selector row sel = bindE (list_field row ''prebuild_defconfigs'') (\<lambda>prebuilds.
     if sel \<in> set BOOLEAN_SELECTORS then Inr (flag row sel)
     else if sel = ''ci_build_base'' then Inr (flag row ''ci_build'' \<and> prebuilds = [])
     else if sel = ''ci_build_payload'' then Inr (flag row ''ci_build'' \<and> prebuilds \<noteq> [])
     else if sel = ''image_build_base'' then Inr (flag row ''image_build'' \<and> prebuilds = [])
     else if sel = ''image_build_payload'' then Inr (flag row ''image_build'' \<and> prebuilds \<noteq> [])
     else if sel = ''image_build_qemu'' then Inr (flag row ''image_build'' \<and> flag row ''qemu_test'')
     else if sel = ''release_base'' then Inr (flag row ''release'' \<and> prebuilds = [])
     else if sel = ''release_payload'' then Inr (flag row ''release'' \<and> prebuilds \<noteq> [])
     else Inl (ValueError (UnsupportedSelector sel)))"

end
