(* ===== verification/ContractEvidence.thy ===== *)
theory ContractEvidence
  imports ContractPolicy Matrix
begin

text \<open>
  The parts of \<open>scripts/evidence/evidence_contract.py\<close> that say which evidence files a release
  needs (\<open>operator_required_evidence_paths\<close>), which role a preflight file plays, and whether the
  artifacts of a release binding are the ones the build matrix promises
  (\<open>validate_release_artifact_bindings\<close>).
\<close>

section \<open>Roles of preflight inputs\<close>

definition preflight_input_role_for_path :: "path \<Rightarrow> obj \<Rightarrow> string checked" where
  "preflight_input_role_for_path rel payload =
     (if parts rel = [] then Inr ''preflight-input''
      else let r = hd (parts rel); name = path_name rel in
      if r = ''release-inputs'' then Inr ''binding-manifest''
      else if r = ''release-lab-input'' \<and> name = ''qemu.json'' then Inr ''qemu-input''
      else if r = ''release-lab-input'' \<and> name = ''qemu-semantic.json'' then Inr ''qemu-semantic''
      else if r = ''release-lab-input'' \<and> name \<in> {''qemu-stderr.log'', ''stderr.log''} then Inr ''qemu-stderr''
      else if r = ''release-lab-input'' \<and> name = ''lab.json'' then Inr ''lab-input''
      else if r = ''release-lab-input'' \<and> name = ''hardware-subject.json'' then Inr ''hardware-subject''
      else if r = ''release-lab-input'' \<and> name = ''station-acquisition.json'' then Inr ''station-acquisition''
      else if r = ''release-lab-input'' \<and> name = ''station-bundle.json'' then Inr ''lab-station-bundle''
      else if r = ''release-lab-input'' \<and> name = ''station-bundle.json.sig'' then Inr ''lab-station-signature''
      else if r = ''release-lab-input'' \<and> name = ''station-public.pem'' then Inr ''lab-station-public-key''
      else if r = ''release-governance'' \<and> name = ''role-bindings.json'' then Inr ''governance-role-bindings''
      else if r = ''release-governance'' then Inr ''governance-snapshot''
      else if r = ''release-approvals'' then Inr ''approval''
      else if r = ''release-security'' then Inr ''security-report''
      else if r = ''release-reproducibility'' then Inr ''reproducibility-report''
      else if r = ''release-runtime'' \<and> name = ''production-runtime.json'' then Inr ''production-runtime-suite''
      else if r = ''release-signing'' \<and> name = ''signing-manifest.json'' then Inr ''signing-manifest''
      else if r = ''release-signing'' \<and> path_suffix rel = ''.json'' then Inr ''hsm-signing-session''
      else if r = ''release-retention'' \<and> name = ''retention-manifest.json'' then Inr ''retention-manifest''
      else if r = ''release-ota'' \<and> name = ''ota-artifacts.json'' then Inr ''ota-artifacts''
      else if r = ''release-subject-graph'' \<and> name = ''release-subject-graph.json'' then Inr ''release-subject-graph''
      else if r = ''release-ingress'' \<and> name = ''evidence-ingress-manifest.json'' then Inr ''evidence-ingress''
      else if r = ''release-ingress'' \<and>
          name \<in> {''evidence-ingress-manifest.json.sig'', ''evidence-ingress-manifest.json.cert''}
        then Inr ''evidence-ingress-signature''
      else if r = ''release-dry-run'' then Inr ''rc-evidence-dry-run''
      else bindE (output_tree_for_root r payload) (\<lambda>t.
        if t = None \<or> t = Some [] then Inr ''preflight-input'' else output_tree_schema_role r payload))"

section \<open>Required operator evidence\<close>

definition release_rows :: "obj \<Rightarrow> obj list checked" where
  "release_rows matrix = bindE (matrix_rows matrix) (\<lambda>rows.
     Inr (map members (filter (\<lambda>r. is_obj r \<and> dict_get (members r) ''release'' = JBool True) rows)))"

definition row_text :: "obj \<Rightarrow> string \<Rightarrow> string" where
  "row_text row f = py_str (dict_get_or row f (JStr []))"

definition needs_hardware :: "obj \<Rightarrow> bool" where
  "needs_hardware row \<longleftrightarrow>
     truthy (dict_get row ''production_required'') \<or> contains (row_text row ''acceptance'') ''hardware''"

definition release_targets_requiring_hardware :: "obj \<Rightarrow> string list checked" where
  "release_targets_requiring_hardware matrix = bindE (release_rows matrix) (\<lambda>rows.
     Inr (map (\<lambda>row. row_text row ''target'') (filter needs_hardware rows)))"

definition only_if :: "bool \<Rightarrow> 'a list \<Rightarrow> 'a list" where
  "only_if c xs = (if c then xs else [])"

definition is_production :: "string \<Rightarrow> bool" where
  "is_production version \<longleftrightarrow> CHR ''-'' \<notin> set version"

definition evidence_path :: "string \<Rightarrow> string \<Rightarrow> string list \<Rightarrow> string" where
  "evidence_path r version rest = join ''/'' (r # version # rest)"

text \<open>The paths one released row asks for; \<open>hardware\<close> are the targets that need a lab run.\<close>

definition row_evidence :: "string \<Rightarrow> obj \<Rightarrow> string list \<Rightarrow> obj \<Rightarrow> string list checked" where
  "row_evidence version payload hardware row =
     bindE (dict_index row ''target'') (\<lambda>tv. let target = py_str tv in
     bindE (target_policy target payload) (\<lambda>policy.
       Inr (only_if (truthy (dict_get row ''qemu_test''))
              [evidence_path ''release-lab-input'' version [target, ''qemu.json'']]
          @ only_if (target \<in> set hardware)
              [evidence_path ''release-lab-input'' version [target, ''lab.json'']]
          @ only_if (is_production version \<and> dict_get policy ''hardware_required'' = JBool True)
              [evidence_path ''release-lab-input'' version [target, ''hardware-subject.json''],
               evidence_path ''release-lab-input'' version [target, ''station-acquisition.json'']]
          @ only_if (is_production version \<and> dict_get policy ''signing_required'' = JBool True)
              [evidence_path ''release-signing'' version [target, ''signing-manifest.json'']]
          @ [evidence_path ''release-approvals'' version [target @ ''.json''],
             evidence_path ''release-reproducibility'' version [target @ ''.json'']])))"

definition private_target_evidence :: "string \<Rightarrow> string \<times> json \<Rightarrow> string list" where
  "private_target_evidence version tp = (let target = fst tp; policy = members (snd tp) in
     only_if (is_obj (snd tp) \<and> dict_get policy ''release_public'' \<noteq> JBool True)
       (only_if (dict_get policy ''runtime_required'' = JBool True)
          [evidence_path ''release-runtime'' version [target, ''production-runtime.json'']]
      @ only_if (dict_get policy ''signing_required'' = JBool True)
          [evidence_path ''release-signing'' version [target, ''signing-manifest.json'']]
      @ only_if (dict_get policy ''ota_capable'' = JBool True)
          [evidence_path ''release-ota'' version [target, ''ota-artifacts.json'']]))"

definition operator_required_evidence_paths :: "string \<Rightarrow> obj \<Rightarrow> obj \<Rightarrow> string list checked" where
  "operator_required_evidence_paths version matrix payload =
     bindE (if is_production version then py_list (dict_get_or matrix ''security_scans'' (JArr [])) else Inr [])
       (\<lambda>scans.
     bindE (release_targets_requiring_hardware matrix) (\<lambda>hardware.
     bindE (release_rows matrix) (\<lambda>rows.
     bindE (mapE (row_evidence version payload hardware) rows) (\<lambda>per_row.
     bindE (if is_production version then dict_of (dict_get_or payload ''targets'' (JObj [])) else Inr [])
       (\<lambda>targets.
       Inr ([evidence_path ''release-governance'' version [''audit-log.json''],
             evidence_path ''release-governance'' version [''station-registry.json'']]
          @ only_if (is_production version)
             ([evidence_path ''release-governance'' version [''role-bindings.json''],
               evidence_path ''release-retention'' version [''retention-manifest.json'']]
              @ map (\<lambda>scan. evidence_path ''release-security'' version [py_str scan @ ''.json'']) scans)
          @ concat per_row
          @ concat (map (private_target_evidence version) targets)))))))"

section \<open>Artifact bindings\<close>

definition expected_release_artifact_map :: "obj \<Rightarrow> ((string \<times> string) \<times> obj) list checked" where
  "expected_release_artifact_map matrix = bindE (release_rows matrix) (\<lambda>rows.
     bindE (mapE (\<lambda>row. if expected_artifacts row = [] then Inr []
         else bindE (dict_index row ''name'') (\<lambda>n.
           Inr (map (\<lambda>a. ((py_str n, a), row)) (expected_artifacts row)))) rows) (\<lambda>kss.
       Inr (concat kss)))"

datatype binding_failure =
  ArtifactsMustBeList
| ArtifactMustBeObject nat
| UnexpectedArtifact "string \<times> string"
| TargetMustBe "string \<times> string" json
| DuplicateArtifact "string \<times> string"
| InvalidSha256 "string \<times> string"
| AllZeroSha256 "string \<times> string"
| MustHavePositiveSize "string \<times> string"
| MustBeRelativePath "string \<times> string"
| ArtifactFileMissing path
| ArtifactShaMismatch path
| MissingArtifacts "(string \<times> string) list"

text \<open>
  The files below the artifact root: the digest \<open>file_hasher\<close> computes for a regular file, or
  \<open>None\<close> where there is none. The store is absent when no artifact root is given, and
  \<open>hashed\<close> says whether a \<open>file_hasher\<close> is.
\<close>

record artifact_store =
  base :: path
  digest_of :: "path \<Rightarrow> string option"
  hashed :: bool

definition all_zero_sha256 :: string where
  "all_zero_sha256 = replicate 64 (CHR ''0'')"

definition artifact_key :: "obj \<Rightarrow> string \<times> string" where
  "artifact_key a = (py_str (dict_get a ''defconfig''), py_str (dict_get a ''artifact''))"

definition check_artifact_file :: "artifact_store \<Rightarrow> json \<Rightarrow> path \<Rightarrow> binding_failure list" where
  "check_artifact_file st digest rel = (let p = path_join (base st) rel in
     case digest_of st p of
       None \<Rightarrow> [ArtifactFileMissing p]
     | Some d \<Rightarrow> report (hashed st \<and> is_str digest \<and> d \<noteq> text_of digest) (ArtifactShaMismatch p))"

text \<open>
  \<open>map_of (rev expected)\<close> is the dict: where the comprehension repeats a key, the last value wins.
\<close>

definition check_artifact ::
  "((string \<times> string) \<times> obj) list \<Rightarrow> artifact_store option \<Rightarrow> (string \<times> string) list \<Rightarrow> obj \<Rightarrow> binding_failure list" where
  "check_artifact expected store seen a = (let key = artifact_key a; row = map_of (rev expected) key;
     digest = dict_get a ''sha256''; rel = safe_relative_path (dict_get a ''path'') in
     (case row of
        None \<Rightarrow> report (expected \<noteq> []) (UnexpectedArtifact key)
      | Some r \<Rightarrow> report (\<not> py_eq (dict_get a ''target'') (dict_get r ''target''))
                    (TargetMustBe key (dict_get r ''target'')))
   @ report (key \<in> set seen) (DuplicateArtifact key)
   @ (if \<not> is_str digest \<or> \<not> lower_hex_of_length 64 (text_of digest) then [InvalidSha256 key]
      else report (text_of digest = all_zero_sha256) (AllZeroSha256 key))
   @ report (\<not> is_int (dict_get a ''bytes'') \<or> int_of (dict_get a ''bytes'') \<le> 0) (MustHavePositiveSize key)
   @ report (rel = None) (MustBeRelativePath key)
   @ (case (store, rel) of (Some st, Some p) \<Rightarrow> check_artifact_file st digest p | _ \<Rightarrow> []))"

fun check_artifacts ::
  "((string \<times> string) \<times> obj) list \<Rightarrow> artifact_store option \<Rightarrow> nat \<Rightarrow> (string \<times> string) list \<Rightarrow> json list
     \<Rightarrow> binding_failure list \<times> (string \<times> string) list" where
  "check_artifacts expected store i seen [] = ([], seen)"
| "check_artifacts expected store i seen (JObj a # rest) =
     (let (fs, seen') = check_artifacts expected store (Suc i) (artifact_key a # seen) rest
      in (check_artifact expected store seen a @ fs, seen'))"
| "check_artifacts expected store i seen (_ # rest) =
     (let (fs, seen') = check_artifacts expected store (Suc i) seen rest
      in (ArtifactMustBeObject i # fs, seen'))"

definition validate_release_artifact_bindings ::
  "json \<Rightarrow> ((string \<times> string) \<times> obj) list \<Rightarrow> artifact_store option \<Rightarrow> binding_failure list" where
  "validate_release_artifact_bindings artifacts expected store =
     (if \<not> is_list artifacts \<or> elems artifacts = [] then [ArtifactsMustBeList]
      else let (fs, seen) = check_artifacts expected store 0 [] (elems artifacts);
               missing = sorted_set (minus_list (map fst expected) seen) in
        fs @ (if expected \<noteq> [] then report (missing \<noteq> []) (MissingArtifacts missing) else []))"

end
