(* ===== verification/ContractJoin.thy ===== *)
theory ContractJoin
  imports ContractEvidence
begin

text \<open>
  \<open>validate_matrix_join\<close> of \<open>scripts/evidence/evidence_contract.py\<close>: the cross-check of the
  evidence contract against the build matrix. It collects every violation; \<open>[]\<close> means the two
  documents agree.
\<close>

datatype join_failure =
  MissingContractTargets "string list"
| MissingReleaseTargets "string list"
| TargetNotInMatrix string
| ReleaseMismatch string
| MustStayUnready string
| GateRequiresProduction string
| NoRuntimeSuite string
| SuiteNotInMatrix string string
| SuiteNotInContract string string
| NoBoards string
| NoSubjectBinding string
| UnsignedSigningMode string string
| NoSigningRole string
| RoleNeedsDigestFields string string
| OtaMismatch string
| OtaTargetUnknown string

type_synonym joined = "(contract_error, join_failure list) result"

text \<open>The rows by target: a later row replaces an earlier one with the same target.\<close>

definition rows_by_target :: "json list \<Rightarrow> obj" where
  "rows_by_target rs = foldl (\<lambda>d r. dict_set d (text_of (dict_get (members r) ''target'')) r) []
     (filter (\<lambda>r. is_obj r \<and> is_str (dict_get (members r) ''target'')) rs)"

definition row_targets_where :: "string \<Rightarrow> obj \<Rightarrow> string list" where
  "row_targets_where f rows = map (\<lambda>(t, r). py_str (dict_get (members r) ''target''))
     (filter (\<lambda>(t, r). dict_get (members r) f = JBool True) rows)"

definition join_runtime :: "obj \<Rightarrow> obj \<Rightarrow> obj \<Rightarrow> string \<Rightarrow> joined" where
  "join_runtime payload rows targets target = bindE (runtime_suite_targets_for target payload) (\<lambda>suites.
     Inr (report (suites = []) (NoRuntimeSuite target)
       @ concat (map (\<lambda>s. report (\<not> dict_has rows s) (SuiteNotInMatrix target s)
                        @ report (\<not> dict_has targets s) (SuiteNotInContract target s)) suites)))"

definition join_hardware :: "obj \<Rightarrow> string \<Rightarrow> joined" where
  "join_hardware payload target = bindE (policy_items ''hardware'' ''required_boards_by_target'' payload) (\<lambda>boards.
     bindE (dict_of (dict_get_or payload ''hardware'' (JObj []))) (\<lambda>hardware.
     let binding = dict_get hardware ''subject_binding'' in
     Inr (report (\<not> dict_has boards target) (NoBoards target)
       @ report (\<not> is_obj binding \<or> \<not> truthy (dict_get (members binding) ''required_fields''))
           (NoSubjectBinding target))))"

definition required_signing_roles :: "obj \<Rightarrow> (string \<times> obj) list \<Rightarrow> string list" where
  "required_signing_roles policy bindings =
     only_if (dict_get policy ''ota_capable'' = JBool True)
       (map fst (filter (\<lambda>(r, b). dict_get b ''required_for_ota_capable'' = JBool True) bindings))
   @ only_if (dict_get policy ''release_public'' = JBool True)
       (map fst (filter (\<lambda>(r, b). dict_get b ''required_for_release_public'' = JBool True) bindings))"

definition join_signing :: "obj \<Rightarrow> obj \<Rightarrow> obj \<Rightarrow> string \<Rightarrow> joined" where
  "join_signing payload policy row target = bindE (signing_role_bindings payload) (\<lambda>bindings.
     let roles = required_signing_roles policy bindings;
         binding = (\<lambda>r. case map_of bindings r of None \<Rightarrow> [] | Some b \<Rightarrow> b) in
     Inr (report (roles = []) (NoSigningRole target)
       @ concat (map (\<lambda>r. report (\<not> truthy (dict_get (binding r) ''final_digest_field'') \<or>
                              \<not> truthy (dict_get (binding r) ''input_digest_field''))
                        (RoleNeedsDigestFields target r)) (sorted_set roles))))"

text \<open>The body of the loop over the contract's targets, for a target the matrix has.\<close>

definition join_target :: "obj \<Rightarrow> obj \<Rightarrow> obj \<Rightarrow> string \<Rightarrow> obj \<Rightarrow> obj \<Rightarrow> joined" where
  "join_target payload rows targets target policy row = collectE
     [Inr (report (truthy (dict_get row ''release'') \<noteq> truthy (dict_get policy ''release_public''))
         (ReleaseMismatch target)
       @ report (dict_get row ''production_required'' = JBool True \<and>
                 dict_get row ''production_ready'' \<noteq> JBool False) (MustStayUnready target)
       @ report (dict_get policy ''production_gate'' = JBool True \<and>
                 dict_get row ''production_required'' \<noteq> JBool True) (GateRequiresProduction target)),
      if dict_get policy ''runtime_required'' = JBool True
        then join_runtime payload rows targets target else Inr [],
      if dict_get policy ''hardware_required'' = JBool True
        then join_hardware payload target else Inr [],
      Inr (report (dict_get policy ''signing_required'' = JBool True \<and>
                 py_str (dict_get row ''signing'') \<in> set UNSIGNED_SIGNING_MODES)
         (UnsignedSigningMode target (py_str (dict_get row ''signing'')))),
      if dict_get policy ''signing_required'' = JBool True
        then join_signing payload policy row target else Inr [],
      bindE (ota_target_policy target payload) (\<lambda>ota.
        Inr (report (truthy (dict_get ota ''ota_capable'') \<noteq> truthy (dict_get policy ''ota_capable''))
          (OtaMismatch target)))]"

definition join_policy :: "obj \<Rightarrow> obj \<Rightarrow> obj \<Rightarrow> string \<times> json \<Rightarrow> joined" where
  "join_policy payload rows targets tp =
     (case dict_get rows (fst tp) of
        JObj row \<Rightarrow> bindE (dict_of (snd tp)) (\<lambda>policy. join_target payload rows targets (fst tp) policy row)
      | _ \<Rightarrow> Inr [TargetNotInMatrix (fst tp)])"

definition validate_matrix_join :: "obj \<Rightarrow> obj \<Rightarrow> joined" where
  "validate_matrix_join matrix payload = bindE (matrix_rows matrix) (\<lambda>rs.
     let rows = rows_by_target rs in
     bindE (bindE (dict_index payload ''targets'') dict_of) (\<lambda>targets.
     let missing = sorted_set (minus_list (row_targets_where ''production_required'' rows) (dict_keys targets));
         unreleased = sorted_set (minus_list (row_targets_where ''release'' rows) (dict_keys targets)) in
     collectE
       [Inr (report (missing \<noteq> []) (MissingContractTargets missing)
          @ report (unreleased \<noteq> []) (MissingReleaseTargets unreleased)),
        collectE (map (join_policy payload rows targets) targets),
        bindE (policy_items ''ota'' ''targets'' payload) (\<lambda>ota_targets.
          Inr (concat (map (\<lambda>t. report (\<not> dict_has targets t) (OtaTargetUnknown t)) (dict_keys ota_targets))))]))"

end
