(* ===== verification/ContractSections.thy ===== *)
theory ContractSections
  imports ContractAccepted ContractJoin
begin

text \<open>
  The sections of an accepted contract, as the accessors see them: the runtime catalog, the
  signing roles, the hardware binding, the targets and their OTA policies. Each lemma of the
  locale turns one section check of \<open>Contract\<close> into the result of the accessors that read the
  section.
\<close>

lemma dict_index_some: "dict_get kvs k = v \<Longrightarrow> v \<noteq> JNull \<Longrightarrow> dict_index kvs k = Inr v"
  by (simp add: dict_index_ok dict_get_some)

lemma policy_list_get:
  "dict_get p s = JObj o' \<Longrightarrow> dict_get o' f = JArr xs \<Longrightarrow> policy_list s f p = Inr xs"
  by (simp add: policy_list_def dict_index_some)

lemma policy_items_get:
  "dict_get p s = JObj o' \<Longrightarrow> dict_get o' f = JObj kvs \<Longrightarrow> policy_items s f p = Inr kvs"
  by (simp add: policy_items_def dict_index_some)

lemma object_items_all:
  "\<forall>(n, v)\<in>set items. is_obj v \<Longrightarrow> object_items items = map (\<lambda>(n, v). (n, members v)) items"
  by (induction items) (auto simp: object_items_def)

lemma as_object_returns: "as_object v p = Inr kvs \<Longrightarrow> v = JObj kvs"
  by (simp add: as_object_ok)

lemma string_list_returns:
  "string_list v p = Inr ss \<Longrightarrow> v = JArr (map JStr ss)"
  "string_list v p = Inr ss \<Longrightarrow> ss \<noteq> []"
  by (simp_all add: string_list_ok)

lemma need_list_returns:
  "need_string_lists kvs p [f] = Inr u \<Longrightarrow> \<exists>ss. dict_get kvs f = JArr (map JStr ss) \<and> ss \<noteq> []"
  by (auto simp: need_string_lists_ok)

lemma sequences_return:
  "for_all (\<lambda>(t, v). andthen (ensure (t \<noteq> []) (e t)) (bindE (string_sequence v (p t)) (\<lambda>_. Inr ()))) xs = Inr u \<Longrightarrow>
     \<forall>x\<in>set xs. \<exists>ss. snd x = JArr (map JStr ss)"
  by (fastforce simp: for_all_ok andthen_ok bindE_ok string_sequence_ok)

lemma lists_return:
  "for_all (\<lambda>(t, v). bindE (string_list v (p t)) (\<lambda>_. Inr ())) xs = Inr u \<Longrightarrow>
     \<forall>x\<in>set xs. \<exists>ss. snd x = JArr (map JStr ss) \<and> ss \<noteq> []"
  by (fastforce simp: for_all_ok bindE_ok string_list_ok)

lemma catalog_returns:
  assumes "ensure (sorted_set (minus_list xs ys) = []) e = Inr u"
    and "ensure (sorted_set (minus_list ys xs) = []) e' = Inr u'"
  shows "set ys = set xs"
  using assms unfolding ensure_ok sorted_set_empty minus_list_empty by blast

lemmas returns = as_object_returns string_list_returns for_all_returns

lemma check_runtimeE:
  assumes "check_runtime v schemas = Inr ()"
  obtains rt cs ss stc ks suites where "v = JObj rt"
    "dict_get rt ''required_checks'' = JArr (map JStr cs)" "cs \<noteq> []"
    "dict_get rt ''required_scenarios'' = JArr (map JStr ss)" "ss \<noteq> []"
    "dict_get rt ''scenario_to_checks'' = JObj stc" "\<forall>x\<in>set stc. check_scenario_checks ss cs x = Inr ()"
    "dict_get rt ''scenario_contracts'' = JObj ks" "set (dict_keys ks) = set ss"
    "\<forall>sc\<in>set ks. check_scenario_contract sc = Inr ()"
    "dict_get rt ''suite_targets'' = JObj suites" "\<forall>x\<in>set suites. \<exists>xs. snd x = JArr (map JStr xs)"
  using assms unfolding check_runtime_def Let_def
  apply (elim run_elims)
  apply (rule that)
             apply (rule returns, assumption)+
     apply (rule catalog_returns; assumption)
    apply (rule returns, assumption)+
  apply (erule sequences_return)
  done

lemma check_signingE:
  assumes "check_signing v schemas = Inr ()"
  obtains sg roles bs where "v = JObj sg"
    "dict_get sg ''signed_artifact_roles'' = JArr (map JStr roles)" "roles \<noteq> []"
    "dict_get sg ''role_bindings'' = JObj bs" "set roles \<subseteq> set (dict_keys bs)"
    "\<forall>rb\<in>set bs. check_role_binding roles rb = Inr ()"
  using assms unfolding check_signing_def Let_def
  apply (elim run_elims)
  apply (rule that)
       apply ((rule returns, assumption)+, simp add: ensure_ok, (rule returns, assumption)+)
  done

lemma check_hardwareE:
  assumes "check_hardware v schemas = Inr ()"
  obtains hw binding boards fs where "v = JObj hw"
    "dict_get hw ''subject_binding'' = JObj binding"
    "dict_get binding ''required_fields'' = JArr (map JStr fs)" "fs \<noteq> []"
    "dict_get hw ''required_boards_by_target'' = JObj boards"
    "\<forall>x\<in>set boards. \<exists>bs. snd x = JArr (map JStr bs) \<and> bs \<noteq> []"
  using assms unfolding check_hardware_def Let_def
  apply (elim run_elims)
  apply (drule need_list_returns)+
  apply (elim exE conjE)
  apply (rule that)
       apply ((rule returns, assumption)+, assumption, assumption, (rule returns, assumption)+)
  apply (erule lists_return)
  done

lemma check_targetsE:
  assumes "check_targets ota_v targets_v schemas = Inr ()"
  obtains ota ota_targets targets where "ota_v = JObj ota" "dict_get ota ''targets'' = JObj ota_targets"
    "targets_v = JObj targets" "\<forall>tp\<in>set targets. check_target ota_targets tp = Inr ()"
    "set (dict_keys ota_targets) \<subseteq> set (dict_keys targets)"
  using assms unfolding check_targets_def
  apply (elim run_elims)
  apply (rule that)
      apply ((rule returns, assumption)+, simp add: for_all_ok ensure_ok dict_has_keys subset_eq)
  done

lemma check_targetE:
  assumes "check_target ota_targets (t, v) = Inr ()"
  obtains policy ota where "v = JObj policy" "\<And>f. f \<in> set TARGET_BOOL_FIELDS \<Longrightarrow> is_bool (dict_get policy f)"
    "dict_get ota_targets t = JObj ota" "py_eq (dict_get ota ''ota_capable'') (dict_get policy ''ota_capable'')"
  using assms unfolding check_target_def Let_def fst_conv snd_conv
  apply (elim run_elims)
  apply (rule that)
     apply (rule returns, assumption)
    apply (fastforce simp: need_booleans_ok)
   apply (rule returns, assumption)
  apply (erule ensure_returns)
  done

section \<open>What an accepted contract leaves to the join\<close>

text \<open>\<open>yields m P\<close>: the collecting run returns, and everything it reports satisfies \<open>P\<close>.\<close>

definition yields :: "('e, 'f list) result \<Rightarrow> ('f \<Rightarrow> bool) \<Rightarrow> bool" where
  "yields m P \<longleftrightarrow> (\<exists>fs. m = Inr fs \<and> list_all P fs)"

lemma yields_Inr [simp]: "yields (Inr fs) P \<longleftrightarrow> list_all P fs"
  by (simp add: yields_def)

lemma yields_bind: "m = Inr x \<Longrightarrow> yields (f x) P \<Longrightarrow> yields (bindE m f) P"
  by simp

lemma yields_collectE: "\<forall>m\<in>set ms. yields m P \<Longrightarrow> yields (collectE ms) P"
  by (induction ms) (auto simp: yields_def)

lemma list_all_report [simp]: "list_all P (report c e) \<longleftrightarrow> (c \<longrightarrow> P e)"
  by (simp add: report_def)

lemma list_all_concat_map [simp]: "list_all P (concat (map f xs)) \<longleftrightarrow> (\<forall>x\<in>set xs. list_all P (f x))"
  by (induction xs) auto

text \<open>The failures of the join that are a matter of the contract alone.\<close>

fun contract_side :: "join_failure \<Rightarrow> bool" where
  "contract_side (NoSubjectBinding t) \<longleftrightarrow> True"
| "contract_side (RoleNeedsDigestFields t r) \<longleftrightarrow> True"
| "contract_side (OtaMismatch t) \<longleftrightarrow> True"
| "contract_side (OtaTargetUnknown t) \<longleftrightarrow> True"
| "contract_side _ \<longleftrightarrow> False"

abbreviation matrix_side :: "join_failure \<Rightarrow> bool" where
  "matrix_side f \<equiv> \<not> contract_side f"

lemma check_role_binding_ok:
  "check_role_binding roles rb = Inr u \<longleftrightarrow> fst rb \<in> set roles \<and> (\<exists>b. snd rb = JObj b \<and>
     (\<forall>f\<in>{''digest_source'', ''final_digest_field'', ''input_digest_field''}. \<exists>s. dict_get b f = JStr s \<and> s \<noteq> []))"
  unfolding check_role_binding_def Let_def andthen_ok bindE_ok ensure_ok as_object_ok need_strings_ok
  by simp

lemma check_scenario_checks_ok:
  assumes "check_scenario_checks ss cs x = Inr u"
  shows "fst x \<in> set ss \<and> (\<exists>xs. snd x = JArr (map JStr xs) \<and> xs \<noteq> [] \<and> set xs \<subseteq> set cs)"
proof -
  obtain xs where "fst x \<in> set ss" "snd x = JArr (map JStr xs)" "xs \<noteq> []" "\<forall>c\<in>set xs. c \<in> set cs"
    using assms unfolding check_scenario_checks_def Let_def
    by (elim run_elims) (auto simp: ensure_ok for_all_ok string_list_ok)
  then show ?thesis by blast
qed

lemma check_scenario_contract_known:
  assumes "check_scenario_contract sc = Inr u"
  shows "\<exists>k. snd sc = JObj k \<and> dict_get k ''expected_outcome'' \<in> JStr ` set EXPECTED_OUTCOMES \<and>
     dict_get k ''observed_layer'' \<in> JStr ` set OBSERVED_LAYERS"
proof -
  obtain k where "snd sc = JObj k"
      "in_str_set (dict_get k ''expected_outcome'') EXPECTED_OUTCOMES = (Inr True :: bool checked)"
      "in_str_set (dict_get k ''observed_layer'') OBSERVED_LAYERS = (Inr True :: bool checked)"
    using assms unfolding check_scenario_contract_def Let_def in_order.simps(2)
    by (elim run_elims) (auto simp: ensure_ok as_object_ok)
  then show ?thesis
    by (auto simp: in_str_set_def is_str_iff split: if_splits)
qed

lemma required_signing_roles_bound: "set (required_signing_roles policy bindings) \<subseteq> fst ` set bindings"
  by (auto simp: required_signing_roles_def only_if_def)

lemma py_eq_truthy: "is_bool b \<Longrightarrow> py_eq a b \<Longrightarrow> truthy a = truthy b"
  by (cases a; cases b) (auto split: if_splits)

context accepted
begin

lemma runtime:
  obtains rt cs ss stc ks suites where "dict_get payload ''runtime'' = JObj rt"
    "dict_get rt ''required_checks'' = JArr (map JStr cs)" "cs \<noteq> []"
    "dict_get rt ''required_scenarios'' = JArr (map JStr ss)" "ss \<noteq> []"
    "dict_get rt ''scenario_to_checks'' = JObj stc" "\<forall>x\<in>set stc. check_scenario_checks ss cs x = Inr ()"
    "dict_get rt ''scenario_contracts'' = JObj ks" "set (dict_keys ks) = set ss"
    "\<forall>sc\<in>set ks. check_scenario_contract sc = Inr ()"
    "dict_get rt ''suite_targets'' = JObj suites" "\<forall>x\<in>set suites. \<exists>xs. snd x = JArr (map JStr xs)"
proof -
  obtain schemas where "check_runtime (dict_get payload ''runtime'') schemas = Inr ()"
    using valid unfolding validate_contract_ok by blast
  then show thesis by (rule check_runtimeE) (rule that)
qed

lemma signing:
  obtains sg roles bs where "dict_get payload ''signing'' = JObj sg"
    "dict_get sg ''signed_artifact_roles'' = JArr (map JStr roles)" "roles \<noteq> []"
    "dict_get sg ''role_bindings'' = JObj bs" "set roles \<subseteq> set (dict_keys bs)"
    "\<forall>rb\<in>set bs. check_role_binding roles rb = Inr ()"
proof -
  obtain schemas where "check_signing (dict_get payload ''signing'') schemas = Inr ()"
    using valid unfolding validate_contract_ok by blast
  then show thesis by (rule check_signingE) (rule that)
qed

lemma hardware:
  obtains hw binding boards fs where "dict_get payload ''hardware'' = JObj hw"
    "dict_get hw ''subject_binding'' = JObj binding"
    "dict_get binding ''required_fields'' = JArr (map JStr fs)" "fs \<noteq> []"
    "dict_get hw ''required_boards_by_target'' = JObj boards"
proof -
  obtain schemas where "check_hardware (dict_get payload ''hardware'') schemas = Inr ()"
    using valid unfolding validate_contract_ok by blast
  then show thesis by (rule check_hardwareE) (rule that)
qed

lemma targets:
  obtains ota ota_targets ts where "dict_get payload ''ota'' = JObj ota"
    "dict_get ota ''targets'' = JObj ota_targets" "dict_get payload ''targets'' = JObj ts"
    "\<forall>tp\<in>set ts. check_target ota_targets tp = Inr ()" "set (dict_keys ota_targets) \<subseteq> set (dict_keys ts)"
proof -
  obtain schemas where "check_targets (dict_get payload ''ota'') (dict_get payload ''targets'') schemas = Inr ()"
    using valid unfolding validate_contract_ok by blast
  then show thesis by (rule check_targetsE) (rule that)
qed

lemma suites_return: "\<exists>ss. runtime_suite_targets_for t payload = Inr ss"
proof -
  obtain rt suites where s: "dict_get payload ''runtime'' = JObj rt" "dict_get rt ''suite_targets'' = JObj suites"
      "\<forall>x\<in>set suites. \<exists>xs. snd x = JArr (map JStr xs)"
    using runtime by metis
  have "\<exists>xs. dict_get_or suites t (JArr []) = JArr xs"
    using dict_get_or_cases [of suites t "JArr []"] s(3) by fastforce
  with policy_items_get [OF s(1,2)] show ?thesis
    by (auto simp: runtime_suite_targets_for_def)
qed

lemma join_runtime_yields: "yields (join_runtime payload rows ts t) matrix_side"
  using suites_return [of t] by (auto simp: join_runtime_def)

lemma join_hardware_yields: "yields (join_hardware payload t) matrix_side"
proof -
  obtain hw binding boards fs where h: "dict_get payload ''hardware'' = JObj hw"
      "dict_get hw ''subject_binding'' = JObj binding"
      "dict_get binding ''required_fields'' = JArr (map JStr fs)" "fs \<noteq> []"
      "dict_get hw ''required_boards_by_target'' = JObj boards"
    by (rule hardware)
  show ?thesis
    by (simp add: join_hardware_def policy_items_get [OF h(1,5)] dict_get_or_some [OF h(1)]
        h(2-4) Let_def)
qed

lemma role_bindings:
  obtains bs where "signing_role_bindings payload = Inr bs"
    "\<And>r b. (r, b) \<in> set bs \<Longrightarrow> truthy (dict_get b ''final_digest_field'') \<and> truthy (dict_get b ''input_digest_field'')"
proof -
  obtain sg roles bs where s: "dict_get payload ''signing'' = JObj sg" "dict_get sg ''role_bindings'' = JObj bs"
      "\<forall>rb\<in>set bs. check_role_binding roles rb = Inr ()"
    by (rule signing)
  have items: "signing_role_bindings payload = Inr (object_items bs)"
    by (simp add: signing_role_bindings_def policy_items_get [OF s(1,2)])
  have "truthy (dict_get b ''final_digest_field'') \<and> truthy (dict_get b ''input_digest_field'')"
    if "(r, b) \<in> set (object_items bs)" for r b
  proof -
    from that obtain v where "(r, v) \<in> set bs" "b = members v" by (auto simp: object_items_def)
    with s(3) show ?thesis by (fastforce simp: check_role_binding_ok)
  qed
  with items show thesis by (rule that)
qed

lemma join_signing_yields: "yields (join_signing payload policy row t) matrix_side"
proof -
  obtain bs where bs: "signing_role_bindings payload = Inr bs"
    "\<And>r b. (r, b) \<in> set bs \<Longrightarrow> truthy (dict_get b ''final_digest_field'') \<and> truthy (dict_get b ''input_digest_field'')"
    using role_bindings by blast
  have "truthy (dict_get (case map_of bs r of None \<Rightarrow> [] | Some b \<Rightarrow> b) ''final_digest_field'') \<and>
        truthy (dict_get (case map_of bs r of None \<Rightarrow> [] | Some b \<Rightarrow> b) ''input_digest_field'')"
    if "r \<in> set (required_signing_roles policy bs)" for r
  proof -
    have "r \<in> fst ` set bs" using that required_signing_roles_bound by blast
    then obtain b where b: "map_of bs r = Some b"
      by (metis map_of_eq_None_iff not_None_eq)
    show ?thesis using bs(2) [OF map_of_SomeD [OF b]] by (simp add: b)
  qed
  then show ?thesis
    by (simp add: join_signing_def bs(1) Let_def)
qed

lemma target_policy_facts:
  assumes "dict_get payload ''targets'' = JObj ts" "(t, v) \<in> set ts"
  obtains policy ota where "v = JObj policy" "\<And>f. f \<in> set TARGET_BOOL_FIELDS \<Longrightarrow> is_bool (dict_get policy f)"
    "ota_target_policy t payload = Inr ota" "truthy (dict_get ota ''ota_capable'') = truthy (dict_get policy ''ota_capable'')"
proof -
  obtain ota ota_targets where o': "dict_get payload ''ota'' = JObj ota" "dict_get ota ''targets'' = JObj ota_targets"
      "\<forall>tp\<in>set ts. check_target ota_targets tp = Inr ()"
    using targets assms(1) by (metis json.inject(6))
  from o'(3) assms(2) have "check_target ota_targets (t, v) = Inr ()" by blast
  then show thesis
  proof (rule check_targetE)
    fix policy ota'
    assume p: "v = JObj policy" "\<And>f. f \<in> set TARGET_BOOL_FIELDS \<Longrightarrow> is_bool (dict_get policy f)"
      "dict_get ota_targets t = JObj ota'" "py_eq (dict_get ota' ''ota_capable'') (dict_get policy ''ota_capable'')"
    have "ota_target_policy t payload = Inr ota'"
      by (simp add: ota_target_policy_def policy_items_get [OF o'(1,2)] dict_get_or_some [OF p(3)])
    moreover have "truthy (dict_get ota' ''ota_capable'') = truthy (dict_get policy ''ota_capable'')"
      by (rule py_eq_truthy [OF _ p(4)]) (simp add: p(2) TARGET_BOOL_FIELDS_def)
    ultimately show thesis using p(1,2) by (rule that [rotated 2])
  qed
qed

lemma join_policy_yields:
  assumes "dict_get payload ''targets'' = JObj ts" "(t, v) \<in> set ts"
  shows "yields (join_policy payload rows ts (t, v)) matrix_side"
proof -
  obtain policy ota where p: "v = JObj policy" "ota_target_policy t payload = Inr ota"
      "truthy (dict_get ota ''ota_capable'') = truthy (dict_get policy ''ota_capable'')"
    by (rule target_policy_facts [OF assms])
  have "yields (join_target payload rows ts t policy row) matrix_side" for row
    unfolding join_target_def
    by (rule yields_collectE)
      (simp add: p(2,3) join_runtime_yields join_hardware_yields join_signing_yields)
  then show ?thesis by (simp add: join_policy_def p(1) split: json.splits)
qed

lemma join_yields:
  assumes "matrix_rows matrix = Inr rs"
  shows "yields (validate_matrix_join matrix payload) matrix_side"
proof -
  obtain ota ota_targets ts where o': "dict_get payload ''ota'' = JObj ota"
      "dict_get ota ''targets'' = JObj ota_targets" "dict_get payload ''targets'' = JObj ts"
      "set (dict_keys ota_targets) \<subseteq> set (dict_keys ts)"
    by (rule targets)
  have policies: "yields (collectE (map (join_policy payload rows ts) ts)) matrix_side" for rows
    by (rule yields_collectE) (auto intro: join_policy_yields [OF o'(3)])
  have known: "dict_has ts t" if "t \<in> set (dict_keys ota_targets)" for t
    using that o'(4) by (auto simp: dict_has_keys)
  show ?thesis
    unfolding validate_matrix_join_def assms Let_def bindE_simps dict_index_some [OF o'(3) json.distinct(11) [symmetric]]
      dict_of.simps policy_items_get [OF o'(1,2)]
    by (rule yields_collectE) (simp add: policies known)
qed

end

end
