(* ===== verification/ContractProps.thy ===== *)
theory ContractProps
  imports ContractSample ContractSections
begin

text \<open>
  What an accepted contract guarantees to the tools that read it: properties of
  \<open>validate_contract\<close> together with the accessors of \<open>ContractPolicy\<close>. Each witness is the
  repository's own document.
\<close>

section \<open>Profiles\<close>

text \<open>
  C6. With an accepted contract, the profiles that may authorise a release and those that may
  publish are sorted, duplicate-free lists of known profiles; both contain the release candidate
  and the production candidate, neither contains the dry run, and a profile is listed exactly
  when its policy sets the flag.
\<close>

theorem release_profiles_separated:
  assumes "json_wf (JObj p)" and "validate_contract p = Inr ()"
  shows "\<exists>ra pa. release_authorizing_profiles p = Inr ra \<and> publication_allowed_profiles p = Inr pa \<and>
    sorted ra \<and> distinct ra \<and> sorted pa \<and> distinct pa \<and>
    set ra \<union> set pa \<subseteq> set EXPECTED_PROFILES \<and>
    {''release-candidate'', ''production-candidate''} \<subseteq> set ra \<inter> set pa \<and>
    ''rc-evidence-dry-run'' \<notin> set ra \<union> set pa \<and>
    (\<forall>n. n \<in> set ra \<longleftrightarrow> (\<exists>o'. profile_policy n p = Inr o' \<and> dict_get o' ''release_authorizing'' = JBool True)) \<and>
    (\<forall>n. n \<in> set pa \<longleftrightarrow> (\<exists>o'. profile_policy n p = Inr o' \<and> dict_get o' ''publication_allowed'' = JBool True))"
proof -
  note acc = accepted.intro [OF assms]
  obtain ps where ps: "profile_items p = Inr ps" "set (dict_keys ps) = set EXPECTED_PROFILES"
    using accepted.profiles [OF acc] by metis
  let ?ra = "names_where ''release_authorizing'' True ps"
  let ?pa = "names_where ''publication_allowed'' True ps"
  have q: "release_authorizing_profiles p = Inr ?ra" "publication_allowed_profiles p = Inr ?pa"
    by (simp_all add: release_authorizing_profiles_def publication_allowed_profiles_def ps(1))
  note policy = accepted.policy_iff [OF acc ps(1)]
  note pinned = accepted.pinned [OF acc ps(1)]
  have rc: "\<exists>o'. dict_get ps ''release-candidate'' = JObj o' \<and> dict_get o' ''release_authorizing'' = JBool True \<and>
      dict_get o' ''publication_allowed'' = JBool True"
    by (rule pinned [of "''release-candidate''"]) (simp add: EXPECTED_PROFILE_VALUES_def, auto)
  have pc: "\<exists>o'. dict_get ps ''production-candidate'' = JObj o' \<and> dict_get o' ''release_authorizing'' = JBool True \<and>
      dict_get o' ''publication_allowed'' = JBool True"
    by (rule pinned [of "''production-candidate''"]) (simp add: EXPECTED_PROFILE_VALUES_def, auto)
  have dry: "\<exists>o'. dict_get ps ''rc-evidence-dry-run'' = JObj o' \<and> dict_get o' ''release_authorizing'' = JBool False \<and>
      dict_get o' ''publication_allowed'' = JBool False"
    by (rule pinned [of "''rc-evidence-dry-run''"]) (simp add: EXPECTED_PROFILE_VALUES_def, auto)
  note ra = authorizing.selected [OF assms(1) ps(1) q(1)] and pa = publishing.selected [OF assms(1) ps(1) q(2)]
  show ?thesis
    using authorizing.in_order [OF q(1)] authorizing.unique [OF assms(1) q(1)]
      publishing.in_order [OF q(2)] publishing.unique [OF assms(1) q(2)]
      authorizing.within [OF assms(1) ps(1) q(1)] publishing.within [OF assms(1) ps(1) q(2)]
      rc pc dry
    by (intro exI [of _ ?ra] exI [of _ ?pa]) (auto simp: q ra pa policy ps(2))
qed

theorem release_profiles_separated_witness:
  "\<exists>ra. release_authorizing_profiles repo_contract = Inr ra \<and> ''rc-evidence-dry-run'' \<notin> set ra"
  using release_profiles_separated [OF repo_contract_wf repo_contract_valid] by blast

section \<open>Output trees\<close>

text \<open>
  C20. With an accepted contract, the dry-run tree is neither a tree that a release tag may
  carry nor one that operators deliver into, it is never promotable and always ignored by git;
  and the declared trees are exactly those a tag may carry together with those that are not
  promotable: no promotable tree is kept off a release tag.
\<close>

theorem dry_run_tree_isolated:
  assumes "json_wf (JObj p)" and "validate_contract p = Inr ()"
  shows "\<exists>rs ta oi np gi. output_tree_roots p = Inr rs \<and> release_tag_allowed_roots p = Inr ta \<and>
    operator_ingress_allowed_roots p = Inr oi \<and> non_promotable_roots p = Inr np \<and>
    gitignore_required_roots p = Inr gi \<and>
    ''release-dry-run'' \<in> set rs \<and> ''release-dry-run'' \<notin> set ta \<union> set oi \<and>
    ''release-dry-run'' \<in> set np \<inter> set gi \<and> set rs = set ta \<union> set np"
proof -
  note acc = accepted.intro [OF assms]
  obtain ts where ts: "tree_items p = Inr ts" "set REQUIRED_TREES \<subseteq> set (dict_keys ts)"
      "check_dry_run_tree ts = Inr ()"
    using accepted.trees [OF acc] by metis
  let ?q = "\<lambda>f b. names_where f b ts"
  have q: "output_tree_roots p = Inr (sort (dict_keys ts))"
      "release_tag_allowed_roots p = Inr (?q ''release_tag_allowed'' True)"
      "operator_ingress_allowed_roots p = Inr (?q ''operator_ingress_allowed'' True)"
      "non_promotable_roots p = Inr (?q ''promotable'' False)"
      "gitignore_required_roots p = Inr (?q ''gitignore_required'' True)"
    by (simp_all add: output_tree_roots_def release_tag_allowed_roots_def
        operator_ingress_allowed_roots_def non_promotable_roots_def gitignore_required_roots_def ts(1))
  obtain dry where dry: "dict_get ts ''release-dry-run'' = JObj dry"
      "dict_get dry ''promotable'' = JBool False" "dict_get dry ''operator_ingress_allowed'' = JBool False"
      "dict_get dry ''release_tag_allowed'' = JBool False" "dict_get dry ''gitignore_required'' = JBool True"
    using ts(3) by (auto simp: dry_run_tree_ok)
  note ta = taggable.selected [OF assms(1) ts(1) q(2)] and oi = operator.selected [OF assms(1) ts(1) q(3)]
    and np = unpromotable.selected [OF assms(1) ts(1) q(4)] and gi = ignored.selected [OF assms(1) ts(1) q(5)]
  have cover: "r \<in> set (?q ''release_tag_allowed'' True) \<union> set (?q ''promotable'' False)"
    if "r \<in> set (dict_keys ts)" for r
  proof -
    have "dict_has ts r" using that by (simp add: dict_has_keys)
    then obtain o' where o': "dict_get ts r = JObj o'" "well_formed_tree (r, JObj o')"
      by (rule accepted.tree [OF acc ts(1)])
    then show ?thesis
      by (auto simp: ta np well_formed_tree_def TREE_BOOL_FIELDS_def is_bool_iff)
  qed
  have "set (?q ''release_tag_allowed'' True) \<union> set (?q ''promotable'' False) \<subseteq> set (dict_keys ts)"
    using taggable.within [OF assms(1) ts(1) q(2)] unpromotable.within [OF assms(1) ts(1) q(4)] by simp
  with cover have "set (dict_keys ts) = set (?q ''release_tag_allowed'' True) \<union> set (?q ''promotable'' False)"
    by auto
  then show ?thesis
    unfolding q using dry ts(2) by (simp add: ta oi np gi REQUIRED_TREES_def)
qed

theorem dry_run_tree_isolated_witness:
  "\<exists>ta. release_tag_allowed_roots repo_contract = Inr ta \<and> ''release-dry-run'' \<notin> set ta"
  using dry_run_tree_isolated [OF repo_contract_wf repo_contract_valid] by blast

text \<open>
  With an accepted contract, every known profile has a sorted, duplicate-free list of
  required output roots; each is a declared tree with a schema role, the trees required by
  default are among them, and so is the subject graph where the profile requires one.
\<close>

theorem required_roots_declared:
  assumes "json_wf (JObj p)" and "validate_contract p = Inr ()" and "name \<in> set EXPECTED_PROFILES"
  shows "\<exists>rs profile. required_output_roots name p = Inr rs \<and> profile_policy name p = Inr profile \<and>
    sorted rs \<and> distinct rs \<and>
    (\<forall>r\<in>set rs. \<exists>role. output_tree_schema_role r p = Inr role \<and> role \<noteq> []) \<and>
    (\<forall>r tree. output_tree_for_root r p = Inr (Some tree) \<and> dict_get tree ''required_by_default'' = JBool True
       \<longrightarrow> r \<in> set rs) \<and>
    (dict_get profile ''subject_graph_required'' = JBool True \<longrightarrow> ''release-subject-graph'' \<in> set rs) \<and>
    (dict_get profile ''gap_report_required'' = JBool True \<longrightarrow> ''release-dry-run'' \<in> set rs)"
proof -
  note acc = accepted.intro [OF assms(1,2)]
  obtain profile roots ts where pr: "profile_policy name p = Inr profile"
      "dict_get profile ''required_output_trees'' = JArr (map JStr roots)"
      "tree_items p = Inr ts" "set roots \<subseteq> set (dict_keys ts)"
      "dict_get profile ''subject_graph_required'' = JBool True \<Longrightarrow> ''release-subject-graph'' \<in> set roots"
      "dict_get profile ''gap_report_required'' = JBool True \<Longrightarrow> ''release-dry-run'' \<in> set roots"
    using accepted.profile [OF acc assms(3)] by metis
  have list: "dict_get_or profile ''required_output_trees'' (JArr []) = JArr (map JStr roots)"
    using pr(2) by (auto simp: dict_get_or_def dict_get_def split: option.splits)
  let ?rs = "sorted_set (names_where ''required_by_default'' True ts @ roots)"
  have rs: "required_output_roots name p = Inr ?rs"
    by (simp add: required_output_roots_def pr(1,3) list comp_def)
  have names: "set (names_where ''required_by_default'' True ts) \<subseteq> set (dict_keys ts)"
    by (auto simp: names_where_def dict_keys_def)
  have role: "\<exists>role. output_tree_schema_role r p = Inr role \<and> role \<noteq> []" if "r \<in> set ?rs" for r
  proof -
    have "dict_has ts r" using that names pr(4) by (auto simp: dict_has_keys)
    then obtain o' where o': "dict_get ts r = JObj o'" "well_formed_tree (r, JObj o')"
      by (rule accepted.tree [OF acc pr(3)])
    then obtain role where role: "dict_get o' ''schema_role'' = JStr role" "role \<noteq> []"
      by (auto simp: well_formed_tree_def)
    have "(dict_index o' ''schema_role'' :: json checked) = Inr (JStr role)"
      using role dict_index_get [of o' "''schema_role''"] by simp
    then show ?thesis
      using role by (simp add: output_tree_schema_role_def output_tree_for_root_def pr(3) o'(1))
  qed
  have default: "r \<in> set ?rs" if "output_tree_for_root r p = Inr (Some tree)"
      "dict_get tree ''required_by_default'' = JBool True" for r tree
  proof -
    have get: "dict_get ts r = JObj tree"
      using that(1) by (auto simp: output_tree_for_root_def pr(3) split: json.splits)
    then have "(r, JObj tree) \<in> set ts"
      using item_of_key [of r ts] dict_get_has [of ts r] by (simp add: dict_has_keys)
    then show ?thesis using that(2) by (force simp: names_where_def)
  qed
  show ?thesis
    by (rule exI [of _ ?rs], rule exI [of _ profile]) (use rs pr(1,5,6) role default in \<open>auto simp del: set_sorted_set\<close>, auto)
qed

theorem required_roots_declared_witness:
  "\<exists>rs. required_output_roots ''production-candidate'' repo_contract = Inr rs \<and> sorted rs \<and> distinct rs"
  using required_roots_declared [OF repo_contract_wf repo_contract_valid, of "''production-candidate''"]
  by (auto simp: EXPECTED_PROFILES_def)

section \<open>Runtime and signing catalogs\<close>

text \<open>
  With an accepted contract, the runtime accessors return: the required checks and
  scenarios are non-empty lists of strings, the check map names required scenarios and required
  checks only, and the scenario contracts are given for exactly the required scenarios, each
  with a known outcome and a known observed layer.
\<close>

theorem runtime_catalog_closed:
  assumes "json_wf (JObj p)" and "validate_contract p = Inr ()"
  shows "\<exists>cs ss m ks. runtime_required_checks p = Inr (map JStr cs) \<and> cs \<noteq> [] \<and>
    runtime_required_scenarios p = Inr (map JStr ss) \<and> ss \<noteq> [] \<and>
    runtime_scenario_to_checks p = Inr m \<and>
    (\<forall>(s, xs)\<in>set m. s \<in> set ss \<and> xs \<noteq> [] \<and> set xs \<subseteq> set cs) \<and>
    runtime_scenario_contracts p = Inr ks \<and> fst ` set ks = set ss \<and>
    (\<forall>(s, k)\<in>set ks. dict_get k ''expected_outcome'' \<in> JStr ` set EXPECTED_OUTCOMES \<and>
                     dict_get k ''observed_layer'' \<in> JStr ` set OBSERVED_LAYERS)"
proof -
  note acc = accepted.intro [OF assms]
  obtain rt cs ss stc ks where r: "dict_get p ''runtime'' = JObj rt"
    "dict_get rt ''required_checks'' = JArr (map JStr cs)" "cs \<noteq> []"
    "dict_get rt ''required_scenarios'' = JArr (map JStr ss)" "ss \<noteq> []"
    "dict_get rt ''scenario_to_checks'' = JObj stc" "\<forall>x\<in>set stc. check_scenario_checks ss cs x = Inr ()"
    "dict_get rt ''scenario_contracts'' = JObj ks" "set (dict_keys ks) = set ss"
    "\<forall>sc\<in>set ks. check_scenario_contract sc = Inr ()"
    by (rule accepted.runtime [OF acc])
  let ?m = "map (\<lambda>(n, v). (n, map py_str (elems v))) stc"
  have stc: "fst x \<in> set ss \<and> (\<exists>xs. snd x = JArr (map JStr xs) \<and> xs \<noteq> [] \<and> set xs \<subseteq> set cs)"
    if "x \<in> set stc" for x
    using r(7) that check_scenario_checks_ok by blast
  have m: "runtime_scenario_to_checks p = Inr ?m"
    unfolding runtime_scenario_to_checks_def policy_items_get [OF r(1,6)] bindE_simps
    by (rule mapE_pure) (use stc in fastforce)
  have m_closed: "\<forall>(s, xs)\<in>set ?m. s \<in> set ss \<and> xs \<noteq> [] \<and> set xs \<subseteq> set cs"
    using stc by (fastforce simp: comp_def)
  have known: "\<exists>k. snd sc = JObj k \<and> dict_get k ''expected_outcome'' \<in> JStr ` set EXPECTED_OUTCOMES \<and>
      dict_get k ''observed_layer'' \<in> JStr ` set OBSERVED_LAYERS" if "sc \<in> set ks" for sc
    using r(10) that check_scenario_contract_known by blast
  then have objects: "object_items ks = map (\<lambda>(n, v). (n, members v)) ks"
    by (intro object_items_all) fastforce
  have "\<forall>(s, k)\<in>set (object_items ks). dict_get k ''expected_outcome'' \<in> JStr ` set EXPECTED_OUTCOMES \<and>
      dict_get k ''observed_layer'' \<in> JStr ` set OBSERVED_LAYERS"
    using known by (fastforce simp: objects)
  moreover have "fst ` set (object_items ks) = set ss"
    using r(9) by (force simp: objects dict_keys_def image_iff)
  moreover have "runtime_scenario_contracts p = Inr (object_items ks)"
    by (simp add: runtime_scenario_contracts_def policy_items_get [OF r(1,8)])
  moreover have "runtime_required_checks p = Inr (map JStr cs)" "runtime_required_scenarios p = Inr (map JStr ss)"
    by (simp_all add: runtime_required_checks_def runtime_required_scenarios_def
        policy_list_get [OF r(1,2)] policy_list_get [OF r(1,4)])
  ultimately show ?thesis using m m_closed r(3,5) by blast
qed

theorem runtime_catalog_closed_witness:
  "\<exists>ss. runtime_required_scenarios repo_contract = Inr (map JStr ss) \<and> ss \<noteq> []"
  using runtime_catalog_closed [OF repo_contract_wf repo_contract_valid] by blast

text \<open>
  With an accepted contract, the signed artifact roles are a non-empty list of strings and
  the role bindings are given for exactly these roles, each with a non-empty digest source and
  non-empty names of its input and final digest fields.
\<close>

theorem signing_roles_bound:
  assumes "json_wf (JObj p)" and "validate_contract p = Inr ()"
  shows "\<exists>roles bs. signed_artifact_roles p = Inr roles \<and> roles \<noteq> [] \<and>
    signing_role_bindings p = Inr bs \<and> fst ` set bs = set roles \<and>
    (\<forall>(r, b)\<in>set bs. \<forall>f\<in>{''digest_source'', ''final_digest_field'', ''input_digest_field''}.
       \<exists>s. dict_get b f = JStr s \<and> s \<noteq> [])"
proof -
  note acc = accepted.intro [OF assms]
  obtain sg roles bs where s: "dict_get p ''signing'' = JObj sg"
      "dict_get sg ''signed_artifact_roles'' = JArr (map JStr roles)" "roles \<noteq> []"
      "dict_get sg ''role_bindings'' = JObj bs" "set roles \<subseteq> set (dict_keys bs)"
      "\<forall>rb\<in>set bs. check_role_binding roles rb = Inr ()"
    by (rule accepted.signing [OF acc])
  have objects: "object_items bs = map (\<lambda>(n, v). (n, members v)) bs"
    using s(6) by (intro object_items_all) (fastforce simp: check_role_binding_ok)
  have "fst ` set (object_items bs) = set roles"
    using s(5,6) by (force simp: objects dict_keys_def image_iff check_role_binding_ok)
  moreover have "\<forall>(r, b)\<in>set (object_items bs). \<forall>f\<in>{''digest_source'', ''final_digest_field'', ''input_digest_field''}.
      \<exists>t. dict_get b f = JStr t \<and> t \<noteq> []"
    using s(6) unfolding objects check_role_binding_ok by fastforce
  ultimately show ?thesis
    using s(3) by (intro exI [of _ roles] exI [of _ "object_items bs"])
      (simp add: signed_artifact_roles_def policy_list_get [OF s(1,2)] comp_def
        signing_role_bindings_def policy_items_get [OF s(1,4)])
qed

theorem signing_roles_bound_witness:
  "\<exists>roles. signed_artifact_roles repo_contract = Inr roles \<and> roles \<noteq> []"
  using signing_roles_bound [OF repo_contract_wf repo_contract_valid] by blast

section \<open>The join with the build matrix\<close>

text \<open>
  With an accepted contract and a matrix whose rows can be listed, \<open>validate_matrix_join\<close>
  returns (it never raises), and it reports nothing that the contract alone could cause: no
  missing subject binding, no role binding without digest fields, no OTA capability mismatch and
  no OTA target that the contract does not know.
\<close>

theorem join_of_accepted_contract:
  assumes "json_wf (JObj p)" and "validate_contract p = Inr ()" and "matrix_rows matrix = Inr rs"
  shows "\<exists>fs. validate_matrix_join matrix p = Inr fs \<and> (\<forall>f\<in>set fs. \<not> contract_side f)"
  using accepted.join_yields [OF accepted.intro [OF assms(1,2)] assms(3)]
  by (auto simp: yields_def list_all_iff)

theorem join_of_accepted_contract_witness:
  "\<exists>fs. validate_matrix_join [(''defconfigs'', JArr [JObj [(''target'', JStr ''x'')]])] repo_contract = Inr fs \<and>
     (\<forall>f\<in>set fs. \<not> contract_side f)"
  by (rule join_of_accepted_contract [OF repo_contract_wf repo_contract_valid])
    (simp add: matrix_rows_def dict_get_or_def)

end
