(* ===== verification/ContractPaths.thy ===== *)
theory ContractPaths
  imports ContractSections ContractSample
begin

text \<open>
  Templates and paths of the contract: what \<open>str.format\<close> makes of a template with plain fields,
  the contract of \<open>safe_relative_path\<close>, and the two properties that rest on them: a subject id
  identifies its release, and an output tree's directory stays below the repository.
\<close>

section \<open>Path guard\<close>

lemma safe_relative_path_some:
  "safe_relative_path v = Some p \<longleftrightarrow> (\<exists>s. v = JStr s \<and> p = path_of s \<and> strip s \<notin> set PLACEHOLDER_VALUES \<and>
     \<not> absolute p \<and> ''..'' \<notin> set (parts p))"
  by (cases v) (auto simp: safe_relative_path_def is_placeholder_def Let_def PLACEHOLDER_VALUES_def)

interpretation rel: path_guard safe_relative_path
  by unfold_locales (auto simp: safe_relative_path_some)

section \<open>Templates\<close>

definition brace_free :: "string \<Rightarrow> bool" where
  "brace_free s \<longleftrightarrow> CHR ''{'' \<notin> set s \<and> CHR ''}'' \<notin> set s"

definition field_name :: "string \<Rightarrow> bool" where
  "field_name n \<longleftrightarrow> n \<noteq> [] \<and> \<not> all_ascii_digits n \<and> brace_free n \<and> list_all (\<lambda>c. c \<notin> set ''!:.['') n"

text \<open>A template as the text before each field with the field, and the text after the last one.\<close>

fun template :: "(string \<times> string) list \<Rightarrow> string \<Rightarrow> string" where
  "template [] t = t"
| "template ((s, f) # fs) t = s @ ''{'' @ f @ ''}'' @ template fs t"

fun filled :: "(string \<Rightarrow> string) \<Rightarrow> (string \<times> string) list \<Rightarrow> string \<Rightarrow> string" where
  "filled val [] t = t"
| "filled val ((s, f) # fs) t = s @ val f @ filled val fs t"

lemma py_format_literal:
  "brace_free s \<Longrightarrow> py_format env (s @ t) = bindE (py_format env t) (\<lambda>r. Inr (s @ r))"
  by (induction s) (auto simp: brace_free_def bindE_def split: sum.splits)

lemma py_format_field:
  assumes "field_name f"
  shows "py_format env (''{'' @ f @ ''}'' @ t) =
    (case env f of None \<Rightarrow> Inl (KeyError f) | Some v \<Rightarrow> bindE (py_format env t) (\<lambda>r. Inr (v @ r)))"
proof -
  obtain c f' where f: "f = c # f'" using assms by (cases f) (auto simp: field_name_def)
  have all: "\<forall>x\<in>set f. x \<noteq> CHR ''}''" using assms by (auto simp: field_name_def brace_free_def)
  have take: "takeWhile (\<lambda>x. x \<noteq> CHR ''}'') (f @ ''}'' @ t) = f"
    and drop: "dropWhile (\<lambda>x. x \<noteq> CHR ''}'') (f @ ''}'' @ t) = CHR ''}'' # t"
    using all by (simp_all add: takeWhile_append2 dropWhile_append2)
  have c: "c \<noteq> CHR ''{''" using assms f by (auto simp: field_name_def brace_free_def)
  have field: "format_field env f = (case env f of None \<Rightarrow> Inl (KeyError f) | Some v \<Rightarrow> Inr v)"
    using assms by (auto simp: format_field_def field_name_def brace_free_def list_all_iff list_ex_iff split: option.splits)
  have "py_format env (''{'' @ f @ ''}'' @ t) = bindE (format_field env f) (\<lambda>v. bindE (py_format env t) (\<lambda>r. Inr (v @ r)))"
    using take drop c unfolding f by (simp add: Let_def)
  then show ?thesis by (simp add: field split: option.splits)
qed

lemma py_format_template:
  assumes "brace_free t" "\<forall>(s, f)\<in>set fs. brace_free s \<and> field_name f \<and> env f = Some (val f)"
  shows "py_format env (template fs t) = Inr (filled val fs t)"
  using assms(2)
proof (induction fs)
  case Nil
  then show ?case using py_format_literal [OF assms(1), of env "[]"] by simp
next
  case (Cons sf fs)
  obtain s f where sf: "sf = (s, f)" by fastforce
  with Cons.prems have h: "brace_free s" "field_name f" "env f = Some (val f)" by auto
  from Cons have "py_format env (template fs t) = Inr (filled val fs t)" by auto
  with h show ?case
    by (simp only: sf template.simps filled.simps py_format_literal [OF h(1)] py_format_field [OF h(2)]) simp
qed

section \<open>Subject ids\<close>

definition subject_fields :: "(string \<times> string) list" where
  "subject_fields = [(''suderra-release:'', ''version''), ('':'', ''target''), ('':'', ''source_sha''),
     ('':'', ''source_run_id'')]"

definition subject_template :: string where
  "subject_template = ''suderra-release:{version}:{target}:{source_sha}:{source_run_id}''"

lemma subject_template_eq: "subject_template = template subject_fields []"
  by (simp add: subject_template_def subject_fields_def)

lemma subject_id_value:
  assumes "dict_index p ''subjects'' = (Inr (JObj o') :: json checked)" "dict_get o' ''subject_id_template'' = JStr subject_template"
  shows "release_subject_id v t s r p = Inr (''suderra-release:'' @ v @ '':'' @ t @ '':'' @ s @ '':'' @ r)"
proof -
  let ?val = "\<lambda>f. if f = ''version'' then v else if f = ''target'' then t else if f = ''source_sha'' then s else r"
  have "py_format (map_of [(''version'', v), (''target'', t), (''source_sha'', s), (''source_run_id'', r)])
      subject_template = Inr (filled ?val subject_fields [])"
    unfolding subject_template_eq
    by (rule py_format_template) (simp_all add: subject_fields_def brace_free_def field_name_def all_ascii_digits_def is_ascii_digit_def code_def)
  then show ?thesis
    using assms by (simp add: release_subject_id_def dict_index_some subject_fields_def)
qed

lemma split_at_unique: "a @ d # b = a' @ d # b' \<Longrightarrow> d \<notin> set a \<Longrightarrow> d \<notin> set a' \<Longrightarrow> a = a' \<and> b = b'"
  by (induction a arbitrary: a') (auto simp: append_eq_Cons_conv Cons_eq_append_conv)

text \<open>
  With the contract's subject template, a subject id determines its release: two ids are
  equal only when version, target, source commit and source run are, as long as none of them
  contains the separator.
\<close>

theorem subject_id_identifies:
  assumes "dict_get p ''subjects'' = JObj o'" and "dict_get o' ''subject_id_template'' = JStr subject_template"
    and "release_subject_id v t s r p = release_subject_id v' t' s' r' p"
    and "\<forall>x\<in>{v, t, s, r, v', t', s', r'}. CHR '':'' \<notin> set x"
  shows "v = v' \<and> t = t' \<and> s = s' \<and> r = r'"
proof -
  note id = subject_id_value [OF dict_index_some [OF assms(1)] assms(2)]
  have "v @ CHR '':'' # t @ CHR '':'' # s @ CHR '':'' # r = v' @ CHR '':'' # t' @ CHR '':'' # s' @ CHR '':'' # r'"
    using assms(3) by (simp add: id)
  with assms(4) show ?thesis by (auto dest!: split_at_unique)
qed

lemma repo_subjects: "\<exists>o'. dict_get repo_contract ''subjects'' = JObj o' \<and> dict_get o' ''subject_id_template'' = JStr subject_template"
  by (simp add: repo_contract_def c_subjects_def subject_template_def dict_get_def)

theorem subject_id_identifies_witness:
  "release_subject_id ''v1'' ''x86'' ''abc'' ''1'' repo_contract \<noteq> release_subject_id ''v1'' ''x86'' ''abc'' ''2'' repo_contract"
proof
  assume eq: "release_subject_id ''v1'' ''x86'' ''abc'' ''1'' repo_contract = release_subject_id ''v1'' ''x86'' ''abc'' ''2'' repo_contract"
  obtain o' where o': "dict_get repo_contract ''subjects'' = JObj o'" "dict_get o' ''subject_id_template'' = JStr subject_template"
    using repo_subjects by blast
  from subject_id_identifies [OF o' eq] show False by simp
qed

section \<open>Output tree paths\<close>

lemma split_on_middle:
  assumes "d \<notin> set w"
  shows "split_on d (a @ w @ b) =
    butlast (split_on d a) @ [last (split_on d a) @ w @ hd (split_on d b)] @ tl (split_on d b)"
proof (induction a)
  case Nil
  show ?case using assms
    by (induction w) (auto simp: neq_Nil_conv split: list.splits)
next
  case (Cons c a)
  show ?case
  proof (cases "c = d")
    case True
    then show ?thesis using Cons.IH by simp
  next
    case False
    obtain x xs where x: "split_on d a = x # xs" by (cases "split_on d a") auto
    show ?thesis using Cons.IH False by (cases xs) (auto simp: x split: list.splits)
  qed
qed

lemma replace_skip:
  assumes "hd old \<notin> set s" "old \<noteq> []"
  shows "replace (s @ t) old new = s @ replace t old new"
  using assms by (induction s) (auto simp: starts_with_def neq_Nil_conv)

lemma replace_version:
  assumes "brace_free a" "brace_free b"
  shows "replace (a @ ''{version}'' @ b) ''{version}'' new = a @ new @ b"
proof -
  have h: "hd ''{version}'' \<notin> set a" "hd ''{version}'' \<notin> set b"
    using assms by (simp_all add: brace_free_def)
  have "replace (''{version}'' @ b) ''{version}'' new = new @ replace b ''{version}'' new"
    by (simp add: starts_with_def)
  also have "replace b ''{version}'' new = b"
    using replace_skip [OF h(2), of "[]" new] by simp
  finally show ?thesis using replace_skip [OF h(1)] by simp
qed

text \<open>Release versions as the tags are written: a \<open>v\<close>, a digit, no slash.\<close>

definition version_like :: "string \<Rightarrow> bool" where
  "version_like v \<longleftrightarrow> (\<exists>d w. v = CHR ''v'' # d # w \<and> is_ascii_digit d \<and> CHR ''/'' \<notin> set w)"

lemma version_like_facts:
  assumes "version_like v"
  shows "CHR ''/'' \<notin> set v" "\<exists>c\<in>set v. is_ascii_digit c" "v \<noteq> []" "hd v = CHR ''v''"
  using assms by (auto simp: version_like_def is_ascii_digit_def code_def)

lemma digit_not_space: "is_ascii_digit c \<Longrightarrow> \<not> is_space c"
  by (auto simp: is_ascii_digit_def is_space_def)

lemma strip_keeps_digit: "c \<in> set s \<Longrightarrow> \<not> is_space c \<Longrightarrow> c \<in> set (strip s)"
proof -
  have l: "c \<in> set (lstrip s)" if "c \<in> set s" "\<not> is_space c" for s
    using that unfolding lstrip_def by (metis Un_iff set_append set_takeWhileD takeWhile_dropWhile_id)
  assume c: "c \<in> set s" "\<not> is_space c"
  then show ?thesis
    using l [of s] l [of "rev (lstrip s)"] l [of "rev s"] l [of "rstrip s"]
    by (auto simp: strip_def rstrip_def lstrip_def)
qed

lemma placeholder_no_digit: "p \<in> set PLACEHOLDER_VALUES \<Longrightarrow> c \<in> set p \<Longrightarrow> \<not> is_ascii_digit c"
  by (auto simp: PLACEHOLDER_VALUES_def is_ascii_digit_def code_def)

lemma safe_path_version:
  assumes safe: "safe_relative_path (JStr (a @ ''v0'' @ b)) \<noteq> None" and v: "version_like v"
  shows "\<exists>p. safe_relative_path (JStr (a @ v @ b)) = Some p"
proof -
  note vf = version_like_facts [OF v]
  from safe obtain p0 where p0: "safe_relative_path (JStr (a @ ''v0'' @ b)) = Some p0" by (auto simp only: not_None_eq)
  then have abs0: "\<not> starts_with (a @ ''v0'' @ b) ''/''"
      and up0: "''..'' \<notin> set (split_on (CHR ''/'') (a @ ''v0'' @ b))"
    by (auto simp: safe_relative_path_some path_of_def)
  obtain c where c: "c \<in> set v" "is_ascii_digit c" using vf(2) by blast
  have strip: "strip (a @ v @ b) \<notin> set PLACEHOLDER_VALUES"
    using strip_keeps_digit [of c "a @ v @ b"] digit_not_space [OF c(2)] c placeholder_no_digit by fastforce
  have abs: "\<not> starts_with (a @ v @ b) ''/''"
    using abs0 vf(3,4) by (cases a; cases v) (auto simp: starts_with_def)
  have "''..'' \<noteq> x @ v @ y" for x y
    using vf(3,4) by (cases v) (auto simp: append_eq_Cons_conv Cons_eq_append_conv)
  then have up: "''..'' \<notin> set (split_on (CHR ''/'') (a @ v @ b))"
    using up0 split_on_middle [OF vf(1), of a b] split_on_middle [of "CHR ''/''" "''v0''" a b]
    by (auto simp del: append_assoc)
  show ?thesis
    using strip abs up by (auto simp: safe_relative_path_some path_of_def)
qed

text \<open>
  With an accepted contract, the directory of a declared output tree whose template names
  the version once is its template with the version filled in, and for a release tag it is a
  safe relative path: below whatever directory it is joined to, without \<open>..\<close> parts.
\<close>

theorem output_tree_path_confined:
  assumes "json_wf (JObj p)" and "validate_contract p = Inr ()"
    and "output_tree_for_root r p = Inr (Some tree)"
    and "dict_get tree ''path_template'' = JStr (a @ ''{version}'' @ b)" and "brace_free a" and "brace_free b"
    and "version_like v"
  shows "output_tree_path r v p = Inr (a @ v @ b) \<and>
    (\<exists>rel. safe_relative_path (JStr (a @ v @ b)) = Some rel \<and> \<not> absolute rel \<and> ''..'' \<notin> set (parts rel) \<and>
       (\<forall>base. resolve (path_join base rel) = resolve base @ parts rel))"
proof -
  note acc = accepted.intro [OF assms(1,2)]
  obtain ts where ts: "tree_items p = Inr ts" using accepted.trees [OF acc] by metis
  have get: "dict_get ts r = JObj tree"
    using assms(3) by (auto simp: output_tree_for_root_def ts split: json.splits)
  then have "dict_has ts r" by (simp add: dict_get_has)
  then have "well_formed_tree (r, JObj tree)"
    by (rule accepted.tree [OF acc ts]) (simp add: get)
  then have "safe_relative_path (JStr (replace (a @ ''{version}'' @ b) ''{version}'' ''v0'')) \<noteq> None"
    using assms(4) by (auto simp: well_formed_tree_def)
  then have safe: "safe_relative_path (JStr (a @ ''v0'' @ b)) \<noteq> None"
    unfolding replace_version [OF assms(5,6)] .
  from safe_path_version [OF safe assms(7)] obtain rel where rel: "safe_relative_path (JStr (a @ v @ b)) = Some rel"
    by blast
  have tmpl: "a @ ''{version}'' @ b = template [(a, ''version'')] b" by simp
  have "py_format (map_of [(''version'', v)]) (a @ ''{version}'' @ b) = Inr (filled (\<lambda>_. v) [(a, ''version'')] b)"
    unfolding tmpl by (rule py_format_template)
      (use assms(5,6) in \<open>auto simp: field_name_def brace_free_def all_ascii_digits_def is_ascii_digit_def code_def\<close>)
  then have "output_tree_path r v p = Inr (a @ v @ b)"
    by (simp add: output_tree_path_def assms(3) dict_index_some [OF assms(4)])
  with rel rel.confined [OF rel] rel.guard_relative [OF rel] rel.guard_no_parent [OF rel] show ?thesis
    by blast
qed

theorem output_tree_path_confined_witness:
  "output_tree_path ''release-runtime'' ''v1.2.3'' repo_contract = Inr ''release-runtime/v1.2.3''"
proof -
  obtain tree where t: "output_tree_for_root ''release-runtime'' repo_contract = Inr (Some tree)"
      "dict_get tree ''path_template'' = JStr (''release-runtime/'' @ ''{version}'' @ [])"
    by (simp add: output_tree_for_root_def tree_items_def output_tree_policy_def repo_contract_def
        c_output_trees_def dict_get_def dict_index_def)
  have v: "version_like ''v1.2.3''" "brace_free ''release-runtime/''" "brace_free []"
    by (simp_all add: version_like_def is_ascii_digit_def code_def brace_free_def)
  show ?thesis
    using output_tree_path_confined [OF repo_contract_wf repo_contract_valid t v(2,3,1)] by simp
qed

end
