(* ===== verification/EvidenceProps.thy ===== *)
theory EvidenceProps
  imports ContractPaths
begin

text \<open>
  Properties of the evidence checks of \<open>ContractEvidence\<close>: what an artifact binding without
  failures is, which evidence a release needs and which role each required file plays.
\<close>

section \<open>Artifact bindings\<close>

definition known_artifact :: "((string \<times> string) \<times> obj) list \<Rightarrow> obj \<Rightarrow> bool" where
  "known_artifact expected a \<longleftrightarrow> (case map_of (rev expected) (artifact_key a) of
     None \<Rightarrow> expected = []
   | Some r \<Rightarrow> py_eq (dict_get a ''target'') (dict_get r ''target''))"

definition real_digest :: "json \<Rightarrow> string \<Rightarrow> bool" where
  "real_digest v d \<longleftrightarrow> v = JStr d \<and> lower_hex_of_length 64 d \<and> d \<noteq> all_zero_sha256"

definition stored :: "artifact_store option \<Rightarrow> path \<Rightarrow> string \<Rightarrow> bool" where
  "stored store p d \<longleftrightarrow> (case store of None \<Rightarrow> True | Some st \<Rightarrow>
     (case digest_of st (path_join (base st) p) of None \<Rightarrow> False
      | Some d' \<Rightarrow> if hashed st then d' = d else True))"

text \<open>The specification of one entry of a binding.\<close>

definition bound_artifact :: "((string \<times> string) \<times> obj) list \<Rightarrow> artifact_store option \<Rightarrow> obj \<Rightarrow> bool" where
  "bound_artifact expected store a \<longleftrightarrow> known_artifact expected a \<and>
     (\<exists>d p. real_digest (dict_get a ''sha256'') d \<and> safe_relative_path (dict_get a ''path'') = Some p \<and>
        stored store p d) \<and>
     is_int (dict_get a ''bytes'') \<and> 0 < int_of (dict_get a ''bytes'')"

lemma check_artifact_file_nil:
  "check_artifact_file st (JStr d) p = [] \<longleftrightarrow> stored (Some st) p d"
  by (auto simp: check_artifact_file_def stored_def Let_def split: option.splits)

lemma check_artifact_nil:
  "check_artifact expected store seen a = [] \<longleftrightarrow> bound_artifact expected store a \<and> artifact_key a \<notin> set seen"
proof -
  have store: "(case (store, rel) of (Some st, Some p) \<Rightarrow> check_artifact_file st (JStr d) p | _ \<Rightarrow> []) = [] \<longleftrightarrow>
      stored store p d" if "rel = Some p" for rel p d
    using that by (auto simp: check_artifact_file_nil stored_def split: option.splits)
  show ?thesis
  proof (cases "is_str (dict_get a ''sha256'') \<and> safe_relative_path (dict_get a ''path'') \<noteq> None")
    case True
    then obtain d p where dp: "dict_get a ''sha256'' = JStr d" "safe_relative_path (dict_get a ''path'') = Some p"
      by (auto simp: is_str_iff)
    show ?thesis
      unfolding check_artifact_def Let_def dp append_is_Nil_conv store [OF refl]
      by (auto simp: bound_artifact_def known_artifact_def real_digest_def dp split: option.splits if_splits)
  next
    case False
    then show ?thesis
      by (auto simp: check_artifact_def Let_def bound_artifact_def real_digest_def)
  qed
qed

lemma objects_Cons:
  "(\<exists>as. JObj a # rest = map JObj as \<and> Q as) \<longleftrightarrow> (\<exists>as. rest = map JObj as \<and> Q (a # as))"
  by (auto simp: Cons_eq_map_conv)

lemma check_artifacts_nil:
  "fst (check_artifacts expected store i seen vs) = [] \<longleftrightarrow> (\<exists>as. vs = map JObj as \<and>
     (\<forall>a\<in>set as. bound_artifact expected store a) \<and> distinct (map artifact_key as) \<and>
     artifact_key ` set as \<inter> set seen = {})"
proof (induction expected store i seen vs rule: check_artifacts.induct)
  case (2 expected store i seen a rest)
  have "fst (check_artifacts expected store i seen (JObj a # rest)) = [] \<longleftrightarrow>
      check_artifact expected store seen a = [] \<and>
      fst (check_artifacts expected store (Suc i) (artifact_key a # seen) rest) = []"
    by (simp add: split_beta)
  also have "\<dots> \<longleftrightarrow> (\<exists>as. rest = map JObj as \<and>
     (\<forall>a\<in>set (a # as). bound_artifact expected store a) \<and> distinct (map artifact_key (a # as)) \<and>
     artifact_key ` set (a # as) \<inter> set seen = {})"
    unfolding 2 check_artifact_nil by fastforce
  also have "\<dots> \<longleftrightarrow> (\<exists>as. JObj a # rest = map JObj as \<and>
     (\<forall>a\<in>set as. bound_artifact expected store a) \<and> distinct (map artifact_key as) \<and>
     artifact_key ` set as \<inter> set seen = {})"
    unfolding objects_Cons ..
  finally show ?case .
qed (auto simp: split_beta map_eq_Cons_conv Cons_eq_map_conv)

lemma check_artifacts_seen:
  "snd (check_artifacts expected store i seen (map JObj as)) = rev (map artifact_key as) @ seen"
  by (induction as arbitrary: i seen) (auto simp: split_beta)

lemma artifact_bindings_nil:
  "validate_release_artifact_bindings artifacts expected store = [] \<longleftrightarrow>
     (\<exists>as. artifacts = JArr (map JObj as) \<and> as \<noteq> [] \<and> (\<forall>a\<in>set as. bound_artifact expected store a) \<and>
        distinct (map artifact_key as) \<and> fst ` set expected \<subseteq> artifact_key ` set as)"
proof (cases "\<exists>vs. artifacts = JArr vs \<and> vs \<noteq> []")
  case True
  then obtain vs where vs: "artifacts = JArr vs" "vs \<noteq> []" by blast
  let ?r = "check_artifacts expected store 0 [] vs"
  have "validate_release_artifact_bindings artifacts expected store = [] \<longleftrightarrow>
      fst ?r = [] \<and> fst ` set expected \<subseteq> set (snd ?r)"
    by (auto simp: validate_release_artifact_bindings_def vs Let_def split_beta)
  also have "\<dots> \<longleftrightarrow> (\<exists>as. vs = map JObj as \<and> (\<forall>a\<in>set as. bound_artifact expected store a) \<and>
        distinct (map artifact_key as) \<and> fst ` set expected \<subseteq> artifact_key ` set as)"
    unfolding check_artifacts_nil using check_artifacts_seen [of expected store 0 "[]"] by fastforce
  finally show ?thesis using vs by auto
next
  case False
  then show ?thesis
    by (cases artifacts) (auto simp: validate_release_artifact_bindings_def)
qed

text \<open>
  \<open>validate_release_artifact_bindings\<close> reports nothing exactly for a non-empty list of
  objects without repeated keys in which every entry is a matrix artifact with the row's target
  (where artifacts are expected at all), has a lower-case SHA-256 digest other than zeros, a
  positive size and a safe relative path, names a file that is there with that digest (where a
  root and a hasher are given), and in which every expected artifact occurs.
\<close>

theorem bindings_accepted_iff:
  "validate_release_artifact_bindings artifacts expected store = [] \<longleftrightarrow>
     (\<exists>as. artifacts = JArr (map JObj as) \<and> as \<noteq> [] \<and> (\<forall>a\<in>set as. bound_artifact expected store a) \<and>
        distinct (map artifact_key as) \<and> fst ` set expected \<subseteq> artifact_key ` set as)"
  by (rule artifact_bindings_nil)

definition sample_artifact :: obj where
  "sample_artifact = [(''defconfig'', JStr ''d''), (''artifact'', JStr ''a.img''), (''target'', JStr ''t''),
     (''sha256'', JStr (replicate 64 (CHR ''1''))), (''bytes'', JInt 7), (''path'', JStr ''d/a.img'')]"

definition sample_store :: artifact_store where
  "sample_store = \<lparr>base = path_of ''build-artifacts'', digest_of = (\<lambda>p.
     if p = path_of ''build-artifacts/d/a.img'' then Some (replicate 64 (CHR ''1'')) else None), hashed = True\<rparr>"

theorem bindings_accepted_iff_witness:
  "\<exists>as. JArr [JObj sample_artifact] = JArr (map JObj as) \<and> distinct (map artifact_key as) \<and>
     (\<forall>a\<in>set as. bound_artifact [((''d'', ''a.img''), [(''target'', JStr ''t'')])] (Some sample_store) a)"
proof -
  have "validate_release_artifact_bindings (JArr [JObj sample_artifact])
      [((''d'', ''a.img''), [(''target'', JStr ''t'')])] (Some sample_store) = []"
    by code_simp
  then show ?thesis using bindings_accepted_iff by blast
qed

section \<open>Required operator evidence\<close>

definition OPERATOR_ROOTS :: "string list" where
  "OPERATOR_ROOTS = [''release-governance'', ''release-retention'', ''release-security'',
     ''release-lab-input'', ''release-signing'', ''release-approvals'', ''release-reproducibility'',
     ''release-runtime'', ''release-ota'']"

text \<open>A path of the version's directory below one of the operators' trees.\<close>

definition operator_path :: "string \<Rightarrow> string \<Rightarrow> bool" where
  "operator_path version q \<longleftrightarrow> (\<exists>r rest. r \<in> set OPERATOR_ROOTS \<and> rest \<noteq> [] \<and> q = evidence_path r version rest)"

lemma set_only_if [simp]: "x \<in> set (only_if c xs) \<longleftrightarrow> c \<and> x \<in> set xs"
  by (simp add: only_if_def)

lemma operator_pathI: "r \<in> set OPERATOR_ROOTS \<Longrightarrow> rest \<noteq> [] \<Longrightarrow> operator_path version (evidence_path r version rest)"
  unfolding operator_path_def by blast

lemma row_evidence_paths:
  assumes "row_evidence version p hardware row = Inr qs" "q \<in> set qs"
  shows "operator_path version q"
  using assms unfolding row_evidence_def Let_def
  by (elim bindE_elim) (auto intro!: operator_pathI simp: OPERATOR_ROOTS_def)

lemma private_target_paths: "q \<in> set (private_target_evidence version tp) \<Longrightarrow> operator_path version q"
  by (auto simp: private_target_evidence_def Let_def OPERATOR_ROOTS_def intro!: operator_pathI)

lemma row_evidence_returns:
  assumes "dict_get p ''targets'' = JObj ts" "dict_has row ''target''"
  shows "\<exists>qs. row_evidence version p hardware row = Inr qs"
  using assms by (auto simp: row_evidence_def target_policy_def dict_get_or_some [OF assms(1)] Let_def dict_index_def dict_has_def)

text \<open>
  With an accepted contract and a matrix whose released rows name their target, the
  operator evidence of a version is a list of paths below the version's own directory in one of
  the operators' trees; it holds the audit log and the station registry, an approval and a
  reproducibility report for every released row, and on a production version the role bindings
  and the retention manifest too.
\<close>

theorem operator_evidence_paths:
  assumes "json_wf (JObj p)" and "validate_contract p = Inr ()"
    and "release_rows matrix = Inr rows" and "\<forall>row\<in>set rows. dict_has row ''target''"
    and "dict_get matrix ''security_scans'' = JArr scans"
  shows "\<exists>qs. operator_required_evidence_paths version matrix p = Inr qs \<and>
    (\<forall>q\<in>set qs. operator_path version q) \<and>
    evidence_path ''release-governance'' version [''audit-log.json''] \<in> set qs \<and>
    evidence_path ''release-governance'' version [''station-registry.json''] \<in> set qs \<and>
    (\<forall>row\<in>set rows. \<forall>r\<in>{''release-approvals'', ''release-reproducibility''}.
       evidence_path r version [py_str (dict_get row ''target'') @ ''.json''] \<in> set qs) \<and>
    (is_production version \<longrightarrow>
       evidence_path ''release-governance'' version [''role-bindings.json''] \<in> set qs \<and>
       evidence_path ''release-retention'' version [''retention-manifest.json''] \<in> set qs \<and>
       (\<forall>scan\<in>set scans. evidence_path ''release-security'' version [py_str scan @ ''.json''] \<in> set qs))"
proof -
  note acc = accepted.intro [OF assms(1,2)]
  obtain ts where ts: "dict_get p ''targets'' = JObj ts" by (rule accepted.targets [OF acc])
  let ?hw = "map (\<lambda>row. row_text row ''target'') (filter needs_hardware rows)"
  have hw: "release_targets_requiring_hardware matrix = Inr ?hw"
    by (simp add: release_targets_requiring_hardware_def assms(3))
  have "\<exists>qss. mapE (row_evidence version p ?hw) rows = Inr qss"
    by (rule mapE_total) (use assms(4) row_evidence_returns [OF ts] in blast)
  then obtain qss where qss: "mapE (row_evidence version p ?hw) rows = Inr qss" ..
  then have rel: "list_all2 (\<lambda>row qs. row_evidence version p ?hw row = Inr qs) rows qss"
    by (simp add: mapE_ok)
  let ?scans = "if is_production version then scans else []"
  let ?ts = "if is_production version then ts else []"
  let ?qs = "[evidence_path ''release-governance'' version [''audit-log.json''],
             evidence_path ''release-governance'' version [''station-registry.json'']]
          @ only_if (is_production version)
             ([evidence_path ''release-governance'' version [''role-bindings.json''],
               evidence_path ''release-retention'' version [''retention-manifest.json'']]
              @ map (\<lambda>scan. evidence_path ''release-security'' version [py_str scan @ ''.json'']) ?scans)
          @ concat qss
          @ concat (map (private_target_evidence version) ?ts)"
  have run: "operator_required_evidence_paths version matrix p = Inr ?qs"
    by (simp add: operator_required_evidence_paths_def assms(3) hw qss dict_get_or_some [OF assms(5)] dict_get_or_some [OF ts])
  have rows: "operator_path version q" if "q \<in> set (concat qss)" for q
  proof -
    from that obtain qs where qs: "qs \<in> set qss" "q \<in> set qs" by auto
    then obtain row where "row_evidence version p ?hw row = Inr qs"
      using list_all2_right [OF rel] by blast
    then show ?thesis using qs(2) by (rule row_evidence_paths)
  qed
  have privates: "operator_path version q" if "q \<in> set (concat (map (private_target_evidence version) ?ts))" for q
    using that private_target_paths by (auto split: if_splits)
  have paths: "operator_path version q" if "q \<in> set ?qs" for q
    using that rows privates
    by (auto intro!: operator_pathI simp: OPERATOR_ROOTS_def simp del: set_concat)
  have per_row: "evidence_path r version [py_str (dict_get row ''target'') @ ''.json''] \<in> set (concat qss)"
    if row: "row \<in> set rows" and r: "r \<in> {''release-approvals'', ''release-reproducibility''}" for row r
  proof -
    obtain qs where qs: "qs \<in> set qss" "row_evidence version p ?hw row = Inr qs"
      using list_all2_left [OF rel row] by blast
    then have "evidence_path r version [py_str (dict_get row ''target'') @ ''.json''] \<in> set qs"
      using r unfolding row_evidence_def Let_def by (elim bindE_elim) (auto simp: dict_index_ok dict_get_map_of)
    with qs(1) show ?thesis by auto
  qed
  show ?thesis
    using paths per_row by (intro exI [of _ ?qs]) (simp add: run)
qed

definition sample_matrix :: obj where
  "sample_matrix = [(''defconfigs'', JArr [JObj [(''target'', JStr ''x86_64''), (''release'', JBool True)]]),
     (''security_scans'', JArr [JStr ''trivy''])]"

theorem operator_evidence_paths_witness:
  "\<exists>qs. operator_required_evidence_paths ''v1.0'' sample_matrix repo_contract = Inr qs \<and>
     evidence_path ''release-approvals'' ''v1.0'' [''x86_64.json''] \<in> set qs"
proof -
  have m: "release_rows sample_matrix = Inr [[(''target'', JStr ''x86_64''), (''release'', JBool True)]]"
      "dict_get sample_matrix ''security_scans'' = JArr [JStr ''trivy'']"
    by (simp_all add: sample_matrix_def release_rows_def matrix_rows_def dict_get_or_def dict_get_def)
  have t: "\<forall>row\<in>set [[(''target'', JStr ''x86_64''), (''release'', JBool True)]]. dict_has row ''target''"
    by (simp add: dict_has_def)
  show ?thesis
    using operator_evidence_paths [OF repo_contract_wf repo_contract_valid m(1) t m(2), of "''v1.0''"]
    by (auto simp: dict_get_def)
qed

section \<open>Preflight roots\<close>

lemma names_where_iff:
  assumes "json_wf (JObj kvs)"
  shows "n \<in> set (names_where f b kvs) \<longleftrightarrow> (\<exists>o'. dict_get kvs n = JObj o' \<and> dict_get o' f = JBool b)"
proof -
  have d: "distinct (map fst kvs)" using assms by simp
  have "n \<in> set (names_where f b kvs) \<longleftrightarrow>
      (\<exists>v. (n, v) \<in> set kvs \<and> is_obj v \<and> dict_get (members v) f = JBool b)"
    by (force simp: names_where_def)
  also have "\<dots> \<longleftrightarrow> (\<exists>o'. dict_get kvs n = JObj o' \<and> dict_get o' f = JBool b)"
    using map_of_eq_Some_iff [OF d, symmetric]
    by (auto simp: dict_get_def [of kvs] is_obj_iff split: option.splits)
  finally show ?thesis .
qed

lemma required_roots_return:
  assumes "profile_policy name p = Inr o'" "dict_get o' ''required_output_trees'' = JArr roots" "tree_items p = Inr ts"
  shows "\<exists>rs. required_output_roots name p = Inr rs"
  using assms by (simp add: required_output_roots_def dict_get_or_some)

text \<open>
  Except for the dry-run profile, the roots that a preflight reads are the required output
  roots other than the build artifacts, together with every tree that operators may deliver into
  and every tree required by default: where the build-artifact tree is required by default, it
  is among them in spite of the filter.
\<close>

theorem preflight_roots:
  assumes "json_wf (JObj p)" and "tree_items p = Inr ts" and "required_output_roots profile p = Inr required"
    and "profile \<noteq> ''rc-evidence-dry-run''"
  shows "\<exists>rs. preflight_input_roots profile p = Inr rs \<and> sorted rs \<and> distinct rs \<and>
    (\<forall>r. r \<in> set rs \<longleftrightarrow> (r \<in> set required \<and> r \<noteq> ''build-artifacts'') \<or>
       (\<exists>tree. output_tree_for_root r p = Inr (Some tree) \<and>
          (dict_get tree ''operator_ingress_allowed'' = JBool True \<or>
           dict_get tree ''required_by_default'' = JBool True)))"
proof -
  let ?rs = "sorted_set (filter (\<lambda>r. r \<noteq> ''build-artifacts'') required
      @ names_where ''operator_ingress_allowed'' True ts @ names_where ''required_by_default'' True ts)"
  have "preflight_input_roots profile p = Inr ?rs"
    by (simp add: preflight_input_roots_def assms(2-4) Let_def)
  moreover have "r \<in> set (names_where f True ts) \<longleftrightarrow>
      (\<exists>tree. output_tree_for_root r p = Inr (Some tree) \<and> dict_get tree f = JBool True)" for r f
    unfolding names_where_iff [OF tree_items_wf [OF assms(1,2)]]
    by (auto simp: output_tree_for_root_def assms(2) split: json.splits)
  ultimately show ?thesis by (intro exI [of _ ?rs]) auto
qed

theorem preflight_roots_witness:
  "\<exists>rs. preflight_input_roots ''release-candidate'' repo_contract = Inr rs \<and> ''build-artifacts'' \<in> set rs"
proof -
  obtain tree ts where t: "tree_items repo_contract = Inr ts"
      "output_tree_for_root ''build-artifacts'' repo_contract = Inr (Some tree)"
      "dict_get tree ''required_by_default'' = JBool True"
    by (simp add: output_tree_for_root_def tree_items_def output_tree_policy_def repo_contract_def
        c_output_trees_def dict_get_def dict_index_def)
  obtain required where "required_output_roots ''release-candidate'' repo_contract = Inr required"
    by (rule repo.profile [of "''release-candidate''"])
      (simp add: EXPECTED_PROFILES_def, metis required_roots_return)
  from preflight_roots [OF repo_contract_wf t(1) this] t(2,3) show ?thesis by auto
qed

end
