(* ===== verification/ContractPlans.thy ===== *)
theory ContractPlans
  imports ContractEvidence
begin

text \<open>
  The plans of \<open>scripts/evidence/evidence_contract.py\<close>: the subject plan that ties every piece
  of release evidence to one subject id, the retention plan, the output tree plan and the
  runtime plan. A plan is the JSON object the source returns, with its keys in the same order.
\<close>

section \<open>Subject plan\<close>

record subject_args =
  sa_version :: string
  sa_profile :: string
  sa_target :: string
  sa_source_sha :: string
  sa_source_run_id :: string
  raw_image_sha256 :: "string option"
  raw_image_bytes :: "int option"
  compressed_artifact_sha256 :: "string option"
  compressed_artifact_bytes :: "int option"

fun opt_str :: "string option \<Rightarrow> json" where
  "opt_str None = JNull"
| "opt_str (Some s) = JStr s"

fun opt_int :: "int option \<Rightarrow> json" where
  "opt_int None = JNull"
| "opt_int (Some i) = JInt i"

definition strict_artifacts :: "json \<Rightarrow> bool" where
  "strict_artifacts profile \<longleftrightarrow> is_obj profile \<and>
     (dict_get (members profile) ''production_candidate'' = JBool True \<or>
      dict_get (members profile) ''strict_artifact_binding'' = JBool True)"

definition check_artifact_args :: "subject_args \<Rightarrow> unit checked" where
  "check_artifact_args a = for_all (\<lambda>(f, present).
       ensure present (ValueError (MissingArgument f (sa_profile a))))
     [(''raw_image_sha256'', raw_image_sha256 a \<noteq> None),
      (''raw_image_bytes'', raw_image_bytes a \<noteq> None),
      (''compressed_artifact_sha256'', compressed_artifact_sha256 a \<noteq> None),
      (''compressed_artifact_bytes'', compressed_artifact_bytes a \<noteq> None)]"

definition EXPORT_SCHEMA_ROLES :: "(string \<times> string) list" where
  "EXPORT_SCHEMA_ROLES =
     [(''release-inputs'', ''binding_manifest''),
      (''release-subject-graph'', ''release_subject_graph''),
      (''release-runtime'', ''production_runtime_suite''),
      (''release-signing'', ''signing_manifest''),
      (''release-lab-input'', ''hardware_subject''),
      (''release-security'', ''release_security_report''),
      (''release-governance'', ''governance_role_bindings''),
      (''release-retention'', ''retention_manifest''),
      (''release-ota'', ''ota_artifacts'')]"

definition export_schema_versions :: "obj \<Rightarrow> (string \<times> json) list checked" where
  "export_schema_versions payload = bindE (dict_index payload ''schema_versions'') (\<lambda>sv.
     bindE (mapE (\<lambda>(n, role). bindE (subscript sv role) (\<lambda>v. Inr (n, v))) (tl EXPORT_SCHEMA_ROLES)) (\<lambda>vs.
       Inr ((''release-inputs'', JStr ''suderra.release-input-binding.v2'') # vs)))"

definition export_required :: "obj \<Rightarrow> string \<Rightarrow> bool" where
  "export_required policy name =
     (if name = ''release-runtime'' then truthy (dict_get policy ''runtime_required'')
      else if name = ''release-signing'' then truthy (dict_get policy ''signing_required'')
      else if name = ''release-lab-input'' then truthy (dict_get policy ''hardware_required'')
      else if name = ''release-security'' then truthy (dict_get policy ''release_image_scan_required'')
      else if name \<in> {''release-governance'', ''release-retention''} then truthy (dict_get policy ''production_gate'')
      else if name = ''release-ota'' then truthy (dict_get policy ''ota_capable'')
      else name \<in> {''release-inputs'', ''release-subject-graph''})"

definition node_id :: "string \<Rightarrow> string \<Rightarrow> string" where
  "node_id subject_id name = subject_id @ '':'' @ name"

definition evidence_node ::
  "string \<Rightarrow> string \<Rightarrow> obj \<Rightarrow> (string \<times> json) list \<Rightarrow> string \<times> string \<Rightarrow> obj" where
  "evidence_node subject_id target policy versions np = (let name = fst np in
     [(''node_id'', JStr (node_id subject_id name)), (''subject_id'', JStr subject_id),
      (''target'', JStr target), (''role'', JStr name), (''path'', JStr (snd np)),
      (''schema_role'', JStr (case map_of EXPORT_SCHEMA_ROLES name of None \<Rightarrow> name | Some r \<Rightarrow> r)),
      (''schema_version'', case map_of versions name of None \<Rightarrow> JStr ''unknown'' | Some v \<Rightarrow> v),
      (''required'', JBool (export_required policy name)),
      (''producer'', JStr ''ci/evidence-contract.yml'')])"

definition evidence_edge :: "string \<Rightarrow> obj \<Rightarrow> string \<times> string \<Rightarrow> obj" where
  "evidence_edge subject_id policy np = (let name = fst np in
     [(''from'', JStr subject_id), (''to'', JStr (node_id subject_id name)),
      (''relationship'', JStr (if export_required policy name then ''requires'' else ''observes'')),
      (''role'', JStr name)])"

definition subject_exports :: "string \<Rightarrow> string \<Rightarrow> string \<Rightarrow> obj \<Rightarrow> (string \<times> string) list checked" where
  "subject_exports version target profile payload =
     bindE (policy_items ''subjects'' ''required_subject_exports'' payload) (\<lambda>items.
       mapE (\<lambda>(n, t). bindE (format_subject_export (py_str t) version target profile)
         (\<lambda>p. Inr (n, p))) items)"

definition matrix_summary :: "obj \<Rightarrow> json" where
  "matrix_summary row = JObj
     [(''artifact'', dict_get row ''artifact''), (''release_artifact'', dict_get row ''release_artifact''),
      (''release_public'', JBool (truthy (dict_get row ''release''))),
      (''production_required'', JBool (truthy (dict_get row ''production_required''))),
      (''production_ready'', JBool (truthy (dict_get row ''production_ready'')))]"

definition artifact_summary :: "subject_args \<Rightarrow> obj \<Rightarrow> json" where
  "artifact_summary a row = JObj
     [(''raw_image'', JObj [(''role'', JStr ''raw-image''), (''name'', dict_get row ''artifact''),
        (''sha256'', opt_str (raw_image_sha256 a)), (''bytes'', opt_int (raw_image_bytes a))]),
      (''compressed_release_artifact'', JObj [(''role'', JStr ''compressed-release-artifact''),
        (''name'', dict_get row ''release_artifact''),
        (''sha256'', opt_str (compressed_artifact_sha256 a)),
        (''bytes'', opt_int (compressed_artifact_bytes a))])]"

definition subject_plan :: "subject_args \<Rightarrow> obj \<Rightarrow> obj \<Rightarrow> obj checked" where
  "subject_plan a matrix payload = (let target = sa_target a in
     bindE (dict_of (dict_get_or payload ''profiles'' (JObj []))) (\<lambda>profiles.
     andthen (ensure (dict_has profiles (sa_profile a)) (ValueError (MissingProfile (sa_profile a))))
     (andthen (if strict_artifacts (dict_get profiles (sa_profile a)) then check_artifact_args a else Inr ())
     (bindE (matrix_row_for_target matrix target) (\<lambda>row.
      bindE (target_policy target payload) (\<lambda>policy.
      andthen (ensure (policy \<noteq> []) (ValueError (MissingTarget target)))
      (bindE (release_subject_id (sa_version a) target (sa_source_sha a) (sa_source_run_id a) payload) (\<lambda>subject_id.
       bindE (subject_exports (sa_version a) target (sa_profile a) payload) (\<lambda>exports.
       bindE (export_schema_versions payload) (\<lambda>versions.
       bindE (dict_index payload ''schema_versions'') (\<lambda>sv.
       bindE (subscript sv ''release_subject_graph'') (\<lambda>graph_version.
       bindE (dict_index payload ''retention'') (\<lambda>retention.
       bindE (subscript retention ''policy_id'') (\<lambda>policy_id.
       bindE (retention_required_exports payload) (\<lambda>retained.
       bindE (ota_target_policy target payload) (\<lambda>ota.
       bindE (runtime_suite_targets_for target payload) (\<lambda>suites.
       bindE (if truthy (dict_get policy ''signing_required'')
              then bindE (signed_artifact_roles payload) (\<lambda>rs. Inr (sorted_set rs)) else Inr []) (\<lambda>roles.
       Inr [(''schema_version'', graph_version), (''subject_id'', JStr subject_id),
         (''version'', JStr (sa_version a)), (''profile'', JStr (sa_profile a)), (''target'', JStr target),
         (''defconfig'', dict_get row ''name''), (''source_sha'', JStr (sa_source_sha a)),
         (''source_run_id'', JStr (sa_source_run_id a)), (''matrix'', matrix_summary row),
         (''artifacts'', artifact_summary a row),
         (''required_evidence'', JObj (map (\<lambda>(n, p). (n, JStr p)) exports)),
         (''evidence_nodes'', JArr (map (\<lambda>np. JObj (evidence_node subject_id target policy versions np)) (sort exports))),
         (''evidence_edges'', JArr (map (\<lambda>np. JObj (evidence_edge subject_id policy np)) (sort exports))),
         (''retention_closure'', JObj [(''policy_id'', policy_id), (''required_exports'', JArr retained)]),
         (''producer'', JObj [(''name'', JStr ''evidence_contract.py subject-plan''),
            (''source'', JStr ''ci/evidence-contract.yml'')]),
         (''target_policy'', JObj policy), (''ota'', JObj ota),
         (''runtime_suite_targets'', JArr (map JStr suites)),
         (''signing_roles'', JArr (map JStr roles))]))))))))))))))))))"

section \<open>Retention plan and output tree plan\<close>

definition retention_plan :: "string \<Rightarrow> string option \<Rightarrow> string option \<Rightarrow> obj \<Rightarrow> obj checked" where
  "retention_plan version source_sha source_run_id payload =
     bindE (dict_index payload ''retention'') (\<lambda>retention.
     bindE (bindE (subscript retention ''required_exports'') py_list) (\<lambda>names.
     bindE (mapE (subscript retention) [''manifest_schema_version'', ''policy_id'', ''store_class'',
        ''minimum_years'', ''kms_required'', ''legal_hold_supported'', ''access_log_required'']) (\<lambda>vs.
     bindE (bindE (subscript retention ''required_replay'') py_list) (\<lambda>replay.
       Inr [(''schema_version'', vs ! 0), (''policy_id'', vs ! 1), (''version'', JStr version),
         (''source_sha'', opt_str source_sha), (''source_run_id'', opt_str source_run_id),
         (''store_class'', vs ! 2), (''minimum_years'', vs ! 3), (''kms_required'', vs ! 4),
         (''legal_hold_supported'', vs ! 5), (''access_log_required'', vs ! 6),
         (''required_exports'', JArr (map (\<lambda>n. JObj [(''name'', n),
            (''path'', JStr (py_str n @ ''/'' @ version))]) names)),
         (''required_replay'', JArr replay),
         (''manifest_path'', JStr (evidence_path ''release-retention'' version [''retention-manifest.json'']))]))))"

definition tree_output :: "string \<Rightarrow> string list \<Rightarrow> string \<times> obj \<Rightarrow> ((bool \<times> string) \<times> obj) checked" where
  "tree_output version required nt = (let name = fst nt; tree = snd nt in
     bindE (dict_index tree ''path_template'') (\<lambda>template.
     bindE (py_format (map_of [(''version'', version)]) (py_str template)) (\<lambda>p.
     bindE (mapE (dict_index tree) [''schema_role'', ''promotable'', ''operator_ingress_allowed'',
        ''release_tag_allowed'', ''dry_run_input_allowed'', ''gitignore_required'']) (\<lambda>vs.
       Inr ((name \<notin> set required, name),
         [(''name'', JStr name), (''path'', JStr p), (''schema_role'', vs ! 0),
          (''required'', JBool (name \<in> set required)), (''promotable'', vs ! 1),
          (''operator_ingress_allowed'', vs ! 2), (''release_tag_allowed'', vs ! 3),
          (''dry_run_input_allowed'', vs ! 4), (''gitignore_required'', vs ! 5)])))))"

definition output_tree_plan :: "string \<Rightarrow> string \<Rightarrow> obj \<Rightarrow> obj checked" where
  "output_tree_plan version profile payload =
     bindE (profile_policy profile payload) (\<lambda>po.
     bindE (tree_items payload) (\<lambda>trees.
     bindE (required_output_roots profile payload) (\<lambda>required.
     bindE (mapE (tree_output version required) (object_items trees)) (\<lambda>outputs.
       Inr ([(''schema_version'', JStr ''suderra.profile-output-tree-plan.v1''),
          (''version'', JStr version), (''profile'', JStr profile)]
        @ map (\<lambda>f. (f, JBool (truthy (dict_get po f))))
          [''release_authorizing'', ''publication_allowed'', ''production_candidate'',
           ''strict_artifact_binding'', ''subject_graph_required'', ''gap_report_required'',
           ''operator_ingress_required'']
        @ [(''outputs'', JArr (map (\<lambda>o'. JObj (snd o')) (sort_key fst outputs)))])))))"

section \<open>Runtime plan\<close>

text \<open>
  \<open>shlex.split\<close>, POSIX mode without comments. A token is absent until its first character or
  quote; the three modes are plain text, inside a quote, and after a backslash (in the plain
  mode or inside double quotes).
\<close>

datatype shlex_mode = Plain | Quoted char | Escaped "char option"

fun shlex_split :: "shlex_mode \<Rightarrow> string option \<Rightarrow> string \<Rightarrow> string list checked" where
  "shlex_split Plain tok [] = Inr (case tok of None \<Rightarrow> [] | Some t \<Rightarrow> [t])"
| "shlex_split (Quoted q) tok [] = Inl (ValueError (BadFormat ''No closing quotation''))"
| "shlex_split (Escaped q) tok [] = Inl (ValueError (BadFormat ''No escaped character''))"
| "shlex_split Plain tok (c # s) =
     (let t = (case tok of None \<Rightarrow> [] | Some t \<Rightarrow> t) in
      if code c \<in> {9, 10, 13, 32} then
        (case tok of None \<Rightarrow> shlex_split Plain None s
         | Some t \<Rightarrow> bindE (shlex_split Plain None s) (\<lambda>ts. Inr (t # ts)))
      else if code c \<in> {34, 39} then shlex_split (Quoted c) (Some t) s
      else if code c = 92 then shlex_split (Escaped None) (Some t) s
      else shlex_split Plain (Some (t @ [c])) s)"
| "shlex_split (Quoted q) tok (c # s) =
     (let t = (case tok of None \<Rightarrow> [] | Some t \<Rightarrow> t) in
      if c = q then shlex_split Plain (Some t) s
      else if code c = 92 \<and> code q = 34 then shlex_split (Escaped (Some q)) (Some t) s
      else shlex_split (Quoted q) (Some (t @ [c])) s)"
| "shlex_split (Escaped q) tok (c # s) =
     (let t = (case tok of None \<Rightarrow> [] | Some t \<Rightarrow> t) in
      case q of None \<Rightarrow> shlex_split Plain (Some (t @ [c])) s
      | Some d \<Rightarrow> shlex_split (Quoted d)
          (Some (t @ (if code c \<noteq> 92 \<and> c \<noteq> d then [char_of (92::nat), c] else [c]))) s)"

record runtime_args =
  ra_version :: string
  ra_target :: string
  ra_source_sha :: string
  ra_source_run_id :: string
  source_run_attempt :: string
  defconfig :: string
  image :: string
  ra_raw_image_sha256 :: string
  ra_compressed_artifact_sha256 :: string
  release_artifact :: string
  ovmf_code :: string
  ovmf_vars :: string
  swtpm_state :: string
  scenario_command :: string
  ovmf_enrollment_mode :: string
  ovmf_enrolled_vars_sha256 :: string
  secure_boot_db_sha256 :: string
  mutation_inputs :: json

text \<open>
  The governed scenario names are hashed into a set, so a list or object among them raises.
\<close>

definition governed_scenarios :: "obj \<Rightarrow> json list checked" where
  "governed_scenarios payload = bindE (runtime_required_scenarios payload) (\<lambda>ss.
     if list_all hashable ss then Inr ss else Inl TypeError)"

definition resolve_mutation_inputs :: "json list \<Rightarrow> json \<Rightarrow> obj checked" where
  "resolve_mutation_inputs governed v =
     (if v = JNull then Inr []
      else bindE (as_object v [''mutation_inputs'']) (\<lambda>items.
        mapE (\<lambda>(n, x). andthen (ensure (JStr n \<in> set governed) (ValueError (UngovernedScenario n)))
          (andthen (ensure (is_obj x) (ValueError (MustBeObject [''mutation_inputs'', n]))) (Inr (n, x)))) items))"

definition scenario_plan :: "string list \<Rightarrow> (string \<times> obj) list \<Rightarrow> json \<Rightarrow> obj checked" where
  "scenario_plan command_base contracts name =
     bindE (if \<not> hashable name then Inl TypeError
            else case map_of contracts (text_of name) of
              Some c \<Rightarrow> if is_str name then Inr c else Inl (KeyError (py_str name))
            | None \<Rightarrow> Inl (KeyError (py_str name))) (\<lambda>c.
     bindE (mapE (dict_index c) [''expected_outcome'', ''guest_facts_required'', ''mutation_target'',
        ''mutation_type'', ''observed_layer'']) (\<lambda>vs.
     bindE (bindE (dict_index c ''observation_source'') py_list) (\<lambda>sources.
     bindE (bindE (dict_index c ''required_log_roles'') py_list) (\<lambda>roles.
       Inr [(''name'', name), (''expected_outcome'', vs ! 0), (''expected_exit_code'', JInt 0),
         (''guest_facts_required'', vs ! 1), (''mutation_target'', vs ! 2), (''mutation_type'', vs ! 3),
         (''observed_layer'', vs ! 4), (''observation_source'', JArr sources),
         (''required_log_roles'', JArr roles), (''command'', JArr (map JStr command_base @ [name]))]))))"

definition runtime_plan :: "runtime_args \<Rightarrow> obj \<Rightarrow> obj checked" where
  "runtime_plan a payload =
     bindE (shlex_split Plain None (scenario_command a)) (\<lambda>command_base.
     andthen (ensure (command_base \<noteq> []) (ValueError EmptyCommand))
     (bindE (governed_scenarios payload) (\<lambda>governed.
      bindE (resolve_mutation_inputs governed (mutation_inputs a)) (\<lambda>mutations.
      bindE (runtime_scenario_contracts payload) (\<lambda>contracts.
      bindE (runtime_required_scenarios payload) (\<lambda>names.
      bindE (mapE (scenario_plan command_base contracts) names) (\<lambda>scenarios.
      bindE (release_subject_id (ra_version a) (ra_target a) (ra_source_sha a) (ra_source_run_id a) payload)
        (\<lambda>subject_id.
        Inr ([(''version'', JStr (ra_version a)), (''target'', JStr (ra_target a)),
          (''source_sha'', JStr (ra_source_sha a)), (''source_run_id'', JStr (ra_source_run_id a)),
          (''source_run_attempt'', JStr (source_run_attempt a)), (''defconfig'', JStr (defconfig a)),
          (''subject_id'', JStr subject_id), (''image'', JStr (image a)),
          (''artifact_digest'', JStr (ra_compressed_artifact_sha256 a)),
          (''raw_image_sha256'', JStr (ra_raw_image_sha256 a)),
          (''compressed_artifact_sha256'', JStr (ra_compressed_artifact_sha256 a)),
          (''release_artifact'', JStr (release_artifact a)), (''ovmf_code'', JStr (ovmf_code a)),
          (''ovmf_vars'', JStr (ovmf_vars a)),
          (''ovmf_enrollment_mode'', JStr (ovmf_enrollment_mode a)),
          (''ovmf_enrolled_vars_sha256'', JStr (ovmf_enrolled_vars_sha256 a)),
          (''secure_boot_db_sha256'', JStr (secure_boot_db_sha256 a)),
          (''swtpm_state'', JStr (swtpm_state a)), (''mutation_inputs'', JObj mutations),
          (''scenarios'', JArr (map JObj scenarios))])))))))))"

end
