(* ===== verification/PlansProps.thy ===== *)
theory PlansProps
  imports ContractPlans ContractSample
begin

text \<open>
  Properties of the plans: the subject plan as a graph around one subject id, the artifact
  digests a strict profile demands, and the runtime plan's scenarios.
\<close>

section \<open>Subject plan\<close>

lemma subject_plan_shape:
  assumes "subject_plan a matrix payload = Inr plan"
  obtains sid exports versions policy where
    "release_subject_id (sa_version a) (sa_target a) (sa_source_sha a) (sa_source_run_id a) payload = Inr sid"
    "subject_exports (sa_version a) (sa_target a) (sa_profile a) payload = Inr exports"
    "target_policy (sa_target a) payload = Inr policy" "policy \<noteq> []"
    "dict_get plan ''subject_id'' = JStr sid"
    "dict_get plan ''required_evidence'' = JObj (map (\<lambda>(n, p). (n, JStr p)) exports)"
    "dict_get plan ''evidence_nodes'' =
       JArr (map (\<lambda>np. JObj (evidence_node sid (sa_target a) policy versions np)) (sort exports))"
    "dict_get plan ''evidence_edges'' = JArr (map (\<lambda>np. JObj (evidence_edge sid policy np)) (sort exports))"
    "dict_get plan ''target_policy'' = JObj policy"
proof -
  show thesis
    using assms unfolding subject_plan_def Let_def
    apply (elim run_elims)
    subgoal premises p for profiles row policy sid exports versions
      by (rule that [of sid exports policy versions, OF p(7) p(8) p(5) ensure_returns [OF p(6)]])
        (use p(18) in \<open>auto simp: dict_get_def\<close>)
    done
qed

lemma subject_exports_names:
  assumes "subject_exports version target profile payload = Inr exports" and "json_wf (JObj payload)"
  shows "distinct (map fst exports)"
proof -
  obtain items where items: "policy_items ''subjects'' ''required_subject_exports'' payload = Inr items"
      "mapE (\<lambda>(n, t). bindE (format_subject_export (py_str t) version target profile) (\<lambda>p. Inr (n, p))) items = Inr exports"
    using assms(1) by (auto simp: subject_exports_def bindE_ok)
  then obtain sub where sub: "map_of payload ''subjects'' = Some (JObj sub)"
      "map_of sub ''required_subject_exports'' = Some (JObj items)"
    by (auto simp: policy_items_def bindE_ok dict_index_ok dict_of_ok subscript_ok)
  have "json_wf (JObj sub)" using json_wf_get [OF assms(2), of "''subjects''"] dict_get_map_of [OF sub(1)] by simp
  then have "json_wf (JObj items)"
    using json_wf_get [of sub "''required_subject_exports''"] dict_get_map_of [OF sub(2)] by simp
  then have "distinct (map fst items)" by simp
  moreover have "list_all2 (\<lambda>i e. fst e = fst i) items exports"
    using items(2) unfolding mapE_ok by (rule list_all2_mono) (auto simp: bindE_ok)
  then have "map fst exports = map fst items" by (induction rule: list_all2_induct) auto
  ultimately show ?thesis by simp
qed

text \<open>A node of the plan and the edge that leads to it.\<close>

definition joined_by :: "string \<Rightarrow> obj \<Rightarrow> obj \<Rightarrow> bool" where
  "joined_by sid n e \<longleftrightarrow> dict_get n ''subject_id'' = JStr sid \<and> dict_get e ''from'' = JStr sid \<and>
     dict_get e ''to'' = dict_get n ''node_id'' \<and> dict_get e ''role'' = dict_get n ''role'' \<and>
     (dict_get n ''required'' = JBool True \<longleftrightarrow> dict_get e ''relationship'' = JStr ''requires'') \<and>
     (dict_get n ''required'' = JBool False \<longleftrightarrow> dict_get e ''relationship'' = JStr ''observes'')"

lemma node_edge: "joined_by sid (evidence_node sid target policy versions np) (evidence_edge sid policy np)"
  by (simp add: joined_by_def evidence_node_def evidence_edge_def Let_def dict_get_def)

text \<open>
  A subject plan is a star around the subject id of its arguments: there is one node for
  each required export, with distinct node ids and the export's path, and one edge from the
  subject to each node, which requires the node exactly when the node is marked required.
\<close>

theorem subject_plan_star:
  assumes "subject_plan a matrix payload = Inr plan" and "json_wf (JObj payload)"
  shows "\<exists>sid nodes edges exports.
    release_subject_id (sa_version a) (sa_target a) (sa_source_sha a) (sa_source_run_id a) payload = Inr sid \<and>
    dict_get plan ''subject_id'' = JStr sid \<and>
    dict_get plan ''required_evidence'' = JObj (map (\<lambda>(n, p). (n, JStr p)) exports) \<and>
    dict_get plan ''evidence_nodes'' = JArr (map JObj nodes) \<and> dict_get plan ''evidence_edges'' = JArr (map JObj edges) \<and>
    list_all2 (joined_by sid) nodes edges \<and> distinct (map (\<lambda>n. dict_get n ''node_id'') nodes) \<and>
    (\<lambda>n. (dict_get n ''role'', dict_get n ''path'')) ` set nodes = (\<lambda>(n, p). (JStr n, JStr p)) ` set exports"
proof -
  obtain sid exports versions policy where plan:
    "release_subject_id (sa_version a) (sa_target a) (sa_source_sha a) (sa_source_run_id a) payload = Inr sid"
    "subject_exports (sa_version a) (sa_target a) (sa_profile a) payload = Inr exports"
    "dict_get plan ''subject_id'' = JStr sid"
    "dict_get plan ''required_evidence'' = JObj (map (\<lambda>(n, p). (n, JStr p)) exports)"
    "dict_get plan ''evidence_nodes'' =
       JArr (map (\<lambda>np. JObj (evidence_node sid (sa_target a) policy versions np)) (sort exports))"
    "dict_get plan ''evidence_edges'' = JArr (map (\<lambda>np. JObj (evidence_edge sid policy np)) (sort exports))"
    by (rule subject_plan_shape [OF assms(1)])
  let ?nodes = "map (evidence_node sid (sa_target a) policy versions) (sort exports)"
  let ?edges = "map (evidence_edge sid policy) (sort exports)"
  have star: "list_all2 (joined_by sid) ?nodes ?edges" by (auto simp: list_all2_conv_all_nth node_edge)
  have "distinct (map fst (sort exports))"
    using subject_exports_names [OF plan(2) assms(2)] by (simp add: distinct_map inj_on_def)
  then have ids: "distinct (map (\<lambda>n. dict_get n ''node_id'') ?nodes)"
    by (auto simp: o_def evidence_node_def Let_def dict_get_def node_id_def distinct_map inj_on_def)
  have paths: "(\<lambda>n. (dict_get n ''role'', dict_get n ''path'')) ` set ?nodes = (\<lambda>(n, p). (JStr n, JStr p)) ` set exports"
    by (force simp: evidence_node_def Let_def dict_get_def)
  show ?thesis
    by (rule exI [of _ sid], rule exI [of _ ?nodes], rule exI [of _ ?edges], rule exI [of _ exports], intro conjI)
      (use plan star ids paths in \<open>simp_all add: o_def\<close>)
qed

text \<open>
  Under a profile that is a production candidate or binds artifacts strictly, a subject plan
  exists only when the digests and sizes of the raw image and of the compressed artifact were
  given; a missing one is an error that names the first missing field.
\<close>

theorem strict_plan_binds_artifacts:
  assumes "dict_get payload ''profiles'' = JObj profiles" and "dict_has profiles (sa_profile a)"
    and "strict_artifacts (dict_get profiles (sa_profile a))"
  shows "(\<forall>plan. subject_plan a matrix payload = Inr plan \<longrightarrow> raw_image_sha256 a \<noteq> None \<and> raw_image_bytes a \<noteq> None \<and>
      compressed_artifact_sha256 a \<noteq> None \<and> compressed_artifact_bytes a \<noteq> None) \<and>
    (raw_image_sha256 a = None \<longrightarrow>
       subject_plan a matrix payload = Inl (ValueError (MissingArgument ''raw_image_sha256'' (sa_profile a))))"
proof -
  have profiles: "dict_of (dict_get_or payload ''profiles'' (JObj [])) = (Inr profiles :: obj checked)"
    by (simp add: dict_get_or_some [OF assms(1)])
  have run: "subject_plan a matrix payload = andthen (check_artifact_args a) (subject_plan a matrix payload)"
    by (simp add: subject_plan_def Let_def profiles assms(2,3) ensure_def andthen_def)
      (cases "check_artifact_args a"; simp)
  show ?thesis
  proof (intro conjI allI impI)
    fix plan assume "subject_plan a matrix payload = Inr plan"
    then have "check_artifact_args a = Inr ()" using run by (metis andthen_ok)
    then show "raw_image_sha256 a \<noteq> None" "raw_image_bytes a \<noteq> None"
        "compressed_artifact_sha256 a \<noteq> None" "compressed_artifact_bytes a \<noteq> None"
      by (auto simp: check_artifact_args_def andthen_ok ensure_ok)
  next
    assume "raw_image_sha256 a = None"
    then have "check_artifact_args a = Inl (ValueError (MissingArgument ''raw_image_sha256'' (sa_profile a)))"
      by (simp add: check_artifact_args_def ensure_def andthen_def)
    then show "subject_plan a matrix payload = Inl (ValueError (MissingArgument ''raw_image_sha256'' (sa_profile a)))"
      using run by (simp add: andthen_def)
  qed
qed

section \<open>The plan of one image of the repository\<close>

definition plan_row :: obj where
  "plan_row = [(''name'', JStr ''pc_defconfig''), (''target'', JStr ''pc''), (''artifact'', JStr ''disk.img''),
     (''release_artifact'', JStr ''os.img.xz''), (''release'', JBool True),
     (''production_required'', JBool True), (''production_ready'', JBool False)]"

definition plan_matrix :: obj where
  "plan_matrix = [(''defconfigs'', JArr [JObj plan_row])]"

definition plan_args :: subject_args where
  "plan_args = \<lparr>sa_version = ''v1'', sa_profile = ''ci'', sa_target = ''pc'', sa_source_sha = ''abc'',
     sa_source_run_id = ''1'', raw_image_sha256 = Some ''a1'', raw_image_bytes = Some 1,
     compressed_artifact_sha256 = Some ''b2'', compressed_artifact_bytes = Some 2\<rparr>"

definition plan_contract :: obj where
  "plan_contract = [(''schema_versions'', JObj c_schema_versions), (''profiles'', JObj [(''ci'', JObj [])]),
     (''targets'', JObj [(''pc'', JObj [(''runtime_required'', JBool True)])]),
     (''subjects'', JObj [(''subject_id_template'', JStr ''suderra-release:{version}:{target}:{source_sha}:{source_run_id}''),
        (''required_subject_exports'', JObj [
          (''release-subject-graph'', JStr ''release-subject-graph/{version}/graph.json''),
          (''release-ota'', JStr ''release-ota/{version}/{target}/ota-artifacts.json'')])]),
     (''ota'', JObj [(''targets'', JObj [(''pc'', JObj [])])]),
     (''runtime'', JObj [(''suite_targets'', JObj [(''pc'', JArr [JStr ''pc''])])]),
     (''retention'', JObj [(''policy_id'', JStr ''p1''), (''required_exports'', JArr [JStr ''release-ota''])])]"

lemma plan_returns: "case subject_plan plan_args plan_matrix plan_contract of Inl _ \<Rightarrow> False | Inr plan \<Rightarrow> True"
  by code_simp

lemma plan_contract_wf: "json_wf (JObj plan_contract)"
  by code_simp

theorem subject_plan_star_witness:
  "\<exists>plan nodes edges. subject_plan plan_args plan_matrix plan_contract = Inr plan \<and>
     dict_get plan ''evidence_nodes'' = JArr (map JObj nodes) \<and> dict_get plan ''evidence_edges'' = JArr (map JObj edges) \<and>
     length nodes = length edges"
proof -
  obtain plan where plan: "subject_plan plan_args plan_matrix plan_contract = Inr plan"
    using plan_returns by (auto split: sum.splits)
  obtain sid nodes edges where "dict_get plan ''evidence_nodes'' = JArr (map JObj nodes)"
      "dict_get plan ''evidence_edges'' = JArr (map JObj edges)" "list_all2 (joined_by sid) nodes edges"
    using subject_plan_star [OF plan plan_contract_wf] by blast
  then show ?thesis using plan list_all2_lengthD by blast
qed

theorem strict_plan_binds_artifacts_witness:
  "subject_plan (plan_args\<lparr>sa_profile := ''ga'', raw_image_sha256 := None\<rparr>) plan_matrix repo_contract =
     Inl (ValueError (MissingArgument ''raw_image_sha256'' ''ga''))"
proof -
  have "dict_get repo_contract ''profiles'' = JObj c_profiles"
    by (simp add: repo_contract_def dict_get_def)
  moreover have "dict_has c_profiles ''ga'' \<and> strict_artifacts (dict_get c_profiles ''ga'')"
    by code_simp
  ultimately show ?thesis
    using strict_plan_binds_artifacts [of repo_contract c_profiles "plan_args\<lparr>sa_profile := ''ga'', raw_image_sha256 := None\<rparr>" plan_matrix]
    by (simp add: plan_args_def)
qed

end
