(* ===== verification/ContractDocs.thy ===== *)
theory ContractDocs
  imports ContractPlans
begin

text \<open>
  \<open>docs_fragment\<close> of \<open>scripts/evidence/evidence_contract.py\<close>: the Markdown tables the
  documentation takes from the contract. A fragment is the source's list of lines joined by a
  line feed; the governance policy, which the source reads from
  \<open>ci/github-governance-policy.yml\<close>, is an argument.
\<close>

definition newline :: string where
  "newline = [char_of (10::nat)]"

definition quoted :: "string \<Rightarrow> string" where
  "quoted s = ''`'' @ s @ ''`''"

text \<open>A table row whose cells are already rendered.\<close>

definition table_row :: "string list \<Rightarrow> string" where
  "table_row cells = ''| '' @ join '' | '' cells @ '' |''"

definition quoted_row :: "string list \<Rightarrow> string" where
  "quoted_row cells = table_row (map quoted cells)"

text \<open>\<open>obj[key]\<close> rendered by an f-string.\<close>

definition text_at :: "obj \<Rightarrow> string \<Rightarrow> string checked" where
  "text_at o' k = bindE (dict_index o' k) (\<lambda>v. Inr (py_str v))"

definition sorted_items :: "obj \<Rightarrow> obj" where
  "sorted_items items = sort_key fst items"

definition docs_schema_versions :: "obj \<Rightarrow> string list checked" where
  "docs_schema_versions payload =
     bindE (bindE (dict_index payload ''schema_versions'') dict_of) (\<lambda>items.
       Inr ([''| Role | Schema Version |'', ''| --- | --- |'']
         @ map (\<lambda>(k, v). quoted_row [k, py_str v]) (sorted_items items)))"

text \<open>\<open>', '.join(values)\<close>, which raises unless every value is a string.\<close>

definition join_texts :: "json list \<Rightarrow> string checked" where
  "join_texts vs = (if list_all is_str vs then Inr (join '', '' (map text_of vs)) else Inl TypeError)"

definition docs_retention_policy :: "obj \<Rightarrow> string list checked" where
  "docs_retention_policy payload =
     bindE (bindE (dict_index payload ''retention'') dict_of) (\<lambda>r.
     bindE (mapE (text_at r) [''policy_id'', ''minimum_years'', ''store_class'']) (\<lambda>vs.
     bindE (bindE (dict_index r ''required_replay'') py_list) (\<lambda>replay.
     bindE (join_texts replay) (\<lambda>replay_text.
       Inr [''- Policy ID: '' @ quoted (vs ! 0), ''- Minimum years: '' @ quoted (vs ! 1),
         ''- Store class: '' @ quoted (vs ! 2), ''- Required replay: '' @ quoted replay_text]))))"

definition docs_runtime_scenarios :: "obj \<Rightarrow> string list checked" where
  "docs_runtime_scenarios payload =
     bindE (runtime_scenario_to_checks payload) (\<lambda>checks.
     bindE (governed_scenarios payload) (\<lambda>names.
       Inr ([''| Scenario | Required Checks |'', ''| --- | --- |'']
         @ map (\<lambda>n. table_row [quoted (py_str n), join '', '' (map quoted
             (case map_of checks (text_of n) of Some cs \<Rightarrow> if is_str n then cs else [] | None \<Rightarrow> []))]) names)))"

definition docs_signing_roles :: "obj \<Rightarrow> string list checked" where
  "docs_signing_roles payload =
     bindE (signed_artifact_roles payload) (\<lambda>roles.
       Inr (map (\<lambda>r. ''- '' @ quoted r) (sorted_set roles)))"

definition docs_output_trees :: "obj \<Rightarrow> string list checked" where
  "docs_output_trees payload = bindE (tree_items payload) (\<lambda>trees.
     bindE (mapE (\<lambda>(name, v). bindE (mapE (\<lambda>f. bindE (subscript v f) (\<lambda>x. Inr (py_str x)))
        [''path_template'', ''schema_role'', ''required_by_default'', ''promotable'',
         ''operator_ingress_allowed'', ''release_tag_allowed'', ''dry_run_input_allowed'',
         ''gitignore_required'']) (\<lambda>cells. Inr (quoted_row (name # cells)))) (sorted_items trees)) (\<lambda>rows.
       Inr ([''| Root | Path Template | Schema Role | Required By Default | Promotable | Operator Ingress | Release Tag | Dry-Run Input | Gitignore |'',
             ''| --- | --- | --- | --- | --- | --- | --- | --- | --- |''] @ rows)))"

definition docs_profile_gates :: "obj \<Rightarrow> string list checked" where
  "docs_profile_gates payload = bindE (profile_items payload) (\<lambda>profiles.
     bindE (mapE (\<lambda>(name, v).
        bindE (bindE (subscript v ''required_output_trees'') py_list) (\<lambda>roots.
        bindE (mapE (\<lambda>f. bindE (subscript v f) (\<lambda>x. Inr (py_str x)))
          [''release_authorizing'', ''publication_allowed'', ''operator_ingress_required'']) (\<lambda>cells.
        Inr (table_row (map quoted (name # cells)
          @ [if roots = [] then quoted ''none'' else join '', '' (map (\<lambda>r. quoted (py_str r)) roots)])))))
        (sorted_items profiles)) (\<lambda>rows.
       Inr ([''| Profile | Release Authorizing | Publication Allowed | Operator Ingress Required | Required Output Trees |'',
             ''| --- | --- | --- | --- | --- |''] @ rows)))"

definition docs_subject_exports :: "obj \<Rightarrow> string list checked" where
  "docs_subject_exports payload =
     bindE (policy_items ''subjects'' ''required_subject_exports'' payload) (\<lambda>items.
       Inr ([''| Evidence Root | Path Template |'', ''| --- | --- |'']
         @ map (\<lambda>(k, v). quoted_row [k, py_str v]) (sorted_items items)))"

text \<open>\<open>sorted(v)\<close> over names; a mixture of types has no order and raises.\<close>

definition sorted_names :: "json \<Rightarrow> string list checked" where
  "sorted_names v = bindE (py_list v) (\<lambda>xs.
     if list_all is_str xs then Inr (sort (map text_of xs)) else Inl TypeError)"

definition docs_governance_policy :: "obj \<Rightarrow> string list checked" where
  "docs_governance_policy governance =
     bindE (mapE (\<lambda>(category, field).
        bindE (sorted_names (dict_get_or governance field (JObj []))) (\<lambda>names.
          Inr (map (\<lambda>n. quoted_row [category, n]) names)))
       [(''environment'', ''environments''), (''ruleset'', ''rulesets''), (''required_check'', ''required_checks'')])
       (\<lambda>rows. Inr ([''| Category | Name |'', ''| --- | --- |''] @ concat rows))"

definition docs_verification_schemas :: "obj \<Rightarrow> string list checked" where
  "docs_verification_schemas payload =
     bindE (mapE (\<lambda>k. bindE (dict_index payload ''schema_versions'') (\<lambda>sv.
        bindE (subscript sv k) (\<lambda>v. Inr (quoted_row [k, py_str v]))))
       [''release_evidence'', ''release_subject_graph'', ''production_runtime_suite'',
        ''runtime_observation'', ''signing_manifest'', ''hardware_subject'',
        ''release_security_report'', ''retention_manifest'']) (\<lambda>rows.
       Inr ([''| Role | Schema Version |'', ''| --- | --- |''] @ rows))"

definition docs_fragment :: "string \<Rightarrow> obj \<Rightarrow> obj \<Rightarrow> string checked" where
  "docs_fragment fragment governance payload =
     bindE (if fragment = ''schema-versions'' then docs_schema_versions payload
       else if fragment = ''retention-policy'' then docs_retention_policy payload
       else if fragment = ''runtime-scenarios'' then docs_runtime_scenarios payload
       else if fragment = ''signing-roles'' then docs_signing_roles payload
       else if fragment = ''output-trees'' then docs_output_trees payload
       else if fragment = ''profile-gates'' then docs_profile_gates payload
       else if fragment = ''subject-export-paths'' then docs_subject_exports payload
       else if fragment = ''governance-policy'' then docs_governance_policy governance
       else if fragment = ''verification-schemas'' then docs_verification_schemas payload
       else Inl (ValueError (Unsupported [fragment]))) (\<lambda>ls. Inr (join newline ls))"

end
