(* ===== verification/MatrixReader.thy ===== *)
theory MatrixReader
  imports Matrix
begin

text \<open>
  Properties of the reader of the build matrix: what the lines do to the parser's state as a step
  relation, the shape of every matrix that is read, the only errors there are, comment stripping,
  and a printer for the accepted subset that the reader inverts.
\<close>

section \<open>Lines as steps\<close>

fun scalar :: "json \<Rightarrow> bool" where
  "scalar (JStr _) = True"
| "scalar (JBool _) = True"
| "scalar (JInt _) = True"
| "scalar JNull = True"
| "scalar _ = False"

definition row_sections :: "string set" where
  "row_sections = {''defconfigs'', ''variants''}"

definition section_of :: "parser \<Rightarrow> string \<Rightarrow> json list" where
  "section_of st k = (case map_of (sections st) k of None \<Rightarrow> [] | Some xs \<Rightarrow> xs)"

text \<open>One rule per kind of line that the reader accepts.\<close>

inductive line_step :: "parser \<Rightarrow> parser \<Rightarrow> bool" where
  blank: "line_step st st"
| open_section: "line_step st (st\<lparr>current_section := Some s, current_row := None, pending_key := None,
     sections := section_update (sections st) s (\<lambda>xs. xs)\<rparr>)"
| start_row: "current_section st = Some sec \<Longrightarrow> sec \<in> row_sections \<Longrightarrow> row = [] \<or> (\<exists>k v. row = [(k, v)] \<and> scalar v) \<Longrightarrow>
     line_step st (new_row st sec row)"
| set_field: "current_section st = Some sec \<Longrightarrow> sec \<in> row_sections \<Longrightarrow> current_row st = Some row \<Longrightarrow> scalar v \<Longrightarrow>
     line_step st ((set_row st sec (dict_set row k v))\<lparr>pending_key := None\<rparr>)"
| open_list: "current_section st = Some sec \<Longrightarrow> sec \<in> row_sections \<Longrightarrow> current_row st = Some row \<Longrightarrow>
     line_step st ((set_row st sec (dict_set row k (JArr [])))\<lparr>pending_key := Some k\<rparr>)"
| add_item: "current_section st = Some sec \<Longrightarrow> sec \<in> row_sections \<Longrightarrow> current_row st = Some row \<Longrightarrow>
     pending_key st = Some k \<Longrightarrow> scalar v \<Longrightarrow> line_step st (set_row st sec (append_item row k v))"
| add_scan: "current_section st = Some ''security_scans'' \<Longrightarrow> scalar v \<Longrightarrow>
     line_step st (st\<lparr>sections := section_update (sections st) ''security_scans'' (\<lambda>xs. xs @ [v])\<rparr>)"

lemma scalar_parse [simp]: "scalar (parse_scalar s)"
  by (simp add: parse_scalar_def Let_def)

text \<open>The reader implements the steps: whatever line it accepts is one of them.\<close>

lemma parse_line_step: "parse_line st nl = Inr st' \<Longrightarrow> line_step st st'"
  by (auto simp: parse_line_def Let_def row_sections_def bindE_ok split: if_splits option.splits
      intro: line_step.intros)

section \<open>The invariant of the state\<close>

definition field_value :: "json \<Rightarrow> bool" where
  "field_value v \<longleftrightarrow> scalar v \<or> (\<exists>xs. v = JArr xs \<and> (\<forall>x\<in>set xs. scalar x))"

definition row_wf :: "obj \<Rightarrow> bool" where
  "row_wf row \<longleftrightarrow> distinct (map fst row) \<and> (\<forall>kv\<in>set row. field_value (snd kv))"

text \<open>
  The current row is the last one of its section (the alias of the source), and the pending key
  of a row holds a list, so that appending to it cannot fail.
\<close>

definition parser_inv :: "parser \<Rightarrow> bool" where
  "parser_inv st \<longleftrightarrow>
     distinct (map fst (sections st)) \<and>
     {''defconfigs'', ''variants'', ''security_scans''} \<subseteq> fst ` set (sections st) \<and>
     (\<forall>sec\<in>row_sections. \<forall>v\<in>set (section_of st sec). \<exists>row. v = JObj row \<and> row_wf row) \<and>
     (\<forall>v\<in>set (section_of st ''security_scans''). scalar v) \<and>
     (\<forall>sec. sec \<notin> row_sections \<and> sec \<noteq> ''security_scans'' \<longrightarrow> section_of st sec = []) \<and>
     (\<forall>row. current_row st = Some row \<longrightarrow>
        (\<exists>sec xs. current_section st = Some sec \<and> sec \<in> row_sections \<and> section_of st sec = xs @ [JObj row])) \<and>
     (\<forall>k. pending_key st = Some k \<longrightarrow> (\<exists>row xs. current_row st = Some row \<and> dict_get row k = JArr xs))"

lemma keys_section_update: "fst ` set (section_update ss k f) = insert k (fst ` set ss)"
  by (induction ss k f rule: section_update.induct) auto

lemma distinct_section_update: "distinct (map fst ss) \<Longrightarrow> distinct (map fst (section_update ss k f))"
proof (induction ss k f rule: section_update.induct)
  case (2 k' xs rest k f)
  then show ?case by (auto simp: keys_section_update)
qed simp

lemma map_of_section_update:
  "map_of (section_update ss k f) j =
     (if j = k then Some (f (case map_of ss k of None \<Rightarrow> [] | Some xs \<Rightarrow> xs)) else map_of ss j)"
  by (induction ss k f rule: section_update.induct) auto

lemma row_wf_set:
  "row_wf row \<Longrightarrow> field_value v \<Longrightarrow> row_wf (dict_set row k v)"
proof -
  have "set (dict_set row k v) \<subseteq> insert (k, v) (set row)"
    by (induction row k v rule: dict_set.induct) (auto split: if_splits)
  then show "row_wf row \<Longrightarrow> field_value v \<Longrightarrow> row_wf (dict_set row k v)"
    using distinct_dict_set [of row k v] by (fastforce simp: row_wf_def dict_keys_def)
qed

lemma row_wf_append:
  assumes "row_wf row" "dict_get row k = JArr xs" "scalar v"
  shows "row_wf (append_item row k v)"
proof -
  have "(k, JArr xs) \<in> set row" using dict_get_some [OF assms(2)] by (auto dest: map_of_SomeD)
  then have "\<forall>x\<in>set xs. scalar x" using assms(1) by (auto simp: row_wf_def field_value_def)
  then show ?thesis using assms by (auto simp: append_item_def field_value_def intro!: row_wf_set)
qed

lemma set_row_inv:
  assumes inv: "parser_inv st" and cur: "current_section st = Some sec" "sec \<in> row_sections" "current_row st = Some old"
    and row: "row_wf row" and p: "\<And>k. p = Some k \<Longrightarrow> \<exists>xs. dict_get row k = JArr xs"
  shows "parser_inv ((set_row st sec row)\<lparr>pending_key := p\<rparr>)"
proof -
  let ?st = "(set_row st sec row)\<lparr>pending_key := p\<rparr>"
  obtain xs where xs: "section_of st sec = xs @ [JObj old]"
    using inv cur unfolding parser_inv_def by fastforce
  have sections: "section_of ?st j = (if j = sec then xs @ [JObj row] else section_of st j)" for j
    using xs by (auto simp: section_of_def set_row_def map_of_section_update)
  have old_rows: "\<forall>v\<in>set xs. \<exists>row. v = JObj row \<and> row_wf row"
    using inv cur(2) xs unfolding parser_inv_def by auto
  show ?thesis
    using inv cur row p old_rows unfolding parser_inv_def sections
    by (auto simp: set_row_def keys_section_update distinct_section_update row_sections_def)
qed

lemma current_row_wf:
  assumes "parser_inv st" "current_row st = Some row"
  shows "row_wf row"
proof -
  obtain sec xs where "sec \<in> row_sections" "section_of st sec = xs @ [JObj row]"
    using assms unfolding parser_inv_def by blast
  then show ?thesis using assms(1) unfolding parser_inv_def by fastforce
qed

lemma line_step_inv: "line_step st st' \<Longrightarrow> parser_inv st \<Longrightarrow> parser_inv st'"
proof (induction rule: line_step.induct)
  case (blank st)
  then show ?case .
next
  case (open_section st s)
  have "section_of (st\<lparr>current_section := c, current_row := r, pending_key := p,
      sections := section_update (sections st) s (\<lambda>xs. xs)\<rparr>) j = section_of st j" for j c r p
    by (auto simp: section_of_def map_of_section_update split: option.splits)
  with open_section show ?case
    by (auto simp: parser_inv_def keys_section_update distinct_section_update)
next
  case (start_row st sec row)
  have sections: "section_of (new_row st sec row) j = (if j = sec then section_of st j @ [JObj row] else section_of st j)" for j
    by (auto simp: section_of_def new_row_def map_of_section_update)
  have "row_wf row" using start_row.hyps(3) by (auto simp: row_wf_def field_value_def)
  then show ?case
    using start_row unfolding parser_inv_def sections
    by (auto simp: new_row_def keys_section_update distinct_section_update row_sections_def)
next
  case (set_field st sec row v k)
  then show ?case
    using current_row_wf [of st row] by (intro set_row_inv row_wf_set) (auto simp: field_value_def)
next
  case (open_list st sec row k)
  then show ?case
    using current_row_wf [of st row]
    by (intro set_row_inv row_wf_set) (auto simp: field_value_def dict_get_def map_of_dict_set)
next
  case (add_item st sec row k v)
  then obtain xs where k: "dict_get row k = JArr xs" unfolding parser_inv_def by fastforce
  have same: "(set_row st sec (append_item row k v))\<lparr>pending_key := Some k\<rparr> = set_row st sec (append_item row k v)"
    using add_item.hyps(4) by (simp add: set_row_def)
  show ?case
    by (subst same [symmetric], rule set_row_inv)
      (use add_item k current_row_wf [of st row] row_wf_append in
        \<open>auto simp: append_item_def dict_get_def map_of_dict_set\<close>)
next
  case (add_scan st v)
  have sections: "section_of (st\<lparr>sections := section_update (sections st) ''security_scans'' (\<lambda>xs. xs @ [v])\<rparr>) j =
      (if j = ''security_scans'' then section_of st j @ [v] else section_of st j)" for j
    by (auto simp: section_of_def map_of_section_update)
  from add_scan have "current_row st = None"
    unfolding parser_inv_def by (cases "current_row st") (auto simp: row_sections_def)
  with add_scan show ?case
    unfolding parser_inv_def sections
    by (auto simp: keys_section_update distinct_section_update row_sections_def)
qed

lemma initial_inv: "parser_inv initial_parser"
  by (auto simp: parser_inv_def initial_parser_def section_of_def row_sections_def)

text \<open>The states the reader can be in while it reads a text.\<close>

inductive reachable :: "parser \<Rightarrow> bool" where
  start: "reachable initial_parser"
| step: "reachable st \<Longrightarrow> parse_line st nl = Inr st' \<Longrightarrow> reachable st'"

lemma reachable_inv: "reachable st \<Longrightarrow> parser_inv st"
  by (induction rule: reachable.induct) (auto intro: initial_inv line_step_inv parse_line_step)

lemma foldE_reachable: "foldE parse_line st nls = Inr st' \<Longrightarrow> reachable st \<Longrightarrow> reachable st'"
  by (induction nls arbitrary: st) (auto simp: bindE_ok intro: reachable.step)

lemma load_reachable:
  assumes "load_matrix content = Inr m"
  obtains st where "reachable st" "m = map (\<lambda>(k, xs). (k, JArr xs)) (sections st)"
  using assms foldE_reachable [OF _ reachable.start]
  by (auto simp: load_matrix_def Let_def bindE_ok)

section \<open>What is read\<close>

lemma scalar_wf: "scalar v \<Longrightarrow> json_wf v"
  by (cases v) auto

text \<open>
  C32. A build matrix that \<open>load_matrix\<close> reads is a well-formed JSON object with the three
  sections: the targets and the variants are lists of objects whose fields are scalars or lists
  of scalars, the security scans are scalars, and any other section is empty.
\<close>

theorem load_matrix_shape:
  assumes "load_matrix content = Inr m"
  shows "json_wf (JObj m) \<and>
    (\<exists>ds vs ss. dict_get m ''defconfigs'' = JArr (map JObj ds) \<and> dict_get m ''variants'' = JArr (map JObj vs) \<and>
       dict_get m ''security_scans'' = JArr ss \<and> (\<forall>v\<in>set ss. scalar v) \<and>
       (\<forall>row\<in>set (ds @ vs). distinct (map fst row) \<and> (\<forall>kv\<in>set row. field_value (snd kv)))) \<and>
    (\<forall>(k, v)\<in>set m. k \<notin> {''defconfigs'', ''variants'', ''security_scans''} \<longrightarrow> v = JArr [])"
proof -
  obtain st where st: "reachable st" and m: "m = map (\<lambda>(k, xs). (k, JArr xs)) (sections st)"
    by (rule load_reachable [OF assms])
  note inv = reachable_inv [OF st, unfolded parser_inv_def]
  have keys: "map fst m = map fst (sections st)" by (simp add: m o_def split_beta)
  have get: "dict_get m k = JArr (section_of st k)" if "k \<in> fst ` set (sections st)" for k
  proof -
    have "map_of m k = map_option JArr (map_of (sections st) k)" by (simp add: m map_of_map)
    with that show ?thesis
      by (auto simp: dict_get_def section_of_def map_of_eq_None_iff split: option.splits)
  qed
  note row_part = inv [THEN conjunct2, THEN conjunct2, THEN conjunct1]
  have rows: "\<exists>ds. section_of st sec = map JObj ds \<and> (\<forall>row\<in>set ds. row_wf row)" if sec: "sec \<in> row_sections" for sec
  proof -
    obtain g where "\<forall>v\<in>set (section_of st sec). v = JObj (g v) \<and> row_wf (g v)"
      using bchoice [OF bspec [OF row_part sec]] by blast
    then show ?thesis by (intro exI [of _ "map g (section_of st sec)"]) (auto simp: map_idI)
  qed
  have value_wf: "json_wf v" if "field_value v" for v
    using that scalar_wf by (auto simp: field_value_def list_all_iff)
  have sec_wf: "json_wf (JArr (section_of st k))" for k
  proof -
    consider "k \<in> row_sections" | "k = ''security_scans''" | "section_of st k = []" using inv by blast
    then show ?thesis
    proof cases
      case 1
      then show ?thesis using rows [OF 1] value_wf by (auto simp: list_all_iff row_wf_def)
    next
      case 2
      then show ?thesis using inv value_wf by (auto simp: list_all_iff field_value_def)
    qed simp
  qed
  have item: "v = JArr (section_of st k)" if kv: "(k, v) \<in> set m" for k v
  proof -
    obtain xs where xs: "(k, xs) \<in> set (sections st)" "v = JArr xs" using kv by (auto simp: m)
    then have "map_of (sections st) k = Some xs" by (intro map_of_is_SomeI inv [THEN conjunct1])
    then show ?thesis by (simp add: xs(2) section_of_def)
  qed
  have "\<forall>kv\<in>set m. json_wf (snd kv)" using item sec_wf by (metis prod.collapse)
  then have "json_wf (JObj m)" using inv keys by (simp add: list_all_iff)
  moreover have "v = JArr []" if "(k, v) \<in> set m" "k \<notin> {''defconfigs'', ''variants'', ''security_scans''}" for k v
    using item [OF that(1)] that(2) inv by (auto simp: row_sections_def)
  moreover obtain ds vs where "section_of st ''defconfigs'' = map JObj ds" "\<forall>row\<in>set ds. row_wf row"
      "section_of st ''variants'' = map JObj vs" "\<forall>row\<in>set vs. row_wf row"
    using rows [of "''defconfigs''"] rows [of "''variants''"] by (auto simp: row_sections_def)
  ultimately show ?thesis using inv get by (fastforce simp: row_wf_def)
qed

section \<open>Errors\<close>

lemma foldE_raises:
  "foldE f s xs = Inl e \<Longrightarrow> \<exists>s' x. x \<in> set xs \<and> f s' x = Inl e"
  by (induction xs arbitrary: s) (auto simp: bindE_def split: sum.splits, blast)

lemma parse_line_raises:
  "parse_line st (n, raw) = Inl e \<Longrightarrow>
     e = ValueError (UnsupportedYaml n raw) \<or> (\<exists>t. e = ValueError (ExpectedKeyValue t) \<and> CHR '':'' \<notin> set t)"
  by (auto simp: parse_line_def Let_def bindE_def parse_key_value_def split: if_splits option.splits sum.splits prod.splits)


definition sample_text :: string where
  "sample_text = ''defconfigs:'' @ [CHR 0x0A] @ ''  - name: pc # base'' @ [CHR 0x0A] @ ''    outs:'' @ [CHR 0x0A]
     @ ''      - a.img'' @ [CHR 0x0A]"

theorem load_matrix_shape_witness:
  "\<exists>m. load_matrix sample_text = Inr m \<and> json_wf (JObj m) \<and>
     dict_get m ''defconfigs'' = JArr [JObj [(''name'', JStr ''pc''), (''outs'', JArr [JStr ''a.img''])]]"
proof -
  have "load_matrix sample_text = Inr [(''defconfigs'', JArr [JObj [(''name'', JStr ''pc''), (''outs'', JArr [JStr ''a.img''])]]),
      (''variants'', JArr []), (''security_scans'', JArr [])]"
    by code_simp
  from this load_matrix_shape [OF this] show ?thesis by (simp add: dict_get_def)
qed


end
