(* ===== verification/Genimage.thy ===== *)
theory Genimage
  imports Matrix PyPath
begin

text \<open>
  The line recognisers of \<open>scripts/ci/validate-build-matrix.py\<close> for genimage and Buildroot
  configuration text, and the two genimage checks. Each regular expression of the source is a
  function on the text: the expressions alternate between character classes that are disjoint,
  so taking the longest run of each class is what the matcher does.
\<close>

section \<open>Recognisers\<close>

definition is_quote :: "char \<Rightarrow> bool" where
  "is_quote c \<longleftrightarrow> code c = 34 \<or> code c = 39"

definition is_word :: "char \<Rightarrow> bool" where
  "is_word c \<longleftrightarrow> is_alnum_ascii c \<or> c \<in> set ''_.-''"

text \<open>\<open>SAFE_ARTIFACT_RE.fullmatch\<close>.\<close>

definition safe_artifact :: "string \<Rightarrow> bool" where
  "safe_artifact s \<longleftrightarrow> s \<noteq> [] \<and> is_alnum_ascii (hd s) \<and>
     list_all (\<lambda>c. is_alnum_ascii c \<or> c \<in> set ''._+-'') (tl s)"

definition block_close :: "string \<Rightarrow> bool" where
  "block_close line \<longleftrightarrow> line \<noteq> [] \<and> hd line = CHR ''}'' \<and> list_all is_space (tl line)"

text \<open>\<open>([A-Za-z0-9_.-]+)(?:\s+[A-Za-z0-9_.-]+)?\s*\{\<close>: the block kind.\<close>

definition block_open :: "string \<Rightarrow> string option" where
  "block_open line = (if line = [] \<or> last line \<noteq> CHR ''{'' then None
     else let body = rstrip (butlast line); kind = takeWhile is_word body; rest = dropWhile is_word body in
       if kind = [] then None
       else if rest = [] \<or> (is_space (hd rest) \<and> list_all is_word (lstrip rest)) then Some kind
       else None)"

text \<open>The text after \<open>name\<close>, white space, an equals sign and white space.\<close>

definition after_assign :: "string \<Rightarrow> string \<Rightarrow> string option" where
  "after_assign name s = (if \<not> starts_with s name then None
     else case lstrip (drop (length name) s) of
       [] \<Rightarrow> None
     | c # r \<Rightarrow> if c = CHR ''='' then Some (lstrip r) else None)"

definition label_value :: "string \<Rightarrow> string option" where
  "label_value line = (case after_assign ''label'' line of None \<Rightarrow> None
     | Some v \<Rightarrow> if 2 \<le> length v \<and> is_quote (hd v) \<and> is_quote (last v) \<and>
         list_all (\<lambda>c. \<not> is_quote c) (butlast (tl v)) then Some (butlast (tl v)) else None)"

definition table_type_value :: "string \<Rightarrow> string option" where
  "table_type_value line = (case after_assign ''partition-table-type'' (lstrip line) of None \<Rightarrow> None
     | Some [] \<Rightarrow> None
     | Some (q # v) \<Rightarrow> let t = takeWhile (\<lambda>c. \<not> is_quote c) v in
         if is_quote q \<and> t \<noteq> [] \<and> dropWhile (\<lambda>c. \<not> is_quote c) v \<noteq> [] then Some t else None)"

text \<open>The suffixes at which \<open>^\<close> matches in \<open>MULTILINE\<close> mode.\<close>

fun line_starts_from :: "bool \<Rightarrow> string \<Rightarrow> string list" where
  "line_starts_from start [] = (if start then [[]] else [])"
| "line_starts_from start (c # s) =
     (if start then [c # s] else []) @ line_starts_from (code c = 10) s"

definition line_starts :: "string \<Rightarrow> string list" where
  "line_starts s = line_starts_from True s"

definition has_partition_label :: "string \<Rightarrow> bool" where
  "has_partition_label t \<longleftrightarrow> list_ex (\<lambda>s. after_assign ''partition-label'' (lstrip s) \<noteq> None) (line_starts t)"

definition at_line_end :: "string \<Rightarrow> bool" where
  "at_line_end s \<longleftrightarrow> s = [] \<or> code (hd s) = 10"

text \<open>\<open>^name="([^"]+)"$\<close> and \<open>^name=([0-9]+)$\<close>, first match.\<close>

definition quoted_setting :: "string \<Rightarrow> string \<Rightarrow> string option" where
  "quoted_setting name s = (let open = name @ ''='' @ [char_of (34::nat)]; v = drop (length open) s;
       t = takeWhile (\<lambda>c. code c \<noteq> 34) v; r = dropWhile (\<lambda>c. code c \<noteq> 34) v in
     if starts_with s open \<and> t \<noteq> [] \<and> r \<noteq> [] \<and> at_line_end (tl r) then Some t else None)"

definition number_setting :: "string \<Rightarrow> string \<Rightarrow> string option" where
  "number_setting name s = (let open = name @ ''=''; v = drop (length open) s;
       t = takeWhile is_ascii_digit v in
     if starts_with s open \<and> t \<noteq> [] \<and> at_line_end (drop (length t) v) then Some t else None)"

fun first_some :: "('a \<Rightarrow> 'b option) \<Rightarrow> 'a list \<Rightarrow> 'b option" where
  "first_some f [] = None"
| "first_some f (x # xs) = (case f x of None \<Rightarrow> first_some f xs | Some y \<Rightarrow> Some y)"

definition post_script_args :: "string \<Rightarrow> string option" where
  "post_script_args config = first_some (quoted_setting ''BR2_ROOTFS_POST_SCRIPT_ARGS'') (line_starts config)"

definition jlevel_setting :: "string \<Rightarrow> string option" where
  "jlevel_setting config = first_some (number_setting ''BR2_JLEVEL'') (line_starts config)"

definition has_ext2_size :: "string \<Rightarrow> bool" where
  "has_ext2_size config \<longleftrightarrow>
     list_ex (\<lambda>s. quoted_setting ''BR2_TARGET_ROOTFS_EXT2_SIZE'' s \<noteq> None) (line_starts config)"

section \<open>Genimage checks\<close>

datatype genimage_failure =
  LabelTooLong nat string string nat
| TableTypeMissing string
| TableTypeUnsupported nat string
| TableTypeMismatch nat string string

definition GENIMAGE_LABEL_LIMITS :: "(string \<times> nat) list" where
  "GENIMAGE_LABEL_LIMITS = [(''vfat'', 11), (''ext2'', 16), (''ext3'', 16), (''ext4'', 16)]"

definition VALID_TABLES :: "string list" where
  "VALID_TABLES = [''gpt'', ''mbr'']"

text \<open>
  The loop over the lines, with the stack of open blocks: an entry is the file-system kind that
  limits labels, or \<open>None\<close> for any other block; the head of the list is the innermost block.
\<close>

fun label_errors_from :: "string option list \<Rightarrow> nat \<Rightarrow> string list \<Rightarrow> genimage_failure list" where
  "label_errors_from stack n [] = []"
| "label_errors_from stack n (raw # rest) = (let line = strip (strip_comment raw) in
     if line = [] then label_errors_from stack (Suc n) rest
     else if block_close line then label_errors_from (tl stack) (Suc n) rest
     else case block_open line of
       Some kind \<Rightarrow> label_errors_from
         ((if map_of GENIMAGE_LABEL_LIMITS kind \<noteq> None then Some kind else None) # stack) (Suc n) rest
     | None \<Rightarrow>
         (case (label_value line, first_some id stack) of
            (Some label, Some fs) \<Rightarrow>
              (case map_of GENIMAGE_LABEL_LIMITS fs of
                 Some limit \<Rightarrow> report (limit < length label) (LabelTooLong n fs label limit)
               | None \<Rightarrow> [])
          | _ \<Rightarrow> [])
         @ label_errors_from stack (Suc n) rest)"

definition genimage_label_errors :: "string \<Rightarrow> genimage_failure list" where
  "genimage_label_errors t = label_errors_from [] 1 (splitlines t)"

fun table_types_from :: "nat \<Rightarrow> string list \<Rightarrow> (nat \<times> string) list" where
  "table_types_from n [] = []"
| "table_types_from n (l # rest) =
     (case table_type_value l of None \<Rightarrow> [] | Some v \<Rightarrow> [(n, v)]) @ table_types_from (Suc n) rest"

definition genimage_partition_table_errors :: "string \<Rightarrow> string \<Rightarrow> genimage_failure list" where
  "genimage_partition_table_errors expected t = (let matches = table_types_from 1 (splitlines t) in
     if matches = [] then [TableTypeMissing expected]
     else concat (map (\<lambda>(n, actual).
       if actual \<notin> set VALID_TABLES then [TableTypeUnsupported n actual]
       else report (actual \<noteq> expected) (TableTypeMismatch n actual expected)) matches))"

end
