(* ===== verification/MatrixValidate.thy ===== *)
theory MatrixValidate
  imports Genimage ContractJoin
begin

text \<open>
  \<open>validate\<close> of \<open>scripts/ci/validate-build-matrix.py\<close>: the contract of every Buildroot target,
  checked against the defconfig and the genimage file it names. The repository is a function
  from paths to the text of regular files. The checks of one target are grouped as the source
  orders them; each group returns the failures it appends, and a lookup of an unhashable value
  in a set raises.
\<close>

section \<open>Failures and results\<close>

text \<open>The violated rule, by group; a failure adds the defconfig it is about.\<close>

datatype row_rule =
  UnsupportedArch
| UnsupportedTable
| ExpectedArtifactsEmpty
| ArtifactNotExpected
| UnsafeArtifact json
| NotBoolean string
| NotInteger string
| OutOfRange string int int
| NoLogUploadTime
| JlevelAboveVcpu
| MemTooLow

datatype prebuild_rule =
  NotAList string
| PrebuildsItself
| UnknownPrebuild string
| UnsafeExport string
| ExportNotPrebuilt string
| ExportNotContract string

datatype file_rule =
  MissingConfig
| MissingGenimage string
| UsesPartitionLabel
| GenimageFailure genimage_failure
| PostScriptArgs "string option" json
| JlevelMissing
| JlevelMismatch string
| CcacheDisabled
| BootctlSymbol
| VariantNotUnique
| LegacyExt2Blocks
| Ext2SizeMissing
| NeedsHostGenimage

datatype release_rule =
  ReleaseNotSource
| SourceNotBuilt
| PayloadWithoutPrebuild
| BlockerMissing
| NeedsProdVariant
| ArmCannotBeReady
| ReadyNeedsProdVariant
| ReadyNeedsSigning
| ReadyMutableRoot

datatype matrix_failure =
  MissingTargetFields string "string list"
| DuplicateDefconfig string
| DuplicateTarget string string
| Row string row_rule
| Prebuild string prebuild_rule
| File string file_rule
| Release string release_rule
| JoinFailure join_failure

datatype validate_error = ParserError matrix_error | ContractError contract_error

type_synonym failures = "(validate_error, matrix_failure list) result"

type_synonym repo = "path \<Rightarrow> string option"

definition from_parser :: "(matrix_error, 'a) result \<Rightarrow> (validate_error, 'a) result" where
  "from_parser r = map_sum (map_exc ParserError) id r"

definition from_contract :: "(contract_error, 'a) result \<Rightarrow> (validate_error, 'a) result" where
  "from_contract r = map_sum (map_exc ContractError) id r"

definition TARGET_FIELDS :: "string list" where
  "TARGET_FIELDS = [''name'', ''target'', ''arch'', ''artifact'', ''release_artifact'',
     ''expected_artifacts'', ''qemu_test'', ''ci_build'', ''fast_required'', ''image_build'',
     ''release_source'', ''payload_base_required'', ''release'', ''timeout_minutes'',
     ''build_step_timeout_minutes'', ''min_disk_gib'', ''min_mem_gib'', ''min_vcpu'',
     ''build_jlevel'', ''prebuild_defconfigs'', ''payload_image_exports'',
     ''production_required'', ''production_ready'', ''profile'', ''boot_mode'',
     ''partition_table'', ''root_partition'', ''root_identity'', ''genimage'',
     ''post_image_arg'', ''signing'', ''acceptance'', ''blocker'', ''description'']"

definition VALID_ARCHES :: "string list" where
  "VALID_ARCHES = [''x86_64'', ''aarch64'']"

section \<open>The checks on the row itself\<close>

definition check_platform :: "string \<Rightarrow> obj \<Rightarrow> failures" where
  "check_platform name row =
     bindE (in_str_set (dict_get row ''arch'') VALID_ARCHES) (\<lambda>arch_ok.
     bindE (in_str_set (dict_get row ''partition_table'') VALID_TABLES) (\<lambda>table_ok.
       Inr (report (\<not> arch_ok) (Row name UnsupportedArch) @ report (\<not> table_ok) (Row name UnsupportedTable))))"

definition check_artifact_contract :: "string \<Rightarrow> obj \<Rightarrow> matrix_failure list" where
  "check_artifact_contract name row = (let v = dict_get row ''expected_artifacts'' in
     (if \<not> is_list v \<or> elems v = [] then [Row name ExpectedArtifactsEmpty]
      else report (\<not> list_ex (py_eq (dict_get row ''artifact'')) (elems v)) (Row name ArtifactNotExpected))
   @ concat (map (\<lambda>a. report (\<not> is_str a \<or> \<not> safe_artifact (text_of a)) (Row name (UnsafeArtifact a))) (elems v)))"

definition ROW_BOOL_FIELDS :: "string list" where
  "ROW_BOOL_FIELDS = [''qemu_test'', ''ci_build'', ''fast_required'', ''image_build'',
     ''release_source'', ''payload_base_required'', ''release'', ''production_required'',
     ''production_ready'']"

definition check_bool_fields :: "string \<Rightarrow> obj \<Rightarrow> matrix_failure list" where
  "check_bool_fields name row = concat (map (\<lambda>f.
     case bool_field row f of Inl e \<Rightarrow> [Row name (NotBoolean f)] | Inr b \<Rightarrow> []) ROW_BOOL_FIELDS)"

definition check_range :: "string \<Rightarrow> obj \<Rightarrow> string \<Rightarrow> int \<Rightarrow> int \<Rightarrow> matrix_failure list" where
  "check_range name row f lo hi = (let v = dict_get row f in
     if \<not> is_int v then [Row name (NotInteger f)]
     else report (\<not> (lo \<le> int_of v \<and> int_of v \<le> hi)) (Row name (OutOfRange f lo hi)))"

definition check_timeouts :: "string \<Rightarrow> obj \<Rightarrow> matrix_failure list" where
  "check_timeouts name row = (let t = dict_get row ''timeout_minutes'';
       b = dict_get row ''build_step_timeout_minutes'' in
     check_range name row ''timeout_minutes'' 30 360
   @ check_range name row ''build_step_timeout_minutes'' 30 350
   @ report (is_int b \<and> 30 \<le> int_of b \<and> int_of b \<le> 350 \<and> is_int t \<and> int_of b > int_of t - 10)
       (Row name NoLogUploadTime))"

definition check_resources :: "string \<Rightarrow> obj \<Rightarrow> matrix_failure list" where
  "check_resources name row = (let j = dict_get row ''build_jlevel''; cpu = dict_get row ''min_vcpu'';
       mem = dict_get row ''min_mem_gib'' in
     check_range name row ''min_disk_gib'' 20 200
   @ check_range name row ''min_mem_gib'' 2 64
   @ check_range name row ''min_vcpu'' 1 128
   @ check_range name row ''build_jlevel'' 1 128
   @ report (is_int j \<and> is_int cpu \<and> int_of j > int_of cpu) (Row name JlevelAboveVcpu)
   @ report (is_int j \<and> is_int mem \<and> int_of mem < max 4 (int_of j + 2)) (Row name MemTooLow))"

section \<open>Prebuilds and payload exports\<close>

definition row_lists :: "obj \<Rightarrow> (string list \<times> string list) parsed" where
  "row_lists row = bindE (list_field row ''prebuild_defconfigs'') (\<lambda>p.
     bindE (list_field row ''payload_image_exports'') (\<lambda>e. Inr (p, e)))"

definition is_env_char :: "char \<Rightarrow> bool" where
  "is_env_char c \<longleftrightarrow> (65 \<le> code c \<and> code c \<le> 90) \<or> is_ascii_digit c \<or> c = CHR ''_''"

text \<open>\<open>(SUDERRA_[A-Z0-9_]+_TARGET_IMAGE_XZ)=([^:=]+):([^:=/]+)\<close>: the prebuild and the artifact.\<close>

definition parse_export :: "string \<Rightarrow> (string \<times> string) option" where
  "parse_export s = (let env = takeWhile (\<lambda>c. c \<noteq> CHR ''='') s; r = dropWhile (\<lambda>c. c \<noteq> CHR ''='') s;
       pre = ''SUDERRA_''; post = ''_TARGET_IMAGE_XZ'' in
     if r = [] \<or> \<not> starts_with env pre \<or> \<not> ends_with env post \<or>
        length env \<le> length pre + length post \<or> \<not> list_all is_env_char env then None
     else (case split_on (CHR '':'') (tl r) of
       [prebuild, artifact] \<Rightarrow> if prebuild \<noteq> [] \<and> artifact \<noteq> [] \<and> CHR ''='' \<notin> set prebuild \<and>
           CHR ''='' \<notin> set artifact \<and> CHR ''/'' \<notin> set artifact then Some (prebuild, artifact) else None
     | _ \<Rightarrow> None))"

definition check_export ::
  "string \<Rightarrow> (string \<Rightarrow> obj option) \<Rightarrow> string list \<Rightarrow> string \<Rightarrow> matrix_failure list" where
  "check_export name by_name prebuilds e = (case parse_export e of
     None \<Rightarrow> [Prebuild name (UnsafeExport e)]
   | Some (prebuild, artifact) \<Rightarrow>
       if prebuild \<notin> set prebuilds then [Prebuild name (ExportNotPrebuilt e)]
       else (case by_name prebuild of None \<Rightarrow> []
         | Some row \<Rightarrow> report (row \<noteq> [] \<and> artifact \<notin> set (expected_artifacts row)) (Prebuild name (ExportNotContract e))))"

definition check_prebuilds :: "string \<Rightarrow> (string \<Rightarrow> obj option) \<Rightarrow> obj \<Rightarrow> matrix_failure list" where
  "check_prebuilds name by_name row = (case row_lists row of
     Inl e \<Rightarrow> [Prebuild name (NotAList (case list_field row ''prebuild_defconfigs'' of
        Inl _ \<Rightarrow> ''prebuild_defconfigs'' | Inr _ \<Rightarrow> ''payload_image_exports''))]
   | Inr (prebuilds, exports) \<Rightarrow>
       concat (map (\<lambda>p. report (p = name) (Prebuild name PrebuildsItself)
                      @ report (by_name p = None) (Prebuild name (UnknownPrebuild p))) prebuilds)
     @ concat (map (check_export name by_name prebuilds) exports))"

section \<open>The files the row names\<close>

definition check_genimage :: "string \<Rightarrow> repo \<Rightarrow> obj \<Rightarrow> matrix_failure list" where
  "check_genimage name repo row = (let g = py_str (dict_get row ''genimage'') in
     case repo (path_of g) of
       None \<Rightarrow> [File name (MissingGenimage g)]
     | Some t \<Rightarrow> report (has_partition_label t) (File name UsesPartitionLabel)
         @ map (\<lambda>f. File name (GenimageFailure f)) (genimage_label_errors t)
         @ map (\<lambda>f. File name (GenimageFailure f))
             (genimage_partition_table_errors (py_str (dict_get row ''partition_table'')) t))"

definition has_dev_variant :: "string \<Rightarrow> bool" where
  "has_dev_variant config \<longleftrightarrow> contains config ''BR2_PACKAGE_SUDERRA_VARIANT_DEV=y''"

definition has_prod_variant :: "string \<Rightarrow> bool" where
  "has_prod_variant config \<longleftrightarrow> contains config ''BR2_PACKAGE_SUDERRA_VARIANT_PROD=y''"

definition check_config :: "string \<Rightarrow> obj \<Rightarrow> string \<Rightarrow> matrix_failure list" where
  "check_config name row config =
     (let arg = post_script_args config; v = dict_get row ''post_image_arg'' in
        report (\<not> py_eq v (case arg of None \<Rightarrow> JNull | Some s \<Rightarrow> JStr s)) (File name (PostScriptArgs arg v)))
   @ (case jlevel_setting config of None \<Rightarrow> [File name JlevelMissing]
      | Some d \<Rightarrow> report (\<not> py_eq (JInt (int (digits_val d))) (dict_get row ''build_jlevel'')) (File name (JlevelMismatch d)))
   @ report (\<not> contains config ''BR2_CCACHE=y'') (File name CcacheDisabled)
   @ report (contains config ''BR2_PACKAGE_SYSTEMD_BOOTCTL='') (File name BootctlSymbol)
   @ report (has_dev_variant config = has_prod_variant config) (File name VariantNotUnique)
   @ report (contains config ''BR2_TARGET_ROOTFS_EXT2_BLOCKS='') (File name LegacyExt2Blocks)
   @ report (contains config ''BR2_TARGET_ROOTFS_EXT2=y'' \<and> \<not> has_ext2_size config) (File name Ext2SizeMissing)
   @ report (truthy (dict_get row ''ci_build'') \<and> \<not> contains config ''BR2_PACKAGE_HOST_GENIMAGE=y'')
       (File name NeedsHostGenimage)"

section \<open>Release and production rules\<close>

definition row_prebuilds :: "obj \<Rightarrow> string list" where
  "row_prebuilds row = (case row_lists row of Inl _ \<Rightarrow> [] | Inr (p, _) \<Rightarrow> p)"

definition check_release_rules :: "string \<Rightarrow> bool \<Rightarrow> obj \<Rightarrow> string \<Rightarrow> matrix_failure list" where
  "check_release_rules name strict row config = (let on = (\<lambda>f. truthy (dict_get row f)) in
     report (on ''release'' \<and> \<not> on ''release_source'') (Release name ReleaseNotSource)
   @ report (on ''release_source'' \<and> \<not> on ''image_build'') (Release name SourceNotBuilt)
   @ report (on ''payload_base_required'' \<and> row_prebuilds row = []) (Release name PayloadWithoutPrebuild)
   @ report (on ''production_required'' \<and> \<not> on ''production_ready'' \<and> \<not> on ''blocker'') (Release name BlockerMissing)
   @ report (strict \<and> on ''production_required'' \<and> \<not> has_prod_variant config) (Release name NeedsProdVariant))"

definition check_production_ready :: "string \<Rightarrow> obj \<Rightarrow> string \<Rightarrow> failures" where
  "check_production_ready name row config =
     (if \<not> truthy (dict_get row ''production_ready'') then Inr []
      else bindE (if dict_get row ''arch'' = JStr ''aarch64''
          then in_str_set (dict_get row ''boot_mode'')
            [''rpi-firmware-installer'', ''u-boot-signed-fit-required''] else Inr False) (\<lambda>arm.
        let signing = py_str (dict_get row ''signing''); root_id = py_str (dict_get row ''root_identity'') in
        Inr (report arm (Release name ArmCannotBeReady)
          @ report (\<not> has_prod_variant config) (Release name ReadyNeedsProdVariant)
          @ report (signing \<in> {''unsigned-lab'', ''unsupported'', ''production-required''}) (Release name ReadyNeedsSigning)
          @ report (contains root_id ''mutated'' \<or> root_id \<in> {''template'', ''installer-rootfs''})
              (Release name ReadyMutableRoot))))"

section \<open>The loop over the targets\<close>

definition row_defconfig :: "obj \<Rightarrow> string" where
  "row_defconfig row = row_text row ''name''"

definition config_path :: "string \<Rightarrow> path" where
  "config_path name = path_join (path_of ''configs'') (path_of name)"

definition check_row ::
  "bool \<Rightarrow> repo \<Rightarrow> (string \<Rightarrow> obj option) \<Rightarrow> obj \<Rightarrow> failures" where
  "check_row strict repo by_name row = (let name = row_defconfig row in
     collectE
       [check_platform name row,
        Inr (check_artifact_contract name row @ check_bool_fields name row @ check_timeouts name row
          @ check_resources name row @ check_prebuilds name by_name row),
        (case repo (config_path name) of
           None \<Rightarrow> Inr [File name MissingConfig]
         | Some config \<Rightarrow> collectE
             [Inr (check_genimage name repo row @ check_config name row config
                @ check_release_rules name strict row config),
              check_production_ready name row config])])"

text \<open>The names and target ids seen so far are the state of the loop.\<close>

fun check_rows ::
  "bool \<Rightarrow> repo \<Rightarrow> (string \<Rightarrow> obj option) \<Rightarrow> string list \<Rightarrow> string list \<Rightarrow> obj list \<Rightarrow> failures" where
  "check_rows strict repo by_name names targets [] = Inr []"
| "check_rows strict repo by_name names targets (row # rows) =
     (let name = row_defconfig row; target = row_text row ''target'';
          missing = sorted_set (minus_list TARGET_FIELDS (dict_keys row)) in
      if missing \<noteq> [] then
        bindE (check_rows strict repo by_name names targets rows) (\<lambda>fs.
          Inr (MissingTargetFields (if name = [] then ''<unknown>'' else name) missing # fs))
      else collectE
        [Inr (report (name \<in> set names) (DuplicateDefconfig name)
           @ report (target \<in> set targets) (DuplicateTarget name target)),
         check_row strict repo by_name row,
         check_rows strict repo by_name (name # names) (target # targets) rows])"

definition targets_by_name :: "obj list \<Rightarrow> string \<Rightarrow> obj option" where
  "targets_by_name rows name = (if name = [] then None
     else find (\<lambda>row. row_defconfig row = name) (rev rows))"

definition matrix_defconfigs :: "obj \<Rightarrow> obj list" where
  "matrix_defconfigs matrix = map members (elems (dict_get matrix ''defconfigs''))"

definition validate_errors :: "bool \<Rightarrow> repo \<Rightarrow> obj \<Rightarrow> obj \<Rightarrow> failures" where
  "validate_errors strict repo contract matrix = (let rows = matrix_defconfigs matrix in collectE
     [check_rows strict repo (targets_by_name rows) [] [] rows,
      bindE (from_contract (validate_matrix_join matrix contract)) (\<lambda>fs. Inr (map JoinFailure fs))])"

definition validate_matrix :: "bool \<Rightarrow> repo \<Rightarrow> obj \<Rightarrow> string \<Rightarrow> (validate_error, int) result" where
  "validate_matrix strict repo contract content =
     bindE (from_parser (load_matrix content)) (\<lambda>matrix.
     bindE (validate_errors strict repo contract matrix) (\<lambda>fs.
       Inr (if fs = [] then 0 else 1)))"

end
