(* ===== verification/MatrixRelease.thy ===== *)
theory MatrixRelease
  imports MatrixValidate
begin

text \<open>
  The commands of \<open>scripts/ci/validate-build-matrix.py\<close> that read a matrix that has already
  been validated: the GitHub Actions matrix, the readiness gates, the completeness of the image
  directory and of the release directory. A command returns its exit code with the items it
  prints. A directory is the list of its regular files with their sizes.
\<close>

section \<open>GitHub Actions matrix\<close>

definition COPIED_FIELDS :: "string list" where
  "COPIED_FIELDS = [''signing'', ''fast_required'', ''image_build'', ''release_source'',
     ''payload_base_required'', ''timeout_minutes'', ''build_step_timeout_minutes'',
     ''min_disk_gib'', ''min_mem_gib'', ''min_vcpu'', ''build_jlevel'']"

definition copy_fields :: "obj \<Rightarrow> string list \<Rightarrow> obj parsed" where
  "copy_fields row fs = mapE (\<lambda>f. bindE (dict_index row f) (\<lambda>v. Inr (f, v))) fs"

definition matrix_entry :: "obj \<Rightarrow> obj parsed" where
  "matrix_entry row = bindE (dict_index row ''release_artifact'') (\<lambda>ra. let artifact = py_str ra in
     bindE (dict_index row ''target'') (\<lambda>target.
     bindE (dict_index row ''name'') (\<lambda>name.
     bindE (copy_fields row [''arch'', ''artifact'']) (\<lambda>platform.
     bindE (copy_fields row COPIED_FIELDS) (\<lambda>copied.
     bindE (list_field row ''prebuild_defconfigs'') (\<lambda>prebuilds.
     bindE (list_field row ''payload_image_exports'') (\<lambda>exports.
     bindE (copy_fields row [''profile'', ''boot_mode'']) (\<lambda>boot.
       Inr ([(''name'', target), (''target'', target), (''defconfig'', name)] @ platform
         @ [(''release'', JStr (release_rename_base artifact)), (''release_artifact'', JStr artifact)]
         @ copied
         @ [(''prebuild_defconfigs'', JStr (join '' '' prebuilds)),
            (''payload_image_exports'', JStr (join '' '' exports)),
            (''expected_artifacts'', JStr (join '' '' (expected_artifacts row)))] @ boot)))))))))"

fun github_include :: "string \<Rightarrow> obj list \<Rightarrow> obj list parsed" where
  "github_include sel [] = Inr []"
| "github_include sel (row # rows) = bindE (target_matches_selector row sel) (\<lambda>selected.
     if selected then bindE (matrix_entry row) (\<lambda>e. bindE (github_include sel rows) (\<lambda>es. Inr (e # es)))
     else github_include sel rows)"

definition github_matrix :: "string \<Rightarrow> obj \<Rightarrow> json parsed" where
  "github_matrix sel matrix = bindE (github_include sel (matrix_defconfigs matrix)) (\<lambda>es.
     Inr (JObj [(''include'', JArr (map JObj es))]))"

section \<open>Readiness gates\<close>

type_synonym gate = "(contract_error, int \<times> (json \<times> json) list) result"

definition production_gated :: "obj \<Rightarrow> obj \<Rightarrow> bool checked" where
  "production_gated contract row =
     bindE (target_policy (py_str (dict_get row ''target'')) contract) (\<lambda>policy.
       Inr (truthy (dict_get_or policy ''production_gate''
         (JBool (truthy (dict_get row ''production_required''))))))"

definition readiness_blockers :: "obj \<Rightarrow> obj list \<Rightarrow> obj list checked" where
  "readiness_blockers contract rows =
     bindE (mapE (\<lambda>row. bindE (production_gated contract row) (\<lambda>g.
        Inr (if g \<and> \<not> truthy (dict_get row ''production_ready'') then [row] else []))) rows) (\<lambda>xs.
     Inr (concat xs))"

definition blocker_lines :: "obj list \<Rightarrow> (json \<times> json) list checked" where
  "blocker_lines rows = mapE (\<lambda>row. bindE (dict_index row ''name'') (\<lambda>n.
     bindE (dict_index row ''blocker'') (\<lambda>b. Inr (n, b)))) rows"

definition production_readiness :: "obj \<Rightarrow> obj \<Rightarrow> gate" where
  "production_readiness contract matrix =
     bindE (readiness_blockers contract (matrix_defconfigs matrix)) (\<lambda>blockers.
     if blockers \<noteq> [] then bindE (blocker_lines blockers) (\<lambda>ls. Inr (1, ls)) else Inr (0, []))"

definition missing_rationale :: "obj \<Rightarrow> bool" where
  "missing_rationale row \<longleftrightarrow> truthy (dict_get row ''release'') \<and> truthy (dict_get row ''production_required'') \<and>
     \<not> truthy (dict_get row ''production_ready'') \<and> strip (row_text row ''blocker'') = []"

text \<open>
  \<open>inputs_status\<close> is the exit code of the \<open>validate-release-inputs.py\<close> process for the tag;
  it is consulted only with \<open>--require-inputs\<close>.
\<close>

definition candidate_readiness ::
  "string option \<Rightarrow> bool \<Rightarrow> (string \<Rightarrow> int) \<Rightarrow> obj \<Rightarrow> obj \<Rightarrow> gate" where
  "candidate_readiness tag require_inputs inputs_status contract matrix =
     (case tag of None \<Rightarrow> Inr (2, []) | Some t \<Rightarrow>
      if t = [] then Inr (2, [])
      else if CHR ''-'' \<notin> set t then production_readiness contract matrix
      else bindE (readiness_blockers contract (matrix_defconfigs matrix)) (\<lambda>blockers.
        let unexplained = filter missing_rationale (matrix_defconfigs matrix) in
        if unexplained \<noteq> [] then
          bindE (mapE (\<lambda>row. bindE (dict_index row ''name'') (\<lambda>n. Inr (n, JNull))) unexplained) (\<lambda>ls. Inr (1, ls))
        else bindE (blocker_lines blockers) (\<lambda>ls.
          Inr (if require_inputs then inputs_status t else 0, ls))))"

section \<open>Image and release directories\<close>

definition target_by_defconfig :: "obj \<Rightarrow> string \<Rightarrow> obj option" where
  "target_by_defconfig matrix d = find (\<lambda>row. dict_get row ''name'' = JStr d) (matrix_defconfigs matrix)"

definition verify_artifacts :: "string \<Rightarrow> (string \<Rightarrow> bool) \<Rightarrow> obj \<Rightarrow> int \<times> string list" where
  "verify_artifacts d image_exists matrix = (case target_by_defconfig matrix d of
     None \<Rightarrow> (1, [])
   | Some row \<Rightarrow> let missing = filter (\<lambda>a. \<not> image_exists a) (expected_artifacts row) in
       (if missing \<noteq> [] then 1 else 0, missing))"

type_synonym directory = "(string \<times> nat) list"

definition present :: "directory \<Rightarrow> string \<Rightarrow> bool" where
  "present dir f \<longleftrightarrow> (case map_of dir f of None \<Rightarrow> False | Some n \<Rightarrow> 0 < n)"

datatype release_failure =
  MissingReleaseFile string string
| MissingInstaller string
| MissingControlFile string
| MissingSignature string string

definition required_release_files :: "obj \<Rightarrow> string parsed \<Rightarrow> string list parsed" where
  "required_release_files row artifact_r = bindE artifact_r (\<lambda>artifact.
     let expected = expected_artifacts row; control = payload_manifest_base artifact in
     Inr ([artifact, artifact @ ''.sha256'', release_rename_base artifact @ ''.manifest.txt'',
           sbom_base artifact @ ''.cyclonedx.json'']
       @ only_if (''manifest.json'' \<in> set expected) [control @ ''.payload-manifest.json'']
       @ only_if (''manifest.sig'' \<in> set expected) [control @ ''.payload-manifest.sig'']))"

definition check_release_row :: "directory \<Rightarrow> obj \<Rightarrow> (matrix_error, release_failure list) result" where
  "check_release_row dir row =
     bindE (required_release_files row (bindE (dict_index row ''release_artifact'') (\<lambda>v. Inr (py_str v)))) (\<lambda>files.
     let missing = filter (\<lambda>f. \<not> present dir f) files in
     if missing = [] then Inr []
     else bindE (dict_index row ''name'') (\<lambda>n. Inr (map (MissingReleaseFile (py_str n)) missing)))"

definition installer_files :: "string \<Rightarrow> string list" where
  "installer_files version = concat (map (\<lambda>arch. map (\<lambda>suffix.
     ''suderra-installer-'' @ version @ ''-'' @ arch @ suffix) [[], ''.sha256'']) [''x86_64'', ''aarch64''])"

definition is_signature_file :: "string \<Rightarrow> bool" where
  "is_signature_file f \<longleftrightarrow> ends_with f ''.sig'' \<or> ends_with f ''.cert''"

definition check_signatures :: "directory \<Rightarrow> release_failure list" where
  "check_signatures dir =
     map MissingControlFile (filter (\<lambda>f. \<not> present dir f) [''manifest.json'', ''SHA256SUMS'', ''release-assets.json''])
   @ concat (map (\<lambda>(f, _). concat (map (\<lambda>suffix.
       report (\<not> present dir (f @ suffix)) (MissingSignature f (f @ suffix))) [''.sig'', ''.cert'']))
       (filter (\<lambda>(f, _). \<not> is_signature_file f) dir))"

definition release_files :: "string \<Rightarrow> directory \<Rightarrow> bool \<Rightarrow> obj \<Rightarrow> (matrix_error, release_failure list) result" where
  "release_files version dir signed matrix = collectE
     [collectE (map (check_release_row dir)
        (filter (\<lambda>row. truthy (dict_get row ''release'')) (matrix_defconfigs matrix))),
      Inr (map MissingInstaller (filter (\<lambda>f. \<not> present dir f) (installer_files version))),
      Inr (if signed then check_signatures dir else [])]"

definition release_files_status :: "string \<Rightarrow> directory \<Rightarrow> bool \<Rightarrow> obj \<Rightarrow> (matrix_error, int) result" where
  "release_files_status version dir signed matrix =
     bindE (release_files version dir signed matrix) (\<lambda>fs. Inr (if fs = [] then 0 else 1))"

end
