(* ===== verification/MatrixRoundtrip.thy ===== *)
theory MatrixRoundtrip
  imports MatrixReader
begin

text \<open>
  A printer for the subset of YAML that \<open>ci/build-matrix.yml\<close> keeps to, and the proof that
  \<open>load_matrix\<close> reads back what it prints: the sections in order, rows with a leading scalar
  field, strings in double quotes.
\<close>

section \<open>Comment stripping\<close>

definition quiet :: "string \<Rightarrow> bool" where
  "quiet s \<longleftrightarrow> (\<forall>c\<in>set s. code c \<notin> {34, 35, 39, 92})"

lemma scan_quiet: "quiet s \<Longrightarrow> scan_comment False False False (s @ r) = s @ scan_comment False False False r"
  by (induction s) (auto simp: quiet_def)

definition safe_text :: "string \<Rightarrow> bool" where
  "safe_text s \<longleftrightarrow> (\<forall>c\<in>set s. code c \<notin> {34, 92} \<and> \<not> is_newline c)"

lemma scan_double: "safe_text s \<Longrightarrow> scan_comment False True False (s @ r) = s @ scan_comment False True False r"
  by (induction s) (auto simp: safe_text_def)

text \<open>What remains of a line is a prefix of it, and stripping again changes nothing.\<close>

lemma scan_prefix: "\<exists>t. s = scan_comment a b e s @ t"
  by (induction a b e s rule: scan_comment.induct) auto

lemma scan_of_prefix: "scan_comment a b e s = p @ q \<Longrightarrow> scan_comment a b e p = p"
proof (induction a b e s arbitrary: p rule: scan_comment.induct)
  case (2 a b e c s)
  show ?case
  proof (cases p)
    case (Cons d p')
    with 2 show ?thesis by (auto split: if_splits)
  qed simp
qed simp

text \<open>
  \<open>strip_comment\<close> is idempotent, gives a prefix of the line without trailing white space,
  and on a line without quotes and backslashes cuts at the first hash.
\<close>

theorem strip_comment_prefix:
  "strip_comment (strip_comment l) = strip_comment l \<and> (\<exists>t. l = strip_comment l @ t) \<and>
   (strip_comment l = [] \<or> \<not> is_space (last (strip_comment l))) \<and>
   ((\<forall>c\<in>set l. code c \<notin> {34, 39, 92}) \<longrightarrow> strip_comment l = rstrip (takeWhile (\<lambda>c. code c \<noteq> 35) l))"
proof (intro conjI impI)
  let ?p = "scan_comment False False False l"
  obtain t where t: "?p = rstrip ?p @ t" using rstrip_prefix [of ?p] by blast
  show "strip_comment (strip_comment l) = strip_comment l"
    using scan_of_prefix [OF t] by (simp add: strip_comment_def)
  obtain u where "l = ?p @ u" using scan_prefix by blast
  with t have "l = strip_comment l @ (t @ u)" unfolding strip_comment_def by (metis append_assoc)
  then show "\<exists>t. l = strip_comment l @ t" by blast
  show "strip_comment l = [] \<or> \<not> is_space (last (strip_comment l))"
    using last_rstrip by (auto simp: strip_comment_def)
  assume "\<forall>c\<in>set l. code c \<notin> {34, 39, 92}"
  then have "?p = takeWhile (\<lambda>c. code c \<noteq> 35) l" by (induction l) auto
  then show "strip_comment l = rstrip (takeWhile (\<lambda>c. code c \<noteq> 35) l)" by (simp add: strip_comment_def)
qed

theorem strip_comment_prefix_witness:
  "strip_comment ''name: pc  # first row'' = rstrip (takeWhile (\<lambda>c. code c \<noteq> 35) ''name: pc  # first row'') \<and>
   rstrip (takeWhile (\<lambda>c. code c \<noteq> 35) ''name: pc  # first row'') = ''name: pc''"
proof
  have "\<forall>c\<in>set ''name: pc  # first row''. code c \<notin> {34, 39, 92}" by code_simp
  then show "strip_comment ''name: pc  # first row'' = rstrip (takeWhile (\<lambda>c. code c \<noteq> 35) ''name: pc  # first row'')"
    using strip_comment_prefix [of "''name: pc  # first row''"] by blast
  show "rstrip (takeWhile (\<lambda>c. code c \<noteq> 35) ''name: pc  # first row'') = ''name: pc''" by code_simp
qed

section \<open>The printer\<close>

definition dquote :: char where
  "dquote = CHR 0x22"

lemma code_dquote [simp]: "code dquote = 34"
  by (simp add: dquote_def code_def)

fun print_scalar :: "json \<Rightarrow> string" where
  "print_scalar (JStr s) = dquote # s @ [dquote]"
| "print_scalar (JBool b) = (if b then ''true'' else ''false'')"
| "print_scalar (JInt n) = nat_str (nat n)"
| "print_scalar _ = ''null''"

fun printable_scalar :: "json \<Rightarrow> bool" where
  "printable_scalar (JStr s) = safe_text s"
| "printable_scalar (JBool b) = True"
| "printable_scalar (JInt n) = (0 \<le> n)"
| "printable_scalar JNull = True"
| "printable_scalar _ = False"

definition plain_key :: "string \<Rightarrow> bool" where
  "plain_key k \<longleftrightarrow> k \<noteq> [] \<and> \<not> is_space (hd k) \<and> \<not> is_space (last k) \<and> quiet k \<and>
     CHR '':'' \<notin> set k \<and> (\<forall>c\<in>set k. \<not> is_newline c)"

definition spaces :: "nat \<Rightarrow> string" where
  "spaces n = replicate n (CHR '' '')"

definition field_text :: "string \<Rightarrow> json \<Rightarrow> string" where
  "field_text k v = k @ '': '' @ print_scalar v"

definition item_text :: "json \<Rightarrow> string" where
  "item_text v = ''- '' @ print_scalar v"

fun print_field :: "string \<times> json \<Rightarrow> string list" where
  "print_field (k, JArr xs) = (spaces 4 @ k @ '':'') # map (\<lambda>x. spaces 6 @ item_text x) xs"
| "print_field (k, v) = [spaces 4 @ field_text k v]"

fun print_row :: "obj \<Rightarrow> string list" where
  "print_row [] = []"
| "print_row ((k, v) # fs) = (spaces 2 @ ''- '' @ field_text k v) # concat (map print_field fs)"

fun printable_field :: "json \<Rightarrow> bool" where
  "printable_field (JArr xs) = list_all printable_scalar xs"
| "printable_field v = printable_scalar v"

fun printable_row :: "obj \<Rightarrow> bool" where
  "printable_row [] = False"
| "printable_row ((k, v) # fs) = (printable_scalar v \<and> distinct (map fst ((k, v) # fs)) \<and>
     list_all plain_key (map fst ((k, v) # fs)) \<and> list_all printable_field (map snd fs))"

definition print_matrix :: "obj list \<Rightarrow> obj list \<Rightarrow> json list \<Rightarrow> string" where
  "print_matrix ds vs ss = concat (map (\<lambda>l. l @ [CHR 0x0A])
     (''defconfigs:'' # concat (map print_row ds) @ ''variants:'' # concat (map print_row vs)
      @ ''security_scans:'' # map (\<lambda>v. spaces 2 @ item_text v) ss))"

section \<open>Lines of the printer\<close>

text \<open>A body that starts and ends with something other than white space and survives the scan.\<close>

definition body :: "string \<Rightarrow> bool" where
  "body t \<longleftrightarrow> t \<noteq> [] \<and> \<not> is_space (hd t) \<and> \<not> is_space (last t) \<and> scan_comment False False False t = t"

lemma space_is_space [simp]: "is_space (CHR '' '')"
  by (simp add: is_space_def code_def)

lemma line_of_body:
  assumes "body t"
  shows "strip_comment (spaces n @ t) = spaces n @ t" "strip (spaces n @ t) = t" "indent_of (spaces n @ t) = n"
proof -
  have t: "t \<noteq> []" "\<not> is_space (hd t)" "\<not> is_space (last t)" "scan_comment False False False t = t"
    using assms by (auto simp: body_def)
  have "quiet (spaces n)" by (auto simp: quiet_def spaces_def code_def)
  then show "strip_comment (spaces n @ t) = spaces n @ t"
    using t by (simp add: strip_comment_def scan_quiet rstrip_id)
  have "dropWhile is_space (spaces n @ t) = t"
    using t(1,2) by (subst dropWhile_append2) (auto simp: spaces_def dropWhile_eq_self_iff)
  then show "strip (spaces n @ t) = t" using t(3) by (simp add: strip_def lstrip_def rstrip_id)
  have "hd t \<noteq> CHR '' ''" using t(2) by auto
  then have "dropWhile (\<lambda>c. c = CHR '' '') (spaces n @ t) = t"
    using t(1) by (subst dropWhile_append2) (auto simp: spaces_def dropWhile_eq_self_iff)
  then show "indent_of (spaces n @ t) = n" by (simp add: indent_of_def spaces_def)
qed

lemma nat_str_chars: "c \<in> set (nat_str n) \<Longrightarrow> is_ascii_digit c"
  using nat_str_digits [of n] by (auto simp: all_ascii_digits_def list_all_iff)

lemma digit_props: "is_ascii_digit c \<Longrightarrow> \<not> is_space c \<and> code c \<notin> {34, 35, 39, 92} \<and> c \<noteq> CHR '':'' \<and> \<not> is_newline c"
  by (auto simp: is_ascii_digit_def is_space_def is_newline_def Let_def code_def)

lemma print_scalar_body: "printable_scalar v \<Longrightarrow> body (print_scalar v)"
proof (cases v)
  case (JStr s)
  moreover assume "printable_scalar v"
  ultimately have "safe_text (s @ [])" by simp
  then have "scan_comment False True False (s @ [dquote]) = s @ [dquote]"
    by (simp add: scan_double)
  then show ?thesis by (auto simp: JStr body_def is_space_def)
next
  case (JInt n)
  have "quiet (nat_str m)" for m using nat_str_chars digit_props by (auto simp: quiet_def)
  then have "scan_comment False False False (nat_str m) = nat_str m" for m
    using scan_quiet [of "nat_str m" "[]"] by simp
  moreover have "\<not> is_space (hd (nat_str m))" "\<not> is_space (last (nat_str m))" for m
    using nat_str_chars digit_props by (meson hd_in_set last_in_set nat_str_not_Nil)+
  ultimately show ?thesis by (simp add: JInt body_def)
qed (auto simp: body_def is_space_def code_def)

lemma print_scalar_parse: "printable_scalar v \<Longrightarrow> parse_scalar (print_scalar v) = v"
proof -
  assume v: "printable_scalar v"
  then have b: "body (print_scalar v)" by (rule print_scalar_body)
  then have strip: "strip (print_scalar v) = print_scalar v" by (simp add: body_def strip_id)
  show ?thesis
  proof (cases v)
    case (JInt n)
    have d: "all_ascii_digits (nat_str m)" for m by (rule nat_str_digits)
    have "nat_str m \<noteq> ''true'' \<and> nat_str m \<noteq> ''false'' \<and> nat_str m \<noteq> ''null'' \<and> nat_str m \<noteq> ''~'' \<and>
        code (hd (nat_str m)) \<notin> {39, 34}" for m
    proof -
      obtain c r where c: "nat_str m = c # r" by (cases "nat_str m") auto
      then have "is_ascii_digit c" using nat_str_chars [of c m] by simp
      then show ?thesis by (auto simp: c is_ascii_digit_def code_def)
    qed
    then show ?thesis using v strip d by (simp add: JInt parse_scalar_def Let_def)
  next
    case (JStr s)
    then show ?thesis using strip by (simp add: JStr parse_scalar_def Let_def code_def dquote_def)
  qed (use v strip in \<open>auto simp: parse_scalar_def Let_def code_def all_ascii_digits_def is_ascii_digit_def split: if_splits\<close>)
qed

lemma plain_keyD:
  assumes "plain_key k"
  shows "k \<noteq> []" "\<not> is_space (hd k)" "\<not> is_space (last k)" "quiet k" "CHR '':'' \<notin> set k" "strip k = k"
  using assms by (auto simp: plain_key_def strip_id)

lemma field_body:
  assumes "plain_key k" "printable_scalar v"
  shows "body (field_text k v)" "body (''- '' @ field_text k v)" "body (k @ '':'')"
proof -
  note k = plain_keyD [OF assms(1)] and v = print_scalar_body [OF assms(2), unfolded body_def]
  have q: "quiet (k @ '': '')" "quiet (''- '' @ k @ '': '')" "quiet (k @ '':'')"
    using k(4) by (auto simp: quiet_def code_def)
  show "body (field_text k v)" "body (''- '' @ field_text k v)" "body (k @ '':'')"
    using k(1,2) v scan_quiet [OF q(1), of "print_scalar v"] scan_quiet [OF q(2), of "print_scalar v"]
      scan_quiet [OF q(3), of "[]"]
    by (simp_all add: body_def field_text_def is_space_def code_def)
qed

lemma item_body: "printable_scalar v \<Longrightarrow> body (item_text v)"
  using print_scalar_body [of v] scan_quiet [of "''- ''" "print_scalar v"]
  by (simp add: body_def item_text_def quiet_def is_space_def code_def)

lemma strip_leading: "strip (CHR '' '' # s) = strip s"
  by (simp add: strip_def lstrip_def)

lemma body_strip: "body t \<Longrightarrow> strip t = t"
  by (simp add: body_def strip_id)

lemma parse_field:
  assumes "plain_key k" "printable_scalar v"
  shows "parse_key_value (field_text k v) = Inr (k, print_scalar v)"
proof -
  have keep: "\<forall>c\<in>set k. c \<noteq> CHR '':''" using plain_keyD(5) [OF assms(1)] by auto
  have "takeWhile (\<lambda>c. c \<noteq> CHR '':'') (field_text k v) = k"
    using keep by (simp add: field_text_def takeWhile_append2)
  moreover have "dropWhile (\<lambda>c. c \<noteq> CHR '':'') (field_text k v) = '': '' @ print_scalar v"
    using keep by (simp add: field_text_def dropWhile_append2)
  moreover have "CHR '':'' \<in> set (field_text k v)" by (simp add: field_text_def)
  ultimately show ?thesis
    using plain_keyD(6) [OF assms(1)] body_strip [OF print_scalar_body [OF assms(2)]]
    by (simp add: parse_key_value_def strip_leading)
qed

lemma parse_list_head:
  assumes "plain_key k"
  shows "parse_key_value (k @ '':'') = Inr (k, [])"
proof -
  have "\<forall>c\<in>set k. c \<noteq> CHR '':''" using plain_keyD(5) [OF assms] by auto
  then have "takeWhile (\<lambda>c. c \<noteq> CHR '':'') (k @ '':'') = k" "dropWhile (\<lambda>c. c \<noteq> CHR '':'') (k @ '':'') = '':''"
    by (simp_all add: takeWhile_append2 dropWhile_append2)
  then show ?thesis using plain_keyD(6) [OF assms] by (simp add: parse_key_value_def strip_def lstrip_def)
qed

section \<open>What the reader does with them\<close>

text \<open>The state after some fields of a row: the row is the last of its section.\<close>

definition in_row :: "parser \<Rightarrow> string \<Rightarrow> obj \<Rightarrow> string option \<Rightarrow> parser" where
  "in_row st sec row p = st\<lparr>current_row := Some row, pending_key := p,
     sections := section_update (sections st) sec (\<lambda>xs. xs @ [JObj row])\<rparr>"

lemma section_update_twice: "section_update (section_update ss k f) k g = section_update ss k (\<lambda>xs. g (f xs))"
  by (induction ss k f rule: section_update.induct) auto

lemma set_row_in_row: "(set_row (in_row st sec row p) sec row')\<lparr>pending_key := q\<rparr> = in_row st sec row' q"
  by (simp add: set_row_def in_row_def section_update_twice)

lemma new_row_in_row: "new_row st sec row = in_row st sec row None"
  by (simp add: new_row_def in_row_def)

lemma in_row_simps [simp]:
  "current_section (in_row st sec row p) = current_section st"
  "current_row (in_row st sec row p) = Some row"
  "pending_key (in_row st sec row p) = p"
  by (simp_all add: in_row_def)

definition reads :: "parser \<Rightarrow> string list \<Rightarrow> parser \<Rightarrow> bool" where
  "reads st ls st' \<longleftrightarrow> (\<forall>n. foldE parse_line st (zip [n..<n + length ls] ls) = Inr st')"

lemma reads_Nil [simp]: "reads st [] st' \<longleftrightarrow> st' = st"
  by (auto simp: reads_def)

lemma reads_Cons: "(\<And>n. parse_line st (n, l) = Inr st1) \<Longrightarrow> reads st1 ls st' \<Longrightarrow> reads st (l # ls) st'"
  by (auto simp: reads_def upt_conv_Cons simp flip: add_Suc)

lemma foldE_append: "foldE f s (xs @ ys) = bindE (foldE f s xs) (\<lambda>s'. foldE f s' ys)"
  by (induction xs arbitrary: s) (auto simp: bindE_def split: sum.splits)

lemma number_append:
  "zip [n..<n + length (xs @ ys)] (xs @ ys) =
     zip [n..<n + length xs] xs @ zip [n + length xs..<n + length xs + length ys] ys"
proof -
  have "[n..<n + length (xs @ ys)] = [n..<n + length xs] @ [n + length xs..<n + length xs + length ys]"
    using upt_add_eq_append [of n "n + length xs" "length ys"] by (simp add: add.assoc)
  then show ?thesis by simp
qed

lemma reads_append: "reads st ls st1 \<Longrightarrow> reads st1 ls' st' \<Longrightarrow> reads st (ls @ ls') st'"
  unfolding reads_def number_append foldE_append by simp

lemma read_row_start:
  assumes "current_section st = Some sec" "sec \<in> row_sections" "plain_key k" "printable_scalar v"
  shows "parse_line st (n, spaces 2 @ ''- '' @ field_text k v) = Inr (in_row st sec [(k, v)] None)"
proof -
  note b = field_body [OF assms(3,4)]
  have "strip (drop 2 (''- '' @ field_text k v)) = field_text k v" "field_text k v \<noteq> []"
    using body_strip [OF b(1)] b(1) by (simp_all add: body_def)
  then show ?thesis
    using assms(1,2) line_of_body [OF b(2), of 2]
    by (auto simp: parse_line_def Let_def is_item_def starts_with_def row_sections_def parse_field [OF assms(3,4)]
        print_scalar_parse [OF assms(4)] new_row_in_row)
qed

lemma read_field:
  assumes "current_section st = Some sec" "sec \<in> row_sections" "plain_key k" "printable_scalar v" "k \<notin> set (dict_keys row)"
  shows "parse_line (in_row st sec row p) (n, spaces 4 @ field_text k v) = Inr (in_row st sec (row @ [(k, v)]) None)"
proof -
  note b = field_body [OF assms(3,4)]
  have "print_scalar v \<noteq> []" using print_scalar_body [OF assms(4)] by (simp add: body_def)
  moreover have "field_text k v \<noteq> []" using b(1) by (simp add: body_def)
  ultimately show ?thesis
    using assms(1,2) line_of_body [OF b(1), of 4]
    by (auto simp: parse_line_def Let_def row_sections_def parse_field [OF assms(3,4)]
        print_scalar_parse [OF assms(4)] set_row_in_row dict_set_fresh [OF assms(5)])
qed

lemma read_list_head:
  assumes "current_section st = Some sec" "sec \<in> row_sections" "plain_key k" "k \<notin> set (dict_keys row)"
  shows "parse_line (in_row st sec row p) (n, spaces 4 @ k @ '':'') = Inr (in_row st sec (row @ [(k, JArr [])]) (Some k))"
  using assms(1,2) line_of_body [OF field_body(3) [OF assms(3), of JNull], of 4]
  by (auto simp: parse_line_def Let_def row_sections_def parse_list_head [OF assms(3)] set_row_in_row
      dict_set_fresh [OF assms(4)])

lemma dict_set_last: "k \<notin> set (dict_keys row) \<Longrightarrow> dict_set (row @ [(k, v)]) k w = row @ [(k, w)]"
  by (induction row) (auto simp: dict_keys_def)

lemma dict_get_last: "k \<notin> set (dict_keys row) \<Longrightarrow> dict_get (row @ [(k, v)]) k = v"
  by (force simp: dict_get_def dict_keys_def map_add_def dest: map_of_SomeD split: option.splits)

lemma read_item:
  assumes "current_section st = Some sec" "sec \<in> row_sections" "plain_key k" "k \<notin> set (dict_keys row)" "printable_scalar v"
  shows "parse_line (in_row st sec (row @ [(k, JArr xs)]) (Some k)) (n, spaces 6 @ item_text v) =
    Inr (in_row st sec (row @ [(k, JArr (xs @ [v]))]) (Some k))"
proof -
  note b = item_body [OF assms(5)]
  have item: "strip (drop 2 (item_text v)) = print_scalar v" "is_item (item_text v)" "item_text v \<noteq> []"
    using body_strip [OF print_scalar_body [OF assms(5)]] by (simp_all add: item_text_def is_item_def starts_with_def)
  have same: "set_row (in_row st sec r (Some k)) sec r' = in_row st sec r' (Some k)" for r r'
    by (simp add: set_row_def in_row_def section_update_twice)
  show ?thesis
    using assms(1,2) plain_keyD(1) [OF assms(3)] line_of_body [OF b, of 6] item
    by (auto simp: parse_line_def Let_def row_sections_def same append_item_def dict_set_last [OF assms(4)]
        dict_get_last [OF assms(4)] print_scalar_parse [OF assms(5)])
qed

lemma read_items:
  assumes "current_section st = Some sec" "sec \<in> row_sections" "plain_key k" "k \<notin> set (dict_keys row)"
  shows "list_all printable_scalar ys \<Longrightarrow> reads (in_row st sec (row @ [(k, JArr xs)]) (Some k))
    (map (\<lambda>x. spaces 6 @ item_text x) ys) (in_row st sec (row @ [(k, JArr (xs @ ys))]) (Some k))"
proof (induction ys arbitrary: xs)
  case (Cons y ys)
  then show ?case
    using Cons.IH [of "xs @ [y]"] by (auto intro!: reads_Cons read_item [OF assms])
qed simp

lemma read_print_field:
  assumes "current_section st = Some sec" "sec \<in> row_sections" "plain_key k" "k \<notin> set (dict_keys row)" "printable_field v"
  shows "\<exists>q. reads (in_row st sec row p) (print_field (k, v)) (in_row st sec (row @ [(k, v)]) q)"
proof (cases "\<exists>xs. v = JArr xs")
  case True
  then obtain xs where v: "v = JArr xs" by blast
  then show ?thesis
    using assms(5) read_items [OF assms(1-4), of xs "[]"] read_list_head [OF assms(1-4)]
    by (auto intro!: exI [of _ "Some k"] reads_Cons)
next
  case False
  then have "print_field (k, v) = [spaces 4 @ field_text k v]" "printable_scalar v"
    using assms(5) by (cases v; auto)+
  then show ?thesis
    using read_field [OF assms(1-3) _ assms(4)] by (auto intro!: exI [of _ None] reads_Cons)
qed

lemma read_fields:
  assumes "current_section st = Some sec" "sec \<in> row_sections"
  shows "list_all plain_key (map fst fs) \<Longrightarrow> list_all printable_field (map snd fs) \<Longrightarrow> distinct (map fst (row @ fs)) \<Longrightarrow>
    \<exists>q. reads (in_row st sec row p) (concat (map print_field fs)) (in_row st sec (row @ fs) q)"
proof (induction fs arbitrary: row p)
  case (Cons kv fs)
  obtain k v where kv: "kv = (k, v)" by fastforce
  have k: "plain_key k" "printable_field v" "k \<notin> set (dict_keys row)"
    using Cons.prems by (auto simp: kv dict_keys_def)
  obtain q where "reads (in_row st sec row p) (print_field (k, v)) (in_row st sec (row @ [(k, v)]) q)"
    using read_print_field [OF assms k(1,3,2)] by blast
  moreover have "\<exists>q'. reads (in_row st sec (row @ [(k, v)]) q) (concat (map print_field fs)) (in_row st sec ((row @ [(k, v)]) @ fs) q')"
    by (rule Cons.IH) (use Cons.prems kv in auto)
  ultimately show ?case using reads_append by (fastforce simp: kv)
qed auto

lemma read_row:
  assumes "current_section st = Some sec" "sec \<in> row_sections" "printable_row row"
  shows "\<exists>q. reads st (print_row row) (in_row st sec row q)"
proof -
  obtain k v fs where row: "row = (k, v) # fs" using assms(3) by (cases row rule: print_row.cases) auto
  then obtain q where "reads (in_row st sec [(k, v)] None) (concat (map print_field fs)) (in_row st sec ([(k, v)] @ fs) q)"
    using assms read_fields [OF assms(1,2), of fs "[(k, v)]" None] by auto
  then have "reads st (print_row row) (in_row st sec row q)"
    using assms(3) unfolding row print_row.simps
    by (intro reads_Cons [OF read_row_start [OF assms(1,2)]]) auto
  then show ?thesis ..
qed

section \<open>Sections and the whole text\<close>

text \<open>The state after some rows of a section; the current row and the pending key do not matter.\<close>

definition same_sections :: "parser \<Rightarrow> string \<Rightarrow> (string \<times> json list) list \<Rightarrow> bool" where
  "same_sections st sec ss \<longleftrightarrow> current_section st = Some sec \<and> sections st = ss"

lemma read_rows:
  assumes "sec \<in> row_sections"
  shows "list_all printable_row rows \<Longrightarrow> current_section st = Some sec \<Longrightarrow>
    \<exists>st'. reads st (concat (map print_row rows)) st' \<and>
      same_sections st' sec (if rows = [] then sections st else section_update (sections st) sec (\<lambda>xs. xs @ map JObj rows))"
proof (induction rows arbitrary: st)
  case (Cons row rows)
  obtain q where row: "reads st (print_row row) (in_row st sec row q)"
    using read_row [OF Cons.prems(2) assms] Cons.prems(1) by auto
  obtain st' where "reads (in_row st sec row q) (concat (map print_row rows)) st'"
      "same_sections st' sec (if rows = [] then sections (in_row st sec row q)
         else section_update (sections (in_row st sec row q)) sec (\<lambda>xs. xs @ map JObj rows))"
    using Cons.IH [of "in_row st sec row q"] Cons.prems by auto
  moreover have "sections (in_row st sec row q) = section_update (sections st) sec (\<lambda>xs. xs @ [JObj row])"
    by (simp add: in_row_def)
  ultimately show ?case
    using row reads_append [OF row] by (auto simp: section_update_twice split: if_splits)
qed (auto simp: same_sections_def)

lemma read_scans:
  assumes "current_section st = Some ''security_scans''"
  shows "list_all printable_scalar vs \<Longrightarrow> reads st (map (\<lambda>v. spaces 2 @ item_text v) vs)
    (if vs = [] then st else st\<lparr>sections := section_update (sections st) ''security_scans'' (\<lambda>xs. xs @ vs)\<rparr>)"
  using assms
proof (induction vs arbitrary: st)
  case (Cons v vs)
  let ?st = "st\<lparr>sections := section_update (sections st) ''security_scans'' (\<lambda>xs. xs @ [v])\<rparr>"
  have v: "printable_scalar v" using Cons.prems by simp
  have item: "strip (drop 2 (item_text v)) = print_scalar v" "is_item (item_text v)" "item_text v \<noteq> []"
    using body_strip [OF print_scalar_body [OF v]] by (simp_all add: item_text_def is_item_def starts_with_def)
  have "parse_line st (n, spaces 2 @ item_text v) = Inr ?st" for n
    using Cons.prems(2) line_of_body [OF item_body [OF v], of 2] item
    by (auto simp: parse_line_def Let_def print_scalar_parse [OF v])
  moreover have "reads ?st (map (\<lambda>v. spaces 2 @ item_text v) vs)
      (if vs = [] then ?st else ?st\<lparr>sections := section_update (sections ?st) ''security_scans'' (\<lambda>xs. xs @ vs)\<rparr>)"
    using Cons.prems by (intro Cons.IH) auto
  ultimately show ?case by (auto simp: section_update_twice intro!: reads_Cons split: if_splits)
qed simp

lemma read_section:
  assumes "body (sec @ '':'')"
  shows "parse_line st (n, sec @ '':'') = Inr (st\<lparr>current_section := Some sec, current_row := None, pending_key := None,
     sections := section_update (sections st) sec (\<lambda>xs. xs)\<rparr>)"
  using line_of_body [OF assms, of 0] by (auto simp: parse_line_def Let_def spaces_def ends_with_iff)

lemma section_bodies: "body (''defconfigs'' @ '':'')" "body (''variants'' @ '':'')" "body (''security_scans'' @ '':'')"
  by (simp_all add: body_def is_space_def code_def)

definition matrix_object :: "obj list \<Rightarrow> obj list \<Rightarrow> json list \<Rightarrow> obj" where
  "matrix_object ds vs ss = [(''defconfigs'', JArr (map JObj ds)), (''variants'', JArr (map JObj vs)),
     (''security_scans'', JArr ss)]"

definition matrix_lines :: "obj list \<Rightarrow> obj list \<Rightarrow> json list \<Rightarrow> string list" where
  "matrix_lines ds vs ss = ''defconfigs:'' # concat (map print_row ds) @ ''variants:'' # concat (map print_row vs)
      @ ''security_scans:'' # map (\<lambda>v. spaces 2 @ item_text v) ss"

lemma read_lines:
  assumes "list_all printable_row ds" "list_all printable_row vs" "list_all printable_scalar ss"
  shows "\<exists>st. reads initial_parser (matrix_lines ds vs ss) st \<and>
    sections st = [(''defconfigs'', map JObj ds), (''variants'', map JObj vs), (''security_scans'', ss)]"
proof -
  define opened where "opened st sec = st\<lparr>current_section := Some sec, current_row := None, pending_key := None,
     sections := section_update (sections st) sec (\<lambda>xs. xs)\<rparr>" for st :: parser and sec
  have sec: "parse_line st (n, ''defconfigs:'') = Inr (opened st ''defconfigs'')"
      "parse_line st (n, ''variants:'') = Inr (opened st ''variants'')"
      "parse_line st (n, ''security_scans:'') = Inr (opened st ''security_scans'')" for st n
    using section_bodies [THEN read_section, of st n] by (simp_all add: opened_def)
  obtain st1 where st1: "reads (opened initial_parser ''defconfigs'') (concat (map print_row ds)) st1"
      "sections st1 = [(''defconfigs'', map JObj ds), (''variants'', []), (''security_scans'', [])]"
    using read_rows [OF _ assms(1), of "''defconfigs''" "opened initial_parser ''defconfigs''"]
    by (auto simp: row_sections_def opened_def initial_parser_def same_sections_def split: if_splits)
  obtain st2 where st2: "reads (opened st1 ''variants'') (concat (map print_row vs)) st2"
      "sections st2 = [(''defconfigs'', map JObj ds), (''variants'', map JObj vs), (''security_scans'', [])]"
    using read_rows [OF _ assms(2), of "''variants''" "opened st1 ''variants''"] st1(2)
    by (auto simp: row_sections_def opened_def same_sections_def split: if_splits)
  obtain st3 where st3: "reads (opened st2 ''security_scans'') (map (\<lambda>v. spaces 2 @ item_text v) ss) st3"
      "sections st3 = [(''defconfigs'', map JObj ds), (''variants'', map JObj vs), (''security_scans'', ss)]"
    using read_scans [OF _ assms(3), of "opened st2 ''security_scans''"] st2(2)
    by (auto simp: opened_def split: if_splits)
  have "reads initial_parser (matrix_lines ds vs ss) st3"
    unfolding matrix_lines_def append_Cons [symmetric] append_assoc [symmetric]
    by (rule reads_Cons [OF sec(1)] reads_append [OF st1(1)] reads_append [OF st2(1)] reads_Cons [OF sec(2)] reads_Cons [OF sec(3)] st3(1)
       | simp only: append_Cons append_assoc)+
  with st3(2) show ?thesis by blast
qed

definition one_line :: "string \<Rightarrow> bool" where
  "one_line s \<longleftrightarrow> (\<forall>c\<in>set s. \<not> is_newline c)"

lemma splitlines_line:
  "one_line l \<Longrightarrow> splitlines_from False cur (l @ CHR 0x0A # s) = (rev cur @ l) # splitlines_from False [] s"
  by (induction l arbitrary: cur) (auto simp: one_line_def is_newline_def Let_def code_def)

lemma splitlines_lines:
  "list_all one_line ls \<Longrightarrow> splitlines (concat (map (\<lambda>l. l @ [CHR 0x0A]) ls)) = ls"
  unfolding splitlines_def by (induction ls) (auto simp: splitlines_line)

lemma one_line_simps [simp]:
  "one_line (a @ b) \<longleftrightarrow> one_line a \<and> one_line b"
  "one_line (c # a) \<longleftrightarrow> \<not> is_newline c \<and> one_line a"
  "one_line []"
  "one_line (spaces n)"
  by (auto simp: one_line_def spaces_def is_newline_def Let_def code_def)

lemma one_line_scalar: "printable_scalar v \<Longrightarrow> one_line (print_scalar v)"
  using nat_str_chars digit_props
  by (cases v) (auto simp: one_line_def safe_text_def is_newline_def Let_def code_def dquote_def)

lemma one_line_key: "plain_key k \<Longrightarrow> one_line k"
  by (simp add: plain_key_def one_line_def)

lemma one_line_punctuation: "\<not> is_newline (CHR '':'')" "\<not> is_newline (CHR '' '')" "\<not> is_newline (CHR ''-'')"
  by (simp_all add: is_newline_def Let_def code_def)

lemma one_line_texts:
  assumes "printable_scalar v"
  shows "one_line (item_text v)" "plain_key k \<Longrightarrow> one_line (field_text k v)"
  using one_line_scalar [OF assms] one_line_key [of k]
  by (simp_all add: item_text_def field_text_def one_line_punctuation)

lemma one_line_field:
  assumes "plain_key k" "printable_field v"
  shows "list_all one_line (print_field (k, v))"
proof (cases "\<exists>xs. v = JArr xs")
  case True
  then show ?thesis
    using assms one_line_texts(1) one_line_key by (auto simp: list_all_iff one_line_punctuation)
next
  case False
  then have "print_field (k, v) = [spaces 4 @ field_text k v]" "printable_scalar v"
    using assms(2) by (cases v; auto)+
  then show ?thesis using one_line_texts(2) assms(1) by simp
qed

lemma one_line_row: "printable_row row \<Longrightarrow> list_all one_line (print_row row)"
proof (cases row rule: print_row.cases)
  case (2 k v fs)
  moreover have "list_all one_line (concat (map print_field fs))"
    if "list_all plain_key (map fst fs)" "list_all printable_field (map snd fs)" for fs
    using that one_line_field by (induction fs) auto
  moreover assume "printable_row row"
  ultimately show ?thesis using one_line_texts(2) [of v k] by (simp add: one_line_punctuation)
qed simp

lemma one_line_matrix:
  assumes "list_all printable_row ds" "list_all printable_row vs" "list_all printable_scalar ss"
  shows "list_all one_line (matrix_lines ds vs ss)"
proof -
  have rows: "list_all one_line (concat (map print_row rows))" if "list_all printable_row rows" for rows
    using that one_line_row by (induction rows) auto
  have scans: "list_all one_line (map (\<lambda>v. spaces 2 @ item_text v) ss)"
    using assms(3) one_line_texts(1) by (auto simp: list_all_iff)
  show ?thesis
    using rows [OF assms(1)] rows [OF assms(2)] scans
    by (simp add: matrix_lines_def is_newline_def Let_def code_def)
qed

lemma load_printed:
  assumes "list_all printable_row ds" and "list_all printable_row vs" and "list_all printable_scalar ss"
  shows "load_matrix (print_matrix ds vs ss) = Inr (matrix_object ds vs ss)"
proof -
  obtain st where st: "reads initial_parser (matrix_lines ds vs ss) st"
      "sections st = [(''defconfigs'', map JObj ds), (''variants'', map JObj vs), (''security_scans'', ss)]"
    using read_lines [OF assms] by blast
  have "splitlines (print_matrix ds vs ss) = matrix_lines ds vs ss"
    using splitlines_lines [OF one_line_matrix [OF assms]]
    by (simp add: print_matrix_def matrix_lines_def)
  then show ?thesis
    using st(1) [unfolded reads_def, rule_format, of 1]
    by (simp add: load_matrix_def Let_def st(2) matrix_object_def del: upt_Suc)
qed

text \<open>
  C34. Round trip: printing a matrix (rows that start with a scalar field, keys without colons,
  quotes and hashes, strings without double quotes, backslashes and line ends, no negative
  numbers) and reading the text with \<open>load_matrix\<close> gives the matrix back.
\<close>

theorem load_printed_matrix:
  assumes "list_all printable_row ds" and "list_all printable_row vs" and "list_all printable_scalar ss"
  shows "load_matrix (print_matrix ds vs ss) = Inr (matrix_object ds vs ss)"
  using assms by (rule load_printed)

theorem load_printed_matrix_witness:
  "load_matrix (print_matrix [[(''name'', JStr ''x86_64: #1''), (''release'', JBool True), (''outs'', JArr [JStr ''a.img''])]]
     [] [JStr ''trivy'']) =
   Inr (matrix_object [[(''name'', JStr ''x86_64: #1''), (''release'', JBool True), (''outs'', JArr [JStr ''a.img''])]]
     [] [JStr ''trivy''])"
  by (rule load_printed_matrix) code_simp+

end
