(* ===== verification/MatrixProps.thy ===== *)
theory MatrixProps
  imports MatrixRelease MatrixRoundtrip
begin

text \<open>
  What a build matrix that passes \<open>validate\<close> guarantees, row by row; the selectors and the matrix
  given to GitHub Actions; the readiness gates; the completeness of a release directory.
\<close>

section \<open>A validated matrix\<close>

definition complete_row :: "obj \<Rightarrow> bool" where
  "complete_row row \<longleftrightarrow> set TARGET_FIELDS \<subseteq> set (dict_keys row)"

lemma check_rows_nil:
  "check_rows strict repo by_name names targets rows = Inr [] \<longleftrightarrow>
     (\<forall>row\<in>set rows. complete_row row \<and> check_row strict repo by_name row = Inr []) \<and>
     distinct (map row_defconfig rows) \<and> distinct (map (\<lambda>row. row_text row ''target'') rows) \<and>
     row_defconfig ` set rows \<inter> set names = {} \<and> (\<lambda>row. row_text row ''target'') ` set rows \<inter> set targets = {}"
proof (induction rows arbitrary: names targets)
  case (Cons row rows)
  show ?case
  proof (cases "complete_row row")
    case True
    then have "check_rows strict repo by_name names targets (row # rows) = Inr [] \<longleftrightarrow>
        row_defconfig row \<notin> set names \<and> row_text row ''target'' \<notin> set targets \<and>
        check_row strict repo by_name row = Inr [] \<and>
        check_rows strict repo by_name (row_defconfig row # names) (row_text row ''target'' # targets) rows = Inr []"
      by (auto simp: complete_row_def Let_def collectE_nil simp del: collectE.simps)
    then show ?thesis unfolding Cons.IH using True by auto
  next
    case False
    then show ?thesis by (auto simp: complete_row_def Let_def bindE_ok)
  qed
qed simp

lemma from_parser_ok: "from_parser r = Inr x \<longleftrightarrow> r = Inr x"
  by (cases r) (auto simp: from_parser_def)

lemma from_contract_ok: "from_contract r = Inr x \<longleftrightarrow> r = Inr x"
  by (cases r) (auto simp: from_contract_def)

lemma validated:
  assumes "validate_matrix strict repo contract content = Inr 0"
  obtains m where "load_matrix content = Inr m" "validate_matrix_join m contract = Inr []"
    "distinct (map row_defconfig (matrix_defconfigs m))"
    "distinct (map (\<lambda>row. row_text row ''target'') (matrix_defconfigs m))"
    "\<forall>row\<in>set (matrix_defconfigs m). complete_row row \<and>
       check_row strict repo (targets_by_name (matrix_defconfigs m)) row = Inr []"
proof -
  obtain m where m: "load_matrix content = Inr m" "validate_errors strict repo contract m = Inr []"
    using assms by (auto simp: validate_matrix_def bindE_ok from_parser_ok split: if_splits)
  then have "check_rows strict repo (targets_by_name (matrix_defconfigs m)) [] [] (matrix_defconfigs m) = Inr []"
      and join: "validate_matrix_join m contract = Inr []"
    by (auto simp: validate_errors_def Let_def collectE_nil bindE_ok from_contract_ok simp del: collectE.simps)
  with m(1) show thesis by (intro that) (auto simp: check_rows_nil)
qed

lemma check_row_nil:
  "check_row strict repo by_name row = Inr [] \<longleftrightarrow> (let name = row_defconfig row in
     check_platform name row = Inr [] \<and> check_artifact_contract name row = [] \<and> check_bool_fields name row = [] \<and>
     check_timeouts name row = [] \<and> check_resources name row = [] \<and> check_prebuilds name by_name row = [] \<and>
     (\<exists>config. repo (config_path name) = Some config \<and> check_genimage name repo row = [] \<and>
        check_config name row config = [] \<and> check_release_rules name strict row config = [] \<and>
        check_production_ready name row config = Inr []))"
  by (auto simp: check_row_def Let_def collectE_nil simp del: collectE.simps split: option.splits)

lemma find_some: "find P xs = Some x \<Longrightarrow> x \<in> set xs \<and> P x"
  by (induction xs) (auto split: if_splits)

lemma targets_by_name_some:
  assumes "distinct (map row_defconfig rows)"
  shows "targets_by_name rows n = Some row \<longleftrightarrow> n \<noteq> [] \<and> row \<in> set rows \<and> row_defconfig row = n"
proof
  assume "targets_by_name rows n = Some row"
  then show "n \<noteq> [] \<and> row \<in> set rows \<and> row_defconfig row = n"
    by (auto simp: targets_by_name_def dest: find_some split: if_splits)
next
  assume r: "n \<noteq> [] \<and> row \<in> set rows \<and> row_defconfig row = n"
  then obtain row' where row': "find (\<lambda>r. row_defconfig r = n) (rev rows) = Some row'"
    by (cases "find (\<lambda>r. row_defconfig r = n) (rev rows)") (auto simp: find_None_iff)
  then have "row' \<in> set rows \<and> row_defconfig row' = n" by (auto dest: find_some)
  with r assms have "row' = row" by (auto simp: distinct_map dest: inj_onD)
  with row' r show "targets_by_name rows n = Some row" by (simp add: targets_by_name_def)
qed

section \<open>The fields of a row\<close>

lemma map_JStr_eq [simp]: "map JStr as = map JStr bs \<longleftrightarrow> as = bs"
  by (rule inj_map_eq_map) (simp add: inj_def)

lemma check_artifact_contract_nil:
  "check_artifact_contract name row = [] \<longleftrightarrow> (\<exists>as. dict_get row ''expected_artifacts'' = JArr (map JStr as) \<and>
     as \<noteq> [] \<and> (\<forall>a\<in>set as. safe_artifact a) \<and> (\<exists>a\<in>set as. dict_get row ''artifact'' = JStr a))"
proof (cases "dict_get row ''expected_artifacts''")
  case (JArr vs)
  have texts: "(\<forall>v\<in>set vs. is_str v \<and> safe_artifact (text_of v)) \<longleftrightarrow>
      (\<exists>as. vs = map JStr as \<and> (\<forall>a\<in>set as. safe_artifact a))"
  proof
    assume v: "\<forall>v\<in>set vs. is_str v \<and> safe_artifact (text_of v)"
    then have "vs = map JStr (map text_of vs)" by (auto simp: is_str_iff intro!: map_idI [symmetric])
    with v show "\<exists>as. vs = map JStr as \<and> (\<forall>a\<in>set as. safe_artifact a)" by (metis (no_types, lifting) in_set_conv_nth length_map nth_map)
  qed auto
  have "check_artifact_contract name row = [] \<longleftrightarrow> vs \<noteq> [] \<and>
      list_ex (py_eq (dict_get row ''artifact'')) vs \<and> (\<forall>v\<in>set vs. is_str v \<and> safe_artifact (text_of v))"
    by (auto simp: check_artifact_contract_def JArr Let_def no_report)
  then show ?thesis unfolding texts JArr by (auto simp: list_ex_iff dest: sym)
qed (auto simp: check_artifact_contract_def)

lemma check_range_nil: "check_range name row f lo hi = [] \<longleftrightarrow>
    is_int (dict_get row f) \<and> lo \<le> int_of (dict_get row f) \<and> int_of (dict_get row f) \<le> hi"
  by (auto simp: check_range_def Let_def)

lemma check_platform_nil:
  "check_platform name row = Inr [] \<longleftrightarrow> dict_get row ''arch'' \<in> JStr ` set VALID_ARCHES \<and>
     dict_get row ''partition_table'' \<in> JStr ` set VALID_TABLES"
  by (auto simp: check_platform_def bindE_ok in_str_set_ok is_str_iff)

abbreviation num :: "obj \<Rightarrow> string \<Rightarrow> int" where
  "num row f \<equiv> int_of (dict_get row f)"

definition numbers_in_range :: "obj \<Rightarrow> bool" where
  "numbers_in_range row \<longleftrightarrow>
     (\<forall>(f, lo, hi)\<in>{(''timeout_minutes'', 30, 360), (''build_step_timeout_minutes'', 30, 350), (''min_disk_gib'', 20, 200),
        (''min_mem_gib'', 2, 64), (''min_vcpu'', 1, 128), (''build_jlevel'', 1, 128)}.
        is_int (dict_get row f) \<and> lo \<le> num row f \<and> num row f \<le> hi) \<and>
     num row ''build_step_timeout_minutes'' + 10 \<le> num row ''timeout_minutes'' \<and>
     num row ''build_jlevel'' \<le> num row ''min_vcpu'' \<and>
     4 \<le> num row ''min_mem_gib'' \<and> num row ''build_jlevel'' + 2 \<le> num row ''min_mem_gib''"

lemma numbers_checked:
  assumes "check_timeouts n row = []" and "check_resources n row = []"
  shows "numbers_in_range row"
proof -
  note parts = assms [unfolded check_timeouts_def check_resources_def Let_def append_is_Nil_conv check_range_nil report_empty]
  show ?thesis
    unfolding numbers_in_range_def using parts by simp (auto simp: not_less max_def split: if_splits)
qed

text \<open>
  C28. In a matrix that \<open>validate\<close> accepts, the defconfig names and the target ids are distinct,
  and every row has all fields, a supported architecture and partition table, safe artifact
  names that include the row's own; its two timeouts, its disk, memory and processors and its
  number of jobs are integers in their ranges, with ten minutes after the build step for uploading
  logs and build parallelism that its processors and memory carry.
\<close>

theorem validated_rows_sound:
  assumes "validate_matrix strict repo contract content = Inr 0"
  shows "\<exists>m. load_matrix content = Inr m \<and> validate_matrix_join m contract = Inr [] \<and>
    distinct (map row_defconfig (matrix_defconfigs m)) \<and>
    distinct (map (\<lambda>row. row_text row ''target'') (matrix_defconfigs m)) \<and>
    (\<forall>row\<in>set (matrix_defconfigs m).
       set TARGET_FIELDS \<subseteq> set (dict_keys row) \<and>
       dict_get row ''arch'' \<in> {JStr ''x86_64'', JStr ''aarch64''} \<and>
       dict_get row ''partition_table'' \<in> {JStr ''gpt'', JStr ''mbr''} \<and>
       (\<exists>as. dict_get row ''expected_artifacts'' = JArr (map JStr as) \<and> (\<forall>a\<in>set as. safe_artifact a) \<and>
          (\<exists>a\<in>set as. dict_get row ''artifact'' = JStr a)) \<and>
       numbers_in_range row)"
proof -
  obtain m where m: "load_matrix content = Inr m" "validate_matrix_join m contract = Inr []"
    "distinct (map row_defconfig (matrix_defconfigs m))"
    "distinct (map (\<lambda>row. row_text row ''target'') (matrix_defconfigs m))"
    "\<forall>row\<in>set (matrix_defconfigs m). complete_row row \<and>
       check_row strict repo (targets_by_name (matrix_defconfigs m)) row = Inr []"
    by (rule validated [OF assms])
  have row: "set TARGET_FIELDS \<subseteq> set (dict_keys row) \<and>
       dict_get row ''arch'' \<in> {JStr ''x86_64'', JStr ''aarch64''} \<and>
       dict_get row ''partition_table'' \<in> {JStr ''gpt'', JStr ''mbr''} \<and>
       (\<exists>as. dict_get row ''expected_artifacts'' = JArr (map JStr as) \<and> (\<forall>a\<in>set as. safe_artifact a) \<and>
          (\<exists>a\<in>set as. dict_get row ''artifact'' = JStr a)) \<and>
       numbers_in_range row"
    if "row \<in> set (matrix_defconfigs m)" for row
  proof -
    have "complete_row row" "check_platform (row_defconfig row) row = Inr []"
        "check_artifact_contract (row_defconfig row) row = []" "check_timeouts (row_defconfig row) row = []"
        "check_resources (row_defconfig row) row = []"
      using m(5) that by (auto simp: check_row_nil Let_def)
    then show ?thesis
      unfolding complete_row_def check_platform_nil check_artifact_contract_nil
      using numbers_checked by (auto simp: VALID_ARCHES_def VALID_TABLES_def)
  qed
  show ?thesis using m(1-4) row by blast
qed

section \<open>Release gates of a row\<close>

lemma py_eq_int: "py_eq (JInt a) v \<Longrightarrow> is_int v \<Longrightarrow> int_of v = a"
  by (cases v) (auto split: if_splits)

lemma check_export_nil:
  "check_export name by_name prebuilds e = [] \<longleftrightarrow> (\<exists>prebuild artifact. parse_export e = Some (prebuild, artifact) \<and>
     prebuild \<in> set prebuilds \<and> (\<forall>row. by_name prebuild = Some row \<and> row \<noteq> [] \<longrightarrow> artifact \<in> set (expected_artifacts row)))"
  by (auto simp: check_export_def split: option.splits)

lemma check_prebuilds_nil:
  "check_prebuilds name by_name row = [] \<longleftrightarrow> (\<exists>prebuilds exports. row_lists row = Inr (prebuilds, exports) \<and>
     (\<forall>p\<in>set prebuilds. p \<noteq> name \<and> by_name p \<noteq> None) \<and> (\<forall>e\<in>set exports. check_export name by_name prebuilds e = []))"
  by (cases "row_lists row") (auto simp: check_prebuilds_def no_report)

text \<open>
  C29. In a matrix that \<open>validate\<close> accepts, every row names only other rows as prebuilds and
  exports only artifacts that these rows produce; its defconfig and genimage files exist, the
  defconfig selects exactly one variant, caches, and builds with the row's parallelism; what is
  released is a release source and is built as an image; a required target that is not ready
  states its blocker; and a ready one is a production variant with real signing.
\<close>

theorem validated_release_gates:
  assumes "validate_matrix strict repo contract content = Inr 0"
  shows "\<exists>m. load_matrix content = Inr m \<and> (\<forall>row\<in>set (matrix_defconfigs m). \<exists>config genimage prebuilds exports.
    repo (config_path (row_defconfig row)) = Some config \<and>
    repo (path_of (py_str (dict_get row ''genimage''))) = Some genimage \<and> genimage_label_errors genimage = [] \<and>
    row_lists row = Inr (prebuilds, exports) \<and>
    (\<forall>p\<in>set prebuilds. p \<noteq> row_defconfig row \<and> p \<in> row_defconfig ` set (matrix_defconfigs m)) \<and>
    (\<forall>e\<in>set exports. \<exists>p a. parse_export e = Some (p, a) \<and> p \<in> set prebuilds \<and>
       (\<forall>r\<in>set (matrix_defconfigs m). row_defconfig r = p \<and> r \<noteq> [] \<longrightarrow> a \<in> set (expected_artifacts r))) \<and>
    has_prod_variant config \<noteq> has_dev_variant config \<and> contains config ''BR2_CCACHE=y'' \<and>
    (\<exists>d. jlevel_setting config = Some d \<and> num row ''build_jlevel'' = int (digits_val d)) \<and>
    (truthy (dict_get row ''release'') \<longrightarrow> truthy (dict_get row ''release_source'') \<and> truthy (dict_get row ''image_build'')) \<and>
    (truthy (dict_get row ''payload_base_required'') \<longrightarrow> prebuilds \<noteq> []) \<and>
    (truthy (dict_get row ''production_required'') \<and> \<not> truthy (dict_get row ''production_ready'') \<longrightarrow>
       truthy (dict_get row ''blocker'')) \<and>
    (strict \<and> truthy (dict_get row ''production_required'') \<longrightarrow> has_prod_variant config) \<and>
    (truthy (dict_get row ''production_ready'') \<longrightarrow> has_prod_variant config \<and>
       py_str (dict_get row ''signing'') \<notin> {''unsigned-lab'', ''unsupported'', ''production-required''}))"
proof -
  obtain m where m: "load_matrix content = Inr m" "distinct (map row_defconfig (matrix_defconfigs m))"
    "\<forall>row\<in>set (matrix_defconfigs m). complete_row row \<and>
       check_row strict repo (targets_by_name (matrix_defconfigs m)) row = Inr []"
    by (rule validated [OF assms])
  let ?rows = "matrix_defconfigs m"
  note by_name = targets_by_name_some [OF m(2)]
  have known: "p \<in> row_defconfig ` set ?rows" if "targets_by_name ?rows p \<noteq> None" for p
    using that by_name by auto
  have gates: "\<exists>config genimage prebuilds exports.
    repo (config_path (row_defconfig row)) = Some config \<and>
    repo (path_of (py_str (dict_get row ''genimage''))) = Some genimage \<and> genimage_label_errors genimage = [] \<and>
    row_lists row = Inr (prebuilds, exports) \<and>
    (\<forall>p\<in>set prebuilds. p \<noteq> row_defconfig row \<and> p \<in> row_defconfig ` set ?rows) \<and>
    (\<forall>e\<in>set exports. \<exists>p a. parse_export e = Some (p, a) \<and> p \<in> set prebuilds \<and>
       (\<forall>r\<in>set ?rows. row_defconfig r = p \<and> r \<noteq> [] \<longrightarrow> a \<in> set (expected_artifacts r))) \<and>
    has_prod_variant config \<noteq> has_dev_variant config \<and> contains config ''BR2_CCACHE=y'' \<and>
    (\<exists>d. jlevel_setting config = Some d \<and> num row ''build_jlevel'' = int (digits_val d)) \<and>
    (truthy (dict_get row ''release'') \<longrightarrow> truthy (dict_get row ''release_source'') \<and> truthy (dict_get row ''image_build'')) \<and>
    (truthy (dict_get row ''payload_base_required'') \<longrightarrow> prebuilds \<noteq> []) \<and>
    (truthy (dict_get row ''production_required'') \<and> \<not> truthy (dict_get row ''production_ready'') \<longrightarrow>
       truthy (dict_get row ''blocker'')) \<and>
    (strict \<and> truthy (dict_get row ''production_required'') \<longrightarrow> has_prod_variant config) \<and>
    (truthy (dict_get row ''production_ready'') \<longrightarrow> has_prod_variant config \<and>
       py_str (dict_get row ''signing'') \<notin> {''unsigned-lab'', ''unsupported'', ''production-required''})"
    if row: "row \<in> set ?rows" for row
  proof -
    let ?name = "row_defconfig row"
    obtain config where checks: "check_resources ?name row = []" "check_prebuilds ?name (targets_by_name ?rows) row = []"
        "repo (config_path ?name) = Some config" "check_genimage ?name repo row = []" "check_config ?name row config = []"
        "check_release_rules ?name strict row config = []" "check_production_ready ?name row config = Inr []"
      using m(3) row by (auto simp: check_row_nil Let_def)
    obtain genimage where genimage: "repo (path_of (py_str (dict_get row ''genimage''))) = Some genimage"
        "genimage_label_errors genimage = []"
      using checks(4) by (auto simp: check_genimage_def Let_def split: option.splits)
    obtain prebuilds exports where lists: "row_lists row = Inr (prebuilds, exports)"
        "\<forall>p\<in>set prebuilds. p \<noteq> ?name \<and> targets_by_name ?rows p \<noteq> None"
        "\<forall>e\<in>set exports. check_export ?name (targets_by_name ?rows) prebuilds e = []"
      using checks(2) unfolding check_prebuilds_nil by blast
    have exports: "\<exists>p a. parse_export e = Some (p, a) \<and> p \<in> set prebuilds \<and>
        (\<forall>r\<in>set ?rows. row_defconfig r = p \<and> r \<noteq> [] \<longrightarrow> a \<in> set (expected_artifacts r))" if out: "e \<in> set exports" for e
    proof -
      obtain p a where e: "parse_export e = Some (p, a)" "p \<in> set prebuilds"
          "\<forall>r. targets_by_name ?rows p = Some r \<and> r \<noteq> [] \<longrightarrow> a \<in> set (expected_artifacts r)"
        using bspec [OF lists(3) out] unfolding check_export_nil by blast
      have "p \<noteq> []" using lists(2) e(2) by (auto simp: targets_by_name_def)
      with e show ?thesis using by_name by blast
    qed
    obtain d where d: "jlevel_setting config = Some d" "py_eq (JInt (int (digits_val d))) (dict_get row ''build_jlevel'')"
        "contains config ''BR2_CCACHE=y''" "has_dev_variant config \<noteq> has_prod_variant config"
      using checks(5) by (auto simp: check_config_def Let_def split: option.splits)
    have jlevel: "num row ''build_jlevel'' = int (digits_val d)"
      using py_eq_int [OF d(2)] checks(1) by (auto simp: check_resources_def Let_def check_range_nil)
    have ready: "truthy (dict_get row ''production_ready'') \<longrightarrow> has_prod_variant config \<and>
       py_str (dict_get row ''signing'') \<notin> {''unsigned-lab'', ''unsupported'', ''production-required''}"
      using checks(7) by (auto simp: check_production_ready_def Let_def bindE_ok split: if_splits)
    have release: "truthy (dict_get row ''release'') \<longrightarrow> truthy (dict_get row ''release_source'') \<and> truthy (dict_get row ''image_build'')"
        "truthy (dict_get row ''payload_base_required'') \<longrightarrow> prebuilds \<noteq> []"
        "truthy (dict_get row ''production_required'') \<and> \<not> truthy (dict_get row ''production_ready'') \<longrightarrow>
           truthy (dict_get row ''blocker'')"
        "strict \<and> truthy (dict_get row ''production_required'') \<longrightarrow> has_prod_variant config"
      using checks(6) by (auto simp: check_release_rules_def Let_def row_prebuilds_def lists(1))
    have others: "\<forall>p\<in>set prebuilds. p \<noteq> ?name \<and> p \<in> row_defconfig ` set ?rows" using lists(2) known by blast
    have variant: "has_prod_variant config \<noteq> has_dev_variant config" using d(4) by blast
    have jobs: "\<exists>d. jlevel_setting config = Some d \<and> num row ''build_jlevel'' = int (digits_val d)"
      using d(1) jlevel by blast
    show ?thesis
      by (rule exI [of _ config], rule exI [of _ genimage], rule exI [of _ prebuilds], rule exI [of _ exports], intro conjI)
        (rule checks(3) genimage lists(1) others ballI [OF exports] variant d(3) jobs release ready, assumption?)+
  qed
  show ?thesis using m(1) gates by blast
qed

section \<open>A concrete matrix\<close>

definition pc_row :: obj where
  "pc_row = [(''name'', JStr ''pc_defconfig''), (''target'', JStr ''pc''), (''arch'', JStr ''x86_64''),
     (''artifact'', JStr ''disk.img''), (''release_artifact'', JStr ''os.img.xz''),
     (''expected_artifacts'', JArr [JStr ''disk.img'', JStr ''disk.img.xz'']),
     (''qemu_test'', JBool True), (''ci_build'', JBool True), (''fast_required'', JBool True),
     (''image_build'', JBool True), (''release_source'', JBool True), (''payload_base_required'', JBool False),
     (''release'', JBool True), (''timeout_minutes'', JInt 60), (''build_step_timeout_minutes'', JInt 50),
     (''min_disk_gib'', JInt 20), (''min_mem_gib'', JInt 4), (''min_vcpu'', JInt 2), (''build_jlevel'', JInt 2),
     (''prebuild_defconfigs'', JArr []), (''payload_image_exports'', JArr []),
     (''production_required'', JBool False), (''production_ready'', JBool False),
     (''profile'', JStr ''provisioning''), (''boot_mode'', JStr ''uefi-grub''), (''partition_table'', JStr ''gpt''),
     (''root_partition'', JStr ''rootfs''), (''root_identity'', JStr ''gpt-label-rootfs''), (''genimage'', JStr ''g.cfg''),
     (''post_image_arg'', JStr ''pc''), (''signing'', JStr ''unsigned-lab''), (''acceptance'', JStr ''qemu''),
     (''blocker'', JStr ''none''), (''description'', JStr ''QEMU image'')]"

definition pc_text :: string where
  "pc_text = print_matrix [pc_row] [] [JStr ''trivy'']"

definition config_lines :: "string list \<Rightarrow> string" where
  "config_lines ls = concat (map (\<lambda>l. l @ [CHR 0x0A]) ls)"

definition pc_repo :: repo where
  "pc_repo p = (if p = path_of ''configs/pc_defconfig'' then Some (config_lines
       [''BR2_JLEVEL=2'', ''BR2_CCACHE=y'', ''BR2_PACKAGE_SUDERRA_VARIANT_DEV=y'', ''BR2_PACKAGE_HOST_GENIMAGE=y'',
        ''BR2_ROOTFS_POST_SCRIPT_ARGS='' @ [dquote] @ ''pc'' @ [dquote]])
     else if p = path_of ''g.cfg'' then Some (config_lines
       [''image disk.img {'', ''hdimage {'', ''partition-table-type = '' @ [dquote] @ ''gpt'' @ [dquote], ''}'', ''}''])
     else None)"

definition pc_contract :: obj where
  "pc_contract = [(''targets'', JObj [(''pc'', JObj [(''release_public'', JBool True), (''ota_capable'', JBool False)])]),
     (''ota'', JObj [(''targets'', JObj [(''pc'', JObj [(''ota_capable'', JBool False)])])])]"

lemma pc_loaded: "load_matrix pc_text = Inr (matrix_object [pc_row] [] [JStr ''trivy''])"
  unfolding pc_text_def by (rule load_printed) code_simp+

lemma pc_validated: "validate_matrix True pc_repo pc_contract pc_text = Inr 0"
proof -
  have "validate_errors True pc_repo pc_contract (matrix_object [pc_row] [] [JStr ''trivy'']) = Inr []"
    by code_simp
  then show ?thesis by (simp add: validate_matrix_def pc_loaded from_parser_def)
qed

lemma pc_rows: "matrix_defconfigs (matrix_object [pc_row] [] [JStr ''trivy'']) = [pc_row]"
  by (simp add: matrix_defconfigs_def matrix_object_def dict_get_def)

theorem validated_rows_sound_witness:
  "numbers_in_range pc_row \<and> set TARGET_FIELDS \<subseteq> set (dict_keys pc_row)"
  using validated_rows_sound [OF pc_validated] by (auto simp: pc_loaded pc_rows)

theorem validated_release_gates_witness:
  "\<exists>config. pc_repo (config_path ''pc_defconfig'') = Some config \<and> has_prod_variant config \<noteq> has_dev_variant config"
proof -
  have "row_defconfig pc_row = ''pc_defconfig''" by code_simp
  then show ?thesis
    using validated_release_gates [OF pc_validated] by (auto simp: pc_loaded pc_rows)
qed

end
