(* ===== verification/MatrixCommands.thy ===== *)
theory MatrixCommands
  imports MatrixProps "HOL-Library.Multiset"
begin

text \<open>
  Properties of the commands that read a validated matrix: the selectors split the targets, the
  matrix given to GitHub Actions has one entry per selected row, the readiness gates, and the
  completeness of a release directory.
\<close>

section \<open>Selectors\<close>

definition SPLIT_SELECTORS :: "string list" where
  "SPLIT_SELECTORS = [''ci_build'', ''image_build'', ''release'']"

lemma split_selector:
  assumes "list_field row ''prebuild_defconfigs'' = Inr ps" "x \<in> set SPLIT_SELECTORS"
  shows "target_matches_selector row x = Inr (flag row x)"
    "target_matches_selector row (x @ ''_base'') = Inr (flag row x \<and> ps = [])"
    "target_matches_selector row (x @ ''_payload'') = Inr (flag row x \<and> ps \<noteq> [])"
  using assms by (auto simp: target_matches_selector_def SPLIT_SELECTORS_def BOOLEAN_SELECTORS_def)

lemma selector_lists: "target_matches_selector row sel = Inr b \<Longrightarrow> \<exists>ps. list_field row ''prebuild_defconfigs'' = Inr ps"
  by (auto simp: target_matches_selector_def bindE_ok)

text \<open>
  For CI builds, image builds and releases alike, the entries of the selector are those of
  its base and of its payload selector together: every selected target is built exactly once.
\<close>

theorem selectors_split:
  assumes "x \<in> {''ci_build'', ''image_build'', ''release''}" and "github_include x rows = Inr es"
  shows "\<exists>bs ps. github_include (x @ ''_base'') rows = Inr bs \<and> github_include (x @ ''_payload'') rows = Inr ps \<and>
    mset es = mset bs + mset ps"
  using assms(2)
proof (induction rows arbitrary: es)
  case (Cons row rows)
  have x: "x \<in> set SPLIT_SELECTORS" using assms(1) by (simp add: SPLIT_SELECTORS_def)
  from Cons.prems obtain b where b: "target_matches_selector row x = Inr b" by (auto simp: bindE_ok)
  then obtain qs where qs: "list_field row ''prebuild_defconfigs'' = Inr qs" using selector_lists by blast
  note sel = split_selector [OF qs x]
  show ?case
  proof (cases "flag row x")
    case True
    then obtain e es' where e: "matrix_entry row = Inr e" "github_include x rows = Inr es'" "es = e # es'"
      using Cons.prems by (auto simp: sel bindE_ok)
    then show ?thesis using Cons.IH [OF e(2)] True by (cases "qs = []") (auto simp: sel)
  next
    case False
    then show ?thesis using Cons.IH Cons.prems by (auto simp: sel)
  qed
qed simp

section \<open>GitHub Actions matrix\<close>

text \<open>The entry of a row, as the workflows read it.\<close>

definition entry_of_row :: "obj \<Rightarrow> obj \<Rightarrow> bool" where
  "entry_of_row row e \<longleftrightarrow> dict_get e ''target'' = dict_get row ''target'' \<and> dict_get e ''name'' = dict_get row ''target'' \<and>
     dict_get e ''defconfig'' = dict_get row ''name'' \<and> dict_get e ''arch'' = dict_get row ''arch'' \<and>
     dict_get e ''release_artifact'' = JStr (py_str (dict_get row ''release_artifact'')) \<and>
     dict_get e ''release'' = JStr (release_rename_base (py_str (dict_get row ''release_artifact''))) \<and>
     (\<exists>ps. list_field row ''prebuild_defconfigs'' = Inr ps \<and> dict_get e ''prebuild_defconfigs'' = JStr (join '' '' ps)) \<and>
     dict_get e ''expected_artifacts'' = JStr (join '' '' (expected_artifacts row)) \<and>
     (\<forall>f\<in>set COPIED_FIELDS. dict_get e f = dict_get row f)"

lemma map_of_copied:
  "copy_fields row fs = Inr ps \<Longrightarrow> map_of ps f = (if f \<in> set fs then Some (dict_get row f) else None)"
  by (induction fs arbitrary: ps) (auto simp: copy_fields_def bindE_ok dict_index_ok dict_get_map_of)

lemma matrix_entry_fields:
  assumes "matrix_entry row = Inr e"
  shows "entry_of_row row e"
proof -
  obtain ra target name platform copied prebuilds exports boot where
    row: "map_of row ''release_artifact'' = Some ra" "map_of row ''target'' = Some target" "map_of row ''name'' = Some name"
    and copies: "copy_fields row [''arch'', ''artifact''] = Inr platform" "copy_fields row COPIED_FIELDS = Inr copied"
      "copy_fields row [''profile'', ''boot_mode''] = Inr boot"
    and lists: "list_field row ''prebuild_defconfigs'' = Inr prebuilds"
    and e: "e = [(''name'', target), (''target'', target), (''defconfig'', name)] @ platform
         @ [(''release'', JStr (release_rename_base (py_str ra))), (''release_artifact'', JStr (py_str ra))]
         @ copied
         @ [(''prebuild_defconfigs'', JStr (join '' '' prebuilds)),
            (''payload_image_exports'', JStr (join '' '' exports)),
            (''expected_artifacts'', JStr (join '' '' (expected_artifacts row)))] @ boot"
    using assms unfolding matrix_entry_def Let_def by (elim run_elims) (auto simp: dict_index_ok)
  note get = row [THEN dict_get_map_of]
  note copied = copies [THEN map_of_copied]
  have fields: "dict_get e f = (case map_of copied f of None \<Rightarrow> JNull | Some v \<Rightarrow> v)" if "f \<in> set COPIED_FIELDS" for f
    using that unfolding e by (auto simp: dict_get_def map_add_def copied COPIED_FIELDS_def)
  have "\<forall>f\<in>set COPIED_FIELDS. dict_get e f = dict_get row f" by (simp add: fields copied)
  moreover have "dict_get e ''target'' = target" "dict_get e ''name'' = target" "dict_get e ''defconfig'' = name"
      "dict_get e ''arch'' = dict_get row ''arch''" "dict_get e ''release_artifact'' = JStr (py_str ra)"
      "dict_get e ''release'' = JStr (release_rename_base (py_str ra))"
      "dict_get e ''prebuild_defconfigs'' = JStr (join '' '' prebuilds)"
      "dict_get e ''expected_artifacts'' = JStr (join '' '' (expected_artifacts row))"
    unfolding e by (simp_all add: dict_get_def map_add_def copied COPIED_FIELDS_def)
  ultimately show ?thesis by (simp add: entry_of_row_def get lists)
qed

lemma github_include_ok:
  "github_include sel rows = Inr es \<Longrightarrow>
     (\<forall>row\<in>set rows. \<exists>b. target_matches_selector row sel = Inr b) \<and>
     list_all2 entry_of_row (filter (\<lambda>row. target_matches_selector row sel = Inr True) rows) es"
proof (induction rows arbitrary: es)
  case (Cons row rows)
  then obtain b where b: "target_matches_selector row sel = Inr b" by (auto simp: bindE_ok)
  show ?case
  proof (cases b)
    case True
    then show ?thesis using Cons b by (auto simp: bindE_ok matrix_entry_fields)
  next
    case False
    then show ?thesis using Cons b by auto
  qed
qed simp

text \<open>
  The matrix given to GitHub Actions has, in the order of the matrix file, exactly one entry
  for each row that the selector matches, with the row's own target, defconfig, architecture,
  artifacts, prebuilds, and build parameters.
\<close>

theorem github_matrix_entries:
  assumes "github_matrix sel matrix = Inr v"
  shows "\<exists>es. v = JObj [(''include'', JArr (map JObj es))] \<and>
    list_all2 entry_of_row (filter (\<lambda>row. target_matches_selector row sel = Inr True) (matrix_defconfigs matrix)) es"
  using assms github_include_ok by (auto simp: github_matrix_def bindE_ok)

section \<open>Readiness gates\<close>

definition blocked :: "obj \<Rightarrow> obj \<Rightarrow> bool" where
  "blocked contract row \<longleftrightarrow> production_gated contract row = Inr True \<and> \<not> truthy (dict_get row ''production_ready'')"

lemma readiness_blockers_ok:
  assumes "readiness_blockers contract rows = Inr bs"
  shows "bs = filter (blocked contract) rows"
proof -
  obtain xs where xs: "mapE (\<lambda>row. bindE (production_gated contract row) (\<lambda>g.
        Inr (if g \<and> \<not> truthy (dict_get row ''production_ready'') then [row] else []))) rows = Inr xs" "bs = concat xs"
    using assms by (auto simp: readiness_blockers_def bindE_ok)
  have "list_all2 (\<lambda>row ys. ys = (if blocked contract row then [row] else [])) rows xs"
    using xs(1) unfolding mapE_ok by (rule list_all2_mono) (auto simp: bindE_ok blocked_def)
  then have "concat xs = filter (blocked contract) rows" by (induction rule: list_all2_induct) auto
  then show ?thesis by (simp add: xs(2))
qed

lemma blocker_lines_ok:
  assumes "blocker_lines rows = Inr ls"
  shows "ls = map (\<lambda>row. (dict_get row ''name'', dict_get row ''blocker'')) rows"
proof -
  have "list_all2 (\<lambda>row l. l = (dict_get row ''name'', dict_get row ''blocker'')) rows ls"
    using assms unfolding blocker_lines_def mapE_ok by (rule list_all2_mono) (auto simp: bindE_ok dict_index_ok dict_get_map_of)
  then show ?thesis by (induction rule: list_all2_induct) auto
qed

lemma production_readiness_ok:
  assumes "production_readiness contract matrix = Inr (c, ls)"
  shows "ls = map (\<lambda>row. (dict_get row ''name'', dict_get row ''blocker'')) (filter (blocked contract) (matrix_defconfigs matrix))"
    "c = (if ls = [] then 0 else 1)"
  using assms readiness_blockers_ok blocker_lines_ok
  by (fastforce simp: production_readiness_def bindE_ok split: if_splits)+

text \<open>
  The production gate exits with 0 exactly when no target that the contract gates is still
  unready, otherwise with 1, and it prints the name and the blocker of exactly these targets.
\<close>

theorem production_gate:
  assumes "production_readiness contract matrix = Inr (c, ls)"
  shows "c = (if \<exists>row\<in>set (matrix_defconfigs matrix). blocked contract row then 1 else 0) \<and>
    ls = map (\<lambda>row. (dict_get row ''name'', dict_get row ''blocker'')) (filter (blocked contract) (matrix_defconfigs matrix))"
  using production_readiness_ok [OF assms] by (auto simp: filter_empty_conv)

text \<open>
  A candidate gate that exits with 0 has a tag; for a final tag (no hyphen) no gated target
  is unready; for a pre-release tag every required target that is released unready has a stated
  rationale, and the release inputs validated where they were asked for.
\<close>

theorem candidate_gate:
  assumes "candidate_readiness tag require_inputs inputs_status contract matrix = Inr (0, ls)"
  shows "\<exists>t. tag = Some t \<and> t \<noteq> [] \<and>
    (CHR ''-'' \<notin> set t \<longrightarrow> (\<forall>row\<in>set (matrix_defconfigs matrix). \<not> blocked contract row)) \<and>
    (CHR ''-'' \<in> set t \<longrightarrow> (require_inputs \<longrightarrow> inputs_status t = 0) \<and>
       (\<forall>row\<in>set (matrix_defconfigs matrix). truthy (dict_get row ''release'') \<and> truthy (dict_get row ''production_required'') \<and>
          \<not> truthy (dict_get row ''production_ready'') \<longrightarrow> strip (row_text row ''blocker'') \<noteq> []))"
proof -
  obtain t where t: "tag = Some t" "t \<noteq> []"
    using assms by (auto simp: candidate_readiness_def split: option.splits if_splits)
  show ?thesis
  proof (cases "CHR ''-'' \<in> set t")
    case False
    then have "production_readiness contract matrix = Inr (0, ls)"
      using assms t by (simp add: candidate_readiness_def)
    from production_readiness_ok [OF this] show ?thesis using t False by (auto simp: filter_empty_conv split: if_splits)
  next
    case True
    then show ?thesis
      using assms t
      by (auto simp: candidate_readiness_def Let_def bindE_ok missing_rationale_def filter_empty_conv split: if_splits)
  qed
qed

section \<open>Release directory\<close>

text \<open>The files of one released row: the payload manifest and its signature where the row expects them among its artifacts.\<close>

definition row_delivered :: "directory \<Rightarrow> obj \<Rightarrow> bool" where
  "row_delivered dir row \<longleftrightarrow> (\<exists>v. map_of row ''release_artifact'' = Some v \<and> (let a = py_str v in
     (\<forall>f\<in>{a, a @ ''.sha256'', release_rename_base a @ ''.manifest.txt'', sbom_base a @ ''.cyclonedx.json''}. present dir f) \<and>
     (''manifest.json'' \<in> set (expected_artifacts row) \<longrightarrow> present dir (payload_manifest_base a @ ''.payload-manifest.json'')) \<and>
     (''manifest.sig'' \<in> set (expected_artifacts row) \<longrightarrow> present dir (payload_manifest_base a @ ''.payload-manifest.sig''))))"

lemma check_release_row_nil: "check_release_row dir row = Inr [] \<Longrightarrow> row_delivered dir row"
  by (auto simp: check_release_row_def required_release_files_def row_delivered_def only_if_def bindE_ok dict_index_ok Let_def
      filter_empty_conv split: if_splits)

text \<open>
  C30. A release directory that passes holds, each with content, the artifact of every released row
  with its checksum, manifest and SBOM, its payload manifest and the signature of that where the
  row expects them, both installers, each with its checksum, and, when signatures are asked for,
  the control files and a signature and a certificate for every file that is not one itself.
\<close>

theorem release_directory_complete:
  assumes "release_files_status version dir signed matrix = Inr 0"
  shows "(\<forall>row\<in>set (matrix_defconfigs matrix). truthy (dict_get row ''release'') \<longrightarrow> row_delivered dir row) \<and>
    (\<forall>arch\<in>{''x86_64'', ''aarch64''}. \<forall>suffix\<in>{[], ''.sha256''}.
       present dir (''suderra-installer-'' @ version @ ''-'' @ arch @ suffix)) \<and>
    (signed \<longrightarrow> (\<forall>f\<in>{''manifest.json'', ''SHA256SUMS'', ''release-assets.json''}. present dir f) \<and>
       (\<forall>f\<in>fst ` set dir. \<not> is_signature_file f \<longrightarrow> present dir (f @ ''.sig'') \<and> present dir (f @ ''.cert'')))"
proof -
  have none: "release_files version dir signed matrix = Inr []"
    using assms by (auto simp: release_files_status_def bindE_ok split: if_splits)
  then have rows: "\<forall>row\<in>set (matrix_defconfigs matrix). truthy (dict_get row ''release'') \<longrightarrow> check_release_row dir row = Inr []"
      and installers: "\<forall>f\<in>set (installer_files version). present dir f"
      and signatures: "signed \<longrightarrow> check_signatures dir = []"
    by (auto simp: release_files_def collectE_nil filter_empty_conv simp del: collectE.simps)
  have installed: "\<forall>arch\<in>{''x86_64'', ''aarch64''}. \<forall>suffix\<in>{[], ''.sha256''}.
      present dir (''suderra-installer-'' @ version @ ''-'' @ arch @ suffix)"
    using installers by (simp add: installer_files_def)
  have signatures': "signed \<longrightarrow> (\<forall>f\<in>{''manifest.json'', ''SHA256SUMS'', ''release-assets.json''}. present dir f) \<and>
       (\<forall>f\<in>fst ` set dir. \<not> is_signature_file f \<longrightarrow> present dir (f @ ''.sig'') \<and> present dir (f @ ''.cert''))"
    using signatures by (auto simp: check_signatures_def no_report split: if_splits)
  have "\<forall>row\<in>set (matrix_defconfigs matrix). truthy (dict_get row ''release'') \<longrightarrow> row_delivered dir row"
    using rows check_release_row_nil by blast
  then show ?thesis using installed signatures' by (intro conjI)
qed

section \<open>Concrete inputs\<close>

definition pc_matrix :: obj where
  "pc_matrix = matrix_object [pc_row] [] [JStr ''trivy'']"

definition gated_contract :: obj where
  "gated_contract = [(''targets'', JObj [(''pc'', JObj [(''production_gate'', JBool True)])])]"

definition pc_release :: directory where
  "pc_release = concat (map (\<lambda>f. [(f, 9), (f @ ''.sig'', 9), (f @ ''.cert'', 9)])
     ([''os.img.xz'', ''os.img.xz.sha256'', ''os.img.manifest.txt'', ''os.cyclonedx.json'',
       ''manifest.json'', ''SHA256SUMS'', ''release-assets.json''] @ installer_files ''1.0''))"

theorem selectors_split_witness:
  "\<exists>es bs ps. github_include ''release'' [pc_row] = Inr es \<and> github_include ''release_base'' [pc_row] = Inr bs \<and>
     github_include ''release_payload'' [pc_row] = Inr ps \<and> mset es = mset bs + mset ps"
proof -
  have "case github_include ''release'' [pc_row] of Inl _ \<Rightarrow> False | Inr _ \<Rightarrow> True" by code_simp
  then obtain es where "github_include ''release'' [pc_row] = Inr es" by (auto split: sum.splits)
  from selectors_split [OF _ this] this show ?thesis by simp
qed

theorem github_matrix_entries_witness:
  "\<exists>e. github_matrix ''release'' pc_matrix = Inr (JObj [(''include'', JArr [JObj e])]) \<and> dict_get e ''defconfig'' = JStr ''pc_defconfig''"
proof -
  have "case github_matrix ''release'' pc_matrix of Inl _ \<Rightarrow> False | Inr _ \<Rightarrow> True" by code_simp
  then obtain v where v: "github_matrix ''release'' pc_matrix = Inr v" by (auto split: sum.splits)
  have "filter (\<lambda>row. target_matches_selector row ''release'' = Inr True) (matrix_defconfigs pc_matrix) = [pc_row]"
    by code_simp
  moreover have "dict_get pc_row ''name'' = JStr ''pc_defconfig''" by code_simp
  ultimately show ?thesis
    using github_matrix_entries [OF v] v by (auto simp: list_all2_Cons1 entry_of_row_def)
qed

theorem production_gate_witness:
  "production_readiness gated_contract pc_matrix = Inr (1, [(JStr ''pc_defconfig'', JStr ''none'')]) \<and>
     (\<exists>row\<in>set (matrix_defconfigs pc_matrix). blocked gated_contract row)"
proof -
  have "production_readiness gated_contract pc_matrix = Inr (1, [(JStr ''pc_defconfig'', JStr ''none'')])"
    by code_simp
  with production_gate [OF this] show ?thesis by (auto split: if_splits)
qed

theorem candidate_gate_witness:
  "candidate_readiness (Some ''v1.0.0'') False (\<lambda>_. 1) pc_contract pc_matrix = Inr (0, []) \<and>
     \<not> blocked pc_contract pc_row"
proof -
  have "candidate_readiness (Some ''v1.0.0'') False (\<lambda>_. 1) pc_contract pc_matrix = Inr (0, [])" by code_simp
  with candidate_gate [OF this] show ?thesis by (auto simp: pc_matrix_def pc_rows)
qed

theorem release_directory_complete_witness:
  "row_delivered pc_release pc_row \<and> present pc_release ''os.cyclonedx.json.sig'' \<and>
   present pc_release ''suderra-installer-1.0-aarch64.sha256''"
proof -
  have "release_files_status ''1.0'' pc_release True pc_matrix = Inr 0" by code_simp
  note complete = release_directory_complete [OF this]
  have "''os.cyclonedx.json'' \<in> fst ` set pc_release" "\<not> is_signature_file ''os.cyclonedx.json''" by code_simp+
  with complete have "present pc_release (''os.cyclonedx.json'' @ ''.sig'')" by blast
  moreover have "present pc_release (''suderra-installer-'' @ ''1.0'' @ ''-'' @ ''aarch64'' @ ''.sha256'')" using complete by blast
  moreover have "row_delivered pc_release pc_row"
  proof -
    have "truthy (dict_get pc_row ''release'')" by code_simp
    then show ?thesis using complete by (simp add: pc_matrix_def pc_rows)
  qed
  ultimately show ?thesis by simp
qed

end
