(* ===== verification/PyFiles.thy ===== *)
theory PyFiles
  imports PyPath
begin

text \<open>
  What the evidence validators see of the file system and of loosely typed documents: a store
  that answers for each path whether it is a regular file, its size, its SHA-256 digest and its
  JSON content, and the conversions the scripts apply to values of unknown type. A message is
  the text that the source formats. Last, walks over the items of a list and their interface.
\<close>

type_synonym 'a run = "(string, 'a) result"

section \<open>Files\<close>

text \<open>
  The content of a regular file: its size and digest, its text, and what \<open>json.loads\<close> makes of
  it, where \<open>None\<close> is a \<open>JSONDecodeError\<close>.
\<close>

record regular_file =
  size_of :: int
  sha_of :: string
  text_content :: string
  json_content :: "json option"

type_synonym store = "path \<Rightarrow> regular_file option"

definition is_file :: "store \<Rightarrow> path \<Rightarrow> bool" where
  "is_file fs p \<longleftrightarrow> fs p \<noteq> None"

text \<open>A regular file with at least one byte.\<close>

definition nonempty_file :: "store \<Rightarrow> path \<Rightarrow> bool" where
  "nonempty_file fs p \<longleftrightarrow> (case fs p of None \<Rightarrow> False | Some f \<Rightarrow> 0 < size_of f)"

definition file_sha :: "store \<Rightarrow> path \<Rightarrow> string" where
  "file_sha fs p = (case fs p of None \<Rightarrow> [] | Some f \<Rightarrow> sha_of f)"

text \<open>
  Reading a file as JSON where the caller handles \<open>OSError\<close> and \<open>JSONDecodeError\<close>. The text
  of the exception in a message is its class name here.
\<close>

datatype loaded = OsError | BadJson | Loaded json

definition load_doc :: "store \<Rightarrow> path \<Rightarrow> loaded" where
  "load_doc fs p = (case fs p of None \<Rightarrow> OsError
     | Some f \<Rightarrow> (case json_content f of None \<Rightarrow> BadJson | Some v \<Rightarrow> Loaded v))"

definition path_parent :: "path \<Rightarrow> path" where
  "path_parent p = Path (absolute p) (butlast (parts p))"

section \<open>Messages\<close>

definition msg :: "string \<Rightarrow> string \<Rightarrow> string" where
  "msg p m = p @ '': '' @ m"

text \<open>\<open>a or b\<close> for optional texts.\<close>

definition or_else :: "string option \<Rightarrow> string option \<Rightarrow> string option" where
  "or_else a b = (if a = None \<or> a = Some [] then b else a)"

section \<open>Conversions\<close>

text \<open>
  \<open>int(v)\<close>: a float is truncated towards zero; a string is an optional sign and ASCII digits
  with single underscores between them, within white space; the other types raise.
\<close>

definition drop_sign :: "string \<Rightarrow> string" where
  "drop_sign s = (if s \<noteq> [] \<and> (hd s = CHR ''-'' \<or> hd s = CHR ''+'') then tl s else s)"

definition int_literal :: "string \<Rightarrow> int option" where
  "int_literal s = (let t = strip s; ds = drop_sign t; groups = split_on (CHR ''_'') ds in
     if list_all all_ascii_digits groups then
       let n = int (digits_val (concat groups)) in
       Some (if t \<noteq> [] \<and> hd t = CHR ''-'' then - n else n)
     else None)"

fun py_int :: "json \<Rightarrow> int run" where
  "py_int (JInt n) = Inr n"
| "py_int (JBool b) = Inr (if b then 1 else 0)"
| "py_int (JFloat q r) = Inr (if q < 0 then - \<lfloor>- q\<rfloor> else \<lfloor>q\<rfloor>)"
| "py_int (JStr s) = (case int_literal s of Some n \<Rightarrow> Inr n
     | None \<Rightarrow> Inl (ValueError (''invalid literal for int() with base 10: '' @ repr_str s)))"
| "py_int _ = Inl TypeError"

text \<open>
  The members of \<open>set(v)\<close> where they are afterwards sorted and joined into a message, or
  compared with a set of strings: anything but strings raises \<open>TypeError\<close> on the way.
\<close>

definition string_members :: "json \<Rightarrow> string list run" where
  "string_members v = bindE (py_list v) (\<lambda>xs.
     if list_all is_str xs then Inr (map text_of xs) else Inl TypeError)"

text \<open>\<open>v.get(k, d).get(f)\<close> for a nested object.\<close>

definition nested_get :: "obj \<Rightarrow> string \<Rightarrow> string \<Rightarrow> json run" where
  "nested_get o' k f = bindE (dict_of (dict_get_or o' k (JObj []))) (\<lambda>m. Inr (dict_get m f))"

definition comma_join :: "string list \<Rightarrow> string" where
  "comma_join xs = join '', '' xs"

text \<open>\<open>isinstance(v, str) and v\<close>, \<open>isinstance(v, int) and v > bound\<close>.\<close>

definition int_above :: "int \<Rightarrow> json \<Rightarrow> bool" where
  "int_above n v \<longleftrightarrow> is_int v \<and> n < int_of v"

lemma string_members_ok [run_ok]:
  "string_members v = Inr ss \<longleftrightarrow> (\<exists>xs. (py_list v :: json list run) = Inr xs \<and> xs = map JStr ss)"
proof -
  have strs: "list_all is_str xs \<and> map text_of xs = ss \<longleftrightarrow> xs = map JStr ss" for xs
  proof (induction xs arbitrary: ss)
    case (Cons x xs)
    show ?case using Cons [of "tl ss"] by (cases ss; cases x) auto
  qed auto
  have "string_members v = Inr ss \<longleftrightarrow> (\<exists>xs. (py_list v :: json list run) = Inr xs \<and> list_all is_str xs \<and> map text_of xs = ss)"
    by (auto simp: string_members_def run_ok)
  then show ?thesis by (simp only: strs)
qed

lemma nonempty_file_sha: "nonempty_file fs p \<Longrightarrow> \<exists>f. fs p = Some f \<and> 0 < size_of f \<and> file_sha fs p = sha_of f"
  by (auto simp: nonempty_file_def file_sha_def split: option.splits)

text \<open>
  Checks of the form \<open>for idx, item in enumerate(items)\<close>: what it means that such a walk reports
  nothing, and that every item it accepts is an object.
\<close>

lemma in_enumerate: "(i, x) \<in> set (enumerate 0 xs) \<longleftrightarrow> i < length xs \<and> x = xs ! i"
  by (auto simp: in_set_enumerate_eq)

lemma enumerate_item: "x \<in> set xs \<Longrightarrow> \<exists>i. (i, x) \<in> set (enumerate 0 xs)"
  by (metis in_enumerate in_set_conv_nth)

lemma enumerate_snd: "(i, x) \<in> set (enumerate 0 xs) \<Longrightarrow> x \<in> set xs"
  by (auto simp: in_enumerate)

lemma enumerate_pair: "x \<in> set (enumerate 0 xs) \<Longrightarrow> \<exists>i v. x = (i, v) \<and> v \<in> set xs"
  by (cases x) (auto dest: enumerate_snd)

text \<open>A list whose items are all objects is the image of their members.\<close>

lemma objects_of: "(\<And>v. v \<in> set vs \<Longrightarrow> \<exists>o'. v = JObj o') \<Longrightarrow> \<exists>os. vs = map JObj os"
proof (induction vs)
  case (Cons v vs)
  obtain o' where "v = JObj o'" using Cons.prems by auto
  moreover obtain os where "vs = map JObj os" using Cons.IH Cons.prems by force
  ultimately show ?case by (intro exI [of _ "o' # os"]) simp
qed simp

text \<open>The interface of such a walk: an accepted item is an object with the properties \<open>good\<close>.\<close>

locale object_walk =
  fixes item :: "nat \<times> json \<Rightarrow> string list run"
    and good :: "obj \<Rightarrow> bool"
  assumes accepted: "item (i, v) = Inr [] \<Longrightarrow> \<exists>o'. v = JObj o' \<and> good o'"
begin

lemma walked:
  assumes "collectE (map item (enumerate 0 vs)) = Inr []"
  shows "\<exists>os. vs = map JObj os \<and> (\<forall>o'\<in>set os. good o')"
proof -
  have each: "\<exists>o'. v = JObj o' \<and> good o'" if v: "v \<in> set vs" for v
  proof -
    obtain i where "(i, v) \<in> set (enumerate 0 vs)" using enumerate_item [OF v] by blast
    then show ?thesis using assms accepted by (auto simp: collectE_nil)
  qed
  then obtain os where os: "vs = map JObj os" using objects_of [of vs] by blast
  then have "\<forall>o'\<in>set os. good o'" using each by force
  with os show ?thesis by blast
qed

end

end
