(* ===== verification/PyTime.thy ===== *)
theory PyTime
  imports PyFiles
begin

text \<open>
  \<open>datetime.fromisoformat\<close> and the comparison of the result with an aware time, after the
  reference implementation \<open>_pydatetime\<close> of the standard library, with fields that are ASCII
  digits only. A date and time is its local time in microseconds since 0001-01-01 with, where
  the text has one, the offset from UTC; an instant is a number of microseconds on the same scale.
\<close>

section \<open>Dates\<close>

definition digits :: "nat \<Rightarrow> string \<Rightarrow> nat option" where
  "digits n s = (let d = take n s in if length d = n \<and> list_all is_ascii_digit d then Some (digits_val d) else None)"

definition leap :: "nat \<Rightarrow> bool" where
  "leap y \<longleftrightarrow> y mod 4 = 0 \<and> (y mod 100 \<noteq> 0 \<or> y mod 400 = 0)"

definition month_lengths :: "nat \<Rightarrow> nat list" where
  "month_lengths y = [31, if leap y then 29 else 28, 31, 30, 31, 30, 31, 31, 30, 31, 30, 31]"

definition days_before_year :: "nat \<Rightarrow> nat" where
  "days_before_year y = (let p = y - 1 in p * 365 + p div 4 - p div 100 + p div 400)"

text \<open>The proleptic ordinal of a valid date; day 1 is 0001-01-01.\<close>

definition date_ordinal :: "nat \<Rightarrow> nat \<Rightarrow> nat \<Rightarrow> nat option" where
  "date_ordinal y m d =
     (if 1 \<le> y \<and> y \<le> 9999 \<and> 1 \<le> m \<and> m \<le> 12 \<and> 1 \<le> d \<and> d \<le> month_lengths y ! (m - 1)
      then Some (days_before_year y + sum_list (take (m - 1) (month_lengths y)) + d) else None)"

definition week1_monday :: "nat \<Rightarrow> int" where
  "week1_monday y = (let first = int (days_before_year y) + 1; weekday = (first + 6) mod 7;
       monday = first - weekday in if 3 < weekday then monday + 7 else monday)"

definition long_year :: "nat \<Rightarrow> bool" where
  "long_year y = (let w = (days_before_year y + 1) mod 7 in w = 4 \<or> (w = 3 \<and> leap y))"

definition week_ordinal :: "nat \<Rightarrow> nat \<Rightarrow> nat \<Rightarrow> nat option" where
  "week_ordinal y w d =
     (if 1 \<le> y \<and> y \<le> 9999 \<and> 1 \<le> w \<and> (w < 53 \<or> (w = 53 \<and> long_year y)) \<and> 1 \<le> d \<and> d \<le> 7 then
        let n = week1_monday y + int ((w - 1) * 7 + (d - 1)) in
        if 1 \<le> n \<and> n \<le> 3652059 then Some (nat n) else None
      else None)"

definition char_at :: "string \<Rightarrow> nat \<Rightarrow> char option" where
  "char_at s n = (if n < length s then Some (s ! n) else None)"

definition digit_at :: "string \<Rightarrow> nat \<Rightarrow> bool" where
  "digit_at s n \<longleftrightarrow> n < length s \<and> is_ascii_digit (s ! n)"

text \<open>\<open>_find_isoformat_datetime_separator\<close>: where the date ends.\<close>

definition separator_at :: "string \<Rightarrow> nat" where
  "separator_at s =
     (if length s = 7 then 7
      else if char_at s 4 = Some (CHR ''-'') then
        (if char_at s 5 = Some (CHR ''W'') then
           (if char_at s 8 = Some (CHR ''-'') then (if digit_at s 10 then 8 else 10) else 8)
         else 10)
      else if char_at s 4 = Some (CHR ''W'') then
        (let i = 7 + length (takeWhile is_ascii_digit (drop 7 s)) in
         if i < 9 then i else if i mod 2 = 0 then 7 else 8)
      else 8)"

definition parse_date :: "string \<Rightarrow> nat option" where
  "parse_date s = (let dash = char_at s 4 = Some (CHR ''-''); p = (if dash then 5 else 4); k = (if dash then 1 else 0) in
     Option.bind (digits 4 s) (\<lambda>y.
     if char_at s p = Some (CHR ''W'') then
       Option.bind (digits 2 (drop (p + 1) s)) (\<lambda>w.
         let rest = drop (p + 3) s in
         if rest = [] then week_ordinal y w 1
         else if (hd rest = CHR ''-'') \<noteq> dash then None
         else Option.bind (digits 1 (drop k rest)) (\<lambda>d. week_ordinal y w d))
     else
       Option.bind (digits 2 (drop p s)) (\<lambda>m.
         let rest = drop (p + 2) s in
         if (char_at rest 0 = Some (CHR ''-'')) \<noteq> dash then None
         else Option.bind (digits 2 (drop k rest)) (\<lambda>d. date_ordinal y m d))))"

section \<open>Times\<close>

definition fraction :: "string \<Rightarrow> nat option" where
  "fraction s = (case s of [] \<Rightarrow> Some 0
     | c # f \<Rightarrow> if c \<in> set ''.,'' \<and> all_ascii_digits f
         then Some (digits_val (take 6 f) * 10 ^ (6 - length (take 6 f))) else None)"

text \<open>\<open>_parse_hh_mm_ss_ff\<close>: hours, minutes, seconds and microseconds.\<close>

definition parse_hms :: "string \<Rightarrow> (nat \<times> nat \<times> nat \<times> nat) option" where
  "parse_hms s = Option.bind (digits 2 s) (\<lambda>h. let r = drop 2 s; colon = char_at r 0 = Some (CHR '':'');
       k = (if colon then 1 else 0) in
     if r = [] then Some (h, 0, 0, 0)
     else Option.bind (digits 2 (drop k r)) (\<lambda>m. let r' = drop (2 + k) r in
       if r' = [] then Some (h, m, 0, 0)
       else if colon \<and> hd r' \<noteq> CHR '':'' then None
       else Option.bind (digits 2 (drop k r')) (\<lambda>sec.
         Option.bind (fraction (drop (2 + k) r')) (\<lambda>us. Some (h, m, sec, us)))))"

definition micros :: "nat \<times> nat \<times> nat \<times> nat \<Rightarrow> int" where
  "micros t = (case t of (h, m, s, us) \<Rightarrow> ((int h * 60 + int m) * 60 + int s) * 1000000 + int us)"

definition day_micros :: int where
  "day_micros = 86400000000"

definition clock_time :: "nat \<times> nat \<times> nat \<times> nat \<Rightarrow> int option" where
  "clock_time t = (case t of (h, m, s, us) \<Rightarrow> if h < 24 \<and> m < 60 \<and> s < 60 then Some (micros t) else None)"

text \<open>\<open>str.find\<close> for a sign: the text before it and after it.\<close>

definition split_sign :: "string \<Rightarrow> (string \<times> char \<times> string) option" where
  "split_sign s = (case find (\<lambda>c. c \<in> set s) ''-+Z'' of None \<Rightarrow> None
     | Some c \<Rightarrow> Some (takeWhile (\<lambda>x. x \<noteq> c) s, c, tl (dropWhile (\<lambda>x. x \<noteq> c) s)))"

definition parse_offset :: "char \<Rightarrow> string \<Rightarrow> int option" where
  "parse_offset c s = (if c = CHR ''Z'' \<and> s = [] then Some 0
     else if length s \<in> {0, 1, 3} then None
     else Option.bind (parse_hms s) (\<lambda>t.
       if micros t < day_micros then Some (if c = CHR ''-'' then - micros t else micros t) else None))"

definition parse_time :: "string \<Rightarrow> (int \<times> int option) option" where
  "parse_time s = (case split_sign s of
       None \<Rightarrow> Option.bind (parse_hms s) (\<lambda>t. Option.bind (clock_time t) (\<lambda>us. Some (us, None)))
     | Some (clock, c, zone) \<Rightarrow> Option.bind (parse_hms clock) (\<lambda>t. Option.bind (parse_offset c zone) (\<lambda>off.
         Option.bind (clock_time t) (\<lambda>us. Some (us, Some off)))))"

section \<open>Date and time\<close>

record datetime =
  local_us :: int
  utc_offset :: "int option"

definition fromisoformat :: "string \<Rightarrow> datetime option" where
  "fromisoformat s = (if length s < 7 then None
     else let n = separator_at s; t = drop (n + 1) s in
       Option.bind (parse_date (take n s)) (\<lambda>day.
       Option.bind (if t = [] then Some (0, None) else parse_time t) (\<lambda>(us, off).
         Some \<lparr>local_us = (int day - 1) * day_micros + us, utc_offset = off\<rparr>)))"

text \<open>\<open>d <= now\<close> for an aware \<open>now\<close>: ordering a naive time against it raises.\<close>

definition not_after :: "datetime \<Rightarrow> int \<Rightarrow> bool run" where
  "not_after d now = (case utc_offset d of None \<Rightarrow> Inl TypeError | Some off \<Rightarrow> Inr (local_us d - off \<le> now))"

end
