(* ===== verification/Approval.thy ===== *)
theory Approval
  imports PyTime
begin

text \<open>
  \<open>validate_approval_payload\<close> of \<open>scripts/evidence/release_approval.py\<close>: the check of an
  approval input for one release target. The result is the list of messages; the comparison of a
  naive expiry time with the current time raises. \<open>now\<close> is the instant of the run.
\<close>

section \<open>Field checks\<close>

definition APPROVAL_SCHEMA_VERSION :: string where
  "APPROVAL_SCHEMA_VERSION = ''suderra.release-approval.v2''"

definition DECISION_STATUS_VALUES :: "string list" where
  "DECISION_STATUS_VALUES = [''approved'', ''approved_with_residual_risk'', ''blocked'']"

definition RISK_STATUS_VALUES :: "string list" where
  "RISK_STATUS_VALUES = [''none'', ''accepted'', ''blocked'']"

text \<open>\<open>_timestamp\<close> for a required value: the messages and the parsed time.\<close>

definition timestamp :: "json \<Rightarrow> string \<Rightarrow> string list \<times> datetime option" where
  "timestamp v p =
     (if \<not> is_str v \<or> \<not> ends_with (text_of v) ''Z''
      then ([p @ '': must be an ISO-8601 UTC timestamp ending in Z''], None)
      else case fromisoformat (butlast (text_of v) @ ''+00:00'') of
        None \<Rightarrow> ([p @ '': must be an ISO-8601 UTC timestamp''], None)
      | Some d \<Rightarrow> ([], Some d))"

definition check_string :: "json \<Rightarrow> string \<Rightarrow> string list" where
  "check_string v p = report (\<not> nonblank_str v) (p @ '': must be a non-empty string'')"

definition check_strings :: "obj \<Rightarrow> string \<Rightarrow> string list \<Rightarrow> string list" where
  "check_strings o' p fs = concat (map (\<lambda>f. check_string (dict_get o' f) (p @ ''.'' @ f)) fs)"

definition check_source_sha :: "json \<Rightarrow> string option \<Rightarrow> string list" where
  "check_source_sha v expected =
     (if v \<noteq> JNull then
        (if \<not> is_str v \<or> \<not> lower_hex_of_length 40 (text_of v)
         then [''$.source_sha: must be a lowercase git commit sha'']
         else case expected of None \<Rightarrow> []
           | Some sha \<Rightarrow> report (text_of v \<noteq> sha) (''$.source_sha: must match bound source sha '' @ sha))
      else report (expected \<noteq> None) ''$.source_sha: must be present when source binding is enforced'')"

section \<open>Approvals\<close>

text \<open>One round of the loop; the state is the set of roles seen so far.\<close>

definition check_approval :: "string list \<Rightarrow> nat \<Rightarrow> json \<Rightarrow> string list \<times> string list" where
  "check_approval seen i v = (let p = ''$.approvals['' @ nat_str i @ '']''; a = members v; role = dict_get a ''role'' in
     if \<not> is_obj v then ([p @ '': must be an object''], seen)
     else (check_strings a p [''role'', ''name'', ''approved_at'']
           @ report (is_str role \<and> text_of role \<in> set seen) (p @ ''.role: must be unique within approvals'')
           @ fst (timestamp (dict_get a ''approved_at'') (p @ ''.approved_at''))
           @ (if dict_has a ''ticket'' then check_string (dict_get a ''ticket'') (p @ ''.ticket'') else []),
           if is_str role then text_of role # seen else seen))"

fun check_approvals :: "string list \<Rightarrow> nat \<Rightarrow> json list \<Rightarrow> string list \<times> string list" where
  "check_approvals seen i [] = ([], seen)"
| "check_approvals seen i (v # vs) =
     (let (fs, seen') = check_approval seen i v; (gs, all) = check_approvals seen' (Suc i) vs in (fs @ gs, all))"

definition check_roles :: "string list \<Rightarrow> string list" where
  "check_roles roles =
     report (''release-owner'' \<notin> set roles) ''$.approvals: must include release-owner approval''
     @ report (''maintainer'' \<notin> set roles \<and> ''security-compliance'' \<notin> set roles)
         ''$.approvals: must include maintainer or security-compliance approval''
     @ report (length (remdups roles) < 2) ''$.approvals: must include at least two distinct approval roles''"

section \<open>Decision and residual risk\<close>

definition check_risk_item :: "nat \<times> json \<Rightarrow> string list" where
  "check_risk_item iv = (let p = ''$.residual_risk.items['' @ nat_str (fst iv) @ '']'' in
     if \<not> is_obj (snd iv) then [p @ '': must be an object'']
     else check_strings (members (snd iv)) p
       [''id'', ''severity'', ''description'', ''mitigation'', ''owner'', ''ticket''])"

definition check_expiry :: "datetime option \<Rightarrow> int \<Rightarrow> string list run" where
  "check_expiry expires now = (case expires of None \<Rightarrow> Inr []
     | Some d \<Rightarrow> bindE (not_after d now) (\<lambda>past.
         Inr (report past ''$.residual_risk.expires_at: must be in the future'')))"

definition check_accepted_risk :: "obj \<Rightarrow> json list \<Rightarrow> int \<Rightarrow> string list run" where
  "check_accepted_risk risk items now =
     (let (fs, expires) = timestamp (dict_get risk ''expires_at'') ''$.residual_risk.expires_at'' in
      bindE (check_expiry expires now) (\<lambda>late.
      Inr (report (dict_get risk ''status'' \<noteq> JStr ''accepted'')
             ''$.residual_risk.status: must be accepted for residual-risk approval''
         @ report (items = []) ''$.residual_risk.items: must list accepted residual risks''
         @ check_strings risk ''$.residual_risk'' [''accepted_by'', ''accepted_at'', ''expires_at'']
         @ fst (timestamp (dict_get risk ''accepted_at'') ''$.residual_risk.accepted_at'')
         @ fs @ late)))"

definition check_decision :: "obj \<Rightarrow> bool \<Rightarrow> string list run" where
  "check_decision decision require_pass = (let status = dict_get decision ''status'' in
     bindE (in_str_set status DECISION_STATUS_VALUES) (\<lambda>known. Inr
       (report (\<not> known) ''$.release_decision.status: must be approved, approved_with_residual_risk, or blocked''
        @ check_strings decision ''$.release_decision'' [''decided_by'', ''decided_at'', ''rationale'']
        @ fst (timestamp (dict_get decision ''decided_at'') ''$.release_decision.decided_at'')
        @ report (require_pass \<and> status \<notin> {JStr ''approved'', JStr ''approved_with_residual_risk''})
            ''$.release_decision.status: must approve the release input'')))"

definition check_risk :: "json \<Rightarrow> json \<Rightarrow> bool \<Rightarrow> int \<Rightarrow> string list run" where
  "check_risk risk_v status require_pass now = (let risk = dict_or_empty risk_v;
       risk_status = dict_get risk ''status''; items_v = dict_get risk ''items''; items = elems items_v in
     bindE (in_str_set risk_status RISK_STATUS_VALUES) (\<lambda>known. collectE
       [Inr (report (\<not> is_obj risk_v) ''$.residual_risk: must be an object''
          @ report (\<not> known) ''$.residual_risk.status: must be none, accepted, or blocked''
          @ report (\<not> is_list items_v) ''$.residual_risk.items: must be a list''
          @ concat (map check_risk_item (enumerate 0 items))
          @ (if require_pass \<and> status = JStr ''approved'' then
               report (risk_status \<noteq> JStr ''none'') ''$.residual_risk.status: must be none for approved releases''
               @ report (items \<noteq> []) ''$.residual_risk.items: must be empty for approved releases''
             else [])),
        if require_pass \<and> status = JStr ''approved_with_residual_risk''
          then check_accepted_risk risk items now else Inr [],
        Inr (report (require_pass \<and> risk_status = JStr ''blocked'') ''$.residual_risk.status: must not be blocked'')]))"

section \<open>The whole payload\<close>

definition check_identity :: "obj \<Rightarrow> string \<Rightarrow> string \<Rightarrow> string list" where
  "check_identity a version target =
     report (dict_get a ''schema_version'' \<noteq> JStr APPROVAL_SCHEMA_VERSION)
       (''$.schema_version: must be '' @ APPROVAL_SCHEMA_VERSION)
     @ report (dict_get a ''version'' \<noteq> JStr version) (''$.version: must match '' @ version)
     @ report (dict_get a ''target'' \<noteq> JStr target) (''$.target: must match '' @ target)"

definition check_approval_list :: "json \<Rightarrow> bool \<Rightarrow> string list" where
  "check_approval_list approvals_v require_pass = (let approvals = elems approvals_v;
       (fs, roles) = check_approvals [] 0 approvals in
     report (\<not> is_list approvals_v) ''$.approvals: must be a list''
     @ report (require_pass \<and> approvals = []) ''$.approvals: must include at least one approval''
     @ fs @ (if require_pass then check_roles roles else []))"

definition validate_approval_payload ::
  "json \<Rightarrow> string \<Rightarrow> string \<Rightarrow> string option \<Rightarrow> bool \<Rightarrow> int \<Rightarrow> string list run" where
  "validate_approval_payload payload version target expected_sha require_pass now =
     (if \<not> is_obj payload then Inr [''approval input must be a JSON object'']
      else let a = members payload; decision_v = dict_get a ''release_decision'';
               decision = dict_or_empty decision_v in collectE
        [Inr (check_identity a version target
           @ check_source_sha (dict_get a ''source_sha'') expected_sha
           @ check_approval_list (dict_get a ''approvals'') require_pass
           @ report (\<not> is_obj decision_v) ''$.release_decision: must be an object''),
         check_decision decision require_pass,
         check_risk (dict_get_or a ''residual_risk'' (JObj [(''status'', JStr ''none''), (''items'', JArr [])]))
           (dict_get decision ''status'') require_pass now])"

end
