(* ===== verification/ApprovalProps.thy ===== *)
theory ApprovalProps
  imports Approval
begin

text \<open>
  What an approval input that passes says, and the one way in which a well-typed residual-risk
  approval makes the check raise instead of reporting.
\<close>

section \<open>Approvals\<close>

lemma check_string_nil: "check_string v p = [] \<longleftrightarrow> nonblank_str v"
  by (simp add: check_string_def)

lemma check_strings_nil: "check_strings o' p fs = [] \<longleftrightarrow> (\<forall>f\<in>set fs. nonblank_str (dict_get o' f))"
  by (simp add: check_strings_def concat_map_nil check_string_nil)

lemma timestamp_nil: "fst (timestamp v p) = [] \<longleftrightarrow> snd (timestamp v p) \<noteq> None"
  by (auto simp: timestamp_def split: option.splits)

text \<open>An approval as the check accepts it, with its role.\<close>

definition approval_of :: "json \<Rightarrow> string \<Rightarrow> bool" where
  "approval_of v role \<longleftrightarrow> (\<exists>a. v = JObj a \<and> dict_get a ''role'' = JStr role \<and> strip role \<noteq> [] \<and>
     nonblank_str (dict_get a ''name'') \<and> (\<forall>p. snd (timestamp (dict_get a ''approved_at'') p) \<noteq> None))"

lemma timestamp_path: "snd (timestamp v p) = snd (timestamp v q)"
  by (simp add: timestamp_def split: option.splits)

lemma check_approval_nil:
  assumes "fst (check_approval seen i v) = []"
  obtains role where "approval_of v role" "role \<notin> set seen" "snd (check_approval seen i v) = role # seen"
proof -
  obtain a where v: "v = JObj a" using assms by (cases v) (auto simp: check_approval_def)
  let ?p = "''$.approvals['' @ nat_str i @ '']''"
  have parts: "\<forall>f\<in>{''role'', ''name'', ''approved_at''}. nonblank_str (dict_get a f)"
      "\<not> (is_str (dict_get a ''role'') \<and> text_of (dict_get a ''role'') \<in> set seen)"
      "fst (timestamp (dict_get a ''approved_at'') (?p @ ''.approved_at'')) = []"
    using assms by (simp_all add: check_approval_def v Let_def check_strings_nil)
  obtain role where role: "dict_get a ''role'' = JStr role" "strip role \<noteq> []"
    using parts(1) by (auto simp: nonblank_str_iff)
  have "snd (timestamp (dict_get a ''approved_at'') p) \<noteq> None" for p
    using parts(3) unfolding timestamp_nil by (metis timestamp_path)
  then have "approval_of v role" using parts(1) role by (auto simp: approval_of_def v)
  moreover have "role \<notin> set seen" using parts(2) role(1) by simp
  moreover have "snd (check_approval seen i v) = role # seen" by (simp add: check_approval_def v role(1) Let_def)
  ultimately show thesis by (rule that)
qed

lemma check_approvals_nil:
  "fst (check_approvals seen i vs) = [] \<Longrightarrow> \<exists>roles. list_all2 approval_of vs roles \<and> distinct roles \<and>
     set roles \<inter> set seen = {} \<and> set (snd (check_approvals seen i vs)) = set roles \<union> set seen"
proof (induction vs arbitrary: seen i)
  case (Cons v vs)
  from Cons.prems have v: "fst (check_approval seen i v) = []"
    and vs: "fst (check_approvals (snd (check_approval seen i v)) (Suc i) vs) = []"
    by (simp_all add: split_beta)
  obtain role where role: "approval_of v role" "role \<notin> set seen" "snd (check_approval seen i v) = role # seen"
    by (rule check_approval_nil [OF v])
  obtain roles where "list_all2 approval_of vs roles" "distinct roles" "set roles \<inter> set (role # seen) = {}"
      "set (snd (check_approvals (role # seen) (Suc i) vs)) = set roles \<union> set (role # seen)"
    using Cons.IH [OF vs] role(3) by auto
  then show ?case
    using role by (intro exI [of _ "role # roles"]) (auto simp: split_beta)
qed simp

section \<open>Accepted inputs\<close>

lemma check_expiry_nil:
  "check_expiry e now = Inr [] \<longleftrightarrow> (\<forall>d. e = Some d \<longrightarrow> (\<exists>off. utc_offset d = Some off \<and> now < local_us d - off))"
  by (auto simp: check_expiry_def not_after_def bindE_ok split: option.splits)

text \<open>
  C19. An approval input that passes for a version, target and source commit carries them, lists
  approvals with distinct roles, a release owner among them and a maintainer or the security
  role, and decides to approve: either without residual risk and without risk items, or with
  listed, accepted risks whose acceptance has not expired.
\<close>

theorem approval_accepted:
  assumes "validate_approval_payload payload version target (Some sha) True now = Inr []"
  shows "\<exists>a vs roles decision risk. payload = JObj a \<and> dict_get a ''version'' = JStr version \<and>
    dict_get a ''target'' = JStr target \<and> dict_get a ''source_sha'' = JStr sha \<and> lower_hex_of_length 40 sha \<and>
    dict_get a ''approvals'' = JArr vs \<and> list_all2 approval_of vs roles \<and> distinct roles \<and> 2 \<le> length roles \<and>
    ''release-owner'' \<in> set roles \<and> (''maintainer'' \<in> set roles \<or> ''security-compliance'' \<in> set roles) \<and>
    dict_get a ''release_decision'' = JObj decision \<and>
    dict_get_or a ''residual_risk'' (JObj [(''status'', JStr ''none''), (''items'', JArr [])]) = JObj risk \<and>
    (dict_get decision ''status'' = JStr ''approved'' \<and> dict_get risk ''status'' = JStr ''none'' \<and> dict_get risk ''items'' = JArr [] \<or>
     dict_get decision ''status'' = JStr ''approved_with_residual_risk'' \<and> dict_get risk ''status'' = JStr ''accepted'' \<and>
     (\<exists>is. dict_get risk ''items'' = JArr is \<and> is \<noteq> []) \<and>
     (\<exists>d off. snd (timestamp (dict_get risk ''expires_at'') ''$.residual_risk.expires_at'') = Some d \<and>
        utc_offset d = Some off \<and> now < local_us d - off))"
proof -
  obtain a where a: "payload = JObj a"
    using assms by (cases payload) (auto simp: validate_approval_payload_def)
  let ?decision_v = "dict_get a ''release_decision''"
  let ?risk_v = "dict_get_or a ''residual_risk'' (JObj [(''status'', JStr ''none''), (''items'', JArr [])])"
  have parts: "check_identity a version target = []" "check_source_sha (dict_get a ''source_sha'') (Some sha) = []"
      "check_approval_list (dict_get a ''approvals'') True = []" "is_obj ?decision_v"
      "check_decision (dict_or_empty ?decision_v) True = Inr []"
      "check_risk ?risk_v (dict_get (dict_or_empty ?decision_v) ''status'') True now = Inr []"
    using assms by (simp_all add: validate_approval_payload_def a Let_def collectE_nil del: collectE.simps)
  obtain decision where decision: "?decision_v = JObj decision" using parts(4) by (auto simp: is_obj_iff)
  have identity: "dict_get a ''version'' = JStr version" "dict_get a ''target'' = JStr target"
    using parts(1) by (simp_all add: check_identity_def)
  have sha: "dict_get a ''source_sha'' = JStr sha" "lower_hex_of_length 40 sha"
    using parts(2) by (auto simp: check_source_sha_def is_str_iff split: if_splits)
  obtain vs where vs: "dict_get a ''approvals'' = JArr vs" "fst (check_approvals [] 0 vs) = []"
      "check_roles (snd (check_approvals [] 0 vs)) = []"
    using parts(3) by (auto simp: check_approval_list_def Let_def split_beta is_list_iff)
  obtain roles where roles: "list_all2 approval_of vs roles" "distinct roles" "set (snd (check_approvals [] 0 vs)) = set roles"
    using check_approvals_nil [OF vs(2)] by auto
  have count: "length (remdups (snd (check_approvals [] 0 vs))) = length roles"
    by (metis roles(2,3) distinct_card distinct_remdups set_remdups)
  have signed: "''release-owner'' \<in> set roles" "''maintainer'' \<in> set roles \<or> ''security-compliance'' \<in> set roles" "2 \<le> length roles"
    using vs(3) unfolding check_roles_def count roles(3) by auto
  have status: "dict_get decision ''status'' \<in> {JStr ''approved'', JStr ''approved_with_residual_risk''}"
    using parts(5) by (auto simp: check_decision_def decision Let_def bindE_ok)
  have risk_parts: "is_obj ?risk_v" "is_list (dict_get (dict_or_empty ?risk_v) ''items'')"
      "dict_get decision ''status'' = JStr ''approved'' \<longrightarrow> dict_get (dict_or_empty ?risk_v) ''status'' = JStr ''none'' \<and>
         elems (dict_get (dict_or_empty ?risk_v) ''items'') = []"
      "dict_get decision ''status'' = JStr ''approved_with_residual_risk'' \<longrightarrow>
         check_accepted_risk (dict_or_empty ?risk_v) (elems (dict_get (dict_or_empty ?risk_v) ''items'')) now = Inr []"
    using parts(6) by (auto simp: check_risk_def decision Let_def bindE_ok collectE_nil simp del: collectE.simps)
  obtain risk items where risk: "?risk_v = JObj risk" "dict_get risk ''items'' = JArr items"
    using risk_parts(1,2) by (auto simp: is_obj_iff is_list_iff)
  show ?thesis
  proof (cases "dict_get decision ''status'' = JStr ''approved''")
    case True
    then have "dict_get risk ''status'' = JStr ''none''" "items = []" using risk_parts(3) risk by auto
    then show ?thesis using a identity sha vs(1) roles(1,2) signed decision risk True by blast
  next
    case False
    then have accepted: "check_accepted_risk risk items now = Inr []" "dict_get decision ''status'' = JStr ''approved_with_residual_risk''"
      using status risk_parts(4) risk by auto
    let ?t = "timestamp (dict_get risk ''expires_at'') ''$.residual_risk.expires_at''"
    have checked: "dict_get risk ''status'' = JStr ''accepted''" "items \<noteq> []" "fst ?t = []" "check_expiry (snd ?t) now = Inr []"
      using accepted(1) by (auto simp: check_accepted_risk_def split_beta bindE_ok)
    obtain d where d: "snd ?t = Some d" using checked(3) unfolding timestamp_nil by blast
    then obtain off where "utc_offset d = Some off" "now < local_us d - off"
      using checked(4) unfolding check_expiry_nil by blast
    with d checked(1,2) show ?thesis
      using a identity sha vs(1) roles(1,2) signed decision risk accepted(2) by blast
  qed
qed

text \<open>
  Where a residual-risk approval is required to pass and its expiry text parses to a time
  without an offset (a bare date followed by \<open>Z\<close> does), the check does not report the expiry:
  the comparison with the current time raises \<open>TypeError\<close>.
\<close>

theorem naive_expiry_raises:
  assumes "dict_get a ''release_decision'' = JObj decision"
    and "dict_get decision ''status'' = JStr ''approved_with_residual_risk''"
    and "dict_get a ''residual_risk'' = JObj risk" and "dict_get risk ''status'' = JStr risk_status"
    and "snd (timestamp (dict_get risk ''expires_at'') ''$.residual_risk.expires_at'') = Some d" and "utc_offset d = None"
  shows "validate_approval_payload (JObj a) version target sha True now = Inl TypeError"
proof -
  have "check_expiry (Some d) now = Inl TypeError" by (simp add: check_expiry_def not_after_def assms(6))
  then have raised: "check_accepted_risk risk items now = Inl TypeError" for items
    by (simp add: check_accepted_risk_def split_beta assms(5))
  have known: "in_str_set (JStr s) xs = Inr (s \<in> set xs)" for s xs by (simp add: in_str_set_def)
  have "check_risk (JObj risk) (JStr ''approved_with_residual_risk'') True now = Inl TypeError"
    by (simp add: check_risk_def Let_def assms(4) known raised)
  moreover have "\<exists>fs. check_decision decision True = Inr fs"
    by (simp add: check_decision_def Let_def assms(2) known)
  ultimately show ?thesis
    using dict_get_or_some [OF assms(3)] by (auto simp: validate_approval_payload_def Let_def assms(1,2))
qed

section \<open>Concrete inputs\<close>

definition approval_entry :: "string \<Rightarrow> json" where
  "approval_entry role = JObj [(''role'', JStr role), (''name'', JStr ''Ada''), (''approved_at'', JStr ''2026-01-02T03:04:05Z'')]"

definition sample_decision :: "string \<Rightarrow> json" where
  "sample_decision status = JObj [(''status'', JStr status), (''decided_by'', JStr ''Ada''),
     (''decided_at'', JStr ''2026-01-02T03:04:05Z''), (''rationale'', JStr ''ready'')]"

definition sample_approval :: obj where
  "sample_approval = [(''schema_version'', JStr APPROVAL_SCHEMA_VERSION), (''version'', JStr ''v1''), (''target'', JStr ''pc''),
     (''source_sha'', JStr (replicate 40 (CHR ''a''))),
     (''approvals'', JArr [approval_entry ''release-owner'', approval_entry ''maintainer'']),
     (''release_decision'', sample_decision ''approved'')]"

lemma sample_timestamp: "timestamp (JStr ''2026-01-02T03:04:05Z'') p = ([], Some \<lparr>local_us = 63902919845000000, utc_offset = Some 0\<rparr>)"
proof -
  have "parse_date ''2026-01-02'' = Some 739618"
    by (simp add: parse_date_def char_at_def digits_def is_ascii_digit_def code_def digits_val_def
        date_ordinal_def days_before_year_def month_lengths_def leap_def nth_Cons')
  moreover have "parse_time ''03:04:05+00:00'' = Some (11045000000, Some 0)"
    by (simp add: parse_time_def split_sign_def parse_hms_def parse_offset_def clock_time_def micros_def digits_def
        is_ascii_digit_def code_def digits_val_def char_at_def fraction_def day_micros_def)
  ultimately show ?thesis
    by (simp add: timestamp_def ends_with_def starts_with_def fromisoformat_def separator_at_def char_at_def nth_Cons' day_micros_def)
qed

lemma text_present: "nonblank_str (JStr (c # s))" if "\<not> is_space c" for c s
  using that by (auto simp: nonblank_str_iff strip_def lstrip_def rstrip_def dropWhile_eq_Nil_conv)

lemma letters_present: "\<not> is_space (CHR ''A'')" "\<not> is_space (CHR ''r'')" "\<not> is_space (CHR ''m'')" "\<not> is_space (CHR ''2'')"
  by (simp_all add: is_space_def code_def)

lemma dict_get_literal:
  "dict_get ((k, v) # kvs) j = (if j = k then v else dict_get kvs j)" "dict_get [] j = JNull"
  "dict_get_or ((k, v) # kvs) j w = (if j = k then v else dict_get_or kvs j w)" "dict_get_or [] j w = w"
  by (simp_all add: dict_get_def dict_get_or_def)

lemmas present = text_present letters_present

lemma sample_approval_accepted:
  "validate_approval_payload (JObj sample_approval) ''v1'' ''pc'' (Some (replicate 40 (CHR ''a''))) True 0 = Inr []"
proof -
  obtain d where d: "sample_decision ''approved'' = JObj d" "dict_get d ''status'' = JStr ''approved''"
      "check_decision d True = Inr []"
    by (simp add: check_decision_def sample_decision_def dict_get_literal in_str_set_def DECISION_STATUS_VALUES_def
        check_strings_def check_string_def present sample_timestamp)
  have "check_risk (JObj [(''status'', JStr ''none''), (''items'', JArr [])]) (JStr ''approved'') True 0 = Inr []"
    by code_simp
  moreover have "check_approval_list (JArr [approval_entry ''release-owner'', approval_entry ''maintainer'']) True = []"
    by (simp add: check_approval_list_def check_approval_def approval_entry_def Let_def dict_get_literal dict_has_def
        check_strings_def check_string_def present sample_timestamp check_roles_def)
  moreover have "check_source_sha (JStr (replicate 40 (CHR ''a''))) (Some (replicate 40 (CHR ''a''))) = []"
    by code_simp
  ultimately show ?thesis
    by (simp add: validate_approval_payload_def sample_approval_def dict_get_literal check_identity_def Let_def d)
qed

theorem approval_accepted_witness:
  "\<exists>vs roles. dict_get sample_approval ''approvals'' = JArr vs \<and> list_all2 approval_of vs roles \<and> ''release-owner'' \<in> set roles"
  using approval_accepted [OF sample_approval_accepted] by auto

definition naive_approval :: obj where
  "naive_approval = [(''release_decision'', sample_decision ''approved_with_residual_risk''),
     (''residual_risk'', JObj [(''status'', JStr ''accepted''), (''expires_at'', JStr ''2026-01-02Z'')])]"

theorem naive_expiry_raises_witness:
  "validate_approval_payload (JObj naive_approval) ''v1'' ''pc'' None True 0 = Inl TypeError"
proof -
  have "parse_date ''2026-01-02'' = Some 739618"
    by (simp add: parse_date_def char_at_def digits_def is_ascii_digit_def code_def digits_val_def
        date_ordinal_def days_before_year_def month_lengths_def leap_def nth_Cons')
  moreover have "parse_time ''00:00'' = Some (0, None)"
    by (simp add: parse_time_def split_sign_def parse_hms_def clock_time_def micros_def digits_def
        is_ascii_digit_def code_def digits_val_def char_at_def)
  ultimately have naive: "snd (timestamp (JStr ''2026-01-02Z'') p) = Some \<lparr>local_us = 63902908800000000, utc_offset = None\<rparr>" for p
    by (simp add: timestamp_def ends_with_def starts_with_def fromisoformat_def separator_at_def char_at_def
        nth_Cons' day_micros_def)
  let ?risk = "[(''status'', JStr ''accepted''), (''expires_at'', JStr ''2026-01-02Z'')]"
  obtain decision where decision: "sample_decision ''approved_with_residual_risk'' = JObj decision"
      "dict_get decision ''status'' = JStr ''approved_with_residual_risk''"
    by (simp add: sample_decision_def dict_get_literal)
  show ?thesis
    by (rule naive_expiry_raises [of _ decision ?risk "''accepted''" "\<lparr>local_us = 63902908800000000, utc_offset = None\<rparr>"])
      (simp_all add: naive_approval_def decision dict_get_literal naive)
qed

end
