(* ===== verification/Governance.thy ===== *)
theory Governance
  imports PyFiles
begin

text \<open>
  \<open>scripts/evidence/validate-governance.py\<close>: the check of a snapshot of the repository's GitHub
  settings (branch protection, rulesets, environments, CODEOWNERS, audit log) against the
  governance policy. The snapshot is a store of files below \<open>snapshot_root\<close>; the failures are
  the messages of the source, in its order.
\<close>

section \<open>Readers\<close>

text \<open>\<open>read_json\<close>: \<open>None\<close> for a missing file, an exception for malformed content.\<close>

definition read_json :: "store \<Rightarrow> path \<Rightarrow> json run" where
  "read_json fs p = (case fs p of None \<Rightarrow> Inr JNull
     | Some f \<Rightarrow> (case json_content f of None \<Rightarrow> Inl (ValueError ''JSONDecodeError'') | Some v \<Rightarrow> Inr v))"

definition gov_is_sha256 :: "json \<Rightarrow> bool" where
  "gov_is_sha256 v \<longleftrightarrow> is_str v \<and> length (text_of v) = 64 \<and>
     list_all (\<lambda>c. is_digit c \<or> (97 \<le> code c \<and> code c \<le> 102)) (text_of v) \<and>
     text_of v \<noteq> replicate 64 (CHR ''0'')"

definition status_check_contexts :: "obj \<Rightarrow> string list" where
  "status_check_contexts branch = (let required = dict_get branch ''required_status_checks'' in
     if \<not> is_obj required then []
     else let raw = dict_get (members required) ''contexts''; checks = dict_get (members required) ''checks'' in
       map text_of (filter is_str (elems raw))
       @ map (\<lambda>i. text_of (dict_get (members i) ''context''))
           (filter (\<lambda>i. is_obj i \<and> is_str (dict_get (members i) ''context'')) (elems checks)))"

definition has_rule :: "json list \<Rightarrow> string \<Rightarrow> bool" where
  "has_rule rules t \<longleftrightarrow> list_ex (\<lambda>r. is_obj r \<and> dict_get (members r) ''type'' = JStr t) rules"

definition ruleset_named :: "json \<Rightarrow> string \<Rightarrow> string \<Rightarrow> obj option" where
  "ruleset_named rulesets name target =
     (let items = (if is_obj rulesets then dict_get (members rulesets) ''rulesets'' else rulesets) in
      case find (\<lambda>i. is_obj i \<and> dict_get (members i) ''name'' = JStr name \<and>
                     dict_get (members i) ''target'' = JStr target) (elems items) of
        None \<Rightarrow> None | Some i \<Rightarrow> Some (members i))"

definition ruleset_ref_includes :: "obj \<Rightarrow> string \<Rightarrow> string list \<Rightarrow> bool" where
  "ruleset_ref_includes ruleset expected aliases =
     (let conditions = dict_get ruleset ''conditions'';
          ref_name = dict_get (members conditions) ''ref_name'';
          includes = dict_get (members ref_name) ''include'' in
      is_obj conditions \<and> is_obj ref_name \<and> is_list includes \<and>
      list_ex (\<lambda>i. is_str i \<and> text_of i \<in> set (expected # aliases)) (elems includes))"

definition reviewer_rules :: "obj \<Rightarrow> obj list" where
  "reviewer_rules environment = map members (filter (\<lambda>r. is_obj r \<and>
     dict_get (members r) ''type'' = JStr ''required_reviewers'')
     (elems (dict_get environment ''protection_rules'')))"

definition rule_reviewers :: "obj \<Rightarrow> int" where
  "rule_reviewers rule = (let raw = dict_get rule ''reviewers''; n = dict_get rule ''reviewer_count'' in
     if is_list raw then int (length (elems raw)) else if is_int n then int_of n else 0)"

definition environment_reviewers :: "obj \<Rightarrow> int" where
  "environment_reviewers environment = sum_list (map rule_reviewers (reviewer_rules environment))"

definition reviewer_names :: "json \<Rightarrow> string list" where
  "reviewer_names item = (if \<not> is_obj item then []
     else let reviewer = dict_get (members item) ''reviewer'';
              kind = lower (py_str (dict_get_or (members item) ''type'' (JStr []))) in
       if \<not> is_obj reviewer then []
       else concat (map (\<lambda>k. let v = dict_get (members reviewer) k in
         if nonempty_str v then [text_of v, kind @ '':'' @ text_of v] else []) [''slug'', ''login'', ''name'']))"

definition environment_reviewer_identities :: "obj \<Rightarrow> string list" where
  "environment_reviewer_identities environment =
     concat (map (\<lambda>rule. concat (map reviewer_names (elems (dict_get rule ''reviewers''))))
       (reviewer_rules environment))"

definition environment_prevents_self_review :: "obj \<Rightarrow> bool" where
  "environment_prevents_self_review environment \<longleftrightarrow>
     dict_get environment ''prevent_self_review'' = JBool True \<or>
     list_ex (\<lambda>rule. dict_get rule ''prevent_self_review'' = JBool True) (reviewer_rules environment)"

definition deployment_policy_patterns :: "json \<Rightarrow> string list" where
  "deployment_policy_patterns snapshot =
     (let items = (if is_obj snapshot then dict_get (members snapshot) ''branch_policies'' else snapshot) in
      concat (map (\<lambda>i. let name = dict_get (members i) ''name'' in
        if is_obj i \<and> is_str name then text_of name #
          (if dict_get (members i) ''type'' = JStr ''tag'' \<and> \<not> starts_with (text_of name) ''refs/tags/''
           then [''refs/tags/'' @ text_of name] else [])
        else []) (elems items)))"

definition codeowners_patterns :: "json \<Rightarrow> string list" where
  "codeowners_patterns snapshot = (if is_obj snapshot \<and> is_list (dict_get (members snapshot) ''patterns'')
     then map py_str (elems (dict_get (members snapshot) ''patterns'')) else [])"

section \<open>Snapshot manifest\<close>

definition gov_file :: "path \<Rightarrow> string \<Rightarrow> path" where
  "gov_file snapshot_root name = path_join snapshot_root (path_of name)"

definition manifest_entry_name :: "json \<Rightarrow> string option" where
  "manifest_entry_name item = (let name = dict_get (members item) ''name'' in
     if is_obj item \<and> nonempty_str name \<and> CHR ''/'' \<notin> set (text_of name) \<and>
        text_of name \<noteq> ''snapshot-manifest.json''
     then Some (text_of name) else None)"

definition check_manifest_file :: "store \<Rightarrow> path \<Rightarrow> string \<Rightarrow> json \<Rightarrow> string list" where
  "check_manifest_file fs snapshot_root name digest = (let p = gov_file snapshot_root name in
     if \<not> gov_is_sha256 digest then [''snapshot manifest file '' @ name @ '' must include a sha256'']
     else if \<not> nonempty_file fs p then [''snapshot manifest file missing: '' @ name]
     else report (JStr (file_sha fs p) \<noteq> digest) (''snapshot manifest sha mismatch: '' @ name))"

definition check_manifest_entry :: "store \<Rightarrow> path \<Rightarrow> json \<Rightarrow> string list" where
  "check_manifest_entry fs snapshot_root item =
     (if \<not> is_obj item then [''snapshot-manifest.json files entries must be objects'']
      else case manifest_entry_name item of
        None \<Rightarrow> [''snapshot-manifest.json file names must be single relative filenames'']
      | Some name \<Rightarrow> check_manifest_file fs snapshot_root name (dict_get (members item) ''sha256''))"

definition REQUIRED_SNAPSHOT_FILES :: "string list" where
  "REQUIRED_SNAPSHOT_FILES = [''repo.json'', ''rulesets.json'', ''main-branch-protection.json'',
     ''release-sign-environment.json'', ''release-publish-environment.json'',
     ''workflow-permissions.json'', ''codeowners.json'', ''audit-log.json'']"

definition check_manifest_files :: "store \<Rightarrow> path \<Rightarrow> json list \<Rightarrow> string list" where
  "check_manifest_files fs snapshot_root items =
     (let seen = List.map_filter manifest_entry_name items in
      concat (map (check_manifest_entry fs snapshot_root) items)
      @ concat (map (\<lambda>r. report (r \<notin> set seen) (''snapshot manifest missing required file: '' @ r))
          REQUIRED_SNAPSHOT_FILES))"

definition validate_snapshot_manifest :: "store \<Rightarrow> path \<Rightarrow> obj \<Rightarrow> string list run" where
  "validate_snapshot_manifest fs snapshot_root policy =
     bindE (read_json fs (gov_file snapshot_root ''snapshot-manifest.json'')) (\<lambda>manifest.
     bindE (read_json fs (gov_file snapshot_root ''repo.json'')) (\<lambda>repo.
     let expected_repo = dict_get policy ''repository''; m = members manifest; files = dict_get m ''files'' in
     Inr (if \<not> is_obj manifest then [''snapshot-manifest.json must be collected'']
       else report (dict_get m ''schema_version'' \<noteq> JStr ''suderra.github-governance-snapshot-manifest.v1'')
              ''snapshot-manifest.json schema_version is invalid''
         @ report (truthy expected_repo \<and> \<not> py_eq (dict_get m ''repository'') expected_repo)
              ''snapshot manifest repository must match governance policy''
         @ report (is_obj repo \<and> truthy expected_repo \<and>
                   \<not> py_eq (dict_get (members repo) ''full_name'') expected_repo)
              ''repo.json full_name must match governance policy repository''
         @ report (truthy (dict_get m ''failures''))
              ''governance snapshot manifest must not contain collection failures''
         @ (if \<not> is_list files \<or> elems files = []
            then [''snapshot-manifest.json files must be a non-empty list'']
            else check_manifest_files fs snapshot_root (elems files)))))"

section \<open>Audit log\<close>

definition AUDIT_SOURCES :: "string list" where
  "AUDIT_SOURCES = [''organization'', ''enterprise'', ''manual-org-export'', ''manual-enterprise-export'']"

definition check_audit_window :: "json \<Rightarrow> string list" where
  "check_audit_window window = (let w = members window in
     if \<not> is_obj window then [''audit log must include lookback_window'']
     else report (\<not> nonempty_str (dict_get w ''start'')) ''audit log must include lookback_window.start''
       @ report (\<not> nonempty_str (dict_get w ''end'')) ''audit log must include lookback_window.end''
       @ report (\<not> int_above 0 (dict_get w ''days'')) ''audit log must include positive lookback_window.days'')"

definition check_raw_export :: "json \<Rightarrow> string list" where
  "check_raw_export raw = (let r = members raw in
     if \<not> is_obj raw then [''audit log must include raw_export'']
     else report (\<not> nonempty_str (dict_get r ''path'')) ''audit log must include raw_export.path''
       @ report (\<not> int_above 0 (dict_get r ''bytes'')) ''audit log must include positive raw_export.bytes''
       @ report (\<not> gov_is_sha256 (dict_get r ''sha256'')) ''audit log must include raw_export.sha256'')"

definition check_replay :: "json \<Rightarrow> string list" where
  "check_replay replay = (let r = members replay; u = dict_get r ''unapproved_events'' in
     if \<not> is_obj replay then [''audit log must include replay'']
     else report (dict_get r ''status'' \<noteq> JStr ''passed'') ''audit log replay.status must be passed''
       @ report (u \<noteq> JArr [] \<and> u \<noteq> JNull) ''audit log replay.unapproved_events must be empty'')"

definition validate_audit_log :: "json \<Rightarrow> string list run" where
  "validate_audit_log audit_log = (let a = members audit_log; collector = dict_get a ''collector'' in
     if \<not> is_obj audit_log then Inr [''audit-log.json must be collected'']
     else bindE (in_str_set (dict_get a ''source_kind'') AUDIT_SOURCES) (\<lambda>known_source. Inr
      (report (dict_get a ''schema_version'' \<noteq> JStr ''suderra.audit-log-snapshot.v1'')
         ''audit-log.json schema_version is invalid''
       @ report (dict_get a ''status'' \<noteq> JStr ''collected'') ''audit log must be collected''
       @ report (truthy (dict_get a ''unapproved_governance_changes''))
           ''audit log contains unapproved governance changes''
       @ report (\<not> gov_is_sha256 (dict_get a ''events_sha256'')) ''audit log must include events_sha256''
       @ report (\<not> known_source) ''audit log must identify an org/enterprise source''
       @ concat (map (\<lambda>f. report (\<not> nonempty_str (dict_get a f)) (''audit log must include '' @ f))
           [''repository'', ''query''])
       @ report (\<not> int_above (- 1) (dict_get a ''event_count''))
           ''audit log must include non-negative event_count''
       @ report (\<not> is_obj collector \<or> \<not> nonempty_str (dict_get (members collector) ''identity''))
           ''audit log must include collector.identity''
       @ check_audit_window (dict_get a ''lookback_window'')
       @ check_raw_export (dict_get a ''raw_export'')
       @ check_replay (dict_get a ''replay''))))"

section \<open>Environments\<close>

definition check_deployment_policy :: "string \<Rightarrow> json \<Rightarrow> json \<Rightarrow> string list" where
  "check_deployment_policy env_name allowed_ref dp = (let d = members dp;
       custom = dict_get d ''custom_branch_policies'' = JBool True in
     if is_obj dp then
       report (dict_get d ''protected_branches'' = JBool True \<and> \<not> custom)
         (env_name @ '' environment must use selected tag refs, not only protected branches'')
       @ report (truthy allowed_ref \<and> \<not> custom) (env_name @ '' environment must use custom selected tag refs'')
     else report (truthy allowed_ref) (env_name @ '' environment deployment branch policy must be collected''))"

definition check_allowed_ref :: "string \<Rightarrow> json \<Rightarrow> json \<Rightarrow> string list" where
  "check_allowed_ref env_name allowed_ref policies = (let patterns = deployment_policy_patterns policies;
       r = py_str allowed_ref in
     report (truthy allowed_ref \<and> r \<notin> set patterns \<and> remove_prefix r ''refs/tags/'' \<notin> set patterns)
       (env_name @ '' environment deployment policy must include '' @ r))"

definition check_environment :: "string \<Rightarrow> obj \<Rightarrow> json \<Rightarrow> obj \<Rightarrow> string list run" where
  "check_environment env_name env_policy policies environment =
     bindE (py_int (dict_get_or env_policy ''minimum_reviewers'' (JInt 1))) (\<lambda>minimum.
     let required = dict_get_or env_policy ''required_reviewers'' (JArr []);
         identities = environment_reviewer_identities environment;
         missing = sort (filter (\<lambda>r. r \<notin> set identities) (map py_str (elems required)));
         allowed_ref = dict_get env_policy ''allowed_ref'' in
     Inr (report (dict_get environment ''name'' \<noteq> JStr env_name) (env_name @ '' environment name mismatch'')
       @ report (environment_reviewers environment < minimum) (env_name @ '' environment must require reviewers'')
       @ report (missing \<noteq> []) (env_name @ '' environment missing required reviewer identities: '' @ comma_join missing)
       @ report (dict_get env_policy ''prevent_self_review'' = JBool True \<and>
                 \<not> environment_prevents_self_review environment)
           (env_name @ '' environment must prevent self review'')
       @ check_deployment_policy env_name allowed_ref (dict_get environment ''deployment_branch_policy'')
       @ check_allowed_ref env_name allowed_ref policies))"

definition validate_environment_policy :: "store \<Rightarrow> path \<Rightarrow> json \<Rightarrow> string \<Rightarrow> string list run" where
  "validate_environment_policy fs snapshot_root env_policy policy_name =
     (let name = dict_get (members env_policy) ''name''; env_name = text_of name in
      if \<not> is_obj env_policy then Inr [policy_name @ '' policy must be an object'']
      else if \<not> nonempty_str name then Inr [policy_name @ '' policy must name a GitHub environment'']
      else bindE (read_json fs (gov_file snapshot_root (env_name @ ''-environment.json''))) (\<lambda>environment.
           bindE (read_json fs (gov_file snapshot_root (env_name @ ''-deployment-branch-policies.json'')))
             (\<lambda>policies.
             if is_obj environment then check_environment env_name (members env_policy) policies (members environment)
             else Inr [''missing '' @ env_name @ ''-environment.json''])))"

section \<open>Branch protection\<close>

text \<open>\<open>branch.get(k, {}).get("enabled") is True\<close>.\<close>

definition enabled :: "obj \<Rightarrow> string \<Rightarrow> bool run" where
  "enabled branch k = bindE (nested_get branch k ''enabled'') (\<lambda>v. Inr (v = JBool True))"

definition check_reviews :: "obj \<Rightarrow> int \<Rightarrow> string list" where
  "check_reviews branch minimum = (let required = dict_get branch ''required_pull_request_reviews'';
       reviews = members required; approvals = dict_get reviews ''required_approving_review_count'' in
     report (\<not> truthy required) ''main branch must require pull request reviews''
     @ (if truthy required \<and> \<not> is_obj required then []
        else report (\<not> truthy (dict_get reviews ''require_code_owner_reviews''))
               ''main branch must require CODEOWNERS review''
          @ report (\<not> truthy (dict_get reviews ''dismiss_stale_reviews''))
               ''main branch must dismiss stale reviews''
          @ report (\<not> is_int approvals \<or> int_of approvals < minimum)
               (''main branch must require at least '' @ int_str minimum @ '' approvals'')))"

definition check_branch_flag :: "obj \<Rightarrow> string \<Rightarrow> bool \<Rightarrow> string \<Rightarrow> string list run" where
  "check_branch_flag branch k wanted m = bindE (enabled branch k) (\<lambda>b. Inr (report (b \<noteq> wanted) m))"

definition check_status_checks :: "obj \<Rightarrow> obj \<Rightarrow> string list run" where
  "check_status_checks policy branch =
     bindE (string_members (dict_get_or policy ''required_checks'' (JArr []))) (\<lambda>wanted.
     let live = status_check_contexts branch;
         missing = sorted_set (minus_list wanted live); extra = sorted_set (minus_list live wanted) in
     Inr (report (missing \<noteq> []) (''missing required status checks: '' @ comma_join missing)
       @ report (extra \<noteq> []) (''unexpected required status checks: '' @ comma_join extra)))"

definition check_branch :: "obj \<Rightarrow> json \<Rightarrow> string list run" where
  "check_branch policy branch_v = (let branch = members branch_v;
       branch_policy = dict_or_empty (dict_get_or policy ''branch_protection'' (JObj []));
       checks = dict_get branch ''required_status_checks'' in
     if \<not> is_obj branch_v then Inr [''missing main-branch-protection.json'']
     else bindE (py_int (dict_get_or branch_policy ''minimum_approving_reviews'' (JInt 1))) (\<lambda>minimum. collectE
       [Inr (check_reviews branch minimum
          @ report (\<not> is_obj checks \<or> dict_get (members checks) ''strict'' \<noteq> JBool True)
              ''main branch required status checks must require up-to-date branches''),
        check_branch_flag branch ''enforce_admins'' True ''main branch protection must enforce admins'',
        check_branch_flag branch ''allow_force_pushes'' False ''main branch must not allow force pushes'',
        check_branch_flag branch ''allow_deletions'' False ''main branch must not allow deletions'',
        check_branch_flag branch ''required_linear_history'' True ''main branch must require linear history'',
        check_branch_flag branch ''required_signatures'' True ''main branch must require signed commits'',
        check_status_checks policy branch]))"

section \<open>Rulesets\<close>

definition ruleset_rules :: "obj \<Rightarrow> json list" where
  "ruleset_rules ruleset = elems (dict_get ruleset ''rules'')"

definition check_bypass :: "obj \<Rightarrow> obj \<Rightarrow> string \<Rightarrow> string list" where
  "check_bypass rule_policy ruleset kind =
     report (dict_get rule_policy ''allow_bypass_actors'' = JBool False \<and> truthy (dict_get ruleset ''bypass_actors''))
       (kind @ '' ruleset must not have bypass actors'')"

definition check_branch_ruleset :: "obj \<Rightarrow> obj \<Rightarrow> json \<Rightarrow> string list" where
  "check_branch_ruleset policy rule_policy rulesets =
     (case ruleset_named rulesets (py_str (dict_get_or rule_policy ''branch_name'' (JStr []))) ''branch'' of
        None \<Rightarrow> [''missing active branch ruleset'']
      | Some ruleset \<Rightarrow> let b = py_str (dict_get_or policy ''protected_branch'' (JStr ''main'')) in
          report (dict_get ruleset ''enforcement'' \<noteq> JStr ''active'') ''branch ruleset must be active''
          @ check_bypass rule_policy ruleset ''branch''
          @ concat (map (\<lambda>r. report (\<not> has_rule (ruleset_rules ruleset) r) (''branch ruleset missing rule: '' @ r))
              [''pull_request'', ''required_signatures'', ''non_fast_forward'', ''required_linear_history''])
          @ report (\<not> ruleset_ref_includes ruleset (''refs/heads/'' @ b) [b, ''~DEFAULT_BRANCH''])
              (''branch ruleset must apply to refs/heads/'' @ b))"

definition check_tag_ruleset :: "obj \<Rightarrow> obj \<Rightarrow> json \<Rightarrow> string list run" where
  "check_tag_ruleset policy rule_policy rulesets =
     (case ruleset_named rulesets (py_str (dict_get_or rule_policy ''tag_name'' (JStr []))) ''tag'' of
        None \<Rightarrow> Inr [''release tag ruleset must exist'']
      | Some ruleset \<Rightarrow>
          bindE (dict_of (dict_get_or policy ''release_environment'' (JObj []))) (\<lambda>env.
          let r = py_str (dict_get_or env ''allowed_ref'' (JStr ''refs/tags/v*'')) in
          Inr (report (dict_get ruleset ''enforcement'' \<noteq> JStr ''active'') ''tag ruleset must be active''
            @ check_bypass rule_policy ruleset ''tag''
            @ report (\<not> has_rule (ruleset_rules ruleset) ''non_fast_forward'')
                ''tag ruleset missing rule: non_fast_forward''
            @ report (\<not> ruleset_ref_includes ruleset r [remove_prefix r ''refs/tags/''])
                (''tag ruleset must apply to '' @ r))))"

section \<open>The whole snapshot\<close>

definition check_workflow_permissions :: "json \<Rightarrow> string list" where
  "check_workflow_permissions v = (let w = members v in if \<not> is_obj v then []
     else report (dict_get w ''default_workflow_permissions'' = JStr ''write'')
            ''repository default workflow permissions must not be write''
       @ report (dict_get w ''can_approve_pull_request_reviews'' = JBool True)
            ''GitHub Actions must not approve pull request reviews'')"

definition check_codeowners :: "obj \<Rightarrow> json \<Rightarrow> string list run" where
  "check_codeowners policy codeowners =
     bindE (string_members (dict_get_or policy ''required_codeowners_patterns'' (JArr []))) (\<lambda>wanted.
     let missing = sorted_set (minus_list wanted (codeowners_patterns codeowners)) in
     Inr (report (missing \<noteq> []) (''missing CODEOWNERS patterns: '' @ comma_join missing)))"

definition GOVERNANCE_POLICY_SCHEMAS :: "string list" where
  "GOVERNANCE_POLICY_SCHEMAS = [''suderra.github-governance-policy.v2'', ''suderra.github-governance-policy.v1'']"

record snapshot =
  branch_doc :: json
  rulesets_doc :: json
  tag_protection_doc :: json
  permissions_doc :: json
  codeowners_doc :: json
  audit_doc :: json

definition read_snapshot :: "store \<Rightarrow> path \<Rightarrow> snapshot run" where
  "read_snapshot fs snapshot_root = (let rd = \<lambda>n. read_json fs (gov_file snapshot_root n) in
     bindE (rd ''main-branch-protection.json'') (\<lambda>b. bindE (rd ''rulesets.json'') (\<lambda>r.
     bindE (rd ''tag-protection.json'') (\<lambda>t. bindE (rd ''workflow-permissions.json'') (\<lambda>w.
     bindE (rd ''codeowners.json'') (\<lambda>c. bindE (rd ''audit-log.json'') (\<lambda>a.
       Inr \<lparr>branch_doc = b, rulesets_doc = r, tag_protection_doc = t, permissions_doc = w,
            codeowners_doc = c, audit_doc = a\<rparr>)))))))"

definition governance_failures :: "store \<Rightarrow> path \<Rightarrow> obj \<Rightarrow> snapshot \<Rightarrow> string list run" where
  "governance_failures fs snapshot_root policy s = collectE
     [check_branch policy (branch_doc s),
      bindE (dict_of (dict_get_or policy ''ruleset'' (JObj []))) (\<lambda>rule_policy. collectE
        [Inr (check_branch_ruleset policy rule_policy (rulesets_doc s)),
         check_tag_ruleset policy rule_policy (rulesets_doc s)]),
      validate_environment_policy fs snapshot_root (dict_get policy ''signing_environment'') ''signing_environment'',
      validate_environment_policy fs snapshot_root (dict_get policy ''release_environment'') ''release_environment'',
      Inr (check_workflow_permissions (permissions_doc s)),
      check_codeowners policy (codeowners_doc s),
      validate_audit_log (audit_doc s)]"

definition governance_warnings :: "snapshot \<Rightarrow> string list" where
  "governance_warnings s =
     report (truthy (tag_protection_doc s))
       ''legacy tag protection snapshot is ignored; release tags must be governed by rulesets''
     @ report (\<not> is_obj (permissions_doc s)) ''workflow-permissions.json not collected''"

text \<open>\<open>now\<close> is the formatted time of the run.\<close>

definition validate_governance :: "store \<Rightarrow> path \<Rightarrow> string \<Rightarrow> obj \<Rightarrow> obj run" where
  "validate_governance fs snapshot_root now policy =
     bindE (in_str_set (dict_get policy ''schema_version'') GOVERNANCE_POLICY_SCHEMAS) (\<lambda>known.
     bindE (validate_snapshot_manifest fs snapshot_root policy) (\<lambda>manifest_failures.
     bindE (read_snapshot fs snapshot_root) (\<lambda>s.
     bindE (governance_failures fs snapshot_root policy s) (\<lambda>rest.
     let failures = report (\<not> known) ''policy schema_version must be suderra.github-governance-policy.v2''
           @ manifest_failures @ rest in
     Inr [(''schema_version'', JStr ''suderra.github-governance-validation.v2''),
          (''status'', JStr (if failures = [] then ''passed'' else ''failed'')),
          (''generated_at'', JStr now), (''policy'', JStr (path_str snapshot_root)),
          (''failures'', JArr (map JStr failures)),
          (''warnings'', JArr (map JStr (governance_warnings s)))]))))"

end
