(* ===== verification/QemuInput.thy ===== *)
theory QemuInput
  imports PyFiles
begin

text \<open>
  \<open>scripts/evidence/validate-qemu-input.py\<close>: the check of the evidence of a QEMU acceptance run
  (identity, digests, termination, logs, checks, guest facts) under a profile. The result is the
  list of messages in the source's order; looking a list or an object up in a set of names
  raises.
\<close>

section \<open>Constants\<close>

definition QEMU_SCHEMA :: string where
  "QEMU_SCHEMA = ''suderra.qemu-acceptance.v4''"

definition QEMU_LEGACY_SCHEMAS :: "string list" where
  "QEMU_LEGACY_SCHEMAS = [''suderra.qemu-acceptance.v2'', ''suderra.qemu-acceptance.v3'']"

definition QEMU_STATUS_VALUES :: "string list" where
  "QEMU_STATUS_VALUES = [''passed'', ''failed'', ''infra-error'', ''infra_error'', ''timeout'',
     ''not-applicable'', ''not_applicable'']"

definition FAILURE_CLASSES :: "string list" where
  "FAILURE_CLASSES = [''none'', ''timeout'', ''infra_error'', ''semantic_failure'', ''security_failure'',
     ''operator_error'']"

definition QEMU_REQUIRED_CHECKS :: "string list" where
  "QEMU_REQUIRED_CHECKS = [''boot'', ''systemd'', ''zero-failed-units'', ''no-kernel-panic'',
     ''no-emergency-mode'', ''os-release'', ''kernel'', ''rootfs'', ''network'',
     ''firstboot-idempotence'', ''lockdown-transition'', ''listeners'', ''firewall'']"

definition REQUIRED_STRICT_LOG_ROLES :: "string list" where
  "REQUIRED_STRICT_LOG_ROLES = [''serial'', ''qmp-events'', ''qemu-stderr'', ''qemu-semantic'']"

definition QEMU_PLACEHOLDERS :: "string list" where
  "QEMU_PLACEHOLDERS = [''TO_BE_COLLECTED'', ''NOT_COLLECTED'', ''not_collected'', ''pending'', ''PENDING'']"

definition SEMANTIC_FACT_FIELDS :: "string list" where
  "SEMANTIC_FACT_FIELDS = [''os_release'', ''kernel'', ''rootfs'', ''failed_units'', ''network'',
     ''listeners'', ''firewall'', ''firstboot'', ''lockdown'']"

definition PRODUCTION_FACT_FIELDS :: "string list" where
  "PRODUCTION_FACT_FIELDS = [''secure_boot'', ''dm_verity'', ''rauc'', ''data_encryption'', ''anti_rollback'']"

definition SEMANTIC_CHECKS :: "string list" where
  "SEMANTIC_CHECKS = [''zero-failed-units'', ''os-release'', ''kernel'', ''rootfs'', ''network'',
     ''firstboot-idempotence'', ''lockdown-transition'', ''listeners'', ''firewall'']"

definition PRODUCTION_RUNTIME_CHECKS :: "string list" where
  "PRODUCTION_RUNTIME_CHECKS = [''secure-boot-enforced'', ''dm-verity-tamper-rejection'',
     ''rauc-good-update'', ''rauc-bad-signature-rejection'', ''rauc-health-rollback'', ''data-luks'',
     ''anti-rollback'']"

definition STRICT_PROFILES :: "string list" where
  "STRICT_PROFILES = [''release-candidate'', ''production-candidate'', ''production-runtime'']"

definition PRODUCTION_PROFILES :: "string list" where
  "PRODUCTION_PROFILES = [''production-candidate'', ''production-runtime'']"

section \<open>Field checks\<close>

definition q_string :: "string \<Rightarrow> json \<Rightarrow> string list" where
  "q_string p v = report (\<not> nonblank_str v) (msg p ''must be a non-empty string'')"

definition q_placeholder :: "string \<Rightarrow> json \<Rightarrow> string list" where
  "q_placeholder p v = report (is_str v \<and> strip (text_of v) \<in> set QEMU_PLACEHOLDERS)
     (msg p ''must not be placeholder evidence'')"

definition q_sha256 :: "string \<Rightarrow> json \<Rightarrow> string list" where
  "q_sha256 p v = (if \<not> is_str v \<or> \<not> lower_hex_of_length 64 (text_of v)
     then [msg p ''must be a lowercase sha256 hex digest'']
     else report (text_of v = replicate 64 (CHR ''0'')) (msg p ''must not be the all-zero sha256 digest''))"

text \<open>\<open>check_relative_file\<close>: the messages and the path the value denotes.\<close>

definition q_relative_file ::
  "store \<Rightarrow> path \<Rightarrow> string \<Rightarrow> json \<Rightarrow> bool \<Rightarrow> string option \<Rightarrow> bool \<Rightarrow> string list \<times> path option" where
  "q_relative_file fs base p v check_files expected allow_empty =
     (let rel = path_of (text_of v); actual = path_join base rel in
      if \<not> is_str v then (q_string p v, None)
      else if absolute rel \<or> ''..'' \<in> set (parts rel)
      then (q_string p v @ [msg p (''must be relative and must not contain '' @ repr_str ''..'')], None)
      else if check_files \<and> (\<not> is_file fs actual \<or> (\<not> nonempty_file fs actual \<and> \<not> allow_empty))
      then (q_string p v @ [msg p (''referenced file is missing or empty: '' @ text_of v)], Some actual)
      else (q_string p v @ (case expected of None \<Rightarrow> [] | Some sha \<Rightarrow>
              report (check_files \<and> is_file fs actual \<and> file_sha fs actual \<noteq> sha)
                (msg p (''referenced file sha256 mismatch: expected '' @ sha @ '', got '' @ file_sha fs actual))),
            Some actual))"

definition q_semantic_fact :: "obj \<Rightarrow> obj \<Rightarrow> string \<Rightarrow> string list" where
  "q_semantic_fact payload facts f =
     report (\<not> dict_has payload f) (msg (''$.logs[qemu-semantic].'' @ f) ''must be present in semantic QEMU JSON'')
     @ report (dict_has facts f \<and> \<not> py_eq (dict_get payload f) (dict_get facts f))
         (msg (''$.guest_facts.'' @ f) ''must match qemu-semantic log payload'')"

definition check_semantic_log :: "store \<Rightarrow> path option \<Rightarrow> obj \<Rightarrow> bool \<Rightarrow> string list" where
  "check_semantic_log fs slog facts check_files = (if \<not> check_files then [] else
     (case slog of None \<Rightarrow> [] | Some p \<Rightarrow>
      (case load_doc fs p of
        OsError \<Rightarrow> [msg ''$.logs[qemu-semantic].path'' ''cannot read semantic QEMU JSON: OSError'']
      | BadJson \<Rightarrow> [msg ''$.logs[qemu-semantic].path'' ''cannot read semantic QEMU JSON: JSONDecodeError'']
      | Loaded (JObj payload) \<Rightarrow>
          report (dict_get payload ''schema_version'' \<noteq> JStr ''suderra.qemu-semantic.v1'')
            (msg ''$.logs[qemu-semantic].schema_version'' ''must be suderra.qemu-semantic.v1'')
          @ concat (map (q_semantic_fact payload facts) SEMANTIC_FACT_FIELDS)
      | Loaded _ \<Rightarrow> [msg ''$.logs[qemu-semantic].path'' ''semantic QEMU JSON must be an object''])))"

section \<open>Identity\<close>

text \<open>The two path components after the last \<open>release-lab-input\<close>.\<close>

definition expected_from_qemu_path :: "path \<Rightarrow> string option \<times> string option" where
  "expected_from_qemu_path p = (let ps = split_on (CHR ''/'') (path_str p);
       after = rev (takeWhile (\<lambda>x. x \<noteq> ''release-lab-input'') (rev ps)) in
     if path_name p \<noteq> ''qemu.json'' \<or> ''release-lab-input'' \<notin> set ps then (None, None)
     else case after of v # t # _ \<Rightarrow> (Some v, Some t) | _ \<Rightarrow> (None, None))"

definition q_match :: "string option \<Rightarrow> string \<Rightarrow> string \<Rightarrow> json \<Rightarrow> string list" where
  "q_match expected p m v = (case expected of None \<Rightarrow> []
     | Some e \<Rightarrow> report (v \<noteq> JStr e) (msg p (m @ e)))"

definition check_binding ::
  "obj \<Rightarrow> string option \<Rightarrow> string option \<Rightarrow> string option \<Rightarrow> string option \<Rightarrow> string list" where
  "check_binding payload version target source_sha artifact_sha = (let sha = dict_get payload ''source_sha'' in
     q_match version ''$.version'' ''must match QEMU evidence path version '' (dict_get payload ''version'')
     @ q_match target ''$.target'' ''must match QEMU evidence path target '' (dict_get payload ''target'')
     @ q_match source_sha ''$.source_sha'' ''must match bound source sha '' sha
     @ report (sha \<noteq> JNull \<and> (\<not> is_str sha \<or> \<not> lower_hex_of_length 40 (text_of sha)))
         (msg ''$.source_sha'' ''must be a lowercase git commit sha'')
     @ q_match artifact_sha ''$.image_sha256'' ''must match bound artifact sha256 '' (dict_get payload ''image_sha256''))"

section \<open>Termination\<close>

definition q_passed_termination :: "obj \<Rightarrow> obj \<Rightarrow> string list" where
  "q_passed_termination payload t =
     report (dict_get t ''acceptable'' \<noteq> JBool True)
       (msg ''$.termination.acceptable'' ''must be true for passed QEMU evidence'')
     @ report (dict_get t ''killed'' \<noteq> JBool False)
         (msg ''$.termination.killed'' ''must be false for passed QEMU evidence'')
     @ report (dict_get t ''timeout'' \<noteq> JBool False)
         (msg ''$.termination.timeout'' ''must be false for passed QEMU evidence'')
     @ report (\<not> py_eq (dict_get t ''exit_status'') (JInt 0))
         (msg ''$.termination.exit_status'' ''must be 0 for passed QEMU evidence'')
     @ report (\<not> py_eq (dict_get payload ''qemu_exit_status'') (JInt 0))
         (msg ''$.qemu_exit_status'' ''must be 0 for passed QEMU evidence'')"

definition validate_termination :: "obj \<Rightarrow> bool \<Rightarrow> string \<Rightarrow> string list" where
  "validate_termination payload require_pass profile = (let tv = dict_get payload ''termination''; t = members tv;
       exit_status = dict_get t ''exit_status''; sig = dict_get t ''signal'' in
     if dict_get payload ''schema_version'' \<noteq> JStr QEMU_SCHEMA then
       report (profile \<in> set STRICT_PROFILES) (msg ''$.schema_version'' (''strict QEMU profile requires '' @ QEMU_SCHEMA))
     else if \<not> is_obj tv then [msg ''$.termination'' ''must be an object'']
     else concat (map (\<lambda>f. q_string (''$.termination.'' @ f) (dict_get t f)) [''mode'', ''reason''])
       @ concat (map (\<lambda>f. report (\<not> is_bool (dict_get t f)) (msg (''$.termination.'' @ f) ''must be a boolean''))
           [''killed'', ''timeout'', ''qmp_quit_sent'', ''qmp_quit_ack'', ''acceptable''])
       @ report (exit_status \<noteq> JNull \<and> \<not> is_int exit_status)
           (msg ''$.termination.exit_status'' ''must be an integer or null'')
       @ report (sig \<noteq> JNull \<and> \<not> int_above 0 sig) (msg ''$.termination.signal'' ''must be a positive integer or null'')
       @ (if require_pass \<or> dict_get payload ''status'' = JStr ''passed'' then q_passed_termination payload t else []))"

section \<open>Production facts\<close>

definition fact_of :: "obj \<Rightarrow> string \<Rightarrow> string \<Rightarrow> json" where
  "fact_of facts k f = dict_get (members (dict_get facts k)) f"

definition q_flag :: "obj \<Rightarrow> string \<Rightarrow> string \<Rightarrow> string list" where
  "q_flag facts k f = report (fact_of facts k f \<noteq> JBool True)
     (msg (''$.guest_facts.'' @ k @ ''.'' @ f) ''must be true for production-runtime'')"

definition shows_verity :: "json \<Rightarrow> bool" where
  "shows_verity v \<longleftrightarrow> is_str v \<and> (contains (text_of v) ''dm-'' \<or> contains (lower (text_of v)) ''verity'')"

definition LOCKED_STATES :: "string list" where
  "LOCKED_STATES = [''integrity'', ''confidentiality'', ''locked'', ''enforced'']"

definition production_check :: "obj \<Rightarrow> string \<Rightarrow> string list" where
  "production_check checks name = report (dict_get (members (dict_get checks name)) ''status'' \<noteq> JStr ''passed'')
     (msg (''$.checks.'' @ name @ ''.status'') ''must be passed for production-runtime'')"

definition validate_production_facts :: "obj \<Rightarrow> obj \<Rightarrow> string list run" where
  "validate_production_facts facts checks = (let listeners = dict_get facts ''listeners'';
       rollback_floor = fact_of facts ''anti_rollback'' ''rollback_floor'' in
     bindE (in_str_set (fact_of facts ''lockdown'' ''status'') LOCKED_STATES) (\<lambda>locked. Inr
      (report (fact_of facts ''os_release'' ''VARIANT'' \<noteq> JStr ''prod'')
         (msg ''$.guest_facts.os_release.VARIANT'' ''must be prod for production-runtime QEMU input'')
       @ report (\<not> shows_verity (fact_of facts ''rootfs'' ''mount_source'') \<and>
                 \<not> shows_verity (fact_of facts ''rootfs'' ''cmdline_root''))
           (msg ''$.guest_facts.rootfs'' ''must show dm-verity-backed rootfs for production-runtime'')
       @ report (\<not> locked)
           (msg ''$.guest_facts.lockdown.status'' ''must be an enforced lockdown state for production-runtime'')
       @ (if \<not> is_list listeners then [msg ''$.guest_facts.listeners'' ''must be a list for production-runtime'']
          else report (elems listeners \<noteq> []) (msg ''$.guest_facts.listeners'' ''must be empty for production-runtime''))
       @ q_flag facts ''firewall'' ''loaded''
       @ concat (map (\<lambda>f. report (\<not> dict_has facts f)
           (msg (''$.guest_facts.'' @ f) ''must be collected for production-runtime'')) PRODUCTION_FACT_FIELDS)
       @ q_flag facts ''secure_boot'' ''enabled'' @ q_flag facts ''dm_verity'' ''active''
       @ q_flag facts ''rauc'' ''available'' @ q_flag facts ''data_encryption'' ''encrypted''
       @ report (\<not> nonblank_str rollback_floor \<or> text_of rollback_floor \<in> set QEMU_PLACEHOLDERS)
           (msg ''$.guest_facts.anti_rollback.rollback_floor'' ''must be collected for production-runtime'')
       @ concat (map (production_check checks)
           ([''rootfs'', ''lockdown-transition'', ''listeners'', ''firewall''] @ sorted_set PRODUCTION_RUNTIME_CHECKS)))))"

section \<open>Logs\<close>

definition q_log :: "store \<Rightarrow> path \<Rightarrow> bool \<Rightarrow> nat \<times> json \<Rightarrow> string list \<times> path option" where
  "q_log fs base check_files iv = (let i = ''$.logs['' @ nat_str (fst iv) @ '']''; item = members (snd iv);
       role = dict_get item ''role''; sha = dict_get item ''sha256'' in
     if \<not> is_obj (snd iv) then ([msg i ''must be an object''], None)
     else let (es, actual) = q_relative_file fs base (i @ ''.path'') (dict_get item ''path'') check_files
                (if is_str sha then Some (text_of sha) else None) (role = JStr ''qemu-stderr'') in
       (q_string (i @ ''.role'') role @ q_sha256 (i @ ''.sha256'') sha @ es, actual))"

definition log_roles :: "json list \<Rightarrow> string list" where
  "log_roles logs = map text_of (filter is_str (map (\<lambda>v. dict_get (members v) ''role'') (filter is_obj logs)))"

text \<open>The file of the last semantic log entry.\<close>

definition semantic_log :: "store \<Rightarrow> path \<Rightarrow> bool \<Rightarrow> json list \<Rightarrow> path option" where
  "semantic_log fs base check_files logs =
     (case filter (\<lambda>iv. is_obj (snd iv) \<and> dict_get (members (snd iv)) ''role'' = JStr ''qemu-semantic'')
         (rev (enumerate 0 logs)) of
        [] \<Rightarrow> None | iv # _ \<Rightarrow> snd (q_log fs base check_files iv))"

definition q_logs :: "store \<Rightarrow> path \<Rightarrow> bool \<Rightarrow> string \<Rightarrow> json \<Rightarrow> string list" where
  "q_logs fs base check_files profile v = (let logs = elems v;
       missing = sorted_set (minus_list REQUIRED_STRICT_LOG_ROLES (log_roles logs)) in
     (if logs = [] then [msg ''$.logs'' ''must be a non-empty list'']
      else concat (map (\<lambda>iv. fst (q_log fs base check_files iv)) (enumerate 0 logs)))
     @ report (profile \<in> set STRICT_PROFILES \<and> missing \<noteq> [])
         (msg ''$.logs'' (''missing required log roles: '' @ comma_join missing)))"

section \<open>Checks\<close>

definition q_described :: "string \<Rightarrow> json \<Rightarrow> string \<Rightarrow> string list" where
  "q_described p v m = (if nonblank_str v then q_placeholder p v else [msg p m])"

definition q_check :: "bool \<Rightarrow> string \<Rightarrow> string \<times> json \<Rightarrow> string list run" where
  "q_check require_pass profile nv = (let p = ''$.checks.'' @ fst nv; r = members (snd nv); status = dict_get r ''status'' in
     if \<not> is_obj (snd nv) then Inr [msg p ''must be an object'']
     else bindE (in_str_set status [''passed'', ''failed'', ''not_applicable'']) (\<lambda>known. Inr
      (report (\<not> known) (msg (p @ ''.status'') ''must be passed, failed, or not_applicable'')
       @ report (require_pass \<and> status \<noteq> JStr ''passed'')
           (msg (p @ ''.status'') ''must be passed for release QEMU input'')
       @ (if profile \<in> set STRICT_PROFILES \<and> fst nv \<in> set SEMANTIC_CHECKS then
            q_described (p @ ''.evidence'') (dict_get r ''evidence'') ''must describe machine-collected evidence''
            @ q_described (p @ ''.source'') (dict_get r ''source'') ''must name the guest command or log source''
          else []))))"

definition q_checks :: "bool \<Rightarrow> string \<Rightarrow> json \<Rightarrow> string list run" where
  "q_checks require_pass profile v = (let checks = dict_or_empty v;
       missing = sorted_set (minus_list QEMU_REQUIRED_CHECKS (dict_keys checks));
       production = sorted_set (minus_list PRODUCTION_RUNTIME_CHECKS (dict_keys checks)) in
     collectE (Inr (report (\<not> is_obj v) (msg ''$.checks'' ''must be an object'')
         @ report (missing \<noteq> []) (msg ''$.checks'' (''missing required checks: '' @ comma_join missing))
         @ report (profile \<in> set PRODUCTION_PROFILES \<and> production \<noteq> [])
             (msg ''$.checks'' (''missing production-runtime checks: '' @ comma_join production)))
       # map (q_check require_pass profile) checks))"

section \<open>Guest facts\<close>

definition q_fact :: "obj \<Rightarrow> string \<Rightarrow> string list" where
  "q_fact facts f = (let p = ''$.guest_facts.'' @ f; v = dict_get facts f in
     if \<not> dict_has facts f then [msg p ''must be collected for release-candidate QEMU input'']
     else if f = ''listeners'' then []
     else if is_str v then report (strip (text_of v) = []) (msg p ''must not be empty'') @ q_placeholder p v
     else if v = JObj [] then [msg p ''must not be an empty object'']
     else report (v = JNull) (msg p ''must not be null''))"

definition q_facts :: "store \<Rightarrow> path option \<Rightarrow> bool \<Rightarrow> string \<Rightarrow> obj \<Rightarrow> json \<Rightarrow> string list run" where
  "q_facts fs slog check_files profile checks v = (let facts = members v in
     if \<not> is_obj v then Inr [msg ''$.guest_facts'' ''must be an object'']
     else if profile \<notin> set STRICT_PROFILES then Inr []
     else collectE
       [Inr (concat (map (q_fact facts) SEMANTIC_FACT_FIELDS)
          @ report (dict_has facts ''listeners'' \<and> \<not> is_list (dict_get facts ''listeners''))
              (msg ''$.guest_facts.listeners'' ''must be a list'')
          @ check_semantic_log fs slog facts check_files),
        if profile \<in> set PRODUCTION_PROFILES then validate_production_facts facts checks else Inr []])"

section \<open>The whole input\<close>

definition q_schema :: "obj \<Rightarrow> string \<Rightarrow> string list run" where
  "q_schema payload profile = (let schema = dict_get payload ''schema_version''; failure_class = dict_get payload ''failure_class'';
       bad = msg ''$.schema_version'' (''must be '' @ QEMU_SCHEMA) in
     if schema = JStr QEMU_SCHEMA then
       bindE (in_str_set failure_class FAILURE_CLASSES) (\<lambda>known. Inr
         (report (\<not> known) (msg ''$.failure_class'' (''must be one of: '' @ comma_join (sorted_set FAILURE_CLASSES)))
          @ report (dict_get payload ''status'' = JStr ''passed'' \<and> failure_class \<noteq> JStr ''none'')
              (msg ''$.failure_class'' ''must be none when status is passed'')))
     else if profile \<in> set STRICT_PROFILES then Inr [bad]
     else bindE (in_str_set schema QEMU_LEGACY_SCHEMAS) (\<lambda>legacy. Inr (report (\<not> legacy) bad)))"

definition q_identity :: "obj \<Rightarrow> string \<Rightarrow> string list" where
  "q_identity payload profile = concat (map (\<lambda>f. q_string (''$.'' @ f) (dict_get payload f)
       @ (if profile \<in> set STRICT_PROFILES \<and> dict_get payload ''status'' = JStr ''passed''
          then q_placeholder (''$.'' @ f) (dict_get payload f) else []))
       [''version'', ''target'', ''generated_at'', ''image'', ''qemu_version'', ''firmware''])
     @ q_sha256 ''$.image_sha256'' (dict_get payload ''image_sha256'')
     @ q_sha256 ''$.firmware_sha256'' (dict_get payload ''firmware_sha256'')"

definition q_status :: "obj \<Rightarrow> bool \<Rightarrow> string list run" where
  "q_status payload require_pass = bindE (in_str_set (dict_get payload ''status'') QEMU_STATUS_VALUES) (\<lambda>known. Inr
     (report (\<not> known) (msg ''$.status'' (''must be one of: '' @ comma_join (sorted_set QEMU_STATUS_VALUES)))
      @ report (require_pass \<and> dict_get payload ''status'' \<noteq> JStr ''passed'')
          (msg ''$.status'' ''must be passed for release QEMU input'')))"

text \<open>The arguments of \<open>validate\<close> besides the path.\<close>

record qemu_args =
  check_files :: bool
  require_pass :: bool
  profile :: string
  expected_version :: "string option"
  expected_target :: "string option"
  expected_source_sha :: "string option"
  expected_artifact_sha256 :: "string option"

definition validate_payload :: "store \<Rightarrow> path \<Rightarrow> qemu_args \<Rightarrow> obj \<Rightarrow> string list run" where
  "validate_payload fs p a payload = (let (version, target) = expected_from_qemu_path p; base = path_parent p;
       logs = dict_get payload ''logs'';
       slog = semantic_log fs base (check_files a) (elems logs) in collectE
     [q_schema payload (profile a),
      Inr (q_identity payload (profile a)
        @ check_binding payload (or_else (expected_version a) version) (or_else (expected_target a) target)
            (expected_source_sha a) (expected_artifact_sha256 a)),
      q_status payload (require_pass a),
      Inr (validate_termination payload (require_pass a) (profile a)
        @ q_logs fs base (check_files a) (profile a) logs),
      q_checks (require_pass a) (profile a) (dict_get payload ''checks''),
      q_facts fs slog (check_files a) (profile a) (dict_or_empty (dict_get payload ''checks''))
        (dict_get payload ''guest_facts'')])"

definition validate_qemu_input :: "store \<Rightarrow> path \<Rightarrow> qemu_args \<Rightarrow> string list run" where
  "validate_qemu_input fs p a =
     (case load_doc fs p of
        OsError \<Rightarrow> Inr [msg (path_str p) ''cannot read QEMU evidence: OSError'']
      | BadJson \<Rightarrow> Inr [msg (path_str p) ''invalid JSON: JSONDecodeError'']
      | Loaded (JObj payload) \<Rightarrow> validate_payload fs p a payload
      | Loaded _ \<Rightarrow> Inr [msg (path_str p) ''top-level JSON value must be an object''])"

end
