(* ===== verification/GovernanceProps.thy ===== *)
theory GovernanceProps
  imports Governance QemuInput
begin

text \<open>
  What a governance snapshot that passes and a QEMU acceptance input that passes guarantee.
\<close>

section \<open>Governance snapshots\<close>

definition snapshot_doc :: "store \<Rightarrow> path \<Rightarrow> string \<Rightarrow> json \<Rightarrow> bool" where
  "snapshot_doc fs snapshot_root name v \<longleftrightarrow> read_json fs (gov_file snapshot_root name) = Inr v"

lemma check_manifest_entry_nil:
  assumes "check_manifest_entry fs snapshot_root item = []"
  shows "\<exists>name f. manifest_entry_name item = Some name \<and> fs (gov_file snapshot_root name) = Some f \<and> 0 < size_of f \<and>
    dict_get (members item) ''sha256'' = JStr (sha_of f)"
proof -
  obtain name where name: "manifest_entry_name item = Some name"
      "check_manifest_file fs snapshot_root name (dict_get (members item) ''sha256'') = []"
    using assms by (auto simp: check_manifest_entry_def split: if_splits option.splits)
  then have ne: "nonempty_file fs (gov_file snapshot_root name)"
      and digest: "JStr (file_sha fs (gov_file snapshot_root name)) = dict_get (members item) ''sha256''"
    by (auto simp: check_manifest_file_def Let_def split: if_splits)
  from nonempty_file_sha [OF ne] name(1) digest show ?thesis by metis
qed

lemma mem_map_filter: "r \<in> set (List.map_filter f xs) \<longleftrightarrow> (\<exists>x\<in>set xs. f x = Some r)"
  by (induction xs) (auto simp: List.map_filter_simps split: option.splits)

lemma check_manifest_files_nil:
  assumes "check_manifest_files fs snapshot_root items = []"
  shows "\<forall>item\<in>set items. check_manifest_entry fs snapshot_root item = []"
    "\<forall>r\<in>set REQUIRED_SNAPSHOT_FILES. \<exists>item\<in>set items. manifest_entry_name item = Some r"
  using assms by (auto simp: check_manifest_files_def Let_def concat_map_nil mem_map_filter)

lemma validate_snapshot_manifest_nil:
  assumes "validate_snapshot_manifest fs snapshot_root policy = Inr []"
  shows "\<exists>m items. snapshot_doc fs snapshot_root ''snapshot-manifest.json'' (JObj m) \<and> dict_get m ''files'' = JArr items \<and>
    check_manifest_files fs snapshot_root items = []"
  using assms
  by (auto simp: validate_snapshot_manifest_def bindE_ok Let_def snapshot_doc_def is_obj_iff is_list_iff split: if_splits)

text \<open>A protected branch, and an environment with enough reviewers, as the policy asks for them.\<close>

definition protected_branch :: "obj \<Rightarrow> obj \<Rightarrow> bool" where
  "protected_branch policy branch \<longleftrightarrow>
     truthy (dict_get branch ''required_pull_request_reviews'') \<and>
     (\<forall>k\<in>{''enforce_admins'', ''required_linear_history'', ''required_signatures''}. enabled branch k = Inr True) \<and>
     (\<forall>k\<in>{''allow_force_pushes'', ''allow_deletions''}. enabled branch k = Inr False) \<and>
     (\<exists>wanted. string_members (dict_get_or policy ''required_checks'' (JArr [])) = Inr wanted \<and>
        set (status_check_contexts branch) = set wanted)"

definition guarded_environment :: "store \<Rightarrow> path \<Rightarrow> json \<Rightarrow> bool" where
  "guarded_environment fs snapshot_root env_policy \<longleftrightarrow> (\<exists>p name e minimum. env_policy = JObj p \<and>
     dict_get p ''name'' = JStr name \<and> name \<noteq> [] \<and>
     snapshot_doc fs snapshot_root (name @ ''-environment.json'') (JObj e) \<and> dict_get e ''name'' = JStr name \<and>
     py_int (dict_get_or p ''minimum_reviewers'' (JInt 1)) = Inr minimum \<and> minimum \<le> environment_reviewers e \<and>
     (dict_get p ''prevent_self_review'' = JBool True \<longrightarrow> environment_prevents_self_review e))"

lemma check_branch_nil:
  assumes "check_branch policy v = Inr []"
  shows "\<exists>branch. v = JObj branch \<and> protected_branch policy branch"
proof -
  obtain branch where v: "v = JObj branch" using assms by (cases v) (auto simp: check_branch_def)
  obtain minimum where parts: "check_reviews branch minimum = []"
      "check_branch_flag branch ''enforce_admins'' True ''main branch protection must enforce admins'' = Inr []"
      "check_branch_flag branch ''allow_force_pushes'' False ''main branch must not allow force pushes'' = Inr []"
      "check_branch_flag branch ''allow_deletions'' False ''main branch must not allow deletions'' = Inr []"
      "check_branch_flag branch ''required_linear_history'' True ''main branch must require linear history'' = Inr []"
      "check_branch_flag branch ''required_signatures'' True ''main branch must require signed commits'' = Inr []"
      "check_status_checks policy branch = Inr []"
    using assms by (auto simp: check_branch_def v Let_def bindE_ok collectE_nil simp del: collectE.simps)
  have flag: "enabled branch k = Inr b" if "check_branch_flag branch k b m = Inr []" for k b m
    using that by (auto simp: check_branch_flag_def bindE_ok)
  show ?thesis
    using parts(1,7) parts(2-6) [THEN flag]
    by (auto simp: v protected_branch_def check_reviews_def Let_def check_status_checks_def bindE_ok)
qed

lemma validate_environment_policy_nil:
  assumes "validate_environment_policy fs snapshot_root v k = Inr []"
  shows "guarded_environment fs snapshot_root v"
proof -
  obtain p name where v: "v = JObj p" "dict_get p ''name'' = JStr name" "name \<noteq> []"
    using assms by (cases v) (auto simp: validate_environment_policy_def Let_def nonempty_str_iff split: if_splits)
  obtain environment policies where e: "snapshot_doc fs snapshot_root (name @ ''-environment.json'') (JObj environment)"
      "check_environment name p policies environment = Inr []"
    using assms by (auto simp: validate_environment_policy_def v nonempty_str_iff bindE_ok snapshot_doc_def is_obj_iff split: if_splits)
  from e(2) obtain minimum where "py_int (dict_get_or p ''minimum_reviewers'' (JInt 1)) = Inr minimum"
      "minimum \<le> environment_reviewers environment" "dict_get environment ''name'' = JStr name"
      "dict_get p ''prevent_self_review'' = JBool True \<longrightarrow> environment_prevents_self_review environment"
    by (auto simp: check_environment_def bindE_ok Let_def)
  with v e(1) show ?thesis unfolding guarded_environment_def by blast
qed

text \<open>
  C35. A snapshot whose report says \<open>passed\<close> has a manifest all of whose entries name files that
  are there with the recorded digest, among them every required file; a main branch that demands
  reviews, signatures, linear history and exactly the policy's status checks and binds
  administrators; and signing and release environments with enough reviewers.
\<close>

theorem governance_passed:
  assumes "validate_governance fs snapshot_root now policy = Inr r" and "dict_get r ''status'' = JStr ''passed''"
  shows "\<exists>m items branch. snapshot_doc fs snapshot_root ''snapshot-manifest.json'' (JObj m) \<and> dict_get m ''files'' = JArr items \<and>
    (\<forall>item\<in>set items. \<exists>name f. manifest_entry_name item = Some name \<and> fs (gov_file snapshot_root name) = Some f \<and>
       0 < size_of f \<and> dict_get (members item) ''sha256'' = JStr (sha_of f)) \<and>
    (\<forall>q\<in>set REQUIRED_SNAPSHOT_FILES. \<exists>item\<in>set items. manifest_entry_name item = Some q) \<and>
    snapshot_doc fs snapshot_root ''main-branch-protection.json'' (JObj branch) \<and> protected_branch policy branch \<and>
    (\<forall>k\<in>{''signing_environment'', ''release_environment''}. guarded_environment fs snapshot_root (dict_get policy k))"
proof -
  obtain s where s: "validate_snapshot_manifest fs snapshot_root policy = Inr []" "read_snapshot fs snapshot_root = Inr s"
      "governance_failures fs snapshot_root policy s = Inr []"
    using assms by (auto simp: validate_governance_def bindE_ok Let_def dict_get_def split: if_splits)
  obtain m items where m: "snapshot_doc fs snapshot_root ''snapshot-manifest.json'' (JObj m)" "dict_get m ''files'' = JArr items"
      "check_manifest_files fs snapshot_root items = []"
    using validate_snapshot_manifest_nil [OF s(1)] by blast
  have parts: "check_branch policy (branch_doc s) = Inr []"
      "validate_environment_policy fs snapshot_root (dict_get policy ''signing_environment'') ''signing_environment'' = Inr []"
      "validate_environment_policy fs snapshot_root (dict_get policy ''release_environment'') ''release_environment'' = Inr []"
    using s(3) by (simp_all add: governance_failures_def collectE_nil del: collectE.simps)
  obtain branch where branch: "branch_doc s = JObj branch" "protected_branch policy branch"
    using check_branch_nil [OF parts(1)] by blast
  have "snapshot_doc fs snapshot_root ''main-branch-protection.json'' (branch_doc s)"
    using s(2) by (auto simp: read_snapshot_def bindE_ok snapshot_doc_def)
  then show ?thesis
    using m(1,2) check_manifest_files_nil [OF m(3)] check_manifest_entry_nil branch
      parts(2,3) [THEN validate_environment_policy_nil] by fastforce
qed

section \<open>QEMU acceptance\<close>

definition log_matches :: "store \<Rightarrow> path \<Rightarrow> json \<Rightarrow> bool" where
  "log_matches fs base v \<longleftrightarrow> (\<exists>item p f. v = JObj item \<and> dict_get item ''path'' = JStr p \<and> ''..'' \<notin> set (parts (path_of p)) \<and>
     fs (path_join base (path_of p)) = Some f \<and> dict_get item ''sha256'' = JStr (sha_of f))"

lemma q_log_nil:
  assumes "fst (q_log fs base True iv) = []"
  shows "log_matches fs base (snd iv)"
proof -
  obtain item where item: "snd iv = JObj item" using assms by (cases "snd iv") (auto simp: q_log_def)
  obtain sha where sha: "dict_get item ''sha256'' = JStr sha"
    using assms by (auto simp: q_log_def item Let_def split_beta q_sha256_def is_str_iff split: if_splits)
  obtain p where p: "dict_get item ''path'' = JStr p"
    using assms by (auto simp: q_log_def item Let_def split_beta q_relative_file_def q_string_def nonblank_str_iff is_str_iff split: if_splits)
  show ?thesis
    using assms by (auto simp: q_log_def item Let_def split_beta q_relative_file_def p sha log_matches_def file_sha_def is_file_def
        split: if_splits option.splits)
qed

lemma q_check_passed: "q_check True pr nv = Inr [] \<Longrightarrow> dict_get (members (snd nv)) ''status'' = JStr ''passed''"
  by (auto simp: q_check_def Let_def bindE_ok split: if_splits)

text \<open>
  C36. A QEMU input that passes a strict profile with file checks has the current schema, status
  \<open>passed\<close> without a failure class, a machine that ended by itself with status 0, an image digest
  that is the bound artifact's, logs of every required role each of which is a file below the
  input's directory with the recorded digest, and every required check, all of them passed.
\<close>

theorem qemu_input_accepted:
  assumes "validate_payload fs p a payload = Inr []" and "profile a \<in> set STRICT_PROFILES"
    and "require_pass a" and "check_files a"
  shows "dict_get payload ''schema_version'' = JStr QEMU_SCHEMA \<and> dict_get payload ''status'' = JStr ''passed'' \<and>
    dict_get payload ''failure_class'' = JStr ''none'' \<and>
    (\<exists>t. dict_get payload ''termination'' = JObj t \<and> dict_get t ''killed'' = JBool False \<and>
       dict_get t ''timeout'' = JBool False \<and> py_eq (dict_get t ''exit_status'') (JInt 0)) \<and>
    (\<forall>sha. expected_artifact_sha256 a = Some sha \<longrightarrow> dict_get payload ''image_sha256'' = JStr sha) \<and>
    (\<forall>v\<in>set (elems (dict_get payload ''logs'')). log_matches fs (path_parent p) v) \<and>
    set REQUIRED_STRICT_LOG_ROLES \<subseteq> set (log_roles (elems (dict_get payload ''logs''))) \<and>
    (\<exists>checks. dict_get payload ''checks'' = JObj checks \<and> set QEMU_REQUIRED_CHECKS \<subseteq> set (dict_keys checks) \<and>
       (\<forall>nv\<in>set checks. dict_get (members (snd nv)) ''status'' = JStr ''passed''))"
proof -
  have parts: "q_schema payload (profile a) = Inr []"
      "check_binding payload (or_else (expected_version a) (fst (expected_from_qemu_path p)))
        (or_else (expected_target a) (snd (expected_from_qemu_path p))) (expected_source_sha a) (expected_artifact_sha256 a) = []"
      "q_status payload True = Inr []" "validate_termination payload True (profile a) = []"
      "q_logs fs (path_parent p) True (profile a) (dict_get payload ''logs'') = []"
      "q_checks True (profile a) (dict_get payload ''checks'') = Inr []"
    using assms(1,3,4) by (simp_all add: validate_payload_def Let_def split_beta collectE_nil del: collectE.simps)
  have schema: "dict_get payload ''schema_version'' = JStr QEMU_SCHEMA"
    using parts(1) assms(2) by (auto simp: q_schema_def Let_def split: if_splits)
  have status: "dict_get payload ''status'' = JStr ''passed''"
    using parts(3) by (auto simp: q_status_def bindE_ok)
  have failure: "dict_get payload ''failure_class'' = JStr ''none''"
    using parts(1) by (auto simp: q_schema_def Let_def schema status bindE_ok)
  have ended: "\<exists>t. dict_get payload ''termination'' = JObj t \<and> dict_get t ''killed'' = JBool False \<and>
       dict_get t ''timeout'' = JBool False \<and> py_eq (dict_get t ''exit_status'') (JInt 0)"
    using parts(4) schema by (auto simp: validate_termination_def Let_def is_obj_iff q_passed_termination_def split: if_splits)
  have image: "\<forall>sha. expected_artifact_sha256 a = Some sha \<longrightarrow> dict_get payload ''image_sha256'' = JStr sha"
    using parts(2) by (auto simp: check_binding_def Let_def q_match_def)
  have logs: "\<forall>v\<in>set (elems (dict_get payload ''logs'')). log_matches fs (path_parent p) v"
  proof
    fix v assume "v \<in> set (elems (dict_get payload ''logs''))"
    then have "v \<in> snd ` set (enumerate 0 (elems (dict_get payload ''logs'')))"
      by (metis list.set_map map_snd_enumerate)
    then obtain i where "(i, v) \<in> set (enumerate 0 (elems (dict_get payload ''logs'')))" by auto
    then have "fst (q_log fs (path_parent p) True (i, v)) = []"
      using parts(5) by (auto simp: q_logs_def Let_def concat_map_nil split: if_splits)
    then show "log_matches fs (path_parent p) v" using q_log_nil by fastforce
  qed
  have roles: "set REQUIRED_STRICT_LOG_ROLES \<subseteq> set (log_roles (elems (dict_get payload ''logs'')))"
    using parts(5) assms(2) by (simp add: q_logs_def Let_def)
  obtain checks where checks: "dict_get payload ''checks'' = JObj checks" "set QEMU_REQUIRED_CHECKS \<subseteq> set (dict_keys checks)"
      "\<forall>nv\<in>set checks. q_check True (profile a) nv = Inr []"
    using parts(6) by (auto simp: q_checks_def Let_def collectE_nil is_obj_iff simp del: collectE.simps)
  show ?thesis using schema status failure ended image logs roles checks q_check_passed by blast
qed

section \<open>Concrete inputs\<close>

definition doc_file :: "char \<Rightarrow> json \<Rightarrow> regular_file" where
  "doc_file c v = \<lparr>size_of = 5, sha_of = replicate 64 c, text_content = [], json_content = Some v\<rparr>"

definition store_of :: "path \<Rightarrow> (string \<times> char \<times> json) list \<Rightarrow> store" where
  "store_of dir docs p = map_of (map (\<lambda>(n, c, v). (path_join dir (path_of n), doc_file c v)) docs) p"

definition enabled_doc :: "bool \<Rightarrow> json" where
  "enabled_doc b = JObj [(''enabled'', JBool b)]"

definition branch_doc_sample :: json where
  "branch_doc_sample = JObj [
     (''required_pull_request_reviews'', JObj [(''require_code_owner_reviews'', JBool True),
        (''dismiss_stale_reviews'', JBool True), (''required_approving_review_count'', JInt 2)]),
     (''required_status_checks'', JObj [(''strict'', JBool True), (''contexts'', JArr [JStr ''ci''])]),
     (''enforce_admins'', enabled_doc True), (''allow_force_pushes'', enabled_doc False),
     (''allow_deletions'', enabled_doc False), (''required_linear_history'', enabled_doc True),
     (''required_signatures'', enabled_doc True)]"

definition ruleset_doc :: "string \<Rightarrow> string \<Rightarrow> string \<Rightarrow> json" where
  "ruleset_doc name target ref = JObj [(''name'', JStr name), (''target'', JStr target), (''enforcement'', JStr ''active''),
     (''conditions'', JObj [(''ref_name'', JObj [(''include'', JArr [JStr ref])])]),
     (''rules'', JArr (map (\<lambda>t. JObj [(''type'', JStr t)])
        [''pull_request'', ''required_signatures'', ''non_fast_forward'', ''required_linear_history'']))]"

definition environment_doc :: "string \<Rightarrow> json" where
  "environment_doc name = JObj [(''name'', JStr name), (''protection_rules'', JArr [JObj
     [(''type'', JStr ''required_reviewers''), (''reviewers'', JArr [JNull, JNull]), (''prevent_self_review'', JBool True)]])]"

definition audit_doc_sample :: json where
  "audit_doc_sample = JObj [(''schema_version'', JStr ''suderra.audit-log-snapshot.v1''), (''status'', JStr ''collected''),
     (''events_sha256'', JStr (replicate 64 (CHR ''a''))), (''source_kind'', JStr ''organization''),
     (''repository'', JStr ''org/os''), (''query'', JStr ''all''), (''event_count'', JInt 0),
     (''collector'', JObj [(''identity'', JStr ''ops'')]),
     (''lookback_window'', JObj [(''start'', JStr ''2026-01-01''), (''end'', JStr ''2026-02-01''), (''days'', JInt 31)]),
     (''raw_export'', JObj [(''path'', JStr ''raw.json''), (''bytes'', JInt 9), (''sha256'', JStr (replicate 64 (CHR ''b'')))]),
     (''replay'', JObj [(''status'', JStr ''passed''), (''unapproved_events'', JArr [])])]"

definition snapshot_docs :: "(string \<times> char \<times> json) list" where
  "snapshot_docs = [(''repo.json'', CHR ''1'', JObj [(''full_name'', JStr ''org/os'')]),
     (''rulesets.json'', CHR ''2'', JArr [ruleset_doc ''main'' ''branch'' ''refs/heads/main'', ruleset_doc ''tags'' ''tag'' ''refs/tags/v*'']),
     (''main-branch-protection.json'', CHR ''3'', branch_doc_sample),
     (''release-sign-environment.json'', CHR ''4'', environment_doc ''release-sign''),
     (''release-publish-environment.json'', CHR ''5'', environment_doc ''release-publish''),
     (''workflow-permissions.json'', CHR ''6'', JObj []), (''codeowners.json'', CHR ''7'', JObj []),
     (''audit-log.json'', CHR ''8'', audit_doc_sample)]"

definition manifest_doc :: json where
  "manifest_doc = JObj [(''schema_version'', JStr ''suderra.github-governance-snapshot-manifest.v1''),
     (''repository'', JStr ''org/os''),
     (''files'', JArr (map (\<lambda>(n, c, v). JObj [(''name'', JStr n), (''sha256'', JStr (replicate 64 c))]) snapshot_docs))]"

definition sample_policy :: obj where
  "sample_policy = [(''schema_version'', JStr ''suderra.github-governance-policy.v2''), (''repository'', JStr ''org/os''),
     (''required_checks'', JArr [JStr ''ci'']),
     (''ruleset'', JObj [(''branch_name'', JStr ''main''), (''tag_name'', JStr ''tags'')]),
     (''signing_environment'', JObj [(''name'', JStr ''release-sign''), (''minimum_reviewers'', JInt 2)]),
     (''release_environment'', JObj [(''name'', JStr ''release-publish''), (''prevent_self_review'', JBool True)])]"

theorem governance_passed_witness:
  "\<exists>branch. snapshot_doc (store_of (path_of ''snap'') ((''snapshot-manifest.json'', CHR ''9'', manifest_doc) # snapshot_docs))
     (path_of ''snap'') ''main-branch-protection.json'' (JObj branch) \<and> protected_branch sample_policy branch"
proof -
  let ?fs = "store_of (path_of ''snap'') ((''snapshot-manifest.json'', CHR ''9'', manifest_doc) # snapshot_docs)"
  have "case validate_governance ?fs (path_of ''snap'') ''now'' sample_policy of Inl _ \<Rightarrow> False
     | Inr r \<Rightarrow> dict_get r ''status'' = JStr ''passed''"
    by code_simp
  then obtain r where r: "validate_governance ?fs (path_of ''snap'') ''now'' sample_policy = Inr r"
      "dict_get r ''status'' = JStr ''passed''"
    by (auto split: sum.splits)
  from governance_passed [OF r] show ?thesis by blast
qed

definition sample_facts :: obj where
  "sample_facts = map (\<lambda>f. (f, if f = ''listeners'' then JArr [] else JStr ''collected'')) SEMANTIC_FACT_FIELDS"

definition log_docs :: "(string \<times> char \<times> json) list" where
  "log_docs = [(''serial'', CHR ''1'', JNull), (''qmp-events'', CHR ''2'', JNull), (''qemu-stderr'', CHR ''3'', JNull),
     (''qemu-semantic'', CHR ''4'', JObj ((''schema_version'', JStr ''suderra.qemu-semantic.v1'') # sample_facts))]"

definition sample_qemu :: obj where
  "sample_qemu = [(''schema_version'', JStr QEMU_SCHEMA), (''status'', JStr ''passed''), (''failure_class'', JStr ''none''),
     (''version'', JStr ''v1''), (''target'', JStr ''pc''), (''generated_at'', JStr ''today''), (''image'', JStr ''disk.img''),
     (''qemu_version'', JStr ''9''), (''firmware'', JStr ''ovmf''), (''image_sha256'', JStr (replicate 64 (CHR ''e''))),
     (''firmware_sha256'', JStr (replicate 64 (CHR ''f''))), (''qemu_exit_status'', JInt 0),
     (''termination'', JObj [(''mode'', JStr ''quit''), (''reason'', JStr ''done''), (''killed'', JBool False),
        (''timeout'', JBool False), (''qmp_quit_sent'', JBool True), (''qmp_quit_ack'', JBool True),
        (''acceptable'', JBool True), (''exit_status'', JInt 0)]),
     (''logs'', JArr (map (\<lambda>(n, c, v). JObj [(''role'', JStr n), (''path'', JStr n), (''sha256'', JStr (replicate 64 c))]) log_docs)),
     (''checks'', JObj (map (\<lambda>n. (n, JObj [(''status'', JStr ''passed''), (''evidence'', JStr ''seen''), (''source'', JStr ''cmd'')]))
        QEMU_REQUIRED_CHECKS)),
     (''guest_facts'', JObj sample_facts)]"

definition sample_qemu_args :: qemu_args where
  "sample_qemu_args = \<lparr>check_files = True, require_pass = True, profile = ''release-candidate'', expected_version = None,
     expected_target = None, expected_source_sha = None, expected_artifact_sha256 = Some (replicate 64 (CHR ''e''))\<rparr>"

theorem qemu_input_accepted_witness:
  "\<exists>v. dict_get sample_qemu ''logs'' = JArr (v # tl (elems (dict_get sample_qemu ''logs''))) \<and>
     log_matches (store_of (path_of ''release-lab-input/v1/pc'') log_docs)
       (path_parent (path_of ''release-lab-input/v1/pc/qemu.json'')) v"
proof -
  have "validate_payload (store_of (path_of ''release-lab-input/v1/pc'') log_docs) (path_of ''release-lab-input/v1/pc/qemu.json'')
      sample_qemu_args sample_qemu = Inr []"
    by code_simp
  from qemu_input_accepted [OF this] show ?thesis
    by (simp add: sample_qemu_args_def STRICT_PROFILES_def) (simp add: sample_qemu_def log_docs_def dict_get_def)
qed

end
