(* ===== verification/IngressBase.thy ===== *)
theory IngressBase
  imports PyTime ContractEvidence
begin

text \<open>
  The first half of \<open>scripts/evidence/operator-evidence-ingress.py\<close>: timestamps, versions,
  digests and URLs of an operator bundle, the audit log, and what the path of an evidence file
  says about its role and schema. Failures are the messages of the source.
\<close>

section \<open>The environment\<close>

text \<open>
  What the module reads from the evidence contract when it is imported, and the evidence paths
  it asks the contract for. An exception of a contract accessor ends the run.
\<close>

fun exc_map :: "('e \<Rightarrow> 'f) \<Rightarrow> 'e exc \<Rightarrow> 'f exc" where
  "exc_map f (ValueError e) = ValueError (f e)"
| "exc_map f TypeError = TypeError"
| "exc_map f (KeyError k) = KeyError k"
| "exc_map f AttributeError = AttributeError"
| "exc_map f IndexError = IndexError"

definition from_checked :: "'a checked \<Rightarrow> 'a run" where
  "from_checked m = (case m of Inl e \<Rightarrow> Inl (exc_map (\<lambda>_. ''evidence contract'') e) | Inr x \<Rightarrow> Inr x)"

record ingress_env =
  allowed_dirs :: "string list"
  forbidden_dirs :: "string list"
  schema_for :: "string \<Rightarrow> string"
  required_paths :: "string \<Rightarrow> string list run"

definition INGRESS_SCHEMA_ROLES :: "string list" where
  "INGRESS_SCHEMA_ROLES = [''lab_evidence'', ''production_runtime_suite'', ''hsm_signing_session'',
     ''hardware_subject'', ''release_security_report'', ''release_subject_graph'', ''retention_manifest'',
     ''signing_manifest'', ''governance_role_bindings'', ''station_acquisition'', ''ota_artifacts'']"

definition ingress_env :: "obj \<Rightarrow> obj \<Rightarrow> ingress_env run" where
  "ingress_env contract matrix =
     bindE (from_checked (operator_ingress_allowed_roots contract)) (\<lambda>allowed.
     bindE (from_checked (output_tree_roots contract)) (\<lambda>declared.
     bindE (from_checked (mapE (\<lambda>n. bindE (contract_schema_version n contract) (\<lambda>v. Inr (n, v))) INGRESS_SCHEMA_ROLES))
       (\<lambda>schemas. Inr
       \<lparr>allowed_dirs = allowed,
        forbidden_dirs = sorted_set (minus_list declared allowed @ [''release-evidence-generated'', ''signed-release'']),
        schema_for = (\<lambda>n. case map_of schemas n of None \<Rightarrow> [] | Some v \<Rightarrow> v),
        required_paths = (\<lambda>version. from_checked (operator_required_evidence_paths version matrix contract))\<rparr>)))"

section \<open>Times, versions and digests\<close>

definition second_micros :: int where
  "second_micros = 1000000"

definition whole_seconds :: "int \<Rightarrow> int" where
  "whole_seconds us = us div second_micros * second_micros"

text \<open>\<open>parse_utc\<close>: the messages and the instant, cut to seconds.\<close>

definition parse_utc :: "json \<Rightarrow> string \<Rightarrow> string list \<times> int option" where
  "parse_utc v p = (let s = text_of v;
       candidate = (if ends_with s ''Z'' then butlast s @ ''+00:00'' else s) in
     if \<not> nonblank_str v then ([msg p ''must be an ISO-8601 UTC timestamp''], None)
     else case fromisoformat candidate of
       None \<Rightarrow> ([msg p ''must be an ISO-8601 UTC timestamp''], None)
     | Some d \<Rightarrow> if utc_offset d = Some 0 then ([], Some (whole_seconds (local_us d)))
                 else ([msg p ''must be a UTC timestamp''], None))"

definition validate_manifest_window :: "obj \<Rightarrow> int \<Rightarrow> string list" where
  "validate_manifest_window manifest now =
     (let (fs, generated) = parse_utc (dict_get manifest ''generated_at'') ''$.generated_at'';
          (gs, expires) = parse_utc (dict_get manifest ''expires_at'') ''$.expires_at'' in
      fs @ gs @ (case (generated, expires) of
        (Some g, Some e) \<Rightarrow> report (e \<le> g) (msg ''$.expires_at'' ''must be after generated_at'')
          @ report (e \<le> whole_seconds now) (msg ''$.expires_at'' ''evidence ingress manifest has expired'')
      | _ \<Rightarrow> []))"

text \<open>\<open>SEMVER_RE.fullmatch\<close>.\<close>

definition after_number :: "string \<Rightarrow> string option" where
  "after_number s = (if takeWhile is_ascii_digit s = [] then None else Some (dropWhile is_ascii_digit s))"

definition after_dot :: "string \<Rightarrow> string option" where
  "after_dot s = (case s of c # r \<Rightarrow> if c = CHR ''.'' then Some r else None | [] \<Rightarrow> None)"

definition semver_suffix :: "string \<Rightarrow> bool" where
  "semver_suffix s \<longleftrightarrow> (case s of [] \<Rightarrow> True
     | c # r \<Rightarrow> c = CHR ''-'' \<and> r \<noteq> [] \<and> is_alnum_ascii (hd r) \<and>
         list_all (\<lambda>x. is_alnum_ascii x \<or> x \<in> set ''.-'') (tl r))"

definition semver :: "string \<Rightarrow> bool" where
  "semver s \<longleftrightarrow> (case s of [] \<Rightarrow> False | c # r \<Rightarrow> c = CHR ''v'' \<and>
     (case Option.bind (after_number r) (\<lambda>a. Option.bind (after_dot a) (\<lambda>b.
        Option.bind (after_number b) (\<lambda>c. Option.bind (after_dot c) after_number))) of
       None \<Rightarrow> False | Some t \<Rightarrow> semver_suffix t))"

definition validate_version_source :: "string \<Rightarrow> string \<Rightarrow> string list" where
  "validate_version_source version source_sha =
     report (\<not> semver version) ''version must be a SemVer tag such as v0.1.0-rc.1''
     @ report (\<not> lower_hex_of_length 40 source_sha) ''source_sha must be a lowercase git commit sha''"

definition check_positive_int :: "string \<Rightarrow> json \<Rightarrow> string list" where
  "check_positive_int p v = (case int_literal (py_str v) of
     None \<Rightarrow> [msg p ''must be a positive integer'']
   | Some n \<Rightarrow> report (n \<le> 0) (msg p ''must be a positive integer''))"

definition check_sha256 :: "string \<Rightarrow> json \<Rightarrow> string list" where
  "check_sha256 p v = (if \<not> is_str v \<or> \<not> lower_hex_of_length 64 (text_of v)
     then [msg p ''must be a lowercase sha256 digest'']
     else report (text_of v = all_zero_sha256) (msg p ''must not be the all-zero sha256 digest''))"

section \<open>URLs\<close>

text \<open>
  \<open>urllib.parse.urlparse\<close> as far as the script reads it: leading control characters and spaces
  are dropped, tabs and line ends removed; then the scheme, and the authority between \<open>//\<close> and
  the next of \<open>/?#\<close>. An unmatched bracket in the authority raises \<open>ValueError\<close>.
\<close>

definition is_alpha :: "char \<Rightarrow> bool" where
  "is_alpha c \<longleftrightarrow> is_alnum_ascii c \<and> \<not> is_ascii_digit c"

definition url_clean :: "string \<Rightarrow> string" where
  "url_clean s = filter (\<lambda>c. code c \<notin> {9, 10, 13}) (dropWhile (\<lambda>c. code c \<le> 32) s)"

definition url_split_scheme :: "string \<Rightarrow> string \<times> string" where
  "url_split_scheme s = (let h = takeWhile (\<lambda>c. c \<noteq> CHR '':'') s; r = dropWhile (\<lambda>c. c \<noteq> CHR '':'') s in
     if r \<noteq> [] \<and> h \<noteq> [] \<and> is_alpha (hd h) \<and> list_all (\<lambda>c. is_alnum_ascii c \<or> c \<in> set ''+-.'') h
     then (lower h, tl r) else ([], s))"

definition url_authority :: "string \<Rightarrow> string" where
  "url_authority r = (if starts_with r ''//'' then takeWhile (\<lambda>c. c \<notin> set ''/?#'') (drop 2 r) else [])"

record url =
  scheme :: string
  userinfo :: "string option"
  host :: string

text \<open>\<open>netloc.rpartition('@')\<close> and \<open>hostinfo.partition(':')\<close>, with a bracketed address kept whole.\<close>

definition url_host :: "string \<Rightarrow> string" where
  "url_host hostinfo = (if CHR ''['' \<in> set hostinfo
     then takeWhile (\<lambda>c. c \<noteq> CHR '']'') (tl (dropWhile (\<lambda>c. c \<noteq> CHR ''['') hostinfo))
     else takeWhile (\<lambda>c. c \<noteq> CHR '':'') hostinfo)"

definition urlparse :: "string \<Rightarrow> url run" where
  "urlparse s = (let (sch, r) = url_split_scheme (url_clean s); net = url_authority r;
       hostinfo = rev (takeWhile (\<lambda>c. c \<noteq> CHR ''@'') (rev net)) in
     if (CHR ''['' \<in> set net) \<noteq> (CHR '']'' \<in> set net) then Inl (ValueError ''Invalid IPv6 URL'')
     else Inr \<lparr>scheme = sch,
       userinfo = (if CHR ''@'' \<in> set net then Some (take (length net - length hostinfo - 1) net) else None),
       host = lower (url_host hostinfo)\<rparr>)"

text \<open>\<open>parsed.username or parsed.password\<close>.\<close>

definition has_credentials :: "url \<Rightarrow> bool" where
  "has_credentials u \<longleftrightarrow> (case userinfo u of None \<Rightarrow> False | Some i \<Rightarrow>
     takeWhile (\<lambda>c. c \<noteq> CHR '':'') i \<noteq> [] \<or> tl (dropWhile (\<lambda>c. c \<noteq> CHR '':'') i) \<noteq> [])"

definition check_https_url_host :: "string \<Rightarrow> json \<Rightarrow> string option \<Rightarrow> string list run" where
  "check_https_url_host p v allowed = (if \<not> nonblank_str v then Inr [msg p ''must be a non-empty HTTPS URL'']
     else bindE (urlparse (text_of v)) (\<lambda>u. Inr
       (report (scheme u \<noteq> ''https'') (msg p ''must use https'')
        @ report (has_credentials u) (msg p ''must not embed credentials'')
        @ (if host u = [] then [msg p ''must include a host'']
           else case allowed of None \<Rightarrow> []
             | Some h \<Rightarrow> report (host u \<noteq> h) (msg p ''host must match operator bundle allowlist'')))))"

section \<open>Operator bundle\<close>

definition bare_hostname :: "json \<Rightarrow> bool" where
  "bare_hostname v \<longleftrightarrow> nonblank_str v \<and> CHR ''/'' \<notin> set (text_of v) \<and> CHR '':'' \<notin> set (text_of v)"

definition validate_bundle_provenance :: "json \<Rightarrow> string list run" where
  "validate_bundle_provenance v = (let b = members v; h = dict_get b ''allowed_host'' in
     if \<not> is_obj v then Inr [msg ''$.operator_bundle'' ''must be an object'']
     else collectE
       [Inr (report (\<not> bare_hostname h) (msg ''$.operator_bundle.allowed_host'' ''must be a bare hostname'')),
        check_https_url_host ''$.operator_bundle.url'' (dict_get b ''url'')
          (if bare_hostname h then Some (lower (text_of h)) else None),
        Inr (concat (map (\<lambda>f. check_sha256 (''$.operator_bundle.'' @ f) (dict_get b f))
             [''sha256'', ''signature_sha256'', ''certificate_sha256''])
          @ report (\<not> nonblank_str (dict_get b ''certificate_identity''))
              (msg ''$.operator_bundle.certificate_identity'' ''must be a non-empty string'')
          @ report (dict_get b ''certificate_oidc_issuer'' \<noteq> JStr ''https://token.actions.githubusercontent.com'')
              (msg ''$.operator_bundle.certificate_oidc_issuer'' ''must be GitHub Actions OIDC'')
          @ report (dict_get b ''verified'' \<noteq> JBool True) (msg ''$.operator_bundle.verified'' ''must be true''))])"

section \<open>Audit log\<close>

definition INGRESS_AUDIT_SCHEMA :: string where
  "INGRESS_AUDIT_SCHEMA = ''suderra.audit-log-snapshot.v1''"

definition INGRESS_AUDIT_SOURCES :: "string list" where
  "INGRESS_AUDIT_SOURCES = [''organization'', ''enterprise'', ''manual-org-export'', ''manual-enterprise-export'']"

definition audit_window :: "string \<Rightarrow> json \<Rightarrow> string list" where
  "audit_window p v = (let w = members v in
     if \<not> is_obj v then [msg p ''lookback_window must be an object'']
     else report (\<not> nonempty_str (dict_get w ''start'')) (msg p ''lookback_window.start must be a timestamp'')
       @ report (\<not> nonempty_str (dict_get w ''end'')) (msg p ''lookback_window.end must be a timestamp'')
       @ report (\<not> int_above 0 (dict_get w ''days'')) (msg p ''lookback_window.days must be a positive integer''))"

definition audit_raw_export :: "string \<Rightarrow> json \<Rightarrow> string list" where
  "audit_raw_export p v = (let r = members v in
     if \<not> is_obj v then [msg p ''raw_export must be an object'']
     else report (\<not> nonempty_str (dict_get r ''path'')) (msg p ''raw_export.path must be a non-empty string'')
       @ report (\<not> int_above 0 (dict_get r ''bytes'')) (msg p ''raw_export.bytes must be a positive integer'')
       @ check_sha256 (msg p ''raw_export.sha256'') (dict_get r ''sha256''))"

definition audit_replay :: "string \<Rightarrow> json \<Rightarrow> string list" where
  "audit_replay p v = (let r = members v; u = dict_get r ''unapproved_events'' in
     if \<not> is_obj v then [msg p ''replay must be an object'']
     else report (dict_get r ''status'' \<noteq> JStr ''passed'') (msg p ''replay.status must be passed'')
       @ report (u \<noteq> JArr [] \<and> u \<noteq> JNull) (msg p ''replay.unapproved_events must be empty''))"

definition ingress_audit_log :: "string \<Rightarrow> json \<Rightarrow> string list run" where
  "ingress_audit_log p v = (let a = members v; collector = dict_get a ''collector'' in
     if \<not> is_obj v then Inr [msg p ''audit log must be a JSON object'']
     else bindE (in_str_set (dict_get a ''source_kind'') INGRESS_AUDIT_SOURCES) (\<lambda>known. Inr
      (report (dict_get a ''schema_version'' \<noteq> JStr INGRESS_AUDIT_SCHEMA) (msg p (''schema_version must be '' @ INGRESS_AUDIT_SCHEMA))
       @ report (dict_get a ''status'' \<noteq> JStr ''collected'') (msg p ''status must be collected'')
       @ check_sha256 (msg p ''events_sha256'') (dict_get a ''events_sha256'')
       @ report (truthy (dict_get a ''unapproved_governance_changes''))
           (msg p ''unapproved governance changes must be false'')
       @ report (\<not> known) (msg p ''source_kind must identify an org/enterprise audit source'')
       @ report (\<not> nonempty_str (dict_get a ''repository'')) (msg p ''repository must be a non-empty string'')
       @ report (\<not> nonempty_str (dict_get a ''query'')) (msg p ''query must be a non-empty string'')
       @ report (\<not> int_above (- 1) (dict_get a ''event_count'')) (msg p ''event_count must be a non-negative integer'')
       @ report (\<not> is_obj collector \<or> \<not> nonempty_str (dict_get (members collector) ''identity''))
           (msg p ''collector.identity must be a non-empty string'')
       @ audit_window p (dict_get a ''lookback_window'')
       @ audit_raw_export p (dict_get a ''raw_export'')
       @ audit_replay p (dict_get a ''replay''))))"

section \<open>Paths\<close>

definition safe_rel_path :: "json \<Rightarrow> path option" where
  "safe_rel_path v = (let rel = path_of (text_of v) in
     if \<not> nonblank_str v \<or> absolute rel \<or> ''..'' \<in> set (parts rel) then None else Some rel)"

interpretation ingress_rel: path_guard safe_rel_path
  by unfold_locales (auto simp: safe_rel_path_def Let_def nonblank_str_iff split: if_splits)

definition in_dir :: "path \<Rightarrow> string \<Rightarrow> bool" where
  "in_dir rel d \<longleftrightarrow> parts rel \<noteq> [] \<and> hd (parts rel) = d"

definition role_for_path :: "path \<Rightarrow> string" where
  "role_for_path rel = (let name = path_name rel; deep = 3 \<le> length (parts rel) in
     if deep \<and> in_dir rel ''release-governance'' \<and> name = ''audit-log.json'' then ''governance-audit-log''
     else if deep \<and> in_dir rel ''release-governance'' \<and> name = ''station-registry.json'' then ''station-registry''
     else if in_dir rel ''release-governance'' then
       (if name = ''role-bindings.json'' then ''governance-role-bindings'' else ''governance-input'')
     else if in_dir rel ''release-approvals'' then ''release-approval''
     else if in_dir rel ''release-reproducibility'' then ''reproducibility-report''
     else if in_dir rel ''release-lab-input'' then
       (if name = ''qemu.json'' then ''qemu-input''
        else if name = ''lab.json'' then ''lab-input''
        else if name = ''hardware-subject.json'' then ''hardware-subject''
        else if name = ''station-acquisition.json'' then ''station-acquisition''
        else if name = ''station-bundle.json'' then ''lab-station-bundle''
        else if name = ''station-bundle.json.sig'' then ''lab-station-signature''
        else if name = ''station-public.pem'' then ''lab-station-public-key''
        else ''lab-supporting-evidence'')
     else if in_dir rel ''release-runtime'' then
       (if name = ''production-runtime.json'' then ''production-runtime-suite''
        else ''production-runtime-supporting-evidence'')
     else if in_dir rel ''release-signing'' then
       (if name = ''signing-manifest.json'' then ''signing-manifest''
        else if path_suffix rel = ''.json'' then ''hsm-signing-session''
        else ''hsm-signing-supporting-evidence'')
     else if in_dir rel ''release-retention'' then
       (if name = ''retention-manifest.json'' then ''retention-manifest'' else ''retention-supporting-evidence'')
     else if in_dir rel ''release-ota'' then
       (if name = ''ota-artifacts.json'' then ''ota-artifacts'' else ''ota-supporting-evidence'')
     else if in_dir rel ''release-security'' then
       (if path_suffix rel = ''.json'' then ''security-report'' else ''security-raw-evidence'')
     else ''operator-evidence'')"

definition required_schema_version_for_path :: "ingress_env \<Rightarrow> path \<Rightarrow> string option" where
  "required_schema_version_for_path env rel = (let name = path_name rel; deep = 3 \<le> length (parts rel);
       lab = in_dir rel ''release-lab-input'' in
     if deep \<and> in_dir rel ''release-governance'' \<and> name = ''audit-log.json'' then Some INGRESS_AUDIT_SCHEMA
     else if deep \<and> in_dir rel ''release-governance'' \<and> name = ''station-registry.json''
       then Some ''suderra.lab-station-registry.v1''
     else if deep \<and> in_dir rel ''release-governance'' \<and> name = ''role-bindings.json''
       then Some (schema_for env ''governance_role_bindings'')
     else if lab \<and> name = ''qemu.json'' then Some ''suderra.qemu-acceptance.v4''
     else if lab \<and> name = ''lab.json'' then Some (schema_for env ''lab_evidence'')
     else if lab \<and> name = ''hardware-subject.json'' then Some (schema_for env ''hardware_subject'')
     else if lab \<and> name = ''station-acquisition.json'' then Some (schema_for env ''station_acquisition'')
     else if in_dir rel ''release-approvals'' then Some ''suderra.release-approval.v2''
     else if in_dir rel ''release-reproducibility'' then Some ''suderra.reproducibility.v1''
     else if in_dir rel ''release-runtime'' \<and> name = ''production-runtime.json''
       then Some (schema_for env ''production_runtime_suite'')
     else if in_dir rel ''release-signing'' \<and> name = ''signing-manifest.json''
       then Some (schema_for env ''signing_manifest'')
     else if in_dir rel ''release-signing'' \<and> path_suffix rel = ''.json''
       then Some (schema_for env ''hsm_signing_session'')
     else if in_dir rel ''release-retention'' \<and> name = ''retention-manifest.json''
       then Some (schema_for env ''retention_manifest'')
     else if in_dir rel ''release-ota'' \<and> name = ''ota-artifacts.json'' then Some (schema_for env ''ota_artifacts'')
     else None)"

definition validate_allowed_version_path :: "ingress_env \<Rightarrow> path \<Rightarrow> string \<Rightarrow> string list" where
  "validate_allowed_version_path env rel version = (let ps = parts rel in
     if ps = [] then [''empty evidence path'']
     else if hd ps \<notin> set (allowed_dirs env)
       then [msg (path_str rel) ''top-level directory is not allowed in operator evidence ingress'']
     else report (length ps < 2 \<or> ps ! 1 \<noteq> version)
       (msg (path_str rel) (''evidence path must be scoped to '' @ version)))"

end
