(* ===== verification/OperatorIngress.thy ===== *)
theory OperatorIngress
  imports IngressBase
begin

text \<open>
  The second half of \<open>scripts/evidence/operator-evidence-ingress.py\<close>: scanning the evidence
  trees, the manifest that records them, its validation against the trees, and the staging of an
  operator bundle (extraction guards and the copy of the allowed trees). A directory tree is the
  list of its entries below its root, each with its path components.
\<close>

section \<open>Directory trees\<close>

text \<open>A symbolic link carries what it resolves to, \<open>None\<close> when it dangles.\<close>

datatype node = Dir | File regular_file | Special | Link "node option"

type_synonym tree = "(string list \<times> node) list"

fun followed :: "node \<Rightarrow> node option" where
  "followed (Link n) = n"
| "followed n = Some n"

definition entry :: "tree \<Rightarrow> string list \<Rightarrow> node option" where
  "entry t ps = map_of t ps"

definition tree_exists :: "tree \<Rightarrow> string list \<Rightarrow> bool" where
  "tree_exists t ps \<longleftrightarrow> (case entry t ps of None \<Rightarrow> False | Some n \<Rightarrow> followed n \<noteq> None)"

definition tree_file :: "tree \<Rightarrow> string list \<Rightarrow> regular_file option" where
  "tree_file t ps = (case entry t ps of None \<Rightarrow> None
     | Some n \<Rightarrow> (case followed n of Some (File f) \<Rightarrow> Some f | _ \<Rightarrow> None))"

definition is_link :: "tree \<Rightarrow> string list \<Rightarrow> bool" where
  "is_link t ps \<longleftrightarrow> (case entry t ps of Some (Link _) \<Rightarrow> True | _ \<Rightarrow> False)"

definition is_dir :: "tree \<Rightarrow> string list \<Rightarrow> bool" where
  "is_dir t ps \<longleftrightarrow> (case entry t ps of None \<Rightarrow> False | Some n \<Rightarrow> followed n = Some Dir)"

definition is_proper_dir :: "tree \<Rightarrow> string list \<Rightarrow> bool" where
  "is_proper_dir t ps \<longleftrightarrow> \<not> is_link t ps \<and> is_dir t ps"

text \<open>The tree as the store of files that the JSON readers use.\<close>

definition tree_store :: "tree \<Rightarrow> store" where
  "tree_store t p = tree_file t (parts p)"

definition rel_path :: "string list \<Rightarrow> path" where
  "rel_path ps = Path False ps"

text \<open>\<open>sorted(root.rglob("*"))\<close>: the entries below a directory, by path components.\<close>

definition below :: "tree \<Rightarrow> string \<Rightarrow> (string list \<times> node) list" where
  "below t d = map (\<lambda>ps. (ps, the (entry t ps)))
     (sorted_set (filter (\<lambda>ps. 1 < length ps \<and> hd ps = d) (map fst t)))"

section \<open>Scanning\<close>

record evidence_record =
  rec_role :: string
  rec_path :: string
  rec_bytes :: int
  rec_sha :: string

definition scan_entry :: "ingress_env \<Rightarrow> string \<Rightarrow> string list \<times> node \<Rightarrow> string list \<times> evidence_record list" where
  "scan_entry env version pn = (let rel = rel_path (fst pn); scoped = validate_allowed_version_path env rel version in
     case snd pn of
       Link _ \<Rightarrow> ([msg (path_str rel) ''symlinks are not allowed''], [])
     | File f \<Rightarrow> if size_of f \<le> 0 then (scoped @ [msg (path_str rel) ''evidence file must be non-empty''], [])
         else (scoped, [\<lparr>rec_role = role_for_path rel, rec_path = path_str rel, rec_bytes = size_of f, rec_sha = sha_of f\<rparr>])
     | _ \<Rightarrow> ([], []))"

definition scan_dir :: "ingress_env \<Rightarrow> tree \<Rightarrow> string \<Rightarrow> string \<Rightarrow> string list \<times> evidence_record list" where
  "scan_dir env t version d =
     (if \<not> tree_exists t [d] then ([], [])
      else if \<not> is_proper_dir t [d] then ([msg d ''must be a directory and must not be a symlink''], [])
      else let rs = map (scan_entry env version) (below t d) in
        (concat (map fst rs), concat (map snd rs)))"

definition scan_evidence_files :: "ingress_env \<Rightarrow> tree \<Rightarrow> string \<Rightarrow> evidence_record list \<times> string list" where
  "scan_evidence_files env t version = (let rs = map (scan_dir env t version) (allowed_dirs env) in
     (sort_key rec_path (concat (map snd rs)), concat (map fst rs)))"

section \<open>Core files\<close>

definition core_path :: "path \<Rightarrow> string list \<Rightarrow> string" where
  "core_path input_root ps = path_str (path_join input_root (rel_path ps))"

definition core_audit :: "path \<Rightarrow> tree \<Rightarrow> string \<Rightarrow> string list run" where
  "core_audit input_root t version = (let ps = [''release-governance'', version, ''audit-log.json''];
       p = core_path input_root ps in
     case load_doc (tree_store t) (rel_path ps) of
       OsError \<Rightarrow> Inr [msg p ''missing or invalid audit log JSON: OSError'']
     | BadJson \<Rightarrow> Inr [msg p ''missing or invalid audit log JSON: JSONDecodeError'']
     | Loaded v \<Rightarrow> ingress_audit_log p v)"

definition core_registry :: "path \<Rightarrow> tree \<Rightarrow> string \<Rightarrow> string list" where
  "core_registry input_root t version = (let ps = [''release-governance'', version, ''station-registry.json''];
       p = core_path input_root ps in
     case load_doc (tree_store t) (rel_path ps) of
       OsError \<Rightarrow> [msg p ''missing or invalid station registry JSON: OSError'']
     | BadJson \<Rightarrow> [msg p ''missing or invalid station registry JSON: JSONDecodeError'']
     | Loaded v \<Rightarrow> if \<not> is_obj v then [msg p ''station registry must be a JSON object'']
         else report (dict_get (members v) ''schema_version'' \<noteq> JStr ''suderra.lab-station-registry.v1'')
           (msg p ''schema_version must be suderra.lab-station-registry.v1''))"

definition core_schema :: "ingress_env \<Rightarrow> path \<Rightarrow> string option" where
  "core_schema env rel = (case required_schema_version_for_path env rel of
     Some s \<Rightarrow> Some s
   | None \<Rightarrow> if in_dir rel ''release-security'' \<and> path_suffix rel = ''.json''
       then Some (schema_for env ''release_security_report'') else None)"

definition core_required :: "ingress_env \<Rightarrow> path \<Rightarrow> tree \<Rightarrow> string \<Rightarrow> string list" where
  "core_required env input_root t q = (let rel = path_of q; p = path_str (path_join input_root rel) in
     case tree_file t (parts rel) of None \<Rightarrow> []
     | Some f \<Rightarrow> (case json_content f of
         None \<Rightarrow> [msg p ''required evidence must be valid JSON: JSONDecodeError'']
       | Some (JObj payload) \<Rightarrow> (case core_schema env rel of None \<Rightarrow> []
           | Some s \<Rightarrow> report (dict_get payload ''schema_version'' \<noteq> JStr s) (msg p (''schema_version must be '' @ s)))
       | Some _ \<Rightarrow> [msg p ''required evidence must be a JSON object'']))"

definition validate_core_files :: "ingress_env \<Rightarrow> path \<Rightarrow> tree \<Rightarrow> string \<Rightarrow> json list \<Rightarrow> string list run" where
  "validate_core_files env input_root t version files =
     bindE (required_paths env version) (\<lambda>required.
     bindE (core_audit input_root t version) (\<lambda>audit.
     let present = map (\<lambda>v. py_str (dict_get (members v) ''path'')) (filter is_obj files);
         missing = sorted_set (minus_list required present) in
     Inr (report (missing \<noteq> []) (''operator evidence ingress missing required files: '' @ comma_join missing)
       @ audit @ core_registry input_root t version
       @ concat (map (core_required env input_root t) (sorted_set required)))))"

section \<open>Creating the manifest\<close>

record create_args =
  for_version :: string
  for_source_sha :: string
  build_run_id :: string
  build_run_attempt :: string
  bundle_url :: string
  bundle_sha256 :: string
  bundle_signature_sha256 :: string
  bundle_certificate_sha256 :: string
  certificate_identity :: string
  certificate_issuer :: string
  bundle_host :: string
  repository :: string
  workflow :: string
  run_id :: string
  run_attempt :: string
  actor :: string

definition record_json :: "evidence_record \<Rightarrow> json" where
  "record_json r = JObj [(''source'', JStr ''operator-evidence''), (''role'', JStr (rec_role r)),
     (''path'', JStr (rec_path r)), (''bytes'', JInt (rec_bytes r)), (''sha256'', JStr (rec_sha r))]"

definition bundle_json :: "create_args \<Rightarrow> json" where
  "bundle_json a = JObj [(''url'', JStr (bundle_url a)), (''sha256'', JStr (bundle_sha256 a)),
     (''signature_sha256'', JStr (bundle_signature_sha256 a)),
     (''certificate_sha256'', JStr (bundle_certificate_sha256 a)),
     (''certificate_identity'', JStr (certificate_identity a)),
     (''certificate_oidc_issuer'', JStr (certificate_issuer a)),
     (''allowed_host'', JStr (lower (bundle_host a))), (''verified'', JBool True)]"

definition producer_json :: "create_args \<Rightarrow> json" where
  "producer_json a = JObj [(''provider'', JStr ''github-actions''), (''repository'', JStr (repository a)),
     (''workflow'', JStr (workflow a)), (''run_id'', JStr (run_id a)), (''run_attempt'', JStr (run_attempt a)),
     (''actor'', JStr (actor a))]"

text \<open>\<open>stamps\<close> are the two formatted times of the run, \<open>generated_at\<close> and \<open>expires_at\<close>.\<close>

definition create_manifest ::
  "ingress_env \<Rightarrow> path \<Rightarrow> tree \<Rightarrow> string \<times> string \<Rightarrow> create_args \<Rightarrow> (obj \<times> string list) run" where
  "create_manifest env input_root t stamps a = (let (files, scan_failures) = scan_evidence_files env t (for_version a) in
     bindE (required_paths env (for_version a)) (\<lambda>required.
     bindE (collectE
       [Inr (validate_version_source (for_version a) (for_source_sha a)
          @ check_positive_int ''--source-image-build-run-id'' (JStr (build_run_id a))
          @ check_positive_int ''--source-image-build-run-attempt'' (JStr (build_run_attempt a)) @ scan_failures),
        validate_core_files env input_root t (for_version a) (map record_json files),
        validate_bundle_provenance (bundle_json a)]) (\<lambda>failures.
     Inr ([(''schema_version'', JStr ''suderra.operator-evidence-ingress.v2''), (''version'', JStr (for_version a)),
           (''source_sha'', JStr (for_source_sha a)), (''source_image_build_run_id'', JStr (build_run_id a)),
           (''source_image_build_run_attempt'', JStr (build_run_attempt a)),
           (''operator_bundle'', bundle_json a), (''producer'', producer_json a),
           (''generated_at'', JStr (fst stamps)), (''expires_at'', JStr (snd stamps)),
           (''required_paths'', JArr (map JStr (sorted_set required))), (''files'', JArr (map record_json files))],
          failures))))"

section \<open>Validating the manifest\<close>

record validate_args =
  against_root :: "(path \<times> tree) option"
  want_version :: "string option"
  want_source_sha :: "string option"
  want_build_run_id :: "string option"
  want_build_run_attempt :: "string option"
  require_signature :: bool
  identity_arg :: "string option"
  issuer_arg :: "string option"

text \<open>The state of the loop over the file records: the paths seen so far.\<close>

definition listed_file_checks :: "ingress_env \<Rightarrow> tree \<Rightarrow> string \<Rightarrow> obj \<Rightarrow> path \<Rightarrow> string list" where
  "listed_file_checks env t i item rel =
     (case tree_file t (parts rel) of
        None \<Rightarrow> [msg (i @ ''.path'') (''referenced evidence file is missing or empty: '' @ path_str rel)]
      | Some f \<Rightarrow> if size_of f \<le> 0
          then [msg (i @ ''.path'') (''referenced evidence file is missing or empty: '' @ path_str rel)]
          else report (\<not> py_eq (JInt (size_of f)) (dict_get item ''bytes''))
                 (msg (i @ ''.bytes'') ''does not match referenced file'')
            @ report (dict_get item ''sha256'' \<noteq> JStr (sha_of f))
                 (msg (i @ ''.sha256'') ''does not match referenced file'')
            @ (case required_schema_version_for_path env rel of None \<Rightarrow> []
               | Some s \<Rightarrow> (case json_content f of
                   None \<Rightarrow> [msg (i @ ''.path'') ''must be valid JSON for schema replay: JSONDecodeError'']
                 | Some v \<Rightarrow> report (\<not> is_obj v \<or> dict_get (members v) ''schema_version'' \<noteq> JStr s)
                     (msg (i @ ''.schema_version'') (''must be '' @ s)))))"

definition check_listed ::
  "ingress_env \<Rightarrow> tree option \<Rightarrow> string \<Rightarrow> string list \<Rightarrow> nat \<Rightarrow> json \<Rightarrow> string list \<times> string list" where
  "check_listed env t version seen n v = (let i = ''$.files['' @ nat_str n @ '']''; item = members v in
     if \<not> is_obj v then ([msg i ''must be an object''], seen)
     else let source = report (dict_get item ''source'' \<noteq> JStr ''operator-evidence'')
                (msg (i @ ''.source'') ''must be operator-evidence'') in
       case safe_rel_path (dict_get item ''path'') of
         None \<Rightarrow> (source @ [msg (i @ ''.path'') (''must be relative and must not contain '' @ repr_str ''..'')], seen)
       | Some rel \<Rightarrow>
           (source @ validate_allowed_version_path env rel version
            @ report (path_str rel \<in> set seen) (msg (i @ ''.path'') ''must be unique'')
            @ report (dict_get item ''role'' \<noteq> JStr (role_for_path rel))
                (msg (i @ ''.role'') ''does not match evidence path role'')
            @ report (\<not> int_above 0 (dict_get item ''bytes'')) (msg (i @ ''.bytes'') ''must be a positive integer'')
            @ check_sha256 (i @ ''.sha256'') (dict_get item ''sha256'')
            @ (case t of None \<Rightarrow> [] | Some t \<Rightarrow> listed_file_checks env t i item rel),
            path_str rel # seen))"

fun check_listed_files ::
  "ingress_env \<Rightarrow> tree option \<Rightarrow> string \<Rightarrow> string list \<Rightarrow> nat \<Rightarrow> json list \<Rightarrow> string list \<times> string list" where
  "check_listed_files env t version seen n [] = ([], seen)"
| "check_listed_files env t version seen n (v # vs) =
     (let (fs, seen') = check_listed env t version seen n v;
          (gs, all) = check_listed_files env t version seen' (Suc n) vs in (fs @ gs, all))"

definition check_required_paths :: "ingress_env \<Rightarrow> string \<Rightarrow> json \<Rightarrow> string list \<Rightarrow> string list run" where
  "check_required_paths env version v seen =
     (if \<not> is_list v then Inr [msg ''$.required_paths'' ''must be a list'']
      else bindE (required_paths env version) (\<lambda>expected.
        let actual = map text_of (filter is_str (elems v)); missing = sorted_set (minus_list expected seen) in
        Inr (report (set actual \<noteq> set expected)
               (msg ''$.required_paths'' ''must match matrix-derived operator evidence contract'')
           @ report (missing \<noteq> [])
               (''operator evidence manifest missing required file records: '' @ comma_join missing))))"

text \<open>The input root against the manifest; \<open>--allow-preflight-context\<close> is not an option here.\<close>

definition check_input_root :: "ingress_env \<Rightarrow> path \<times> tree \<Rightarrow> string \<Rightarrow> string list \<Rightarrow> json list \<Rightarrow> string list run" where
  "check_input_root env rt version seen files = (let t = snd rt;
       (scanned, scan_failures) = scan_evidence_files env t version; paths = map rec_path scanned;
       omitted = sorted_set (minus_list paths seen); vanished = sorted_set (minus_list seen paths) in
     bindE (validate_core_files env (fst rt) t version files) (\<lambda>core. Inr
       (scan_failures
        @ report (omitted \<noteq> []) (''operator evidence manifest omits files present in artifact: '' @ comma_join omitted)
        @ report (vanished \<noteq> []) (''operator evidence manifest lists files missing from artifact: '' @ comma_join vanished)
        @ concat (map (\<lambda>d. report (d \<noteq> ''release-ingress'' \<and> tree_exists t [d])
            (msg d ''must not be supplied through operator evidence ingress'')) (forbidden_dirs env))
        @ report (tree_exists t [''release-ingress'', version, ''ingress-manifest.json''])
            ''release-ingress/<version>/ingress-manifest.json must be produced only by Release Preflight''
        @ core)))"

definition check_producer :: "json \<Rightarrow> string list" where
  "check_producer v = (if \<not> is_obj v then [msg ''$.producer'' ''must be an object'']
     else concat (map (\<lambda>f. report (\<not> nonempty_str (dict_get (members v) f))
       (msg (''$.producer.'' @ f) ''must be a non-empty string''))
       [''provider'', ''repository'', ''workflow'', ''run_id'', ''run_attempt'', ''actor'']))"

definition want_text :: "string option \<Rightarrow> json \<Rightarrow> string \<Rightarrow> string list" where
  "want_text want v m = (case want of None \<Rightarrow> [] | Some w \<Rightarrow> report (py_str v \<noteq> w) m)"

definition check_manifest_header :: "obj \<Rightarrow> validate_args \<Rightarrow> int \<Rightarrow> string list" where
  "check_manifest_header manifest a now = (let version = dict_get manifest ''version''; sha = dict_get manifest ''source_sha'' in
     report (dict_get manifest ''schema_version'' \<noteq> JStr ''suderra.operator-evidence-ingress.v2'')
       (msg ''$.schema_version'' ''must be suderra.operator-evidence-ingress.v2'')
     @ validate_manifest_window manifest now
     @ (if is_str version \<and> is_str sha then validate_version_source (text_of version) (text_of sha)
        else [''$.version and $.source_sha must be strings''])
     @ (case want_version a of None \<Rightarrow> [] | Some w \<Rightarrow> report (version \<noteq> JStr w) (msg ''$.version'' (''must match '' @ w)))
     @ (case want_source_sha a of None \<Rightarrow> [] | Some w \<Rightarrow> report (sha \<noteq> JStr w) (msg ''$.source_sha'' (''must match '' @ w)))
     @ want_text (want_build_run_id a) (dict_get manifest ''source_image_build_run_id'')
         (msg ''$.source_image_build_run_id'' ''must match expected Image Build run'')
     @ want_text (want_build_run_attempt a) (dict_get manifest ''source_image_build_run_attempt'')
         (msg ''$.source_image_build_run_attempt'' ''must match expected Image Build run attempt'')
     @ check_positive_int ''$.source_image_build_run_id'' (dict_get manifest ''source_image_build_run_id'')
     @ check_positive_int ''$.source_image_build_run_attempt'' (dict_get manifest ''source_image_build_run_attempt''))"

text \<open>
  \<open>cosign verify-blob\<close> is a parameter: for the identity and the issuer it gives \<open>None\<close> when it
  accepts the signature, otherwise the message it prints.
\<close>

definition verify_manifest_signature ::
  "store \<Rightarrow> path \<Rightarrow> (string \<Rightarrow> string \<Rightarrow> string option) \<Rightarrow> string option \<Rightarrow> string option \<Rightarrow> string list" where
  "verify_manifest_signature fs p cosign identity issuer =
     (let sidecar = \<lambda>suffix. path_join (path_parent p) (rel_path [path_name p @ suffix]);
          missing = concat (map (\<lambda>x. report (\<not> nonempty_file fs (sidecar x))
            (msg (path_str (sidecar x)) ''missing evidence ingress signature sidecar'')) [''.sig'', ''.cert'']) in
      if missing \<noteq> [] then missing
      else case (or_else identity None, or_else issuer None) of
        (Some i, Some o') \<Rightarrow> (case cosign i o' of None \<Rightarrow> [] | Some m \<Rightarrow> [m])
      | _ \<Rightarrow> [''evidence ingress signature verification requires certificate identity and OIDC issuer''])"

definition validate_manifest_payload ::
  "ingress_env \<Rightarrow> store \<Rightarrow> path \<Rightarrow> (string \<Rightarrow> string \<Rightarrow> string option) \<Rightarrow> int \<Rightarrow> validate_args \<Rightarrow> obj \<Rightarrow> string list run" where
  "validate_manifest_payload env fs p cosign now a manifest = (let files = elems (dict_get manifest ''files'');
       version = py_str (dict_get_or manifest ''version'' (JStr []));
       (listed, seen) = check_listed_files env (map_option snd (against_root a)) version [] 0 files in collectE
     [Inr (check_manifest_header manifest a now),
      validate_bundle_provenance (dict_get manifest ''operator_bundle''),
      Inr (check_producer (dict_get manifest ''producer'')
        @ report (files = []) (msg ''$.files'' ''must be a non-empty list'') @ listed),
      check_required_paths env version (dict_get manifest ''required_paths'') seen,
      (case against_root a of None \<Rightarrow> Inr [] | Some rt \<Rightarrow> check_input_root env rt version seen files),
      Inr (if require_signature a then verify_manifest_signature fs p cosign (identity_arg a) (issuer_arg a) else [])])"

definition validate_manifest ::
  "ingress_env \<Rightarrow> store \<Rightarrow> path \<Rightarrow> (string \<Rightarrow> string \<Rightarrow> string option) \<Rightarrow> int \<Rightarrow> validate_args \<Rightarrow> string list run" where
  "validate_manifest env fs p cosign now a =
     (case load_doc fs p of
        OsError \<Rightarrow> Inr [msg (path_str p) ''cannot read evidence ingress manifest: OSError'']
      | BadJson \<Rightarrow> Inr [msg (path_str p) ''cannot read evidence ingress manifest: JSONDecodeError'']
      | Loaded (JObj manifest) \<Rightarrow> validate_manifest_payload env fs p cosign now a manifest
      | Loaded _ \<Rightarrow> Inr [msg (path_str p) ''evidence ingress manifest must be a JSON object''])"

section \<open>Staging a bundle\<close>

datatype member_kind = MDir | MFile regular_file | MLink | MOther

type_synonym archive = "(string \<times> member_kind) list"

text \<open>The guards of \<open>safe_extract\<close>: the archive is extracted only when every member passes.\<close>

definition check_member :: "string \<times> member_kind \<Rightarrow> unit run" where
  "check_member nk = in_order
     [ensure (safe_rel_path (JStr (fst nk)) \<noteq> None) (ValueError (''unsafe bundle member path: '' @ fst nk)),
      ensure (snd nk \<noteq> MLink) (ValueError (''bundle member links are not allowed: '' @ fst nk)),
      ensure (snd nk \<noteq> MOther) (ValueError (''bundle member type is not allowed: '' @ fst nk))]"

definition member_node :: "member_kind \<Rightarrow> node" where
  "member_node k = (case k of MFile f \<Rightarrow> File f | _ \<Rightarrow> Dir)"

text \<open>
  What the archive library writes below the destination: a member at the components of its name,
  with the directories above it; a later member replaces an earlier one.
\<close>

definition extract_member :: "tree \<Rightarrow> string \<times> member_kind \<Rightarrow> tree" where
  "extract_member t nk = (let ps = parts (path_of (fst nk));
       above = filter (\<lambda>qs. entry t qs = None) (map (\<lambda>n. take n ps) [1..<length ps]) in
     if ps = [] then t else (ps, member_node (snd nk)) # map (\<lambda>qs. (qs, Dir)) above @ t)"

definition safe_extract :: "archive \<Rightarrow> tree run" where
  "safe_extract ms = andthen (for_all check_member ms) (Inr (foldl extract_member [] ms))"

definition child_dirs :: "tree \<Rightarrow> string list" where
  "child_dirs t = remdups (map hd (filter (\<lambda>ps. length ps = 1 \<and> is_dir t ps) (map fst t)))"

definition has_allowed :: "ingress_env \<Rightarrow> tree \<Rightarrow> string list \<Rightarrow> bool" where
  "has_allowed env t pre \<longleftrightarrow> list_ex (\<lambda>d. tree_exists t (pre @ [d])) (allowed_dirs env)"

definition find_payload_root :: "ingress_env \<Rightarrow> tree \<Rightarrow> string list" where
  "find_payload_root env t = (if has_allowed env t [] then []
     else case child_dirs t of [c] \<Rightarrow> if has_allowed env t [c] then [c] else [] | _ \<Rightarrow> [])"

definition subtree :: "tree \<Rightarrow> string list \<Rightarrow> tree" where
  "subtree t pre = map (\<lambda>(ps, n). (drop (length pre) ps, n))
     (filter (\<lambda>(ps, n). length pre < length ps \<and> take (length pre) ps = pre) t)"

text \<open>One round of the copy loop; \<open>failures\<close> that are already there keep every later tree out.\<close>

definition copy_tree :: "tree \<Rightarrow> tree \<times> string list \<Rightarrow> string \<Rightarrow> tree \<times> string list" where
  "copy_tree src st d = (let (out, failures) = st in
     if \<not> tree_exists src [d] then st
     else if \<not> is_proper_dir src [d]
       then (out, failures @ [msg d ''must be a directory and must not be a symlink''])
     else if tree_exists out [d]
       then (out, failures @ [msg d ''output tree already exists; refusing to merge evidence''])
     else let links = map (\<lambda>(ps, n). msg (path_str (rel_path ps)) ''symlinks are not allowed'')
                (filter (\<lambda>(ps, n). is_link src ps) (below src d));
              failures' = failures @ links in
       if failures' \<noteq> [] then (out, failures')
       else (([d], Dir) # below src d @ out, failures'))"

definition copy_allowed_trees :: "ingress_env \<Rightarrow> tree \<Rightarrow> tree \<Rightarrow> tree \<times> string list" where
  "copy_allowed_trees env src out = (let
       forbidden = concat (map (\<lambda>d. report (tree_exists src [d])
         (msg d ''must not be present in operator evidence bundle'')) (forbidden_dirs env));
       (out', failures) = foldl (copy_tree src) (out, forbidden) (allowed_dirs env) in
     (out', failures @ report (\<not> list_ex (\<lambda>d. is_dir out' [d]) (allowed_dirs env))
       ''operator evidence bundle did not contain any allowed evidence trees''))"

text \<open>
  \<open>stage_command\<close> up to the manifest: the three staged files are there with the digests that
  were promised, and the archive is extracted and copied. The result is the new output tree, or
  the messages of the step that failed.
\<close>

record staged =
  bundle_file :: "path \<times> regular_file option"
  signature_file :: "path \<times> regular_file option"
  certificate_file :: "path \<times> regular_file option"
  members_of :: archive

definition staged_files :: "staged \<Rightarrow> (string \<times> path \<times> regular_file option) list" where
  "staged_files s = [(''operator bundle'', bundle_file s), (''operator bundle signature'', signature_file s),
     (''operator bundle certificate'', certificate_file s)]"

definition present_file :: "regular_file option \<Rightarrow> bool" where
  "present_file f \<longleftrightarrow> (case f of None \<Rightarrow> False | Some r \<Rightarrow> 0 < size_of r)"

definition digest_mismatches :: "staged \<Rightarrow> create_args \<Rightarrow> string list" where
  "digest_mismatches s a = concat (map (\<lambda>(f, sha, m). report (map_option sha_of (snd f) \<noteq> Some sha) m)
     [(bundle_file s, bundle_sha256 a, ''--bundle-sha256 does not match staged operator bundle bytes''),
      (signature_file s, bundle_signature_sha256 a,
        ''--bundle-signature-sha256 does not match staged operator bundle signature bytes''),
      (certificate_file s, bundle_certificate_sha256 a,
        ''--bundle-certificate-sha256 does not match staged operator bundle certificate bytes'')])"

definition stage_trees :: "ingress_env \<Rightarrow> staged \<Rightarrow> create_args \<Rightarrow> tree \<Rightarrow> string list + tree" where
  "stage_trees env s a out = (let
       absent = concat (map (\<lambda>(l, p, f). report (\<not> present_file f) (l @ '' must be a non-empty file: '' @ path_str p)) (staged_files s));
       mismatches = digest_mismatches s a in
     if absent \<noteq> [] then Inl absent
     else if mismatches \<noteq> [] then Inl mismatches
     else case safe_extract (members_of s) of
       Inl (ValueError m) \<Rightarrow> Inl [m]
     | Inl _ \<Rightarrow> Inl []
     | Inr t \<Rightarrow> let src = subtree t (find_payload_root env t); (out', failures) = copy_allowed_trees env src out in
         if failures \<noteq> [] then Inl failures else Inr out')"

end
