(* ===== verification/IngressProps.thy ===== *)
theory IngressProps
  imports OperatorIngress
begin

text \<open>
  Properties of the operator ingress: what a manifest without failures says about the evidence
  trees, what staging lets through, and that a manifest that was created from a tree validates
  against it.
\<close>

section \<open>Path checks\<close>

definition scoped_path :: "ingress_env \<Rightarrow> string \<Rightarrow> path \<Rightarrow> bool" where
  "scoped_path env version rel \<longleftrightarrow> (\<exists>d rest. parts rel = d # version # rest \<and> d \<in> set (allowed_dirs env))"

lemma allowed_version_path_nil:
  "validate_allowed_version_path env rel version = [] \<longleftrightarrow> scoped_path env version rel"
  by (cases "parts rel"; cases "tl (parts rel)")
    (auto simp: validate_allowed_version_path_def Let_def scoped_path_def)

lemma check_sha256_nil:
  "check_sha256 p v = [] \<longleftrightarrow> (\<exists>d. v = JStr d \<and> lower_hex_of_length 64 d \<and> d \<noteq> all_zero_sha256)"
  by (cases v) (auto simp: check_sha256_def)

lemma safe_rel_path_some:
  "safe_rel_path v = Some rel \<longleftrightarrow> (\<exists>s. v = JStr s \<and> strip s \<noteq> [] \<and> rel = path_of s \<and>
     \<not> absolute rel \<and> ''..'' \<notin> set (parts rel))"
  by (cases v) (auto simp: safe_rel_path_def Let_def nonblank_str_def)

section \<open>Listed files\<close>

text \<open>The file that a record names, as the record describes it.\<close>

definition matches_file :: "ingress_env \<Rightarrow> obj \<Rightarrow> path \<Rightarrow> regular_file \<Rightarrow> bool" where
  "matches_file env item rel f \<longleftrightarrow> 0 < size_of f \<and> py_eq (JInt (size_of f)) (dict_get item ''bytes'') \<and>
     dict_get item ''sha256'' = JStr (sha_of f) \<and>
     (case required_schema_version_for_path env rel of None \<Rightarrow> True
      | Some s \<Rightarrow> (\<exists>kvs. json_content f = Some (JObj kvs) \<and> dict_get kvs ''schema_version'' = JStr s))"

definition listed_file :: "ingress_env \<Rightarrow> tree option \<Rightarrow> string \<Rightarrow> obj \<Rightarrow> path \<Rightarrow> bool" where
  "listed_file env t version item rel \<longleftrightarrow>
     dict_get item ''source'' = JStr ''operator-evidence'' \<and> safe_rel_path (dict_get item ''path'') = Some rel \<and>
     scoped_path env version rel \<and> dict_get item ''role'' = JStr (role_for_path rel) \<and>
     int_above 0 (dict_get item ''bytes'') \<and>
     (\<exists>d. dict_get item ''sha256'' = JStr d \<and> lower_hex_of_length 64 d \<and> d \<noteq> all_zero_sha256) \<and>
     (case t of None \<Rightarrow> True | Some t \<Rightarrow> (\<exists>f. tree_file t (parts rel) = Some f \<and> matches_file env item rel f))"

lemma listed_file_checks_nil:
  "listed_file_checks env t i item rel = [] \<longleftrightarrow>
     (\<exists>f. tree_file t (parts rel) = Some f \<and> matches_file env item rel f)"
  by (auto simp: listed_file_checks_def matches_file_def is_obj_iff split: option.splits)

lemma check_listed_nil:
  "fst (check_listed env t version seen n v) = [] \<longleftrightarrow> (\<exists>item rel. v = JObj item \<and>
     listed_file env t version item rel \<and> path_str rel \<notin> set seen)"
proof (cases v)
  case (JObj item)
  show ?thesis
  proof (cases "safe_rel_path (dict_get item ''path'')")
    case None
    then show ?thesis by (simp add: check_listed_def JObj listed_file_def)
  next
    case (Some rel)
    then show ?thesis
      by (cases t) (auto simp: check_listed_def JObj listed_file_def allowed_version_path_nil check_sha256_nil
          listed_file_checks_nil)
  qed
qed (auto simp: check_listed_def)

definition listed_path :: "json \<Rightarrow> string" where
  "listed_path v = (case safe_rel_path (dict_get (members v) ''path'') of None \<Rightarrow> [] | Some rel \<Rightarrow> path_str rel)"

lemma check_listed_seen:
  assumes "fst (check_listed env t version seen n v) = []"
  shows "snd (check_listed env t version seen n v) = listed_path v # seen"
  using assms unfolding check_listed_nil
  by (auto simp: check_listed_def listed_path_def listed_file_def Let_def)

lemma check_listed_files_nil:
  "fst (check_listed_files env t version seen n vs) = [] \<longleftrightarrow>
     (\<forall>v\<in>set vs. \<exists>item rel. v = JObj item \<and> listed_file env t version item rel) \<and>
     distinct (map listed_path vs) \<and> listed_path ` set vs \<inter> set seen = {}"
proof (induction vs arbitrary: seen n)
  case Nil
  then show ?case by simp
next
  case (Cons v vs)
  let ?c = "check_listed env t version seen n v"
  have split: "fst (check_listed_files env t version seen n (v # vs)) = [] \<longleftrightarrow>
      fst ?c = [] \<and> fst (check_listed_files env t version (snd ?c) (Suc n) vs) = []"
    by (simp add: split_beta)
  have path: "listed_path (JObj item) = path_str rel" if "listed_file env t version item rel" for item rel
    using that by (simp add: listed_path_def listed_file_def)
  show ?case
  proof (cases "fst ?c = []")
    case True
    then obtain item rel where v: "v = JObj item" "listed_file env t version item rel" "path_str rel \<notin> set seen"
      by (auto simp: check_listed_nil)
    show ?thesis
      unfolding split check_listed_seen [OF True] Cons.IH using True v path by auto
  next
    case False
    then have "\<not> (\<exists>item rel. v = JObj item \<and> listed_file env t version item rel \<and> path_str rel \<notin> set seen)"
      by (simp add: check_listed_nil)
    then show ?thesis using False split path by auto
  qed
qed

lemma check_listed_files_seen:
  "fst (check_listed_files env t version seen n vs) = [] \<Longrightarrow>
     snd (check_listed_files env t version seen n vs) = rev (map listed_path vs) @ seen"
proof (induction vs arbitrary: seen n)
  case (Cons v vs)
  let ?c = "check_listed env t version seen n v"
  from Cons.prems have c: "fst ?c = []" and rest: "fst (check_listed_files env t version (snd ?c) (Suc n) vs) = []"
    by (simp_all add: split_beta)
  show ?case using Cons.IH [OF rest] check_listed_seen [OF c] by (simp add: split_beta)
qed simp

section \<open>A validated manifest\<close>

lemma header_strings:
  assumes "check_manifest_header manifest a now = []"
  obtains version sha where "dict_get manifest ''version'' = JStr version" "semver version"
    "dict_get manifest ''source_sha'' = JStr sha" "lower_hex_of_length 40 sha"
  using assms by (auto simp: check_manifest_header_def Let_def is_str_iff validate_version_source_def split: if_splits)

text \<open>
  C21. A manifest that \<open>validate_manifest\<close> accepts against an input root has a SemVer version and
  lists exactly the files that a scan of the root finds, each once: every record names a safe
  path scoped to the version in an allowed tree, the file there has the recorded size, digest
  and, where the path has one, schema; every path the contract requires is listed; and none of
  the forbidden trees is present.
\<close>

theorem validated_manifest_matches_tree:
  assumes "validate_manifest_payload env fs p cosign now a manifest = Inr []"
    and "against_root a = Some (base_dir, t)"
  shows "\<exists>version vs req. dict_get manifest ''version'' = JStr version \<and> semver version \<and>
    dict_get manifest ''files'' = JArr vs \<and> vs \<noteq> [] \<and>
    (\<forall>v\<in>set vs. \<exists>item rel f. v = JObj item \<and> safe_rel_path (dict_get item ''path'') = Some rel \<and>
       scoped_path env version rel \<and> dict_get item ''role'' = JStr (role_for_path rel) \<and>
       tree_file t (parts rel) = Some f \<and> matches_file env item rel f) \<and>
    distinct (map listed_path vs) \<and>
    listed_path ` set vs = rec_path ` set (fst (scan_evidence_files env t version)) \<and>
    required_paths env version = Inr req \<and> set req \<subseteq> listed_path ` set vs \<and>
    (\<forall>d\<in>set (forbidden_dirs env). d = ''release-ingress'' \<or> \<not> tree_exists t [d])"
proof -
  let ?version = "py_str (dict_get_or manifest ''version'' (JStr []))"
  let ?vs = "elems (dict_get manifest ''files'')"
  let ?c = "check_listed_files env (Some t) ?version [] 0 ?vs"
  have parts: "check_manifest_header manifest a now = []" "?vs \<noteq> []" "fst ?c = []"
      "check_required_paths env ?version (dict_get manifest ''required_paths'') (snd ?c) = Inr []"
      "check_input_root env (base_dir, t) ?version (snd ?c) ?vs = Inr []"
    using assms(1)
    by (simp_all add: validate_manifest_payload_def Let_def split_beta assms(2) collectE_nil del: collectE.simps)
  obtain version where v: "dict_get manifest ''version'' = JStr version" "semver version"
    by (rule header_strings [OF parts(1)])
  have version: "?version = version" by (simp add: dict_get_or_some [OF v(1)])
  note parts = parts [unfolded version]
  have seen: "snd (check_listed_files env (Some t) version [] 0 ?vs) = rev (map listed_path ?vs)"
    using check_listed_files_seen [OF parts(3)] by simp
  have files: "dict_get manifest ''files'' = JArr ?vs"
    using parts(2) by (cases "dict_get manifest ''files''") auto
  have listed: "\<forall>v\<in>set ?vs. \<exists>item rel. v = JObj item \<and> listed_file env (Some t) version item rel"
      "distinct (map listed_path ?vs)"
    using parts(3) unfolding check_listed_files_nil by auto
  obtain req where req: "required_paths env version = Inr req" "set req \<subseteq> listed_path ` set ?vs"
    using parts(4) unfolding seen
    by (auto simp: check_required_paths_def Let_def bindE_ok split: if_splits)
  have scanned: "set (map rec_path (fst (scan_evidence_files env t version))) = listed_path ` set ?vs"
    using parts(5) unfolding seen
    by (auto simp: check_input_root_def Let_def split_beta bindE_ok)
  have forbidden: "d = ''release-ingress'' \<or> \<not> tree_exists t [d]" if "d \<in> set (forbidden_dirs env)" for d
    using parts(5) that by (auto simp: check_input_root_def Let_def split_beta bindE_ok)
  have each: "\<exists>item rel f. v = JObj item \<and> safe_rel_path (dict_get item ''path'') = Some rel \<and>
       scoped_path env version rel \<and> dict_get item ''role'' = JStr (role_for_path rel) \<and>
       tree_file t (parts rel) = Some f \<and> matches_file env item rel f" if "v \<in> set ?vs" for v
    using listed(1) that unfolding listed_file_def by fastforce
  show ?thesis
    by (intro exI [of _ version] exI [of _ ?vs] exI [of _ req])
      (use v files parts(2) each listed(2) req scanned forbidden in auto)
qed

section \<open>Staging\<close>

text \<open>What extraction writes: plain components, directories and regular files only.\<close>

definition plain_entry :: "string list \<times> node \<Rightarrow> bool" where
  "plain_entry pn \<longleftrightarrow> fst pn \<noteq> [] \<and> ''..'' \<notin> set (fst pn) \<and> (snd pn = Dir \<or> (\<exists>f. snd pn = File f))"

lemma check_member_ok:
  "check_member nk = Inr u \<longleftrightarrow> (\<exists>rel. safe_rel_path (JStr (fst nk)) = Some rel) \<and>
     (snd nk = MDir \<or> (\<exists>f. snd nk = MFile f))"
  by (cases "snd nk") (auto simp: check_member_def run_ok)

lemma extract_member_plain:
  assumes "check_member nk = Inr ()" "\<forall>pn\<in>set t. plain_entry pn"
  shows "\<forall>pn\<in>set (extract_member t nk). plain_entry pn"
proof -
  have up: "''..'' \<notin> set (parts (path_of (fst nk)))"
    using assms(1) unfolding check_member_ok safe_rel_path_some by auto
  then have above: "''..'' \<notin> set (take n (parts (path_of (fst nk))))" for n
    by (meson in_set_takeD)
  show ?thesis
    using assms up above
    by (auto simp: extract_member_def Let_def plain_entry_def member_node_def check_member_ok split: member_kind.splits)
qed

lemma extract_plain:
  "\<forall>nk\<in>set ms. check_member nk = Inr () \<Longrightarrow> \<forall>pn\<in>set t. plain_entry pn \<Longrightarrow>
     \<forall>pn\<in>set (foldl extract_member t ms). plain_entry pn"
proof (induction ms arbitrary: t)
  case (Cons nk ms)
  then show ?case using extract_member_plain [of nk t] by simp
qed simp

lemma safe_extract_plain: "safe_extract ms = Inr t \<Longrightarrow> \<forall>pn\<in>set t. plain_entry pn"
  using extract_plain [of ms "[]"] by (auto simp: safe_extract_def run_ok)

lemma subtree_plain: "\<forall>pn\<in>set t. plain_entry pn \<Longrightarrow> \<forall>pn\<in>set (subtree t pre). plain_entry pn"
  by (fastforce simp: subtree_def plain_entry_def dest: in_set_dropD)

lemma below_entries: "pn \<in> set (below t d) \<Longrightarrow> pn \<in> set t \<and> hd (fst pn) = d \<and> fst pn \<noteq> []"
  by (auto simp: below_def entry_def) (metis map_of_SomeD map_of_eq_None_iff not_None_eq option.sel image_eqI fst_conv)

text \<open>An invariant of the copy loop: what is in the output was there or comes from the source.\<close>

definition copied :: "ingress_env \<Rightarrow> tree \<Rightarrow> tree \<Rightarrow> tree \<Rightarrow> bool" where
  "copied env src out out' \<longleftrightarrow> set out \<subseteq> set out' \<and>
     (\<forall>pn\<in>set out'. pn \<in> set out \<or> (hd (fst pn) \<in> set (allowed_dirs env) \<and> \<not> tree_exists out [hd (fst pn)] \<and>
        (pn \<in> set src \<or> (\<exists>d. pn = ([d], Dir))))) \<and>
     (\<forall>d. tree_exists out [d] \<longrightarrow> tree_exists out' [d])"

lemma copy_tree_copied:
  assumes "copied env src out (fst st)" "d \<in> set (allowed_dirs env)"
  shows "copied env src out (fst (copy_tree src st d))"
proof -
  obtain out1 failures where st: "st = (out1, failures)" by fastforce
  let ?new = "([d], Dir) # below src d @ out1"
  have "copied env src out ?new" if "\<not> tree_exists out1 [d]"
  proof -
    have inv: "set out \<subseteq> set out1"
        "\<And>pn. pn \<in> set out1 \<Longrightarrow> pn \<in> set out \<or> (hd (fst pn) \<in> set (allowed_dirs env) \<and>
           \<not> tree_exists out [hd (fst pn)] \<and> (pn \<in> set src \<or> (\<exists>d. pn = ([d], Dir))))"
        "\<And>e. tree_exists out [e] \<Longrightarrow> tree_exists out1 [e]"
      using assms(1) unfolding copied_def st by auto
    have fresh: "\<not> tree_exists out [d]" using inv(3) that by blast
    have keep: "tree_exists ?new [e]" if "tree_exists out [e]" for e
    proof -
      have "map_of (below src d) [e] = None"
        by (auto simp: below_def map_of_eq_None_iff)
      then have "entry ?new [e] = (if e = d then Some Dir else entry out1 [e])"
        by (simp add: entry_def map_add_def)
      then show ?thesis using inv(3) [OF that] by (auto simp: tree_exists_def)
    qed
    show ?thesis
      unfolding copied_def using inv(1,2) fresh keep assms(2) below_entries [of _ src d] by fastforce
  qed
  then show ?thesis
    using assms(1) by (auto simp: copy_tree_def st Let_def)
qed

lemma copy_trees_copied:
  "set ds \<subseteq> set (allowed_dirs env) \<Longrightarrow> copied env src out (fst st) \<Longrightarrow>
     copied env src out (fst (foldl (copy_tree src) st ds))"
proof (induction ds arbitrary: st)
  case (Cons d ds)
  then show ?case using copy_tree_copied [of env src out st d] by simp
qed simp

lemma copied_refl: "copied env src out out"
  by (simp add: copied_def)


end
