(* ===== verification/IngressRoundtrip.thy ===== *)
theory IngressRoundtrip
  imports IngressProps
begin

text \<open>
  Creating a manifest from evidence trees and validating it against the same trees: the scan as
  the list of the files it finds, the path text as an encoding that \<open>path_of\<close> decodes, and the
  round trip. A small tree serves as the concrete input of the witnesses.
\<close>

section \<open>Path texts\<close>

definition plain_name :: "string \<Rightarrow> bool" where
  "plain_name c \<longleftrightarrow> c \<noteq> [] \<and> c \<noteq> ''.'' \<and> c \<noteq> ''..'' \<and> CHR ''/'' \<notin> set c"

lemma join_Cons: "ws \<noteq> [] \<Longrightarrow> join sep (w # ws) = w @ sep @ join sep ws"
  by (cases ws) auto

lemma split_on_join:
  "ws \<noteq> [] \<Longrightarrow> \<forall>w\<in>set ws. d \<notin> set w \<Longrightarrow> split_on d (join [d] ws) = ws"
  by (induction ws rule: list_nonempty_induct) (auto simp: split_on_id join_Cons split_on_append_sep)

lemma path_of_path_str:
  assumes "ps \<noteq> []" "\<forall>c\<in>set ps. plain_name c"
  shows "path_of (path_str (rel_path ps)) = rel_path ps"
proof -
  have as_text: "path_str (rel_path ps) = join ''/'' ps"
    using assms(1) by (simp add: path_str_def rel_path_def)
  obtain c rest where ps: "ps = c # rest" using assms(1) by (cases ps) auto
  have "c \<noteq> []" "CHR ''/'' \<notin> set c" using assms(2) ps by (auto simp: plain_name_def)
  then have "\<not> starts_with (join ''/'' ps) ''/''"
    by (cases c; cases rest) (auto simp: ps starts_with_def)
  moreover have "split_on (CHR ''/'') (join ''/'' ps) = ps"
    using assms by (intro split_on_join) (auto simp: plain_name_def)
  moreover have "filter (\<lambda>p. p \<noteq> [] \<and> p \<noteq> ''.'') ps = ps"
    using assms(2) by (auto simp: filter_id_conv plain_name_def)
  ultimately show ?thesis unfolding path_of_def as_text by (simp add: rel_path_def)
qed

lemma strip_not_Nil:
  assumes "c \<in> set s" "\<not> is_space c"
  shows "strip s \<noteq> []"
proof -
  have front: "dropWhile is_space s \<noteq> []" using assms by (auto simp: dropWhile_eq_Nil_conv)
  then have "\<not> is_space (hd (dropWhile is_space s))" by (rule hd_dropWhile)
  with front show ?thesis
    by (auto simp: strip_def lstrip_def rstrip_def dropWhile_eq_Nil_conv intro!: bexI [OF _ hd_in_set])
qed

lemma safe_rel_path_text:
  assumes "1 < length ps" "\<forall>c\<in>set ps. plain_name c"
  shows "safe_rel_path (JStr (path_str (rel_path ps))) = Some (rel_path ps)"
proof -
  obtain c d rest where ps: "ps = c # d # rest"
    using assms(1) by (cases ps; cases "tl ps") auto
  have "CHR ''/'' \<in> set (path_str (rel_path ps))" by (simp add: ps path_str_def rel_path_def)
  then have "strip (path_str (rel_path ps)) \<noteq> []"
    by (rule strip_not_Nil) (simp add: is_space_def code_def)
  moreover have "path_of (path_str (rel_path ps)) = rel_path ps"
    by (rule path_of_path_str) (use assms ps in auto)
  moreover have "''..'' \<notin> set ps" using assms(2) by (auto simp: plain_name_def)
  ultimately show ?thesis by (simp add: safe_rel_path_some rel_path_def)
qed

section \<open>The scan as a list of files\<close>

definition tree_wf :: "tree \<Rightarrow> bool" where
  "tree_wf t \<longleftrightarrow> (\<forall>pn\<in>set t. \<forall>c\<in>set (fst pn). plain_name c)"

definition holds_file :: "tree \<Rightarrow> string list \<Rightarrow> bool" where
  "holds_file t ps \<longleftrightarrow> (case entry t ps of Some (File f) \<Rightarrow> 0 < size_of f | _ \<Rightarrow> False)"

definition files_below :: "tree \<Rightarrow> string \<Rightarrow> string list list" where
  "files_below t d = (if is_proper_dir t [d]
     then filter (holds_file t) (map fst (below t d)) else [])"

definition record_of :: "tree \<Rightarrow> string list \<Rightarrow> evidence_record" where
  "record_of t ps = (let f = the (tree_file t ps); rel = rel_path ps in
     \<lparr>rec_role = role_for_path rel, rec_path = path_str rel, rec_bytes = size_of f, rec_sha = sha_of f\<rparr>)"

lemma holds_file_iff: "holds_file t ps \<longleftrightarrow> (\<exists>f. entry t ps = Some (File f) \<and> 0 < size_of f)"
  by (auto simp: holds_file_def split: option.splits node.splits)

lemma below_keys: "map fst (below t d) = sorted_set (filter (\<lambda>ps. 1 < length ps \<and> hd ps = d) (map fst t))"
  by (simp add: below_def o_def)

lemma below_item: "(ps, n) \<in> set (below t d) \<Longrightarrow> entry t ps = Some n"
  by (auto simp: below_def entry_def) (metis eq_fst_iff map_of_eq_None_iff not_None_eq option.sel image_eqI)

lemma proper_dir_exists: "is_proper_dir t ps \<Longrightarrow> tree_exists t ps"
  by (auto simp: is_proper_dir_def is_dir_def tree_exists_def split: option.splits)

lemma scan_entry_records:
  assumes "entry t ps = Some n"
  shows "snd (scan_entry env version (ps, n)) = (if holds_file t ps then [record_of t ps] else [])"
  using assms by (cases n) (auto simp: scan_entry_def Let_def holds_file_def record_of_def tree_file_def)

lemma scan_dir_records: "snd (scan_dir env t version d) = map (record_of t) (files_below t d)"
proof -
  have "concat (map snd (map (scan_entry env version) xs)) = map (record_of t) (filter (holds_file t) (map fst xs))"
    if "\<forall>(ps, n)\<in>set xs. entry t ps = Some n" for xs
    using that by (induction xs) (auto simp: scan_entry_records)
  moreover have "\<forall>(ps, n)\<in>set (below t d). entry t ps = Some n" using below_item by blast
  ultimately show ?thesis
    using proper_dir_exists [of t "[d]"] by (auto simp: scan_dir_def Let_def files_below_def)
qed

definition scanned_files :: "ingress_env \<Rightarrow> tree \<Rightarrow> string list list" where
  "scanned_files env t = concat (map (files_below t) (allowed_dirs env))"

lemma scan_records:
  "fst (scan_evidence_files env t version) = sort_key rec_path (map (record_of t) (scanned_files env t))"
  by (simp add: scan_evidence_files_def Let_def scan_dir_records o_def scanned_files_def map_concat)

lemma files_below_set:
  "ps \<in> set (files_below t d) \<longleftrightarrow> is_proper_dir t [d] \<and> 1 < length ps \<and> hd ps = d \<and> holds_file t ps"
  by (auto simp: files_below_def below_keys holds_file_def entry_def split: option.splits dest!: map_of_SomeD)
    force

lemma distinct_scanned: "distinct (allowed_dirs env) \<Longrightarrow> distinct (scanned_files env t)"
proof -
  have "distinct (concat (map (files_below t) ds))" if "distinct ds" for ds
    using that
  proof (induction ds)
    case (Cons d ds)
    have "distinct (files_below t d)" by (simp add: files_below_def below_keys)
    moreover have "set (files_below t d) \<inter> set (concat (map (files_below t) ds)) = {}"
      using Cons.prems by (auto simp: files_below_set)
    ultimately show ?case using Cons by simp
  qed simp
  then show "distinct (allowed_dirs env) \<Longrightarrow> ?thesis" by (simp add: scanned_files_def)
qed

lemma scan_entry_scoped:
  "holds_file t ps \<Longrightarrow> entry t ps = Some n \<Longrightarrow> fst (scan_entry env version (ps, n)) = [] \<Longrightarrow>
     scoped_path env version (rel_path ps)"
  by (auto simp: holds_file_iff scan_entry_def Let_def allowed_version_path_nil)

lemma scanned_scoped:
  assumes "ps \<in> set (scanned_files env t)" "snd (scan_evidence_files env t version) = []"
  shows "scoped_path env version (rel_path ps)"
proof -
  obtain d where d: "d \<in> set (allowed_dirs env)" "ps \<in> set (files_below t d)"
    using assms(1) by (auto simp: scanned_files_def)
  then have dir: "is_proper_dir t [d]" "holds_file t ps" by (auto simp: files_below_set)
  have "ps \<in> fst ` set (below t d)" using d(2) dir(1) by (auto simp: files_below_def)
  then obtain n where n: "(ps, n) \<in> set (below t d)" by auto
  have "fst (scan_dir env t version d) = []"
    using assms(2) d(1) by (auto simp: scan_evidence_files_def Let_def concat_eq_Nil_conv)
  then have "fst (scan_entry env version (ps, n)) = []"
    using n dir(1) proper_dir_exists [OF dir(1)] by (auto simp: scan_dir_def Let_def)
  then show ?thesis using scan_entry_scoped [OF dir(2) below_item [OF n]] by blast
qed

section \<open>The round trip\<close>

text \<open>The tree is one the tools can have produced: real digests, and documents of their schema.\<close>

definition of_schema :: "regular_file \<Rightarrow> string option \<Rightarrow> bool" where
  "of_schema f s \<longleftrightarrow> (case s of None \<Rightarrow> True | Some s \<Rightarrow> (case json_content f of None \<Rightarrow> False
     | Some v \<Rightarrow> is_obj v \<and> dict_get (members v) ''schema_version'' = JStr s))"

definition evidence_wf :: "ingress_env \<Rightarrow> tree \<Rightarrow> bool" where
  "evidence_wf env t \<longleftrightarrow> tree_wf t \<and> distinct (allowed_dirs env) \<and> (\<forall>ps\<in>set (scanned_files env t).
     \<forall>f\<in>set_option (tree_file t ps). lower_hex_of_length 64 (sha_of f) \<and> sha_of f \<noteq> all_zero_sha256 \<and>
       of_schema f (required_schema_version_for_path env (rel_path ps)))"

lemma of_schema_Some:
  "of_schema f (Some s) \<Longrightarrow> \<exists>kvs. json_content f = Some (JObj kvs) \<and> dict_get kvs ''schema_version'' = JStr s"
  by (auto simp: of_schema_def is_obj_iff split: option.splits)

text \<open>The expectations of the validation are those of the creation, or none; no signature is asked for.\<close>

definition asks_for :: "create_args \<Rightarrow> validate_args \<Rightarrow> bool" where
  "asks_for a v \<longleftrightarrow> want_version v \<in> {None, Some (for_version a)} \<and>
     want_source_sha v \<in> {None, Some (for_source_sha a)} \<and>
     want_build_run_id v \<in> {None, Some (build_run_id a)} \<and>
     want_build_run_attempt v \<in> {None, Some (build_run_attempt a)} \<and> \<not> require_signature v"

definition producer_named :: "create_args \<Rightarrow> bool" where
  "producer_named a \<longleftrightarrow> repository a \<noteq> [] \<and> workflow a \<noteq> [] \<and> run_id a \<noteq> [] \<and> run_attempt a \<noteq> [] \<and> actor a \<noteq> []"

definition no_foreign_trees :: "ingress_env \<Rightarrow> tree \<Rightarrow> string \<Rightarrow> bool" where
  "no_foreign_trees env t version \<longleftrightarrow>
     (\<forall>d\<in>set (forbidden_dirs env). d = ''release-ingress'' \<or> \<not> tree_exists t [d]) \<and>
     \<not> tree_exists t [''release-ingress'', version, ''ingress-manifest.json'']"

lemma scanned_plain:
  assumes "tree_wf t" "ps \<in> set (scanned_files env t)"
  shows "1 < length ps" "\<forall>c\<in>set ps. plain_name c"
    "\<exists>f. entry t ps = Some (File f) \<and> tree_file t ps = Some f \<and> 0 < size_of f"
proof -
  obtain f where f: "entry t ps = Some (File f)" "0 < size_of f" and len: "1 < length ps"
    using assms(2) by (auto simp: scanned_files_def files_below_set holds_file_iff)
  show "1 < length ps" by (rule len)
  show "\<exists>f. entry t ps = Some (File f) \<and> tree_file t ps = Some f \<and> 0 < size_of f"
    using f by (auto simp: tree_file_def)
  have "(ps, File f) \<in> set t" using f(1) by (auto simp: entry_def dest: map_of_SomeD)
  then show "\<forall>c\<in>set ps. plain_name c" using assms(1) by (fastforce simp: tree_wf_def)
qed

lemma record_members:
  "dict_get (members (record_json r)) ''source'' = JStr ''operator-evidence''"
  "dict_get (members (record_json r)) ''role'' = JStr (rec_role r)"
  "dict_get (members (record_json r)) ''path'' = JStr (rec_path r)"
  "dict_get (members (record_json r)) ''bytes'' = JInt (rec_bytes r)"
  "dict_get (members (record_json r)) ''sha256'' = JStr (rec_sha r)"
  by (simp_all add: record_json_def dict_get_def)

lemma record_listed:
  assumes wf: "evidence_wf env t" and ps: "ps \<in> set (scanned_files env t)"
    and clean: "snd (scan_evidence_files env t version) = []"
  shows "listed_file env (Some t) version (members (record_json (record_of t ps))) (rel_path ps)"
    and "listed_path (record_json (record_of t ps)) = path_str (rel_path ps)"
proof -
  have tree: "tree_wf t" using wf by (simp add: evidence_wf_def)
  note plain = scanned_plain [OF tree ps]
  obtain f where f: "tree_file t ps = Some f" "0 < size_of f" using plain(3) by blast
  have safe: "safe_rel_path (JStr (path_str (rel_path ps))) = Some (rel_path ps)"
    by (rule safe_rel_path_text [OF plain(1,2)])
  have digest: "lower_hex_of_length 64 (sha_of f)" "sha_of f \<noteq> all_zero_sha256"
      and schema: "of_schema f (required_schema_version_for_path env (rel_path ps))"
    using wf ps f(1) by (auto simp: evidence_wf_def)
  have r: "rec_role (record_of t ps) = role_for_path (rel_path ps)" "rec_path (record_of t ps) = path_str (rel_path ps)"
      "rec_bytes (record_of t ps) = size_of f" "rec_sha (record_of t ps) = sha_of f"
    by (simp_all add: record_of_def f(1) Let_def)
  have parts: "parts (rel_path ps) = ps" by (simp add: rel_path_def)
  show "listed_file env (Some t) version (members (record_json (record_of t ps))) (rel_path ps)"
    using f digest schema scanned_scoped [OF ps clean]
    by (auto simp: listed_file_def record_members r safe parts matches_file_def int_above_def
        dest: of_schema_Some split: option.splits)
  show "listed_path (record_json (record_of t ps)) = path_str (rel_path ps)"
    by (simp add: listed_path_def record_members r safe)
qed

lemma path_str_inject:
  assumes "tree_wf t" "ps \<in> set (scanned_files env t)" "qs \<in> set (scanned_files env t)"
    and "path_str (rel_path ps) = path_str (rel_path qs)"
  shows "ps = qs"
proof -
  have "path_of (path_str (rel_path xs)) = rel_path xs" if "xs \<in> set (scanned_files env t)" for xs
    using scanned_plain [OF assms(1) that] by (intro path_of_path_str) auto
  with assms(2-4) have "rel_path ps = rel_path qs" by metis
  then show ?thesis by (simp add: rel_path_def)
qed

lemma records_accepted:
  assumes wf: "evidence_wf env t" and clean: "snd (scan_evidence_files env t version) = []"
  defines "vs \<equiv> map record_json (fst (scan_evidence_files env t version))"
  shows "fst (check_listed_files env (Some t) version [] 0 vs) = []"
    and "set (snd (check_listed_files env (Some t) version [] 0 vs)) = rec_path ` set (fst (scan_evidence_files env t version))"
proof -
  have tree: "tree_wf t" "distinct (allowed_dirs env)" using wf by (auto simp: evidence_wf_def)
  let ?rs = "fst (scan_evidence_files env t version)"
  have recs: "set ?rs = record_of t ` set (scanned_files env t)" by (simp add: scan_records)
  have listed: "\<exists>item rel. v = JObj item \<and> listed_file env (Some t) version item rel" if v: "v \<in> set vs" for v
  proof -
    obtain ps where ps: "v = record_json (record_of t ps)" "ps \<in> set (scanned_files env t)"
      using v by (auto simp: vs_def recs)
    moreover have "v = JObj (members v)" by (simp add: ps(1) record_json_def)
    ultimately show ?thesis using record_listed(1) [OF wf ps(2) clean] by metis
  qed
  have path: "listed_path (record_json r) = rec_path r" if "r \<in> set ?rs" for r
    using that record_listed(2) [OF wf _ clean] by (auto simp: recs record_of_def Let_def)
  have "distinct (map rec_path (map (record_of t) (scanned_files env t)))"
    using distinct_scanned [OF tree(2)] path_str_inject [OF tree(1)]
    by (auto simp: distinct_map inj_on_def record_of_def Let_def o_def)
  then have "distinct (map rec_path ?rs)"
    unfolding scan_records by (metis distinct_map distinct_sort set_sort inj_on_def)
  moreover have paths: "map listed_path vs = map rec_path ?rs"
    using path by (simp add: vs_def)
  ultimately have distinct: "distinct (map listed_path vs)" by simp
  show checked: "fst (check_listed_files env (Some t) version [] 0 vs) = []"
    unfolding check_listed_files_nil using listed distinct by auto
  show "set (snd (check_listed_files env (Some t) version [] 0 vs)) = rec_path ` set ?rs"
    unfolding check_listed_files_seen [OF checked] paths by simp
qed

lemma check_positive_int_nil:
  "check_positive_int p v = [] \<longleftrightarrow> (\<exists>n. int_literal (py_str v) = Some n \<and> 0 < n)"
  by (auto simp: check_positive_int_def split: option.splits)

text \<open>What a creation without failures has checked, and the manifest it writes.\<close>

lemma created_manifest:
  assumes "create_manifest env input_root t stamps a = Inr (manifest, [])"
  defines "files \<equiv> map record_json (fst (scan_evidence_files env t (for_version a)))"
  obtains required where "required_paths env (for_version a) = Inr required"
    "validate_version_source (for_version a) (for_source_sha a) = []"
    "\<forall>p. check_positive_int p (JStr (build_run_id a)) = []"
    "\<forall>p. check_positive_int p (JStr (build_run_attempt a)) = []"
    "snd (scan_evidence_files env t (for_version a)) = []"
    "validate_core_files env input_root t (for_version a) files = Inr []"
    "validate_bundle_provenance (bundle_json a) = Inr []"
    "manifest = [(''schema_version'', JStr ''suderra.operator-evidence-ingress.v2''), (''version'', JStr (for_version a)),
       (''source_sha'', JStr (for_source_sha a)), (''source_image_build_run_id'', JStr (build_run_id a)),
       (''source_image_build_run_attempt'', JStr (build_run_attempt a)),
       (''operator_bundle'', bundle_json a), (''producer'', producer_json a),
       (''generated_at'', JStr (fst stamps)), (''expires_at'', JStr (snd stamps)),
       (''required_paths'', JArr (map JStr (sorted_set required))), (''files'', JArr files)]"
proof -
  obtain required where req: "required_paths env (for_version a) = Inr required"
    using assms(1) by (auto simp: create_manifest_def Let_def split_beta bindE_ok)
  have checks: "collectE
      [Inr (validate_version_source (for_version a) (for_source_sha a)
          @ check_positive_int ''--source-image-build-run-id'' (JStr (build_run_id a))
          @ check_positive_int ''--source-image-build-run-attempt'' (JStr (build_run_attempt a))
          @ snd (scan_evidence_files env t (for_version a))),
       validate_core_files env input_root t (for_version a) files,
       validate_bundle_provenance (bundle_json a)] = Inr []"
    using assms(1) unfolding files_def
    by (auto simp: create_manifest_def Let_def split_beta req bindE_ok simp del: collectE.simps)
  show thesis
    by (rule that [OF req])
      (use checks assms(1) in \<open>auto simp: collectE_nil check_positive_int_nil files_def create_manifest_def
        Let_def split_beta req bindE_ok simp del: collectE.simps\<close>)
qed

lemma required_core:
  "required_paths env version = Inr required \<Longrightarrow> validate_core_files env input_root t version (map record_json rs) = Inr [] \<Longrightarrow>
     set required \<subseteq> rec_path ` set rs"
  by (auto simp: validate_core_files_def Let_def bindE_ok record_members filter_map o_def record_json_def
      image_iff subset_iff) (force simp: dict_get_def)

lemma round_trip:
  assumes "create_manifest env input_root t stamps a = Inr (manifest, [])"
    and "evidence_wf env t" and "scanned_files env t \<noteq> []" and "no_foreign_trees env t (for_version a)"
    and "producer_named a" and "asks_for a v" and "against_root v = Some (input_root, t)"
    and "validate_manifest_window [(''generated_at'', JStr (fst stamps)), (''expires_at'', JStr (snd stamps))] now = []"
  shows "validate_manifest_payload env fs p cosign now v manifest = Inr []"
proof -
  let ?rs = "fst (scan_evidence_files env t (for_version a))" and ?ver = "for_version a"
  let ?vs = "map record_json ?rs"
  obtain required where req: "required_paths env ?ver = Inr required"
    and origin: "validate_version_source ?ver (for_source_sha a) = []"
    and ints: "\<forall>p. check_positive_int p (JStr (build_run_id a)) = []"
      "\<forall>p. check_positive_int p (JStr (build_run_attempt a)) = []"
    and clean: "snd (scan_evidence_files env t ?ver) = []"
    and core: "validate_core_files env input_root t ?ver ?vs = Inr []"
    and provenance: "validate_bundle_provenance (bundle_json a) = Inr []"
    and m: "manifest = [(''schema_version'', JStr ''suderra.operator-evidence-ingress.v2''), (''version'', JStr ?ver),
       (''source_sha'', JStr (for_source_sha a)), (''source_image_build_run_id'', JStr (build_run_id a)),
       (''source_image_build_run_attempt'', JStr (build_run_attempt a)),
       (''operator_bundle'', bundle_json a), (''producer'', producer_json a),
       (''generated_at'', JStr (fst stamps)), (''expires_at'', JStr (snd stamps)),
       (''required_paths'', JArr (map JStr (sorted_set required))), (''files'', JArr ?vs)]"
    by (rule created_manifest [OF assms(1)])
  let ?c = "check_listed_files env (Some t) ?ver [] 0 ?vs"
  note accepted = records_accepted [OF assms(2) clean]
  have fields: "dict_get manifest ''schema_version'' = JStr ''suderra.operator-evidence-ingress.v2''"
      "dict_get manifest ''version'' = JStr ?ver" "dict_get manifest ''source_sha'' = JStr (for_source_sha a)"
      "dict_get manifest ''source_image_build_run_id'' = JStr (build_run_id a)"
      "dict_get manifest ''source_image_build_run_attempt'' = JStr (build_run_attempt a)"
      "dict_get manifest ''operator_bundle'' = bundle_json a" "dict_get manifest ''producer'' = producer_json a"
      "dict_get manifest ''required_paths'' = JArr (map JStr (sorted_set required))"
      "dict_get manifest ''files'' = JArr ?vs"
      "validate_manifest_window manifest now = []"
    using assms(8) by (simp_all add: m dict_get_def validate_manifest_window_def)
  have version: "py_str (dict_get_or manifest ''version'' (JStr [])) = ?ver"
    by (simp add: dict_get_or_some [OF fields(2)])
  have hdr: "check_manifest_header manifest v now = []"
    using assms(6) origin by (auto simp: check_manifest_header_def fields ints asks_for_def want_text_def)
  have producer: "check_producer (producer_json a) = []"
    using assms(5) by (auto simp: check_producer_def producer_json_def dict_get_def nonempty_str_iff producer_named_def no_report)
  have vs: "?rs \<noteq> []" using assms(3) by (simp add: scan_records flip: set_empty)
  have paths: "check_required_paths env ?ver (JArr (map JStr (sorted_set required))) (snd ?c) = Inr []"
    using required_core [OF req core] accepted(2)
    by (auto simp: check_required_paths_def req Let_def o_def filter_map image_image)
  have against: "check_input_root env (input_root, t) ?ver (snd ?c) ?vs = Inr []"
    using core clean accepted(2) assms(4)
    by (auto simp: check_input_root_def Let_def split_beta no_foreign_trees_def no_report)
  show ?thesis
    by (simp add: validate_manifest_payload_def Let_def split_beta assms(7) version fields hdr producer vs paths against
        provenance accepted(1) collectE_nil asks_for_def [THEN iffD1, OF assms(6)] del: collectE.simps)
qed

section \<open>A concrete ingress\<close>

definition hex_text :: "nat \<Rightarrow> char \<Rightarrow> string" where
  "hex_text n c = replicate n c"

definition audit_document :: json where
  "audit_document = JObj [(''schema_version'', JStr INGRESS_AUDIT_SCHEMA), (''status'', JStr ''collected''),
     (''events_sha256'', JStr (hex_text 64 (CHR ''a''))), (''source_kind'', JStr ''organization''),
     (''repository'', JStr ''org/os''), (''query'', JStr ''all''), (''event_count'', JInt 3),
     (''collector'', JObj [(''identity'', JStr ''ops'')]),
     (''lookback_window'', JObj [(''start'', JStr ''2026-01-01''), (''end'', JStr ''2026-02-01''), (''days'', JInt 31)]),
     (''raw_export'', JObj [(''path'', JStr ''raw.json''), (''bytes'', JInt 9), (''sha256'', JStr (hex_text 64 (CHR ''b'')))]),
     (''replay'', JObj [(''status'', JStr ''passed''), (''unapproved_events'', JArr [])])]"

definition registry_document :: json where
  "registry_document = JObj [(''schema_version'', JStr ''suderra.lab-station-registry.v1'')]"

definition json_file :: "char \<Rightarrow> json \<Rightarrow> regular_file" where
  "json_file c v = \<lparr>size_of = 40, sha_of = hex_text 64 c, text_content = [], json_content = Some v\<rparr>"

definition sample_dir :: "string list" where
  "sample_dir = [''release-governance'', ''v0.1.0'']"

definition sample_tree :: tree where
  "sample_tree = [(sample_dir @ [''station-registry.json''], File (json_file (CHR ''c'') registry_document)),
     (sample_dir @ [''audit-log.json''], File (json_file (CHR ''d'') audit_document)),
     (sample_dir, Dir), ([''release-governance''], Dir)]"

definition sample_env :: ingress_env where
  "sample_env = \<lparr>allowed_dirs = [''release-governance'', ''release-security''],
     forbidden_dirs = [''release-ingress'', ''signed-release''], schema_for = (\<lambda>n. ''suderra.'' @ n),
     required_paths = (\<lambda>v. Inr [''release-governance/'' @ v @ ''/audit-log.json'',
       ''release-governance/'' @ v @ ''/station-registry.json''])\<rparr>"

definition sample_args :: create_args where
  "sample_args = \<lparr>for_version = ''v0.1.0'', for_source_sha = hex_text 40 (CHR ''e''), build_run_id = ''17'',
     build_run_attempt = ''1'', bundle_url = ''https://evidence.example/bundle.tgz'',
     bundle_sha256 = hex_text 64 (CHR ''1''), bundle_signature_sha256 = hex_text 64 (CHR ''2''),
     bundle_certificate_sha256 = hex_text 64 (CHR ''3''), certificate_identity = ''operator'',
     certificate_issuer = ''https://token.actions.githubusercontent.com'', bundle_host = ''evidence.example'',
     repository = ''org/os'', workflow = ''ingress'', run_id = ''18'', run_attempt = ''1'', actor = ''ops''\<rparr>"

definition sample_replay :: validate_args where
  "sample_replay = \<lparr>against_root = Some (path_of ''input'', sample_tree), want_version = Some ''v0.1.0'',
     want_source_sha = None, want_build_run_id = None, want_build_run_attempt = None,
     require_signature = False, identity_arg = None, issuer_arg = None\<rparr>"

definition sample_stamps :: "string \<times> string" where
  "sample_stamps = (''2026-03-01T00:00:00Z'', ''2026-03-02T00:00:00Z'')"

definition sample_manifest :: "obj \<times> string list" where
  "sample_manifest = (case create_manifest sample_env (path_of ''input'') sample_tree sample_stamps sample_args of
     Inl _ \<Rightarrow> ([], []) | Inr r \<Rightarrow> r)"

lemma record_json_paths:
  "map (\<lambda>v. py_str (dict_get (members v) ''path'')) (filter is_obj (map record_json rs)) = map rec_path rs"
  by (induction rs) (simp_all add: record_json_def dict_get_def)

lemma core_required_nil:
  "tree_file t (parts (path_of q)) = Some f \<Longrightarrow> json_content f = Some (JObj kvs) \<Longrightarrow>
     core_schema env (path_of q) = Some s \<Longrightarrow> dict_get kvs ''schema_version'' = JStr s \<Longrightarrow> core_required env r t q = []"
  by (simp add: core_required_def Let_def)

lemma sample_required:
  "core_required sample_env (path_of ''input'') sample_tree ''release-governance/v0.1.0/audit-log.json'' = []"
  "core_required sample_env (path_of ''input'') sample_tree ''release-governance/v0.1.0/station-registry.json'' = []"
proof -
  have "tree_file sample_tree (parts (path_of ''release-governance/v0.1.0/audit-log.json'')) =
        Some (json_file (CHR ''d'') audit_document)"
      "tree_file sample_tree (parts (path_of ''release-governance/v0.1.0/station-registry.json'')) =
        Some (json_file (CHR ''c'') registry_document)"
      "core_schema sample_env (path_of ''release-governance/v0.1.0/audit-log.json'') = Some INGRESS_AUDIT_SCHEMA"
      "core_schema sample_env (path_of ''release-governance/v0.1.0/station-registry.json'') =
        Some ''suderra.lab-station-registry.v1''"
    by code_simp+
  then show
    "core_required sample_env (path_of ''input'') sample_tree ''release-governance/v0.1.0/audit-log.json'' = []"
    "core_required sample_env (path_of ''input'') sample_tree ''release-governance/v0.1.0/station-registry.json'' = []"
    by (simp_all add: core_required_nil json_file_def audit_document_def registry_document_def dict_get_def)
qed

lemma sample_paths:
  "required_paths sample_env ''v0.1.0'' =
     Inr [''release-governance/v0.1.0/audit-log.json'', ''release-governance/v0.1.0/station-registry.json'']"
  by (simp add: sample_env_def)

lemma sample_scan:
  "snd (scan_evidence_files sample_env sample_tree ''v0.1.0'') = []"
  "map rec_path (fst (scan_evidence_files sample_env sample_tree ''v0.1.0'')) =
     [''release-governance/v0.1.0/audit-log.json'', ''release-governance/v0.1.0/station-registry.json'']"
  by code_simp+

lemma sample_core:
  "validate_core_files sample_env (path_of ''input'') sample_tree ''v0.1.0''
     (map record_json (fst (scan_evidence_files sample_env sample_tree ''v0.1.0''))) = Inr []"
proof -
  have "core_audit (path_of ''input'') sample_tree ''v0.1.0'' = Inr []"
      "core_registry (path_of ''input'') sample_tree ''v0.1.0'' = []"
    by code_simp+
  then show ?thesis
    by (simp add: validate_core_files_def sample_paths sample_required Let_def record_json_paths sample_scan(2)
        no_report minus_list_def sorted_set_def)
qed

lemma sample_checks:
  "validate_version_source ''v0.1.0'' (hex_text 40 (CHR ''e'')) = []"
  "check_positive_int p (JStr ''17'') = []" "check_positive_int p (JStr ''1'') = []"
  "validate_bundle_provenance (bundle_json sample_args) = Inr []"
  by code_simp+

lemma sample_created:
  "create_manifest sample_env (path_of ''input'') sample_tree sample_stamps sample_args = Inr (fst sample_manifest, [])"
proof -
  have "for_version sample_args = ''v0.1.0''" "for_source_sha sample_args = hex_text 40 (CHR ''e'')"
      "build_run_id sample_args = ''17''" "build_run_attempt sample_args = ''1''"
    by (simp_all add: sample_args_def)
  then show ?thesis
    using sample_core by (simp add: sample_manifest_def create_manifest_def sample_checks sample_paths sample_scan split_beta)
qed

lemma sample_evidence:
  "evidence_wf sample_env sample_tree" "scanned_files sample_env sample_tree \<noteq> []"
  "no_foreign_trees sample_env sample_tree (for_version sample_args)" "producer_named sample_args"
  "asks_for sample_args sample_replay"
  by code_simp+

lemma sample_window:
  "validate_manifest_window [(''generated_at'', JStr (fst sample_stamps)), (''expires_at'', JStr (snd sample_stamps))] 0 = []"
proof -
  have days: "parse_date ''2026-03-01'' = Some 739676" "parse_date ''2026-03-02'' = Some 739677"
    by (simp_all add: parse_date_def char_at_def digits_def is_ascii_digit_def code_def digits_val_def
        date_ordinal_def days_before_year_def month_lengths_def leap_def nth_Cons')
  have clock: "parse_time ''00:00:00+00:00'' = Some (0, Some 0)" by code_simp
  have "fromisoformat ''2026-03-01T00:00:00+00:00'' = Some \<lparr>local_us = 63907920000000000, utc_offset = Some 0\<rparr>"
      "fromisoformat ''2026-03-02T00:00:00+00:00'' = Some \<lparr>local_us = 63908006400000000, utc_offset = Some 0\<rparr>"
    by (simp_all add: fromisoformat_def separator_at_def char_at_def nth_Cons' days clock day_micros_def)
  moreover have "nonblank_str (JStr (fst sample_stamps))" "nonblank_str (JStr (snd sample_stamps))"
      "ends_with (fst sample_stamps) ''Z''" "ends_with (snd sample_stamps) ''Z''"
    by code_simp+
  ultimately show ?thesis
    by (simp add: validate_manifest_window_def parse_utc_def dict_get_def sample_stamps_def whole_seconds_def second_micros_def)
qed

lemma sample_against: "against_root sample_replay = Some (path_of ''input'', sample_tree)"
  by (simp add: sample_replay_def)

lemma sample_valid:
  "validate_manifest_payload sample_env (\<lambda>_. None) (path_of ''m.json'') (\<lambda>_ _. None) 0 sample_replay (fst sample_manifest) = Inr []"
  by (rule round_trip [OF sample_created sample_evidence sample_against sample_window])

theorem validated_manifest_matches_tree_witness:
  "\<exists>vs. dict_get (fst sample_manifest) ''files'' = JArr vs \<and> distinct (map listed_path vs) \<and>
     listed_path ` set vs =
       {''release-governance/v0.1.0/audit-log.json'', ''release-governance/v0.1.0/station-registry.json''}"
proof -
  have version: "dict_get (fst sample_manifest) ''version'' = JStr ''v0.1.0''"
    by (rule created_manifest [OF sample_created]) (simp add: dict_get_def sample_args_def)
  have "rec_path ` set (fst (scan_evidence_files sample_env sample_tree ''v0.1.0'')) =
      {''release-governance/v0.1.0/audit-log.json'', ''release-governance/v0.1.0/station-registry.json''}"
    using arg_cong [OF sample_scan(2), of set] by simp
  then show ?thesis
    using validated_manifest_matches_tree [OF sample_valid sample_against] version by auto
qed

definition sample_staged :: staged where
  "sample_staged = (let f = \<lambda>c. (path_of [c], Some (json_file c JNull)) in
     \<lparr>bundle_file = f (CHR ''1''), signature_file = f (CHR ''2''), certificate_file = f (CHR ''3''),
      members_of = [(''bundle/release-security/v0.1.0/scan.json'', MFile (json_file (CHR ''4'') JNull))]\<rparr>)"


text \<open>
  C31. Round trip: a manifest that \<open>create\<close> writes without failures for a tree with files
  validates against the same tree without failures, for the version, the commit and the build run
  it was made for and with no signature asked for, provided that the tree's files carry real digests
  and the schemas their paths demand, none of the forbidden trees is there, the producer is named,
  and the manifest has not expired.  Unlike the validator, \<open>create\<close> looks neither at the forbidden
  trees nor at the schemas of files that are not required.
\<close>

theorem created_manifest_validates:
  assumes "create_manifest env input_root t stamps a = Inr (manifest, [])"
    and "evidence_wf env t" and "scanned_files env t \<noteq> []" and "no_foreign_trees env t (for_version a)"
    and "producer_named a" and "asks_for a v" and "against_root v = Some (input_root, t)"
    and "validate_manifest_window [(''generated_at'', JStr (fst stamps)), (''expires_at'', JStr (snd stamps))] now = []"
  shows "validate_manifest_payload env fs p cosign now v manifest = Inr []"
  using assms by (rule round_trip)

theorem created_manifest_validates_witness:
  "validate_manifest_payload sample_env (\<lambda>_. None) (path_of ''m.json'') (\<lambda>_ _. Some ''refused'') 0 sample_replay (fst sample_manifest) = Inr []"
  by (rule created_manifest_validates [OF sample_created sample_evidence sample_against sample_window])

end
