(* ===== verification/PyDump.thy ===== *)
theory PyDump
  imports PyJson
begin

text \<open>
  \<open>json.dumps(v, sort_keys=True, separators=(",", ":"))\<close>, the canonical text whose digest the
  scripts sign and compare, and the proof that it identifies the value up to the order of keys.
  The members of an object come in the order of their keys; text is escaped to ASCII.
\<close>

section \<open>The canonical text\<close>

definition quote_char :: char where
  "quote_char = CHR 0x22"

definition backslash :: char where
  "backslash = CHR 0x5C"

definition escape :: "char \<Rightarrow> string" where
  "escape c = (let n = code c in
     if n = 34 \<or> n = 92 then [backslash, c]
     else if n = 8 then [backslash, CHR ''b'']
     else if n = 9 then [backslash, CHR ''t'']
     else if n = 10 then [backslash, CHR ''n'']
     else if n = 12 then [backslash, CHR ''f'']
     else if n = 13 then [backslash, CHR ''r'']
     else if 32 \<le> n \<and> n \<le> 126 then [c]
     else [backslash, CHR ''u'', CHR ''0'', CHR ''0'', hex_digit (n div 16), hex_digit (n mod 16)])"

lemma escape_char [code]:
  "escape c = (if c = quote_char \<or> c = backslash then [backslash, c]
     else if c = CHR 0x08 then [backslash, CHR ''b'']
     else if c = CHR 0x09 then [backslash, CHR ''t'']
     else if c = CHR 0x0A then [backslash, CHR ''n'']
     else if c = CHR 0x0C then [backslash, CHR ''f'']
     else if c = CHR 0x0D then [backslash, CHR ''r'']
     else if CHR '' '' \<le> c \<and> c \<le> CHR ''~'' then [c]
     else [backslash, CHR ''u'', CHR ''0'', CHR ''0'', hex_digit (code c div 16), hex_digit (code c mod 16)])"
  unfolding char_is [of c] by (simp add: escape_def Let_def code_def less_eq_char_def quote_char_def backslash_def)

definition dump_str :: "string \<Rightarrow> string" where
  "dump_str s = quote_char # concat (map escape s) @ [quote_char]"

definition dump_member :: "string \<times> string \<Rightarrow> string" where
  "dump_member kt = dump_str (fst kt) @ '':'' @ snd kt"

fun dumps :: "json \<Rightarrow> string" where
  "dumps JNull = ''null''"
| "dumps (JBool b) = (if b then ''true'' else ''false'')"
| "dumps (JInt i) = int_str i"
| "dumps (JFloat _ t) = t"
| "dumps (JStr s) = dump_str s"
| "dumps (JArr xs) = ''['' @ join '','' (map dumps xs) @ '']''"
| "dumps (JObj kvs) = ''{'' @ join '','' (map dump_member (sort_key fst (map (\<lambda>(k, v). (k, dumps v)) kvs))) @ ''}''"

section \<open>The text of a string is self-delimiting\<close>

definition unhex :: "char \<Rightarrow> nat" where
  "unhex c = (if code c < 58 then code c - 48 else code c - 87)"

fun unescape :: "string \<Rightarrow> char \<times> string" where
  "unescape (c # d # s) =
     (if code c \<noteq> 92 then (c, d # s)
      else if d = CHR ''b'' then (char_of (8::nat), s)
      else if d = CHR ''t'' then (char_of (9::nat), s)
      else if d = CHR ''n'' then (char_of (10::nat), s)
      else if d = CHR ''f'' then (char_of (12::nat), s)
      else if d = CHR ''r'' then (char_of (13::nat), s)
      else if d = CHR ''u'' then (char_of (unhex (s ! 2) * 16 + unhex (s ! 3)), drop 4 s)
      else (d, s))"
| "unescape s = (hd s, tl s)"

lemma code_less: "code c < 256"
  by (simp add: code_def)

lemma char_of_code [simp]: "char_of (code c) = c"
  by (simp add: code_def)

lemma of_char_code: "of_char c = code c"
  by (simp add: code_def)

lemma code_is: "code c = n \<Longrightarrow> c = char_of n"
  by auto

lemma code_inject: "code c = code d \<longleftrightarrow> c = d"
  by (simp add: code_def)

lemma unhex_digit: "d < 16 \<Longrightarrow> unhex (hex_digit d) = d"
  by (simp add: unhex_def hex_digit_def code_def)

lemma code_quote: "code quote_char = 34" and code_backslash: "code backslash = 92"
  by (simp_all add: quote_char_def backslash_def code_def)

lemma unescape_escape:
  assumes "t \<noteq> []"
  shows "unescape (escape c @ t) = (c, t)"
proof -
  obtain d s where t: "t = d # s" using assms by (cases t) auto
  consider "c = quote_char \<or> c = backslash" | "code c \<in> {8, 9, 10, 12, 13}"
    | "32 \<le> code c" "code c \<le> 126" "code c \<notin> {34, 92}"
    | "code c < 32 \<or> 126 < code c" "code c \<notin> {8, 9, 10, 12, 13}"
    using code_inject [of c quote_char] code_inject [of c backslash] unfolding code_quote code_backslash
    by (metis insertCI insertE linorder_not_less singletonD)
  then show ?thesis
  proof cases
    case 1
    moreover have "unescape (escape quote_char @ t) = (quote_char, t)" "unescape (escape backslash @ t) = (backslash, t)"
      by (simp_all add: escape_def Let_def code_def quote_char_def backslash_def)
    ultimately show ?thesis by blast
  next
    case 2
    then have c: "c \<in> {char_of (8::nat), char_of (9::nat), char_of (10::nat), char_of (12::nat), char_of (13::nat)}"
      by (auto dest!: code_is)
    have "\<forall>c\<in>{char_of (8::nat), char_of (9::nat), char_of (10::nat), char_of (12::nat), char_of (13::nat)}. unescape (escape c @ t) = (c, t)"
      by (simp add: escape_def Let_def code_def backslash_def)
    with c show ?thesis by blast
  next
    case 3
    then show ?thesis by (simp add: escape_def Let_def t)
  next
    case 4
    then have "escape c = [backslash, CHR ''u'', CHR ''0'', CHR ''0'', hex_digit (code c div 16), hex_digit (code c mod 16)]"
      by (auto simp: escape_def Let_def)
    moreover have "code c div 16 < 16" using code_less [of c] by simp
    ultimately show ?thesis by (simp add: code_backslash unhex_digit div_mult_mod_eq)
  qed
qed

lemma escape_hd: "\<exists>d s. escape c = d # s \<and> code d \<noteq> 34"
  by (simp add: escape_def Let_def code_backslash)

lemma escape_append: "escape c @ s = escape d @ t \<Longrightarrow> s \<noteq> [] \<Longrightarrow> t \<noteq> [] \<Longrightarrow> c = d \<and> s = t"
  by (metis prod.inject unescape_escape)

lemma escaped_quote: "concat (map escape s) @ quote_char # u = quote_char # v \<longleftrightarrow> s = [] \<and> u = v"
proof (cases s)
  case (Cons c s')
  obtain d r where "escape c = d # r" "code d \<noteq> 34" using escape_hd by blast
  with Cons show ?thesis by (auto simp: code_quote)
qed simp

lemma escaped_append:
  "concat (map escape s) @ quote_char # u = concat (map escape t) @ quote_char # v \<Longrightarrow> s = t \<and> u = v"
proof (induction s arbitrary: t)
  case Nil
  then have "concat (map escape t) @ quote_char # v = quote_char # u" by simp
  then show ?case unfolding escaped_quote by simp
next
  case (Cons c s)
  show ?case
  proof (cases t)
    case Nil
    with Cons.prems have "concat (map escape (c # s)) @ quote_char # u = quote_char # v" by simp
    then show ?thesis unfolding escaped_quote by simp
  next
    case (Cons d t')
    with Cons.prems have "escape c @ (concat (map escape s) @ quote_char # u) = escape d @ (concat (map escape t') @ quote_char # v)"
      by simp
    from escape_append [OF this] have "c = d" "concat (map escape s) @ quote_char # u = concat (map escape t') @ quote_char # v"
      by simp_all
    with Cons.IH [of t'] Cons show ?thesis by simp
  qed
qed

lemma dump_str_append: "dump_str s @ u = dump_str t @ v \<Longrightarrow> s = t \<and> u = v"
  using escaped_append [of s u t v] by (simp add: dump_str_def)

section \<open>The text of a number\<close>

lemma nat_str_char: "c \<in> set (nat_str n) \<Longrightarrow> is_ascii_digit c"
  using nat_str_digits [of n] by (simp add: all_ascii_digits_def list_all_iff)

lemma int_str_inject [simp]: "int_str i = int_str j \<longleftrightarrow> i = j"
proof -
  have minus: "nat_str m \<noteq> CHR ''-'' # s" for m s
    using nat_str_char [of "CHR ''-''" m] by (auto simp: is_ascii_digit_def code_def)
  show ?thesis using minus minus [symmetric] by (auto simp: int_str_def)
qed

definition number_char :: "char \<Rightarrow> bool" where
  "number_char c \<longleftrightarrow> is_ascii_digit c \<or> c = CHR ''-''"

lemma int_str_chars: "list_all number_char (int_str i)"
  by (auto simp: int_str_def list_all_iff number_char_def dest: nat_str_char)

lemma int_str_not_Nil [simp]: "int_str i \<noteq> []"
  by (simp add: int_str_def)

text \<open>What may follow a value in the canonical text.\<close>

definition closing :: "char \<Rightarrow> bool" where
  "closing c \<longleftrightarrow> c \<in> set '',]}''"

definition ends_value :: "string \<Rightarrow> bool" where
  "ends_value s \<longleftrightarrow> s = [] \<or> closing (hd s)"

lemma ends_value_simps [simp]: "ends_value []" "ends_value (c # s) \<longleftrightarrow> closing c"
  by (simp_all add: ends_value_def)

lemma int_str_append:
  assumes "int_str i @ u = int_str j @ v" and "ends_value u" and "ends_value v"
  shows "i = j \<and> u = v"
proof -
  have "takeWhile number_char (int_str n @ w) = int_str n" if "ends_value w" for n w
    using int_str_chars [of n] that
    by (cases w) (auto simp: list_all_iff takeWhile_append closing_def number_char_def is_ascii_digit_def code_def)
  with assms show ?thesis by (metis int_str_inject same_append_eq)
qed

section \<open>The text of a list\<close>

lemma join_concat: "join sep (w # ws) = w @ concat (map (\<lambda>x. sep @ x) ws)"
  by (induction ws arbitrary: w) simp_all

lemma joined_rest:
  assumes "\<And>x y u v. x \<in> set xs \<Longrightarrow> y \<in> set ys \<Longrightarrow> e x @ u = e y @ v \<Longrightarrow> ends_value u \<Longrightarrow> ends_value v \<Longrightarrow> f x = f y \<and> u = v"
    and "closing c" and "c \<noteq> CHR '',''"
    and "concat (map (\<lambda>x. '','' @ e x) xs) @ c # u = concat (map (\<lambda>x. '','' @ e x) ys) @ c # v"
  shows "map f xs = map f ys \<and> u = v"
  using assms(1,4)
proof (induction xs arbitrary: ys)
  case Nil
  then show ?case using assms(3) by (cases ys) auto
next
  case (Cons x xs)
  let ?r = "\<lambda>zs w. concat (map (\<lambda>x. '','' @ e x) zs) @ c # w"
  have ends: "ends_value (?r zs w)" for zs w
    using assms(2) by (cases zs) (auto simp: closing_def)
  from Cons.prems(2) assms(3) obtain y ys' where ys: "ys = y # ys'" by (cases ys) auto
  with Cons.prems(2) have "e x @ ?r xs u = e y @ ?r ys' v" by simp
  from Cons.prems(1) [OF _ _ this ends ends] ys have "f x = f y" "?r xs u = ?r ys' v" by auto
  moreover have "map f xs = map f ys' \<and> u = v"
  proof (rule Cons.IH [of ys'])
    show "?r xs u = ?r ys' v" by fact
    show "f a = f b \<and> s = t" if "a \<in> set xs" "b \<in> set ys'" "e a @ s = e b @ t" "ends_value s" "ends_value t" for a b s t
      by (rule Cons.prems(1)) (use that ys in auto)
  qed
  ultimately show ?case using ys by simp
qed

lemma joined:
  assumes each: "\<And>x y u v. x \<in> set xs \<Longrightarrow> y \<in> set ys \<Longrightarrow> e x @ u = e y @ v \<Longrightarrow> ends_value u \<Longrightarrow> ends_value v \<Longrightarrow> f x = f y \<and> u = v"
    and opens: "\<And>x. x \<in> set xs \<union> set ys \<Longrightarrow> \<exists>d s. e x = d # s \<and> \<not> closing d"
    and c: "closing c" "c \<noteq> CHR '',''"
    and eq: "join '','' (map e xs) @ c # u = join '','' (map e ys) @ c # v"
  shows "map f xs = map f ys \<and> u = v"
proof -
  have clash: "x \<in> set xs \<union> set ys \<Longrightarrow> e x @ s \<noteq> c # t" for x s t using opens [of x] c(1) by auto
  show ?thesis
  proof (cases xs)
    case Nil
    show ?thesis
    proof (cases ys)
      case (Cons y ys')
      with eq Nil have "e y @ (concat (map (\<lambda>x. '','' @ x) (map e ys')) @ c # v) = c # u" by (simp add: join_concat)
      with Cons clash [of y] show ?thesis by auto
    qed (use eq Nil in simp)
  next
    case (Cons x xs')
    show ?thesis
    proof (cases ys)
      case Nil
      with eq Cons have "e x @ (concat (map (\<lambda>x. '','' @ x) (map e xs')) @ c # u) = c # v" by (simp add: join_concat)
      with \<open>xs = x # xs'\<close> clash [of x] show ?thesis by auto
    next
      case (Cons y ys')
      let ?r = "\<lambda>zs w. concat (map (\<lambda>x. '','' @ e x) zs) @ c # w"
      have ends: "ends_value (?r zs w)" for zs w using c(1) by (cases zs) (auto simp: closing_def)
      have "e x @ ?r xs' u = e y @ ?r ys' v"
        using eq \<open>xs = x # xs'\<close> Cons by (simp add: join_concat o_def)
      from each [OF _ _ this ends ends] \<open>xs = x # xs'\<close> Cons have 1: "f x = f y" "?r xs' u = ?r ys' v" by auto
      have "map f xs' = map f ys' \<and> u = v"
        by (rule joined_rest [OF _ c 1(2)], rule each) (use \<open>xs = x # xs'\<close> Cons in auto)
      with 1(1) \<open>xs = x # xs'\<close> Cons show ?thesis by simp
    qed
  qed
qed

section \<open>The text identifies the value\<close>

text \<open>The value with the members of every object in the order of their keys.\<close>

fun canon :: "json \<Rightarrow> json" where
  "canon (JArr xs) = JArr (map canon xs)"
| "canon (JObj kvs) = JObj (sort_key fst (map (\<lambda>(k, v). (k, canon v)) kvs))"
| "canon v = v"

fun float_free :: "json \<Rightarrow> bool" where
  "float_free (JFloat _ _) = False"
| "float_free (JArr xs) = list_all float_free xs"
| "float_free (JObj kvs) = list_all (\<lambda>kv. float_free (snd kv)) kvs"
| "float_free _ = True"

lemma insort_key_map: "insort_key f (g x) (map g xs) = map g (insort_key (\<lambda>a. f (g a)) x xs)"
  by (induction xs) auto

lemma sort_key_map: "sort_key f (map g xs) = map g (sort_key (\<lambda>a. f (g a)) xs)"
  by (induction xs) (simp_all add: insort_key_map)

lemma members_by_key: "sort_key fst (map (\<lambda>(k, v). (k, h v)) kvs) = map (\<lambda>(k, v). (k, h v)) (sort_key fst kvs)"
  by (simp add: sort_key_map o_def split_beta)

definition member_text :: "string \<times> json \<Rightarrow> string" where
  "member_text kv = dump_str (fst kv) @ '':'' @ dumps (snd kv)"

lemma dumps_obj: "dumps (JObj kvs) = ''{'' @ join '','' (map member_text (sort_key fst kvs)) @ ''}''"
  by (simp add: members_by_key o_def split_beta dump_member_def member_text_def [abs_def])

lemma canon_obj: "canon (JObj kvs) = JObj (map (\<lambda>(k, v). (k, canon v)) (sort_key fst kvs))"
  by (simp add: members_by_key)

text \<open>The first character tells the type.\<close>

fun kind_of :: "json \<Rightarrow> string" where
  "kind_of JNull = ''n''"
| "kind_of (JBool b) = (if b then ''t'' else ''f'')"
| "kind_of (JInt i) = ''0''"
| "kind_of (JFloat _ _) = []"
| "kind_of (JStr s) = [quote_char]"
| "kind_of (JArr xs) = ''[''"
| "kind_of (JObj kvs) = ''{''"

lemma dumps_kind:
  assumes "float_free x"
  shows "\<exists>c s. dumps x = c # s \<and> \<not> closing c \<and> kind_of x = (if number_char c then ''0'' else [c])"
proof (cases x)
  case (JInt i)
  obtain c s where "int_str i = c # s" by (cases "int_str i") auto
  then show ?thesis
    using JInt int_str_chars [of i] by (auto simp: number_char_def closing_def is_ascii_digit_def code_def)
qed (use assms in \<open>auto simp: dump_str_def closing_def number_char_def is_ascii_digit_def code_def quote_char_def\<close>)

lemma same_kind:
  assumes "float_free x" and "float_free y" and "dumps x @ u = dumps y @ v"
  shows "kind_of x = kind_of y"
proof -
  obtain c s where "dumps x = c # s" "kind_of x = (if number_char c then ''0'' else [c])"
    using dumps_kind [OF assms(1)] by blast
  moreover obtain d t where "dumps y = d # t" "kind_of y = (if number_char d then ''0'' else [d])"
    using dumps_kind [OF assms(2)] by blast
  ultimately show ?thesis using assms(3) by simp
qed

text \<open>Two values of one kind have the same constructor.\<close>

lemma kind_cases:
  assumes "kind_of x = kind_of y" and "float_free x" and "float_free y"
  obtains "x = y" | i j where "x = JInt i" "y = JInt j" | s t where "x = JStr s" "y = JStr t"
    | xs ys where "x = JArr xs" "y = JArr ys" | xs ys where "x = JObj xs" "y = JObj ys"
  using assms by (cases x; cases y) (auto simp: quote_char_def split: if_splits)

lemma array_text: "dumps (JArr xs) @ u = CHR ''['' # join '','' (map dumps xs) @ CHR '']'' # u"
  by simp

lemma object_text: "dumps (JObj kvs) @ u = CHR ''{'' # join '','' (map member_text (sort_key fst kvs)) @ CHR ''}'' # u"
  by (simp add: dumps_obj del: dumps.simps)

lemma member_append:
  assumes "member_text p @ u = member_text q @ v"
    and "\<And>w z. dumps (snd p) @ w = dumps (snd q) @ z \<Longrightarrow> ends_value w \<Longrightarrow> ends_value z \<Longrightarrow> canon (snd p) = canon (snd q) \<and> w = z"
    and "ends_value u" and "ends_value v"
  shows "(case p of (k, x) \<Rightarrow> (k, canon x)) = (case q of (k, x) \<Rightarrow> (k, canon x)) \<and> u = v"
proof -
  have "dump_str (fst p) @ ('':'' @ dumps (snd p) @ u) = dump_str (fst q) @ ('':'' @ dumps (snd q) @ v)"
    using assms(1) by (simp add: member_text_def)
  from dump_str_append [OF this] have "fst p = fst q" "dumps (snd p) @ u = dumps (snd q) @ v" by simp_all
  with assms(2) [OF this(2) assms(3,4)] show ?thesis by (simp add: split_beta)
qed

lemma dumps_append:
  "float_free x \<Longrightarrow> float_free y \<Longrightarrow> dumps x @ u = dumps y @ v \<Longrightarrow> ends_value u \<Longrightarrow> ends_value v \<Longrightarrow>
     canon x = canon y \<and> u = v"
proof (induction "size x" arbitrary: x y u v rule: less_induct)
  case less
  note ff = less.prems(1,2) and eq = less.prems(3) and ends = less.prems(4,5)
  show ?case
  proof (rule kind_cases [OF same_kind [OF ff eq] ff])
    assume "x = y"
    with eq show ?thesis by simp
  next
    fix i j assume "x = JInt i" "y = JInt j"
    with eq int_str_append [OF _ ends, of i j] show ?thesis by simp
  next
    fix s t assume "x = JStr s" "y = JStr t"
    with eq dump_str_append [of s u t v] show ?thesis by simp
  next
    fix xs ys assume x: "x = JArr xs" and y: "y = JArr ys"
    have "map canon xs = map canon ys \<and> u = v"
    proof (rule joined [where c = "CHR '']''" and e = dumps])
      show "canon a = canon b \<and> w = z"
        if "a \<in> set xs" "b \<in> set ys" "dumps a @ w = dumps b @ z" "ends_value w" "ends_value z" for a b w z
      proof (rule less.hyps [OF _ _ _ that(3-5)])
        show "size a < size x" using that(1) x by (simp add: size_list_estimation' less_Suc_eq_le)
      qed (use that ff x y in \<open>auto simp: list_all_iff\<close>)
      show "\<exists>d s. dumps a = d # s \<and> \<not> closing d" if "a \<in> set xs \<union> set ys" for a
      proof -
        have "float_free a" using that ff x y by (auto simp: list_all_iff)
        then show ?thesis using dumps_kind by blast
      qed
    qed (use eq x y in \<open>auto simp: closing_def\<close>)
    then show ?thesis using x y by simp
  next
    fix xs ys assume x: "x = JObj xs" and y: "y = JObj ys"
    let ?f = "\<lambda>(k, v). (k, canon v)" and ?s = "sort_key fst :: obj \<Rightarrow> obj"
    have "map ?f (?s xs) = map ?f (?s ys) \<and> u = v"
    proof (rule joined [where c = "CHR ''}''" and e = member_text])
      show "?f a = ?f b \<and> w = z"
        if "a \<in> set (?s xs)" "b \<in> set (?s ys)" "member_text a @ w = member_text b @ z" "ends_value w" "ends_value z" for a b w z
      proof (rule member_append [OF that(3) _ that(4,5)])
        show "canon (snd a) = canon (snd b) \<and> w' = z'"
          if t: "dumps (snd a) @ w' = dumps (snd b) @ z'" "ends_value w'" "ends_value z'" for w' z'
        proof (rule less.hyps [OF _ _ _ t])
          have "a \<in> set xs" using \<open>a \<in> set (?s xs)\<close> by simp
          then have "size (snd a) < Suc (size_list (size_prod (\<lambda>_. 0) size) xs)" by (induction xs) auto
          then show "size (snd a) < size x" using x by simp
        qed (use \<open>a \<in> set (?s xs)\<close> \<open>b \<in> set (?s ys)\<close> ff x y in \<open>auto simp: list_all_iff\<close>)
      qed
      show "\<exists>d s. member_text a = d # s \<and> \<not> closing d" for a
        by (simp add: member_text_def dump_str_def closing_def quote_char_def)
    qed (use eq x y in \<open>auto simp: closing_def object_text simp del: dumps.simps\<close>)
    then show ?thesis using x y by (simp only: canon_obj)
  qed
qed

lemma dumps_canon: "dumps (canon x) = dumps x"
proof (induction x)
  case (JArr xs)
  then show ?case by (simp add: o_def cong: map_cong)
next
  case (JObj kvs)
  let ?s = "sort_key fst :: obj \<Rightarrow> obj"
  have "dumps (snd kv) = dumps (canon (snd kv))" if "kv \<in> set (?s kvs)" for kv
    using JObj [of kv "snd kv"] that by (cases kv) simp
  then have "map member_text (?s (map (\<lambda>(k, v). (k, canon v)) (?s kvs))) = map member_text (?s kvs)"
    by (simp add: members_by_key sort_key_id_if_sorted member_text_def split_beta o_def cong: map_cong)
  then show ?case by (simp only: canon_obj dumps_obj members_by_key)
qed simp_all

lemma dumps_inject:
  assumes "float_free x" and "float_free y"
  shows "dumps x = dumps y \<longleftrightarrow> canon x = canon y"
  using dumps_append [OF assms, of "[]" "[]"] dumps_canon [of x] dumps_canon [of y] by auto

end
