(* ===== verification/PyChecks.thy ===== *)
theory PyChecks
  imports PyTime PyDump
begin

text \<open>
  Helpers that the validators of lab input, runtime suites and verification records share:
  membership by \<open>==\<close>, times in UTC with a final \<open>Z\<close>, path identifiers, digests and commits as
  text, file references, and an optional value as a list.
\<close>

section \<open>Values\<close>

text \<open>\<open>v in xs\<close> for a list.\<close>

definition py_in :: "json \<Rightarrow> json list \<Rightarrow> bool" where
  "py_in v xs \<longleftrightarrow> list_ex (py_eq v) xs"

lemma py_eq_str_left [simp]: "py_eq (JStr s) v \<longleftrightarrow> v = JStr s"
  by (cases v) auto

lemma py_in_str [simp]: "py_in (JStr s) xs \<longleftrightarrow> JStr s \<in> set xs"
  by (auto simp: py_in_def list_ex_iff)

text \<open>\<open>value[:-1] + "+00:00"\<close> parsed as a time, for a text that ends with \<open>Z\<close>.\<close>

definition parse_zulu :: "json \<Rightarrow> datetime option" where
  "parse_zulu v = (if is_str v \<and> ends_with (text_of v) ''Z''
     then fromisoformat (butlast (text_of v) @ ''+00:00'') else None)"

text \<open>\<open>^[A-Za-z0-9][A-Za-z0-9._+-]*$\<close>.\<close>

definition safe_identifier :: "string \<Rightarrow> bool" where
  "safe_identifier s \<longleftrightarrow> s \<noteq> [] \<and> is_alnum_ascii (hd s) \<and>
     list_all (\<lambda>c. is_alnum_ascii c \<or> c \<in> set ''._+-'') (tl s)"

definition sha256_text :: "json \<Rightarrow> bool" where
  "sha256_text v \<longleftrightarrow> is_str v \<and> lower_hex_of_length 64 (text_of v)"

definition commit_text :: "json \<Rightarrow> bool" where
  "commit_text v \<longleftrightarrow> is_str v \<and> lower_hex_of_length 40 (text_of v)"

definition str_option :: "json \<Rightarrow> string option" where
  "str_option v = (if is_str v then Some (text_of v) else None)"

text \<open>The names that a field of the objects of a list spells out.\<close>

definition names_in :: "string \<Rightarrow> json list \<Rightarrow> string list" where
  "names_in f xs = map text_of (filter is_str (map (\<lambda>v. dict_get (members v) f) (filter is_obj xs)))"

lemma sha256_text_iff: "sha256_text v \<longleftrightarrow> (\<exists>s. v = JStr s \<and> lower_hex_of_length 64 s)"
  by (cases v) (auto simp: sha256_text_def)

lemma commit_text_iff: "commit_text v \<longleftrightarrow> (\<exists>s. v = JStr s \<and> lower_hex_of_length 40 s)"
  by (cases v) (auto simp: commit_text_def)

lemma names_in_iff: "n \<in> set (names_in f xs) \<longleftrightarrow> (\<exists>o'. JObj o' \<in> set xs \<and> dict_get o' f = JStr n)"
  by (force simp: names_in_def is_str_iff is_obj_iff)

section \<open>Files named by a document\<close>

text \<open>\<open>Path(value)\<close> unless it is absolute or climbs.\<close>

definition inner_path :: "json \<Rightarrow> path option" where
  "inner_path v = (let p = path_of (text_of v) in
     if is_str v \<and> \<not> absolute p \<and> ''..'' \<notin> set (parts p) then Some p else None)"

interpretation inner: path_guard inner_path
  by unfold_locales (auto simp: inner_path_def Let_def is_str_iff split: if_splits)

text \<open>The file below \<open>base\<close> that a value names, with the recorded digest.\<close>

definition names_file :: "store \<Rightarrow> path \<Rightarrow> json \<Rightarrow> json \<Rightarrow> bool" where
  "names_file fs base v digest \<longleftrightarrow> (\<exists>p f. inner_path v = Some p \<and> fs (path_join base p) = Some f \<and>
     0 < size_of f \<and> digest = JStr (sha_of f))"

end
