(* ===== verification/LabStation.thy ===== *)
theory LabStation
  imports PyChecks ContractPolicy
begin

text \<open>
  The first half of \<open>scripts/evidence/validate-lab-input.py\<close>: field checks, files referenced by
  lab evidence, the station registry, and the signed station bundle. The result of a check is
  the list of its messages; a check that may raise returns a run. The hash function, the clock
  and the \<open>openssl\<close> verification are arguments.
\<close>

section \<open>Constants and the policy read from the contract\<close>

definition STATION_BUNDLE_SCHEMA_VERSION :: string where
  "STATION_BUNDLE_SCHEMA_VERSION = ''suderra.lab-station-bundle.v1''"

definition STATION_REGISTRY_SCHEMA_VERSION :: string where
  "STATION_REGISTRY_SCHEMA_VERSION = ''suderra.lab-station-registry.v1''"

definition LAB_LEGACY_SCHEMAS :: "string list" where
  "LAB_LEGACY_SCHEMAS = [''suderra.lab-evidence.v2'']"

definition LAB_STATUS_VALUES :: "string list" where
  "LAB_STATUS_VALUES = [''passed'', ''failed'', ''not_run'', ''not_applicable'', ''not_collected'']"

definition REQUIRED_DEVICE_FIELDS :: "string list" where
  "REQUIRED_DEVICE_FIELDS = [''board'', ''serial'', ''sku'', ''storage_serial'', ''uart_adapter'',
     ''power_supply'', ''boot_firmware'', ''operator'', ''tested_at'']"

definition REQUIRED_STATION_FIELDS :: "string list" where
  "REQUIRED_STATION_FIELDS = [''station_id'', ''fixture_id'', ''operator_id'', ''trusted_key_fingerprint'', ''clock'']"

definition REQUIRED_ARTIFACT_BINDING_FIELDS :: "string list" where
  "REQUIRED_ARTIFACT_BINDING_FIELDS = [''version'', ''source_sha'', ''source_run_id'',
     ''build_artifact_sha256'', ''build_artifact_bytes'']"

definition REQUIRED_DEVICE_IDENTITY_FIELDS :: "string list" where
  "REQUIRED_DEVICE_IDENTITY_FIELDS = [''model'', ''compatible'', ''storage_by_id'', ''storage_serial'', ''root_partuuid'']"

definition REQUIRED_USB_NEGATIVE_TESTS :: "string list" where
  "REQUIRED_USB_NEGATIVE_TESTS = [''no-target-disk'', ''ambiguous-targets'', ''usb-target-without-override'',
     ''tampered-payload'', ''bad-signature'', ''expired-manifest'', ''wrong-board'', ''small-target'',
     ''rollback-floor-violation'']"

definition LAB_STRICT_PROFILES :: "string list" where
  "LAB_STRICT_PROFILES = [''release-candidate'', ''production-candidate'']"

text \<open>
  The module's constants that are read from the contract. The contract that \<open>load_contract\<close>
  returns has strings in these lists.
\<close>

record lab_policy =
  lab_schema :: string
  lab_checks :: "string list"
  lab_x86_checks :: "string list"
  lab_x86_negative :: "string list"
  lab_boards :: "(string \<times> string list) list"

definition lab_policy_of :: "obj \<Rightarrow> lab_policy checked" where
  "lab_policy_of contract =
     bindE (contract_schema_version ''lab_evidence'' contract) (\<lambda>schema.
     bindE (hardware_required_checks contract) (\<lambda>checks.
     bindE (x86_hardware_required_checks contract) (\<lambda>x86.
     bindE (x86_required_negative_tests contract) (\<lambda>negative.
     bindE (required_hardware_boards_by_target contract) (\<lambda>boards.
       Inr \<lparr>lab_schema = schema, lab_checks = map text_of checks, lab_x86_checks = map text_of x86,
         lab_x86_negative = map text_of negative, lab_boards = boards\<rparr>)))))"

section \<open>Field checks\<close>

definition lab_string :: "string \<Rightarrow> json \<Rightarrow> string list" where
  "lab_string p v = report (\<not> nonblank_str v) (msg p ''must be a non-empty string'')"

definition lab_status :: "string \<Rightarrow> json \<Rightarrow> string list run" where
  "lab_status p v = bindE (in_str_set v LAB_STATUS_VALUES) (\<lambda>known.
     Inr (report (\<not> known) (msg p (''must be one of: '' @ comma_join (sorted_set LAB_STATUS_VALUES)))))"

definition lab_sha256 :: "string \<Rightarrow> json \<Rightarrow> string list" where
  "lab_sha256 p v = report (\<not> sha256_text v) (msg p ''must be a lowercase sha256 hex digest'')"

definition lab_positive :: "string \<Rightarrow> json \<Rightarrow> string list" where
  "lab_positive p v = report (\<not> int_above 0 v) (msg p ''must be a positive integer'')"

definition lab_strings :: "string \<Rightarrow> obj \<Rightarrow> string list \<Rightarrow> string list" where
  "lab_strings p o' names = concat (map (\<lambda>f. lab_string (p @ ''.'' @ f) (dict_get o' f)) names)"

section \<open>Referenced files\<close>

definition lab_relative_file :: "store \<Rightarrow> path \<Rightarrow> string \<Rightarrow> json \<Rightarrow> bool \<Rightarrow> string option \<Rightarrow> string list" where
  "lab_relative_file fs here p v check_files expected = (let actual = path_join here (path_of (text_of v)) in
     if \<not> nonblank_str v then [msg p ''must be a relative file path'']
     else if inner_path v = None then [msg p (''must be relative and must not contain '' @ repr_str ''..'')]
     else if check_files \<and> \<not> nonempty_file fs actual
       then [msg p (''referenced file is missing or empty: '' @ text_of v)]
     else (case expected of None \<Rightarrow> [] | Some sha \<Rightarrow> report (check_files \<and> file_sha fs actual \<noteq> sha)
       (msg p (''referenced file sha256 mismatch: expected '' @ sha @ '', got '' @ file_sha fs actual))))"

text \<open>\<open>resolve_relative_file\<close>: the messages and the path; no caller allows an empty file.\<close>

definition file_size :: "store \<Rightarrow> path \<Rightarrow> int" where
  "file_size fs p = (case fs p of None \<Rightarrow> 0 | Some f \<Rightarrow> size_of f)"

definition int_value :: "json \<Rightarrow> json option" where
  "int_value v = (if is_int v then Some v else None)"

definition lab_resolve_file ::
  "store \<Rightarrow> path \<Rightarrow> string \<Rightarrow> json \<Rightarrow> bool \<Rightarrow> string option \<Rightarrow> json option \<Rightarrow> string list \<times> path option" where
  "lab_resolve_file fs here p v check_files expected expected_bytes = (let actual = path_join here (path_of (text_of v)) in
     if \<not> nonblank_str v then ([msg p ''must be a relative file path''], None)
     else if inner_path v = None then ([msg p (''must be relative and must not contain '' @ repr_str ''..'')], None)
     else if \<not> check_files then ([], Some actual)
     else if \<not> nonempty_file fs actual then ([msg p (''referenced file is missing or empty: '' @ text_of v)], Some actual)
     else ((case expected_bytes of None \<Rightarrow> [] | Some n \<Rightarrow> report (file_size fs actual \<noteq> int_of n)
              (msg p (''referenced file size mismatch: expected '' @ py_str n @ '', got '' @ int_str (file_size fs actual))))
           @ (case expected of None \<Rightarrow> [] | Some sha \<Rightarrow> report (file_sha fs actual \<noteq> sha)
              (msg p (''referenced file sha256 mismatch: expected '' @ sha @ '', got '' @ file_sha fs actual))),
         Some actual))"

definition canonical_lab_payload :: "obj \<Rightarrow> string" where
  "canonical_lab_payload payload =
     dumps (JObj (filter (\<lambda>(k, _). k \<noteq> ''station_bundle'' \<and> k \<noteq> ''station_signature'') payload))"

text \<open>\<open>read_json\<close>, which is \<open>None\<close> where there is nothing to read.\<close>

definition lab_read_json :: "store \<Rightarrow> path \<Rightarrow> json" where
  "lab_read_json fs p = (case load_doc fs p of Loaded v \<Rightarrow> v | _ \<Rightarrow> JNull)"

section \<open>The station registry\<close>

definition station_registry_entry :: "json \<Rightarrow> string option \<Rightarrow> obj option" where
  "station_registry_entry registry station_id = (case station_id of None \<Rightarrow> None | Some i \<Rightarrow>
     map_option members (find (\<lambda>v. is_obj v \<and> dict_get (members v) ''station_id'' = JStr i)
       (elems (dict_get (members registry) ''stations''))))"

definition check_adapter :: "string \<Rightarrow> string \<times> json \<Rightarrow> string list" where
  "check_adapter profile ra = (let role = fst ra; adapter = members (snd ra);
       p = ''$.station_registry.adapter_inventory.'' @ role in
     if \<not> is_obj (snd ra) then
       report (profile \<in> set LAB_STRICT_PROFILES) (msg p ''must bind role/id/version/binary_sha256 exactly'')
     else report (dict_get_or adapter ''role'' (JStr role) \<noteq> JStr role)
            (msg (p @ ''.role'') ''must match adapter inventory key'')
       @ lab_strings p adapter [''id'', ''version'']
       @ lab_sha256 (p @ ''.binary_sha256'') (dict_get adapter ''binary_sha256'')
       @ lab_strings p adapter [''command_schema_id''])"

definition check_device_storage :: "json list \<Rightarrow> nat \<times> json \<Rightarrow> string list" where
  "check_device_storage allowed iv = (let
       storage = dict_get (members (dict_get (members (snd iv)) ''device_identity'')) ''storage_by_id'' in
     report (is_str storage \<and> \<not> py_in storage allowed)
       (msg (''$.devices['' @ nat_str (fst iv) @ ''].device_identity.storage_by_id'') ''must be allowed by station registry''))"

text \<open>The checks of the station's own entry, in the order of the source.\<close>

definition check_registry_identity :: "obj \<Rightarrow> obj \<Rightarrow> json \<Rightarrow> json \<Rightarrow> string \<Rightarrow> string list" where
  "check_registry_identity entry station target public_key_sha256 profile = (let
       allowed_v = dict_get entry ''allowed_targets''; allowed = elems allowed_v in
     report (\<not> py_eq (dict_get entry ''fixture_id'') (dict_get station ''fixture_id''))
       (msg ''$.station.fixture_id'' ''must match external station registry'')
     @ report (\<not> py_eq (dict_get entry ''public_key_sha256'') public_key_sha256)
         (msg ''$.station_signature.public_key_sha256'' ''must match external station registry'')
     @ (if \<not> is_list allowed_v \<or> allowed = [] then [msg ''$.station_registry.allowed_targets'' ''must be a non-empty list'']
        else if profile \<in> set LAB_STRICT_PROFILES \<and> py_in (JStr ''*'') allowed
          then [msg ''$.station_registry.allowed_targets'' ''must not contain wildcard target authorization'']
        else report (\<not> py_in (JStr ''*'') allowed \<and> \<not> py_in target allowed)
          (msg ''$.target'' ''must be allowed by external station registry'')))"

definition check_calibration :: "int \<Rightarrow> json \<Rightarrow> string \<Rightarrow> string list run" where
  "check_calibration now expires profile = (let p = ''$.station_registry.calibration_expires_at'' in
     case parse_zulu expires of None \<Rightarrow> Inr [msg p ''must be recorded'']
     | Some d \<Rightarrow> if profile \<in> set LAB_STRICT_PROFILES
         then bindE (not_after d now) (\<lambda>expired. Inr (report expired (msg p ''must be in the future'')))
         else Inr [])"

definition check_registry_operators :: "obj \<Rightarrow> string \<Rightarrow> string list" where
  "check_registry_operators entry profile = (let roles = dict_get entry ''operator_roles'' in
     if profile \<in> set LAB_STRICT_PROFILES then
       report (\<not> is_list roles \<or> elems roles = []) (msg ''$.station_registry.operator_roles'' ''must be a non-empty list'')
       @ report (\<not> nonblank_str (dict_get entry ''operator_authorization''))
           (msg ''$.station_registry.operator_authorization'' ''must bind operator authorization'')
     else [])"

definition check_registry_storage :: "obj \<Rightarrow> json \<Rightarrow> string \<Rightarrow> string list" where
  "check_registry_storage entry devices profile = (let storage = dict_get entry ''allowed_storage_by_id'' in
     (if \<not> is_list storage \<or> elems storage = []
      then [msg ''$.station_registry.allowed_storage_by_id'' ''must be a non-empty list'']
      else report (profile \<in> set LAB_STRICT_PROFILES \<and> py_in (JStr ''*'') (elems storage))
        (msg ''$.station_registry.allowed_storage_by_id'' ''must not contain wildcard storage authorization''))
     @ concat (map (check_device_storage (elems storage)) (filter (\<lambda>iv. is_obj (snd iv)) (enumerate 0 (elems devices)))))"

definition check_adapters :: "obj \<Rightarrow> string \<Rightarrow> string list" where
  "check_adapters entry profile = (let adapters = dict_get entry ''adapter_inventory'' in
     if \<not> is_obj adapters \<or> members adapters = []
     then [msg ''$.station_registry.adapter_inventory'' ''must be a non-empty object'']
     else concat (map (check_adapter profile) (members adapters)))"

definition check_station_registry :: "int \<Rightarrow> obj \<Rightarrow> json \<Rightarrow> json \<Rightarrow> string \<Rightarrow> string list run" where
  "check_station_registry now payload registry public_key_sha256 profile = (let
       station = dict_or_empty (dict_get payload ''station'');
       schema = report (dict_get (members registry) ''schema_version'' \<noteq> JStr STATION_REGISTRY_SCHEMA_VERSION)
         (msg ''$.station_registry.schema_version'' (''must be '' @ STATION_REGISTRY_SCHEMA_VERSION)) in
     if \<not> is_obj registry then Inr [msg ''$.station_registry'' ''strict lab input requires an external station registry'']
     else case station_registry_entry registry (str_option (dict_get station ''station_id'')) of
       None \<Rightarrow> Inr (schema @ [msg ''$.station.station_id'' ''must exist in external station registry''])
     | Some entry \<Rightarrow> collectE
         [Inr (schema @ check_registry_identity entry station (dict_get payload ''target'') public_key_sha256 profile),
          check_calibration now (dict_get entry ''calibration_expires_at'') profile,
          Inr (check_adapters entry profile @ check_registry_operators entry profile
            @ check_registry_storage entry (dict_get payload ''devices'') profile)])"

section \<open>The station bundle\<close>

text \<open>What a run of \<open>openssl pkeyutl -verify\<close> leaves: its status and its output.\<close>

record openssl_run =
  return_code :: int
  std_err :: string
  std_out :: string

text \<open>
  The surroundings of the validator: files, clock, SHA-256 of a text, whether \<open>openssl\<close> is
  installed, and its verdict on a public key, a signature and a signed file.
\<close>

record lab_env =
  lab_files :: store
  lab_now :: int
  sha256_bytes :: "string \<Rightarrow> string"
  has_openssl :: bool
  run_openssl :: "path \<Rightarrow> path \<Rightarrow> path \<Rightarrow> openssl_run"

definition bundle_matches :: "string \<Rightarrow> obj \<Rightarrow> obj \<Rightarrow> string list \<Rightarrow> string list" where
  "bundle_matches what doc o' names = concat (map (\<lambda>f. report (\<not> py_eq (dict_get doc f) (dict_get o' f))
     (msg (''$.station_bundle.'' @ f) (''must match '' @ what @ f))) names)"

definition check_bundle_document :: "lab_env \<Rightarrow> obj \<Rightarrow> obj \<Rightarrow> string list" where
  "check_bundle_document env payload doc = (let
       station = dict_or_empty (dict_get payload ''station'');
       binding = dict_or_empty (dict_get payload ''artifact_binding'') in
     report (dict_get doc ''schema_version'' \<noteq> JStr STATION_BUNDLE_SCHEMA_VERSION)
       (msg ''$.station_bundle.path'' (''station bundle schema must be '' @ STATION_BUNDLE_SCHEMA_VERSION))
     @ bundle_matches ''top-level '' doc payload [''version'', ''target'', ''lab_id'']
     @ report (\<not> py_eq (dict_get doc ''station_id'') (dict_get station ''station_id''))
         (msg ''$.station_bundle.station_id'' ''must match station.station_id'')
     @ bundle_matches ''artifact_binding.'' doc binding
         [''source_sha'', ''source_run_id'', ''build_artifact_sha256'', ''build_artifact_bytes'']
     @ report (dict_get doc ''lab_payload_sha256'' \<noteq> JStr (sha256_bytes env (canonical_lab_payload payload)))
         (msg ''$.station_bundle.lab_payload_sha256'' ''must match unsigned lab payload''))"

definition check_bundle_signature :: "lab_env \<Rightarrow> path option \<Rightarrow> path option \<Rightarrow> path \<Rightarrow> string list" where
  "check_bundle_signature env key_path signature_path bundle_path =
     (case (signature_path, key_path) of (Some s, Some k) \<Rightarrow>
        if \<not> has_openssl env then [msg ''$.station_signature'' ''openssl is required to verify station signature'']
        else let r = run_openssl env k s bundle_path; e = strip (std_err r); t = strip (std_out r) in
          report (return_code r \<noteq> 0) (msg ''$.station_signature.signature''
            (if e \<noteq> [] then e else if t \<noteq> [] then t else ''station bundle signature verification failed''))
      | _ \<Rightarrow> [])"

text \<open>The part after the field checks: the bundle file and its signature.\<close>

definition check_bundle_file ::
  "lab_env \<Rightarrow> obj \<Rightarrow> path option \<Rightarrow> path option \<Rightarrow> path \<Rightarrow> string list" where
  "check_bundle_file env payload key_path signature_path bundle_path =
     (case load_doc (lab_files env) bundle_path of
        OsError \<Rightarrow> [msg ''$.station_bundle.path'' ''cannot read station bundle JSON: OSError'']
      | BadJson \<Rightarrow> [msg ''$.station_bundle.path'' ''cannot read station bundle JSON: JSONDecodeError'']
      | Loaded v \<Rightarrow> if \<not> is_obj v then [msg ''$.station_bundle.path'' ''station bundle must be a JSON object'']
          else check_bundle_document env payload (members v)
            @ check_bundle_signature env key_path signature_path bundle_path)"

definition check_fingerprint :: "obj \<Rightarrow> json \<Rightarrow> string list" where
  "check_fingerprint station public_key_sha256 = (let fingerprint = dict_get station ''trusted_key_fingerprint'' in
     report (is_str public_key_sha256 \<and> is_str fingerprint \<and>
         text_of fingerprint \<notin> {text_of public_key_sha256, ''sha256:'' @ text_of public_key_sha256})
       (msg ''$.station.trusted_key_fingerprint'' ''must match station public key sha256''))"

definition check_station_bundle ::
  "lab_env \<Rightarrow> path \<Rightarrow> obj \<Rightarrow> bool \<Rightarrow> string \<Rightarrow> json \<Rightarrow> string list run" where
  "check_station_bundle env here payload check_files profile registry = (let
       bundle_v = dict_get payload ''station_bundle''; signature_v = dict_get payload ''station_signature'';
       b = members bundle_v; s = members signature_v; resolve = lab_resolve_file (lab_files env) here;
       algorithm = ''openssl-pkeyutl-ed25519-raw'';
       n = dict_get b ''bytes''; sha = (\<lambda>o' f. str_option (dict_get o' f));
       (bundle_errors, bundle_path) = resolve ''$.station_bundle.path'' (dict_get b ''path'') check_files
         (sha b ''sha256'') (int_value n);
       (signature_errors, signature_path) = resolve ''$.station_signature.signature'' (dict_get s ''signature'')
         check_files (sha s ''signature_sha256'') None;
       (key_errors, key_path) = resolve ''$.station_signature.public_key'' (dict_get s ''public_key'')
         check_files (sha s ''public_key_sha256'') None;
       public_key_sha256 = dict_get s ''public_key_sha256'' in
     if profile \<notin> set LAB_STRICT_PROFILES then Inr []
     else if \<not> is_obj bundle_v then Inr [msg ''$.station_bundle'' ''must be an object for release lab input'']
     else if \<not> is_obj signature_v then Inr [msg ''$.station_signature'' ''must be an object for release lab input'']
     else collectE
       [Inr (report (dict_get b ''schema_version'' \<noteq> JStr STATION_BUNDLE_SCHEMA_VERSION)
            (msg ''$.station_bundle.schema_version'' (''must be '' @ STATION_BUNDLE_SCHEMA_VERSION))
          @ lab_sha256 ''$.station_bundle.sha256'' (dict_get b ''sha256'')
          @ lab_positive ''$.station_bundle.bytes'' n @ bundle_errors
          @ lab_strings ''$.station_signature'' s [''algorithm'', ''signature'', ''public_key'']
          @ report (dict_get s ''algorithm'' \<noteq> JStr algorithm)
              (msg ''$.station_signature.algorithm'' (''must be '' @ algorithm))
          @ lab_sha256 ''$.station_signature.signature_sha256'' (dict_get s ''signature_sha256'')
          @ lab_sha256 ''$.station_signature.public_key_sha256'' public_key_sha256
          @ signature_errors @ key_errors),
        check_station_registry (lab_now env) payload registry public_key_sha256 profile,
        Inr (check_fingerprint (dict_or_empty (dict_get payload ''station'')) public_key_sha256
          @ (case bundle_path of Some p \<Rightarrow> if check_files
               then check_bundle_file env payload key_path signature_path p else []
             | None \<Rightarrow> []))])"

end
