(* ===== verification/LabInput.thy ===== *)
theory LabInput
  imports LabStation IngressBase MatrixValidate
begin

text \<open>
  The second half of \<open>scripts/evidence/validate-lab-input.py\<close>: the identity of a lab document,
  its station and artifact binding, its devices with their readback, logs and checks, its
  negative tests, \<open>validate_lab\<close>, and the targets that need hardware evidence.
\<close>

section \<open>Arguments\<close>

record lab_args =
  lab_check_files :: bool
  lab_require_pass :: bool
  lab_profile :: string
  lab_version :: "string option"
  lab_target :: "string option"
  lab_source_sha :: "string option"
  lab_source_run_id :: "string option"

definition lab_strict :: "lab_args \<Rightarrow> bool" where
  "lab_strict a \<longleftrightarrow> lab_profile a \<in> set LAB_STRICT_PROFILES"

text \<open>The two components after the last \<open>release-lab-input\<close>, with at least one more below them.\<close>

definition expected_from_lab_path :: "path \<Rightarrow> string option \<times> string option" where
  "expected_from_lab_path p = (let ps = split_on (CHR ''/'') (path_str p);
       after = rev (takeWhile (\<lambda>x. x \<noteq> ''release-lab-input'') (rev ps)) in
     if path_name p \<noteq> ''lab.json'' \<or> ''release-lab-input'' \<notin> set ps then (None, None)
     else case after of v # t # _ # _ \<Rightarrow> (Some v, Some t) | _ \<Rightarrow> (None, None))"

section \<open>Identity, station and artifact binding\<close>

definition lab_schema_check :: "string \<Rightarrow> obj \<Rightarrow> string \<Rightarrow> string list run" where
  "lab_schema_check schema payload profile = (let v = dict_get payload ''schema_version'' in
     if v = JStr schema then Inr []
     else bindE (if profile \<in> set LAB_STRICT_PROFILES then Inr False else in_str_set v LAB_LEGACY_SCHEMAS) (\<lambda>legacy.
       Inr (report (\<not> legacy) (msg ''$.schema_version'' (''must be '' @ schema)))))"

definition lab_expected :: "string option \<Rightarrow> json \<Rightarrow> string \<Rightarrow> string \<Rightarrow> string list" where
  "lab_expected expected v p m = (case expected of None \<Rightarrow> [] | Some e \<Rightarrow> report (v \<noteq> JStr e) (msg p (m @ e)))"

definition lab_identity :: "obj \<Rightarrow> string option \<Rightarrow> string option \<Rightarrow> string list" where
  "lab_identity payload version target =
     concat (map (\<lambda>f. lab_string (''$.'' @ f) (dict_get payload f))
       [''version'', ''target'', ''generated_at'', ''lab_id'', ''operator''])
     @ concat (map (\<lambda>f. let v = dict_get payload f in
         report (is_str v \<and> \<not> safe_identifier (text_of v)) (msg (''$.'' @ f) ''must be a safe path identifier''))
         [''version'', ''target''])
     @ lab_expected version (dict_get payload ''version'') ''$.version'' ''must match lab evidence path version ''
     @ lab_expected target (dict_get payload ''target'') ''$.target'' ''must match lab evidence path target ''"

definition lab_station_check :: "json \<Rightarrow> string list" where
  "lab_station_check v = (let station = members v; tools = dict_get station ''tool_versions'' in
     if \<not> is_obj v then [msg ''$.station'' ''must be an object'']
     else lab_strings ''$.station'' station REQUIRED_STATION_FIELDS
       @ report (\<not> is_obj tools \<or> members tools = []) (msg ''$.station.tool_versions'' ''must be a non-empty object''))"

definition lab_binding_check :: "obj \<Rightarrow> lab_args \<Rightarrow> json \<Rightarrow> string list" where
  "lab_binding_check payload a v = (let p = ''$.artifact_binding''; binding = members v; sha = dict_get binding ''source_sha'' in
     if \<not> is_obj v then [msg p ''must be an object'']
     else lab_strings p binding (filter (\<lambda>f. f \<noteq> ''build_artifact_bytes'') REQUIRED_ARTIFACT_BINDING_FIELDS)
       @ report (\<not> py_eq (dict_get binding ''version'') (dict_get payload ''version''))
           (msg (p @ ''.version'') ''must match top-level version'')
       @ (if \<not> commit_text sha then [msg (p @ ''.source_sha'') ''must be a lowercase git commit sha'']
          else lab_expected (lab_source_sha a) sha (p @ ''.source_sha'') ''must match bound source sha '')
       @ (case lab_source_run_id a of None \<Rightarrow> [] | Some e \<Rightarrow> report (py_str (dict_get binding ''source_run_id'') \<noteq> e)
           (msg (p @ ''.source_run_id'') (''must match bound source Image Build run '' @ e)))
       @ lab_sha256 (p @ ''.build_artifact_sha256'') (dict_get binding ''build_artifact_sha256'')
       @ lab_positive (p @ ''.build_artifact_bytes'') (dict_get binding ''build_artifact_bytes''))"

section \<open>Devices\<close>

definition lab_device_identity :: "string \<Rightarrow> json \<Rightarrow> string list" where
  "lab_device_identity p v = (if \<not> is_obj v then [msg p ''must be an object'']
     else lab_strings p (members v) REQUIRED_DEVICE_IDENTITY_FIELDS)"

text \<open>The readback against the artifact that the document is bound to.\<close>

definition lab_readback_binding :: "string \<Rightarrow> obj \<Rightarrow> json \<Rightarrow> string list" where
  "lab_readback_binding p readback binding_v = (let binding = members binding_v;
       sha = dict_get binding ''build_artifact_sha256''; n = dict_get binding ''build_artifact_bytes'' in
     if \<not> is_obj binding_v then []
     else report (is_str sha \<and> dict_get readback ''expected_sha256'' \<noteq> sha)
         (msg (p @ ''.expected_sha256'') ''must match bound build artifact sha256'')
       @ report (is_int n \<and> \<not> py_eq (dict_get readback ''bytes_read'') n)
         (msg (p @ ''.bytes_read'') ''must match bound build artifact bytes''))"

definition lab_readback :: "string \<Rightarrow> bool \<Rightarrow> json \<Rightarrow> json \<Rightarrow> string list" where
  "lab_readback p strict binding v = (let readback = members v;
       expected = dict_get readback ''expected_sha256''; actual = dict_get readback ''actual_sha256'' in
     if \<not> is_obj v then [msg p ''must be an object'']
     else report (dict_get readback ''scope'' \<noteq> JStr ''full'') (msg (p @ ''.scope'') ''must be full for release lab input'')
       @ lab_sha256 (p @ ''.expected_sha256'') expected @ lab_sha256 (p @ ''.actual_sha256'') actual
       @ report (is_str expected \<and> is_str actual \<and> expected \<noteq> actual)
           (msg (p @ ''.actual_sha256'') ''must match expected_sha256'')
       @ lab_positive (p @ ''.bytes_read'') (dict_get readback ''bytes_read'')
       @ (if strict then lab_readback_binding p readback binding else []))"

definition lab_pass :: "bool \<Rightarrow> string \<Rightarrow> json \<Rightarrow> string list" where
  "lab_pass require_pass p v = report (require_pass \<and> v \<noteq> JStr ''passed'') (msg p ''must be passed for release lab input'')"

definition lab_log :: "store \<Rightarrow> path \<Rightarrow> bool \<Rightarrow> string \<Rightarrow> nat \<times> json \<Rightarrow> string list" where
  "lab_log fs here check_files p iv = (let q = p @ ''.logs['' @ nat_str (fst iv) @ '']''; log = members (snd iv) in
     if is_obj (snd iv) then
       lab_relative_file fs here (q @ ''.path'') (dict_get log ''path'') check_files (str_option (dict_get log ''sha256''))
       @ lab_sha256 (q @ ''.sha256'') (dict_get log ''sha256'')
     else lab_relative_file fs here q (snd iv) check_files None)"

definition lab_logs :: "store \<Rightarrow> path \<Rightarrow> bool \<Rightarrow> string \<Rightarrow> json \<Rightarrow> string list" where
  "lab_logs fs here check_files p v =
     (if \<not> is_list v \<or> elems v = [] then [msg (p @ ''.logs'') ''must be a non-empty list'']
      else concat (map (lab_log fs here check_files p) (enumerate 0 (elems v))))"

definition lab_check :: "store \<Rightarrow> path \<Rightarrow> lab_args \<Rightarrow> bool \<Rightarrow> string \<Rightarrow> string \<times> json \<Rightarrow> string list run" where
  "lab_check fs here a current p nv = (let q = p @ ''.checks.'' @ fst nv; check = members (snd nv) in
     if \<not> is_obj (snd nv) then Inr [msg q ''must be an object'']
     else collectE
       [lab_status (q @ ''.status'') (dict_get check ''status''),
        Inr (lab_relative_file fs here (q @ ''.evidence'') (dict_get check ''evidence'') (lab_check_files a)
            (str_option (dict_get check ''evidence_sha256''))
          @ (if current then lab_strings q check [''command'', ''expected'', ''observed'', ''parsed_result'']
               @ (if dict_has check ''evidence_sha256''
                  then lab_sha256 (q @ ''.evidence_sha256'') (dict_get check ''evidence_sha256'') else [])
             else [])
          @ lab_pass (lab_require_pass a) (q @ ''.status'') (dict_get check ''status''))])"

definition missing_lab_checks :: "lab_policy \<Rightarrow> string \<Rightarrow> string list \<Rightarrow> string list" where
  "missing_lab_checks policy target present = (let missing = sorted_set (minus_list (lab_checks policy) present) in
     if target = ''x86_64'' then sorted_set (missing @ minus_list (lab_x86_checks policy) present) else missing)"

definition lab_device ::
  "store \<Rightarrow> lab_policy \<Rightarrow> path \<Rightarrow> lab_args \<Rightarrow> bool \<Rightarrow> string \<Rightarrow> json \<Rightarrow> nat \<times> json \<Rightarrow> string list run" where
  "lab_device fs policy here a current target binding iv = (let p = ''$.devices['' @ nat_str (fst iv) @ '']'';
       device = members (snd iv); checks_v = dict_get device ''checks''; checks = dict_or_empty checks_v;
       missing = missing_lab_checks policy target (dict_keys checks) in
     if \<not> is_obj (snd iv) then Inr [msg p ''must be an object'']
     else collectE
       ([Inr (lab_strings p device REQUIRED_DEVICE_FIELDS
            @ (if current then lab_device_identity (p @ ''.device_identity'') (dict_get device ''device_identity'')
                 @ lab_readback (p @ ''.readback'') (lab_strict a) binding (dict_get device ''readback'') else [])),
         lab_status (p @ ''.status'') (dict_get device ''status''),
         Inr (lab_pass (lab_require_pass a) (p @ ''.status'') (dict_get device ''status'')
           @ lab_logs fs here (lab_check_files a) p (dict_get device ''logs'')
           @ report (\<not> is_obj checks_v) (msg (p @ ''.checks'') ''must be an object'')
           @ report (missing \<noteq> []) (msg (p @ ''.checks'') (''missing required checks: '' @ comma_join missing))
           @ report (dict_get device ''board'' = JStr ''revpi-connect-4'' \<and> \<not> dict_has checks ''revpi-io'')
               (msg (p @ ''.checks'') ''revpi-connect-4 requires revpi-io check''))]
        @ map (lab_check fs here a current p) checks))"

definition lab_required_boards :: "lab_policy \<Rightarrow> string \<Rightarrow> json list \<Rightarrow> string list" where
  "lab_required_boards policy target devices = (let boards = (case map_of (lab_boards policy) target of None \<Rightarrow> [] | Some bs \<Rightarrow> bs);
       missing = sorted_set (minus_list boards (names_in ''board'' devices)) in
     report (missing \<noteq> []) (msg ''$.devices'' (''missing required board evidence: '' @ comma_join missing)))"

section \<open>Negative tests\<close>

definition lab_required_negatives :: "lab_policy \<Rightarrow> string \<Rightarrow> string \<Rightarrow> json list \<Rightarrow> string list" where
  "lab_required_negatives policy target profile tests = (let names = names_in ''name'' tests;
       usb = sorted_set (minus_list REQUIRED_USB_NEGATIVE_TESTS names);
       x86 = sorted_set (minus_list (lab_x86_negative policy) names) in
     report (target = ''pi-cm4-revpi-usb-installer'' \<and> usb \<noteq> [])
       (msg ''$.negative_tests'' (''missing required negative tests: '' @ comma_join usb))
     @ report (target = ''x86_64'' \<and> profile = ''production-candidate'' \<and> x86 \<noteq> [])
       (msg ''$.negative_tests'' (''missing required x86 negative tests: '' @ comma_join x86)))"

definition lab_write_prevention :: "string \<Rightarrow> json \<Rightarrow> string list" where
  "lab_write_prevention p v = (let w = members v; before = dict_get w ''before_sha256''; after = dict_get w ''after_sha256'' in
     if \<not> is_obj v then [msg p ''must be an object'']
     else if dict_get w ''target_hash_unchanged'' \<noteq> JBool True
       then [msg (p @ ''.target_hash_unchanged'') ''must be true'']
     else lab_sha256 (p @ ''.before_sha256'') before @ lab_sha256 (p @ ''.after_sha256'') after
       @ report (\<not> py_eq before after) (msg (p @ ''.after_sha256'') ''must match before_sha256'')
       @ lab_positive (p @ ''.bytes_checked'') (dict_get w ''bytes_checked''))"

definition lab_negative ::
  "store \<Rightarrow> path \<Rightarrow> lab_args \<Rightarrow> bool \<Rightarrow> string \<Rightarrow> string list \<Rightarrow> nat \<Rightarrow> json \<Rightarrow> string list run" where
  "lab_negative fs here a current target seen n v = (let p = ''$.negative_tests['' @ nat_str n @ '']''; item = members v;
       name = dict_get item ''name'' in
     if \<not> is_obj v then Inr [msg p ''must be an object'']
     else collectE
       [Inr (lab_string (p @ ''.name'') name
          @ report (is_str name \<and> text_of name \<in> set seen) (msg (p @ ''.name'') ''must be unique'')
          @ report (is_str name \<and> target = ''pi-cm4-revpi-usb-installer'' \<and> text_of name \<notin> set REQUIRED_USB_NEGATIVE_TESTS)
              (msg (p @ ''.name'') ''must be a known required USB negative test'')
          @ lab_string (p @ ''.failure_code'') (dict_get item ''failure_code'')),
        lab_status (p @ ''.status'') (dict_get item ''status''),
        Inr ((if current then lab_strings p item [''command'', ''expected'', ''observed'']
                @ report (\<not> is_int (dict_get item ''exit_code'')) (msg (p @ ''.exit_code'') ''must be an integer'')
              else [])
          @ lab_relative_file fs here (p @ ''.evidence'') (dict_get item ''evidence'') (lab_check_files a)
              (str_option (dict_get item ''evidence_sha256''))
          @ (if current then lab_write_prevention (p @ ''.write_prevention'') (dict_get item ''write_prevention'') else [])
          @ lab_pass (lab_require_pass a) (p @ ''.status'') (dict_get item ''status''))])"

text \<open>The loop, with the names seen so far as its state.\<close>

fun lab_negatives ::
  "store \<Rightarrow> path \<Rightarrow> lab_args \<Rightarrow> bool \<Rightarrow> string \<Rightarrow> string list \<Rightarrow> nat \<Rightarrow> json list \<Rightarrow> string list run" where
  "lab_negatives fs here a current target seen n [] = Inr []"
| "lab_negatives fs here a current target seen n (v # vs) =
     collectE [lab_negative fs here a current target seen n v,
       lab_negatives fs here a current target
         (if is_str (dict_get (members v) ''name'') then text_of (dict_get (members v) ''name'') # seen else seen) (Suc n) vs]"

section \<open>The whole document\<close>

definition lab_payload :: "lab_env \<Rightarrow> lab_policy \<Rightarrow> json \<Rightarrow> path \<Rightarrow> lab_args \<Rightarrow> obj \<Rightarrow> string list run" where
  "lab_payload env policy registry p a payload = (let fs = lab_files env; here = path_parent p;
       (version, target) = expected_from_lab_path p;
       current = (dict_get payload ''schema_version'' = JStr (lab_schema policy));
       binding = dict_get payload ''artifact_binding'';
       devices_v = dict_get payload ''devices''; devices = elems devices_v;
       tests_v = dict_get payload ''negative_tests''; tests = elems tests_v;
       payload_target = py_str (dict_get_or payload ''target'' (JStr [])) in collectE
     ([lab_schema_check (lab_schema policy) payload (lab_profile a),
       Inr (lab_identity payload (or_else (lab_version a) version) (or_else (lab_target a) target)
         @ (if current then lab_station_check (dict_get payload ''station'') @ lab_binding_check payload a binding else [])
         @ report (\<not> is_list devices_v \<or> devices = []) (msg ''$.devices'' ''must be a non-empty list''))]
      @ map (lab_device fs policy here a current payload_target binding) (enumerate 0 devices)
      @ [Inr (lab_required_boards policy payload_target devices
           @ report (\<not> is_list tests_v) (msg ''$.negative_tests'' ''must be a list'')
           @ lab_required_negatives policy payload_target (lab_profile a) tests),
         lab_negatives fs here a current payload_target [] 0 tests,
         if current then check_station_bundle env here payload (lab_check_files a) (lab_profile a) registry else Inr []]))"

definition validate_lab :: "lab_env \<Rightarrow> lab_policy \<Rightarrow> path option \<Rightarrow> path \<Rightarrow> lab_args \<Rightarrow> string list run" where
  "validate_lab env policy registry_path p a =
     (case load_doc (lab_files env) p of
        OsError \<Rightarrow> Inr [msg (path_str p) ''cannot read lab evidence: OSError'']
      | BadJson \<Rightarrow> Inr [msg (path_str p) ''invalid JSON: JSONDecodeError'']
      | Loaded v \<Rightarrow> if \<not> is_obj v then Inr [msg (path_str p) ''top-level JSON value must be an object'']
          else lab_payload env policy
            (case registry_path of None \<Rightarrow> JNull | Some r \<Rightarrow> lab_read_json (lab_files env) r) p a (members v))"

section \<open>The targets that need hardware\<close>

definition requires_hardware :: "obj \<Rightarrow> string \<Rightarrow> obj \<Rightarrow> bool checked" where
  "requires_hardware contract profile row = (let target = py_str (dict_get_or row ''target'' (JStr []));
       acceptance = py_str (dict_get_or row ''acceptance'' (JStr [])) in
     bindE (target_policy target contract) (\<lambda>policy. Inr
       ((truthy (dict_get row ''release'') \<and> (truthy (dict_get row ''production_required'') \<or> contains acceptance ''hardware''))
        \<or> (profile = ''production-candidate'' \<and> truthy (dict_get policy ''hardware_required'')
           \<and> truthy (dict_get policy ''production_gate'')))))"

fun hardware_targets :: "obj \<Rightarrow> string \<Rightarrow> obj list \<Rightarrow> string list checked" where
  "hardware_targets contract profile [] = Inr []"
| "hardware_targets contract profile (row # rows) =
     bindE (requires_hardware contract profile row) (\<lambda>needed.
     bindE (hardware_targets contract profile rows) (\<lambda>targets.
       Inr (if needed then py_str (dict_get_or row ''target'' (JStr [])) # targets else targets)))"

definition lab_targets_requiring_hardware :: "obj \<Rightarrow> obj \<Rightarrow> string \<Rightarrow> string list checked" where
  "lab_targets_requiring_hardware contract matrix profile = hardware_targets contract profile (matrix_defconfigs matrix)"

text \<open>\<open>validate_matrix_command\<close>: the failures of every lab document below \<open>root/version\<close>.\<close>

definition lab_document :: "path \<Rightarrow> string \<Rightarrow> string \<Rightarrow> path" where
  "lab_document lab_root version target =
     path_join (path_join (path_join lab_root (path_of version)) (path_of target)) (path_of ''lab.json'')"

definition validate_lab_matrix ::
  "lab_env \<Rightarrow> lab_policy \<Rightarrow> obj \<Rightarrow> obj \<Rightarrow> path option \<Rightarrow> path \<Rightarrow> string \<Rightarrow> lab_args \<Rightarrow> string list run" where
  "validate_lab_matrix env policy contract matrix registry_path lab_root version a =
     bindE (from_checked (lab_targets_requiring_hardware contract matrix (lab_profile a))) (\<lambda>targets.
       collectE (map (\<lambda>target. validate_lab env policy registry_path (lab_document lab_root version target)
         (a\<lparr>lab_version := Some version, lab_target := Some target\<rparr>)) targets))"

end
