(* ===== verification/LabProps.thy ===== *)
theory LabProps
  imports LabInput
begin

text \<open>
  What a lab document that passes a release profile guarantees: the devices were flashed with
  the bound artifact and read back in full, every check and negative test passed with its
  evidence file, and the station's signature covers the whole unsigned document.
\<close>

section \<open>The parts of an accepted document\<close>

lemma lab_payload_nil:
  assumes "lab_payload env policy registry p a payload = Inr []" and "lab_strict a"
  shows "dict_get payload ''schema_version'' = JStr (lab_schema policy) \<and>
    lab_identity payload (or_else (lab_version a) (fst (expected_from_lab_path p)))
      (or_else (lab_target a) (snd (expected_from_lab_path p))) = [] \<and>
    lab_station_check (dict_get payload ''station'') = [] \<and>
    lab_binding_check payload a (dict_get payload ''artifact_binding'') = [] \<and>
    is_list (dict_get payload ''devices'') \<and> elems (dict_get payload ''devices'') \<noteq> [] \<and>
    (\<forall>iv\<in>set (enumerate 0 (elems (dict_get payload ''devices''))).
       lab_device (lab_files env) policy (path_parent p) a True (py_str (dict_get_or payload ''target'' (JStr [])))
         (dict_get payload ''artifact_binding'') iv = Inr []) \<and>
    lab_required_boards policy (py_str (dict_get_or payload ''target'' (JStr []))) (elems (dict_get payload ''devices'')) = [] \<and>
    is_list (dict_get payload ''negative_tests'') \<and>
    lab_required_negatives policy (py_str (dict_get_or payload ''target'' (JStr []))) (lab_profile a)
      (elems (dict_get payload ''negative_tests'')) = [] \<and>
    lab_negatives (lab_files env) (path_parent p) a True (py_str (dict_get_or payload ''target'' (JStr []))) [] 0
      (elems (dict_get payload ''negative_tests'')) = Inr [] \<and>
    check_station_bundle env (path_parent p) payload (lab_check_files a) (lab_profile a) registry = Inr []"
proof -
  have "lab_schema_check (lab_schema policy) payload (lab_profile a) = Inr []"
    using assms(1) by (simp add: lab_payload_def collectE_nil Let_def split_beta del: collectE.simps)
  then have "dict_get payload ''schema_version'' = JStr (lab_schema policy)"
    using assms(2) by (auto simp: lab_schema_check_def lab_strict_def Let_def split: if_splits)
  with assms(1) show ?thesis
    by (simp add: lab_payload_def collectE_nil Let_def split_beta ball_Un del: collectE.simps)
qed

lemma lab_string_nil [no_report]: "lab_string p v = [] \<longleftrightarrow> nonblank_str v"
  by (simp add: lab_string_def)

lemma lab_strings_nil [no_report]: "lab_strings p o' names = [] \<longleftrightarrow> (\<forall>f\<in>set names. nonblank_str (dict_get o' f))"
  by (simp add: lab_strings_def no_report)

lemma lab_sha256_nil [no_report]: "lab_sha256 p v = [] \<longleftrightarrow> sha256_text v"
  by (simp add: lab_sha256_def)

lemma lab_positive_nil [no_report]: "lab_positive p v = [] \<longleftrightarrow> int_above 0 v"
  by (simp add: lab_positive_def)

lemma lab_pass_nil [no_report]: "lab_pass b p v = [] \<longleftrightarrow> (b \<longrightarrow> v = JStr ''passed'')"
  by (auto simp: lab_pass_def)

lemma lab_relative_file_nil:
  assumes "lab_relative_file fs here p v True expected = []"
  shows "\<exists>q f. inner_path v = Some q \<and> fs (path_join here q) = Some f \<and> 0 < size_of f \<and>
    (\<forall>sha. expected = Some sha \<longrightarrow> sha_of f = sha)"
proof -
  obtain q where q: "inner_path v = Some q" "q = path_of (text_of v)"
    using assms inner.guard_parses by (fastforce simp: lab_relative_file_def Let_def split: if_splits)
  then have "nonempty_file fs (path_join here q)" "\<forall>sha. expected = Some sha \<longrightarrow> file_sha fs (path_join here q) = sha"
    using assms by (auto simp: lab_relative_file_def Let_def split: if_splits)
  with q(1) nonempty_file_sha show ?thesis by fastforce
qed

section \<open>Devices\<close>

text \<open>A readback of the whole image that gave the bytes of the artifact the document binds.\<close>

definition full_readback :: "obj \<Rightarrow> json \<Rightarrow> bool" where
  "full_readback binding v \<longleftrightarrow> (\<exists>r sha. v = JObj r \<and> dict_get r ''scope'' = JStr ''full'' \<and>
     dict_get binding ''build_artifact_sha256'' = JStr sha \<and>
     dict_get r ''expected_sha256'' = JStr sha \<and> dict_get r ''actual_sha256'' = JStr sha \<and>
     py_eq (dict_get r ''bytes_read'') (dict_get binding ''build_artifact_bytes''))"

lemma full_readback:
  assumes "lab_readback p True (JObj binding) v = []" and "sha256_text (dict_get binding ''build_artifact_sha256'')"
    and "int_above 0 (dict_get binding ''build_artifact_bytes'')"
  shows "full_readback binding v"
proof -
  obtain sha where sha: "dict_get binding ''build_artifact_sha256'' = JStr sha"
    using assms(2) by (auto simp: sha256_text_iff)
  have n: "is_int (dict_get binding ''build_artifact_bytes'')" using assms(3) by (simp add: int_above_def)
  obtain r where r: "v = JObj r" using assms(1) by (cases v) (auto simp: lab_readback_def)
  then show ?thesis
    using assms(1) sha n
    by (auto simp: lab_readback_def lab_readback_binding_def Let_def no_report full_readback_def sha256_text_iff)
qed

text \<open>A check or a negative test that passed, with its evidence file and the recorded digest.\<close>

definition passed_with_evidence :: "store \<Rightarrow> path \<Rightarrow> obj \<Rightarrow> bool" where
  "passed_with_evidence fs here item \<longleftrightarrow> dict_get item ''status'' = JStr ''passed'' \<and>
     (\<exists>q f. inner_path (dict_get item ''evidence'') = Some q \<and> fs (path_join here q) = Some f \<and> 0 < size_of f \<and>
        (\<forall>sha. dict_get item ''evidence_sha256'' = JStr sha \<longrightarrow> sha = sha_of f))"

lemma evidence_nil:
  assumes "lab_relative_file fs here p (dict_get item ''evidence'') True (str_option (dict_get item ''evidence_sha256'')) = []"
    and "dict_get item ''status'' = JStr ''passed''"
  shows "passed_with_evidence fs here item"
  using lab_relative_file_nil [OF assms(1)] assms(2) by (auto simp: passed_with_evidence_def str_option_def)

lemma lab_check_nil:
  assumes "lab_check fs here a True p nv = Inr []" and "lab_check_files a" and "lab_require_pass a"
  shows "\<exists>item. snd nv = JObj item \<and> passed_with_evidence fs here item"
proof -
  obtain item where item: "snd nv = JObj item" using assms(1) by (cases "snd nv") (auto simp: lab_check_def)
  have "lab_relative_file fs here (p @ ''.checks.'' @ fst nv @ ''.evidence'') (dict_get item ''evidence'') True
      (str_option (dict_get item ''evidence_sha256'')) = []" "dict_get item ''status'' = JStr ''passed''"
    using assms item by (simp_all add: lab_check_def Let_def collectE_nil no_report del: collectE.simps)
  from evidence_nil [OF this] item show ?thesis by blast
qed

definition sound_device :: "store \<Rightarrow> lab_policy \<Rightarrow> path \<Rightarrow> string \<Rightarrow> obj \<Rightarrow> json \<Rightarrow> bool" where
  "sound_device fs policy here target binding v \<longleftrightarrow> (\<exists>d checks. v = JObj d \<and> dict_get d ''status'' = JStr ''passed'' \<and>
     full_readback binding (dict_get d ''readback'') \<and> dict_get d ''checks'' = JObj checks \<and>
     set (lab_checks policy) \<subseteq> set (dict_keys checks) \<and>
     (target = ''x86_64'' \<longrightarrow> set (lab_x86_checks policy) \<subseteq> set (dict_keys checks)) \<and>
     (dict_get d ''board'' = JStr ''revpi-connect-4'' \<longrightarrow> ''revpi-io'' \<in> set (dict_keys checks)) \<and>
     (\<forall>nv\<in>set checks. \<exists>item. snd nv = JObj item \<and> passed_with_evidence fs here item))"

lemma missing_lab_checks_nil:
  "missing_lab_checks policy target present = [] \<longleftrightarrow> set (lab_checks policy) \<subseteq> set present \<and>
     (target = ''x86_64'' \<longrightarrow> set (lab_x86_checks policy) \<subseteq> set present)"
  by (auto simp: missing_lab_checks_def Let_def)

lemma lab_device_nil:
  assumes "lab_device fs policy here a True target (JObj binding) iv = Inr []"
    and "lab_strict a" "lab_check_files a" "lab_require_pass a"
    and "sha256_text (dict_get binding ''build_artifact_sha256'')" "int_above 0 (dict_get binding ''build_artifact_bytes'')"
  shows "sound_device fs policy here target binding (snd iv)"
proof -
  obtain d where d: "snd iv = JObj d" using assms(1) by (cases "snd iv") (auto simp: lab_device_def)
  let ?checks = "dict_or_empty (dict_get d ''checks'')" and ?p = "''$.devices['' @ nat_str (fst iv) @ '']''"
  have parts: "lab_readback (?p @ ''.readback'') True (JObj binding) (dict_get d ''readback'') = []"
      "dict_get d ''status'' = JStr ''passed''" "is_obj (dict_get d ''checks'')"
      "missing_lab_checks policy target (dict_keys ?checks) = []"
      "dict_get d ''board'' = JStr ''revpi-connect-4'' \<longrightarrow> dict_has ?checks ''revpi-io''"
      "\<forall>nv\<in>set ?checks. lab_check fs here a True ?p nv = Inr []"
    using assms(1-4) d by (simp_all add: lab_device_def Let_def collectE_nil no_report ball_Un del: collectE.simps)
  obtain checks where checks: "dict_get d ''checks'' = JObj checks" using parts(3) by (auto simp: is_obj_iff)
  have "\<exists>item. snd nv = JObj item \<and> passed_with_evidence fs here item" if "nv \<in> set checks" for nv
  proof -
    have "lab_check fs here a True ?p nv = Inr []" using parts(6) that checks by simp
    then show ?thesis by (rule lab_check_nil [OF _ assms(3,4)])
  qed
  then show ?thesis
    using parts(2,4,5) d checks full_readback [OF parts(1) assms(5,6)]
    by (auto simp: sound_device_def missing_lab_checks_nil dict_has_keys)
qed

section \<open>Negative tests\<close>

definition sound_negative :: "store \<Rightarrow> path \<Rightarrow> json \<Rightarrow> bool" where
  "sound_negative fs here v \<longleftrightarrow> (\<exists>item w. v = JObj item \<and> nonblank_str (dict_get item ''name'') \<and>
     passed_with_evidence fs here item \<and> dict_get item ''write_prevention'' = JObj w \<and>
     dict_get w ''target_hash_unchanged'' = JBool True \<and> sha256_text (dict_get w ''before_sha256'') \<and>
     dict_get w ''after_sha256'' = dict_get w ''before_sha256'')"

definition negative_name :: "json \<Rightarrow> string" where
  "negative_name v = text_of (dict_get (members v) ''name'')"

lemma lab_negative_nil:
  assumes "lab_negative fs here a True target seen n v = Inr []" and "lab_check_files a" and "lab_require_pass a"
  shows "sound_negative fs here v \<and> is_str (dict_get (members v) ''name'') \<and> negative_name v \<notin> set seen \<and>
    (target = ''pi-cm4-revpi-usb-installer'' \<longrightarrow> negative_name v \<in> set REQUIRED_USB_NEGATIVE_TESTS)"
proof -
  obtain item where v: "v = JObj item" using assms(1) by (cases v) (auto simp: lab_negative_def)
  let ?p = "''$.negative_tests['' @ nat_str n @ '']''"
  have parts: "nonblank_str (dict_get item ''name'')"
      "is_str (dict_get item ''name'') \<longrightarrow> text_of (dict_get item ''name'') \<notin> set seen \<and>
         (target = ''pi-cm4-revpi-usb-installer'' \<longrightarrow> text_of (dict_get item ''name'') \<in> set REQUIRED_USB_NEGATIVE_TESTS)"
      "lab_relative_file fs here (?p @ ''.evidence'') (dict_get item ''evidence'') True
         (str_option (dict_get item ''evidence_sha256'')) = []"
      "lab_write_prevention (?p @ ''.write_prevention'') (dict_get item ''write_prevention'') = []"
      "dict_get item ''status'' = JStr ''passed''"
    using assms v by (simp_all add: lab_negative_def Let_def collectE_nil no_report del: collectE.simps)
  obtain w where w: "dict_get item ''write_prevention'' = JObj w"
    using parts(4) by (cases "dict_get item ''write_prevention''") (auto simp: lab_write_prevention_def)
  then have "dict_get w ''target_hash_unchanged'' = JBool True" "sha256_text (dict_get w ''before_sha256'')"
      "dict_get w ''after_sha256'' = dict_get w ''before_sha256''"
    using parts(4) by (auto simp: lab_write_prevention_def Let_def no_report sha256_text_iff split: if_splits)
  then show ?thesis
    using parts(1,2) evidence_nil [OF parts(3,5)] v w by (auto simp: sound_negative_def negative_name_def nonblank_str_iff)
qed

lemma lab_negatives_nil:
  assumes "lab_negatives fs here a True target seen n vs = Inr []" and "lab_check_files a" and "lab_require_pass a"
  shows "(\<forall>v\<in>set vs. sound_negative fs here v) \<and> distinct (map negative_name vs) \<and>
    negative_name ` set vs \<inter> set seen = {} \<and>
    (target = ''pi-cm4-revpi-usb-installer'' \<longrightarrow> negative_name ` set vs \<subseteq> set REQUIRED_USB_NEGATIVE_TESTS)"
  using assms(1)
proof (induction vs arbitrary: seen n)
  case (Cons v vs)
  let ?seen = "if is_str (dict_get (members v) ''name'') then text_of (dict_get (members v) ''name'') # seen else seen"
  have "lab_negative fs here a True target seen n v = Inr []"
      and rest: "lab_negatives fs here a True target ?seen (Suc n) vs = Inr []"
    using Cons.prems by (simp_all add: collectE_nil del: collectE.simps)
  with lab_negative_nil [OF _ assms(2,3)]
  have v: "sound_negative fs here v" "?seen = negative_name v # seen" "negative_name v \<notin> set seen"
      "target = ''pi-cm4-revpi-usb-installer'' \<longrightarrow> negative_name v \<in> set REQUIRED_USB_NEGATIVE_TESTS"
    by (auto simp: negative_name_def)
  from Cons.IH [OF rest] v show ?case by auto
qed simp

section \<open>The station's signature\<close>

lemma lab_resolve_file_nil:
  assumes "lab_resolve_file fs here p v True expected n = ([], r)"
  shows "\<exists>q f. inner_path v = Some q \<and> r = Some (path_join here q) \<and> fs (path_join here q) = Some f \<and> 0 < size_of f \<and>
    (\<forall>sha. expected = Some sha \<longrightarrow> sha_of f = sha) \<and> (\<forall>i. n = Some i \<longrightarrow> size_of f = int_of i)"
proof -
  obtain q where q: "inner_path v = Some q" "q = path_of (text_of v)"
    using assms inner.guard_parses by (fastforce simp: lab_resolve_file_def Let_def split: if_splits)
  then have r: "r = Some (path_join here q)" "nonempty_file fs (path_join here q)"
      "\<forall>sha. expected = Some sha \<longrightarrow> file_sha fs (path_join here q) = sha"
      "\<forall>i. n = Some i \<longrightarrow> file_size fs (path_join here q) = int_of i"
    using assms by (auto simp: lab_resolve_file_def Let_def split: if_splits option.splits)
  obtain f where "fs (path_join here q) = Some f" "0 < size_of f" "file_sha fs (path_join here q) = sha_of f"
    using nonempty_file_sha [OF r(2)] by blast
  with q(1) r show ?thesis by (auto simp: file_size_def)
qed

text \<open>A file that a value names, under the digest that the other value records.\<close>

definition digest_file :: "store \<Rightarrow> path \<Rightarrow> json \<Rightarrow> json \<Rightarrow> path \<Rightarrow> regular_file \<Rightarrow> bool" where
  "digest_file fs here v digest p f \<longleftrightarrow> (\<exists>q. inner_path v = Some q \<and> p = path_join here q) \<and> fs p = Some f \<and>
     0 < size_of f \<and> digest = JStr (sha_of f)"

lemma resolved_digest:
  assumes "lab_resolve_file fs here p v True (str_option digest) n = ([], r)" and "sha256_text digest"
  shows "\<exists>q f. r = Some q \<and> digest_file fs here v digest q f"
proof -
  obtain sha where "digest = JStr sha" using assms(2) by (auto simp: sha256_text_iff)
  with lab_resolve_file_nil [OF assms(1)] show ?thesis by (auto simp: digest_file_def str_option_def)
qed

text \<open>
  The station that the registry knows under the document's station id, allowed for the target,
  has signed a bundle that carries the digest of the unsigned document.
\<close>

definition station_signed :: "lab_env \<Rightarrow> path \<Rightarrow> obj \<Rightarrow> json \<Rightarrow> bool" where
  "station_signed env here payload registry \<longleftrightarrow> (\<exists>b s entry bp bf kp kf sp sf doc.
     dict_get payload ''station_bundle'' = JObj b \<and> dict_get payload ''station_signature'' = JObj s \<and>
     digest_file (lab_files env) here (dict_get b ''path'') (dict_get b ''sha256'') bp bf \<and>
     digest_file (lab_files env) here (dict_get s ''public_key'') (dict_get s ''public_key_sha256'') kp kf \<and>
     digest_file (lab_files env) here (dict_get s ''signature'') (dict_get s ''signature_sha256'') sp sf \<and>
     station_registry_entry registry (str_option (dict_get (dict_or_empty (dict_get payload ''station'')) ''station_id'')) = Some entry \<and>
     dict_get entry ''public_key_sha256'' = JStr (sha_of kf) \<and>
     JStr ''*'' \<notin> set (elems (dict_get entry ''allowed_targets'')) \<and>
     py_in (dict_get payload ''target'') (elems (dict_get entry ''allowed_targets'')) \<and>
     json_content bf = Some (JObj doc) \<and>
     dict_get doc ''lab_payload_sha256'' = JStr (sha256_bytes env (canonical_lab_payload payload)) \<and>
     return_code (run_openssl env kp sp bp) = 0)"

lemma registry_nil:
  assumes "check_station_registry now payload registry key profile = Inr []" and "profile \<in> set LAB_STRICT_PROFILES"
  shows "\<exists>entry. station_registry_entry registry (str_option (dict_get (dict_or_empty (dict_get payload ''station'')) ''station_id'')) = Some entry \<and>
    py_eq (dict_get entry ''public_key_sha256'') key \<and> JStr ''*'' \<notin> set (elems (dict_get entry ''allowed_targets'')) \<and>
    py_in (dict_get payload ''target'') (elems (dict_get entry ''allowed_targets''))"
proof -
  obtain entry where entry: "station_registry_entry registry
      (str_option (dict_get (dict_or_empty (dict_get payload ''station'')) ''station_id'')) = Some entry"
      "check_registry_identity entry (dict_or_empty (dict_get payload ''station'')) (dict_get payload ''target'') key profile = []"
    using assms(1)
    by (auto simp: check_station_registry_def Let_def collectE_nil simp del: collectE.simps split: if_splits option.splits)
  then show ?thesis
    using assms(2) by (auto simp: check_registry_identity_def Let_def no_report split: if_splits)
qed

lemma station_bundle_nil:
  assumes "check_station_bundle env here payload True profile registry = Inr []" and "profile \<in> set LAB_STRICT_PROFILES"
  shows "station_signed env here payload registry"
proof -
  obtain b s where bs: "dict_get payload ''station_bundle'' = JObj b" "dict_get payload ''station_signature'' = JObj s"
    using assms by (auto simp: check_station_bundle_def Let_def split_beta is_obj_iff split: if_splits)
  let ?resolve = "\<lambda>q o' f d n. lab_resolve_file (lab_files env) here q (dict_get o' f) True (str_option (dict_get o' d)) n"
  let ?b = "?resolve ''$.station_bundle.path'' b ''path'' ''sha256'' (int_value (dict_get b ''bytes''))"
  let ?s = "?resolve ''$.station_signature.signature'' s ''signature'' ''signature_sha256'' None"
  let ?k = "?resolve ''$.station_signature.public_key'' s ''public_key'' ''public_key_sha256'' None"
  have parts: "sha256_text (dict_get b ''sha256'')" "fst ?b = []" "sha256_text (dict_get s ''signature_sha256'')" "fst ?s = []"
      "sha256_text (dict_get s ''public_key_sha256'')" "fst ?k = []"
      "check_station_registry (lab_now env) payload registry (dict_get s ''public_key_sha256'') profile = Inr []"
      "\<forall>p. snd ?b = Some p \<longrightarrow> check_bundle_file env payload (snd ?k) (snd ?s) p = []"
    using assms bs
    by (simp_all add: check_station_bundle_def Let_def split_beta collectE_nil no_report del: collectE.simps split: option.splits)
  obtain bp bf where b: "snd ?b = Some bp" "digest_file (lab_files env) here (dict_get b ''path'') (dict_get b ''sha256'') bp bf"
    using resolved_digest [OF _ parts(1)] parts(2) by (metis prod.collapse)
  obtain sp sf where sig: "snd ?s = Some sp" "digest_file (lab_files env) here (dict_get s ''signature'') (dict_get s ''signature_sha256'') sp sf"
    using resolved_digest [OF _ parts(3)] parts(4) by (metis prod.collapse)
  obtain kp kf where key: "snd ?k = Some kp" "digest_file (lab_files env) here (dict_get s ''public_key'') (dict_get s ''public_key_sha256'') kp kf"
    using resolved_digest [OF _ parts(5)] parts(6) by (metis prod.collapse)
  have "check_bundle_file env payload (Some kp) (Some sp) bp = []" using parts(8) b(1) sig(1) key(1) by simp
  then obtain doc where doc: "json_content bf = Some (JObj doc)" "check_bundle_document env payload doc = []"
      "check_bundle_signature env (Some kp) (Some sp) bp = []"
    using b(2) by (auto simp: check_bundle_file_def load_doc_def digest_file_def is_obj_iff split: loaded.splits option.splits if_splits)
  have "dict_get doc ''lab_payload_sha256'' = JStr (sha256_bytes env (canonical_lab_payload payload))"
    using doc(2) by (simp add: check_bundle_document_def Let_def)
  moreover have "return_code (run_openssl env kp sp bp) = 0"
    using doc(3) by (simp add: check_bundle_signature_def Let_def split: if_splits)
  ultimately show ?thesis
    using bs b(2) sig(2) key(2) doc(1) registry_nil [OF parts(7) assms(2)]
    by (simp add: station_signed_def digest_file_def) metis
qed

section \<open>Accepted documents\<close>

lemma validate_lab_payload:
  assumes "validate_lab env policy registry_path p a = Inr []"
  shows "\<exists>payload. load_doc (lab_files env) p = Loaded (JObj payload) \<and> lab_payload env policy
    (case registry_path of None \<Rightarrow> JNull | Some r \<Rightarrow> lab_read_json (lab_files env) r) p a payload = Inr []"
  using assms by (auto simp: validate_lab_def is_obj_iff split: loaded.splits if_splits)

lemma or_else_given: "e = Some s \<Longrightarrow> s \<noteq> [] \<Longrightarrow> or_else e i = Some s"
  by (simp add: or_else_def)

lemma lab_target_of:
  assumes "lab_identity payload version target = []"
  shows "\<exists>t. dict_get payload ''target'' = JStr t \<and> safe_identifier t \<and> (\<forall>e. target = Some e \<longrightarrow> t = e)"
  using assms by (auto simp: lab_identity_def no_report nonblank_str_iff lab_expected_def split: option.splits)

lemma lab_binding_of:
  assumes "lab_binding_check payload a v = []"
  shows "\<exists>binding sha. v = JObj binding \<and> dict_get binding ''source_sha'' = JStr sha \<and> lower_hex_of_length 40 sha \<and>
    (\<forall>e. lab_source_sha a = Some e \<longrightarrow> sha = e) \<and> sha256_text (dict_get binding ''build_artifact_sha256'') \<and>
    int_above 0 (dict_get binding ''build_artifact_bytes'')"
  using assms
  by (cases v) (auto simp: lab_binding_check_def Let_def no_report commit_text_iff lab_expected_def split: option.splits if_splits)

text \<open>
  C8. A lab document that passes a release profile with its files checked has the current
  schema and the requested target and source commit, binds a build artifact, and every device
  in it was read back in full with the digest and size of that artifact, passed, and has every
  required check passed with its evidence file; the boards that the target requires are there;
  every negative test passed without a write to the device, under distinct names, which for the
  USB installer are exactly the required ones.
\<close>

theorem lab_hardware_accepted:
  assumes "validate_lab env policy registry_path p a = Inr []"
    and "lab_strict a" and "lab_check_files a" and "lab_require_pass a"
  shows "\<exists>payload target binding sha devices tests. load_doc (lab_files env) p = Loaded (JObj payload) \<and>
    dict_get payload ''schema_version'' = JStr (lab_schema policy) \<and>
    dict_get payload ''target'' = JStr target \<and> safe_identifier target \<and>
    (\<forall>e. lab_target a = Some e \<and> e \<noteq> [] \<longrightarrow> target = e) \<and>
    dict_get payload ''artifact_binding'' = JObj binding \<and>
    dict_get binding ''source_sha'' = JStr sha \<and> (\<forall>e. lab_source_sha a = Some e \<longrightarrow> sha = e) \<and>
    dict_get payload ''devices'' = JArr devices \<and> devices \<noteq> [] \<and>
    (\<forall>v\<in>set devices. sound_device (lab_files env) policy (path_parent p) target binding v) \<and>
    (\<forall>boards. map_of (lab_boards policy) target = Some boards \<longrightarrow> set boards \<subseteq> set (names_in ''board'' devices)) \<and>
    dict_get payload ''negative_tests'' = JArr tests \<and>
    (\<forall>v\<in>set tests. sound_negative (lab_files env) (path_parent p) v) \<and> distinct (map negative_name tests) \<and>
    (target = ''pi-cm4-revpi-usb-installer'' \<longrightarrow> negative_name ` set tests = set REQUIRED_USB_NEGATIVE_TESTS)"
proof -
  obtain payload registry where doc: "load_doc (lab_files env) p = Loaded (JObj payload)"
      "lab_payload env policy registry p a payload = Inr []"
    using validate_lab_payload [OF assms(1)] by blast
  let ?t = "py_str (dict_get_or payload ''target'' (JStr []))" and ?ds = "elems (dict_get payload ''devices'')"
    and ?ts = "elems (dict_get payload ''negative_tests'')"
  from lab_payload_nil [OF doc(2) assms(2)]
  have schema: "dict_get payload ''schema_version'' = JStr (lab_schema policy)"
    and ident: "lab_identity payload (or_else (lab_version a) (fst (expected_from_lab_path p)))
      (or_else (lab_target a) (snd (expected_from_lab_path p))) = []"
    and bind: "lab_binding_check payload a (dict_get payload ''artifact_binding'') = []"
    and islists: "is_list (dict_get payload ''devices'')" "?ds \<noteq> []" "is_list (dict_get payload ''negative_tests'')"
    and each: "\<forall>iv\<in>set (enumerate 0 ?ds). lab_device (lab_files env) policy (path_parent p) a True ?t
      (dict_get payload ''artifact_binding'') iv = Inr []"
    and boards: "lab_required_boards policy ?t ?ds = []"
    and negs: "lab_required_negatives policy ?t (lab_profile a) ?ts = []"
      "lab_negatives (lab_files env) (path_parent p) a True ?t [] 0 ?ts = Inr []"
    by simp_all
  obtain target where target: "dict_get payload ''target'' = JStr target" "safe_identifier target"
      "\<forall>e. or_else (lab_target a) (snd (expected_from_lab_path p)) = Some e \<longrightarrow> target = e"
    using lab_target_of [OF ident] by blast
  obtain binding sha where binding: "dict_get payload ''artifact_binding'' = JObj binding"
      "dict_get binding ''source_sha'' = JStr sha" "\<forall>e. lab_source_sha a = Some e \<longrightarrow> sha = e"
      "sha256_text (dict_get binding ''build_artifact_sha256'')" "int_above 0 (dict_get binding ''build_artifact_bytes'')"
    using lab_binding_of [OF bind] by blast
  obtain devices tests where lists: "dict_get payload ''devices'' = JArr devices" "devices \<noteq> []"
      "dict_get payload ''negative_tests'' = JArr tests"
    using islists by (auto simp: is_list_iff)
  have name: "py_str (dict_get_or payload ''target'' (JStr [])) = target"
    using dict_get_or_some [OF target(1)] by simp
  have "sound_device (lab_files env) policy (path_parent p) target binding v" if v: "v \<in> set devices" for v
  proof -
    obtain i where "i < length devices" "v = devices ! i" using v by (auto simp: in_set_conv_nth)
    then have "(i, v) \<in> set (enumerate 0 devices)" by (simp add: in_set_enumerate_eq)
    then have "lab_device (lab_files env) policy (path_parent p) a True target (JObj binding) (i, v) = Inr []"
      using bspec [OF each, of "(i, v)"] lists(1) binding(1) name by simp
    from lab_device_nil [OF this assms(2-4) binding(4,5)] show ?thesis by simp
  qed
  moreover have "set boards \<subseteq> set (names_in ''board'' devices)" if "map_of (lab_boards policy) target = Some boards" for boards
    using boards lists(1) name that by (simp add: lab_required_boards_def Let_def)
  moreover have tests: "(\<forall>v\<in>set tests. sound_negative (lab_files env) (path_parent p) v) \<and> distinct (map negative_name tests) \<and>
      (target = ''pi-cm4-revpi-usb-installer'' \<longrightarrow> negative_name ` set tests \<subseteq> set REQUIRED_USB_NEGATIVE_TESTS)"
    using lab_negatives_nil [OF negs(2) assms(3,4)] lists(3) name by simp
  moreover have "set REQUIRED_USB_NEGATIVE_TESTS \<subseteq> negative_name ` set tests" if "target = ''pi-cm4-revpi-usb-installer''"
  proof -
    have "set REQUIRED_USB_NEGATIVE_TESTS \<subseteq> set (names_in ''name'' tests)"
      using negs(1) lists(3) name that by (simp add: lab_required_negatives_def Let_def)
    then show ?thesis by (force simp: names_in_iff negative_name_def)
  qed
  moreover have "target = e" if "lab_target a = Some e \<and> e \<noteq> []" for e
    using target(3) that or_else_given by blast
  ultimately show ?thesis
    using doc(1) schema target(1,2) binding(1-3) lists
    by (intro exI [of _ payload] exI [of _ target] exI [of _ binding] exI [of _ sha] exI [of _ devices] exI [of _ tests]) blast
qed

text \<open>
  C37. Such a document is signed by its station: the registry that the caller supplies knows the
  station's key and allows the target without a wildcard, the bundle, key and signature files
  have the recorded digests, the bundle carries the digest of the canonical text of the unsigned
  document, and \<open>openssl\<close> accepted the signature of that bundle under that key.
\<close>

theorem lab_document_signed:
  assumes "validate_lab env policy (Some registry_path) p a = Inr []" and "lab_strict a" and "lab_check_files a"
  shows "\<exists>payload. load_doc (lab_files env) p = Loaded (JObj payload) \<and>
    station_signed env (path_parent p) payload (lab_read_json (lab_files env) registry_path)"
proof -
  obtain payload where doc: "load_doc (lab_files env) p = Loaded (JObj payload)"
      "lab_payload env policy (lab_read_json (lab_files env) registry_path) p a payload = Inr []"
    using validate_lab_payload [OF assms(1)] by auto
  have "check_station_bundle env (path_parent p) payload True (lab_profile a) (lab_read_json (lab_files env) registry_path) = Inr []"
    using lab_payload_nil [OF doc(2) assms(2)] assms(3) by simp
  from station_bundle_nil [OF this] assms(2) doc(1) show ?thesis by (auto simp: lab_strict_def)
qed

text \<open>
  C38. The signed text identifies the unsigned document: two documents without floating-point
  numbers have the same canonical text exactly when they agree, up to the order of keys, on
  everything but the two signature members, and adding these members does not change it.
\<close>

definition unsigned :: "obj \<Rightarrow> obj" where
  "unsigned payload = filter (\<lambda>(k, _). k \<noteq> ''station_bundle'' \<and> k \<noteq> ''station_signature'') payload"

theorem canonical_payload_identifies:
  "(float_free (JObj (unsigned p)) \<and> float_free (JObj (unsigned q)) \<longrightarrow>
      (canonical_lab_payload p = canonical_lab_payload q \<longleftrightarrow> canon (JObj (unsigned p)) = canon (JObj (unsigned q)))) \<and>
   canonical_lab_payload (p @ [(''station_bundle'', b), (''station_signature'', s)]) = canonical_lab_payload p"
  using dumps_inject [of "JObj (unsigned p)" "JObj (unsigned q)"]
  by (simp add: canonical_lab_payload_def unsigned_def del: dumps.simps canon.simps)

text \<open>
  A calibration date without a time of day makes a release validation raise instead of
  report: the source appends an offset, which a date alone does not take, and compares the naive
  result with the clock.
\<close>

theorem naive_calibration_raises:
  assumes "parse_zulu (dict_get entry ''calibration_expires_at'') = Some d" and "utc_offset d = None"
    and "station_registry_entry registry (str_option (dict_get (dict_or_empty (dict_get payload ''station'')) ''station_id'')) = Some entry"
    and "is_obj registry" and "profile \<in> set LAB_STRICT_PROFILES"
  shows "check_station_registry now payload registry key profile = Inl TypeError"
  using assms by (simp add: check_station_registry_def Let_def check_calibration_def not_after_def)

end
