(* ===== verification/RuntimeSuite.thy ===== *)
theory RuntimeSuite
  imports PyChecks IngressBase
begin

text \<open>
  \<open>scripts/evidence/validate-production-runtime-suite.py\<close>: the check of the scenarios that a
  production image runs under QEMU (signed boot, tampered boot chain, update, rollback, disk
  encryption). What a scenario claims is compared with its runtime contract, with the outcome
  that the serial log supports, and with the QMP log. The result is the list of messages.
\<close>

section \<open>Constants and the policy read from the contract\<close>

definition SUITE_LEGACY_SCHEMAS :: "string list" where
  "SUITE_LEGACY_SCHEMAS = [''suderra.qemu-production-runtime-suite.v1'']"

definition V2_REQUIRED_PROFILES :: "string list" where
  "V2_REQUIRED_PROFILES = [''production-candidate'', ''production-runtime'']"

definition SCENARIO_STATUSES :: "string list" where
  "SCENARIO_STATUSES = [''passed'', ''failed'', ''infra-error'', ''timeout'']"

definition SUITE_OUTCOMES :: "string list" where
  "SUITE_OUTCOMES = [''booted'', ''firmware-rejected'', ''kernel-rejected'', ''userspace-rejected'', ''rollback-completed'']"

definition GUEST_FACT_REQUIRED_OUTCOMES :: "string list" where
  "GUEST_FACT_REQUIRED_OUTCOMES = [''booted'', ''rollback-completed'']"

definition REQUIRED_V2_LOG_ROLES :: "string list" where
  "REQUIRED_V2_LOG_ROLES = [''serial'', ''qmp-events'']"

definition REQUIRED_V2_GUEST_FACTS :: "string list" where
  "REQUIRED_V2_GUEST_FACTS = [''secure_boot'', ''dm_verity'', ''rauc'', ''data_encryption'', ''anti_rollback'']"

definition SUITE_PLACEHOLDERS :: "string list" where
  "SUITE_PLACEHOLDERS = ['''', ''TO_BE_COLLECTED'', ''NOT_COLLECTED'', ''not_collected'', ''pending'', ''PENDING'']"

definition SEMANTIC_BEGIN :: string where
  "SEMANTIC_BEGIN = ''SUDERRA_QEMU_SEMANTIC_JSON_BEGIN''"

definition SEMANTIC_END :: string where
  "SEMANTIC_END = ''SUDERRA_QEMU_SEMANTIC_JSON_END''"

definition OUTCOME_PREFIXES :: "string list" where
  "OUTCOME_PREFIXES = [''SUDERRA_PRODUCTION_RUNTIME_OUTCOME='', ''observed_outcome='']"

definition OBSERVATION_SOURCE_ROLES :: "(string \<times> string) list" where
  "OBSERVATION_SOURCE_ROLES = [(''guest-semantic'', ''guest-semantic''), (''kernel-verity-event'', ''serial''),
     (''qmp-events'', ''qmp-events''), (''serial-marker'', ''serial''), (''secure-boot-event'', ''qmp-events''),
     (''suderra-ota-event'', ''guest-semantic'')]"

record suite_policy =
  suite_schema :: string
  observation_schema :: string
  suite_scenarios :: "string list"
  scenario_contracts :: "(string \<times> obj) list"
  observation_authority :: json
  suite_contract :: obj

definition suite_policy_of :: "obj \<Rightarrow> suite_policy checked" where
  "suite_policy_of contract =
     bindE (contract_schema_version ''production_runtime_suite'' contract) (\<lambda>schema.
     bindE (contract_schema_version ''runtime_observation'' contract) (\<lambda>observation.
     bindE (runtime_required_scenarios contract) (\<lambda>scenarios.
     bindE (runtime_scenario_contracts contract) (\<lambda>contracts.
     bindE (dict_index contract ''runtime'') (\<lambda>runtime.
     bindE (subscript runtime ''observation_authority'') (\<lambda>authority.
       Inr \<lparr>suite_schema = schema, observation_schema = observation, suite_scenarios = map text_of scenarios,
         scenario_contracts = contracts, observation_authority = authority, suite_contract = contract\<rparr>))))))"

section \<open>Field checks\<close>

definition suite_placeholder :: "json \<Rightarrow> bool" where
  "suite_placeholder v \<longleftrightarrow> \<not> is_str v \<or> strip (text_of v) \<in> set SUITE_PLACEHOLDERS"

definition suite_string :: "string \<Rightarrow> json \<Rightarrow> string list" where
  "suite_string p v = report (suite_placeholder v) (msg p ''must be a non-placeholder string'')"

definition suite_strings :: "string \<Rightarrow> obj \<Rightarrow> string list \<Rightarrow> string list" where
  "suite_strings p o' names = concat (map (\<lambda>f. suite_string (p @ ''.'' @ f) (dict_get o' f)) names)"

definition suite_sha256 :: "string \<Rightarrow> json \<Rightarrow> string list" where
  "suite_sha256 p v = (if \<not> sha256_text v then [msg p ''must be a lowercase sha256'']
     else report (text_of v = replicate 64 (CHR ''0'')) (msg p ''must not be the all-zero sha256''))"

definition suite_sha256s :: "string \<Rightarrow> obj \<Rightarrow> string list \<Rightarrow> string list" where
  "suite_sha256s p o' names = concat (map (\<lambda>f. suite_sha256 (p @ ''.'' @ f) (dict_get o' f)) names)"

definition suite_string_list :: "string \<Rightarrow> json \<Rightarrow> string list" where
  "suite_string_list p v = (if \<not> is_list v \<or> elems v = [] then [msg p ''must be a non-empty string list'']
     else concat (map (\<lambda>(i, x). suite_string (p @ ''['' @ nat_str i @ '']'') x) (enumerate 0 (elems v))))"

definition suite_object :: "string \<Rightarrow> json \<Rightarrow> string list" where
  "suite_object p v = report (\<not> is_obj v) (msg p ''must be an object'')"

text \<open>\<open>check_object\<close> followed by checks of the members where there are any.\<close>

definition suite_members :: "string \<Rightarrow> json \<Rightarrow> (obj \<Rightarrow> string list) \<Rightarrow> string list" where
  "suite_members p v check = suite_object p v @ (if dict_or_empty v = [] then [] else check (dict_or_empty v))"

definition suite_expected :: "string option \<Rightarrow> json \<Rightarrow> string \<Rightarrow> string \<Rightarrow> string list" where
  "suite_expected expected v p m = (case expected of None \<Rightarrow> [] | Some e \<Rightarrow> report (v \<noteq> JStr e) (msg p (m @ e)))"

text \<open>\<open>isinstance(pin, str) and v != pin\<close>, for a value that the contract pins.\<close>

definition off_contract :: "json \<Rightarrow> json \<Rightarrow> bool" where
  "off_contract pin v \<longleftrightarrow> is_str pin \<and> v \<noteq> pin"

section \<open>Files\<close>

definition suite_relative_file :: "store \<Rightarrow> path \<Rightarrow> string \<Rightarrow> json \<Rightarrow> bool \<Rightarrow> string option \<Rightarrow> string list" where
  "suite_relative_file fs here p v check_files expected = (let actual = path_join here (path_of (text_of v)) in
     suite_string p v
     @ (if \<not> is_str v then []
        else if inner_path v = None then [msg p (''must be relative and must not contain '' @ repr_str ''..'')]
        else if \<not> check_files then []
        else if \<not> nonempty_file fs actual then [msg p (''referenced file is missing or empty: '' @ text_of v)]
        else report (expected \<noteq> None \<and> Some (file_sha fs actual) \<noteq> expected) (msg p ''referenced file sha256 mismatch'')))"

definition relative_file :: "path \<Rightarrow> json \<Rightarrow> path option" where
  "relative_file here v = map_option (path_join here) (inner_path v)"

definition suite_read_text :: "store \<Rightarrow> path \<Rightarrow> json \<Rightarrow> string" where
  "suite_read_text fs here v = (case Option.bind (relative_file here v) fs of None \<Rightarrow> [] | Some f \<Rightarrow> text_content f)"

definition suite_read_json :: "store \<Rightarrow> path \<Rightarrow> json \<Rightarrow> json" where
  "suite_read_json fs here v = (case Option.bind (relative_file here v) fs of None \<Rightarrow> JNull
     | Some f \<Rightarrow> (case json_content f of None \<Rightarrow> JNull | Some d \<Rightarrow> d))"

section \<open>Replay of the logs\<close>

text \<open>What a line of the serial log announces after one of the two prefixes.\<close>

definition announced :: "string \<Rightarrow> string option" where
  "announced line = (let t = strip line in
     map_option (\<lambda>p. strip (drop (length p) t)) (find (starts_with t) OUTCOME_PREFIXES))"

text \<open>The first line that announces an outcome decides, whatever it announces.\<close>

fun first_announced :: "string list \<Rightarrow> string option" where
  "first_announced [] = None"
| "first_announced (l # ls) = (case announced l of Some v \<Rightarrow> Some v | None \<Rightarrow> first_announced ls)"

definition any_in :: "string \<Rightarrow> string list \<Rightarrow> bool" where
  "any_in s tokens \<longleftrightarrow> list_ex (contains s) tokens"

definition inferred_outcome :: "string \<Rightarrow> string option" where
  "inferred_outcome serial = (let l = lower serial in
     if any_in l [''rollback-completed'', ''rollback completed''] then Some ''rollback-completed''
     else if any_in l [''security violation'', ''access denied''] \<or> (contains l ''secure boot'' \<and> contains l ''denied'')
       then Some ''firmware-rejected''
     else if contains l ''dm-verity'' \<and> any_in l [''corrupt'', ''verification failed'', ''root hash''] then Some ''kernel-rejected''
     else if contains l ''rauc'' \<and> any_in l [''signature'', ''downgrade'', ''rollback floor'', ''rejected'']
       then Some ''userspace-rejected''
     else if contains serial SEMANTIC_BEGIN \<and> contains serial SEMANTIC_END then Some ''booted''
     else None)"

definition observed_outcome_from_serial :: "string \<Rightarrow> string option" where
  "observed_outcome_from_serial serial = (case first_announced (splitlines serial) of
     Some v \<Rightarrow> if v \<in> set SUITE_OUTCOMES then Some v else None
   | None \<Rightarrow> inferred_outcome serial)"

definition acknowledges_quit :: "json \<Rightarrow> bool" where
  "acknowledges_quit e \<longleftrightarrow> is_obj e \<and> dict_get (members e) ''id'' = JStr ''suderra-production-runtime-quit'' \<and>
     dict_has (members e) ''return''"

text \<open>The loop of \<open>qmp_quit_ack_observed\<close>, with its flag.\<close>

fun quit_ack :: "bool \<Rightarrow> json list \<Rightarrow> bool" where
  "quit_ack acked [] = acked"
| "quit_ack acked (e # es) =
     (if \<not> is_obj e then quit_ack acked es
      else if acknowledges_quit e then quit_ack True es
      else if dict_get (members e) ''event'' = JStr ''SHUTDOWN'' \<and> acked then True
      else quit_ack acked es)"

definition qmp_quit_ack_observed :: "json \<Rightarrow> bool" where
  "qmp_quit_ack_observed events \<longleftrightarrow> is_list events \<and> quit_ack False (elems events)"

section \<open>The image and the machine\<close>

definition suite_argv :: "string \<Rightarrow> json \<Rightarrow> string list" where
  "suite_argv p v = (let argv = map py_str (elems v) in
     suite_string_list p v
     @ (if is_list v then
          report (\<not> list_ex (\<lambda>x. path_name (path_of x) = ''qemu-system-x86_64'') argv) (msg p ''must include qemu-system-x86_64'')
          @ report (''-qmp'' \<notin> set argv) (msg p ''must include QMP'')
        else []))"

definition validate_top_level_v2 :: "obj \<Rightarrow> string list" where
  "validate_top_level_v2 payload =
     suite_strings ''$'' payload [''source_run_id'', ''source_run_attempt'', ''subject_id'', ''defconfig'',
       ''raw_image_sha256'', ''compressed_artifact_sha256'', ''release_artifact'']
     @ suite_sha256s ''$'' payload [''raw_image_sha256'', ''compressed_artifact_sha256'']
     @ suite_string ''$.qemu_version'' (dict_get payload ''qemu_version'')
     @ suite_argv ''$.qemu_argv'' (dict_get payload ''qemu_argv'')
     @ suite_members ''$.ovmf_enrollment'' (dict_get payload ''ovmf_enrollment'') (\<lambda>e.
         suite_sha256s ''$.ovmf_enrollment'' e [''enrolled_vars_sha256'', ''secure_boot_db_sha256'']
         @ suite_string ''$.ovmf_enrollment.mode'' (dict_get e ''mode''))
     @ suite_sha256s ''$'' payload [''swtpm_state_before_sha256'', ''swtpm_state_after_sha256'']"

section \<open>Guest facts\<close>

definition suite_text_or_list :: "string \<Rightarrow> json \<Rightarrow> string list" where
  "suite_text_or_list p v = (if is_list v then report (elems v = []) (msg p ''must be non-empty'') else suite_string p v)"

definition suite_fact :: "string \<Rightarrow> obj \<Rightarrow> string \<Rightarrow> (string \<Rightarrow> obj \<Rightarrow> string list) \<Rightarrow> string list" where
  "suite_fact p facts k check = (let q = p @ ''.'' @ k; v = dict_get facts k in
     if is_obj v then check q (members v) else report (dict_has facts k) (msg q ''must be an object''))"

definition suite_true :: "string \<Rightarrow> obj \<Rightarrow> string \<Rightarrow> string list" where
  "suite_true p o' f = report (dict_get o' f \<noteq> JBool True) (msg (p @ ''.'' @ f) ''must be true'')"

definition suite_encryption :: "json \<Rightarrow> string \<Rightarrow> obj \<Rightarrow> string list" where
  "suite_encryption name p e = (let mapper = dict_get e ''luks_mapper_state''; q = p @ ''.luks_mapper_state''; m = members mapper in
     (if \<not> is_obj mapper then [msg q ''must be an object'']
      else suite_string (q @ ''.mapper'') (dict_get m ''mapper'')
        @ (if name = JStr ''data-luks-swtpm'' then suite_true q m ''open'' else []))
     @ (if name = JStr ''data-luks-swtpm'' then suite_true p e ''encrypted'' else []))"

definition validate_guest_facts_v2 :: "string \<Rightarrow> json \<Rightarrow> json \<Rightarrow> string list" where
  "validate_guest_facts_v2 scenario_path name v = (let p = scenario_path @ ''.guest_facts'' in
     suite_members p v (\<lambda>facts.
       let missing = sorted_set (minus_list REQUIRED_V2_GUEST_FACTS (dict_keys facts)) in
       report (missing \<noteq> []) (msg p (''missing required facts: '' @ comma_join missing))
       @ suite_fact p facts ''secure_boot'' (\<lambda>q b. suite_true q b ''enabled'' @ suite_string (q @ ''.source'') (dict_get b ''source''))
       @ suite_fact p facts ''dm_verity'' (\<lambda>q d. suite_true q d ''active'' @ suite_text_or_list (q @ ''.table'') (dict_get d ''table''))
       @ suite_fact p facts ''rauc'' (\<lambda>q r. suite_true q r ''available'' @ suite_text_or_list (q @ ''.status'') (dict_get r ''status''))
       @ suite_fact p facts ''data_encryption'' (suite_encryption name)
       @ suite_fact p facts ''anti_rollback'' (\<lambda>q a. suite_string (q @ ''.rollback_floor'') (dict_get a ''rollback_floor''))))"

section \<open>Observations\<close>

definition forbidden_sources :: "json \<Rightarrow> json list run" where
  "forbidden_sources authority = bindE (dict_of authority) (\<lambda>a.
     bindE (py_list (dict_get_or a ''forbidden_sources'' (JArr []))) (\<lambda>xs.
       if list_all hashable xs then Inr xs else Inl TypeError))"

definition observation_source_check :: "string \<Rightarrow> json list \<Rightarrow> obj \<Rightarrow> json \<Rightarrow> string list" where
  "observation_source_check p forbidden pins v = (let allowed = dict_get_or pins ''observation_source'' (JArr []) in
     if \<not> is_str v then []
     else report (v \<in> set forbidden) (msg p ''must not derive observed_outcome from expected outcome'')
       @ (case map_of OBSERVATION_SOURCE_ROLES (text_of v) of
            None \<Rightarrow> [msg p ''is unsupported'']
          | Some role \<Rightarrow> report (is_list allowed \<and> JStr role \<notin> set (elems allowed))
              (msg p ''is not allowed by runtime scenario contract'')))"

definition validate_observation_v2 :: "suite_policy \<Rightarrow> string \<Rightarrow> obj \<Rightarrow> json \<Rightarrow> obj \<Rightarrow> string list run" where
  "validate_observation_v2 policy scenario_path scenario name pins = (let p = scenario_path @ ''.observation'';
       v = dict_get scenario ''observation''; observation = dict_or_empty v in
     if observation = [] then Inr (suite_object p v)
     else bindE (forbidden_sources (observation_authority policy)) (\<lambda>forbidden. Inr
       (report (dict_get observation ''schema_version'' \<noteq> JStr (observation_schema policy))
          (msg (p @ ''.schema_version'') (''must be '' @ observation_schema policy))
        @ suite_strings p observation [''producer'', ''source'', ''observed_outcome'', ''observed_layer'', ''signal'']
        @ report (off_contract name (dict_get observation ''scenario'')) (msg (p @ ''.scenario'') ''must match scenario name'')
        @ report (\<not> py_eq (dict_get observation ''observed_outcome'') (dict_get scenario ''observed_outcome''))
            (msg (p @ ''.observed_outcome'') ''must match scenario observed_outcome'')
        @ report (off_contract (dict_get pins ''observed_layer'') (dict_get observation ''observed_layer''))
            (msg (p @ ''.observed_layer'') (''must be '' @ text_of (dict_get pins ''observed_layer'')))
        @ observation_source_check (p @ ''.source'') forbidden pins (dict_get observation ''source''))))"

section \<open>Arguments\<close>

record suite_args =
  suite_check_files :: bool
  suite_require_pass :: bool
  suite_version :: "string option"
  suite_target :: "string option"
  suite_source_sha :: "string option"
  suite_run_id :: "string option"
  suite_run_attempt :: "string option"
  suite_defconfig :: "string option"
  suite_image_sha256 :: "string option"
  suite_raw_sha256 :: "string option"
  suite_compressed_sha256 :: "string option"
  suite_release_artifact :: "string option"
  suite_profile :: string

section \<open>Scenarios of the second schema\<close>

definition suite_termination :: "string \<Rightarrow> json \<Rightarrow> string list" where
  "suite_termination p v = suite_members p v (\<lambda>t.
     suite_strings p t [''class'', ''reason''] @ suite_true p t ''qmp_quit_sent'' @ suite_true p t ''qmp_quit_ack''
     @ report (dict_get t ''timeout'' = JBool True) (msg (p @ ''.timeout'') ''must not be true''))"

definition suite_swtpm :: "string \<Rightarrow> json \<Rightarrow> json \<Rightarrow> string list" where
  "suite_swtpm p name v = suite_members p v (\<lambda>t.
     suite_sha256s p t [''before_sha256'', ''after_sha256''] @ suite_string (p @ ''.path'') (dict_get t ''path'')
     @ report (name = JStr ''data-luks-swtpm'' \<and> py_eq (dict_get t ''before_sha256'') (dict_get t ''after_sha256''))
         (msg (p @ ''.after_sha256'') ''must differ for data LUKS/swtpm persistence''))"

text \<open>The log entries by role; a later entry replaces an earlier one of the same role.\<close>

type_synonym logs_by_role = "(string \<times> obj) list"

definition logs_by_role :: "json list \<Rightarrow> logs_by_role" where
  "logs_by_role logs = rev (concat (map (\<lambda>v. let role = dict_get (members v) ''role'' in
     if is_obj v \<and> is_str role then [(text_of role, members v)] else []) logs))"

definition suite_raw_evidence :: "string \<Rightarrow> logs_by_role \<Rightarrow> json \<Rightarrow> string list" where
  "suite_raw_evidence p logs v = suite_members p v (\<lambda>raw. concat (map (\<lambda>(role, field).
     suite_sha256 (p @ ''.'' @ field) (dict_get raw field)
     @ (case map_of logs role of None \<Rightarrow> [] | Some entry \<Rightarrow>
          report (is_str (dict_get raw field) \<and> dict_get raw field \<noteq> dict_get entry ''sha256'')
            (msg (p @ ''.'' @ field) (''must match '' @ role @ '' log sha256''))))
     [(''serial'', ''serial_sha256''), (''qmp-events'', ''qmp_events_sha256'')]))"

definition required_log_roles :: "obj \<Rightarrow> string list" where
  "required_log_roles pins = (let roles = dict_get pins ''required_log_roles'' in
     if is_list roles \<and> elems roles \<noteq> [] then map py_str (elems roles) else REQUIRED_V2_LOG_ROLES)"

definition suite_replay :: "store \<Rightarrow> path \<Rightarrow> string \<Rightarrow> logs_by_role \<Rightarrow> obj \<Rightarrow> string list" where
  "suite_replay fs here p logs scenario =
     (case map_of logs ''serial'' of None \<Rightarrow> [] | Some entry \<Rightarrow>
        (case observed_outcome_from_serial (suite_read_text fs here (dict_get entry ''path'')) of
           None \<Rightarrow> [msg (p @ ''.logs'') ''serial log must support observed_outcome'']
         | Some outcome \<Rightarrow> report (dict_get scenario ''observed_outcome'' \<noteq> JStr outcome)
             (msg (p @ ''.observed_outcome'') ''must match replayed serial evidence'')))
     @ (case map_of logs ''qmp-events'' of None \<Rightarrow> [] | Some entry \<Rightarrow>
          report (\<not> qmp_quit_ack_observed (suite_read_json fs here (dict_get entry ''path'')))
            (msg (p @ ''.logs'') ''QMP log must prove quit acknowledgement or shutdown''))"

definition suite_guest_facts :: "string \<Rightarrow> json \<Rightarrow> obj \<Rightarrow> obj \<Rightarrow> string list run" where
  "suite_guest_facts p name scenario pins = (let facts = dict_get scenario ''guest_facts'' in
     bindE (if dict_get pins ''guest_facts_required'' = JBool True then Inr True
            else in_str_set (dict_get scenario ''observed_outcome'') GUEST_FACT_REQUIRED_OUTCOMES) (\<lambda>required. Inr
       (if required then validate_guest_facts_v2 p name facts
        else report (dict_has scenario ''guest_facts'' \<and> \<not> is_obj facts) (msg (p @ ''.guest_facts'') ''must be an object when present''))))"

definition fallback_result :: "json \<Rightarrow> string" where
  "fallback_result name = path_str (path_join (path_join (path_of ''production-runtime-logs'') (path_of (py_str name)))
     (path_of ''scenario-result.json''))"

definition mutated_artifact :: "store \<Rightarrow> path \<Rightarrow> string \<Rightarrow> json \<Rightarrow> bool \<Rightarrow> json \<Rightarrow> string list" where
  "mutated_artifact fs here p name check_files v = (let a = members v in
     if \<not> is_obj v then [msg p ''must bind mutation artifact before/after hashes'']
     else suite_strings p a [''path'', ''role''] @ suite_sha256s p a [''before_sha256'', ''after_sha256'']
       @ report (py_eq (dict_get a ''before_sha256'') (dict_get a ''after_sha256''))
           (msg (p @ ''.after_sha256'') ''must differ from before_sha256'')
       @ report (dict_get a ''path'' = JStr (fallback_result name))
           (msg (p @ ''.path'') ''must not use fallback scenario result JSON'')
       @ suite_relative_file fs here (p @ ''.path'') (dict_get a ''path'') check_files (str_option (dict_get a ''after_sha256'')))"

definition suite_mutation_v2 :: "store \<Rightarrow> path \<Rightarrow> string \<Rightarrow> json \<Rightarrow> bool \<Rightarrow> obj \<Rightarrow> json \<Rightarrow> string list" where
  "suite_mutation_v2 fs here p name check_files pins v = (let mutation = members v in
     if \<not> is_obj v \<or> name = JStr ''signed-boot'' then []
     else report (off_contract (dict_get pins ''mutation_type'') (dict_get mutation ''type''))
            (msg (p @ ''.mutation.type'') ''must match runtime scenario contract'')
       @ report (off_contract (dict_get pins ''mutation_target'') (dict_get mutation ''target''))
            (msg (p @ ''.mutation.target'') ''must match runtime scenario contract'')
       @ mutated_artifact fs here (p @ ''.mutation.artifact'') name check_files (dict_get mutation ''artifact''))"

definition validate_scenario_v2 ::
  "store \<Rightarrow> suite_policy \<Rightarrow> path \<Rightarrow> string \<Rightarrow> obj \<Rightarrow> json \<Rightarrow> logs_by_role \<Rightarrow> bool \<Rightarrow> obj \<Rightarrow> string list run" where
  "validate_scenario_v2 fs policy here p scenario name logs check_files pins = (let
       missing = sorted_set (minus_list (required_log_roles pins) (map fst logs)) in collectE
     [Inr (report (off_contract (dict_get pins ''expected_outcome'') (dict_get scenario ''expected_outcome''))
          (msg (p @ ''.expected_outcome'') ''must match runtime scenario contract'')
        @ suite_argv (p @ ''.qemu_argv'') (dict_get scenario ''qemu_argv'')
        @ suite_termination (p @ ''.termination'') (dict_get scenario ''termination'')
        @ suite_swtpm (p @ ''.swtpm_state'') name (dict_get scenario ''swtpm_state'')
        @ suite_raw_evidence (p @ ''.raw_evidence'') logs (dict_get scenario ''raw_evidence'')
        @ report (missing \<noteq> []) (msg (p @ ''.logs'') (''missing required raw log roles: '' @ comma_join missing))
        @ (if check_files then suite_replay fs here p logs scenario else [])),
      validate_observation_v2 policy p scenario name pins,
      suite_guest_facts p name scenario pins,
      Inr (suite_mutation_v2 fs here p name check_files pins (dict_get scenario ''mutation''))])"

section \<open>Scenarios\<close>

definition suite_status :: "string \<Rightarrow> obj \<Rightarrow> bool \<Rightarrow> bool \<Rightarrow> string list run" where
  "suite_status p scenario require_pass current = (let status = dict_get scenario ''status'';
       expected = dict_get scenario ''expected_outcome''; observed = dict_get scenario ''observed_outcome'' in
     bindE (in_str_set status SCENARIO_STATUSES) (\<lambda>known.
     bindE (in_str_set expected SUITE_OUTCOMES) (\<lambda>outcome. Inr
       (report (\<not> known) (msg (p @ ''.status'') (''must be one of: '' @ comma_join (sorted_set SCENARIO_STATUSES)))
        @ report (require_pass \<and> status \<noteq> JStr ''passed'') (msg (p @ ''.status'') ''must be passed'')
        @ report (\<not> outcome) (msg (p @ ''.expected_outcome'') (''must be one of: '' @ comma_join (sorted_set SUITE_OUTCOMES)))
        @ (if current then suite_string (p @ ''.observed_outcome'') observed
             @ report (require_pass \<and> \<not> py_eq observed expected) (msg (p @ ''.observed_outcome'')
                 ''passed scenario must match expected_outcome after typed observation and raw replay'')
           else report (\<not> py_eq observed expected) (msg (p @ ''.observed_outcome'') ''must match expected_outcome''))))))"

definition suite_mutation :: "string \<Rightarrow> json \<Rightarrow> json \<Rightarrow> string list" where
  "suite_mutation p name v = (let mutation = members v in
     if \<not> is_obj v then [msg p ''must be an object'']
     else if name = JStr ''signed-boot''
       then report (dict_get mutation ''type'' \<noteq> JStr ''none'') (msg (p @ ''.type'') ''signed-boot must not mutate the base image'')
     else suite_strings p mutation [''type'', ''target''] @ suite_sha256s p mutation [''before_sha256'', ''after_sha256'']
       @ report (py_eq (dict_get mutation ''before_sha256'') (dict_get mutation ''after_sha256''))
           (msg (p @ ''.after_sha256'') ''must differ from before_sha256''))"

definition suite_log :: "store \<Rightarrow> path \<Rightarrow> bool \<Rightarrow> string \<Rightarrow> nat \<times> json \<Rightarrow> string list" where
  "suite_log fs here check_files p iv = (let q = p @ ''.logs['' @ nat_str (fst iv) @ '']''; log = members (snd iv) in
     if \<not> is_obj (snd iv) then [msg q ''must be an object'']
     else suite_string (q @ ''.role'') (dict_get log ''role'') @ suite_sha256 (q @ ''.sha256'') (dict_get log ''sha256'')
       @ suite_relative_file fs here (q @ ''.path'') (dict_get log ''path'') check_files (str_option (dict_get log ''sha256'')))"

definition suite_logs :: "store \<Rightarrow> suite_policy \<Rightarrow> path \<Rightarrow> bool \<Rightarrow> bool \<Rightarrow> string \<Rightarrow> obj \<Rightarrow> string list run" where
  "suite_logs fs policy here check_files current p scenario = (let v = dict_get scenario ''logs''; name = dict_get scenario ''name'';
       logs = logs_by_role (elems v); pins = (case map_of (scenario_contracts policy) (text_of name) of Some o' \<Rightarrow> o' | None \<Rightarrow> []) in
     if \<not> is_list v \<or> elems v = [] then Inr [msg (p @ ''.logs'') ''must be a non-empty list'']
     else collectE
       [Inr (concat (map (suite_log fs here check_files p) (enumerate 0 (elems v)))
          @ report (map_of logs ''serial'' = None \<and> map_of logs ''qmp-events'' = None)
              (msg (p @ ''.logs'') ''must include serial or qmp-events evidence'')),
        if current then validate_scenario_v2 fs policy here p scenario name logs check_files (if is_str name then pins else []) else Inr []])"

definition suite_scenario ::
  "store \<Rightarrow> suite_policy \<Rightarrow> path \<Rightarrow> suite_args \<Rightarrow> bool \<Rightarrow> string list \<Rightarrow> nat \<Rightarrow> json \<Rightarrow> string list run" where
  "suite_scenario fs policy here a current seen n v = (let p = ''$.scenarios['' @ nat_str n @ '']''; scenario = members v;
       name = dict_get scenario ''name'' in
     if \<not> is_obj v then Inr [msg p ''must be an object'']
     else collectE
       [Inr (suite_string (p @ ''.name'') name
          @ report (is_str name \<and> text_of name \<in> set seen) (msg (p @ ''.name'') ''must be unique'')),
        suite_status p scenario (suite_require_pass a) current,
        Inr (suite_strings p scenario [''command'', ''started_at'', ''completed_at'', ''termination_class'', ''failure_class'']
          @ suite_mutation (p @ ''.mutation'') name (dict_get scenario ''mutation'')),
        suite_logs fs policy here (suite_check_files a) current p scenario])"

fun suite_scenarios_loop ::
  "store \<Rightarrow> suite_policy \<Rightarrow> path \<Rightarrow> suite_args \<Rightarrow> bool \<Rightarrow> string list \<Rightarrow> nat \<Rightarrow> json list \<Rightarrow> string list run" where
  "suite_scenarios_loop fs policy here a current seen n [] = Inr []"
| "suite_scenarios_loop fs policy here a current seen n (v # vs) =
     collectE [suite_scenario fs policy here a current seen n v,
       suite_scenarios_loop fs policy here a current (names_in ''name'' [v] @ seen) (Suc n) vs]"

section \<open>The whole suite\<close>

definition suite_subject :: "suite_policy \<Rightarrow> obj \<Rightarrow> string list run" where
  "suite_subject policy payload = (let sha = dict_get payload ''source_sha''; r = dict_get payload ''source_run_id'';
       target = dict_get payload ''target''; version = dict_get payload ''version'' in
     if is_str sha \<and> is_str r \<and> is_str target \<and> is_str version then
       bindE (from_checked (release_subject_id (text_of version) (text_of target) (text_of sha) (text_of r) (suite_contract policy)))
         (\<lambda>subject. Inr (report (dict_get payload ''subject_id'' \<noteq> JStr subject)
           (msg ''$.subject_id'' ''must match the canonical release subject id'')))
     else Inr [])"

definition suite_same_text :: "string option \<Rightarrow> json \<Rightarrow> string \<Rightarrow> string \<Rightarrow> string list" where
  "suite_same_text expected v p m = (case expected of None \<Rightarrow> [] | Some e \<Rightarrow> report (py_str v \<noteq> e) (msg p (m @ e)))"

definition suite_binding :: "suite_policy \<Rightarrow> suite_args \<Rightarrow> obj \<Rightarrow> string list run" where
  "suite_binding policy a payload = collectE
     [Inr (validate_top_level_v2 payload
        @ suite_same_text (suite_run_id a) (dict_get payload ''source_run_id'') ''$.source_run_id'' ''must match expected source run ''
        @ suite_same_text (suite_run_attempt a) (dict_get payload ''source_run_attempt'') ''$.source_run_attempt''
            ''must match expected source run attempt ''
        @ suite_expected (suite_defconfig a) (dict_get payload ''defconfig'') ''$.defconfig'' ''must match expected defconfig ''
        @ suite_expected (suite_raw_sha256 a) (dict_get payload ''raw_image_sha256'') ''$.raw_image_sha256''
            ''must match expected raw image sha256 ''
        @ suite_expected (suite_compressed_sha256 a) (dict_get payload ''compressed_artifact_sha256'')
            ''$.compressed_artifact_sha256'' ''must match expected compressed artifact sha256 ''
        @ suite_expected (suite_release_artifact a) (dict_get payload ''release_artifact'') ''$.release_artifact''
            ''must match expected release artifact ''),
      suite_subject policy payload]"

definition suite_header :: "suite_policy \<Rightarrow> suite_args \<Rightarrow> obj \<Rightarrow> string list run" where
  "suite_header policy a payload = (let schema = dict_get payload ''schema_version''; sha = dict_get payload ''source_sha'';
       current = (schema = JStr (suite_schema policy)) in
     bindE (in_str_set schema (suite_schema policy # SUITE_LEGACY_SCHEMAS)) (\<lambda>known. Inr
       (report (\<not> known) (msg ''$.schema_version'' (''must be '' @ suite_schema policy))
        @ report (suite_profile a \<in> set V2_REQUIRED_PROFILES \<and> \<not> current)
            (msg ''$.schema_version'' (suite_profile a @ '' requires '' @ suite_schema policy))
        @ suite_strings ''$'' payload [''version'', ''target'', ''generated_at'', ''image'', ''ovmf_code'', ''ovmf_vars'', ''swtpm_state'']
        @ suite_expected (suite_version a) (dict_get payload ''version'') ''$.version'' ''must match expected version ''
        @ suite_expected (suite_target a) (dict_get payload ''target'') ''$.target'' ''must match expected target ''
        @ (if \<not> commit_text sha then [msg ''$.source_sha'' ''must be a lowercase git commit sha'']
           else suite_expected (suite_source_sha a) sha ''$.source_sha'' ''must match expected source sha '')
        @ suite_sha256s ''$'' payload [''image_sha256'', ''ovmf_code_sha256'', ''ovmf_vars_sha256'', ''swtpm_state_sha256'']
        @ suite_expected (suite_image_sha256 a) (dict_get payload ''image_sha256'') ''$.image_sha256'' ''must match expected artifact sha256 '')))"

definition suite_payload :: "store \<Rightarrow> suite_policy \<Rightarrow> path \<Rightarrow> suite_args \<Rightarrow> obj \<Rightarrow> string list run" where
  "suite_payload fs policy here a payload = (let current = (dict_get payload ''schema_version'' = JStr (suite_schema policy));
       v = dict_get payload ''scenarios''; scenarios = elems v; names = names_in ''name'' scenarios;
       missing = sorted_set (minus_list (suite_scenarios policy) names);
       unexpected = sorted_set (minus_list names (suite_scenarios policy)) in collectE
     [suite_header policy a payload,
      if current then suite_binding policy a payload else Inr [],
      Inr (report (\<not> is_list v \<or> scenarios = []) (msg ''$.scenarios'' ''must be a non-empty list'')),
      suite_scenarios_loop fs policy here a current [] 0 scenarios,
      Inr (report (missing \<noteq> []) (msg ''$.scenarios'' (''missing required scenarios: '' @ comma_join missing))
        @ report (unexpected \<noteq> []) (msg ''$.scenarios'' (''unknown production-runtime scenarios: '' @ comma_join unexpected)))])"

definition validate_suite :: "store \<Rightarrow> suite_policy \<Rightarrow> path \<Rightarrow> suite_args \<Rightarrow> string list run" where
  "validate_suite fs policy p a =
     (case load_doc fs p of
        OsError \<Rightarrow> Inr [msg (path_str p) ''cannot read production-runtime suite: OSError'']
      | BadJson \<Rightarrow> Inr [msg (path_str p) ''invalid JSON: JSONDecodeError'']
      | Loaded v \<Rightarrow> if \<not> is_obj v then Inr [msg (path_str p) ''top-level JSON value must be an object'']
          else suite_payload fs policy (path_parent p) a (members v))"

end
