(* ===== verification/RuntimeProps.thy ===== *)
theory RuntimeProps
  imports RuntimeSuite
begin

text \<open>
  What an accepted production runtime suite guarantees about its scenarios, and what the replay
  of its logs amounts to.
\<close>

section \<open>Field checks that report nothing\<close>

lemma suite_string_nil [no_report]: "suite_string p v = [] \<longleftrightarrow> \<not> suite_placeholder v"
  by (simp add: suite_string_def)

lemma suite_strings_nil [no_report]: "suite_strings p o' names = [] \<longleftrightarrow> (\<forall>f\<in>set names. \<not> suite_placeholder (dict_get o' f))"
  by (simp add: suite_strings_def no_report)

lemma suite_sha256_nil [no_report]: "suite_sha256 p v = [] \<longleftrightarrow> sha256_text v \<and> text_of v \<noteq> replicate 64 (CHR ''0'')"
  by (simp add: suite_sha256_def)

lemma suite_sha256s_nil [no_report]:
  "suite_sha256s p o' names = [] \<longleftrightarrow>
     (\<forall>f\<in>set names. sha256_text (dict_get o' f) \<and> text_of (dict_get o' f) \<noteq> replicate 64 (CHR ''0''))"
  by (simp add: suite_sha256s_def no_report)

lemma suite_relative_file_nil:
  assumes "suite_relative_file fs here p v True expected = []"
  shows "\<exists>q f. inner_path v = Some q \<and> fs (path_join here q) = Some f \<and> 0 < size_of f \<and>
    (\<forall>sha. expected = Some sha \<longrightarrow> sha_of f = sha)"
proof -
  have str: "is_str v" using assms by (auto simp: suite_relative_file_def suite_string_def suite_placeholder_def Let_def)
  then obtain q where q: "inner_path v = Some q" "q = path_of (text_of v)"
    using assms inner.guard_parses by (fastforce simp: suite_relative_file_def Let_def split: if_splits)
  then have "nonempty_file fs (path_join here q)" "\<forall>sha. expected = Some sha \<longrightarrow> file_sha fs (path_join here q) = sha"
    using assms str by (auto simp: suite_relative_file_def Let_def split: if_splits)
  with q(1) nonempty_file_sha show ?thesis by fastforce
qed

section \<open>Replay\<close>

lemma quit_ack_iff: "quit_ack acked es \<longleftrightarrow> acked \<or> (\<exists>e\<in>set es. acknowledges_quit e)"
  by (induction es arbitrary: acked) (auto simp: acknowledges_quit_def)

text \<open>
  The QMP log of a scenario is accepted exactly when it is a list with an acknowledgement of
  the quit command: a shutdown event alone never suffices, whatever the message for a rejected
  log says, and one after an acknowledgement adds nothing.
\<close>

theorem qmp_log_needs_acknowledgement:
  "qmp_quit_ack_observed v \<longleftrightarrow> (\<exists>es. v = JArr es \<and> (\<exists>e\<in>set es. acknowledges_quit e))"
  by (cases v) (auto simp: qmp_quit_ack_observed_def quit_ack_iff)

lemma first_announced_append:
  "first_announced (ls @ ms) = (case first_announced ls of Some v \<Rightarrow> Some v | None \<Rightarrow> first_announced ms)"
  by (induction ls) (auto split: option.splits)

lemma observed_outcome_known: "observed_outcome_from_serial s = Some v \<Longrightarrow> v \<in> set SUITE_OUTCOMES"
  by (auto simp: observed_outcome_from_serial_def inferred_outcome_def Let_def SUITE_OUTCOMES_def split: option.splits if_splits)

section \<open>Scenarios\<close>

text \<open>
  A log entry of the given role whose file is below the directory of the suite with the recorded
  digest.
\<close>

definition log_file :: "store \<Rightarrow> path \<Rightarrow> logs_by_role \<Rightarrow> string \<Rightarrow> regular_file \<Rightarrow> bool" where
  "log_file fs here logs role f \<longleftrightarrow> (\<exists>entry q. map_of logs role = Some entry \<and> inner_path (dict_get entry ''path'') = Some q \<and>
     fs (path_join here q) = Some f \<and> dict_get entry ''sha256'' = JStr (sha_of f))"

lemma logs_by_role_in:
  "(role, entry) \<in> set (logs_by_role vs) \<longleftrightarrow> JObj entry \<in> set vs \<and> dict_get entry ''role'' = JStr role"
  by (force simp: logs_by_role_def Let_def is_obj_iff is_str_iff)

lemma suite_log_nil:
  assumes "concat (map (suite_log fs here True p) (enumerate 0 vs)) = []" and "map_of (logs_by_role vs) role = Some entry"
  shows "\<exists>f. log_file fs here (logs_by_role vs) role f"
proof -
  have "JObj entry \<in> set vs" using map_of_SomeD [OF assms(2)] by (simp add: logs_by_role_in)
  then obtain i where "i < length vs" "vs ! i = JObj entry" by (auto simp: in_set_conv_nth)
  then have "(i, JObj entry) \<in> set (enumerate 0 vs)" by (simp add: in_set_enumerate_eq)
  then have "suite_log fs here True p (i, JObj entry) = []" using assms(1) by (auto simp: concat_map_nil)
  then have parts: "sha256_text (dict_get entry ''sha256'')"
      "suite_relative_file fs here (p @ ''.logs['' @ nat_str i @ ''].path'') (dict_get entry ''path'') True
         (str_option (dict_get entry ''sha256'')) = []"
    by (simp_all add: suite_log_def Let_def no_report)
  then obtain sha where "dict_get entry ''sha256'' = JStr sha" by (auto simp: sha256_text_iff)
  with suite_relative_file_nil [OF parts(2)] assms(2) show ?thesis by (auto simp: log_file_def str_option_def)
qed

text \<open>
  A scenario that passed: the outcome that it expects, which is the one its contract pins, was
  observed, its serial log replays to that outcome, its QMP log acknowledges the quit command,
  and it states no forbidden source.
\<close>

definition replayed :: "store \<Rightarrow> suite_policy \<Rightarrow> path \<Rightarrow> string \<Rightarrow> obj \<Rightarrow> bool" where
  "replayed fs policy here name scenario \<longleftrightarrow> (\<exists>outcome logs sf qf. dict_get scenario ''status'' = JStr ''passed'' \<and>
     outcome \<in> set SUITE_OUTCOMES \<and>
     dict_get scenario ''expected_outcome'' = JStr outcome \<and> dict_get scenario ''observed_outcome'' = JStr outcome \<and>
     (\<forall>pins o'. map_of (scenario_contracts policy) name = Some pins \<and> dict_get pins ''expected_outcome'' = JStr o' \<longrightarrow> outcome = o') \<and>
     logs = logs_by_role (elems (dict_get scenario ''logs'')) \<and>
     log_file fs here logs ''serial'' sf \<and> observed_outcome_from_serial (text_content sf) = Some outcome \<and>
     log_file fs here logs ''qmp-events'' qf \<and>
     (\<exists>es. json_content qf = Some (JArr es) \<and> (\<exists>e\<in>set es. acknowledges_quit e)))"

lemma suite_replay_nil:
  assumes "suite_replay fs here p logs scenario = []" and "log_file fs here logs ''serial'' sf" and "log_file fs here logs ''qmp-events'' qf"
  shows "(\<exists>o'. observed_outcome_from_serial (text_content sf) = Some o' \<and> dict_get scenario ''observed_outcome'' = JStr o') \<and>
    (\<exists>es. json_content qf = Some (JArr es) \<and> (\<exists>e\<in>set es. acknowledges_quit e))"
proof
  show "\<exists>o'. observed_outcome_from_serial (text_content sf) = Some o' \<and> dict_get scenario ''observed_outcome'' = JStr o'"
    using assms(1,2) by (auto simp: suite_replay_def log_file_def suite_read_text_def relative_file_def split: option.splits)
  have "qmp_quit_ack_observed (case json_content qf of None \<Rightarrow> JNull | Some d \<Rightarrow> d)"
    using assms(1,3) by (auto simp: suite_replay_def log_file_def suite_read_json_def relative_file_def)
  then show "\<exists>es. json_content qf = Some (JArr es) \<and> (\<exists>e\<in>set es. acknowledges_quit e)"
    by (auto simp: qmp_quit_ack_observed_def is_list_iff quit_ack_iff split: option.splits)
qed

definition pins_of :: "suite_policy \<Rightarrow> string \<Rightarrow> obj" where
  "pins_of policy name = (case map_of (scenario_contracts policy) name of Some o' \<Rightarrow> o' | None \<Rightarrow> [])"

definition raw_logs_required :: "suite_policy \<Rightarrow> bool" where
  "raw_logs_required policy \<longleftrightarrow> list_all (\<lambda>(_, pins). {''serial'', ''qmp-events''} \<subseteq> set (required_log_roles pins)) (scenario_contracts policy)"

lemma raw_logs_of_pins: "raw_logs_required policy \<Longrightarrow> {''serial'', ''qmp-events''} \<subseteq> set (required_log_roles (pins_of policy name))"
proof (cases "map_of (scenario_contracts policy) name")
  case None
  then show ?thesis by (simp add: pins_of_def required_log_roles_def REQUIRED_V2_LOG_ROLES_def dict_get_def)
next
  case (Some pins)
  assume "raw_logs_required policy"
  then show ?thesis using map_of_SomeD [OF Some] Some unfolding raw_logs_required_def pins_of_def list_all_iff by force
qed

lemma suite_scenario_nil:
  assumes "suite_scenario fs policy here a True seen n v = Inr []"
    and "suite_check_files a" "suite_require_pass a" "raw_logs_required policy"
  shows "\<exists>scenario name. v = JObj scenario \<and> dict_get scenario ''name'' = JStr name \<and> name \<notin> set seen \<and>
    replayed fs policy here name scenario"
proof -
  obtain scenario where v: "v = JObj scenario" using assms(1) by (cases v) (auto simp: suite_scenario_def)
  let ?p = "''$.scenarios['' @ nat_str n @ '']''" and ?logs = "logs_by_role (elems (dict_get scenario ''logs''))"
  have parts: "\<not> suite_placeholder (dict_get scenario ''name'')"
      "is_str (dict_get scenario ''name'') \<longrightarrow> text_of (dict_get scenario ''name'') \<notin> set seen"
      "suite_status ?p scenario True True = Inr []" "suite_logs fs policy here True True ?p scenario = Inr []"
    using assms(1-3) v by (simp_all add: suite_scenario_def Let_def collectE_nil no_report del: collectE.simps)
  then obtain name where name: "dict_get scenario ''name'' = JStr name" "name \<notin> set seen"
    by (auto simp: suite_placeholder_def is_str_iff)
  have logs: "concat (map (suite_log fs here True ?p) (enumerate 0 (elems (dict_get scenario ''logs'')))) = []"
      "validate_scenario_v2 fs policy here ?p scenario (JStr name) ?logs True (pins_of policy name) = Inr []"
    using parts(4) name(1)
    by (auto simp: suite_logs_def Let_def collectE_nil pins_of_def simp del: collectE.simps split: if_splits)
  have scenario: "sorted_set (minus_list (required_log_roles (pins_of policy name)) (map fst ?logs)) = []"
      "suite_replay fs here ?p ?logs scenario = []"
      "\<not> off_contract (dict_get (pins_of policy name) ''expected_outcome'') (dict_get scenario ''expected_outcome'')"
    using logs(2) by (simp_all add: validate_scenario_v2_def Let_def collectE_nil del: collectE.simps)
  have roles: "{''serial'', ''qmp-events''} \<subseteq> fst ` set ?logs"
    using scenario(1) raw_logs_of_pins [OF assms(4)] by simp blast
  have files_of: "\<exists>f. log_file fs here ?logs role f" if role: "role \<in> {''serial'', ''qmp-events''}" for role
  proof -
    have "role \<in> fst ` set ?logs" using roles role by blast
    then obtain entry where "map_of ?logs role = Some entry" by (metis map_of_eq_None_iff not_None_eq)
    with suite_log_nil [OF logs(1)] show ?thesis by blast
  qed
  then obtain sf qf where files: "log_file fs here ?logs ''serial'' sf" "log_file fs here ?logs ''qmp-events'' qf"
    using files_of by blast
  obtain outcome where outcome: "observed_outcome_from_serial (text_content sf) = Some outcome"
      "dict_get scenario ''observed_outcome'' = JStr outcome"
      "\<exists>es. json_content qf = Some (JArr es) \<and> (\<exists>e\<in>set es. acknowledges_quit e)"
    using suite_replay_nil [OF scenario(2) files] by blast
  have status: "dict_get scenario ''status'' = JStr ''passed''" "dict_get scenario ''expected_outcome'' = JStr outcome"
    using parts(3) outcome(2) by (auto simp: suite_status_def Let_def bindE_ok)
  have pin: "outcome = o'" if "map_of (scenario_contracts policy) name = Some pins" "dict_get pins ''expected_outcome'' = JStr o'" for pins o'
    using scenario(3) that status(2) by (simp add: off_contract_def pins_of_def)
  show ?thesis
    using v name outcome status pin files observed_outcome_known [OF outcome(1)] by (simp add: replayed_def) blast
qed

lemma suite_scenarios_nil:
  assumes "suite_scenarios_loop fs policy here a True seen n vs = Inr []"
    and "suite_check_files a" "suite_require_pass a" "raw_logs_required policy"
  shows "distinct (names_in ''name'' vs) \<and> set (names_in ''name'' vs) \<inter> set seen = {} \<and>
    (\<forall>v\<in>set vs. \<exists>scenario name. v = JObj scenario \<and> dict_get scenario ''name'' = JStr name \<and> replayed fs policy here name scenario)"
  using assms(1)
proof (induction vs arbitrary: seen n)
  case (Cons v vs)
  have head: "suite_scenario fs policy here a True seen n v = Inr []"
    and rest: "suite_scenarios_loop fs policy here a True (names_in ''name'' [v] @ seen) (Suc n) vs = Inr []"
    using Cons.prems by (simp_all add: collectE_nil del: collectE.simps)
  obtain scenario name where v: "v = JObj scenario" "dict_get scenario ''name'' = JStr name" "name \<notin> set seen"
      "replayed fs policy here name scenario"
    using suite_scenario_nil [OF head assms(2-4)] by blast
  have "names_in ''name'' [v] = [name]" "names_in ''name'' (v # vs) = name # names_in ''name'' vs"
    using v(1,2) by (simp_all add: names_in_def)
  with Cons.IH [OF rest] v show ?case by auto
qed (simp add: names_in_def)

section \<open>Accepted suites\<close>

text \<open>
  C7. A suite that passes a production profile with its files checked, under contracts that ask
  for the serial and the QMP log, has exactly the required scenarios, each once; every one of
  them observed the outcome that its contract pins, its serial log replays to that outcome, and
  its QMP log acknowledges the quit command; and the suite carries the canonical subject id of
  its version, target, commit and run.
\<close>

theorem suite_accepted:
  assumes "validate_suite fs policy p a = Inr []" and "suite_check_files a" and "suite_require_pass a"
    and "suite_profile a \<in> set V2_REQUIRED_PROFILES" and "raw_logs_required policy"
  shows "\<exists>payload vs version target sha r subject. load_doc fs p = Loaded (JObj payload) \<and>
    dict_get payload ''scenarios'' = JArr vs \<and> distinct (names_in ''name'' vs) \<and>
    set (names_in ''name'' vs) = set (suite_scenarios policy) \<and>
    (\<forall>v\<in>set vs. \<exists>scenario name. v = JObj scenario \<and> dict_get scenario ''name'' = JStr name \<and>
       replayed fs policy (path_parent p) name scenario) \<and>
    dict_get payload ''version'' = JStr version \<and> dict_get payload ''target'' = JStr target \<and>
    dict_get payload ''source_sha'' = JStr sha \<and> dict_get payload ''source_run_id'' = JStr r \<and>
    release_subject_id version target sha r (suite_contract policy) = Inr subject \<and>
    dict_get payload ''subject_id'' = JStr subject"
proof -
  obtain payload where doc: "load_doc fs p = Loaded (JObj payload)" "suite_payload fs policy (path_parent p) a payload = Inr []"
    using assms(1) by (auto simp: validate_suite_def is_obj_iff split: loaded.splits if_splits)
  let ?v = "dict_get payload ''scenarios''"
  have "suite_header policy a payload = Inr []"
    using doc(2) by (simp add: suite_payload_def Let_def collectE_nil del: collectE.simps)
  then have header: "dict_get payload ''schema_version'' = JStr (suite_schema policy)"
      "\<not> suite_placeholder (dict_get payload ''version'')" "\<not> suite_placeholder (dict_get payload ''target'')"
      "commit_text (dict_get payload ''source_sha'')"
    using assms(4) by (auto simp: suite_header_def Let_def bindE_ok no_report split: if_splits)
  have parts: "suite_binding policy a payload = Inr []" "is_list ?v"
      "suite_scenarios_loop fs policy (path_parent p) a True [] 0 (elems ?v) = Inr []"
      "set (suite_scenarios policy) \<subseteq> set (names_in ''name'' (elems ?v))"
      "set (names_in ''name'' (elems ?v)) \<subseteq> set (suite_scenarios policy)"
    using doc(2) header(1) by (simp_all add: suite_payload_def Let_def collectE_nil del: collectE.simps)
  have binding: "\<not> suite_placeholder (dict_get payload ''source_run_id'')" "suite_subject policy payload = Inr []"
    using parts(1) by (simp_all add: suite_binding_def validate_top_level_v2_def collectE_nil no_report del: collectE.simps)
  obtain version target sha r where ids: "dict_get payload ''version'' = JStr version" "dict_get payload ''target'' = JStr target"
      "dict_get payload ''source_sha'' = JStr sha" "dict_get payload ''source_run_id'' = JStr r"
    using header(2-4) binding(1) by (auto simp: suite_placeholder_def is_str_iff commit_text_iff)
  obtain subject where subject: "release_subject_id version target sha r (suite_contract policy) = Inr subject"
      "dict_get payload ''subject_id'' = JStr subject"
    using binding(2) ids by (auto simp: suite_subject_def bindE_ok from_checked_def split: sum.splits)
  obtain vs where vs: "?v = JArr vs" using parts(2) by (auto simp: is_list_iff)
  have "distinct (names_in ''name'' vs)" "\<forall>v\<in>set vs. \<exists>scenario name. v = JObj scenario \<and> dict_get scenario ''name'' = JStr name \<and>
      replayed fs policy (path_parent p) name scenario"
    using suite_scenarios_nil [OF parts(3) assms(2,3,5)] vs by simp_all
  with doc(1) vs parts(4,5) ids subject show ?thesis
    by (intro exI [of _ payload] exI [of _ vs] exI [of _ version] exI [of _ target] exI [of _ sha] exI [of _ r] exI [of _ subject]) simp
qed

text \<open>
  The checks that start from an object are skipped for an empty one: a scenario whose
  observation, termination, TPM state, raw evidence or guest facts are \<open>{}\<close> passes them all.
\<close>

theorem empty_objects_unchecked:
  "validate_observation_v2 policy p (dict_set scenario ''observation'' (JObj [])) name pins = Inr [] \<and>
   suite_termination p (JObj []) = [] \<and> suite_swtpm p name (JObj []) = [] \<and> suite_raw_evidence p logs (JObj []) = [] \<and>
   validate_guest_facts_v2 p name (JObj []) = []"
  by (simp add: validate_observation_v2_def suite_termination_def suite_swtpm_def suite_raw_evidence_def
      validate_guest_facts_v2_def suite_members_def suite_object_def dict_get_def map_of_dict_set)

end
