(* ===== verification/RuntimeHarness.thy ===== *)
theory RuntimeHarness
  imports RuntimeSuite "HOL-Library.Stream"
begin

text \<open>
  \<open>tests/qemu/production-runtime-scenario.py\<close>: the harness that boots an image in QEMU, classifies
  what it observed and writes the evidence that the suite validator reads. What the harness reads
  from outside, the answers of the QMP socket, the clock, the serial log and the state of the
  process, are streams, so that a loop that need not end is a partial function: \<open>None\<close> is a run
  that never returns. \<open>json.loads\<close> on the bytes of a line is an argument.
\<close>

section \<open>The QMP socket\<close>

text \<open>One \<open>recv(1)\<close>: a byte, a timeout, or the empty result of a closed connection.\<close>

datatype recv = Byte char | Timeout | Closed

partial_function (option) read_loop :: "string \<Rightarrow> recv stream \<Rightarrow> (string option \<times> recv stream) option" where
  "read_loop buffer s = (case shd s of
       Byte c \<Rightarrow> if c = CHR 0x0A then Some (Some buffer, stl s) else read_loop (buffer @ [c]) (stl s)
     | Timeout \<Rightarrow> Some (None, stl s)
     | Closed \<Rightarrow> Some (None, stl s))"

type_synonym line_parser = "string \<Rightarrow> json option"

definition line_object :: "line_parser \<Rightarrow> string option \<Rightarrow> obj option" where
  "line_object loads line = (case line of None \<Rightarrow> None
     | Some t \<Rightarrow> if t = [] then None else (case loads t of Some (JObj o') \<Rightarrow> Some o' | _ \<Rightarrow> None))"

definition qmp_read_line :: "line_parser \<Rightarrow> recv stream \<Rightarrow> (obj option \<times> recv stream) option" where
  "qmp_read_line loads s = Option.bind (read_loop [] s) (\<lambda>(line, s'). Some (line_object loads line, s'))"

partial_function (option) drain_loop :: "line_parser \<Rightarrow> recv stream \<Rightarrow> obj list \<Rightarrow> (obj list \<times> recv stream) option" where
  "drain_loop loads s events = Option.bind (qmp_read_line loads s) (\<lambda>(event, s').
     case event of None \<Rightarrow> Some (events, s') | Some e \<Rightarrow> drain_loop loads s' (events @ [e]))"

definition qmp_drain :: "line_parser \<Rightarrow> recv stream option \<Rightarrow> obj list \<Rightarrow> (obj list \<times> recv stream option) option" where
  "qmp_drain loads sock events = (case sock of None \<Rightarrow> Some (events, None)
     | Some s \<Rightarrow> Option.bind (drain_loop loads s events) (\<lambda>(es, s'). Some (es, Some s')))"

text \<open>
  An attempt to connect: the clock before it, and, unless connecting fails with an \<open>OSError\<close>, the
  socket and whether the command \<open>qmp_capabilities\<close> can be sent. A \<open>recv\<close> that fails with an
  \<open>OSError\<close> other than a timeout is not modelled.
\<close>

type_synonym attempt = "int \<times> (recv stream \<times> bool) option"

definition opt_list :: "'a option \<Rightarrow> 'a list" where
  "opt_list v = (case v of None \<Rightarrow> [] | Some x \<Rightarrow> [x])"

partial_function (option) qmp_connect ::
  "line_parser \<Rightarrow> int \<Rightarrow> attempt stream \<Rightarrow> obj list \<Rightarrow> (recv stream option \<times> obj list) option" where
  "qmp_connect loads deadline attempts events = (if \<not> fst (shd attempts) < deadline then Some (None, events)
     else case snd (shd attempts) of None \<Rightarrow> qmp_connect loads deadline (stl attempts) events
     | Some (s, sends) \<Rightarrow> Option.bind (qmp_read_line loads s) (\<lambda>(greeting, s').
         if \<not> sends then qmp_connect loads deadline (stl attempts) (events @ opt_list greeting)
         else Option.bind (qmp_read_line loads s') (\<lambda>(response, s'').
           Some (Some s'', events @ opt_list greeting @ opt_list response))))"

definition QUIT_ID :: string where
  "QUIT_ID = ''suderra-production-runtime-quit''"

definition harness_quit_ack :: "obj list \<Rightarrow> nat \<Rightarrow> bool" where
  "harness_quit_ack events start = list_ex (\<lambda>e. dict_get e ''event'' = JStr ''SHUTDOWN'' \<or>
     (dict_get e ''id'' = JStr QUIT_ID \<and> dict_has e ''return'')) (drop start events)"

section \<open>Classification\<close>

definition HARNESS_PREFIXES :: "string list" where
  "HARNESS_PREFIXES = [''SUDERRA_PRODUCTION_RUNTIME_OUTCOME='', ''observed_outcome='']"

definition HARNESS_OUTCOMES :: "string list" where
  "HARNESS_OUTCOMES = [''booted'', ''firmware-rejected'', ''kernel-rejected'', ''userspace-rejected'', ''rollback-completed'']"

definition OUTCOME_LAYERS :: "(string \<times> string) list" where
  "OUTCOME_LAYERS = [(''booted'', ''runtime''), (''firmware-rejected'', ''firmware''), (''kernel-rejected'', ''kernel''),
     (''userspace-rejected'', ''userspace''), (''rollback-completed'', ''userspace'')]"

definition SCENARIO_OBSERVED_LAYERS :: "(string \<times> string) list" where
  "SCENARIO_OBSERVED_LAYERS = [(''anti-rollback-downgrade-rejection'', ''userspace''), (''cmdline-tamper-rejection'', ''kernel''),
     (''data-luks-swtpm'', ''storage''), (''dm-verity-rootfs-tamper-rejection'', ''kernel''),
     (''rauc-bad-signature-rejection'', ''userspace''), (''rauc-good-update'', ''userspace''),
     (''rauc-health-rollback'', ''userspace''), (''signed-boot'', ''runtime''), (''unsigned-boot-rejection'', ''firmware'')]"

text \<open>\<open>s.find(p)\<close>, as the text before and after the first occurrence.\<close>

fun split_at :: "string \<Rightarrow> string \<Rightarrow> (string \<times> string) option" where
  "split_at p [] = (if p = [] then Some ([], []) else None)"
| "split_at p (c # s) = (if starts_with (c # s) p then Some ([], drop (length p) (c # s))
     else map_option (\<lambda>(a, b). (c # a, b)) (split_at p s))"

definition parse_semantic :: "line_parser \<Rightarrow> string \<Rightarrow> obj" where
  "parse_semantic loads serial = (case Option.bind (split_at SEMANTIC_BEGIN serial) (\<lambda>(_, rest). split_at SEMANTIC_END rest) of
       None \<Rightarrow> []
     | Some (raw, _) \<Rightarrow> (case loads (strip raw) of Some (JObj o') \<Rightarrow> o' | _ \<Rightarrow> []))"

text \<open>The outcome that a line of the serial log announces, with the prefix as signal.\<close>

definition line_marker :: "string \<Rightarrow> (string \<times> string) option" where
  "line_marker line = (let t = strip line in
     map_option (\<lambda>p. (strip (drop (length p) t), rev (dropWhile (\<lambda>c. c = CHR ''='') (rev p))))
       (find (\<lambda>p. starts_with t p \<and> strip (drop (length p) t) \<in> set HARNESS_OUTCOMES) HARNESS_PREFIXES))"

fun first_marker :: "string list \<Rightarrow> (string \<times> string) option" where
  "first_marker [] = None"
| "first_marker (l # ls) = (case line_marker l of Some m \<Rightarrow> Some m | None \<Rightarrow> first_marker ls)"

text \<open>Outcome, source and signal.\<close>

definition classified :: "string \<Rightarrow> obj \<Rightarrow> int option \<Rightarrow> string \<times> string \<times> string" where
  "classified serial semantic returncode = (let l = lower serial in
     case first_marker (splitlines serial) of Some (v, signal) \<Rightarrow> (v, ''serial-marker'', signal)
     | None \<Rightarrow>
       if any_in l [''rollback-completed'', ''rollback completed''] then (''rollback-completed'', ''suderra-ota-event'', ''rollback-completed'')
       else if any_in l [''security violation'', ''access denied''] \<or> (contains l ''secure boot'' \<and> contains l ''denied'')
         then (''firmware-rejected'', ''secure-boot-event'', ''secure-boot-denied'')
       else if contains l ''dm-verity'' \<and> any_in l [''corrupt'', ''verification failed'', ''root hash'']
         then (''kernel-rejected'', ''kernel-verity-event'', ''dm-verity-rejection'')
       else if contains l ''rauc'' \<and> any_in l [''signature'', ''downgrade'', ''rollback floor'', ''rejected'']
         then (''userspace-rejected'', ''suderra-ota-event'', ''rauc-rejection'')
       else if semantic \<noteq> [] then (''booted'', ''guest-semantic'', ''semantic-json'')
       else if returncode = Some 0 then (''booted'', ''qmp-events'', ''zero-exit'')
       else (''userspace-rejected'', ''qmp-events'', ''nonzero-exit-or-no-semantic''))"

definition classify_observation :: "string \<Rightarrow> string \<Rightarrow> obj \<Rightarrow> int option \<Rightarrow> obj" where
  "classify_observation scenario serial semantic returncode = (let (outcome, source, signal) = classified serial semantic returncode in
     [(''schema_version'', JStr ''suderra.runtime-observation.v1''), (''producer'', JStr ''tests/qemu/production-runtime-scenario.py''),
      (''scenario'', JStr scenario), (''source'', JStr source), (''observed_outcome'', JStr outcome),
      (''observed_layer'', JStr (case map_of SCENARIO_OBSERVED_LAYERS scenario of Some l \<Rightarrow> l
         | None \<Rightarrow> (case map_of OUTCOME_LAYERS outcome of Some l \<Rightarrow> l | None \<Rightarrow> []))), (''signal'', JStr signal)])"

definition harness_outcome :: "string \<Rightarrow> obj \<Rightarrow> int option \<Rightarrow> string" where
  "harness_outcome serial semantic returncode = fst (classified serial semantic returncode)"

section \<open>The loops of a run\<close>

text \<open>What one turn of the measuring loop sees: the clock, the serial log, two polls of the process.\<close>

record tick =
  t_now :: int
  t_serial :: string
  t_poll :: "int option"
  t_exited :: "int option"

text \<open>The result says whether the deadline passed first (the \<open>else\<close> of the loop).\<close>

partial_function (option) measure_loop ::
  "line_parser \<Rightarrow> string \<Rightarrow> int \<Rightarrow> tick stream \<Rightarrow> recv stream option \<Rightarrow> obj list \<Rightarrow> (bool \<times> recv stream option \<times> obj list) option" where
  "measure_loop loads expected deadline ticks sock events = (if \<not> t_now (shd ticks) < deadline then Some (True, sock, events)
     else Option.bind (qmp_drain loads sock events) (\<lambda>(events', sock').
       let semantic = parse_semantic loads (t_serial (shd ticks));
         outcome = harness_outcome (t_serial (shd ticks)) semantic (t_poll (shd ticks)) in
       if outcome = expected \<and> (outcome \<noteq> ''booted'' \<or> semantic \<noteq> []) \<or> t_exited (shd ticks) \<noteq> None then Some (False, sock', events')
       else measure_loop loads expected deadline (stl ticks) sock' events'))"

text \<open>The loop after the quit command: drain, look for the acknowledgement, until the grace time is over.\<close>

partial_function (option) quit_loop ::
  "line_parser \<Rightarrow> int \<Rightarrow> int stream \<Rightarrow> nat \<Rightarrow> recv stream option \<Rightarrow> obj list \<Rightarrow> (bool \<times> obj list) option" where
  "quit_loop loads deadline clock start sock events = (if \<not> shd clock < deadline then Some (False, events)
     else Option.bind (qmp_drain loads sock events) (\<lambda>(events', sock').
       if harness_quit_ack events' start then Some (True, events')
       else quit_loop loads deadline (stl clock) start sock' events'))"

section \<open>A run\<close>

record harness_world =
  w_attempts :: "attempt stream"
  w_connect_deadline :: int
  w_ticks :: "tick stream"
  w_deadline :: int
  w_quit_sends :: bool
  w_quit_clock :: "int stream"
  w_quit_deadline :: int
  w_exited_in_time :: bool
  w_returncode :: int
  w_serial :: string
  w_mutation :: bool

record harness_result =
  hr_status :: string
  hr_observation :: obj
  hr_class :: string
  hr_timeout :: bool
  hr_quit_sent :: bool
  hr_quit_ack :: bool
  hr_acceptable :: bool
  hr_events :: "obj list"
  hr_facts :: obj

text \<open>After the loops: the process is awaited and the result written; \<open>w_mutation\<close> says that a mutated artifact was there.\<close>

definition harness_report ::
  "line_parser \<Rightarrow> string \<Rightarrow> string \<Rightarrow> harness_world \<Rightarrow> bool \<Rightarrow> bool \<Rightarrow> bool \<Rightarrow> obj list \<Rightarrow> harness_result" where
  "harness_report loads scenario expected w timed_out sent acked events = (let
       timeout = timed_out \<or> \<not> w_exited_in_time w;
       acceptable = \<not> timeout \<and> sent \<and> acked;
       semantic = parse_semantic loads (w_serial w);
       outcome = harness_outcome (w_serial w) semantic (Some (w_returncode w));
       unmutated = scenario \<noteq> ''signed-boot'' \<and> \<not> w_mutation w in
     \<lparr>hr_status = (if \<not> unmutated \<and> outcome = expected \<and> acceptable then ''passed'' else ''failed''),
      hr_observation = classify_observation scenario (w_serial w) semantic (Some (w_returncode w)),
      hr_class = (if unmutated then ''operator-error'' else if \<not> w_exited_in_time w then ''timeout''
        else if sent then ''qmp-quit'' else ''process-exit''),
      hr_timeout = timeout, hr_quit_sent = sent, hr_quit_ack = acked, hr_acceptable = acceptable,
      hr_events = events, hr_facts = semantic\<rparr>)"

definition run_scenario :: "line_parser \<Rightarrow> string \<Rightarrow> string \<Rightarrow> harness_world \<Rightarrow> harness_result option" where
  "run_scenario loads scenario expected w =
     Option.bind (qmp_connect loads (w_connect_deadline w) (w_attempts w) []) (\<lambda>(sock, events).
     Option.bind (measure_loop loads expected (w_deadline w) (w_ticks w) sock events) (\<lambda>(timed_out, sock, events).
     Option.bind (qmp_drain loads sock events) (\<lambda>(events, sock). let sent = (sock \<noteq> None \<and> w_quit_sends w) in
     Option.bind (if sent then quit_loop loads (w_quit_deadline w) (w_quit_clock w) (length events) sock events
         else Some (False, events)) (\<lambda>(acked, events).
       Some (harness_report loads scenario expected w timed_out sent acked events)))))"

end
