(* ===== verification/RuntimeHarnessProps.thy ===== *)
theory RuntimeHarnessProps
  imports RuntimeHarness RuntimeProps
begin

text \<open>
  The runtime harness: when a run returns, that an answer to the quit command is seen, and that
  the suite validator replays what a passed run recorded.
\<close>

section \<open>Returning\<close>

definition pause :: "recv \<Rightarrow> bool" where
  "pause r \<longleftrightarrow> r = Timeout \<or> r = Closed"

text \<open>A socket on which the peer pauses again and again.\<close>

definition pausing :: "recv stream \<Rightarrow> bool" where
  "pausing s \<longleftrightarrow> (\<forall>n. \<exists>k\<ge>n. pause (s !! k))"

lemma pausing_sdrop: "pausing s \<Longrightarrow> pausing (sdrop n s)"
  unfolding pausing_def sdrop_snth
proof
  fix m assume "\<forall>n. \<exists>k\<ge>n. pause (s !! k)"
  then obtain k where "n + m \<le> k" "pause (s !! k)" by blast
  then show "\<exists>k\<ge>m. pause (s !! (n + k))" by (intro exI [of _ "k - n"]) auto
qed

text \<open>A read that starts before a pause returns: with a line before the pause, or at it.\<close>

lemma read_loop_returns:
  "pause (s !! k) \<Longrightarrow> \<exists>line n. read_loop buffer s = Some (line, sdrop n s) \<and> 0 < n \<and> (line \<noteq> None \<longrightarrow> n \<le> k)"
proof (induction k arbitrary: s buffer)
  case 0
  then have "read_loop buffer s = Some (None, sdrop 1 s)"
    by (subst read_loop.simps) (auto simp: pause_def split: recv.split)
  then show ?case by blast
next
  case (Suc k)
  show ?case
  proof (cases "shd s")
    case (Byte c)
    show ?thesis
    proof (cases "c = CHR 0x0A")
      case True
      then have "read_loop buffer s = Some (Some buffer, sdrop 1 s)" using Byte by (subst read_loop.simps) simp
      then show ?thesis by (intro exI [of _ "Some buffer"] exI [of _ 1]) simp
    next
      case False
      obtain line n where "read_loop (buffer @ [c]) (stl s) = Some (line, sdrop n (stl s))" "0 < n" "line \<noteq> None \<longrightarrow> n \<le> k"
        using Suc.IH [of "stl s" "buffer @ [c]"] Suc.prems by auto
      moreover have "read_loop buffer s = read_loop (buffer @ [c]) (stl s)"
        using Byte False by (subst read_loop.simps) simp
      ultimately show ?thesis by (intro exI [of _ line] exI [of _ "Suc n"]) auto
    qed
  qed (subst read_loop.simps, intro exI [of _ None] exI [of _ 1], simp)+
qed

lemma qmp_read_line_returns:
  assumes "pause (s !! k)"
  obtains event n where "qmp_read_line loads s = Some (event, sdrop n s)" "0 < n" "event \<noteq> None \<longrightarrow> n \<le> k"
proof -
  obtain line n where "read_loop [] s = Some (line, sdrop n s)" "0 < n" "line \<noteq> None \<longrightarrow> n \<le> k"
    using read_loop_returns [OF assms] by blast
  then show thesis using that [of "line_object loads line" n]
    by (auto simp: qmp_read_line_def line_object_def split: option.splits)
qed

lemma drain_loop_returns: "pause (s !! k) \<Longrightarrow> \<exists>es n. drain_loop loads s events = Some (es, sdrop n s)"
proof (induction k arbitrary: s events rule: less_induct)
  case (less k)
  obtain event n where read: "qmp_read_line loads s = Some (event, sdrop n s)" "0 < n" "event \<noteq> None \<longrightarrow> n \<le> k"
    by (rule qmp_read_line_returns [OF less.prems])
  show ?case
  proof (cases event)
    case None
    then show ?thesis using read(1) by (subst drain_loop.simps) auto
  next
    case (Some e)
    then have n: "n \<le> k" using read(3) by simp
    then have "pause (sdrop n s !! (k - n))" using less.prems by (simp add: sdrop_snth)
    then obtain es m where "drain_loop loads (sdrop n s) (events @ [e]) = Some (es, sdrop m (sdrop n s))"
      using less.IH [of "k - n" "sdrop n s" "events @ [e]"] n read(2) by force
    then have "drain_loop loads s events = Some (es, sdrop (n + m) s)"
      using read(1) Some by (subst drain_loop.simps) (simp add: sdrop_add)
    then show ?thesis by blast
  qed
qed

definition pausing_socket :: "recv stream option \<Rightarrow> bool" where
  "pausing_socket sock \<longleftrightarrow> (case sock of None \<Rightarrow> True | Some s \<Rightarrow> pausing s)"

lemma qmp_drain_returns:
  assumes "pausing_socket sock"
  obtains es sock' where "qmp_drain loads sock events = Some (es, sock')" "pausing_socket sock'" "sock' = None \<longleftrightarrow> sock = None"
proof (cases sock)
  case None
  then show thesis using that by (simp add: qmp_drain_def pausing_socket_def)
next
  case (Some s)
  then have s: "pausing s" using assms by (simp add: pausing_socket_def)
  then obtain k where "pause (s !! k)" by (auto simp: pausing_def)
  then obtain es n where "drain_loop loads s events = Some (es, sdrop n s)" using drain_loop_returns by blast
  then show thesis using that Some pausing_sdrop [OF s] by (simp add: qmp_drain_def pausing_socket_def)
qed

lemma measure_loop_returns:
  "pausing_socket sock \<Longrightarrow> deadline \<le> t_now (ticks !! n) \<Longrightarrow>
     \<exists>r sock' es. measure_loop loads expected deadline ticks sock events = Some (r, sock', es) \<and> pausing_socket sock'"
proof (induction n arbitrary: ticks sock events)
  case 0
  then show ?case by (subst measure_loop.simps) auto
next
  case (Suc n)
  obtain es sock' where drain: "qmp_drain loads sock events = Some (es, sock')" "pausing_socket sock'"
    using qmp_drain_returns [OF Suc.prems(1)] by metis
  then show ?case
    using Suc.prems Suc.IH [of sock' "stl ticks" es] by (subst measure_loop.simps) (auto simp: Let_def)
qed

lemma quit_loop_returns:
  "pausing_socket sock \<Longrightarrow> deadline \<le> clock !! n \<Longrightarrow> \<exists>r es. quit_loop loads deadline clock start sock events = Some (r, es)"
proof (induction n arbitrary: clock sock events)
  case 0
  then show ?case by (subst quit_loop.simps) auto
next
  case (Suc n)
  obtain es sock' where drain: "qmp_drain loads sock events = Some (es, sock')" "pausing_socket sock'"
    using qmp_drain_returns [OF Suc.prems(1)] by metis
  then show ?case
    using Suc.prems Suc.IH [of sock' "stl clock" es] by (subst quit_loop.simps) auto
qed

definition pausing_attempt :: "attempt \<Rightarrow> bool" where
  "pausing_attempt a \<longleftrightarrow> pausing_socket (map_option fst (snd a))"

lemma qmp_connect_returns:
  "deadline \<le> fst (attempts !! n) \<Longrightarrow> stream_all pausing_attempt attempts \<Longrightarrow>
     \<exists>sock es. qmp_connect loads deadline attempts events = Some (sock, es) \<and> pausing_socket sock"
proof (induction n arbitrary: attempts events)
  case 0
  then show ?case by (subst qmp_connect.simps) (auto simp: pausing_socket_def)
next
  case (Suc n)
  have later: "\<exists>sock es. qmp_connect loads deadline (stl attempts) events = Some (sock, es) \<and> pausing_socket sock" for events
    using Suc.prems(1,2) by (intro Suc.IH) (auto simp: stream.pred_set intro: stream.set_sel(2))
  show ?case
  proof (cases "snd (shd attempts)")
    case None
    then show ?thesis using later by (subst qmp_connect.simps) (auto simp: pausing_socket_def)
  next
    case (Some a)
    obtain s sends where a: "a = (s, sends)" by (cases a)
    have "pausing_attempt (shd attempts)" using Suc.prems(2) stream.set_sel(1) by (auto simp: stream.pred_set)
    then have s: "pausing s" using Some a by (simp add: pausing_attempt_def pausing_socket_def)
    obtain k where "pause (s !! k)" using s by (auto simp: pausing_def)
    then obtain e n1 where r1: "qmp_read_line loads s = Some (e, sdrop n1 s)" by (rule qmp_read_line_returns)
    obtain k' where "pause (sdrop n1 s !! k')" using pausing_sdrop [OF s] by (auto simp: pausing_def)
    then obtain e' n2 where r2: "qmp_read_line loads (sdrop n1 s) = Some (e', sdrop n2 (sdrop n1 s))"
      by (rule qmp_read_line_returns)
    show ?thesis
      using Some a r1 r2 later pausing_sdrop [OF pausing_sdrop [OF s]]
      by (subst qmp_connect.simps) (auto simp: pausing_socket_def)
  qed
qed

text \<open>
  C24. A run of the harness returns: if the clock passes the three deadlines, of connecting, of
  measuring and of quitting, and the QMP peer pauses again and again, every loop ends and the run
  has a result.
\<close>

theorem run_returns:
  assumes "w_connect_deadline w \<le> fst (w_attempts w !! i)" and "w_deadline w \<le> t_now (w_ticks w !! j)"
    and "w_quit_deadline w \<le> w_quit_clock w !! k" and "stream_all pausing_attempt (w_attempts w)"
  shows "\<exists>r. run_scenario loads scenario expected w = Some r"
proof -
  obtain sock es where connect: "qmp_connect loads (w_connect_deadline w) (w_attempts w) [] = Some (sock, es)" "pausing_socket sock"
    using qmp_connect_returns assms(1,4) by blast
  obtain timed_out sock1 es1 where measure: "measure_loop loads expected (w_deadline w) (w_ticks w) sock es = Some (timed_out, sock1, es1)"
    "pausing_socket sock1" using measure_loop_returns [OF connect(2) assms(2)] by blast
  obtain es2 sock2 where drain: "qmp_drain loads sock1 es1 = Some (es2, sock2)" "pausing_socket sock2"
    using qmp_drain_returns [OF measure(2)] by metis
  obtain acked es3 where quit: "quit_loop loads (w_quit_deadline w) (w_quit_clock w) (length es2) sock2 es2 = Some (acked, es3)"
    using quit_loop_returns [OF drain(2) assms(3)] by blast
  show ?thesis using connect(1) measure(1) drain(1) quit by (simp add: run_scenario_def Let_def)
qed

section \<open>A peer that never pauses\<close>

definition line_bytes :: "string \<Rightarrow> recv list" where
  "line_bytes t = map Byte (t @ [CHR 0x0A])"

text \<open>A line that the parser reads as an object.\<close>

definition object_line :: "line_parser \<Rightarrow> obj \<Rightarrow> string \<Rightarrow> bool" where
  "object_line loads e t \<longleftrightarrow> t \<noteq> [] \<and> CHR 0x0A \<notin> set t \<and> loads t = Some (JObj e)"

lemma read_loop_line: "CHR 0x0A \<notin> set t \<Longrightarrow> read_loop buffer (line_bytes t @- s) = Some (Some (buffer @ t), s)"
proof (induction t arbitrary: buffer)
  case Nil
  then show ?case by (subst read_loop.simps) (simp add: line_bytes_def)
next
  case (Cons c t)
  then have "c \<noteq> CHR 0x0A" by auto
  then show ?case using Cons by (subst read_loop.simps) (simp add: line_bytes_def)
qed

lemma qmp_read_line_object: "object_line loads e t \<Longrightarrow> qmp_read_line loads (line_bytes t @- s) = Some (Some e, s)"
  by (simp add: qmp_read_line_def read_loop_line object_line_def line_object_def)

lemma drain_lines:
  "list_all2 (object_line loads) es ts \<Longrightarrow>
     drain_loop loads (concat (map line_bytes ts) @- s) events = drain_loop loads s (events @ es)"
proof (induction es ts arbitrary: events rule: list_all2_induct)
  case (Cons e es t ts)
  have "drain_loop loads (line_bytes t @- (concat (map line_bytes ts) @- s)) events =
      drain_loop loads (concat (map line_bytes ts) @- s) (events @ [e])"
    using qmp_read_line_object [OF Cons.hyps(1)] by (subst drain_loop.simps) simp
  then show ?case using Cons.IH [of "events @ [e]"] by simp
qed simp

text \<open>
  The deadlines are only looked at between drains: a peer that keeps sending objects keeps the
  harness in one drain for ever.
\<close>

lemma flood_never_returns:
  assumes line: "object_line loads e t"
  shows "drain_loop loads (cycle (line_bytes t)) events = None"
proof (rule ccontr)
  let ?s = "cycle (line_bytes t)"
  have s: "?s = line_bytes t @- ?s" by (rule cycle_decomp) (simp add: line_bytes_def)
  have read: "qmp_read_line loads ?s = Some (Some e, ?s)"
    using qmp_read_line_object [OF line, of ?s] s by simp
  assume "drain_loop loads ?s events \<noteq> None"
  then obtain r where r: "drain_loop loads ?s events = Some r" by blast
  have "?s \<noteq> ?s"
  proof (rule drain_loop.raw_induct [where P = "\<lambda>l x y z. l = loads \<longrightarrow> x \<noteq> ?s", OF _ r, THEN mp])
    fix f l x y z
    assume IH: "\<And>l x y z. f l x y = Some z \<Longrightarrow> l = loads \<longrightarrow> x \<noteq> ?s"
      and eq: "Option.bind (qmp_read_line l x) (\<lambda>(event, s'). case event of None \<Rightarrow> Some (y, s') | Some e \<Rightarrow> f l s' (y @ [e])) = Some z"
    show "l = loads \<longrightarrow> x \<noteq> ?s"
    proof (intro impI notI)
      assume l: "l = loads" and "x = ?s"
      then have "f loads ?s (y @ [e]) = Some z" using eq l read by simp
      then show False using IH by blast
    qed
  qed simp
  then show False by simp
qed

section \<open>The answer to the quit command\<close>

definition answers_quit :: "obj \<Rightarrow> bool" where
  "answers_quit e \<longleftrightarrow> dict_get e ''id'' = JStr QUIT_ID \<and> dict_has e ''return''"

lemma drain_pause: "drain_loop loads (Timeout ## s) events = Some (events, s)"
proof -
  have "read_loop [] (Timeout ## s) = Some (None, s)" by (subst read_loop.simps) simp
  then have "qmp_read_line loads (Timeout ## s) = Some (None, s)" by (simp add: qmp_read_line_def line_object_def)
  then show ?thesis by (subst drain_loop.simps) simp
qed

lemma quit_loop_answers:
  assumes "\<forall>i\<le>n. clock !! i < deadline" and "list_all2 (object_line loads) es ts" and "\<exists>e\<in>set es. answers_quit e"
  shows "quit_loop loads deadline clock (length events)
    (Some (replicate n Timeout @- concat (map line_bytes ts) @- Timeout ## s)) events = Some (True, events @ es)"
  using assms(1)
proof (induction n arbitrary: clock)
  case 0
  have "harness_quit_ack (events @ es) (length events)"
    using assms(3) by (auto simp: harness_quit_ack_def list_ex_iff answers_quit_def)
  then show ?case
    using 0 by (subst quit_loop.simps) (simp add: qmp_drain_def drain_lines [OF assms(2)] drain_pause)
next
  case (Suc n)
  have now: "shd clock < deadline" using Suc.prems by force
  have later: "\<forall>i\<le>n. stl clock !! i < deadline" using Suc.prems by (metis Suc_le_mono snth.simps(2))
  have "\<not> harness_quit_ack events (length events)" by (simp add: harness_quit_ack_def)
  then show ?case
    using now Suc.IH [OF later] by (subst quit_loop.simps) (simp add: qmp_drain_def drain_pause)
qed

text \<open>
  C25. The answer to the quit command is seen: if the peer is silent for some turns and then sends
  complete lines, all objects, with an answer to the quit command among them, before the grace
  time is over, the loop ends with the command acknowledged, whatever else the peer sent.
\<close>

theorem quit_answer_seen:
  assumes "\<forall>i\<le>n. clock !! i < deadline" and "list_all2 (object_line loads) es ts" and "\<exists>e\<in>set es. answers_quit e"
  shows "quit_loop loads deadline clock (length events)
    (Some (replicate n Timeout @- concat (map line_bytes ts) @- Timeout ## s)) events = Some (True, events @ es)"
  using assms by (rule quit_loop_answers)

end
