(* ===== verification/RuntimeReplay.thy ===== *)
theory RuntimeReplay
  imports RuntimeHarnessProps
begin

text \<open>
  The harness and the suite validator read the same logs: where the outcomes they find agree, what
  a passed run guarantees of the record it leaves, and where the two differ.
\<close>

section \<open>The serial log\<close>

lemma same_tables: "HARNESS_PREFIXES = OUTCOME_PREFIXES" "HARNESS_OUTCOMES = SUITE_OUTCOMES"
  by (simp_all add: HARNESS_PREFIXES_def OUTCOME_PREFIXES_def HARNESS_OUTCOMES_def SUITE_OUTCOMES_def)

lemma find_conj: "find P xs = Some x \<Longrightarrow> Q x \<Longrightarrow> find (\<lambda>y. P y \<and> Q y) xs = Some x"
  by (induction xs) (auto split: if_splits)

lemma find_conj_None: "find P xs = None \<Longrightarrow> find (\<lambda>y. P y \<and> Q y) xs = None"
  by (auto simp: find_None_iff)

lemma line_marker_announced:
  assumes "announced line = Some v" and "v \<in> set SUITE_OUTCOMES"
  shows "\<exists>signal. line_marker line = Some (v, signal)"
proof -
  obtain p where p: "find (starts_with (strip line)) OUTCOME_PREFIXES = Some p" "strip (drop (length p) (strip line)) = v"
    using assms(1) unfolding announced_def Let_def by (cases "find (starts_with (strip line)) OUTCOME_PREFIXES") simp_all
  then show ?thesis
    using find_conj [OF p(1), of "\<lambda>p. strip (drop (length p) (strip line)) \<in> set SUITE_OUTCOMES"] assms(2)
    by (simp add: line_marker_def Let_def same_tables)
qed

lemma line_marker_silent: "announced line = None \<Longrightarrow> line_marker line = None"
  unfolding announced_def line_marker_def Let_def same_tables by (simp add: find_conj_None)

lemma first_marker_announced:
  "first_announced ls = Some v \<Longrightarrow> v \<in> set SUITE_OUTCOMES \<Longrightarrow> \<exists>signal. first_marker ls = Some (v, signal)"
  by (induction ls) (auto split: option.splits dest: line_marker_announced line_marker_silent)

lemma first_marker_silent: "first_announced ls = None \<Longrightarrow> first_marker ls = None"
  by (induction ls) (auto split: option.splits dest: line_marker_silent)

lemma first_announced_in:
  "first_announced ls = Some v \<Longrightarrow> \<exists>l\<in>set ls. announced l = Some v"
  by (induction ls) (auto split: option.splits)

text \<open>Where the log infers an outcome, the harness infers the same one from the log and the facts.\<close>

lemma guarded_agree:
  "(if a then Some u else if b then Some v else if c then Some w else if d then Some x else if e then Some y else None) = Some z \<Longrightarrow>
     z \<noteq> y \<or> f \<or> g \<Longrightarrow>
     fst (if a then (u, s) else if b then (v, s') else if c then (w, s'') else if d then (x, s1) else if f then (y, s2)
       else if g then (y, s3) else (x, s4)) = z"
  by (cases a; cases b; cases c; cases d; cases e) auto

lemma inferred_classified:
  assumes "first_marker (splitlines serial) = None" and "inferred_outcome serial = Some v"
    and "v \<noteq> ''booted'' \<or> semantic \<noteq> [] \<or> rc = Some 0"
  shows "harness_outcome serial semantic rc = v"
  unfolding harness_outcome_def classified_def Let_def assms(1) option.case
  by (rule guarded_agree [OF assms(2) [unfolded inferred_outcome_def Let_def] assms(3)])

lemma inferred_booted:
  assumes "first_marker (splitlines serial) = None" and "inferred_outcome serial = Some ''booted''" and "rc \<noteq> Some 0"
  shows "harness_outcome serial [] rc = ''userspace-rejected''"
  using assms by (auto simp: harness_outcome_def classified_def inferred_outcome_def Let_def split: if_splits)

text \<open>
  C26. The replay of the suite validator agrees with the harness: an outcome that the validator
  reads from the serial log alone is the outcome that the harness recorded, with one exception.  A
  log without announced outcome counts as a boot for the validator when it has the two markers of
  the guest's facts; where the harness could not parse facts between them and the process did not
  exit with 0, the harness recorded a rejection by userspace.
\<close>

theorem replay_refines:
  assumes "observed_outcome_from_serial serial = Some v"
  shows "harness_outcome serial semantic rc = v \<or>
    (v = ''booted'' \<and> semantic = [] \<and> rc \<noteq> Some 0 \<and> first_announced (splitlines serial) = None \<and>
     harness_outcome serial semantic rc = ''userspace-rejected'')"
proof (cases "first_announced (splitlines serial)")
  case None
  note silent = first_marker_silent [OF None]
  have inferred: "inferred_outcome serial = Some v" using assms None by (simp add: observed_outcome_from_serial_def)
  show ?thesis
  proof (cases "v \<noteq> ''booted'' \<or> semantic \<noteq> [] \<or> rc = Some 0")
    case True
    then show ?thesis using inferred_classified [OF silent inferred] by (intro disjI1)
  next
    case False
    then have v: "v = ''booted''" "semantic = []" "rc \<noteq> Some 0" by simp_all
    then have "harness_outcome serial semantic rc = ''userspace-rejected''"
      using inferred_booted [OF silent _ v(3)] inferred by simp
    then show ?thesis by (intro disjI2 conjI v None)
  qed
next
  case (Some u)
  then have "u = v" "v \<in> set SUITE_OUTCOMES"
    using assms(1) by (simp_all add: observed_outcome_from_serial_def split: if_splits)
  then show ?thesis
    using first_marker_announced [of "splitlines serial" v] Some by (auto simp: harness_outcome_def classified_def)
qed

text \<open>The exception is real: markers around facts that do not parse, and a process that failed.\<close>

lemma booted_disagrees:
  "observed_outcome_from_serial (SEMANTIC_BEGIN @ ''{'' @ SEMANTIC_END) = Some ''booted''"
  "harness_outcome (SEMANTIC_BEGIN @ ''{'' @ SEMANTIC_END) (parse_semantic (\<lambda>_. None) (SEMANTIC_BEGIN @ ''{'' @ SEMANTIC_END)) (Some 1) =
     ''userspace-rejected''"
  by code_simp+

section \<open>The other direction\<close>

text \<open>An outcome of the harness with another source than the end of the process is in the log.\<close>

lemma split_at_append: "split_at p s = Some (a, b) \<Longrightarrow> s = a @ p @ b"
  by (induction p s arbitrary: a b rule: split_at.induct) (auto simp: starts_with_iff split: if_splits)

lemma parse_semantic_contains:
  assumes "parse_semantic loads serial \<noteq> []"
  shows "contains serial SEMANTIC_BEGIN \<and> contains serial SEMANTIC_END"
proof -
  obtain a rest raw c where at: "split_at SEMANTIC_BEGIN serial = Some (a, rest)" "split_at SEMANTIC_END rest = Some (raw, c)"
    using assms by (auto simp: parse_semantic_def bind_eq_Some_conv split: option.splits)
  have "serial = a @ SEMANTIC_BEGIN @ rest" "serial = (a @ SEMANTIC_BEGIN @ raw) @ SEMANTIC_END @ c"
    using at [THEN split_at_append] by simp_all
  then show ?thesis unfolding contains_iff by blast
qed

lemma guarded_source:
  "(if a then (u, s) else if b then (v, s') else if c then (w, s'') else if d then (x, s1) else if f then (y, s2)
       else if g then (y, q, s3) else (x, q, s4)) = (z, source, signal) \<Longrightarrow> source \<noteq> q \<Longrightarrow> (f \<Longrightarrow> e) \<Longrightarrow>
     (if a then Some u else if b then Some v else if c then Some w else if d then Some x else if e then Some y else None) = Some z"
  by (auto split: if_splits)

lemma classified_inferred:
  assumes "first_marker (splitlines serial) = None" and "classified serial (parse_semantic loads serial) rc = (v, source, signal)"
    and "source \<noteq> ''qmp-events''"
  shows "inferred_outcome serial = Some v"
  unfolding inferred_outcome_def Let_def
  by (rule guarded_source [OF assms(2) [unfolded classified_def Let_def assms(1) option.case] assms(3)])
    (rule parse_semantic_contains)

text \<open>Every line that announces an outcome announces one of the five.\<close>

definition announces_known :: "string \<Rightarrow> bool" where
  "announces_known serial \<longleftrightarrow> list_all (\<lambda>l. case announced l of None \<Rightarrow> True | Some v \<Rightarrow> v \<in> set SUITE_OUTCOMES) (splitlines serial)"

lemma first_announced_known:
  "announces_known serial \<Longrightarrow> first_announced (splitlines serial) = Some v \<Longrightarrow> v \<in> set SUITE_OUTCOMES"
  by (auto simp: announces_known_def list_all_iff dest!: first_announced_in split: option.splits)

lemma classified_replays:
  assumes known: "announces_known serial"
    and outcome: "classified serial (parse_semantic loads serial) rc = (v, source, signal)" "source \<noteq> ''qmp-events''"
  shows "observed_outcome_from_serial serial = Some v"
proof (cases "first_announced (splitlines serial)")
  case None
  then show ?thesis
    using classified_inferred [OF first_marker_silent [OF None] outcome] by (simp add: observed_outcome_from_serial_def)
next
  case (Some u)
  then have u: "u \<in> set SUITE_OUTCOMES" using first_announced_known [OF known] by simp
  then have "u = v" using first_marker_announced [OF Some u] outcome(1) by (auto simp: classified_def)
  then show ?thesis using Some u by (simp add: observed_outcome_from_serial_def)
qed

section \<open>The QMP log\<close>

definition shuts_down :: "obj \<Rightarrow> bool" where
  "shuts_down e \<longleftrightarrow> dict_get e ''event'' = JStr ''SHUTDOWN''"

lemma qmp_log: "qmp_quit_ack_observed (JArr (map JObj es)) \<longleftrightarrow> list_ex answers_quit es"
  by (auto simp: qmp_quit_ack_observed_def quit_ack_iff acknowledges_quit_def answers_quit_def QUIT_ID_def list_ex_iff)

lemma harness_quit_ack_iff: "harness_quit_ack es n \<longleftrightarrow> list_ex (\<lambda>e. shuts_down e \<or> answers_quit e) (drop n es)"
  by (simp add: harness_quit_ack_def shuts_down_def answers_quit_def)

lemma quit_loop_acked:
  assumes "quit_loop loads deadline clock start sock events = Some (True, es)"
  shows "harness_quit_ack es start"
proof -
  have "fst (True, es) \<longrightarrow> harness_quit_ack (snd (True, es)) start"
  proof (rule quit_loop.raw_induct [where P = "\<lambda>_ _ _ start _ _ r. fst r \<longrightarrow> harness_quit_ack (snd r) start", OF _ assms])
    fix f loads deadline clock start sock events r
    assume IH: "\<And>l d c n so es r. f l d c n so es = Some r \<Longrightarrow> fst r \<longrightarrow> harness_quit_ack (snd r) n"
      and eq: "(if \<not> shd clock < deadline then Some (False, events)
        else Option.bind (qmp_drain loads sock events) (\<lambda>(events', sock').
          if harness_quit_ack events' start then Some (True, events') else f loads deadline (stl clock) start sock' events')) = Some r"
    show "fst r \<longrightarrow> harness_quit_ack (snd r) start"
    proof (cases "shd clock < deadline")
      case False
      then show ?thesis using eq by auto
    next
      case True
      then obtain es sock' where "(if harness_quit_ack es start then Some (True, es)
          else f loads deadline (stl clock) start sock' es) = Some r"
        using eq by (auto simp only: bind_eq_Some_conv simp_thms if_True if_False)
      then show ?thesis using IH [of loads deadline "stl clock" start sock' es r] by (auto split: if_splits)
    qed
  qed
  then show ?thesis by simp
qed

text \<open>
  C23. A run that passed: the process ended in time, the quit command was sent and acknowledged, a
  negative scenario had its mutated artifact, and the recorded outcome is the expected one. If its
  source is not the end of the process, and no line of the serial log announces an unknown
  outcome, the suite validator replays the same outcome from the log; and it accepts the recorded
  QMP log, unless the acknowledgement was a \<open>SHUTDOWN\<close> event alone.
\<close>

theorem passed_run_replays:
  assumes "run_scenario loads scenario expected w = Some r" and "hr_status r = ''passed''"
  shows "w_exited_in_time w \<and> w_quit_sends w \<and> (scenario = ''signed-boot'' \<or> w_mutation w) \<and>
    hr_acceptable r \<and> dict_get (hr_observation r) ''observed_outcome'' = JStr expected \<and>
    (announces_known (w_serial w) \<and> dict_get (hr_observation r) ''source'' \<noteq> JStr ''qmp-events'' \<longrightarrow>
       observed_outcome_from_serial (w_serial w) = Some expected) \<and>
    (qmp_quit_ack_observed (JArr (map JObj (hr_events r))) \<or> list_ex shuts_down (hr_events r))"
proof -
  obtain sock events timed_out sock1 events1 events2 sock2 sent acked events3 where
    sent: "sent = (sock2 \<noteq> None \<and> w_quit_sends w)" and
    quit: "(if sent then quit_loop loads (w_quit_deadline w) (w_quit_clock w) (length events2) sock2 events2
      else Some (False, events2)) = Some (acked, events3)" and
    r: "r = harness_report loads scenario expected w timed_out sent acked events3"
    using assms(1) by (auto simp: run_scenario_def bind_eq_Some_conv Let_def)
  obtain v source signal where c: "classified (w_serial w) (parse_semantic loads (w_serial w)) (Some (w_returncode w)) = (v, source, signal)"
    by (cases "classified (w_serial w) (parse_semantic loads (w_serial w)) (Some (w_returncode w))") auto
  have ok: "v = expected" "w_exited_in_time w" "sent" "acked" "scenario = ''signed-boot'' \<or> w_mutation w" "hr_acceptable r"
    using assms(2) unfolding r harness_report_def Let_def harness_outcome_def c by (auto split: if_splits)
  have "harness_quit_ack events3 (length events2)" using quit ok(3,4) quit_loop_acked by simp
  then have "list_ex (\<lambda>e. shuts_down e \<or> answers_quit e) events3"
    unfolding harness_quit_ack_iff list_ex_iff by (metis in_set_dropD)
  then have log: "list_ex answers_quit (hr_events r) \<or> list_ex shuts_down (hr_events r)"
    by (auto simp: r harness_report_def Let_def list_ex_iff)
  have "dict_get (hr_observation r) ''observed_outcome'' = JStr v" "dict_get (hr_observation r) ''source'' = JStr source"
    by (simp_all add: r harness_report_def Let_def classify_observation_def c dict_get_def)
  then show ?thesis using ok sent log qmp_log classified_replays [OF _ c] by auto
qed

end
