(* ===== verification/LabSample.thy ===== *)
theory LabSample
  imports LabProps RuntimeProps RuntimeReplay
begin

text \<open>
  A small lab document with its bundle, key, signature and evidence files, and the witnesses of
  the properties of lab documents on it. The clock of the sample stands at the year 1.
  After it, a runtime suite and a run of the harness with theirs.
\<close>

definition digest_of :: "char \<Rightarrow> string" where
  "digest_of c = replicate 64 c"

definition lab_station :: obj where
  "lab_station = [(''station_id'', JStr ''s1''), (''fixture_id'', JStr ''f1''), (''operator_id'', JStr ''o1''),
     (''trusted_key_fingerprint'', JStr (digest_of (CHR ''c''))), (''clock'', JStr ''ntp''),
     (''tool_versions'', JObj [(''flasher'', JStr ''1'')])]"

definition lab_binding :: obj where
  "lab_binding = [(''version'', JStr ''v1''), (''source_sha'', JStr (replicate 40 (CHR ''a''))), (''source_run_id'', JStr ''7''),
     (''build_artifact_sha256'', JStr (digest_of (CHR ''d''))), (''build_artifact_bytes'', JInt 5)]"

definition lab_sample_device :: obj where
  "lab_sample_device = map (\<lambda>f. (f, JStr ''x'')) REQUIRED_DEVICE_FIELDS
     @ [(''device_identity'', JObj (map (\<lambda>f. (f, JStr ''disk'')) REQUIRED_DEVICE_IDENTITY_FIELDS)),
        (''readback'', JObj [(''scope'', JStr ''full''), (''expected_sha256'', JStr (digest_of (CHR ''d''))),
           (''actual_sha256'', JStr (digest_of (CHR ''d''))), (''bytes_read'', JInt 5)]),
        (''status'', JStr ''passed''),
        (''logs'', JArr [JObj [(''path'', JStr ''boot.log''), (''sha256'', JStr (digest_of (CHR ''e'')))]]),
        (''checks'', JObj [(''boot'', JObj [(''status'', JStr ''passed''), (''evidence'', JStr ''boot.log''),
           (''command'', JStr ''c''), (''expected'', JStr ''e''), (''observed'', JStr ''o''), (''parsed_result'', JStr ''r'')])])]"

definition lab_negative_sample :: obj where
  "lab_negative_sample = [(''name'', JStr ''wrong-board''), (''failure_code'', JStr ''E1''), (''status'', JStr ''passed''),
     (''command'', JStr ''c''), (''expected'', JStr ''e''), (''observed'', JStr ''o''), (''exit_code'', JInt 1),
     (''evidence'', JStr ''boot.log''),
     (''write_prevention'', JObj [(''target_hash_unchanged'', JBool True), (''before_sha256'', JStr (digest_of (CHR ''f''))),
        (''after_sha256'', JStr (digest_of (CHR ''f''))), (''bytes_checked'', JInt 5)])]"

definition lab_sample :: obj where
  "lab_sample = [(''schema_version'', JStr ''suderra.lab-evidence.v3''), (''version'', JStr ''v1''), (''target'', JStr ''pc''),
     (''generated_at'', JStr ''today''), (''lab_id'', JStr ''lab''), (''operator'', JStr ''me''),
     (''station'', JObj lab_station), (''artifact_binding'', JObj lab_binding),
     (''devices'', JArr [JObj lab_sample_device]), (''negative_tests'', JArr [JObj lab_negative_sample]),
     (''station_bundle'', JObj [(''schema_version'', JStr STATION_BUNDLE_SCHEMA_VERSION), (''path'', JStr ''bundle.json''),
        (''sha256'', JStr (digest_of (CHR ''b''))), (''bytes'', JInt 9)]),
     (''station_signature'', JObj [(''algorithm'', JStr ''openssl-pkeyutl-ed25519-raw''), (''signature'', JStr ''bundle.sig''),
        (''signature_sha256'', JStr (digest_of (CHR ''9''))), (''public_key'', JStr ''key.pem''),
        (''public_key_sha256'', JStr (digest_of (CHR ''c'')))])]"

definition length_digest :: "string \<Rightarrow> string" where
  "length_digest s = nat_str (length s)"

definition lab_bundle :: obj where
  "lab_bundle = [(''schema_version'', JStr STATION_BUNDLE_SCHEMA_VERSION), (''version'', JStr ''v1''), (''target'', JStr ''pc''),
     (''lab_id'', JStr ''lab''), (''station_id'', JStr ''s1''), (''source_sha'', JStr (replicate 40 (CHR ''a''))),
     (''source_run_id'', JStr ''7''), (''build_artifact_sha256'', JStr (digest_of (CHR ''d''))), (''build_artifact_bytes'', JInt 5),
     (''lab_payload_sha256'', JStr (length_digest (canonical_lab_payload lab_sample)))]"

definition lab_registry :: obj where
  "lab_registry = [(''schema_version'', JStr STATION_REGISTRY_SCHEMA_VERSION),
     (''stations'', JArr [JObj [(''station_id'', JStr ''s1''), (''fixture_id'', JStr ''f1''),
        (''public_key_sha256'', JStr (digest_of (CHR ''c''))), (''allowed_targets'', JArr [JStr ''pc'']),
        (''calibration_expires_at'', JStr ''0001-01-02T00:00:00Z''),
        (''adapter_inventory'', JObj [(''uart'', JObj [(''id'', JStr ''u''), (''version'', JStr ''1''),
           (''binary_sha256'', JStr (digest_of (CHR ''1''))), (''command_schema_id'', JStr ''u'')])]),
        (''operator_roles'', JArr [JStr ''lab'']), (''operator_authorization'', JStr ''ticket''),
        (''allowed_storage_by_id'', JArr [JStr ''disk''])]])]"

definition lab_file :: "char \<Rightarrow> json option \<Rightarrow> regular_file" where
  "lab_file c v = \<lparr>size_of = 9, sha_of = digest_of c, text_content = [], json_content = v\<rparr>"

definition lab_dir :: "string \<Rightarrow> path" where
  "lab_dir n = path_join (path_of ''release-lab-input/v1/pc'') (path_of n)"

definition lab_store :: store where
  "lab_store = map_of [(lab_dir ''lab.json'', lab_file (CHR ''2'') (Some (JObj lab_sample))),
     (lab_dir ''bundle.json'', lab_file (CHR ''b'') (Some (JObj lab_bundle))), (lab_dir ''bundle.sig'', lab_file (CHR ''9'') None),
     (lab_dir ''key.pem'', lab_file (CHR ''c'') None), (lab_dir ''boot.log'', lab_file (CHR ''e'') None),
     (path_of ''registry.json'', lab_file (CHR ''3'') (Some (JObj lab_registry)))]"

definition lab_sample_env :: lab_env where
  "lab_sample_env = \<lparr>lab_files = lab_store, lab_now = 0, sha256_bytes = length_digest, has_openssl = True,
     run_openssl = (\<lambda>key signature bundle. \<lparr>return_code = (if path_name signature = ''bundle.sig'' then 0 else 1), std_err = [], std_out = []\<rparr>)\<rparr>"

definition lab_sample_policy :: lab_policy where
  "lab_sample_policy = \<lparr>lab_schema = ''suderra.lab-evidence.v3'', lab_checks = [''boot''], lab_x86_checks = [], lab_x86_negative = [],
     lab_boards = [(''pc'', [''x''])]\<rparr>"

definition lab_sample_args :: lab_args where
  "lab_sample_args = \<lparr>lab_check_files = True, lab_require_pass = True, lab_profile = ''release-candidate'', lab_version = None,
     lab_target = Some ''pc'', lab_source_sha = Some (replicate 40 (CHR ''a'')), lab_source_run_id = Some ''7''\<rparr>"

lemma lab_sample_valid:
  "validate_lab lab_sample_env lab_sample_policy (Some (path_of ''registry.json'')) (lab_dir ''lab.json'') lab_sample_args = Inr []"
  by code_simp

lemma lab_sample_doc: "load_doc (lab_files lab_sample_env) (lab_dir ''lab.json'') = Loaded (JObj lab_sample)"
  by (simp add: load_doc_def lab_sample_env_def lab_store_def lab_file_def)

lemma lab_sample_options: "lab_strict lab_sample_args" "lab_check_files lab_sample_args" "lab_require_pass lab_sample_args"
  by (simp_all add: lab_strict_def lab_sample_args_def LAB_STRICT_PROFILES_def)

theorem lab_hardware_accepted_witness:
  "\<exists>d. dict_get lab_sample ''devices'' = JArr [JObj d] \<and>
     sound_device (lab_files lab_sample_env) lab_sample_policy (path_parent (lab_dir ''lab.json'')) ''pc'' lab_binding (JObj d)"
proof -
  have devices: "dict_get lab_sample ''devices'' = JArr [JObj lab_sample_device]" "dict_get lab_sample ''target'' = JStr ''pc''"
      "dict_get lab_sample ''artifact_binding'' = JObj lab_binding"
    by (simp_all add: lab_sample_def dict_get_def)
  have "sound_device (lab_files lab_sample_env) lab_sample_policy (path_parent (lab_dir ''lab.json'')) ''pc'' lab_binding (JObj lab_sample_device)"
    using lab_hardware_accepted [OF lab_sample_valid lab_sample_options] devices by (auto simp: lab_sample_doc)
  with devices(1) show ?thesis by blast
qed

theorem lab_document_signed_witness:
  "station_signed lab_sample_env (path_parent (lab_dir ''lab.json'')) lab_sample
     (lab_read_json (lab_files lab_sample_env) (path_of ''registry.json''))"
  using lab_document_signed [OF lab_sample_valid lab_sample_options(1,2)] by (auto simp: lab_sample_doc)

theorem canonical_payload_identifies_witness:
  "canonical_lab_payload [(''b'', JInt 1), (''a'', JNull)] = canonical_lab_payload [(''a'', JNull), (''b'', JInt 1)] \<and>
   canonical_lab_payload [(''a'', JInt 1)] \<noteq> canonical_lab_payload [(''a'', JStr ''1'')]"
proof
  have "canon (JObj (unsigned [(''b'', JInt 1), (''a'', JNull)])) = canon (JObj (unsigned [(''a'', JNull), (''b'', JInt 1)]))"
    by code_simp
  then show "canonical_lab_payload [(''b'', JInt 1), (''a'', JNull)] = canonical_lab_payload [(''a'', JNull), (''b'', JInt 1)]"
    using canonical_payload_identifies [of "[(''b'', JInt 1), (''a'', JNull)]" "[(''a'', JNull), (''b'', JInt 1)]"]
    by (simp add: unsigned_def)
  show "canonical_lab_payload [(''a'', JInt 1)] \<noteq> canonical_lab_payload [(''a'', JStr ''1'')]"
    using canonical_payload_identifies [of "[(''a'', JInt 1)]" "[(''a'', JStr ''1'')]"] by (simp add: unsigned_def)
qed

definition naive_registry :: obj where
  "naive_registry = [(''stations'', JArr [JObj [(''station_id'', JStr ''s1''), (''calibration_expires_at'', JStr ''0001-01-02Z'')]])]"

theorem naive_calibration_raises_witness:
  "check_station_registry 0 lab_sample (JObj naive_registry) JNull ''release-candidate'' = Inl TypeError"
proof -
  let ?entry = "[(''station_id'', JStr ''s1''), (''calibration_expires_at'', JStr ''0001-01-02Z'')] :: obj"
  have expires: "parse_zulu (dict_get ?entry ''calibration_expires_at'') = Some \<lparr>local_us = day_micros, utc_offset = None\<rparr>"
    by code_simp
  have entry: "station_registry_entry (JObj naive_registry)
      (str_option (dict_get (dict_or_empty (dict_get lab_sample ''station'')) ''station_id'')) = Some ?entry"
    by code_simp
  show ?thesis
    by (rule naive_calibration_raises [OF expires _ entry]) (simp_all add: LAB_STRICT_PROFILES_def)
qed

text \<open>A suite of one scenario with its two logs, on which the property of accepted suites holds.\<close>

definition hexes :: "char \<Rightarrow> json" where
  "hexes c = JStr (replicate 64 c)"

definition boot_pins :: obj where
  "boot_pins = [(''expected_outcome'', JStr ''booted''), (''observed_layer'', JStr ''userspace''), (''guest_facts_required'', JBool False),
     (''observation_source'', JArr [JStr ''serial'']), (''required_log_roles'', JArr [JStr ''serial'', JStr ''qmp-events''])]"

definition tampered_pins :: obj where
  "tampered_pins = dict_set boot_pins ''expected_outcome'' (JStr ''firmware-rejected'')"

definition sample_suite_policy :: suite_policy where
  "sample_suite_policy = \<lparr>suite_schema = ''suite.v2'', observation_schema = ''observation.v1'', suite_scenarios = [''tampered''],
     scenario_contracts = [(''signed-boot'', boot_pins), (''tampered'', tampered_pins)],
     observation_authority = JObj [(''forbidden_sources'', JArr [JStr ''expected-outcome''])],
     suite_contract = [(''subjects'', JObj [(''subject_id_template'', JStr ''{version}:{target}:{source_sha}:{source_run_id}'')])]\<rparr>"

definition qemu_argv :: json where
  "qemu_argv = JArr [JStr ''/usr/bin/qemu-system-x86_64'', JStr ''-qmp'']"

definition sample_scenario :: obj where
  "sample_scenario = [(''name'', JStr ''tampered''), (''status'', JStr ''passed''), (''expected_outcome'', JStr ''firmware-rejected''),
     (''observed_outcome'', JStr ''firmware-rejected''), (''command'', JStr ''c''), (''started_at'', JStr ''t0''),
     (''completed_at'', JStr ''t1''), (''termination_class'', JStr ''quit''), (''failure_class'', JStr ''none''),
     (''mutation'', JObj [(''type'', JStr ''flip''), (''target'', JStr ''esp''), (''before_sha256'', hexes (CHR ''a'')),
        (''after_sha256'', hexes (CHR ''b'')),
        (''artifact'', JObj [(''path'', JStr ''disk.img''), (''role'', JStr ''disk''), (''before_sha256'', hexes (CHR ''a'')),
           (''after_sha256'', hexes (CHR ''b''))])]),
     (''logs'', JArr [JObj [(''role'', JStr ''serial''), (''path'', JStr ''serial.log''), (''sha256'', hexes (CHR ''c''))],
        JObj [(''role'', JStr ''qmp-events''), (''path'', JStr ''qmp.json''), (''sha256'', hexes (CHR ''d''))]]),
     (''qemu_argv'', qemu_argv),
     (''termination'', JObj [(''class'', JStr ''quit''), (''reason'', JStr ''done''), (''qmp_quit_sent'', JBool True), (''qmp_quit_ack'', JBool True)]),
     (''swtpm_state'', JObj [(''before_sha256'', hexes (CHR ''e'')), (''after_sha256'', hexes (CHR ''e'')), (''path'', JStr ''tpm'')]),
     (''raw_evidence'', JObj [(''serial_sha256'', hexes (CHR ''c'')), (''qmp_events_sha256'', hexes (CHR ''d''))]),
     (''observation'', JObj [(''schema_version'', JStr ''observation.v1''), (''producer'', JStr ''runner''), (''source'', JStr ''serial-marker''),
        (''observed_outcome'', JStr ''firmware-rejected''), (''observed_layer'', JStr ''userspace''), (''signal'', JStr ''marker''),
        (''scenario'', JStr ''tampered'')])]"

definition sample_suite :: obj where
  "sample_suite = [(''schema_version'', JStr ''suite.v2''), (''version'', JStr ''v1''), (''target'', JStr ''pc''), (''generated_at'', JStr ''today''),
     (''image'', JStr ''disk.img''), (''ovmf_code'', JStr ''code''), (''ovmf_vars'', JStr ''vars''), (''swtpm_state'', JStr ''tpm''),
     (''source_sha'', JStr (replicate 40 (CHR ''1''))), (''image_sha256'', hexes (CHR ''a'')), (''ovmf_code_sha256'', hexes (CHR ''2'')),
     (''ovmf_vars_sha256'', hexes (CHR ''3'')), (''swtpm_state_sha256'', hexes (CHR ''4'')), (''source_run_id'', JStr ''7''),
     (''source_run_attempt'', JStr ''1''), (''subject_id'', JStr (''v1:pc:'' @ replicate 40 (CHR ''1'') @ '':7'')),
     (''defconfig'', JStr ''pc_defconfig''), (''raw_image_sha256'', hexes (CHR ''a'')), (''compressed_artifact_sha256'', hexes (CHR ''5'')),
     (''release_artifact'', JStr ''os.img.xz''), (''qemu_version'', JStr ''9''), (''qemu_argv'', qemu_argv),
     (''ovmf_enrollment'', JObj [(''enrolled_vars_sha256'', hexes (CHR ''6'')), (''secure_boot_db_sha256'', hexes (CHR ''7'')),
        (''mode'', JStr ''user'')]),
     (''swtpm_state_before_sha256'', hexes (CHR ''8'')), (''swtpm_state_after_sha256'', hexes (CHR ''9'')),
     (''scenarios'', JArr [JObj sample_scenario])]"

definition suite_file :: "string \<Rightarrow> path" where
  "suite_file n = path_join (path_of ''release-runtime/v1/pc'') (path_of n)"

definition serial_text :: string where
  "serial_text = ''boot'' @ [CHR 0x0A] @ ''  observed_outcome=firmware-rejected'' @ [CHR 0x0A]"

definition quit_events :: json where
  "quit_events = JArr [JObj [(''event'', JStr ''RESUME'')], JObj [(''id'', JStr ''suderra-production-runtime-quit''), (''return'', JObj [])]]"

definition doc_at :: "char \<Rightarrow> string \<Rightarrow> json option \<Rightarrow> regular_file" where
  "doc_at c t v = \<lparr>size_of = 3, sha_of = replicate 64 c, text_content = t, json_content = v\<rparr>"

definition suite_store :: store where
  "suite_store = map_of [(suite_file ''suite.json'', doc_at (CHR ''0'') [] (Some (JObj sample_suite))),
     (suite_file ''serial.log'', doc_at (CHR ''c'') serial_text None), (suite_file ''qmp.json'', doc_at (CHR ''d'') [] (Some quit_events)),
     (suite_file ''disk.img'', doc_at (CHR ''b'') [] None)]"

definition sample_suite_args :: suite_args where
  "sample_suite_args = \<lparr>suite_check_files = True, suite_require_pass = True, suite_version = Some ''v1'', suite_target = Some ''pc'',
     suite_source_sha = None, suite_run_id = Some ''7'', suite_run_attempt = None, suite_defconfig = None, suite_image_sha256 = None,
     suite_raw_sha256 = None, suite_compressed_sha256 = None, suite_release_artifact = None, suite_profile = ''production-candidate''\<rparr>"

lemma sample_suite_valid: "validate_suite suite_store sample_suite_policy (suite_file ''suite.json'') sample_suite_args = Inr []"
  by code_simp

theorem suite_accepted_witness:
  "\<exists>scenario. dict_get sample_suite ''scenarios'' = JArr [JObj scenario] \<and>
     replayed suite_store sample_suite_policy (path_parent (suite_file ''suite.json'')) ''tampered'' scenario"
proof -
  have options: "suite_check_files sample_suite_args" "suite_require_pass sample_suite_args"
      "suite_profile sample_suite_args \<in> set V2_REQUIRED_PROFILES"
    by (simp_all add: sample_suite_args_def V2_REQUIRED_PROFILES_def)
  have "raw_logs_required sample_suite_policy" by code_simp
  moreover have "load_doc suite_store (suite_file ''suite.json'') = Loaded (JObj sample_suite)"
    by (simp add: load_doc_def suite_store_def doc_at_def)
  moreover have scenarios: "dict_get sample_suite ''scenarios'' = JArr [JObj sample_scenario]" "dict_get sample_scenario ''name'' = JStr ''tampered''"
    by (simp_all add: sample_suite_def sample_scenario_def dict_get_def)
  ultimately have "replayed suite_store sample_suite_policy (path_parent (suite_file ''suite.json'')) ''tampered'' sample_scenario"
    using suite_accepted [OF sample_suite_valid options] by auto
  with scenarios(1) show ?thesis by blast
qed

text \<open>
  A run of the harness on a concrete machine: QMP greets, accepts its command, is silent for a
  while and answers the quit command; the guest reports its facts on the serial log.
\<close>

definition greeting_line :: string where
  "greeting_line = ''{QMP}''"

definition ready_line :: string where
  "ready_line = ''{return}''"

definition answer_line :: string where
  "answer_line = ''{quit}''"

definition facts_text :: string where
  "facts_text = ''{facts}''"

definition sample_loads :: line_parser where
  "sample_loads t = (if t = greeting_line then Some (JObj [(''QMP'', JObj [])])
     else if t = ready_line then Some (JObj [(''return'', JObj [])])
     else if t = answer_line then Some (JObj [(''id'', JStr QUIT_ID), (''return'', JObj [])])
     else if t = facts_text then Some (JObj [(''os_version'', JStr ''1.0'')])
     else None)"

definition sample_serial :: string where
  "sample_serial = SEMANTIC_BEGIN @ facts_text @ SEMANTIC_END"

lemmas sample_lines = greeting_line_def ready_line_def answer_line_def facts_text_def

text \<open>What the socket still holds after the connection, and the whole of it.\<close>

definition silent :: "recv stream" where
  "silent = sconst Timeout"

definition quit_socket :: "recv stream" where
  "quit_socket = replicate 2 Timeout @- concat (map line_bytes [answer_line]) @- Timeout ## silent"

definition sample_socket :: "recv stream" where
  "sample_socket = line_bytes greeting_line @- line_bytes ready_line @- Timeout ## Timeout ## quit_socket"

definition sample_world :: harness_world where
  "sample_world = \<lparr>w_attempts = (0, None) ## (1, Some (sample_socket, True)) ## sconst (30, None), w_connect_deadline = 30,
     w_ticks = \<lparr>t_now = 2, t_serial = sample_serial, t_poll = None, t_exited = None\<rparr> ##
       sconst \<lparr>t_now = 200, t_serial = sample_serial, t_poll = None, t_exited = None\<rparr>, w_deadline = 180,
     w_quit_sends = True, w_quit_clock = smap int (fromN 3), w_quit_deadline = 13,
     w_exited_in_time = True, w_returncode = 0, w_serial = sample_serial, w_mutation = False\<rparr>"


lemma sample_objects:
  "object_line sample_loads [(''QMP'', JObj [])] greeting_line"
  "object_line sample_loads [(''return'', JObj [])] ready_line"
  "object_line sample_loads [(''id'', JStr QUIT_ID), (''return'', JObj [])] answer_line"
  by (simp_all add: object_line_def sample_loads_def sample_lines)

lemma pausing_tail: "pausing (xs @- silent)"
  unfolding pausing_def silent_def
proof
  fix n
  show "\<exists>k\<ge>n. pause ((xs @- sconst Timeout) !! k)"
    by (rule exI [of _ "n + length xs"]) (simp add: pause_def)
qed

lemma pausing_sample: "pausing sample_socket"
proof -
  have "sample_socket = (line_bytes greeting_line @ line_bytes ready_line @ [Timeout, Timeout] @ replicate 2 Timeout @
      line_bytes answer_line @ [Timeout]) @- silent"
    by (simp add: sample_socket_def quit_socket_def)
  then show ?thesis using pausing_tail by metis
qed

text \<open>The deadlines pass after two attempts, one turn and ten turns.\<close>

lemma run_returns_witness: "\<exists>r. run_scenario sample_loads ''signed-boot'' ''booted'' sample_world = Some r"
proof (rule run_returns [where i = 2 and j = 1 and k = 10])
  show "w_connect_deadline sample_world \<le> fst (w_attempts sample_world !! 2)"
    by (simp add: sample_world_def numeral_2_eq_2)
  show "w_deadline sample_world \<le> t_now (w_ticks sample_world !! 1)" by (simp add: sample_world_def)
  show "w_quit_deadline sample_world \<le> w_quit_clock sample_world !! 10" by (simp add: sample_world_def)
  show "stream_all pausing_attempt (w_attempts sample_world)"
    using pausing_sample by (simp add: sample_world_def pausing_attempt_def pausing_socket_def stream.pred_set)
qed

lemma quit_answer_seen_witness:
  "quit_loop sample_loads 13 (smap int (fromN 3)) 2 (Some quit_socket) [[], []] =
     Some (True, [[], [], [(''id'', JStr QUIT_ID), (''return'', JObj [])]])"
proof -
  let ?answer = "[(''id'', JStr QUIT_ID), (''return'', JObj [])]"
  have "quit_loop sample_loads 13 (smap int (fromN 3)) (length ([[], []] :: obj list)) (Some quit_socket) [[], []] = Some (True, [[], []] @ [?answer])"
    unfolding quit_socket_def
    by (rule quit_answer_seen) (simp_all add: sample_objects answers_quit_def dict_get_def dict_has_def)
  then show ?thesis by (simp add: numeral_2_eq_2)
qed

lemma replay_refines_witness:
  "harness_outcome ''dm-verity: root hash'' [] None = ''kernel-rejected''"
proof -
  have "observed_outcome_from_serial ''dm-verity: root hash'' = Some ''kernel-rejected''" by code_simp
  from replay_refines [OF this] show ?thesis by simp
qed

lemma sample_facts: "parse_semantic sample_loads sample_serial = [(''os_version'', JStr ''1.0'')]"
  by code_simp

lemma sample_outcome: "classified sample_serial [(''os_version'', JStr ''1.0'')] rc = (''booted'', ''guest-semantic'', ''semantic-json'')"
proof -
  have "first_marker (splitlines sample_serial) = None" by code_simp
  moreover have "inferred_outcome sample_serial = Some ''booted''" by code_simp
  ultimately show ?thesis
    unfolding classified_def inferred_outcome_def Let_def by (auto split: if_splits)
qed

section \<open>The whole run\<close>

lemma sample_connect:
  "qmp_connect sample_loads 30 (w_attempts sample_world) [] =
     Some (Some (Timeout ## Timeout ## quit_socket), [[(''QMP'', JObj [])], [(''return'', JObj [])]])"
  unfolding sample_world_def harness_world.select_convs sample_socket_def
  by (subst qmp_connect.simps, simp, subst qmp_connect.simps)
    (simp add: qmp_read_line_object [OF sample_objects(1)] qmp_read_line_object [OF sample_objects(2)] opt_list_def)

lemma sample_measure:
  "measure_loop sample_loads ''booted'' 180 (w_ticks sample_world) (Some (Timeout ## s)) es = Some (False, Some s, es)"
  unfolding sample_world_def harness_world.select_convs
  by (subst measure_loop.simps)
    (simp add: qmp_drain_def drain_pause sample_facts harness_outcome_def sample_outcome)

lemma sample_quit:
  "quit_loop sample_loads 13 (smap int (fromN 3)) (length es) (Some quit_socket) es =
     Some (True, es @ [[(''id'', JStr QUIT_ID), (''return'', JObj [])]])"
  unfolding quit_socket_def
  by (rule quit_loop_answers) (simp_all add: sample_objects answers_quit_def dict_get_def dict_has_def)

definition sample_result :: harness_result where
  "sample_result = harness_report sample_loads ''signed-boot'' ''booted'' sample_world False True True
     [[(''QMP'', JObj [])], [(''return'', JObj [])], [(''id'', JStr QUIT_ID), (''return'', JObj [])]]"

lemma sample_run: "run_scenario sample_loads ''signed-boot'' ''booted'' sample_world = Some sample_result"
proof -
  let ?es = "[[(''QMP'', JObj [])], [(''return'', JObj [])]]"
  have "w_connect_deadline sample_world = 30" "w_deadline sample_world = 180" "w_quit_deadline sample_world = 13"
    "w_quit_clock sample_world = smap int (fromN 3)" "w_quit_sends sample_world"
    by (simp_all add: sample_world_def)
  then show ?thesis
    using sample_quit [of ?es]
    by (simp add: run_scenario_def sample_connect sample_measure qmp_drain_def drain_pause sample_result_def del: stream.sel)
qed

lemma sample_passed: "hr_status sample_result = ''passed''"
  by (simp add: sample_result_def harness_report_def Let_def harness_outcome_def sample_outcome sample_world_def sample_facts)

lemma sample_known: "announces_known sample_serial"
  by code_simp

lemma passed_run_replays_witness:
  "observed_outcome_from_serial sample_serial = Some ''booted'' \<and>
     (qmp_quit_ack_observed (JArr (map JObj (hr_events sample_result))) \<or> list_ex shuts_down (hr_events sample_result))"
proof -
  have "dict_get (hr_observation sample_result) ''source'' \<noteq> JStr ''qmp-events''" "w_serial sample_world = sample_serial"
    by (simp_all add: sample_result_def harness_report_def Let_def classify_observation_def sample_outcome sample_world_def sample_facts dict_get_def)
  then show ?thesis using passed_run_replays [OF sample_run sample_passed] sample_known by simp
qed

end
