(* ===== verification/BuildrootIdentity.thy ===== *)
theory BuildrootIdentity
  imports PyChecks
begin

text \<open>
  \<open>scripts/ci/buildroot-patch-identity.py\<close>: the identity of the Buildroot source a release is
  built from. Git is an argument: what a run of \<open>git\<close> with given arguments in a given directory
  returns. So are SHA-256 (of a text's encoding, and of bytes), the files of the Buildroot tree
  and the patch files. What git prints is the decoded text, except for a diff, which is bytes.
  A \<open>RuntimeError\<close> of the script is \<open>ValueError\<close> with its text here.
\<close>

section \<open>The repository\<close>

record completed =
  return_code :: int
  stdout :: string
  stderr :: string

record checkout =
  repo_root :: path
  dir_exists :: "path \<Rightarrow> bool"
  git :: "path \<Rightarrow> string list \<Rightarrow> completed"
  tree_files :: store
  patch_dir :: "(string \<times> regular_file) list"
  sha_text :: "string \<Rightarrow> string"
  sha_bytes :: "string \<Rightarrow> string"

definition BUILDROOT_DIR :: "checkout \<Rightarrow> path" where
  "BUILDROOT_DIR env = path_join (repo_root env) (path_of ''buildroot'')"

definition BUILDROOT_IDENTITY_SCHEMA :: string where
  "BUILDROOT_IDENTITY_SCHEMA = ''suderra.buildroot-source-identity.v2''"

definition NATIVE_BUILDROOT_REF :: string where
  "NATIVE_BUILDROOT_REF = ''2025.05.3''"

definition NATIVE_BUILDROOT_COMMIT :: string where
  "NATIVE_BUILDROOT_COMMIT = ''019201c6e007d80c1ab1bf65b98d9902bc767bdd''"

definition NATIVE_RUST_VERSION :: string where
  "NATIVE_RUST_VERSION = ''1.86.0''"

definition newline :: string where
  "newline = [CHR 0x0A]"

definition APPLIED_DIFF_DOMAIN :: string where
  "APPLIED_DIFF_DOMAIN = ''suderra-buildroot-applied-diff-from-patchset-v1'' @ newline"

definition EXTERNAL_DIRTY_EXCLUDES :: "string list" where
  "EXTERNAL_DIRTY_EXCLUDES = [''buildroot'', ''output'', ''dl'', ''.ccache'', ''build-logs'']"

section \<open>Running git\<close>

definition first_text :: "string list \<Rightarrow> string" where
  "first_text ts = (case filter (\<lambda>t. t \<noteq> []) ts of [] \<Rightarrow> [] | t # _ \<Rightarrow> t)"

definition run_unchecked :: "checkout \<Rightarrow> path \<Rightarrow> string list \<Rightarrow> completed run" where
  "run_unchecked env cwd args = (if dir_exists env cwd then Inr (git env cwd args)
     else Inl (ValueError (''No such file or directory: '' @ path_str cwd)))"

definition run_git :: "checkout \<Rightarrow> path \<Rightarrow> string list \<Rightarrow> completed run" where
  "run_git env cwd args = bindE (run_unchecked env cwd args) (\<lambda>r.
     if return_code r = 0 then Inr r
     else Inl (ValueError (first_text [strip (stderr r), strip (stdout r), join '' '' (''git'' # args) @ '' failed''])))"

definition git_stdout :: "checkout \<Rightarrow> path \<Rightarrow> string list \<Rightarrow> string run" where
  "git_stdout env cwd args = bindE (run_git env cwd args) (\<lambda>r. Inr (stdout r))"

definition git_text :: "checkout \<Rightarrow> path \<Rightarrow> string list \<Rightarrow> string run" where
  "git_text env cwd args = bindE (git_stdout env cwd args) (\<lambda>s. Inr (strip s))"

text \<open>\<open>s.split()\<close>: the runs of characters that are not white space.\<close>

fun words_from :: "string \<Rightarrow> string \<Rightarrow> string list" where
  "words_from cur [] = (if cur = [] then [] else [rev cur])"
| "words_from cur (c # s) = (if is_space c then (if cur = [] then [] else [rev cur]) @ words_from [] s
     else words_from (c # cur) s)"

definition words_of :: "string \<Rightarrow> string list" where
  "words_of s = words_from [] s"

text \<open>\<open>s.split(sep, 1)[1]\<close> where \<open>sep in s\<close>.\<close>

fun after_first :: "string \<Rightarrow> string \<Rightarrow> string option" where
  "after_first sep [] = None"
| "after_first sep (c # s) = (if starts_with (c # s) sep then Some (drop (length sep) (c # s)) else after_first sep s)"

section \<open>Patches\<close>

definition patch_paths :: "checkout \<Rightarrow> (string \<times> regular_file) list" where
  "patch_paths env = sort_key fst (filter (\<lambda>nf. ends_with (fst nf) ''.patch'') (patch_dir env))"

definition patch_entry :: "string \<times> regular_file \<Rightarrow> json" where
  "patch_entry nf = JObj [(''path'', JStr (''patches/buildroot/'' @ fst nf)), (''bytes'', JInt (size_of (snd nf))),
     (''sha256'', JStr (sha_of (snd nf)))]"

definition patch_entries :: "checkout \<Rightarrow> json list" where
  "patch_entries env = map patch_entry (patch_paths env)"

definition canonical_patchset_payload :: "json list \<Rightarrow> string" where
  "canonical_patchset_payload entries = dumps (JArr entries)"

definition patchset_sha256 :: "checkout \<Rightarrow> json list \<Rightarrow> string" where
  "patchset_sha256 env entries = sha_text env (canonical_patchset_payload entries)"

definition canonical_applied_diff_sha256 :: "checkout \<Rightarrow> json list \<Rightarrow> string option" where
  "canonical_applied_diff_sha256 env entries =
     (if entries = [] then None else Some (sha_text env (APPLIED_DIFF_DOMAIN @ canonical_patchset_payload entries)))"

text \<open>The files that the headers of a patch name.\<close>

definition touched_by_line :: "string \<Rightarrow> string option" where
  "touched_by_line line = (let v = strip (takeWhile (\<lambda>c. c \<noteq> CHR 0x09) (drop 4 line));
       w = (if starts_with v ''a/'' \<or> starts_with v ''b/'' then drop 2 v else v) in
     if \<not> (starts_with line ''--- '' \<or> starts_with line ''+++ '') \<or> v = ''/dev/null'' \<or> w = [] then None else Some w)"

definition patch_touched_files :: "regular_file \<Rightarrow> string list" where
  "patch_touched_files f = List.map_filter touched_by_line (splitlines (text_content f))"

definition expected_touched_files :: "checkout \<Rightarrow> string list" where
  "expected_touched_files env = concat (map (\<lambda>nf. patch_touched_files (snd nf)) (patch_paths env))"

section \<open>Trees and status\<close>

definition buildroot_index_sha :: "checkout \<Rightarrow> string \<Rightarrow> string run" where
  "buildroot_index_sha env source_sha =
     (if \<not> lower_hex_of_length 40 source_sha
      then Inl (ValueError (''source_sha must be a lowercase git commit sha: '' @ source_sha))
      else bindE (git_text env (repo_root env) [''ls-tree'', source_sha, ''buildroot'']) (\<lambda>t.
        case words_of t of
          mode # kind # sha # _ \<Rightarrow> if kind = ''commit'' then Inr sha
            else Inl (ValueError (''cannot resolve Buildroot submodule for '' @ source_sha))
        | _ \<Rightarrow> Inl (ValueError (''cannot resolve Buildroot submodule for '' @ source_sha))))"

text \<open>One record of \<open>ls-tree -z\<close>: mode, type and object, a tab, the path.\<close>

definition tree_record :: "string \<Rightarrow> json option run" where
  "tree_record raw = (let meta = takeWhile (\<lambda>c. c \<noteq> CHR 0x09) raw; rest = dropWhile (\<lambda>c. c \<noteq> CHR 0x09) raw; p = tl rest in
     if raw = [] then Inr None
     else if rest = [] then Inl (ValueError ''not enough values to unpack'')
     else if list_ex (\<lambda>c. 127 < code c) meta then Inl (ValueError ''ordinal not in range'')
     else case words_of meta of
       [mode, kind, object] \<Rightarrow> Inr (if p = ''buildroot'' \<or> starts_with p ''buildroot/'' then None
         else Some (JObj [(''mode'', JStr mode), (''type'', JStr kind), (''object'', JStr object), (''path'', JStr p)]))
     | _ \<Rightarrow> Inl (ValueError ''wrong number of values to unpack''))"

definition external_tree_entries :: "checkout \<Rightarrow> string \<Rightarrow> json list run" where
  "external_tree_entries env source_sha =
     (if \<not> lower_hex_of_length 40 source_sha
      then Inl (ValueError (''source_sha must be a lowercase git commit sha: '' @ source_sha))
      else bindE (git_stdout env (repo_root env) [''ls-tree'', ''-r'', ''-z'', ''--full-tree'', source_sha]) (\<lambda>t.
        bindE (mapE tree_record (split_on (CHR 0x00) t)) (\<lambda>es. Inr (List.map_filter id es))))"

definition external_tree_sha256 :: "checkout \<Rightarrow> string \<Rightarrow> string run" where
  "external_tree_sha256 env source_sha =
     bindE (external_tree_entries env source_sha) (\<lambda>es. Inr (sha_text env (dumps (JArr es))))"

definition external_status_lines :: "checkout \<Rightarrow> string list run" where
  "external_status_lines env = bindE (git_stdout env (repo_root env)
       ([''status'', ''--porcelain'', ''--untracked-files=all'', ''--'', ''.'']
        @ map (\<lambda>p. '':(exclude)'' @ p) EXTERNAL_DIRTY_EXCLUDES)) (\<lambda>t. Inr (splitlines t))"

definition buildroot_upstream_ref :: "checkout \<Rightarrow> string \<Rightarrow> string run" where
  "buildroot_upstream_ref env base_sha = (if base_sha = NATIVE_BUILDROOT_COMMIT then Inr NATIVE_BUILDROOT_REF
     else bindE (git_stdout env (BUILDROOT_DIR env) [''tag'', ''--points-at'', base_sha]) (\<lambda>t.
       let tags = splitlines t in
       Inr (if NATIVE_BUILDROOT_REF \<in> set tags then NATIVE_BUILDROOT_REF
            else if tags \<noteq> [] then hd tags else base_sha)))"

definition is_git_worktree :: "checkout \<Rightarrow> path \<Rightarrow> bool" where
  "is_git_worktree env p \<longleftrightarrow> dir_exists env p \<and>
     (let r = git env p [''rev-parse'', ''--is-inside-work-tree''] in return_code r = 0 \<and> strip (stdout r) = ''true'')"

definition current_buildroot_diff_sha256 :: "checkout \<Rightarrow> path \<Rightarrow> string option run" where
  "current_buildroot_diff_sha256 env dir = (if \<not> is_git_worktree env dir then Inr None
     else bindE (git_stdout env dir [''diff'', ''--binary'', ''--full-index'']) (\<lambda>d.
       Inr (if d = [] then None else Some (sha_bytes env d))))"

definition buildroot_status_lines :: "checkout \<Rightarrow> path \<Rightarrow> string list run" where
  "buildroot_status_lines env dir = (if \<not> is_git_worktree env dir then Inr []
     else bindE (git_stdout env dir [''status'', ''--porcelain'', ''--untracked-files=all'']) (\<lambda>t. Inr (splitlines t)))"

text \<open>The value of \<open>NAME = value\<close> in a make file.\<close>

definition assigned_value :: "string \<Rightarrow> string \<Rightarrow> string option" where
  "assigned_value name line = (let s = lstrip line; r = lstrip (drop (length name) s);
       v = lstrip (tl r); w = takeWhile (\<lambda>c. \<not> is_space c) v in
     if starts_with s name \<and> r \<noteq> [] \<and> hd r = CHR ''='' \<and> w \<noteq> [] \<and> list_all is_space (drop (length w) v)
     then Some w else None)"

definition read_buildroot_var :: "checkout \<Rightarrow> path \<Rightarrow> string \<Rightarrow> string \<Rightarrow> string option" where
  "read_buildroot_var env dir rel name = (case tree_files env (path_join dir (path_of rel)) of
     None \<Rightarrow> None
   | Some f \<Rightarrow> (case List.map_filter (assigned_value name) (splitlines (text_content f)) of
       [] \<Rightarrow> None | v # _ \<Rightarrow> Some v))"

section \<open>Identities\<close>

definition release_source_text :: "string \<Rightarrow> string \<Rightarrow> string \<Rightarrow> string" where
  "release_source_text source_sha external effective =
     ''suderra-release-source-identity-v1'' @ newline @ ''source:'' @ source_sha @ newline
     @ ''external-tree:'' @ external @ newline @ ''buildroot-effective:'' @ effective @ newline"

definition release_source_id :: "checkout \<Rightarrow> string \<Rightarrow> string \<Rightarrow> string \<Rightarrow> string" where
  "release_source_id env source_sha external effective = sha_text env (release_source_text source_sha external effective)"

definition effective_source_text :: "string \<Rightarrow> string \<Rightarrow> string option \<Rightarrow> string \<Rightarrow> string \<Rightarrow> string" where
  "effective_source_text base_sha patchset diff upstream mode =
     ''buildroot-source-identity-v2'' @ newline @ ''index:'' @ base_sha @ newline
     @ ''upstream-ref:'' @ upstream @ newline @ ''source-mode:'' @ mode @ newline
     @ ''patchset:'' @ patchset @ newline
     @ ''diff-identity:'' @ (case or_else diff (Some ''none'') of None \<Rightarrow> [] | Some d \<Rightarrow> d) @ newline"

definition effective_source_id :: "checkout \<Rightarrow> string \<Rightarrow> string \<Rightarrow> string option \<Rightarrow> string \<Rightarrow> string \<Rightarrow> string" where
  "effective_source_id env base_sha patchset diff upstream mode =
     sha_text env (effective_source_text base_sha patchset diff upstream mode)"

definition opt_json :: "string option \<Rightarrow> json" where
  "opt_json v = (case v of None \<Rightarrow> JNull | Some s \<Rightarrow> JStr s)"

definition diff_fields :: "checkout \<Rightarrow> json list \<Rightarrow> string option \<Rightarrow> obj" where
  "diff_fields env entries diff =
     (if entries \<noteq> [] then
        (case diff of
           Some d \<Rightarrow> [(''buildroot_expected_diff_sha256'', JStr d), (''buildroot_staged_diff_sha256'', JStr d),
             (''buildroot_applied_diff_sha256'', JStr d)]
         | None \<Rightarrow> [(''buildroot_expected_diff_sha256'', opt_json (canonical_applied_diff_sha256 env entries))])
      else (case diff of Some d \<Rightarrow> [(''buildroot_worktree_diff_sha256'', JStr d)] | None \<Rightarrow> []))"

definition source_mode_of :: "json list \<Rightarrow> string" where
  "source_mode_of entries = (if entries \<noteq> [] then ''staged-patched-tree'' else ''clean-native'')"

definition metadata_payload ::
  "checkout \<Rightarrow> path \<Rightarrow> string \<Rightarrow> string \<Rightarrow> string \<Rightarrow> string option \<Rightarrow> string \<Rightarrow> string list \<Rightarrow> obj" where
  "metadata_payload env dir source_sha base_sha upstream diff external dirty = (let entries = patch_entries env;
       patchset = patchset_sha256 env entries; mode = source_mode_of entries;
       effective = effective_source_id env base_sha patchset (if entries \<noteq> [] then diff else None) upstream mode in
     [(''schema_version'', JStr BUILDROOT_IDENTITY_SCHEMA),
      (''suderra_source_sha'', JStr source_sha),
      (''suderra_external_tree_sha256'', JStr external),
      (''suderra_external_dirty_paths'', JArr (map JStr dirty)),
      (''suderra_release_source_id'', JStr (release_source_id env source_sha external effective)),
      (''buildroot_index_sha'', JStr base_sha),
      (''buildroot_upstream_ref'', JStr upstream),
      (''buildroot_source_mode'', JStr mode),
      (''buildroot_patchset_sha256'', JStr patchset),
      (''buildroot_patch_files'', JArr entries),
      (''buildroot_effective_source_id'', JStr effective),
      (''buildroot_expected_patched'', JBool (entries \<noteq> [])),
      (''buildroot_rust_version'', opt_json (read_buildroot_var env dir ''package/rust/rust.mk'' ''RUST_VERSION'')),
      (''buildroot_rust_bin_version'',
        opt_json (read_buildroot_var env dir ''package/rust-bin/rust-bin.mk'' ''RUST_BIN_VERSION''))]
     @ diff_fields env entries diff)"

definition metadata :: "checkout \<Rightarrow> string \<Rightarrow> path \<Rightarrow> obj run" where
  "metadata env source_sha dir =
     bindE (buildroot_index_sha env source_sha) (\<lambda>base_sha.
     bindE (buildroot_upstream_ref env base_sha) (\<lambda>upstream.
     bindE (current_buildroot_diff_sha256 env dir) (\<lambda>diff.
     bindE (external_tree_sha256 env source_sha) (\<lambda>external.
     bindE (external_status_lines env) (\<lambda>dirty.
       Inr (metadata_payload env dir source_sha base_sha upstream diff external dirty))))))"

section \<open>The applied patches\<close>

definition status_failure :: "string list \<Rightarrow> string \<Rightarrow> string list" where
  "status_failure expected line = (let status = take 2 line; whole = strip (drop 3 line);
       rel = (case after_first '' -> '' whole of None \<Rightarrow> whole | Some r \<Rightarrow> r) in
     if rel \<notin> set expected then [''unexpected Buildroot dirty path: '' @ status @ '' '' @ rel]
     else report (strip status \<notin> {''M'', ''A'', ''D'', ''R'', ''C''})
       (''unexpected Buildroot status for patch-managed path: '' @ status @ '' '' @ rel))"

definition patch_failure :: "checkout \<Rightarrow> path \<Rightarrow> string \<Rightarrow> string list" where
  "patch_failure env dir name = (let p = path_str (path_join (repo_root env) (path_of (''patches/buildroot/'' @ name)));
       plain = git env dir [''apply'', ''--reverse'', ''--check'', p];
       zero = git env dir [''apply'', ''--unidiff-zero'', ''--reverse'', ''--check'', p] in
     report (return_code plain \<noteq> 0 \<and> return_code zero \<noteq> 0)
       (''Buildroot patch is not applied cleanly: '' @ name @ '': '' @ strip (stderr zero)))"

definition applied_failures :: "checkout \<Rightarrow> path \<Rightarrow> string \<Rightarrow> string \<Rightarrow> string list \<Rightarrow> string list" where
  "applied_failures env dir actual expected lines =
     report (actual \<noteq> expected) (''Buildroot HEAD '' @ actual @ '' does not match index '' @ expected)
     @ (let files = expected_touched_files env in
        if files = [] then report (lines \<noteq> []) ''clean-native Buildroot source must not be dirty''
        else concat (map (status_failure files) lines)
          @ concat (map (\<lambda>nf. patch_failure env dir (fst nf)) (rev (patch_paths env)))
          @ report (patch_paths env \<noteq> [] \<and> lines = [])
              ''Buildroot patch set exists but submodule has no applied patch diff'')"

definition validate_applied :: "checkout \<Rightarrow> string \<Rightarrow> path \<Rightarrow> string list run" where
  "validate_applied env source_sha dir =
     (if \<not> dir_exists env dir then Inr [''Buildroot source not found: '' @ path_str dir]
      else if \<not> is_git_worktree env dir then Inr [''Buildroot source is not a git worktree: '' @ path_str dir]
      else case buildroot_index_sha env source_sha of
        Inl (ValueError m) \<Rightarrow> Inr [m]
      | Inl e \<Rightarrow> Inl e
      | Inr expected \<Rightarrow>
          bindE (git_text env dir [''rev-parse'', ''HEAD'']) (\<lambda>actual.
          bindE (buildroot_status_lines env dir) (\<lambda>lines. Inr (applied_failures env dir actual expected lines))))"

end
