(* ===== verification/BuildrootCheck.thy ===== *)
theory BuildrootCheck
  imports BuildrootIdentity
begin

text \<open>
  \<open>validate_metadata_payload\<close> of \<open>scripts/ci/buildroot-patch-identity.py\<close>: the checks of a
  recorded Buildroot source identity. The digests are recomputed from the recorded fields, and
  the external tree from the repository where the commit is there.
\<close>

section \<open>Fields\<close>

definition id_commit :: "string \<Rightarrow> json \<Rightarrow> string list" where
  "id_commit f v = report (\<not> commit_text v) (f @ '' must be a lowercase git commit sha'')"

definition id_sha256 :: "string \<Rightarrow> json \<Rightarrow> string list" where
  "id_sha256 f v = report (\<not> sha256_text v) (f @ '' must be a lowercase sha256'')"

definition identity_digests :: "obj \<Rightarrow> string list" where
  "identity_digests payload =
     report (dict_get payload ''schema_version'' \<noteq> JStr BUILDROOT_IDENTITY_SCHEMA)
       (''schema_version must be '' @ BUILDROOT_IDENTITY_SCHEMA)
     @ id_commit ''buildroot_index_sha'' (dict_get payload ''buildroot_index_sha'')
     @ id_sha256 ''buildroot_effective_source_id'' (dict_get payload ''buildroot_effective_source_id'')
     @ id_commit ''suderra_source_sha'' (dict_get payload ''suderra_source_sha'')
     @ id_sha256 ''suderra_external_tree_sha256'' (dict_get payload ''suderra_external_tree_sha256'')
     @ id_sha256 ''suderra_release_source_id'' (dict_get payload ''suderra_release_source_id'')"

definition indexed :: "string \<Rightarrow> nat \<Rightarrow> string" where
  "indexed f i = f @ ''['' @ nat_str i @ '']''"

definition dirty_paths_check :: "json \<Rightarrow> string list" where
  "dirty_paths_check v = (let f = ''suderra_external_dirty_paths'' in
     if \<not> is_list v then [f @ '' must be a list'']
     else concat (map (\<lambda>iv. report (\<not> nonempty_str (snd iv)) (indexed f (fst iv) @ '' must be a non-empty string''))
       (enumerate 0 (elems v))))"

text \<open>The patch files: the messages, with the paths seen before as state.\<close>

definition patch_file_path :: "string \<Rightarrow> string list \<Rightarrow> json \<Rightarrow> string list \<times> string list" where
  "patch_file_path q seen v = (if inner_path v = None then ([q @ ''.path must be relative''], seen)
     else if text_of v \<in> set seen then ([''duplicate Buildroot patch path: '' @ text_of v], seen)
     else ([], text_of v # seen))"

fun patch_files_loop :: "string list \<Rightarrow> nat \<Rightarrow> json list \<Rightarrow> string list" where
  "patch_files_loop seen i [] = []"
| "patch_files_loop seen i (v # vs) = (let q = indexed ''buildroot_patch_files'' i; item = members v;
       (fs, seen') = patch_file_path q seen (dict_get item ''path'') in
     if \<not> is_obj v then [q @ '' must be an object''] @ patch_files_loop seen (Suc i) vs
     else fs
       @ report (\<not> int_above 0 (dict_get item ''bytes'')) (q @ ''.bytes must be positive'')
       @ report (\<not> sha256_text (dict_get item ''sha256'')) (q @ ''.sha256 must be a lowercase sha256'')
       @ patch_files_loop seen' (Suc i) vs)"

definition patch_files_check :: "json \<Rightarrow> string list" where
  "patch_files_check v = (if \<not> is_list v then [''buildroot_patch_files must be a list''] else patch_files_loop [] 0 (elems v))"

definition SOURCE_MODES :: "string list" where
  "SOURCE_MODES = [''clean-native'', ''staged-patched-tree'']"

definition rust_versions_check :: "obj \<Rightarrow> string list" where
  "rust_versions_check payload = concat (map (\<lambda>f. let v = dict_get payload f in
       report (v \<noteq> JNull \<and> v \<noteq> JStr NATIVE_RUST_VERSION) (f @ '' must be '' @ NATIVE_RUST_VERSION))
     [''buildroot_rust_version'', ''buildroot_rust_bin_version''])"

text \<open>A digest that is not all zeros.\<close>

definition nonzero_sha256 :: "json \<Rightarrow> bool" where
  "nonzero_sha256 v \<longleftrightarrow> sha256_text v \<and> text_of v \<noteq> replicate 64 (CHR ''0'')"

definition optional_digests :: "obj \<Rightarrow> string list" where
  "optional_digests payload = concat (map (\<lambda>f. let v = dict_get payload f in
       report (v \<noteq> JNull \<and> \<not> nonzero_sha256 v) (f @ '' must be a non-zero lowercase sha256 when present''))
     [''buildroot_applied_diff_sha256'', ''buildroot_worktree_diff_sha256'',
      ''buildroot_expected_diff_sha256'', ''buildroot_staged_diff_sha256''])"

section \<open>Source modes\<close>

definition clean_native_check :: "obj \<Rightarrow> string list" where
  "clean_native_check payload =
     report (dict_get payload ''buildroot_index_sha'' \<noteq> JStr NATIVE_BUILDROOT_COMMIT)
       (''clean-native Buildroot source must be '' @ NATIVE_BUILDROOT_REF @ '' ('' @ NATIVE_BUILDROOT_COMMIT @ '')'')
     @ report (dict_get payload ''buildroot_upstream_ref'' \<noteq> JStr NATIVE_BUILDROOT_REF)
       (''clean-native Buildroot source must bind upstream ref '' @ NATIVE_BUILDROOT_REF)
     @ report (dict_get payload ''buildroot_expected_patched'' \<noteq> JBool False)
       ''clean-native Buildroot source must not be marked patched''
     @ report (dict_get payload ''buildroot_patch_files'' \<notin> {JArr [], JNull})
       ''clean-native Buildroot source must not list patch files''
     @ concat (map (\<lambda>f. report (dict_get payload f \<noteq> JNull) (''clean-native Buildroot source must not include '' @ f))
       [''buildroot_applied_diff_sha256'', ''buildroot_worktree_diff_sha256'',
        ''buildroot_expected_diff_sha256'', ''buildroot_staged_diff_sha256''])"

definition staged_tree_check :: "obj \<Rightarrow> string list" where
  "staged_tree_check payload = (let expected = dict_get payload ''buildroot_expected_diff_sha256'';
       staged = dict_get payload ''buildroot_staged_diff_sha256'' in
     report (dict_get payload ''buildroot_expected_patched'' \<noteq> JBool True)
       ''staged-patched-tree Buildroot source must be marked patched''
     @ report (\<not> truthy (dict_get payload ''buildroot_patch_files''))
       ''staged-patched-tree Buildroot source must list patch files''
     @ report (\<not> truthy (dict_get payload ''buildroot_applied_diff_sha256''))
       ''buildroot_applied_diff_sha256 is required when Buildroot patches are expected''
     @ (if \<not> truthy expected \<or> \<not> truthy staged
        then [''staged-patched-tree Buildroot source must include expected and staged diff digests'']
        else report (\<not> py_eq expected staged) ''buildroot_staged_diff_sha256 must match buildroot_expected_diff_sha256''))"

definition source_mode_check :: "obj \<Rightarrow> string list" where
  "source_mode_check payload = (let mode = dict_get payload ''buildroot_source_mode'' in
     if mode = JStr ''clean-native'' then clean_native_check payload
     else if mode = JStr ''staged-patched-tree'' then staged_tree_check payload else [])"

section \<open>Recomputed identities\<close>

definition effective_check :: "checkout \<Rightarrow> obj \<Rightarrow> string list" where
  "effective_check env payload = (let index = dict_get payload ''buildroot_index_sha'';
       digest = dict_get payload ''buildroot_patchset_sha256''; effective = dict_get payload ''buildroot_effective_source_id'';
       upstream = dict_get payload ''buildroot_upstream_ref''; mode = dict_get payload ''buildroot_source_mode'';
       staged = dict_get payload ''buildroot_staged_diff_sha256'';
       diff = (if mode = JStr ''staged-patched-tree'' then str_option staged else None) in
     report (commit_text index \<and> sha256_text digest \<and> is_str effective \<and> is_str upstream \<and> is_str mode \<and>
         effective \<noteq> JStr (effective_source_id env (text_of index) (text_of digest) diff (text_of upstream) (text_of mode)))
       ''buildroot_effective_source_id must bind index, upstream ref, mode, patchset, and diff identity'')"

definition release_id_check :: "checkout \<Rightarrow> obj \<Rightarrow> string list run" where
  "release_id_check env payload = (let source_sha = dict_get payload ''suderra_source_sha'';
       external = dict_get payload ''suderra_external_tree_sha256'';
       effective = dict_get payload ''buildroot_effective_source_id''; release_id = dict_get payload ''suderra_release_source_id'' in
     if commit_text source_sha \<and> sha256_text external \<and> sha256_text effective \<and> is_str release_id then
       bindE (run_unchecked env (repo_root env) [''cat-file'', ''-e'', text_of source_sha @ ''^{commit}'']) (\<lambda>known.
       bindE (if return_code known = 0 then bindE (external_tree_sha256 env (text_of source_sha)) (\<lambda>d. Inr (Some d)) else Inr None)
         (\<lambda>recomputed. Inr
         (report (release_id \<noteq> JStr (release_source_id env (text_of source_sha) (text_of external) (text_of effective)))
            ''suderra_release_source_id must bind source SHA, external tree, and Buildroot effective source''
          @ (case recomputed of None \<Rightarrow> [] | Some d \<Rightarrow> report (external \<noteq> JStr d)
            ''suderra_external_tree_sha256 must match the source SHA git tree excluding buildroot''))))
     else Inr [])"

definition validate_metadata_payload :: "checkout \<Rightarrow> obj \<Rightarrow> string list run" where
  "validate_metadata_payload env payload = collectE
     [Inr (identity_digests payload
        @ dirty_paths_check (dict_get payload ''suderra_external_dirty_paths'')
        @ id_sha256 ''buildroot_patchset_sha256'' (dict_get payload ''buildroot_patchset_sha256'')
        @ patch_files_check (dict_get payload ''buildroot_patch_files'')
        @ report (\<not> is_bool (dict_get payload ''buildroot_expected_patched''))
            ''buildroot_expected_patched must be true or false''
        @ report (\<not> nonempty_str (dict_get payload ''buildroot_upstream_ref''))
            ''buildroot_upstream_ref must be a non-empty string''),
      bindE (in_str_set (dict_get payload ''buildroot_source_mode'') SOURCE_MODES) (\<lambda>known.
        Inr (report (\<not> known) ''buildroot_source_mode must be clean-native or staged-patched-tree'')),
      Inr (rust_versions_check payload @ optional_digests payload @ source_mode_check payload @ effective_check env payload),
      release_id_check env payload]"

section \<open>Commands\<close>

text \<open>
  The two commands of \<open>main\<close>: what is printed on success, or the failures. An exception ends
  the command with a trace.
\<close>

definition metadata_command :: "checkout \<Rightarrow> string \<Rightarrow> path \<Rightarrow> (string list + obj) run" where
  "metadata_command env source_sha dir = bindE (metadata env source_sha dir) (\<lambda>payload.
     bindE (validate_metadata_payload env payload) (\<lambda>failures.
       Inr (if failures \<noteq> [] then Inl failures else Inr payload)))"

definition validate_applied_command :: "checkout \<Rightarrow> string \<Rightarrow> path \<Rightarrow> (string list + string) run" where
  "validate_applied_command env source_sha dir = bindE (validate_applied env source_sha dir) (\<lambda>failures.
     Inr (if failures \<noteq> [] then Inl failures else Inr ''validated Buildroot patch identity''))"

end
