(* ===== verification/BuildrootProps.thy ===== *)
theory BuildrootProps
  imports BuildrootCheck
begin

text \<open>
  Which checkouts give an identity that validates, what an accepted identity binds, and what
  \<open>validate-applied\<close> guarantees of the Buildroot worktree.
\<close>

section \<open>Checks that report nothing\<close>

lemma id_sha256_nil [no_report]: "id_sha256 f v = [] \<longleftrightarrow> sha256_text v"
  by (simp add: id_sha256_def)

lemma id_commit_nil [no_report]: "id_commit f v = [] \<longleftrightarrow> commit_text v"
  by (simp add: id_commit_def)

definition file_path :: "json \<Rightarrow> string" where
  "file_path v = text_of (dict_get (members v) ''path'')"

definition patch_file_ok :: "json \<Rightarrow> bool" where
  "patch_file_ok v \<longleftrightarrow> is_obj v \<and> inner_path (dict_get (members v) ''path'') \<noteq> None \<and>
     int_above 0 (dict_get (members v) ''bytes'') \<and> sha256_text (dict_get (members v) ''sha256'')"

lemma patch_files_loop_nil [no_report]:
  "patch_files_loop seen i vs = [] \<longleftrightarrow>
     list_all patch_file_ok vs \<and> distinct (map file_path vs) \<and> set (map file_path vs) \<inter> set seen = {}"
proof (induction vs arbitrary: seen i)
  case (Cons v vs)
  show ?case
    by (auto simp: Cons.IH patch_file_path_def patch_file_ok_def file_path_def Let_def split: prod.splits if_splits)
qed simp

lemma patch_files_check_nil [no_report]:
  "patch_files_check v = [] \<longleftrightarrow> (\<exists>vs. v = JArr vs \<and> list_all patch_file_ok vs \<and> distinct (map file_path vs))"
  by (cases v) (auto simp: patch_files_check_def patch_files_loop_nil)

lemma dirty_paths_nil [no_report]:
  "dirty_paths_check v = [] \<longleftrightarrow> (\<exists>vs. v = JArr vs \<and> list_all nonempty_str vs)"
proof -
  have "(\<forall>iv\<in>set (enumerate 0 vs). nonempty_str (snd iv)) \<longleftrightarrow> list_all nonempty_str vs" for vs
    using set_map [of snd "enumerate 0 vs"] by (force simp: list_all_iff simp del: set_map)
  then show ?thesis by (cases v) (auto simp: dirty_paths_check_def concat_map_nil Let_def)
qed

lemma sha256_text_JStr [simp]: "sha256_text (JStr s) \<longleftrightarrow> lower_hex_of_length 64 s"
  by (simp add: sha256_text_iff)

lemma commit_text_JStr [simp]: "commit_text (JStr s) \<longleftrightarrow> lower_hex_of_length 40 s"
  by (simp add: commit_text_iff)

lemma sha256_text_none [simp]: "\<not> sha256_text JNull"
  by (simp add: sha256_text_def)

text \<open>Git either knows a commit, and the tree can be listed, or it does not.\<close>

lemma release_id_check_nil:
  assumes "commit_text (JStr s)" and "dir_exists env (repo_root env)" and "external_tree_sha256 env s = Inr e"
    and "sha256_text (JStr e)" and "sha256_text (JStr eff)"
    and "dict_get payload ''suderra_source_sha'' = JStr s" and "dict_get payload ''suderra_external_tree_sha256'' = JStr e"
    and "dict_get payload ''buildroot_effective_source_id'' = JStr eff"
    and "dict_get payload ''suderra_release_source_id'' = JStr (release_source_id env s e eff)"
  shows "release_id_check env payload = Inr []"
  using assms by (auto simp: release_id_check_def run_unchecked_def Let_def report_def)

section \<open>The metadata of a checkout\<close>

lemma patch_name_relative:
  assumes "ends_with n ''.patch''" and "CHR ''/'' \<notin> set n"
  shows "inner_path (JStr (''patches/buildroot/'' @ n)) \<noteq> None"
proof -
  have "n \<noteq> ''..''" and "n \<noteq> ''.''" and "n \<noteq> []"
    using assms(1) by (auto simp: ends_with_def starts_with_def)
  moreover have "split_on (CHR ''/'') (''patches/buildroot/'' @ n) = [''patches'', ''buildroot'', n]"
    using split_on_append_sep [of "CHR ''/''" "''patches''" "''buildroot/'' @ n"]
      split_on_append_sep [of "CHR ''/''" "''buildroot''" n] split_on_id [OF assms(2)] by simp
  ultimately show ?thesis by (simp add: inner_path_def path_of_def starts_with_def Let_def)
qed

lemma patch_entries_ok:
  assumes "\<And>n f. (n, f) \<in> set (patch_dir env) \<Longrightarrow> CHR ''/'' \<notin> set n \<and> 0 < size_of f \<and> lower_hex_of_length 64 (sha_of f)"
    and "distinct (map fst (patch_dir env))"
  shows "list_all patch_file_ok (patch_entries env) \<and> distinct (map file_path (patch_entries env))"
proof -
  have ok: "patch_file_ok (patch_entry nf)" if "nf \<in> set (patch_paths env)" for nf
  proof -
    obtain n f where nf: "nf = (n, f)" by (cases nf)
    then have "(n, f) \<in> set (patch_dir env)" "ends_with n ''.patch''" using that by (auto simp: patch_paths_def)
    with assms(1) patch_name_relative show ?thesis
      by (auto simp: patch_file_ok_def patch_entry_def dict_get_def nf int_above_def)
  qed
  have names: "map file_path (patch_entries env) = map (\<lambda>nf. ''patches/buildroot/'' @ fst nf) (patch_paths env)"
    by (simp add: patch_entries_def patch_entry_def file_path_def dict_get_def o_def)
  have dist: "distinct (map (\<lambda>nf. ''patches/buildroot/'' @ fst nf) (patch_paths env))"
  proof -
    have "distinct (map fst (filter (\<lambda>nf. ends_with (fst nf) ''.patch'') (patch_dir env)))"
      using assms(2) by (rule distinct_map_filter)
    then have "distinct (map fst (patch_paths env))"
      by (simp add: patch_paths_def distinct_map inj_on_def)
    then show ?thesis by (simp add: distinct_map inj_on_def)
  qed
  show ?thesis
  proof
    show "list_all patch_file_ok (patch_entries env)" using ok by (simp add: patch_entries_def list_all_iff)
    show "distinct (map file_path (patch_entries env))" unfolding names by (rule dist)
  qed
qed

lemma metadata_returns:
  assumes "metadata env s dir = Inr payload"
  obtains base upstream diff external dirty where "buildroot_index_sha env s = Inr base"
    "buildroot_upstream_ref env base = Inr upstream" "current_buildroot_diff_sha256 env dir = Inr diff"
    "external_tree_sha256 env s = Inr external" "external_status_lines env = Inr dirty"
    "payload = metadata_payload env dir s base upstream diff external dirty"
  using assms unfolding metadata_def by (elim run_elims) (simp add: that)

abbreviation effective_of :: "checkout \<Rightarrow> string \<Rightarrow> string \<Rightarrow> string option \<Rightarrow> string" where
  "effective_of env base upstream diff \<equiv> effective_source_id env base (patchset_sha256 env (patch_entries env))
     (if patch_entries env \<noteq> [] then diff else None) upstream (source_mode_of (patch_entries env))"

lemma metadata_lookup:
  assumes p: "p = metadata_payload env dir s base upstream diff external dirty"
  shows "dict_get p ''schema_version'' = JStr BUILDROOT_IDENTITY_SCHEMA"
    and "dict_get p ''suderra_source_sha'' = JStr s"
    and "dict_get p ''suderra_external_tree_sha256'' = JStr external"
    and "dict_get p ''suderra_external_dirty_paths'' = JArr (map JStr dirty)"
    and "dict_get p ''suderra_release_source_id'' = JStr (release_source_id env s external (effective_of env base upstream diff))"
    and "dict_get p ''buildroot_index_sha'' = JStr base"
    and "dict_get p ''buildroot_upstream_ref'' = JStr upstream"
    and "dict_get p ''buildroot_source_mode'' = JStr (source_mode_of (patch_entries env))"
    and "dict_get p ''buildroot_patchset_sha256'' = JStr (patchset_sha256 env (patch_entries env))"
    and "dict_get p ''buildroot_patch_files'' = JArr (patch_entries env)"
    and "dict_get p ''buildroot_effective_source_id'' = JStr (effective_of env base upstream diff)"
    and "dict_get p ''buildroot_expected_patched'' = JBool (patch_entries env \<noteq> [])"
    and "dict_get p ''buildroot_rust_version'' = opt_json (read_buildroot_var env dir ''package/rust/rust.mk'' ''RUST_VERSION'')"
    and "dict_get p ''buildroot_rust_bin_version'' =
      opt_json (read_buildroot_var env dir ''package/rust-bin/rust-bin.mk'' ''RUST_BIN_VERSION'')"
    and "dict_get p ''buildroot_applied_diff_sha256'' = dict_get (diff_fields env (patch_entries env) diff) ''buildroot_applied_diff_sha256''"
    and "dict_get p ''buildroot_worktree_diff_sha256'' = dict_get (diff_fields env (patch_entries env) diff) ''buildroot_worktree_diff_sha256''"
    and "dict_get p ''buildroot_expected_diff_sha256'' = dict_get (diff_fields env (patch_entries env) diff) ''buildroot_expected_diff_sha256''"
    and "dict_get p ''buildroot_staged_diff_sha256'' = dict_get (diff_fields env (patch_entries env) diff) ''buildroot_staged_diff_sha256''"
  by (simp_all add: p metadata_payload_def dict_get_def Let_def)

lemma diff_field_values:
  "dict_get (diff_fields env es diff) ''buildroot_applied_diff_sha256'' = opt_json (if es = [] then None else diff)"
  "dict_get (diff_fields env es diff) ''buildroot_staged_diff_sha256'' = opt_json (if es = [] then None else diff)"
  "dict_get (diff_fields env es diff) ''buildroot_worktree_diff_sha256'' = opt_json (if es = [] then diff else None)"
  "dict_get (diff_fields env es diff) ''buildroot_expected_diff_sha256'' =
     opt_json (if es = [] then None else if diff = None then canonical_applied_diff_sha256 env es else diff)"
  by (auto simp: diff_fields_def dict_get_def opt_json_def split: option.splits)

text \<open>The rust versions that the make files of the Buildroot tree name, if any, are the native one.\<close>

definition native_rust :: "checkout \<Rightarrow> path \<Rightarrow> bool" where
  "native_rust env dir \<longleftrightarrow> read_buildroot_var env dir ''package/rust/rust.mk'' ''RUST_VERSION'' \<in> {None, Some NATIVE_RUST_VERSION} \<and>
     read_buildroot_var env dir ''package/rust-bin/rust-bin.mk'' ''RUST_BIN_VERSION'' \<in> {None, Some NATIVE_RUST_VERSION}"

lemma opt_json_simps [simp]:
  "opt_json v = JNull \<longleftrightarrow> v = None" "opt_json v = JStr s \<longleftrightarrow> v = Some s" "JStr s = opt_json v \<longleftrightarrow> v = Some s"
  by (auto simp: opt_json_def split: option.splits)

text \<open>What the two modes ask of a metadata payload.\<close>

definition good_mode :: "checkout \<Rightarrow> string \<Rightarrow> string \<Rightarrow> string option \<Rightarrow> bool" where
  "good_mode env base upstream diff \<longleftrightarrow> (if patch_paths env = [] then base = NATIVE_BUILDROOT_COMMIT \<and> diff = None
     else \<exists>d. diff = Some d \<and> d \<noteq> replicate 64 (CHR ''0'') \<and> lower_hex_of_length 40 base \<and> upstream \<noteq> [])"

lemma patch_entries_Nil [simp]: "patch_entries env = [] \<longleftrightarrow> patch_paths env = []"
  by (simp add: patch_entries_def)

lemma native_commit: "lower_hex_of_length 40 NATIVE_BUILDROOT_COMMIT"
  by code_simp

lemma mode_checks_nil:
  assumes p: "p = metadata_payload env dir s base upstream diff external dirty"
    and "buildroot_upstream_ref env base = Inr upstream"
    and diff: "\<And>d. diff = Some d \<Longrightarrow> lower_hex_of_length 64 d"
    and sha: "\<And>t. lower_hex_of_length 64 (sha_text env t)"
  shows "optional_digests p = [] \<and> source_mode_check p = [] \<and> commit_text (dict_get p ''buildroot_index_sha'') \<and>
      nonempty_str (dict_get p ''buildroot_upstream_ref'') \<longleftrightarrow> good_mode env base upstream diff"
proof (cases "patch_paths env = []")
  case True
  have "upstream = NATIVE_BUILDROOT_REF" if "base = NATIVE_BUILDROOT_COMMIT"
    using assms(2) that by (simp add: buildroot_upstream_ref_def)
  moreover have "NATIVE_BUILDROOT_REF \<noteq> []" by (simp add: NATIVE_BUILDROOT_REF_def)
  ultimately show ?thesis using True native_commit diff
    by (auto simp: good_mode_def optional_digests_def source_mode_check_def clean_native_check_def source_mode_of_def
        metadata_lookup [OF p] diff_field_values nonempty_str_def no_report)
next
  case False
  have zero: "\<not> lower_hex_of_length 64 []" by (simp add: lower_hex_of_length_def)
  have "d \<noteq> []" if "diff = Some d" for d using diff [OF that] zero by auto
  with False diff show ?thesis
    by (auto simp: good_mode_def optional_digests_def source_mode_check_def staged_tree_check_def source_mode_of_def
        metadata_lookup [OF p] diff_field_values nonempty_str_def nonzero_sha256_def no_report Let_def opt_json_def
        split: option.splits)
qed

text \<open>
  C39. A checkout's metadata validates exactly when the checkout is one of the two admissible
  kinds: the native Buildroot commit with no patch and a clean worktree, or a patched tree with
  a diff in its worktree, a resolvable commit and a named upstream; and the tree's make files
  name no other Rust version. Digests are 64 lower-case hexadecimal digits, as SHA-256 gives
  them; the patch files are the non-empty files of one directory.
\<close>

theorem metadata_verdict:
  assumes "metadata env s dir = Inr p" and "dir_exists env (repo_root env)"
    and sha: "\<And>t. lower_hex_of_length 64 (sha_text env t)" "\<And>t. lower_hex_of_length 64 (sha_bytes env t)"
    and patches: "\<And>n f. (n, f) \<in> set (patch_dir env) \<Longrightarrow> CHR ''/'' \<notin> set n \<and> 0 < size_of f \<and> lower_hex_of_length 64 (sha_of f)"
      "distinct (map fst (patch_dir env))"
  shows "validate_metadata_payload env p = Inr [] \<longleftrightarrow> (\<exists>base upstream diff dirty.
    buildroot_index_sha env s = Inr base \<and> buildroot_upstream_ref env base = Inr upstream \<and>
    current_buildroot_diff_sha256 env dir = Inr diff \<and> external_status_lines env = Inr dirty \<and>
    good_mode env base upstream diff \<and> native_rust env dir \<and> [] \<notin> set dirty)"
proof -
  obtain base upstream diff external dirty where runs: "buildroot_index_sha env s = Inr base"
      "buildroot_upstream_ref env base = Inr upstream" "current_buildroot_diff_sha256 env dir = Inr diff"
      "external_tree_sha256 env s = Inr external" "external_status_lines env = Inr dirty"
    and p: "p = metadata_payload env dir s base upstream diff external dirty"
    using assms(1) by (rule metadata_returns)
  note look = metadata_lookup [OF p]
  have s: "lower_hex_of_length 40 s" using runs(1) by (simp add: buildroot_index_sha_def split: if_splits)
  have hex: "lower_hex_of_length 64 external" "lower_hex_of_length 64 (effective_source_id env a b c d e)"
      "lower_hex_of_length 64 (patchset_sha256 env es)" "lower_hex_of_length 64 (release_source_id env a b f)" for a b c d e f es
    using runs(4) sha(1)
    by (auto simp: external_tree_sha256_def run_ok effective_source_id_def patchset_sha256_def release_source_id_def)
  have diff: "lower_hex_of_length 64 d" if "diff = Some d" for d
    using runs(3) sha(2) that by (auto simp: current_buildroot_diff_sha256_def run_ok split: if_splits)
  have "release_id_check env p = Inr []"
    by (rule release_id_check_nil [of s _ external "effective_of env base upstream diff"])
      (simp_all add: s hex look runs assms(2) del: if_split)
  moreover have "effective_check env p = []"
    by (simp add: effective_check_def look diff_field_values source_mode_of_def str_option_def opt_json_def Let_def
        no_report split: option.splits)
  moreover have "patch_files_check (dict_get p ''buildroot_patch_files'') = []"
    using patch_entries_ok [OF patches] by (simp add: look patch_files_check_nil)
  moreover have "in_str_set (dict_get p ''buildroot_source_mode'') SOURCE_MODES = (Inr True :: bool run)"
    by (simp add: look source_mode_of_def in_str_set_def SOURCE_MODES_def)
  moreover have "identity_digests p = [] \<longleftrightarrow> commit_text (dict_get p ''buildroot_index_sha'')"
    by (simp add: identity_digests_def look s hex no_report)
  moreover have "dirty_paths_check (dict_get p ''suderra_external_dirty_paths'') = [] \<longleftrightarrow> [] \<notin> set dirty"
    by (auto simp: look dirty_paths_nil list_all_iff nonempty_str_def)
  moreover have "rust_versions_check p = [] \<longleftrightarrow> native_rust env dir"
    by (auto simp: rust_versions_check_def look native_rust_def no_report Let_def)
  ultimately have "validate_metadata_payload env p = Inr [] \<longleftrightarrow>
      good_mode env base upstream diff \<and> native_rust env dir \<and> [] \<notin> set dirty"
    using mode_checks_nil [OF p runs(2) diff sha(1)]
    by (auto simp: validate_metadata_payload_def look hex no_report simp del: collectE.simps simp: collectE_nil)
  with runs show ?thesis by auto
qed

section \<open>What an identity binds\<close>

lemma release_source_text_inject:
  assumes "release_source_text a b c = release_source_text a' b' c'" and "length a = length a'" and "length b = length b'"
  shows "a = a' \<and> b = b' \<and> c = c'"
  using assms by (simp add: release_source_text_def newline_def)

lemma none_not_digest:
  assumes "x @ ''none'' = y @ d" and "lower_hex_of_length 64 d"
  shows False
proof -
  have "\<exists>z. d = z @ ''none''"
    using assms by (auto simp: append_eq_append_conv2 lower_hex_of_length_def dest!: arg_cong [where f = length])
  with assms(2) show False by (auto simp: lower_hex_of_length_def is_lower_hex_char is_ascii_digit_char)
qed

text \<open>The diff identity that goes with a mode.\<close>

definition mode_diff :: "string \<Rightarrow> string option \<Rightarrow> bool" where
  "mode_diff mode diff \<longleftrightarrow> (mode = ''clean-native'' \<and> diff = None) \<or>
     (mode = ''staged-patched-tree'' \<and> (\<exists>d. diff = Some d \<and> lower_hex_of_length 64 d))"

lemma effective_source_text_inject:
  assumes eq: "effective_source_text a p d u m = effective_source_text a' p' d' u' m'"
    and "length a = length a'" and "length p = length p'" and "mode_diff m d" and "mode_diff m' d'"
  shows "a = a' \<and> p = p' \<and> d = d' \<and> u = u' \<and> m = m'"
proof -
  let ?d = "\<lambda>d. case or_else d (Some ''none'') of None \<Rightarrow> [] | Some d \<Rightarrow> d"
  let ?t = "\<lambda>u m p d. u @ newline @ ''source-mode:'' @ m @ newline @ ''patchset:'' @ p @ newline @ ''diff-identity:'' @ ?d d"
  have a: "a = a'" and t: "?t u m p d = ?t u' m' p' d'"
    using eq assms(2) by (simp_all add: effective_source_text_def newline_def)
  have hex: "?d d = x" if "d = Some x" "lower_hex_of_length 64 x" for d x
    using that by (auto simp: or_else_def lower_hex_of_length_def)
  have none: "?d None = ''none''" by (simp add: or_else_def)
  have modes: "m = m'"
  proof (rule ccontr)
    assume "m \<noteq> m'"
    then consider x where "d = None" "d' = Some x" "lower_hex_of_length 64 x"
      | x where "d' = None" "d = Some x" "lower_hex_of_length 64 x"
      using assms(4,5) by (auto simp: mode_diff_def)
    then show False
    proof cases
      case 1
      with t none hex [OF 1(2,3)] show False
        using none_not_digest [OF _ 1(3)] by (metis append.assoc)
    next
      case 2
      with t none hex [OF 2(2,3)] show False
        using none_not_digest [OF _ 2(3)] by (metis append.assoc)
    qed
  qed
  have lens: "length (?d d) = length (?d d')"
    using assms(4,5) modes hex none by (auto simp: mode_diff_def lower_hex_of_length_def)
  with t modes assms(3) have "u = u' \<and> p = p' \<and> ?d d = ?d d'"
    by (auto simp: append_eq_append_conv newline_def)
  moreover from this have "d = d'"
    using assms(4,5) modes hex none by (auto simp: mode_diff_def)
  ultimately show ?thesis using a modes by simp
qed

lemma accepted_checks:
  assumes "validate_metadata_payload env p = Inr []"
  shows "identity_digests p = []" and "sha256_text (dict_get p ''buildroot_patchset_sha256'')"
    and "nonempty_str (dict_get p ''buildroot_upstream_ref'')"
    and "\<exists>m\<in>set SOURCE_MODES. dict_get p ''buildroot_source_mode'' = JStr m"
    and "optional_digests p = []" and "source_mode_check p = []" and "effective_check env p = []" and "release_id_check env p = Inr []"
  using assms
  by (auto simp: validate_metadata_payload_def collectE_nil run_ok no_report simp del: collectE.simps)

lemma accepted_mode_diff:
  assumes "validate_metadata_payload env p = Inr []" and "dict_get p ''buildroot_source_mode'' = JStr m"
  shows "\<exists>diff. mode_diff m diff \<and> dict_get p ''buildroot_staged_diff_sha256'' = opt_json diff"
proof -
  let ?staged = "dict_get p ''buildroot_staged_diff_sha256''"
  have "?staged = JNull \<or> sha256_text ?staged"
    using accepted_checks(5) [OF assms(1)] by (auto simp: optional_digests_def nonzero_sha256_def no_report Let_def)
  moreover have "(m = ''clean-native'' \<and> ?staged = JNull) \<or> (m = ''staged-patched-tree'' \<and> truthy ?staged)"
    using accepted_checks(4,6) [OF assms(1)]
    by (auto simp: assms(2) SOURCE_MODES_def source_mode_check_def clean_native_check_def staged_tree_check_def no_report Let_def
        split: if_splits)
  ultimately consider "m = ''clean-native''" "?staged = opt_json None"
    | x where "m = ''staged-patched-tree''" "?staged = opt_json (Some x)" "lower_hex_of_length 64 x"
    by (auto simp: sha256_text_iff opt_json_def)
  then show ?thesis by cases (auto simp: mode_diff_def)
qed

lemma accepted_identity:
  assumes acc: "validate_metadata_payload env p = Inr []"
  obtains src ext eff base digest upstream mode diff where
    "dict_get p ''suderra_source_sha'' = JStr src" "length src = 40"
    "dict_get p ''suderra_external_tree_sha256'' = JStr ext" "length ext = 64"
    "dict_get p ''buildroot_index_sha'' = JStr base" "length base = 40"
    "dict_get p ''buildroot_patchset_sha256'' = JStr digest" "length digest = 64"
    "dict_get p ''buildroot_upstream_ref'' = JStr upstream" "dict_get p ''buildroot_source_mode'' = JStr mode"
    "dict_get p ''buildroot_staged_diff_sha256'' = opt_json diff" "mode_diff mode diff"
    "eff = effective_source_id env base digest diff upstream mode"
    "dict_get p ''suderra_release_source_id'' = JStr (release_source_id env src ext eff)"
    "dict_get p ''buildroot_effective_source_id'' = JStr eff"
proof -
  obtain src ext eff rid base where ids: "dict_get p ''suderra_source_sha'' = JStr src" "lower_hex_of_length 40 src"
      "dict_get p ''suderra_external_tree_sha256'' = JStr ext" "lower_hex_of_length 64 ext"
      "dict_get p ''buildroot_effective_source_id'' = JStr eff" "lower_hex_of_length 64 eff"
      "dict_get p ''suderra_release_source_id'' = JStr rid" "lower_hex_of_length 64 rid"
      "dict_get p ''buildroot_index_sha'' = JStr base" "lower_hex_of_length 40 base"
    using accepted_checks(1) [OF acc] by (auto simp: identity_digests_def no_report sha256_text_iff commit_text_iff)
  obtain digest upstream mode where rest: "dict_get p ''buildroot_patchset_sha256'' = JStr digest" "lower_hex_of_length 64 digest"
      "dict_get p ''buildroot_upstream_ref'' = JStr upstream" "dict_get p ''buildroot_source_mode'' = JStr mode"
    using accepted_checks(2-4) [OF acc] by (auto simp: sha256_text_iff nonempty_str_iff)
  obtain diff where diff: "mode_diff mode diff" "dict_get p ''buildroot_staged_diff_sha256'' = opt_json diff"
    using accepted_mode_diff [OF acc rest(4)] by blast
  have "(if mode = ''staged-patched-tree'' then str_option (opt_json diff) else None) = diff"
    using diff(1) by (auto simp: mode_diff_def opt_json_def str_option_def)
  then have "eff = effective_source_id env base digest diff upstream mode"
    using accepted_checks(7) [OF acc] ids rest diff by (simp add: effective_check_def no_report Let_def)
  moreover have "rid = release_source_id env src ext eff"
    using accepted_checks(8) [OF acc] ids by (auto simp: release_id_check_def run_ok no_report Let_def split: if_splits)
  ultimately show thesis using ids rest diff by (intro that) (simp_all add: lower_hex_of_length_def)
qed

text \<open>The two texts whose digests are the source ids of an identity payload.\<close>

definition release_text :: "obj \<Rightarrow> string" where
  "release_text p = release_source_text (text_of (dict_get p ''suderra_source_sha''))
     (text_of (dict_get p ''suderra_external_tree_sha256'')) (text_of (dict_get p ''buildroot_effective_source_id''))"

definition effective_text :: "obj \<Rightarrow> string" where
  "effective_text p = effective_source_text (text_of (dict_get p ''buildroot_index_sha''))
     (text_of (dict_get p ''buildroot_patchset_sha256'')) (str_option (dict_get p ''buildroot_staged_diff_sha256''))
     (text_of (dict_get p ''buildroot_upstream_ref'')) (text_of (dict_get p ''buildroot_source_mode''))"

definition SOURCE_FIELDS :: "string list" where
  "SOURCE_FIELDS = [''suderra_source_sha'', ''suderra_external_tree_sha256'', ''buildroot_effective_source_id'', ''buildroot_index_sha'',
     ''buildroot_upstream_ref'', ''buildroot_source_mode'', ''buildroot_patchset_sha256'', ''buildroot_staged_diff_sha256'']"

text \<open>Two texts that SHA-256 does not take to one digest, unless they are equal.\<close>

definition no_collision :: "checkout \<Rightarrow> string \<Rightarrow> string \<Rightarrow> bool" where
  "no_collision env x y \<longleftrightarrow> (sha_text env x = sha_text env y \<longrightarrow> x = y)"

text \<open>
  C40. The release source identity binds the whole source, also across checkouts: take two
  identities, each accepted in its own checkout, with the same \<open>suderra_release_source_id\<close>, whose
  own two pairs of hashed texts (of the release and of the effective Buildroot source) do not
  collide under SHA-256.  Then they agree on the commit, the external tree, the Buildroot commit and
  upstream, the mode, the patch set, the staged diff and the effective source id.
\<close>

theorem release_identity_binds:
  assumes "validate_metadata_payload env p = Inr []" and "validate_metadata_payload env' q = Inr []"
    and "sha_text env' = sha_text env"
    and "dict_get p ''suderra_release_source_id'' = dict_get q ''suderra_release_source_id''"
    and "no_collision env (release_text p) (release_text q)" and "no_collision env (effective_text p) (effective_text q)"
  shows "list_all (\<lambda>f. dict_get p f = dict_get q f) SOURCE_FIELDS"
proof -
  obtain src ext eff base digest upstream mode diff where P: "dict_get p ''suderra_source_sha'' = JStr src" "length src = 40"
    "dict_get p ''suderra_external_tree_sha256'' = JStr ext" "length ext = 64"
    "dict_get p ''buildroot_index_sha'' = JStr base" "length base = 40"
    "dict_get p ''buildroot_patchset_sha256'' = JStr digest" "length digest = 64"
    "dict_get p ''buildroot_upstream_ref'' = JStr upstream" "dict_get p ''buildroot_source_mode'' = JStr mode"
    "dict_get p ''buildroot_staged_diff_sha256'' = opt_json diff" "mode_diff mode diff"
    "eff = effective_source_id env base digest diff upstream mode"
    "dict_get p ''suderra_release_source_id'' = JStr (release_source_id env src ext eff)"
    "dict_get p ''buildroot_effective_source_id'' = JStr eff"
    using assms(1) by (rule accepted_identity)
  obtain src' ext' eff' base' digest' upstream' mode' diff' where Q: "dict_get q ''suderra_source_sha'' = JStr src'" "length src' = 40"
    "dict_get q ''suderra_external_tree_sha256'' = JStr ext'" "length ext' = 64"
    "dict_get q ''buildroot_index_sha'' = JStr base'" "length base' = 40"
    "dict_get q ''buildroot_patchset_sha256'' = JStr digest'" "length digest' = 64"
    "dict_get q ''buildroot_upstream_ref'' = JStr upstream'" "dict_get q ''buildroot_source_mode'' = JStr mode'"
    "dict_get q ''buildroot_staged_diff_sha256'' = opt_json diff'" "mode_diff mode' diff'"
    "eff' = effective_source_id env' base' digest' diff' upstream' mode'"
    "dict_get q ''suderra_release_source_id'' = JStr (release_source_id env' src' ext' eff')"
    "dict_get q ''buildroot_effective_source_id'' = JStr eff'"
    using assms(2) by (rule accepted_identity)
  have d: "str_option (opt_json x) = x" for x by (cases x) (simp_all add: opt_json_def str_option_def)
  have "release_source_text src ext eff = release_source_text src' ext' eff'"
    using assms(3-5) P(1,3,14,15) Q(1,3,14,15) by (simp add: no_collision_def release_text_def release_source_id_def)
  then have r: "src = src'" "ext = ext'" "eff = eff'"
    using release_source_text_inject P(2,4) Q(2,4) by metis+
  have "effective_source_text base digest diff upstream mode = effective_source_text base' digest' diff' upstream' mode'"
    using assms(3,6) r(3) P(5,7,9-11,13) Q(5,7,9-11,13) d by (simp add: no_collision_def effective_text_def effective_source_id_def)
  then have "base = base' \<and> digest = digest' \<and> diff = diff' \<and> upstream = upstream' \<and> mode = mode'"
    using P(6,8,12) Q(6,8,12) by (intro effective_source_text_inject) simp_all
  with r P(1,3,5,7,9-11,15) Q(1,3,5,7,9-11,15) show ?thesis by (simp add: SOURCE_FIELDS_def)
qed

section \<open>The patched worktree\<close>

lemma patch_failure_nil [no_report]:
  "patch_failure env dir n = [] \<longleftrightarrow> (let p = path_str (path_join (repo_root env) (path_of (''patches/buildroot/'' @ n))) in
     return_code (git env dir [''apply'', ''--reverse'', ''--check'', p]) = 0 \<or>
     return_code (git env dir [''apply'', ''--unidiff-zero'', ''--reverse'', ''--check'', p]) = 0)"
  by (auto simp: patch_failure_def Let_def)

text \<open>The path of a status line: after the arrow, for a rename.\<close>

definition status_path :: "string \<Rightarrow> string" where
  "status_path line = (case after_first '' -> '' (strip (drop 3 line)) of None \<Rightarrow> strip (drop 3 line) | Some r \<Rightarrow> r)"

lemma status_failure_nil [no_report]:
  "status_failure files line = [] \<longleftrightarrow> status_path line \<in> set files \<and> strip (take 2 line) \<in> {''M'', ''A'', ''D'', ''R'', ''C''}"
  by (auto simp: status_failure_def status_path_def Let_def)

text \<open>
  \<open>validate-applied\<close> accepts a worktree exactly when its HEAD is the recorded commit and it is
  dirty in the right way: not at all where no patch names a file, and otherwise in files that
  the patches name, with each patch reversible. Patches that name no file are never tried.
\<close>

theorem applied_iff:
  assumes "is_git_worktree env dir" and "buildroot_index_sha env s = Inr base"
    and "git_text env dir [''rev-parse'', ''HEAD''] = Inr actual" and "buildroot_status_lines env dir = Inr lines"
  shows "validate_applied env s dir = Inr [] \<longleftrightarrow> actual = base \<and>
    (if expected_touched_files env = [] then lines = []
     else lines \<noteq> [] \<and> (\<forall>line\<in>set lines. status_path line \<in> set (expected_touched_files env) \<and>
         strip (take 2 line) \<in> {''M'', ''A'', ''D'', ''R'', ''C''}) \<and>
       (\<forall>(n, f)\<in>set (patch_paths env). patch_failure env dir n = []))"
proof -
  have "dir_exists env dir" using assms(1) by (simp add: is_git_worktree_def)
  moreover have "patch_paths env \<noteq> []" if "expected_touched_files env \<noteq> []"
    using that by (auto simp: expected_touched_files_def)
  ultimately show ?thesis using assms
    by (auto simp: validate_applied_def applied_failures_def concat_map_nil status_failure_nil Let_def)
qed

end
