(* ===== verification/BuildrootSample.thy ===== *)
theory BuildrootSample
  imports BuildrootProps
begin

text \<open>
  Two checkouts with a recorded git, one clean and one patched, and the witnesses of the
  properties of the Buildroot source identity on them.
\<close>

definition sample_commit :: string where
  "sample_commit = replicate 40 (CHR ''a'')"

definition git_prints :: "string \<Rightarrow> completed" where
  "git_prints t = \<lparr>return_code = 0, stdout = t, stderr = []\<rparr>"

definition sample_git :: "string \<Rightarrow> string \<Rightarrow> string list \<Rightarrow> completed" where
  "sample_git diff status args = (if args = [] then git_prints []
     else if hd args = ''ls-tree'' then
       git_prints (if tl args = [sample_commit, ''buildroot''] then ''160000 commit '' @ NATIVE_BUILDROOT_COMMIT @ '' buildroot''
         else ''100644 blob 1'' @ [CHR 0x09] @ ''Makefile'' @ [CHR 0x00] @ ''160000 commit 2'' @ [CHR 0x09] @ ''buildroot'' @ [CHR 0x00])
     else if args = [''rev-parse'', ''--is-inside-work-tree''] then git_prints (''true'' @ newline)
     else if hd args = ''rev-parse'' then git_prints NATIVE_BUILDROOT_COMMIT
     else if hd args = ''diff'' then git_prints diff
     else if hd args = ''status'' then git_prints (if ''--'' \<in> set args then [] else status)
     else git_prints [])"

definition sample_checkout :: "(string \<times> regular_file) list \<Rightarrow> string \<Rightarrow> string \<Rightarrow> checkout" where
  "sample_checkout patches diff status = \<lparr>repo_root = path_of ''/repo'', dir_exists = (\<lambda>_. True),
     git = (\<lambda>_. sample_git diff status),
     tree_files = map_of [(path_of ''/repo/buildroot/package/rust/rust.mk'',
       \<lparr>size_of = 9, sha_of = [], text_content = ''RUST_VERSION = 1.86.0'', json_content = None\<rparr>)],
     patch_dir = patches, sha_text = (\<lambda>t. replicate 64 (CHR ''b'')), sha_bytes = (\<lambda>t. replicate 64 (CHR ''c''))\<rparr>"

definition sample_patch :: "string \<times> regular_file" where
  "sample_patch = (''0001-fix.patch'', \<lparr>size_of = 9, sha_of = replicate 64 (CHR ''d''),
     text_content = ''--- a/Makefile'' @ newline @ ''+++ b/Makefile'' @ newline, json_content = None\<rparr>)"

definition clean_checkout :: checkout where
  "clean_checkout = sample_checkout [] [] []"

definition patched_checkout :: checkout where
  "patched_checkout = sample_checkout [sample_patch] ''diff'' '' M Makefile''"

definition sample_dir :: path where
  "sample_dir = path_of ''/repo/buildroot''"

definition sample_metadata :: "checkout \<Rightarrow> obj" where
  "sample_metadata env = (case metadata env sample_commit sample_dir of Inl _ \<Rightarrow> [] | Inr p \<Rightarrow> p)"

lemma sample_metadata_returns:
  "metadata clean_checkout sample_commit sample_dir = Inr (sample_metadata clean_checkout)"
  "metadata patched_checkout sample_commit sample_dir = Inr (sample_metadata patched_checkout)"
  by code_simp+

lemma sample_accepted:
  "validate_metadata_payload clean_checkout (sample_metadata clean_checkout) = Inr []"
  "validate_metadata_payload patched_checkout (sample_metadata patched_checkout) = Inr []"
  by code_simp+

lemma hex_replicate [simp]: "lower_hex_of_length n (replicate n c) \<longleftrightarrow> n = 0 \<or> is_lower_hex c"
  by (auto simp: lower_hex_of_length_def list_all_iff)

lemma sample_digests:
  "lower_hex_of_length 64 (sha_text patched_checkout t)" "lower_hex_of_length 64 (sha_bytes patched_checkout t)"
  by (simp_all add: patched_checkout_def sample_checkout_def is_lower_hex_char)

lemma sample_patches:
  "(n, f) \<in> set (patch_dir patched_checkout) \<Longrightarrow> CHR ''/'' \<notin> set n \<and> 0 < size_of f \<and> lower_hex_of_length 64 (sha_of f)"
  "distinct (map fst (patch_dir patched_checkout))"
  by (simp_all add: patched_checkout_def sample_checkout_def sample_patch_def is_lower_hex_char)

theorem metadata_verdict_witness:
  "\<exists>base upstream diff. buildroot_index_sha patched_checkout sample_commit = Inr base \<and>
     current_buildroot_diff_sha256 patched_checkout sample_dir = Inr diff \<and>
     good_mode patched_checkout base upstream diff \<and> native_rust patched_checkout sample_dir"
proof -
  have "dir_exists patched_checkout (repo_root patched_checkout)"
    by (simp add: patched_checkout_def sample_checkout_def)
  with metadata_verdict [OF sample_metadata_returns(2) _ sample_digests sample_patches] sample_accepted(2)
  show ?thesis by blast
qed

text \<open>
  The same commit in a second checkout: the first with a hash that depends on every character, and
  the identity of the second carries a note besides.
\<close>

definition sample_hash :: "string \<Rightarrow> string" where
  "sample_hash t = (let bit = (\<lambda>p. if p then CHR ''a'' else CHR ''b'');
       parity = (\<lambda>select. foldl (\<lambda>b c. b \<noteq> select c) False t) in
     replicate 56 (CHR ''c'') @ map (\<lambda>select. bit (parity select)) [digit0, digit1, digit2, digit3, digit4, digit5, digit6]
       @ [bit (even (length t))])"

definition hashed_checkout :: checkout where
  "hashed_checkout = clean_checkout\<lparr>sha_text := sample_hash\<rparr>"

definition other_checkout :: checkout where
  "other_checkout = hashed_checkout\<lparr>repo_root := path_of ''/copy'', git := (\<lambda>_. sample_git [] '' M notes''),
     tree_files := map_of [(path_of ''/copy/buildroot/package/rust/rust.mk'',
       \<lparr>size_of = 9, sha_of = [], text_content = ''RUST_VERSION = 1.86.0'', json_content = None\<rparr>)]\<rparr>"

definition noted_metadata :: obj where
  "noted_metadata = (''note'', JStr ''second checkout'') # sample_metadata other_checkout"

lemma hashed_accepted:
  "validate_metadata_payload hashed_checkout (sample_metadata hashed_checkout) = Inr []"
  "validate_metadata_payload other_checkout noted_metadata = Inr []"
  by code_simp+

lemma hashed_texts:
  "dict_get (sample_metadata hashed_checkout) ''suderra_release_source_id'' = dict_get noted_metadata ''suderra_release_source_id''"
  "release_text (sample_metadata hashed_checkout) = release_text noted_metadata"
  "effective_text (sample_metadata hashed_checkout) = effective_text noted_metadata"
  "sample_hash ''release'' \<noteq> sample_hash ''Release''"
  by code_simp+

theorem release_identity_binds_witness:
  "sample_metadata hashed_checkout \<noteq> noted_metadata \<and>
   list_all (\<lambda>f. dict_get (sample_metadata hashed_checkout) f = dict_get noted_metadata f) SOURCE_FIELDS"
proof
  have "dict_get (sample_metadata hashed_checkout) ''note'' = JNull" by code_simp
  moreover have "dict_get noted_metadata ''note'' = JStr ''second checkout''" by (simp add: noted_metadata_def dict_get_def)
  ultimately show "sample_metadata hashed_checkout \<noteq> noted_metadata" by auto
  show "list_all (\<lambda>f. dict_get (sample_metadata hashed_checkout) f = dict_get noted_metadata f) SOURCE_FIELDS"
    by (rule release_identity_binds [OF hashed_accepted _ hashed_texts(1)])
      (simp_all add: other_checkout_def no_collision_def hashed_texts(2,3))
qed

lemma sample_applied:
  "validate_applied patched_checkout sample_commit sample_dir = Inr []"
  "is_git_worktree patched_checkout sample_dir"
  "buildroot_index_sha patched_checkout sample_commit = Inr NATIVE_BUILDROOT_COMMIT"
  "git_text patched_checkout sample_dir [''rev-parse'', ''HEAD''] = Inr NATIVE_BUILDROOT_COMMIT"
  "buildroot_status_lines patched_checkout sample_dir = Inr ['' M Makefile'']"
  "expected_touched_files patched_checkout = [''Makefile'', ''Makefile'']"
  by code_simp+

theorem applied_iff_witness:
  "validate_applied patched_checkout sample_commit sample_dir = Inr [] \<and>
   status_path '' M Makefile'' \<in> set (expected_touched_files patched_checkout)"
  using applied_iff [OF sample_applied(2-5)] sample_applied(1,6) by auto

end
