(* ===== verification/ReleaseGraph.thy ===== *)
theory ReleaseGraph
  imports BuildrootCheck IngressBase
begin

text \<open>
  \<open>scripts/evidence/validate-release-inputs.py\<close>, first part: what the gate reads, the subject
  identity, and the release subject graph. The lists that the evidence contract holds are lists
  of strings, as \<open>load_contract\<close> has checked. A message that ends with the path of the checked
  file is built by \<open>of_file\<close>.
\<close>

section \<open>The environment of the gate\<close>

text \<open>
  The contract, the files, the names in a directory (where it is one), the working directory, a
  run of one of the repository's scripts with its arguments, the repository with git, and the
  clock.
\<close>

record release_env =
  rel_contract :: obj
  rel_files :: store
  rel_names :: "path \<Rightarrow> string list option"
  rel_cwd :: path
  rel_script :: "string list \<Rightarrow> completed"
  rel_checkout :: checkout
  rel_now :: int

definition run_script :: "release_env \<Rightarrow> string list \<Rightarrow> string list" where
  "run_script env args = (let r = rel_script env args; ls = filter (\<lambda>l. strip l \<noteq> []) (splitlines (stderr r)) in
     if return_code r = 0 then [] else if ls \<noteq> [] then ls else [strip (stdout r)])"

text \<open>\<open>read_json\<close>: a missing file and a file that is not JSON read as \<open>None\<close>.\<close>

definition read_doc :: "release_env \<Rightarrow> path \<Rightarrow> json" where
  "read_doc env p = (case rel_files env p of None \<Rightarrow> JNull
     | Some f \<Rightarrow> (case json_content f of None \<Rightarrow> JNull | Some v \<Rightarrow> v))"

definition of_file :: "path \<Rightarrow> string \<Rightarrow> string" where
  "of_file p m = m @ '': '' @ path_str p"

definition RELEASE_PLACEHOLDERS :: "string list" where
  "RELEASE_PLACEHOLDERS = [''TO_BE_COLLECTED'', ''NOT_COLLECTED'', ''not_collected'', ''pending'', ''PENDING'']"

definition release_placeholder :: "json \<Rightarrow> bool" where
  "release_placeholder v \<longleftrightarrow> is_str v \<and> strip (text_of v) \<in> set RELEASE_PLACEHOLDERS"

text \<open>\<open>v in {None, s}\<close> hashes \<open>v\<close>.\<close>

definition none_or :: "json \<Rightarrow> json \<Rightarrow> bool run" where
  "none_or v w = (if hashable v \<and> hashable w then Inr (v = JNull \<or> py_eq v w) else Inl TypeError)"

definition positive_int :: "json \<Rightarrow> bool" where
  "positive_int v \<longleftrightarrow> int_above 0 v"

definition expected_release_subject_id ::
  "release_env \<Rightarrow> string \<Rightarrow> string \<Rightarrow> string option \<Rightarrow> string option \<Rightarrow> string option run" where
  "expected_release_subject_id env version target source_sha run_id = (case (source_sha, run_id) of
       (Some s, Some r) \<Rightarrow> bindE (from_checked (release_subject_id version target s r (rel_contract env))) (\<lambda>i. Inr (Some i))
     | _ \<Rightarrow> Inr None)"

definition binding_artifact_refs_for_target :: "json \<Rightarrow> string \<Rightarrow> obj list" where
  "binding_artifact_refs_for_target binding target =
     filter (\<lambda>item. dict_get item ''target'' = JStr target \<and> sha256_text (dict_get item ''sha256''))
       (map members (filter is_obj (elems (dict_get (members binding) ''artifacts''))))"

definition bound_digests :: "json \<Rightarrow> string \<Rightarrow> string list" where
  "bound_digests binding target = map (\<lambda>item. py_str (dict_get item ''sha256'')) (binding_artifact_refs_for_target binding target)"

section \<open>Nodes\<close>

record graph_args =
  g_version :: string
  g_profile :: string
  g_source_sha :: "string option"
  g_run_id :: "string option"
  g_matrix :: obj
  g_binding :: json
  g_root :: "path option"
  g_check_files :: bool

definition subject_role :: "json \<Rightarrow> bool run" where
  "subject_role v = (if hashable v then Inr (v \<in> {JNull, JStr ''release-subject'', JStr ''root-subject''}) else Inl TypeError)"

definition subject_graph_nodes :: "obj \<Rightarrow> obj list run" where
  "subject_graph_nodes payload = (let subjects = dict_get payload ''subjects''; nodes = dict_get payload ''nodes'' in
     if is_list subjects then Inr (map members (filter is_obj (elems subjects)))
     else if is_list nodes then
       bindE (mapE (\<lambda>o'. bindE (subject_role (dict_get o' ''role'')) (\<lambda>b. Inr (b, o')))
           (map members (filter is_obj (elems nodes))))
         (\<lambda>bs. Inr (map snd (filter fst bs)))
     else if is_str (dict_get payload ''subject_id'') then Inr [payload] else Inr [])"

definition subject_graph_evidence_nodes :: "obj \<Rightarrow> obj list" where
  "subject_graph_evidence_nodes payload = map members (filter is_obj (elems (dict_get payload ''evidence_nodes'')))"

definition graph_rel_path :: "json \<Rightarrow> path option" where
  "graph_rel_path v = (let rel = path_of (text_of v) in
     if \<not> nonblank_str v then None
     else if absolute rel \<or> ''..'' \<in> set (parts rel) then None else Some rel)"

interpretation graph_rel: path_guard graph_rel_path
  by unfold_locales (auto simp: graph_rel_path_def Let_def nonblank_str_iff split: if_splits)

section \<open>Subject nodes and the matrix\<close>

text \<open>The digest and size of the compressed artifact: the node's own, or those of its artifact list.\<close>

definition compressed_of :: "obj \<Rightarrow> json \<times> json" where
  "compressed_of node = (let own = dict_get node ''compressed_artifact_sha256'';
       ref = dict_get (members (dict_get node ''artifacts'')) ''compressed_release_artifact'' in
     if own = JNull \<and> is_obj ref then (dict_get (members ref) ''sha256'', dict_get (members ref) ''bytes'')
     else (own, dict_get node ''compressed_artifact_bytes''))"

definition check_subject_node :: "path \<Rightarrow> graph_args \<Rightarrow> string \<Rightarrow> string \<Rightarrow> obj \<Rightarrow> string list \<Rightarrow> string \<Rightarrow> obj \<Rightarrow> string list run" where
  "check_subject_node p a source_sha run_id row digests expected node = (let target = py_str (dict_get row ''target'');
       no = (\<lambda>f. of_file p (''release subject graph '' @ f @ '' for '' @ target));
       production = g_profile a = ''production-candidate'';
       (compressed, compressed_bytes) = compressed_of node in collectE
     [Inr (report (dict_get node ''subject_id'' \<noteq> JStr expected) (no ''subject_id mismatch'')
        @ report (dict_get node ''source_sha'' \<noteq> JStr source_sha) (no ''source_sha mismatch'')
        @ report (py_str (dict_get node ''source_run_id'') \<noteq> run_id) (no ''source_run_id mismatch'')),
      bindE (none_or (dict_get node ''defconfig'') (dict_get row ''name'')) (\<lambda>same.
        Inr (report (\<not> same) (no ''defconfig mismatch''))),
      Inr (if production then
             report (\<not> nonzero_sha256 (dict_get node ''raw_image_sha256'')) (no ''raw_image_sha256 must be bound'')
             @ report (\<not> positive_int (dict_get node ''raw_image_bytes'')) (no ''raw_image_bytes must be bound'')
             @ report (\<not> nonzero_sha256 compressed) (no ''compressed_artifact_sha256 must be bound'')
             @ report (\<not> positive_int compressed_bytes) (no ''compressed_artifact_bytes must be bound'')
           else []),
      (if digests = [] then Inr [] else bindE (in_str_set compressed digests) (\<lambda>bound.
        Inr (report (\<not> bound) (no ''compressed artifact digest must bind release input''))))])"

text \<open>One row of the matrix; the subject nodes are looked up by target, the last one counts.\<close>

definition check_graph_row :: "release_env \<Rightarrow> path \<Rightarrow> graph_args \<Rightarrow> string \<Rightarrow> string \<Rightarrow> bool \<Rightarrow> obj list \<Rightarrow> json \<Rightarrow> string list run" where
  "check_graph_row env p a source_sha run_id strict nodes v = (let row = members v; target = py_str (dict_get row ''target'') in
     if \<not> is_obj v \<or> \<not> truthy (dict_get row ''target'') then Inr []
     else bindE (from_checked (target_policy target (rel_contract env))) (\<lambda>policy.
       let digests = bound_digests (g_binding a) target in
       if policy = [] \<or> \<not> (truthy (dict_get policy ''production_gate'') \<or> truthy (dict_get policy ''release_public'')) then Inr []
       else if strict \<and> dict_get row ''release'' \<noteq> JBool True \<and> digests = [] then Inr []
       else case find (\<lambda>node. dict_get node ''target'' = JStr target) (rev nodes) of
         None \<Rightarrow> Inr [''release subject graph missing target node: '' @ target]
       | Some node \<Rightarrow> bindE (from_checked (release_subject_id (g_version a) target source_sha run_id (rel_contract env)))
           (\<lambda>expected. check_subject_node p a source_sha run_id row digests expected node)))"

section \<open>Evidence nodes\<close>

definition edge_pairs :: "json \<Rightarrow> (string \<times> string) list" where
  "edge_pairs v = List.map_filter (\<lambda>e. let f = dict_get (members e) ''from''; t = dict_get (members e) ''to'' in
     if is_obj e \<and> is_str f \<and> is_str t then Some (text_of f, text_of t) else None) (elems v)"

definition production_artifact_node :: "string \<Rightarrow> graph_args \<Rightarrow> path \<Rightarrow> obj \<Rightarrow> string list run" where
  "production_artifact_node q a p item = (if g_profile a \<noteq> ''production-candidate'' then Inr []
     else bindE (in_str_set (dict_get item ''role'') [''raw-image'', ''compressed-release-artifact'']) (\<lambda>artifact. Inr
       (if artifact then
          report (\<not> nonzero_sha256 (dict_get item ''sha256'')) (of_file p (q @ ''.sha256 must bind production artifact bytes''))
          @ report (\<not> positive_int (dict_get item ''bytes'')) (of_file p (q @ ''.bytes must bind production artifact bytes''))
        else [])))"

definition required_evidence_file :: "release_env \<Rightarrow> string \<Rightarrow> path \<Rightarrow> path \<Rightarrow> obj \<Rightarrow> string list" where
  "required_evidence_file env q p actual item = (let sha = dict_get item ''sha256''; n = dict_get item ''bytes'' in
     case rel_files env actual of
       None \<Rightarrow> [of_file actual (q @ ''.path missing required evidence file'')]
     | Some f \<Rightarrow> if size_of f \<le> 0 then [of_file actual (q @ ''.path missing required evidence file'')]
         else (if \<not> nonzero_sha256 sha then [of_file p (q @ ''.sha256 must be preserved for required evidence'')]
               else report (sha \<noteq> JStr (sha_of f)) (of_file actual (q @ ''.sha256 mismatch for required evidence'')))
           @ (if \<not> positive_int n then [of_file p (q @ ''.bytes must be preserved for required evidence'')]
              else report (\<not> py_eq (JInt (size_of f)) n) (of_file actual (q @ ''.bytes mismatch for required evidence''))))"

definition check_evidence_node ::
  "release_env \<Rightarrow> path \<Rightarrow> graph_args \<Rightarrow> string list \<Rightarrow> (string \<times> string) list \<Rightarrow> string list \<Rightarrow> nat \<Rightarrow> obj \<Rightarrow> string list run" where
  "check_evidence_node env p a subjects edges seen i item = (let q = ''release subject graph evidence_nodes['' @ nat_str i @ '']'';
       node_id = dict_get item ''node_id''; subject_id = dict_get item ''subject_id'' in
     if \<not> nonblank_str node_id then Inr [of_file p (q @ ''.node_id is required'')]
     else collectE
      [Inr (report (text_of node_id \<in> set seen) (of_file p (q @ ''.node_id must be unique''))),
       bindE (in_str_set subject_id subjects) (\<lambda>known. Inr
         (report (\<not> known) (of_file p (q @ ''.subject_id must reference a subject node''))
          @ report ((py_str subject_id, text_of node_id) \<notin> set edges) (of_file p (q @ '' must have a subject evidence edge''))
          @ concat (map (\<lambda>f. report (release_placeholder (dict_get item f) \<or> \<not> is_str (dict_get item f))
              (of_file p (q @ ''.'' @ f @ '' must be non-placeholder''))) [''role'', ''schema_role'', ''schema_version'', ''producer'']))),
       (case graph_rel_path (dict_get item ''path'') of
          None \<Rightarrow> Inr [of_file p (q @ ''.path must be a relative non-placeholder path'')]
        | Some rel \<Rightarrow> collectE
            [production_artifact_node q a p item,
             Inr (case g_root a of None \<Rightarrow> []
               | Some r \<Rightarrow> if g_check_files a \<and> dict_get item ''required'' = JBool True
                   then required_evidence_file env q p (path_join r rel) item else [])])])"

fun check_evidence_nodes ::
  "release_env \<Rightarrow> path \<Rightarrow> graph_args \<Rightarrow> string list \<Rightarrow> (string \<times> string) list \<Rightarrow> string list \<Rightarrow> nat \<Rightarrow> obj list \<Rightarrow> string list run" where
  "check_evidence_nodes env p a subjects edges seen i [] = Inr []"
| "check_evidence_nodes env p a subjects edges seen i (item # items) =
     collectE [check_evidence_node env p a subjects edges seen i item,
       check_evidence_nodes env p a subjects edges
         (if nonblank_str (dict_get item ''node_id'') then text_of (dict_get item ''node_id'') # seen else seen) (Suc i) items]"

section \<open>Closure\<close>

definition graph_required_paths :: "path \<Rightarrow> json \<Rightarrow> obj list \<Rightarrow> string list" where
  "graph_required_paths p v items = (let
       needed = map (\<lambda>item. text_of (dict_get item ''path''))
         (filter (\<lambda>item. dict_get item ''required'' = JBool True \<and> is_str (dict_get item ''path'')) items);
       listed = map text_of (filter is_str (elems v)); missing = sorted_set (minus_list needed listed) in
     if \<not> is_list v \<or> elems v = [] then [of_file p ''release subject graph required_paths must be non-empty'']
     else report (missing \<noteq> []) (''release subject graph required_paths missing node paths: '' @ comma_join missing))"

definition graph_retention :: "release_env \<Rightarrow> path \<Rightarrow> json \<Rightarrow> string list run" where
  "graph_retention env p v =
     (if \<not> is_obj v then Inr [of_file p ''release subject graph retention_closure is required'']
      else bindE (from_checked (retention_required_exports (rel_contract env))) (\<lambda>expected.
        bindE (py_list (dict_get_or (members v) ''required_exports'' (JArr []))) (\<lambda>xs.
          let missing = sorted_set (minus_list (map text_of expected) (map text_of (filter is_str xs))) in
          Inr (report (missing \<noteq> []) (''release subject graph retention_closure missing exports: '' @ comma_join missing)))))"

definition graph_closure :: "release_env \<Rightarrow> path \<Rightarrow> graph_args \<Rightarrow> obj list \<Rightarrow> obj \<Rightarrow> string list run" where
  "graph_closure env p a nodes payload = (let items = subject_graph_evidence_nodes payload;
       edges = dict_get payload ''evidence_edges'';
       subjects = map (\<lambda>n. text_of (dict_get n ''subject_id'')) (filter (\<lambda>n. is_str (dict_get n ''subject_id'')) nodes) in
     if items = [] then Inr [of_file p ''release subject graph must contain evidence_nodes closure'']
     else collectE
      [Inr (report (\<not> is_list edges \<or> elems edges = []) (of_file p ''release subject graph must contain evidence_edges closure'')),
       check_evidence_nodes env p a subjects (edge_pairs edges) [] 0 items,
       Inr (graph_required_paths p (dict_get payload ''required_paths'') items),
       graph_retention env p (dict_get payload ''retention_closure'')])"

section \<open>The graph\<close>

definition graph_header :: "release_env \<Rightarrow> path \<Rightarrow> graph_args \<Rightarrow> obj \<Rightarrow> string list run" where
  "graph_header env p a payload =
     bindE (from_checked (contract_schema_version ''release_subject_graph'' (rel_contract env))) (\<lambda>schema.
     bindE (none_or (dict_get payload ''version'') (JStr (g_version a))) (\<lambda>same_version.
     bindE (none_or (dict_get payload ''profile'') (JStr (g_profile a))) (\<lambda>same_profile. Inr
       (report (dict_get payload ''schema_version'' \<noteq> JStr schema)
          (of_file p (''release subject graph schema_version must be '' @ schema))
        @ report (\<not> same_version) (of_file p ''release subject graph version mismatch'')
        @ report (\<not> same_profile) (of_file p ''release subject graph profile mismatch'')))))"

definition graph_rows :: "release_env \<Rightarrow> path \<Rightarrow> graph_args \<Rightarrow> string \<Rightarrow> string \<Rightarrow> obj list \<Rightarrow> string list run" where
  "graph_rows env p a source_sha run_id nodes =
     bindE (from_checked (profile_policy (g_profile a) (rel_contract env))) (\<lambda>policy.
     let strict = (dict_get policy ''strict_artifact_binding'' = JBool True \<and> dict_get policy ''production_candidate'' \<noteq> JBool True) in
     bindE (from_checked (matrix_rows (g_matrix a))) (\<lambda>rows.
       collectE (map (check_graph_row env p a source_sha run_id strict nodes) rows)))"

definition graph_body :: "release_env \<Rightarrow> path \<Rightarrow> graph_args \<Rightarrow> obj \<Rightarrow> string list run" where
  "graph_body env p a payload = (case (g_source_sha a, g_run_id a) of
       (Some source_sha, Some run_id) \<Rightarrow> bindE (subject_graph_nodes payload) (\<lambda>nodes.
         if nodes = [] then Inr [of_file p ''release subject graph must contain subject nodes'']
         else collectE [graph_rows env p a source_sha run_id nodes, graph_closure env p a nodes payload])
     | _ \<Rightarrow> Inr [''release subject graph validation requires source_sha and source_run_id''])"

definition validate_subject_graph :: "release_env \<Rightarrow> path \<Rightarrow> graph_args \<Rightarrow> string list run" where
  "validate_subject_graph env p a = (case read_doc env p of
       JObj payload \<Rightarrow> collectE [graph_header env p a payload, graph_body env p a payload]
     | _ \<Rightarrow> Inr [of_file p ''release subject graph missing or invalid JSON''])"

end
