(* ===== verification/ReleaseSigning.thy ===== *)
theory ReleaseSigning
  imports ReleaseGraph
begin

text \<open>
  \<open>scripts/evidence/validate-release-inputs.py\<close>, second part: signing manifests, the replay of
  HSM signing sessions, and OTA artifacts.
\<close>

section \<open>Signing manifests\<close>

definition safe_artifact_path :: "json \<Rightarrow> bool" where
  "safe_artifact_path v \<longleftrightarrow> \<not> release_placeholder v \<and> nonblank_str v \<and> inner_path v \<noteq> None"

definition roles_required_for :: "string \<Rightarrow> (string \<times> obj) list \<Rightarrow> string list" where
  "roles_required_for f bindings = map fst (filter (\<lambda>(r, b). dict_get b f = JBool True) bindings)"

definition expected_signing_roles_for_policy :: "(string \<times> obj) list \<Rightarrow> obj \<Rightarrow> string list" where
  "expected_signing_roles_for_policy bindings policy =
     (if dict_get policy ''ota_capable'' = JBool True then roles_required_for ''required_for_ota_capable'' bindings else [])
     @ (if dict_get policy ''release_public'' = JBool True then roles_required_for ''required_for_release_public'' bindings else [])"

definition role_required_fields :: "obj \<Rightarrow> string list run" where
  "role_required_fields contract = bindE (dict_index contract ''signing'') (\<lambda>s.
     bindE (subscript s ''role_required_fields'') (\<lambda>fs. bindE (py_list fs) (\<lambda>xs. Inr (map text_of xs))))"

definition check_role_field :: "path \<Rightarrow> nat \<Rightarrow> obj \<Rightarrow> string \<Rightarrow> string list" where
  "check_role_field p i role f = (let v = dict_get role f; q = ''signing manifest roles['' @ nat_str i @ ''].'' in
     if ends_with f ''sha256'' then report (\<not> nonzero_sha256 v) (of_file p (q @ f @ '' must be a non-zero sha256''))
     else if f = ''artifact_bytes'' then report (\<not> positive_int v) (of_file p (q @ ''artifact_bytes must be positive''))
     else if f = ''artifact_path'' then report (\<not> safe_artifact_path v) (of_file p (q @ ''artifact_path must be a safe relative path''))
     else if f = ''replay_status'' then report (v \<noteq> JStr ''passed'') (of_file p (q @ ''replay_status must be passed''))
     else report (release_placeholder v \<or> \<not> nonblank_str v) (of_file p (q @ f @ '' must be non-placeholder'')))"

definition ROLE_VERIFIER_TOKENS :: "(string \<times> string list) list" where
  "ROLE_VERIFIER_TOKENS = [(''rauc-bundle'', [''rauc info'', ''rauc verify'']), (''release-image'', [''sbverify'']),
     (''release-artifact'', [''cosign verify-blob'']),
     (''os-update-manifest'', [''create-os-update-manifest.py verify'', ''suderra-ota verify-manifest''])]"

definition check_role_verifier :: "path \<Rightarrow> nat \<Rightarrow> json \<Rightarrow> json \<Rightarrow> string list" where
  "check_role_verifier p i role verifier = (case (if is_str role \<and> is_str verifier then map_of ROLE_VERIFIER_TOKENS (text_of role) else None) of
       None \<Rightarrow> []
     | Some tokens \<Rightarrow> report (\<not> list_ex (contains (strip (text_of verifier))) tokens)
         (of_file p (''signing manifest roles['' @ nat_str i @ ''].verifier must be role-specific replay command for '' @ text_of role)))"

record signing_args =
  s_version :: string
  s_target :: string
  s_source_sha :: "string option"
  s_run_id :: "string option"
  s_artifacts :: "string list"
  s_role_outputs :: "(string \<times> string) list"

definition check_role_output :: "path \<Rightarrow> signing_args \<Rightarrow> nat \<Rightarrow> json \<Rightarrow> json \<Rightarrow> string list run" where
  "check_role_output p a i role output = (let q = ''signing manifest roles['' @ nat_str i @ ''].output_sha256 must bind '' in
     bindE (if s_artifacts a = [] then Inr True
            else bindE (in_str_set role [''release-artifact'', ''release-image'']) (\<lambda>artifact.
              if artifact then in_str_set output (s_artifacts a) else Inr True)) (\<lambda>bound. Inr
       (report (\<not> bound) (of_file p (q @ ''release artifact digest''))
        @ (case (if is_str role then map_of (s_role_outputs a) (text_of role) else None) of
             None \<Rightarrow> []
           | Some sha \<Rightarrow> report (output \<noteq> JStr sha) (of_file p (q @ text_of role @ '' OTA artifact digest''))))))"

text \<open>One role, with the roles seen before as state.\<close>

definition check_signing_role ::
  "path \<Rightarrow> signing_args \<Rightarrow> string list \<Rightarrow> string list \<Rightarrow> string list \<Rightarrow> nat \<Rightarrow> obj \<Rightarrow> string list run" where
  "check_signing_role p a governed names seen i item = (let q = ''signing manifest roles['' @ nat_str i @ ''].'';
       role = dict_get item ''role''; uri = dict_get item ''pkcs11_uri'' in collectE
     [Inr (report (is_str role \<and> text_of role \<in> set seen) (of_file p (q @ ''role must be unique''))),
      bindE (in_str_set role governed) (\<lambda>known. Inr (report (\<not> known) (of_file p (q @ ''role is not governed'')))),
      Inr (concat (map (check_role_field p i item) names)
        @ report (is_str uri \<and> list_ex (contains (lower (text_of uri))) [''softhsm'', ''file:'', ''software''])
            (of_file p (q @ ''pkcs11_uri must name a production HSM token''))),
      check_role_output p a i role (dict_get item ''output_sha256''),
      Inr (check_role_verifier p i role (dict_get item ''verifier''))])"

fun check_signing_roles ::
  "path \<Rightarrow> signing_args \<Rightarrow> string list \<Rightarrow> string list \<Rightarrow> string list \<Rightarrow> nat \<Rightarrow> json list \<Rightarrow> string list run" where
  "check_signing_roles p a governed names seen i [] = Inr []"
| "check_signing_roles p a governed names seen i (v # vs) = (let role = dict_get (members v) ''role'' in
     if \<not> is_obj v then collectE [Inr [of_file p (''signing manifest roles['' @ nat_str i @ ''] must be an object'')],
       check_signing_roles p a governed names seen (Suc i) vs]
     else collectE [check_signing_role p a governed names seen i (members v),
       check_signing_roles p a governed names (if is_str role then text_of role # seen else seen) (Suc i) vs])"

definition roles_seen :: "json list \<Rightarrow> string list" where
  "roles_seen vs = names_in ''role'' vs"

definition signing_identity :: "release_env \<Rightarrow> path \<Rightarrow> signing_args \<Rightarrow> obj \<Rightarrow> string list run" where
  "signing_identity env p a payload =
     bindE (from_checked (contract_schema_version ''signing_manifest'' (rel_contract env))) (\<lambda>schema.
     bindE (expected_release_subject_id env (s_version a) (s_target a) (s_source_sha a) (s_run_id a)) (\<lambda>subject. Inr
       (report (dict_get payload ''schema_version'' \<noteq> JStr schema) (of_file p (''signing manifest schema_version must be '' @ schema))
        @ report (dict_get payload ''version'' \<noteq> JStr (s_version a)) (of_file p ''signing manifest version mismatch'')
        @ report (dict_get payload ''target'' \<noteq> JStr (s_target a)) (of_file p ''signing manifest target mismatch'')
        @ (case s_source_sha a of None \<Rightarrow> []
           | Some s \<Rightarrow> report (dict_get payload ''source_sha'' \<noteq> JStr s) (of_file p ''signing manifest source_sha mismatch''))
        @ (case s_run_id a of None \<Rightarrow> []
           | Some r \<Rightarrow> report (py_str (dict_get payload ''source_run_id'') \<noteq> r) (of_file p ''signing manifest source_run_id mismatch''))
        @ (case subject of
             None \<Rightarrow> [of_file p ''signing manifest validation requires source_sha and source_run_id'']
           | Some i \<Rightarrow> report (dict_get payload ''subject_id'' \<noteq> JStr i) (of_file p ''signing manifest subject_id mismatch'')))))"

definition signing_roles_check :: "release_env \<Rightarrow> path \<Rightarrow> signing_args \<Rightarrow> obj \<Rightarrow> string list run" where
  "signing_roles_check env p a payload = (let roles = dict_get payload ''roles'' in
     bindE (from_checked (target_policy (s_target a) (rel_contract env))) (\<lambda>policy.
     bindE (from_checked (signing_role_bindings (rel_contract env))) (\<lambda>bindings.
     bindE (from_checked (signed_artifact_roles (rel_contract env))) (\<lambda>governed.
     if \<not> is_list roles \<or> elems roles = [] then Inr [of_file p ''signing manifest roles must be non-empty'']
     else bindE (role_required_fields (rel_contract env)) (\<lambda>names.
       let missing = sorted_set (minus_list (expected_signing_roles_for_policy bindings policy) (roles_seen (elems roles))) in
       collectE [check_signing_roles p a governed names [] 0 (elems roles),
         Inr (report (missing \<noteq> []) (''signing manifest missing required roles for '' @ s_target a @ '': '' @ comma_join missing))])))))"

definition validate_signing_manifest :: "release_env \<Rightarrow> path \<Rightarrow> signing_args \<Rightarrow> string list run" where
  "validate_signing_manifest env p a = (case read_doc env p of
       JObj payload \<Rightarrow> collectE [signing_identity env p a payload, signing_roles_check env p a payload]
     | _ \<Rightarrow> Inr [of_file p ''signing manifest missing or invalid JSON''])"

definition ota_signing_digest_expectations :: "release_env \<Rightarrow> path \<Rightarrow> (string \<times> string) list" where
  "ota_signing_digest_expectations env p = (let payload = members (read_doc env p) in
     List.map_filter (\<lambda>(role, f). let v = dict_get payload f; sha = dict_get (members v) ''sha256'' in
       if is_obj v \<and> is_str sha then Some (role, text_of sha) else None)
     [(''rauc-bundle'', ''bundle''), (''os-update-manifest'', ''manifest'')])"

section \<open>HSM sessions\<close>

definition certificate_reference :: "obj \<Rightarrow> json" where
  "certificate_reference payload = (let c = dict_get payload ''certificate''; q = dict_get (members c) ''path'' in
     if is_obj c \<and> is_str q then q else dict_get payload ''certificate_path'')"

definition is_certificate :: "release_env \<Rightarrow> string \<Rightarrow> path \<Rightarrow> bool" where
  "is_certificate env sha q \<longleftrightarrow> is_file (rel_files env) q \<and> lower (path_suffix q) \<in> {''.crt'', ''.cer'', ''.pem''} \<and>
     file_sha (rel_files env) q = sha"

definition find_hsm_certificate :: "release_env \<Rightarrow> path \<Rightarrow> obj \<Rightarrow> path option" where
  "find_hsm_certificate env session payload = (let r = certificate_reference payload;
       named = path_join (path_parent session) (path_of (text_of r)); sha = dict_get payload ''certificate_sha256'';
       siblings = map (\<lambda>n. path_join (path_parent session) (path_of n))
         (sort (case rel_names env (path_parent session) of None \<Rightarrow> [] | Some ns \<Rightarrow> ns)) in
     if nonblank_str r \<and> is_file (rel_files env) named then Some named
     else if sha256_text sha then find (is_certificate env (text_of sha)) siblings else None)"

definition hsm_replay_args :: "path \<Rightarrow> string \<Rightarrow> path \<Rightarrow> json \<Rightarrow> string list" where
  "hsm_replay_args session uri cert artifact = (let role = dict_get (members artifact) ''role'';
       digest = dict_get (members artifact) ''sha256'' in
     [''scripts/evidence/validate-hsm-signing-evidence.py'', ''validate'', path_str session, ''--pkcs11-uri'', uri,
      ''--certificate'', path_str cert, ''--require-production'', ''--replay-crypto'']
     @ (if is_obj artifact \<and> nonblank_str role then [''--artifact-role'', text_of role] else [])
     @ (if is_obj artifact \<and> nonblank_str digest then [''--artifact-sha256'', text_of digest] else []))"

definition hsm_artifact_file :: "release_env \<Rightarrow> path \<Rightarrow> obj \<Rightarrow> string list" where
  "hsm_artifact_file env session artifact = (let v = dict_get artifact ''path'';
       m = (\<lambda>t. t @ path_str session @ '': '' @ text_of v) in
     if \<not> nonblank_str v then []
     else case rel_files env (path_join (path_parent session) (path_of (text_of v))) of
       None \<Rightarrow> [m ''HSM artifact path missing: '']
     | Some f \<Rightarrow> report (\<not> py_eq (JInt (size_of f)) (dict_get artifact ''bytes'')) (m ''HSM artifact bytes mismatch: '')
         @ report (JStr (sha_of f) \<noteq> dict_get artifact ''sha256'') (m ''HSM artifact sha256 mismatch: ''))"

definition replays_expected :: "string list \<Rightarrow> string list \<Rightarrow> json \<Rightarrow> bool" where
  "replays_expected governed expected artifact \<longleftrightarrow> is_obj artifact \<and>
     (let role = dict_get (members artifact) ''role''; digest = dict_get (members artifact) ''sha256'' in
      is_str role \<and> text_of role \<in> set governed \<and> is_str digest \<and> text_of digest \<in> set expected)"

definition validate_hsm_session_replay :: "release_env \<Rightarrow> string list \<Rightarrow> path \<Rightarrow> obj \<Rightarrow> string list option \<Rightarrow> string list" where
  "validate_hsm_session_replay env governed session payload expected =
     (case find_hsm_certificate env session payload of
        None \<Rightarrow> [''HSM signing session certificate file is missing or not digest-bound: '' @ path_str session]
      | Some cert \<Rightarrow> (let uri = dict_get payload ''pkcs11_uri''; artifacts = elems (dict_get payload ''artifacts'');
            items = (if artifacts \<noteq> [] then artifacts else [JNull]) in
          if \<not> nonblank_str uri then [''HSM signing session missing pkcs11_uri: '' @ path_str session]
          else concat (map (\<lambda>v. (if is_obj v then hsm_artifact_file env session (members v) else [])
              @ run_script env (hsm_replay_args session (text_of uri) cert v)) items)
            @ (case expected of None \<Rightarrow> []
               | Some shas \<Rightarrow> report (\<not> list_ex (replays_expected governed shas) items)
                   (''HSM signing session does not bind a release artifact digest for '' @ path_str session @ '': ''
                    @ (if shas = [] then ''no bound artifacts'' else comma_join (sorted_set shas))))))"

section \<open>OTA artifacts\<close>

definition ota_digest_check :: "path \<Rightarrow> string \<Rightarrow> obj \<Rightarrow> string list" where
  "ota_digest_check p q o' =
     report (\<not> nonzero_sha256 (dict_get o' ''sha256'')) (of_file p (''OTA artifacts '' @ q @ ''.sha256 must be a non-zero sha256''))
     @ report (\<not> positive_int (dict_get o' ''bytes'')) (of_file p (''OTA artifacts '' @ q @ ''.bytes must be positive''))"

definition bundle_names :: "string \<Rightarrow> string \<Rightarrow> obj \<Rightarrow> string list run" where
  "bundle_names version target policy = bindE (py_list (dict_get_or policy ''bundle_artifacts'' (JArr []))) (\<lambda>xs.
     from_checked (mapE (\<lambda>v. py_format (map_of [(''version'', version), (''target'', target)]) (text_of v))
       (filter (\<lambda>v. is_str v \<and> ends_with (text_of v) ''.raucb'') xs)))"

definition ota_bundle_check :: "path \<Rightarrow> string \<Rightarrow> string \<Rightarrow> obj \<Rightarrow> json \<Rightarrow> string list run" where
  "ota_bundle_check p version target policy v =
     (if \<not> is_obj v then Inr [of_file p ''OTA artifacts bundle must be an object'']
      else bindE (bundle_names version target policy) (\<lambda>names.
        bindE (in_str_set (dict_get (members v) ''name'') names) (\<lambda>known. Inr
          (report (\<not> known) (of_file p ''OTA artifacts bundle.name must be target-named by evidence contract'')
           @ ota_digest_check p ''bundle'' (members v)))))"

definition ota_manifest_check :: "path \<Rightarrow> json \<Rightarrow> string list" where
  "ota_manifest_check p v = (if \<not> is_obj v then [of_file p ''OTA artifacts manifest must be an object'']
     else report (dict_get (members v) ''name'' \<noteq> JStr ''suderra-os-update-manifest.json'')
        (of_file p ''OTA artifacts manifest.name must be suderra-os-update-manifest.json'')
      @ ota_digest_check p ''manifest'' (members v))"

definition ota_contract_check :: "path \<Rightarrow> obj \<Rightarrow> json \<Rightarrow> string list" where
  "ota_contract_check p policy v = (if \<not> is_obj v then [of_file p ''OTA artifacts ota_contract must be an object'']
     else concat (map (\<lambda>f. report (\<not> py_eq (dict_get (members v) f) (dict_get policy f))
        (of_file p (''OTA artifacts ota_contract.'' @ f @ '' must match evidence contract'')))
       [''compatible'', ''boot_backend'', ''backend'', ''mark_good_policy'', ''rollback_storage'',
        ''slot_labels'', ''verity_devices'', ''health_checks'']))"

definition ota_roles_check :: "path \<Rightarrow> json \<Rightarrow> string list run" where
  "ota_roles_check p v = (let xs = elems v; m = of_file p ''OTA artifacts signing_roles must require RAUC bundle and OS update manifest'' in
     if \<not> is_list v then Inr [m]
     else if \<not> list_all hashable xs then Inl TypeError
     else Inr (report (set xs \<noteq> {JStr ''rauc-bundle'', JStr ''os-update-manifest''}) m))"

definition ota_identity :: "path \<Rightarrow> signing_args \<Rightarrow> string option \<Rightarrow> obj \<Rightarrow> string list" where
  "ota_identity p a subject payload =
     report (dict_get payload ''version'' \<noteq> JStr (s_version a)) (of_file p ''OTA artifacts version mismatch'')
     @ report (dict_get payload ''target'' \<noteq> JStr (s_target a)) (of_file p ''OTA artifacts target mismatch'')
     @ (case s_source_sha a of None \<Rightarrow> []
        | Some s \<Rightarrow> report (dict_get payload ''source_sha'' \<noteq> JStr s) (of_file p ''OTA artifacts source_sha mismatch''))
     @ (case s_run_id a of None \<Rightarrow> []
        | Some r \<Rightarrow> report (py_str (dict_get payload ''source_run_id'') \<noteq> r) (of_file p ''OTA artifacts source_run_id mismatch''))
     @ (case subject of None \<Rightarrow> []
        | Some i \<Rightarrow> report (dict_get payload ''subject_id'' \<noteq> JStr i) (of_file p ''OTA artifacts subject_id mismatch''))"

definition validate_ota_artifacts :: "release_env \<Rightarrow> path \<Rightarrow> signing_args \<Rightarrow> string list run" where
  "validate_ota_artifacts env p a = (case read_doc env p of
       JObj payload \<Rightarrow>
         bindE (from_checked (contract_schema_version ''ota_artifacts'' (rel_contract env))) (\<lambda>schema.
         bindE (expected_release_subject_id env (s_version a) (s_target a) (s_source_sha a) (s_run_id a)) (\<lambda>subject.
         bindE (from_checked (ota_target_policy (s_target a) (rel_contract env))) (\<lambda>policy. collectE
           [Inr (report (dict_get payload ''schema_version'' \<noteq> JStr schema)
                (of_file p (''OTA artifacts schema_version must be '' @ schema))
              @ ota_identity p a subject payload
              @ report (dict_get policy ''ota_capable'' \<noteq> JBool True)
                  (of_file p (''OTA artifacts supplied for non-OTA target '' @ s_target a))
              @ ota_contract_check p policy (dict_get payload ''ota_contract'')),
            ota_bundle_check p (s_version a) (s_target a) policy (dict_get payload ''bundle''),
            Inr (ota_manifest_check p (dict_get payload ''manifest'')),
            ota_roles_check p (dict_get payload ''signing_roles'')])))
     | _ \<Rightarrow> Inr [of_file p ''OTA artifacts manifest missing or invalid JSON''])"

end
