(* ===== verification/ReleaseHardware.thy ===== *)
theory ReleaseHardware
  imports ReleaseSigning
begin

text \<open>
  \<open>scripts/evidence/validate-release-inputs.py\<close>, third part: hardware subjects, what a station
  acquisition measured, and the GitHub identities bound to governance roles.
\<close>

section \<open>Station measurements\<close>

record measurements =
  events_by_id :: "(string \<times> obj) list"
  readback_sha256s :: "string list"
  storage_by_ids :: "string list"

definition no_measurements :: measurements where
  "no_measurements = \<lparr>events_by_id = [], readback_sha256s = [], storage_by_ids = []\<rparr>"

definition release_station_entry :: "json \<Rightarrow> json \<Rightarrow> obj option" where
  "release_station_entry registry station_id =
     (if is_obj registry \<and> nonempty_str station_id
      then find (\<lambda>s. dict_get s ''station_id'' = station_id)
        (map members (filter is_obj (elems (dict_get (members registry) ''stations''))))
      else None)"

text \<open>\<open>a or b\<close>.\<close>

definition py_or :: "json \<Rightarrow> json \<Rightarrow> json" where
  "py_or a b = (if truthy a then a else b)"

definition measured_readbacks :: "obj \<Rightarrow> string list" where
  "measured_readbacks measured = map text_of (filter sha256_text
     (map (dict_get measured) [''sha256'', ''actual_sha256'', ''readback_sha256'']))"

definition measured_storage :: "obj \<Rightarrow> string list" where
  "measured_storage measured = (let v = py_or (dict_get measured ''by_id'') (dict_get measured ''storage_by_id'') in
     if nonblank_str v then [text_of v] else [])"

text \<open>One event: its id counts whatever it measured; a later event with the same id replaces it.\<close>

definition add_event :: "measurements \<Rightarrow> obj \<Rightarrow> measurements" where
  "add_event m event = (let event_id = dict_get event ''event_id''; measured = dict_get event ''measured'';
       role = dict_get event ''role'';
       m = (if is_str event_id then m\<lparr>events_by_id := (text_of event_id, event) # events_by_id m\<rparr> else m) in
     if \<not> is_obj measured then m
     else m\<lparr>readback_sha256s := readback_sha256s m @ (if role = JStr ''readback'' then measured_readbacks (members measured) else []),
       storage_by_ids := storage_by_ids m @ (if role = JStr ''storage'' then measured_storage (members measured) else [])\<rparr>)"

definition station_acquisition_measurements :: "obj \<Rightarrow> measurements" where
  "station_acquisition_measurements payload =
     foldl add_event no_measurements (map members (filter is_obj (elems (dict_get payload ''events''))))"

section \<open>Hardware subjects\<close>

record hardware_args =
  h_version :: string
  h_target :: string
  h_source_sha :: "string option"
  h_run_id :: "string option"
  h_artifacts :: "string list"
  h_event_ids :: "string list option"
  h_acquisition :: "obj option"
  h_registry :: "obj option"

definition subject_binding_fields :: "obj \<Rightarrow> string list run" where
  "subject_binding_fields contract = bindE (dict_index contract ''hardware'') (\<lambda>h.
     bindE (subscript h ''subject_binding'') (\<lambda>b. bindE (subscript b ''required_fields'') (\<lambda>fs.
       bindE (py_list fs) (\<lambda>xs. Inr (map text_of xs)))))"

definition hardware_identity :: "path \<Rightarrow> hardware_args \<Rightarrow> string option \<Rightarrow> obj \<Rightarrow> string list" where
  "hardware_identity p a subject payload =
     report (dict_get payload ''version'' \<noteq> JStr (h_version a)) (of_file p ''hardware subject version mismatch'')
     @ report (dict_get payload ''target'' \<noteq> JStr (h_target a)) (of_file p ''hardware subject target mismatch'')
     @ (case h_source_sha a of None \<Rightarrow> []
        | Some s \<Rightarrow> report (dict_get payload ''source_sha'' \<noteq> JStr s) (of_file p ''hardware subject source_sha mismatch''))
     @ (case h_run_id a of None \<Rightarrow> []
        | Some r \<Rightarrow> report (py_str (dict_get payload ''source_run_id'') \<noteq> r) (of_file p ''hardware subject source_run_id mismatch''))
     @ (case subject of
          None \<Rightarrow> [of_file p ''hardware subject validation requires source_sha and source_run_id'']
        | Some i \<Rightarrow> report (dict_get payload ''subject_id'' \<noteq> JStr i) (of_file p ''hardware subject subject_id mismatch''))"

definition hardware_digests :: "path \<Rightarrow> hardware_args \<Rightarrow> obj \<Rightarrow> string list run" where
  "hardware_digests p a payload = (let readback = dict_get payload ''readback_sha256'';
       compressed = dict_get payload ''compressed_artifact_sha256''; raw = dict_get payload ''raw_image_sha256'' in
     bindE (if h_artifacts a = [] then Inr True
            else bindE (in_str_set compressed (h_artifacts a)) (\<lambda>b. if b then Inr True else in_str_set readback (h_artifacts a)))
       (\<lambda>bound. Inr
       (concat (map (\<lambda>f. report (\<not> nonzero_sha256 (dict_get payload f))
          (of_file p (''hardware subject '' @ f @ '' must be a non-zero sha256'')))
          [''readback_sha256'', ''compressed_artifact_sha256'', ''raw_image_sha256'', ''adapter_inventory_sha256''])
        @ report (\<not> bound) (of_file p (''hardware subject must bind a release artifact digest for '' @ h_target a))
        @ report (\<not> py_eq readback raw \<and> \<not> py_eq readback compressed)
            (of_file p ''hardware subject readback_sha256 must match raw or compressed build subject''))))"

definition acquisition_header :: "path \<Rightarrow> hardware_args \<Rightarrow> obj \<Rightarrow> obj \<Rightarrow> string list" where
  "acquisition_header p a payload acquisition = (let readback = dict_get payload ''readback_sha256'';
       sha = dict_get acquisition ''artifact_sha256''; q = (\<lambda>m. of_file p (''hardware subject '' @ m)) in
     report (dict_get acquisition ''version'' \<noteq> JStr (h_version a)) (q ''station-acquisition version mismatch'')
     @ report (dict_get acquisition ''target'' \<noteq> JStr (h_target a)) (q ''station-acquisition target mismatch'')
     @ (case h_source_sha a of None \<Rightarrow> []
        | Some s \<Rightarrow> report (dict_get acquisition ''source_sha'' \<noteq> JStr s) (q ''station-acquisition source_sha mismatch''))
     @ (case h_run_id a of None \<Rightarrow> []
        | Some r \<Rightarrow> report (py_str (dict_get acquisition ''source_run_id'') \<noteq> r) (q ''station-acquisition source_run_id mismatch''))
     @ report (\<not> py_eq (dict_get payload ''station_id'') (dict_get acquisition ''station_id''))
         (q ''station_id must come from station-acquisition evidence'')
     @ report (\<not> py_eq (dict_get payload ''adapter_inventory_sha256'') (dict_get acquisition ''registry_sha256''))
         (q ''adapter_inventory_sha256 must match station registry digest'')
     @ report (is_str sha \<and> readback \<noteq> sha) (q ''readback_sha256 must match station-acquisition readback artifact''))"

definition acquisition_events :: "path \<Rightarrow> measurements \<Rightarrow> obj \<Rightarrow> string list run" where
  "acquisition_events p m payload = (let event_id = dict_get payload ''station_acquisition_event_id'';
       readback = dict_get payload ''readback_sha256''; storage = dict_get payload ''storage_by_id'';
       device = dict_get payload ''device_identity''; q = (\<lambda>t. of_file p (''hardware subject '' @ t)) in
     bindE (in_str_set event_id (map fst (events_by_id m))) (\<lambda>known.
     bindE (if readback_sha256s m = [] then Inr True else in_str_set readback (readback_sha256s m)) (\<lambda>read.
     bindE (if storage_by_ids m = [] then Inr True else in_str_set storage (storage_by_ids m)) (\<lambda>stored. Inr
       (report (\<not> known) (q ''station_acquisition_event_id must identify a station event'')
        @ report (\<not> read) (q ''readback_sha256 must be derived from station readback event'')
        @ report (\<not> stored) (q ''storage_by_id must be derived from station storage event'')
        @ report (is_obj device \<and> is_str storage \<and> dict_get (members device) ''storage_by_id'' \<noteq> storage)
            (q ''device_identity.storage_by_id must match storage_by_id''))))))"

definition hardware_registry :: "path \<Rightarrow> obj \<Rightarrow> obj \<Rightarrow> string list" where
  "hardware_registry p payload registry = (let q = (\<lambda>t. of_file p (''hardware subject '' @ t)) in
     case release_station_entry (JObj registry) (dict_get payload ''station_id'') of
       None \<Rightarrow> [q ''station_id must exist in station registry'']
     | Some entry \<Rightarrow> (let allowed = dict_get entry ''allowed_storage_by_id'' in
         report (\<not> py_eq (dict_get payload ''fixture_id'') (dict_get entry ''fixture_id''))
           (q ''fixture_id must match station registry'')
         @ report (is_list allowed \<and> \<not> py_in (dict_get payload ''storage_by_id'') (elems allowed))
           (q ''storage_by_id must be allowed by station registry'')))"

definition validate_hardware_payload :: "release_env \<Rightarrow> path \<Rightarrow> hardware_args \<Rightarrow> obj \<Rightarrow> string list run" where
  "validate_hardware_payload env p a payload =
     bindE (from_checked (contract_schema_version ''hardware_subject'' (rel_contract env))) (\<lambda>schema.
     bindE (expected_release_subject_id env (h_version a) (h_target a) (h_source_sha a) (h_run_id a)) (\<lambda>subject.
     bindE (subject_binding_fields (rel_contract env)) (\<lambda>needed. collectE
       [Inr (report (dict_get payload ''schema_version'' \<noteq> JStr schema)
            (of_file p (''hardware subject schema_version must be '' @ schema))
          @ hardware_identity p a subject payload
          @ concat (map (\<lambda>f. report (release_placeholder (dict_get payload f) \<or> dict_get payload f = JNull)
              (of_file p (''hardware subject missing required field '' @ f))) needed)),
        hardware_digests p a payload,
        (case h_event_ids a of None \<Rightarrow> Inr []
         | Some ids \<Rightarrow> bindE (in_str_set (dict_get payload ''station_acquisition_event_id'') ids) (\<lambda>known. Inr
             (report (\<not> known) (of_file p ''hardware subject station_acquisition_event_id must match station-acquisition event'')))),
        (case h_acquisition a of None \<Rightarrow> Inr []
         | Some acquisition \<Rightarrow> collectE [Inr (acquisition_header p a payload acquisition),
             acquisition_events p (station_acquisition_measurements acquisition) payload]),
        Inr (case h_registry a of None \<Rightarrow> [] | Some registry \<Rightarrow> hardware_registry p payload registry)])))"

definition validate_hardware_subject :: "release_env \<Rightarrow> path \<Rightarrow> hardware_args \<Rightarrow> string list run" where
  "validate_hardware_subject env p a = (case read_doc env p of
       JObj payload \<Rightarrow> validate_hardware_payload env p a payload
     | _ \<Rightarrow> Inr [of_file p ''hardware subject missing or invalid JSON''])"

section \<open>Governance role bindings\<close>

definition ROLE_BINDING_FIELDS :: "string list" where
  "ROLE_BINDING_FIELDS = [''role'', ''github_subject'', ''subject_type'', ''github_node_id'', ''source_snapshot_sha256'',
     ''permission_snapshot_sha256'', ''environment_reviewer_binding_sha256'', ''effective_permission'']"

definition check_role_binding_item :: "path \<Rightarrow> nat \<Rightarrow> json \<Rightarrow> string list run" where
  "check_role_binding_item p i v = (let item = members v; node = dict_get item ''github_node_id'';
       q = (\<lambda>m. of_file p (''governance role bindings['' @ nat_str i @ '']'' @ m)) in
     if \<not> is_obj v then Inr [q '' must be an object'']
     else bindE (in_str_set (dict_get item ''subject_type'') [''user'', ''team'', ''github-app'']) (\<lambda>kind.
       bindE (in_str_set (dict_get item ''effective_permission'') [''admin'', ''maintain'', ''write'']) (\<lambda>permitted. Inr
       (concat (map (\<lambda>f. report (\<not> nonblank_str (dict_get item f)) (q (''.'' @ f @ '' must be non-empty''))) ROLE_BINDING_FIELDS)
        @ report (py_eq (dict_get item ''github_subject'') (dict_get item ''role''))
            (q ''.github_subject must be a real GitHub identity, not the role name'')
        @ report (\<not> kind) (q ''.subject_type must identify a GitHub user/team/app'')
        @ report (is_str node \<and> lower (text_of node) \<in> {''unknown'', ''pending'', ''not_collected''})
            (q ''.github_node_id must be the real GitHub node id'')
        @ report (\<not> permitted) (q ''.effective_permission must be admin/maintain/write'')
        @ concat (map (\<lambda>f. report (is_str (dict_get item f) \<and> \<not> sha256_text (dict_get item f)) (q (''.'' @ f @ '' must be a sha256'')))
            [''source_snapshot_sha256'', ''permission_snapshot_sha256'', ''environment_reviewer_binding_sha256''])))))"

definition validate_governance_role_bindings :: "release_env \<Rightarrow> path \<Rightarrow> string \<Rightarrow> string list run" where
  "validate_governance_role_bindings env p version = (case read_doc env p of
       JObj payload \<Rightarrow> bindE (from_checked (contract_schema_version ''governance_role_bindings'' (rel_contract env))) (\<lambda>schema.
         let bindings = dict_get payload ''bindings'';
           header = report (dict_get payload ''schema_version'' \<noteq> JStr schema)
               (of_file p (''governance role bindings schema_version must be '' @ schema))
             @ report (dict_get payload ''version'' \<noteq> JStr version) (of_file p ''governance role bindings version mismatch'') in
         if \<not> is_list bindings \<or> elems bindings = []
         then Inr (header @ [of_file p ''governance role bindings must be non-empty''])
         else collectE [Inr header,
           collectE (map (\<lambda>(i, v). check_role_binding_item p i v) (enumerate 0 (elems bindings))),
           Inr (concat (map (\<lambda>r. report (r \<notin> set (names_in ''role'' (elems bindings)))
             (of_file p (''governance role bindings missing '' @ r))) [''release-owner'', ''security-owner'']))])
     | _ \<Rightarrow> Inr [of_file p ''governance role bindings missing or invalid JSON''])"

end
