(* ===== verification/ReleaseRecords.thy ===== *)
theory ReleaseRecords
  imports ReleaseHardware Approval
begin

text \<open>
  \<open>scripts/evidence/validate-release-inputs.py\<close>, fourth part: retention manifests, approvals,
  reproducibility records and security reports. The replay of raw scanner output is an argument;
  a time whose UTC value leaves the range of \<open>datetime\<close> is outside the model.
\<close>

section \<open>Retention manifests\<close>

definition retention_policy :: "obj \<Rightarrow> obj checked" where
  "retention_policy payload = bindE (dict_index payload ''retention'') dict_of"

definition retention_texts :: "string \<Rightarrow> obj \<Rightarrow> string list run" where
  "retention_texts f policy = bindE (dict_index policy f) (\<lambda>v. bindE (py_list v) (\<lambda>xs. Inr (map text_of xs)))"

definition retention_header :: "path \<Rightarrow> string \<Rightarrow> string option \<Rightarrow> string option \<Rightarrow> obj \<Rightarrow> obj \<Rightarrow> string list run" where
  "retention_header p version source_sha run_id policy payload = (let q = (\<lambda>m. of_file p (''retention manifest '' @ m));
       years = dict_get payload ''retention_years'' in
     bindE (dict_index policy ''manifest_schema_version'') (\<lambda>schema.
     bindE (dict_index policy ''policy_id'') (\<lambda>policy_id.
     bindE (dict_index policy ''store_class'') (\<lambda>store_class.
     bindE (dict_index policy ''minimum_years'') (\<lambda>minimum. Inr
       (report (\<not> py_eq (dict_get payload ''schema_version'') schema) (q (''schema_version must be '' @ py_str schema))
        @ report (\<not> py_eq (dict_get payload ''policy_id'') policy_id) (q ''policy_id mismatch'')
        @ report (dict_get payload ''version'' \<noteq> JStr version) (q ''version mismatch'')
        @ (case source_sha of None \<Rightarrow> [] | Some s \<Rightarrow> report (dict_get payload ''source_sha'' \<noteq> JStr s) (q ''source_sha mismatch''))
        @ (case run_id of None \<Rightarrow> [] | Some r \<Rightarrow> report (py_str (dict_get payload ''source_run_id'') \<noteq> r) (q ''source_run_id mismatch''))
        @ report (\<not> py_eq (dict_get payload ''store_class'') store_class) (q ''store_class mismatch'')
        @ report (\<not> is_int years \<or> int_of years < int_of minimum)
            (q (''retention_years must be at least '' @ py_str minimum))))))))"

text \<open>\<open>{item.get("name") for item in xs if ...}\<close> hashes each name.\<close>

definition hashed_names :: "obj list \<Rightarrow> json list run" where
  "hashed_names xs = (let ns = map (\<lambda>o'. dict_get o' ''name'') xs in if list_all hashable ns then Inr ns else Inl TypeError)"

definition retention_exports :: "path \<Rightarrow> obj \<Rightarrow> json \<Rightarrow> string list run" where
  "retention_exports p policy v =
     bindE (hashed_names (map members (filter is_obj (elems v)))) (\<lambda>ns.
     bindE (retention_texts ''required_exports'' policy) (\<lambda>required.
       let missing = sorted_set (filter (\<lambda>n. JStr n \<notin> set ns) required) in
       Inr (report (\<not> is_list v) (of_file p ''retention manifest exports must be a list'')
         @ report (missing \<noteq> []) (''retention manifest missing exports: '' @ comma_join missing))))"

definition retention_replays :: "path \<Rightarrow> obj \<Rightarrow> json \<Rightarrow> string list run" where
  "retention_replays p policy v =
     bindE (hashed_names (filter (\<lambda>o'. dict_get o' ''status'' = JStr ''passed'') (map members (filter is_obj (elems v))))) (\<lambda>ns.
     bindE (retention_texts ''required_replay'' policy) (\<lambda>required.
       let missing = sorted_set (filter (\<lambda>n. JStr n \<notin> set ns) required) in
       Inr (report (\<not> is_list v \<or> elems v = []) (of_file p ''retention manifest restore_replay_tests must be non-empty'')
         @ report (missing \<noteq> []) (''retention manifest missing passed replay tests: '' @ comma_join missing))))"

definition ARCHIVE_FIELDS :: "string list" where
  "ARCHIVE_FIELDS = [''kms_key_id'', ''custody_chain'', ''access_log'', ''archive_object_uri'', ''archive_object_version_id'',
     ''archive_object_sha256'', ''retention_lock_mode'', ''retain_until'', ''legal_hold_status'', ''access_log_sha256'',
     ''restore_job_id'', ''restored_archive_sha256'', ''replay_validator_output_sha256'']"

definition retention_archive :: "path \<Rightarrow> obj \<Rightarrow> string list" where
  "retention_archive p payload = (let q = (\<lambda>m. of_file p (''retention manifest '' @ m)); uri = dict_get payload ''archive_object_uri'' in
     concat (map (\<lambda>f. report (release_placeholder (dict_get payload f) \<or> \<not> is_str (dict_get payload f))
       (q (f @ '' must be non-placeholder''))) ARCHIVE_FIELDS)
     @ concat (map (\<lambda>f. report (is_str (dict_get payload f) \<and> \<not> sha256_text (dict_get payload f)) (q (f @ '' must be a sha256'')))
         [''archive_object_sha256'', ''access_log_sha256'', ''restored_archive_sha256'', ''replay_validator_output_sha256''])
     @ report (is_str uri \<and> (\<not> contains (text_of uri) ''://'' \<or> starts_with (text_of uri) ''github-artifact://''))
         (q ''archive_object_uri must be an immutable archive object URI, not transient CI storage'')
     @ report (lower (py_str (dict_get_or payload ''retention_lock_mode'' (JStr []))) \<notin> {''governance'', ''compliance''})
         (q ''retention_lock_mode must be governance or compliance'')
     @ report (\<not> py_eq (dict_get payload ''restored_archive_sha256'') (dict_get payload ''archive_object_sha256''))
         (q ''restored_archive_sha256 must match archived object digest after restore''))"

definition retain_until_check :: "path \<Rightarrow> int \<Rightarrow> json \<Rightarrow> string list" where
  "retain_until_check p now v = (let q = (\<lambda>m. of_file p (''retention manifest retain_until '' @ m)) in
     if \<not> is_str v then []
     else case fromisoformat (replace (text_of v) ''Z'' ''+00:00'') of
       None \<Rightarrow> [q ''must be an ISO-8601 UTC timestamp'']
     | Some d \<Rightarrow> (case utc_offset d of None \<Rightarrow> [q ''must include timezone'']
         | Some off \<Rightarrow> report (local_us d - off \<le> now) (q ''must be in the future'')))"

definition custody_event :: "path \<Rightarrow> nat \<Rightarrow> json \<Rightarrow> string list" where
  "custody_event p i v = (let q = (\<lambda>m. of_file p (''retention manifest custody_events['' @ nat_str i @ '']'' @ m));
       event = members v; sha = dict_get event ''evidence_sha256'' in
     if \<not> is_obj v then [q '' must be an object'']
     else concat (map (\<lambda>f. report (\<not> nonblank_str (dict_get event f)) (q (''.'' @ f @ '' must be non-empty'')))
         [''event_id'', ''event_type'', ''actor'', ''occurred_at'', ''evidence_sha256''])
       @ report (is_str sha \<and> \<not> sha256_text sha) (q ''.evidence_sha256 must be a sha256''))"

definition custody_events :: "path \<Rightarrow> json \<Rightarrow> string list" where
  "custody_events p v = (if \<not> is_list v \<or> elems v = [] then [of_file p ''retention manifest custody_events must be a non-empty list'']
     else concat (map (\<lambda>(i, w). custody_event p i w) (enumerate 0 (elems v))))"

definition validate_retention_manifest :: "release_env \<Rightarrow> path \<Rightarrow> string \<Rightarrow> string option \<Rightarrow> string option \<Rightarrow> string list run" where
  "validate_retention_manifest env p version source_sha run_id = (case read_doc env p of
       JObj payload \<Rightarrow> bindE (from_checked (retention_policy (rel_contract env))) (\<lambda>policy. collectE
         [retention_header p version source_sha run_id policy payload,
          retention_exports p policy (dict_get payload ''exports''),
          retention_replays p policy (dict_get payload ''restore_replay_tests''),
          Inr (retention_archive p payload
            @ retain_until_check p (rel_now env) (dict_get payload ''retain_until'')
            @ report (\<not> nonblank_str (dict_get payload ''legal_hold_id''))
                (of_file p ''retention manifest legal_hold_id must be non-placeholder'')
            @ custody_events p (dict_get payload ''custody_events''))])
     | _ \<Rightarrow> Inr [of_file p ''retention manifest missing or invalid JSON''])"

section \<open>Approvals\<close>

definition release_validate_approval :: "release_env \<Rightarrow> path \<Rightarrow> string \<Rightarrow> string \<Rightarrow> string option \<Rightarrow> string list run" where
  "release_validate_approval env p version target source_sha = (case read_doc env p of
       JObj payload \<Rightarrow> bindE (validate_approval_payload (JObj payload) version target source_sha True (rel_now env)) (\<lambda>fs.
         Inr (map (msg (path_str p)) fs))
     | _ \<Rightarrow> Inr [''missing or invalid approval input: '' @ path_str p])"

section \<open>Reproducibility\<close>

record repro_args =
  rp_version :: "string option"
  rp_target :: "string option"
  rp_source_sha :: "string option"
  rp_run_id :: "string option"
  rp_check_files :: bool

definition given_text :: "json \<Rightarrow> bool" where
  "given_text v \<longleftrightarrow> nonblank_str v \<and> \<not> release_placeholder v"

definition differs :: "string option \<Rightarrow> json \<Rightarrow> bool" where
  "differs expected v \<longleftrightarrow> (case expected of None \<Rightarrow> False | Some s \<Rightarrow> v \<noteq> JStr s)"

definition repro_comparison :: "path \<Rightarrow> nat \<Rightarrow> json \<Rightarrow> string list" where
  "repro_comparison p i v = (let q = (\<lambda>m. of_file p (''reproducibility artifact_comparisons['' @ nat_str i @ '']'' @ m));
       item = members v; reference = dict_get item ''reference_sha256''; rebuild = dict_get item ''rebuild_sha256'' in
     if \<not> is_obj v then [q '' must be an object'']
     else report (dict_get item ''status'' \<noteq> JStr ''matched'') (q ''.status must be matched'')
       @ report (\<not> given_text (dict_get item ''artifact'')) (q ''.artifact is required'')
       @ concat (map (\<lambda>f. report (\<not> nonzero_sha256 (dict_get item f)) (q (''.'' @ f @ '' must be a non-zero sha256'')))
           [''reference_sha256'', ''rebuild_sha256''])
       @ report (is_str reference \<and> is_str rebuild \<and> reference \<noteq> rebuild) (q '' digest mismatch''))"

definition repro_log :: "release_env \<Rightarrow> path \<Rightarrow> bool \<Rightarrow> nat \<Rightarrow> json \<Rightarrow> string list" where
  "repro_log env p check_files i v = (let q = (\<lambda>m. of_file p (''reproducibility logs['' @ nat_str i @ '']'' @ m));
       rel = dict_get (members v) ''path''; sha = dict_get (members v) ''sha256'' in
     if \<not> is_obj v then [q '' must be an object'']
     else if \<not> given_text rel then [q ''.path is required'']
     else case inner_path rel of None \<Rightarrow> [q ''.path must be relative and contained'']
     | Some r \<Rightarrow> (let log_path = path_join (path_parent p) r in
         if \<not> nonzero_sha256 sha then [q ''.sha256 must be a non-zero sha256'']
         else if \<not> check_files then []
         else if \<not> nonempty_file (rel_files env) log_path then [''reproducibility log missing or empty: '' @ path_str log_path]
         else report (JStr (file_sha (rel_files env) log_path) \<noteq> sha) (''reproducibility log sha mismatch: '' @ path_str log_path)))"

definition validate_repro_payload :: "release_env \<Rightarrow> path \<Rightarrow> repro_args \<Rightarrow> obj \<Rightarrow> string list" where
  "validate_repro_payload env p a payload = (let q = (\<lambda>m. of_file p (''reproducibility '' @ m));
       comparisons = dict_get payload ''artifact_comparisons''; logs = dict_get_or payload ''logs'' (JArr []) in
     report (dict_get payload ''schema_version'' \<noteq> JStr ''suderra.reproducibility.v1'') (q ''schema_version mismatch'')
     @ report (differs (rp_version a) (dict_get payload ''version'')) (q ''version mismatch'')
     @ report (differs (rp_target a) (dict_get payload ''target'')) (q ''target mismatch'')
     @ report (differs (rp_source_sha a) (dict_get payload ''source_sha'')) (q ''source_sha mismatch'')
     @ report (differs (rp_run_id a) (JStr (py_str (dict_get payload ''source_run_id'')))) (q ''source_run_id mismatch'')
     @ report (dict_get payload ''status'' \<noteq> JStr ''passed'') (q ''status must be passed'')
     @ report (\<not> given_text (dict_get payload ''comparison'')) (q ''comparison is required'')
     @ report (\<not> given_text (dict_get payload ''generated_at'')) (q ''generated_at is required'')
     @ (if \<not> is_list comparisons \<or> elems comparisons = [] then [q ''artifact_comparisons must be a non-empty list'']
        else concat (map (\<lambda>(i, v). repro_comparison p i v) (enumerate 0 (elems comparisons))))
     @ (if \<not> is_list logs then [q ''logs must be a list'']
        else concat (map (\<lambda>(i, v). repro_log env p (rp_check_files a) i v) (enumerate 0 (elems logs)))))"

definition validate_repro :: "release_env \<Rightarrow> path \<Rightarrow> repro_args \<Rightarrow> string list" where
  "validate_repro env p a =
     (if \<not> nonempty_file (rel_files env) p then [''missing reproducibility input: '' @ path_str p]
      else case read_doc env p of
        JObj payload \<Rightarrow> validate_repro_payload env p a payload
      | _ \<Rightarrow> [''reproducibility input must be suderra.reproducibility.v1 JSON: '' @ path_str p])"

section \<open>Security reports\<close>

definition MAX_RAW_SECURITY_EVIDENCE_BYTES :: int where
  "MAX_RAW_SECURITY_EVIDENCE_BYTES = 10 * 1024 * 1024"

record security_args =
  se_scan :: string
  se_version :: string
  se_source_sha :: "string option"
  se_run_id :: "string option"
  se_check_files :: bool

definition security_field :: "path \<Rightarrow> obj \<Rightarrow> string \<Rightarrow> string list" where
  "security_field p payload f = (let v = dict_get payload f in
     if f = ''evidence_sha256'' then report (\<not> nonzero_sha256 v) (of_file p ''security report evidence_sha256 must be a non-zero sha256'')
     else if f = ''evidence_path'' then
       (if \<not> given_text v then [of_file p ''security report missing evidence_path'']
        else report (inner_path v = None) (of_file p ''security report evidence_path must be relative and confined''))
     else report (\<not> given_text v) (of_file p (''security report missing '' @ f)))"

definition security_raw_file :: "release_env \<Rightarrow> path \<Rightarrow> obj \<Rightarrow> string list" where
  "security_raw_file env p payload = (case inner_path (dict_get payload ''evidence_path'') of None \<Rightarrow> []
     | Some rel \<Rightarrow> (let raw = path_join (path_parent (path_parent p)) rel; sha = dict_get payload ''evidence_sha256'' in
         case rel_files env raw of
           None \<Rightarrow> [''security report raw evidence missing: '' @ path_str raw]
         | Some f \<Rightarrow> report (\<not> py_eq (JInt (size_of f)) (dict_get payload ''evidence_bytes''))
               (''security report raw evidence size mismatch: '' @ path_str raw)
             @ report (sha256_text sha \<and> JStr (sha_of f) \<noteq> sha) (''security report raw evidence sha256 mismatch: '' @ path_str raw)))"

definition severity_findings :: "path \<Rightarrow> json \<Rightarrow> string list" where
  "severity_findings p v = (if \<not> is_obj v then []
     else concat (map (\<lambda>s. report (int_above 0 (dict_get_or (members v) s (JInt 0)))
       (of_file p (''security report has '' @ s @ '' findings''))) [''critical'', ''high'']))"

definition security_report_v1 :: "release_env \<Rightarrow> path \<Rightarrow> security_args \<Rightarrow> obj \<Rightarrow> string list" where
  "security_report_v1 env p a payload = (let n = dict_get payload ''evidence_bytes'' in
     concat (map (security_field p payload)
       [''generated_at'', ''tool'', ''tool_version'', ''evidence_type'', ''evidence_sha256'', ''evidence_path''])
     @ (if \<not> positive_int n then [of_file p ''security report evidence_bytes must be positive'']
        else report (MAX_RAW_SECURITY_EVIDENCE_BYTES < int_of n) (of_file p ''security report raw evidence exceeds size cap''))
     @ (if se_check_files a then security_raw_file env p payload else [])
     @ severity_findings p (dict_get payload ''severity_counts''))"

text \<open>The replay of a v2 report by \<open>security-raw-replay.py\<close>: its failures, or an exception's text.\<close>

type_synonym raw_replay = "path \<Rightarrow> bool \<Rightarrow> string + string list"

definition validate_security_report :: "release_env \<Rightarrow> raw_replay \<Rightarrow> path \<Rightarrow> security_args \<Rightarrow> string list run" where
  "validate_security_report env replay p a = (case read_doc env p of
       JObj payload \<Rightarrow> (let q = (\<lambda>m. of_file p (''security report '' @ m)); schema = dict_get payload ''schema_version'' in
         bindE (in_str_set schema [''suderra.release-security-report.v1'', ''suderra.release-security-report.v2'']) (\<lambda>known. Inr
         (report (\<not> known) (q ''schema_version mismatch'')
          @ report (dict_get payload ''version'' \<noteq> JStr (se_version a)) (q ''version mismatch'')
          @ report (differs (se_source_sha a) (dict_get payload ''source_sha'')) (q ''source_sha mismatch'')
          @ report (differs (se_run_id a) (JStr (py_str (dict_get payload ''source_run_id'')))) (q ''source_run_id mismatch'')
          @ report (dict_get_or payload ''scan'' (JStr (se_scan a)) \<noteq> JStr (se_scan a)) (q ''scan mismatch'')
          @ report (dict_get payload ''status'' \<noteq> JStr ''passed'') (q ''status must be passed'')
          @ (if schema = JStr ''suderra.release-security-report.v2'' then
               (case replay p (se_check_files a) of
                  Inl e \<Rightarrow> [''cannot replay scanner raw evidence: '' @ e]
                | Inr fs \<Rightarrow> fs)
             else security_report_v1 env p a payload))))
     | _ \<Rightarrow> Inr [''missing or invalid release security report: '' @ path_str p])"

end
