(* ===== verification/ReleaseBinding.thy ===== *)
theory ReleaseBinding
  imports ReleaseRecords Matrix
begin

text \<open>
  \<open>scripts/evidence/validate-release-inputs.py\<close>, fifth part: the binding manifest, which names
  the built artifacts, the evidence of their builds, the installers and the image contract. The
  text of a caught exception is the text of a \<open>ValueError\<close> or the class of another one.
\<close>

section \<open>Caught exceptions\<close>

fun exc_text :: "string exc \<Rightarrow> string" where
  "exc_text (ValueError m) = m"
| "exc_text TypeError = ''TypeError''"
| "exc_text (KeyError k) = repr_str k"
| "exc_text AttributeError = ''AttributeError''"
| "exc_text IndexError = ''list index out of range''"

definition caught :: "string \<Rightarrow> string list run \<Rightarrow> string list" where
  "caught m r = (case r of Inl e \<Rightarrow> [m @ exc_text e] | Inr fs \<Rightarrow> fs)"

section \<open>Arguments of the gate\<close>

record gate_args =
  a_version :: string
  a_tier :: string
  a_profile :: string
  a_matrix :: path
  a_root :: path
  a_check_files :: bool
  a_binding :: "path option"
  a_ingress :: "path option"
  a_source_sha :: "string option"
  a_run_id :: "string option"
  a_run_attempt :: "string option"
  a_registry :: "path option"
  a_workflow_name :: string
  a_workflow_path :: string
  a_artifact_root :: "path option"
  a_require_signature :: bool
  a_identity :: "string option"
  a_issuer :: "string option"
  a_require_evidence_signature :: bool
  a_evidence_identity :: "string option"
  a_evidence_issuer :: "string option"

definition BINDING_SCHEMA_VERSION :: string where
  "BINDING_SCHEMA_VERSION = ''suderra.release-input-binding.v2''"

definition load_binding :: "release_env \<Rightarrow> path option \<Rightarrow> string list \<times> obj option" where
  "load_binding env p = (case p of None \<Rightarrow> ([], None)
     | Some q \<Rightarrow> (case read_doc env q of
         JObj payload \<Rightarrow> (report (dict_get payload ''schema_version'' \<noteq> JStr BINDING_SCHEMA_VERSION)
             (of_file q (''binding manifest schema_version must be '' @ BINDING_SCHEMA_VERSION)), Some payload)
       | _ \<Rightarrow> ([of_file q ''binding manifest missing or invalid JSON''], None)))"

definition release_load_matrix :: "release_env \<Rightarrow> path \<Rightarrow> obj run" where
  "release_load_matrix env p = (case rel_files env p of
       None \<Rightarrow> Inl (ValueError (''No such file or directory: '' @ path_str p))
     | Some f \<Rightarrow> (case load_matrix (text_content f) of
         Inl e \<Rightarrow> Inl (exc_map (\<lambda>_. ''cannot parse the build matrix'') e)
       | Inr m \<Rightarrow> Inr m))"

section \<open>Buildroot identity\<close>

definition IDENTITY_FIELDS :: "string list" where
  "IDENTITY_FIELDS = [''buildroot_index_sha'', ''buildroot_upstream_ref'', ''buildroot_source_mode'', ''buildroot_patchset_sha256'',
     ''buildroot_patch_files'', ''buildroot_effective_source_id'', ''buildroot_expected_patched'', ''buildroot_rust_version'',
     ''buildroot_rust_bin_version'', ''buildroot_expected_diff_sha256'', ''buildroot_staged_diff_sha256'',
     ''buildroot_applied_diff_sha256'', ''buildroot_worktree_diff_sha256'', ''suderra_source_sha'',
     ''suderra_external_tree_sha256'', ''suderra_external_dirty_paths'', ''suderra_release_source_id'']"

definition buildroot_identity_payload_from_binding :: "obj \<Rightarrow> obj" where
  "buildroot_identity_payload_from_binding binding =
     (if dict_has binding ''buildroot_source_identity_schema_version''
      then [(''schema_version'', dict_get binding ''buildroot_source_identity_schema_version'')] else [])
     @ map (\<lambda>f. (f, dict_get binding f)) (filter (dict_has binding) IDENTITY_FIELDS)"

definition compare_buildroot_identity_to_binding :: "obj \<Rightarrow> obj \<Rightarrow> string \<Rightarrow> string list" where
  "compare_buildroot_identity_to_binding payload binding prefix =
     concat (map (\<lambda>(f, g). report (\<not> py_eq (dict_get payload f) (dict_get binding g))
       (msg prefix (f @ '' must match release input binding'')))
     ((''schema_version'', ''buildroot_source_identity_schema_version'') # map (\<lambda>f. (f, f)) IDENTITY_FIELDS))"

definition git_output :: "checkout \<Rightarrow> string list \<Rightarrow> string run" where
  "git_output env args = (let r = git env (repo_root env) args; e = strip (stderr r) in
     if return_code r \<noteq> 0 then Inl (ValueError (if e \<noteq> [] then e else ''git '' @ join '' '' args @ '' failed''))
     else Inr (strip (stdout r)))"

definition expected_buildroot :: "checkout \<Rightarrow> string \<Rightarrow> string run" where
  "expected_buildroot env source_sha = bindE (git_output env [''ls-tree'', source_sha, ''buildroot'']) (\<lambda>t.
     if length (words_of t) < 3 then Inl IndexError else Inr (words_of t ! 2))"

definition binding_buildroot :: "release_env \<Rightarrow> obj \<Rightarrow> string list" where
  "binding_buildroot env binding = (let source_sha = dict_get binding ''source_sha'' in
     (if \<not> commit_text source_sha then []
      else case expected_buildroot (rel_checkout env) (text_of source_sha) of
        Inl e \<Rightarrow> [''cannot resolve Buildroot submodule for binding source_sha: '' @ exc_text e]
      | Inr sha \<Rightarrow> report (dict_get binding ''buildroot_index_sha'' \<noteq> JStr sha)
          ''binding buildroot_index_sha does not match source_sha tree'')
     @ caught ''cannot validate binding Buildroot source identity: ''
         (bindE (validate_metadata_payload (rel_checkout env) (buildroot_identity_payload_from_binding binding)) (\<lambda>fs.
           Inr (map (msg ''binding Buildroot source identity'') fs))))"

section \<open>Header\<close>

definition positive_attempt :: "json \<Rightarrow> bool" where
  "positive_attempt v \<longleftrightarrow> (case int_literal (py_str v) of None \<Rightarrow> False | Some n \<Rightarrow> 0 < n)"

definition binding_header :: "release_env \<Rightarrow> gate_args \<Rightarrow> obj \<Rightarrow> string list" where
  "binding_header env a binding = (let attempt = dict_get binding ''source_run_attempt''; matrix_sha = dict_get binding ''matrix_sha256'' in
     report (dict_get binding ''version'' \<noteq> JStr (a_version a)) ''binding version must match requested version''
     @ report (dict_get binding ''profile'' \<noteq> JStr (a_profile a)) ''binding profile must match requested profile''
     @ report (differs (a_source_sha a) (dict_get binding ''source_sha'')) ''binding source_sha must match --source-sha''
     @ report (differs (a_run_id a) (JStr (py_str (dict_get binding ''source_run_id'')))) ''binding source_run_id must match --source-run-id''
     @ report (\<not> positive_attempt attempt) ''binding source_run_attempt must be a positive run attempt''
     @ report (differs (a_run_attempt a) (JStr (py_str attempt))) ''binding source_run_attempt must match --source-run-attempt''
     @ report (dict_get binding ''build_workflow_name'' \<noteq> JStr (a_workflow_name a))
         (''binding build_workflow_name must be '' @ a_workflow_name a)
     @ report (dict_get binding ''build_workflow_path'' \<noteq> JStr (a_workflow_path a))
         (''binding build_workflow_path must be '' @ a_workflow_path a)
     @ report (\<not> commit_text (dict_get binding ''source_sha'')) ''binding source_sha must be a lowercase git commit sha''
     @ (if \<not> sha256_text matrix_sha then [''binding matrix_sha256 must be a lowercase sha256'']
        else report (is_file (rel_files env) (a_matrix a) \<and> JStr (file_sha (rel_files env) (a_matrix a)) \<noteq> matrix_sha)
          ''binding matrix_sha256 does not match current ci/build-matrix.yml'')
     @ binding_buildroot env binding
     @ concat (map (\<lambda>f. report (\<not> nonzero_sha256 (dict_get binding f)) (''binding '' @ f @ '' must be a non-zero sha256''))
         [''userspace_cargo_lock_sha256'', ''userspace_rust_toolchain_sha256'']))"

section \<open>Artifacts\<close>

text \<open>The texts of the failures that the evidence contract reports.\<close>

definition pair_text :: "string \<times> string \<Rightarrow> string" where
  "pair_text k = fst k @ '' '' @ snd k"

definition colon_join :: "(string \<times> string) list \<Rightarrow> string" where
  "colon_join ks = comma_join (map (\<lambda>(a, b). a @ '':'' @ b) ks)"

fun binding_failure_text :: "binding_failure \<Rightarrow> string" where
  "binding_failure_text ArtifactsMustBeList = ''binding artifacts must be a non-empty list''"
| "binding_failure_text (ArtifactMustBeObject i) = ''binding artifacts['' @ nat_str i @ ''] must be an object''"
| "binding_failure_text (UnexpectedArtifact k) = ''unexpected binding artifact: '' @ pair_text k"
| "binding_failure_text (TargetMustBe k t) = ''binding artifact '' @ pair_text k @ '' target must be '' @ py_str t"
| "binding_failure_text (DuplicateArtifact k) = ''duplicate binding artifact: '' @ pair_text k"
| "binding_failure_text (InvalidSha256 k) = ''binding artifact '' @ pair_text k @ '' has invalid sha256''"
| "binding_failure_text (AllZeroSha256 k) = ''binding artifact '' @ pair_text k @ '' must not use all-zero sha256''"
| "binding_failure_text (MustHavePositiveSize k) = ''binding artifact '' @ pair_text k @ '' must have positive byte size''"
| "binding_failure_text (MustBeRelativePath k) = ''binding artifact '' @ pair_text k @ '' path must be a relative non-placeholder path''"
| "binding_failure_text (ArtifactFileMissing p) = ''binding artifact file missing: '' @ path_str p"
| "binding_failure_text (ArtifactShaMismatch p) = ''binding artifact sha mismatch: '' @ path_str p"
| "binding_failure_text (MissingArtifacts ks) = ''binding artifacts missing matrix-required files: '' @ colon_join ks"

definition artifact_files :: "release_env \<Rightarrow> path \<Rightarrow> artifact_store" where
  "artifact_files env r = \<lparr>base = r, digest_of = (\<lambda>p. map_option sha_of (rel_files env p)), hashed = True\<rparr>"

text \<open>
  What the gate takes from the matrix: the rows of released targets, where they could be read,
  and the expected artifacts, with the failure of the first step that raised.
\<close>

definition matrix_release_rows :: "obj \<Rightarrow> obj list run" where
  "matrix_release_rows matrix = bindE (from_checked (matrix_rows matrix)) (\<lambda>rows.
     bindE (mapE dict_of rows) (\<lambda>os. Inr (filter (\<lambda>r. truthy (dict_get r ''release'')) os)))"

definition contract_failure :: "string exc \<Rightarrow> string list" where
  "contract_failure e = [''cannot load expected release artifact contract: '' @ exc_text e]"

definition expected_contents ::
  "release_env \<Rightarrow> path \<Rightarrow> string list \<times> obj list option \<times> ((string \<times> string) \<times> obj) list" where
  "expected_contents env p = (case release_load_matrix env p of
       Inl e \<Rightarrow> (contract_failure e, None, [])
     | Inr matrix \<Rightarrow> (case matrix_release_rows matrix of
         Inl e \<Rightarrow> (contract_failure e, None, [])
       | Inr rows \<Rightarrow> (case from_checked (expected_release_artifact_map matrix) of
           Inl e \<Rightarrow> (contract_failure e, Some rows, [])
         | Inr expected \<Rightarrow> ([], Some rows, expected))))"

section \<open>Build evidence\<close>

definition row_build_evidence :: "obj \<Rightarrow> (string \<times> string) list run" where
  "row_build_evidence row = bindE (dict_index row ''name'') (\<lambda>n. let d = py_str n in
     Inr (map (\<lambda>suffix. (d, ''build-logs/'' @ d @ suffix))
       ([''.log'', ''.warnings.json'', ''.source-identity.json'', ''.build-time.log'', ''.build-performance.json'']
        @ (if truthy (dict_get row ''prebuild_defconfigs'')
           then [''.payload-inputs.json'', ''.payload-package.json'', ''.usb-installer-base.json''] else []))))"

definition BUILD_EVIDENCE_ROLES :: "string list" where
  "BUILD_EVIDENCE_ROLES = [''build-log'', ''warning-classifier-evidence'', ''buildroot-source-identity'', ''build-time-log'',
     ''build-performance'', ''payload-inputs'', ''payload-package'', ''usb-installer-base'']"

definition warning_evidence :: "path \<Rightarrow> json \<Rightarrow> string list" where
  "warning_evidence q v = (let summary = dict_get (members v) ''summary'' in
     if \<not> is_obj v then [of_file q ''warning evidence must be JSON'']
     else (if \<not> is_obj summary then [of_file q ''warning evidence summary must be an object'']
           else report (\<not> py_eq (dict_get (members summary) ''owned'') (JInt 0)) (of_file q ''warning evidence owned count must be 0'')
             @ report (\<not> py_eq (dict_get (members summary) ''third-party'') (JInt 0))
                 (of_file q ''warning evidence third-party count must be 0''))
       @ concat (map (\<lambda>f. report (dict_get (members v) f \<noteq> JArr []) (of_file q (''warning evidence '' @ f @ '' must be empty'')))
           [''failing'', ''policy_errors'']))"

definition identity_evidence :: "release_env \<Rightarrow> obj \<Rightarrow> path \<Rightarrow> json \<Rightarrow> string list" where
  "identity_evidence env binding q v =
     (if \<not> is_obj v then [of_file q ''Buildroot source identity must be JSON'']
      else caught (''cannot validate Buildroot source identity '' @ path_str q @ '': '')
        (bindE (validate_metadata_payload (rel_checkout env) (members v)) (\<lambda>fs.
          Inr (map (msg (path_str q)) fs @ compare_buildroot_identity_to_binding (members v) binding (path_str q)))))"

definition has_schema :: "json \<Rightarrow> string \<Rightarrow> bool" where
  "has_schema v s \<longleftrightarrow> is_obj v \<and> dict_get (members v) ''schema_version'' = JStr s"

definition evidence_content :: "release_env \<Rightarrow> obj \<Rightarrow> path \<Rightarrow> string \<Rightarrow> string list" where
  "evidence_content env binding q role = (let v = read_doc env q; o' = members v; timing = dict_get o' ''timing'' in
     if role = ''warning-classifier-evidence'' then warning_evidence q v
     else if role = ''buildroot-source-identity'' then identity_evidence env binding q v
     else if role = ''build-performance'' then
       (if \<not> has_schema v ''suderra.buildroot-build-performance.v1'' then [of_file q ''build performance evidence must be v1 JSON'']
        else report (\<not> is_obj timing \<or> dict_get (members timing) ''status'' \<noteq> JStr ''collected'')
          (of_file q ''build performance timing must be collected''))
     else if role = ''payload-package'' then
       (if \<not> has_schema v ''suderra.usb-installer-payload-package.v1'' then [of_file q ''payload package evidence must be v1 JSON'']
        else concat (map (\<lambda>f. report (\<not> sha256_text (dict_get o' f)) (of_file q (''payload package evidence '' @ f @ '' must be sha256'')))
          [''base_manifest_sha256'', ''payload_inputs_sha256'']))
     else if role = ''payload-inputs'' then
       report (\<not> has_schema v ''suderra.payload-inputs.v1'') (of_file q ''payload inputs evidence must be v1 JSON'')
     else if role = ''usb-installer-base'' then
       report (\<not> has_schema v ''suderra.usb-installer-base.v1'') (of_file q ''USB installer base evidence must be v1 JSON'')
     else [])"

text \<open>The file of a bound entry: there, with the recorded digest; then what its role asks of it.\<close>

definition bound_file :: "release_env \<Rightarrow> path option \<Rightarrow> string \<Rightarrow> json \<Rightarrow> json \<Rightarrow> (path \<Rightarrow> string list) \<Rightarrow> string list" where
  "bound_file env r label rel digest content = (case r of None \<Rightarrow> []
     | Some root_path \<Rightarrow> if \<not> is_str rel then []
         else let q = path_join root_path (path_of (text_of rel)) in
           (case rel_files env q of
              None \<Rightarrow> [label @ '' file missing: '' @ path_str q]
            | Some f \<Rightarrow> if is_str digest \<and> JStr (sha_of f) \<noteq> digest then [label @ '' sha mismatch: '' @ path_str q]
                else content q))"

definition bound_rel_path :: "json \<Rightarrow> bool" where
  "bound_rel_path v \<longleftrightarrow> inner_path v \<noteq> None \<and> \<not> release_placeholder v"

definition evidence_key :: "obj \<Rightarrow> string \<times> string" where
  "evidence_key o' = (py_str (dict_get o' ''defconfig''), py_str (dict_get o' ''artifact''))"

definition check_build_evidence ::
  "release_env \<Rightarrow> gate_args \<Rightarrow> obj \<Rightarrow> (string \<times> string) list \<Rightarrow> (string \<times> string) list \<Rightarrow> obj \<Rightarrow> string list run" where
  "check_build_evidence env a binding expected seen item = (let k = evidence_key item; role = dict_get item ''role'';
       digest = dict_get item ''sha256''; q = ''binding build evidence '' @ pair_text k in
     bindE (in_str_set role BUILD_EVIDENCE_ROLES) (\<lambda>known. Inr
       (report (expected \<noteq> [] \<and> k \<notin> set expected) (''unexpected binding build evidence: '' @ pair_text k)
        @ report (k \<in> set seen) (''duplicate binding build evidence: '' @ pair_text k)
        @ report (\<not> known) (q @ '' has invalid role'')
        @ (if \<not> sha256_text digest then [q @ '' has invalid sha256'']
           else report (\<not> nonzero_sha256 digest) (q @ '' must not use all-zero sha256''))
        @ report (\<not> positive_int (dict_get item ''bytes'')) (q @ '' must have positive byte size'')
        @ report (\<not> bound_rel_path (dict_get item ''path'')) (q @ '' path must be a relative non-placeholder path'')
        @ bound_file env (a_artifact_root a) ''binding build evidence'' (dict_get item ''path'') digest
            (\<lambda>p. evidence_content env binding p (text_of role)))))"

fun check_build_evidences ::
  "release_env \<Rightarrow> gate_args \<Rightarrow> obj \<Rightarrow> (string \<times> string) list \<Rightarrow> (string \<times> string) list \<Rightarrow> nat \<Rightarrow> json list \<Rightarrow> string list run" where
  "check_build_evidences env a binding expected seen i [] = Inr []"
| "check_build_evidences env a binding expected seen i (v # vs) =
     (if \<not> is_obj v then collectE [Inr [''binding build_evidence['' @ nat_str i @ ''] must be an object''],
        check_build_evidences env a binding expected seen (Suc i) vs]
      else collectE [check_build_evidence env a binding expected seen (members v),
        check_build_evidences env a binding expected (evidence_key (members v) # seen) (Suc i) vs])"

definition object_keys :: "(obj \<Rightarrow> string \<times> string) \<Rightarrow> json list \<Rightarrow> (string \<times> string) list" where
  "object_keys f vs = map f (map members (filter is_obj vs))"

definition binding_build_evidence :: "release_env \<Rightarrow> gate_args \<Rightarrow> obj \<Rightarrow> obj list option \<Rightarrow> string list run" where
  "binding_build_evidence env a binding rows =
     bindE (mapE row_build_evidence (case rows of None \<Rightarrow> [] | Some rs \<Rightarrow> rs)) (\<lambda>kss.
       let expected = concat kss; v = dict_get binding ''build_evidence'';
         missing = sorted_set (minus_list expected (object_keys evidence_key (elems v))) in
       if \<not> is_list v \<or> elems v = [] then Inr [''binding build_evidence must be a non-empty list'']
       else collectE [check_build_evidences env a binding expected [] 0 (elems v),
         Inr (report (missing \<noteq> []) (''binding build_evidence missing matrix-required files: '' @ colon_join missing))])"

section \<open>Installers and the image contract\<close>

definition EXPECTED_INSTALLERS :: "(string \<times> string) list" where
  "EXPECTED_INSTALLERS = [(''x86_64'', ''suderra-installer-x86_64''), (''x86_64'', ''suderra-installer-x86_64.sha256''),
     (''aarch64'', ''suderra-installer-aarch64''), (''aarch64'', ''suderra-installer-aarch64.sha256'')]"

definition installer_key :: "obj \<Rightarrow> string \<times> string" where
  "installer_key o' = (py_str (dict_get o' ''arch''), py_str (dict_get o' ''artifact''))"

definition check_installer :: "release_env \<Rightarrow> gate_args \<Rightarrow> (string \<times> string) list \<Rightarrow> obj \<Rightarrow> string list run" where
  "check_installer env a seen item = (let k = installer_key item; digest = dict_get item ''sha256''; q = ''binding installer '' @ pair_text k in
     bindE (in_str_set (dict_get item ''role'') [''installer'', ''checksum'']) (\<lambda>known. Inr
       (report (k \<notin> set EXPECTED_INSTALLERS) (''unexpected binding installer artifact: '' @ pair_text k)
        @ report (k \<in> set seen) (''duplicate binding installer artifact: '' @ pair_text k)
        @ report (\<not> known) (q @ '' has invalid role'')
        @ report (\<not> nonzero_sha256 digest) (q @ '' must have a non-zero sha256'')
        @ report (\<not> positive_int (dict_get item ''bytes'')) (q @ '' must have positive byte size'')
        @ report (\<not> bound_rel_path (dict_get item ''path'')) (q @ '' path must be a relative non-placeholder path'')
        @ bound_file env (a_artifact_root a) ''binding installer'' (dict_get item ''path'') digest (\<lambda>p. []))))"

fun check_installers :: "release_env \<Rightarrow> gate_args \<Rightarrow> (string \<times> string) list \<Rightarrow> nat \<Rightarrow> json list \<Rightarrow> string list run" where
  "check_installers env a seen i [] = Inr []"
| "check_installers env a seen i (v # vs) =
     (if \<not> is_obj v then collectE [Inr [''binding installers['' @ nat_str i @ ''] must be an object''],
        check_installers env a seen (Suc i) vs]
      else collectE [check_installer env a seen (members v), check_installers env a (installer_key (members v) # seen) (Suc i) vs])"

definition binding_installers :: "release_env \<Rightarrow> gate_args \<Rightarrow> json \<Rightarrow> string list run" where
  "binding_installers env a v = (let missing = sorted_set (minus_list EXPECTED_INSTALLERS (object_keys installer_key (elems v))) in
     if \<not> is_list v \<or> elems v = [] then Inr [''binding installers must be a non-empty list'']
     else collectE [check_installers env a [] 0 (elems v),
       Inr (report (missing \<noteq> []) (''binding installers missing required files: '' @ colon_join missing))])"

definition binding_image_contract :: "release_env \<Rightarrow> gate_args \<Rightarrow> json \<Rightarrow> string list" where
  "binding_image_contract env a v = (let c = members v; digest = dict_get c ''sha256'' in
     if \<not> is_obj v then [''binding image_build_contract must be an object'']
     else report (dict_get c ''role'' \<noteq> JStr ''image-build-contract'') ''binding image_build_contract role must be image-build-contract''
       @ report (\<not> nonzero_sha256 digest) ''binding image_build_contract must have a non-zero sha256''
       @ report (\<not> positive_int (dict_get c ''bytes'')) ''binding image_build_contract must have positive byte size''
       @ report (\<not> bound_rel_path (dict_get c ''path'')) ''binding image_build_contract path must be relative and non-placeholder''
       @ bound_file env (a_artifact_root a) ''image build contract'' (dict_get c ''path'') digest (\<lambda>p. []))"

section \<open>The binding\<close>

definition BOUND_PROFILES :: "string list" where
  "BOUND_PROFILES = [''rc-evidence-dry-run'', ''release-candidate'', ''production-candidate'']"

definition validate_binding :: "release_env \<Rightarrow> gate_args \<Rightarrow> obj option \<Rightarrow> string list run" where
  "validate_binding env a binding = (case binding of
       None \<Rightarrow> Inr (report (a_profile a \<in> set BOUND_PROFILES) (a_profile a @ '' profile requires --binding-manifest''))
     | Some b \<Rightarrow> (let (failures, rows, expected) = expected_contents env (a_matrix a) in collectE
         [Inr (binding_header env a b @ failures
            @ map binding_failure_text (validate_release_artifact_bindings (dict_get b ''artifacts'') expected
                (map_option (artifact_files env) (a_artifact_root a)))),
          binding_build_evidence env a b rows,
          binding_installers env a (dict_get b ''installers''),
          Inr (binding_image_contract env a (dict_get b ''image_build_contract''))]))"

end
