(* ===== verification/SecurityReplay.thy ===== *)
theory SecurityReplay
  imports ReleaseBinding
begin

text \<open>
  \<open>scripts/evidence/security-raw-replay.py\<close>: the replay of a scanner's raw output. The severities
  of a raw report are counted again and compared with the counts, the digests and the verdict that
  the security report states. \<open>raw_security_replay\<close> is the replay that
  \<open>validate-release-inputs.py\<close> loads for a v2 report, the argument of \<open>validate_security_report\<close>.
\<close>

section \<open>Values\<close>

definition REPORT_SCHEMA_VERSION :: string where
  "REPORT_SCHEMA_VERSION = ''suderra.release-security-report.v2''"

definition SCRIPT_PLACEHOLDERS :: "string list" where
  "SCRIPT_PLACEHOLDERS = ['''', ''TO_BE_COLLECTED'', ''NOT_COLLECTED'', ''not_collected'', ''pending'', ''PENDING'']"

definition script_placeholder :: "json \<Rightarrow> bool" where
  "script_placeholder v \<longleftrightarrow> \<not> is_str v \<or> strip (text_of v) \<in> set SCRIPT_PLACEHOLDERS"

lemma not_script_placeholder: "\<not> script_placeholder v \<longleftrightarrow> (\<exists>s. v = JStr s \<and> strip s \<notin> set SCRIPT_PLACEHOLDERS)"
  by (cases v) (simp_all add: script_placeholder_def)

section \<open>Severities\<close>

datatype severity = Critical | High | Medium | Low | Unknown

text \<open>\<open>value.upper()\<close> as far as it can become one of the four words, which are ASCII.\<close>

definition upper_ascii :: "char \<Rightarrow> char" where
  "upper_ascii c = (let n = code c in if 97 \<le> n \<and> n \<le> 122 then char_of (n - 32) else c)"

definition severity_of :: "json \<Rightarrow> severity" where
  "severity_of v = (if \<not> is_str v then Unknown else let t = map upper_ascii (text_of v) in
     if t = ''CRITICAL'' then Critical else if t = ''HIGH'' then High else if t = ''MEDIUM'' then Medium
     else if t = ''LOW'' then Low else Unknown)"

text \<open>\<open>v or []\<close>, iterated; the objects among the items of \<open>v\<close>.\<close>

definition items_or_none :: "json \<Rightarrow> json list run" where
  "items_or_none v = (if truthy v then py_list v else Inr [])"

definition objects_in :: "json list \<Rightarrow> obj list" where
  "objects_in vs = map members (filter is_obj vs)"

definition field_severities :: "string \<Rightarrow> json list \<Rightarrow> severity list" where
  "field_severities f vs = map (\<lambda>o'. severity_of (dict_get o' f)) (objects_in vs)"

definition trivy_result :: "obj \<Rightarrow> severity list run" where
  "trivy_result result = bindE (mapE (\<lambda>k. items_or_none (dict_get_or result k (JArr [])))
       [''Vulnerabilities'', ''Misconfigurations'', ''Secrets''])
     (\<lambda>vss. Inr (concat (map (field_severities ''Severity'') vss)))"

definition trivy_severities :: "json \<Rightarrow> severity list run" where
  "trivy_severities payload = bindE (if is_obj payload then py_list (dict_get_or (members payload) ''Results'' (JArr [])) else Inr [])
     (\<lambda>vs. bindE (mapE trivy_result (objects_in vs)) (\<lambda>ss. Inr (concat ss)))"

definition grype_match :: "obj \<Rightarrow> severity" where
  "grype_match m = (let vuln = dict_get m ''vulnerability'' in
     severity_of (if is_obj vuln then dict_get (members vuln) ''severity'' else JNull))"

definition grype_severities :: "json \<Rightarrow> severity list run" where
  "grype_severities payload = bindE (if is_obj payload then py_list (dict_get_or (members payload) ''matches'' (JArr [])) else Inr [])
     (\<lambda>vs. Inr (map grype_match (objects_in vs)))"

definition gitleaks_severities :: "json \<Rightarrow> severity list run" where
  "gitleaks_severities payload = bindE (if is_list payload then Inr (elems payload)
       else if is_obj payload then py_list (dict_get_or (members payload) ''findings'' (JArr [])) else Inr [])
     (\<lambda>vs. Inr (map (\<lambda>_. High) (objects_in vs)))"

definition advisory_severity :: "obj \<Rightarrow> severity" where
  "advisory_severity advisory = (let cvss = dict_get advisory ''cvss'';
       score = (if is_obj cvss then dict_get (members cvss) ''score'' else JNull) in
     case num_of score of Some r \<Rightarrow> if 7 \<le> r then High else Medium | None \<Rightarrow> Medium)"

definition cargo_severities :: "json \<Rightarrow> severity list run" where
  "cargo_severities payload = bindE (if is_obj payload then
         bindE (dict_of (dict_get_or (members payload) ''vulnerabilities'' (JObj []))) (\<lambda>o'. py_list (dict_get_or o' ''list'' (JArr [])))
       else Inr [])
     (\<lambda>vs. Inr (map advisory_severity (objects_in vs)))"

definition raw_severities :: "json \<Rightarrow> string \<Rightarrow> severity list run" where
  "raw_severities payload tool =
     (if tool = ''trivy'' then trivy_severities payload
      else if tool = ''grype'' then grype_severities payload
      else if tool = ''gitleaks'' then gitleaks_severities payload
      else if tool = ''cargo-audit'' \<or> tool = ''cargo-deny'' then cargo_severities payload
      else Inr [])"

definition SEVERITIES :: "(string \<times> severity) list" where
  "SEVERITIES = [(''critical'', Critical), (''high'', High), (''medium'', Medium), (''low'', Low), (''unknown'', Unknown)]"

definition count_severities :: "severity list \<Rightarrow> obj" where
  "count_severities ss = map (\<lambda>(name, s). (name, JInt (int (length (filter ((=) s) ss))))) SEVERITIES"

section \<open>Digests\<close>

definition canonical_env_sha256 :: "(string \<Rightarrow> string) \<Rightarrow> json \<Rightarrow> string" where
  "canonical_env_sha256 sha v = sha (dumps v)"

definition canonical_replay_sha256 :: "(string \<Rightarrow> string) \<Rightarrow> json \<Rightarrow> obj \<Rightarrow> string" where
  "canonical_replay_sha256 sha raw_sha counts = sha (dumps (JObj [(''raw_sha256'', raw_sha), (''severity_counts'', JObj counts)]))"

section \<open>The report\<close>

definition given_fields :: "(string \<Rightarrow> string) \<Rightarrow> string \<Rightarrow> obj \<Rightarrow> string list \<Rightarrow> string list" where
  "given_fields q suffix o' names = concat (map (\<lambda>f. report (script_placeholder (dict_get o' f)) (q (f @ suffix))) names)"

definition raw_header :: "(string \<Rightarrow> string) \<Rightarrow> obj \<Rightarrow> string list" where
  "raw_header q payload = (let graph_sha = dict_get payload ''subject_graph_sha256''; graph = dict_get payload ''subject_graph'' in
     report (dict_get payload ''schema_version'' \<noteq> JStr REPORT_SCHEMA_VERSION) (q (''schema_version must be '' @ REPORT_SCHEMA_VERSION))
     @ given_fields q '' must be a non-placeholder string'' payload
         [''version'', ''source_sha'', ''source_run_id'', ''scan'', ''tool'', ''tool_version'', ''generated_at'', ''subject_id'']
     @ report (\<not> nonzero_sha256 graph_sha) (q ''subject_graph_sha256 must be a non-zero sha256'')
     @ (if \<not> is_obj graph then [q ''subject_graph must be an object'']
        else report (\<not> py_eq (dict_get (members graph) ''sha256'') graph_sha) (q ''subject_graph.sha256 must match subject_graph_sha256'')
          @ given_fields (q \<circ> (@) ''subject_graph.'') '' must be non-placeholder'' (members graph) [''path'']
          @ report (\<not> positive_int (dict_get (members graph) ''bytes'')) (q ''subject_graph.bytes must be positive'')))"

definition raw_scanner_binary :: "(string \<Rightarrow> string) \<Rightarrow> json \<Rightarrow> string list" where
  "raw_scanner_binary q v = (if \<not> is_obj v then [q ''scanner_binary must be an object'']
     else given_fields (q \<circ> (@) ''scanner_binary.'') '' must be non-placeholder'' (members v) [''name'', ''version'']
       @ report (\<not> nonzero_sha256 (dict_get (members v) ''sha256'')) (q ''scanner_binary.sha256 must be a non-zero sha256''))"

definition raw_invocation :: "(string \<Rightarrow> string) \<Rightarrow> (string \<Rightarrow> string) \<Rightarrow> json \<Rightarrow> string list" where
  "raw_invocation sha q v = (let argv = dict_get (members v) ''argv''; env = dict_get (members v) ''env'';
       env_sha = dict_get (members v) ''env_sha256'' in
     if \<not> is_obj v then [q ''invocation must be an object'']
     else report (\<not> is_list argv \<or> elems argv = [] \<or> \<not> list_all nonempty_str (elems argv)) (q ''invocation.argv must be a non-empty string list'')
       @ report (\<not> is_obj env) (q ''invocation.env must be an object'')
       @ (if \<not> nonzero_sha256 env_sha then [q ''invocation.env_sha256 must be a non-zero sha256'']
          else report (is_obj env \<and> JStr (canonical_env_sha256 sha env) \<noteq> env_sha) (q ''invocation.env_sha256 must replay from invocation.env''))
       @ given_fields (q \<circ> (@) ''invocation.'') '' must be non-placeholder'' (members v) [''working_dir_policy''])"

definition raw_subject :: "(string \<Rightarrow> string) \<Rightarrow> nat \<times> json \<Rightarrow> string list" where
  "raw_subject q = (\<lambda>(i, v). let p = ''subjects['' @ nat_str i @ '']'' in
     if \<not> is_obj v then [q (p @ '' must be an object'')]
     else given_fields (q \<circ> (@) (p @ ''.'')) '' must be non-placeholder'' (members v) [''subject_id'', ''name'', ''role'', ''path'']
       @ report (\<not> nonzero_sha256 (dict_get (members v) ''sha256'')) (q (p @ ''.sha256 must be a non-zero sha256''))
       @ given_fields (q \<circ> (@) (p @ ''.'')) '' must be non-placeholder'' (members v) [''scan_mode'']
       @ report (\<not> positive_int (dict_get (members v) ''bytes'')) (q (p @ ''.bytes must be positive'')))"

definition raw_subjects :: "(string \<Rightarrow> string) \<Rightarrow> json \<Rightarrow> string list" where
  "raw_subjects q v = (if \<not> is_list v \<or> elems v = [] then [q ''subjects must be a non-empty list'']
     else concat (map (raw_subject q) (enumerate 0 (elems v))))"

definition raw_scanner_db :: "(string \<Rightarrow> string) \<Rightarrow> json \<Rightarrow> string list" where
  "raw_scanner_db q v = (let archive = dict_get (members v) ''archive_sha256''; digest = dict_get (members v) ''digest'' in
     if \<not> is_obj v then [q ''scanner_db must be an object'']
     else given_fields (q \<circ> (@) ''scanner_db.'') '' must be non-placeholder'' (members v) [''type'', ''version'', ''created_at'', ''digest'']
       @ (if \<not> nonzero_sha256 archive then [q ''scanner_db.archive_sha256 must be a non-zero sha256'']
          else report (is_str digest \<and> starts_with (text_of digest) ''sha256:'' \<and> JStr (remove_prefix (text_of digest) ''sha256:'') \<noteq> archive)
            (q ''scanner_db.archive_sha256 must match scanner_db.digest''))
       @ report (dict_get (members v) ''auto_update_disabled'' \<noteq> JBool True) (q ''scanner_db.auto_update_disabled must be true''))"

definition raw_reference :: "(string \<Rightarrow> string) \<Rightarrow> obj \<Rightarrow> string \<Rightarrow> string list" where
  "raw_reference q payload f = (let v = dict_get payload f in
     if \<not> is_obj v then [q (f @ '' must be an object'')]
     else given_fields (q \<circ> (@) (f @ ''.'')) '' must be non-placeholder'' (members v) [''path'']
       @ report (\<not> nonzero_sha256 (dict_get (members v) ''sha256'')) (q (f @ ''.sha256 must be a non-zero sha256'')))"

definition raw_replay_record :: "(string \<Rightarrow> string) \<Rightarrow> json \<Rightarrow> string list" where
  "raw_replay_record q v = (if \<not> is_obj v then [q ''replay must be an object'']
     else report (dict_get (members v) ''status'' \<noteq> JStr ''passed'') (q ''replay.status must be passed'')
       @ report (\<not> nonzero_sha256 (dict_get (members v) ''output_sha256'')) (q ''replay.output_sha256 must be a non-zero sha256''))"

section \<open>The raw evidence\<close>

text \<open>Where the raw output lies: below the root, or else the one file next to the report with its digest in the name.\<close>

definition raw_file :: "release_env \<Rightarrow> path \<Rightarrow> path \<Rightarrow> path \<Rightarrow> json \<Rightarrow> path" where
  "raw_file env p root_dir rel raw_sha = (let here = path_join root_dir rel; dir = path_join (path_parent p) (path_of ''raw'') in
     if is_file (rel_files env) here \<or> \<not> is_str raw_sha then here
     else case rel_names env dir of None \<Rightarrow> here
     | Some names \<Rightarrow> (case filter (\<lambda>n. is_file (rel_files env) (path_join dir (path_of n)) \<and> starts_with n (text_of raw_sha @ ''-'')) names of
         [n] \<Rightarrow> path_join dir (path_of n) | _ \<Rightarrow> here))"

text \<open>The counts of the report, of its replay record and the verdict, against the recomputed counts.\<close>

definition raw_counts :: "(string \<Rightarrow> string) \<Rightarrow> (string \<Rightarrow> string) \<Rightarrow> obj \<Rightarrow> json \<Rightarrow> severity list \<Rightarrow> string list" where
  "raw_counts sha q payload raw_sha ss = (let counts = count_severities ss; reported = dict_get payload ''severity_counts'';
       replay = dict_get payload ''replay'' in
     if \<not> is_obj reported then [q ''severity_counts must be an object'']
     else concat (map (\<lambda>(name, n). report (\<not> py_eq (dict_get_or (members reported) name (JInt 0)) n)
            (q (''severity_counts.'' @ name @ '' must replay from raw evidence''))) counts)
       @ (if \<not> is_obj replay then []
          else report (\<not> py_eq (dict_get (members replay) ''raw_sha256'') raw_sha) (q ''replay.raw_sha256 must match raw.sha256'')
            @ report (\<not> py_eq (dict_get (members replay) ''severity_counts'') reported) (q ''replay.severity_counts must match severity_counts'')
            @ report (dict_get (members replay) ''output_sha256'' \<noteq> JStr (canonical_replay_sha256 sha raw_sha counts))
                (q ''replay.output_sha256 must replay from raw evidence''))
       @ report (Critical \<in> set ss \<or> High \<in> set ss) (q ''raw scanner evidence contains high/critical findings''))"

definition raw_tool :: "obj \<Rightarrow> string" where
  "raw_tool payload = lower (py_str (dict_get_or payload ''tool'' (dict_get_or payload ''scan'' (JStr []))))"

definition raw_content :: "release_env \<Rightarrow> (string \<Rightarrow> string) \<Rightarrow> obj \<Rightarrow> json \<Rightarrow> json \<Rightarrow> path \<Rightarrow> string list run" where
  "raw_content env q payload raw_sha raw_bytes here = (case rel_files env here of
       None \<Rightarrow> Inr [q (''raw evidence missing: '' @ path_str here)]
     | Some f \<Rightarrow> collectE
         [Inr (report (\<not> py_eq (JInt (size_of f)) raw_bytes) (q ''raw evidence byte size mismatch'')
            @ report (JStr (sha_of f) \<noteq> raw_sha) (q ''raw evidence sha256 mismatch'')),
          (case json_content f of None \<Rightarrow> Inr [q ''raw scanner evidence must be JSON: JSONDecodeError'']
           | Some v \<Rightarrow> bindE (raw_severities v (raw_tool payload)) (\<lambda>ss.
               Inr (raw_counts (sha_text (rel_checkout env)) q payload raw_sha ss)))])"

definition raw_evidence :: "release_env \<Rightarrow> path \<Rightarrow> path option \<Rightarrow> bool \<Rightarrow> (string \<Rightarrow> string) \<Rightarrow> obj \<Rightarrow> string list run" where
  "raw_evidence env p raw_root check_files q payload = (let v = dict_get payload ''raw'';
       place = dict_get (members v) ''path''; raw_sha = dict_get (members v) ''sha256''; raw_bytes = dict_get (members v) ''bytes'';
       rel = path_of (text_of place) in
     if \<not> is_obj v then Inr [q ''raw must be an object'']
     else if script_placeholder place then Inr [q ''raw.path must be non-placeholder'']
     else if absolute rel \<or> ''..'' \<in> set (parts rel) then Inr [q ''raw.path must be relative and confined'']
     else collectE
       [Inr (report (\<not> nonzero_sha256 raw_sha) (q ''raw.sha256 must be a non-zero sha256'')
          @ report (\<not> positive_int raw_bytes) (q ''raw.bytes must be positive'')),
        (if \<not> check_files then Inr []
         else raw_content env q payload raw_sha raw_bytes (raw_file env p
           (case raw_root of Some r \<Rightarrow> r | None \<Rightarrow> path_parent (path_parent p)) rel raw_sha))])"

definition raw_report_failures :: "release_env \<Rightarrow> path \<Rightarrow> path option \<Rightarrow> bool \<Rightarrow> string list run" where
  "raw_report_failures env p raw_root check_files = (let q = msg (path_str p) in
     case load_doc (rel_files env) p of
       OsError \<Rightarrow> Inr [q ''cannot read security report: OSError'']
     | BadJson \<Rightarrow> Inr [q ''cannot read security report: JSONDecodeError'']
     | Loaded (JObj payload) \<Rightarrow> collectE
         [Inr (raw_header q payload
            @ raw_scanner_binary q (dict_get payload ''scanner_binary'')
            @ raw_invocation (sha_text (rel_checkout env)) q (dict_get payload ''invocation'')
            @ raw_subjects q (dict_get payload ''subjects'')
            @ raw_scanner_db q (dict_get payload ''scanner_db'')
            @ concat (map (raw_reference q payload) [''sbom'', ''vex''])
            @ raw_replay_record q (dict_get payload ''replay'')),
          raw_evidence env p raw_root check_files q payload]
     | Loaded _ \<Rightarrow> Inr [q ''security report must be a JSON object''])"

text \<open>The replay as \<open>validate-release-inputs.py\<close> calls it, with an exception as its text.\<close>

definition raw_security_replay :: "release_env \<Rightarrow> raw_replay" where
  "raw_security_replay env p check_files = (case raw_report_failures env p None check_files of
     Inl e \<Rightarrow> Inl (exc_text e) | Inr fs \<Rightarrow> Inr fs)"

end
