(* ===== verification/HsmSession.thy ===== *)
theory HsmSession
  imports SecurityReplay
begin

text \<open>
  \<open>scripts/evidence/validate-hsm-signing-evidence.py\<close>: the evidence of a signing session on a
  hardware token, its key, challenge and artifacts, and the replay of its signatures. The two uses
  of \<open>openssl\<close>, extracting the public key of a certificate and verifying a signature, are arguments.
\<close>

section \<open>Surroundings\<close>

text \<open>
  The contract, the files, what \<open>openssl x509 -pubkey\<close> leaves for a certificate, and what verifying
  leaves for a public key, the choice between raw input and a SHA-256 digest, a file and a signature.
\<close>

record hsm_env =
  hs_contract :: obj
  hs_files :: store
  hs_certificate_key :: "path \<Rightarrow> completed"
  hs_verify :: "string \<Rightarrow> bool \<Rightarrow> path \<Rightarrow> path \<Rightarrow> completed"

record hsm_args =
  ha_uri :: string
  ha_certificate :: path
  ha_production :: bool
  ha_replay :: bool
  ha_role :: "string option"
  ha_sha :: "string option"

definition HSM_LEGACY :: string where
  "HSM_LEGACY = ''suderra.hsm-signing-session.v1''"

definition SOFTHSM_MARKERS :: "string list" where
  "SOFTHSM_MARKERS = [''softhsm'', ''soft-hsm'', ''software hsm'', ''software token'', ''file-backed'', ''file backed'', ''filehsm'']"

definition replay_requirements :: "obj \<Rightarrow> obj run" where
  "replay_requirements contract = bindE (dict_of (dict_get_or contract ''signing'' (JObj []))) (\<lambda>signing.
     dict_of (dict_get_or signing ''replay_requirements'' (JObj [])))"

definition approved_providers :: "obj \<Rightarrow> string list run" where
  "approved_providers contract = bindE (replay_requirements contract) (\<lambda>o'.
     bindE (py_list (dict_get_or o' ''approved_provider_allowlist'' (JArr []))) (\<lambda>vs. Inr (map (lower \<circ> py_str) vs)))"

definition allowlist_enforced :: "obj \<Rightarrow> bool run" where
  "allowlist_enforced contract = bindE (replay_requirements contract) (\<lambda>o'.
     Inr (truthy (dict_get_or o' ''approved_provider_allowlist_enforced'' (JBool False))))"

section \<open>Files\<close>

definition hsm_relative_path :: "json \<Rightarrow> path option" where
  "hsm_relative_path v = (if nonblank_str v then inner_path v else None)"

interpretation hsm_rel: path_guard hsm_relative_path
  by unfold_locales (auto simp: hsm_relative_path_def inner_path_def Let_def nonblank_str_iff is_str_iff split: if_splits)

text \<open>The failures, and the path where the value names one.\<close>

definition digest_bound_file :: "store \<Rightarrow> path \<Rightarrow> string \<Rightarrow> json \<Rightarrow> json \<Rightarrow> json \<Rightarrow> string list \<times> path option" where
  "digest_bound_file fs here p v sha bytes = (case hsm_relative_path v of
       None \<Rightarrow> ([p @ '' must be a safe relative path''], None)
     | Some rel \<Rightarrow> (let q = path_join here rel in
         if \<not> nonempty_file fs q then ([p @ '' is missing or empty: '' @ path_str q], Some q)
         else ((if \<not> nonzero_sha256 sha then [p @ ''_sha256 must be a non-zero sha256'']
                else report (JStr (file_sha fs q) \<noteq> sha) (p @ ''_sha256 must match referenced file''))
             @ (if bytes = JNull then []
                else if \<not> positive_int bytes then [p @ ''_bytes must be positive'']
                else report (map_option (JInt \<circ> size_of) (fs q) \<noteq> Some (JInt (int_of bytes))) (p @ ''_bytes must match referenced file'')),
             Some q)))"

definition signature_failure :: "hsm_env \<Rightarrow> string \<Rightarrow> string \<Rightarrow> path option \<Rightarrow> path option \<Rightarrow> string \<Rightarrow> string list" where
  "signature_failure env m key data signature algorithm = (case (data, signature) of
       (Some d, Some s) \<Rightarrow>
         if is_file (hs_files env) d \<and> is_file (hs_files env) s then
           (let r = hs_verify env key (contains (lower algorithm) ''ed25519'' \<or> contains (lower algorithm) ''raw'') d s;
              e = strip (stderr r); t = strip (stdout r) in
            report (return_code r \<noteq> 0) (m @ '' signature replay failed: ''
              @ (if e \<noteq> [] then e else if t \<noteq> [] then t else ''signature verification failed'')))
         else []
     | _ \<Rightarrow> [])"

section \<open>Replay of the signatures\<close>

definition either_value :: "json \<Rightarrow> json \<Rightarrow> json" where
  "either_value v w = (if truthy v then v else w)"

definition artifact_signature_sha :: "obj \<Rightarrow> json" where
  "artifact_signature_sha artifact = either_value (dict_get artifact ''signature_sha256'') (dict_get artifact ''artifact_signature_sha256'')"

definition replay_artifact :: "hsm_env \<Rightarrow> path \<Rightarrow> string \<Rightarrow> string \<Rightarrow> nat \<times> json \<Rightarrow> string list" where
  "replay_artifact env here key algorithm = (\<lambda>(i, v). let p = ''artifacts['' @ nat_str i @ '']''; artifact = members v;
       (fs, data) = digest_bound_file (hs_files env) here (p @ ''.path'') (dict_get artifact ''path'') (dict_get artifact ''sha256'') (dict_get artifact ''bytes'');
       (gs, signature) = digest_bound_file (hs_files env) here (p @ ''.signature_path'') (dict_get artifact ''signature_path'')
         (artifact_signature_sha artifact) JNull in
     if \<not> is_obj v then []
     else fs @ gs @ signature_failure env p key data signature (py_str (dict_get_or artifact ''signature_algorithm'' (JStr algorithm))))"

definition replay_challenge :: "hsm_env \<Rightarrow> path \<Rightarrow> string \<Rightarrow> string \<Rightarrow> obj \<Rightarrow> json \<Rightarrow> string list" where
  "replay_challenge env here key algorithm challenge audit = (let
       bound = (\<lambda>f. digest_bound_file (hs_files env) here (''challenge.'' @ f @ ''_path'') (dict_get challenge (f @ ''_path''))
         (dict_get challenge (f @ ''_sha256'')) JNull);
       (fs, request) = bound ''request''; (gs, signature) = bound ''signature''; (hs, transcript) = bound ''transcript'';
       sha = dict_get challenge ''transcript_sha256'' in
     fs @ gs @ hs @ signature_failure env ''challenge'' key request signature algorithm
     @ (case transcript of None \<Rightarrow> [] | Some t \<Rightarrow>
          report (is_file (hs_files env) t \<and> is_str sha \<and> dict_get (members audit) ''transcript_sha256'' \<noteq> sha)
            ''audit.transcript_sha256 must match challenge transcript replay''))"

definition crypto_replay :: "hsm_env \<Rightarrow> path \<Rightarrow> hsm_args \<Rightarrow> obj \<Rightarrow> string list" where
  "crypto_replay env here a payload = (let r = hs_certificate_key env (ha_certificate a); e = strip (stderr r);
       challenge = dict_get payload ''challenge'';
       algorithm = py_str (dict_get_or (members challenge) ''algorithm'' (JStr ''openssl-dgst-sha256'')) in
     if return_code r \<noteq> 0 \<or> strip (stdout r) = [] then
       [''certificate public key replay failed: '' @ (if e \<noteq> [] then e else ''cannot extract certificate public key'')]
     else if \<not> is_obj challenge then []
     else replay_challenge env here (stdout r) algorithm (members challenge) (dict_get payload ''audit'')
       @ concat (map (replay_artifact env here (stdout r) algorithm) (enumerate 0 (elems (dict_get payload ''artifacts'')))))"

section \<open>The checks of the evidence\<close>

text \<open>\<open>^pkcs11:.*(?:object|id)=\<close>, searched for.\<close>

definition pkcs11_key_uri :: "string \<Rightarrow> bool" where
  "pkcs11_key_uri s \<longleftrightarrow> starts_with s ''pkcs11:'' \<and>
     (let line = takeWhile ((\<noteq>) (CHR 0x0A)) (drop 7 s) in contains line ''object='' \<or> contains line ''id='')"

definition hsm_placeholders :: "string \<Rightarrow> obj \<Rightarrow> string list \<Rightarrow> string list" where
  "hsm_placeholders p o' names = concat (map (\<lambda>f. report (script_placeholder (dict_get o' f)) (p @ f @ '' must be non-placeholder'')) names)"

definition hsm_digests :: "string \<Rightarrow> obj \<Rightarrow> string list \<Rightarrow> string list" where
  "hsm_digests p o' names = concat (map (\<lambda>f. report (\<not> nonzero_sha256 (dict_get o' f)) (p @ f @ '' must be a non-zero sha256'')) names)"

definition time_before :: "datetime option \<Rightarrow> datetime option \<Rightarrow> bool run" where
  "time_before s t = (case (s, t) of (Some a, Some b) \<Rightarrow> (case (utc_offset a, utc_offset b) of
         (Some x, Some y) \<Rightarrow> Inr (local_us a - x < local_us b - y)
       | (None, None) \<Rightarrow> Inr (local_us a < local_us b)
       | _ \<Rightarrow> Inl TypeError)
     | _ \<Rightarrow> Inr False)"

definition hsm_times :: "bool \<Rightarrow> obj \<Rightarrow> string list run" where
  "hsm_times production payload = (let time = (\<lambda>f. parse_zulu (dict_get payload f)) in
     bindE (time_before (time ''signed_at'') (time ''started_at'')) (\<lambda>early.
     bindE (time_before (time ''expires_at'') (time ''signed_at'')) (\<lambda>late. Inr
       (concat (map (\<lambda>f. report (time f = None) (f @ '' must be an ISO-8601 UTC timestamp'')) [''started_at'', ''signed_at'', ''expires_at''])
        @ report early ''signed_at must be at or after started_at''
        @ report late ''signed_at must be at or before expires_at''
        @ report (production \<and> time ''signed_at'' = None) ''production HSM evidence must preserve signed_at for historical replay''))))"

definition hsm_certificate :: "store \<Rightarrow> path \<Rightarrow> obj \<Rightarrow> string list" where
  "hsm_certificate fs certificate payload =
     (if \<not> nonempty_file fs certificate then [''certificate is missing or empty: '' @ path_str certificate]
      else report (dict_get payload ''certificate_sha256'' \<noteq> JStr (file_sha fs certificate)) ''certificate_sha256 must match SUDERRA_RAUC_SIGNING_CERT'')"

definition hsm_identity :: "obj \<Rightarrow> string \<Rightarrow> string" where
  "hsm_identity payload provider = (let token = members (dict_get payload ''token'') in
     lower (join '' '' (provider # map (\<lambda>f. py_str (dict_get_or token f (JStr []))) [''manufacturer'', ''model'', ''label''])))"

definition hsm_provider :: "string list \<Rightarrow> bool \<Rightarrow> bool \<Rightarrow> obj \<Rightarrow> string list" where
  "hsm_provider allowlist enforced production payload = (let provider = lower (py_str (dict_get_or payload ''provider'' (JStr []))) in
     report (dict_get payload ''hardware_backed'' \<noteq> JBool True) ''hardware_backed must be true''
     @ report (production \<and> list_ex (contains provider) SOFTHSM_MARKERS) ''production HSM evidence must not use SoftHSM or software tokens''
     @ report (production \<and> enforced \<and> allowlist \<noteq> [] \<and> \<not> list_ex (contains (hsm_identity payload provider)) allowlist)
         ''production HSM provider/model is not in the approved allowlist (evidence-contract.yml signing.replay_requirements.approved_provider_allowlist)''
     @ report (production \<and> dict_get payload ''mode'' \<noteq> JStr ''production'') ''mode must be production'')"

definition hsm_audit :: "json \<Rightarrow> string list" where
  "hsm_audit v = (if \<not> is_obj v then [''audit must be an object''] else hsm_digests ''audit.'' (members v) [''log_sha256'', ''transcript_sha256''])"

definition hsm_token :: "bool \<Rightarrow> json \<Rightarrow> json \<Rightarrow> string list" where
  "hsm_token production serial v = (if \<not> is_obj v then [''token must be an object'']
     else (let provider = lower (join '' '' (map (\<lambda>f. py_str (dict_get_or (members v) f (JStr []))) [''label'', ''manufacturer'', ''model''])) in
       hsm_placeholders ''token.'' (members v) [''label'', ''manufacturer'', ''model'', ''serial'']
       @ hsm_digests ''token.'' (members v) [''module_sha256'']
       @ report (production \<and> list_ex (contains provider) SOFTHSM_MARKERS) ''production HSM token metadata must not identify SoftHSM''
       @ report (\<not> py_eq (dict_get (members v) ''serial'') serial) ''token.serial must match hsm_serial''))"

definition hsm_key :: "string \<Rightarrow> json \<Rightarrow> json \<Rightarrow> string list" where
  "hsm_key uri key_id v = (let key = members v; usages = dict_get key ''usages'' in
     if \<not> is_obj v then [''key must be an object'']
     else report (dict_get key ''uri'' \<noteq> JStr uri) ''key.uri must match requested signing key URI''
       @ report (\<not> py_eq (dict_get key ''id'') key_id) ''key.id must match key_id''
       @ hsm_placeholders ''key.'' key [''label'', ''id'', ''type'']
       @ report (dict_get key ''extractable'' \<noteq> JBool False) ''key.extractable must be false''
       @ report (dict_get key ''private'' \<noteq> JBool True) ''key.private must be true''
       @ report (\<not> is_list usages \<or> JStr ''sign'' \<notin> set (elems usages)) ''key.usages must include sign'')"

definition hsm_paths :: "bool \<Rightarrow> string \<Rightarrow> obj \<Rightarrow> string list \<Rightarrow> string list" where
  "hsm_paths production p o' names = (if \<not> production then []
     else concat (map (\<lambda>f. report (hsm_relative_path (dict_get o' f) = None)
       (p @ f @ '' must be a safe relative path for production replay'')) names))"

definition hsm_challenge :: "bool \<Rightarrow> json \<Rightarrow> string list" where
  "hsm_challenge production v = (if \<not> is_obj v then [''challenge must be an object'']
     else hsm_placeholders ''challenge.'' (members v) [''nonce'']
       @ hsm_digests ''challenge.'' (members v) [''request_sha256'', ''signature_sha256'', ''transcript_sha256'']
       @ hsm_placeholders ''challenge.'' (members v) [''algorithm'']
       @ hsm_paths production ''challenge.'' (members v) [''request_path'', ''signature_path'', ''transcript_path''])"

definition hsm_artifact :: "bool \<Rightarrow> nat \<times> json \<Rightarrow> string list" where
  "hsm_artifact production = (\<lambda>(i, v). let p = ''artifacts['' @ nat_str i @ '']''; artifact = members v in
     if \<not> is_obj v then [p @ '' must be an object'']
     else hsm_placeholders (p @ ''.'') artifact [''role'', ''name'']
       @ hsm_digests (p @ ''.'') artifact [''sha256'']
       @ report (\<not> positive_int (dict_get artifact ''bytes'')) (p @ ''.bytes must be positive'')
       @ hsm_paths production (p @ ''.'') artifact [''path'', ''signature_path'']
       @ report (production \<and> \<not> nonzero_sha256 (artifact_signature_sha artifact)) (p @ ''.signature_sha256 must be a non-zero sha256''))"

text \<open>The three flags of the loop: the requested role, digest, and both in one record.\<close>

definition hsm_requested :: "string option \<Rightarrow> string option \<Rightarrow> obj list \<Rightarrow> string list" where
  "hsm_requested role sha artifacts = (let has = (\<lambda>f s o'. dict_get o' f = JStr s) in
     (case role of None \<Rightarrow> [] | Some r \<Rightarrow> report (\<not> list_ex (has ''role'' r) artifacts) (''artifacts must include requested role '' @ r))
     @ (case sha of None \<Rightarrow> [] | Some s \<Rightarrow>
          report (\<not> list_ex (\<lambda>o'. nonzero_sha256 (dict_get o' ''sha256'') \<and> has ''sha256'' s o') artifacts) ''artifacts must include requested artifact sha256'')
     @ (case (role, sha) of (Some r, Some s) \<Rightarrow>
          report (\<not> list_ex (\<lambda>o'. has ''role'' r o' \<and> has ''sha256'' s o') artifacts)
            ''artifacts must bind requested role to requested artifact sha256 in the same record''
        | _ \<Rightarrow> []))"

definition hsm_artifacts :: "hsm_args \<Rightarrow> json \<Rightarrow> string list" where
  "hsm_artifacts a v = (if \<not> is_list v \<or> elems v = [] then [''artifacts must be a non-empty list'']
     else concat (map (hsm_artifact (ha_production a)) (enumerate 0 (elems v)))
       @ hsm_requested (ha_role a) (ha_sha a) (objects_in (elems v)))"

definition hsm_failures :: "hsm_env \<Rightarrow> hsm_args \<Rightarrow> obj \<Rightarrow> string list run" where
  "hsm_failures env a payload = (let schema = dict_get payload ''schema_version''; production = ha_production a; uri = ha_uri a in
     bindE (from_checked (contract_schema_version ''hsm_signing_session'' (hs_contract env))) (\<lambda>current.
     bindE (approved_providers (hs_contract env)) (\<lambda>allowlist.
     bindE (allowlist_enforced (hs_contract env)) (\<lambda>enforced.
     bindE (in_str_set schema [HSM_LEGACY, current]) (\<lambda>known. collectE
       [Inr (report (\<not> known) (''schema_version must be '' @ current)
          @ report (production \<and> schema \<noteq> JStr current) (''production HSM evidence requires '' @ current)
          @ report (\<not> pkcs11_key_uri uri) ''pkcs11_uri must be a pkcs11: key URI containing object= or id=''
          @ report (dict_get payload ''pkcs11_uri'' \<noteq> JStr uri) ''pkcs11_uri must match requested signing key URI''
          @ hsm_certificate (hs_files env) (ha_certificate a) payload
          @ hsm_placeholders [] payload [''provider'', ''hsm_serial'', ''key_label'', ''key_id'', ''ceremony_id'', ''operator'', ''issuer'',
              ''started_at'', ''signed_at'', ''expires_at'']),
        hsm_times production payload,
        Inr (hsm_provider allowlist enforced production payload
          @ hsm_audit (dict_get payload ''audit'')
          @ (if schema \<noteq> JStr current then []
             else hsm_token production (dict_get payload ''hsm_serial'') (dict_get payload ''token'')
               @ hsm_key uri (dict_get payload ''key_id'') (dict_get payload ''key'')
               @ hsm_challenge production (dict_get payload ''challenge'')
               @ hsm_artifacts a (dict_get payload ''artifacts'')))])))))"

text \<open>The signatures are only replayed when nothing else failed.\<close>

definition validate_hsm_session :: "hsm_env \<Rightarrow> path \<Rightarrow> hsm_args \<Rightarrow> obj \<Rightarrow> string list run" where
  "validate_hsm_session env here a payload = bindE (hsm_failures env a payload) (\<lambda>fs.
     if (ha_production a \<or> ha_replay a) \<and> fs = [] then Inr (crypto_replay env here a payload) else Inr fs)"

section \<open>The command\<close>

text \<open>The exit status and what is printed to \<open>stderr\<close>.\<close>

definition hsm_command :: "hsm_env \<Rightarrow> hsm_args \<Rightarrow> path \<Rightarrow> (int \<times> string list) run" where
  "hsm_command env a p = (case load_doc (hs_files env) p of
       OsError \<Rightarrow> Inr (1, [''ERROR: cannot read HSM evidence: OSError''])
     | BadJson \<Rightarrow> Inr (1, [''ERROR: cannot read HSM evidence: JSONDecodeError''])
     | Loaded (JObj payload) \<Rightarrow> bindE (validate_hsm_session env (path_parent p) a payload) (\<lambda>fs.
         Inr (if fs \<noteq> [] then 1 else 0, map ((@) ''ERROR: '') fs))
     | Loaded _ \<Rightarrow> Inr (1, [''ERROR: HSM evidence must be a JSON object'']))"

end
