(* ===== verification/ReleaseGate.thy ===== *)
theory ReleaseGate
  imports ReleaseBinding
begin

text \<open>
  \<open>scripts/evidence/validate-release-inputs.py\<close>, last part: \<open>main\<close>, the gate before a release
  tag. The other scripts it starts are the argument \<open>rel_script\<close> of the environment. The result is
  the list of failures (exit status 1) or the line printed on success (exit status 0).
\<close>

section \<open>Paths and arguments\<close>

definition path_under :: "path \<Rightarrow> string list \<Rightarrow> path" where
  "path_under r ns = foldl (\<lambda>p n. path_join p (path_of n)) r ns"

definition option_arg :: "string \<Rightarrow> string option \<Rightarrow> string list" where
  "option_arg name v = (case v of None \<Rightarrow> [] | Some s \<Rightarrow> [name, s])"

text \<open>An option that is passed on only when it is not empty.\<close>

definition text_arg :: "string \<Rightarrow> string option \<Rightarrow> string list" where
  "text_arg name v = (case v of None \<Rightarrow> [] | Some s \<Rightarrow> if s = [] then [] else [name, s])"

definition flag_arg :: "string \<Rightarrow> bool \<Rightarrow> string list" where
  "flag_arg name b = (if b then [name] else [])"

definition ingress_script_args :: "gate_args \<Rightarrow> path \<Rightarrow> string list" where
  "ingress_script_args a ingress =
     [''scripts/evidence/release-ingress.py'', ''validate'', path_str ingress, ''--expected-version'', a_version a]
     @ option_arg ''--binding-manifest'' (map_option path_str (a_binding a))
     @ option_arg ''--artifact-root'' (map_option path_str (a_artifact_root a))
     @ [''--input-root'', path_str (a_root a)]
     @ option_arg ''--expected-source-sha'' (a_source_sha a)
     @ (if a_require_signature a then ''--require-signature'' # text_arg ''--certificate-identity'' (a_identity a)
          @ text_arg ''--certificate-oidc-issuer'' (a_issuer a) else [])
     @ (if a_require_evidence_signature a then ''--require-evidence-ingress-signature''
          # text_arg ''--evidence-ingress-certificate-identity'' (a_evidence_identity a)
          @ text_arg ''--evidence-ingress-certificate-oidc-issuer'' (a_evidence_issuer a) else [])"

definition gate_ingress :: "release_env \<Rightarrow> gate_args \<Rightarrow> string list" where
  "gate_ingress env a = (if a_profile a \<notin> set BOUND_PROFILES then []
     else case a_ingress a of None \<Rightarrow> [a_profile a @ '' profile requires --ingress-manifest'']
     | Some m \<Rightarrow> run_script env (ingress_script_args a m))"

definition bound_source_sha :: "gate_args \<Rightarrow> obj option \<Rightarrow> string option" where
  "bound_source_sha a binding = (case a_source_sha a of Some s \<Rightarrow> Some s
     | None \<Rightarrow> Option.bind binding (\<lambda>b. str_option (dict_get b ''source_sha'')))"

definition bound_source_run_id :: "gate_args \<Rightarrow> obj option \<Rightarrow> string option" where
  "bound_source_run_id a binding = (case a_run_id a of Some s \<Rightarrow> Some s
     | None \<Rightarrow> Option.bind binding (\<lambda>b. let v = dict_get b ''source_run_id'' in if v = JNull then None else Some (py_str v)))"

section \<open>Governance and lab input\<close>

definition gate_governance :: "release_env \<Rightarrow> gate_args \<Rightarrow> string list" where
  "gate_governance env a = (let p = path_under (a_root a) [''release-governance'', a_version a, ''governance-policy-validation.json''];
       v = read_doc env p; o' = members v in
     if \<not> is_obj v \<or> dict_get o' ''status'' \<noteq> JStr ''passed'' then [of_file p ''governance policy validation missing or failed'']
     else report (dict_get o' ''schema_version'' \<noteq> JStr ''suderra.github-governance-validation.v2'')
       (of_file p ''governance policy validation must be suderra.github-governance-validation.v2''))"

definition registry_path :: "gate_args \<Rightarrow> path" where
  "registry_path a = (case a_registry a of Some p \<Rightarrow> p
     | None \<Rightarrow> path_under (a_root a) [''release-governance'', a_version a, ''station-registry.json''])"

text \<open>\<open>p.resolve().relative_to(q.resolve())\<close> does not raise.\<close>

definition resolves_within :: "release_env \<Rightarrow> path \<Rightarrow> path \<Rightarrow> bool" where
  "resolves_within env p q \<longleftrightarrow> (let full = resolve (path_join (rel_cwd env) p); dir = resolve (path_join (rel_cwd env) q) in
     take (length dir) full = dir)"

definition lab_script_args :: "gate_args \<Rightarrow> string option \<Rightarrow> string option \<Rightarrow> string list" where
  "lab_script_args a source_sha run_id =
     [''scripts/evidence/validate-lab-input.py'', ''validate-matrix'', ''--version'', a_version a, ''--root'',
      path_str (path_under (a_root a) [''release-lab-input'']), ''--require-pass'', ''--profile'', a_profile a]
     @ text_arg ''--expected-source-sha'' source_sha @ text_arg ''--expected-source-run-id'' run_id
     @ [''--station-registry'', path_str (registry_path a)] @ flag_arg ''--check-files'' (a_check_files a)"

definition gate_lab :: "release_env \<Rightarrow> gate_args \<Rightarrow> string option \<Rightarrow> string option \<Rightarrow> string list" where
  "gate_lab env a source_sha run_id =
     report (resolves_within env (registry_path a) (path_under (a_root a) [''release-lab-input'']))
       ''station registry must be a protected governance input, not release-lab-input''
     @ run_script env (lab_script_args a source_sha run_id)"

section \<open>Station acquisitions\<close>

definition lab_artifact_binding :: "release_env \<Rightarrow> path \<Rightarrow> string option \<times> json option" where
  "lab_artifact_binding env p = (let b = members (dict_get (members (read_doc env p)) ''artifact_binding'');
       digest = dict_get b ''build_artifact_sha256''; n = dict_get b ''build_artifact_bytes'' in
     (if sha256_text digest then Some (text_of digest) else None, if positive_int n then Some n else None))"

definition acquisition_dir :: "gate_args \<Rightarrow> path" where
  "acquisition_dir a = path_under (a_root a) [''release-lab-input'', a_version a]"

definition acquisition_targets :: "release_env \<Rightarrow> gate_args \<Rightarrow> string list" where
  "acquisition_targets env a = filter (\<lambda>t. rel_names env (path_under (acquisition_dir a) [t]) \<noteq> None)
     (sort (case rel_names env (acquisition_dir a) of None \<Rightarrow> [] | Some ns \<Rightarrow> ns))"

definition acquisition_file :: "gate_args \<Rightarrow> string \<Rightarrow> path" where
  "acquisition_file a t = path_under (acquisition_dir a) [t, ''station-acquisition.json'']"

definition acquisition_script_args :: "release_env \<Rightarrow> gate_args \<Rightarrow> string option \<Rightarrow> string option \<Rightarrow> string \<Rightarrow> string list" where
  "acquisition_script_args env a source_sha run_id t = (let registry = registry_path a;
       (sha, n) = lab_artifact_binding env (path_under (acquisition_dir a) [t, ''lab.json'']);
       there = is_file (rel_files env) registry in
     [''scripts/evidence/station-acquisition.py'', ''validate'', path_str (acquisition_file a t),
      ''--expected-version'', a_version a, ''--expected-target'', t]
     @ text_arg ''--expected-source-sha'' source_sha @ text_arg ''--expected-source-run-id'' run_id
     @ text_arg ''--expected-artifact-sha256'' sha @ option_arg ''--expected-artifact-bytes'' (map_option py_str n)
     @ (if there then text_arg ''--expected-registry-sha256'' (Some (file_sha (rel_files env) registry))
          @ [''--station-registry'', path_str registry] else [])
     @ flag_arg ''--check-files'' (a_check_files a))"

definition acquisition_failures :: "release_env \<Rightarrow> gate_args \<Rightarrow> string option \<Rightarrow> string option \<Rightarrow> string list" where
  "acquisition_failures env a source_sha run_id = (let ts = acquisition_targets env a in
     concat (map (\<lambda>t. run_script env (acquisition_script_args env a source_sha run_id t)) ts)
     @ report (ts = []) ''production-candidate profile requires station-acquisition adapter evidence'')"

text \<open>The acquisition that is recorded for a target, if it lists events.\<close>

definition acquisition_of :: "release_env \<Rightarrow> gate_args \<Rightarrow> string \<Rightarrow> obj option" where
  "acquisition_of env a t = (let o' = members (read_doc env (acquisition_file a t)) in
     if t \<in> set (acquisition_targets env a) \<and> is_list (dict_get o' ''events'') then Some o' else None)"

definition acquisition_event_ids :: "obj \<Rightarrow> string list" where
  "acquisition_event_ids acquisition = names_in ''event_id'' (elems (dict_get acquisition ''events''))"

section \<open>Production evidence\<close>

definition binding_json :: "obj option \<Rightarrow> json" where
  "binding_json binding = (case binding of None \<Rightarrow> JNull | Some b \<Rightarrow> JObj b)"

definition production_graph :: "release_env \<Rightarrow> gate_args \<Rightarrow> string option \<Rightarrow> string option \<Rightarrow> obj \<Rightarrow> obj option \<Rightarrow> string list run" where
  "production_graph env a source_sha run_id matrix binding =
     validate_subject_graph env (path_under (a_root a) [''release-subject-graph'', a_version a, ''release-subject-graph.json''])
       \<lparr>g_version = a_version a, g_profile = a_profile a, g_source_sha = source_sha, g_run_id = run_id, g_matrix = matrix,
        g_binding = binding_json binding, g_root = Some (a_root a), g_check_files = a_check_files a\<rparr>"

definition signing_dir :: "gate_args \<Rightarrow> path" where
  "signing_dir a = path_under (a_root a) [''release-signing'', a_version a]"

definition signing_sessions :: "release_env \<Rightarrow> gate_args \<Rightarrow> (string \<times> string) list" where
  "signing_sessions env a = (let names = (\<lambda>p. sort (case rel_names env p of None \<Rightarrow> [] | Some ns \<Rightarrow> ns)) in
     concat (map (\<lambda>d. map (\<lambda>n. (d, n)) (filter (\<lambda>n. ends_with n ''.json'' \<and> n \<noteq> ''signing-manifest.json'')
       (names (path_under (signing_dir a) [d])))) (names (signing_dir a))))"

definition check_session :: "release_env \<Rightarrow> string list \<Rightarrow> gate_args \<Rightarrow> obj option \<Rightarrow> string \<times> string \<Rightarrow> string list" where
  "check_session env governed a binding dn = (let session = path_under (signing_dir a) [fst dn, snd dn] in
     case read_doc env session of
       JObj payload \<Rightarrow> validate_hsm_session_replay env governed session payload (Some (bound_digests (binding_json binding) (fst dn)))
     | _ \<Rightarrow> [''HSM signing session missing or invalid JSON: '' @ path_str session])"

definition production_sessions :: "release_env \<Rightarrow> gate_args \<Rightarrow> obj option \<Rightarrow> string list run" where
  "production_sessions env a binding = bindE (from_checked (signed_artifact_roles (rel_contract env))) (\<lambda>governed.
     let ss = signing_sessions env a in
     Inr (report (ss = []) ''production-candidate profile requires release-signing HSM session evidence''
       @ concat (map (check_session env governed a binding) ss)))"

definition ota_file :: "gate_args \<Rightarrow> string \<Rightarrow> path" where
  "ota_file a t = path_under (a_root a) [''release-ota'', a_version a, t, ''ota-artifacts.json'']"

definition row_signing_args ::
  "release_env \<Rightarrow> gate_args \<Rightarrow> string option \<Rightarrow> string option \<Rightarrow> obj option \<Rightarrow> obj \<Rightarrow> string \<Rightarrow> signing_args" where
  "row_signing_args env a source_sha run_id binding policy t =
     \<lparr>s_version = a_version a, s_target = t, s_source_sha = source_sha, s_run_id = run_id,
      s_artifacts = bound_digests (binding_json binding) t,
      s_role_outputs = (if dict_get policy ''ota_capable'' = JBool True \<and> is_file (rel_files env) (ota_file a t)
        then ota_signing_digest_expectations env (ota_file a t) else [])\<rparr>"

definition row_hardware_args ::
  "release_env \<Rightarrow> gate_args \<Rightarrow> string option \<Rightarrow> string option \<Rightarrow> obj option \<Rightarrow> string \<Rightarrow> hardware_args" where
  "row_hardware_args env a source_sha run_id binding t = (let acquisition = acquisition_of env a t;
       registry = read_doc env (registry_path a) in
     \<lparr>h_version = a_version a, h_target = t, h_source_sha = source_sha, h_run_id = run_id,
      h_artifacts = bound_digests (binding_json binding) t, h_event_ids = map_option acquisition_event_ids acquisition,
      h_acquisition = acquisition, h_registry = (if is_obj registry then Some (members registry) else None)\<rparr>)"

definition production_row :: "release_env \<Rightarrow> gate_args \<Rightarrow> string option \<Rightarrow> string option \<Rightarrow> obj option \<Rightarrow> obj \<Rightarrow> string list run" where
  "production_row env a source_sha run_id binding row = (let t = py_str (dict_get_or row ''target'' (JStr [])) in
     bindE (from_checked (target_policy t (rel_contract env))) (\<lambda>policy.
     let sargs = row_signing_args env a source_sha run_id binding policy t in collectE
     [(if dict_get policy ''signing_required'' = JBool True
       then validate_signing_manifest env (path_under (signing_dir a) [t, ''signing-manifest.json'']) sargs else Inr []),
      (if dict_get policy ''hardware_required'' = JBool True
       then collectE [Inr (report (acquisition_of env a t = None)
              (''production-candidate profile requires station-acquisition evidence for '' @ t)),
            validate_hardware_subject env (path_under (acquisition_dir a) [t, ''hardware-subject.json''])
              (row_hardware_args env a source_sha run_id binding t)]
       else Inr []),
      (if dict_get policy ''ota_capable'' = JBool True then validate_ota_artifacts env (ota_file a t) sargs else Inr [])]))"

definition gate_production :: "release_env \<Rightarrow> gate_args \<Rightarrow> string option \<Rightarrow> string option \<Rightarrow> obj \<Rightarrow> obj option \<Rightarrow> json list \<Rightarrow> string list run" where
  "gate_production env a source_sha run_id matrix binding rows = collectE
     [production_graph env a source_sha run_id matrix binding,
      production_sessions env a binding,
      collectE (map (\<lambda>v. bindE (dict_of v) (production_row env a source_sha run_id binding)) rows),
      validate_governance_role_bindings env (path_under (a_root a) [''release-governance'', a_version a, ''role-bindings.json'']) (a_version a),
      validate_retention_manifest env (path_under (a_root a) [''release-retention'', a_version a, ''retention-manifest.json''])
        (a_version a) source_sha run_id]"

section \<open>Released targets and scans\<close>

definition binding_artifact_sha256 :: "obj option \<Rightarrow> string \<Rightarrow> string \<Rightarrow> string option" where
  "binding_artifact_sha256 binding t artifact =
     (case filter (\<lambda>i. dict_get i ''target'' = JStr t \<and> dict_get i ''artifact'' = JStr artifact \<and> is_str (dict_get i ''sha256''))
         (map members (filter is_obj (elems (dict_get (members (binding_json binding)) ''artifacts'')))) of
        [i] \<Rightarrow> Some (text_of (dict_get i ''sha256'')) | _ \<Rightarrow> None)"

definition row_qemu :: "release_env \<Rightarrow> gate_args \<Rightarrow> string option \<Rightarrow> obj option \<Rightarrow> obj \<Rightarrow> string list run" where
  "row_qemu env a source_sha binding row =
     (if \<not> (truthy (dict_get row ''release'') \<and> truthy (dict_get row ''qemu_test'')) then Inr []
      else bindE (dict_index row ''target'') (\<lambda>t. bindE (dict_index row ''artifact'') (\<lambda>artifact. Inr
        (run_script env ([''scripts/evidence/validate-qemu-input.py'',
            path_str (path_under (a_root a) [''release-lab-input'', a_version a, py_str t, ''qemu.json'']),
            ''--require-pass'', ''--profile'', a_profile a]
          @ text_arg ''--expected-source-sha'' source_sha
          @ text_arg ''--expected-artifact-sha256'' (binding_artifact_sha256 binding (py_str t) (py_str artifact))
          @ flag_arg ''--check-files'' (a_check_files a))))))"

definition row_approval :: "release_env \<Rightarrow> gate_args \<Rightarrow> string option \<Rightarrow> string option \<Rightarrow> obj \<Rightarrow> string list run" where
  "row_approval env a source_sha run_id row = (if \<not> truthy (dict_get row ''release'') then Inr []
     else bindE (dict_index row ''target'') (\<lambda>v. let t = py_str v in collectE
       [release_validate_approval env (path_under (a_root a) [''release-approvals'', a_version a, t @ ''.json'']) (a_version a) t source_sha,
        Inr (validate_repro env (path_under (a_root a) [''release-reproducibility'', a_version a, t @ ''.json''])
          \<lparr>rp_version = Some (a_version a), rp_target = Some t, rp_source_sha = source_sha, rp_run_id = run_id,
           rp_check_files = a_check_files a\<rparr>)]))"

definition row_runtime :: "release_env \<Rightarrow> gate_args \<Rightarrow> string option \<Rightarrow> string option \<Rightarrow> obj \<Rightarrow> string list run" where
  "row_runtime env a source_sha run_id row =
     (if a_profile a \<noteq> ''production-candidate'' \<or> dict_get row ''profile'' \<noteq> JStr ''production-runtime'' then Inr []
      else bindE (dict_index row ''target'') (\<lambda>v. Inr (run_script env
        ([''scripts/evidence/validate-production-runtime-suite.py'',
          path_str (path_under (a_root a) [''release-runtime'', a_version a, py_str v, ''production-runtime.json'']),
          ''--require-pass'', ''--profile'', ''production-candidate'', ''--expected-version'', a_version a,
          ''--expected-target'', py_str v]
         @ text_arg ''--expected-source-sha'' source_sha @ text_arg ''--expected-source-run-id'' run_id
         @ flag_arg ''--check-files'' (a_check_files a)))))"

definition gate_row :: "release_env \<Rightarrow> gate_args \<Rightarrow> string option \<Rightarrow> string option \<Rightarrow> obj option \<Rightarrow> obj \<Rightarrow> string list run" where
  "gate_row env a source_sha run_id binding row =
     collectE [row_qemu env a source_sha binding row, row_approval env a source_sha run_id row, row_runtime env a source_sha run_id row]"

definition gate_scan :: "release_env \<Rightarrow> raw_replay \<Rightarrow> gate_args \<Rightarrow> string option \<Rightarrow> string option \<Rightarrow> json \<Rightarrow> string list run" where
  "gate_scan env replay a source_sha run_id scan = (let n = py_str scan;
       p = path_under (a_root a) [''release-security'', a_version a, n @ ''.json''] in collectE
     [Inr (report (a_profile a = ''production-candidate'' \<and> \<not> has_schema (read_doc env p) ''suderra.release-security-report.v2'')
        (''production-candidate requires scanner-native v2 security report for '' @ n @ '': '' @ path_str p)),
      validate_security_report env replay p
        \<lparr>se_scan = n, se_version = a_version a, se_source_sha = source_sha, se_run_id = run_id, se_check_files = a_check_files a\<rparr>])"

section \<open>The gate\<close>

definition gate_tier :: "gate_args \<Rightarrow> string list" where
  "gate_tier a = (let tier = (if CHR ''-'' \<in> set (a_version a) then ''alpha'' else ''production'') in
     report (a_tier a \<noteq> tier) (''release tier must be '' @ tier @ '' for version '' @ a_version a))"

definition gate_dry_run :: "release_env \<Rightarrow> gate_args \<Rightarrow> string list" where
  "gate_dry_run env a = run_script env [''scripts/evidence/rc-evidence-dry-run.py'', ''validate'',
     path_str (path_under (a_root a) [''release-dry-run'', a_version a, ''bundle-manifest.json'']), ''--input-root'', path_str (a_root a)]"

text \<open>The checks of the two release profiles.\<close>

definition gate_release :: "release_env \<Rightarrow> raw_replay \<Rightarrow> gate_args \<Rightarrow> obj option \<Rightarrow> string list run" where
  "gate_release env replay a binding = (let source_sha = bound_source_sha a binding; run_id = bound_source_run_id a binding in
     bindE (release_load_matrix env (a_matrix a)) (\<lambda>matrix.
     bindE (from_checked (matrix_rows matrix)) (\<lambda>rows. collectE
       [Inr (gate_governance env a @ gate_lab env a source_sha run_id
          @ (if a_profile a = ''production-candidate'' then acquisition_failures env a source_sha run_id else [])),
        (if a_profile a = ''production-candidate'' then gate_production env a source_sha run_id matrix binding rows else Inr []),
        collectE (map (\<lambda>v. bindE (dict_of v) (gate_row env a source_sha run_id binding)) rows),
        bindE (py_list (dict_get_or matrix ''security_scans'' (JArr []))) (\<lambda>scans.
          collectE (map (gate_scan env replay a source_sha run_id) scans))])))"

definition release_gate_failures :: "release_env \<Rightarrow> raw_replay \<Rightarrow> gate_args \<Rightarrow> string list run" where
  "release_gate_failures env replay a = (let (failures, binding) = load_binding env (a_binding a) in collectE
     [Inr (gate_tier a @ failures),
      validate_binding env a binding,
      Inr (gate_ingress env a),
      (if a_profile a = ''technical-dry-run'' then Inr []
       else if a_profile a = ''rc-evidence-dry-run'' then Inr (gate_dry_run env a)
       else gate_release env replay a binding)])"

definition gate_message :: "string \<Rightarrow> string" where
  "gate_message profile = (if profile = ''technical-dry-run'' then ''validated technical dry-run release inputs for ''
     else if profile = ''rc-evidence-dry-run'' then ''validated RC evidence dry-run inputs for ''
     else ''validated release inputs for '')"

definition release_gate :: "release_env \<Rightarrow> raw_replay \<Rightarrow> gate_args \<Rightarrow> (string list + string) run" where
  "release_gate env replay a = bindE (release_gate_failures env replay a) (\<lambda>failures.
     Inr (if failures \<noteq> [] then Inl failures else Inr (gate_message (a_profile a) @ a_version a)))"

end
