(* ===== verification/ReleaseProps.thy ===== *)
theory ReleaseProps
  imports ReleaseGate BuildrootProps EvidenceProps
begin

text \<open>
  What the release gate of \<open>scripts/evidence/validate-release-inputs.py\<close> guarantees when it
  passes: the subject graph, the signing manifest, the hardware subject, the binding manifest,
  and the composition of all of them with the scripts that the gate runs.
\<close>

section \<open>Steps that report nothing\<close>

lemma run_script_nil [no_report]: "run_script env args = [] \<longleftrightarrow> return_code (rel_script env args) = 0"
  by (simp add: run_script_def Let_def)

lemma run_script_total: "(Inr (run_script env args) :: string list run) = Inr [] \<longleftrightarrow> return_code (rel_script env args) = 0"
  by (simp add: run_script_nil)

lemma read_doc_obj: "read_doc env p = JObj o' \<longleftrightarrow> (\<exists>f. rel_files env p = Some f \<and> json_content f = Some (JObj o'))"
  by (auto simp: read_doc_def split: option.splits)

lemma from_checked_ok [run_ok]: "from_checked m = Inr x \<longleftrightarrow> m = Inr x"
  by (cases m) (simp_all add: from_checked_def)

lemma nonzero_sha256_text: "nonzero_sha256 v \<Longrightarrow> \<exists>s. v = JStr s \<and> lower_hex_of_length 64 s"
  by (auto simp: nonzero_sha256_def sha256_text_iff)

lemma find_in: "find P xs = Some x \<Longrightarrow> x \<in> set xs \<and> P x"
  by (induction xs) (auto split: if_splits)

lemma in_str_set_yes: "in_str_set v xs = Inr True \<longleftrightarrow> (\<exists>s\<in>set xs. v = JStr s)"
  by (cases v) (auto simp: in_str_set_def)

lemma distinct_mapI: "distinct (map f xs) \<Longrightarrow> distinct xs"
  by (simp add: distinct_map)

text \<open>
  A walk over a list of objects that remembers the keys it has seen: the roles of a signing
  manifest, the build evidence and the installers of a binding.
\<close>

locale keyed_walk =
  fixes walk :: "'k list \<Rightarrow> nat \<Rightarrow> json list \<Rightarrow> string list run"
    and item :: "'k list \<Rightarrow> nat \<Rightarrow> obj \<Rightarrow> string list run"
    and key :: "obj \<Rightarrow> 'k"
  assumes step: "walk seen i (v # vs) = Inr [] \<Longrightarrow>
      \<exists>o'. v = JObj o' \<and> item seen i o' = Inr [] \<and> walk (key o' # seen) (Suc i) vs = Inr []"
    and fresh: "item seen i o' = Inr [] \<Longrightarrow> key o' \<notin> set seen"
begin

lemma accepted_from: "walk seen i vs = Inr [] \<Longrightarrow> \<exists>os. vs = map JObj os \<and> distinct (map key os) \<and>
    (\<forall>o'\<in>set os. key o' \<notin> set seen \<and> (\<exists>seen i. item seen i o' = Inr []))"
proof (induction vs arbitrary: seen i)
  case (Cons v vs)
  obtain o' where o': "v = JObj o'" "item seen i o' = Inr []" "walk (key o' # seen) (Suc i) vs = Inr []"
    using step [OF Cons.prems] by blast
  obtain os where os: "vs = map JObj os" "distinct (map key os)"
    "\<forall>p\<in>set os. key p \<notin> set (key o' # seen) \<and> (\<exists>seen i. item seen i p = Inr [])"
    using Cons.IH [OF o'(3)] by blast
  have "key o' \<notin> key ` set os" using os(3) by auto
  then show ?case using o' os fresh [OF o'(2)] by (intro exI [of _ "o' # os"]) auto
qed simp

lemma accepted:
  assumes "walk [] 0 vs = Inr []"
  shows "\<exists>os. vs = map JObj os \<and> distinct (map key os) \<and> (\<forall>o'\<in>set os. \<exists>seen i. item seen i o' = Inr [])"
  using accepted_from [OF assms] by blast

end

section \<open>The subject graph\<close>

text \<open>
  An evidence node of an accepted graph: identified, attached to a subject by an edge, with a
  path that stays below the input root, where a required file is the one recorded.
\<close>

definition evidence_node_closed :: "release_env \<Rightarrow> graph_args \<Rightarrow> obj \<Rightarrow> obj list \<Rightarrow> obj \<Rightarrow> bool" where
  "evidence_node_closed env a payload nodes item \<longleftrightarrow> (\<exists>i s rel. dict_get item ''node_id'' = JStr i \<and> strip i \<noteq> [] \<and>
     dict_get item ''subject_id'' = JStr s \<and> (\<exists>n\<in>set nodes. dict_get n ''subject_id'' = JStr s) \<and>
     (\<exists>e. JObj e \<in> set (elems (dict_get payload ''evidence_edges'')) \<and> dict_get e ''from'' = JStr s \<and> dict_get e ''to'' = JStr i) \<and>
     graph_rel_path (dict_get item ''path'') = Some rel \<and>
     (\<forall>f\<in>{''role'', ''schema_role'', ''schema_version'', ''producer''}. is_str (dict_get item f) \<and> \<not> release_placeholder (dict_get item f)) \<and>
     (g_profile a = ''production-candidate'' \<and> dict_get item ''role'' \<in> {JStr ''raw-image'', JStr ''compressed-release-artifact''} \<longrightarrow>
       nonzero_sha256 (dict_get item ''sha256'') \<and> positive_int (dict_get item ''bytes'')) \<and>
     (\<forall>r. g_check_files a \<and> g_root a = Some r \<and> dict_get item ''required'' = JBool True \<longrightarrow>
       (\<exists>f. rel_files env (path_join r rel) = Some f \<and> 0 < size_of f \<and> dict_get item ''sha256'' = JStr (sha_of f) \<and>
         py_eq (JInt (size_of f)) (dict_get item ''bytes''))))"

definition subject_node_bound :: "release_env \<Rightarrow> graph_args \<Rightarrow> string \<Rightarrow> string \<Rightarrow> obj \<Rightarrow> obj \<Rightarrow> bool" where
  "subject_node_bound env a source_sha run_id row node \<longleftrightarrow> (let target = py_str (dict_get row ''target'') in
     (\<exists>i. release_subject_id (g_version a) target source_sha run_id (rel_contract env) = Inr i \<and> dict_get node ''subject_id'' = JStr i) \<and>
     dict_get node ''target'' = JStr target \<and> dict_get node ''source_sha'' = JStr source_sha \<and>
     py_str (dict_get node ''source_run_id'') = run_id \<and>
     (dict_get node ''defconfig'' = JNull \<or> py_eq (dict_get node ''defconfig'') (dict_get row ''name'')) \<and>
     (bound_digests (g_binding a) target \<noteq> [] \<longrightarrow> (\<exists>d\<in>set (bound_digests (g_binding a) target). fst (compressed_of node) = JStr d)) \<and>
     (g_profile a = ''production-candidate'' \<longrightarrow> nonzero_sha256 (dict_get node ''raw_image_sha256'') \<and>
       positive_int (dict_get node ''raw_image_bytes'') \<and>
       nonzero_sha256 (fst (compressed_of node)) \<and> positive_int (snd (compressed_of node))))"

lemma edge_pairs_iff:
  "(s, t) \<in> set (edge_pairs v) \<longleftrightarrow> (\<exists>e. JObj e \<in> set (elems v) \<and> dict_get e ''from'' = JStr s \<and> dict_get e ''to'' = JStr t)"
proof -
  have "(s, t) \<in> set (edge_pairs v) \<longleftrightarrow> (\<exists>w\<in>set (elems v). is_obj w \<and> is_str (dict_get (members w) ''from'') \<and>
      is_str (dict_get (members w) ''to'') \<and> text_of (dict_get (members w) ''from'') = s \<and> text_of (dict_get (members w) ''to'') = t)"
    by (auto simp: edge_pairs_def map_filter_def Let_def image_iff split: if_splits)
  then show ?thesis by (auto simp: is_obj_iff is_str_iff) force
qed

lemma required_evidence_file_nil:
  "required_evidence_file env q p actual item = [] \<Longrightarrow>
     \<exists>f. rel_files env actual = Some f \<and> 0 < size_of f \<and> dict_get item ''sha256'' = JStr (sha_of f) \<and>
       py_eq (JInt (size_of f)) (dict_get item ''bytes'')"
  by (auto simp: required_evidence_file_def Let_def report_empty split: option.splits if_splits)

lemma check_evidence_node_ok:
  assumes ok: "check_evidence_node env p a subjects edges seen i item = Inr []"
    and subjects: "\<And>s. s \<in> set subjects \<Longrightarrow> \<exists>n\<in>set nodes. dict_get n ''subject_id'' = JStr s"
    and edges: "edges = edge_pairs (dict_get payload ''evidence_edges'')"
  shows "evidence_node_closed env a payload nodes item" and "text_of (dict_get item ''node_id'') \<notin> set seen"
    and "nonblank_str (dict_get item ''node_id'')"
proof -
  show nb: "nonblank_str (dict_get item ''node_id'')"
    using ok by (auto simp: check_evidence_node_def Let_def split: if_splits)
  note parts = ok [unfolded check_evidence_node_def Let_def, simplified nb not_True_eq_False if_False collectE_nil]
  show "text_of (dict_get item ''node_id'') \<notin> set seen" using parts by (simp add: no_report)
  obtain s where s: "dict_get item ''subject_id'' = JStr s" "s \<in> set subjects"
    using parts by (cases "dict_get item ''subject_id''") (auto simp: run_ok in_str_set_def no_report split: if_splits)
  obtain t where t: "dict_get item ''node_id'' = JStr t" "strip t \<noteq> []" using nb by (auto simp: nonblank_str_iff)
  have edge: "(s, t) \<in> set edges" using parts s t by (simp add: run_ok no_report in_str_set_def)
  obtain rel where rel: "graph_rel_path (dict_get item ''path'') = Some rel"
    using parts by (auto split: option.splits)
  have texts: "\<forall>f\<in>{''role'', ''schema_role'', ''schema_version'', ''producer''}. is_str (dict_get item f) \<and> \<not> release_placeholder (dict_get item f)"
    using parts by (auto simp: run_ok no_report)
  have artifact: "nonzero_sha256 (dict_get item ''sha256'') \<and> positive_int (dict_get item ''bytes'')"
    if "g_profile a = ''production-candidate''" "dict_get item ''role'' \<in> {JStr ''raw-image'', JStr ''compressed-release-artifact''}"
  proof -
    have "production_artifact_node (''release subject graph evidence_nodes['' @ nat_str i @ '']'') a p item = Inr []"
      using parts rel by (simp add: collectE_nil del: collectE.simps)
    then show ?thesis using that by (auto simp: production_artifact_node_def in_str_set_def no_report)
  qed
  have stored: "\<exists>f. rel_files env (path_join r rel) = Some f \<and> 0 < size_of f \<and> dict_get item ''sha256'' = JStr (sha_of f) \<and>
      py_eq (JInt (size_of f)) (dict_get item ''bytes'')"
    if "g_check_files a" "g_root a = Some r" "dict_get item ''required'' = JBool True" for r
  proof (rule required_evidence_file_nil)
    show "required_evidence_file env (''release subject graph evidence_nodes['' @ nat_str i @ '']'') p (path_join r rel) item = []"
      using parts that rel by (simp add: collectE_nil del: collectE.simps)
  qed
  have attached: "\<exists>e. JObj e \<in> set (elems (dict_get payload ''evidence_edges'')) \<and> dict_get e ''from'' = JStr s \<and> dict_get e ''to'' = JStr t"
    using edge by (simp add: edges edge_pairs_iff)
  show "evidence_node_closed env a payload nodes item"
    unfolding evidence_node_closed_def
    by (rule exI [of _ t], rule exI [of _ s], rule exI [of _ rel], intro conjI)
      (use t s(1) subjects [OF s(2)] rel attached texts artifact stored in blast)+
qed

lemma check_evidence_nodes_ok:
  assumes subjects: "\<And>s. s \<in> set subjects \<Longrightarrow> \<exists>n\<in>set nodes. dict_get n ''subject_id'' = JStr s"
    and edges: "edges = edge_pairs (dict_get payload ''evidence_edges'')"
  shows "check_evidence_nodes env p a subjects edges seen i items = Inr [] \<Longrightarrow>
    (\<forall>item\<in>set items. evidence_node_closed env a payload nodes item) \<and>
    distinct (map (\<lambda>item. dict_get item ''node_id'') items) \<and>
    (\<forall>item\<in>set items. text_of (dict_get item ''node_id'') \<notin> set seen)"
proof (induction items arbitrary: seen i)
  case (Cons item items)
  have here: "check_evidence_node env p a subjects edges seen i item = Inr []"
    using Cons.prems by (simp add: collectE_nil del: collectE.simps)
  note node = check_evidence_node_ok [OF here subjects edges]
  have rest: "check_evidence_nodes env p a subjects edges (text_of (dict_get item ''node_id'') # seen) (Suc i) items = Inr []"
    using Cons.prems node(3) by (simp add: collectE_nil del: collectE.simps)
  note later = Cons.IH [OF rest]
  have "dict_get item ''node_id'' \<noteq> dict_get other ''node_id''" if "other \<in> set items" for other
    using later that by auto
  then show ?case using node(1,2) later by auto
qed simp

lemma none_or_ok: "none_or v w = Inr c \<longleftrightarrow> hashable v \<and> hashable w \<and> (c \<longleftrightarrow> v = JNull \<or> py_eq v w)"
  by (auto simp: none_or_def)

lemma check_subject_node_ok:
  assumes ok: "check_subject_node p a source_sha run_id row (bound_digests (g_binding a) target) expected node = Inr []"
    and target: "target = py_str (dict_get row ''target'')"
    and expected: "release_subject_id (g_version a) target source_sha run_id (rel_contract env) = Inr expected"
    and named: "dict_get node ''target'' = JStr target"
  shows "subject_node_bound env a source_sha run_id row node"
proof (cases "compressed_of node")
  case (Pair c n)
  note parts = ok [unfolded check_subject_node_def Let_def Pair case_prod_conv collectE_nil]
  have header: "dict_get node ''subject_id'' = JStr expected" "dict_get node ''source_sha'' = JStr source_sha"
    "py_str (dict_get node ''source_run_id'') = run_id" using parts by (auto simp: no_report)
  have bound: "\<exists>d\<in>set (bound_digests (g_binding a) target). c = JStr d" if "bound_digests (g_binding a) target \<noteq> []"
    using parts that by (auto simp: run_ok no_report in_str_set_def is_str_iff split: if_splits)
  have same: "dict_get node ''defconfig'' = JNull \<or> py_eq (dict_get node ''defconfig'') (dict_get row ''name'')"
    using parts by (auto simp: run_ok no_report none_or_ok)
  have production: "nonzero_sha256 (dict_get node ''raw_image_sha256'')" "positive_int (dict_get node ''raw_image_bytes'')"
      "nonzero_sha256 c" "positive_int n"
    if "g_profile a = ''production-candidate''" using parts that by (auto simp: no_report)
  show ?thesis unfolding subject_node_bound_def Let_def using header expected bound production same named Pair target by simp
qed

text \<open>The rows of the matrix that the graph has to cover.\<close>

definition graph_covers :: "release_env \<Rightarrow> graph_args \<Rightarrow> obj \<Rightarrow> bool" where
  "graph_covers env a row \<longleftrightarrow> truthy (dict_get row ''target'') \<and>
     (\<exists>policy. target_policy (py_str (dict_get row ''target'')) (rel_contract env) = Inr policy \<and>
       (truthy (dict_get policy ''production_gate'') \<or> truthy (dict_get policy ''release_public''))) \<and>
     (dict_get row ''release'' = JBool True \<or> bound_digests (g_binding a) (py_str (dict_get row ''target'')) \<noteq> [])"

lemma check_graph_row_ok:
  assumes ok: "check_graph_row env p a source_sha run_id strict nodes (JObj row) = Inr []" and covered: "graph_covers env a row"
  shows "\<exists>node\<in>set nodes. subject_node_bound env a source_sha run_id row node"
proof -
  let ?t = "py_str (dict_get row ''target'')"
  obtain policy where policy: "target_policy ?t (rel_contract env) = Inr policy"
    "truthy (dict_get policy ''production_gate'') \<or> truthy (dict_get policy ''release_public'')"
    using covered by (auto simp: graph_covers_def)
  then have "policy \<noteq> []" by (auto simp: dict_get_def)
  then obtain node where node: "find (\<lambda>node. dict_get node ''target'' = JStr ?t) (rev nodes) = Some node"
      and rest: "bindE (from_checked (release_subject_id (g_version a) ?t source_sha run_id (rel_contract env)))
        (\<lambda>expected. check_subject_node p a source_sha run_id row (bound_digests (g_binding a) ?t) expected node) = Inr []"
    using ok covered policy by (auto simp: check_graph_row_def Let_def from_checked_def graph_covers_def split: option.splits)
  from rest obtain expected where "release_subject_id (g_version a) ?t source_sha run_id (rel_contract env) = Inr expected"
    "check_subject_node p a source_sha run_id row (bound_digests (g_binding a) ?t) expected node = Inr []"
    by (auto simp: run_ok)
  moreover have "node \<in> set nodes" "dict_get node ''target'' = JStr ?t"
    using find_in [OF node] by auto
  ultimately show ?thesis using check_subject_node_ok by blast
qed

text \<open>The header of an accepted graph: its schema is the contract's, and a version or profile that it states is the release's.\<close>

lemma graph_header_ok:
  assumes "validate_subject_graph env p a = Inr []" and "read_doc env p = JObj payload"
  shows "\<exists>schema. contract_schema_version ''release_subject_graph'' (rel_contract env) = Inr schema \<and>
    dict_get payload ''schema_version'' = JStr schema \<and> dict_get payload ''version'' \<in> {JNull, JStr (g_version a)} \<and>
    dict_get payload ''profile'' \<in> {JNull, JStr (g_profile a)}"
proof -
  have "graph_header env p a payload = Inr []"
    using assms by (simp add: validate_subject_graph_def collectE_nil del: collectE.simps)
  then show ?thesis
    by (auto simp: graph_header_def bindE_ok from_checked_ok none_or_ok no_report)
qed

text \<open>The retention closure of an accepted graph names every export that the contract's retention policy requires.\<close>

lemma graph_retention_ok:
  assumes "graph_retention env p v = Inr []"
  shows "\<exists>r exports xs. v = JObj r \<and> retention_required_exports (rel_contract env) = Inr exports \<and>
    py_list (dict_get_or r ''required_exports'' (JArr [])) = (Inr xs :: json list run) \<and>
    text_of ` set exports \<subseteq> text_of ` {x \<in> set xs. is_str x}"
  using assms by (cases v) (auto simp: graph_retention_def Let_def bindE_ok from_checked_ok no_report minus_list_empty)

lemma subject_graph_parts:
  assumes "validate_subject_graph env p a = Inr []"
  obtains payload source_sha run_id nodes rows where "read_doc env p = JObj payload" "g_source_sha a = Some source_sha"
    "g_run_id a = Some run_id" "subject_graph_nodes payload = Inr nodes" "matrix_rows (g_matrix a) = Inr rows"
    "\<forall>row. JObj row \<in> set rows \<and> graph_covers env a row \<longrightarrow>
      (\<exists>node\<in>set nodes. subject_node_bound env a source_sha run_id row node)"
    "graph_closure env p a nodes payload = Inr []"
proof -
  obtain payload where payload: "read_doc env p = JObj payload"
    and body: "graph_body env p a payload = Inr []"
    using assms by (auto simp: validate_subject_graph_def collectE_nil split: json.splits simp del: collectE.simps)
  obtain source_sha run_id where ids: "g_source_sha a = Some source_sha" "g_run_id a = Some run_id"
    using body by (auto simp: graph_body_def split: option.splits)
  obtain nodes where nodes: "subject_graph_nodes payload = Inr nodes"
    and rows: "graph_rows env p a source_sha run_id nodes = Inr []" and closure: "graph_closure env p a nodes payload = Inr []"
    using body ids by (auto simp: graph_body_def bindE_ok collectE_nil split: if_splits simp del: collectE.simps)
  obtain strict rs where rs: "matrix_rows (g_matrix a) = Inr rs"
    "\<forall>v\<in>set rs. check_graph_row env p a source_sha run_id strict nodes v = Inr []"
    using rows by (auto simp: graph_rows_def Let_def bindE_ok from_checked_ok collectE_nil simp del: collectE.simps)
  have "\<forall>row. JObj row \<in> set rs \<and> graph_covers env a row \<longrightarrow>
      (\<exists>node\<in>set nodes. subject_node_bound env a source_sha run_id row node)"
    using rs(2) check_graph_row_ok by blast
  then show thesis using that payload ids nodes rs(1) closure by simp
qed

text \<open>
  C18. A subject graph that the gate accepts is of the release it is checked for: its schema version
  is the one of the contract, and the version and the profile, where the graph states them, are those
  of the release.  Every target of the matrix that is gated or public, and released or bound, has a
  subject node of that target, commit and run with the canonical subject id, with the row's
  defconfig where the node states one, with one of the bound digests where the binding lists
  artifacts for the target and, for a production candidate, with digests and sizes of the raw and
  the compressed image.  The evidence nodes are closed: their ids are distinct, each has its roles,
  schema and producer and is attached by an edge to a subject of the graph, its path stays below
  the root, a required file is there with the recorded size and digest when files are checked, the
  required paths are all listed, and the retention closure names every export of the contract.
\<close>

theorem subject_graph_accepted:
  assumes "validate_subject_graph env p a = Inr []"
  shows "\<exists>payload schema nodes source_sha run_id rows retained exports xs. read_doc env p = JObj payload \<and>
    contract_schema_version ''release_subject_graph'' (rel_contract env) = Inr schema \<and>
    dict_get payload ''schema_version'' = JStr schema \<and> dict_get payload ''version'' \<in> {JNull, JStr (g_version a)} \<and>
    dict_get payload ''profile'' \<in> {JNull, JStr (g_profile a)} \<and> g_source_sha a = Some source_sha \<and>
    g_run_id a = Some run_id \<and> subject_graph_nodes payload = Inr nodes \<and> matrix_rows (g_matrix a) = Inr rows \<and>
    (\<forall>row. JObj row \<in> set rows \<and> graph_covers env a row \<longrightarrow>
      (\<exists>node\<in>set nodes. subject_node_bound env a source_sha run_id row node)) \<and>
    (let items = subject_graph_evidence_nodes payload in items \<noteq> [] \<and>
      (\<forall>item\<in>set items. evidence_node_closed env a payload nodes item) \<and>
      distinct (map (\<lambda>item. dict_get item ''node_id'') items) \<and>
      (\<forall>item\<in>set items. dict_get item ''required'' = JBool True \<longrightarrow>
        dict_get item ''path'' \<in> set (elems (dict_get payload ''required_paths'')))) \<and>
    dict_get payload ''retention_closure'' = JObj retained \<and> retention_required_exports (rel_contract env) = Inr exports \<and>
    py_list (dict_get_or retained ''required_exports'' (JArr [])) = (Inr xs :: json list run) \<and>
    text_of ` set exports \<subseteq> text_of ` {x \<in> set xs. is_str x}"
proof -
  obtain payload source_sha run_id nodes rows where payload: "read_doc env p = JObj payload"
    and ids: "g_source_sha a = Some source_sha" "g_run_id a = Some run_id" and nodes: "subject_graph_nodes payload = Inr nodes"
    and rows: "matrix_rows (g_matrix a) = Inr rows"
      "\<forall>row. JObj row \<in> set rows \<and> graph_covers env a row \<longrightarrow>
        (\<exists>node\<in>set nodes. subject_node_bound env a source_sha run_id row node)"
    and closure: "graph_closure env p a nodes payload = Inr []"
    by (rule subject_graph_parts [OF assms])
  let ?items = "subject_graph_evidence_nodes payload"
  have items: "?items \<noteq> []" using closure by (auto simp: graph_closure_def Let_def)
  note parts = closure [unfolded graph_closure_def Let_def, simplified items if_False collectE_nil]
  let ?subjects = "map (\<lambda>n. text_of (dict_get n ''subject_id'')) (filter (\<lambda>n. is_str (dict_get n ''subject_id'')) nodes)"
  have subjects: "\<exists>n\<in>set nodes. dict_get n ''subject_id'' = JStr s" if "s \<in> set ?subjects" for s
    using that by (auto simp: is_str_iff)
  have "check_evidence_nodes env p a ?subjects (edge_pairs (dict_get payload ''evidence_edges'')) [] 0 ?items = Inr []"
    using parts by simp
  then have evidence: "(\<forall>item\<in>set ?items. evidence_node_closed env a payload nodes item) \<and>
      distinct (map (\<lambda>item. dict_get item ''node_id'') ?items)"
    using check_evidence_nodes_ok [OF subjects refl] by blast
  have listed: "dict_get item ''path'' \<in> set (elems (dict_get payload ''required_paths''))"
    if "item \<in> set ?items" "dict_get item ''required'' = JBool True" for item
  proof -
    have "is_str (dict_get item ''path'')"
      using evidence that graph_rel.guard_parses unfolding evidence_node_closed_def by fastforce
    moreover have "graph_required_paths p (dict_get payload ''required_paths'') ?items = []" using parts by simp
    ultimately show ?thesis using that
      by (auto simp: graph_required_paths_def Let_def is_str_iff split: if_splits) (force simp: is_str_iff)
  qed
  obtain schema where header: "contract_schema_version ''release_subject_graph'' (rel_contract env) = Inr schema"
    "dict_get payload ''schema_version'' = JStr schema" "dict_get payload ''version'' \<in> {JNull, JStr (g_version a)}"
    "dict_get payload ''profile'' \<in> {JNull, JStr (g_profile a)}" using graph_header_ok [OF assms payload] by blast
  have "graph_retention env p (dict_get payload ''retention_closure'') = Inr []" using parts by simp
  then obtain retained exports xs where retention: "dict_get payload ''retention_closure'' = JObj retained"
    "retention_required_exports (rel_contract env) = Inr exports"
    "py_list (dict_get_or retained ''required_exports'' (JArr [])) = (Inr xs :: json list run)"
    "text_of ` set exports \<subseteq> text_of ` {x \<in> set xs. is_str x}" using graph_retention_ok by blast
  show ?thesis unfolding Let_def
    by (rule exI [of _ payload], rule exI [of _ schema], rule exI [of _ nodes], rule exI [of _ source_sha], rule exI [of _ run_id],
      rule exI [of _ rows], rule exI [of _ retained], rule exI [of _ exports], rule exI [of _ xs])
      (use payload header ids nodes rows items evidence listed retention in simp)
qed

section \<open>Signing manifests\<close>

text \<open>A role of an accepted signing manifest, for the required fields \<open>names\<close> of the contract.\<close>

definition required_field_given :: "obj \<Rightarrow> string \<Rightarrow> bool" where
  "required_field_given item f \<longleftrightarrow> (let v = dict_get item f in
     (ends_with f ''sha256'' \<longrightarrow> nonzero_sha256 v) \<and> (f = ''artifact_bytes'' \<longrightarrow> positive_int v) \<and>
     (f = ''artifact_path'' \<longrightarrow> safe_artifact_path v) \<and> (f = ''replay_status'' \<longrightarrow> v = JStr ''passed'') \<and>
     (\<not> ends_with f ''sha256'' \<and> f \<notin> {''artifact_bytes'', ''artifact_path'', ''replay_status''} \<longrightarrow>
       nonblank_str v \<and> \<not> release_placeholder v))"

definition signed_role :: "signing_args \<Rightarrow> string list \<Rightarrow> string list \<Rightarrow> obj \<Rightarrow> bool" where
  "signed_role a governed names item \<longleftrightarrow> (\<exists>r\<in>set governed. dict_get item ''role'' = JStr r \<and>
     (\<forall>f\<in>set names. required_field_given item f) \<and>
     (\<forall>u t. dict_get item ''pkcs11_uri'' = JStr u \<and> t \<in> {''softhsm'', ''file:'', ''software''} \<longrightarrow> \<not> contains (lower u) t) \<and>
     (s_artifacts a \<noteq> [] \<and> r \<in> {''release-artifact'', ''release-image''} \<longrightarrow>
       (\<exists>d\<in>set (s_artifacts a). dict_get item ''output_sha256'' = JStr d)) \<and>
     (\<forall>sha. map_of (s_role_outputs a) r = Some sha \<longrightarrow> dict_get item ''output_sha256'' = JStr sha) \<and>
     (\<forall>tokens v. map_of ROLE_VERIFIER_TOKENS r = Some tokens \<and> dict_get item ''verifier'' = JStr v \<longrightarrow>
       (\<exists>t\<in>set tokens. contains (strip v) t)))"

lemma check_role_field_nil:
  "check_role_field p i item f = [] \<Longrightarrow> required_field_given item f"
  by (auto simp: check_role_field_def required_field_given_def Let_def no_report ends_with_def starts_with_def split: if_splits)

lemma check_role_output_nil:
  assumes "check_role_output p a i (JStr r) output = Inr []"
  shows "s_artifacts a \<noteq> [] \<and> r \<in> {''release-artifact'', ''release-image''} \<longrightarrow> (\<exists>d\<in>set (s_artifacts a). output = JStr d)"
    and "\<forall>sha. map_of (s_role_outputs a) r = Some sha \<longrightarrow> output = JStr sha"
  using assms by (auto simp: check_role_output_def Let_def bindE_ok in_str_set_def is_str_iff split: if_splits)

lemma check_role_verifier_nil:
  "check_role_verifier p i (JStr r) (JStr v) = [] \<Longrightarrow> map_of ROLE_VERIFIER_TOKENS r = Some tokens \<Longrightarrow>
     \<exists>t\<in>set tokens. contains (strip v) t"
  by (simp add: check_role_verifier_def list_ex_iff)

lemma check_signing_role_ok:
  assumes ok: "check_signing_role p a governed names seen i item = Inr []"
  shows "signed_role a governed names item" and "text_of (dict_get item ''role'') \<notin> set seen"
proof -
  note parts = ok [unfolded check_signing_role_def Let_def collectE_nil]
  obtain r where r: "dict_get item ''role'' = JStr r" "r \<in> set governed"
    using parts by (cases "dict_get item ''role''") (auto simp: bindE_ok in_str_set_def no_report split: if_splits)
  show "text_of (dict_get item ''role'') \<notin> set seen" using parts r by (simp add: no_report)
  have known: "\<forall>f\<in>set names. check_role_field p i item f = []"
    "check_role_output p a i (JStr r) (dict_get item ''output_sha256'') = Inr []"
    "check_role_verifier p i (JStr r) (dict_get item ''verifier'') = []"
    using parts r by (simp_all add: no_report)
  have uri: "\<not> contains (lower u) t" if "dict_get item ''pkcs11_uri'' = JStr u" "t \<in> {''softhsm'', ''file:'', ''software''}" for u t
    using parts that by (auto simp: no_report)
  show "signed_role a governed names item"
    unfolding signed_role_def
  proof (intro bexI [of _ r] conjI)
    show "\<forall>f\<in>set names. required_field_given item f"
      using known(1) check_role_field_nil by blast
    show "\<forall>tokens v. map_of ROLE_VERIFIER_TOKENS r = Some tokens \<and> dict_get item ''verifier'' = JStr v \<longrightarrow>
       (\<exists>t\<in>set tokens. contains (strip v) t)"
      using known(3) check_role_verifier_nil by fastforce
  qed (use r uri check_role_output_nil [OF known(2)] in \<open>blast+\<close>)
qed

interpretation signing_walk: keyed_walk "check_signing_roles p a governed names" "check_signing_role p a governed names"
    "\<lambda>item. text_of (dict_get item ''role'')" for p a governed names
proof
  fix seen i v vs
  assume ok: "check_signing_roles p a governed names seen i (v # vs) = Inr []"
  then obtain item where v: "v = JObj item" by (cases v) (auto simp: Let_def collectE_nil simp del: collectE.simps)
  have here: "check_signing_role p a governed names seen i item = Inr []"
    using ok v by (simp add: Let_def collectE_nil del: collectE.simps)
  have "is_str (dict_get item ''role'')" using check_signing_role_ok(1) [OF here] unfolding signed_role_def by auto
  then have "check_signing_roles p a governed names (text_of (dict_get item ''role'') # seen) (Suc i) vs = Inr []"
    using ok v by (simp add: Let_def collectE_nil del: collectE.simps)
  then show "\<exists>item. v = JObj item \<and> check_signing_role p a governed names seen i item = Inr [] \<and>
      check_signing_roles p a governed names (text_of (dict_get item ''role'') # seen) (Suc i) vs = Inr []"
    using v here by blast
qed (rule check_signing_role_ok(2))

lemma check_signing_roles_ok:
  assumes "check_signing_roles p a governed names [] 0 vs = Inr []"
  shows "\<exists>roles. vs = map JObj roles \<and> (\<forall>item\<in>set roles. signed_role a governed names item) \<and>
    distinct (map (\<lambda>item. dict_get item ''role'') roles)"
proof -
  obtain roles where roles: "vs = map JObj roles" "distinct (map (\<lambda>item. text_of (dict_get item ''role'')) roles)"
    "\<forall>item\<in>set roles. \<exists>seen i. check_signing_role p a governed names seen i item = Inr []"
    using signing_walk.accepted [OF assms] by blast
  have "distinct (map (\<lambda>item. dict_get item ''role'') roles)"
    using distinct_mapI [of text_of "map (\<lambda>item. dict_get item ''role'') roles"] roles(2) by (simp add: o_def)
  then show ?thesis using roles check_signing_role_ok(1) by blast
qed

lemma signing_identity_ok:
  assumes "validate_signing_manifest env p a = Inr []"
  obtains payload source_sha run_id subject where "read_doc env p = JObj payload" "s_source_sha a = Some source_sha"
    "s_run_id a = Some run_id" "release_subject_id (s_version a) (s_target a) source_sha run_id (rel_contract env) = Inr subject"
    "dict_get payload ''subject_id'' = JStr subject" "signing_roles_check env p a payload = Inr []"
proof -
  obtain payload where payload: "read_doc env p = JObj payload" and identity: "signing_identity env p a payload = Inr []"
    and check: "signing_roles_check env p a payload = Inr []"
    using assms by (auto simp: validate_signing_manifest_def collectE_nil split: json.splits simp del: collectE.simps)
  then show thesis using that
    by (auto simp: signing_identity_def bindE_ok from_checked_ok expected_release_subject_id_def no_report split: option.splits)
qed

text \<open>The header of an accepted signing manifest.\<close>

lemma signing_header_ok:
  assumes "validate_signing_manifest env p a = Inr []" and "read_doc env p = JObj payload"
  shows "\<exists>schema. contract_schema_version ''signing_manifest'' (rel_contract env) = Inr schema \<and>
    dict_get payload ''schema_version'' = JStr schema \<and> dict_get payload ''version'' = JStr (s_version a) \<and>
    dict_get payload ''target'' = JStr (s_target a) \<and> (\<forall>s. s_source_sha a = Some s \<longrightarrow> dict_get payload ''source_sha'' = JStr s) \<and>
    (\<forall>r. s_run_id a = Some r \<longrightarrow> py_str (dict_get payload ''source_run_id'') = r)"
proof -
  have "signing_identity env p a payload = Inr []"
    using assms by (simp add: validate_signing_manifest_def collectE_nil del: collectE.simps)
  then show ?thesis by (auto simp: signing_identity_def bindE_ok from_checked_ok no_report)
qed

text \<open>
  C9. A signing manifest that the gate accepts has the schema of the contract and the version,
  target, commit and run it is checked for, and carries their canonical subject id.  Its roles are
  distinct signed roles of the contract, and every role that the policy of the target asks for is
  there.  Each field that the contract requires of a role is given: a digest is not zero, the
  artifact's size positive and its path safe, the replay passed, any other field a text and no
  placeholder.  A PKCS#11 URI that is a text names no software token; a verifier that is a text is,
  for the four roles that have one, a command of the role.  If artifacts are bound, the outputs of
  the two release roles are among their digests, and the output of a role for which a digest is
  expected, as the OTA artifacts give it, has that digest.
\<close>

theorem signing_manifest_accepted:
  assumes "validate_signing_manifest env p a = Inr []"
  shows "\<exists>payload schema source_sha run_id subject policy bindings governed names roles.
    read_doc env p = JObj payload \<and> contract_schema_version ''signing_manifest'' (rel_contract env) = Inr schema \<and>
    dict_get payload ''schema_version'' = JStr schema \<and> dict_get payload ''version'' = JStr (s_version a) \<and>
    dict_get payload ''target'' = JStr (s_target a) \<and> s_source_sha a = Some source_sha \<and>
    dict_get payload ''source_sha'' = JStr source_sha \<and> s_run_id a = Some run_id \<and>
    py_str (dict_get payload ''source_run_id'') = run_id \<and>
    release_subject_id (s_version a) (s_target a) source_sha run_id (rel_contract env) = Inr subject \<and>
    dict_get payload ''subject_id'' = JStr subject \<and> target_policy (s_target a) (rel_contract env) = Inr policy \<and>
    signing_role_bindings (rel_contract env) = Inr bindings \<and> signed_artifact_roles (rel_contract env) = Inr governed \<and>
    role_required_fields (rel_contract env) = Inr names \<and> dict_get payload ''roles'' = JArr (map JObj roles) \<and>
    (\<forall>item\<in>set roles. signed_role a governed names item) \<and> distinct (map (\<lambda>item. dict_get item ''role'') roles) \<and>
    (\<forall>r\<in>set (expected_signing_roles_for_policy bindings policy). \<exists>item\<in>set roles. dict_get item ''role'' = JStr r)"
proof -
  obtain payload source_sha run_id subject where payload: "read_doc env p = JObj payload"
    and ids: "s_source_sha a = Some source_sha" "s_run_id a = Some run_id"
      "release_subject_id (s_version a) (s_target a) source_sha run_id (rel_contract env) = Inr subject"
      "dict_get payload ''subject_id'' = JStr subject"
    and check: "signing_roles_check env p a payload = Inr []" using signing_identity_ok [OF assms] by blast
  obtain policy bindings governed names where contract: "target_policy (s_target a) (rel_contract env) = Inr policy"
    "signing_role_bindings (rel_contract env) = Inr bindings" "signed_artifact_roles (rel_contract env) = Inr governed"
    "role_required_fields (rel_contract env) = Inr names" "is_list (dict_get payload ''roles'')"
    and roles_ok: "check_signing_roles p a governed names [] 0 (elems (dict_get payload ''roles'')) = Inr []"
    and missing: "set (expected_signing_roles_for_policy bindings policy) \<subseteq> set (roles_seen (elems (dict_get payload ''roles'')))"
    using check by (auto simp: signing_roles_check_def Let_def bindE_ok from_checked_ok collectE_nil split: if_splits
      simp del: collectE.simps)
  obtain roles where roles: "elems (dict_get payload ''roles'') = map JObj roles"
    "\<forall>item\<in>set roles. signed_role a governed names item" "distinct (map (\<lambda>item. dict_get item ''role'') roles)"
    using check_signing_roles_ok [OF roles_ok] by auto
  have given: "dict_get payload ''roles'' = JArr (map JObj roles)" using contract(5) roles(1) by (auto simp: is_list_iff)
  have required: "\<exists>item\<in>set roles. dict_get item ''role'' = JStr r"
    if "r \<in> set (expected_signing_roles_for_policy bindings policy)" for r
    using missing that unfolding roles(1) roles_seen_def by (auto simp: names_in_iff subset_iff)
  obtain schema where header: "contract_schema_version ''signing_manifest'' (rel_contract env) = Inr schema"
    "dict_get payload ''schema_version'' = JStr schema" "dict_get payload ''version'' = JStr (s_version a)"
    "dict_get payload ''target'' = JStr (s_target a)" "dict_get payload ''source_sha'' = JStr source_sha"
    "py_str (dict_get payload ''source_run_id'') = run_id" using signing_header_ok [OF assms payload] ids by blast
  show ?thesis using payload header ids contract(1-4) given roles(2,3) required by blast
qed

section \<open>Hardware subjects\<close>

text \<open>What the station measured: the digests of its readback events and the names of its storage events.\<close>

definition station_events :: "obj \<Rightarrow> obj list" where
  "station_events acquisition = map members (filter is_obj (elems (dict_get acquisition ''events'')))"

definition event_readbacks :: "obj \<Rightarrow> string list" where
  "event_readbacks event = (let measured = dict_get event ''measured'' in
     if is_obj measured \<and> dict_get event ''role'' = JStr ''readback'' then measured_readbacks (members measured) else [])"

definition event_storage :: "obj \<Rightarrow> string list" where
  "event_storage event = (let measured = dict_get event ''measured'' in
     if is_obj measured \<and> dict_get event ''role'' = JStr ''storage'' then measured_storage (members measured) else [])"

lemma add_event_fields:
  "readback_sha256s (add_event m event) = readback_sha256s m @ event_readbacks event"
  "storage_by_ids (add_event m event) = storage_by_ids m @ event_storage event"
  "events_by_id (add_event m event) = (if is_str (dict_get event ''event_id'')
     then (text_of (dict_get event ''event_id''), event) # events_by_id m else events_by_id m)"
  by (simp_all add: add_event_def event_readbacks_def event_storage_def Let_def)

lemma foldl_add_event:
  "readback_sha256s (foldl add_event m es) = readback_sha256s m @ concat (map event_readbacks es)"
  "storage_by_ids (foldl add_event m es) = storage_by_ids m @ concat (map event_storage es)"
  "fst ` set (events_by_id (foldl add_event m es)) = fst ` set (events_by_id m) \<union>
     {text_of (dict_get e ''event_id'') |e. e \<in> set es \<and> is_str (dict_get e ''event_id'')}"
proof (induction es arbitrary: m)
  case (Cons e es)
  { case 1 show ?case by (simp add: Cons.IH add_event_fields) }
  { case 2 show ?case by (simp add: Cons.IH add_event_fields) }
  { case 3 show ?case by (auto simp: Cons.IH add_event_fields) }
qed simp_all

lemma measurements_of:
  "readback_sha256s (station_acquisition_measurements acq) = concat (map event_readbacks (station_events acq))"
  "storage_by_ids (station_acquisition_measurements acq) = concat (map event_storage (station_events acq))"
  "fst ` set (events_by_id (station_acquisition_measurements acq)) =
     {text_of (dict_get e ''event_id'') |e. e \<in> set (station_events acq) \<and> is_str (dict_get e ''event_id'')}"
  by (simp_all add: station_acquisition_measurements_def station_events_def no_measurements_def foldl_add_event)

definition station_measured :: "obj \<Rightarrow> obj \<Rightarrow> bool" where
  "station_measured payload acquisition \<longleftrightarrow>
     py_eq (dict_get payload ''station_id'') (dict_get acquisition ''station_id'') \<and>
     py_eq (dict_get payload ''adapter_inventory_sha256'') (dict_get acquisition ''registry_sha256'') \<and>
     (\<exists>e\<in>set (station_events acquisition). \<exists>i. dict_get e ''event_id'' = JStr i \<and> dict_get payload ''station_acquisition_event_id'' = JStr i) \<and>
     ((\<exists>e\<in>set (station_events acquisition). event_readbacks e \<noteq> []) \<longrightarrow>
       (\<exists>e\<in>set (station_events acquisition). \<exists>s\<in>set (event_readbacks e). dict_get payload ''readback_sha256'' = JStr s)) \<and>
     ((\<exists>e\<in>set (station_events acquisition). event_storage e \<noteq> []) \<longrightarrow>
       (\<exists>e\<in>set (station_events acquisition). \<exists>s\<in>set (event_storage e). dict_get payload ''storage_by_id'' = JStr s))"

lemma in_some_list: "in_str_set v xs = Inr b \<Longrightarrow> b \<Longrightarrow> \<exists>s\<in>set xs. v = JStr s"
  by (cases b) (simp_all add: in_str_set_yes)

lemma acquisition_ok:
  assumes header: "acquisition_header p a payload acq = []"
    and events: "acquisition_events p (station_acquisition_measurements acq) payload = Inr []"
  shows "station_measured payload acq"
proof -
  have ids: "py_eq (dict_get payload ''station_id'') (dict_get acq ''station_id'')"
    "py_eq (dict_get payload ''adapter_inventory_sha256'') (dict_get acq ''registry_sha256'')"
    using header by (simp_all add: acquisition_header_def Let_def no_report)
  note parts = events [unfolded acquisition_events_def Let_def bindE_ok]
  have event: "\<exists>s\<in>fst ` set (events_by_id (station_acquisition_measurements acq)). dict_get payload ''station_acquisition_event_id'' = JStr s"
    using parts by (auto dest!: in_some_list)
  have read: "readback_sha256s (station_acquisition_measurements acq) \<noteq> [] \<Longrightarrow>
      \<exists>s\<in>set (readback_sha256s (station_acquisition_measurements acq)). dict_get payload ''readback_sha256'' = JStr s"
    using parts by (auto dest!: in_some_list)
  have stored: "storage_by_ids (station_acquisition_measurements acq) \<noteq> [] \<Longrightarrow>
      \<exists>s\<in>set (storage_by_ids (station_acquisition_measurements acq)). dict_get payload ''storage_by_id'' = JStr s"
    using parts by (auto dest!: in_some_list)
  have e: "\<exists>e\<in>set (station_events acq). \<exists>i. dict_get e ''event_id'' = JStr i \<and> dict_get payload ''station_acquisition_event_id'' = JStr i"
    using event unfolding measurements_of by (auto simp: is_str_iff)
  have r: "(\<exists>e\<in>set (station_events acq). event_readbacks e \<noteq> []) \<longrightarrow>
      (\<exists>e\<in>set (station_events acq). \<exists>s\<in>set (event_readbacks e). dict_get payload ''readback_sha256'' = JStr s)"
    using read unfolding measurements_of concat_map_nil by auto
  have s: "(\<exists>e\<in>set (station_events acq). event_storage e \<noteq> []) \<longrightarrow>
      (\<exists>e\<in>set (station_events acq). \<exists>s\<in>set (event_storage e). dict_get payload ''storage_by_id'' = JStr s)"
    using stored unfolding measurements_of concat_map_nil by auto
  show ?thesis unfolding station_measured_def using ids e r s by (intro conjI)
qed

definition station_registered :: "obj \<Rightarrow> obj \<Rightarrow> bool" where
  "station_registered payload registry \<longleftrightarrow> (\<exists>entry. JObj entry \<in> set (elems (dict_get registry ''stations'')) \<and>
     dict_get entry ''station_id'' = dict_get payload ''station_id'' \<and>
     py_eq (dict_get payload ''fixture_id'') (dict_get entry ''fixture_id'') \<and>
     (\<forall>allowed. dict_get entry ''allowed_storage_by_id'' = JArr allowed \<longrightarrow> py_in (dict_get payload ''storage_by_id'') allowed))"

lemma hardware_registry_nil:
  assumes "hardware_registry p payload registry = []"
  shows "station_registered payload registry"
proof -
  obtain entry where entry: "release_station_entry (JObj registry) (dict_get payload ''station_id'') = Some entry"
    using assms by (auto simp: hardware_registry_def split: option.splits)
  then have "entry \<in> set (map members (filter is_obj (elems (dict_get registry ''stations''))))"
      and same: "dict_get entry ''station_id'' = dict_get payload ''station_id''"
    using find_in by (fastforce simp: release_station_entry_def split: if_splits)+
  then have "JObj entry \<in> set (elems (dict_get registry ''stations''))" by (auto simp: is_obj_iff)
  then show ?thesis using assms entry same
    by (auto simp: station_registered_def hardware_registry_def Let_def no_report)
qed

lemma hardware_identity_nil:
  assumes "hardware_identity p a subject payload = []"
    and "expected_release_subject_id env (h_version a) (h_target a) (h_source_sha a) (h_run_id a) = Inr subject"
  obtains source_sha run_id i where "h_source_sha a = Some source_sha" "h_run_id a = Some run_id" "subject = Some i"
    "release_subject_id (h_version a) (h_target a) source_sha run_id (rel_contract env) = Inr i" "dict_get payload ''subject_id'' = JStr i"
  using assms that by (auto simp: hardware_identity_def expected_release_subject_id_def bindE_ok from_checked_ok split: option.splits)

lemma hardware_parts:
  assumes "validate_hardware_payload env p a payload = Inr []"
  obtains subject needed where
    "expected_release_subject_id env (h_version a) (h_target a) (h_source_sha a) (h_run_id a) = Inr subject"
    "subject_binding_fields (rel_contract env) = Inr needed" "hardware_identity p a subject payload = []"
    "\<forall>f\<in>set needed. dict_get payload f \<noteq> JNull" "hardware_digests p a payload = Inr []"
    "\<forall>acquisition. h_acquisition a = Some acquisition \<longrightarrow> acquisition_header p a payload acquisition = [] \<and>
      acquisition_events p (station_acquisition_measurements acquisition) payload = Inr []"
    "\<forall>registry. h_registry a = Some registry \<longrightarrow> hardware_registry p payload registry = []"
  using assms unfolding validate_hardware_payload_def
  by (elim run_elims) (auto simp: collectE_nil no_report intro!: that simp del: collectE.simps)


end
