(* ===== verification/ReplayProps.thy ===== *)
theory ReplayProps
  imports HsmSession ReleaseProps
begin

text \<open>
  What the two replays guarantee when they report nothing: a security report whose raw scanner
  output was counted again, and a signing session whose signatures were verified again with the
  key of the certificate.
\<close>

section \<open>Severities in order\<close>

fun severity_rank :: "severity \<Rightarrow> nat" where
  "severity_rank Unknown = 0"
| "severity_rank Low = 1"
| "severity_rank Medium = 2"
| "severity_rank High = 3"
| "severity_rank Critical = 4"

lemma severity_rank_inj: "severity_rank s = severity_rank t \<Longrightarrow> s = t"
  by (cases s; cases t) simp_all

instantiation severity :: linorder
begin

definition less_eq_severity :: "severity \<Rightarrow> severity \<Rightarrow> bool" where
  "less_eq_severity s t \<longleftrightarrow> severity_rank s \<le> severity_rank t"

definition less_severity :: "severity \<Rightarrow> severity \<Rightarrow> bool" where
  "less_severity s t \<longleftrightarrow> severity_rank s < severity_rank t"

instance
  by standard (auto simp: less_eq_severity_def less_severity_def intro: severity_rank_inj)

end

lemma below_high: "s < High \<longleftrightarrow> s \<noteq> High \<and> s \<noteq> Critical"
  by (cases s) (simp_all add: less_severity_def)

section \<open>Raw scanner output\<close>

text \<open>The recorded count of every severity is the number of findings of that severity.\<close>

definition counts_replayed :: "json \<Rightarrow> severity list \<Rightarrow> bool" where
  "counts_replayed reported ss \<longleftrightarrow> is_obj reported \<and>
     (\<forall>name s. (name, s) \<in> set SEVERITIES \<longrightarrow>
       py_eq (dict_get_or (members reported) name (JInt 0)) (JInt (int (count_list ss s))))"

lemma length_filter_count: "length (filter ((=) s) ss) = count_list ss s"
  by (induction ss) auto

lemma raw_counts_nil:
  assumes "raw_counts sha q payload raw_sha ss = []"
  shows "counts_replayed (dict_get payload ''severity_counts'') ss" and "\<forall>s\<in>set ss. s < High"
    and "\<And>r. dict_get payload ''replay'' = JObj r \<Longrightarrow> py_eq (dict_get r ''raw_sha256'') raw_sha \<and>
      dict_get r ''output_sha256'' = JStr (canonical_replay_sha256 sha raw_sha (count_severities ss))"
  using assms
  by (auto simp: raw_counts_def Let_def no_report counts_replayed_def count_severities_def length_filter_count below_high
      split: if_splits)

text \<open>The raw output that a report names: a file of the recorded size and digest that parses.\<close>

definition raw_output :: "release_env \<Rightarrow> path \<Rightarrow> path \<Rightarrow> obj \<Rightarrow> json \<Rightarrow> bool" where
  "raw_output env p root_dir raw v \<longleftrightarrow> (\<exists>rel f. inner_path (dict_get raw ''path'') = Some rel \<and>
     rel_files env (raw_file env p root_dir rel (dict_get raw ''sha256'')) = Some f \<and>
     dict_get raw ''sha256'' = JStr (sha_of f) \<and> nonzero_sha256 (JStr (sha_of f)) \<and>
     py_eq (JInt (size_of f)) (dict_get raw ''bytes'') \<and> positive_int (dict_get raw ''bytes'') \<and> json_content f = Some v)"

lemma raw_content_ok:
  assumes "raw_content env q payload raw_sha raw_bytes here = Inr []"
  shows "\<exists>f v ss. rel_files env here = Some f \<and> raw_sha = JStr (sha_of f) \<and> py_eq (JInt (size_of f)) raw_bytes \<and>
    json_content f = Some v \<and> raw_severities v (raw_tool payload) = Inr ss \<and>
    raw_counts (sha_text (rel_checkout env)) q payload raw_sha ss = []"
  using assms by (auto simp: raw_content_def run_ok no_report simp del: collectE.simps split: option.splits)

lemma script_text: "\<not> script_placeholder v \<Longrightarrow> v = JStr (text_of v)"
  by (auto simp: not_script_placeholder)

lemma raw_evidence_ok:
  assumes "raw_evidence env p raw_root True q payload = Inr []"
  shows "\<exists>raw v ss. dict_get payload ''raw'' = JObj raw \<and>
    raw_output env p (case raw_root of Some r \<Rightarrow> r | None \<Rightarrow> path_parent (path_parent p)) raw v \<and>
    raw_severities v (raw_tool payload) = Inr ss \<and>
    raw_counts (sha_text (rel_checkout env)) q payload (dict_get raw ''sha256'') ss = []"
proof -
  obtain raw where raw: "dict_get payload ''raw'' = JObj raw"
    using assms by (cases "dict_get payload ''raw''") (auto simp: raw_evidence_def Let_def split: if_splits)
  note ok = assms [unfolded raw_evidence_def Let_def raw members.simps is_obj.simps simp_thms if_False if_True]
  have place: "\<not> script_placeholder (dict_get raw ''path'')"
    "\<not> (absolute (path_of (text_of (dict_get raw ''path''))) \<or> ''..'' \<in> set (parts (path_of (text_of (dict_get raw ''path'')))))"
    using ok by (auto split: if_splits)
  note parts = ok [unfolded place if_False if_not_P [OF place(1)] if_not_P [OF place(2)] collectE_nil]
  have inner: "inner_path (dict_get raw ''path'') = Some (path_of (text_of (dict_get raw ''path'')))"
    using place script_text [OF place(1)] by (auto simp: inner_path_def Let_def is_str_iff)
  show ?thesis
    using parts raw_content_ok [of env q payload "dict_get raw ''sha256''" "dict_get raw ''bytes''"] inner
    by (fastforce simp: raw raw_output_def no_report)
qed

text \<open>An accepted report, with its files.\<close>

lemma raw_report_ok:
  assumes "raw_report_failures env p None True = Inr []"
  shows "\<exists>f payload replay raw v ss. rel_files env p = Some f \<and> json_content f = Some (JObj payload) \<and>
    dict_get payload ''raw'' = JObj raw \<and> raw_output env p (path_parent (path_parent p)) raw v \<and>
    raw_severities v (raw_tool payload) = Inr ss \<and> (\<forall>s\<in>set ss. s < High) \<and>
    counts_replayed (dict_get payload ''severity_counts'') ss \<and>
    dict_get payload ''replay'' = JObj replay \<and> dict_get replay ''status'' = JStr ''passed'' \<and>
    dict_get replay ''output_sha256'' = JStr (canonical_replay_sha256 (sha_text (rel_checkout env)) (dict_get raw ''sha256'') (count_severities ss))"
proof -
  obtain f payload where doc: "rel_files env p = Some f" "json_content f = Some (JObj payload)"
    and parts: "raw_replay_record (msg (path_str p)) (dict_get payload ''replay'') = []"
      "raw_evidence env p None True (msg (path_str p)) payload = Inr []"
    using assms
    by (auto simp: raw_report_failures_def load_doc_def Let_def run_ok simp del: collectE.simps split: option.splits json.splits)
  obtain replay where replay: "dict_get payload ''replay'' = JObj replay" "dict_get replay ''status'' = JStr ''passed''"
    using parts(1) by (auto simp: raw_replay_record_def is_obj_iff no_report split: if_splits)
  obtain raw v ss where raw: "dict_get payload ''raw'' = JObj raw" "raw_output env p (path_parent (path_parent p)) raw v"
      "raw_severities v (raw_tool payload) = Inr ss"
      "raw_counts (sha_text (rel_checkout env)) (msg (path_str p)) payload (dict_get raw ''sha256'') ss = []"
    using raw_evidence_ok [OF parts(2)] by auto
  note counts = raw_counts_nil [OF raw(4)]
  show ?thesis using doc replay raw(1-3) counts(1,2) counts(3) [OF replay(1)] by blast
qed

text \<open>
  C11. The release gate's check of a v2 security report replays the raw evidence: when the report is
  accepted with its files, it is of the requested version and scan with status passed, the raw scanner
  output that it names lies at a confined place with the recorded size and non-zero digest, its findings
  are counted again to exactly the recorded counts, the replay digest is the one of those counts, and
  no finding is of severity high or critical.
\<close>

theorem security_report_replayed:
  assumes "validate_security_report env (raw_security_replay env) p a = Inr []"
    and "se_check_files a"
    and "read_doc env p = JObj payload" and "dict_get payload ''schema_version'' = JStr REPORT_SCHEMA_VERSION"
  shows "dict_get payload ''version'' = JStr (se_version a) \<and> dict_get payload ''status'' = JStr ''passed'' \<and>
    dict_get_or payload ''scan'' (JStr (se_scan a)) = JStr (se_scan a) \<and>
    (\<exists>raw v ss replay. dict_get payload ''raw'' = JObj raw \<and>
       raw_output env p (path_parent (path_parent p)) raw v \<and>
       raw_severities v (raw_tool payload) = Inr ss \<and>
       (\<forall>s. s \<in> set ss \<longrightarrow> s < High) \<and>
       counts_replayed (dict_get payload ''severity_counts'') ss \<and>
       dict_get payload ''replay'' = JObj replay \<and>
       dict_get replay ''output_sha256'' =
         JStr (canonical_replay_sha256 (sha_text (rel_checkout env)) (dict_get raw ''sha256'') (count_severities ss)))"
proof -
  have schema: "dict_get payload ''schema_version'' = JStr ''suderra.release-security-report.v2''"
    using assms(4) by (simp add: REPORT_SCHEMA_VERSION_def)
  note ok = assms(1) [unfolded validate_security_report_def assms(3) json.case Let_def schema]
  have header: "dict_get payload ''version'' = JStr (se_version a)" "dict_get payload ''status'' = JStr ''passed''"
    "dict_get_or payload ''scan'' (JStr (se_scan a)) = JStr (se_scan a)"
    and replayed: "raw_report_failures env p None True = Inr []"
    using ok assms(2) by (auto simp: run_ok no_report raw_security_replay_def split: sum.splits)
  obtain f payload' where "rel_files env p = Some f" "json_content f = Some (JObj payload')"
    and parts: "\<exists>replay raw v ss. dict_get payload' ''raw'' = JObj raw \<and>
      raw_output env p (path_parent (path_parent p)) raw v \<and>
      raw_severities v (raw_tool payload') = Inr ss \<and> (\<forall>s\<in>set ss. s < High) \<and>
      counts_replayed (dict_get payload' ''severity_counts'') ss \<and> dict_get payload' ''replay'' = JObj replay \<and>
      dict_get replay ''output_sha256'' = JStr (canonical_replay_sha256 (sha_text (rel_checkout env)) (dict_get raw ''sha256'') (count_severities ss))"
    using raw_report_ok [OF replayed] by blast
  moreover have "payload' = payload" using calculation assms(3) by (simp add: read_doc_def)
  ultimately show ?thesis using header by blast
qed

section \<open>Signing sessions\<close>

lemma report_nil: "report c e = [] \<Longrightarrow> \<not> c"
  by simp

text \<open>What a bound file is: a non-empty file below the evidence with the recorded digest and, where given, size.\<close>

definition bound_file :: "store \<Rightarrow> path \<Rightarrow> json \<Rightarrow> json \<Rightarrow> path \<Rightarrow> regular_file \<Rightarrow> bool" where
  "bound_file fs here v sha q f \<longleftrightarrow> (\<exists>rel. inner_path v = Some rel \<and> q = path_join here rel) \<and> fs q = Some f \<and>
     0 < size_of f \<and> sha = JStr (sha_of f) \<and> nonzero_sha256 sha"

lemma digest_bound_file_nil:
  assumes "digest_bound_file fs here p v sha bytes = ([], place)"
  shows "\<exists>q f. place = Some q \<and> bound_file fs here v sha q f \<and>
    (bytes \<noteq> JNull \<longrightarrow> positive_int bytes \<and> int_of bytes = size_of f)"
proof -
  obtain rel where rel: "hsm_relative_path v = Some rel" "inner_path v = Some rel"
    using assms by (auto simp: digest_bound_file_def hsm_relative_path_def split: option.splits if_splits)
  have stored: "nonempty_file fs (path_join here rel)" "place = Some (path_join here rel)"
    using assms rel by (auto simp: digest_bound_file_def Let_def split: if_splits)
  obtain f where f: "fs (path_join here rel) = Some f" "0 < size_of f" "file_sha fs (path_join here rel) = sha_of f"
    using nonempty_file_sha [OF stored(1)] by blast
  have "nonzero_sha256 sha \<and> sha = JStr (sha_of f) \<and> (bytes \<noteq> JNull \<longrightarrow> positive_int bytes \<and> int_of bytes = size_of f)"
    using assms by (auto simp: digest_bound_file_def Let_def rel stored f report_empty split: if_splits)
  then show ?thesis using rel stored(2) f by (auto simp: bound_file_def)
qed

text \<open>A signature that \<open>openssl\<close> verified with a key.\<close>

definition signature_verified :: "hsm_env \<Rightarrow> string \<Rightarrow> path \<Rightarrow> path \<Rightarrow> bool" where
  "signature_verified env key data signature \<longleftrightarrow> (\<exists>raw. return_code (hs_verify env key raw data signature) = 0)"

lemma signature_failure_nil:
  assumes "signature_failure env m key (Some d) (Some s) algorithm = []"
    and "hs_files env d = Some f" and "hs_files env s = Some g"
  shows "signature_verified env key d s"
  using assms by (auto simp: signature_failure_def Let_def is_file_def report_empty signature_verified_def)

text \<open>An artifact of a session: its file and the file of its signature, bound and verified.\<close>

definition artifact_signed :: "hsm_env \<Rightarrow> path \<Rightarrow> string \<Rightarrow> obj \<Rightarrow> bool" where
  "artifact_signed env here key artifact \<longleftrightarrow> (\<exists>d f s g.
     bound_file (hs_files env) here (dict_get artifact ''path'') (dict_get artifact ''sha256'') d f \<and>
     bound_file (hs_files env) here (dict_get artifact ''signature_path'') (artifact_signature_sha artifact) s g \<and>
     positive_int (dict_get artifact ''bytes'') \<and> int_of (dict_get artifact ''bytes'') = size_of f \<and>
     signature_verified env key d s)"

lemma replay_artifact_nil:
  assumes "replay_artifact env here key algorithm (i, JObj artifact) = []" and "positive_int (dict_get artifact ''bytes'')"
  shows "artifact_signed env here key artifact"
proof -
  let ?p = "''artifacts['' @ nat_str i @ '']''"
  obtain fs data where d: "digest_bound_file (hs_files env) here (?p @ ''.path'') (dict_get artifact ''path'') (dict_get artifact ''sha256'')
      (dict_get artifact ''bytes'') = (fs, data)" by fastforce
  obtain gs sig where s: "digest_bound_file (hs_files env) here (?p @ ''.signature_path'') (dict_get artifact ''signature_path'')
      (artifact_signature_sha artifact) JNull = (gs, sig)" by fastforce
  note ok = assms(1) [unfolded replay_artifact_def Let_def prod.case members.simps d s]
  have nil: "fs = []" "gs = []" and verify: "signature_failure env ?p key data sig
      (py_str (dict_get_or artifact ''signature_algorithm'' (JStr algorithm))) = []"
    using ok by simp_all
  have "dict_get artifact ''bytes'' \<noteq> JNull" using assms(2) by (auto simp: positive_int_def int_above_def)
  then obtain q f where q: "data = Some q" "bound_file (hs_files env) here (dict_get artifact ''path'') (dict_get artifact ''sha256'') q f"
      "int_of (dict_get artifact ''bytes'') = size_of f"
    using digest_bound_file_nil [OF d [unfolded nil]] by blast
  obtain r g where r: "sig = Some r" "bound_file (hs_files env) here (dict_get artifact ''signature_path'') (artifact_signature_sha artifact) r g"
    using digest_bound_file_nil [OF s [unfolded nil]] by blast
  have "signature_verified env key q r"
    using signature_failure_nil [OF verify [unfolded q(1) r(1)]] q(2) r(2) by (auto simp: bound_file_def)
  then show ?thesis using q r assms(2) by (auto simp: artifact_signed_def)
qed

text \<open>The challenge of a session: request, signature and transcript are bound and the signature is verified.\<close>

definition challenge_signed :: "hsm_env \<Rightarrow> path \<Rightarrow> string \<Rightarrow> obj \<Rightarrow> bool" where
  "challenge_signed env here key challenge \<longleftrightarrow> (\<exists>d f s g t h.
     bound_file (hs_files env) here (dict_get challenge ''request_path'') (dict_get challenge ''request_sha256'') d f \<and>
     bound_file (hs_files env) here (dict_get challenge ''signature_path'') (dict_get challenge ''signature_sha256'') s g \<and>
     bound_file (hs_files env) here (dict_get challenge ''transcript_path'') (dict_get challenge ''transcript_sha256'') t h \<and>
     signature_verified env key d s)"

lemma replay_challenge_nil:
  assumes "replay_challenge env here key algorithm challenge audit = []"
  shows "challenge_signed env here key challenge"
    and "dict_get (members audit) ''transcript_sha256'' = dict_get challenge ''transcript_sha256''"
proof -
  let ?bound = "\<lambda>f. digest_bound_file (hs_files env) here (''challenge.'' @ f @ ''_path'') (dict_get challenge (f @ ''_path''))
    (dict_get challenge (f @ ''_sha256'')) JNull"
  obtain fs d where d: "?bound ''request'' = (fs, d)" by fastforce
  obtain gs s where s: "?bound ''signature'' = (gs, s)" by fastforce
  obtain hs t where t: "?bound ''transcript'' = (hs, t)" by fastforce
  note ok = assms [unfolded replay_challenge_def Let_def d s t prod.case]
  have nil: "fs = []" "gs = []" "hs = []" and verify: "signature_failure env ''challenge'' key d s algorithm = []"
    using ok by simp_all
  obtain q f where q: "d = Some q" "bound_file (hs_files env) here (dict_get challenge ''request_path'') (dict_get challenge ''request_sha256'') q f"
    using digest_bound_file_nil [OF d [unfolded nil]] by auto
  obtain r g where r: "s = Some r" "bound_file (hs_files env) here (dict_get challenge ''signature_path'') (dict_get challenge ''signature_sha256'') r g"
    using digest_bound_file_nil [OF s [unfolded nil]] by auto
  obtain u h where u: "t = Some u" "bound_file (hs_files env) here (dict_get challenge ''transcript_path'') (dict_get challenge ''transcript_sha256'') u h"
    using digest_bound_file_nil [OF t [unfolded nil]] by auto
  have "signature_verified env key q r"
    using signature_failure_nil [OF verify [unfolded q(1) r(1)]] q(2) r(2) by (auto simp: bound_file_def)
  then show "challenge_signed env here key challenge" unfolding challenge_signed_def using q r u by blast
  show "dict_get (members audit) ''transcript_sha256'' = dict_get challenge ''transcript_sha256''"
    using ok u by (auto simp: bound_file_def is_file_def report_empty)
qed

text \<open>What the certificate, the provider, the key and the times of a production session have to be.\<close>

definition hardware_key :: "string \<Rightarrow> obj \<Rightarrow> bool" where
  "hardware_key uri payload \<longleftrightarrow> (\<exists>key usages. dict_get payload ''key'' = JObj key \<and> dict_get key ''uri'' = JStr uri \<and>
     dict_get key ''extractable'' = JBool False \<and> dict_get key ''private'' = JBool True \<and>
     dict_get key ''usages'' = JArr usages \<and> JStr ''sign'' \<in> set usages)"

lemma hsm_key_nil: "hsm_key uri key_id (dict_get payload ''key'') = [] \<Longrightarrow> hardware_key uri payload"
  by (auto simp: hsm_key_def Let_def no_report is_obj_iff is_list_iff hardware_key_def split: if_splits)

definition approved_provider :: "hsm_env \<Rightarrow> obj \<Rightarrow> bool" where
  "approved_provider env payload \<longleftrightarrow> (let provider = lower (py_str (dict_get_or payload ''provider'' (JStr []))) in
     dict_get payload ''hardware_backed'' = JBool True \<and> (\<forall>m. m \<in> set SOFTHSM_MARKERS \<longrightarrow> \<not> contains provider m) \<and>
     (\<forall>allowed. allowlist_enforced (hs_contract env) = Inr True \<and> approved_providers (hs_contract env) = Inr allowed \<and> allowed \<noteq> [] \<longrightarrow>
        (\<exists>a\<in>set allowed. contains (hsm_identity payload provider) a)))"

lemma hsm_provider_nil:
  assumes "hsm_provider allowed enforced True payload = []"
    and "approved_providers (hs_contract env) = Inr allowed" "allowlist_enforced (hs_contract env) = Inr enforced"
  shows "approved_provider env payload"
  using assms by (auto simp: hsm_provider_def approved_provider_def Let_def no_report list_ex_iff)

lemma hsm_artifact_nil: "hsm_artifact production (i, v) = [] \<Longrightarrow> \<exists>o'. v = JObj o' \<and> positive_int (dict_get o' ''bytes'')"
  by (cases v) (auto simp: hsm_artifact_def Let_def no_report split: if_splits)

lemma hsm_artifacts_nil:
  assumes "hsm_artifacts a v = []"
  shows "\<exists>os. v = JArr (map JObj os) \<and> os \<noteq> [] \<and> (\<forall>o'\<in>set os. positive_int (dict_get o' ''bytes'')) \<and>
    (\<forall>r s. ha_role a = Some r \<and> ha_sha a = Some s \<longrightarrow>
      (\<exists>o'\<in>set os. dict_get o' ''role'' = JStr r \<and> dict_get o' ''sha256'' = JStr s))"
proof -
  obtain vs where vs: "v = JArr vs" "vs \<noteq> []"
    using assms by (auto simp: hsm_artifacts_def is_list_iff split: if_splits)
  have each: "\<forall>x\<in>set (enumerate 0 vs). hsm_artifact (ha_production a) x = []" and
    asked: "hsm_requested (ha_role a) (ha_sha a) (objects_in vs) = []"
    using assms vs by (auto simp: hsm_artifacts_def no_report)
  have obj: "\<exists>o'. w = JObj o' \<and> positive_int (dict_get o' ''bytes'')" if "w \<in> set vs" for w
  proof -
    obtain j where "j < length vs" "w = vs ! j" using \<open>w \<in> set vs\<close> by (auto simp: in_set_conv_nth)
    then have "(j, w) \<in> set (enumerate 0 vs)" by (simp add: in_set_enumerate_eq)
    then show ?thesis using each hsm_artifact_nil by blast
  qed
  have map: "vs = map JObj (map members vs)" unfolding map_map
    using obj by (intro map_idI [symmetric]) fastforce
  have "filter is_obj vs = vs" using obj by (intro filter_True) fastforce
  then have "objects_in vs = map members vs" by (simp add: objects_in_def)
  then have "\<exists>o'\<in>set (map members vs). dict_get o' ''role'' = JStr r \<and> dict_get o' ''sha256'' = JStr s"
    if "ha_role a = Some r" "ha_sha a = Some s" for r s
    using asked that by (auto simp: hsm_requested_def Let_def no_report list_ex_iff)
  then show ?thesis using vs map obj by (intro exI [of _ "map members vs"]) force
qed

lemma hsm_failures_nil:
  assumes "hsm_failures env a payload = Inr []" and production: "ha_production a"
  shows "\<exists>current. contract_schema_version ''hsm_signing_session'' (hs_contract env) = Inr current \<and>
      dict_get payload ''schema_version'' = JStr current"
    and "hsm_certificate (hs_files env) (ha_certificate a) payload = []"
    and "approved_provider env payload" and "hardware_key (ha_uri a) payload"
    and "hsm_times True payload = Inr []" and "is_obj (dict_get payload ''challenge'')"
    and "hsm_artifacts a (dict_get payload ''artifacts'') = []"
proof -
  obtain current allowed enforced known where env: "contract_schema_version ''hsm_signing_session'' (hs_contract env) = Inr current"
      "approved_providers (hs_contract env) = Inr allowed" "allowlist_enforced (hs_contract env) = Inr enforced"
    and ok: "collectE
       [Inr (report (\<not> known) (''schema_version must be '' @ current)
          @ report (ha_production a \<and> dict_get payload ''schema_version'' \<noteq> JStr current) (''production HSM evidence requires '' @ current)
          @ report (\<not> pkcs11_key_uri (ha_uri a)) ''pkcs11_uri must be a pkcs11: key URI containing object= or id=''
          @ report (dict_get payload ''pkcs11_uri'' \<noteq> JStr (ha_uri a)) ''pkcs11_uri must match requested signing key URI''
          @ hsm_certificate (hs_files env) (ha_certificate a) payload
          @ hsm_placeholders [] payload [''provider'', ''hsm_serial'', ''key_label'', ''key_id'', ''ceremony_id'', ''operator'', ''issuer'',
              ''started_at'', ''signed_at'', ''expires_at'']),
        hsm_times (ha_production a) payload,
        Inr (hsm_provider allowed enforced (ha_production a) payload
          @ hsm_audit (dict_get payload ''audit'')
          @ (if dict_get payload ''schema_version'' \<noteq> JStr current then []
             else hsm_token (ha_production a) (dict_get payload ''hsm_serial'') (dict_get payload ''token'')
               @ hsm_key (ha_uri a) (dict_get payload ''key_id'') (dict_get payload ''key'')
               @ hsm_challenge (ha_production a) (dict_get payload ''challenge'')
               @ hsm_artifacts a (dict_get payload ''artifacts'')))] = Inr []"
    using assms(1) unfolding hsm_failures_def Let_def bindE_ok from_checked_ok by blast
  note parts = ok [unfolded collectE_nil production]
  have schema: "dict_get payload ''schema_version'' = JStr current" using parts production by (simp add: no_report)
  then show "\<exists>current. contract_schema_version ''hsm_signing_session'' (hs_contract env) = Inr current \<and>
      dict_get payload ''schema_version'' = JStr current" using env(1) by blast
  show "hsm_certificate (hs_files env) (ha_certificate a) payload = []" "hsm_times True payload = Inr []"
    "hsm_artifacts a (dict_get payload ''artifacts'') = []" using parts schema production by simp_all
  show "approved_provider env payload" using parts production hsm_provider_nil [OF _ env(2,3)] by simp
  show "hardware_key (ha_uri a) payload" using parts schema hsm_key_nil by auto
  show "is_obj (dict_get payload ''challenge'')" using parts schema by (auto simp: hsm_challenge_def split: if_splits)
qed

text \<open>\<open>s\<close> is not after \<open>t\<close>, as instants.\<close>

definition instants_ordered :: "datetime \<Rightarrow> datetime \<Rightarrow> bool" where
  "instants_ordered s t \<longleftrightarrow> (case (utc_offset s, utc_offset t) of
     (Some x, Some y) \<Rightarrow> local_us s - x \<le> local_us t - y | (None, None) \<Rightarrow> local_us s \<le> local_us t | _ \<Rightarrow> False)"

lemma time_before_no: "time_before (Some t) (Some s) = Inr False \<longleftrightarrow> instants_ordered s t"
  by (auto simp: time_before_def instants_ordered_def split: option.splits)

text \<open>The session was signed while its key was valid.\<close>

definition signed_in_time :: "obj \<Rightarrow> bool" where
  "signed_in_time payload \<longleftrightarrow> (\<exists>s t e. parse_zulu (dict_get payload ''started_at'') = Some s \<and>
     parse_zulu (dict_get payload ''signed_at'') = Some t \<and> parse_zulu (dict_get payload ''expires_at'') = Some e \<and>
     instants_ordered s t \<and> instants_ordered t e)"

lemma hsm_times_nil: "hsm_times production payload = Inr [] \<Longrightarrow> signed_in_time payload"
  by (auto simp: hsm_times_def Let_def run_ok no_report signed_in_time_def time_before_no)

section \<open>The session as a whole\<close>

lemma crypto_replay_nil:
  assumes "crypto_replay env here a payload = []" and "is_obj (dict_get payload ''challenge'')"
    and "dict_get payload ''artifacts'' = JArr (map JObj os)" and "\<forall>o'\<in>set os. positive_int (dict_get o' ''bytes'')"
  shows "return_code (hs_certificate_key env (ha_certificate a)) = 0 \<and>
    (\<exists>challenge. dict_get payload ''challenge'' = JObj challenge \<and>
      challenge_signed env here (stdout (hs_certificate_key env (ha_certificate a))) challenge) \<and>
    (\<forall>o'\<in>set os. artifact_signed env here (stdout (hs_certificate_key env (ha_certificate a))) o')"
proof -
  let ?key = "stdout (hs_certificate_key env (ha_certificate a))"
  obtain challenge where challenge: "dict_get payload ''challenge'' = JObj challenge" using assms(2) by (auto simp: is_obj_iff)
  let ?alg = "py_str (dict_get_or challenge ''algorithm'' (JStr ''openssl-dgst-sha256''))"
  have key: "return_code (hs_certificate_key env (ha_certificate a)) = 0" "strip ?key \<noteq> []"
    using assms(1) by (auto simp: crypto_replay_def Let_def split: if_splits)
  have parts: "replay_challenge env here ?key ?alg challenge (dict_get payload ''audit'') = []"
    "\<forall>x\<in>set (enumerate 0 (map JObj os)). replay_artifact env here ?key ?alg x = []"
    using assms(1) by (simp_all add: crypto_replay_def Let_def key challenge assms(3) no_report)
  have "artifact_signed env here ?key o'" if "o' \<in> set os" for o'
  proof -
    obtain j where "j < length os" "o' = os ! j" using \<open>o' \<in> set os\<close> by (auto simp: in_set_conv_nth)
    then have "(j, JObj o') \<in> set (enumerate 0 (map JObj os))" by (simp add: in_set_enumerate_eq)
    then show ?thesis using parts(2) replay_artifact_nil assms(4) that by blast
  qed
  then show ?thesis using key(1) challenge replay_challenge_nil(1) [OF parts(1)] by blast
qed

text \<open>
  C10. An accepted production session was signed on an approved hardware token while its key was valid: its
  certificate is the one the caller holds, its key has the requested URI, cannot be extracted and signs,
  its provider is approved and names no software token; and with the public key of that certificate the
  signatures of its challenge and of every artifact verify, each over a file with the recorded digest and
  size below the evidence. Where a role and a digest were asked for, one artifact has both.
\<close>

theorem hsm_session_accepted:
  assumes "validate_hsm_session env here a payload = Inr []" and "ha_production a"
  shows "(\<exists>f. hs_files env (ha_certificate a) = Some f \<and> dict_get payload ''certificate_sha256'' = JStr (sha_of f)) \<and>
    approved_provider env payload \<and> hardware_key (ha_uri a) payload \<and> signed_in_time payload \<and>
    return_code (hs_certificate_key env (ha_certificate a)) = 0 \<and>
    (\<exists>challenge. dict_get payload ''challenge'' = JObj challenge \<and>
      challenge_signed env here (stdout (hs_certificate_key env (ha_certificate a))) challenge) \<and>
    (\<exists>artifacts. dict_get payload ''artifacts'' = JArr (map JObj artifacts) \<and> artifacts \<noteq> [] \<and>
      (\<forall>o'. o' \<in> set artifacts \<longrightarrow> artifact_signed env here (stdout (hs_certificate_key env (ha_certificate a))) o') \<and>
      (\<forall>r s. ha_role a = Some r \<and> ha_sha a = Some s \<longrightarrow>
        (\<exists>o'\<in>set artifacts. dict_get o' ''role'' = JStr r \<and> dict_get o' ''sha256'' = JStr s)))"
proof -
  obtain fs where fs: "hsm_failures env a payload = Inr fs"
    and rest: "(if fs = [] then crypto_replay env here a payload else fs) = []"
    using assms by (auto simp: validate_hsm_session_def run_ok split: if_splits)
  then have nil: "fs = []" and crypto: "crypto_replay env here a payload = []" by (auto split: if_splits)
  note checks = hsm_failures_nil [OF fs [unfolded nil] assms(2)]
  have "nonempty_file (hs_files env) (ha_certificate a)"
    "dict_get payload ''certificate_sha256'' = JStr (file_sha (hs_files env) (ha_certificate a))"
    using checks(2) by (auto simp: hsm_certificate_def split: if_splits)
  then have cert: "\<exists>f. hs_files env (ha_certificate a) = Some f \<and> dict_get payload ''certificate_sha256'' = JStr (sha_of f)"
    using nonempty_file_sha by fastforce
  obtain os where os: "dict_get payload ''artifacts'' = JArr (map JObj os)" "os \<noteq> []" "\<forall>o'\<in>set os. positive_int (dict_get o' ''bytes'')"
    and asked: "\<forall>r s. ha_role a = Some r \<and> ha_sha a = Some s \<longrightarrow> (\<exists>o'\<in>set os. dict_get o' ''role'' = JStr r \<and> dict_get o' ''sha256'' = JStr s)"
    using hsm_artifacts_nil [OF checks(7)] by blast
  note replayed = crypto_replay_nil [OF crypto checks(6) os(1) os(3)]
  show ?thesis
    using cert checks(3,4) hsm_times_nil [OF checks(5)] replayed os(1,2) asked by auto
qed

end
