(* ===== verification/ReleaseGateProps.thy ===== *)
theory ReleaseGateProps
  imports ReleaseProps
begin

text \<open>
  What an accepted binding manifest binds, and what a passed production gate has checked: the
  composition of the validators of the evidence with the scripts that the gate runs.
\<close>

section \<open>The binding manifest\<close>

text \<open>An entry of the binding: a digest and a size, and the file below the artifact root that has the digest.\<close>

definition bound_item :: "release_env \<Rightarrow> gate_args \<Rightarrow> (path \<Rightarrow> string list) \<Rightarrow> obj \<Rightarrow> bool" where
  "bound_item env a content item \<longleftrightarrow> nonzero_sha256 (dict_get item ''sha256'') \<and> positive_int (dict_get item ''bytes'') \<and>
     (\<exists>rel. inner_path (dict_get item ''path'') = Some rel \<and> (\<forall>r. a_artifact_root a = Some r \<longrightarrow>
       (\<exists>f. rel_files env (path_join r rel) = Some f \<and> dict_get item ''sha256'' = JStr (sha_of f) \<and> content (path_join r rel) = [])))"

lemma bound_rel_path_some: "bound_rel_path v \<Longrightarrow> \<exists>rel. inner_path v = Some rel \<and> is_str v \<and> rel = path_of (text_of v)"
  by (auto simp: bound_rel_path_def inner_path_def Let_def split: if_splits)

lemma bound_itemI:
  assumes "nonzero_sha256 (dict_get item ''sha256'')" "positive_int (dict_get item ''bytes'')"
    and "bound_rel_path (dict_get item ''path'')"
    and "bound_file env (a_artifact_root a) label (dict_get item ''path'') (dict_get item ''sha256'') content = []"
  shows "bound_item env a content item"
proof -
  obtain rel where rel: "inner_path (dict_get item ''path'') = Some rel" "is_str (dict_get item ''path'')"
    "rel = path_of (text_of (dict_get item ''path''))" using bound_rel_path_some [OF assms(3)] by blast
  have "is_str (dict_get item ''sha256'')" using nonzero_sha256_text [OF assms(1)] by auto
  then have "\<exists>f. rel_files env (path_join r rel) = Some f \<and> dict_get item ''sha256'' = JStr (sha_of f) \<and> content (path_join r rel) = []"
    if "a_artifact_root a = Some r" for r
    using assms(4) that rel(2,3) by (auto simp: bound_file_def Let_def split: option.splits if_splits)
  then show ?thesis using assms(1,2) rel(1) by (auto simp: bound_item_def)
qed

lemma check_build_evidence_ok:
  assumes "check_build_evidence env a binding expected seen item = Inr []"
  shows "evidence_key item \<notin> set seen" and "expected \<noteq> [] \<Longrightarrow> evidence_key item \<in> set expected"
    and "\<exists>role\<in>set BUILD_EVIDENCE_ROLES. dict_get item ''role'' = JStr role \<and>
      bound_item env a (\<lambda>p. evidence_content env binding p role) item"
proof -
  note parts = assms [unfolded check_build_evidence_def Let_def bindE_ok]
  show "evidence_key item \<notin> set seen" "expected \<noteq> [] \<Longrightarrow> evidence_key item \<in> set expected"
    using parts by (auto simp: no_report)
  obtain role where role: "dict_get item ''role'' = JStr role" "role \<in> set BUILD_EVIDENCE_ROLES"
    using parts by (auto simp: no_report dest!: in_some_list)
  have "bound_item env a (\<lambda>p. evidence_content env binding p role) item"
    using parts role(1) by (intro bound_itemI [where label = "''binding build evidence''"]) (auto split: if_splits)
  then show "\<exists>role\<in>set BUILD_EVIDENCE_ROLES. dict_get item ''role'' = JStr role \<and>
      bound_item env a (\<lambda>p. evidence_content env binding p role) item" using role by blast
qed

interpretation evidence_walk: keyed_walk "check_build_evidences env a binding expected"
    "\<lambda>seen i. check_build_evidence env a binding expected seen" evidence_key for env a binding expected
proof
  fix seen i v vs
  assume "check_build_evidences env a binding expected seen i (v # vs) = Inr []"
  then show "\<exists>o'. v = JObj o' \<and> check_build_evidence env a binding expected seen o' = Inr [] \<and>
      check_build_evidences env a binding expected (evidence_key o' # seen) (Suc i) vs = Inr []"
    by (cases v) (auto simp: collectE_nil simp del: collectE.simps)
qed (rule check_build_evidence_ok(1))

lemma check_installer_ok:
  assumes "check_installer env a seen item = Inr []"
  shows "installer_key item \<notin> set seen" and "installer_key item \<in> set EXPECTED_INSTALLERS"
    and "bound_item env a (\<lambda>_. []) item"
proof -
  note parts = assms [unfolded check_installer_def Let_def bindE_ok]
  show "installer_key item \<notin> set seen" "installer_key item \<in> set EXPECTED_INSTALLERS" using parts by (auto simp: no_report)
  show "bound_item env a (\<lambda>_. []) item"
    using parts by (intro bound_itemI [where label = "''binding installer''"]) auto
qed

interpretation installer_walk: keyed_walk "check_installers env a" "\<lambda>seen i. check_installer env a seen" installer_key for env a
proof
  fix seen i v vs
  assume "check_installers env a seen i (v # vs) = Inr []"
  then show "\<exists>o'. v = JObj o' \<and> check_installer env a seen o' = Inr [] \<and>
      check_installers env a (installer_key o' # seen) (Suc i) vs = Inr []"
    by (cases v) (auto simp: collectE_nil simp del: collectE.simps)
qed (rule check_installer_ok(1))

lemma object_keys_map [simp]: "object_keys f (map JObj os) = map f os"
  by (induction os) (simp_all add: object_keys_def)

lemma binding_build_evidence_ok:
  assumes "binding_build_evidence env a b (Some rows) = Inr []"
  shows "\<exists>kss items. mapE row_build_evidence rows = Inr kss \<and> dict_get b ''build_evidence'' = JArr (map JObj items) \<and> items \<noteq> [] \<and>
    distinct (map evidence_key items) \<and> set (concat kss) \<subseteq> evidence_key ` set items \<and>
    (concat kss \<noteq> [] \<longrightarrow> evidence_key ` set items \<subseteq> set (concat kss)) \<and>
    (\<forall>item\<in>set items. \<exists>role\<in>set BUILD_EVIDENCE_ROLES. dict_get item ''role'' = JStr role \<and>
       bound_item env a (\<lambda>p. evidence_content env b p role) item)"
proof -
  let ?v = "dict_get b ''build_evidence''"
  obtain kss where kss: "mapE row_build_evidence rows = Inr kss" and given: "is_list ?v" "elems ?v \<noteq> []"
    and walk: "check_build_evidences env a b (concat kss) [] 0 (elems ?v) = Inr []"
    and missing: "set (concat kss) \<subseteq> set (object_keys evidence_key (elems ?v))"
    using assms by (auto simp: binding_build_evidence_def Let_def bindE_ok collectE_nil split: if_splits simp del: collectE.simps)
  obtain items where items: "elems ?v = map JObj items" "distinct (map evidence_key items)"
    "\<forall>item\<in>set items. \<exists>seen. check_build_evidence env a b (concat kss) seen item = Inr []"
    using evidence_walk.accepted [OF walk] by blast
  have v: "?v = JArr (map JObj items)" "items \<noteq> []" using given items(1) by (auto simp: is_list_iff)
  have covered: "set (concat kss) \<subseteq> evidence_key ` set items" using missing unfolding items(1) by simp
  have expected: "concat kss \<noteq> [] \<longrightarrow> evidence_key ` set items \<subseteq> set (concat kss)"
    using items(3) check_build_evidence_ok(2) by blast
  have bound: "\<forall>item\<in>set items. \<exists>role\<in>set BUILD_EVIDENCE_ROLES. dict_get item ''role'' = JStr role \<and>
      bound_item env a (\<lambda>p. evidence_content env b p role) item"
    using items(3) check_build_evidence_ok(3) by blast
  show ?thesis using kss v items(2) covered expected bound by blast
qed

lemma binding_installers_ok:
  assumes "binding_installers env a v = Inr []"
  shows "\<exists>items. v = JArr (map JObj items) \<and> distinct (map installer_key items) \<and>
    installer_key ` set items = set EXPECTED_INSTALLERS \<and> (\<forall>item\<in>set items. bound_item env a (\<lambda>_. []) item)"
proof -
  have given: "is_list v" and walk: "check_installers env a [] 0 (elems v) = Inr []"
    and missing: "set EXPECTED_INSTALLERS \<subseteq> set (object_keys installer_key (elems v))"
    using assms by (auto simp: binding_installers_def Let_def collectE_nil split: if_splits simp del: collectE.simps)
  obtain items where items: "elems v = map JObj items" "distinct (map installer_key items)"
    "\<forall>item\<in>set items. \<exists>seen. check_installer env a seen item = Inr []"
    using installer_walk.accepted [OF walk] by blast
  then show ?thesis
    using given missing [unfolded items(1)] check_installer_ok(2,3) by (intro exI [of _ items]) (auto simp: is_list_iff)
qed

lemma binding_image_contract_nil:
  assumes "binding_image_contract env a v = []"
  shows "\<exists>c. v = JObj c \<and> dict_get c ''role'' = JStr ''image-build-contract'' \<and> bound_item env a (\<lambda>_. []) c"
proof -
  obtain c where c: "v = JObj c" using assms by (cases v) (auto simp: binding_image_contract_def)
  have "bound_item env a (\<lambda>_. []) c"
    using assms c by (intro bound_itemI [where label = "''image build contract''"]) (auto simp: binding_image_contract_def Let_def)
  then show ?thesis using assms c by (auto simp: binding_image_contract_def Let_def)
qed

lemma expected_contents_ok:
  assumes "expected_contents env p = ([], rows, expected)"
  shows "\<exists>matrix rs. release_load_matrix env p = Inr matrix \<and> matrix_release_rows matrix = Inr rs \<and> rows = Some rs \<and>
    expected_release_artifact_map matrix = Inr expected"
  using assms by (auto simp: expected_contents_def contract_failure_def from_checked_def split: sum.splits)

lemma caught_nil: "caught m r = [] \<longleftrightarrow> r = Inr []"
  by (cases r) (simp_all add: caught_def)

lemma binding_buildroot_nil:
  assumes "binding_buildroot env b = []" and "dict_get b ''source_sha'' = JStr s" and "lower_hex_of_length 40 s"
  shows "expected_buildroot (rel_checkout env) s = Inr x \<Longrightarrow> dict_get b ''buildroot_index_sha'' = JStr x"
    and "\<exists>x. expected_buildroot (rel_checkout env) s = Inr x"
    and "validate_metadata_payload (rel_checkout env) (buildroot_identity_payload_from_binding b) = Inr []"
  using assms by (auto simp: binding_buildroot_def Let_def caught_nil bindE_ok split: sum.splits)

text \<open>
  C17. A binding manifest that the gate accepts is the one of the requested version, profile and
  commit; it names the matrix file by its digest, the Buildroot commit in the tree of the source
  commit, and a Buildroot identity that validates; its artifacts are those of the matrix, without
  repetition; its build evidence covers every log of every released row and nothing else, once
  each, with the content that its role asks for; the installers are exactly the four expected
  ones; and whatever is bound has a non-zero digest, a size and, below a given artifact root, a
  file with that digest.
\<close>

theorem binding_accepted:
  assumes "validate_binding env a (Some b) = Inr []"
  shows "\<exists>source_sha commit matrix_file matrix rows expected artifacts kss items installers contract.
    dict_get b ''version'' = JStr (a_version a) \<and> dict_get b ''profile'' = JStr (a_profile a) \<and>
    dict_get b ''source_sha'' = JStr source_sha \<and> a_source_sha a \<in> {None, Some source_sha} \<and>
    rel_files env (a_matrix a) = Some matrix_file \<and> dict_get b ''matrix_sha256'' = JStr (sha_of matrix_file) \<and>
    expected_buildroot (rel_checkout env) source_sha = Inr commit \<and> dict_get b ''buildroot_index_sha'' = JStr commit \<and>
    validate_metadata_payload (rel_checkout env) (buildroot_identity_payload_from_binding b) = Inr [] \<and>
    release_load_matrix env (a_matrix a) = Inr matrix \<and> matrix_release_rows matrix = Inr rows \<and>
    expected_release_artifact_map matrix = Inr expected \<and>
    dict_get b ''artifacts'' = JArr (map JObj artifacts) \<and> distinct (map artifact_key artifacts) \<and>
    (\<forall>x\<in>set artifacts. bound_artifact expected (map_option (artifact_files env) (a_artifact_root a)) x) \<and>
    fst ` set expected \<subseteq> artifact_key ` set artifacts \<and>
    mapE row_build_evidence rows = Inr kss \<and> dict_get b ''build_evidence'' = JArr (map JObj items) \<and>
    distinct (map evidence_key items) \<and> set (concat kss) \<subseteq> evidence_key ` set items \<and>
    (concat kss \<noteq> [] \<longrightarrow> evidence_key ` set items \<subseteq> set (concat kss)) \<and>
    (\<forall>item\<in>set items. \<exists>role\<in>set BUILD_EVIDENCE_ROLES. dict_get item ''role'' = JStr role \<and>
       bound_item env a (\<lambda>p. evidence_content env b p role) item) \<and>
    dict_get b ''installers'' = JArr (map JObj installers) \<and> distinct (map installer_key installers) \<and>
    installer_key ` set installers = set EXPECTED_INSTALLERS \<and> (\<forall>item\<in>set installers. bound_item env a (\<lambda>_. []) item) \<and>
    dict_get b ''image_build_contract'' = JObj contract \<and> bound_item env a (\<lambda>_. []) contract"
proof -
  obtain failures rows' expected where contents: "expected_contents env (a_matrix a) = (failures, rows', expected)"
    by (cases "expected_contents env (a_matrix a)") auto
  have parts: "binding_header env a b = []" "failures = []"
      "validate_release_artifact_bindings (dict_get b ''artifacts'') expected (map_option (artifact_files env) (a_artifact_root a)) = []"
      "binding_build_evidence env a b rows' = Inr []" "binding_installers env a (dict_get b ''installers'') = Inr []"
      "binding_image_contract env a (dict_get b ''image_build_contract'') = []"
    using assms by (simp_all add: validate_binding_def contents collectE_nil del: collectE.simps)
  obtain matrix rows where matrix: "release_load_matrix env (a_matrix a) = Inr matrix" "matrix_release_rows matrix = Inr rows"
    "rows' = Some rows" "expected_release_artifact_map matrix = Inr expected"
    using expected_contents_ok contents parts(2) by blast
  obtain mf where mf: "rel_files env (a_matrix a) = Some mf"
    using matrix(1) by (auto simp: release_load_matrix_def split: option.splits)
  note head = parts(1) [unfolded binding_header_def Let_def append_is_Nil_conv report_empty]
  obtain s where s: "dict_get b ''source_sha'' = JStr s" "lower_hex_of_length 40 s" using head by (auto simp: commit_text_iff)
  have same: "dict_get b ''version'' = JStr (a_version a)" "dict_get b ''profile'' = JStr (a_profile a)"
    "a_source_sha a \<in> {None, Some s}" using head s(1) by (auto simp: differs_def split: option.splits)
  have sha: "dict_get b ''matrix_sha256'' = JStr (sha_of mf)"
    using head mf by (auto simp: is_file_def file_sha_def split: if_splits)
  have buildroot: "binding_buildroot env b = []" using head by blast
  obtain commit where commit: "expected_buildroot (rel_checkout env) s = Inr commit"
    using binding_buildroot_nil(2) [OF buildroot s] by blast
  note identity = binding_buildroot_nil(1) [OF buildroot s commit] binding_buildroot_nil(3) [OF buildroot s]
  obtain artifacts where artifacts: "dict_get b ''artifacts'' = JArr (map JObj artifacts)" "distinct (map artifact_key artifacts)"
    "\<forall>x\<in>set artifacts. bound_artifact expected (map_option (artifact_files env) (a_artifact_root a)) x"
    "fst ` set expected \<subseteq> artifact_key ` set artifacts" using parts(3) artifact_bindings_nil by blast
  obtain kss items where evidence: "mapE row_build_evidence rows = Inr kss" "dict_get b ''build_evidence'' = JArr (map JObj items)"
    "distinct (map evidence_key items)" "set (concat kss) \<subseteq> evidence_key ` set items"
    "concat kss \<noteq> [] \<longrightarrow> evidence_key ` set items \<subseteq> set (concat kss)"
    "\<forall>item\<in>set items. \<exists>role\<in>set BUILD_EVIDENCE_ROLES. dict_get item ''role'' = JStr role \<and>
       bound_item env a (\<lambda>p. evidence_content env b p role) item"
    using binding_build_evidence_ok [OF parts(4) [unfolded matrix(3)]] by blast
  obtain installers where installers: "dict_get b ''installers'' = JArr (map JObj installers)" "distinct (map installer_key installers)"
    "installer_key ` set installers = set EXPECTED_INSTALLERS" "\<forall>item\<in>set installers. bound_item env a (\<lambda>_. []) item"
    using binding_installers_ok [OF parts(5)] by blast
  obtain contract where contract: "dict_get b ''image_build_contract'' = JObj contract" "bound_item env a (\<lambda>_. []) contract"
    using binding_image_contract_nil [OF parts(6)] by blast
  show ?thesis
    by (rule exI [of _ s], rule exI [of _ commit], rule exI [of _ mf], rule exI [of _ matrix], rule exI [of _ rows],
      rule exI [of _ expected], rule exI [of _ artifacts], rule exI [of _ kss], rule exI [of _ items],
      rule exI [of _ installers], rule exI [of _ contract], intro conjI)
      (fact s(1) same mf sha commit identity matrix(1,2,4) artifacts evidence installers contract)+
qed

section \<open>The production gate\<close>

abbreviation release_file :: "gate_args \<Rightarrow> string \<Rightarrow> string list \<Rightarrow> path" where
  "release_file a tree ns \<equiv> path_under (a_root a) (tree # a_version a # ns)"

text \<open>What the gate has checked of one row of the matrix in the production profile.\<close>

definition row_documents ::
  "release_env \<Rightarrow> gate_args \<Rightarrow> string option \<Rightarrow> string option \<Rightarrow> obj \<Rightarrow> obj \<Rightarrow> bool" where
  "row_documents env a sha run b row \<longleftrightarrow> (let t = py_str (dict_get_or row ''target'' (JStr [])) in
     \<exists>policy. target_policy t (rel_contract env) = Inr policy \<and>
     (dict_get policy ''signing_required'' = JBool True \<longrightarrow> validate_signing_manifest env
       (path_under (signing_dir a) [t, ''signing-manifest.json'']) (row_signing_args env a sha run (Some b) policy t) = Inr []) \<and>
     (dict_get policy ''hardware_required'' = JBool True \<longrightarrow> acquisition_of env a t \<noteq> None \<and> validate_hardware_subject env
       (path_under (acquisition_dir a) [t, ''hardware-subject.json'']) (row_hardware_args env a sha run (Some b) t) = Inr []) \<and>
     (dict_get policy ''ota_capable'' = JBool True \<longrightarrow> validate_ota_artifacts env (ota_file a t)
       (row_signing_args env a sha run (Some b) policy t) = Inr []))"

definition row_released :: "release_env \<Rightarrow> gate_args \<Rightarrow> string option \<Rightarrow> string option \<Rightarrow> obj \<Rightarrow> bool" where
  "row_released env a sha run row \<longleftrightarrow> (truthy (dict_get row ''release'') \<longrightarrow> (\<exists>v. map_of row ''target'' = Some v \<and>
     release_validate_approval env (release_file a ''release-approvals'' [py_str v @ ''.json'']) (a_version a) (py_str v) sha = Inr [] \<and>
     validate_repro env (release_file a ''release-reproducibility'' [py_str v @ ''.json''])
       \<lparr>rp_version = Some (a_version a), rp_target = Some (py_str v), rp_source_sha = sha, rp_run_id = run,
        rp_check_files = a_check_files a\<rparr> = []))"

text \<open>
  The two checks of a row that the gate leaves to other programs: the acceptance of the QEMU run of
  a released row that asks for one, against the bound digest of its artifact, and the acceptance of
  the runtime suite of a row of the production runtime profile.
\<close>

definition row_exercised :: "release_env \<Rightarrow> gate_args \<Rightarrow> string option \<Rightarrow> string option \<Rightarrow> obj \<Rightarrow> obj \<Rightarrow> bool" where
  "row_exercised env a sha run b row \<longleftrightarrow>
     (truthy (dict_get row ''release'') \<and> truthy (dict_get row ''qemu_test'') \<longrightarrow>
       (\<exists>t artifact. map_of row ''target'' = Some t \<and> map_of row ''artifact'' = Some artifact \<and>
         return_code (rel_script env ([''scripts/evidence/validate-qemu-input.py'',
             path_str (release_file a ''release-lab-input'' [py_str t, ''qemu.json'']), ''--require-pass'', ''--profile'', a_profile a]
           @ text_arg ''--expected-source-sha'' sha
           @ text_arg ''--expected-artifact-sha256'' (binding_artifact_sha256 (Some b) (py_str t) (py_str artifact))
           @ flag_arg ''--check-files'' (a_check_files a))) = 0)) \<and>
     (dict_get row ''profile'' = JStr ''production-runtime'' \<longrightarrow>
       (\<exists>t. map_of row ''target'' = Some t \<and>
         return_code (rel_script env ([''scripts/evidence/validate-production-runtime-suite.py'',
             path_str (release_file a ''release-runtime'' [py_str t, ''production-runtime.json'']), ''--require-pass'',
             ''--profile'', ''production-candidate'', ''--expected-version'', a_version a, ''--expected-target'', py_str t]
           @ text_arg ''--expected-source-sha'' sha @ text_arg ''--expected-source-run-id'' run
           @ flag_arg ''--check-files'' (a_check_files a))) = 0))"

lemma row_exercised_nil:
  assumes "row_qemu env a sha (Some b) row = Inr []" and "row_runtime env a sha run row = Inr []"
    and "a_profile a = ''production-candidate''"
  shows "row_exercised env a sha run b row"
  using assms by (auto simp: row_exercised_def row_qemu_def row_runtime_def bindE_ok dict_index_ok run_script_nil split: if_splits)

lemma row_approval_nil: "row_approval env a sha run row = Inr [] \<Longrightarrow> row_released env a sha run row"
  by (auto simp: row_approval_def row_released_def Let_def bindE_ok dict_index_ok collectE_nil split: if_splits simp del: collectE.simps)

lemma production_row_nil: "production_row env a sha run (Some b) row = Inr [] \<Longrightarrow> row_documents env a sha run b row"
  unfolding production_row_def row_documents_def Let_def
  by (elim run_elims) (auto simp: collectE_nil from_checked_ok no_report split: if_splits simp del: collectE.simps)

lemma gate_governance_nil:
  "gate_governance env a = [] \<Longrightarrow> \<exists>g. read_doc env (release_file a ''release-governance'' [''governance-policy-validation.json'']) = JObj g \<and>
     dict_get g ''status'' = JStr ''passed'' \<and> dict_get g ''schema_version'' = JStr ''suderra.github-governance-validation.v2''"
  by (auto simp: gate_governance_def Let_def is_obj_iff split: if_splits)

lemma gate_scan_ok:
  assumes "gate_scan env replay a sha run scan = Inr []"
  shows "validate_security_report env replay (release_file a ''release-security'' [py_str scan @ ''.json''])
      \<lparr>se_scan = py_str scan, se_version = a_version a, se_source_sha = sha, se_run_id = run, se_check_files = a_check_files a\<rparr> = Inr []"
    and "a_profile a = ''production-candidate'' \<Longrightarrow>
      has_schema (read_doc env (release_file a ''release-security'' [py_str scan @ ''.json''])) ''suderra.release-security-report.v2''"
  using assms by (auto simp: gate_scan_def Let_def collectE_nil no_report simp del: collectE.simps)

lemma gate_passed:
  assumes "release_gate env replay a = Inr (Inr out)" and "a_profile a = ''production-candidate''"
  obtains b ingress where "load_binding env (a_binding a) = ([], Some b)" "gate_tier a = []"
    "validate_binding env a (Some b) = Inr []" "a_ingress a = Some ingress"
    "return_code (rel_script env (ingress_script_args a ingress)) = 0" "gate_release env replay a (Some b) = Inr []"
proof -
  have ok: "release_gate_failures env replay a = Inr []"
    using assms(1) by (auto simp: release_gate_def bindE_ok split: if_splits)
  obtain fs b where loaded: "load_binding env (a_binding a) = (fs, b)" by (cases "load_binding env (a_binding a)") auto
  have parts: "gate_tier a = []" "fs = []" "validate_binding env a b = Inr []" "gate_ingress env a = []"
      "gate_release env replay a b = Inr []"
    using ok assms(2) by (simp_all add: release_gate_failures_def loaded collectE_nil del: collectE.simps)
  obtain b' where b': "b = Some b'"
    using parts(3) assms(2) by (cases b) (auto simp: validate_binding_def BOUND_PROFILES_def report_def)
  obtain ingress where "a_ingress a = Some ingress" "return_code (rel_script env (ingress_script_args a ingress)) = 0"
    using parts(4) assms(2) by (auto simp: gate_ingress_def BOUND_PROFILES_def run_script_nil split: option.splits)
  then show thesis using that parts loaded b' by simp
qed

lemma gate_release_passed:
  assumes "gate_release env replay a (Some b) = Inr []" and "a_profile a = ''production-candidate''"
  obtains matrix rows scans where "release_load_matrix env (a_matrix a) = Inr matrix" "matrix_rows matrix = Inr rows"
    "py_list (dict_get_or matrix ''security_scans'' (JArr [])) = (Inr scans :: json list run)"
    "gate_governance env a = []" "gate_lab env a (bound_source_sha a (Some b)) (bound_source_run_id a (Some b)) = []"
    "acquisition_failures env a (bound_source_sha a (Some b)) (bound_source_run_id a (Some b)) = []"
    "gate_production env a (bound_source_sha a (Some b)) (bound_source_run_id a (Some b)) matrix (Some b) rows = Inr []"
    "\<forall>v\<in>set rows. \<exists>row. v = JObj row \<and> gate_row env a (bound_source_sha a (Some b)) (bound_source_run_id a (Some b)) (Some b) row = Inr []"
    "\<forall>scan\<in>set scans. gate_scan env replay a (bound_source_sha a (Some b)) (bound_source_run_id a (Some b)) scan = Inr []"
  using assms unfolding gate_release_def Let_def
  by (elim run_elims) (auto simp: collectE_nil from_checked_ok bindE_ok dict_of_ok intro!: that simp del: collectE.simps)

lemma gate_production_passed:
  assumes "gate_production env a sha run matrix (Some b) rows = Inr []"
  obtains governed where "production_graph env a sha run matrix (Some b) = Inr []"
    "signed_artifact_roles (rel_contract env) = Inr governed" "signing_sessions env a \<noteq> []"
    "\<forall>dn\<in>set (signing_sessions env a). check_session env governed a (Some b) dn = []"
    "\<forall>row. JObj row \<in> set rows \<longrightarrow> row_documents env a sha run b row"
    "validate_governance_role_bindings env (release_file a ''release-governance'' [''role-bindings.json'']) (a_version a) = Inr []"
    "validate_retention_manifest env (release_file a ''release-retention'' [''retention-manifest.json'']) (a_version a) sha run = Inr []"
proof -
  note parts = assms [unfolded gate_production_def collectE_nil]
  have rows: "production_row env a sha run (Some b) row = Inr []" if "JObj row \<in> set rows" for row
    using parts that by (auto simp: collectE_nil simp del: collectE.simps)
  have "production_sessions env a (Some b) = Inr []" using parts by simp
  then obtain governed where sessions: "signed_artifact_roles (rel_contract env) = Inr governed" "signing_sessions env a \<noteq> []"
    "\<forall>dn\<in>set (signing_sessions env a). check_session env governed a (Some b) dn = []"
    by (auto simp: production_sessions_def Let_def bindE_ok from_checked_ok no_report)
  have graph: "production_graph env a sha run matrix (Some b) = Inr []"
    and roles: "validate_governance_role_bindings env (release_file a ''release-governance'' [''role-bindings.json'']) (a_version a) = Inr []"
    and retention: "validate_retention_manifest env (release_file a ''release-retention'' [''retention-manifest.json''])
      (a_version a) sha run = Inr []" using parts by simp_all
  show thesis
    by (rule that [OF graph sessions _ roles retention]) (use production_row_nil rows in blast)
qed

lemma production_passed:
  assumes "release_gate env replay a = Inr (Inr out)" and "a_profile a = ''production-candidate''"
  obtains b matrix rows governed where "load_binding env (a_binding a) = ([], Some b)"
    "release_load_matrix env (a_matrix a) = Inr matrix" "matrix_rows matrix = Inr rows"
    "production_graph env a (bound_source_sha a (Some b)) (bound_source_run_id a (Some b)) matrix (Some b) = Inr []"
    "\<forall>row. JObj row \<in> set rows \<longrightarrow>
       row_documents env a (bound_source_sha a (Some b)) (bound_source_run_id a (Some b)) b row \<and>
       row_released env a (bound_source_sha a (Some b)) (bound_source_run_id a (Some b)) row"
proof (rule gate_passed [OF assms])
  fix b
  assume b: "load_binding env (a_binding a) = ([], Some b)" and release: "gate_release env replay a (Some b) = Inr []"
  show thesis
  proof (rule gate_release_passed [OF release assms(2)])
    fix matrix rows
    assume m: "release_load_matrix env (a_matrix a) = Inr matrix" "matrix_rows matrix = Inr rows"
      and g: "gate_production env a (bound_source_sha a (Some b)) (bound_source_run_id a (Some b)) matrix (Some b) rows = Inr []"
      and rows: "\<forall>v\<in>set rows. \<exists>row. v = JObj row \<and>
        gate_row env a (bound_source_sha a (Some b)) (bound_source_run_id a (Some b)) (Some b) row = Inr []"
    have "row_approval env a (bound_source_sha a (Some b)) (bound_source_run_id a (Some b)) row = Inr []" if "JObj row \<in> set rows" for row
      using rows that by (auto simp: gate_row_def collectE_nil simp del: collectE.simps)
    then have released: "\<forall>row. JObj row \<in> set rows \<longrightarrow>
        row_released env a (bound_source_sha a (Some b)) (bound_source_run_id a (Some b)) row"
      using row_approval_nil by blast
    show thesis
    proof (rule gate_production_passed [OF g])
      assume graph: "production_graph env a (bound_source_sha a (Some b)) (bound_source_run_id a (Some b)) matrix (Some b) = Inr []"
        and "\<forall>row. JObj row \<in> set rows \<longrightarrow>
          row_documents env a (bound_source_sha a (Some b)) (bound_source_run_id a (Some b)) b row"
      with released show thesis by (intro that [OF b m graph]) simp
    qed
  qed
qed

text \<open>
  C1. When the gate passes for a production candidate, the tier fits the version, the binding and
  the ingress manifest were given and accepted, governance passed, the lab input validated with a
  station registry from outside it, every target directory of the lab input has a validated
  station acquisition and there is one, the subject graph is accepted, there are HSM sessions and
  each replays, every row of the matrix has the signing, hardware and OTA documents that its
  policy asks for and, where it is released, an approval and a reproducibility record; the QEMU
  validator accepted the run of every released row that asks for a QEMU test, for the commit and the
  bound digest of the row's artifact, and the suite validator the runtime suite of every row of the
  production runtime profile, for the commit and the run; the roles and the retention manifest are
  accepted, and every scan of the matrix has an accepted report of the scanner-native schema.
\<close>

theorem production_gate_passed:
  assumes "release_gate env replay a = Inr (Inr out)" and "a_profile a = ''production-candidate''"
  shows "\<exists>b ingress g matrix rows governed scans.
    let sha = bound_source_sha a (Some b); run = bound_source_run_id a (Some b) in
    a_tier a = (if CHR ''-'' \<in> set (a_version a) then ''alpha'' else ''production'') \<and>
    load_binding env (a_binding a) = ([], Some b) \<and> validate_binding env a (Some b) = Inr [] \<and>
    a_ingress a = Some ingress \<and> return_code (rel_script env (ingress_script_args a ingress)) = 0 \<and>
    read_doc env (release_file a ''release-governance'' [''governance-policy-validation.json'']) = JObj g \<and>
    dict_get g ''status'' = JStr ''passed'' \<and>
    dict_get g ''schema_version'' = JStr ''suderra.github-governance-validation.v2'' \<and>
    \<not> resolves_within env (registry_path a) (path_under (a_root a) [''release-lab-input'']) \<and>
    return_code (rel_script env (lab_script_args a sha run)) = 0 \<and>
    acquisition_targets env a \<noteq> [] \<and>
    (\<forall>t\<in>set (acquisition_targets env a). return_code (rel_script env (acquisition_script_args env a sha run t)) = 0) \<and>
    release_load_matrix env (a_matrix a) = Inr matrix \<and> matrix_rows matrix = Inr rows \<and>
    production_graph env a sha run matrix (Some b) = Inr [] \<and>
    signed_artifact_roles (rel_contract env) = Inr governed \<and> signing_sessions env a \<noteq> [] \<and>
    (\<forall>dn\<in>set (signing_sessions env a). check_session env governed a (Some b) dn = []) \<and>
    (\<forall>v\<in>set rows. \<exists>row. v = JObj row \<and> row_documents env a sha run b row \<and> row_released env a sha run row \<and>
       row_exercised env a sha run b row) \<and>
    validate_governance_role_bindings env (release_file a ''release-governance'' [''role-bindings.json'']) (a_version a) = Inr [] \<and>
    validate_retention_manifest env (release_file a ''release-retention'' [''retention-manifest.json'']) (a_version a) sha run = Inr [] \<and>
    py_list (dict_get_or matrix ''security_scans'' (JArr [])) = (Inr scans :: json list run) \<and>
    (\<forall>scan\<in>set scans.
      has_schema (read_doc env (release_file a ''release-security'' [py_str scan @ ''.json''])) ''suderra.release-security-report.v2'' \<and>
      validate_security_report env replay (release_file a ''release-security'' [py_str scan @ ''.json''])
        \<lparr>se_scan = py_str scan, se_version = a_version a, se_source_sha = sha, se_run_id = run, se_check_files = a_check_files a\<rparr> = Inr [])"
proof -
  obtain b ingress where b: "load_binding env (a_binding a) = ([], Some b)" and tier: "gate_tier a = []"
    and binding: "validate_binding env a (Some b) = Inr []" and ingress: "a_ingress a = Some ingress"
      "return_code (rel_script env (ingress_script_args a ingress)) = 0" and release: "gate_release env replay a (Some b) = Inr []"
    by (rule gate_passed [OF assms])
  let ?sha = "bound_source_sha a (Some b)" and ?run = "bound_source_run_id a (Some b)"
  obtain matrix rows scans where matrix: "release_load_matrix env (a_matrix a) = Inr matrix" "matrix_rows matrix = Inr rows"
    "py_list (dict_get_or matrix ''security_scans'' (JArr [])) = (Inr scans :: json list run)"
    and governance: "gate_governance env a = []" and lab: "gate_lab env a ?sha ?run = []"
    and acquisitions: "acquisition_failures env a ?sha ?run = []"
    and production: "gate_production env a ?sha ?run matrix (Some b) rows = Inr []"
    and rows: "\<forall>v\<in>set rows. \<exists>row. v = JObj row \<and> gate_row env a ?sha ?run (Some b) row = Inr []"
    and scans: "\<forall>scan\<in>set scans. gate_scan env replay a ?sha ?run scan = Inr []"
    by (rule gate_release_passed [OF release assms(2)])
  obtain governed where graph: "production_graph env a ?sha ?run matrix (Some b) = Inr []"
    and sessions: "signed_artifact_roles (rel_contract env) = Inr governed" "signing_sessions env a \<noteq> []"
      "\<forall>dn\<in>set (signing_sessions env a). check_session env governed a (Some b) dn = []"
    and documents: "\<forall>row. JObj row \<in> set rows \<longrightarrow> row_documents env a ?sha ?run b row"
    and records: "validate_governance_role_bindings env (release_file a ''release-governance'' [''role-bindings.json'']) (a_version a) = Inr []"
      "validate_retention_manifest env (release_file a ''release-retention'' [''retention-manifest.json'']) (a_version a) ?sha ?run = Inr []"
    by (rule gate_production_passed [OF production])
  obtain g where g: "read_doc env (release_file a ''release-governance'' [''governance-policy-validation.json'']) = JObj g"
    "dict_get g ''status'' = JStr ''passed''" "dict_get g ''schema_version'' = JStr ''suderra.github-governance-validation.v2''"
    using gate_governance_nil [OF governance] by blast
  have tier': "a_tier a = (if CHR ''-'' \<in> set (a_version a) then ''alpha'' else ''production'')"
    using tier by (simp add: gate_tier_def Let_def)
  have station: "\<not> resolves_within env (registry_path a) (path_under (a_root a) [''release-lab-input''])"
    "return_code (rel_script env (lab_script_args a ?sha ?run)) = 0" using lab by (simp_all add: gate_lab_def no_report)
  have acq: "acquisition_targets env a \<noteq> []"
    "\<forall>t\<in>set (acquisition_targets env a). return_code (rel_script env (acquisition_script_args env a ?sha ?run t)) = 0"
    using acquisitions by (auto simp: acquisition_failures_def Let_def no_report)
  have each: "\<forall>v\<in>set rows. \<exists>row. v = JObj row \<and> row_documents env a ?sha ?run b row \<and> row_released env a ?sha ?run row \<and>
      row_exercised env a ?sha ?run b row"
  proof
    fix v assume v: "v \<in> set rows"
    then obtain row where row: "v = JObj row" "gate_row env a ?sha ?run (Some b) row = Inr []" using rows by blast
    then have "row_qemu env a ?sha (Some b) row = Inr []" "row_approval env a ?sha ?run row = Inr []" "row_runtime env a ?sha ?run row = Inr []"
      by (simp_all add: gate_row_def collectE_nil del: collectE.simps)
    then have "row_released env a ?sha ?run row" "row_exercised env a ?sha ?run b row"
      using row_approval_nil row_exercised_nil [OF _ _ assms(2)] by simp_all
    moreover have "row_documents env a ?sha ?run b row" using v documents row(1) by simp
    ultimately show "\<exists>row. v = JObj row \<and> row_documents env a ?sha ?run b row \<and> row_released env a ?sha ?run row \<and>
        row_exercised env a ?sha ?run b row"
      using row(1) by (intro exI [of _ row] conjI)
  qed
  have reports: "\<forall>scan\<in>set scans.
      has_schema (read_doc env (release_file a ''release-security'' [py_str scan @ ''.json''])) ''suderra.release-security-report.v2'' \<and>
      validate_security_report env replay (release_file a ''release-security'' [py_str scan @ ''.json''])
        \<lparr>se_scan = py_str scan, se_version = a_version a, se_source_sha = ?sha, se_run_id = ?run, se_check_files = a_check_files a\<rparr> = Inr []"
    using scans gate_scan_ok assms(2) by blast
  show ?thesis unfolding Let_def
    by (rule exI [of _ b], rule exI [of _ ingress], rule exI [of _ g], rule exI [of _ matrix], rule exI [of _ rows],
      rule exI [of _ governed], rule exI [of _ scans], intro conjI)
      (fact b tier' binding ingress g station acq matrix graph sessions each records reports)+
qed

section \<open>One release, one identity\<close>

definition carries_subject :: "release_env \<Rightarrow> string \<Rightarrow> string \<Rightarrow> string \<Rightarrow> string \<Rightarrow> json \<Rightarrow> bool" where
  "carries_subject env version target sha run v \<longleftrightarrow> (\<exists>o' i. v = JObj o' \<and>
     release_subject_id version target sha run (rel_contract env) = Inr i \<and> dict_get o' ''subject_id'' = JStr i)"

lemma signing_subject:
  assumes "validate_signing_manifest env p a = Inr []" and "s_source_sha a = Some sha" and "s_run_id a = Some run"
  shows "carries_subject env (s_version a) (s_target a) sha run (read_doc env p)"
  using assms(2,3) by (auto intro: signing_identity_ok [OF assms(1)] simp: carries_subject_def)

lemma hardware_subject:
  assumes "validate_hardware_subject env p a = Inr []" and "h_source_sha a = Some sha" and "h_run_id a = Some run"
  shows "carries_subject env (h_version a) (h_target a) sha run (read_doc env p)"
proof -
  obtain payload where payload: "read_doc env p = JObj payload" and ok: "validate_hardware_payload env p a payload = Inr []"
    using assms(1) by (auto simp: validate_hardware_subject_def split: json.splits)
  obtain subject where subject: "expected_release_subject_id env (h_version a) (h_target a) (h_source_sha a) (h_run_id a) = Inr subject"
    "hardware_identity p a subject payload = []" by (rule hardware_parts [OF ok]) blast
  show ?thesis
    using hardware_identity_nil [OF subject(2,1)] payload assms(2,3) by (fastforce simp: carries_subject_def)
qed

lemma ota_subject:
  assumes "validate_ota_artifacts env p a = Inr []" and "s_source_sha a = Some sha" and "s_run_id a = Some run"
  shows "carries_subject env (s_version a) (s_target a) sha run (read_doc env p)"
proof -
  obtain payload where payload: "read_doc env p = JObj payload"
    using assms(1) by (auto simp: validate_ota_artifacts_def split: json.splits)
  obtain i where "release_subject_id (s_version a) (s_target a) sha run (rel_contract env) = Inr i"
    "ota_identity p a (Some i) payload = []"
    using assms payload by (auto simp: validate_ota_artifacts_def expected_release_subject_id_def bindE_ok from_checked_ok
      collectE_nil simp del: collectE.simps)
  then show ?thesis using payload by (auto simp: carries_subject_def ota_identity_def)
qed

abbreviation gate_graph_args :: "gate_args \<Rightarrow> string \<Rightarrow> string \<Rightarrow> obj \<Rightarrow> obj \<Rightarrow> graph_args" where
  "gate_graph_args a sha run matrix b \<equiv> \<lparr>g_version = a_version a, g_profile = a_profile a, g_source_sha = Some sha,
     g_run_id = Some run, g_matrix = matrix, g_binding = JObj b, g_root = Some (a_root a), g_check_files = a_check_files a\<rparr>"

text \<open>A document that names the version, the target and the commit, as approvals and reproducibility records do.\<close>

definition names_release :: "string \<Rightarrow> string \<Rightarrow> string \<Rightarrow> json \<Rightarrow> bool" where
  "names_release version target sha v \<longleftrightarrow> (\<exists>o'. v = JObj o' \<and> dict_get o' ''version'' = JStr version \<and>
     dict_get o' ''target'' = JStr target \<and> dict_get o' ''source_sha'' = JStr sha)"

lemma approval_names_release:
  assumes "release_validate_approval env p version target (Some sha) = Inr []"
  shows "names_release version target sha (read_doc env p)"
proof -
  obtain o' where o': "read_doc env p = JObj o'" and ok: "validate_approval_payload (JObj o') version target (Some sha) True (rel_now env) = Inr []"
    using assms by (auto simp: release_validate_approval_def bindE_ok split: json.splits)
  have "check_identity o' version target = []" "check_source_sha (dict_get o' ''source_sha'') (Some sha) = []"
    using ok by (simp_all add: validate_approval_payload_def Let_def collectE_nil del: collectE.simps)
  then show ?thesis
    using o' by (auto simp: names_release_def check_identity_def check_source_sha_def is_str_iff no_report split: if_splits)
qed

lemma repro_names_release:
  assumes "validate_repro env p a = []" and "rp_version a = Some version" "rp_target a = Some target" "rp_source_sha a = Some sha"
    "rp_run_id a = Some run"
  shows "names_release version target sha (read_doc env p)" and "py_str (dict_get (members (read_doc env p)) ''source_run_id'') = run"
  using assms by (auto simp: validate_repro_def validate_repro_payload_def names_release_def differs_def Let_def no_report
    split: json.splits if_splits)

lemma row_released_names:
  assumes "row_released env a (Some sha) (Some run) row" and "truthy (dict_get row ''release'')"
    and "t = py_str (dict_get_or row ''target'' (JStr []))"
  shows "names_release (a_version a) t sha (read_doc env (release_file a ''release-approvals'' [t @ ''.json'']))"
    and "names_release (a_version a) t sha (read_doc env (release_file a ''release-reproducibility'' [t @ ''.json'']))"
    and "py_str (dict_get (members (read_doc env (release_file a ''release-reproducibility'' [t @ ''.json'']))) ''source_run_id'') = run"
proof -
  obtain v where v: "map_of row ''target'' = Some v"
    "release_validate_approval env (release_file a ''release-approvals'' [py_str v @ ''.json'']) (a_version a) (py_str v) (Some sha) = Inr []"
    "validate_repro env (release_file a ''release-reproducibility'' [py_str v @ ''.json''])
       \<lparr>rp_version = Some (a_version a), rp_target = Some (py_str v), rp_source_sha = Some sha, rp_run_id = Some run,
        rp_check_files = a_check_files a\<rparr> = []"
    using assms(1,2) by (auto simp: row_released_def)
  have t: "t = py_str v" using v(1) assms(3) by (simp add: dict_get_or_def)
  show "names_release (a_version a) t sha (read_doc env (release_file a ''release-approvals'' [t @ ''.json'']))"
    using approval_names_release [OF v(2)] t by simp
  show "names_release (a_version a) t sha (read_doc env (release_file a ''release-reproducibility'' [t @ ''.json'']))"
    "py_str (dict_get (members (read_doc env (release_file a ''release-reproducibility'' [t @ ''.json'']))) ''source_run_id'') = run"
    using repro_names_release [OF v(3)] t by simp_all
qed

lemma row_documents_subject:
  assumes "row_documents env a (Some sha) (Some run) b row" and t: "t = py_str (dict_get_or row ''target'' (JStr []))"
    and "target_policy t (rel_contract env) = Inr policy"
  shows "dict_get policy ''signing_required'' = JBool True \<Longrightarrow>
      carries_subject env (a_version a) t sha run (read_doc env (path_under (signing_dir a) [t, ''signing-manifest.json'']))"
    and "dict_get policy ''hardware_required'' = JBool True \<Longrightarrow>
      carries_subject env (a_version a) t sha run (read_doc env (path_under (acquisition_dir a) [t, ''hardware-subject.json'']))"
    and "dict_get policy ''ota_capable'' = JBool True \<Longrightarrow> carries_subject env (a_version a) t sha run (read_doc env (ota_file a t))"
proof -
  let ?s = "row_signing_args env a (Some sha) (Some run) (Some b) policy t"
  let ?h = "row_hardware_args env a (Some sha) (Some run) (Some b) t"
  have args: "s_version ?s = a_version a" "s_target ?s = t" "s_source_sha ?s = Some sha" "s_run_id ?s = Some run"
    "h_version ?h = a_version a" "h_target ?h = t" "h_source_sha ?h = Some sha" "h_run_id ?h = Some run"
    by (simp_all add: row_signing_args_def row_hardware_args_def Let_def)
  note docs = assms(1) [unfolded row_documents_def Let_def, folded t]
  show "carries_subject env (a_version a) t sha run (read_doc env (path_under (signing_dir a) [t, ''signing-manifest.json'']))"
    if "dict_get policy ''signing_required'' = JBool True"
    using docs assms(3) that signing_subject [of env "path_under (signing_dir a) [t, ''signing-manifest.json'']" ?s sha run] args by simp
  show "carries_subject env (a_version a) t sha run (read_doc env (path_under (acquisition_dir a) [t, ''hardware-subject.json'']))"
    if "dict_get policy ''hardware_required'' = JBool True"
    using docs assms(3) that hardware_subject [of env "path_under (acquisition_dir a) [t, ''hardware-subject.json'']" ?h sha run] args by simp
  show "carries_subject env (a_version a) t sha run (read_doc env (ota_file a t))"
    if "dict_get policy ''ota_capable'' = JBool True"
    using docs assms(3) that ota_subject [of env "ota_file a t" ?s sha run] args by simp
qed

text \<open>
  C4. When the gate passes for a production candidate, there is one commit and one run such that, for
  every row of the matrix, the signing manifest, the hardware subject and the OTA artifacts of its
  target, as far as the policy of the target asks for them, and the node of its target in the
  subject graph, where the graph has to cover the row, carry the canonical subject id of the
  version, the target, the commit and the run; and for every released row the approval and the
  reproducibility record name the version, the target and the commit, the record also the run.
\<close>

theorem production_identity_shared:
  assumes "release_gate env replay a = Inr (Inr out)" and "a_profile a = ''production-candidate''"
  shows "\<exists>b sha run matrix rows graph nodes. load_binding env (a_binding a) = ([], Some b) \<and>
    bound_source_sha a (Some b) = Some sha \<and> bound_source_run_id a (Some b) = Some run \<and>
    release_load_matrix env (a_matrix a) = Inr matrix \<and> matrix_rows matrix = Inr rows \<and>
    read_doc env (release_file a ''release-subject-graph'' [''release-subject-graph.json'']) = JObj graph \<and>
    subject_graph_nodes graph = Inr nodes \<and>
    (\<forall>row policy t. JObj row \<in> set rows \<and> t = py_str (dict_get_or row ''target'' (JStr [])) \<and>
       target_policy t (rel_contract env) = Inr policy \<longrightarrow>
       (dict_get policy ''signing_required'' = JBool True \<longrightarrow>
         carries_subject env (a_version a) t sha run (read_doc env (path_under (signing_dir a) [t, ''signing-manifest.json'']))) \<and>
       (dict_get policy ''hardware_required'' = JBool True \<longrightarrow>
         carries_subject env (a_version a) t sha run (read_doc env (path_under (acquisition_dir a) [t, ''hardware-subject.json'']))) \<and>
       (dict_get policy ''ota_capable'' = JBool True \<longrightarrow> carries_subject env (a_version a) t sha run (read_doc env (ota_file a t))) \<and>
       (graph_covers env (gate_graph_args a sha run matrix b) row \<longrightarrow>
         (\<exists>node\<in>set nodes. dict_get node ''target'' = JStr t \<and> carries_subject env (a_version a) t sha run (JObj node)))) \<and>
    (\<forall>row t. JObj row \<in> set rows \<and> t = py_str (dict_get_or row ''target'' (JStr [])) \<and> truthy (dict_get row ''release'') \<longrightarrow>
       names_release (a_version a) t sha (read_doc env (release_file a ''release-approvals'' [t @ ''.json''])) \<and>
       names_release (a_version a) t sha (read_doc env (release_file a ''release-reproducibility'' [t @ ''.json''])) \<and>
       py_str (dict_get (members (read_doc env (release_file a ''release-reproducibility'' [t @ ''.json'']))) ''source_run_id'') = run)"
proof (rule production_passed [OF assms])
  fix b matrix rows
  let ?sha = "bound_source_sha a (Some b)" and ?run = "bound_source_run_id a (Some b)"
  assume b: "load_binding env (a_binding a) = ([], Some b)"
    and m: "release_load_matrix env (a_matrix a) = Inr matrix" "matrix_rows matrix = Inr rows"
    and graph: "production_graph env a ?sha ?run matrix (Some b) = Inr []"
    and documents: "\<forall>row. JObj row \<in> set rows \<longrightarrow> row_documents env a ?sha ?run b row \<and> row_released env a ?sha ?run row"
  obtain payload sha run nodes rows' where payload:
      "read_doc env (release_file a ''release-subject-graph'' [''release-subject-graph.json'']) = JObj payload"
    and ids: "?sha = Some sha" "?run = Some run" and nodes: "subject_graph_nodes payload = Inr nodes" and rs: "rows' = rows"
    and covered: "\<forall>row. JObj row \<in> set rows' \<and> graph_covers env (gate_graph_args a sha run matrix b) row \<longrightarrow>
      (\<exists>node\<in>set nodes. subject_node_bound env (gate_graph_args a sha run matrix b) sha run row node)"
    by (rule subject_graph_parts [OF graph [unfolded production_graph_def binding_json_def option.case]]) (use m in simp)
  have node: "\<exists>node\<in>set nodes. dict_get node ''target'' = JStr t \<and> carries_subject env (a_version a) t sha run (JObj node)"
    if row: "JObj row \<in> set rows" "t = py_str (dict_get_or row ''target'' (JStr []))"
      and g: "graph_covers env (gate_graph_args a sha run matrix b) row" for row t
  proof -
    have "dict_get row ''target'' \<noteq> JNull" using g by (auto simp: graph_covers_def)
    then have "t = py_str (dict_get row ''target'')" using row(2) by (simp add: dict_get_or_some)
    then show ?thesis using covered row(1) g rs by (force simp: subject_node_bound_def carries_subject_def Let_def)
  qed
  show ?thesis
    by (rule exI [of _ b], rule exI [of _ sha], rule exI [of _ run], rule exI [of _ matrix], rule exI [of _ rows],
      rule exI [of _ payload], rule exI [of _ nodes])
      (use b ids m payload nodes node documents row_documents_subject [of env a sha run b] row_released_names [of env a sha run] in simp)
qed

end
