(* ===== verification/ReleaseSample.thy ===== *)
theory ReleaseSample
  imports ReleaseGateProps BuildrootSample ApprovalProps
begin

text \<open>
  A production release with one target, complete down to its files, and the witnesses of the
  properties of the release gate on it.
\<close>

section \<open>The contract and the matrix\<close>

definition gate_digest :: string where
  "gate_digest = replicate 64 (CHR ''e'')"

definition gate_policy :: json where
  "gate_policy = JObj [(''production_gate'', JBool True), (''signing_required'', JBool True),
     (''hardware_required'', JBool True), (''ota_capable'', JBool True), (''bundle_artifacts'', JArr [JStr ''{target}.raucb''])]"

definition gate_contract :: obj where
  "gate_contract = [
     (''schema_versions'', JObj (map (\<lambda>n. (n, JStr n)) [''release_subject_graph'', ''signing_manifest'', ''hardware_subject'',
        ''governance_role_bindings'', ''ota_artifacts''])),
     (''subjects'', JObj [(''subject_id_template'', JStr ''{version}:{target}:{source_sha}:{source_run_id}'')]),
     (''targets'', JObj [(''pc'', gate_policy)]), (''ota'', JObj [(''targets'', JObj [(''pc'', gate_policy)])]),
     (''profiles'', JObj [(''production-candidate'', JObj [(''production_candidate'', JBool True)])]),
     (''signing'', JObj [(''signed_artifact_roles'', JArr [JStr ''rauc-bundle'']),
        (''role_bindings'', JObj [(''rauc-bundle'', JObj [(''required_for_ota_capable'', JBool True)])]),
        (''role_required_fields'', JArr [JStr ''output_sha256'', JStr ''artifact_path'', JStr ''replay_status'', JStr ''verifier''])]),
     (''hardware'', JObj [(''subject_binding'', JObj [(''required_fields'', JArr [JStr ''station_id''])])]),
     (''retention'', JObj [(''manifest_schema_version'', JStr ''r''), (''policy_id'', JStr ''p''), (''store_class'', JStr ''s''),
        (''minimum_years'', JInt 2), (''required_exports'', JArr [JStr ''e'']), (''required_replay'', JArr [JStr ''x''])])]"

definition gate_matrix_text :: string where
  "gate_matrix_text = join newline [''defconfigs:'', ''  - name: d'', ''    target: pc'', ''    artifact: a'', ''    release: true'',
     ''    qemu_test: true'', ''    expected_artifacts:'', ''      - a'', ''security_scans:'', ''  - s'']"

section \<open>The documents\<close>

definition gate_subject :: json where
  "gate_subject = JStr (''v1:pc:'' @ sample_commit @ '':7'')"

definition gate_ids :: obj where
  "gate_ids = [(''version'', JStr ''v1''), (''target'', JStr ''pc''), (''source_sha'', JStr sample_commit), (''source_run_id'', JStr ''7''),
     (''subject_id'', gate_subject)]"

definition bound_entry :: "obj \<Rightarrow> string \<Rightarrow> json" where
  "bound_entry ids p = JObj (ids @ [(''sha256'', JStr gate_digest), (''bytes'', JInt 5), (''path'', JStr p)])"

definition gate_binding :: obj where
  "gate_binding = [(''schema_version'', JStr BINDING_SCHEMA_VERSION), (''version'', JStr ''v1''), (''profile'', JStr ''production-candidate''),
     (''source_sha'', JStr sample_commit), (''source_run_id'', JInt 7), (''source_run_attempt'', JInt 1),
     (''build_workflow_name'', JStr ''w''), (''build_workflow_path'', JStr ''w.yml''), (''matrix_sha256'', JStr gate_digest),
     (''userspace_cargo_lock_sha256'', JStr gate_digest), (''userspace_rust_toolchain_sha256'', JStr gate_digest),
     (''artifacts'', JArr [bound_entry [(''defconfig'', JStr ''d''), (''artifact'', JStr ''a''), (''target'', JStr ''pc'')] ''a'']),
     (''build_evidence'', JArr (map (\<lambda>(s, r). bound_entry [(''defconfig'', JStr ''d''),
         (''artifact'', JStr (''build-logs/d'' @ s)), (''role'', JStr r)] s)
        [(''.log'', ''build-log''), (''.warnings.json'', ''warning-classifier-evidence''),
         (''.source-identity.json'', ''buildroot-source-identity''), (''.build-time.log'', ''build-time-log''),
         (''.build-performance.json'', ''build-performance'')])),
     (''installers'', JArr (map (\<lambda>(c, n). bound_entry [(''arch'', JStr c), (''artifact'', JStr n), (''role'', JStr ''installer'')] n)
        EXPECTED_INSTALLERS)),
     (''image_build_contract'', bound_entry [(''role'', JStr ''image-build-contract'')] ''c''),
     (''buildroot_source_identity_schema_version'', dict_get (sample_metadata clean_checkout) ''schema_version'')]
   @ filter (\<lambda>kv. fst kv \<in> set IDENTITY_FIELDS) (sample_metadata clean_checkout)"

definition gate_graph :: obj where
  "gate_graph = [(''schema_version'', JStr ''release_subject_graph''), (''version'', JStr ''v1''),
     (''subjects'', JArr [JObj (gate_ids @ [(''raw_image_sha256'', JStr gate_digest), (''raw_image_bytes'', JInt 5),
        (''compressed_artifact_sha256'', JStr gate_digest), (''compressed_artifact_bytes'', JInt 5)])]),
     (''evidence_nodes'', JArr [JObj [(''node_id'', JStr ''n''), (''subject_id'', gate_subject), (''role'', JStr ''lab''),
        (''schema_role'', JStr ''lab''), (''schema_version'', JStr ''lab''), (''producer'', JStr ''p''), (''path'', JStr ''e''),
        (''required'', JBool True), (''sha256'', JStr gate_digest), (''bytes'', JInt 5)]]),
     (''evidence_edges'', JArr [JObj [(''from'', gate_subject), (''to'', JStr ''n'')]]),
     (''required_paths'', JArr [JStr ''e'']), (''retention_closure'', JObj [(''required_exports'', JArr [JStr ''e''])])]"

definition gate_signing :: obj where
  "gate_signing = (''schema_version'', JStr ''signing_manifest'') # gate_ids @
     [(''roles'', JArr [JObj [(''role'', JStr ''rauc-bundle''), (''output_sha256'', JStr gate_digest), (''artifact_path'', JStr ''b''),
        (''replay_status'', JStr ''passed''), (''verifier'', JStr ''rauc info''), (''pkcs11_uri'', JStr ''pkcs11:token=hsm'')]])]"

definition gate_hardware :: obj where
  "gate_hardware = (''schema_version'', JStr ''hardware_subject'') # gate_ids @
     [(''station_id'', JStr ''st''), (''fixture_id'', JStr ''f''), (''storage_by_id'', JStr ''mmc''),
      (''station_acquisition_event_id'', JStr ''ev'')]
     @ map (\<lambda>f. (f, JStr gate_digest)) [''readback_sha256'', ''compressed_artifact_sha256'', ''raw_image_sha256'', ''adapter_inventory_sha256'']"

definition gate_acquisition :: obj where
  "gate_acquisition = gate_ids @ [(''station_id'', JStr ''st''), (''registry_sha256'', JStr gate_digest),
     (''events'', JArr [JObj [(''event_id'', JStr ''ev''), (''role'', JStr ''readback''),
        (''measured'', JObj [(''sha256'', JStr gate_digest)])]])]"

definition gate_registry :: obj where
  "gate_registry = [(''stations'', JArr [JObj [(''station_id'', JStr ''st''), (''fixture_id'', JStr ''f''),
     (''allowed_storage_by_id'', JArr [JStr ''mmc''])]])]"

definition gate_ota :: obj where
  "gate_ota = (''schema_version'', JStr ''ota_artifacts'') # gate_ids @ [(''ota_contract'', JObj []),
     (''bundle'', JObj [(''name'', JStr ''pc.raucb''), (''sha256'', JStr gate_digest), (''bytes'', JInt 5)]),
     (''manifest'', JObj [(''name'', JStr ''suderra-os-update-manifest.json''), (''sha256'', JStr gate_digest), (''bytes'', JInt 5)]),
     (''signing_roles'', JArr [JStr ''rauc-bundle'', JStr ''os-update-manifest''])]"

definition gate_roles :: obj where
  "gate_roles = [(''schema_version'', JStr ''governance_role_bindings''), (''version'', JStr ''v1''),
     (''bindings'', JArr (map (\<lambda>r. JObj [(''role'', JStr r), (''github_subject'', JStr ''octo''), (''subject_type'', JStr ''user''),
        (''github_node_id'', JStr ''N1''), (''source_snapshot_sha256'', JStr gate_digest), (''permission_snapshot_sha256'', JStr gate_digest),
        (''environment_reviewer_binding_sha256'', JStr gate_digest), (''effective_permission'', JStr ''admin'')])
        [''release-owner'', ''security-owner'']))]"

definition gate_retention :: obj where
  "gate_retention = [(''schema_version'', JStr ''r''), (''policy_id'', JStr ''p''), (''store_class'', JStr ''s''), (''retention_years'', JInt 2),
     (''exports'', JArr [JObj [(''name'', JStr ''e'')]]),
     (''restore_replay_tests'', JArr [JObj [(''name'', JStr ''x''), (''status'', JStr ''passed'')]]), (''legal_hold_id'', JStr ''h''),
     (''custody_events'', JArr [JObj [(''event_id'', JStr ''1''), (''event_type'', JStr ''2''), (''actor'', JStr ''3''),
        (''occurred_at'', JStr ''4''), (''evidence_sha256'', JStr gate_digest)]])]
   @ map (\<lambda>f. (f, JStr ''x'')) [''kms_key_id'', ''custody_chain'', ''access_log'', ''archive_object_version_id'', ''legal_hold_status'', ''restore_job_id'']
   @ map (\<lambda>f. (f, JStr gate_digest)) [''archive_object_sha256'', ''access_log_sha256'', ''restored_archive_sha256'', ''replay_validator_output_sha256'']
   @ [(''archive_object_uri'', JStr ''s3://b''), (''retention_lock_mode'', JStr ''compliance''),
      (''retain_until'', JStr ''0001-01-02T00:00:00Z'')] @ gate_ids"


definition gate_repro :: obj where
  "gate_repro = (''schema_version'', JStr ''suderra.reproducibility.v1'') # gate_ids @ [(''status'', JStr ''passed''),
     (''comparison'', JStr ''c''), (''generated_at'', JStr ''now''), (''artifact_comparisons'', JArr [JObj [(''status'', JStr ''matched''),
        (''artifact'', JStr ''a''), (''reference_sha256'', JStr gate_digest), (''rebuild_sha256'', JStr gate_digest)]])]"

definition gate_report :: obj where
  "gate_report = (''schema_version'', JStr ''suderra.release-security-report.v2'') # gate_ids @ [(''status'', JStr ''passed'')]"

section \<open>The files\<close>

definition gate_docs :: "(string \<times> obj) list" where
  "gate_docs = [(''b.json'', gate_binding),
     (''release-governance/v1/governance-policy-validation.json'', [(''status'', JStr ''passed''),
        (''schema_version'', JStr ''suderra.github-governance-validation.v2'')]),
     (''release-governance/v1/station-registry.json'', gate_registry), (''release-governance/v1/role-bindings.json'', gate_roles),
     (''release-subject-graph/v1/release-subject-graph.json'', gate_graph),
     (''release-lab-input/v1/pc/station-acquisition.json'', gate_acquisition),
     (''release-lab-input/v1/pc/hardware-subject.json'', gate_hardware),
     (''release-signing/v1/pc/signing-manifest.json'', gate_signing),
     (''release-signing/v1/pc/session.json'', [(''certificate_path'', JStr ''c.pem''), (''pkcs11_uri'', JStr ''pkcs11:token=hsm''),
        (''artifacts'', JArr [JObj [(''role'', JStr ''rauc-bundle''), (''sha256'', JStr gate_digest)]])]),
     (''release-ota/v1/pc/ota-artifacts.json'', gate_ota), (''release-approvals/v1/pc.json'', sample_approval),
     (''release-reproducibility/v1/pc.json'', gate_repro), (''release-retention/v1/retention-manifest.json'', gate_retention),
     (''release-security/v1/s.json'', gate_report),
     (''out/.warnings.json'', [(''summary'', JObj [(''owned'', JInt 0), (''third-party'', JInt 0)]), (''failing'', JArr []),
        (''policy_errors'', JArr [])]),
     (''out/.source-identity.json'', sample_metadata clean_checkout),
     (''out/.build-performance.json'', [(''schema_version'', JStr ''suderra.buildroot-build-performance.v1''),
        (''timing'', JObj [(''status'', JStr ''collected'')])])]"

definition gate_plain_files :: "string list" where
  "gate_plain_files = [''m.yml'', ''e'', ''release-signing/v1/pc/c.pem'', ''out/a'', ''out/c'', ''out/.log'', ''out/.build-time.log'']
     @ map (\<lambda>kn. ''out/'' @ snd kn) EXPECTED_INSTALLERS"

definition gate_store :: store where
  "gate_store p = (let n = path_str p; doc = map_of gate_docs n in
     if doc = None \<and> n \<notin> set gate_plain_files then None
     else Some \<lparr>size_of = 5, sha_of = gate_digest, text_content = gate_matrix_text, json_content = map_option JObj doc\<rparr>)"

definition gate_env :: release_env where
  "gate_env = \<lparr>rel_contract = gate_contract, rel_files = gate_store,
     rel_names = map_of [(path_of ''release-lab-input/v1'', [''pc'']),
       (path_of ''release-lab-input/v1/pc'', [''station-acquisition.json'', ''hardware-subject.json'']),
       (path_of ''release-signing/v1'', [''pc'']),
       (path_of ''release-signing/v1/pc'', [''signing-manifest.json'', ''session.json'', ''c.pem''])],
     rel_cwd = path_of ''/work'', rel_script = (\<lambda>_. git_prints []), rel_checkout = clean_checkout, rel_now = 0\<rparr>"

definition production_args :: gate_args where
  "production_args = \<lparr>a_version = ''v1'', a_tier = ''production'', a_profile = ''production-candidate'', a_matrix = path_of ''m.yml'',
     a_root = path_of ''.'', a_check_files = True, a_binding = Some (path_of ''b.json''), a_ingress = Some (path_of ''i.json''),
     a_source_sha = None, a_run_id = None, a_run_attempt = None, a_registry = None, a_workflow_name = ''w'', a_workflow_path = ''w.yml'',
     a_artifact_root = Some (path_of ''out''), a_require_signature = False, a_identity = None, a_issuer = None,
     a_require_evidence_signature = False, a_evidence_identity = None, a_evidence_issuer = None\<rparr>"

definition sample_replay :: raw_replay where
  "sample_replay p check_files = Inr []"

section \<open>Reading it\<close>

lemma read_gate: "read_doc gate_env p = (case map_of gate_docs (path_str p) of None \<Rightarrow> JNull | Some d \<Rightarrow> JObj d)"
  by (simp add: read_doc_def gate_env_def gate_store_def Let_def split: option.splits)

lemma store_gate: "rel_files gate_env p = (if map_of gate_docs (path_str p) = None \<and> path_str p \<notin> set gate_plain_files then None
    else Some \<lparr>size_of = 5, sha_of = gate_digest, text_content = gate_matrix_text, json_content = map_option JObj (map_of gate_docs (path_str p))\<rparr>)"
  by (simp add: gate_env_def gate_store_def Let_def)

lemma gate_digest_ok [simp]: "sha256_text (JStr gate_digest)" "nonzero_sha256 (JStr gate_digest)" "lower_hex_of_length 64 gate_digest"
  by (simp_all add: gate_digest_def nonzero_sha256_def is_lower_hex_char)

lemma report_False [simp]: "report False e = []"
  by (simp add: report_def)

definition gate_row_doc :: obj where
  "gate_row_doc = [(''name'', JStr ''d''), (''target'', JStr ''pc''), (''artifact'', JStr ''a''), (''release'', JBool True),
     (''qemu_test'', JBool True), (''expected_artifacts'', JArr [JStr ''a''])]"

definition gate_matrix :: obj where
  "gate_matrix = [(''defconfigs'', JArr [JObj gate_row_doc]), (''variants'', JArr []), (''security_scans'', JArr [JStr ''s''])]"

lemma gate_matrix_read: "load_matrix gate_matrix_text = Inr gate_matrix"
  by code_simp

lemma gate_matrix_rows:
  "expected_release_artifact_map gate_matrix = Inr [((''d'', ''a''), gate_row_doc)]" "matrix_release_rows gate_matrix = Inr [gate_row_doc]"
  "matrix_rows gate_matrix = Inr [JObj gate_row_doc]"
  by code_simp+

lemma gate_contract_lookups:
  "target_policy ''pc'' gate_contract = Inr (members gate_policy)" "ota_target_policy ''pc'' gate_contract = Inr (members gate_policy)"
  "release_subject_id ''v1'' ''pc'' sample_commit ''7'' gate_contract = Inr (''v1:pc:'' @ sample_commit @ '':7'')"
  "profile_policy ''production-candidate'' gate_contract = Inr [(''production_candidate'', JBool True)]"
  "contract_schema_version ''release_subject_graph'' gate_contract = Inr ''release_subject_graph''"
  "contract_schema_version ''signing_manifest'' gate_contract = Inr ''signing_manifest''"
  "contract_schema_version ''hardware_subject'' gate_contract = Inr ''hardware_subject''"
  "contract_schema_version ''governance_role_bindings'' gate_contract = Inr ''governance_role_bindings''"
  "contract_schema_version ''ota_artifacts'' gate_contract = Inr ''ota_artifacts''"
  "retention_required_exports gate_contract = Inr [JStr ''e'']" "signed_artifact_roles gate_contract = Inr [''rauc-bundle'']"
  "signing_role_bindings gate_contract = Inr [(''rauc-bundle'', [(''required_for_ota_capable'', JBool True)])]"
  "role_required_fields gate_contract = Inr [''output_sha256'', ''artifact_path'', ''replay_status'', ''verifier'']"
  "subject_binding_fields gate_contract = Inr [''station_id'']"
  by code_simp+

lemma gate_env_simps: "rel_contract gate_env = gate_contract" "rel_script gate_env args = git_prints []" "rel_now gate_env = 0"
  "rel_checkout gate_env = clean_checkout"
  by (simp_all add: gate_env_def)

lemma production_fields:
  "a_version production_args = ''v1''" "a_profile production_args = ''production-candidate''" "a_check_files production_args"
  "a_tier production_args = ''production''" "a_source_sha production_args = None" "a_run_id production_args = None"
  "a_run_attempt production_args = None" "a_registry production_args = None" "a_binding production_args = Some (path_of ''b.json'')"
  "a_ingress production_args = Some (path_of ''i.json'')" "a_artifact_root production_args = Some (path_of ''out'')"
  "a_matrix production_args = path_of ''m.yml''" "a_workflow_name production_args = ''w''" "a_workflow_path production_args = ''w.yml''"
  by (simp_all add: production_args_def)

lemma gate_bound_digests: "bound_digests (JObj gate_binding) ''pc'' = [gate_digest]"
  by (simp add: bound_digests_def binding_artifact_refs_for_target_def gate_binding_def dict_get_literal bound_entry_def)

lemma gate_strips: "strip ''n'' = ''n''" "strip ''lab'' = ''lab''" "strip ''p'' = ''p''" "strip ''x'' = ''x''" "strip ''rauc info'' = ''rauc info''"
    "strip ''b'' = ''b''" "strip ''st'' = ''st''" "strip ''mmc'' = ''mmc''" "strip ''passed'' = ''passed''"
  by code_simp+

lemmas gate_simps = gate_env_simps production_fields gate_contract_lookups gate_matrix_rows gate_bound_digests gate_strips
  from_checked_def dict_get_literal Let_def in_str_set_def positive_int_def int_above_def nonblank_str_iff binding_json_def
  release_placeholder_def RELEASE_PLACEHOLDERS_def none_or_def gate_ids_def gate_subject_def gate_row_doc_def gate_policy_def
  expected_release_subject_id_def

section \<open>The subject graph\<close>

lemma graph_names:
  "path_str (path_under (a_root production_args) [''release-subject-graph'', ''v1'', ''release-subject-graph.json'']) =
     ''release-subject-graph/v1/release-subject-graph.json''"
  "path_str (path_join (a_root production_args) (path_of ''e'')) = ''e''" "graph_rel_path (JStr ''e'') = Some (path_of ''e'')"
  by code_simp+

lemma graph_reads:
  "read_doc gate_env (path_under (a_root production_args) [''release-subject-graph'', ''v1'', ''release-subject-graph.json'']) = JObj gate_graph"
  "rel_files gate_env (path_join (a_root production_args) (path_of ''e'')) =
     Some \<lparr>size_of = 5, sha_of = gate_digest, text_content = gate_matrix_text, json_content = None\<rparr>"
  by (simp add: read_gate graph_names, simp add: gate_docs_def)
    (simp add: store_gate graph_names, simp add: gate_docs_def gate_plain_files_def)

abbreviation sample_graph_args :: graph_args where
  "sample_graph_args \<equiv> gate_graph_args production_args sample_commit ''7'' gate_matrix gate_binding"

abbreviation sample_graph_path :: path where
  "sample_graph_path \<equiv> path_under (a_root production_args) [''release-subject-graph'', ''v1'', ''release-subject-graph.json'']"

lemma graph_passes: "validate_subject_graph gate_env sample_graph_path sample_graph_args = Inr []"
  by (simp add: gate_simps validate_subject_graph_def graph_reads graph_names graph_header_def graph_body_def graph_rows_def
      check_graph_row_def gate_graph_def subject_graph_nodes_def check_subject_node_def compressed_of_def graph_closure_def
      subject_graph_evidence_nodes_def check_evidence_node_def edge_pairs_def map_filter_def production_artifact_node_def
      required_evidence_file_def graph_required_paths_def graph_retention_def) auto

theorem subject_graph_accepted_witness:
  "\<exists>nodes. subject_graph_nodes gate_graph = Inr nodes \<and>
     (\<forall>item\<in>set (subject_graph_evidence_nodes gate_graph). evidence_node_closed gate_env sample_graph_args gate_graph nodes item)"
  using subject_graph_accepted [OF graph_passes] graph_reads(1) unfolding Let_def by auto

section \<open>Signing, hardware and OTA\<close>

lemma row_names:
  "path_str (path_under (signing_dir production_args) [''pc'', ''signing-manifest.json'']) = ''release-signing/v1/pc/signing-manifest.json''"
  "path_str (path_under (acquisition_dir production_args) [''pc'', ''hardware-subject.json'']) = ''release-lab-input/v1/pc/hardware-subject.json''"
  "path_str (acquisition_file production_args ''pc'') = ''release-lab-input/v1/pc/station-acquisition.json''"
  "path_str (registry_path production_args) = ''release-governance/v1/station-registry.json''"
  "path_str (ota_file production_args ''pc'') = ''release-ota/v1/pc/ota-artifacts.json''"
  "acquisition_targets gate_env production_args = [''pc'']"
  by code_simp+

lemma row_reads:
  "read_doc gate_env (path_under (signing_dir production_args) [''pc'', ''signing-manifest.json'']) = JObj gate_signing"
  "read_doc gate_env (path_under (acquisition_dir production_args) [''pc'', ''hardware-subject.json'']) = JObj gate_hardware"
  "read_doc gate_env (acquisition_file production_args ''pc'') = JObj gate_acquisition"
  "read_doc gate_env (registry_path production_args) = JObj gate_registry"
  "read_doc gate_env (ota_file production_args ''pc'') = JObj gate_ota"
  by (simp_all add: read_gate row_names) (simp_all add: gate_docs_def)

abbreviation sample_signing_args :: signing_args where
  "sample_signing_args \<equiv> row_signing_args gate_env production_args (Some sample_commit) (Some ''7'') (Some gate_binding) (members gate_policy) ''pc''"

abbreviation sample_hardware_args :: hardware_args where
  "sample_hardware_args \<equiv> row_hardware_args gate_env production_args (Some sample_commit) (Some ''7'') (Some gate_binding) ''pc''"

lemma ota_is_file: "is_file (rel_files gate_env) (ota_file production_args ''pc'')"
  by (simp add: is_file_def store_gate row_names) (simp add: gate_docs_def)

lemma ota_expectations: "ota_signing_digest_expectations gate_env (ota_file production_args ''pc'') =
    [(''rauc-bundle'', gate_digest), (''os-update-manifest'', gate_digest)]"
  by (simp add: ota_signing_digest_expectations_def row_reads gate_ota_def dict_get_literal gate_ids_def Let_def map_filter_def)

lemma signing_checks: "safe_artifact_path (JStr ''b'')" "ends_with ''output_sha256'' ''sha256''" "\<not> ends_with ''artifact_path'' ''sha256''"
   "\<not> ends_with ''replay_status'' ''sha256''" "\<not> ends_with ''verifier'' ''sha256''"
   "contains ''rauc info'' ''rauc info''" "list_all (\<lambda>t. \<not> contains (lower ''pkcs11:token=hsm'') t) [''softhsm'', ''file:'', ''software'']"
  by code_simp+

lemma signing_passes:
  "validate_signing_manifest gate_env (path_under (signing_dir production_args) [''pc'', ''signing-manifest.json'']) sample_signing_args = Inr []"
  using signing_checks
  by (simp add: gate_simps validate_signing_manifest_def row_reads signing_identity_def row_signing_args_def ota_is_file ota_expectations
      gate_signing_def signing_roles_check_def expected_signing_roles_for_policy_def roles_required_for_def roles_seen_def names_in_def
      check_signing_role_def check_role_field_def check_role_output_def check_role_verifier_def ROLE_VERIFIER_TOKENS_def)

lemma hardware_passes:
  "validate_hardware_subject gate_env (path_under (acquisition_dir production_args) [''pc'', ''hardware-subject.json'']) sample_hardware_args = Inr []"
  by (simp add: gate_simps validate_hardware_subject_def validate_hardware_payload_def row_reads row_hardware_args_def
      acquisition_of_def row_names acquisition_event_ids_def names_in_def gate_acquisition_def gate_hardware_def gate_registry_def
      hardware_identity_def hardware_digests_def acquisition_header_def acquisition_events_def measurements_of station_events_def
      event_readbacks_def event_storage_def measured_readbacks_def hardware_registry_def release_station_entry_def nonempty_str_iff)

lemma gate_bundle_names: "bundle_names ''v1'' ''pc'' [(''production_gate'', JBool True), (''signing_required'', JBool True),
    (''hardware_required'', JBool True), (''ota_capable'', JBool True), (''bundle_artifacts'', JArr [JStr ''{target}.raucb''])] = Inr [''pc.raucb'']"
  by code_simp

lemma ota_passes:
  "validate_ota_artifacts gate_env (ota_file production_args ''pc'') sample_signing_args = Inr []"
  by (simp add: gate_simps gate_bundle_names validate_ota_artifacts_def row_reads row_signing_args_def gate_ota_def ota_identity_def
      ota_contract_check_def ota_bundle_check_def ota_digest_check_def ota_manifest_check_def ota_roles_check_def)

lemma sample_row_args: "s_version sample_signing_args = ''v1''" "s_target sample_signing_args = ''pc''"
    "h_version sample_hardware_args = ''v1''" "h_target sample_hardware_args = ''pc''" "h_registry sample_hardware_args = Some gate_registry"
  by (simp_all add: row_signing_args_def row_hardware_args_def Let_def production_fields row_reads)

theorem signing_manifest_accepted_witness:
  "\<exists>roles governed names. dict_get gate_signing ''roles'' = JArr (map JObj roles) \<and>
     (\<forall>item\<in>set roles. signed_role sample_signing_args governed names item)"
  using signing_manifest_accepted [OF signing_passes] row_reads(1) by auto


end
