(* ===== verification/StationAcquisition.thy ===== *)
theory StationAcquisition
  imports ReleaseBinding
begin

text \<open>
  \<open>scripts/evidence/station-acquisition.py\<close>, the validation of acquisition evidence: what the
  adapters of a lab station measured, bound to the release artifact, the station registry and the
  logs, with the adapters' roles complete and in the order of the contract. Running the adapters
  (\<open>create\<close>) is process control.
\<close>

section \<open>The registry\<close>

definition acquisition_station :: "obj \<Rightarrow> json \<Rightarrow> obj option" where
  "acquisition_station registry station_id = (let stations = dict_get registry ''stations'' in
     if \<not> nonempty_str station_id \<or> \<not> is_list stations then None
     else find (\<lambda>o'. dict_get o' ''station_id'' = station_id) (map members (filter is_obj (elems stations))))"

definition registry_adapter_entry :: "obj \<Rightarrow> string \<Rightarrow> obj option" where
  "registry_adapter_entry station role = (let inventory = dict_get station ''adapter_inventory''; item = dict_get (members inventory) role in
     if is_obj inventory \<and> is_obj item then Some (members item) else None)"

definition acquisition_event_binding :: "obj \<Rightarrow> nat \<times> json \<Rightarrow> string list" where
  "acquisition_event_binding station = (\<lambda>(i, v). let q = ''events['' @ nat_str i @ ''].''; role = dict_get (members v) ''role'' in
     if \<not> is_obj v \<or> \<not> is_str role then []
     else case registry_adapter_entry station (text_of role) of
       None \<Rightarrow> [q @ ''role must have an exact adapter_inventory entry in station registry'']
     | Some adapter \<Rightarrow> report (dict_get_or adapter ''role'' role \<noteq> role) (q @ ''role must match station registry adapter role'')
         @ concat (map (\<lambda>(f, g). report (\<not> py_eq (dict_get (members v) f) (dict_get adapter g))
             (q @ f @ '' must match station registry adapter '' @ g))
           [(''adapter_id'', ''id''), (''adapter_version'', ''version''), (''adapter_binary_sha256'', ''binary_sha256''),
            (''command_schema_id'', ''command_schema_id'')]))"

definition validate_registry_binding :: "obj \<Rightarrow> obj option \<Rightarrow> string list" where
  "validate_registry_binding payload registry = (case registry of None \<Rightarrow> [] | Some reg \<Rightarrow>
     report (dict_get reg ''schema_version'' \<noteq> JStr ''suderra.lab-station-registry.v1'')
       ''station registry schema_version must be suderra.lab-station-registry.v1''
     @ (case acquisition_station reg (dict_get payload ''station_id'') of
          None \<Rightarrow> [''station_id must exist in station registry'']
        | Some station \<Rightarrow> (let targets = dict_get station ''allowed_targets''; storage = dict_get station ''allowed_storage_by_id'' in
            (if \<not> is_list targets \<or> elems targets = [] then [''station registry allowed_targets must be a non-empty list'']
             else if py_in (JStr ''*'') (elems targets) then
               [''station registry allowed_targets must not use wildcard target authorization'']
             else report (\<not> py_in (dict_get payload ''target'') (elems targets)) ''target must be allowed by station registry'')
            @ report (is_list storage \<and> py_in (JStr ''*'') (elems storage))
                ''station registry allowed_storage_by_id must not use wildcard storage authorization''
            @ concat (map (acquisition_event_binding station) (enumerate 0 (elems (dict_get payload ''events'')))))))"

section \<open>Events\<close>

text \<open>\<open>a or b or c\<close>.\<close>

fun first_truthy :: "json list \<Rightarrow> json" where
  "first_truthy [] = JNull"
| "first_truthy [v] = v"
| "first_truthy (v # vs) = (if truthy v then v else first_truthy vs)"

definition measured_true :: "string \<Rightarrow> obj \<Rightarrow> string list \<Rightarrow> string list" where
  "measured_true q measured names =
     concat (map (\<lambda>f. report (dict_get measured f \<noteq> JBool True) (q @ ''measured.'' @ f @ '' must be true'')) names)"

definition measured_by_role :: "obj \<Rightarrow> string \<Rightarrow> json \<Rightarrow> obj \<Rightarrow> string list" where
  "measured_by_role payload q role measured = (if \<not> is_str role then [] else let r = text_of role in
     if r = ''readback'' then
       report (\<not> py_eq (first_truthy (map (dict_get measured) [''sha256'', ''actual_sha256'', ''readback_sha256''])) (dict_get payload ''artifact_sha256''))
         (q @ ''measured.sha256 must match artifact_sha256'')
       @ report (\<not> is_int (dict_get measured ''bytes_read'') \<or> \<not> py_eq (dict_get measured ''bytes_read'') (dict_get payload ''artifact_bytes''))
         (q @ ''measured.bytes_read must match artifact_bytes'')
     else if r = ''power'' then
       measured_true q measured [''cycled'']
       @ report (\<not> nonzero_sha256 (dict_get measured ''transcript_sha256'')) (q @ ''measured.transcript_sha256 must be a non-zero sha256'')
     else if r = ''tpm'' then measured_true q measured [''present'']
     else if r = ''secure-boot'' then measured_true q measured [''enabled'', ''enforced'']
     else if r = ''rauc'' then measured_true q measured [''rollback_verified'', ''mark_good_verified'']
     else if r = ''tamper'' then measured_true q measured [''dm_verity_rejected'', ''boot_tamper_rejected'']
     else [])"

definition acquisition_log :: "store \<Rightarrow> path \<Rightarrow> bool \<Rightarrow> string \<Rightarrow> obj \<Rightarrow> string \<Rightarrow> string list" where
  "acquisition_log fs events_root check_files q event f = (let v = dict_get event f; rel = path_of (py_str (dict_get_or (members v) ''path'' (JStr [])));
       actual = path_join events_root rel in
     if \<not> is_obj v then [q @ f @ '' must be an object'']
     else if absolute rel \<or> ''..'' \<in> set (parts rel) then [q @ f @ ''.path must be relative'']
     else if \<not> check_files then []
     else case fs actual of None \<Rightarrow> [q @ f @ ''.path missing: '' @ path_str actual]
       | Some file \<Rightarrow> report (JStr (sha_of file) \<noteq> dict_get (members v) ''sha256'') (q @ f @ ''.sha256 mismatch''))"

definition acquisition_event :: "store \<Rightarrow> path \<Rightarrow> bool \<Rightarrow> obj \<Rightarrow> nat \<times> json \<Rightarrow> string list run" where
  "acquisition_event fs events_root check_files payload = (\<lambda>(i, v). let p = ''events['' @ nat_str i @ '']''; q = p @ ''.''; event = members v;
       role = dict_get event ''role''; id = dict_get event ''event_id''; measured = dict_get event ''measured'' in
     if \<not> is_obj v then Inr [p @ '' must be an object'']
     else if \<not> hashable role then Inl TypeError
     else Inr (report (dict_get event ''status'' \<noteq> JStr ''passed'') (q @ ''status must be passed'')
       @ report (\<not> is_str id \<or> \<not> starts_with (text_of id) ''station-event:'') (q @ ''event_id must be a stable station-event id'')
       @ report (dict_get event ''measurement_source'' \<noteq> JStr ''adapter-stdout-json'') (q @ ''measurement_source must be adapter-stdout-json'')
       @ (if \<not> is_obj measured then [q @ ''measured must be an object'']
          else report (members measured = []) (q @ ''measured must be derived from adapter output''))
       @ measured_by_role payload q role (members measured)
       @ report (\<not> nonzero_sha256 (dict_get event ''adapter_binary_sha256'')) (q @ ''adapter_binary_sha256 must be a non-zero sha256'')
       @ concat (map (acquisition_log fs events_root check_files q event) [''stdout'', ''stderr''])))"

section \<open>Order\<close>

text \<open>\<open>xs.index(x)\<close> of an \<open>x\<close> in \<open>xs\<close>.\<close>

fun index_of :: "'a list \<Rightarrow> 'a \<Rightarrow> nat" where
  "index_of [] x = 0"
| "index_of (y # ys) x = (if y = x then 0 else Suc (index_of ys x))"

definition event_roles :: "json list \<Rightarrow> string list" where
  "event_roles events = names_in ''role'' events"

definition acquisition_order :: "string list \<Rightarrow> json list \<Rightarrow> string list" where
  "acquisition_order required events = (let roles = event_roles events; missing = sorted_set (minus_list required roles);
       positions = map (index_of roles) (filter (\<lambda>r. r \<in> set roles) required) in
     report (missing \<noteq> []) (''events missing required adapter roles: '' @ comma_join missing)
     @ report (\<not> sorted positions) (''events must preserve station acquisition order: '' @ comma_join required))"

section \<open>The document\<close>

record acquisition_args =
  aq_version :: "string option"
  aq_target :: "string option"
  aq_source_sha :: "string option"
  aq_run_id :: "string option"
  aq_artifact_sha :: json
  aq_artifact_bytes :: json
  aq_registry_sha :: json
  aq_registry :: "obj option"
  aq_check_files :: bool

text \<open>A value that must pass a test and, where an expectation is given, equal it.\<close>

definition bound_value :: "bool \<Rightarrow> string \<Rightarrow> json \<Rightarrow> json \<Rightarrow> string \<Rightarrow> string list" where
  "bound_value good bad v expected m =
     (if \<not> good then [bad] else report (expected \<noteq> JNull \<and> \<not> py_eq v expected) (m @ py_str expected))"

definition acquisition_identity :: "string \<Rightarrow> acquisition_args \<Rightarrow> obj \<Rightarrow> string list" where
  "acquisition_identity schema a payload = (let
       expect = (\<lambda>e f m. case e of None \<Rightarrow> [] | Some s \<Rightarrow> report (dict_get payload f \<noteq> JStr s) (m @ s));
       source_sha = dict_get payload ''source_sha''; artifact_sha = dict_get payload ''artifact_sha256'';
       artifact_bytes = dict_get payload ''artifact_bytes''; registry_sha = dict_get payload ''registry_sha256'' in
     report (dict_get payload ''schema_version'' \<noteq> JStr schema) (''schema_version must be '' @ schema)
     @ expect (aq_version a) ''version'' ''version must match expected version ''
     @ expect (aq_target a) ''target'' ''target must match expected target ''
     @ (if \<not> commit_text source_sha then [''source_sha must be a lowercase git commit sha'']
        else expect (aq_source_sha a) ''source_sha'' ''source_sha must match expected source sha '')
     @ (case aq_run_id a of None \<Rightarrow> [] | Some r \<Rightarrow>
          report (py_str (dict_get payload ''source_run_id'') \<noteq> r) (''source_run_id must match expected source run '' @ r))
     @ bound_value (nonzero_sha256 artifact_sha) ''artifact_sha256 must be a non-zero sha256'' artifact_sha (aq_artifact_sha a)
         ''artifact_sha256 must match expected artifact sha256 ''
     @ bound_value (positive_int artifact_bytes) ''artifact_bytes must be positive'' artifact_bytes (aq_artifact_bytes a)
         ''artifact_bytes must match expected artifact bytes ''
     @ bound_value (nonzero_sha256 registry_sha) ''registry_sha256 must be a non-zero sha256'' registry_sha (aq_registry_sha a)
         ''registry_sha256 must match expected registry sha256 '')"

definition validate_acquisition :: "obj \<Rightarrow> store \<Rightarrow> path \<Rightarrow> acquisition_args \<Rightarrow> obj \<Rightarrow> string list run" where
  "validate_acquisition contract fs here a payload =
     bindE (from_checked (contract_schema_version ''station_acquisition'' contract)) (\<lambda>schema.
     bindE (from_checked (adapter_roles contract)) (\<lambda>roles. let required = map text_of roles; events = dict_get payload ''events'';
         events_root = path_join here (path_of (py_str (dict_get_or payload ''events_root'' (JStr [])))) in collectE
       [Inr (acquisition_identity schema a payload @ validate_registry_binding payload (aq_registry a)),
        (if \<not> is_list events \<or> elems events = [] then Inr [''events must be a non-empty list'']
         else collectE [collectE (map (acquisition_event fs events_root (aq_check_files a) payload) (enumerate 0 (elems events))),
           Inr (acquisition_order required (elems events))])]))"

end
