(* ===== verification/StationProps.thy ===== *)
theory StationProps
  imports StationAcquisition PyFiles ReleaseProps
begin

text \<open>
  What accepted acquisition evidence is: every adapter role of the contract was measured, first
  in the contract's order, by the adapter that the station's registry names, and what was read
  back is the released artifact.
\<close>

section \<open>Events\<close>

text \<open>What an adapter of a role has to have measured.\<close>

definition role_measured :: "obj \<Rightarrow> string \<Rightarrow> obj \<Rightarrow> bool" where
  "role_measured payload role measured \<longleftrightarrow> (let yes = (\<lambda>f. dict_get measured f = JBool True) in
     (role = ''readback'' \<longrightarrow>
        py_eq (first_truthy (map (dict_get measured) [''sha256'', ''actual_sha256'', ''readback_sha256''])) (dict_get payload ''artifact_sha256'') \<and>
        py_eq (dict_get measured ''bytes_read'') (dict_get payload ''artifact_bytes'')) \<and>
     (role = ''power'' \<longrightarrow> yes ''cycled'' \<and> nonzero_sha256 (dict_get measured ''transcript_sha256'')) \<and>
     (role = ''tpm'' \<longrightarrow> yes ''present'') \<and> (role = ''secure-boot'' \<longrightarrow> yes ''enabled'' \<and> yes ''enforced'') \<and>
     (role = ''rauc'' \<longrightarrow> yes ''rollback_verified'' \<and> yes ''mark_good_verified'') \<and>
     (role = ''tamper'' \<longrightarrow> yes ''dm_verity_rejected'' \<and> yes ''boot_tamper_rejected''))"

lemma measured_by_role_nil: "measured_by_role payload q (JStr r) measured = [] \<Longrightarrow> role_measured payload r measured"
  by (auto simp: measured_by_role_def role_measured_def Let_def no_report measured_true_def split: if_splits)

text \<open>A log of an event: below the events' directory, with the recorded digest.\<close>

definition log_kept :: "store \<Rightarrow> path \<Rightarrow> obj \<Rightarrow> string \<Rightarrow> bool" where
  "log_kept fs events_root event f \<longleftrightarrow> (\<exists>ref file. dict_get event f = JObj ref \<and>
     (let rel = path_of (py_str (dict_get_or ref ''path'' (JStr []))) in \<not> absolute rel \<and> ''..'' \<notin> set (parts rel) \<and>
       fs (path_join events_root rel) = Some file \<and> dict_get ref ''sha256'' = JStr (sha_of file)))"

lemma acquisition_log_nil: "acquisition_log fs events_root True q event f = [] \<Longrightarrow> log_kept fs events_root event f"
  by (cases "dict_get event f") (auto simp: acquisition_log_def log_kept_def Let_def no_report split: if_splits option.splits)

definition event_accepted :: "store \<Rightarrow> path \<Rightarrow> bool \<Rightarrow> obj \<Rightarrow> obj \<Rightarrow> bool" where
  "event_accepted fs events_root check_files payload event \<longleftrightarrow> dict_get event ''status'' = JStr ''passed'' \<and>
     dict_get event ''measurement_source'' = JStr ''adapter-stdout-json'' \<and> nonzero_sha256 (dict_get event ''adapter_binary_sha256'') \<and>
     (\<exists>measured. dict_get event ''measured'' = JObj measured \<and> measured \<noteq> [] \<and>
       (\<forall>r. dict_get event ''role'' = JStr r \<longrightarrow> role_measured payload r measured)) \<and>
     (check_files \<longrightarrow> log_kept fs events_root event ''stdout'' \<and> log_kept fs events_root event ''stderr'')"

lemma acquisition_event_ok:
  assumes "acquisition_event fs events_root check_files payload (i, v) = Inr []"
  shows "\<exists>event. v = JObj event \<and> event_accepted fs events_root check_files payload event"
proof -
  obtain event where v: "v = JObj event" using assms by (cases v) (auto simp: acquisition_event_def Let_def)
  have hash: "hashable (dict_get event ''role'')" using assms by (auto simp: acquisition_event_def v Let_def split: if_splits)
  obtain measured where m: "dict_get event ''measured'' = JObj measured"
    using assms hash by (cases "dict_get event ''measured''") (auto simp: acquisition_event_def v Let_def)
  have "event_accepted fs events_root check_files payload event"
    using assms measured_by_role_nil [of payload "''events['' @ nat_str i @ ''].''" _ measured] acquisition_log_nil [of fs events_root _ event]
    by (cases check_files) (auto simp: acquisition_event_def v hash m event_accepted_def Let_def no_report)
  then show ?thesis using v by blast
qed

interpretation events: object_walk "acquisition_event fs events_root check_files payload"
  "event_accepted fs events_root check_files payload" for fs events_root check_files payload
  by unfold_locales (rule acquisition_event_ok)

section \<open>Order\<close>

lemma acquisition_order_nil:
  assumes "acquisition_order required events = []"
  shows "set required \<subseteq> set (event_roles events)"
    and "\<lbrakk>i < j; j < length required\<rbrakk> \<Longrightarrow> index_of (event_roles events) (required ! i) \<le> index_of (event_roles events) (required ! j)"
proof -
  show sub: "set required \<subseteq> set (event_roles events)" using assms by (simp add: acquisition_order_def Let_def no_report)
  then have "filter (\<lambda>r. r \<in> set (event_roles events)) required = required" by (intro filter_True) blast
  then have "sorted (map (index_of (event_roles events)) required)"
    using assms by (simp add: acquisition_order_def Let_def no_report)
  then show "\<lbrakk>i < j; j < length required\<rbrakk> \<Longrightarrow> index_of (event_roles events) (required ! i) \<le> index_of (event_roles events) (required ! j)"
    using sorted_nth_mono [of "map (index_of (event_roles events)) required" i j] by simp
qed

section \<open>The registry\<close>

text \<open>The station is registered, authorized for the target by name, and each event is by its adapter.\<close>

definition adapter_of_registry :: "obj \<Rightarrow> obj \<Rightarrow> bool" where
  "adapter_of_registry station event \<longleftrightarrow> (\<forall>r. dict_get event ''role'' = JStr r \<longrightarrow>
     (\<exists>adapter. registry_adapter_entry station r = Some adapter \<and>
       py_eq (dict_get event ''adapter_id'') (dict_get adapter ''id'') \<and>
       py_eq (dict_get event ''adapter_version'') (dict_get adapter ''version'') \<and>
       py_eq (dict_get event ''adapter_binary_sha256'') (dict_get adapter ''binary_sha256'') \<and>
       py_eq (dict_get event ''command_schema_id'') (dict_get adapter ''command_schema_id'')))"

definition station_authorized :: "obj \<Rightarrow> obj \<Rightarrow> obj list \<Rightarrow> bool" where
  "station_authorized reg payload events \<longleftrightarrow> (\<exists>station targets. acquisition_station reg (dict_get payload ''station_id'') = Some station \<and>
     dict_get station ''allowed_targets'' = JArr targets \<and> JStr ''*'' \<notin> set targets \<and> py_in (dict_get payload ''target'') targets \<and>
     (\<forall>event\<in>set events. adapter_of_registry station event))"

lemma acquisition_event_binding_nil:
  "acquisition_event_binding station (i, JObj event) = [] \<Longrightarrow> adapter_of_registry station event"
  by (auto simp: acquisition_event_binding_def adapter_of_registry_def Let_def no_report split: option.splits)

lemma validate_registry_binding_nil:
  assumes "validate_registry_binding payload (Some reg) = []" and "dict_get payload ''events'' = JArr (map JObj events)"
  shows "station_authorized reg payload events"
proof -
  obtain station where station: "acquisition_station reg (dict_get payload ''station_id'') = Some station"
    using assms by (auto simp: validate_registry_binding_def split: option.splits)
  note parts = assms(1) [unfolded validate_registry_binding_def option.case station Let_def]
  obtain targets where targets: "dict_get station ''allowed_targets'' = JArr targets" "JStr ''*'' \<notin> set targets"
    "py_in (dict_get payload ''target'') targets"
    using parts by (auto simp: is_list_iff no_report split: if_splits)
  have "adapter_of_registry station event" if e: "event \<in> set events" for event
  proof -
    have here: "JObj event \<in> set (map JObj events)" using e by simp
    obtain i where "(i, JObj event) \<in> set (enumerate 0 (map JObj events))" using enumerate_item [OF here] ..
    moreover have "\<forall>x\<in>set (enumerate 0 (map JObj events)). acquisition_event_binding station x = []"
      using parts by (simp add: assms(2) concat_map_nil)
    ultimately show ?thesis using acquisition_event_binding_nil by blast
  qed
  then show ?thesis using station targets by (auto simp: station_authorized_def)
qed

section \<open>The document\<close>

text \<open>
  C12. Accepted acquisition evidence is about the artifact that was asked for: every adapter role that the
  contract requires has an event, the first events of the roles come in the contract's order, every event
  passed, was measured by its adapter and, where files are checked, kept its two logs with their digests;
  what a readback event measured is the digest and the size of the artifact; and with a registry the station
  is authorized for the target by name and every event is by the registered adapter of its role.
\<close>

theorem acquisition_accepted:
  assumes "validate_acquisition contract fs here a payload = Inr []"
  shows "nonzero_sha256 (dict_get payload ''artifact_sha256'') \<and> positive_int (dict_get payload ''artifact_bytes'') \<and>
    (aq_artifact_sha a \<noteq> JNull \<longrightarrow> py_eq (dict_get payload ''artifact_sha256'') (aq_artifact_sha a)) \<and>
    (\<exists>roles events. adapter_roles contract = Inr roles \<and> dict_get payload ''events'' = JArr (map JObj events) \<and>
      (let names = event_roles (map JObj events); required = map text_of roles in
        set required \<subseteq> set names \<and>
        (\<forall>i j. i < j \<and> j < length required \<longrightarrow> index_of names (required ! i) \<le> index_of names (required ! j))) \<and>
      (\<forall>event\<in>set events. event_accepted fs (path_join here (path_of (py_str (dict_get_or payload ''events_root'' (JStr [])))))
        (aq_check_files a) payload event) \<and>
      (\<forall>reg. aq_registry a = Some reg \<longrightarrow> station_authorized reg payload events))"
proof -
  let ?root = "path_join here (path_of (py_str (dict_get_or payload ''events_root'' (JStr []))))"
  obtain schema roles where roles: "adapter_roles contract = Inr roles"
    and identity: "acquisition_identity schema a payload = []"
    and registry: "validate_registry_binding payload (aq_registry a) = []"
    and walk: "(if \<not> is_list (dict_get payload ''events'') \<or> elems (dict_get payload ''events'') = [] then Inr [''events must be a non-empty list'']
       else collectE [collectE (map (acquisition_event fs ?root (aq_check_files a) payload) (enumerate 0 (elems (dict_get payload ''events'')))),
         Inr (acquisition_order (map text_of roles) (elems (dict_get payload ''events'')))]) = Inr []"
    using assms unfolding validate_acquisition_def Let_def bindE_ok from_checked_ok collectE_nil by auto
  obtain vs where vs: "dict_get payload ''events'' = JArr vs"
    and each: "collectE (map (acquisition_event fs ?root (aq_check_files a) payload) (enumerate 0 vs)) = Inr []"
    and order: "acquisition_order (map text_of roles) vs = []"
    using walk by (auto simp: is_list_iff collectE_nil simp del: collectE.simps split: if_splits)
  obtain events where events: "vs = map JObj events" "\<forall>event\<in>set events. event_accepted fs ?root (aq_check_files a) payload event"
    using events.walked [OF each] by blast
  have artifact: "nonzero_sha256 (dict_get payload ''artifact_sha256'')" "positive_int (dict_get payload ''artifact_bytes'')"
    "aq_artifact_sha a \<noteq> JNull \<longrightarrow> py_eq (dict_get payload ''artifact_sha256'') (aq_artifact_sha a)"
    using identity by (auto simp: acquisition_identity_def Let_def bound_value_def no_report split: if_splits)
  have station: "\<forall>reg. aq_registry a = Some reg \<longrightarrow> station_authorized reg payload events"
    using validate_registry_binding_nil registry vs events(1) by auto
  show ?thesis
    using artifact roles vs events acquisition_order_nil [OF order] station by (auto simp: Let_def)
qed

end
