(* ===== verification/MachineRecord.thy ===== *)
theory MachineRecord
  imports ReleaseBinding
begin

text \<open>
  \<open>scripts/evidence/machine-verification-record.py\<close>: the record of a machine verification of a
  release directory, by its checksums, its signatures or its attestations, and the validation of
  such a record. Decoding a DSSE payload (base64 and JSON) is an argument. An \<open>OSError\<close>, which
  \<open>create_command\<close> treats like a \<open>ValueError\<close>, is a \<open>ValueError\<close> with its class name as text; the
  text of an exception or of a list in a message is cut to its start.
\<close>

section \<open>Subjects of a release directory\<close>

definition MACHINE_SCHEMA :: string where
  "MACHINE_SCHEMA = ''suderra.machine-verification.v3''"

definition MACHINE_LEGACY :: string where
  "MACHINE_LEGACY = ''suderra.machine-verification.v2''"

definition ALLOWED_PREDICATE_TYPES :: "string list" where
  "ALLOWED_PREDICATE_TYPES = [''https://slsa.dev/provenance/v1'']"

definition MACHINE_PLACEHOLDERS :: "string list" where
  "MACHINE_PLACEHOLDERS = ['''', ''not_collected'', ''NOT_COLLECTED'', ''TO_BE_COLLECTED'', ''pending'', ''PENDING'']"

definition machine_placeholder :: "json \<Rightarrow> bool" where
  "machine_placeholder v \<longleftrightarrow> \<not> is_str v \<or> strip (text_of v) \<in> set MACHINE_PLACEHOLDERS"

definition child :: "path \<Rightarrow> string \<Rightarrow> path" where
  "child dir n = path_join dir (path_of n)"

definition machine_files :: "release_env \<Rightarrow> path \<Rightarrow> string list run" where
  "machine_files env dir = (case rel_names env dir of None \<Rightarrow> Inl (ValueError ''OSError'')
     | Some names \<Rightarrow> Inr (sort (filter (\<lambda>n. is_file (rel_files env) (child dir n)) names)))"

definition subject_of :: "string \<Rightarrow> regular_file \<Rightarrow> obj" where
  "subject_of n f = [(''name'', JStr n), (''sha256'', JStr (sha_of f)), (''bytes'', JInt (size_of f))]"

text \<open>\<open>line.split(maxsplit=1)\<close>.\<close>

definition split_word :: "string \<Rightarrow> string list" where
  "split_word s = (let t = lstrip s; w = takeWhile (\<lambda>c. \<not> is_space c) t; r = lstrip (dropWhile (\<lambda>c. \<not> is_space c) t) in
     if t = [] then [] else if r = [] then [w] else [w, r])"

definition sum_line :: "release_env \<Rightarrow> path \<Rightarrow> string \<Rightarrow> obj run" where
  "sum_line env dir line = (case split_word line of
       [digest, starred] \<Rightarrow> (let n = dropWhile ((=) (CHR ''*'')) starred in
         case rel_files env (child dir n) of
           None \<Rightarrow> Inl (ValueError (''SHA256SUMS references missing file: '' @ n))
         | Some f \<Rightarrow> if sha_of f \<noteq> digest then Inl (ValueError (''SHA256SUMS digest mismatch for '' @ n)) else Inr (subject_of n f))
     | _ \<Rightarrow> Inl (ValueError (''invalid SHA256SUMS line: '' @ repr_str line)))"

definition some_subjects :: "string \<Rightarrow> obj list \<Rightarrow> obj list run" where
  "some_subjects m subjects = (if subjects = [] then Inl (ValueError m) else Inr subjects)"

definition sha256sum_subjects :: "release_env \<Rightarrow> path \<Rightarrow> obj list run" where
  "sha256sum_subjects env dir = (case rel_files env (child dir ''SHA256SUMS'') of None \<Rightarrow> Inl (ValueError ''OSError'')
     | Some f \<Rightarrow> bindE (mapE (sum_line env dir) (splitlines (text_content f))) (some_subjects ''SHA256SUMS contains no subjects''))"

text \<open>The files of a release that are subjects: not the records themselves and no sidecars.\<close>

definition is_subject_name :: "string \<Rightarrow> bool" where
  "is_subject_name n \<longleftrightarrow> \<not> starts_with n ''machine-verification'' \<and> \<not> ends_with n ''.sig'' \<and> \<not> ends_with n ''.cert''"

definition signed_subject :: "release_env \<Rightarrow> path \<Rightarrow> string \<Rightarrow> obj run" where
  "signed_subject env dir n = (case rel_files env (child dir n) of None \<Rightarrow> Inl (ValueError ''OSError'')
     | Some f \<Rightarrow>
       if \<not> nonempty_file (rel_files env) (child dir (n @ ''.sig'')) then Inl (ValueError (''missing signature sidecar for '' @ n))
       else if \<not> nonempty_file (rel_files env) (child dir (n @ ''.cert'')) then Inl (ValueError (''missing certificate sidecar for '' @ n))
       else Inr (subject_of n f @ [(''signature'', JStr (n @ ''.sig'')), (''certificate'', JStr (n @ ''.cert''))]))"

definition signed_subjects :: "release_env \<Rightarrow> path \<Rightarrow> obj list run" where
  "signed_subjects env dir = bindE (machine_files env dir) (\<lambda>names.
     bindE (mapE (signed_subject env dir) (filter is_subject_name names)) (some_subjects ''no signed release subjects found''))"

definition attested_subject :: "release_env \<Rightarrow> path \<Rightarrow> string \<Rightarrow> obj run" where
  "attested_subject env dir n = (case rel_files env (child dir n) of None \<Rightarrow> Inl (ValueError ''OSError'')
     | Some f \<Rightarrow> Inr (subject_of n f))"

definition attested_subjects :: "release_env \<Rightarrow> path \<Rightarrow> obj list run" where
  "attested_subjects env dir = bindE (machine_files env dir) (\<lambda>names.
     bindE (mapE (attested_subject env dir) (filter is_subject_name names)) (some_subjects ''no attested release subjects found''))"

definition subjects_for :: "string \<Rightarrow> release_env \<Rightarrow> path \<Rightarrow> obj list run" where
  "subjects_for n env dir = (if n = ''sha256sums'' then sha256sum_subjects env dir
     else if n = ''cosign'' then signed_subjects env dir
     else if n = ''attestations'' then attested_subjects env dir
     else Inl (ValueError (''unsupported machine verification name: '' @ n)))"

section \<open>Identities\<close>

text \<open>\<open>subject["name"], subject["sha256"]\<close>, of a value that need not be an object.\<close>

definition subject_identity :: "json \<Rightarrow> (string \<times> string) run" where
  "subject_identity v = bindE (subscript v ''name'') (\<lambda>n. bindE (subscript v ''sha256'') (\<lambda>s. Inr (py_str n, py_str s)))"

definition subject_pairs :: "json list \<Rightarrow> (string \<times> string) list run" where
  "subject_pairs vs = mapE subject_identity vs"

definition pair_subject :: "string \<times> string \<Rightarrow> json" where
  "pair_subject p = JObj [(''name'', JStr (fst p)), (''sha256'', JStr (snd p))]"

definition minimal_subjects :: "(string \<times> string) list \<Rightarrow> json list" where
  "minimal_subjects ps = map pair_subject (sort ps)"

section \<open>Attestations\<close>

type_synonym dsse_decoder = "string \<Rightarrow> json option"

definition is_statement :: "obj \<Rightarrow> bool" where
  "is_statement o' \<longleftrightarrow> is_list (dict_get o' ''subject'') \<and> (is_str (dict_get o' ''_type'') \<or> is_str (dict_get o' ''predicateType''))"

definition NESTED_KEYS :: "string list" where
  "NESTED_KEYS = [''statement'', ''attestation'', ''bundle'', ''dsseEnvelope'', ''envelope'', ''verificationResult'',
     ''verifiedAttestation'', ''verified_attestation'', ''result'', ''results'', ''attestations'']"

text \<open>What a value holds that may be statements in turn: items, decoded payloads, nested values.\<close>

definition statement_parts :: "dsse_decoder \<Rightarrow> json \<Rightarrow> json list" where
  "statement_parts decode v = (case v of JArr vs \<Rightarrow> vs
     | JObj o' \<Rightarrow> List.map_filter (\<lambda>k. if is_str (dict_get o' k) then decode (text_of (dict_get o' k)) else None) [''payload'', ''dssePayload'']
         @ map (dict_get o') (filter (dict_has o') NESTED_KEYS)
     | _ \<Rightarrow> [])"

fun opt_concat :: "'a list option list \<Rightarrow> 'a list option" where
  "opt_concat [] = Some []"
| "opt_concat (x # xs) = Option.bind x (\<lambda>ys. map_option ((@) ys) (opt_concat xs))"

text \<open>
  The recursion follows decoded payloads, so nothing in the text bounds it: \<open>fuel\<close> is the
  interpreter's recursion limit and \<open>None\<close> its \<open>RecursionError\<close>.
\<close>

fun attestation_statements :: "dsse_decoder \<Rightarrow> nat \<Rightarrow> json \<Rightarrow> obj list option" where
  "attestation_statements decode 0 v = None"
| "attestation_statements decode (Suc fuel) v =
     map_option ((@) (if is_obj v \<and> is_statement (members v) then [members v] else []))
       (opt_concat (map (attestation_statements decode fuel) (statement_parts decode v)))"

definition subjects_from_statement :: "obj \<Rightarrow> (string \<times> string) list" where
  "subjects_from_statement statement = List.map_filter (\<lambda>v. let n = dict_get (members v) ''name'';
       s = dict_get (members (dict_get (members v) ''digest'')) ''sha256'' in
     if is_obj v \<and> is_str n \<and> is_str s then Some (path_name (path_of (text_of n)), lower (text_of s)) else None)
     (elems (dict_get statement ''subject''))"

definition contains_text :: "json \<Rightarrow> string \<Rightarrow> bool" where
  "contains_text v expected \<longleftrightarrow> expected \<noteq> [] \<and> contains (dumps v) expected"

fun walk_values :: "json \<Rightarrow> json list" where
  "walk_values (JObj kvs) = JObj kvs # concat (map (\<lambda>kv. walk_values (snd kv)) kvs)"
| "walk_values (JArr vs) = JArr vs # concat (map walk_values vs)"
| "walk_values v = [v]"

definition builder_id :: "json \<Rightarrow> json option" where
  "builder_id v = (let i = dict_get (members (dict_get (members v) ''builder'')) ''id'' in if nonblank_str i then Some i else None)"

definition first_builder_id :: "obj \<Rightarrow> json" where
  "first_builder_id statement = (case List.map_filter builder_id (walk_values (dict_get statement ''predicate'')) of
     [] \<Rightarrow> JNull | i # _ \<Rightarrow> i)"

definition material_entry :: "obj \<Rightarrow> obj" where
  "material_entry item = (let either = (\<lambda>v w. if truthy v then v else w);
       uri = either (either (dict_get item ''uri'') (dict_get item ''name'')) (dict_get item ''downloadLocation'');
       digest = map (\<lambda>(k, v). (k, JStr (py_str v))) (filter (\<lambda>(k, v). is_str v \<or> is_int v) (members (dict_get item ''digest''))) in
     (if nonempty_str uri then [(''uri'', uri)] else []) @ (if digest \<noteq> [] then [(''digest'', JObj digest)] else []))"

definition materials_of :: "json \<Rightarrow> obj list" where
  "materials_of v = filter ((\<noteq>) []) (map material_entry (map members (filter is_obj
     (concat (map (\<lambda>k. elems (dict_get (members v) k)) [''materials'', ''resolvedDependencies'', ''resolved_dependencies''])))))"

text \<open>One material for each canonical text, in the order of the texts; the last one found.\<close>

definition collect_materials :: "obj \<Rightarrow> json list" where
  "collect_materials statement = (let found = map JObj (concat (map materials_of (walk_values (dict_get statement ''predicate''))));
       unique = rev (map (\<lambda>m. (dumps m, m)) found) in
     map (\<lambda>k. case map_of unique k of Some m \<Rightarrow> m | None \<Rightarrow> JNull) (sorted_set (map dumps found)))"

record provenance_source =
  pv_repository :: string
  pv_ref :: string
  pv_run_id :: string
  pv_run_attempt :: string
  pv_source_sha :: string

definition provenance_context :: "obj \<Rightarrow> provenance_source \<Rightarrow> (obj \<times> string list) run" where
  "provenance_context statement src = (let kind = dict_get statement ''predicateType''; predicate = dict_get statement ''predicate'';
       builder = first_builder_id statement; materials = collect_materials statement in
     bindE (in_str_set kind ALLOWED_PREDICATE_TYPES) (\<lambda>allowed. Inr
      ([(''predicate_type'', kind), (''builder_id'', builder), (''source_repository'', JStr (pv_repository src)),
        (''source_ref'', JStr (pv_ref src)), (''source_run_id'', JStr (pv_run_id src)),
        (''source_run_attempt'', JStr (pv_run_attempt src)), (''source_sha'', JStr (pv_source_sha src)), (''materials'', JArr materials)],
       report (\<not> allowed) (''predicateType must be one of: '' @ comma_join ALLOWED_PREDICATE_TYPES)
       @ report (machine_placeholder builder) ''builder.id must be present in DSSE predicate''
       @ report (materials = []) ''DSSE predicate must include non-empty materials/resolvedDependencies''
       @ concat (map (\<lambda>(label, expected). report (\<not> contains_text predicate expected)
           (''DSSE predicate must bind '' @ label @ ''='' @ expected))
         [(''repository'', pv_repository src), (''ref'', pv_ref src), (''run_id'', pv_run_id src),
          (''run_attempt'', pv_run_attempt src), (''source_sha'', pv_source_sha src)]))))"

text \<open>The context of a statement that has subjects: a failure raises.\<close>

definition statement_provenance :: "path \<Rightarrow> provenance_source \<Rightarrow> obj \<Rightarrow> json list run" where
  "statement_provenance p src statement =
     (if subjects_from_statement statement = [] then Inr []
      else bindE (provenance_context statement src) (\<lambda>(context, failures).
        if failures \<noteq> [] then Inl (ValueError (''attestation provenance mismatch in '' @ path_str p @ '': '' @ join ''; '' failures))
        else Inr [JObj context]))"

record attestation_file =
  at_pairs :: "(string \<times> string) list"
  at_material :: json

definition load_attestation ::
  "release_env \<Rightarrow> dsse_decoder \<Rightarrow> nat \<Rightarrow> provenance_source \<Rightarrow> path \<Rightarrow> attestation_file run" where
  "load_attestation env decode fuel src p = (case rel_files env p of
       None \<Rightarrow> Inl (ValueError (''attestation JSON is missing or empty: '' @ path_str p))
     | Some f \<Rightarrow> if size_of f \<le> 0 then Inl (ValueError (''attestation JSON is missing or empty: '' @ path_str p))
       else (case json_content f of None \<Rightarrow> Inl (ValueError (''invalid attestation JSON '' @ path_str p))
       | Some v \<Rightarrow> (case attestation_statements decode fuel v of None \<Rightarrow> Inl (ValueError ''RecursionError'')
         | Some statements \<Rightarrow> bindE (mapE (statement_provenance p src) statements) (\<lambda>contexts.
             let pairs = concat (map subjects_from_statement statements) in
             if pairs = [] then Inl (ValueError (''attestation JSON has no DSSE subjects: '' @ path_str p))
             else Inr \<lparr>at_pairs = pairs, at_material = JObj [(''path'', JStr (path_name p)), (''sha256'', JStr (sha_of f)),
               (''bytes'', JInt (size_of f)), (''subjects'', JArr (minimal_subjects pairs)), (''provenance'', JArr (concat contexts))]\<rparr>))))"

section \<open>Creating a record\<close>

record machine_args =
  mv_name :: string
  mv_dir :: path
  mv_log :: path
  mv_option :: "string \<Rightarrow> string option"
  mv_environ :: "string \<Rightarrow> string option"
  mv_attestations :: "path option"
  mv_now :: string

text \<open>\<open>args.x or os.environ.get(...)\<close>, which must not be a placeholder.\<close>

definition collected :: "string \<Rightarrow> string option \<Rightarrow> string run" where
  "collected f v = (case v of None \<Rightarrow> Inl (ValueError (f @ '' must be collected before creating machine verification''))
     | Some s \<Rightarrow> if machine_placeholder (JStr s) then Inl (ValueError (f @ '' must be collected before creating machine verification''))
       else Inr s)"

definition COLLECTED_FIELDS :: "(string \<times> string) list" where
  "COLLECTED_FIELDS = [(''identity'', ''COSIGN_IDENTITY''), (''issuer'', []), (''run_id'', ''GITHUB_RUN_ID''),
     (''run_attempt'', ''GITHUB_RUN_ATTEMPT''), (''workflow'', ''GITHUB_WORKFLOW''), (''repository'', ''GITHUB_REPOSITORY''),
     (''ref'', ''GITHUB_REF''), (''source_sha'', ''GITHUB_SHA'')]"

definition collected_field :: "machine_args \<Rightarrow> string \<times> string \<Rightarrow> (string \<times> string) run" where
  "collected_field a = (\<lambda>(f, variable). bindE (collected f (or_else (mv_option a f)
       (if f = ''issuer'' then Some ''https://token.actions.githubusercontent.com'' else mv_environ a variable)))
     (\<lambda>s. Inr (f, s)))"

definition attestation_names :: "release_env \<Rightarrow> path \<Rightarrow> string list" where
  "attestation_names env dir = (case rel_names env dir of None \<Rightarrow> [] | Some names \<Rightarrow> sort (filter (\<lambda>n. ends_with n ''.json'') names))"

text \<open>The part of the record that rests on the attestations.\<close>

definition attestation_members ::
  "release_env \<Rightarrow> dsse_decoder \<Rightarrow> nat \<Rightarrow> machine_args \<Rightarrow> provenance_source \<Rightarrow> obj list \<Rightarrow> obj run" where
  "attestation_members env decode fuel a src subjects = (case mv_attestations a of
       None \<Rightarrow> Inl (ValueError ''attestations record requires --attestation-json-dir'')
     | Some dir \<Rightarrow> (let names = attestation_names env dir in
         if names = [] then Inl (ValueError (''no attestation JSON files found in '' @ path_str dir))
         else bindE (mapE (\<lambda>n. load_attestation env decode fuel src (child dir n)) names) (\<lambda>loaded.
           bindE (subject_pairs (map JObj subjects)) (\<lambda>expected.
           let verified = sorted_set (concat (map at_pairs loaded)) in
           if set expected \<noteq> set verified then Inl (ValueError ''attestation DSSE subjects do not match release subjects; '')
           else Inr [(''verified_subjects'', JArr (minimal_subjects verified)),
             (''verification_material'', JObj [(''kind'', JStr ''github-artifact-attestation-dsse''),
               (''files'', JArr (map at_material loaded))])]))))"

definition create_record :: "release_env \<Rightarrow> dsse_decoder \<Rightarrow> nat \<Rightarrow> machine_args \<Rightarrow> obj run" where
  "create_record env decode fuel a = (case rel_files env (mv_log a) of
       None \<Rightarrow> Inl (ValueError (''machine verification log is missing or empty: '' @ path_str (mv_log a)))
     | Some f \<Rightarrow> if size_of f \<le> 0 then Inl (ValueError (''machine verification log is missing or empty: '' @ path_str (mv_log a)))
       else bindE (mapE (collected_field a) COLLECTED_FIELDS) (\<lambda>fs. let get = (\<lambda>k. case map_of fs k of Some s \<Rightarrow> s | None \<Rightarrow> []) in
       bindE (subjects_for (mv_name a) env (mv_dir a)) (\<lambda>subjects.
       bindE (if mv_name a = ''attestations'' then attestation_members env decode fuel a
           \<lparr>pv_repository = get ''repository'', pv_ref = get ''ref'', pv_run_id = get ''run_id'',
            pv_run_attempt = get ''run_attempt'', pv_source_sha = get ''source_sha''\<rparr> subjects else Inr [])
         (\<lambda>attested. Inr ([(''schema_version'', JStr MACHINE_SCHEMA), (''name'', JStr (mv_name a)), (''status'', JStr ''passed''),
           (''generated_at'', JStr (mv_now a)), (''identity'', JStr (get ''identity'')), (''issuer'', JStr (get ''issuer'')),
           (''source'', JObj (map (\<lambda>k. (k, JStr (get k))) [''repository'', ''workflow'', ''run_id'', ''run_attempt'', ''ref'', ''source_sha''])),
           (''log'', JObj [(''path'', JStr (path_name (mv_log a))), (''sha256'', JStr (sha_of f)), (''bytes'', JInt (size_of f))]),
           (''subjects'', JArr (map JObj subjects))] @ attested)))))"

section \<open>Validating a record\<close>

definition machine_subject :: "string \<Rightarrow> string list \<Rightarrow> obj \<Rightarrow> string list" where
  "machine_subject p seen subject = (let n = text_of (dict_get subject ''name''); sha = dict_get subject ''sha256'' in
     report (n @ ''@'' @ py_str sha \<in> set seen) (p @ '' is duplicated'')
     @ report (\<not> sha256_text sha) (p @ ''.sha256 must be lowercase sha256'')
     @ report (dict_has subject ''bytes'' \<and> \<not> positive_int (dict_get subject ''bytes'')) (p @ ''.bytes must be positive''))"

definition safe_subject_name :: "json \<Rightarrow> bool" where
  "safe_subject_name v \<longleftrightarrow> \<not> machine_placeholder v \<and> path_name (path_of (text_of v)) = text_of v"

fun machine_subjects :: "string \<Rightarrow> string list \<Rightarrow> nat \<Rightarrow> json list \<Rightarrow> string list" where
  "machine_subjects p seen i [] = []"
| "machine_subjects p seen i (v # vs) = (let q = p @ ''['' @ nat_str i @ '']''; n = dict_get (members v) ''name'' in
     if \<not> is_obj v then (q @ '' must be an object'') # machine_subjects p seen (Suc i) vs
     else if \<not> safe_subject_name n then (q @ ''.name must be a safe file name'') # machine_subjects p seen (Suc i) vs
     else machine_subject q seen (members v)
       @ machine_subjects p ((text_of n @ ''@'' @ py_str (dict_get (members v) ''sha256'')) # seen) (Suc i) vs)"

definition validate_subjects :: "string \<Rightarrow> json \<Rightarrow> string list" where
  "validate_subjects p v = (if \<not> is_list v \<or> elems v = [] then [p @ '' must be a non-empty list''] else machine_subjects p [] 0 (elems v))"

definition machine_given :: "string \<Rightarrow> obj \<Rightarrow> string list \<Rightarrow> string list" where
  "machine_given p o' names = concat (map (\<lambda>f. report (machine_placeholder (dict_get o' f)) (p @ f @ '' must be non-placeholder'')) names)"

definition record_source :: "json \<Rightarrow> json \<Rightarrow> string list" where
  "record_source schema v = (if \<not> is_obj v then [''source must be an object'']
     else machine_given ''source.'' (members v) [''repository'', ''workflow'', ''run_id'', ''run_attempt'', ''ref'']
       @ (if schema = JStr MACHINE_SCHEMA then machine_given ''source.'' (members v) [''source_sha''] else []))"

definition record_log :: "json \<Rightarrow> string list" where
  "record_log v = (if \<not> is_obj v then [''log must be an object'']
     else machine_given ''log.'' (members v) [''path'', ''sha256'']
       @ report (\<not> positive_int (dict_get (members v) ''bytes'')) ''log.bytes must be positive'')"

definition PROVENANCE_FIELDS :: "(string \<times> string) list" where
  "PROVENANCE_FIELDS = [(''source_repository'', ''repository''), (''source_ref'', ''ref''), (''source_run_id'', ''run_id''),
     (''source_run_attempt'', ''run_attempt''), (''source_sha'', ''source_sha'')]"

definition record_provenance :: "json \<Rightarrow> string \<Rightarrow> nat \<times> json \<Rightarrow> string list run" where
  "record_provenance source p = (\<lambda>(i, v). let q = p @ ''.provenance['' @ nat_str i @ '']''; prov = members v;
       materials = dict_get prov ''materials'' in
     if \<not> is_obj v then Inr [q @ '' must be an object'']
     else bindE (in_str_set (dict_get prov ''predicate_type'') ALLOWED_PREDICATE_TYPES) (\<lambda>allowed. Inr
       (report (\<not> allowed) (q @ ''.predicate_type must be a supported predicate type'')
        @ machine_given (q @ ''.'') prov [''builder_id'', ''source_repository'', ''source_ref'', ''source_run_id'', ''source_run_attempt'', ''source_sha'']
        @ report (\<not> is_list materials \<or> elems materials = []) (q @ ''.materials must be a non-empty list'')
        @ (if \<not> is_obj source then [] else concat (map (\<lambda>(f, g). let expected = dict_get (members source) g in
            report (expected \<noteq> JNull \<and> py_str (dict_get prov f) \<noteq> py_str expected) (q @ ''.'' @ f @ '' must match record source''))
            PROVENANCE_FIELDS)))))"

definition record_material :: "json \<Rightarrow> json \<Rightarrow> nat \<times> json \<Rightarrow> string list run" where
  "record_material schema source = (\<lambda>(i, v). let p = ''verification_material.files['' @ nat_str i @ '']''; item = members v;
       provenance = dict_get item ''provenance'' in
     if \<not> is_obj v then Inr [p @ '' must be an object'']
     else collectE
       [Inr (machine_given (p @ ''.'') item [''path'', ''sha256'']
          @ report (\<not> positive_int (dict_get item ''bytes'')) (p @ ''.bytes must be positive'')
          @ validate_subjects (p @ ''.subjects'') (dict_get item ''subjects'')),
        (if schema \<noteq> JStr MACHINE_SCHEMA then Inr []
         else if \<not> is_list provenance \<or> elems provenance = [] then Inr [p @ ''.provenance must be a non-empty list'']
         else collectE (map (record_provenance source p) (enumerate 0 (elems provenance))))])"

definition record_attestations :: "json \<Rightarrow> obj \<Rightarrow> string list run" where
  "record_attestations schema payload = (let subjects = dict_get payload ''subjects''; verified = dict_get payload ''verified_subjects'';
       material = dict_get payload ''verification_material''; files = dict_get (members material) ''files'' in collectE
     [Inr (validate_subjects ''verified_subjects'' verified),
      (if \<not> is_list subjects \<or> \<not> is_list verified then Inr []
       else bindE (subject_pairs (elems subjects)) (\<lambda>ps. bindE (subject_pairs (elems verified)) (\<lambda>qs.
         Inr (report (set ps \<noteq> set qs) ''verified_subjects must exactly match attested release subjects'')))),
      (if \<not> is_obj material then Inr [''verification_material must be an object'']
       else collectE
         [Inr (report (dict_get (members material) ''kind'' \<noteq> JStr ''github-artifact-attestation-dsse'')
            ''verification_material.kind must be github-artifact-attestation-dsse''),
          (if \<not> is_list files \<or> elems files = [] then Inr [''verification_material.files must be a non-empty list'']
           else collectE (map (record_material schema (dict_get payload ''source'')) (enumerate 0 (elems files))))])])"

definition validate_record :: "string option \<Rightarrow> obj \<Rightarrow> string list run" where
  "validate_record expected payload = (let schema = dict_get payload ''schema_version'' in
     bindE (in_str_set schema [MACHINE_LEGACY, MACHINE_SCHEMA]) (\<lambda>known. collectE
      [Inr (report (\<not> known) (''schema_version must be '' @ MACHINE_SCHEMA)
         @ (case expected of None \<Rightarrow> [] | Some n \<Rightarrow> report (dict_get payload ''name'' \<noteq> JStr n) (''name must be '' @ n))
         @ report (dict_get payload ''status'' \<noteq> JStr ''passed'') ''status must be passed''
         @ machine_given [] payload [''identity'', ''issuer'', ''generated_at'']
         @ record_source schema (dict_get payload ''source'')
         @ record_log (dict_get payload ''log'')
         @ validate_subjects ''subjects'' (dict_get payload ''subjects'')),
       (if dict_get payload ''name'' = JStr ''attestations'' then record_attestations schema payload else Inr [])]))"

end
