(* ===== verification/MachineProps.thy ===== *)
theory MachineProps
  imports MachineRecord PyFiles ReleaseProps ApprovalProps
begin

text \<open>
  What holds of the machine verification record: reading the attestations ends, and the validator
  accepts the records that the generator creates.
\<close>

section \<open>Reading attestations ends\<close>

text \<open>A weight of a value that is at most the length of any JSON text of it.\<close>

fun json_weight :: "json \<Rightarrow> nat" where
  "json_weight (JStr s) = Suc (length s)"
| "json_weight (JArr vs) = Suc (sum_list (map json_weight vs))"
| "json_weight (JObj kvs) = Suc (sum_list (map (\<lambda>kv. json_weight (snd kv)) kvs))"
| "json_weight v = 1"

lemma json_weight_pos: "0 < json_weight v"
  by (cases v) simp_all

lemma weight_member: "map_of o' k = Some v \<Longrightarrow> json_weight v < json_weight (JObj o')"
  using member_le_sum_list [of "json_weight v" "map (\<lambda>kv. json_weight (snd kv)) o'"]
  by (force dest: map_of_SomeD simp: less_Suc_eq_le)

text \<open>
  Decoding shrinks: base64 takes four characters for three bytes, and a JSON text is at least as
  long as the weight of its value.
\<close>

definition decoding_shrinks :: "dsse_decoder \<Rightarrow> bool" where
  "decoding_shrinks decode \<longleftrightarrow> (\<forall>s v. decode s = Some v \<longrightarrow> json_weight v \<le> length s)"

lemma part_lighter:
  assumes "decoding_shrinks decode" and "w \<in> set (statement_parts decode v)"
  shows "json_weight w < json_weight v"
proof (cases v)
  case (JArr vs)
  then show ?thesis using assms(2) member_le_sum_list [of "json_weight w" "map json_weight vs"]
    by (simp add: statement_parts_def less_Suc_eq_le)
next
  case (JObj o')
  have "(\<exists>k. is_str (dict_get o' k) \<and> decode (text_of (dict_get o' k)) = Some w) \<or> (\<exists>k. dict_has o' k \<and> w = dict_get o' k)"
    using assms(2) JObj by (auto simp: statement_parts_def map_filter_def split: if_splits)
  then show ?thesis
  proof (elim disjE exE conjE)
    fix k assume "is_str (dict_get o' k)" "decode (text_of (dict_get o' k)) = Some w"
    then obtain s where s: "dict_get o' k = JStr s" "json_weight w \<le> length s"
      using assms(1) by (auto simp: is_str_iff decoding_shrinks_def)
    have "json_weight (JStr s) < json_weight (JObj o')"
      using dict_get_some [OF s(1)] weight_member by blast
    then show ?thesis using s(2) JObj by simp
  next
    fix k assume "dict_has o' k" "w = dict_get o' k"
    then show ?thesis using weight_member [of o' k w] JObj by (auto simp: dict_has_def dict_get_def)
  qed
qed (use assms(2) in \<open>simp_all add: statement_parts_def\<close>)

lemma opt_concat_total: "(\<And>x. x \<in> set xs \<Longrightarrow> \<exists>y. f x = Some y) \<Longrightarrow> \<exists>ys. opt_concat (map f xs) = Some ys"
proof (induction xs)
  case (Cons x xs)
  then obtain y ys where "f x = Some y" "opt_concat (map f xs) = Some ys" by force
  then show ?case by simp
qed simp

lemma opt_concat_more:
  "(\<And>x y. x \<in> set xs \<Longrightarrow> f x = Some y \<Longrightarrow> g x = Some y) \<Longrightarrow> opt_concat (map f xs) = Some ys \<Longrightarrow> opt_concat (map g xs) = Some ys"
proof (induction xs arbitrary: ys)
  case (Cons x xs)
  then show ?case by (auto simp: bind_eq_Some_conv)
qed simp

lemma statements_more_fuel:
  "attestation_statements decode fuel v = Some ss \<Longrightarrow> attestation_statements decode (Suc fuel) v = Some ss"
proof (induction fuel arbitrary: v ss)
  case (Suc fuel)
  obtain ys where ys: "opt_concat (map (attestation_statements decode fuel) (statement_parts decode v)) = Some ys"
    "ss = (if is_obj v \<and> is_statement (members v) then [members v] else []) @ ys" using Suc.prems by auto
  have "opt_concat (map (attestation_statements decode (Suc fuel)) (statement_parts decode v)) = Some ys"
    by (rule opt_concat_more [OF _ ys(1)]) (rule Suc.IH)
  then show ?case unfolding attestation_statements.simps(2) [of decode "Suc fuel" v] ys(2) by simp
qed simp

lemma statements_enough_fuel:
  "decoding_shrinks decode \<Longrightarrow> json_weight v \<le> fuel \<Longrightarrow> \<exists>ss. attestation_statements decode fuel v = Some ss"
proof (induction fuel arbitrary: v)
  case (Suc fuel)
  have "\<exists>ys. opt_concat (map (attestation_statements decode fuel) (statement_parts decode v)) = Some ys"
  proof (rule opt_concat_total)
    fix w assume "w \<in> set (statement_parts decode v)"
    then have "json_weight w \<le> fuel" using part_lighter [OF Suc.prems(1)] Suc.prems(2) by fastforce
    then show "\<exists>y. attestation_statements decode fuel w = Some y" using Suc by blast
  qed
  then show ?case by auto
next
  case 0
  then show ?case using json_weight_pos [of v] by simp
qed

text \<open>
  C15. Reading the statements of an attestation file ends although it follows payloads that are encoded in
  it: when decoding a payload gives a value no heavier than the payload is long, a recursion as deep as the
  file's value is heavy returns the statements, and any deeper limit returns the same ones.
\<close>

theorem attestation_reading_ends:
  assumes "decoding_shrinks decode"
  shows "\<exists>ss. \<forall>extra. attestation_statements decode (json_weight v + extra) v = Some ss"
proof -
  obtain ss where ss: "attestation_statements decode (json_weight v) v = Some ss"
    using statements_enough_fuel [OF assms order_refl] by blast
  have "attestation_statements decode (json_weight v + extra) v = Some ss" for extra
    by (induction extra) (use ss statements_more_fuel in \<open>simp_all del: attestation_statements.simps\<close>)
  then show ?thesis by blast
qed

section \<open>Values that are collected\<close>

lemma hex_not_space: "is_lower_hex c \<Longrightarrow> \<not> is_space c"
  by (auto simp: is_lower_hex_def is_ascii_digit_def is_space_def)

lemma hex_given: "lower_hex_of_length 64 s \<Longrightarrow> \<not> machine_placeholder (JStr s)"
proof -
  assume hex: "lower_hex_of_length 64 s"
  then have "strip s = s" by (intro strip_id) (auto simp: lower_hex_of_length_def list_all_iff hex_not_space)
  then show ?thesis using hex by (auto simp: machine_placeholder_def MACHINE_PLACEHOLDERS_def lower_hex_of_length_def)
qed

lemma machine_given_nil [no_report]: "machine_given p o' names = [] \<longleftrightarrow> (\<forall>f\<in>set names. \<not> machine_placeholder (dict_get o' f))"
  by (auto simp: machine_given_def no_report)

lemma collected_ok [run_ok]: "collected f v = Inr s \<longleftrightarrow> v = Some s \<and> \<not> machine_placeholder (JStr s)"
  by (auto simp: collected_def split: option.splits)

lemma collected_fields_ok:
  assumes "mapE (collected_field a) COLLECTED_FIELDS = Inr fs"
  shows "\<exists>i s r t w p f c. fs = [(''identity'', i), (''issuer'', s), (''run_id'', r), (''run_attempt'', t), (''workflow'', w),
     (''repository'', p), (''ref'', f), (''source_sha'', c)] \<and> (\<forall>x\<in>{i, s, r, t, w, p, f, c}. \<not> machine_placeholder (JStr x))"
  using assms by (auto simp: COLLECTED_FIELDS_def run_ok collected_field_def list_all2_Cons1)

section \<open>Subjects that validate\<close>

text \<open>A subject with a safe name, a digest and, where it states one, a positive size.\<close>

definition good_subject :: "obj \<Rightarrow> bool" where
  "good_subject s \<longleftrightarrow> safe_subject_name (dict_get s ''name'') \<and> sha256_text (dict_get s ''sha256'') \<and>
     (dict_has s ''bytes'' \<longrightarrow> positive_int (dict_get s ''bytes''))"

definition subject_key :: "obj \<Rightarrow> string" where
  "subject_key s = text_of (dict_get s ''name'') @ ''@'' @ py_str (dict_get s ''sha256'')"

lemma subject_key_inj:
  assumes "sha256_text (dict_get s ''sha256'')" "sha256_text (dict_get t ''sha256'')" "subject_key s = subject_key t"
  shows "text_of (dict_get s ''name'') = text_of (dict_get t ''name'') \<and> dict_get s ''sha256'' = dict_get t ''sha256''"
  using assms by (auto simp: subject_key_def sha256_text_iff lower_hex_of_length_def append_eq_append_conv)

lemma machine_subjects_nil:
  "\<lbrakk>\<forall>s\<in>set ss. good_subject s; distinct (map subject_key ss); set seen \<inter> subject_key ` set ss = {}\<rbrakk> \<Longrightarrow>
     machine_subjects p seen i (map JObj ss) = []"
proof (induction ss arbitrary: seen i)
  case (Cons s ss)
  have "machine_subjects p (subject_key s # seen) (Suc i) (map JObj ss) = []"
    by (rule Cons.IH) (use Cons.prems in auto)
  then show ?case using Cons.prems
    by (auto simp: Let_def good_subject_def machine_subject_def no_report subject_key_def)
qed simp

lemma validate_subjects_nil:
  assumes "ss \<noteq> []" "\<forall>s\<in>set ss. good_subject s"
    and "distinct (map (\<lambda>s. (text_of (dict_get s ''name''), dict_get s ''sha256'')) ss)"
  shows "validate_subjects p (JArr (map JObj ss)) = []"
proof -
  have "inj_on subject_key (set ss)"
  proof (rule inj_onI)
    fix s t assume *: "s \<in> set ss" "t \<in> set ss" "subject_key s = subject_key t"
    then have "(text_of (dict_get s ''name''), dict_get s ''sha256'') = (text_of (dict_get t ''name''), dict_get t ''sha256'')"
      using subject_key_inj assms(2) by (auto simp: good_subject_def)
    then show "s = t" using assms(3) * by (auto simp: distinct_map dest: inj_onD)
  qed
  moreover have "distinct ss" using assms(3) by (simp add: distinct_map)
  ultimately have "machine_subjects p [] 0 (map JObj ss) = []"
    using assms(2) by (intro machine_subjects_nil) (auto simp: distinct_map)
  then show ?thesis using assms(1) by (simp add: validate_subjects_def)
qed

lemma minimal_subjects_nil:
  assumes "ps \<noteq> []" "distinct ps" "\<forall>(n, h)\<in>set ps. safe_subject_name (JStr n) \<and> lower_hex_of_length 64 h"
  shows "validate_subjects p (JArr (minimal_subjects ps)) = []"
proof -
  let ?doc = "\<lambda>q. [(''name'', JStr (fst q)), (''sha256'', JStr (snd q))]"
  have doc: "minimal_subjects ps = map JObj (map ?doc (sort ps))"
    by (simp add: minimal_subjects_def pair_subject_def)
  have "validate_subjects p (JArr (map JObj (map ?doc (sort ps)))) = []"
  proof (rule validate_subjects_nil)
    show "map ?doc (sort ps) \<noteq> []" using assms(1) by (simp flip: set_empty)
    show "\<forall>s\<in>set (map ?doc (sort ps)). good_subject s"
      using assms(3) by (auto simp: good_subject_def dict_get_literal dict_has_def sha256_text_def)
    have "map (\<lambda>s. (text_of (dict_get s ''name''), dict_get s ''sha256'')) (map ?doc (sort ps)) = map (\<lambda>q. (fst q, JStr (snd q))) (sort ps)"
      by (simp add: dict_get_literal comp_def)
    then show "distinct (map (\<lambda>s. (text_of (dict_get s ''name''), dict_get s ''sha256'')) (map ?doc (sort ps)))"
      using assms(2) by (simp add: distinct_map inj_on_def prod_eq_iff)
  qed
  then show ?thesis unfolding doc .
qed

lemma subject_pairs_minimal: "subject_pairs (minimal_subjects ps) = Inr (sort ps)"
proof -
  have "subject_identity (pair_subject q) = Inr q" for q
    by (cases q) (simp add: subject_identity_def pair_subject_def dict_index_def)
  then show ?thesis using mapE_pure [of "minimal_subjects ps" subject_identity "\<lambda>v. (text_of (dict_get (members v) ''name''), text_of (dict_get (members v) ''sha256''))"]
    by (auto simp: minimal_subjects_def subject_pairs_def pair_subject_def dict_get_literal comp_def)
qed

section \<open>The record's attestations\<close>

definition source_given :: "provenance_source \<Rightarrow> bool" where
  "source_given src \<longleftrightarrow> (\<forall>s\<in>{pv_repository src, pv_ref src, pv_run_id src, pv_run_attempt src, pv_source_sha src}. \<not> machine_placeholder (JStr s))"

definition source_doc :: "string \<Rightarrow> provenance_source \<Rightarrow> obj" where
  "source_doc workflow src = [(''repository'', JStr (pv_repository src)), (''workflow'', JStr workflow), (''run_id'', JStr (pv_run_id src)),
     (''run_attempt'', JStr (pv_run_attempt src)), (''ref'', JStr (pv_ref src)), (''source_sha'', JStr (pv_source_sha src))]"

lemma provenance_valid:
  assumes "statement_provenance p src statement = Inr contexts" and "v \<in> set contexts" and "source_given src"
  shows "record_provenance (JObj (source_doc w src)) q (i, v) = Inr []"
  using assms
  by (auto simp: statement_provenance_def provenance_context_def Let_def run_ok no_report in_str_set_def source_given_def
      record_provenance_def dict_get_literal PROVENANCE_FIELDS_def source_doc_def split: if_splits prod.splits)

lemma load_attestation_ok:
  assumes "load_attestation env decode fuel src p = Inr l" and "source_given src"
    and digests: "\<forall>q f. rel_files env q = Some f \<longrightarrow> lower_hex_of_length 64 (sha_of f)"
    and named: "\<not> machine_placeholder (JStr (path_name p))"
  shows "dict_get (members (at_material l)) ''subjects'' = JArr (minimal_subjects (at_pairs l))" and "at_pairs l \<noteq> []"
    and "validate_subjects (''verification_material.files['' @ nat_str i @ ''].subjects'') (JArr (minimal_subjects (at_pairs l))) = [] \<Longrightarrow>
      record_material (JStr MACHINE_SCHEMA) (JObj (source_doc w src)) (i, at_material l) = Inr []"
proof -
  obtain f v statements contexts where f: "rel_files env p = Some f" "0 < size_of f"
    and contexts: "mapE (statement_provenance p src) statements = Inr contexts"
    and pairs: "concat (map subjects_from_statement statements) \<noteq> []"
    and l: "l = \<lparr>at_pairs = concat (map subjects_from_statement statements), at_material = JObj [(''path'', JStr (path_name p)),
      (''sha256'', JStr (sha_of f)), (''bytes'', JInt (size_of f)),
      (''subjects'', JArr (minimal_subjects (concat (map subjects_from_statement statements)))), (''provenance'', JArr (concat contexts))]\<rparr>"
    using assms(1) by (auto simp: load_attestation_def bindE_ok Let_def simp del: concat_eq_Nil_conv split: option.splits if_splits intro!: that)
  show "dict_get (members (at_material l)) ''subjects'' = JArr (minimal_subjects (at_pairs l))" "at_pairs l \<noteq> []"
    using pairs by (simp_all add: l dict_get_literal)
  have walked: "list_all2 (\<lambda>x y. statement_provenance p src x = Inr y) statements contexts" using contexts by (simp add: mapE_ok)
  obtain statement where "statement \<in> set statements" "subjects_from_statement statement \<noteq> []" using pairs by auto
  then obtain c where "c \<in> set contexts" "c \<noteq> []"
    using list_all2_left [OF walked] by (force simp: statement_provenance_def run_ok split: prod.splits if_splits)
  then have some: "concat contexts \<noteq> []" by auto
  have each: "record_provenance (JObj (source_doc w src)) q x = Inr []" if x: "x \<in> set (enumerate 0 (concat contexts))" for q x
  proof -
    obtain i' v' where "x = (i', v')" "v' \<in> set (concat contexts)" using enumerate_pair [OF x] by blast
    moreover then obtain c where "c \<in> set contexts" "v' \<in> set c" by auto
    moreover then obtain s where "statement_provenance p src s = Inr c" using list_all2_right [OF walked] by blast
    ultimately show ?thesis using provenance_valid assms(2) by blast
  qed
  assume "validate_subjects (''verification_material.files['' @ nat_str i @ ''].subjects'') (JArr (minimal_subjects (at_pairs l))) = []"
  then show "record_material (JStr MACHINE_SCHEMA) (JObj (source_doc w src)) (i, at_material l) = Inr []"
    using some each named hex_given [OF digests [rule_format, OF f(1)]] f(2)
    by (auto simp: record_material_def Let_def l dict_get_literal collectE_nil no_report positive_int_def int_above_def simp del: collectE.simps)
qed

section \<open>The record\<close>

definition made_subject :: "release_env \<Rightarrow> obj \<Rightarrow> bool" where
  "made_subject env s \<longleftrightarrow> (\<exists>n q f. rel_files env q = Some f \<and> dict_get s ''name'' = JStr n \<and> dict_get s ''sha256'' = JStr (sha_of f))"

lemma made_subject_of: "rel_files env q = Some f \<Longrightarrow> made_subject env (subject_of n f @ r)"
  by (auto simp: made_subject_def subject_of_def dict_get_literal)

lemma made_subject_plain: "rel_files env q = Some f \<Longrightarrow> made_subject env (subject_of n f)"
  using made_subject_of [of env q f n "[]"] by simp

lemma subject_steps:
  "sum_line env dir line = Inr s \<Longrightarrow> made_subject env s"
  "signed_subject env dir n = Inr s \<Longrightarrow> made_subject env s"
  "attested_subject env dir n = Inr s \<Longrightarrow> made_subject env s"
  by (auto simp: sum_line_def signed_subject_def attested_subject_def Let_def split: list.splits option.splits if_splits
      intro: made_subject_of made_subject_plain)

lemma subject_made:
  assumes "subjects_for k env dir = Inr subjects" and "s \<in> set subjects"
  shows "made_subject env s"
proof -
  have "\<exists>lines step. mapE step lines = Inr subjects \<and> step \<in> {sum_line env dir, signed_subject env dir, attested_subject env dir}"
    using assms(1) by (auto simp: subjects_for_def sha256sum_subjects_def signed_subjects_def attested_subjects_def some_subjects_def
        bindE_ok split: if_splits option.splits)
  then obtain lines step where step: "mapE step lines = Inr subjects" "step \<in> {sum_line env dir, signed_subject env dir, attested_subject env dir}"
    by blast
  then obtain line where "step line = Inr s" using list_all2_right [of _ lines subjects s] assms(2) by (auto simp: mapE_ok)
  then show ?thesis using step(2) subject_steps by auto
qed

lemma subject_pairs_made:
  assumes "\<And>s. s \<in> set ss \<Longrightarrow> \<exists>n h. dict_get s ''name'' = JStr n \<and> dict_get s ''sha256'' = JStr h"
  shows "subject_pairs (map JObj ss) = Inr (map (\<lambda>s. (text_of (dict_get s ''name''), text_of (dict_get s ''sha256''))) ss)"
proof -
  have "subject_identity (JObj s) = Inr (text_of (dict_get s ''name''), text_of (dict_get s ''sha256''))" if s: "s \<in> set ss" for s
  proof -
    obtain n h where nh: "dict_get s ''name'' = JStr n" "dict_get s ''sha256'' = JStr h" using assms [OF s] by blast
    then have "map_of s ''name'' = Some (JStr n)" "map_of s ''sha256'' = Some (JStr h)" by (simp_all add: dict_get_some)
    then show ?thesis by (simp add: subject_identity_def dict_index_def dict_get_def)
  qed
  then show ?thesis
    using mapE_pure [of "map JObj ss" subject_identity "\<lambda>v. (text_of (dict_get (members v) ''name''), text_of (dict_get (members v) ''sha256''))"]
    by (simp add: subject_pairs_def comp_def)
qed

text \<open>The subjects of a record: named safely, one for each name, none of them empty.\<close>

definition release_subjects_ok :: "obj \<Rightarrow> bool" where
  "release_subjects_ok rec \<longleftrightarrow> (let ss = map members (elems (dict_get rec ''subjects'')) in
     (\<forall>s\<in>set ss. safe_subject_name (dict_get s ''name'') \<and> positive_int (dict_get s ''bytes'')) \<and>
     distinct (map (\<lambda>s. dict_get s ''name'') ss))"

text \<open>No attestation file states the same subject twice.\<close>

definition attested_once :: "obj \<Rightarrow> bool" where
  "attested_once rec \<longleftrightarrow> (\<forall>item\<in>set (elems (dict_get (members (dict_get rec ''verification_material'')) ''files'')).
     distinct (elems (dict_get (members item) ''subjects'')))"

definition record_names_ok :: "release_env \<Rightarrow> machine_args \<Rightarrow> bool" where
  "record_names_ok env a \<longleftrightarrow> \<not> machine_placeholder (JStr (mv_now a)) \<and> \<not> machine_placeholder (JStr (path_name (mv_log a))) \<and>
     (\<forall>dir n. mv_attestations a = Some dir \<and> n \<in> set (attestation_names env dir) \<longrightarrow> \<not> machine_placeholder (JStr (path_name (child dir n))))"

definition record_doc :: "machine_args \<Rightarrow> regular_file \<Rightarrow> string \<Rightarrow> string \<Rightarrow> obj \<Rightarrow> obj list \<Rightarrow> obj" where
  "record_doc a f identity issuer source subjects = [(''schema_version'', JStr MACHINE_SCHEMA), (''name'', JStr (mv_name a)), (''status'', JStr ''passed''),
     (''generated_at'', JStr (mv_now a)), (''identity'', JStr identity), (''issuer'', JStr issuer), (''source'', JObj source),
     (''log'', JObj [(''path'', JStr (path_name (mv_log a))), (''sha256'', JStr (sha_of f)), (''bytes'', JInt (size_of f))]),
     (''subjects'', JArr (map JObj subjects))]"

lemma create_record_ok:
  assumes "create_record env decode fuel a = Inr rec"
  shows "\<exists>f identity issuer workflow src subjects attested. rel_files env (mv_log a) = Some f \<and> 0 < size_of f \<and>
    \<not> machine_placeholder (JStr identity) \<and> \<not> machine_placeholder (JStr issuer) \<and> \<not> machine_placeholder (JStr workflow) \<and>
    source_given src \<and> subjects_for (mv_name a) env (mv_dir a) = Inr subjects \<and>
    (if mv_name a = ''attestations'' then attestation_members env decode fuel a src subjects else Inr []) = Inr attested \<and>
    rec = record_doc a f identity issuer (source_doc workflow src) subjects @ attested"
proof -
  obtain f where f: "rel_files env (mv_log a) = Some f" "0 < size_of f"
    using assms by (auto simp: create_record_def split: option.splits if_splits)
  have big: "\<not> size_of f \<le> 0" using f(2) by simp
  note made = assms [unfolded create_record_def f option.case if_not_P [OF big] bindE_ok Let_def]
  obtain fs where fs: "mapE (collected_field a) COLLECTED_FIELDS = Inr fs" using made by blast
  obtain i s r t w p g c where fields: "fs = [(''identity'', i), (''issuer'', s), (''run_id'', r), (''run_attempt'', t), (''workflow'', w),
     (''repository'', p), (''ref'', g), (''source_sha'', c)]" and given: "\<forall>x\<in>{i, s, r, t, w, p, g, c}. \<not> machine_placeholder (JStr x)"
    using collected_fields_ok [OF fs] by blast
  let ?src = "\<lparr>pv_repository = p, pv_ref = g, pv_run_id = r, pv_run_attempt = t, pv_source_sha = c\<rparr>"
  have src: "source_given ?src" using given by (simp add: source_given_def)
  obtain subjects attested where "subjects_for (mv_name a) env (mv_dir a) = Inr subjects"
    "(if mv_name a = ''attestations'' then attestation_members env decode fuel a ?src subjects else Inr []) = Inr attested"
    "rec = record_doc a f i s (source_doc w ?src) subjects @ attested"
    using made unfolding fs fields by (auto simp: record_doc_def source_doc_def cong: if_cong)
  then show ?thesis using f given src by blast
qed

lemma attestation_members_ok:
  assumes "attestation_members env decode fuel a src subjects = Inr attested"
  shows "\<exists>dir loaded expected. mv_attestations a = Some dir \<and> loaded \<noteq> [] \<and>
    mapE (\<lambda>n. load_attestation env decode fuel src (child dir n)) (attestation_names env dir) = Inr loaded \<and>
    subject_pairs (map JObj subjects) = Inr expected \<and> set expected = set (concat (map at_pairs loaded)) \<and>
    attested = [(''verified_subjects'', JArr (minimal_subjects (sorted_set (concat (map at_pairs loaded))))),
      (''verification_material'', JObj [(''kind'', JStr ''github-artifact-attestation-dsse''), (''files'', JArr (map at_material loaded))])]"
proof -
  obtain dir where dir: "mv_attestations a = Some dir" using assms by (auto simp: attestation_members_def split: option.splits)
  note ok = assms [unfolded attestation_members_def dir option.case Let_def]
  have some: "attestation_names env dir \<noteq> []" using ok by (auto split: if_splits)
  obtain loaded expected where loaded: "mapE (\<lambda>n. load_attestation env decode fuel src (child dir n)) (attestation_names env dir) = Inr loaded"
    and rest: "subject_pairs (map JObj subjects) = Inr expected" "set expected = set (sorted_set (concat (map at_pairs loaded)))"
      "attested = [(''verified_subjects'', JArr (minimal_subjects (sorted_set (concat (map at_pairs loaded))))),
        (''verification_material'', JObj [(''kind'', JStr ''github-artifact-attestation-dsse''), (''files'', JArr (map at_material loaded))])]"
    using ok some by (auto simp: bindE_ok split: if_splits)
  have "loaded \<noteq> []" using loaded some by (auto simp: mapE_ok)
  then show ?thesis using dir loaded rest by (auto simp only: set_sorted_set)
qed

lemma pair_subjects_distinct: "distinct (minimal_subjects ps) \<Longrightarrow> distinct ps"
  by (auto simp: minimal_subjects_def distinct_map)

lemma attestations_valid:
  assumes "attestation_members env decode fuel a src subjects = Inr attested" and "source_given src"
    and digests: "\<forall>q f. rel_files env q = Some f \<longrightarrow> lower_hex_of_length 64 (sha_of f)"
    and subjects: "subjects \<noteq> []" "\<And>s. s \<in> set subjects \<Longrightarrow> made_subject env s" "\<And>s. s \<in> set subjects \<Longrightarrow> safe_subject_name (dict_get s ''name'')"
    and once: "\<forall>item\<in>set (elems (dict_get (members (dict_get attested ''verification_material'')) ''files'')).
       distinct (elems (dict_get (members item) ''subjects''))"
    and named: "record_names_ok env a"
    and payload: "\<And>k. k \<in> {''verified_subjects'', ''verification_material''} \<Longrightarrow> dict_get payload k = dict_get attested k"
      "dict_get payload ''subjects'' = JArr (map JObj subjects)" "dict_get payload ''source'' = JObj (source_doc w src)"
  shows "record_attestations (JStr MACHINE_SCHEMA) payload = Inr []"
proof -
  obtain dir loaded expected where dir: "mv_attestations a = Some dir" "loaded \<noteq> []"
    and loaded: "mapE (\<lambda>n. load_attestation env decode fuel src (child dir n)) (attestation_names env dir) = Inr loaded"
    and expected: "subject_pairs (map JObj subjects) = Inr expected" "set expected = set (concat (map at_pairs loaded))"
    and attested: "attested = [(''verified_subjects'', JArr (minimal_subjects (sorted_set (concat (map at_pairs loaded))))),
      (''verification_material'', JObj [(''kind'', JStr ''github-artifact-attestation-dsse''), (''files'', JArr (map at_material loaded))])]"
    using attestation_members_ok [OF assms(1)] by blast
  have "\<exists>n h. dict_get s ''name'' = JStr n \<and> dict_get s ''sha256'' = JStr h" if "s \<in> set subjects" for s
    using subjects(2) [OF that] by (auto simp: made_subject_def)
  then have pairs: "expected = map (\<lambda>s. (text_of (dict_get s ''name''), text_of (dict_get s ''sha256''))) subjects"
    using subject_pairs_made [of subjects] expected(1) by simp
  have good: "safe_subject_name (JStr n) \<and> lower_hex_of_length 64 h" if nh: "(n, h) \<in> set expected" for n h
  proof -
    obtain s where s: "s \<in> set subjects" "n = text_of (dict_get s ''name'')" "h = text_of (dict_get s ''sha256'')"
      using nh pairs by auto
    then show ?thesis using subjects(2,3) [OF s(1)] digests by (auto simp: made_subject_def)
  qed
  have each: "record_material (JStr MACHINE_SCHEMA) (JObj (source_doc w src)) (i, v) = Inr []" if v: "v \<in> set (map at_material loaded)" for i v
  proof -
    obtain l where l: "l \<in> set loaded" "v = at_material l" using v by auto
    have "list_all2 (\<lambda>n l. load_attestation env decode fuel src (child dir n) = Inr l) (attestation_names env dir) loaded"
      using loaded by (simp add: mapE_ok)
    from list_all2_right [OF this l(1)]
    obtain n where n: "n \<in> set (attestation_names env dir)" "load_attestation env decode fuel src (child dir n) = Inr l" by blast
    have name: "\<not> machine_placeholder (JStr (path_name (child dir n)))" using named dir(1) n(1) by (auto simp: record_names_ok_def)
    note read = load_attestation_ok [OF n(2) assms(2) digests name]
    have "distinct (minimal_subjects (at_pairs l))" using once l read(1) by (auto simp: attested dict_get_literal)
    moreover have "\<forall>(n, h)\<in>set (at_pairs l). safe_subject_name (JStr n) \<and> lower_hex_of_length 64 h"
      using good expected(2) l(1) by auto
    ultimately have "validate_subjects q (JArr (minimal_subjects (at_pairs l))) = []" for q
      using read(2) pair_subjects_distinct by (intro minimal_subjects_nil)
    then show ?thesis using read(3) l(2) by blast
  qed
  have all: "\<forall>x\<in>set (enumerate 0 (map at_material loaded)). record_material (JStr MACHINE_SCHEMA) (JObj (source_doc w src)) x = Inr []"
  proof
    fix x assume "x \<in> set (enumerate 0 (map at_material loaded))"
    from enumerate_pair [OF this] obtain i v where "x = (i, v)" "v \<in> set (map at_material loaded)" by blast
    then show "record_material (JStr MACHINE_SCHEMA) (JObj (source_doc w src)) x = Inr []" using each by blast
  qed
  let ?verified = "sorted_set (concat (map at_pairs loaded))"
  have "set ?verified = set expected" by (simp only: set_sorted_set expected(2))
  moreover have "expected \<noteq> []" using pairs subjects(1) by simp
  ultimately have some: "?verified \<noteq> []" by (metis set_empty)
  have "validate_subjects ''verified_subjects'' (JArr (minimal_subjects ?verified)) = []"
    by (rule minimal_subjects_nil [OF some distinct_sorted_set]) (use good expected(2) in auto)
  moreover have "dict_get payload ''verified_subjects'' = JArr (minimal_subjects ?verified)"
    "dict_get payload ''verification_material'' = JObj [(''kind'', JStr ''github-artifact-attestation-dsse''), (''files'', JArr (map at_material loaded))]"
    by (simp_all add: payload(1) attested dict_get_literal)
  ultimately show ?thesis
    using expected all dir(2) by (simp add: record_attestations_def payload(2,3) Let_def dict_get_literal collectE_nil subject_pairs_minimal no_report
        del: collectE.simps)
qed

text \<open>
  C13. The validator accepts what the generator creates, under conditions on its
  surroundings: a record made from checksums, signatures or attestations has no failure when it is
  validated for its own kind, provided that the digests of the surroundings are SHA-256 digests, the
  release files have safe distinct names and are not empty, the time and the names of the log and of
  the attestation files are no placeholders, and no attestation file states a subject twice.  The
  last condition fails for a file with an envelope and its verified statement, whose record the
  validator refuses (\<open>verified_output_refused\<close> in the samples).
\<close>

theorem created_record_validates:
  assumes "create_record env decode fuel a = Inr rec"
    and "\<forall>q f. rel_files env q = Some f \<longrightarrow> lower_hex_of_length 64 (sha_of f)"
    and "release_subjects_ok rec" and "attested_once rec" and "record_names_ok env a"
  shows "validate_record (Some (mv_name a)) rec = Inr []"
proof -
  obtain f identity issuer w src subjects attested where f: "rel_files env (mv_log a) = Some f" "0 < size_of f"
    and given: "\<not> machine_placeholder (JStr identity)" "\<not> machine_placeholder (JStr issuer)" "\<not> machine_placeholder (JStr w)" "source_given src"
    and subjects: "subjects_for (mv_name a) env (mv_dir a) = Inr subjects"
    and attested: "(if mv_name a = ''attestations'' then attestation_members env decode fuel a src subjects else Inr []) = Inr attested"
    and rec: "rec = record_doc a f identity issuer (source_doc w src) subjects @ attested"
    using create_record_ok [OF assms(1)] by blast
  have doc: "dict_get rec ''subjects'' = JArr (map JObj subjects)" "dict_get rec ''source'' = JObj (source_doc w src)"
    "dict_get rec ''name'' = JStr (mv_name a)" "dict_get rec ''schema_version'' = JStr MACHINE_SCHEMA"
    "dict_get rec ''verified_subjects'' = dict_get attested ''verified_subjects''"
    "dict_get rec ''verification_material'' = dict_get attested ''verification_material''"
    by (simp_all add: rec record_doc_def dict_get_literal)
  have safe: "safe_subject_name (dict_get s ''name'')" "positive_int (dict_get s ''bytes'')" if "s \<in> set subjects" for s
    using assms(3) that by (auto simp: release_subjects_ok_def doc Let_def)
  have made: "made_subject env s" if "s \<in> set subjects" for s using subject_made [OF subjects that] .
  have some: "subjects \<noteq> []"
    using subjects by (auto simp: subjects_for_def sha256sum_subjects_def signed_subjects_def attested_subjects_def some_subjects_def
        bindE_ok split: if_splits option.splits)
  have names: "distinct (map (\<lambda>s. dict_get s ''name'') subjects)" using assms(3) by (simp add: release_subjects_ok_def doc comp_def Let_def)
  have valid: "validate_subjects ''subjects'' (JArr (map JObj subjects)) = []"
  proof (rule validate_subjects_nil [OF some])
    show "\<forall>s\<in>set subjects. good_subject s"
      using safe made assms(2) by (fastforce simp: good_subject_def made_subject_def sha256_text_def)
    have "distinct (map (text_of \<circ> (\<lambda>s. dict_get s ''name'')) subjects)"
      using names made by (auto simp: distinct_map inj_on_def made_subject_def) (metis json.inject(4) text_of.simps(1))
    then show "distinct (map (\<lambda>s. (text_of (dict_get s ''name''), dict_get s ''sha256'')) subjects)"
      by (auto simp: distinct_map inj_on_def)
  qed
  have attestations: "record_attestations (JStr MACHINE_SCHEMA) rec = Inr []" if "mv_name a = ''attestations''"
  proof (rule attestations_valid [OF _ given(4) assms(2) some made safe(1)])
    show "attestation_members env decode fuel a src subjects = Inr attested" using attested that by simp
    show "\<forall>item\<in>set (elems (dict_get (members (dict_get attested ''verification_material'')) ''files'')).
       distinct (elems (dict_get (members item) ''subjects''))" using assms(4) by (simp add: attested_once_def doc)
  qed (use assms(5) doc in auto)
  have header: "dict_get rec ''status'' = JStr ''passed''" "dict_get rec ''identity'' = JStr identity" "dict_get rec ''issuer'' = JStr issuer"
    "dict_get rec ''generated_at'' = JStr (mv_now a)"
    "dict_get rec ''log'' = JObj [(''path'', JStr (path_name (mv_log a))), (''sha256'', JStr (sha_of f)), (''bytes'', JInt (size_of f))]"
    by (simp_all add: rec record_doc_def dict_get_literal)
  show ?thesis
    using valid attestations given assms(5) hex_given [OF assms(2) [rule_format, OF f(1)]] f(2)
    by (simp add: validate_record_def Let_def doc header in_str_set_def collectE_nil no_report record_source_def record_log_def source_doc_def
        source_given_def record_names_ok_def dict_get_literal positive_int_def int_above_def del: collectE.simps)
qed

end
