(* ===== verification/ReplaySample.thy ===== *)
theory ReplaySample
  imports ReplayProps ReleaseSample StationProps MachineProps
begin

text \<open>
  A signing session on a hardware token, a replayed security report, a station acquisition and the
  machine verification record of an attested release, with the witnesses of their properties.
\<close>

section \<open>A signing session\<close>

definition hsm_contract :: obj where
  "hsm_contract = [(''schema_versions'', JObj [(''hsm_signing_session'', JStr ''suderra.hsm-signing-session.v2'')]),
     (''signing'', JObj [(''replay_requirements'', JObj [(''approved_provider_allowlist'', JArr [JStr ''Thales Luna'']),
        (''approved_provider_allowlist_enforced'', JBool True)])])]"

definition hsm_artifact_doc :: obj where
  "hsm_artifact_doc = [(''role'', JStr ''rauc-bundle''), (''name'', JStr ''pc.raucb''), (''sha256'', JStr gate_digest),
     (''bytes'', JInt 5), (''path'', JStr ''f''), (''signature_path'', JStr ''f''), (''signature_sha256'', JStr gate_digest)]"

definition hsm_challenge_doc :: obj where
  "hsm_challenge_doc = [(''nonce'', JStr ''n''), (''algorithm'', JStr ''a''),
     (''request_path'', JStr ''f''), (''signature_path'', JStr ''f''), (''transcript_path'', JStr ''f''),
     (''request_sha256'', JStr gate_digest), (''signature_sha256'', JStr gate_digest), (''transcript_sha256'', JStr gate_digest)]"

definition hsm_doc :: obj where
  "hsm_doc = [(''schema_version'', JStr ''suderra.hsm-signing-session.v2''), (''pkcs11_uri'', JStr ''pkcs11:object=k''),
     (''certificate_sha256'', JStr gate_digest), (''provider'', JStr ''Thales Luna 7''), (''hsm_serial'', JStr ''n''),
     (''key_label'', JStr ''n''), (''key_id'', JStr ''n''), (''ceremony_id'', JStr ''n''), (''operator'', JStr ''n''), (''issuer'', JStr ''n''),
     (''started_at'', JStr ''0001-01-01T00:00:00Z''), (''signed_at'', JStr ''0001-01-01T00:00:00Z''), (''expires_at'', JStr ''0001-01-02T00:00:00Z''),
     (''hardware_backed'', JBool True), (''mode'', JStr ''production''),
     (''audit'', JObj [(''log_sha256'', JStr gate_digest), (''transcript_sha256'', JStr gate_digest)]),
     (''token'', JObj [(''label'', JStr ''n''), (''manufacturer'', JStr ''n''), (''model'', JStr ''n''), (''serial'', JStr ''n''),
        (''module_sha256'', JStr gate_digest)]),
     (''key'', JObj [(''uri'', JStr ''pkcs11:object=k''), (''id'', JStr ''n''), (''label'', JStr ''n''), (''type'', JStr ''n''),
        (''extractable'', JBool False), (''private'', JBool True), (''usages'', JArr [JStr ''sign''])]),
     (''challenge'', JObj hsm_challenge_doc), (''artifacts'', JArr [JObj hsm_artifact_doc])]"

definition hsm_sample_env :: hsm_env where
  "hsm_sample_env = \<lparr>hs_contract = hsm_contract,
     hs_files = (\<lambda>_. Some \<lparr>size_of = 5, sha_of = gate_digest, text_content = [], json_content = None\<rparr>),
     hs_certificate_key = (\<lambda>_. git_prints ''k''), hs_verify = (\<lambda>_ _ _ _. git_prints [])\<rparr>"

definition hsm_sample_args :: hsm_args where
  "hsm_sample_args = \<lparr>ha_uri = ''pkcs11:object=k'', ha_certificate = path_of ''c.pem'', ha_production = True, ha_replay = False,
     ha_role = Some ''rauc-bundle'', ha_sha = Some gate_digest\<rparr>"

lemma hsm_contract_values: "contract_schema_version ''hsm_signing_session'' hsm_contract = Inr ''suderra.hsm-signing-session.v2''"
  "approved_providers hsm_contract = Inr [''thales luna'']" "allowlist_enforced hsm_contract = Inr True"
  by code_simp+

lemma hsm_texts: "pkcs11_key_uri ''pkcs11:object=k''" "\<not> script_placeholder (JStr ''n'')" "\<not> script_placeholder (JStr ''a'')"
  "\<not> script_placeholder (JStr ''Thales Luna 7'')" "\<not> script_placeholder (JStr ''0001-01-01T00:00:00Z'')"
  "\<not> script_placeholder (JStr ''0001-01-02T00:00:00Z'')" "\<not> script_placeholder (JStr ''rauc-bundle'')" "\<not> script_placeholder (JStr ''pc.raucb'')"
  "\<not> list_ex (contains (lower ''Thales Luna 7'')) SOFTHSM_MARKERS" "\<not> list_ex (contains (lower ''n n n'')) SOFTHSM_MARKERS"
  "contains (lower (lower ''Thales Luna 7'' @ '' n n n'')) ''thales luna''"
  "hsm_relative_path (JStr ''f'') = Some (path_of ''f'')" "strip ''k'' = ''k''"
  "gate_digest \<noteq> []"
  by code_simp+

lemma hsm_sample_times:
  "time_before (parse_zulu (JStr ''0001-01-01T00:00:00Z'')) (parse_zulu (JStr ''0001-01-01T00:00:00Z'')) = Inr False"
  "time_before (parse_zulu (JStr ''0001-01-02T00:00:00Z'')) (parse_zulu (JStr ''0001-01-01T00:00:00Z'')) = Inr False"
  "parse_zulu (JStr ''0001-01-01T00:00:00Z'') \<noteq> None" "parse_zulu (JStr ''0001-01-02T00:00:00Z'') \<noteq> None"
  by code_simp+

lemma hsm_sample_failures: "hsm_failures hsm_sample_env hsm_sample_args hsm_doc = Inr []"
  by (simp add: hsm_failures_def hsm_sample_env_def hsm_sample_args_def from_checked_def hsm_contract_values in_str_set_def
      hsm_texts hsm_sample_times hsm_doc_def dict_get_literal Let_def hsm_certificate_def hsm_placeholders_def hsm_digests_def
      hsm_times_def hsm_provider_def hsm_identity_def hsm_audit_def hsm_token_def hsm_key_def hsm_challenge_def hsm_challenge_doc_def
      hsm_paths_def hsm_artifacts_def hsm_artifact_def hsm_artifact_doc_def hsm_requested_def objects_in_def artifact_signature_sha_def
      either_value_def nonempty_file_def file_sha_def positive_int_def int_above_def)

lemma hsm_sample_replay: "crypto_replay hsm_sample_env (path_of ''s'') hsm_sample_args hsm_doc = []"
  by (simp add: hsm_sample_env_def hsm_sample_args_def hsm_doc_def dict_get_literal
      crypto_replay_def git_prints_def Let_def replay_challenge_def hsm_challenge_doc_def hsm_texts digest_bound_file_def nonempty_file_def
      file_sha_def signature_failure_def replay_artifact_def hsm_artifact_doc_def artifact_signature_sha_def either_value_def
      positive_int_def int_above_def is_file_def)

lemma hsm_session_passes: "validate_hsm_session hsm_sample_env (path_of ''s'') hsm_sample_args hsm_doc = Inr []"
  by (simp add: validate_hsm_session_def hsm_sample_failures hsm_sample_replay)

lemma hsm_sample_simps: "ha_production hsm_sample_args" "ha_uri hsm_sample_args = ''pkcs11:object=k''"
  "stdout (hs_certificate_key hsm_sample_env c) = ''k''" "dict_get hsm_doc ''artifacts'' = JArr [JObj hsm_artifact_doc]"
  by (simp_all add: hsm_sample_args_def hsm_sample_env_def git_prints_def hsm_doc_def dict_get_literal)

theorem hsm_session_accepted_witness:
  "hardware_key ''pkcs11:object=k'' hsm_doc \<and> artifact_signed hsm_sample_env (path_of ''s'') ''k'' hsm_artifact_doc"
  using hsm_session_accepted [OF hsm_session_passes hsm_sample_simps(1), unfolded hsm_sample_simps] by auto

section \<open>A security report\<close>

definition replayed_severities :: "severity list" where
  "replayed_severities = [Low, Medium]"

definition raw_doc :: json where
  "raw_doc = JObj [(''Results'', JArr [JObj [(''Vulnerabilities'', JArr [JObj [(''Severity'', JStr ''low'')]]),
     (''Secrets'', JArr [JObj [(''Severity'', JStr ''MEDIUM'')]])]])]"

definition report_reference :: json where
  "report_reference = JObj [(''path'', JStr ''x''), (''sha256'', JStr gate_digest), (''bytes'', JInt 5)]"

definition report_doc :: obj where
  "report_doc = (''schema_version'', JStr REPORT_SCHEMA_VERSION) # gate_ids @
     [(''status'', JStr ''passed''), (''scan'', JStr ''trivy''), (''tool'', JStr ''Trivy''), (''tool_version'', JStr ''n''), (''generated_at'', JStr ''n''),
      (''subject_graph_sha256'', JStr gate_digest), (''subject_graph'', report_reference),
      (''scanner_binary'', JObj [(''name'', JStr ''n''), (''version'', JStr ''n''), (''sha256'', JStr gate_digest)]),
      (''invocation'', JObj [(''argv'', JArr [JStr ''trivy'']), (''env'', JObj []),
         (''env_sha256'', JStr (canonical_env_sha256 (sha_text clean_checkout) (JObj []))), (''working_dir_policy'', JStr ''n'')]),
      (''subjects'', JArr [JObj [(''subject_id'', gate_subject), (''name'', JStr ''n''), (''role'', JStr ''n''), (''path'', JStr ''n''),
         (''sha256'', JStr gate_digest), (''scan_mode'', JStr ''n''), (''bytes'', JInt 5)]]),
      (''scanner_db'', JObj [(''type'', JStr ''n''), (''version'', JStr ''n''), (''created_at'', JStr ''n''), (''digest'', JStr ''n''),
         (''archive_sha256'', JStr gate_digest), (''auto_update_disabled'', JBool True)]),
      (''sbom'', report_reference), (''vex'', report_reference), (''severity_counts'', JObj (count_severities replayed_severities)),
      (''replay'', JObj [(''status'', JStr ''passed''), (''raw_sha256'', JStr gate_digest),
         (''severity_counts'', JObj (count_severities replayed_severities)),
         (''output_sha256'', JStr (canonical_replay_sha256 (sha_text clean_checkout) (JStr gate_digest) (count_severities replayed_severities)))]),
      (''raw'', JObj [(''path'', JStr ''v1/raw/t.json''), (''sha256'', JStr gate_digest), (''bytes'', JInt 5)])]"

definition report_path :: path where
  "report_path = path_of ''release-security/v1/t.json''"

definition report_env :: release_env where
  "report_env = gate_env\<lparr>rel_files := (\<lambda>p. map_option (\<lambda>v. \<lparr>size_of = 5, sha_of = gate_digest, text_content = [], json_content = Some v\<rparr>)
     (map_of [(''release-security/v1/t.json'', JObj report_doc), (''release-security/v1/raw/t.json'', raw_doc)] (path_str p)))\<rparr>"

definition report_args :: security_args where
  "report_args = \<lparr>se_scan = ''trivy'', se_version = ''v1'', se_source_sha = Some sample_commit, se_run_id = Some ''7'', se_check_files = True\<rparr>"

lemma report_passes: "validate_security_report report_env (raw_security_replay report_env) report_path report_args = Inr []"
  by code_simp

lemma report_reads: "read_doc report_env report_path = JObj report_doc"
  "dict_get report_doc ''schema_version'' = JStr REPORT_SCHEMA_VERSION" "se_check_files report_args"
  by code_simp+

theorem security_report_replayed_witness:
  "\<exists>raw v ss. dict_get report_doc ''raw'' = JObj raw \<and> raw_output report_env report_path (path_parent (path_parent report_path)) raw v \<and>
     raw_severities v (raw_tool report_doc) = Inr ss \<and> counts_replayed (dict_get report_doc ''severity_counts'') ss"
  using security_report_replayed [OF report_passes report_reads(3) report_reads(1,2)] by blast

text \<open>Acquisition evidence of a station with two adapters, and the witness of its property.\<close>

definition station_contract :: obj where
  "station_contract = [(''schema_versions'', JObj [(''station_acquisition'', JStr ''acq.v1'')]),
     (''hardware'', JObj [(''adapter_roles'', JArr [JStr ''power'', JStr ''readback''])])]"

definition station_log :: json where
  "station_log = JObj [(''path'', JStr ''l''), (''sha256'', JStr gate_digest)]"

definition power_event :: obj where
  "power_event = [(''role'', JStr ''power''), (''status'', JStr ''passed''), (''event_id'', JStr ''station-event:1''),
     (''measurement_source'', JStr ''adapter-stdout-json''), (''adapter_binary_sha256'', JStr gate_digest),
     (''measured'', JObj [(''cycled'', JBool True), (''transcript_sha256'', JStr gate_digest)]), (''stdout'', station_log), (''stderr'', station_log)]"

definition readback_event :: obj where
  "readback_event = [(''role'', JStr ''readback''), (''status'', JStr ''passed''), (''event_id'', JStr ''station-event:2''),
     (''measurement_source'', JStr ''adapter-stdout-json''), (''adapter_binary_sha256'', JStr gate_digest),
     (''measured'', JObj [(''sha256'', JStr gate_digest), (''bytes_read'', JInt 5)]), (''stdout'', station_log), (''stderr'', station_log)]"

definition station_registry :: obj where
  "station_registry = [(''schema_version'', JStr ''suderra.lab-station-registry.v1''),
     (''stations'', JArr [JObj [(''station_id'', JStr ''st''), (''allowed_targets'', JArr [JStr ''pc'']),
        (''adapter_inventory'', JObj (map (\<lambda>r. (r, JObj [(''binary_sha256'', JStr gate_digest)])) [''power'', ''readback'']))]])]"

definition station_doc :: obj where
  "station_doc = (''schema_version'', JStr ''acq.v1'') # gate_ids @ [(''station_id'', JStr ''st''), (''registry_sha256'', JStr gate_digest),
     (''artifact_sha256'', JStr gate_digest), (''artifact_bytes'', JInt 5), (''events_root'', JStr ''events''),
     (''events'', JArr [JObj power_event, JObj readback_event])]"

definition station_files :: store where
  "station_files _ = Some \<lparr>size_of = 5, sha_of = gate_digest, text_content = [], json_content = None\<rparr>"

definition station_args :: acquisition_args where
  "station_args = \<lparr>aq_version = Some ''v1'', aq_target = Some ''pc'', aq_source_sha = Some sample_commit, aq_run_id = Some ''7'',
     aq_artifact_sha = JStr gate_digest, aq_artifact_bytes = JInt 5, aq_registry_sha = JStr gate_digest,
     aq_registry = Some station_registry, aq_check_files = True\<rparr>"

lemma station_contract_values: "contract_schema_version ''station_acquisition'' station_contract = Inr ''acq.v1''"
  "adapter_roles station_contract = Inr [JStr ''power'', JStr ''readback'']" "commit_text (JStr sample_commit)" "lower_hex_of_length 40 sample_commit" "gate_digest \<noteq> []"
  "path_of ''l'' = Path False [''l'']" "starts_with ''station-event:1'' ''station-event:''" "starts_with ''station-event:2'' ''station-event:''"
  by code_simp+

lemma station_passes: "validate_acquisition station_contract station_files (path_of ''d'') station_args station_doc = Inr []"
  by (simp add: validate_acquisition_def from_checked_def station_contract_values station_doc_def gate_ids_def dict_get_literal Let_def
      acquisition_identity_def station_args_def bound_value_def positive_int_def int_above_def validate_registry_binding_def
      acquisition_station_def station_registry_def nonempty_str_def py_in_def acquisition_event_binding_def registry_adapter_entry_def
      power_event_def readback_event_def acquisition_event_def measured_by_role_def measured_true_def acquisition_log_def station_log_def
      station_files_def acquisition_order_def event_roles_def names_in_def minus_list_def sorted_set_def)

theorem acquisition_accepted_witness:
  "role_measured station_doc ''readback'' [(''sha256'', JStr gate_digest), (''bytes_read'', JInt 5)] \<and>
   station_authorized station_registry station_doc [power_event, readback_event]"
proof -
  have doc: "dict_get station_doc ''events'' = JArr (map JObj [power_event, readback_event])"
    "aq_registry station_args = Some station_registry"
    "dict_get readback_event ''measured'' = JObj [(''sha256'', JStr gate_digest), (''bytes_read'', JInt 5)]"
    "dict_get readback_event ''role'' = JStr ''readback''"
    by (simp_all add: station_doc_def gate_ids_def dict_get_literal station_args_def readback_event_def)
  obtain events where events: "dict_get station_doc ''events'' = JArr (map JObj events)"
    and kept: "\<forall>event\<in>set events. event_accepted station_files (path_join (path_of ''d'')
        (path_of (py_str (dict_get_or station_doc ''events_root'' (JStr []))))) (aq_check_files station_args) station_doc event"
    and registered: "\<forall>reg. aq_registry station_args = Some reg \<longrightarrow> station_authorized reg station_doc events"
    using acquisition_accepted [OF station_passes] by (elim conjE exE)
  have "events = [power_event, readback_event]"
    using events doc(1) by (simp add: inj_map_eq_map inj_def flip: map_map) auto
  then show ?thesis using kept registered doc by (auto simp: event_accepted_def)
qed

text \<open>
  A record of an attested release, with the witnesses of the properties of machine verification,
  and a record that the generator creates but the validator refuses.
\<close>

definition sample_statement :: json where
  "sample_statement = JObj [(''_type'', JStr ''https://in-toto.io/Statement/v1''), (''predicateType'', JStr ''https://slsa.dev/provenance/v1''),
     (''subject'', JArr [JObj [(''name'', JStr ''a''), (''digest'', JObj [(''sha256'', JStr gate_digest)])]]),
     (''predicate'', JObj [(''builder'', JObj [(''id'', JStr ''b'')]), (''materials'', JArr [JObj [(''uri'', JStr ''o/r'')]]),
        (''run'', JArr [JStr ''refs/t'', JStr ''71'', JStr ''2'', JStr ''c0ffee''])])]"

definition sample_payload :: string where
  "sample_payload = replicate 400 (CHR ''x'')"

definition sample_decode :: dsse_decoder where
  "sample_decode s = (if length s = 400 then Some sample_statement else None)"

definition attested_doc :: json where
  "attested_doc = JArr [JObj [(''attestation'', JObj [(''bundle'', JObj [(''dsseEnvelope'', JObj [(''payload'', JStr sample_payload)])])])]]"

text \<open>What \<open>gh attestation verify --format json\<close> prints: the envelope and, beside it, the verified statement.\<close>

definition verified_doc :: json where
  "verified_doc = JArr [JObj [(''attestation'', JObj [(''bundle'', JObj [(''dsseEnvelope'', JObj [(''payload'', JStr sample_payload)])])]),
     (''verificationResult'', JObj [(''statement'', sample_statement)])]]"

definition machine_env :: "json \<Rightarrow> release_env" where
  "machine_env doc = gate_env\<lparr>rel_files := (\<lambda>p. if path_str p \<in> {''log'', ''rel/a'', ''att/a.json''}
       then Some \<lparr>size_of = 5, sha_of = gate_digest, text_content = [], json_content = Some doc\<rparr> else None),
     rel_names := map_of [(path_of ''rel'', [''a'']), (path_of ''att'', [''a.json''])]\<rparr>"

definition machine_sample_args :: machine_args where
  "machine_sample_args = \<lparr>mv_name = ''attestations'', mv_dir = path_of ''rel'', mv_log = path_of ''log'',
     mv_option = map_of [(''identity'', ''me''), (''repository'', ''o/r''), (''ref'', ''refs/t''), (''run_id'', ''71''), (''run_attempt'', ''2''),
       (''workflow'', ''w''), (''source_sha'', ''c0ffee'')],
     mv_environ = (\<lambda>_. None), mv_attestations = Some (path_of ''att''), mv_now = ''now''\<rparr>"

definition sample_record :: "json \<Rightarrow> obj" where
  "sample_record doc = (case create_record (machine_env doc) sample_decode 20 machine_sample_args of Inl _ \<Rightarrow> [] | Inr r \<Rightarrow> r)"

lemma record_created: "create_record (machine_env attested_doc) sample_decode 20 machine_sample_args = Inr (sample_record attested_doc)"
  by code_simp

lemma machine_sample_files: "rel_files (machine_env doc) q = Some f \<Longrightarrow> sha_of f = gate_digest"
  by (auto simp: machine_env_def split: if_splits)

lemma record_is_ok: "release_subjects_ok (sample_record attested_doc)" "attested_once (sample_record attested_doc)"
  "mv_name machine_sample_args = ''attestations''"
  by code_simp+

lemma machine_names_ok: "record_names_ok (machine_env attested_doc) machine_sample_args"
proof -
  have "attestation_names (machine_env attested_doc) (path_of ''att'') = [''a.json'']" "mv_attestations machine_sample_args = Some (path_of ''att'')"
    "\<not> machine_placeholder (JStr (mv_now machine_sample_args))" "\<not> machine_placeholder (JStr (path_name (mv_log machine_sample_args)))"
    "\<not> machine_placeholder (JStr (path_name (child (path_of ''att'') ''a.json'')))"
    by code_simp+
  then show ?thesis by (auto simp: record_names_ok_def)
qed

theorem created_record_validates_witness:
  "validate_record (Some ''attestations'') (sample_record attested_doc) = Inr []"
  using created_record_validates [OF record_created _ record_is_ok(1,2) machine_names_ok] machine_sample_files
  by (simp add: record_is_ok(3))

text \<open>
  A file that states its subject in the envelope and in the verified statement makes the generator
  write a record that the validator refuses, since only \<open>verified_subjects\<close> is without repetitions.
\<close>

lemma verified_output_refused:
  "create_record (machine_env verified_doc) sample_decode 20 machine_sample_args = Inr (sample_record verified_doc)"
  "validate_record (Some ''attestations'') (sample_record verified_doc) =
     Inr [''verification_material.files[0].subjects[1] is duplicated'']"
  by code_simp+

lemma sample_decode_shrinks: "decoding_shrinks sample_decode"
proof -
  have "json_weight sample_statement \<le> 400" by code_simp
  then show ?thesis by (auto simp: decoding_shrinks_def sample_decode_def split: if_splits)
qed

theorem attestation_reading_ends_witness:
  "\<exists>ss. \<forall>extra. attestation_statements sample_decode (json_weight verified_doc + extra) verified_doc = Some ss"
  by (rule attestation_reading_ends [OF sample_decode_shrinks])

end
