(* ===== verification/RecordChecks.thy ===== *)
theory RecordChecks
  imports ReleaseGate LabInput
begin

text \<open>
  \<open>scripts/evidence/release-evidence.py\<close>, the validation of a release evidence bundle, first part:
  the surroundings of a validation, the checks of single values, references to files of the bundle,
  what the sections read from the evidence as a whole, and the sections about what is released. The failures are texts \<open>path: message\<close>.
\<close>

section \<open>Surroundings\<close>

text \<open>
  The surroundings of the scripts, those of \<open>validate-lab-input.py\<close>, the default build matrix, the
  directory of the evidence file, and the options of the run.
\<close>

record record_ctx =
  rc_env :: release_env
  rc_lab :: lab_env
  rc_matrix :: path
  rc_dir :: path
  rc_check :: bool
  rc_pass :: bool
  rc_tier :: string

definition rc_files :: "record_ctx \<Rightarrow> store" where
  "rc_files c = rel_files (rc_env c)"

definition rc_contract :: "record_ctx \<Rightarrow> obj" where
  "rc_contract c = rel_contract (rc_env c)"

text \<open>Production evidence that has to be ready for release and whose policy requires a section.\<close>

definition strictly :: "record_ctx \<Rightarrow> bool \<Rightarrow> bool" where
  "strictly c required \<longleftrightarrow> rc_pass c \<and> rc_tier c = ''production'' \<and> required"

definition STATUS_VALUES :: "string list" where
  "STATUS_VALUES = [''passed'', ''failed'', ''not_run'', ''not_applicable'', ''not_collected'']"

definition FAILURE_CLASS_VALUES :: "string list" where
  "FAILURE_CLASS_VALUES = [''none'', ''timeout'', ''infra_error'', ''semantic_failure'', ''security_failure'', ''operator_error'']"

definition VEX_STATUS_VALUES :: "string list" where
  "VEX_STATUS_VALUES = [''present'', ''not_applicable'', ''not_collected'']"

section \<open>Values\<close>

definition ev_string :: "string \<Rightarrow> json \<Rightarrow> string list" where
  "ev_string p v = report (\<not> nonblank_str v) (msg p ''must be a non-empty string'')"

definition ev_strings :: "string \<Rightarrow> obj \<Rightarrow> string list \<Rightarrow> string list" where
  "ev_strings p o' names = concat (map (\<lambda>f. ev_string (p @ ''.'' @ f) (dict_get o' f)) names)"

definition ev_bool :: "string \<Rightarrow> json \<Rightarrow> string list" where
  "ev_bool p v = report (\<not> is_bool v) (msg p ''must be true or false'')"

definition ev_status :: "string \<Rightarrow> json \<Rightarrow> string list \<Rightarrow> string list run" where
  "ev_status p v allowed = bindE (in_str_set v allowed) (\<lambda>known.
     Inr (report (\<not> known) (msg p (''must be one of: '' @ comma_join (sorted_set allowed)))))"

definition ev_sha256 :: "string \<Rightarrow> json \<Rightarrow> bool \<Rightarrow> string list" where
  "ev_sha256 p v required = (if v = JNull \<and> \<not> required then []
     else report (\<not> sha256_text v) (msg p ''must be a lowercase sha256 hex digest''))"

definition ev_positive :: "string \<Rightarrow> json \<Rightarrow> bool \<Rightarrow> string list" where
  "ev_positive p v required = (if v = JNull \<and> \<not> required then []
     else report (\<not> positive_int v) (msg p ''must be a positive integer''))"

text \<open>A value that must be true for release-ready evidence, a status that must be passed.\<close>

definition must_be_true :: "bool \<Rightarrow> string \<Rightarrow> json \<Rightarrow> string list" where
  "must_be_true strict p v = report (strict \<and> v \<noteq> JBool True) (msg p ''must be true for release-ready evidence'')"

definition must_be_passed :: "bool \<Rightarrow> string \<Rightarrow> json \<Rightarrow> string list" where
  "must_be_passed strict p v = report (strict \<and> v \<noteq> JStr ''passed'') (msg p ''must be passed for release-ready evidence'')"

definition ev_timestamp :: "string \<Rightarrow> json \<Rightarrow> bool \<Rightarrow> string list \<times> datetime option" where
  "ev_timestamp p v required = (let t = strip (text_of v) in
     if v = JNull \<and> \<not> required then ([], None)
     else if \<not> nonblank_str v then ([msg p ''must be an ISO-8601 UTC timestamp''], None)
     else if \<not> ends_with t ''Z'' then ([msg p ''must use UTC Z suffix''], None)
     else case fromisoformat (butlast t @ ''+00:00'') of
       None \<Rightarrow> ([msg p ''must be an ISO-8601 UTC timestamp''], None)
     | Some d \<Rightarrow> ([], Some d))"

section \<open>Files of the bundle\<close>

definition ev_relative :: "record_ctx \<Rightarrow> string \<Rightarrow> json \<Rightarrow> bool \<Rightarrow> string list" where
  "ev_relative c p v required = (if v = JNull \<and> \<not> required then []
     else if \<not> nonblank_str v then [msg p ''must be a relative path'']
     else case inner_path v of None \<Rightarrow> [msg p (''must be relative and must not contain '' @ repr_str ''..'')]
     | Some rel \<Rightarrow> if \<not> rc_check c then []
         else (case rc_files c (path_join (rc_dir c) rel) of
             None \<Rightarrow> [msg p (''referenced file is missing: '' @ text_of v)]
           | Some f \<Rightarrow> report (size_of f \<le> 0) (msg p (''referenced file is empty: '' @ text_of v))))"

definition ev_file :: "record_ctx \<Rightarrow> json \<Rightarrow> path option" where
  "ev_file c v = (if \<not> rc_check c \<or> \<not> nonblank_str v then None
     else case inner_path v of None \<Rightarrow> None
     | Some rel \<Rightarrow> (let q = path_join (rc_dir c) rel in if is_file (rc_files c) q then Some q else None))"

definition ev_file_sha :: "record_ctx \<Rightarrow> string \<Rightarrow> json \<Rightarrow> json \<Rightarrow> string list" where
  "ev_file_sha c p rel expected = (if \<not> rc_check c \<or> expected = JNull then []
     else case ev_file c rel of None \<Rightarrow> []
     | Some q \<Rightarrow> report (JStr (file_sha (rc_files c) q) \<noteq> expected) (msg p ''does not match referenced file sha256''))"

definition ev_file_size :: "record_ctx \<Rightarrow> string \<Rightarrow> json \<Rightarrow> json \<Rightarrow> string list" where
  "ev_file_size c p rel expected = (if \<not> rc_check c \<or> expected = JNull then []
     else case Option.bind (ev_file c rel) (rc_files c) of None \<Rightarrow> []
     | Some f \<Rightarrow> report (\<not> py_eq (JInt (size_of f)) expected) (msg p ''does not match referenced file size''))"

text \<open>The path, digest and size of an object that refers to a file, checked one after the other.\<close>

definition ev_digest_ref :: "record_ctx \<Rightarrow> string \<Rightarrow> obj \<Rightarrow> bool \<Rightarrow> string list" where
  "ev_digest_ref c p o' required = (let rel = dict_get o' ''path''; sha = dict_get o' ''sha256''; n = dict_get o' ''bytes'' in
     ev_relative c (p @ ''.path'') rel required
     @ ev_sha256 (p @ ''.sha256'') sha required
     @ ev_positive (p @ ''.bytes'') n required
     @ ev_file_sha c (p @ ''.sha256'') rel sha
     @ ev_file_size c (p @ ''.bytes'') rel n)"

text \<open>\<open>validate_preserved_ref\<close>: its failures, and the file it returns.\<close>

definition ev_ref :: "record_ctx \<Rightarrow> string \<Rightarrow> json \<Rightarrow> bool \<Rightarrow> string list" where
  "ev_ref c p v required = (if v = JNull \<and> \<not> required then []
     else if \<not> is_obj v then [msg p ''must be an object preserving a preflight input'']
     else ev_digest_ref c p (members v) required)"

definition ev_ref_file :: "record_ctx \<Rightarrow> json \<Rightarrow> path option" where
  "ev_ref_file c v = (if is_obj v then ev_file c (dict_get (members v) ''path'') else None)"

text \<open>A replay of a preserved file, for release-ready evidence.\<close>

definition replay_of :: "record_ctx \<Rightarrow> json \<Rightarrow> (path \<Rightarrow> string list run) \<Rightarrow> string list run" where
  "replay_of c v k = (if \<not> rc_pass c then Inr [] else case ev_ref_file c v of None \<Rightarrow> Inr [] | Some q \<Rightarrow> k q)"

text \<open>A section or item that must be an object, or a list, and the walk over the items of a list.\<close>

definition as_members :: "string \<Rightarrow> json \<Rightarrow> (obj \<Rightarrow> string list run) \<Rightarrow> string list run" where
  "as_members p v k = (if is_obj v then k (members v) else Inr [msg p ''must be an object''])"

definition as_items :: "string \<Rightarrow> json \<Rightarrow> (json list \<Rightarrow> string list run) \<Rightarrow> string list run" where
  "as_items p v k = (if is_list v then k (elems v) else Inr [msg p ''must be a list''])"

definition walk_items :: "string \<Rightarrow> (string \<Rightarrow> json \<Rightarrow> string list run) \<Rightarrow> json list \<Rightarrow> string list run" where
  "walk_items p k vs = collectE (map (\<lambda>(i, v). k (p @ ''['' @ nat_str i @ '']'') v) (enumerate 0 vs))"

definition walk_objects :: "string \<Rightarrow> (string \<Rightarrow> obj \<Rightarrow> string list run) \<Rightarrow> json list \<Rightarrow> string list run" where
  "walk_objects p k vs = walk_items p (\<lambda>q v. as_members q v (k q)) vs"

text \<open>A replay of another validator: its failures at a path, or the text of its exception.\<close>

definition replay_failures :: "string \<Rightarrow> string \<Rightarrow> string list run \<Rightarrow> string list" where
  "replay_failures p what r = (case r of Inl e \<Rightarrow> [msg p (what @ '': '' @ exc_text e)] | Inr fs \<Rightarrow> map (msg p) fs)"

section \<open>What the sections read of the evidence\<close>

definition ev_source :: "obj \<Rightarrow> obj" where
  "ev_source evidence = dict_or_empty (dict_get evidence ''source'')"

definition collected_workflow_identity :: "json \<Rightarrow> bool" where
  "collected_workflow_identity v \<longleftrightarrow> is_obj v \<and> (\<forall>f\<in>set [''run_id'', ''run_attempt'']. is_str (dict_get (members v) f) \<and>
     dict_get (members v) f \<noteq> JStr ''not_collected'')"

definition source_image_build_identity :: "obj \<Rightarrow> obj" where
  "source_image_build_identity evidence = (let build = dict_get (ev_source evidence) ''image_build'' in
     if collected_workflow_identity build then members build else dict_or_empty (dict_get (ev_source evidence) ''ci''))"

definition ev_commit :: "obj \<Rightarrow> string option" where
  "ev_commit evidence = str_option (dict_get (ev_source evidence) ''git_commit'')"

definition ev_run_id :: "obj \<Rightarrow> string option" where
  "ev_run_id evidence = (let r = dict_get (source_image_build_identity evidence) ''run_id'' in
     if r = JNull then None else Some (py_str r))"

definition ev_text :: "obj \<Rightarrow> string \<Rightarrow> string" where
  "ev_text evidence f = py_str (dict_get evidence f)"

definition ev_target :: "obj \<Rightarrow> string" where
  "ev_target evidence = py_str (dict_get_or evidence ''target'' (JStr []))"

definition evidence_artifact_sha256s :: "obj \<Rightarrow> string list" where
  "evidence_artifact_sha256s evidence = map text_of (filter sha256_text
     (map (\<lambda>o'. dict_get o' ''sha256'') (map members (filter is_obj (elems (dict_get evidence ''artifacts''))))))"

definition release_ready_profile :: "obj \<Rightarrow> string" where
  "release_ready_profile evidence = (if CHR ''-'' \<in> set (py_str (dict_get_or evidence ''version'' (JStr [])))
     then ''release-candidate'' else ''production-candidate'')"

text \<open>A set built from values: the first of equal ones stays.\<close>

definition py_set :: "json list \<Rightarrow> json list" where
  "py_set vs = foldl (\<lambda>acc v. if py_in v acc then acc else acc @ [v]) [] vs"

definition hashed :: "json list \<Rightarrow> json list run" where
  "hashed vs = (if list_all hashable vs then Inr vs else Inl TypeError)"

text \<open>
  The sections about what is released: the
  place of the evidence file, the target's contract, the source, the asset manifest, the artifacts,
  the SBOM and VEX documents, reproducibility and the security scans.
\<close>

section \<open>Asset manifest\<close>

definition ASSET_MANIFEST_SCHEMA_VERSION :: string where
  "ASSET_MANIFEST_SCHEMA_VERSION = ''suderra.release-assets.v1''"

definition ALLOWED_RELEASE_ASSET_ROLES :: "string list" where
  "ALLOWED_RELEASE_ASSET_ROLES = [''release-image'', ''checksum'', ''manifest'', ''payload-signature'', ''sbom'', ''signature'',
     ''certificate'', ''installer'', ''release-control'', ''attestation'', ''evidence'']"

definition asset_entry :: "string list \<Rightarrow> nat \<Rightarrow> obj \<Rightarrow> string list" where
  "asset_entry seen i entry = (let p = ''$.asset_manifest.files['' @ nat_str i @ '']''; name = dict_get entry ''name''; role = dict_get entry ''role'' in
     ev_strings p entry [''name'', ''role'']
     @ ev_sha256 (p @ ''.sha256'') (dict_get entry ''sha256'') True
     @ ev_positive (p @ ''.bytes'') (dict_get entry ''bytes'') True
     @ report (is_str role \<and> text_of role \<notin> set ALLOWED_RELEASE_ASSET_ROLES)
         (msg (p @ ''.role'') (''must be one of: '' @ comma_join (sorted_set ALLOWED_RELEASE_ASSET_ROLES)))
     @ report (is_str name \<and> text_of name \<in> set seen) (msg (p @ ''.name'') ''must be unique within release-assets.json''))"

fun asset_entries :: "string list \<Rightarrow> nat \<Rightarrow> json list \<Rightarrow> string list" where
  "asset_entries seen i [] = []"
| "asset_entries seen i (v # vs) =
     (if \<not> is_obj v then msg (''$.asset_manifest.files['' @ nat_str i @ '']'') ''must be an object'' # asset_entries seen (Suc i) vs
      else asset_entry seen i (members v)
        @ asset_entries (names_in ''name'' [v] @ seen) (Suc i) vs)"

text \<open>The entry of a name: the last one.\<close>

definition manifest_by_name :: "json list \<Rightarrow> string \<Rightarrow> obj option" where
  "manifest_by_name files n = find (\<lambda>o'. dict_get o' ''name'' = JStr n) (rev (map members (filter is_obj files)))"

definition asset_subject :: "json list \<Rightarrow> nat \<times> json \<Rightarrow> string list" where
  "asset_subject files = (\<lambda>(i, v). let p = ''$.artifacts['' @ nat_str i @ '']''; name = dict_get (members v) ''name'';
       agrees = (\<lambda>entry f. report (truthy (dict_get (members v) f) \<and> \<not> py_eq (dict_get entry f) (dict_get (members v) f))
         (msg (p @ ''.'' @ f) ''does not match release-assets.json entry'')) in
     if \<not> is_obj v \<or> \<not> is_str name then []
     else case manifest_by_name files (text_of name) of None \<Rightarrow> []
     | Some entry \<Rightarrow> agrees entry ''sha256'' @ agrees entry ''bytes'')"

definition asset_subjects :: "obj \<Rightarrow> json list \<Rightarrow> string list run" where
  "asset_subjects evidence files = bindE (py_list (dict_get_or evidence ''artifacts'' (JArr []))) (\<lambda>artifacts.
     bindE (hashed (map (\<lambda>v. dict_get (members v) ''name'') (filter is_obj artifacts))) (\<lambda>names.
     let missing = sort (map py_str (filter truthy (filter (\<lambda>v. \<not> (is_str v \<and> text_of v \<in> set (names_in ''name'' files))) (py_set names)))) in
     Inr (report (missing \<noteq> []) (msg ''$.asset_manifest.path'' (''missing release artifact subject(s): '' @ comma_join missing))
       @ concat (map (asset_subject files) (enumerate 0 artifacts)))))"

definition asset_document :: "obj \<Rightarrow> obj \<Rightarrow> string list run" where
  "asset_document evidence payload = (let files = dict_get payload ''files''; q = msg ''$.asset_manifest.path'' in collectE
     [Inr (report (dict_get payload ''schema_version'' \<noteq> JStr ASSET_MANIFEST_SCHEMA_VERSION)
          (q (''schema_version must be '' @ ASSET_MANIFEST_SCHEMA_VERSION))
        @ report (\<not> py_eq (dict_get payload ''version'') (dict_get evidence ''version'')) (q ''version must match evidence.version'')),
      (if \<not> is_list files \<or> elems files = [] then Inr [q ''files must be a non-empty list'']
       else collectE [Inr (asset_entries [] 0 (elems files)), asset_subjects evidence (elems files)])])"

definition validate_asset_manifest :: "record_ctx \<Rightarrow> obj \<Rightarrow> string list run" where
  "validate_asset_manifest c evidence = as_members ''$.asset_manifest'' (dict_get evidence ''asset_manifest'') (\<lambda>manifest.
     let rel = dict_get manifest ''path''; sha = dict_get manifest ''sha256'' in collectE
     [Inr (ev_relative c ''$.asset_manifest.path'' rel True
        @ ev_sha256 ''$.asset_manifest.sha256'' sha (rc_pass c)
        @ ev_file_sha c ''$.asset_manifest.sha256'' rel sha
        @ ev_bool ''$.asset_manifest.verified'' (dict_get manifest ''verified'')
        @ must_be_true (rc_pass c) ''$.asset_manifest.verified'' (dict_get manifest ''verified'')),
      (case Option.bind (ev_file c rel) (rc_files c) of None \<Rightarrow> Inr []
       | Some f \<Rightarrow> (case json_content f of None \<Rightarrow> Inr [msg ''$.asset_manifest.path'' ''must be readable JSON: JSONDecodeError'']
         | Some v \<Rightarrow> bindE (dict_of v) (asset_document evidence)))])"

section \<open>Artifacts\<close>

definition path_contract :: "path \<Rightarrow> obj \<Rightarrow> string list" where
  "path_contract p evidence = (case rev (split_on (CHR ''/'') (path_str p)) of
       e # t # v # _ \<Rightarrow>
         if e \<noteq> ''evidence.json'' then [msg ''$path'' ''must end with <version>/<target>/evidence.json'']
         else report (JStr v \<noteq> dict_get evidence ''version'') (msg ''$path'' ''version directory must match evidence.version'')
           @ report (JStr t \<noteq> dict_get evidence ''target'') (msg ''$path'' ''target directory must match evidence.target'')
     | _ \<Rightarrow> [msg ''$path'' ''must end with <version>/<target>/evidence.json''])"

text \<open>A path that is looked at for release-ready evidence and where the object says it was verified.\<close>

definition control_path :: "record_ctx \<Rightarrow> string \<Rightarrow> obj \<Rightarrow> string \<Rightarrow> string list" where
  "control_path c p o' f = ev_relative c (p @ ''.'' @ f)
     (if rc_pass c \<or> dict_get o' ''verified'' = JBool True then dict_get o' f else JNull) (rc_pass c)"

definition verified_flag :: "record_ctx \<Rightarrow> string \<Rightarrow> obj \<Rightarrow> string list" where
  "verified_flag c p o' = ev_bool (p @ ''.verified'') (dict_get o' ''verified'')
     @ must_be_true (rc_pass c) (p @ ''.verified'') (dict_get o' ''verified'')"

definition ev_artifact :: "record_ctx \<Rightarrow> string \<Rightarrow> obj \<Rightarrow> string list run" where
  "ev_artifact c p artifact = (let rel = dict_get artifact ''path''; sha = dict_get artifact ''sha256''; n = dict_get artifact ''bytes'' in collectE
     [Inr (ev_strings p artifact [''name'', ''role'']
        @ ev_relative c (p @ ''.path'') rel True
        @ ev_sha256 (p @ ''.sha256'') sha (rc_pass c)
        @ ev_positive (p @ ''.bytes'') n (rc_pass c)
        @ ev_file_sha c (p @ ''.sha256'') rel sha
        @ ev_file_size c (p @ ''.bytes'') rel n),
      as_members (p @ ''.signature'') (dict_get artifact ''signature'') (\<lambda>signature. Inr
        (control_path c (p @ ''.signature'') signature ''path'' @ control_path c (p @ ''.signature'') signature ''certificate''
         @ verified_flag c (p @ ''.signature'') signature)),
      as_members (p @ ''.provenance'') (dict_get artifact ''provenance'') (\<lambda>provenance. Inr
        (control_path c (p @ ''.provenance'') provenance ''path'' @ verified_flag c (p @ ''.provenance'') provenance))])"

definition ev_artifacts :: "record_ctx \<Rightarrow> obj \<Rightarrow> string list run" where
  "ev_artifacts c evidence = (let v = dict_get evidence ''artifacts'' in
     if \<not> is_list v \<or> elems v = [] then Inr [msg ''$.artifacts'' ''must be a non-empty list'']
     else walk_objects ''$.artifacts'' (ev_artifact c) (elems v))"

section \<open>SBOM and VEX\<close>

definition sbom_document :: "json \<Rightarrow> obj \<Rightarrow> string list" where
  "sbom_document count payload = (let n = int (length (elems (dict_get payload ''components''))) in
     report (n \<le> 0) (msg ''$.sbom.component_count'' ''CycloneDX components must be non-empty'')
     @ report (is_int count \<and> int_of count \<noteq> n) (msg ''$.sbom.component_count'' ''does not match CycloneDX components length''))"

definition validate_sbom :: "record_ctx \<Rightarrow> obj \<Rightarrow> string list run" where
  "validate_sbom c evidence = as_members ''$.sbom'' (dict_get evidence ''sbom'') (\<lambda>sbom.
     let rel = dict_get sbom ''path''; sha = dict_get sbom ''sha256''; count = dict_get sbom ''component_count'' in collectE
     [Inr (report (dict_get sbom ''format'' \<noteq> JStr ''cyclonedx-json'') (msg ''$.sbom.format'' ''must be cyclonedx-json'')
        @ ev_relative c ''$.sbom.path'' rel True
        @ ev_sha256 ''$.sbom.sha256'' sha (rc_pass c)
        @ ev_positive ''$.sbom.component_count'' count (rc_pass c)
        @ ev_file_sha c ''$.sbom.sha256'' rel sha
        @ ev_bool ''$.sbom.signature_verified'' (dict_get sbom ''signature_verified'')),
      (case Option.bind (ev_file c rel) (rc_files c) of None \<Rightarrow> Inr []
       | Some f \<Rightarrow> (case json_content f of None \<Rightarrow> Inr [msg ''$.sbom.path'' ''must be readable CycloneDX JSON: JSONDecodeError'']
         | Some v \<Rightarrow> bindE (dict_of v) (\<lambda>payload. Inr (sbom_document count payload)))),
      Inr (must_be_true (rc_pass c) ''$.sbom.signature_verified'' (dict_get sbom ''signature_verified''))])"

definition validate_vex :: "record_ctx \<Rightarrow> obj \<Rightarrow> string list run" where
  "validate_vex c evidence = as_members ''$.vex'' (dict_get evidence ''vex'') (\<lambda>vex.
     let present = dict_get vex ''status'' = JStr ''present'' in collectE
     [ev_status ''$.vex.status'' (dict_get vex ''status'') VEX_STATUS_VALUES,
      Inr (ev_relative c ''$.vex.path'' (dict_get vex ''path'') present
        @ ev_sha256 ''$.vex.sha256'' (dict_get vex ''sha256'') present
        @ ev_file_sha c ''$.vex.sha256'' (dict_get vex ''path'') (dict_get vex ''sha256'')
        @ ev_bool ''$.vex.signature_verified'' (dict_get vex ''signature_verified'')
        @ report (strictly c True \<and> \<not> present) (msg ''$.vex.status'' ''must be present for release-ready evidence'')
        @ report (present \<and> strictly c True \<and> dict_get vex ''signature_verified'' \<noteq> JBool True)
            (msg ''$.vex.signature_verified'' ''must be true when VEX is present''))])"

section \<open>Scans and reproducibility\<close>

definition status_entry :: "record_ctx \<Rightarrow> string \<Rightarrow> obj \<Rightarrow> string list run" where
  "status_entry c p entry = (let s = dict_get entry ''status'' in collectE
     [Inr (ev_string (p @ ''.name'') (dict_get entry ''name'')),
      ev_status (p @ ''.status'') s STATUS_VALUES,
      Inr (ev_relative c (p @ ''.report'') (dict_get entry ''report'') (rc_pass c \<and> s = JStr ''passed'')
        @ must_be_passed (rc_pass c) (p @ ''.status'') s)])"

definition entry_names :: "json list \<Rightarrow> string list" where
  "entry_names vs = filter (\<lambda>n. strip n \<noteq> []) (names_in ''name'' vs)"

definition security_scan_list :: "record_ctx \<Rightarrow> obj \<Rightarrow> string list option \<Rightarrow> string list run" where
  "security_scan_list c evidence expected = as_items ''$.security_scans'' (dict_get evidence ''security_scans'') (\<lambda>vs. collectE
     [Inr (case expected of None \<Rightarrow> []
        | Some names \<Rightarrow> report (sort (entry_names vs) \<noteq> sort names)
            (msg ''$.security_scans'' (''must contain exactly: '' @ comma_join (sort names)))),
      walk_objects ''$.security_scans'' (status_entry c) vs,
      Inr (report (rc_pass c \<and> vs = []) (msg ''$.security_scans'' ''must not be empty for release-ready evidence''))])"

definition validate_reproducibility :: "record_ctx \<Rightarrow> obj \<Rightarrow> string list run" where
  "validate_reproducibility c evidence = as_members ''$.reproducibility'' (dict_get evidence ''reproducibility'') (\<lambda>r. collectE
     [ev_status ''$.reproducibility.status'' (dict_get r ''status'') STATUS_VALUES,
      Inr (if dict_get r ''comparison'' \<noteq> JNull then ev_string ''$.reproducibility.comparison'' (dict_get r ''comparison'') else []),
      as_items ''$.reproducibility.logs'' (dict_get r ''logs'') (\<lambda>vs.
        walk_items ''$.reproducibility.logs'' (\<lambda>p v. Inr (ev_relative c p v True)) vs),
      Inr (must_be_passed (rc_pass c) ''$.reproducibility.status'' (dict_get r ''status''))])"

section \<open>Source and target\<close>

definition WORKFLOW_FIELDS :: "string list" where
  "WORKFLOW_FIELDS = [''provider'', ''workflow'', ''run_id'', ''run_attempt'']"

definition source_workflow :: "obj \<Rightarrow> string \<Rightarrow> string list" where
  "source_workflow source name = (let v = dict_get source name; p = ''$.source.'' @ name in
     if v = JNull then [] else if \<not> is_obj v then [msg p ''must be an object''] else ev_strings p (members v) WORKFLOW_FIELDS)"

definition validate_source :: "record_ctx \<Rightarrow> obj \<Rightarrow> string list run" where
  "validate_source c evidence = as_members ''$.source'' (dict_get evidence ''source'') (\<lambda>source. Inr
     (ev_strings ''$.source'' source [''repository'', ''git_commit'', ''git_tag'']
      @ ev_bool ''$.source.dirty'' (dict_get source ''dirty'')
      @ report (\<not> py_eq (dict_get source ''git_tag'') (dict_get evidence ''version'')) (msg ''$.source.git_tag'' ''must match evidence.version'')
      @ (if is_obj (dict_get source ''ci'') then ev_strings ''$.source.ci'' (members (dict_get source ''ci'')) WORKFLOW_FIELDS
         else [msg ''$.source.ci'' ''must be an object''])
      @ concat (map (source_workflow source) [''image_build'', ''release_preflight'', ''release_sign'', ''release_publish''])
      @ (if \<not> rc_pass c then []
         else report (\<not> collected_workflow_identity (JObj (source_image_build_identity evidence)))
             (msg ''$.source.image_build.run_id'' ''must be collected for release-ready evidence'')
           @ report (\<not> commit_text (dict_get source ''git_commit'')) (msg ''$.source.git_commit'' ''must be a full git commit sha'')
           @ report (dict_get source ''dirty'' \<noteq> JBool False) (msg ''$.source.dirty'' ''must be false for release-ready evidence''))))"

text \<open>\<open>targets_by_id\<close>: a later target replaces an earlier one, a name is only added.\<close>

definition add_target :: "(string \<Rightarrow> obj option) \<Rightarrow> obj \<Rightarrow> (string \<Rightarrow> obj option)" where
  "add_target m entry = (let target = py_str (dict_get_or entry ''target'' (JStr [])); name = py_str (dict_get_or entry ''name'' (JStr []));
       m' = (if target \<noteq> [] then m(target \<mapsto> entry) else m) in
     if name \<noteq> [] \<and> m' name = None then m'(name \<mapsto> entry) else m')"

definition targets_by_id :: "obj \<Rightarrow> (string \<Rightarrow> obj option) run" where
  "targets_by_id matrix = bindE (py_list (dict_get_or matrix ''defconfigs'' (JArr []))) (\<lambda>vs.
     bindE (mapE dict_of vs) (\<lambda>entries. Inr (foldl add_target (\<lambda>_. None) entries)))"

definition target_row :: "obj option \<Rightarrow> obj \<Rightarrow> obj option run" where
  "target_row matrix evidence = (case matrix of None \<Rightarrow> Inr None
     | Some m \<Rightarrow> bindE (targets_by_id m) (\<lambda>targets. Inr (targets (ev_target evidence))))"

definition CONTRACT_FIELDS :: "(string \<times> string) list" where
  "CONTRACT_FIELDS = (''defconfig'', ''name'') # map (\<lambda>f. (f, f)) [''target'', ''arch'', ''artifact'', ''release_artifact'', ''profile'',
     ''boot_mode'', ''partition_table'', ''root_partition'', ''root_identity'', ''signing'', ''acceptance'', ''production_required'', ''production_ready'']"

definition TARGET_CONTRACT_FIELDS :: "string list" where
  "TARGET_CONTRACT_FIELDS = map fst CONTRACT_FIELDS"

definition contract_from_matrix :: "obj \<Rightarrow> obj run" where
  "contract_from_matrix row = mapE (\<lambda>(f, g). bindE (dict_index row g) (\<lambda>v. Inr (f, v))) CONTRACT_FIELDS"

text \<open>The fields of a set are checked in the order of the contract here; the source's order is that of a set.\<close>

definition contract_shape :: "obj \<Rightarrow> obj \<Rightarrow> string list" where
  "contract_shape evidence contract = (let missing = sorted_set (minus_list TARGET_CONTRACT_FIELDS (dict_keys contract));
       extra = sorted_set (minus_list (dict_keys contract) TARGET_CONTRACT_FIELDS); flags = [''production_required'', ''production_ready''] in
     report (missing \<noteq> []) (msg ''$.target_contract'' (''missing fields: '' @ comma_join missing))
     @ report (extra \<noteq> []) (msg ''$.target_contract'' (''unknown fields: '' @ comma_join extra))
     @ report (\<not> py_eq (dict_get contract ''target'') (dict_get evidence ''target'')) (msg ''$.target_contract.target'' ''must match evidence.target'')
     @ ev_strings ''$.target_contract'' contract (minus_list TARGET_CONTRACT_FIELDS flags)
     @ concat (map (\<lambda>f. ev_bool (''$.target_contract.'' @ f) (dict_get contract f)) flags))"

definition validate_target_contract :: "obj \<Rightarrow> obj option \<Rightarrow> string list run" where
  "validate_target_contract evidence matrix = as_members ''$.target_contract'' (dict_get evidence ''target_contract'') (\<lambda>contract. collectE
     [Inr (contract_shape evidence contract),
      (if matrix = None then Inr []
       else bindE (target_row matrix evidence) (\<lambda>row. case row of
           None \<Rightarrow> Inr [msg ''$.target'' ''must exist in ci/build-matrix.yml'']
         | Some r \<Rightarrow> bindE (contract_from_matrix r) (\<lambda>expected.
             Inr (concat (map (\<lambda>(f, v). report (\<not> py_eq (dict_get contract f) v)
               (msg (''$.target_contract.'' @ f) (''does not match matrix value '' @ py_repr v))) expected)))))])"

end
