(* ===== verification/RecordMachine.thy ===== *)
theory RecordMachine
  imports RecordChecks MachineRecord
begin

text \<open>
  \<open>scripts/evidence/release-evidence.py\<close>, second part: the machine verification records that the
  evidence preserves, which artifacts they cover, the evidence of the build, and the subject graph.
\<close>

section \<open>Machine verification\<close>

definition MACHINE_VERIFICATION_CHECKS :: "string list" where
  "MACHINE_VERIFICATION_CHECKS = [''sha256sums'', ''cosign'', ''attestations'']"

definition record_subjects :: "string \<Rightarrow> obj \<Rightarrow> (string \<times> string) list" where
  "record_subjects name payload =
     (let vs = elems (dict_get payload (if name = ''attestations'' then ''verified_subjects'' else ''subjects'')) in
      map (\<lambda>s. (text_of (dict_get s ''name''), text_of (dict_get s ''sha256'')))
        (filter (\<lambda>s. is_str (dict_get s ''name'') \<and> is_str (dict_get s ''sha256'')) (map members (filter is_obj vs))))"

text \<open>\<open>covered_subjects.get(name, set())\<close>: the subjects of a check's record, unless its validation raised.\<close>

definition covered_subjects :: "record_ctx \<Rightarrow> obj \<Rightarrow> string \<Rightarrow> (string \<times> string) list" where
  "covered_subjects c verification name = (case ev_ref_file c (dict_get (members (dict_get verification name)) ''record'') of None \<Rightarrow> []
     | Some q \<Rightarrow> (let v = read_doc (rc_env c) q in
         if \<not> is_obj v then []
         else case validate_record (Some name) (members v) of Inl e \<Rightarrow> [] | Inr fs \<Rightarrow> record_subjects name (members v)))"

definition preserved_logs :: "string \<Rightarrow> json list \<Rightarrow> json list" where
  "preserved_logs n logs = filter (\<lambda>l. is_str l \<and> path_name (path_of (text_of l)) = n) logs"

definition machine_log :: "record_ctx \<Rightarrow> string \<Rightarrow> json \<Rightarrow> json \<Rightarrow> string list run" where
  "machine_log c p logs v = (let o' = members v; rel = dict_get o' ''path''; sha = dict_get o' ''sha256'' in
     if \<not> is_str rel \<or> \<not> is_str sha then Inr []
     else bindE (py_list logs) (\<lambda>ls. Inr (case preserved_logs (text_of rel) ls of
         [] \<Rightarrow> [msg p ''record log path must match preserved logs'']
       | l # _ \<Rightarrow> (case ev_file c l of None \<Rightarrow> []
           | Some q \<Rightarrow> report (JStr (file_sha (rc_files c) q) \<noteq> sha) (msg p ''record log sha256 must match preserved log'')))))"

definition attestation_materials :: "record_ctx \<Rightarrow> string \<Rightarrow> json \<Rightarrow> string list" where
  "attestation_materials c p v = (if \<not> is_list v \<or> elems v = [] then [msg p ''must preserve raw attestation JSON material'']
     else concat (map (\<lambda>(i, m). ev_ref c (p @ ''['' @ nat_str i @ '']'') m True) (enumerate 0 (elems v))))"

definition machine_document :: "record_ctx \<Rightarrow> string \<Rightarrow> string \<Rightarrow> obj \<Rightarrow> json \<Rightarrow> string list run" where
  "machine_document c p name check v = (let q = p @ ''.record.path''; payload = members v; schema = dict_get payload ''schema_version'' in
     if \<not> is_obj v then Inr [msg q ''must be machine verification JSON'']
     else collectE
      [bindE (in_str_set schema [MACHINE_LEGACY, MACHINE_SCHEMA]) (\<lambda>known. Inr
         (if \<not> known then [msg q (''schema_version must be '' @ MACHINE_SCHEMA)]
          else report (rc_pass c \<and> schema \<noteq> JStr MACHINE_SCHEMA) (msg q (''release-ready evidence requires '' @ MACHINE_SCHEMA)))),
       Inr (replay_failures q ''cannot validate machine verification JSON'' (validate_record (Some name) payload)),
       machine_log c q (dict_get check ''logs'') (dict_get payload ''log''),
       Inr (if name = ''attestations'' \<and> rc_pass c then attestation_materials c (p @ ''.materials'') (dict_get check ''materials'') else [])])"

definition machine_check :: "record_ctx \<Rightarrow> string \<Rightarrow> string \<Rightarrow> obj \<Rightarrow> string list run" where
  "machine_check c p name check = (let logs = dict_get check ''logs''; r = dict_get check ''record'' in collectE
     [ev_status (p @ ''.status'') (dict_get check ''status'') STATUS_VALUES,
      as_items (p @ ''.logs'') logs (walk_items (p @ ''.logs'') (\<lambda>q v. Inr (ev_relative c q v (rc_pass c)))),
      Inr (ev_ref c (p @ ''.record'') r (rc_pass c)),
      (case ev_ref_file c r of None \<Rightarrow> Inr [] | Some q \<Rightarrow> machine_document c p name check (read_doc (rc_env c) q)),
      Inr (must_be_passed (rc_pass c) (p @ ''.status'') (dict_get check ''status'')
        @ report (rc_pass c \<and> \<not> truthy logs) (msg (p @ ''.logs'') ''must include machine-verification logs''))])"

definition artifact_coverage :: "record_ctx \<Rightarrow> obj \<Rightarrow> obj \<Rightarrow> string list" where
  "artifact_coverage c verification artifact = (let n = dict_get artifact ''name''; sha = dict_get artifact ''sha256'' in
     if \<not> is_str n \<or> \<not> is_str sha then []
     else concat (map (\<lambda>check. report ((text_of n, text_of sha) \<notin> set (covered_subjects c verification check))
       (msg (''$.machine_verification.'' @ check @ ''.record'') (''must cover artifact subject '' @ text_of n))) [''cosign'', ''attestations'']))"

definition validate_machine_verification :: "record_ctx \<Rightarrow> obj \<Rightarrow> string list run" where
  "validate_machine_verification c evidence = as_members ''$.machine_verification'' (dict_get evidence ''machine_verification'') (\<lambda>verification.
     collectE
      [Inr (concat (map (\<lambda>n. report (\<not> dict_has verification n) (msg ''$.machine_verification'' (''missing required check: '' @ n)))
         MACHINE_VERIFICATION_CHECKS)),
       collectE (map (\<lambda>(n, v). let p = ''$.machine_verification.'' @ n in as_members p v (machine_check c p n)) verification),
       Inr (if rc_pass c then concat (map (artifact_coverage c verification)
          (map members (filter is_obj (elems (dict_get evidence ''artifacts''))))) else [])])"

section \<open>Build evidence\<close>

definition warning_document :: "string \<Rightarrow> json \<Rightarrow> string list" where
  "warning_document p v = (let summary = dict_get (members v) ''summary'' in
     if \<not> is_obj v then [msg p ''must be warning classifier JSON'']
     else (if \<not> is_obj summary then [msg p ''warning summary must be an object'']
           else report (\<not> py_eq (dict_get (members summary) ''owned'') (JInt 0)) (msg p ''warning owned count must be 0'')
             @ report (\<not> py_eq (dict_get (members summary) ''third-party'') (JInt 0)) (msg p ''warning third-party count must be 0''))
       @ concat (map (\<lambda>f. report (dict_get (members v) f \<noteq> JArr []) (msg p (''warning '' @ f @ '' must be empty'')))
           [''failing'', ''policy_errors'']))"

definition source_identity_document :: "record_ctx \<Rightarrow> string \<Rightarrow> json \<Rightarrow> string list run" where
  "source_identity_document c p v = (let payload = members v in
     if \<not> is_obj v then Inr [msg p ''must be Buildroot source identity JSON'']
     else bindE (validate_metadata_payload (rel_checkout (rc_env c)) payload) (\<lambda>fs. Inr (map (msg p) fs
       @ report (truthy (dict_get payload ''buildroot_patch_files'') \<and> \<not> truthy (dict_get payload ''buildroot_applied_diff_sha256''))
           (msg p ''patched Buildroot source identity must include buildroot_applied_diff_sha256''))))"

definition build_item :: "record_ctx \<Rightarrow> string \<Rightarrow> string \<Rightarrow> obj \<Rightarrow> string list run" where
  "build_item c collection p item = (let q = p @ ''.path'' in collectE
     [Inr (ev_digest_ref c p item (rc_pass c)),
      (case ev_file c (dict_get item ''path'') of None \<Rightarrow> Inr []
       | Some f \<Rightarrow> (let v = read_doc (rc_env c) f in
           if collection = ''warnings'' then Inr (warning_document q v)
           else if collection = ''source_identity'' then source_identity_document c q v else Inr []))])"

definition validate_build_evidence :: "record_ctx \<Rightarrow> obj \<Rightarrow> string list run" where
  "validate_build_evidence c evidence = as_members ''$.build_evidence'' (dict_get evidence ''build_evidence'') (\<lambda>build.
     let collections = [''logs'', ''warnings'', ''source_identity'']; s = dict_get build ''status'' in collectE
     [ev_status ''$.build_evidence.status'' s STATUS_VALUES,
      collectE (map (\<lambda>f. let p = ''$.build_evidence.'' @ f in as_items p (dict_get build f) (walk_objects p (build_item c f))) collections),
      Inr (must_be_passed (rc_pass c) ''$.build_evidence.status'' s
        @ report (rc_pass c \<and> \<not> list_all (\<lambda>f. truthy (dict_get build f)) collections)
            (msg ''$.build_evidence'' ''must include build logs, warning classifier evidence, and Buildroot source identity''))])"

text \<open>
  The release subject graph that the evidence
  preserves, its replay through \<open>validate-release-inputs.py\<close>, and the closure: every evidence node
  the graph requires is a file that the evidence preserves.
\<close>

section \<open>The subject of the evidence\<close>

definition expected_subject_id_for_evidence :: "record_ctx \<Rightarrow> obj \<Rightarrow> string option run" where
  "expected_subject_id_for_evidence c evidence = (let sha = dict_get (ev_source evidence) ''git_commit'';
       run_id = dict_get (source_image_build_identity evidence) ''run_id'';
       version = dict_get evidence ''version''; target = dict_get evidence ''target'' in
     if \<not> commit_text sha \<or> \<not> is_str run_id \<or> text_of run_id \<in> {[], ''not_collected''} \<or> \<not> is_str version \<or> \<not> is_str target
     then Inr None
     else bindE (from_checked (release_subject_id (text_of version) (text_of target) (text_of sha) (text_of run_id) (rc_contract c)))
       (\<lambda>i. Inr (Some i)))"

text \<open>Unlike the gate's nodes, these are not selected by role.\<close>

definition evidence_graph_nodes :: "obj \<Rightarrow> obj list" where
  "evidence_graph_nodes payload = (let subjects = dict_get payload ''subjects''; nodes = dict_get payload ''nodes'' in
     if is_list subjects then map members (filter is_obj (elems subjects))
     else if is_list nodes then map members (filter is_obj (elems nodes))
     else if is_str (dict_get payload ''subject_id'') then [payload] else [])"

section \<open>Replay\<close>

definition preserved_binding :: "record_ctx \<Rightarrow> obj \<Rightarrow> json" where
  "preserved_binding c evidence = (let r = dict_get (dict_or_empty (dict_get evidence ''preflight_inputs'')) ''release_input'' in
     case ev_ref_file c r of None \<Rightarrow> JNull | Some q \<Rightarrow> read_doc (rc_env c) q)"

definition replay_profile :: "obj \<Rightarrow> json \<Rightarrow> string option" where
  "replay_profile payload binding = (case str_option (dict_get (members binding) ''profile'') of
       None \<Rightarrow> str_option (dict_get payload ''profile'') | Some s \<Rightarrow> Some s)"

definition replay_subject_graph :: "record_ctx \<Rightarrow> obj \<Rightarrow> path \<Rightarrow> obj \<Rightarrow> string list" where
  "replay_subject_graph c evidence q payload = (let p = ''$.subject_graph.path''; what = ''cannot replay subject graph validation'';
       binding = preserved_binding c evidence in
     case release_load_matrix (rc_env c) (rc_matrix c) of
       Inl e \<Rightarrow> [msg p (what @ '': '' @ exc_text e)]
     | Inr matrix \<Rightarrow> if \<not> is_obj binding
         then [msg ''$.preflight_inputs.release_input'' ''must preserve release input binding for subject graph replay'']
         else (case replay_profile payload binding of
             None \<Rightarrow> [msg ''$.subject_graph.profile'' ''must identify the release input profile'']
           | Some profile \<Rightarrow> if profile = [] then [msg ''$.subject_graph.profile'' ''must identify the release input profile'']
               else replay_failures p what (validate_subject_graph (rc_env c) q
                 \<lparr>g_version = ev_text evidence ''version'', g_profile = profile, g_source_sha = ev_commit evidence, g_run_id = ev_run_id evidence,
                  g_matrix = matrix, g_binding = binding, g_root = None, g_check_files = False\<rparr>)))"

section \<open>What the evidence preserves\<close>

text \<open>A preserved file as the closure sees it.\<close>

record graph_ref =
  gr_role :: string
  gr_target :: string
  gr_sha256 :: string
  gr_bytes :: json
  gr_name :: json

definition append_graph_ref :: "string \<Rightarrow> string \<Rightarrow> json \<Rightarrow> json \<Rightarrow> graph_ref list" where
  "append_graph_ref role target name v = (let sha = dict_get (members v) ''sha256''; n = dict_get (members v) ''bytes'' in
     if \<not> is_obj v \<or> \<not> sha256_text sha \<or> \<not> positive_int n then []
     else [\<lparr>gr_role = role, gr_target = target, gr_sha256 = text_of sha, gr_bytes = n, gr_name = name\<rparr>])"

definition listed_refs :: "(json \<Rightarrow> graph_ref list) \<Rightarrow> json \<Rightarrow> graph_ref list" where
  "listed_refs f v = concat (map f (filter is_obj (elems v)))"

definition final_evidence_graph_refs :: "obj \<Rightarrow> graph_ref list" where
  "final_evidence_graph_refs evidence = (let target = ev_target evidence;
       preflight = dict_or_empty (dict_get evidence ''preflight_inputs'');
       own = (\<lambda>role v. append_graph_ref role target JNull v);
       named = (\<lambda>role f. listed_refs (\<lambda>v. append_graph_ref role target (dict_get (members v) f) v));
       targeted = (\<lambda>role. listed_refs (\<lambda>v. append_graph_ref role (py_str (dict_get_or (members v) ''target'' (JStr target))) JNull v));
       checks = dict_or_empty (dict_get (dict_or_empty (dict_get evidence ''governance'')) ''checks'') in
     own ''release-input-binding'' (dict_get preflight ''release_input'')
     @ own ''reproducibility'' (dict_get preflight ''reproducibility'')
     @ own ''retention-manifest'' (dict_get evidence ''retention_manifest'')
     @ own ''governance-role-bindings'' (dict_get evidence ''governance_role_bindings'')
     @ named ''compressed-release-artifact'' ''name'' (dict_get evidence ''artifacts'')
     @ targeted ''signing-manifest'' (dict_get evidence ''signing_manifests'')
     @ targeted ''hardware-subject'' (dict_get evidence ''hardware_subjects'')
     @ targeted ''ota-artifacts'' (dict_get evidence ''ota_artifacts'')
     @ named ''runtime-suite'' ''target'' (dict_get (dict_or_empty (dict_get evidence ''runtime_qemu'')) ''production_suites'')
     @ named ''scanner-native-report'' ''name'' (dict_get evidence ''scanner_native_reports'')
     @ named ''scanner-native-report'' ''name'' (dict_get evidence ''release_image_scan_reports'')
     @ own ''station-registry'' (dict_get (dict_or_empty (dict_get evidence ''hardware'')) ''station_registry'')
     @ own ''governance-snapshot'' (dict_get checks ''policy_validation''))"

section \<open>Closure\<close>

definition graph_required_evidence_nodes :: "obj \<Rightarrow> string \<Rightarrow> obj list" where
  "graph_required_evidence_nodes payload subject = filter (\<lambda>n. dict_get n ''required'' = JBool True \<and> dict_get n ''subject_id'' = JStr subject)
     (map members (filter is_obj (elems (dict_get payload ''evidence_nodes''))))"

definition preserved_node :: "graph_ref list \<Rightarrow> obj \<Rightarrow> bool" where
  "preserved_node refs node \<longleftrightarrow> list_ex (\<lambda>r. JStr (gr_role r) = dict_get node ''role'' \<and> JStr (gr_sha256 r) = dict_get node ''sha256'' \<and>
     py_eq (gr_bytes r) (dict_get node ''bytes'')) refs"

definition closure_node :: "obj \<Rightarrow> graph_ref list \<Rightarrow> nat \<Rightarrow> obj \<Rightarrow> string list run" where
  "closure_node evidence refs i node = (let role = dict_get node ''role''; sha = dict_get node ''sha256''; n = dict_get node ''bytes'';
       p = ''$.subject_graph.evidence_nodes['' @ nat_str i @ '']'' in
     bindE (in_str_set role [''raw-image'']) (\<lambda>raw. Inr
       (if raw then []
        else if role = JStr ''compressed-release-artifact'' \<and> is_str sha \<and> text_of sha \<in> set (evidence_artifact_sha256s evidence) then []
        else if \<not> nonblank_str role then [msg (p @ ''.role'') ''must be a non-placeholder string'']
        else if \<not> nonzero_sha256 sha then [msg (p @ ''.sha256'') ''must be preserved for final closure'']
        else if \<not> positive_int n then [msg (p @ ''.bytes'') ''must be preserved for final closure'']
        else report (\<not> preserved_node refs node)
          (msg p (''required graph node is not preserved in final evidence: '' @ text_of role @ '' '' @ py_str (dict_get node ''path''))))))"

definition validate_subject_graph_closure :: "obj \<Rightarrow> obj \<Rightarrow> obj \<Rightarrow> string list run" where
  "validate_subject_graph_closure evidence graph node = (let subject = dict_get node ''subject_id'';
       required = graph_required_evidence_nodes graph (text_of subject) in
     if \<not> is_str subject then Inr [msg ''$.subject_graph.subject_id'' ''must be present for closure validation'']
     else if required = [] then Inr [msg ''$.subject_graph.evidence_nodes'' ''must include required evidence closure nodes'']
     else collectE (map (\<lambda>(i, n). closure_node evidence (final_evidence_graph_refs evidence) i n) (enumerate 0 required)))"

section \<open>The section\<close>

definition graph_node_checks :: "record_ctx \<Rightarrow> obj \<Rightarrow> obj \<Rightarrow> string list run" where
  "graph_node_checks c evidence node = collectE
     [bindE (expected_subject_id_for_evidence c evidence) (\<lambda>expected. Inr (case expected of None \<Rightarrow> []
        | Some i \<Rightarrow> report (dict_get node ''subject_id'' \<noteq> JStr i) (msg ''$.subject_graph.subject_id'' ''must match canonical release subject id''))),
      (if evidence_artifact_sha256s evidence = [] then Inr []
       else bindE (in_str_set (fst (compressed_of node)) (evidence_artifact_sha256s evidence)) (\<lambda>bound. Inr
         (report (\<not> bound) (msg ''$.subject_graph.compressed_artifact_sha256'' ''must bind an evidence artifact digest''))))]"

definition graph_section_document :: "record_ctx \<Rightarrow> obj \<Rightarrow> bool \<Rightarrow> path \<Rightarrow> obj \<Rightarrow> string list run" where
  "graph_section_document c evidence closure q payload = collectE
     [bindE (from_checked (contract_schema_version ''release_subject_graph'' (rc_contract c))) (\<lambda>schema. Inr
        (report (dict_get payload ''schema_version'' \<noteq> JStr schema) (msg ''$.subject_graph.schema_version'' (''must be '' @ schema)))),
      bindE (none_or (dict_get payload ''version'') (dict_get evidence ''version'')) (\<lambda>same. Inr
        (report (\<not> same) (msg ''$.subject_graph.version'' ''must match evidence.version''))),
      (case filter (\<lambda>n. dict_get n ''target'' = JStr (ev_target evidence)) (evidence_graph_nodes payload) of
         [] \<Rightarrow> bindE (expected_subject_id_for_evidence c evidence) (\<lambda>_. Inr
           [msg ''$.subject_graph.nodes'' (''must include target '' @ ev_target evidence)])
       | node # _ \<Rightarrow> collectE
           [graph_node_checks c evidence node,
            (if closure then collectE [Inr (replay_subject_graph c evidence q payload),
               validate_subject_graph_closure evidence payload node] else Inr [])])]"

definition validate_subject_graph_section :: "record_ctx \<Rightarrow> obj \<Rightarrow> bool \<Rightarrow> string list run" where
  "validate_subject_graph_section c evidence closure = (let v = dict_get evidence ''subject_graph'' in collectE
     [Inr (ev_ref c ''$.subject_graph'' v (rc_pass c)),
      replay_of c v (\<lambda>q. let payload = read_doc (rc_env c) q in
        if \<not> is_obj payload then Inr [msg ''$.subject_graph.path'' ''must be release subject graph JSON'']
        else graph_section_document c evidence closure q (members payload))])"

end
