(* ===== verification/RecordReplay.thy ===== *)
theory RecordReplay
  imports RecordMachine SecurityReplay
begin

text \<open>
  \<open>scripts/evidence/release-evidence.py\<close>, third part: the inputs of the preflight that the evidence
  preserves and replays through their own validators, and the governance of the release.
\<close>

section \<open>Role bindings and retention\<close>

definition validate_governance_role_bindings_section :: "record_ctx \<Rightarrow> obj \<Rightarrow> string list run" where
  "validate_governance_role_bindings_section c evidence = (let v = dict_get evidence ''governance_role_bindings'' in collectE
     [Inr (ev_ref c ''$.governance_role_bindings'' v (rc_pass c)),
      replay_of c v (\<lambda>q. Inr (replay_failures ''$.governance_role_bindings.path'' ''cannot replay governance role binding validation''
        (validate_governance_role_bindings (rc_env c) q (ev_text evidence ''version''))))])"

definition validate_retention_manifest_section :: "record_ctx \<Rightarrow> obj \<Rightarrow> string list run" where
  "validate_retention_manifest_section c evidence = (let v = dict_get evidence ''retention_manifest'' in collectE
     [Inr (ev_ref c ''$.retention_manifest'' v (rc_pass c)),
      replay_of c v (\<lambda>q. Inr (replay_failures ''$.retention_manifest.path'' ''cannot replay retention manifest validation''
        (validate_retention_manifest (rc_env c) q (ev_text evidence ''version'') (ev_commit evidence) (ev_run_id evidence))))])"

section \<open>Signing manifests and hardware subjects\<close>

definition item_target :: "obj \<Rightarrow> json \<Rightarrow> string" where
  "item_target evidence v = (case str_option (dict_get (members v) ''target'') of None \<Rightarrow> ev_text evidence ''target'' | Some s \<Rightarrow> s)"

text \<open>An item of either list: the file it preserves, its target, and the replay for that target.\<close>

definition targeted_item :: "record_ctx \<Rightarrow> obj \<Rightarrow> string \<Rightarrow> (path \<Rightarrow> string \<Rightarrow> string list run) \<Rightarrow> string \<Rightarrow> json \<Rightarrow> string list run" where
  "targeted_item c evidence what replay p v = collectE
     [Inr (ev_ref c p v (rc_pass c) @ (if is_obj v then ev_string (p @ ''.target'') (dict_get (members v) ''target'') else [])),
      replay_of c v (\<lambda>q. Inr (replay_failures (p @ ''.path'') what (replay q (item_target evidence v))))]"

definition replay_signing_manifest :: "record_ctx \<Rightarrow> obj \<Rightarrow> path \<Rightarrow> string \<Rightarrow> string list run" where
  "replay_signing_manifest c evidence q target = validate_signing_manifest (rc_env c) q
     \<lparr>s_version = ev_text evidence ''version'', s_target = target, s_source_sha = ev_commit evidence, s_run_id = ev_run_id evidence,
      s_artifacts = evidence_artifact_sha256s evidence, s_role_outputs = []\<rparr>"

definition validate_signing_manifests_section :: "record_ctx \<Rightarrow> obj \<Rightarrow> bool \<Rightarrow> string list run" where
  "validate_signing_manifests_section c evidence required = (let p = ''$.signing_manifests'' in
     as_items p (dict_get evidence ''signing_manifests'') (\<lambda>vs. collectE
      [Inr (report (strictly c required \<and> vs = []) (msg p ''must preserve signing manifests'')),
       walk_items p (targeted_item c evidence ''cannot replay signing manifest validation'' (replay_signing_manifest c evidence)) vs]))"

definition replay_hardware_subject :: "record_ctx \<Rightarrow> obj \<Rightarrow> path \<Rightarrow> string \<Rightarrow> string list run" where
  "replay_hardware_subject c evidence q target = validate_hardware_subject (rc_env c) q
     \<lparr>h_version = ev_text evidence ''version'', h_target = target, h_source_sha = ev_commit evidence, h_run_id = ev_run_id evidence,
      h_artifacts = evidence_artifact_sha256s evidence, h_event_ids = None, h_acquisition = None, h_registry = None\<rparr>"

definition validate_hardware_subjects_section :: "record_ctx \<Rightarrow> obj \<Rightarrow> bool \<Rightarrow> string list run" where
  "validate_hardware_subjects_section c evidence required = (let p = ''$.hardware_subjects'' in
     as_items p (dict_get evidence ''hardware_subjects'') (\<lambda>vs. collectE
      [Inr (report (rc_pass c \<and> required \<and> vs = []) (msg p ''must preserve hardware subject evidence'')),
       walk_items p (targeted_item c evidence ''cannot replay hardware subject validation'' (replay_hardware_subject c evidence)) vs]))"

section \<open>Preflight inputs\<close>

text \<open>A commit of another type than string, which \<open>validate_source\<close> refuses, is compared as its text.\<close>

definition replay_preflight_approval :: "record_ctx \<Rightarrow> obj \<Rightarrow> path \<Rightarrow> string list" where
  "replay_preflight_approval c evidence q = (let p = ''$.preflight_inputs.approval.path''; payload = read_doc (rc_env c) q;
       sha = dict_get (ev_source evidence) ''git_commit'' in
     if \<not> is_obj payload then [msg p ''must be approval JSON'']
     else replay_failures p ''cannot validate approval JSON'' (validate_approval_payload payload (ev_text evidence ''version'') (ev_text evidence ''target'')
       (if sha = JNull then None else Some (py_str sha)) True (rel_now (rc_env c))))"

definition replay_preflight_repro :: "record_ctx \<Rightarrow> obj \<Rightarrow> path \<Rightarrow> string list" where
  "replay_preflight_repro c evidence q = map (msg ''$.preflight_inputs.reproducibility.path'') (validate_repro (rc_env c) q
     \<lparr>rp_version = Some (ev_text evidence ''version''), rp_target = Some (ev_text evidence ''target''), rp_source_sha = ev_commit evidence,
      rp_run_id = str_option (dict_get (source_image_build_identity evidence) ''run_id''), rp_check_files = True\<rparr>)"

definition raw_evidence_item :: "record_ctx \<Rightarrow> string \<Rightarrow> json \<Rightarrow> string list" where
  "raw_evidence_item c p v = (let item = members v; source = dict_get item ''source_path'' in
     ev_ref c p v (rc_pass c)
     @ (if \<not> is_obj v then []
        else ev_strings p item [''name'', ''source_path'']
          @ report (is_str source \<and> inner_path source = None)
              (msg (p @ ''.source_path'') (''must be relative and must not contain '' @ repr_str ''..''))
          @ (if dict_has item ''report_sha256'' then ev_sha256 (p @ ''.report_sha256'') (dict_get item ''report_sha256'') True
               @ report (\<not> py_eq (dict_get item ''report_sha256'') (dict_get item ''sha256''))
                   (msg (p @ ''.report_sha256'') ''must match preserved raw evidence sha256'') else [])
          @ (if dict_has item ''report_bytes'' then ev_positive (p @ ''.report_bytes'') (dict_get item ''report_bytes'') True
               @ report (\<not> py_eq (dict_get item ''report_bytes'') (dict_get item ''bytes''))
                   (msg (p @ ''.report_bytes'') ''must match preserved raw evidence bytes'') else [])
          @ (case Option.bind (ev_ref_file c v) (rc_files c) of None \<Rightarrow> []
             | Some f \<Rightarrow> report (10 * 1024 * 1024 < size_of f) (msg p ''raw security evidence exceeds 10 MiB cap''))))"

text \<open>\<open>raw_by_source.get\<close>: the last item with the path and digest.\<close>

definition raw_by_source :: "json list \<Rightarrow> json \<Rightarrow> json \<Rightarrow> obj option" where
  "raw_by_source vs rel sha = find (\<lambda>o'. dict_get o' ''source_path'' = rel \<and> dict_get o' ''sha256'' = sha) (rev (map members (filter is_obj vs)))"

definition raw_report_binding :: "json list \<Rightarrow> string \<Rightarrow> obj \<Rightarrow> string list" where
  "raw_report_binding raws p payload = (let rel = dict_get payload ''evidence_path''; sha = dict_get payload ''evidence_sha256'';
       n = dict_get payload ''evidence_bytes'' in
     if \<not> is_str rel \<or> \<not> is_str sha then []
     else case raw_by_source raws rel sha of None \<Rightarrow> [msg p ''must preserve matching raw security evidence'']
       | Some raw \<Rightarrow> report (is_int n \<and> \<not> py_eq (dict_get raw ''bytes'') n) (msg p ''raw security evidence bytes must match report''))"

definition preflight_report :: "record_ctx \<Rightarrow> obj \<Rightarrow> json list \<Rightarrow> string \<Rightarrow> json \<Rightarrow> string list run" where
  "preflight_report c evidence raws p v = collectE
     [Inr (ev_ref c p v (rc_pass c)),
      replay_of c v (\<lambda>q. Inr (case validate_security_report (rc_env c) (raw_security_replay (rc_env c)) q
          \<lparr>se_scan = py_str (dict_get (members v) ''name''), se_version = ev_text evidence ''version'', se_source_sha = ev_commit evidence,
           se_run_id = ev_run_id evidence, se_check_files = rc_check c\<rparr> of
          Inl e \<Rightarrow> [msg (p @ ''.path'') (''cannot validate security report: '' @ exc_text e)]
        | Inr fs \<Rightarrow> map (msg (p @ ''.path'')) fs @ (case read_doc (rc_env c) q of
            JObj payload \<Rightarrow> raw_report_binding raws (p @ ''.path'') payload | _ \<Rightarrow> [])))]"

definition validate_preflight_inputs :: "record_ctx \<Rightarrow> obj \<Rightarrow> string list run" where
  "validate_preflight_inputs c evidence = as_members ''$.preflight_inputs'' (dict_get evidence ''preflight_inputs'') (\<lambda>inputs.
     let p = (\<lambda>f. ''$.preflight_inputs.'' @ f); reports = dict_get inputs ''security_reports''; raws = dict_get inputs ''security_raw_evidence'' in collectE
     [Inr (ev_ref c (p ''approval'') (dict_get inputs ''approval'') (rc_pass c)),
      replay_of c (dict_get inputs ''approval'') (\<lambda>q. Inr (replay_preflight_approval c evidence q)),
      Inr (ev_ref c (p ''reproducibility'') (dict_get inputs ''reproducibility'') (rc_pass c)),
      replay_of c (dict_get inputs ''reproducibility'') (\<lambda>q. Inr (replay_preflight_repro c evidence q)),
      Inr (report (\<not> is_list reports) (msg (p ''security_reports'') ''must be a list'')
        @ report (\<not> is_list raws) (msg (p ''security_raw_evidence'') ''must be a list'')),
      walk_items (p ''security_raw_evidence'') (\<lambda>q v. Inr (raw_evidence_item c q v)) (elems raws),
      walk_items (p ''security_reports'') (preflight_report c evidence (elems raws)) (elems reports)])"

section \<open>Governance\<close>

definition EVIDENCE_GOVERNANCE_CHECKS :: "string list" where
  "EVIDENCE_GOVERNANCE_CHECKS = [''policy_validation'', ''snapshot_manifest'', ''repo'', ''branch_protection'', ''rulesets'',
     ''release_sign_environment'', ''release_sign_environment_deployment_policy'', ''release_environment'',
     ''release_environment_deployment_policy'', ''workflow_permissions'', ''codeowners'', ''audit_log'']"

definition policy_validation_document :: "string \<Rightarrow> json \<Rightarrow> string list" where
  "policy_validation_document p v = (if \<not> is_obj v then [msg p ''must be a governance validation JSON object'']
     else report (dict_get (members v) ''schema_version'' \<noteq> JStr ''suderra.github-governance-validation.v2'')
         (msg p ''schema_version must be suderra.github-governance-validation.v2'')
       @ report (dict_get (members v) ''status'' \<noteq> JStr ''passed'') (msg p ''governance policy validation must be passed''))"

definition governance_check :: "record_ctx \<Rightarrow> string \<Rightarrow> string \<Rightarrow> obj \<Rightarrow> string list run" where
  "governance_check c p name check = (let s = dict_get check ''status''; q = p @ ''.evidence'' in collectE
     [ev_status (p @ ''.status'') s STATUS_VALUES,
      Inr (ev_relative c q (dict_get check ''evidence'') (rc_pass c)
        @ must_be_passed (rc_pass c) (p @ ''.status'') s
        @ (if rc_pass c \<and> name = ''policy_validation'' then
             (case ev_file c (dict_get check ''evidence'') of None \<Rightarrow> [] | Some f \<Rightarrow> policy_validation_document q (read_doc (rc_env c) f))
           else []))])"

definition validate_governance_section :: "record_ctx \<Rightarrow> obj \<Rightarrow> string list run" where
  "validate_governance_section c evidence = as_members ''$.governance'' (dict_get evidence ''governance'') (\<lambda>governance.
     let years = dict_get governance ''retention_years'' in collectE
     [Inr ((if \<not> positive_int years then [msg ''$.governance.retention_years'' ''must be a positive integer'']
         else report (rc_pass c \<and> int_of years < 7) (msg ''$.governance.retention_years'' ''must be at least 7 for enterprise release evidence''))
        @ ev_string ''$.governance.approval_model'' (dict_get governance ''approval_model'')),
      as_members ''$.governance.checks'' (dict_get governance ''checks'') (\<lambda>checks. collectE
        [Inr (concat (map (\<lambda>n. report (\<not> dict_has checks n) (msg ''$.governance.checks'' (''missing required check: '' @ n)))
           EVIDENCE_GOVERNANCE_CHECKS)),
         collectE (map (\<lambda>(n, v). let p = ''$.governance.checks.'' @ n in as_members p v (governance_check c p n)) checks)])])"

end
