(* ===== verification/RecordRuntime.thy ===== *)
theory RecordRuntime
  imports RecordReplay QemuInput RuntimeSuite
begin

text \<open>
  \<open>scripts/evidence/release-evidence.py\<close>, fourth part: the evidence of running the image. The QEMU
  acceptance, the production runtime suites and their observations, the runtime checks, and the
  reports of the scanners on the release images.
\<close>

section \<open>Shared\<close>

text \<open>The flag \<open>required\<close> of a section, which has to agree with what the matrix and the policy say.\<close>

definition required_flag :: "string \<Rightarrow> obj \<Rightarrow> bool \<Rightarrow> string list" where
  "required_flag p o' required = (let v = dict_get o' ''required'' in
     ev_bool (p @ ''.required'') v
     @ report (is_bool v \<and> v \<noteq> JBool required) (msg (p @ ''.required'') (''must match matrix-derived requirement '' @ py_repr (JBool required))))"

definition required_digests :: "string \<Rightarrow> obj \<Rightarrow> string list \<Rightarrow> string list" where
  "required_digests p o' names = concat (map (\<lambda>f. ev_sha256 (p @ ''.'' @ f) (dict_get o' f) True) names)"

text \<open>A digest that is checked only where the object has it.\<close>

definition given_digest :: "string \<Rightarrow> obj \<Rightarrow> string \<Rightarrow> string list" where
  "given_digest p o' f = (if dict_has o' f then ev_sha256 (p @ ''.'' @ f) (dict_get o' f) True else [])"

section \<open>QEMU acceptance\<close>

definition REQUIRED_QEMU_CHECKS :: "string list" where
  "REQUIRED_QEMU_CHECKS = [''boot'', ''systemd'', ''zero-failed-units'', ''firstboot-idempotence'', ''network'', ''lockdown-transition'']"

definition SEMANTIC_FACTS :: "string list" where
  "SEMANTIC_FACTS = [''os_release'', ''kernel'', ''rootfs'', ''failed_units'', ''network'', ''listeners'', ''firewall'', ''firstboot'', ''lockdown'']"

definition qemu_log :: "record_ctx \<Rightarrow> string \<Rightarrow> json \<Rightarrow> string list" where
  "qemu_log c p v = (let log = members v; rel = dict_get log ''path''; sha = dict_get log ''sha256''; n = dict_get log ''bytes'' in
     if \<not> is_obj v then ev_relative c p v True
     else (if dict_has log ''role'' then ev_string (p @ ''.role'') (dict_get log ''role'') else [])
       @ ev_relative c (p @ ''.path'') rel True
       @ ev_sha256 (p @ ''.sha256'') sha True
       @ (if dict_get log ''role'' = JStr ''qemu-stderr''
          then report (\<not> int_above (-1) n) (msg (p @ ''.bytes'') ''must be a non-negative integer'')
          else ev_positive (p @ ''.bytes'') n True)
       @ ev_file_sha c (p @ ''.sha256'') rel sha
       @ ev_file_size c (p @ ''.bytes'') rel n
       @ given_digest p log ''input_sha256'')"

definition qemu_check_names :: "string \<Rightarrow> json list \<Rightarrow> string list" where
  "qemu_check_names p vs = concat (map (\<lambda>(i, v). ev_string (p @ ''['' @ nat_str i @ '']'') v) (enumerate 0 vs))"

definition qemu_termination :: "bool \<Rightarrow> json \<Rightarrow> string list" where
  "qemu_termination strict v = (let t = members v; p = ''$.qemu.execution.termination'';
       must = (\<lambda>b f m. report (strict \<and> \<not> b (dict_get t f)) (msg (p @ ''.'' @ f) (m @ '' when QEMU evidence is required''))) in
     if \<not> is_obj v then [msg p ''must be an object'']
     else concat (map (\<lambda>f. report (dict_has t f \<and> \<not> is_bool (dict_get t f)) (msg (p @ ''.'' @ f) ''must be a boolean''))
         [''killed'', ''timeout'', ''qmp_quit_sent'', ''qmp_quit_ack'', ''acceptable''])
       @ must (\<lambda>v. v = JBool True) ''acceptable'' ''must be true''
       @ must (\<lambda>v. v = JBool False) ''killed'' ''must be false''
       @ must (\<lambda>v. py_eq v (JInt 0)) ''exit_status'' ''must be 0'')"

definition qemu_execution :: "bool \<Rightarrow> json \<Rightarrow> string list" where
  "qemu_execution strict v = (let execution = members v; status = dict_get execution ''qemu_exit_status'' in
     if v = JNull then []
     else if \<not> is_obj v then [msg ''$.qemu.execution'' ''must be an object'']
     else (if dict_has execution ''termination'' then qemu_termination strict (dict_get execution ''termination'') else [])
       @ report (strict \<and> \<not> py_eq status (JInt 0) \<and> status \<noteq> JNull)
           (msg ''$.qemu.execution.qemu_exit_status'' ''must be 0 when QEMU evidence is required''))"

definition qemu_profile :: "obj \<Rightarrow> obj \<Rightarrow> string" where
  "qemu_profile evidence qemu = (let v = dict_get qemu ''validation_profile'' in
     if nonempty_str v then text_of v else release_ready_profile evidence)"

definition replay_qemu_input :: "record_ctx \<Rightarrow> obj \<Rightarrow> obj \<Rightarrow> path \<Rightarrow> string list run" where
  "replay_qemu_input c evidence qemu q = validate_qemu_input (rc_files c) q
     \<lparr>check_files = True, require_pass = True, profile = qemu_profile evidence qemu,
      expected_version = Some (ev_text evidence ''version''), expected_target = Some (ev_text evidence ''target''),
      expected_source_sha = ev_commit evidence, expected_artifact_sha256 = str_option (dict_get qemu ''image_sha256'')\<rparr>"

definition qemu_input_ref :: "record_ctx \<Rightarrow> obj \<Rightarrow> obj \<Rightarrow> string list" where
  "qemu_input_ref c evidence qemu = (let v = dict_get qemu ''input'' in
     if \<not> is_obj v then [msg ''$.qemu.input'' ''must preserve the validated QEMU input JSON'']
     else ev_digest_ref c ''$.qemu.input'' (members v) True
       @ (case ev_ref_file c v of None \<Rightarrow> []
          | Some q \<Rightarrow> replay_failures ''$.qemu.input.path'' ''cannot replay QEMU input validation'' (replay_qemu_input c evidence qemu q)))"

definition qemu_facts :: "json \<Rightarrow> string list" where
  "qemu_facts v = (if \<not> is_obj v \<or> members v = [] then [msg ''$.qemu.guest_facts'' ''must include semantic guest facts'']
     else concat (map (\<lambda>f. report (\<not> dict_has (members v) f) (msg ''$.qemu.guest_facts'' (''missing semantic fact: '' @ f))) SEMANTIC_FACTS))"

definition qemu_missing_checks :: "json \<Rightarrow> string list run" where
  "qemu_missing_checks v = bindE (items_or_none v) (\<lambda>vs. bindE (hashed vs) (\<lambda>vs.
     let missing = sorted_set (minus_list REQUIRED_QEMU_CHECKS (map text_of (filter is_str vs))) in
     Inr (report (missing \<noteq> []) (msg ''$.qemu.checks'' (''missing required checks: '' @ comma_join missing)))))"

definition required_qemu :: "record_ctx \<Rightarrow> obj \<Rightarrow> obj \<Rightarrow> string list run" where
  "required_qemu c evidence qemu = (let details = py_or (dict_get qemu ''check_details'') (dict_get qemu ''semantic_checks'') in collectE
     [Inr (qemu_input_ref c evidence qemu
        @ ev_strings ''$.qemu'' qemu [''image'', ''firmware'']
        @ required_digests ''$.qemu'' qemu [''image_sha256'', ''firmware_sha256'']
        @ qemu_facts (dict_get qemu ''guest_facts'')
        @ report (\<not> is_obj details \<or> members details = []) (msg ''$.qemu.check_details'' ''must preserve semantic QEMU check details'')
        @ report (dict_get qemu ''status'' \<noteq> JStr ''passed'') (msg ''$.qemu.status'' ''must be passed when QEMU evidence is required'')
        @ report (\<not> truthy (dict_get qemu ''logs'')) (msg ''$.qemu.logs'' ''must include at least one log when QEMU is required'')),
      qemu_missing_checks (dict_get qemu ''checks'')])"

definition validate_qemu :: "record_ctx \<Rightarrow> obj \<Rightarrow> bool \<Rightarrow> string list run" where
  "validate_qemu c evidence required = as_members ''$.qemu'' (dict_get evidence ''qemu'') (\<lambda>qemu.
     let strict = (rc_pass c \<and> required); details = dict_get qemu ''check_details'' in collectE
     [Inr (required_flag ''$.qemu'' qemu required),
      ev_status ''$.qemu.status'' (dict_get qemu ''status'') STATUS_VALUES,
      as_items ''$.qemu.logs'' (dict_get qemu ''logs'') (walk_items ''$.qemu.logs'' (\<lambda>p v. Inr (qemu_log c p v))),
      as_items ''$.qemu.checks'' (dict_get qemu ''checks'') (\<lambda>vs. Inr (qemu_check_names ''$.qemu.checks'' vs)),
      (if dict_has qemu ''failure_class'' then ev_status ''$.qemu.failure_class'' (dict_get qemu ''failure_class'') FAILURE_CLASS_VALUES
       else Inr []),
      Inr (qemu_execution strict (dict_get qemu ''execution'')
        @ report (details \<noteq> JNull \<and> \<not> is_obj details) (msg ''$.qemu.check_details'' ''must be an object'')),
      (if strict then required_qemu c evidence qemu else Inr [])])"

section \<open>Production runtime suites\<close>

definition runtime_suite_target_for :: "string list \<Rightarrow> string \<Rightarrow> string" where
  "runtime_suite_target_for targets target = (case targets of [] \<Rightarrow> target | t # _ \<Rightarrow> t)"

definition replay_runtime_suite :: "record_ctx \<Rightarrow> obj \<Rightarrow> string \<Rightarrow> path \<Rightarrow> string list run" where
  "replay_runtime_suite c evidence target q = bindE (from_checked (suite_policy_of (rc_contract c))) (\<lambda>policy.
     validate_suite (rc_files c) policy q
      \<lparr>suite_check_files = rc_check c, suite_require_pass = True, suite_version = Some (ev_text evidence ''version''),
       suite_target = Some target, suite_source_sha = ev_commit evidence, suite_run_id = None, suite_run_attempt = None,
       suite_defconfig = None, suite_image_sha256 = None, suite_raw_sha256 = None, suite_compressed_sha256 = None,
       suite_release_artifact = None, suite_profile = ''production-candidate''\<rparr>)"

definition runtime_suite_item :: "record_ctx \<Rightarrow> obj \<Rightarrow> string list \<Rightarrow> string \<Rightarrow> json \<Rightarrow> string list run" where
  "runtime_suite_item c evidence targets p v = (let t = dict_get (members v) ''target'';
       expected = (if is_str t then text_of t else runtime_suite_target_for targets (ev_target evidence)) in collectE
     [Inr (report (targets \<noteq> [] \<and> is_str t \<and> text_of t \<notin> set targets)
          (msg (p @ ''.target'') (''must be one of: '' @ comma_join (sorted_set targets)))
        @ ev_ref c p v (rc_pass c)),
      replay_of c v (\<lambda>q. Inr (replay_failures (p @ ''.path'') ''cannot replay production-runtime suite validation''
        (replay_runtime_suite c evidence expected q)))])"

definition validate_runtime_qemu :: "record_ctx \<Rightarrow> obj \<Rightarrow> bool \<Rightarrow> string list run" where
  "validate_runtime_qemu c evidence required = as_members ''$.runtime_qemu'' (dict_get evidence ''runtime_qemu'') (\<lambda>runtime.
     let p = ''$.runtime_qemu.production_suites''; strict = strictly c required in collectE
     [Inr (required_flag ''$.runtime_qemu'' runtime required),
      ev_status ''$.runtime_qemu.status'' (dict_get runtime ''status'') STATUS_VALUES,
      as_items p (dict_get runtime ''production_suites'') (\<lambda>suites.
        bindE (from_checked (runtime_suite_targets_for (ev_target evidence) (rc_contract c))) (\<lambda>targets.
        let missing = sorted_set (minus_list targets (names_in ''target'' suites)) in collectE
        [Inr (report (strict \<and> suites = []) (msg p ''must include production-runtime QEMU suite evidence'')),
         walk_items p (runtime_suite_item c evidence targets) suites,
         Inr (report (strict \<and> missing \<noteq> []) (msg p (''missing required runtime suite targets: '' @ comma_join missing))
           @ report (strict \<and> dict_get runtime ''status'' \<noteq> JStr ''passed'')
               (msg ''$.runtime_qemu.status'' ''must be passed for production release evidence''))]))])"

section \<open>Runtime observations and checks\<close>

definition OBSERVATION_FIELDS :: "string list" where
  "OBSERVATION_FIELDS = [''suite_target'', ''scenario'', ''observed_outcome'', ''source'', ''schema_version'', ''suite_path'', ''suite_sha256'']"

definition observation_key :: "obj \<Rightarrow> string \<times> string" where
  "observation_key item = (py_str (dict_get item ''suite_target''), py_str (dict_get item ''scenario''))"

definition observation_item :: "record_ctx \<Rightarrow> string \<Rightarrow> obj \<Rightarrow> (string \<times> string) list \<Rightarrow> string list run" where
  "observation_item c p item seen = (let sha = dict_get item ''suite_sha256'' in
     bindE (from_checked (contract_schema_version ''runtime_observation'' (rc_contract c))) (\<lambda>schema. Inr
       (ev_strings p item OBSERVATION_FIELDS
        @ report (dict_get item ''schema_version'' \<noteq> JStr schema) (msg (p @ ''.schema_version'') ''must be the runtime observation schema'')
        @ (if is_str sha then ev_sha256 (p @ ''.suite_sha256'') sha True else [])
        @ report (observation_key item \<in> set seen) (msg p ''must be unique per suite_target and scenario''))))"

fun observation_items :: "record_ctx \<Rightarrow> (string \<times> string) list \<Rightarrow> nat \<Rightarrow> json list \<Rightarrow> string list run" where
  "observation_items c seen i [] = Inr []"
| "observation_items c seen i (v # vs) = (let p = ''$.runtime_observations['' @ nat_str i @ '']'' in
     if \<not> is_obj v then collectE [Inr [msg p ''must be an object''], observation_items c seen (Suc i) vs]
     else collectE [observation_item c p (members v) seen, observation_items c (observation_key (members v) # seen) (Suc i) vs])"

definition validate_runtime_observations_section :: "record_ctx \<Rightarrow> obj \<Rightarrow> bool \<Rightarrow> string list run" where
  "validate_runtime_observations_section c evidence required = (let p = ''$.runtime_observations'' in
     as_items p (dict_get evidence ''runtime_observations'') (\<lambda>vs. collectE
      [Inr (report (strictly c required \<and> vs = []) (msg p ''must preserve typed runtime observations'')),
       observation_items c [] 0 vs]))"

definition runtime_check :: "record_ctx \<Rightarrow> bool \<Rightarrow> string \<Rightarrow> obj \<Rightarrow> string list run" where
  "runtime_check c required p check = collectE
     [Inr (required_flag p check required),
      ev_status (p @ ''.status'') (dict_get check ''status'') STATUS_VALUES,
      Inr (ev_relative c (p @ ''.evidence'') (dict_get check ''evidence'') (strictly c required)
        @ must_be_passed (strictly c required) (p @ ''.status'') (dict_get check ''status''))]"

definition validate_runtime_checks :: "record_ctx \<Rightarrow> obj \<Rightarrow> bool \<Rightarrow> string list run" where
  "validate_runtime_checks c evidence required = as_members ''$.runtime_checks'' (dict_get evidence ''runtime_checks'') (\<lambda>checks.
     bindE (from_checked (runtime_required_checks (rc_contract c))) (\<lambda>names. collectE
      [Inr (concat (map (\<lambda>n. report (\<not> dict_has checks n) (msg ''$.runtime_checks'' (''missing required check: '' @ n))) (map text_of names))),
       collectE (map (\<lambda>(n, v). let p = ''$.runtime_checks.'' @ n in as_members p v (runtime_check c required p)) checks)]))"

section \<open>Scanner reports\<close>

text \<open>The name, digest and size of each release image of the evidence.\<close>

definition release_subjects :: "json list \<Rightarrow> (string \<times> string \<times> json) list" where
  "release_subjects vs = map (\<lambda>o'. (text_of (dict_get o' ''name''), text_of (dict_get o' ''sha256''), dict_get o' ''bytes''))
     (filter (\<lambda>o'. dict_get o' ''role'' = JStr ''release-image'' \<and> is_str (dict_get o' ''name'') \<and> is_str (dict_get o' ''sha256'') \<and>
        is_int (dict_get o' ''bytes'')) (map members (filter is_obj vs)))"

definition same_subject :: "obj \<Rightarrow> string \<times> string \<times> json \<Rightarrow> bool" where
  "same_subject subject = (\<lambda>(name, sha, n). py_str (dict_get subject ''name'') = name \<and> py_str (dict_get subject ''sha256'') = sha \<and>
     py_eq (dict_get subject ''bytes'') n)"

text \<open>The search stops at the first scanned subject that is a release image of the evidence.\<close>

fun scanned_release_image :: "(string \<times> string \<times> json) list \<Rightarrow> json list \<Rightarrow> bool run" where
  "scanned_release_image subjects [] = Inr False"
| "scanned_release_image subjects (v # vs) =
     (if \<not> is_obj v \<or> dict_get (members v) ''role'' \<noteq> JStr ''release-image'' then scanned_release_image subjects vs
      else if \<not> hashable (dict_get (members v) ''bytes'') then Inl TypeError
      else if list_ex (same_subject (members v)) subjects then Inr True else scanned_release_image subjects vs)"

definition image_scan_document :: "record_ctx \<Rightarrow> (string \<times> string \<times> json) list \<Rightarrow> string \<Rightarrow> json \<Rightarrow> string list run" where
  "image_scan_document c subjects p v = (let scanned = dict_get (members v) ''subjects'' in
     if \<not> is_obj v then Inr [msg (p @ ''.path'') ''must be scanner-native JSON'']
     else bindE (from_checked (contract_schema_version ''release_security_report'' (rc_contract c))) (\<lambda>schema. collectE
      [Inr (report (dict_get (members v) ''schema_version'' \<noteq> JStr schema)
         (msg (p @ ''.schema_version'') ''must be the release security report schema'')),
       (if \<not> is_list scanned \<or> elems scanned = [] then Inr [msg (p @ ''.subjects'') ''must include scanned subjects'']
        else bindE (scanned_release_image subjects (elems scanned)) (\<lambda>matched. Inr (report (\<not> matched)
          (msg (p @ ''.subjects'') ''must bind a release-image subject name, sha256, and bytes from evidence.artifacts''))))]))"

definition validate_release_image_scan_reports :: "record_ctx \<Rightarrow> obj \<Rightarrow> bool \<Rightarrow> string list run" where
  "validate_release_image_scan_reports c evidence required = (let p = ''$.release_image_scan_reports'' in
     as_items p (dict_get evidence ''release_image_scan_reports'') (\<lambda>vs.
     bindE (py_list (dict_get_or evidence ''artifacts'' (JArr []))) (\<lambda>artifacts. collectE
      [Inr (report (strictly c required \<and> vs = []) (msg p ''must include scanner-native release image reports'')),
       walk_items p (\<lambda>q v. collectE
         [Inr (ev_ref c q v (rc_pass c)),
          (if \<not> strictly c required then Inr []
           else case ev_ref_file c v of None \<Rightarrow> Inr []
             | Some f \<Rightarrow> image_scan_document c (release_subjects artifacts) q (read_doc (rc_env c) f))]) vs])))"

definition report_key :: "obj \<Rightarrow> json list" where
  "report_key o' = map (dict_get o') [''name'', ''sha256'', ''bytes'']"

definition report_keys :: "obj \<Rightarrow> json list list run" where
  "report_keys evidence = bindE (py_list (dict_get_or evidence ''release_image_scan_reports'' (JArr []))) (\<lambda>vs.
     mapE (\<lambda>o'. hashed (report_key o')) (map members (filter is_obj vs)))"

definition scanner_native_report :: "record_ctx \<Rightarrow> bool \<Rightarrow> json list list \<Rightarrow> string \<Rightarrow> json \<Rightarrow> string list run" where
  "scanner_native_report c required keys p v = collectE
     [Inr (ev_ref c p v (rc_pass c)),
      (if \<not> is_obj v then Inr []
       else collectE
        [bindE (hashed (report_key (members v))) (\<lambda>k. Inr (report (\<not> list_ex (list_all2 py_eq k) keys)
           (msg p ''must mirror release_image_scan_reports''))),
         (if \<not> strictly c required then Inr []
          else case ev_ref_file c v of None \<Rightarrow> Inr []
            | Some q \<Rightarrow> bindE (from_checked (contract_schema_version ''release_security_report'' (rc_contract c))) (\<lambda>schema. Inr
                (report (\<not> has_schema (read_doc (rc_env c) q) schema)
                  (msg (p @ ''.path'') ''must be scanner-native release security report JSON''))))])]"

definition validate_scanner_native_reports_section :: "record_ctx \<Rightarrow> obj \<Rightarrow> bool \<Rightarrow> string list run" where
  "validate_scanner_native_reports_section c evidence required = (let p = ''$.scanner_native_reports'' in
     as_items p (dict_get evidence ''scanner_native_reports'') (\<lambda>vs.
     bindE (report_keys evidence) (\<lambda>keys. collectE
      [Inr (report (strictly c required \<and> vs = []) (msg p ''must preserve scanner-native raw report records'')),
       walk_items p (scanner_native_report c required keys) vs])))"

end
