(* ===== verification/RecordHardware.thy ===== *)
theory RecordHardware
  imports RecordRuntime StationAcquisition
begin

text \<open>
  \<open>scripts/evidence/release-evidence.py\<close>, fifth part: the evidence of the lab and of the key
  custody. The hardware section with its devices and negative tests, the station acquisitions, and
  the HSM signing sessions.
\<close>

section \<open>The preserved lab documents\<close>

definition REQUIRED_IDENTITY_FIELDS :: "string list" where
  "REQUIRED_IDENTITY_FIELDS = [''model'', ''compatible'', ''storage_by_id'', ''storage_serial'', ''root_partuuid'']"

definition station_registry_ref :: "record_ctx \<Rightarrow> json \<Rightarrow> string list" where
  "station_registry_ref c v = (let p = ''$.hardware.station_registry'' in
     if \<not> is_obj v then [msg p ''must preserve external station registry'']
     else report (dict_get (members v) ''source_domain'' \<noteq> JStr ''release-governance'')
         (msg (p @ ''.source_domain'') ''must be release-governance for release-ready evidence'')
       @ ev_digest_ref c p (members v) True)"

definition replay_lab_input :: "record_ctx \<Rightarrow> obj \<Rightarrow> obj \<Rightarrow> path \<Rightarrow> string list run" where
  "replay_lab_input c evidence hardware q = bindE (from_checked (lab_policy_of (rc_contract c))) (\<lambda>policy.
     validate_lab ((rc_lab c)\<lparr>lab_files := rc_files c, lab_now := rel_now (rc_env c)\<rparr>) policy
       (ev_ref_file c (dict_get hardware ''station_registry'')) q
       \<lparr>lab_check_files = True, lab_require_pass = True, lab_profile = release_ready_profile evidence,
        lab_version = Some (ev_text evidence ''version''), lab_target = Some (ev_text evidence ''target''),
        lab_source_sha = ev_commit evidence, lab_source_run_id = ev_run_id evidence\<rparr>)"

definition lab_input_ref :: "record_ctx \<Rightarrow> obj \<Rightarrow> obj \<Rightarrow> string list" where
  "lab_input_ref c evidence hardware = (let v = dict_get hardware ''input'' in
     if \<not> is_obj v then [msg ''$.hardware.input'' ''must preserve the validated lab input JSON'']
     else ev_digest_ref c ''$.hardware.input'' (members v) True
       @ (case ev_ref_file c v of None \<Rightarrow> []
          | Some q \<Rightarrow> replay_failures ''$.hardware.input.path'' ''cannot replay lab input validation'' (replay_lab_input c evidence hardware q)))"

definition preserved_object :: "string \<Rightarrow> json \<Rightarrow> string \<Rightarrow> string list" where
  "preserved_object p v m = report (\<not> is_obj v \<or> members v = []) (msg p m)"

definition station_bundle_ref :: "record_ctx \<Rightarrow> json \<Rightarrow> string list" where
  "station_bundle_ref c v = (if \<not> is_obj v then [msg ''$.hardware.station_bundle'' ''must preserve signed station bundle'']
     else ev_digest_ref c ''$.hardware.station_bundle'' (members v) True)"

definition station_signature_ref :: "record_ctx \<Rightarrow> json \<Rightarrow> string list" where
  "station_signature_ref c v = (let p = ''$.hardware.station_signature''; s = members v in
     if \<not> is_obj v then [msg p ''must preserve station signature'']
     else ev_strings p s [''algorithm'', ''signature'', ''public_key'']
       @ required_digests p s [''signature_sha256'', ''public_key_sha256'']
       @ concat (map (\<lambda>f. ev_relative c (p @ ''.'' @ f) (dict_get s f) True) [''signature'', ''public_key''])
       @ concat (map (\<lambda>f. ev_file_sha c (p @ ''.'' @ f @ ''_sha256'') (dict_get s f) (dict_get s (f @ ''_sha256''))) [''signature'', ''public_key'']))"

definition preserved_hardware :: "record_ctx \<Rightarrow> obj \<Rightarrow> obj \<Rightarrow> string list" where
  "preserved_hardware c evidence hardware =
     station_registry_ref c (dict_get hardware ''station_registry'')
     @ lab_input_ref c evidence hardware
     @ preserved_object ''$.hardware.station'' (dict_get hardware ''station'') ''must preserve station identity''
     @ preserved_object ''$.hardware.artifact_binding'' (dict_get hardware ''artifact_binding'') ''must preserve artifact binding''
     @ station_bundle_ref c (dict_get hardware ''station_bundle'')
     @ station_signature_ref c (dict_get hardware ''station_signature'')"

section \<open>Devices\<close>

definition device_log :: "record_ctx \<Rightarrow> string \<Rightarrow> json \<Rightarrow> string list" where
  "device_log c p v = (let log = members v in
     if \<not> is_obj v then ev_relative c p v True
     else ev_relative c (p @ ''.path'') (dict_get log ''path'') True
       @ given_digest p log ''sha256''
       @ (if dict_has log ''sha256'' then ev_file_sha c (p @ ''.sha256'') (dict_get log ''path'') (dict_get log ''sha256'') else [])
       @ given_digest p log ''input_sha256'')"

text \<open>The evidence file of a check, with its digest where the check has one.\<close>

definition check_evidence_file :: "record_ctx \<Rightarrow> string \<Rightarrow> obj \<Rightarrow> bool \<Rightarrow> string list" where
  "check_evidence_file c p check required =
     ev_relative c (p @ ''.evidence'') (dict_get check ''evidence'') required
     @ given_digest p check ''evidence_sha256''
     @ (if dict_has check ''evidence_sha256''
        then ev_file_sha c (p @ ''.evidence_sha256'') (dict_get check ''evidence'') (dict_get check ''evidence_sha256'') else [])"

definition device_check :: "record_ctx \<Rightarrow> bool \<Rightarrow> string list \<Rightarrow> string \<Rightarrow> string \<Rightarrow> obj \<Rightarrow> string list run" where
  "device_check c strict names p name check = collectE
     [ev_status (p @ ''.status'') (dict_get check ''status'') STATUS_VALUES,
      Inr (check_evidence_file c p check (strict \<and> name \<in> set names)
        @ must_be_passed (rc_pass c) (p @ ''.status'') (dict_get check ''status''))]"

definition device_identity_check :: "string \<Rightarrow> json \<Rightarrow> string list" where
  "device_identity_check p v = (if \<not> is_obj v \<or> members v = [] then [msg p ''must preserve board/storage identity'']
     else ev_strings p (members v) REQUIRED_IDENTITY_FIELDS)"

definition device_readback :: "string \<Rightarrow> json \<Rightarrow> string list" where
  "device_readback p v = (let r = members v in
     if \<not> is_obj v \<or> r = [] then [msg p ''must preserve full readback evidence'']
     else report (dict_get r ''scope'' \<noteq> JStr ''full'') (msg (p @ ''.scope'') ''must be full'')
       @ required_digests p r [''expected_sha256'', ''actual_sha256'']
       @ report (\<not> py_eq (dict_get r ''expected_sha256'') (dict_get r ''actual_sha256'')) (msg (p @ ''.actual_sha256'') ''must match expected_sha256'')
       @ ev_positive (p @ ''.bytes_read'') (dict_get r ''bytes_read'') True)"

definition required_device :: "string list \<Rightarrow> string \<Rightarrow> obj \<Rightarrow> string list" where
  "required_device names p device = (let checks = dict_get device ''checks'';
       missing = sorted_set (minus_list names (dict_keys (members checks))) in
     must_be_passed True (p @ ''.status'') (dict_get device ''status'')
     @ report (\<not> truthy (dict_get device ''logs'')) (msg (p @ ''.logs'') ''must include serial/install logs'')
     @ report (is_obj checks \<and> missing \<noteq> []) (msg (p @ ''.checks'') (''missing required checks: '' @ comma_join missing))
     @ device_identity_check (p @ ''.device_identity'') (dict_get device ''device_identity'')
     @ device_readback (p @ ''.readback'') (dict_get device ''readback''))"

definition device_item :: "record_ctx \<Rightarrow> bool \<Rightarrow> string list \<Rightarrow> string \<Rightarrow> obj \<Rightarrow> string list run" where
  "device_item c strict names p device = collectE
     [Inr (ev_strings p device [''board'', ''serial'', ''operator'']
        @ concat (map (\<lambda>f. if dict_has device f then ev_string (p @ ''.'' @ f) (dict_get device f) else [])
            [''sku'', ''storage_serial'', ''uart_adapter'', ''power_supply'', ''boot_firmware'', ''tested_at''])),
      ev_status (p @ ''.status'') (dict_get device ''status'') STATUS_VALUES,
      as_items (p @ ''.logs'') (dict_get device ''logs'') (walk_items (p @ ''.logs'') (\<lambda>q v. Inr (device_log c q v))),
      as_members (p @ ''.checks'') (dict_get device ''checks'') (\<lambda>checks. collectE (map (\<lambda>(n, v).
        let q = p @ ''.checks.'' @ n in as_members q v (device_check c strict names q n)) checks)),
      Inr (if strict then required_device names p device else [])]"

section \<open>What a target's hardware has to show\<close>

definition negative_test_item :: "record_ctx \<Rightarrow> string \<Rightarrow> obj \<Rightarrow> string list run" where
  "negative_test_item c p item = collectE
     [Inr (ev_strings p item [''name'', ''failure_code'']),
      ev_status (p @ ''.status'') (dict_get item ''status'') STATUS_VALUES,
      Inr (check_evidence_file c p item True @ must_be_passed True (p @ ''.status'') (dict_get item ''status''))]"

definition required_boards :: "record_ctx \<Rightarrow> obj \<Rightarrow> json list \<Rightarrow> string list run" where
  "required_boards c evidence devices = bindE (from_checked (required_hardware_boards_by_target (rc_contract c))) (\<lambda>boards.
     let missing = sorted_set (minus_list (case map_of boards (ev_target evidence) of None \<Rightarrow> [] | Some bs \<Rightarrow> bs)
       (names_in ''board'' devices)) in
     Inr (report (missing \<noteq> []) (msg ''$.hardware.devices'' (''missing required board evidence: '' @ comma_join missing))))"

definition required_hardware :: "record_ctx \<Rightarrow> obj \<Rightarrow> obj \<Rightarrow> json list \<Rightarrow> string list run" where
  "required_hardware c evidence hardware devices = (let tests = dict_get hardware ''negative_tests'' in collectE
     [Inr (report (dict_get hardware ''status'' \<noteq> JStr ''passed'') (msg ''$.hardware.status'' ''must be passed when hardware evidence is required'')
        @ report (devices = []) (msg ''$.hardware.devices'' ''must include at least one device'')),
      required_boards c evidence devices,
      (if dict_get evidence ''target'' \<noteq> JStr ''pi-cm4-revpi-usb-installer'' then Inr []
       else if \<not> is_list tests \<or> elems tests = [] then Inr [msg ''$.hardware.negative_tests'' ''must include USB installer negative tests'']
       else walk_objects ''$.hardware.negative_tests'' (negative_test_item c) (elems tests))])"

definition validate_hardware :: "record_ctx \<Rightarrow> obj \<Rightarrow> bool \<Rightarrow> string list run" where
  "validate_hardware c evidence required = as_members ''$.hardware'' (dict_get evidence ''hardware'') (\<lambda>hardware.
     let strict = (rc_pass c \<and> required) in collectE
     [Inr (required_flag ''$.hardware'' hardware required),
      ev_status ''$.hardware.status'' (dict_get hardware ''status'') STATUS_VALUES,
      Inr (if strict then preserved_hardware c evidence hardware else []),
      as_items ''$.hardware.devices'' (dict_get hardware ''devices'') (\<lambda>devices.
        bindE (from_checked (hardware_required_checks (rc_contract c))) (\<lambda>names. collectE
        [walk_objects ''$.hardware.devices'' (device_item c strict (map text_of names)) devices,
         (if strict then required_hardware c evidence hardware devices else Inr [])]))])"

section \<open>Station acquisitions\<close>

definition replay_acquisition :: "record_ctx \<Rightarrow> obj \<Rightarrow> path \<Rightarrow> obj \<Rightarrow> string list run" where
  "replay_acquisition c evidence q payload = (let hardware = dict_or_empty (dict_get evidence ''hardware'');
       binding = dict_or_empty (dict_get hardware ''artifact_binding''); registry = dict_or_empty (dict_get hardware ''station_registry'') in
     validate_acquisition (rc_contract c) (rc_files c) (path_parent q)
      \<lparr>aq_version = Some (ev_text evidence ''version''), aq_target = Some (ev_text evidence ''target''),
       aq_source_sha = ev_commit evidence, aq_run_id = ev_run_id evidence,
       aq_artifact_sha = dict_get binding ''build_artifact_sha256'', aq_artifact_bytes = dict_get binding ''build_artifact_bytes'',
       aq_registry_sha = dict_get registry ''sha256'', aq_registry = None, aq_check_files = rc_check c\<rparr> payload)"

definition acquisition_document :: "record_ctx \<Rightarrow> obj \<Rightarrow> string \<Rightarrow> path \<Rightarrow> string list run" where
  "acquisition_document c evidence p q = (let v = read_doc (rc_env c) q; payload = members v; events = dict_get payload ''events'' in
     if \<not> is_obj v then Inr [msg (p @ ''.path'') ''must be station acquisition JSON'']
     else bindE (from_checked (contract_schema_version ''station_acquisition'' (rc_contract c))) (\<lambda>schema. Inr
       (report (dict_get payload ''schema_version'' \<noteq> JStr schema) (msg (p @ ''.schema_version'') (''must be '' @ schema))
        @ report (\<not> is_list events \<or> elems events = []) (msg (p @ ''.events'') ''must include adapter events'')
        @ replay_failures (p @ ''.path'') ''cannot replay station acquisition'' (replay_acquisition c evidence q payload))))"

definition validate_station_acquisitions :: "record_ctx \<Rightarrow> obj \<Rightarrow> bool \<Rightarrow> string list run" where
  "validate_station_acquisitions c evidence required = (let p = ''$.station_acquisitions'' in
     as_items p (dict_get evidence ''station_acquisitions'') (\<lambda>vs. collectE
      [Inr (report (strictly c required \<and> vs = []) (msg p ''must preserve adapter-acquired station evidence'')),
       walk_items p (\<lambda>q v. collectE [Inr (ev_ref c q v (rc_pass c)), replay_of c v (acquisition_document c evidence q)]) vs]))"

section \<open>HSM signing sessions\<close>

definition session_certificate :: "release_env \<Rightarrow> path \<Rightarrow> obj \<Rightarrow> path option" where
  "session_certificate env session payload = (let r = certificate_reference payload;
       named = path_join (path_parent session) (path_of (text_of r)); sha = dict_get payload ''certificate_sha256'';
       siblings = map (\<lambda>n. path_join (path_parent session) (path_of n))
         (sort (case rel_names env (path_parent session) of None \<Rightarrow> [] | Some ns \<Rightarrow> ns)) in
     if nonblank_str r \<and> is_file (rel_files env) named then Some named
     else if is_str sha then find (is_certificate env (text_of sha)) siblings else None)"

definition session_replay_args :: "path \<Rightarrow> string \<Rightarrow> path \<Rightarrow> json \<Rightarrow> string list" where
  "session_replay_args session uri cert artifact = (let role = dict_get (members artifact) ''role''; digest = dict_get (members artifact) ''sha256'' in
     [''scripts/evidence/validate-hsm-signing-evidence.py'', ''validate'', path_str session, ''--pkcs11-uri'', uri,
      ''--certificate'', path_str cert, ''--require-production'']
     @ (if is_obj artifact \<and> nonblank_str role then [''--artifact-role'', text_of role] else [])
     @ (if is_obj artifact \<and> nonblank_str digest then [''--artifact-sha256'', text_of digest] else []))"

definition session_replay :: "release_env \<Rightarrow> string \<Rightarrow> string list \<Rightarrow> string list" where
  "session_replay env p args = (let r = rel_script env args; e = strip (stderr r); out = strip (stdout r) in
     report (completed.return_code r \<noteq> 0) (msg p (if e \<noteq> [] then e else if out \<noteq> [] then out else ''HSM validator replay failed'')))"

definition session_binds :: "string list \<Rightarrow> string list \<Rightarrow> json \<Rightarrow> bool" where
  "session_binds roles shas v \<longleftrightarrow> is_obj v \<and> is_str (dict_get (members v) ''role'') \<and> text_of (dict_get (members v) ''role'') \<in> set roles \<and>
     is_str (dict_get (members v) ''sha256'') \<and> text_of (dict_get (members v) ''sha256'') \<in> set shas"

definition session_document :: "record_ctx \<Rightarrow> obj \<Rightarrow> bool \<Rightarrow> string \<Rightarrow> path \<Rightarrow> string list run" where
  "session_document c evidence required p q = (let v = read_doc (rc_env c) q; payload = members v; uri = dict_get payload ''pkcs11_uri'';
       artifacts = elems (dict_get payload ''artifacts''); items = (if artifacts \<noteq> [] then artifacts else [JNull]) in
     if \<not> is_obj v then Inr [msg (p @ ''.path'') ''must be HSM signing evidence JSON'']
     else case session_certificate (rc_env c) q payload of
       None \<Rightarrow> Inr [msg (p @ ''.certificate'') ''must preserve certificate file'']
     | Some cert \<Rightarrow> if \<not> nonblank_str uri then Inr [msg (p @ ''.pkcs11_uri'') ''must be preserved'']
         else bindE (from_checked (signed_artifact_roles (rc_contract c))) (\<lambda>roles. Inr
           (concat (map (\<lambda>i. session_replay (rc_env c) (p @ ''.path'') (session_replay_args q (text_of uri) cert i)) items)
            @ report (strictly c required \<and> \<not> list_ex (session_binds roles (evidence_artifact_sha256s evidence)) items)
                (msg (p @ ''.path'') ''must bind a production release artifact digest''))))"

definition validate_hsm_signing_sessions :: "record_ctx \<Rightarrow> obj \<Rightarrow> bool \<Rightarrow> string list run" where
  "validate_hsm_signing_sessions c evidence required = (let p = ''$.hsm_signing_sessions'' in
     as_items p (dict_get evidence ''hsm_signing_sessions'') (\<lambda>vs. collectE
      [Inr (report (strictly c required \<and> vs = []) (msg p ''must preserve production HSM signing sessions'')),
       walk_items p (\<lambda>q v. collectE [Inr (ev_ref c q v (rc_pass c)), replay_of c v (session_document c evidence required q)]) vs]))"

end
