(* ===== verification/RecordEvidence.thy ===== *)
theory RecordEvidence
  imports RecordHardware
begin

text \<open>
  \<open>scripts/evidence/release-evidence.py\<close>, last part of the validation: approvals, residual risk and
  the release decision, what the matrix and the policy require of a target, and the validation of a
  whole evidence file, with the command that runs it.
\<close>

section \<open>Approvals, residual risk and decision\<close>

definition EVIDENCE_RISK_STATUSES :: "string list" where
  "EVIDENCE_RISK_STATUSES = [''none'', ''accepted'', ''blocked'']"

definition EVIDENCE_DECISION_STATUSES :: "string list" where
  "EVIDENCE_DECISION_STATUSES = [''approved'', ''approved_with_residual_risk'', ''blocked'']"

definition ev_approval :: "string \<Rightarrow> obj \<Rightarrow> string list" where
  "ev_approval p approval = ev_strings p approval [''role'', ''name'', ''approved_at'']
     @ fst (ev_timestamp (p @ ''.approved_at'') (dict_get approval ''approved_at'') True)
     @ (if dict_has approval ''ticket'' then ev_string (p @ ''.ticket'') (dict_get approval ''ticket'') else [])"

definition approval_roles :: "json list \<Rightarrow> string list" where
  "approval_roles vs = (let roles = names_in ''role'' vs; p = ''$.approvals'' in
     report (''release-owner'' \<notin> set roles) (msg p ''must include release-owner approval'')
     @ report (''maintainer'' \<notin> set roles \<and> ''security-compliance'' \<notin> set roles)
         (msg p ''must include maintainer or security-compliance approval'')
     @ report (length (remdups roles) < 2) (msg p ''must include at least two distinct approval roles''))"

definition validate_approvals :: "record_ctx \<Rightarrow> obj \<Rightarrow> string list run" where
  "validate_approvals c evidence = as_items ''$.approvals'' (dict_get evidence ''approvals'') (\<lambda>vs. collectE
     [walk_objects ''$.approvals'' (\<lambda>p o'. Inr (ev_approval p o')) vs,
      Inr (if rc_pass c then report (vs = []) (msg ''$.approvals'' ''must include at least one approval'') @ approval_roles vs else [])])"

definition RISK_ITEM_FIELDS :: "string list" where
  "RISK_ITEM_FIELDS = [''id'', ''severity'', ''description'', ''mitigation'', ''owner'', ''ticket'']"

text \<open>An approval without residual risk, and one that carries it.\<close>

definition without_risk :: "obj \<Rightarrow> json list \<Rightarrow> string list" where
  "without_risk risk items =
     report (dict_get risk ''status'' \<noteq> JStr ''none'')
       (msg ''$.residual_risk.status'' ''must be none when release decision is approved without residual risk'')
     @ report (items \<noteq> []) (msg ''$.residual_risk.items'' ''must be empty when release decision is approved without residual risk'')"

definition accepted_risk :: "int \<Rightarrow> obj \<Rightarrow> json list \<Rightarrow> string list run" where
  "accepted_risk now risk items = (let expiry = ev_timestamp ''$.residual_risk.expires_at'' (dict_get risk ''expires_at'') True in collectE
     [Inr (report (dict_get risk ''status'' \<noteq> JStr ''accepted'')
         (msg ''$.residual_risk.status'' ''must be accepted when release decision carries residual risk'')
        @ report (items = []) (msg ''$.residual_risk.items'' ''must list accepted residual risks'')
        @ ev_strings ''$.residual_risk'' risk [''accepted_by'', ''accepted_at'', ''expires_at'']
        @ fst (ev_timestamp ''$.residual_risk.accepted_at'' (dict_get risk ''accepted_at'') True)
        @ fst expiry),
      (case snd expiry of None \<Rightarrow> Inr []
       | Some d \<Rightarrow> bindE (not_after d now) (\<lambda>expired. Inr (report expired (msg ''$.residual_risk.expires_at'' ''must be in the future''))))])"

definition validate_residual_risk :: "record_ctx \<Rightarrow> obj \<Rightarrow> string list run" where
  "validate_residual_risk c evidence = as_members ''$.residual_risk'' (dict_get evidence ''residual_risk'') (\<lambda>risk.
     let v = dict_get risk ''items''; items = elems v; status = dict_get risk ''status'';
       decision = dict_get (dict_or_empty (dict_get evidence ''release_decision'')) ''status'' in collectE
     [ev_status ''$.residual_risk.status'' status EVIDENCE_RISK_STATUSES,
      as_items ''$.residual_risk.items'' v (walk_objects ''$.residual_risk.items'' (\<lambda>p o'. Inr (ev_strings p o' RISK_ITEM_FIELDS))),
      Inr (report (rc_pass c \<and> status = JStr ''blocked'') (msg ''$.residual_risk.status'' ''must not be blocked for release-ready evidence'')
        @ (if rc_pass c \<and> decision = JStr ''approved'' then without_risk risk items else [])),
      (if rc_pass c \<and> decision = JStr ''approved_with_residual_risk'' then accepted_risk (rel_now (rc_env c)) risk items else Inr [])])"

definition validate_release_decision :: "record_ctx \<Rightarrow> obj \<Rightarrow> string list run" where
  "validate_release_decision c evidence = as_members ''$.release_decision'' (dict_get evidence ''release_decision'') (\<lambda>decision.
     let status = dict_get decision ''status'' in collectE
     [ev_status ''$.release_decision.status'' status EVIDENCE_DECISION_STATUSES,
      Inr (concat (map (\<lambda>f. let v = dict_get decision f in
          if rc_pass c \<or> f = ''rationale'' \<or> v \<noteq> JNull then ev_string (''$.release_decision.'' @ f) v else [])
          [''decided_by'', ''decided_at'', ''rationale''])
        @ fst (ev_timestamp ''$.release_decision.decided_at'' (dict_get decision ''decided_at'') (rc_pass c))
        @ report (rc_pass c \<and> status \<noteq> JStr ''approved'' \<and> status \<noteq> JStr ''approved_with_residual_risk'')
            (msg ''$.release_decision.status'' ''must be approved for release-ready evidence''))])"

section \<open>What a target has to show\<close>

definition release_tier_from_version :: "json \<Rightarrow> string" where
  "release_tier_from_version v = (if is_str v \<and> CHR ''-'' \<in> set (text_of v) then ''alpha'' else ''production'')"

text \<open>A row that is built for release or required for production.\<close>

definition released_row :: "obj \<Rightarrow> bool" where
  "released_row row \<longleftrightarrow> dict_get row ''production_required'' = JBool True \<or> dict_get row ''release'' = JBool True"

definition NO_POLICY :: obj where
  "NO_POLICY = map (\<lambda>f. (f, JBool False)) [''hardware_required'', ''ota_capable'', ''production_gate'', ''release_image_scan_required'',
     ''release_public'', ''runtime_required'', ''signing_required'']"

definition target_policy_for :: "obj \<Rightarrow> string \<Rightarrow> obj option \<Rightarrow> obj run" where
  "target_policy_for contract target row = bindE (from_checked (target_policy target contract)) (\<lambda>policy.
     if policy \<noteq> [] then Inr policy
     else case row of
       None \<Rightarrow> Inr NO_POLICY
     | Some r \<Rightarrow> if released_row r then Inl (ValueError (target @ '': missing ci/evidence-contract.yml target policy'')) else Inr NO_POLICY)"

record gate_requirements =
  qemu_required :: bool
  hardware_required :: bool
  runtime_required :: bool
  signing_required :: bool
  image_scan_required :: bool

definition nothing_required :: gate_requirements where
  "nothing_required = \<lparr>qemu_required = False, hardware_required = False, runtime_required = False, signing_required = False,
     image_scan_required = False\<rparr>"

definition requirements_of :: "obj \<Rightarrow> obj \<Rightarrow> obj option \<Rightarrow> gate_requirements" where
  "requirements_of policy target_contract row = (let production = truthy (dict_get target_contract ''production_required'');
       acceptance = py_str (dict_get_or target_contract ''acceptance'' (JStr []));
       asks = (\<lambda>f d. truthy (dict_get_or policy f (JBool d))) in
     \<lparr>qemu_required = (case row of None \<Rightarrow> False | Some r \<Rightarrow> truthy (dict_get_or r ''qemu_test'' (JBool False))),
      hardware_required = asks ''hardware_required'' (production \<or> contains acceptance ''hardware''),
      runtime_required = asks ''runtime_required'' production,
      signing_required = asks ''signing_required'' production,
      image_scan_required = asks ''release_image_scan_required'' production\<rparr>)"

definition expected_gate_requirements :: "obj \<Rightarrow> obj \<Rightarrow> obj option \<Rightarrow> gate_requirements run" where
  "expected_gate_requirements contract evidence matrix = (let v = dict_get evidence ''target_contract'' in
     if \<not> is_obj v then Inr nothing_required
     else bindE (target_row matrix evidence) (\<lambda>row. case target_policy_for contract (ev_target evidence) row of
         Inl (ValueError m) \<Rightarrow> Inr (requirements_of [] (members v) row)
       | Inl e \<Rightarrow> Inl e
       | Inr policy \<Rightarrow> Inr (requirements_of policy (members v) row)))"

section \<open>The whole evidence\<close>

definition TOP_LEVEL_FIELDS :: "string list" where
  "TOP_LEVEL_FIELDS = [''schema_version'', ''version'', ''target'', ''generated_at'', ''target_contract'', ''source'', ''asset_manifest'',
     ''artifacts'', ''sbom'', ''vex'', ''reproducibility'', ''security_scans'', ''machine_verification'', ''build_evidence'',
     ''preflight_inputs'', ''subject_graph'', ''governance'', ''governance_role_bindings'', ''qemu'', ''runtime_qemu'',
     ''runtime_observations'', ''hardware'', ''hardware_subjects'', ''station_acquisitions'', ''signing_manifests'', ''ota_artifacts'',
     ''hsm_signing_sessions'', ''release_image_scan_reports'', ''scanner_native_reports'', ''retention_manifest'', ''runtime_checks'',
     ''approvals'', ''residual_risk'', ''release_decision'']"

text \<open>The options of the validation.\<close>

record evidence_args =
  ea_matrix :: "path option"
  ea_pass :: bool
  ea_check :: bool
  ea_tier :: "string option"
  ea_override :: bool
  ea_closure :: bool

definition effective_tier :: "evidence_args \<Rightarrow> obj \<Rightarrow> string" where
  "effective_tier a evidence = (let inferred = release_tier_from_version (dict_get evidence ''version'') in
     case or_else (ea_tier a) (Some inferred) of None \<Rightarrow> inferred | Some t \<Rightarrow> t)"

definition evidence_header :: "record_ctx \<Rightarrow> evidence_args \<Rightarrow> obj \<Rightarrow> string list run" where
  "evidence_header c a evidence = (let missing = sorted_set (minus_list TOP_LEVEL_FIELDS (dict_keys evidence));
       extra = sorted_set (minus_list (dict_keys evidence) TOP_LEVEL_FIELDS); version = dict_get evidence ''version'';
       inferred = release_tier_from_version version in
     bindE (from_checked (contract_schema_version ''release_evidence'' (rc_contract c))) (\<lambda>schema. Inr
       (report (missing \<noteq> []) (msg ''$'' (''missing fields: '' @ comma_join missing))
        @ report (extra \<noteq> []) (msg ''$'' (''unknown fields: '' @ comma_join extra))
        @ report (dict_get evidence ''schema_version'' \<noteq> JStr schema) (msg ''$.schema_version'' (''must be '' @ schema))
        @ ev_strings ''$'' evidence [''version'', ''target'', ''generated_at'']
        @ fst (ev_timestamp ''$.generated_at'' (dict_get evidence ''generated_at'') True)
        @ concat (map (\<lambda>f. let v = dict_get evidence f in report (is_str v \<and> \<not> safe_identifier (text_of v))
            (msg (''$.'' @ f) ''must be a safe path identifier'')) [''version'', ''target''])
        @ (case ea_tier a of None \<Rightarrow> []
           | Some t \<Rightarrow> report (t \<noteq> inferred \<and> \<not> ea_override a)
               (msg ''$.version'' (''release tier must be '' @ inferred @ '' for version '' @ py_repr version))))))"

text \<open>The matrix, where it is given and can be read; a \<open>ValueError\<close> of the reader is a failure.\<close>

definition evidence_matrix :: "record_ctx \<Rightarrow> path option \<Rightarrow> (string list \<times> obj option) run" where
  "evidence_matrix c p = (case p of None \<Rightarrow> Inr ([], None)
     | Some m \<Rightarrow> (case release_load_matrix (rc_env c) m of
         Inl (ValueError e) \<Rightarrow> Inr ([msg ''$matrix'' (''cannot read matrix: '' @ e)], None)
       | Inl e \<Rightarrow> Inl e
       | Inr matrix \<Rightarrow> Inr ([], Some matrix)))"

definition policy_presence :: "record_ctx \<Rightarrow> obj \<Rightarrow> obj option \<Rightarrow> string list run" where
  "policy_presence c evidence matrix = bindE (target_row matrix evidence) (\<lambda>row. case row of
       None \<Rightarrow> Inr []
     | Some r \<Rightarrow> if \<not> released_row r then Inr []
         else bindE (from_checked (target_policy (ev_target evidence) (rc_contract c))) (\<lambda>policy. Inr (report (policy = [])
           (msg ''$.target'' ''release/production target must have ci/evidence-contract.yml policy''))))"

definition expected_security_scans :: "obj option \<Rightarrow> string list option run" where
  "expected_security_scans matrix = (case matrix of None \<Rightarrow> Inr None
     | Some m \<Rightarrow> bindE (py_list (dict_get_or m ''security_scans'' (JArr []))) (\<lambda>vs. Inr (Some (map py_str vs))))"

text \<open>The sections, in the order of the source.\<close>

definition evidence_sections :: "record_ctx \<Rightarrow> bool \<Rightarrow> gate_requirements \<Rightarrow> string list option \<Rightarrow> obj \<Rightarrow> string list run list" where
  "evidence_sections c closure r scans evidence =
     [validate_source c evidence, validate_asset_manifest c evidence, ev_artifacts c evidence, validate_sbom c evidence,
      validate_vex c evidence, validate_reproducibility c evidence, security_scan_list c evidence (if rc_pass c then scans else None),
      validate_machine_verification c evidence, validate_build_evidence c evidence, validate_preflight_inputs c evidence,
      validate_subject_graph_section c evidence closure, validate_governance_section c evidence,
      validate_governance_role_bindings_section c evidence, validate_qemu c evidence (qemu_required r),
      validate_runtime_qemu c evidence (runtime_required r), validate_runtime_observations_section c evidence (runtime_required r),
      validate_signing_manifests_section c evidence (signing_required r), validate_hardware c evidence (hardware_required r),
      validate_hardware_subjects_section c evidence (hardware_required r), validate_station_acquisitions c evidence (hardware_required r),
      validate_hsm_signing_sessions c evidence (signing_required r), validate_release_image_scan_reports c evidence (image_scan_required r),
      validate_scanner_native_reports_section c evidence (image_scan_required r), validate_retention_manifest_section c evidence,
      validate_runtime_checks c evidence (runtime_required r), validate_approvals c evidence, validate_release_decision c evidence,
      validate_residual_risk c evidence]"

definition evidence_failures :: "record_ctx \<Rightarrow> evidence_args \<Rightarrow> path \<Rightarrow> obj \<Rightarrow> string list run" where
  "evidence_failures c a p evidence = collectE
     [evidence_header c a evidence,
      Inr (path_contract p evidence),
      bindE (evidence_matrix c (ea_matrix a)) (\<lambda>(failures, matrix). collectE
       [Inr failures,
        validate_target_contract evidence matrix,
        policy_presence c evidence matrix,
        bindE (expected_gate_requirements (rc_contract c) evidence matrix) (\<lambda>r.
        bindE (expected_security_scans matrix) (\<lambda>scans. collectE (evidence_sections c (ea_closure a) r scans evidence)))])]"

text \<open>\<open>validate_evidence\<close>; the other settings of the run follow from its options and the file.\<close>

definition record_run :: "record_ctx \<Rightarrow> evidence_args \<Rightarrow> path \<Rightarrow> obj \<Rightarrow> record_ctx" where
  "record_run c a p evidence = c\<lparr>rc_dir := path_parent p, rc_check := ea_check a, rc_pass := ea_pass a, rc_tier := effective_tier a evidence\<rparr>"

definition validate_evidence :: "record_ctx \<Rightarrow> evidence_args \<Rightarrow> path \<Rightarrow> string list run" where
  "validate_evidence c a p = (case load_doc (rc_files c) p of
       OsError \<Rightarrow> Inr [msg (path_str p) ''cannot read evidence: OSError'']
     | BadJson \<Rightarrow> Inr [msg (path_str p) ''invalid JSON: JSONDecodeError'']
     | Loaded (JObj evidence) \<Rightarrow> evidence_failures (record_run c a p evidence) a p evidence
     | Loaded _ \<Rightarrow> Inr [msg (path_str p) ''top-level JSON value must be an object''])"

definition validate_command :: "record_ctx \<Rightarrow> evidence_args \<Rightarrow> path \<Rightarrow> (int \<times> string list) run" where
  "validate_command c a p = bindE (validate_evidence c a p) (\<lambda>fs. Inr
     (if fs \<noteq> [] then (1, map (msg ''ERROR'') fs)
      else (0, [''validated '' @ (if ea_pass a then ''release-ready'' else ''schema'') @ '' evidence: '' @ path_str p])))"

end
