(* ===== verification/RecordSkeleton.thy ===== *)
theory RecordSkeleton
  imports RecordEvidence MatrixRelease
begin

text \<open>
  \<open>scripts/evidence/release-evidence.py\<close>: the evidence skeleton that \<open>generate\<close> writes for a target
  of the build matrix, blocked until it is reviewed, and the migration of older evidence to the
  current schema.
\<close>

section \<open>The skeleton\<close>

text \<open>\<open>git_output\<close>: what a run of git prints, unless it fails.\<close>

definition repository_text :: "checkout \<Rightarrow> string list \<Rightarrow> string option" where
  "repository_text co args = (let r = git co (repo_root co) args in
     if completed.return_code r \<noteq> 0 then None else Some (strip (stdout r)))"

definition git_value :: "checkout \<Rightarrow> string list \<Rightarrow> json" where
  "git_value co args = (case or_else (repository_text co args) (Some ''unknown'') of None \<Rightarrow> JNull | Some s \<Rightarrow> JStr s)"

definition workflow_identity :: "string \<Rightarrow> json" where
  "workflow_identity workflow = JObj [(''provider'', JStr ''github-actions''), (''workflow'', JStr workflow),
     (''run_id'', JStr ''not_collected''), (''run_attempt'', JStr ''not_collected'')]"

definition skeleton_source :: "checkout \<Rightarrow> string \<Rightarrow> obj" where
  "skeleton_source co version =
     [(''repository'', git_value co [''config'', ''--get'', ''remote.origin.url'']),
      (''git_commit'', git_value co [''rev-parse'', ''HEAD'']),
      (''git_tag'', JStr version),
      (''dirty'', JBool (case repository_text co [''status'', ''--porcelain''] of None \<Rightarrow> False | Some s \<Rightarrow> s \<noteq> [])),
      (''ci'', workflow_identity ''Image Build''), (''image_build'', workflow_identity ''Image Build''),
      (''release_preflight'', workflow_identity ''Release Preflight''), (''release_sign'', workflow_identity ''Release''),
      (''release_publish'', workflow_identity ''Release Publish'')]"

definition skeleton_artifact :: "string \<Rightarrow> json" where
  "skeleton_artifact artifact = JObj
     [(''name'', JStr artifact), (''role'', JStr ''release-image''), (''path'', JStr (''artifacts/'' @ artifact)),
      (''sha256'', JNull), (''bytes'', JNull),
      (''signature'', JObj [(''path'', JStr (''artifacts/'' @ artifact @ ''.sig'')), (''certificate'', JStr (''artifacts/'' @ artifact @ ''.cert'')),
         (''verified'', JBool False)]),
      (''provenance'', JObj [(''path'', JStr (''provenance/'' @ artifact @ ''.intoto.jsonl'')), (''verified'', JBool False)])]"

definition run_status :: "bool \<Rightarrow> json" where
  "run_status required = JStr (if required then ''not_run'' else ''not_applicable'')"

text \<open>\<open>{name: value for name in names}\<close>.\<close>

definition same_for :: "string list \<Rightarrow> json \<Rightarrow> obj" where
  "same_for names v = foldl (\<lambda>o' n. dict_set o' n v) [] names"

definition skeleton_sections :: "string \<Rightarrow> string list \<Rightarrow> obj" where
  "skeleton_sections artifact scans =
     [(''asset_manifest'', JObj [(''path'', JStr ''release-assets.json''), (''sha256'', JNull), (''verified'', JBool False)]),
      (''artifacts'', JArr [skeleton_artifact artifact]),
      (''sbom'', JObj [(''format'', JStr ''cyclonedx-json''), (''path'', JStr (''sbom/'' @ sbom_base artifact @ ''.cyclonedx.json'')),
         (''sha256'', JNull), (''component_count'', JNull), (''signature_verified'', JBool False)]),
      (''vex'', JObj [(''status'', JStr ''not_collected''), (''path'', JNull), (''sha256'', JNull), (''signature_verified'', JBool False)]),
      (''reproducibility'', JObj [(''status'', JStr ''not_run''), (''comparison'', JNull), (''logs'', JArr [])]),
      (''security_scans'', JArr (map (\<lambda>n. JObj [(''name'', JStr n), (''status'', JStr ''not_run''), (''report'', JNull)]) scans)),
      (''machine_verification'', JObj (same_for MACHINE_VERIFICATION_CHECKS
         (JObj [(''status'', JStr ''not_run''), (''logs'', JArr []), (''record'', JNull)]))),
      (''build_evidence'', JObj [(''status'', JStr ''not_collected''), (''logs'', JArr []), (''warnings'', JArr []), (''source_identity'', JArr [])]),
      (''preflight_inputs'', JObj [(''approval'', JNull), (''reproducibility'', JNull), (''security_reports'', JArr []),
         (''security_raw_evidence'', JArr []), (''qemu'', JNull), (''lab'', JNull)]),
      (''subject_graph'', JNull),
      (''governance'', JObj [(''retention_years'', JInt 7), (''approval_model'', JStr ''enterprise-two-role''),
         (''checks'', JObj (same_for EVIDENCE_GOVERNANCE_CHECKS (JObj [(''status'', JStr ''not_collected''), (''evidence'', JNull)])))]),
      (''governance_role_bindings'', JNull)]"

definition skeleton_results :: "gate_requirements \<Rightarrow> string list \<Rightarrow> obj" where
  "skeleton_results r checks =
     [(''qemu'', JObj [(''required'', JBool (qemu_required r)), (''status'', run_status (qemu_required r)), (''logs'', JArr []), (''checks'', JArr [])]),
      (''runtime_qemu'', JObj [(''required'', JBool (runtime_required r)), (''status'', run_status (runtime_required r)), (''production_suites'', JArr [])]),
      (''runtime_observations'', JArr []),
      (''hardware'', JObj [(''required'', JBool (hardware_required r)), (''status'', run_status (hardware_required r)), (''devices'', JArr [])]),
      (''hardware_subjects'', JArr []), (''station_acquisitions'', JArr []), (''signing_manifests'', JArr []), (''ota_artifacts'', JArr []),
      (''hsm_signing_sessions'', JArr []), (''release_image_scan_reports'', JArr []), (''scanner_native_reports'', JArr []),
      (''retention_manifest'', JNull),
      (''runtime_checks'', JObj (same_for checks (JObj [(''required'', JBool (runtime_required r)), (''status'', run_status (runtime_required r)), (''evidence'', JNull)]))),
      (''approvals'', JArr []),
      (''residual_risk'', JObj [(''status'', JStr ''none''), (''items'', JArr []), (''accepted_by'', JNull), (''accepted_at'', JNull), (''expires_at'', JNull)]),
      (''release_decision'', JObj [(''status'', JStr ''blocked''), (''decided_by'', JNull), (''decided_at'', JNull),
         (''rationale'', JStr ''Evidence has not been reviewed.'')])]"

definition generated_evidence :: "release_env \<Rightarrow> string \<Rightarrow> string \<Rightarrow> obj \<Rightarrow> string list \<Rightarrow> obj run" where
  "generated_evidence env now version row scans =
     bindE (from_checked (contract_schema_version ''release_evidence'' (rel_contract env))) (\<lambda>schema.
     bindE (from_checked (runtime_required_checks (rel_contract env))) (\<lambda>checks.
     bindE (contract_from_matrix row) (\<lambda>target_contract. let artifact = py_str (dict_get target_contract ''release_artifact'') in
     bindE (target_policy_for (rel_contract env) (py_str (dict_get target_contract ''target'')) (Some row)) (\<lambda>policy. Inr
       ([(''schema_version'', JStr schema), (''version'', JStr version), (''target'', dict_get target_contract ''target''),
         (''generated_at'', JStr now), (''target_contract'', JObj target_contract),
         (''source'', JObj (skeleton_source (rel_checkout env) version))]
        @ skeleton_sections artifact scans
        @ skeleton_results (requirements_of policy target_contract (Some row)) (map text_of checks))))))"

text \<open>\<open>generate\<close>: the evidence to write, or the message of a refusal.\<close>

definition generate_command :: "release_env \<Rightarrow> path \<Rightarrow> string \<Rightarrow> string \<Rightarrow> string \<Rightarrow> path option \<Rightarrow> bool \<Rightarrow> (string + path \<times> obj) run" where
  "generate_command env matrix_path now version target output force =
     bindE (release_load_matrix env matrix_path) (\<lambda>matrix.
     bindE (targets_by_id matrix) (\<lambda>targets. case targets target of
       None \<Rightarrow> Inr (Inl (''target not found in matrix: '' @ target))
     | Some row \<Rightarrow> bindE (py_list (dict_get_or matrix ''security_scans'' (JArr []))) (\<lambda>scans.
         bindE (generated_evidence env now version row (map py_str scans)) (\<lambda>evidence.
         let p = (case output of None \<Rightarrow> path_join (path_of ''release-evidence'') (path_join (path_of version)
                (path_join (path_of (ev_text evidence ''target'')) (path_of ''evidence.json''))) | Some q \<Rightarrow> q) in
         Inr (if is_file (rel_files env) p \<and> \<not> force then Inl (''refusing to overwrite existing evidence file: '' @ path_str p)
              else Inr (p, evidence))))))"

section \<open>Migration\<close>

definition LEGACY_SCHEMA_VERSIONS :: "string list" where
  "LEGACY_SCHEMA_VERSIONS = [''suderra.release-evidence.v2'', ''suderra.release-evidence.v3'', ''suderra.release-evidence.v4'']"

text \<open>\<open>setdefault\<close>.\<close>

definition set_default :: "string \<Rightarrow> json \<Rightarrow> obj \<Rightarrow> obj" where
  "set_default k v o' = (if dict_has o' k then o' else dict_set o' k v)"

definition with_governance_checks :: "json \<Rightarrow> json" where
  "with_governance_checks v = (if \<not> is_obj v then v
     else JObj (foldl (\<lambda>o' n. set_default n (JObj [(''status'', JStr ''not_collected''), (''evidence'', JNull)]) o') (members v) EVIDENCE_GOVERNANCE_CHECKS))"

definition with_governance :: "json \<Rightarrow> json" where
  "with_governance v = (if \<not> is_obj v then v
     else let o' = set_default ''checks'' (JObj []) (members v) in JObj (dict_set o' ''checks'' (with_governance_checks (dict_get o' ''checks''))))"

definition MIGRATED_FIELDS :: obj where
  "MIGRATED_FIELDS = [(''subject_graph'', JNull), (''governance_role_bindings'', JNull), (''hardware_subjects'', JArr []),
     (''signing_manifests'', JArr []), (''retention_manifest'', JNull), (''runtime_observations'', JArr []), (''scanner_native_reports'', JArr [])]"

definition migrated_fields :: "string \<Rightarrow> obj \<Rightarrow> obj" where
  "migrated_fields schema evidence = (let e = set_default ''governance'' (JObj []) (dict_set evidence ''schema_version'' (JStr schema));
       e' = dict_set e ''governance'' (with_governance (dict_get e ''governance'')) in
     foldl (\<lambda>o' (k, v). set_default k v o') e' MIGRATED_FIELDS)"

text \<open>The migrated evidence, or the message of a refusal.\<close>

definition migrated_evidence :: "obj \<Rightarrow> json \<Rightarrow> (string + obj) run" where
  "migrated_evidence contract v = (let schema_v = dict_get (members v) ''schema_version'' in
     if \<not> is_obj v then Inr (Inl ''top-level JSON value must be an object'')
     else bindE (from_checked (contract_schema_version ''release_evidence'' contract)) (\<lambda>schema.
       bindE (in_str_set schema_v (schema # LEGACY_SCHEMA_VERSIONS)) (\<lambda>known. Inr
       (if \<not> known then Inl (''unsupported schema_version: '' @ py_repr schema_v) else Inr (migrated_fields schema (members v))))))"

end
