(* ===== verification/RecordProps.thy ===== *)
theory RecordProps
  imports RecordSkeleton MachineProps
begin

text \<open>
  What release evidence that \<open>release-evidence.py\<close> accepts as release-ready holds: the artifacts are
  preserved, signed and covered by machine verification records, the subject graph is closed by what
  the evidence preserves, and the release was decided by the roles that have to decide it. Last,
  what migration does to older evidence.
\<close>

section \<open>Checks that report nothing\<close>

lemma as_members_nil [run_ok]: "as_members p v k = Inr [] \<longleftrightarrow> (\<exists>o'. v = JObj o' \<and> k o' = Inr [])"
  by (cases v) (auto simp: as_members_def)

lemma as_items_nil [run_ok]: "as_items p v k = Inr [] \<longleftrightarrow> (\<exists>vs. v = JArr vs \<and> k vs = Inr [])"
  by (cases v) (auto simp: as_items_def)

lemma walk_items_nil: "walk_items p k vs = Inr [] \<Longrightarrow> v \<in> set vs \<Longrightarrow> \<exists>q. k q v = Inr []"
  using enumerate_item [of v vs] by (fastforce simp: walk_items_def collectE_nil simp del: collectE.simps)

lemma walk_objects_nil: "walk_objects p k vs = Inr [] \<Longrightarrow> v \<in> set vs \<Longrightarrow> \<exists>q o'. v = JObj o' \<and> k q o' = Inr []"
  unfolding walk_objects_def by (drule (1) walk_items_nil) (auto simp: as_members_nil)

lemma ev_status_nil [run_ok]: "ev_status p v xs = Inr [] \<longleftrightarrow> (\<exists>s\<in>set xs. v = JStr s)"
  by (cases v) (auto simp: ev_status_def in_str_set_def)

lemma ev_string_nil [no_report]: "ev_string p v = [] \<longleftrightarrow> nonblank_str v"
  by (simp add: ev_string_def)

lemma ev_strings_nil [no_report]: "ev_strings p o' fs = [] \<longleftrightarrow> (\<forall>f\<in>set fs. nonblank_str (dict_get o' f))"
  by (auto simp: ev_strings_def ev_string_nil)

lemma ev_bool_nil [no_report]: "ev_bool p v = [] \<longleftrightarrow> is_bool v"
  by (simp add: ev_bool_def)

lemma must_be_true_nil [no_report]: "must_be_true b p v = [] \<longleftrightarrow> (b \<longrightarrow> v = JBool True)"
  by (auto simp: must_be_true_def)

lemma must_be_passed_nil [no_report]: "must_be_passed b p v = [] \<longleftrightarrow> (b \<longrightarrow> v = JStr ''passed'')"
  by (auto simp: must_be_passed_def)

lemma replay_failures_nil [no_report]: "replay_failures p m r = [] \<longleftrightarrow> r = Inr []"
  by (auto simp: replay_failures_def split: sum.splits)

section \<open>Preserved files\<close>

definition present_file :: "store \<Rightarrow> path \<Rightarrow> json \<Rightarrow> bool" where
  "present_file fs dir v \<longleftrightarrow> (\<exists>rel. inner_path v = Some rel \<and> nonempty_file fs (path_join dir rel))"

text \<open>An object that names a file of the bundle with its digest and its size.\<close>

definition preserved_file :: "store \<Rightarrow> path \<Rightarrow> json \<Rightarrow> bool" where
  "preserved_file fs dir v \<longleftrightarrow> (\<exists>o' rel f. v = JObj o' \<and> inner_path (dict_get o' ''path'') = Some rel \<and>
     fs (path_join dir rel) = Some f \<and> 0 < size_of f \<and> dict_get o' ''sha256'' = JStr (sha_of f) \<and>
     py_eq (JInt (size_of f)) (dict_get o' ''bytes''))"

definition preserved_path :: "path \<Rightarrow> json \<Rightarrow> path" where
  "preserved_path dir v = path_join dir (path_of (text_of (dict_get (members v) ''path'')))"

lemma inner_path_some: "inner_path v = Some rel \<Longrightarrow> is_str v \<and> rel = path_of (text_of v)"
  by (auto simp: inner_path_def Let_def split: if_splits)

lemma ev_relative_present:
  assumes "ev_relative c p v True = []" "rc_check c"
  shows "present_file (rc_files c) (rc_dir c) v" "ev_file c v = Some (path_join (rc_dir c) (path_of (text_of v)))"
    "nonblank_str v"
  using assms by (auto simp: ev_relative_def present_file_def ev_file_def nonempty_file_def is_file_def Let_def
      dest: inner_path_some split: if_splits option.splits)

lemma ev_digest_ref_preserved:
  assumes "ev_digest_ref c p o' True = []" "rc_check c"
  shows "preserved_file (rc_files c) (rc_dir c) (JObj o')"
    "ev_file c (dict_get o' ''path'') = Some (preserved_path (rc_dir c) (JObj o'))"
proof -
  let ?v = "dict_get o' ''path''"
  have parts: "ev_relative c (p @ ''.path'') ?v True = []" "ev_sha256 (p @ ''.sha256'') (dict_get o' ''sha256'') True = []"
      "ev_positive (p @ ''.bytes'') (dict_get o' ''bytes'') True = []"
      "ev_file_sha c (p @ ''.sha256'') ?v (dict_get o' ''sha256'') = []" "ev_file_size c (p @ ''.bytes'') ?v (dict_get o' ''bytes'') = []"
    using assms(1) by (simp_all add: ev_digest_ref_def Let_def)
  note file' = ev_relative_present [OF parts(1) assms(2)]
  show here: "ev_file c ?v = Some (preserved_path (rc_dir c) (JObj o'))" using file'(2) by (simp add: preserved_path_def)
  obtain rel f where f: "inner_path ?v = Some rel" "rc_files c (path_join (rc_dir c) rel) = Some f" "0 < size_of f"
    using file'(1) by (auto simp: present_file_def nonempty_file_def split: option.splits)
  have rel: "path_join (rc_dir c) rel = preserved_path (rc_dir c) (JObj o')"
    using inner_path_some [OF f(1)] by (simp add: preserved_path_def)
  have sha: "dict_get o' ''sha256'' = JStr (sha_of f)"
    using parts(2,4) here f(2) assms(2) by (auto simp: ev_file_sha_def ev_sha256_def file_sha_def rel sha256_text_iff)
  have "py_eq (JInt (size_of f)) (dict_get o' ''bytes'')"
    using parts(3,5) here f(2) assms(2) by (auto simp: ev_file_size_def ev_positive_def rel positive_int_def int_above_def split: if_splits)
  with f sha show "preserved_file (rc_files c) (rc_dir c) (JObj o')"
    by (auto simp: preserved_file_def)
qed

lemma ev_ref_preserved:
  assumes "ev_ref c p v True = []" "rc_check c"
  shows "preserved_file (rc_files c) (rc_dir c) v" "ev_ref_file c v = Some (preserved_path (rc_dir c) v)"
proof -
  obtain o' where o': "v = JObj o'" using assms(1) by (cases v) (auto simp: ev_ref_def split: if_splits)
  then have d: "ev_digest_ref c p o' True = []" using assms(1) by (simp add: ev_ref_def)
  show "preserved_file (rc_files c) (rc_dir c) v" "ev_ref_file c v = Some (preserved_path (rc_dir c) v)"
    using ev_digest_ref_preserved [OF d assms(2)] by (simp_all add: o' ev_ref_file_def)
qed

section \<open>The sections of accepted evidence\<close>

lemma record_run_simps [simp]:
  "rc_env (record_run c a p e) = rc_env c" "rc_files (record_run c a p e) = rc_files c" "rc_contract (record_run c a p e) = rc_contract c"
  "rc_dir (record_run c a p e) = path_parent p" "rc_check (record_run c a p e) = ea_check a" "rc_pass (record_run c a p e) = ea_pass a"
  "rc_matrix (record_run c a p e) = rc_matrix c" "rc_tier (record_run c a p e) = effective_tier a e"
  by (simp_all add: record_run_def rc_files_def rc_contract_def)

lemma evidence_accepted:
  assumes "validate_evidence c a p = Inr []"
  shows "\<exists>evidence r scans. load_doc (rc_files c) p = Loaded (JObj evidence) \<and>
    (\<forall>s\<in>set (evidence_sections (record_run c a p evidence) (ea_closure a) r scans evidence). s = Inr [])"
proof -
  obtain evidence where e: "load_doc (rc_files c) p = Loaded (JObj evidence)"
      "evidence_failures (record_run c a p evidence) a p evidence = Inr []"
    using assms by (auto simp: validate_evidence_def split: loaded.splits json.splits)
  have "bindE (evidence_matrix (record_run c a p evidence) (ea_matrix a)) (\<lambda>(failures, matrix). collectE
       [Inr failures, validate_target_contract evidence matrix, policy_presence (record_run c a p evidence) evidence matrix,
        bindE (expected_gate_requirements (rc_contract c) evidence matrix) (\<lambda>r.
        bindE (expected_security_scans matrix) (\<lambda>scans.
          collectE (evidence_sections (record_run c a p evidence) (ea_closure a) r scans evidence)))]) = Inr []"
    using e(2) by (simp add: evidence_failures_def collectE_nil del: collectE.simps)
  then obtain r scans where "collectE (evidence_sections (record_run c a p evidence) (ea_closure a) r scans evidence) = Inr []"
    by (auto simp: bindE_ok collectE_nil simp del: collectE.simps)
  with e(1) show ?thesis by (auto simp: collectE_nil)
qed

lemma accepted_sections:
  assumes "validate_evidence c a p = Inr []"
  shows "\<exists>evidence. load_doc (rc_files c) p = Loaded (JObj evidence) \<and>
    ev_artifacts (record_run c a p evidence) evidence = Inr [] \<and>
    validate_machine_verification (record_run c a p evidence) evidence = Inr [] \<and>
    validate_subject_graph_section (record_run c a p evidence) evidence (ea_closure a) = Inr [] \<and>
    validate_approvals (record_run c a p evidence) evidence = Inr [] \<and>
    validate_release_decision (record_run c a p evidence) evidence = Inr [] \<and>
    validate_residual_risk (record_run c a p evidence) evidence = Inr []"
proof -
  obtain evidence r scans where e: "load_doc (rc_files c) p = Loaded (JObj evidence)"
    "\<forall>s\<in>set (evidence_sections (record_run c a p evidence) (ea_closure a) r scans evidence). s = Inr []"
    using evidence_accepted [OF assms] by blast
  then show ?thesis by (auto simp: evidence_sections_def)
qed

section \<open>Artifacts\<close>

definition verified_artifact :: "store \<Rightarrow> path \<Rightarrow> obj \<Rightarrow> bool" where
  "verified_artifact fs dir artifact \<longleftrightarrow> nonblank_str (dict_get artifact ''name'') \<and> nonblank_str (dict_get artifact ''role'') \<and>
     preserved_file fs dir (JObj artifact) \<and>
     (\<exists>signature. dict_get artifact ''signature'' = JObj signature \<and> dict_get signature ''verified'' = JBool True \<and>
        present_file fs dir (dict_get signature ''path'') \<and> present_file fs dir (dict_get signature ''certificate'')) \<and>
     (\<exists>provenance. dict_get artifact ''provenance'' = JObj provenance \<and> dict_get provenance ''verified'' = JBool True \<and>
        present_file fs dir (dict_get provenance ''path''))"

text \<open>The evidence preserves a valid record of a check whose subjects include the artifact.\<close>

definition attested_by :: "release_env \<Rightarrow> path \<Rightarrow> obj \<Rightarrow> string \<Rightarrow> obj \<Rightarrow> bool" where
  "attested_by env dir evidence check artifact \<longleftrightarrow> (\<exists>entry payload.
     dict_get (members (dict_get evidence ''machine_verification'')) check = JObj entry \<and> dict_get entry ''status'' = JStr ''passed'' \<and>
     preserved_file (rel_files env) dir (dict_get entry ''record'') \<and>
     read_doc env (preserved_path dir (dict_get entry ''record'')) = JObj payload \<and>
     dict_get payload ''schema_version'' = JStr MACHINE_SCHEMA \<and> validate_record (Some check) payload = Inr [] \<and>
     (text_of (dict_get artifact ''name''), text_of (dict_get artifact ''sha256'')) \<in> set (record_subjects check payload))"

lemma ev_artifact_verified:
  assumes "ev_artifact c p artifact = Inr []" "rc_pass c" "rc_check c"
  shows "verified_artifact (rc_files c) (rc_dir c) artifact"
proof -
  let ?s = "dict_get artifact ''signature''" and ?v = "dict_get artifact ''provenance''"
  have parts: "ev_strings p artifact [''name'', ''role''] = []" "ev_digest_ref c p artifact True = []"
    using assms(1,2) by (simp_all add: ev_artifact_def ev_digest_ref_def Let_def bindE_ok)
  obtain s v where sv: "?s = JObj s" "?v = JObj v" "control_path c (p @ ''.signature'') s ''path'' = []"
      "control_path c (p @ ''.signature'') s ''certificate'' = []" "verified_flag c (p @ ''.signature'') s = []"
      "control_path c (p @ ''.provenance'') v ''path'' = []" "verified_flag c (p @ ''.provenance'') v = []"
    using assms(1) by (auto simp: ev_artifact_def Let_def collectE_nil as_members_nil simp del: collectE.simps)
  have path: "present_file (rc_files c) (rc_dir c) (dict_get o' f)" if "control_path c q o' f = []" for q o' f
    using that assms(2,3) by (auto simp: control_path_def dest: ev_relative_present)
  show ?thesis
    using parts(1) ev_digest_ref_preserved(1) [OF parts(2) assms(3)] path sv assms(2)
    by (auto simp: verified_artifact_def ev_strings_nil verified_flag_def must_be_true_nil)
qed

lemma machine_check_record:
  assumes "machine_check c p name entry = Inr []" "rc_pass c" "rc_check c"
  shows "\<exists>payload. preserved_file (rc_files c) (rc_dir c) (dict_get entry ''record'') \<and>
    ev_ref_file c (dict_get entry ''record'') = Some (preserved_path (rc_dir c) (dict_get entry ''record'')) \<and>
    read_doc (rc_env c) (preserved_path (rc_dir c) (dict_get entry ''record'')) = JObj payload \<and>
    dict_get entry ''status'' = JStr ''passed'' \<and> dict_get payload ''schema_version'' = JStr MACHINE_SCHEMA \<and>
    validate_record (Some name) payload = Inr []"
proof -
  let ?r = "dict_get entry ''record''" and ?q = "preserved_path (rc_dir c) (dict_get entry ''record'')"
  have ref: "ev_ref c (p @ ''.record'') ?r True = []"
    using assms(1,2) by (simp add: machine_check_def Let_def collectE_nil del: collectE.simps)
  note kept = ev_ref_preserved [OF ref assms(3)]
  have doc: "machine_document c p name entry (read_doc (rc_env c) ?q) = Inr []" "dict_get entry ''status'' = JStr ''passed''"
    using assms(1,2) kept(2) by (simp_all add: machine_check_def Let_def collectE_nil must_be_passed_nil del: collectE.simps)
  obtain payload where payload: "read_doc (rc_env c) ?q = JObj payload"
    using doc(1) by (cases "read_doc (rc_env c) ?q") (simp_all add: machine_document_def)
  have "dict_get payload ''schema_version'' = JStr MACHINE_SCHEMA" "validate_record (Some name) payload = Inr []"
    using doc(1) assms(2) unfolding payload
    by (auto simp: machine_document_def Let_def collectE_nil replay_failures_nil bindE_ok simp del: collectE.simps split: if_splits)
  with kept doc(2) payload show ?thesis by blast
qed

lemma machine_verification_entry:
  assumes "validate_machine_verification c evidence = Inr []" "name \<in> set MACHINE_VERIFICATION_CHECKS"
  shows "\<exists>p entry. dict_get (members (dict_get evidence ''machine_verification'')) name = JObj entry \<and> machine_check c p name entry = Inr []"
proof -
  obtain verification where v: "dict_get evidence ''machine_verification'' = JObj verification" "dict_has verification name"
      "\<forall>m\<in>set (map (\<lambda>(n, v). let p = ''$.machine_verification.'' @ n in as_members p v (machine_check c p n)) verification). m = Inr []"
    using assms by (auto simp: validate_machine_verification_def as_members_nil collectE_nil no_report simp del: collectE.simps)
  define w where "w = dict_get verification name"
  have w: "(name, w) \<in> set verification" "dict_get verification name = w"
    using v(2) by (auto simp: w_def dict_has_def dict_get_def dest: map_of_SomeD)
  then have "(let p = ''$.machine_verification.'' @ name in as_members p w (machine_check c p name)) = Inr []"
    using v(3) by (force simp: image_iff)
  then have "\<exists>p entry. w = JObj entry \<and> machine_check c p name entry = Inr []"
    unfolding Let_def as_members_nil by blast
  with v(1) w(2) show ?thesis by auto
qed

lemma covered_attested:
  assumes "validate_machine_verification c evidence = Inr []" "rc_pass c" "rc_check c" "check \<in> {''cosign'', ''attestations''}"
    and "JObj artifact \<in> set (elems (dict_get evidence ''artifacts''))" "is_str (dict_get artifact ''name'')" "is_str (dict_get artifact ''sha256'')"
  shows "attested_by (rc_env c) (rc_dir c) evidence check artifact"
proof -
  let ?ver = "members (dict_get evidence ''machine_verification'')"
  have "check \<in> set MACHINE_VERIFICATION_CHECKS" using assms(4) by (auto simp: MACHINE_VERIFICATION_CHECKS_def)
  then obtain p entry where entry: "dict_get ?ver check = JObj entry" "machine_check c p check entry = Inr []"
    using machine_verification_entry [OF assms(1)] by blast
  obtain payload where r: "preserved_file (rc_files c) (rc_dir c) (dict_get entry ''record'')"
      "ev_ref_file c (dict_get entry ''record'') = Some (preserved_path (rc_dir c) (dict_get entry ''record''))"
      "read_doc (rc_env c) (preserved_path (rc_dir c) (dict_get entry ''record'')) = JObj payload"
      "dict_get entry ''status'' = JStr ''passed''" "dict_get payload ''schema_version'' = JStr MACHINE_SCHEMA"
      "validate_record (Some check) payload = Inr []"
    using machine_check_record [OF entry(2) assms(2,3)] by blast
  obtain verification where ver: "dict_get evidence ''machine_verification'' = JObj verification"
      "\<forall>o'\<in>set (map members (filter is_obj (elems (dict_get evidence ''artifacts'')))). artifact_coverage c verification o' = []"
    using assms(1,2) by (auto simp: validate_machine_verification_def as_members_nil collectE_nil no_report simp del: collectE.simps)
  have "artifact \<in> set (map members (filter is_obj (elems (dict_get evidence ''artifacts''))))"
    using assms(5) by (force simp: image_iff)
  then have "artifact_coverage c verification artifact = []" using ver(2) by blast
  then have "(text_of (dict_get artifact ''name''), text_of (dict_get artifact ''sha256'')) \<in> set (covered_subjects c verification check)"
    using assms(4,6,7) by (auto simp: artifact_coverage_def Let_def)
  then have "(text_of (dict_get artifact ''name''), text_of (dict_get artifact ''sha256'')) \<in> set (record_subjects check payload)"
    using entry(1) r by (simp add: covered_subjects_def ver(1))
  then show ?thesis using entry(1) r by (auto simp: attested_by_def rc_files_def)
qed

text \<open>
  C2. Release-ready evidence that passes with its files checked has artifacts, and each of them is a
  file of the bundle with the recorded digest and size, whose signature, certificate and provenance
  are preserved and marked as verified, and which valid machine verification records of cosign and of
  the attestations, themselves preserved with their digest, name as a subject.
\<close>

theorem evidence_artifacts_verified:
  assumes "validate_evidence c a p = Inr []" and "ea_pass a" and "ea_check a"
  shows "\<exists>evidence. load_doc (rc_files c) p = Loaded (JObj evidence) \<and> elems (dict_get evidence ''artifacts'') \<noteq> [] \<and>
    (\<forall>v. v \<in> set (elems (dict_get evidence ''artifacts'')) \<longrightarrow> (\<exists>artifact. v = JObj artifact \<and>
      verified_artifact (rc_files c) (path_parent p) artifact \<and>
      (\<forall>check. check \<in> {''cosign'', ''attestations''} \<longrightarrow> attested_by (rc_env c) (path_parent p) evidence check artifact)))"
proof -
  obtain evidence where e: "load_doc (rc_files c) p = Loaded (JObj evidence)"
      "ev_artifacts (record_run c a p evidence) evidence = Inr []"
      "validate_machine_verification (record_run c a p evidence) evidence = Inr []"
    using accepted_sections [OF assms(1)] by blast
  let ?c = "record_run c a p evidence" and ?vs = "elems (dict_get evidence ''artifacts'')"
  have walk: "?vs \<noteq> []" "walk_objects ''$.artifacts'' (ev_artifact ?c) ?vs = Inr []"
    using e(2) by (auto simp: ev_artifacts_def Let_def split: if_splits)
  have "\<exists>artifact. v = JObj artifact \<and> verified_artifact (rc_files c) (path_parent p) artifact \<and>
      (\<forall>check. check \<in> {''cosign'', ''attestations''} \<longrightarrow> attested_by (rc_env c) (path_parent p) evidence check artifact)"
    if v: "v \<in> set ?vs" for v
  proof -
    obtain q artifact where o': "v = JObj artifact" "ev_artifact ?c q artifact = Inr []"
      using walk_objects_nil [OF walk(2) v] by blast
    have good: "verified_artifact (rc_files c) (path_parent p) artifact"
      using ev_artifact_verified [OF o'(2)] assms(2,3) by simp
    then have "is_str (dict_get artifact ''name'')" "is_str (dict_get artifact ''sha256'')"
      by (auto simp: verified_artifact_def preserved_file_def nonblank_str_def)
    then show ?thesis using o'(1) good v assms(2,3) covered_attested [OF e(3)] by simp
  qed
  with e(1) walk(1) show ?thesis by blast
qed

section \<open>Subject graph\<close>

text \<open>A node of the graph that the evidence preserves.\<close>

definition kept_node :: "obj \<Rightarrow> obj \<Rightarrow> bool" where
  "kept_node evidence n \<longleftrightarrow> dict_get n ''role'' = JStr ''raw-image'' \<or>
     (dict_get n ''role'' = JStr ''compressed-release-artifact'' \<and> dict_get n ''sha256'' \<in> JStr ` set (evidence_artifact_sha256s evidence)) \<or>
     (\<exists>r. r \<in> set (final_evidence_graph_refs evidence) \<and> dict_get n ''role'' = JStr (gr_role r) \<and>
        dict_get n ''sha256'' = JStr (gr_sha256 r) \<and> py_eq (gr_bytes r) (dict_get n ''bytes''))"

lemma closure_node_kept:
  assumes "closure_node evidence (final_evidence_graph_refs evidence) i n = Inr []"
  shows "kept_node evidence n"
proof -
  let ?role = "dict_get n ''role''" and ?sha = "dict_get n ''sha256''"
  obtain raw where raw: "(in_str_set ?role [''raw-image''] :: bool run) = Inr raw"
    using assms by (auto simp: closure_node_def Let_def bindE_ok)
  consider "raw" | "?role = JStr ''compressed-release-artifact''" "is_str ?sha" "text_of ?sha \<in> set (evidence_artifact_sha256s evidence)"
    | "preserved_node (final_evidence_graph_refs evidence) n"
    using assms raw by (auto simp: closure_node_def Let_def split: if_splits)
  then show ?thesis
  proof cases
    case 1
    then show ?thesis using raw by (auto simp: kept_node_def in_str_set_yes)
  next
    case 2
    then show ?thesis by (auto simp: kept_node_def is_str_iff)
  next
    case 3
    then show ?thesis by (auto simp: kept_node_def preserved_node_def list_ex_iff)
  qed
qed

lemma closure_nodes_kept:
  assumes "validate_subject_graph_closure evidence graph node = Inr []"
  shows "\<exists>subject. dict_get node ''subject_id'' = JStr subject \<and> graph_required_evidence_nodes graph subject \<noteq> [] \<and>
    (\<forall>n\<in>set (graph_required_evidence_nodes graph subject). kept_node evidence n)"
proof -
  obtain subject where subject: "dict_get node ''subject_id'' = JStr subject"
    using assms by (auto simp: validate_subject_graph_closure_def Let_def is_str_iff split: if_splits)
  let ?ns = "graph_required_evidence_nodes graph subject"
  have parts: "?ns \<noteq> []" "collectE (map (\<lambda>(i, n). closure_node evidence (final_evidence_graph_refs evidence) i n) (enumerate 0 ?ns)) = Inr []"
    using assms by (auto simp: validate_subject_graph_closure_def Let_def subject split: if_splits)
  have "kept_node evidence n" if n: "n \<in> set ?ns" for n
  proof -
    obtain i where "(i, n) \<in> set (enumerate 0 ?ns)" using enumerate_item [OF n] ..
    then have "closure_node evidence (final_evidence_graph_refs evidence) i n = Inr []"
      using parts(2) by (auto simp: collectE_nil simp del: collectE.simps)
    then show ?thesis by (rule closure_node_kept)
  qed
  with subject parts(1) show ?thesis by blast
qed

text \<open>The release gate's own check of the graph, against the binding that the evidence preserves.\<close>

definition replayed_graph :: "release_env \<Rightarrow> path \<Rightarrow> path \<Rightarrow> obj \<Rightarrow> path \<Rightarrow> bool" where
  "replayed_graph env matrix_path dir evidence q \<longleftrightarrow> (\<exists>matrix binding profile.
     release_load_matrix env matrix_path = Inr matrix \<and>
     read_doc env (preserved_path dir (dict_get (members (dict_get evidence ''preflight_inputs'')) ''release_input'')) = JObj binding \<and>
     validate_subject_graph env q \<lparr>g_version = ev_text evidence ''version'', g_profile = profile, g_source_sha = ev_commit evidence,
       g_run_id = ev_run_id evidence, g_matrix = matrix, g_binding = JObj binding, g_root = None, g_check_files = False\<rparr> = Inr [])"

lemma ev_ref_file_some:
  assumes "ev_ref_file c v = Some q"
  shows "q = preserved_path (rc_dir c) v"
  using assms by (auto simp: ev_ref_file_def ev_file_def preserved_path_def Let_def dest: inner_path_some split: if_splits option.splits)

lemma replay_subject_graph_nil:
  assumes "replay_subject_graph c evidence q payload = []"
  shows "replayed_graph (rc_env c) (rc_matrix c) (rc_dir c) evidence q"
proof -
  obtain matrix where matrix: "release_load_matrix (rc_env c) (rc_matrix c) = Inr matrix"
    using assms by (auto simp: replay_subject_graph_def Let_def split: sum.splits)
  obtain binding where binding: "preserved_binding c evidence = JObj binding"
    using assms matrix by (auto simp: replay_subject_graph_def Let_def is_obj_iff split: if_splits)
  obtain profile where "validate_subject_graph (rc_env c) q \<lparr>g_version = ev_text evidence ''version'', g_profile = profile,
      g_source_sha = ev_commit evidence, g_run_id = ev_run_id evidence, g_matrix = matrix, g_binding = JObj binding, g_root = None,
      g_check_files = False\<rparr> = Inr []"
    using assms by (auto simp: replay_subject_graph_def Let_def matrix binding replay_failures_nil split: option.splits if_splits)
  moreover have "dict_or_empty v = members v" for v by (cases v) simp_all
  then have "read_doc (rc_env c) (preserved_path (rc_dir c) (dict_get (members (dict_get evidence ''preflight_inputs'')) ''release_input'')) = JObj binding"
    using binding by (auto simp: preserved_binding_def Let_def dest: ev_ref_file_some split: option.splits)
  ultimately show ?thesis using matrix by (auto simp: replayed_graph_def)
qed

lemma graph_section_closed:
  assumes "graph_section_document c evidence True q graph = Inr []"
  shows "\<exists>node. node \<in> set (evidence_graph_nodes graph) \<and> dict_get node ''target'' = JStr (ev_target evidence) \<and>
    replayed_graph (rc_env c) (rc_matrix c) (rc_dir c) evidence q \<and> validate_subject_graph_closure evidence graph node = Inr []"
proof (cases "filter (\<lambda>n. dict_get n ''target'' = JStr (ev_target evidence)) (evidence_graph_nodes graph)")
  case Nil
  then show ?thesis using assms by (auto simp: graph_section_document_def bindE_ok)
next
  case (Cons node ns)
  then have "node \<in> set (filter (\<lambda>n. dict_get n ''target'' = JStr (ev_target evidence)) (evidence_graph_nodes graph))" by simp
  moreover have "replay_subject_graph c evidence q graph = []" "validate_subject_graph_closure evidence graph node = Inr []"
    using assms by (simp_all add: graph_section_document_def Cons collectE_nil del: collectE.simps)
  ultimately show ?thesis using replay_subject_graph_nil by auto
qed


section \<open>Decision\<close>

text \<open>A time in UTC, with a final \<open>Z\<close>.\<close>

definition zulu_time :: "json \<Rightarrow> datetime \<Rightarrow> bool" where
  "zulu_time v d \<longleftrightarrow> nonblank_str v \<and> ends_with (strip (text_of v)) ''Z'' \<and>
     fromisoformat (butlast (strip (text_of v)) @ ''+00:00'') = Some d"

lemma ev_timestamp_nil: "fst (ev_timestamp p v True) = [] \<Longrightarrow> \<exists>d. zulu_time v d \<and> snd (ev_timestamp p v True) = Some d"
  by (auto simp: ev_timestamp_def zulu_time_def Let_def split: if_splits option.splits)

lemma walk_objects_all:
  assumes "walk_objects p k vs = Inr []"
  shows "\<exists>os. vs = map JObj os \<and> (\<forall>o'\<in>set os. \<exists>q. k q o' = Inr [])"
proof -
  have each: "\<exists>o'. v = JObj o' \<and> (\<exists>q. k q o' = Inr [])" if "v \<in> set vs" for v
    using walk_objects_nil [OF assms that] by blast
  then obtain os where os: "vs = map JObj os" using objects_of [of vs] by blast
  have "\<exists>q. k q o' = Inr []" if "o' \<in> set os" for o'
    using each [of "JObj o'"] that by (simp add: os image_iff)
  with os show ?thesis by blast
qed

lemma approvals_accepted:
  assumes "validate_approvals c evidence = Inr []" "rc_pass c"
  shows "\<exists>approvals. dict_get evidence ''approvals'' = JArr (map JObj approvals) \<and>
    (\<forall>ap\<in>set approvals. nonblank_str (dict_get ap ''role'') \<and> nonblank_str (dict_get ap ''name'') \<and> (\<exists>d. zulu_time (dict_get ap ''approved_at'') d)) \<and>
    (\<exists>ap\<in>set approvals. dict_get ap ''role'' = JStr ''release-owner'') \<and>
    (\<exists>ap\<in>set approvals. dict_get ap ''role'' \<in> {JStr ''maintainer'', JStr ''security-compliance''})"
proof -
  obtain vs where vs: "dict_get evidence ''approvals'' = JArr vs" "walk_objects ''$.approvals'' (\<lambda>p o'. Inr (ev_approval p o')) vs = Inr []"
      "approval_roles vs = []"
    using assms by (auto simp: validate_approvals_def as_items_nil collectE_nil simp del: collectE.simps)
  obtain os where os: "vs = map JObj os" "\<forall>o'\<in>set os. \<exists>q. ev_approval q o' = []"
    using walk_objects_all [OF vs(2)] by auto
  have "\<forall>ap\<in>set os. nonblank_str (dict_get ap ''role'') \<and> nonblank_str (dict_get ap ''name'') \<and> (\<exists>d. zulu_time (dict_get ap ''approved_at'') d)"
    using os(2) by (auto simp: ev_approval_def ev_strings_nil dest!: ev_timestamp_nil)
  moreover have "n \<in> set (names_in ''role'' vs) \<longleftrightarrow> (\<exists>ap\<in>set os. dict_get ap ''role'' = JStr n)" for n
    by (auto simp: names_in_iff os(1))
  then have "(\<exists>ap\<in>set os. dict_get ap ''role'' = JStr ''release-owner'')"
      "(\<exists>ap\<in>set os. dict_get ap ''role'' \<in> {JStr ''maintainer'', JStr ''security-compliance''})"
    using vs(3) by (auto simp: approval_roles_def Let_def)
  ultimately show ?thesis using vs(1) os(1) by blast
qed

definition accepted_items :: "obj \<Rightarrow> obj list \<Rightarrow> bool" where
  "accepted_items risk items \<longleftrightarrow> dict_get risk ''items'' = JArr (map JObj items) \<and>
     (\<forall>i\<in>set items. \<forall>f\<in>set RISK_ITEM_FIELDS. nonblank_str (dict_get i f))"

text \<open>A risk that the release accepts: its items, who accepted it and an expiry after the run.\<close>

definition carried_risk :: "int \<Rightarrow> obj \<Rightarrow> bool" where
  "carried_risk now risk \<longleftrightarrow> dict_get risk ''status'' = JStr ''accepted'' \<and> (\<exists>items. items \<noteq> [] \<and> accepted_items risk items) \<and>
     nonblank_str (dict_get risk ''accepted_by'') \<and> (\<exists>d. zulu_time (dict_get risk ''accepted_at'') d) \<and>
     (\<exists>d off. zulu_time (dict_get risk ''expires_at'') d \<and> utc_offset d = Some off \<and> now < local_us d - off)"

lemma accepted_risk_carried:
  assumes "accepted_risk now risk (elems (dict_get risk ''items'')) = Inr []" "accepted_items risk items"
  shows "carried_risk now risk"
proof -
  let ?e = "ev_timestamp ''$.residual_risk.expires_at'' (dict_get risk ''expires_at'') True"
  have parts: "dict_get risk ''status'' = JStr ''accepted''" "elems (dict_get risk ''items'') \<noteq> []" "nonblank_str (dict_get risk ''accepted_by'')"
      "fst (ev_timestamp ''$.residual_risk.accepted_at'' (dict_get risk ''accepted_at'') True) = []" "fst ?e = []"
      "(case snd ?e of None \<Rightarrow> Inr [] | Some d \<Rightarrow> bindE (not_after d now) (\<lambda>expired. Inr (report expired
         (msg ''$.residual_risk.expires_at'' ''must be in the future'')))) = Inr []"
    using assms(1) by (simp_all add: accepted_risk_def Let_def collectE_nil ev_strings_nil del: collectE.simps)
  obtain d where d: "zulu_time (dict_get risk ''expires_at'') d" "snd ?e = Some d" using ev_timestamp_nil [OF parts(5)] by blast
  obtain off where "utc_offset d = Some off" "now < local_us d - off"
    using parts(6) d(2) by (auto simp: bindE_ok not_after_def split: option.splits)
  moreover have "items \<noteq> []" using assms(2) parts(2) by (auto simp: accepted_items_def)
  ultimately show ?thesis using parts(1,3) ev_timestamp_nil [OF parts(4)] d(1) assms(2) by (auto simp: carried_risk_def)
qed

lemma risk_accepted:
  assumes "validate_residual_risk c evidence = Inr []" "rc_pass c" "dict_get evidence ''release_decision'' = JObj decision"
  shows "\<exists>risk items. dict_get evidence ''residual_risk'' = JObj risk \<and> accepted_items risk items \<and>
    (dict_get decision ''status'' = JStr ''approved'' \<longrightarrow> dict_get risk ''status'' = JStr ''none'' \<and> items = []) \<and>
    (dict_get decision ''status'' = JStr ''approved_with_residual_risk'' \<longrightarrow> carried_risk (rel_now (rc_env c)) risk)"
proof -
  obtain risk vs where risk: "dict_get evidence ''residual_risk'' = JObj risk" "dict_get risk ''items'' = JArr vs"
      "walk_objects ''$.residual_risk.items'' (\<lambda>p o'. Inr (ev_strings p o' RISK_ITEM_FIELDS)) vs = Inr []"
      "(if dict_get decision ''status'' = JStr ''approved'' then without_risk risk (elems (dict_get risk ''items'')) else []) = []"
      "(if dict_get decision ''status'' = JStr ''approved_with_residual_risk''
        then accepted_risk (rel_now (rc_env c)) risk (elems (dict_get risk ''items'')) else Inr []) = Inr []"
    using assms by (auto simp: validate_residual_risk_def as_members_nil as_items_nil collectE_nil Let_def simp del: collectE.simps)
  obtain items where items: "vs = map JObj items" "\<forall>i\<in>set items. \<exists>q. ev_strings q i RISK_ITEM_FIELDS = []"
    using walk_objects_all [OF risk(3)] by auto
  then have good: "accepted_items risk items" using risk(2) by (auto simp: accepted_items_def ev_strings_nil)
  have "dict_get risk ''status'' = JStr ''none'' \<and> items = []" if "dict_get decision ''status'' = JStr ''approved''"
    using risk(2,4) that items(1) by (simp add: without_risk_def)
  moreover have "carried_risk (rel_now (rc_env c)) risk" if "dict_get decision ''status'' = JStr ''approved_with_residual_risk''"
    using accepted_risk_carried [OF _ good] risk(5) that by simp
  ultimately show ?thesis using risk(1) good by blast
qed

text \<open>
  C5. Release-ready evidence that passes was decided: every approval names a role, a person and a time
  in UTC, the release owner is among the roles, and so is the maintainer or security compliance; the
  decision names who made it, when and why; and it is either an approval without residual risk, of
  which none is listed, or one that carries residual risk, each item complete, accepted by a named
  person and not expired at the time of the run.
\<close>

theorem evidence_decided:
  assumes "validate_evidence c a p = Inr []" and "ea_pass a"
  shows "\<exists>evidence approvals decision risk. load_doc (rc_files c) p = Loaded (JObj evidence) \<and>
    dict_get evidence ''approvals'' = JArr (map JObj approvals) \<and>
    (\<forall>ap. ap \<in> set approvals \<longrightarrow> nonblank_str (dict_get ap ''role'') \<and> nonblank_str (dict_get ap ''name'') \<and>
       (\<exists>d. zulu_time (dict_get ap ''approved_at'') d)) \<and>
    (\<exists>ap. ap \<in> set approvals \<and> dict_get ap ''role'' = JStr ''release-owner'') \<and>
    (\<exists>ap. ap \<in> set approvals \<and> dict_get ap ''role'' \<in> {JStr ''maintainer'', JStr ''security-compliance''}) \<and>
    dict_get evidence ''release_decision'' = JObj decision \<and> nonblank_str (dict_get decision ''decided_by'') \<and>
    nonblank_str (dict_get decision ''rationale'') \<and> (\<exists>d. zulu_time (dict_get decision ''decided_at'') d) \<and>
    dict_get evidence ''residual_risk'' = JObj risk \<and>
    (dict_get decision ''status'' = JStr ''approved'' \<and> dict_get risk ''status'' = JStr ''none'' \<and> dict_get risk ''items'' = JArr [] \<or>
     dict_get decision ''status'' = JStr ''approved_with_residual_risk'' \<and> carried_risk (rel_now (rc_env c)) risk)"
proof -
  obtain evidence where e: "load_doc (rc_files c) p = Loaded (JObj evidence)"
      "validate_approvals (record_run c a p evidence) evidence = Inr []" "validate_release_decision (record_run c a p evidence) evidence = Inr []"
      "validate_residual_risk (record_run c a p evidence) evidence = Inr []"
    using accepted_sections [OF assms(1)] by blast
  obtain decision where d: "dict_get evidence ''release_decision'' = JObj decision" "nonblank_str (dict_get decision ''decided_by'')"
      "nonblank_str (dict_get decision ''rationale'')"
      "fst (ev_timestamp ''$.release_decision.decided_at'' (dict_get decision ''decided_at'') True) = []"
      "dict_get decision ''status'' \<in> {JStr ''approved'', JStr ''approved_with_residual_risk''}"
    using e(3) assms(2) by (auto simp: validate_release_decision_def as_members_nil collectE_nil ev_string_nil Let_def simp del: collectE.simps)
  have pass: "rc_pass (record_run c a p evidence)" using assms(2) by simp
  obtain risk items where risk: "dict_get evidence ''residual_risk'' = JObj risk" "accepted_items risk items"
      "dict_get decision ''status'' = JStr ''approved'' \<longrightarrow> dict_get risk ''status'' = JStr ''none'' \<and> items = []"
      "dict_get decision ''status'' = JStr ''approved_with_residual_risk'' \<longrightarrow> carried_risk (rel_now (rc_env c)) risk"
    using risk_accepted [OF e(4) pass d(1)] by auto
  have "dict_get decision ''status'' = JStr ''approved'' \<and> dict_get risk ''status'' = JStr ''none'' \<and> dict_get risk ''items'' = JArr [] \<or>
      dict_get decision ''status'' = JStr ''approved_with_residual_risk'' \<and> carried_risk (rel_now (rc_env c)) risk"
    using d(5) risk(2-4) by (auto simp: accepted_items_def)
  then show ?thesis
    using e(1) approvals_accepted [OF e(2) pass] d(1-3) ev_timestamp_nil [OF d(4)] risk(1) by blast
qed

text \<open>
  Migration brings older evidence to the current schema, once and for all and without touching what
  is there.
\<close>

section \<open>Defaults\<close>

lemma dict_set_same: "map_of d k = Some v \<Longrightarrow> dict_set d k v = d"
  by (induction d) (auto split: if_splits)

lemma dict_has_map_of: "dict_has d k \<longleftrightarrow> map_of d k \<noteq> None"
  by (simp add: dict_has_def dict_keys_def map_of_eq_None_iff)

lemma map_of_set_default: "map_of (set_default k v d) k' = (if k' = k \<and> map_of d k = None then Some v else map_of d k')"
  by (auto simp: set_default_def dict_has_map_of map_of_dict_set)

definition with_defaults :: "obj \<Rightarrow> obj \<Rightarrow> obj" where
  "with_defaults kvs d = foldl (\<lambda>o' (k, v). set_default k v o') d kvs"

lemma map_of_with_defaults:
  "map_of (with_defaults kvs d) k = (case map_of d k of None \<Rightarrow> map_of kvs k | Some w \<Rightarrow> Some w)"
  unfolding with_defaults_def
  by (induction kvs arbitrary: d) (auto simp: map_of_set_default split: option.splits)

lemma with_defaults_present: "(\<And>k. k \<in> fst ` set kvs \<Longrightarrow> map_of d k \<noteq> None) \<Longrightarrow> with_defaults kvs d = d"
  unfolding with_defaults_def
proof (induction kvs)
  case (Cons kv kvs)
  then have "set_default (fst kv) (snd kv) d = d" by (simp add: set_default_def dict_has_map_of)
  then show ?case using Cons by (simp add: case_prod_beta)
qed simp

definition BLOCKED_CHECKS :: obj where
  "BLOCKED_CHECKS = map (\<lambda>n. (n, JObj [(''status'', JStr ''not_collected''), (''evidence'', JNull)])) EVIDENCE_GOVERNANCE_CHECKS"

lemma with_governance_checks_obj: "with_governance_checks (JObj m) = JObj (with_defaults BLOCKED_CHECKS m)"
  by (simp add: with_governance_checks_def with_defaults_def BLOCKED_CHECKS_def foldl_map)

lemma governance_checks_twice: "with_governance_checks (with_governance_checks v) = with_governance_checks v"
proof (cases v)
  case (JObj m)
  have "with_defaults BLOCKED_CHECKS (with_defaults BLOCKED_CHECKS m) = with_defaults BLOCKED_CHECKS m"
    by (rule with_defaults_present) (auto simp: map_of_with_defaults dest: weak_map_of_SomeI split: option.splits)
  then show ?thesis by (simp add: JObj with_governance_checks_obj)
qed (simp_all add: with_governance_checks_def)

lemma governance_twice: "with_governance (with_governance v) = with_governance v"
proof (cases v)
  case (JObj m)
  let ?o = "set_default ''checks'' (JObj []) m"
  let ?w = "with_governance_checks (dict_get ?o ''checks'')"
  have m': "with_governance v = JObj (dict_set ?o ''checks'' ?w)" by (simp add: JObj with_governance_def Let_def)
  have has: "map_of (dict_set ?o ''checks'' ?w) ''checks'' = Some ?w" by (simp add: map_of_dict_set)
  then have "set_default ''checks'' (JObj []) (dict_set ?o ''checks'' ?w) = dict_set ?o ''checks'' ?w"
    by (simp add: set_default_def dict_has_map_of)
  moreover have "dict_get (dict_set ?o ''checks'' ?w) ''checks'' = ?w" using has by (simp add: dict_get_def)
  ultimately show ?thesis
    unfolding m' using dict_set_same [OF has] by (simp add: with_governance_def Let_def governance_checks_twice)
qed (simp_all add: with_governance_def)

section \<open>Migration\<close>

lemma migrated_fields_defaults:
  "migrated_fields schema d = with_defaults MIGRATED_FIELDS
     (let e = set_default ''governance'' (JObj []) (dict_set d ''schema_version'' (JStr schema))
      in dict_set e ''governance'' (with_governance (dict_get e ''governance'')))"
  by (simp add: migrated_fields_def with_defaults_def Let_def)

lemma map_of_migrated:
  "map_of (migrated_fields schema d) k =
     (if k = ''schema_version'' then Some (JStr schema)
      else if k = ''governance'' then Some (with_governance (case map_of d k of None \<Rightarrow> JObj [] | Some v \<Rightarrow> v))
      else case map_of d k of None \<Rightarrow> map_of MIGRATED_FIELDS k | Some v \<Rightarrow> Some v)"
  by (auto simp: migrated_fields_defaults map_of_with_defaults Let_def map_of_dict_set map_of_set_default dict_get_def split: option.splits)

lemma migrated_twice: "migrated_fields schema (migrated_fields schema d) = migrated_fields schema d"
proof -
  let ?e = "migrated_fields schema d"
  have schema: "dict_set ?e ''schema_version'' (JStr schema) = ?e" by (rule dict_set_same) (simp add: map_of_migrated)
  have gov: "map_of ?e ''governance'' = Some (with_governance (case map_of d ''governance'' of None \<Rightarrow> JObj [] | Some v \<Rightarrow> v))"
    by (simp add: map_of_migrated)
  then have default: "set_default ''governance'' (JObj []) ?e = ?e" by (simp add: set_default_def dict_has_map_of)
  have "dict_set ?e ''governance'' (with_governance (dict_get ?e ''governance'')) = ?e"
    using gov by (intro dict_set_same) (simp add: dict_get_def governance_twice)
  moreover have "with_defaults MIGRATED_FIELDS ?e = ?e"
    by (rule with_defaults_present) (auto simp: map_of_migrated dest: weak_map_of_SomeI split: option.splits)
  ultimately show ?thesis
    by (subst migrated_fields_defaults) (simp add: schema default Let_def)
qed


end
