(* ===== verification/SkeletonProps.thy ===== *)
theory SkeletonProps
  imports RecordProps
begin

text \<open>
  The evidence that \<open>generate\<close> writes for a target of the matrix is valid evidence: the generator and
  the validator of \<open>release-evidence.py\<close> agree on the schema, the paths and what a target requires.
\<close>

section \<open>Texts and paths\<close>

lemma strip_nonspace: "c \<in> set s \<Longrightarrow> \<not> is_space c \<Longrightarrow> strip s \<noteq> []"
proof -
  assume "c \<in> set s" "\<not> is_space c"
  then have "dropWhile is_space s \<noteq> []" by (auto simp: dropWhile_eq_Nil_conv)
  then have "hd (dropWhile is_space s) \<in> set (dropWhile is_space s)" "\<not> is_space (hd (dropWhile is_space s))"
    using hd_dropWhile [of is_space s] by auto
  then show ?thesis by (auto simp: strip_def rstrip_def lstrip_def dropWhile_eq_Nil_conv)
qed

lemma alnum_not_special: "is_alnum_ascii c \<Longrightarrow> \<not> is_space c \<and> c \<noteq> CHR ''/'' \<and> c \<noteq> CHR ''.''"
  by (auto simp: is_alnum_ascii_def is_ascii_digit_def is_space_def Let_def code_def)

lemma safe_identifier_chars:
  assumes "safe_identifier s"
  shows "nonblank_str (JStr s)" and "CHR ''/'' \<notin> set s" and "s \<notin> {[], ''.'', ''..''}" and "path_of s = Path False [s]"
proof -
  obtain c t where s: "s = c # t" "is_alnum_ascii c" "\<forall>d\<in>set t. is_alnum_ascii d \<or> d \<in> set ''._+-''"
    using assms by (cases s) (auto simp: safe_identifier_def list_all_iff)
  note c = alnum_not_special [OF s(2)]
  show "nonblank_str (JStr s)" using strip_nonspace [of c s] s(1) c by (simp add: nonblank_str_iff)
  show slash: "CHR ''/'' \<notin> set s" using s alnum_not_special by force
  show plain: "s \<notin> {[], ''.'', ''..''}" using s(1) c by auto
  show "path_of s = Path False [s]"
    using split_on_id [OF slash] plain slash by (auto simp: path_of_def starts_with_iff)
qed

lemma below_dir:
  assumes "CHR ''/'' \<notin> set d" "d \<notin> {[], ''.'', ''..''}" "CHR ''/'' \<notin> set n" "n \<noteq> ''..''"
  shows "inner_path (JStr (d @ ''/'' @ n)) \<noteq> None"
proof -
  have "split_on (CHR ''/'') (d @ ''/'' @ n) = [d, n]"
    using split_on_append_sep [OF assms(1)] split_on_id [OF assms(3)] by simp
  then show ?thesis
    using assms by (cases d) (auto simp: inner_path_def path_of_def starts_with_def Let_def)
qed

lemma sbom_base_chars: "set (sbom_base a) \<subseteq> set a"
  by (auto simp: sbom_base_def release_rename_base_def dest: in_set_takeD)

section \<open>Checks of evidence that has not been collected\<close>

text \<open>The settings under which a skeleton is looked at.\<close>

definition lenient :: "record_ctx \<Rightarrow> bool" where
  "lenient c \<longleftrightarrow> \<not> rc_pass c \<and> \<not> rc_check c"

lemma lenient_strictly [simp]: "lenient c \<Longrightarrow> \<not> strictly c r" "lenient c \<Longrightarrow> \<not> rc_pass c" "lenient c \<Longrightarrow> \<not> rc_check c"
  by (simp_all add: lenient_def strictly_def)

lemma lenient_files [simp]: "lenient c \<Longrightarrow> ev_file c v = None" "lenient c \<Longrightarrow> ev_file_sha c p v w = []" "lenient c \<Longrightarrow> ev_file_size c p v w = []"
  "lenient c \<Longrightarrow> replay_of c v k = Inr []" "lenient c \<Longrightarrow> ev_relative c p JNull False = []"
  by (simp_all add: ev_file_def ev_file_sha_def ev_file_size_def replay_of_def ev_relative_def)

lemma lenient_null [simp]: "ev_sha256 p JNull False = []" "ev_positive p JNull False = []" "ev_ref c p JNull False = []" "ev_ref_file c JNull = None"
  "ev_timestamp p JNull False = ([], None)" "must_be_true False p v = []" "must_be_passed False p v = []"
  by (simp_all add: ev_sha256_def ev_positive_def ev_ref_def ev_ref_file_def ev_timestamp_def must_be_true_def must_be_passed_def)

lemma lenient_relative: "lenient c \<Longrightarrow> nonblank_str (JStr s) \<Longrightarrow> inner_path (JStr s) \<noteq> None \<Longrightarrow> ev_relative c p (JStr s) r = []"
  by (auto simp: ev_relative_def)

lemma not_run_status: "ev_status p (run_status r) STATUS_VALUES = Inr []" "ev_status p (JStr ''not_run'') STATUS_VALUES = Inr []"
  "ev_status p (JStr ''not_collected'') STATUS_VALUES = Inr []" "ev_status p (JStr ''not_collected'') VEX_STATUS_VALUES = Inr []"
  by (simp_all add: ev_status_def run_status_def in_str_set_def STATUS_VALUES_def VEX_STATUS_VALUES_def)

section \<open>The sections of a skeleton\<close>

definition skeleton :: "string \<Rightarrow> string \<Rightarrow> string \<Rightarrow> string \<Rightarrow> obj \<Rightarrow> obj \<Rightarrow> string \<Rightarrow> string list \<Rightarrow> gate_requirements \<Rightarrow> string list \<Rightarrow> obj" where
  "skeleton schema version target now contract source artifact scans r checks =
     [(''schema_version'', JStr schema), (''version'', JStr version), (''target'', JStr target), (''generated_at'', JStr now),
      (''target_contract'', JObj contract), (''source'', JObj source)] @ skeleton_sections artifact scans @ skeleton_results r checks"

lemma skeleton_get_head:
  "dict_get (skeleton sc v t n tc s a scans r checks) ''schema_version'' = JStr sc" "dict_get (skeleton sc v t n tc s a scans r checks) ''version'' = JStr v"
  "dict_get (skeleton sc v t n tc s a scans r checks) ''target'' = JStr t" "dict_get (skeleton sc v t n tc s a scans r checks) ''generated_at'' = JStr n"
  "dict_get (skeleton sc v t n tc s a scans r checks) ''target_contract'' = JObj tc" "dict_get (skeleton sc v t n tc s a scans r checks) ''source'' = JObj s"
  "dict_get_or (skeleton sc v t n tc s a scans r checks) ''target'' w = JStr t"
  "dict_get_or (skeleton sc v t n tc s a scans r checks) ''artifacts'' w = JArr [skeleton_artifact a]"
  "dict_get_or (skeleton sc v t n tc s a scans r checks) ''release_image_scan_reports'' w = JArr []"
  by (simp_all add: skeleton_def skeleton_sections_def skeleton_results_def dict_get_literal)

lemma skeleton_get:
  "k \<notin> {''schema_version'', ''version'', ''target'', ''generated_at'', ''target_contract'', ''source''} \<Longrightarrow>
     dict_get (skeleton sc v t n tc s a scans r checks) k = dict_get (skeleton_sections a scans @ skeleton_results r checks) k"
  by (simp add: skeleton_def dict_get_literal)

lemma get_append: "dict_get (d @ e) k = (if k \<in> set (dict_keys d) then dict_get d k else dict_get e k)"
  by (induction d) (auto simp: dict_get_def dict_keys_def)

lemma skeleton_keys: "dict_keys (skeleton_sections a scans) = [''asset_manifest'', ''artifacts'', ''sbom'', ''vex'', ''reproducibility'', ''security_scans'',
    ''machine_verification'', ''build_evidence'', ''preflight_inputs'', ''subject_graph'', ''governance'', ''governance_role_bindings'']"
  by (simp add: skeleton_sections_def dict_keys_def)

lemmas skeleton_simps = skeleton_get skeleton_get_head get_append skeleton_keys dict_get_literal Let_def as_members_def as_items_def walk_objects_def
  walk_items_def ev_strings_def ev_string_def ev_bool_def not_run_status lenient_relative

lemma skeleton_texts: "nonblank_str (JStr ''release-image'')" "nonblank_str (JStr ''release-assets.json'')"
  "inner_path (JStr ''release-assets.json'') \<noteq> None" "nonblank_str (JStr ''Evidence has not been reviewed.'')" "nonblank_str (JStr ''enterprise-two-role'')"
  "nonblank_str (JStr ''unknown'')" "nonblank_str (JStr ''github-actions'')" "nonblank_str (JStr ''not_collected'')" "nonblank_str (JStr ''Image Build'')"
  "nonblank_str (JStr ''Release Preflight'')" "nonblank_str (JStr ''Release'')" "nonblank_str (JStr ''Release Publish'')"
  by code_simp+

lemma skeleton_paths:
  assumes "safe_identifier a"
  shows "nonblank_str (JStr (''artifacts/'' @ a))" "inner_path (JStr (''artifacts/'' @ a)) \<noteq> None"
    "nonblank_str (JStr (''artifacts/'' @ a @ ''.sig''))" "inner_path (JStr (''artifacts/'' @ a @ ''.sig'')) \<noteq> None"
    "nonblank_str (JStr (''artifacts/'' @ a @ ''.cert''))" "inner_path (JStr (''artifacts/'' @ a @ ''.cert'')) \<noteq> None"
    "nonblank_str (JStr (''provenance/'' @ a @ ''.intoto.jsonl''))" "inner_path (JStr (''provenance/'' @ a @ ''.intoto.jsonl'')) \<noteq> None"
    "nonblank_str (JStr (''sbom/'' @ sbom_base a @ ''.cyclonedx.json''))" "inner_path (JStr (''sbom/'' @ sbom_base a @ ''.cyclonedx.json'')) \<noteq> None"
proof -
  have slashed: "nonblank_str (JStr s)" if "CHR ''/'' \<in> set s" for s
    using strip_nonspace [OF that] by (simp add: nonblank_str_iff is_space_def code_def)
  show "nonblank_str (JStr (''artifacts/'' @ a))" "nonblank_str (JStr (''artifacts/'' @ a @ ''.sig''))"
    "nonblank_str (JStr (''artifacts/'' @ a @ ''.cert''))" "nonblank_str (JStr (''provenance/'' @ a @ ''.intoto.jsonl''))"
    "nonblank_str (JStr (''sbom/'' @ sbom_base a @ ''.cyclonedx.json''))" by (simp_all add: slashed)
  have plain: "CHR ''/'' \<notin> set a" "a \<noteq> ''..''" "CHR ''/'' \<notin> set (sbom_base a)"
    using safe_identifier_chars [OF assms] sbom_base_chars [of a] by auto
  have long: "w @ e \<noteq> ''..''" if "last e \<noteq> CHR ''.''" "e \<noteq> []" for w e
  proof
    assume "w @ e = ''..''"
    then have "last (w @ e) = CHR ''.''" by simp
    with that show False by simp
  qed
  show "inner_path (JStr (''artifacts/'' @ a)) \<noteq> None" "inner_path (JStr (''artifacts/'' @ a @ ''.sig'')) \<noteq> None"
    "inner_path (JStr (''artifacts/'' @ a @ ''.cert'')) \<noteq> None" "inner_path (JStr (''provenance/'' @ a @ ''.intoto.jsonl'')) \<noteq> None"
    "inner_path (JStr (''sbom/'' @ sbom_base a @ ''.cyclonedx.json'')) \<noteq> None"
    using plain below_dir [of "''artifacts''" a] below_dir [of "''artifacts''" "a @ ''.sig''"] below_dir [of "''artifacts''" "a @ ''.cert''"]
      below_dir [of "''provenance''" "a @ ''.intoto.jsonl''"] below_dir [of "''sbom''" "sbom_base a @ ''.cyclonedx.json''"]
    by (simp_all add: long)
qed

lemma skeleton_released:
  assumes "lenient c" and "safe_identifier a" and "e = skeleton sc v t n tc s a scans r checks"
  shows "validate_asset_manifest c e = Inr []" "ev_artifacts c e = Inr []" "validate_sbom c e = Inr []" "validate_vex c e = Inr []"
    "validate_reproducibility c e = Inr []"
  using assms(1) skeleton_texts skeleton_paths [OF assms(2)] safe_identifier_chars(1) [OF assms(2)]
  unfolding assms(3)
  by (simp_all add: skeleton_simps skeleton_sections_def validate_asset_manifest_def ev_artifacts_def skeleton_artifact_def ev_artifact_def
    control_path_def verified_flag_def validate_sbom_def validate_vex_def validate_reproducibility_def)

lemma walk_objects_pass:
  "(\<And>v. v \<in> set vs \<Longrightarrow> \<exists>o'. v = JObj o' \<and> (\<forall>q. k q o' = Inr [])) \<Longrightarrow> walk_objects p k vs = Inr []"
  by (fastforce simp: walk_objects_def walk_items_def collectE_nil as_members_def dest: enumerate_snd simp del: collectE.simps)

lemma skeleton_scans:
  assumes "lenient c" and "\<forall>x\<in>set scans. strip x \<noteq> []" and "e = skeleton sc v t n tc s a scans r checks"
  shows "security_scan_list c e None = Inr []"
proof -
  have "dict_get e ''security_scans'' = JArr (map (\<lambda>n. JObj [(''name'', JStr n), (''status'', JStr ''not_run''), (''report'', JNull)]) scans)"
    unfolding assms(3) by (simp add: skeleton_simps skeleton_sections_def)
  moreover have "walk_objects p (status_entry c) (map (\<lambda>n. JObj [(''name'', JStr n), (''status'', JStr ''not_run''), (''report'', JNull)]) scans) = Inr []" for p
    using assms(1,2) by (intro walk_objects_pass) (auto simp: status_entry_def Let_def dict_get_literal ev_string_def nonblank_str_iff not_run_status)
  ultimately show ?thesis using assms(1) by (simp add: security_scan_list_def as_items_def)
qed

lemma skeleton_verification:
  assumes "lenient c" and "e = skeleton sc v t n tc s a scans r checks"
  shows "validate_machine_verification c e = Inr []" "validate_build_evidence c e = Inr []" "validate_preflight_inputs c e = Inr []"
    "validate_subject_graph_section c e closure = Inr []" "validate_governance_section c e = Inr []"
    "validate_governance_role_bindings_section c e = Inr []"
  using assms(1) skeleton_texts unfolding assms(2)
  by (simp_all add: skeleton_simps skeleton_sections_def validate_machine_verification_def MACHINE_VERIFICATION_CHECKS_def same_for_def dict_has_def
    machine_check_def validate_build_evidence_def validate_preflight_inputs_def validate_subject_graph_section_def validate_governance_section_def
    EVIDENCE_GOVERNANCE_CHECKS_def governance_check_def positive_int_def int_above_def validate_governance_role_bindings_section_def)

lemma required_flag_same: "dict_get o' ''required'' = JBool b \<Longrightarrow> required_flag p o' b = []"
  by (simp add: required_flag_def ev_bool_def)

lemma skeleton_result_sections:
  assumes "lenient c" and "e = skeleton sc v t n tc s a scans r checks"
    and "hardware_required_checks (rc_contract c) = Inr hs" and "runtime_suite_targets_for t (rc_contract c) = Inr ts"
  shows "validate_qemu c e (qemu_required r) = Inr []" "validate_runtime_qemu c e (runtime_required r) = Inr []"
    "validate_runtime_observations_section c e (runtime_required r) = Inr []" "validate_hardware c e (hardware_required r) = Inr []"
    "validate_hardware_subjects_section c e (hardware_required r) = Inr []" "validate_station_acquisitions c e (hardware_required r) = Inr []"
    "validate_signing_manifests_section c e (signing_required r) = Inr []" "validate_hsm_signing_sessions c e (signing_required r) = Inr []"
    "validate_release_image_scan_reports c e (image_scan_required r) = Inr []"
    "validate_scanner_native_reports_section c e (image_scan_required r) = Inr []" "validate_retention_manifest_section c e = Inr []"
    "validate_approvals c e = Inr []" "validate_release_decision c e = Inr []" "validate_residual_risk c e = Inr []"
  using assms(1,3,4) skeleton_texts unfolding assms(2)
  by (simp_all add: skeleton_simps skeleton_results_def validate_qemu_def required_flag_same qemu_check_names_def qemu_execution_def dict_has_def
    validate_runtime_qemu_def from_checked_def ev_target_def validate_runtime_observations_section_def validate_hardware_def
    validate_hardware_subjects_section_def validate_station_acquisitions_def validate_signing_manifests_section_def validate_hsm_signing_sessions_def
    validate_release_image_scan_reports_def validate_scanner_native_reports_section_def report_keys_def validate_retention_manifest_section_def
    validate_approvals_def validate_release_decision_def validate_residual_risk_def ev_status_def in_str_set_def EVIDENCE_DECISION_STATUSES_def
    EVIDENCE_RISK_STATUSES_def names_in_def run_status_def STATUS_VALUES_def)

lemma dict_set_items: "kv \<in> set (dict_set d k v) \<Longrightarrow> kv = (k, v) \<or> kv \<in> set d"
  by (induction d) (auto split: if_splits)

lemma same_for_items: "(n, w) \<in> set (same_for names v) \<Longrightarrow> w = v"
proof (induction names arbitrary: w rule: rev_induct)
  case (snoc x xs)
  then show ?case by (auto simp: same_for_def dest: dict_set_items)
qed (simp add: same_for_def)

lemma skeleton_source_ok:
  assumes "lenient c" and "e = skeleton sc v t n tc (skeleton_source co v) a scans r checks" and "nonblank_str (JStr v)"
  shows "validate_source c e = Inr []"
proof -
  have git: "nonblank_str (git_value co args)" for args
  proof -
    have "strip (strip x) \<noteq> []" if "strip x \<noteq> []" for x
      using that last_rstrip [of "lstrip x"] strip_nonspace [of "last (strip x)" "strip x"] by (simp add: strip_def)
    then show ?thesis
      using skeleton_texts by (auto simp: git_value_def or_else_def repository_text_def Let_def nonblank_str_iff split: if_splits)
  qed
  show ?thesis using assms(1,3) skeleton_texts git unfolding assms(2)
    by (simp add: skeleton_simps validate_source_def skeleton_source_def workflow_identity_def WORKFLOW_FIELDS_def source_workflow_def)
qed

lemma same_for_has: "n \<in> set names \<Longrightarrow> dict_has (same_for names v) n"
  by (induction names rule: rev_induct) (auto simp: same_for_def dict_has_map_of map_of_dict_set)

lemma skeleton_runtime_checks:
  assumes "lenient c" and "e = skeleton sc v t n tc s a scans r (map text_of names)" and "runtime_required_checks (rc_contract c) = Inr names"
  shows "validate_runtime_checks c e (runtime_required r) = Inr []"
proof -
  let ?w = "JObj [(''required'', JBool (runtime_required r)), (''status'', run_status (runtime_required r)), (''evidence'', JNull)]"
  have checks: "dict_get e ''runtime_checks'' = JObj (same_for (map text_of names) ?w)"
    unfolding assms(2) by (simp add: skeleton_simps skeleton_results_def)
  have item: "runtime_check c (runtime_required r) p (members ?w) = Inr []" for p
    using assms(1) by (simp add: runtime_check_def required_flag_same not_run_status dict_get_literal must_be_passed_def)
  have "collectE (map (\<lambda>(n, v). let p = ''$.runtime_checks.'' @ n in as_members p v (runtime_check c (runtime_required r) p))
      (same_for (map text_of names) ?w)) = Inr []"
    using item by (auto simp: collectE_nil as_members_def dest!: same_for_items simp del: collectE.simps)
  moreover have "concat (map (\<lambda>n. report (\<not> dict_has (same_for (map text_of names) ?w) n) (f n)) (map text_of names)) = []" for f
    using same_for_has [of _ "map text_of names" ?w] by (auto simp: concat_map_nil report_empty)
  ultimately show ?thesis
    by (simp add: validate_runtime_checks_def checks as_members_def assms(3) from_checked_def)
qed

section \<open>The target\<close>

text \<open>A row of the matrix for a target, with the fields that the evidence copies.\<close>

definition release_row :: "string \<Rightarrow> obj \<Rightarrow> bool" where
  "release_row target row \<longleftrightarrow> dict_get row ''target'' = JStr target \<and> safe_identifier target \<and>
     is_str (dict_get row ''release_artifact'') \<and> safe_identifier (text_of (dict_get row ''release_artifact'')) \<and>
     list_all (\<lambda>f. nonblank_str (dict_get row f)) [''name'', ''arch'', ''artifact'', ''profile'', ''boot_mode'', ''partition_table'',
       ''root_partition'', ''root_identity'', ''signing'', ''acceptance''] \<and>
     list_all (\<lambda>f. is_bool (dict_get row f)) [''production_required'', ''production_ready'']"

lemma contract_copied:
  assumes "contract_from_matrix row = Inr tc"
  shows "tc = map (\<lambda>(f, g). (f, dict_get row g)) CONTRACT_FIELDS"
proof -
  have "list_all2 (\<lambda>x y. y = (case x of (f, g) \<Rightarrow> (f, dict_get row g))) CONTRACT_FIELDS tc"
    using assms unfolding contract_from_matrix_def mapE_ok
    by (rule list_all2_mono) (auto simp: bindE_ok dict_index_ok dict_get_map_of)
  then show ?thesis by (induction rule: list_all2_induct) auto
qed

lemma copied_value_same: "nonblank_str x \<or> is_bool x \<Longrightarrow> py_eq x x"
  by (auto simp: nonblank_str_iff is_bool_iff)

lemma skeleton_contract:
  assumes "release_row t row" and "contract_from_matrix row = Inr tc" and "e = skeleton sc v t n tc s a scans r checks"
    and "targets_by_id m = Inr targets" and "targets t = Some row"
  shows "validate_target_contract e (Some m) = Inr []"
proof -
  note tc = contract_copied [OF assms(2)]
  have row: "nonblank_str (JStr t)" "\<exists>a. dict_get row ''release_artifact'' = JStr a \<and> nonblank_str (JStr a)"
    using assms(1) safe_identifier_chars(1) by (auto simp: release_row_def is_str_iff)
  have keys: "dict_keys tc = TARGET_CONTRACT_FIELDS" unfolding tc by (simp add: TARGET_CONTRACT_FIELDS_def dict_keys_def CONTRACT_FIELDS_def)
  have texts: "minus_list TARGET_CONTRACT_FIELDS [''production_required'', ''production_ready''] = [''defconfig'', ''target'', ''arch'', ''artifact'',
      ''release_artifact'', ''profile'', ''boot_mode'', ''partition_table'', ''root_partition'', ''root_identity'', ''signing'', ''acceptance'']"
    "minus_list TARGET_CONTRACT_FIELDS TARGET_CONTRACT_FIELDS = []" by code_simp+
  have get: "dict_get tc ''defconfig'' = dict_get row ''name''" "dict_get tc ''target'' = dict_get row ''target''"
    "dict_get tc ''arch'' = dict_get row ''arch''" "dict_get tc ''artifact'' = dict_get row ''artifact''"
    "dict_get tc ''release_artifact'' = dict_get row ''release_artifact''" "dict_get tc ''profile'' = dict_get row ''profile''"
    "dict_get tc ''boot_mode'' = dict_get row ''boot_mode''" "dict_get tc ''partition_table'' = dict_get row ''partition_table''"
    "dict_get tc ''root_partition'' = dict_get row ''root_partition''" "dict_get tc ''root_identity'' = dict_get row ''root_identity''"
    "dict_get tc ''signing'' = dict_get row ''signing''" "dict_get tc ''acceptance'' = dict_get row ''acceptance''"
    "dict_get tc ''production_required'' = dict_get row ''production_required''" "dict_get tc ''production_ready'' = dict_get row ''production_ready''"
    unfolding tc CONTRACT_FIELDS_def by (simp_all add: dict_get_literal)
  note good = assms(1) [unfolded release_row_def list.pred_inject]
  have shape: "contract_shape e tc = []"
    using good row unfolding assms(3)
    by (auto simp: contract_shape_def keys texts get skeleton_get_head ev_strings_def ev_string_def ev_bool_def Let_def)
  have same: "list_all (\<lambda>(f, w). py_eq (dict_get tc f) w) tc"
  proof -
    have "list_all (\<lambda>(f, g). py_eq (dict_get tc f) (dict_get row g)) CONTRACT_FIELDS"
      using good row by (auto simp: CONTRACT_FIELDS_def get copied_value_same)
    then show ?thesis by (subst (2) tc) (auto simp: list_all_iff split_beta)
  qed
  have found: "target_row (Some m) e = Inr (Some row)"
    using assms(4,5) unfolding assms(3) by (simp add: target_row_def ev_target_def skeleton_simps)
  have given: "dict_get e ''target_contract'' = JObj tc" unfolding assms(3) by (simp add: skeleton_simps)
  have "concat (map (\<lambda>(f, w). report (\<not> py_eq (dict_get tc f) w) (g f w)) tc) = []" for g
    using same by (auto simp: concat_map_nil report_empty list_all_iff)
  then show ?thesis
    by (simp add: validate_target_contract_def given as_members_def shape found assms(2))
qed

section \<open>The skeleton as a whole\<close>

lemma generated_skeleton:
  assumes "generated_evidence env now version row scans = Inr e" and "release_row t row"
  shows "\<exists>sc names tc policy a. contract_schema_version ''release_evidence'' (rel_contract env) = Inr sc \<and>
    runtime_required_checks (rel_contract env) = Inr names \<and> contract_from_matrix row = Inr tc \<and>
    target_policy_for (rel_contract env) t (Some row) = Inr policy \<and> safe_identifier a \<and>
    e = skeleton sc version t now tc (skeleton_source (rel_checkout env) version) a scans (requirements_of policy tc (Some row)) (map text_of names)"
proof -
  obtain sc names tc where tc: "contract_schema_version ''release_evidence'' (rel_contract env) = Inr sc"
      "runtime_required_checks (rel_contract env) = Inr names" "contract_from_matrix row = Inr tc"
    using assms(1) by (auto simp: generated_evidence_def bindE_ok from_checked_ok)
  obtain a where a: "dict_get row ''release_artifact'' = JStr a" "safe_identifier a" "dict_get row ''target'' = JStr t"
    using assms(2) by (auto simp: release_row_def is_str_iff)
  have get: "dict_get tc ''release_artifact'' = JStr a" "dict_get tc ''target'' = JStr t"
    using a unfolding contract_copied [OF tc(3)] by (simp_all add: CONTRACT_FIELDS_def dict_get_literal)
  obtain policy where "target_policy_for (rel_contract env) t (Some row) = Inr policy"
      "e = skeleton sc version t now tc (skeleton_source (rel_checkout env) version) a scans (requirements_of policy tc (Some row)) (map text_of names)"
    using assms(1) by (auto simp: generated_evidence_def tc from_checked_def get Let_def bindE_ok skeleton_def)
  with tc a(2) show ?thesis by blast
qed

lemma skeleton_path:
  assumes "safe_identifier version" and "safe_identifier t" and "p = path_join (path_of ''release-evidence'') (path_join (path_of version)
      (path_join (path_of t) (path_of ''evidence.json'')))"
  shows "rev (split_on (CHR ''/'') (path_str p)) = [''evidence.json'', t, version, ''release-evidence'']"
proof -
  have "path_of ''release-evidence'' = Path False [''release-evidence'']" "path_of ''evidence.json'' = Path False [''evidence.json'']"
    by code_simp+
  then have "path_str p = ''release-evidence'' @ CHR ''/'' # version @ CHR ''/'' # t @ CHR ''/'' # ''evidence.json''"
    using assms safe_identifier_chars(4) by (simp add: path_join_def path_str_def)
  then show ?thesis
    using safe_identifier_chars(2) [OF assms(1)] safe_identifier_chars(2) [OF assms(2)]
    by (simp add: split_on_append_sep)
qed

lemma skeleton_policy_present:
  assumes "target_policy_for contract t (Some row) = Inr policy" and "released_row row"
  shows "\<exists>p. target_policy t contract = Inr p \<and> p \<noteq> []"
  using assms by (auto simp: target_policy_for_def bindE_ok from_checked_ok split: if_splits)

lemma skeleton_top_level: "set (dict_keys (skeleton sc v t n tc s a scans r checks)) = set TOP_LEVEL_FIELDS"
  by (simp add: skeleton_def skeleton_sections_def skeleton_results_def dict_keys_def TOP_LEVEL_FIELDS_def)

text \<open>
  C14. Generation and validation agree: the skeleton that \<open>generate\<close> writes for a target of the matrix
  is accepted by \<open>validate\<close> as evidence that is not yet release-ready. The target's row has to have the
  fields the evidence copies, with a plain target and artifact name, the version has to be a plain
  name, and the time is one in UTC. When the skeleton is read, the contract and the matrix are those it was
  generated from.
\<close>

theorem skeleton_validates:
  assumes "generate_command env m now version target None force = Inr (Inr (p, evidence))"
    and "release_load_matrix env m = Inr matrix" and "targets_by_id matrix = Inr targets" and "targets target = Some row"
    and "release_row target row" and "py_list (dict_get_or matrix ''security_scans'' (JArr [])) = (Inr scans :: json list run)"
    and "\<forall>v\<in>set scans. strip (py_str v) \<noteq> []" and "safe_identifier version" and "zulu_time (JStr now) d"
    and "rc_contract c = rel_contract env" and "release_load_matrix (rc_env c) m = Inr matrix"
    and "load_doc (rc_files c) p = Loaded (JObj evidence)"
    and "hardware_required_checks (rel_contract env) = Inr hs" and "runtime_suite_targets_for target (rel_contract env) = Inr ts"
  shows "validate_evidence c \<lparr>ea_matrix = Some m, ea_pass = False, ea_check = False, ea_tier = None, ea_override = False, ea_closure = closure\<rparr> p = Inr []"
proof -
  let ?a = "\<lparr>ea_matrix = Some m, ea_pass = False, ea_check = False, ea_tier = None, ea_override = False, ea_closure = closure\<rparr>"
  have made: "generated_evidence env now version row (map py_str scans) = Inr evidence"
    and p: "p = path_join (path_of ''release-evidence'') (path_join (path_of version)
      (path_join (path_of (ev_text evidence ''target'')) (path_of ''evidence.json'')))"
    using assms(1) by (auto simp: generate_command_def assms(2-4,6) bindE_ok Let_def split: if_splits)
  obtain sc names tc policy a where sk: "contract_schema_version ''release_evidence'' (rel_contract env) = Inr sc"
      "runtime_required_checks (rel_contract env) = Inr names" "contract_from_matrix row = Inr tc"
      "target_policy_for (rel_contract env) target (Some row) = Inr policy" "safe_identifier a"
      "evidence = skeleton sc version target now tc (skeleton_source (rel_checkout env) version) a (map py_str scans)
         (requirements_of policy tc (Some row)) (map text_of names)"
    using generated_skeleton [OF made assms(5)] by blast
  let ?c = "record_run c ?a p evidence" and ?r = "requirements_of policy tc (Some row)"
  have c: "lenient ?c" "rc_contract ?c = rel_contract env" by (simp_all add: lenient_def assms(10))
  have safe: "safe_identifier target" using assms(5) by (simp add: release_row_def)
  note head = skeleton_get_head [of sc version target now tc "skeleton_source (rel_checkout env) version" a "map py_str scans" ?r "map text_of names",
    folded sk(6)]
  have row: "target_row (Some matrix) evidence = Inr (Some row)" by (simp add: target_row_def ev_target_def head assms(3,4))
  have header: "evidence_header ?c ?a evidence = Inr []"
  proof -
    have fields: "sorted_set (minus_list TOP_LEVEL_FIELDS (dict_keys evidence)) = []" "sorted_set (minus_list (dict_keys evidence) TOP_LEVEL_FIELDS) = []"
      unfolding sk(6) by (simp_all add: sorted_set_empty minus_list_empty skeleton_top_level)
    have time: "fst (ev_timestamp q (JStr now) True) = []" "nonblank_str (JStr now)" for q
      using assms(9) by (auto simp: zulu_time_def ev_timestamp_def Let_def)
    show ?thesis
      using safe_identifier_chars(1) [OF assms(8)] safe_identifier_chars(1) [OF safe]
      by (simp add: evidence_header_def fields assms(10) sk(1) from_checked_def report_def head ev_strings_def ev_string_def time safe assms(8))
  qed
  have path: "path_contract p evidence = []"
    using skeleton_path [OF assms(8) safe] p by (simp add: path_contract_def head ev_text_def)
  have found: "evidence_matrix ?c (Some m) = Inr ([], Some matrix)"
    by (simp add: evidence_matrix_def assms(11))
  have present: "policy_presence ?c evidence (Some matrix) = Inr []"
    using skeleton_policy_present [OF sk(4)] by (auto simp: policy_presence_def row assms(10) ev_target_def head from_checked_def)
  have required: "expected_gate_requirements (rc_contract c) evidence (Some matrix) = Inr ?r"
    by (simp add: expected_gate_requirements_def head row assms(10) sk(4) ev_target_def)
  have target: "validate_target_contract evidence (Some matrix) = Inr []"
    by (rule skeleton_contract [OF assms(5) sk(3) sk(6) assms(3,4)])
  note parts = skeleton_source_ok [OF c(1) sk(6) safe_identifier_chars(1) [OF assms(8)]] skeleton_released [OF c(1) sk(5) sk(6)]
    skeleton_scans [OF c(1) _ sk(6)] skeleton_verification [OF c(1) sk(6)]
    skeleton_result_sections [OF c(1) sk(6), unfolded c(2), OF assms(13,14)] skeleton_runtime_checks [OF c(1) sk(6), unfolded c(2), OF sk(2)]
  have sections: "collectE (evidence_sections ?c closure ?r s evidence) = Inr []" for s
    using assms(7) c(1) by (simp add: evidence_sections_def parts)
  have scans: "expected_security_scans (Some matrix) = Inr (Some (map py_str scans))"
    by (simp add: expected_security_scans_def assms(6))
  show ?thesis
    by (simp add: validate_evidence_def assms(12) evidence_failures_def header path found target present required scans sections)
qed

end
