(* ===== verification/ReleaseGateSample.thy ===== *)
theory ReleaseGateSample
  imports ReleaseSample
begin

text \<open>
  The sample release, continued: its binding manifest, the documents that the gate reads besides,
  and the gate as a whole.
\<close>

section \<open>The binding manifest\<close>

lemma binding_names: "path_str (path_of ''b.json'') = ''b.json''" "path_str (path_of ''m.yml'') = ''m.yml''"
  by code_simp+

lemma binding_reads: "read_doc gate_env (path_of ''b.json'') = JObj gate_binding"
  "rel_files gate_env (path_of ''m.yml'') =
     Some \<lparr>size_of = 5, sha_of = gate_digest, text_content = gate_matrix_text, json_content = None\<rparr>"
  by (simp add: read_gate binding_names, simp add: gate_docs_def)
    (simp add: store_gate binding_names, simp add: gate_docs_def gate_plain_files_def)

definition out_names :: "string list" where
  "out_names = [''a'', ''c'', ''.log'', ''.build-time.log'', ''.warnings.json'', ''.source-identity.json'',
     ''.build-performance.json''] @ map snd EXPECTED_INSTALLERS"

lemma out_paths: "list_all (\<lambda>n. path_str (path_join (path_of ''out'') (path_of n)) = ''out/'' @ n \<and>
    inner_path (JStr n) = Some (path_of n) \<and> \<not> release_placeholder (JStr n) \<and>
    safe_relative_path (JStr n) = Some (path_of n)) out_names"
  by code_simp

lemma out_file: 
  assumes "n \<in> set out_names"
  shows "rel_files gate_env (path_join (path_of ''out'') (path_of n)) = Some \<lparr>size_of = 5, sha_of = gate_digest,
    text_content = gate_matrix_text, json_content = map_option JObj (map_of gate_docs (''out/'' @ n))\<rparr>"
proof -
  have "''out/'' @ n \<in> set gate_plain_files \<or> map_of gate_docs (''out/'' @ n) \<noteq> None"
    using assms by (auto simp: out_names_def gate_plain_files_def gate_docs_def EXPECTED_INSTALLERS_def)
  then show ?thesis using assms out_paths by (auto simp: store_gate list_all_iff)
qed

lemma out_rel: "n \<in> set out_names \<Longrightarrow> bound_rel_path (JStr n)"
  using out_paths by (auto simp: bound_rel_path_def list_all_iff)

lemma out_bound: "n \<in> set out_names \<Longrightarrow>
    bound_file gate_env (Some (path_of ''out'')) label (JStr n) (JStr gate_digest) content = content (path_join (path_of ''out'') (path_of n))"
  by (simp add: bound_file_def out_file Let_def)

lemma out_docs:
  "read_doc gate_env (path_join (path_of ''out'') (path_of ''.warnings.json'')) =
     JObj [(''summary'', JObj [(''owned'', JInt 0), (''third-party'', JInt 0)]), (''failing'', JArr []), (''policy_errors'', JArr [])]"
  "read_doc gate_env (path_join (path_of ''out'') (path_of ''.source-identity.json'')) = JObj (sample_metadata clean_checkout)"
  "read_doc gate_env (path_join (path_of ''out'') (path_of ''.build-performance.json'')) =
     JObj [(''schema_version'', JStr ''suderra.buildroot-build-performance.v1''), (''timing'', JObj [(''status'', JStr ''collected'')])]"
  by (simp_all add: read_doc_def out_file out_names_def) (simp_all add: gate_docs_def)

lemma gate_identity:
  "validate_metadata_payload clean_checkout (buildroot_identity_payload_from_binding gate_binding) = Inr []"
  "expected_buildroot clean_checkout sample_commit = Inr NATIVE_BUILDROOT_COMMIT"
  "compare_buildroot_identity_to_binding (sample_metadata clean_checkout) gate_binding q = []"
  "dict_get gate_binding ''buildroot_index_sha'' = JStr NATIVE_BUILDROOT_COMMIT"
  by code_simp+

lemma binding_lookups:
  "dict_get gate_binding ''version'' = JStr ''v1''" "dict_get gate_binding ''profile'' = JStr ''production-candidate''"
  "dict_get gate_binding ''source_sha'' = JStr sample_commit" "dict_get gate_binding ''source_run_id'' = JInt 7"
  "dict_get gate_binding ''source_run_attempt'' = JInt 1" "dict_get gate_binding ''build_workflow_name'' = JStr ''w''"
  "dict_get gate_binding ''build_workflow_path'' = JStr ''w.yml''" "dict_get gate_binding ''matrix_sha256'' = JStr gate_digest"
  "dict_get gate_binding ''userspace_cargo_lock_sha256'' = JStr gate_digest" "dict_get gate_binding ''userspace_rust_toolchain_sha256'' = JStr gate_digest"
  "dict_get gate_binding ''schema_version'' = JStr BINDING_SCHEMA_VERSION"
  by (simp_all add: gate_binding_def dict_get_literal)

lemma gate_numbers: "int_str 7 = ''7''" "positive_attempt (JInt 1)" "lower_hex_of_length 40 sample_commit"
  by code_simp+

lemma header_passes: "binding_header gate_env production_args gate_binding = []"
  by (simp add: binding_header_def Let_def binding_lookups production_fields differs_def gate_numbers is_file_def file_sha_def binding_reads
   binding_buildroot_def gate_env_simps gate_identity caught_def)

lemma gate_contents: "expected_contents gate_env (path_of ''m.yml'') = ([], Some [gate_row_doc], [((''d'', ''a''), gate_row_doc)])"
  by (simp add: expected_contents_def release_load_matrix_def binding_reads gate_matrix_read gate_matrix_rows from_checked_def)

lemma out_member: "''a'' \<in> set out_names" "''c'' \<in> set out_names" "''.log'' \<in> set out_names" "''.build-time.log'' \<in> set out_names"
   "''.warnings.json'' \<in> set out_names" "''.source-identity.json'' \<in> set out_names" "''.build-performance.json'' \<in> set out_names"
   "''suderra-installer-x86_64'' \<in> set out_names" "''suderra-installer-x86_64.sha256'' \<in> set out_names"
   "''suderra-installer-aarch64'' \<in> set out_names" "''suderra-installer-aarch64.sha256'' \<in> set out_names"
  by (simp_all add: out_names_def EXPECTED_INSTALLERS_def)

lemma artifacts_pass: "validate_release_artifact_bindings (dict_get gate_binding ''artifacts'') [((''d'', ''a''), gate_row_doc)]
   (Some (artifact_files gate_env (path_of ''out''))) = []"
  using out_paths out_member(1) gate_digest_ok(3)
  by (simp add: validate_release_artifact_bindings_def gate_binding_def dict_get_literal bound_entry_def check_artifact_def
      artifact_key_def Let_def list_all_iff gate_row_doc_def check_artifact_file_def artifact_files_def out_file,
    simp add: all_zero_sha256_def gate_digest_def)

lemma contract_passes: "binding_image_contract gate_env production_args (dict_get gate_binding ''image_build_contract'') = []"
  by (simp add: binding_image_contract_def gate_binding_def dict_get_literal bound_entry_def Let_def positive_int_def int_above_def
      out_rel out_member out_bound production_fields)

lemma installers_pass: "binding_installers gate_env production_args (dict_get gate_binding ''installers'') = Inr []"
  by (simp add: binding_installers_def gate_binding_def dict_get_literal bound_entry_def Let_def positive_int_def int_above_def
      out_rel out_member out_bound production_fields EXPECTED_INSTALLERS_def check_installer_def installer_key_def in_str_set_def object_keys_def)

lemma evidence_contents:
  "evidence_content gate_env gate_binding q ''build-log'' = []" "evidence_content gate_env gate_binding q ''build-time-log'' = []"
  "evidence_content gate_env gate_binding (path_join (path_of ''out'') (path_of ''.warnings.json'')) ''warning-classifier-evidence'' = []"
  "evidence_content gate_env gate_binding (path_join (path_of ''out'') (path_of ''.source-identity.json'')) ''buildroot-source-identity'' = []"
  "evidence_content gate_env gate_binding (path_join (path_of ''out'') (path_of ''.build-performance.json'')) ''build-performance'' = []"
  by (simp_all add: evidence_content_def Let_def out_docs warning_evidence_def dict_get_literal identity_evidence_def has_schema_def gate_env_simps sample_accepted
    gate_identity caught_def)

definition gate_evidence :: "json list" where
  "gate_evidence = map (\<lambda>(s, r). bound_entry [(''defconfig'', JStr ''d''), (''artifact'', JStr (''build-logs/d'' @ s)), (''role'', JStr r)] s)
     [(''.log'', ''build-log''), (''.warnings.json'', ''warning-classifier-evidence''),
      (''.source-identity.json'', ''buildroot-source-identity''), (''.build-time.log'', ''build-time-log''),
      (''.build-performance.json'', ''build-performance'')]"

lemma gate_evidence_given: "dict_get gate_binding ''build_evidence'' = JArr gate_evidence"
  by (simp add: gate_binding_def dict_get_literal gate_evidence_def)

lemma gate_evidence_keys: "object_keys evidence_key gate_evidence = map (\<lambda>s. (''d'', ''build-logs/d'' @ s))
    [''.log'', ''.warnings.json'', ''.source-identity.json'', ''.build-time.log'', ''.build-performance.json'']"
  by (simp add: object_keys_def gate_evidence_def bound_entry_def evidence_key_def dict_get_literal)

lemma gate_evidence_expected: "row_build_evidence gate_row_doc = Inr (map (\<lambda>s. (''d'', ''build-logs/d'' @ s))
    [''.log'', ''.warnings.json'', ''.source-identity.json'', ''.build-time.log'', ''.build-performance.json''])"
  by (simp add: row_build_evidence_def gate_row_doc_def dict_get_literal dict_index_def Let_def)

lemma gate_evidence_walk: "check_build_evidences gate_env production_args gate_binding
    (map (\<lambda>s. (''d'', ''build-logs/d'' @ s)) [''.log'', ''.warnings.json'', ''.source-identity.json'', ''.build-time.log'', ''.build-performance.json''])
    [] 0 gate_evidence = Inr []"
  by (simp add: gate_evidence_def bound_entry_def check_build_evidence_def BUILD_EVIDENCE_ROLES_def in_str_set_def evidence_key_def
     dict_get_literal Let_def positive_int_def int_above_def out_rel out_member out_bound production_fields evidence_contents)

lemma evidence_pass: "binding_build_evidence gate_env production_args gate_binding (Some [gate_row_doc]) = Inr []"
  using gate_evidence_walk gate_evidence_keys
  by (simp add: binding_build_evidence_def gate_evidence_expected gate_evidence_given Let_def, simp add: gate_evidence_def)

lemma binding_passes: "validate_binding gate_env production_args (Some gate_binding) = Inr []"
  by (simp add: validate_binding_def gate_contents production_fields header_passes artifacts_pass evidence_pass installers_pass contract_passes)

theorem binding_accepted_witness:
  "\<exists>installers items. dict_get gate_binding ''installers'' = JArr (map JObj installers) \<and>
     installer_key ` set installers = set EXPECTED_INSTALLERS \<and> dict_get gate_binding ''build_evidence'' = JArr (map JObj items) \<and>
     distinct (map evidence_key items)"
  using binding_accepted [OF binding_passes] by (elim exE conjE) (intro exI conjI; assumption)

section \<open>The gate\<close>

lemma gate_scripts: "run_script gate_env args = []"
  by (simp add: run_script_nil gate_env_simps git_prints_def)

abbreviation production_file :: "string \<Rightarrow> string list \<Rightarrow> path" where
  "production_file tree ns \<equiv> path_under (a_root production_args) (tree # ''v1'' # ns)"

lemma record_names:
  "path_str (production_file ''release-governance'' [''governance-policy-validation.json'']) = ''release-governance/v1/governance-policy-validation.json''"
  "path_str (production_file ''release-governance'' [''role-bindings.json'']) = ''release-governance/v1/role-bindings.json''"
  "path_str (production_file ''release-retention'' [''retention-manifest.json'']) = ''release-retention/v1/retention-manifest.json''"
  "path_str (production_file ''release-approvals'' [''pc.json'']) = ''release-approvals/v1/pc.json''"
  "path_str (production_file ''release-reproducibility'' [''pc.json'']) = ''release-reproducibility/v1/pc.json''"
  "path_str (production_file ''release-security'' [''s.json'']) = ''release-security/v1/s.json''"
  "path_str (path_under (signing_dir production_args) [''pc'', ''session.json'']) = ''release-signing/v1/pc/session.json''"
  "path_str (path_join (path_parent (path_under (signing_dir production_args) [''pc'', ''session.json''])) (path_of ''c.pem'')) = ''release-signing/v1/pc/c.pem''"
  "signing_sessions gate_env production_args = [(''pc'', ''session.json'')]"
  by code_simp+

lemma record_reads:
  "read_doc gate_env (production_file ''release-governance'' [''governance-policy-validation.json'']) =
     JObj [(''status'', JStr ''passed''), (''schema_version'', JStr ''suderra.github-governance-validation.v2'')]"
  "read_doc gate_env (production_file ''release-governance'' [''role-bindings.json'']) = JObj gate_roles"
  "read_doc gate_env (production_file ''release-retention'' [''retention-manifest.json'']) = JObj gate_retention"
  "read_doc gate_env (production_file ''release-approvals'' [''pc.json'']) = JObj sample_approval"
  "read_doc gate_env (production_file ''release-reproducibility'' [''pc.json'']) = JObj gate_repro"
  "read_doc gate_env (production_file ''release-security'' [''s.json'']) = JObj gate_report"
  "read_doc gate_env (path_under (signing_dir production_args) [''pc'', ''session.json'']) = JObj [(''certificate_path'', JStr ''c.pem''),
     (''pkcs11_uri'', JStr ''pkcs11:token=hsm''), (''artifacts'', JArr [JObj [(''role'', JStr ''rauc-bundle''), (''sha256'', JStr gate_digest)]])]"
  by (simp_all add: read_gate record_names) (simp_all add: gate_docs_def)

lemma record_files:
  "nonempty_file (rel_files gate_env) (production_file ''release-reproducibility'' [''pc.json''])"
  "is_file (rel_files gate_env) (path_join (path_parent (path_under (signing_dir production_args) [''pc'', ''session.json''])) (path_of ''c.pem''))"
  by (simp_all add: is_file_def nonempty_file_def store_gate record_names) (simp_all add: gate_docs_def gate_plain_files_def)

lemma record_strips: "strip ''c.pem'' = ''c.pem''" "strip ''pkcs11:token=hsm'' = ''pkcs11:token=hsm''" "strip ''octo'' = ''octo''" "strip ''user'' = ''user''"
  "strip ''N1'' = ''N1''" "strip ''admin'' = ''admin''" "strip ''release-owner'' = ''release-owner''" "strip ''security-owner'' = ''security-owner''"
  "strip ''h'' = ''h''" "strip ''1'' = ''1''" "strip ''2'' = ''2''" "strip ''3'' = ''3''" "strip ''4'' = ''4''" "strip ''c'' = ''c''" "strip ''now'' = ''now''"
  "strip ''a'' = ''a''" "strip ''s3://b'' = ''s3://b''" "strip ''compliance'' = ''compliance''" "strip ''0001-01-02T00:00:00Z'' = ''0001-01-02T00:00:00Z''"
  "lower ''N1'' = ''n1''" "lower ''compliance'' = ''compliance''" "contains ''s3://b'' ''://''" "\<not> starts_with ''s3://b'' ''github-artifact://''"
  by code_simp+

lemma digest_not_blank: "strip gate_digest = gate_digest" "gate_digest \<noteq> []"
  by code_simp+

lemma governance_passes: "gate_governance gate_env production_args = []"
  by (simp add: gate_governance_def production_fields record_reads dict_get_literal Let_def)

lemma lab_passes: "gate_lab gate_env production_args sha run = []"
proof -
  have "\<not> resolves_within gate_env (registry_path production_args) (path_under (a_root production_args) [''release-lab-input''])"
    by code_simp
  then show ?thesis by (simp add: gate_lab_def gate_scripts)
qed

lemma acquisitions_pass: "acquisition_failures gate_env production_args sha run = []"
  by (simp add: acquisition_failures_def row_names gate_scripts)

lemma sessions_pass: "production_sessions gate_env production_args (Some gate_binding) = Inr []"
  by (simp add: production_sessions_def gate_simps record_names check_session_def record_reads validate_hsm_session_replay_def
    find_hsm_certificate_def certificate_reference_def record_files record_strips hsm_artifact_file_def gate_scripts replays_expected_def)

lemma row_passes: "production_row gate_env production_args (Some sample_commit) (Some ''7'') (Some gate_binding) gate_row_doc = Inr []"
proof -
  have t: "py_str (dict_get_or gate_row_doc ''target'' (JStr [])) = ''pc''" by (simp add: gate_row_doc_def dict_get_literal)
  have "acquisition_of gate_env production_args ''pc'' \<noteq> None"
    by (simp add: acquisition_of_def row_names row_reads Let_def gate_acquisition_def dict_get_literal gate_ids_def)
  moreover have "dict_get (members gate_policy) ''signing_required'' = JBool True" "dict_get (members gate_policy) ''hardware_required'' = JBool True"
   "dict_get (members gate_policy) ''ota_capable'' = JBool True" by (simp_all add: gate_policy_def dict_get_literal)
  ultimately show ?thesis using signing_passes hardware_passes ota_passes
    by (simp add: production_row_def t gate_env_simps gate_contract_lookups(1) from_checked_def Let_def)
qed

lemma roles_pass: "validate_governance_role_bindings gate_env (production_file ''release-governance'' [''role-bindings.json'']) ''v1'' = Inr []"
  by (simp add: validate_governance_role_bindings_def record_reads gate_simps gate_roles_def check_role_binding_item_def ROLE_BINDING_FIELDS_def record_strips
    names_in_def digest_not_blank)

definition gate_retention_policy :: obj where
  "gate_retention_policy = members (dict_get gate_contract ''retention'')"

lemma retention_policy_lookups: "dict_index gate_retention_policy ''manifest_schema_version'' = (Inr (JStr ''r'') :: json run)"
  "dict_index gate_retention_policy ''policy_id'' = (Inr (JStr ''p'') :: json run)"
  "dict_index gate_retention_policy ''store_class'' = (Inr (JStr ''s'') :: json run)"
  "dict_index gate_retention_policy ''minimum_years'' = (Inr (JInt 2) :: json run)"
  "dict_index gate_retention_policy ''required_exports'' = (Inr (JArr [JStr ''e'']) :: json run)"
  "dict_index gate_retention_policy ''required_replay'' = (Inr (JArr [JStr ''x'']) :: json run)"
  by (simp_all add: gate_retention_policy_def gate_contract_def dict_get_literal dict_index_def)

lemma retention_lookups:
  "dict_get gate_retention ''schema_version'' = JStr ''r''" "dict_get gate_retention ''policy_id'' = JStr ''p''"
  "dict_get gate_retention ''store_class'' = JStr ''s''" "dict_get gate_retention ''retention_years'' = JInt 2"
  "dict_get gate_retention ''version'' = JStr ''v1''" "dict_get gate_retention ''source_sha'' = JStr sample_commit"
  "dict_get gate_retention ''source_run_id'' = JStr ''7''"
  "dict_get gate_retention ''exports'' = JArr [JObj [(''name'', JStr ''e'')]]"
  "dict_get gate_retention ''restore_replay_tests'' = JArr [JObj [(''name'', JStr ''x''), (''status'', JStr ''passed'')]]"
  "dict_get gate_retention ''legal_hold_id'' = JStr ''h''" "dict_get gate_retention ''archive_object_uri'' = JStr ''s3://b''"
  "dict_get gate_retention ''retain_until'' = JStr ''0001-01-02T00:00:00Z''"
  "dict_get_or gate_retention ''retention_lock_mode'' v = JStr ''compliance''"
  by (simp_all add: gate_retention_def gate_ids_def dict_get_literal)

lemma retention_parts_pass: "retention_archive p gate_retention = []" "custody_events p (dict_get gate_retention ''custody_events'') = []"
   "retain_until_check p 0 (JStr ''0001-01-02T00:00:00Z'') = []"
  by code_simp+

lemma retention_accepted:
  assumes "read_doc env q = JObj gate_retention" "rel_now env = 0" "retention_policy (rel_contract env) = Inr gate_retention_policy"
  shows "validate_retention_manifest env q ''v1'' (Some sample_commit) (Some ''7'') = Inr []"
  using assms record_strips
  by (simp add: validate_retention_manifest_def from_checked_def retention_header_def retention_exports_def retention_replays_def retention_texts_def
      retention_policy_lookups retention_lookups retention_parts_pass hashed_names_def dict_get_literal Let_def nonblank_str_iff)

lemma retention_passes:
  "validate_retention_manifest gate_env (production_file ''release-retention'' [''retention-manifest.json'']) ''v1''
     (Some sample_commit) (Some ''7'') = Inr []"
  by (rule retention_accepted) (simp_all add: record_reads gate_env_simps retention_policy_def gate_retention_policy_def gate_contract_def
    dict_get_literal dict_index_def)

lemma repro_passes:
  "validate_repro gate_env (production_file ''release-reproducibility'' [''pc.json''])
     \<lparr>rp_version = Some ''v1'', rp_target = Some ''pc'', rp_source_sha = Some sample_commit, rp_run_id = Some ''7'', rp_check_files = True\<rparr> = []"
  by (simp add: validate_repro_def record_files record_reads validate_repro_payload_def gate_repro_def gate_simps differs_def
      given_text_def record_strips repro_comparison_def)

lemma approval_passes:
  "release_validate_approval gate_env (production_file ''release-approvals'' [''pc.json'']) ''v1'' ''pc'' (Some sample_commit) = Inr []"
  using sample_approval_accepted by (simp add: release_validate_approval_def record_reads gate_env_simps sample_commit_def)

lemma gate_row_passes: "gate_row gate_env production_args (Some sample_commit) (Some ''7'') (Some gate_binding) gate_row_doc = Inr []"
proof -
  have row: "dict_index gate_row_doc ''target'' = (Inr (JStr ''pc'') :: json run)" "dict_index gate_row_doc ''artifact'' = (Inr (JStr ''a'') :: json run)"
    "dict_get gate_row_doc ''profile'' = JNull" by (simp_all add: gate_row_doc_def dict_index_def dict_get_literal)
  have "row_qemu gate_env production_args (Some sample_commit) (Some gate_binding) gate_row_doc = Inr []"
    by (simp add: row_qemu_def row gate_scripts)
  moreover have "row_approval gate_env production_args (Some sample_commit) (Some ''7'') gate_row_doc = Inr []"
    using approval_passes repro_passes by (simp add: row_approval_def row production_fields Let_def)
  moreover have "row_runtime gate_env production_args (Some sample_commit) (Some ''7'') gate_row_doc = Inr []"
    by (simp add: row_runtime_def row)
  ultimately show ?thesis by (simp add: gate_row_def)
qed

lemma scan_passes: "gate_scan gate_env sample_replay production_args (Some sample_commit) (Some ''7'') (JStr ''s'') = Inr []"
  by (simp add: gate_scan_def gate_simps record_reads gate_report_def has_schema_def validate_security_report_def differs_def sample_replay_def)

lemma gate_bound:
  "bound_source_sha production_args (Some gate_binding) = Some sample_commit" "bound_source_run_id production_args (Some gate_binding) = Some ''7''"
  by (simp_all add: bound_source_sha_def bound_source_run_id_def production_fields binding_lookups str_option_def gate_numbers)

lemma gate_release_passes: "gate_release gate_env sample_replay production_args (Some gate_binding) = Inr []"
proof -
  have matrix: "release_load_matrix gate_env (path_of ''m.yml'') = Inr gate_matrix"
    by (simp add: release_load_matrix_def binding_reads gate_matrix_read)
  have scans: "dict_get_or gate_matrix ''security_scans'' (JArr []) = JArr [JStr ''s'']"
    by (simp add: gate_matrix_def dict_get_literal)
  have production: "gate_production gate_env production_args (Some sample_commit) (Some ''7'') gate_matrix (Some gate_binding) [JObj gate_row_doc] = Inr []"
    using graph_passes sessions_pass row_passes roles_pass retention_passes
    by (simp add: gate_production_def production_graph_def binding_json_def production_fields)
  show ?thesis
    using governance_passes lab_passes acquisitions_pass production gate_row_passes scan_passes
    by (simp add: gate_release_def gate_bound matrix scans production_fields gate_matrix_rows from_checked_def Let_def)
qed

lemma gate_passes: "release_gate gate_env sample_replay production_args = Inr (Inr ''validated release inputs for v1'')"
proof -
  have "load_binding gate_env (Some (path_of ''b.json'')) = ([], Some gate_binding)"
    by (simp add: load_binding_def binding_reads binding_lookups)
  moreover have "gate_tier production_args = []" by (simp add: gate_tier_def production_fields)
  moreover have "gate_ingress gate_env production_args = []" by (simp add: gate_ingress_def production_fields gate_scripts)
  ultimately show ?thesis
    using binding_passes gate_release_passes by (simp add: release_gate_def release_gate_failures_def production_fields gate_message_def)
qed

lemma sample_matrix_rows:
  assumes "release_load_matrix gate_env (a_matrix production_args) = Inr m" and "matrix_rows m = Inr rows"
  shows "rows = [JObj gate_row_doc]"
  using assms by (auto simp: production_fields release_load_matrix_def binding_reads gate_matrix_read gate_matrix_rows)

theorem production_gate_passed_witness:
  "\<exists>b sha run. row_documents gate_env production_args sha run b gate_row_doc \<and> row_released gate_env production_args sha run gate_row_doc \<and>
     row_exercised gate_env production_args sha run b gate_row_doc"
  using production_gate_passed [OF gate_passes production_fields(2)] unfolding Let_def
proof (elim exE conjE)
  fix b m rows
  assume "release_load_matrix gate_env (a_matrix production_args) = Inr m" "matrix_rows m = Inr rows"
    and each: "\<forall>v\<in>set rows. \<exists>row. v = JObj row \<and>
      row_documents gate_env production_args (bound_source_sha production_args (Some b)) (bound_source_run_id production_args (Some b)) b row \<and>
      row_released gate_env production_args (bound_source_sha production_args (Some b)) (bound_source_run_id production_args (Some b)) row \<and>
      row_exercised gate_env production_args (bound_source_sha production_args (Some b)) (bound_source_run_id production_args (Some b)) b row"
  then have "rows = [JObj gate_row_doc]" by (intro sample_matrix_rows)
  with each show ?thesis by auto
qed

theorem production_identity_shared_witness:
  "carries_subject gate_env ''v1'' ''pc'' sample_commit ''7'' (read_doc gate_env (ota_file production_args ''pc''))"
  using production_identity_shared [OF gate_passes production_fields(2)]
proof (elim exE conjE)
  fix b sha run m rows nodes
  assume b: "load_binding gate_env (a_binding production_args) = ([], Some b)"
    and ids: "bound_source_sha production_args (Some b) = Some sha" "bound_source_run_id production_args (Some b) = Some run"
    and m: "release_load_matrix gate_env (a_matrix production_args) = Inr m" "matrix_rows m = Inr rows"
    and each: "\<forall>row policy t. JObj row \<in> set rows \<and> t = py_str (dict_get_or row ''target'' (JStr [])) \<and>
       target_policy t (rel_contract gate_env) = Inr policy \<longrightarrow>
       (dict_get policy ''signing_required'' = JBool True \<longrightarrow> carries_subject gate_env (a_version production_args) t sha run
         (read_doc gate_env (path_under (signing_dir production_args) [t, ''signing-manifest.json'']))) \<and>
       (dict_get policy ''hardware_required'' = JBool True \<longrightarrow> carries_subject gate_env (a_version production_args) t sha run
         (read_doc gate_env (path_under (acquisition_dir production_args) [t, ''hardware-subject.json'']))) \<and>
       (dict_get policy ''ota_capable'' = JBool True \<longrightarrow>
         carries_subject gate_env (a_version production_args) t sha run (read_doc gate_env (ota_file production_args t))) \<and>
       (graph_covers gate_env (gate_graph_args production_args sha run m b) row \<longrightarrow>
         (\<exists>node\<in>set nodes. dict_get node ''target'' = JStr t \<and>
           carries_subject gate_env (a_version production_args) t sha run (JObj node)))"
  have row: "''pc'' = py_str (dict_get_or gate_row_doc ''target'' (JStr []))" "dict_get (members gate_policy) ''ota_capable'' = JBool True"
    by (simp_all add: gate_row_doc_def gate_policy_def dict_get_literal)
  have "b = gate_binding" using b by (simp add: load_binding_def production_fields binding_reads binding_lookups)
  then have "sha = sample_commit" "run = ''7''" using ids gate_bound by simp_all
  moreover have "target_policy ''pc'' (rel_contract gate_env) = Inr (members gate_policy)"
    by (simp add: gate_env_simps gate_contract_lookups(1))
  moreover have "JObj gate_row_doc \<in> set rows" using sample_matrix_rows [OF m] by simp
  ultimately show ?thesis
    using each [rule_format, of gate_row_doc "''pc''" "members gate_policy"] row by (simp add: production_fields)
qed

end
