(* ===== verification/RecordSample.thy ===== *)
theory RecordSample
  imports SkeletonProps ReleaseGateSample
begin

text \<open>
  A release evidence that is complete down to its files, of a production release whose target needs
  neither hardware nor a runtime suite, the proof that it is accepted, and the witnesses of the properties
  of release evidence on it. Last, a matrix with one target and the skeleton generated for it.
\<close>

section \<open>The contract\<close>

definition record_policy :: obj where
  "record_policy = (''production_gate'', JBool True) # map (\<lambda>f. (f, JBool False))
     [''hardware_required'', ''runtime_required'', ''signing_required'', ''release_image_scan_required'']"

definition record_contract :: obj where
  "record_contract = [
     (''schema_versions'', JObj (map (\<lambda>n. (n, JStr n)) [''release_evidence'', ''release_subject_graph'', ''governance_role_bindings''])),
     (''subjects'', JObj [(''subject_id_template'', JStr ''{version}:{target}:{source_sha}:{source_run_id}'')]),
     (''targets'', JObj [(''pc'', JObj record_policy)]),
     (''profiles'', JObj [(''production-candidate'', JObj [(''production_candidate'', JBool True)])]),
     (''runtime'', JObj [(''required_checks'', JArr [JStr ''boot'']), (''suite_targets'', JObj [])]),
     (''hardware'', JObj [(''required_checks'', JArr [])]), (''retention'', dict_get gate_contract ''retention'')]"

lemma record_contract_lookups:
  "target_policy ''pc'' record_contract = Inr record_policy"
  "release_subject_id ''v1'' ''pc'' sample_commit ''7'' record_contract = Inr (''v1:pc:'' @ sample_commit @ '':7'')"
  "profile_policy ''production-candidate'' record_contract = Inr [(''production_candidate'', JBool True)]"
  "contract_schema_version ''release_evidence'' record_contract = Inr ''release_evidence''"
  "contract_schema_version ''release_subject_graph'' record_contract = Inr ''release_subject_graph''"
  "contract_schema_version ''governance_role_bindings'' record_contract = Inr ''governance_role_bindings''"
  "retention_required_exports record_contract = Inr [JStr ''e'']" "hardware_required_checks record_contract = Inr []"
  "runtime_required_checks record_contract = Inr [JStr ''boot'']" "runtime_suite_targets_for ''pc'' record_contract = Inr []"
  "retention_policy record_contract = retention_policy gate_contract"
  by code_simp+

section \<open>The files\<close>

text \<open>A reference to a file of the bundle.\<close>

definition kept :: "string \<Rightarrow> obj" where
  "kept n = [(''path'', JStr n), (''sha256'', JStr gate_digest), (''bytes'', JInt 5)]"

definition record_subject :: obj where
  "record_subject = [(''name'', JStr ''a''), (''sha256'', JStr gate_digest), (''bytes'', JInt 5)]"

definition record_origin :: "(string \<times> string) list" where
  "record_origin = [(''repository'', ''o/r''), (''ref'', ''refs/t''), (''run_id'', ''7''), (''run_attempt'', ''1''), (''source_sha'', sample_commit)]"

definition verification_record :: "string \<Rightarrow> obj" where
  "verification_record n = [(''schema_version'', JStr MACHINE_SCHEMA), (''name'', JStr n), (''status'', JStr ''passed''), (''generated_at'', JStr ''now''),
     (''identity'', JStr ''me''), (''issuer'', JStr ''i''), (''source'', JObj ((''workflow'', JStr ''w'') # map (\<lambda>(f, s). (f, JStr s)) record_origin)),
     (''log'', JObj (kept ''log'')), (''subjects'', JArr [JObj record_subject])]"

definition attestation_record :: obj where
  "attestation_record = verification_record ''attestations'' @ [(''verified_subjects'', JArr [JObj record_subject]),
     (''verification_material'', JObj [(''kind'', JStr ''github-artifact-attestation-dsse''),
        (''files'', JArr [JObj (kept ''a.json'' @ [(''subjects'', JArr [JObj record_subject]),
           (''provenance'', JArr [JObj ([(''predicate_type'', JStr ''https://slsa.dev/provenance/v1''), (''builder_id'', JStr ''b''),
              (''materials'', JArr [JObj []])] @ map (\<lambda>(f, g). (f, JStr (the (map_of record_origin g)))) PROVENANCE_FIELDS)])])])])]"

definition record_graph :: obj where
  "record_graph = [(''schema_version'', JStr ''release_subject_graph''), (''version'', JStr ''v1''),
     (''subjects'', JArr [JObj (gate_ids @ [(''raw_image_sha256'', JStr gate_digest), (''raw_image_bytes'', JInt 5),
        (''compressed_artifact_sha256'', JStr gate_digest), (''compressed_artifact_bytes'', JInt 5)])]),
     (''evidence_nodes'', JArr [JObj ([(''node_id'', JStr ''n''), (''subject_id'', gate_subject), (''role'', JStr ''reproducibility''),
        (''schema_role'', JStr ''lab''), (''schema_version'', JStr ''lab''), (''producer'', JStr ''p''), (''required'', JBool True)] @ kept ''e'')]),
     (''evidence_edges'', JArr [JObj [(''from'', gate_subject), (''to'', JStr ''n'')]]),
     (''required_paths'', JArr [JStr ''e'']), (''retention_closure'', JObj [(''required_exports'', JArr [JStr ''e''])])]"

definition record_docs :: "(string \<times> obj) list" where
  "record_docs = [(''assets.json'', [(''schema_version'', JStr ASSET_MANIFEST_SCHEMA_VERSION), (''version'', JStr ''v1''),
        (''files'', JArr [JObj ((''role'', JStr ''release-image'') # record_subject)])]),
     (''sbom.json'', [(''components'', JArr [JObj record_subject])]),
     (''sums.json'', verification_record ''sha256sums''), (''cosign.json'', verification_record ''cosign''), (''attested.json'', attestation_record),
     (''warnings.json'', [(''summary'', JObj [(''owned'', JInt 0), (''third-party'', JInt 0)]), (''failing'', JArr []), (''policy_errors'', JArr [])]),
     (''identity.json'', sample_metadata clean_checkout), (''binding.json'', gate_binding), (''approval.json'', sample_approval),
     (''repro.json'', gate_repro), (''graph.json'', record_graph), (''roles.json'', gate_roles), (''retention.json'', gate_retention),
     (''policy.json'', [(''schema_version'', JStr ''suderra.github-governance-validation.v2''), (''status'', JStr ''passed'')])]"

definition record_plain_files :: "string list" where
  "record_plain_files = [''a'', ''a.sig'', ''a.cert'', ''a.json'', ''log'', ''vex.json'', ''scan.json'']"

definition record_dir :: path where
  "record_dir = path_of ''v1/pc''"

definition record_store :: "obj \<Rightarrow> store" where
  "record_store evidence p = (let n = path_str p; doc = map_of ((''evidence.json'', evidence) # record_docs) (drop 6 n) in
     if n = ''m.yml'' then Some \<lparr>size_of = 5, sha_of = gate_digest, text_content = gate_matrix_text, json_content = None\<rparr>
     else if take 6 n \<noteq> ''v1/pc/'' \<or> doc = None \<and> drop 6 n \<notin> set record_plain_files then None
     else Some \<lparr>size_of = 5, sha_of = gate_digest, text_content = [], json_content = map_option JObj doc\<rparr>)"

section \<open>The evidence\<close>

definition record_stated :: obj where
  "record_stated = [(''schema_version'', JStr ''release_evidence''), (''version'', JStr ''v1''), (''target'', JStr ''pc''),
     (''generated_at'', JStr ''0001-01-01T00:00:00Z''),
     (''target_contract'', JObj (map (\<lambda>f. (f, if f \<in> {''production_required'', ''production_ready''} then JBool True
        else JStr (if f = ''target'' then ''pc'' else ''x''))) TARGET_CONTRACT_FIELDS)),
     (''source'', JObj [(''repository'', JStr ''o/r''), (''git_commit'', JStr sample_commit), (''git_tag'', JStr ''v1''), (''dirty'', JBool False),
        (''ci'', JObj (map (\<lambda>f. (f, JStr ''7'')) WORKFLOW_FIELDS))])]"

definition record_released :: obj where
  "record_released = [(''asset_manifest'', JObj (kept ''assets.json'' @ [(''verified'', JBool True)])),
     (''artifacts'', JArr [JObj (kept ''a'' @ [(''name'', JStr ''a''), (''role'', JStr ''release-image''),
        (''signature'', JObj [(''path'', JStr ''a.sig''), (''certificate'', JStr ''a.cert''), (''verified'', JBool True)]),
        (''provenance'', JObj [(''path'', JStr ''a.json''), (''verified'', JBool True)])])]),
     (''sbom'', JObj (kept ''sbom.json'' @ [(''format'', JStr ''cyclonedx-json''), (''component_count'', JInt 1), (''signature_verified'', JBool True)])),
     (''vex'', JObj (kept ''vex.json'' @ [(''status'', JStr ''present''), (''signature_verified'', JBool True)])),
     (''reproducibility'', JObj [(''status'', JStr ''passed''), (''comparison'', JNull), (''logs'', JArr [JStr ''log''])]),
     (''security_scans'', JArr [JObj [(''name'', JStr ''s''), (''status'', JStr ''passed''), (''report'', JStr ''scan.json'')]]),
     (''machine_verification'', JObj (map (\<lambda>(n, f). (n, JObj [(''status'', JStr ''passed''), (''logs'', JArr [JStr ''log'']), (''record'', JObj (kept f)),
        (''materials'', JArr [JObj (kept ''a.json'')])])) [(''sha256sums'', ''sums.json''), (''cosign'', ''cosign.json''), (''attestations'', ''attested.json'')])),
     (''build_evidence'', JObj ((''status'', JStr ''passed'') # map (\<lambda>(f, n). (f, JArr [JObj (kept n)]))
        [(''logs'', ''log''), (''warnings'', ''warnings.json''), (''source_identity'', ''identity.json'')]))]"

definition record_governed :: obj where
  "record_governed = [(''preflight_inputs'', JObj [(''release_input'', JObj (kept ''binding.json'')), (''approval'', JObj (kept ''approval.json'')),
        (''reproducibility'', JObj (kept ''repro.json'')), (''security_reports'', JArr []), (''security_raw_evidence'', JArr [])]),
     (''subject_graph'', JObj (kept ''graph.json'')),
     (''governance'', JObj [(''retention_years'', JInt 7), (''approval_model'', JStr ''two''),
        (''checks'', JObj (map (\<lambda>n. (n, JObj [(''status'', JStr ''passed''), (''evidence'', JStr ''policy.json'')])) EVIDENCE_GOVERNANCE_CHECKS))]),
     (''governance_role_bindings'', JObj (kept ''roles.json'')), (''retention_manifest'', JObj (kept ''retention.json''))]"

definition record_results :: obj where
  "record_results = [
     (''qemu'', JObj [(''required'', JBool False), (''status'', JStr ''not_applicable''), (''logs'', JArr []), (''checks'', JArr [])]),
     (''runtime_qemu'', JObj [(''required'', JBool False), (''status'', JStr ''not_applicable''), (''production_suites'', JArr [])]),
     (''hardware'', JObj [(''required'', JBool False), (''status'', JStr ''not_applicable''), (''devices'', JArr [])]),
     (''runtime_checks'', JObj [(''boot'', JObj [(''required'', JBool False), (''status'', JStr ''not_applicable''), (''evidence'', JNull)])])]
   @ map (\<lambda>f. (f, JArr [])) [''runtime_observations'', ''hardware_subjects'', ''station_acquisitions'', ''signing_manifests'', ''ota_artifacts'',
       ''hsm_signing_sessions'', ''release_image_scan_reports'', ''scanner_native_reports'']
   @ [(''approvals'', JArr (map (\<lambda>r. JObj [(''role'', JStr r), (''name'', JStr ''n''), (''approved_at'', JStr ''0001-01-01T00:00:00Z'')])
        [''release-owner'', ''maintainer''])),
      (''residual_risk'', JObj [(''status'', JStr ''none''), (''items'', JArr [])]),
      (''release_decision'', JObj [(''status'', JStr ''approved''), (''decided_by'', JStr ''n''), (''decided_at'', JStr ''0001-01-01T00:00:00Z''),
        (''rationale'', JStr ''x'')])]"

definition record_evidence :: obj where
  "record_evidence = record_stated @ record_released @ record_governed @ record_results"

definition record_env :: release_env where
  "record_env = gate_env\<lparr>rel_contract := record_contract, rel_files := record_store record_evidence\<rparr>"

definition record_base :: record_ctx where
  "record_base = \<lparr>rc_env = record_env,
     rc_lab = \<lparr>lab_files = record_store record_evidence, lab_now = 0, sha256_bytes = (\<lambda>_. gate_digest), has_openssl = False,
       run_openssl = (\<lambda>_ _ _. \<lparr>openssl_run.return_code = 1, std_err = [], std_out = []\<rparr>)\<rparr>,
     rc_matrix = path_of ''m.yml'', rc_dir = path_of ''.'', rc_check = False, rc_pass = False, rc_tier = []\<rparr>"

definition record_args :: evidence_args where
  "record_args = \<lparr>ea_matrix = None, ea_pass = True, ea_check = True, ea_tier = None, ea_override = False, ea_closure = True\<rparr>"

definition record_path :: path where
  "record_path = path_of ''v1/pc/evidence.json''"

definition record_ready :: record_ctx where
  "record_ready = record_base\<lparr>rc_dir := record_dir, rc_check := True, rc_pass := True, rc_tier := ''production''\<rparr>"

section \<open>Reading it\<close>

definition record_names :: "string list" where
  "record_names = [''assets.json'', ''sbom.json'', ''sums.json'', ''cosign.json'', ''attested.json'', ''warnings.json'', ''identity.json'', ''binding.json'',
     ''approval.json'', ''repro.json'', ''graph.json'', ''roles.json'', ''retention.json'', ''policy.json'']"

lemma record_docs_names: "map fst record_docs = record_names"
  by (simp add: record_docs_def record_names_def)

lemma record_paths: "list_all (\<lambda>n. path_str (path_join record_dir (path_of n)) = ''v1/pc/'' @ n \<and> inner_path (JStr n) = Some (path_of n) \<and>
    nonblank_str (JStr n)) (record_names @ record_plain_files)"
  by code_simp

lemma record_ready_simps [simp]: "rc_env record_ready = record_env" "rc_dir record_ready = record_dir" "rc_check record_ready" "rc_pass record_ready"
  "rc_tier record_ready = ''production''" "rc_matrix record_ready = path_of ''m.yml''" "rc_contract record_ready = record_contract"
  "rc_files record_ready = record_store record_evidence" "rel_files record_env = record_store record_evidence" "rel_contract record_env = record_contract"
  "rel_now record_env = 0" "rel_checkout record_env = clean_checkout"
  by (simp_all add: record_ready_def record_base_def rc_contract_def rc_files_def record_env_def gate_env_def)

definition record_member :: "string \<Rightarrow> bool" where
  "record_member n \<longleftrightarrow> n \<in> set (record_names @ record_plain_files)"

lemma record_file:
  assumes "record_member n"
  shows "record_store record_evidence (path_join record_dir (path_of n)) =
    Some \<lparr>size_of = 5, sha_of = gate_digest, text_content = [], json_content = map_option JObj (map_of record_docs n)\<rparr>"
proof -
  have "map_of record_docs n = None \<longleftrightarrow> n \<notin> set record_names"
    by (simp add: map_of_eq_None_iff record_docs_names [symmetric])
  moreover have "n \<noteq> ''evidence.json''" using assms by (auto simp: record_member_def record_names_def record_plain_files_def)
  ultimately show ?thesis using assms record_paths by (auto simp: record_member_def record_store_def list_all_iff Let_def)
qed

lemma record_named [simp]: "record_member ''assets.json''" "record_member ''sbom.json''" "record_member ''sums.json''" "record_member ''cosign.json''"
   "record_member ''attested.json''" "record_member ''warnings.json''" "record_member ''identity.json''" "record_member ''binding.json''"
   "record_member ''approval.json''" "record_member ''repro.json''" "record_member ''graph.json''" "record_member ''roles.json''"
   "record_member ''retention.json''" "record_member ''policy.json''" "record_member ''a''" "record_member ''a.sig''" "record_member ''a.cert''"
   "record_member ''a.json''" "record_member ''log''" "record_member ''vex.json''" "record_member ''scan.json''"
  by (simp_all add: record_member_def record_names_def record_plain_files_def)

lemma record_docs_read: "record_member n \<Longrightarrow> read_doc record_env (path_join record_dir (path_of n)) =
    (case map_of record_docs n of None \<Rightarrow> JNull | Some d \<Rightarrow> JObj d)"
  by (simp add: read_doc_def record_file split: option.splits)

lemma record_inner: "record_member n \<Longrightarrow> inner_path (JStr n) = Some (path_of n)" "record_member n \<Longrightarrow> nonblank_str (JStr n)"
  using record_paths by (auto simp: list_all_iff record_member_def)

lemma record_relative [simp]: "record_member n \<Longrightarrow> ev_relative record_ready p (JStr n) r = []"
  by (simp add: ev_relative_def record_inner record_file)

lemma record_ev_file [simp]: "record_member n \<Longrightarrow> ev_file record_ready (JStr n) = Some (path_join record_dir (path_of n))"
  by (simp add: ev_file_def record_inner record_file is_file_def Let_def)

lemma record_file_sha [simp]: "record_member n \<Longrightarrow> ev_file_sha record_ready p (JStr n) (JStr gate_digest) = []"
  by (simp add: ev_file_sha_def file_sha_def record_file)

lemma kept_lookups [simp]: "dict_get (kept n @ o') ''path'' = JStr n" "dict_get (kept n @ o') ''sha256'' = JStr gate_digest"
   "dict_get (kept n @ o') ''bytes'' = JInt 5" "dict_get (kept n) ''path'' = JStr n" "dict_get (kept n) ''sha256'' = JStr gate_digest"
   "dict_get (kept n) ''bytes'' = JInt 5"
  by (simp_all add: kept_def dict_get_literal)

lemma kept_others: "k \<notin> {''path'', ''sha256'', ''bytes''} \<Longrightarrow> dict_get (kept n @ o') k = dict_get o' k"
  by (simp add: kept_def dict_get_def)

lemma record_digest_ref [simp]: "record_member n \<Longrightarrow> ev_digest_ref record_ready p (kept n @ o') r = []"
  by (simp add: ev_digest_ref_def Let_def ev_sha256_def ev_positive_def positive_int_def int_above_def ev_file_size_def record_file)

lemma record_ref [simp]: "record_member n \<Longrightarrow> ev_ref record_ready p (JObj (kept n)) r = []"
  "record_member n \<Longrightarrow> ev_ref_file record_ready (JObj (kept n)) = Some (path_join record_dir (path_of n))"
  using record_digest_ref [of n p "[]" r] by (simp_all add: ev_ref_def ev_ref_file_def del: record_digest_ref)

lemma record_replay [simp]: "record_member n \<Longrightarrow> replay_of record_ready (JObj (kept n)) k = k (path_join record_dir (path_of n))"
  by (simp add: replay_of_def)

section \<open>What is released\<close>

lemma record_sections:
  "dict_get record_evidence ''version'' = JStr ''v1''" "dict_get record_evidence ''target'' = JStr ''pc''"
  "dict_get record_evidence ''schema_version'' = JStr ''release_evidence''"
  "dict_get record_evidence ''generated_at'' = JStr ''0001-01-01T00:00:00Z''"
  "dict_get record_evidence ''source'' = dict_get record_stated ''source''"
  "dict_get record_evidence ''target_contract'' = dict_get record_stated ''target_contract''"
  by (simp_all add: record_evidence_def record_stated_def dict_get_literal)

lemma record_parts:
  "dict_get record_evidence ''asset_manifest'' = dict_get record_released ''asset_manifest''"
  "dict_get record_evidence ''artifacts'' = dict_get record_released ''artifacts''"
  "dict_get record_evidence ''sbom'' = dict_get record_released ''sbom''" "dict_get record_evidence ''vex'' = dict_get record_released ''vex''"
  "dict_get record_evidence ''reproducibility'' = dict_get record_released ''reproducibility''"
  "dict_get record_evidence ''security_scans'' = dict_get record_released ''security_scans''"
  "dict_get record_evidence ''machine_verification'' = dict_get record_released ''machine_verification''"
  "dict_get record_evidence ''build_evidence'' = dict_get record_released ''build_evidence''"
  "dict_get record_evidence ''preflight_inputs'' = dict_get record_governed ''preflight_inputs''"
  "dict_get record_evidence ''subject_graph'' = dict_get record_governed ''subject_graph''"
  "dict_get record_evidence ''governance'' = dict_get record_governed ''governance''"
  "dict_get record_evidence ''governance_role_bindings'' = dict_get record_governed ''governance_role_bindings''"
  "dict_get record_evidence ''retention_manifest'' = dict_get record_governed ''retention_manifest''"
  "dict_get record_evidence ''qemu'' = dict_get record_results ''qemu''"
  "dict_get record_evidence ''runtime_qemu'' = dict_get record_results ''runtime_qemu''"
  "dict_get record_evidence ''hardware'' = dict_get record_results ''hardware''"
  "dict_get record_evidence ''runtime_checks'' = dict_get record_results ''runtime_checks''"
  "dict_get record_evidence ''runtime_observations'' = dict_get record_results ''runtime_observations''"
  "dict_get record_evidence ''hardware_subjects'' = dict_get record_results ''hardware_subjects''"
  "dict_get record_evidence ''station_acquisitions'' = dict_get record_results ''station_acquisitions''"
  "dict_get record_evidence ''signing_manifests'' = dict_get record_results ''signing_manifests''"
  "dict_get record_evidence ''ota_artifacts'' = dict_get record_results ''ota_artifacts''"
  "dict_get record_evidence ''hsm_signing_sessions'' = dict_get record_results ''hsm_signing_sessions''"
  "dict_get record_evidence ''release_image_scan_reports'' = dict_get record_results ''release_image_scan_reports''"
  "dict_get record_evidence ''scanner_native_reports'' = dict_get record_results ''scanner_native_reports''"
  "dict_get record_evidence ''approvals'' = dict_get record_results ''approvals''"
  "dict_get record_evidence ''residual_risk'' = dict_get record_results ''residual_risk''"
  "dict_get record_evidence ''release_decision'' = dict_get record_results ''release_decision''"
  by (simp_all add: record_evidence_def record_stated_def record_released_def record_governed_def record_results_def dict_get_literal)

lemma record_defaults:
  "dict_get_or record_evidence ''artifacts'' v = dict_get record_released ''artifacts''" "dict_get_or record_evidence ''version'' v = JStr ''v1''"
  "dict_get_or record_evidence ''target'' v = JStr ''pc''" "dict_get_or record_evidence ''release_image_scan_reports'' v = JArr []"
  by (simp_all add: record_evidence_def record_stated_def record_released_def record_governed_def record_results_def dict_get_literal)

lemma record_texts [simp]: "nonblank_str (JStr ''a'')" "nonblank_str (JStr ''v1'')" "nonblank_str (JStr ''pc'')" "nonblank_str (JStr ''release-image'')"
   "nonblank_str (JStr ''s'')" "nonblank_str (JStr ''n'')" "nonblank_str (JStr ''x'')" "nonblank_str (JStr ''7'')" "nonblank_str (JStr ''o/r'')"
   "nonblank_str (JStr sample_commit)" "nonblank_str (JStr ''two'')" "nonblank_str (JStr ''maintainer'')" "nonblank_str (JStr ''release-owner'')"
   "nonblank_str (JStr ''0001-01-01T00:00:00Z'')"
  by code_simp+

lemma record_time [simp]: "ev_timestamp p (JStr ''0001-01-01T00:00:00Z'') r = ([], Some \<lparr>local_us = 0, utc_offset = Some 0\<rparr>)"
  by code_simp

lemmas record_simps = Let_def dict_get_literal as_members_def as_items_def walk_objects_def walk_items_def ev_strings_def ev_string_def ev_bool_def
  ev_status_def in_str_set_def must_be_true_def must_be_passed_def kept_others ev_sha256_def ev_positive_def positive_int_def int_above_def
  ev_file_size_def record_file record_sections record_parts record_defaults

lemma record_artifacts_ok: "ev_artifacts record_ready record_evidence = Inr []"
  by (simp add: record_simps record_released_def ev_artifacts_def ev_artifact_def control_path_def verified_flag_def)

lemma record_manifest_ok: "validate_asset_manifest record_ready record_evidence = Inr []"
  by (simp add: record_simps record_released_def validate_asset_manifest_def record_docs_def asset_document_def asset_entry_def
    record_subject_def ALLOWED_RELEASE_ASSET_ROLES_def asset_subjects_def hashed_def py_set_def names_in_def
    manifest_by_name_def asset_subject_def)

lemma record_sbom_ok: "validate_sbom record_ready record_evidence = Inr []"
  by (simp add: record_simps record_released_def validate_sbom_def record_docs_def sbom_document_def)

lemma record_vex_ok: "validate_vex record_ready record_evidence = Inr []"
  by (simp add: record_simps record_released_def validate_vex_def VEX_STATUS_VALUES_def)

lemma record_repro_ok: "validate_reproducibility record_ready record_evidence = Inr []"
  by (simp add: record_simps record_released_def validate_reproducibility_def STATUS_VALUES_def)

lemma record_scans_ok: "security_scan_list record_ready record_evidence None = Inr []"
  by (simp add: record_simps record_released_def security_scan_list_def status_entry_def STATUS_VALUES_def)

lemma record_source_ok: "validate_source record_ready record_evidence = Inr []"
  by (simp add: record_simps record_stated_def validate_source_def WORKFLOW_FIELDS_def source_workflow_def source_image_build_identity_def
    ev_source_def collected_workflow_identity_def gate_numbers)

lemma record_target_ok: "validate_target_contract record_evidence None = Inr []"
  by (simp add: record_simps record_stated_def validate_target_contract_def contract_shape_def
    TARGET_CONTRACT_FIELDS_def CONTRACT_FIELDS_def dict_keys_def) auto

section \<open>Machine verification and build\<close>

lemma record_given: "\<not> machine_placeholder (JStr ''me'')" "\<not> machine_placeholder (JStr ''i'')" "\<not> machine_placeholder (JStr ''now'')"
  "\<not> machine_placeholder (JStr ''w'')" "\<not> machine_placeholder (JStr ''o/r'')" "\<not> machine_placeholder (JStr ''refs/t'')"
  "\<not> machine_placeholder (JStr ''7'')" "\<not> machine_placeholder (JStr ''1'')" "\<not> machine_placeholder (JStr sample_commit)"
  "\<not> machine_placeholder (JStr ''log'')" "\<not> machine_placeholder (JStr gate_digest)" "\<not> machine_placeholder (JStr ''a.json'')"
  "\<not> machine_placeholder (JStr ''b'')" "safe_subject_name (JStr ''a'')" "path_name (path_of ''log'') = ''log''"
  by code_simp+

lemmas verification_simps = record_simps record_given machine_given_def record_log_def validate_subjects_def record_subject_def
  machine_subject_def dict_has_def MACHINE_LEGACY_def MACHINE_SCHEMA_def

lemma verification_header:
  "n \<noteq> ''attestations'' \<Longrightarrow> validate_record (Some n) (verification_record n) = Inr []"
  by (simp add: verification_simps validate_record_def verification_record_def record_source_def record_origin_def)

lemma attestation_accepted: "validate_record (Some ''attestations'') attestation_record = Inr []"
  by (simp add: verification_simps validate_record_def verification_record_def record_source_def record_origin_def attestation_record_def
    record_attestations_def subject_pairs_def subject_identity_def record_material_def record_provenance_def PROVENANCE_FIELDS_def
    ALLOWED_PREDICATE_TYPES_def dict_index_def)

lemma record_documents:
  "read_doc record_env (path_join record_dir (path_of ''sums.json'')) = JObj (verification_record ''sha256sums'')"
  "read_doc record_env (path_join record_dir (path_of ''cosign.json'')) = JObj (verification_record ''cosign'')"
  "read_doc record_env (path_join record_dir (path_of ''attested.json'')) = JObj attestation_record"
  "read_doc record_env (path_join record_dir (path_of ''identity.json'')) = JObj (sample_metadata clean_checkout)"
  "read_doc record_env (path_join record_dir (path_of ''binding.json'')) = JObj gate_binding"
  "read_doc record_env (path_join record_dir (path_of ''approval.json'')) = JObj sample_approval"
  "read_doc record_env (path_join record_dir (path_of ''repro.json'')) = JObj gate_repro"
  "read_doc record_env (path_join record_dir (path_of ''graph.json'')) = JObj record_graph"
  "read_doc record_env (path_join record_dir (path_of ''roles.json'')) = JObj gate_roles"
  "read_doc record_env (path_join record_dir (path_of ''retention.json'')) = JObj gate_retention"
  "read_doc record_env (path_join record_dir (path_of ''policy.json'')) =
     JObj [(''schema_version'', JStr ''suderra.github-governance-validation.v2''), (''status'', JStr ''passed'')]"
  "read_doc record_env (path_join record_dir (path_of ''warnings.json'')) =
     JObj [(''summary'', JObj [(''owned'', JInt 0), (''third-party'', JInt 0)]), (''failing'', JArr []), (''policy_errors'', JArr [])]"
  by (simp_all add: record_docs_read record_docs_def)

text \<open>A check of machine verification with its record.\<close>

abbreviation record_check :: "string \<Rightarrow> obj" where
  "record_check f \<equiv> [(''status'', JStr ''passed''), (''logs'', JArr [JStr ''log'']), (''record'', JObj (kept f)), (''materials'', JArr [JObj (kept ''a.json'')])]"

lemma record_check_ok:
  assumes "record_member f" and "read_doc record_env (path_join record_dir (path_of f)) = JObj d" and "validate_record (Some n) d = Inr []"
    and "dict_get d ''schema_version'' = JStr MACHINE_SCHEMA" and "dict_get d ''log'' = JObj (kept ''log'')"
  shows "machine_check record_ready p n (record_check f) = Inr []"
  using assms by (simp add: record_simps machine_check_def STATUS_VALUES_def machine_document_def replay_failures_def machine_log_def
    preserved_logs_def record_given file_sha_def attestation_materials_def)

lemma record_logs: "dict_get (verification_record n) ''schema_version'' = JStr MACHINE_SCHEMA" "dict_get (verification_record n) ''log'' = JObj (kept ''log'')"
  "dict_get attestation_record ''schema_version'' = JStr MACHINE_SCHEMA" "dict_get attestation_record ''log'' = JObj (kept ''log'')"
  by (simp_all add: verification_record_def attestation_record_def dict_get_literal)

lemma record_covered:
  "record_subjects ''cosign'' (verification_record ''cosign'') = [(''a'', gate_digest)]"
  "record_subjects ''attestations'' attestation_record = [(''a'', gate_digest)]"
  by (simp_all add: record_subjects_def verification_record_def attestation_record_def record_subject_def Let_def dict_get_literal)

lemma record_machine_ok: "validate_machine_verification record_ready record_evidence = Inr []"
proof -
  note each = record_check_ok [OF _ record_documents(1) _ record_logs(1,2)] record_check_ok [OF _ record_documents(2) _ record_logs(1,2)]
    record_check_ok [OF _ record_documents(3) attestation_accepted record_logs(3,4)]
  show ?thesis
    by (simp add: each record_simps record_released_def validate_machine_verification_def MACHINE_VERIFICATION_CHECKS_def dict_has_def
      artifact_coverage_def covered_subjects_def record_documents record_covered verification_header attestation_accepted)
qed

lemma record_build_ok: "validate_build_evidence record_ready record_evidence = Inr []"
proof -
  have "dict_get (sample_metadata clean_checkout) ''buildroot_patch_files'' = JArr []" by code_simp
  then show ?thesis using record_digest_ref [of _ _ "[]"] sample_accepted(1)
    by (simp add: record_simps record_released_def validate_build_evidence_def STATUS_VALUES_def build_item_def record_documents
      warning_document_def source_identity_document_def)
qed

section \<open>Governance and preflight\<close>

lemma record_roles_ok: "validate_governance_role_bindings record_env (path_join record_dir (path_of ''roles.json'')) ''v1'' = Inr []"
  by (simp add: validate_governance_role_bindings_def record_documents record_contract_lookups gate_simps gate_roles_def check_role_binding_item_def
    ROLE_BINDING_FIELDS_def record_strips names_in_def digest_not_blank)

lemma record_source_reads: "ev_commit record_evidence = Some sample_commit" "ev_run_id record_evidence = Some ''7''"
  "ev_text record_evidence ''version'' = ''v1''" "ev_text record_evidence ''target'' = ''pc''" "ev_target record_evidence = ''pc''"
  "evidence_artifact_sha256s record_evidence = [gate_digest]" "source_image_build_identity record_evidence = map (\<lambda>f. (f, JStr ''7'')) WORKFLOW_FIELDS"
  by (simp_all add: ev_commit_def ev_run_id_def ev_text_def ev_target_def evidence_artifact_sha256s_def record_simps record_stated_def record_released_def
    ev_source_def source_image_build_identity_def collected_workflow_identity_def WORKFLOW_FIELDS_def str_option_def)

lemma record_roles_section_ok: "validate_governance_role_bindings_section record_ready record_evidence = Inr []"
  by (simp add: validate_governance_role_bindings_section_def record_simps record_governed_def record_roles_ok record_source_reads replay_failures_def)

lemma record_governance_ok: "validate_governance_section record_ready record_evidence = Inr []"
  by (simp add: validate_governance_section_def record_simps record_governed_def EVIDENCE_GOVERNANCE_CHECKS_def dict_has_def governance_check_def
    STATUS_VALUES_def policy_validation_document_def record_documents)

lemma record_repro_replayed: "replay_preflight_repro record_ready record_evidence (path_join record_dir (path_of ''repro.json'')) = []"
  by (simp add: replay_preflight_repro_def record_source_reads validate_repro_def nonempty_file_def record_file record_documents validate_repro_payload_def
    gate_repro_def gate_simps differs_def given_text_def record_strips repro_comparison_def WORKFLOW_FIELDS_def str_option_def)

lemma record_approval_replayed: "replay_preflight_approval record_ready record_evidence (path_join record_dir (path_of ''approval.json'')) = []"
  using sample_approval_accepted
  by (simp add: replay_preflight_approval_def record_source_reads record_documents ev_source_def record_simps record_stated_def replay_failures_def
    flip: sample_commit_def)

lemma record_preflight_ok: "validate_preflight_inputs record_ready record_evidence = Inr []"
  by (simp add: validate_preflight_inputs_def record_simps record_governed_def record_repro_replayed record_approval_replayed)

section \<open>Results and decision\<close>

lemma record_unrequired_ok:
  "validate_qemu record_ready record_evidence False = Inr []" "validate_runtime_qemu record_ready record_evidence False = Inr []"
  "validate_hardware record_ready record_evidence False = Inr []" "validate_runtime_checks record_ready record_evidence False = Inr []"
  by (simp_all add: validate_qemu_def validate_runtime_qemu_def validate_hardware_def validate_runtime_checks_def record_simps record_results_def
    required_flag_def STATUS_VALUES_def dict_has_def qemu_check_names_def qemu_execution_def record_contract_lookups from_checked_def record_source_reads names_in_def
    runtime_check_def strictly_def ev_relative_def)

lemma record_lists_ok:
  "validate_runtime_observations_section record_ready record_evidence False = Inr []"
  "validate_signing_manifests_section record_ready record_evidence False = Inr []"
  "validate_hardware_subjects_section record_ready record_evidence False = Inr []"
  "validate_station_acquisitions record_ready record_evidence False = Inr []"
  "validate_hsm_signing_sessions record_ready record_evidence False = Inr []"
  "validate_release_image_scan_reports record_ready record_evidence False = Inr []"
  "validate_scanner_native_reports_section record_ready record_evidence False = Inr []"
  by (simp_all add: validate_runtime_observations_section_def validate_signing_manifests_section_def validate_hardware_subjects_section_def
    validate_station_acquisitions_def validate_hsm_signing_sessions_def validate_release_image_scan_reports_def
    validate_scanner_native_reports_section_def record_simps record_results_def record_released_def strictly_def report_keys_def)

lemma record_approval_roles: "approval_roles (elems (dict_get record_results ''approvals'')) = []"
  by code_simp

lemma record_decision_ok: "validate_approvals record_ready record_evidence = Inr []" "validate_release_decision record_ready record_evidence = Inr []"
  "validate_residual_risk record_ready record_evidence = Inr []"
  using record_approval_roles
  by (simp_all add: validate_approvals_def validate_release_decision_def validate_residual_risk_def record_simps record_results_def ev_approval_def
    dict_has_def EVIDENCE_DECISION_STATUSES_def EVIDENCE_RISK_STATUSES_def without_risk_def)

text \<open>
  The subject graph of the sample and its replay, then the validation as a whole.
\<close>

section \<open>The subject graph\<close>

lemma record_retention_section_ok: "validate_retention_manifest_section record_ready record_evidence = Inr []"
proof -
  have "retention_policy gate_contract = Inr gate_retention_policy"
    by (simp add: retention_policy_def gate_retention_policy_def gate_contract_def dict_get_literal dict_index_def)
  then have "retention_policy record_contract = Inr gate_retention_policy"
    by (simp add: record_contract_lookups(11))
  then have "validate_retention_manifest record_env (path_join record_dir (path_of ''retention.json'')) ''v1'' (Some sample_commit) (Some ''7'') = Inr []"
    by (intro retention_accepted) (simp_all add: record_documents)
  then show ?thesis
    by (simp add: validate_retention_manifest_section_def record_simps record_governed_def record_source_reads replay_failures_def)
qed

lemma record_matrix_read: "release_load_matrix record_env (path_of ''m.yml'') = Inr gate_matrix"
  by (simp add: release_load_matrix_def record_store_def binding_names gate_matrix_read)

definition record_graph_args :: graph_args where
  "record_graph_args = \<lparr>g_version = ''v1'', g_profile = ''production-candidate'', g_source_sha = Some sample_commit, g_run_id = Some ''7'',
     g_matrix = gate_matrix, g_binding = JObj gate_binding, g_root = None, g_check_files = False\<rparr>"

lemma record_graph_args_simps [simp]: "g_version record_graph_args = ''v1''" "g_profile record_graph_args = ''production-candidate''"
   "g_source_sha record_graph_args = Some sample_commit" "g_run_id record_graph_args = Some ''7''" "g_matrix record_graph_args = gate_matrix"
   "g_binding record_graph_args = JObj gate_binding" "g_root record_graph_args = None"
  by (simp_all add: record_graph_args_def)

lemma record_role: "strip ''reproducibility'' = ''reproducibility''"
  by code_simp

lemma record_graph_passes:
  "validate_subject_graph record_env (path_join record_dir (path_of ''graph.json'')) record_graph_args = Inr []"
  by (simp add: gate_simps record_contract_lookups validate_subject_graph_def record_documents graph_names graph_header_def graph_body_def graph_rows_def
      check_graph_row_def record_graph_def subject_graph_nodes_def check_subject_node_def compressed_of_def graph_closure_def
      subject_graph_evidence_nodes_def check_evidence_node_def edge_pairs_def map_filter_def production_artifact_node_def record_policy_def kept_def
      graph_required_paths_def graph_retention_def record_role) auto

lemma record_binding: "preserved_binding record_ready record_evidence = JObj gate_binding"
  by (simp add: preserved_binding_def record_simps record_governed_def record_documents)

lemma record_graph_replayed: "replay_subject_graph record_ready record_evidence (path_join record_dir (path_of ''graph.json'')) record_graph = []"
  using record_graph_passes
  by (simp add: replay_subject_graph_def record_matrix_read record_binding replay_profile_def binding_lookups record_source_reads replay_failures_def
    str_option_def record_graph_args_def Let_def)

lemma record_preserves: "\<lparr>gr_role = ''reproducibility'', gr_target = ''pc'', gr_sha256 = gate_digest, gr_bytes = JInt 5, gr_name = JNull\<rparr>
    \<in> set (final_evidence_graph_refs record_evidence)"
  by (simp add: final_evidence_graph_refs_def append_graph_ref_def record_simps record_governed_def record_source_reads)

abbreviation record_node :: obj where
  "record_node \<equiv> gate_ids @ [(''raw_image_sha256'', JStr gate_digest), (''raw_image_bytes'', JInt 5),
     (''compressed_artifact_sha256'', JStr gate_digest), (''compressed_artifact_bytes'', JInt 5)]"

lemma record_nodes: "evidence_graph_nodes record_graph = [record_node]"
  by (simp add: evidence_graph_nodes_def record_graph_def dict_get_literal Let_def)

lemma record_closed: "validate_subject_graph_closure record_evidence record_graph record_node = Inr []"
proof -
  have "preserved_node (final_evidence_graph_refs record_evidence) (members (hd (elems (dict_get record_graph ''evidence_nodes''))))"
    using record_preserves by (force simp: preserved_node_def list_ex_iff record_graph_def dict_get_literal kept_def)
  moreover have "nonblank_str (JStr ''reproducibility'')" by code_simp
  ultimately show ?thesis
    by (simp add: validate_subject_graph_closure_def graph_required_evidence_nodes_def closure_node_def record_graph_def gate_ids_def gate_subject_def
      record_simps kept_def)
qed

lemma record_expected_subject: "expected_subject_id_for_evidence record_ready record_evidence = Inr (Some (''v1:pc:'' @ sample_commit @ '':7''))"
  using gate_numbers(3)
  by (simp add: expected_subject_id_for_evidence_def ev_source_def record_simps record_stated_def record_source_reads WORKFLOW_FIELDS_def
    record_contract_lookups from_checked_def)

lemma record_node_ok: "graph_node_checks record_ready record_evidence record_node = Inr []"
  by (simp add: graph_node_checks_def record_expected_subject record_source_reads compressed_of_def record_simps gate_ids_def gate_subject_def)

lemma record_graph_section_ok: "validate_subject_graph_section record_ready record_evidence True = Inr []"
proof -
  have "dict_get record_graph ''schema_version'' = JStr ''release_subject_graph''" "dict_get record_graph ''version'' = JStr ''v1''"
    "dict_get record_node ''target'' = JStr ''pc''" by (simp_all add: record_graph_def gate_ids_def dict_get_literal)
  then show ?thesis
    by (simp add: validate_subject_graph_section_def record_simps record_governed_def record_documents graph_section_document_def record_contract_lookups
      from_checked_def none_or_def record_nodes record_node_ok record_graph_replayed record_closed record_source_reads)
qed

section \<open>The evidence as a whole\<close>

lemma record_fields: "dict_keys record_evidence = dict_keys record_stated @ dict_keys record_released @ dict_keys record_governed @ dict_keys record_results"
  by (simp add: record_evidence_def dict_keys_def)

lemma record_header_ok: "evidence_header record_ready record_args record_evidence = Inr []"
proof -
  have "sorted_set (minus_list TOP_LEVEL_FIELDS (dict_keys record_evidence)) = []" "sorted_set (minus_list (dict_keys record_evidence) TOP_LEVEL_FIELDS) = []"
    unfolding record_fields by code_simp+
  moreover have "safe_identifier ''v1''" "safe_identifier ''pc''" by code_simp+
  ultimately show ?thesis
    by (simp add: evidence_header_def record_simps record_contract_lookups from_checked_def record_args_def)
qed

lemma record_path_ok: "path_contract record_path record_evidence = []"
proof -
  have "split_on (CHR ''/'') (path_str record_path) = [''v1'', ''pc'', ''evidence.json'']" by code_simp
  then show ?thesis by (simp add: path_contract_def record_simps)
qed

lemma record_requirements: "expected_gate_requirements record_contract record_evidence None = Inr nothing_required"
  by (simp add: expected_gate_requirements_def record_simps record_stated_def target_row_def target_policy_for_def record_contract_lookups from_checked_def
    record_source_reads requirements_of_def record_policy_def nothing_required_def)

lemma record_read: "load_doc (rc_files record_base) record_path = Loaded (JObj record_evidence)"
proof -
  have "path_str record_path = ''v1/pc/evidence.json''" by code_simp
  then show ?thesis by (simp add: load_doc_def rc_files_def record_base_def record_env_def record_store_def Let_def)
qed

lemma record_run_ready: "record_run record_base record_args record_path record_evidence = record_ready"
proof -
  have "path_parent record_path = record_dir" by code_simp
  then show ?thesis
    by (simp add: record_run_def record_ready_def record_args_def effective_tier_def release_tier_from_version_def record_simps or_else_def)
qed

lemma record_sections_pass: "collectE (evidence_sections record_ready True nothing_required None record_evidence) = Inr []"
  by (simp add: evidence_sections_def nothing_required_def record_source_ok record_manifest_ok record_artifacts_ok record_sbom_ok record_vex_ok
    record_repro_ok record_scans_ok record_machine_ok record_build_ok record_preflight_ok record_graph_section_ok record_governance_ok
    record_roles_section_ok record_unrequired_ok record_lists_ok record_retention_section_ok record_decision_ok)

lemma record_accepted: "validate_evidence record_base record_args record_path = Inr []"
proof -
  have args: "ea_matrix record_args = None" "ea_closure record_args" by (simp_all add: record_args_def)
  have "policy_presence record_ready record_evidence None = Inr []" "expected_security_scans None = Inr None"
    "evidence_matrix record_ready None = Inr ([], None)"
    by (simp_all add: policy_presence_def target_row_def expected_security_scans_def evidence_matrix_def)
  then show ?thesis
    by (simp add: validate_evidence_def record_read record_run_ready evidence_failures_def record_header_ok record_path_ok args record_target_ok
      record_requirements record_sections_pass)
qed

section \<open>Witnesses\<close>

lemma record_args_simps: "ea_pass record_args" "ea_check record_args" "ea_closure record_args"
  by (simp_all add: record_args_def)

lemma record_base_simps: "rc_files record_base = record_store record_evidence" "rc_env record_base = record_env" "path_parent record_path = record_dir"
  "rc_matrix record_base = path_of ''m.yml''"
  by (simp_all add: rc_files_def record_base_def record_env_def) code_simp

lemma record_artifact: "elems (dict_get record_evidence ''artifacts'') = [JObj (members (hd (elems (dict_get record_released ''artifacts''))))]"
  by (simp add: record_parts record_released_def dict_get_literal)

theorem evidence_artifacts_verified_witness:
  "\<exists>artifact. elems (dict_get record_evidence ''artifacts'') = [JObj artifact] \<and>
     verified_artifact (record_store record_evidence) record_dir artifact \<and>
     attested_by record_env record_dir record_evidence ''cosign'' artifact \<and>
     attested_by record_env record_dir record_evidence ''attestations'' artifact"
  using evidence_artifacts_verified [OF record_accepted record_args_simps(1,2)] record_read record_artifact
  by (auto simp: record_base_simps)


theorem evidence_decided_witness:
  "\<exists>approvals. dict_get record_evidence ''approvals'' = JArr (map JObj approvals) \<and>
     (\<exists>ap. ap \<in> set approvals \<and> dict_get ap ''role'' = JStr ''release-owner'') \<and>
     (\<exists>decision. dict_get record_evidence ''release_decision'' = JObj decision \<and> nonblank_str (dict_get decision ''decided_by''))"
  using evidence_decided [OF record_accepted record_args_simps(1)] record_read by auto

definition older_evidence :: obj where
  "older_evidence = [(''schema_version'', JStr ''suderra.release-evidence.v3''), (''target'', JStr ''pc''),
     (''governance'', JObj [(''checks'', JObj [(''repo'', JStr ''r'')])])]"

lemma older_migrates: "migrated_evidence record_contract (JObj older_evidence) = Inr (Inr (migrated_fields ''release_evidence'' older_evidence))"
  by (simp add: migrated_evidence_def older_evidence_def dict_get_literal record_contract_lookups from_checked_def in_str_set_def LEGACY_SCHEMA_VERSIONS_def)


section \<open>A generated skeleton\<close>

definition skeleton_matrix_text :: string where
  "skeleton_matrix_text = join newline ([''defconfigs:'', ''  - name: d''] @ map (\<lambda>f. ''    '' @ f @ '': x'')
       [''arch'', ''artifact'', ''profile'', ''boot_mode'', ''partition_table'', ''root_partition'', ''root_identity'', ''signing'', ''acceptance'']
     @ [''    target: pc'', ''    release_artifact: a.img.xz'', ''    production_required: true'', ''    production_ready: false'', ''    release: true'',
        ''security_scans:'', ''  - s''])"

definition matrix_store :: "obj option \<Rightarrow> store" where
  "matrix_store written p = (if path_str p = ''m.yml'' then Some \<lparr>size_of = 5, sha_of = [], text_content = skeleton_matrix_text, json_content = None\<rparr>
     else if path_str p = ''release-evidence/v1/pc/evidence.json''
     then map_option (\<lambda>e. \<lparr>size_of = 5, sha_of = [], text_content = [], json_content = Some (JObj e)\<rparr>) written else None)"

definition skeleton_env :: "obj option \<Rightarrow> release_env" where
  "skeleton_env written = \<lparr>rel_contract = record_contract, rel_files = matrix_store written, rel_names = (\<lambda>_. None), rel_cwd = path_of ''/work'',
     rel_script = (\<lambda>_. git_prints []), rel_checkout = clean_checkout, rel_now = 0\<rparr>"

definition skeleton_file :: path where
  "skeleton_file = path_of ''release-evidence/v1/pc/evidence.json''"

abbreviation sample_generate :: "(string + path \<times> obj) run" where
  "sample_generate \<equiv> generate_command (skeleton_env None) (path_of ''m.yml'') ''0001-01-01T00:00:00Z'' ''v1'' ''pc'' None False"

definition sample_skeleton :: obj where
  "sample_skeleton = (case sample_generate of Inr (Inr (p, e)) \<Rightarrow> e | _ \<Rightarrow> [])"

definition skeleton_row :: obj where
  "skeleton_row = (case load_matrix skeleton_matrix_text of Inr m \<Rightarrow> members (hd (elems (dict_get m ''defconfigs''))) | _ \<Rightarrow> [])"

definition skeleton_matrix :: obj where
  "skeleton_matrix = (case load_matrix skeleton_matrix_text of Inr m \<Rightarrow> m | _ \<Rightarrow> [])"

lemma skeleton_generated: "sample_generate = Inr (Inr (skeleton_file, sample_skeleton))"
  by code_simp

lemma skeleton_sample_facts:
  "release_load_matrix (skeleton_env w) (path_of ''m.yml'') = Inr skeleton_matrix"
  "release_row ''pc'' skeleton_row" "py_list (dict_get_or skeleton_matrix ''security_scans'' (JArr [])) = (Inr [JStr ''s''] :: json list run)"
  "safe_identifier ''v1''" "path_str skeleton_file = ''release-evidence/v1/pc/evidence.json''" "strip ''s'' = ''s''"
  by code_simp+

lemma skeleton_target: "\<exists>ts. targets_by_id skeleton_matrix = Inr ts \<and> ts ''pc'' = Some skeleton_row"
proof -
  have "case targets_by_id skeleton_matrix of Inr ts \<Rightarrow> ts ''pc'' = Some skeleton_row | Inl _ \<Rightarrow> False" by code_simp
  then show ?thesis by (auto split: sum.splits)
qed

lemma skeleton_time: "zulu_time (JStr ''0001-01-01T00:00:00Z'') \<lparr>local_us = 0, utc_offset = Some 0\<rparr>"
  by code_simp

definition skeleton_ctx :: record_ctx where
  "skeleton_ctx = \<lparr>rc_env = skeleton_env (Some sample_skeleton),
     rc_lab = \<lparr>lab_files = (\<lambda>_. None), lab_now = 0, sha256_bytes = (\<lambda>_. []), has_openssl = False,
       run_openssl = (\<lambda>_ _ _. \<lparr>openssl_run.return_code = 1, std_err = [], std_out = []\<rparr>)\<rparr>,
     rc_matrix = path_of ''m.yml'', rc_dir = path_of ''.'', rc_check = False, rc_pass = False, rc_tier = []\<rparr>"

theorem skeleton_validates_witness:
  "validate_evidence skeleton_ctx \<lparr>ea_matrix = Some (path_of ''m.yml''), ea_pass = False, ea_check = False, ea_tier = None, ea_override = False,
     ea_closure = False\<rparr> skeleton_file = Inr []"
proof -
  obtain ts where ts: "targets_by_id skeleton_matrix = Inr ts" "ts ''pc'' = Some skeleton_row" using skeleton_target by blast
  have ctx: "rc_contract skeleton_ctx = rel_contract (skeleton_env None)" "rc_env skeleton_ctx = skeleton_env (Some sample_skeleton)"
    by (simp_all add: rc_contract_def skeleton_ctx_def skeleton_env_def)
  have read: "load_doc (rc_files skeleton_ctx) skeleton_file = Loaded (JObj sample_skeleton)"
    by (simp add: load_doc_def rc_files_def skeleton_ctx_def skeleton_env_def matrix_store_def skeleton_sample_facts(5))
  have checks: "hardware_required_checks (rel_contract (skeleton_env None)) = Inr []" "runtime_suite_targets_for ''pc'' (rel_contract (skeleton_env None)) = Inr []"
    by code_simp+
  show ?thesis
    by (rule skeleton_validates [OF skeleton_generated skeleton_sample_facts(1) ts skeleton_sample_facts(2,3) _ skeleton_sample_facts(4) skeleton_time
      ctx(1) _ read checks]) (simp_all add: ctx(2) skeleton_sample_facts)
qed

end
