(* ===== verification/Spec2Isabelle.thy ===== *)
theory Spec2Isabelle
  imports ContractProps ContractPaths EvidenceProps PlansProps ContractDocs MatrixReader
    MatrixCommands ApprovalProps GovernanceProps IngressRoundtrip LabSample BuildrootSample
    ReplaySample RecordSample
begin

text \<open>
  The release-evidence tooling of Suderra OS (the Python programs under \<open>scripts/evidence\<close>,
  \<open>scripts/ci\<close> and \<open>tests/qemu\<close>) as executable definitions, with the theorems that make it correct.

  A release of the operating system is let out only when a set of JSON documents proves what was
  built, tested, signed and approved. One file, \<open>ci/evidence-contract.yml\<close>, says which documents a
  target of which profile needs; a second one, \<open>ci/build-matrix.yml\<close>, lists the targets. Each kind
  of document has a validator. \<open>validate-release-inputs.py\<close> composes them into the gate that a
  release has to pass before it is built up, and \<open>release-evidence.py\<close> validates the evidence bundle
  that is kept with a release, replaying the validators on the files that the bundle preserves.

  \<^bold>\<open>Shared theories.\<close>
    \<^item> \<open>Prelude\<close>: results that may raise (a sum type), checks that stop at the first error
      (\<open>for_all\<close>, \<open>in_order\<close>) and checks that collect their failures (\<open>collectE\<close>, \<open>report\<close>), with the
      lemmas that turn an empty list of failures into facts (\<open>collectE_nil\<close>, \<open>report_empty\<close>).
    \<^item> \<open>PyString\<close>, \<open>PyJson\<close>, \<open>PyPath\<close>, \<open>PyTime\<close>, \<open>PyDump\<close>, \<open>PyFiles\<close>, \<open>PyChecks\<close>: what the programs use of
      Python and its library: string methods, JSON values with their equality and truth, \<open>pathlib\<close>,
      \<open>datetime.fromisoformat\<close>, \<open>json.dumps\<close>, the file system as a map from paths to files with size,
      digest, text and JSON content. Integers are \<open>int\<close>, as Python's are unbounded; a dictionary is an
      association list in insertion order. \<open>PyPath\<close> has the locale \<open>path_guard\<close>, the contract of the
      functions that let only relative paths without \<open>..\<close> through, which every component interprets on
      its own function; \<open>PyFiles\<close> has \<open>object_walk\<close>, the contract of a check of every item of a list, and
      \<open>ReleaseProps\<close> has \<open>keyed_walk\<close>, that of a walk that also remembers the keys it has seen.

  \<^bold>\<open>The evidence contract\<close> (\<open>evidence_contract.py\<close>).
    \<^item> \<open>Contract\<close>: \<open>validate_contract\<close>, check by check. \<open>ContractPolicy\<close>, \<open>ContractEvidence\<close>, \<open>ContractPlans\<close>,
      \<open>ContractDocs\<close>: the accessors, evidence paths, plans and generated documentation. \<open>ContractJoin\<close>:
      the join with the build matrix.
    \<^item> \<open>Contract\<close> ends with one equivalence for each check; \<open>ContractAccepted\<close> and \<open>ContractSections\<close> have the
      locales \<open>catalog_query\<close> (an accessor that lists what a predicate selects) and \<open>accepted\<close> (a contract
      that passed), interpreted on the accessors and on the repository's own contract, \<open>ContractSample\<close>.
    \<^item> \<open>ContractProps\<close>, \<open>ContractPaths\<close>, \<open>EvidenceProps\<close>, \<open>PlansProps\<close>: profiles and output trees are kept
      apart, subject ids identify their parts, paths stay below their tree.

  \<^bold>\<open>The build matrix\<close> (\<open>validate-build-matrix.py\<close>).
    \<^item> \<open>Matrix\<close> is the reader of the YAML subset, a fold over the lines; \<open>MatrixReader\<close> gives it as a
      step relation with its invariant over reachable states, \<open>MatrixRoundtrip\<close> a printer that it inverts.
    \<^item> \<open>Genimage\<close>, \<open>MatrixValidate\<close>: \<open>validate\<close>. \<open>MatrixRelease\<close>: the readiness gates, \<open>github_matrix\<close> and the
      completeness of a release directory. \<open>MatrixProps\<close>, \<open>MatrixCommands\<close>: what they guarantee.

  \<^bold>\<open>Inputs of a release.\<close>
    \<^item> \<open>Approval\<close> (\<open>release_approval.py\<close>), \<open>Governance\<close> (\<open>validate-governance.py\<close>), \<open>QemuInput\<close>
      (\<open>validate-qemu-input.py\<close>), \<open>IngressBase\<close> and \<open>OperatorIngress\<close> (\<open>operator-evidence-ingress.py\<close>),
      \<open>LabStation\<close> and \<open>LabInput\<close> (\<open>validate-lab-input.py\<close>), \<open>RuntimeSuite\<close>
      (\<open>validate-production-runtime-suite.py\<close>), \<open>BuildrootIdentity\<close> and \<open>BuildrootCheck\<close>
      (\<open>buildroot-patch-identity.py\<close>), \<open>SecurityReplay\<close> (\<open>security-raw-replay.py\<close>), \<open>HsmSession\<close>
      (\<open>validate-hsm-signing-evidence.py\<close>), \<open>StationAcquisition\<close> (\<open>station-acquisition.py\<close>),
      \<open>MachineRecord\<close> (\<open>machine-verification-record.py\<close>). The theories named \<open>Props\<close> and \<open>Roundtrip\<close> have
      the properties: what an accepted document guarantees, under which conditions what a generator writes
      is accepted, that staging only adds files below allowed trees, that a release source id binds the
      source unless the texts hashed for two identities collide.
    \<^item> \<open>RuntimeHarness\<close> (\<open>production-runtime-scenario.py\<close>): the QMP client and the loops of a run, which read
      an infinite stream of what the process and the clock do. The loops are \<open>partial_function (option)\<close>,
      so a run that never returns is \<open>None\<close>; \<open>RuntimeHarnessProps\<close> proves when it returns, \<open>RuntimeReplay\<close>
      that the suite validator's replay of the log agrees with the harness, with one exception: a boot
      that the log only suggests.

  \<^bold>\<open>The gate\<close> (\<open>validate-release-inputs.py\<close>): \<open>ReleaseGraph\<close>, \<open>ReleaseSigning\<close>, \<open>ReleaseHardware\<close>,
  \<open>ReleaseRecords\<close>, \<open>ReleaseBinding\<close> and \<open>ReleaseGate\<close>, in the order of the source. \<open>ReleaseProps\<close> has the
  properties of the single documents, \<open>ReleaseGateProps\<close> those of the composition: when the gate passes
  for a production candidate, each check of the gate passed, for the release and for every row of the
  matrix, those that it leaves to other programs (lab input, acquisitions, QEMU runs, runtime suites)
  as runs of them that exited with 0 on the arguments stated; and the signing manifest, hardware
  subject, OTA artifacts and graph node of a target, as far as its policy asks for them, carry one
  subject id, of the commit that approvals and reproducibility records name.

  \<^bold>\<open>The evidence bundle\<close> (\<open>release-evidence.py\<close>): \<open>RecordChecks\<close> (values, preserved files, released
  artifacts), \<open>RecordMachine\<close> (machine verification, build, subject graph), \<open>RecordReplay\<close> (preflight inputs
  and governance), \<open>RecordRuntime\<close>, \<open>RecordHardware\<close>, \<open>RecordEvidence\<close> (decision, requirements of a target,
  \<open>validate_evidence\<close>) and \<open>RecordSkeleton\<close> (generation and migration). \<open>RecordProps\<close>: accepted evidence
  preserves verified artifacts that attestations cover, has a closed subject graph, and was decided by
  those who may; migration completes older evidence and is a fixed point of itself. \<open>SkeletonProps\<close>: the
  skeleton that \<open>generate\<close> writes for a target is accepted by \<open>validate\<close>, section by section.

  \<^bold>\<open>Samples.\<close> The theories named \<open>Sample\<close> hold complete documents with their files on which every property
  that has a hypothesis is applied: a release that the gate passes (\<open>ReleaseSample\<close>, \<open>ReleaseGateSample\<close>), a
  bundle that the validation accepts (\<open>RecordSample\<close>), and smaller ones. A digest of a sample is a constant
  text, but for the two checkouts whose identities are compared, where it depends on every character; a
  time lies in the year 1.

  \<^bold>\<open>Parameters.\<close> What the programs ask of others is an argument: the files (\<open>store\<close>), SHA-256, the clock, the
  runs of git, openssl, cosign and of the scripts that the gate starts (a function from the arguments to
  the exit status and output), base64 decoding of a DSSE payload. Nothing is assumed of them but where a
  theorem says so. The only bound is the recursion over decoded attestations: \<open>attestation_statements\<close> has
  the interpreter's recursion limit as \<open>fuel\<close>, and \<open>attestation_reading_ends\<close> proves that the weight of the
  document is enough when decoding shrinks. An \<open>OSError\<close> and a JSON error stand in messages by their class name.

  \<^bold>\<open>Not modelled.\<close> Argument parsing, printing and file output; the programs that collect evidence (serial
  lines, QEMU processes, the GitHub service, scanners) or that copy and compress build output; the assembly
  of a bundle, whose result the validation checks; \<open>release-ingress.py\<close>, \<open>prepare-release-inputs.py\<close>,
  \<open>rc-evidence-dry-run.py\<close> and the publication records; the checks of workflow files, which search for fixed
  texts; and the programs of other languages (the Rust programs on the device, shell, Buildroot files).
\<close>

end
